(* ===== verification/Rt_Prelude.thy ===== *)
theory Rt_Prelude
  imports Main "HOL-Library.Word"
begin

text \<open>
  Shared vocabulary of the development: machine integers, decimal printing
  (\<^verbatim>\<open>std::to_string\<close>), outcomes of C++ functions that return, throw or never return,
  and the sequencing combinators in which every operation of the runtime is written.
\<close>

unbundle bit_operations_syntax

section \<open>Machine integers and printing\<close>

type_synonym u8 = "8 word"
type_synonym u16 = "16 word"
type_synonym u32 = "32 word"
type_synonym u64 = "64 word"

text \<open>\<^verbatim>\<open>std::to_string\<close> on an unsigned value: its decimal digits.\<close>

fun dec_digits :: "nat \<Rightarrow> string" where
  "dec_digits n =
     (if n < 10 then [char_of (48 + n)]
      else dec_digits (n div 10) @ [char_of (48 + n mod 10)])"

declare dec_digits.simps [simp del]

definition to_string :: "u32 \<Rightarrow> string" where
  "to_string w = dec_digits (unat w)"

section \<open>Collections of facts\<close>

named_theorems op_defs \<open>definitions of the runtime's operations, to be unfolded together\<close>
named_theorems outcome_simps \<open>equations that evaluate the sequencing combinators\<close>
named_theorems frame \<open>fields an operation does not write\<close>

section \<open>Outcomes\<close>

text \<open>
  A C++ function returns a value, throws, or does not return (the identifier loops of the
  runtime do not end once every 32-bit identifier is in use). \<^verbatim>\<open>'e\<close> is the type of
  what can be thrown. Mutations done before a throw stay, so an operation yields the
  outcome and the state it leaves behind.
\<close>

datatype ('e, 'a) outcome = Ret 'a | Throw 'e | Hang

definition ret :: "'a \<Rightarrow> 's \<Rightarrow> ('e, 'a) outcome \<times> 's" where
  "ret a s = (Ret a, s)"

definition throw :: "'e \<Rightarrow> 's \<Rightarrow> ('e, 'a) outcome \<times> 's" where
  "throw e s = (Throw e, s)"

definition bnd :: "('s \<Rightarrow> ('e, 'a) outcome \<times> 's) \<Rightarrow> ('a \<Rightarrow> 's \<Rightarrow> ('e, 'b) outcome \<times> 's)
    \<Rightarrow> 's \<Rightarrow> ('e, 'b) outcome \<times> 's" where
  "bnd m f s = (case m s of
      (Ret a, s') \<Rightarrow> f a s'
    | (Throw e, s') \<Rightarrow> (Throw e, s')
    | (Hang, s') \<Rightarrow> (Hang, s'))"

definition sq :: "('s \<Rightarrow> ('e, 'a) outcome \<times> 's) \<Rightarrow> ('s \<Rightarrow> ('e, 'b) outcome \<times> 's)
    \<Rightarrow> 's \<Rightarrow> ('e, 'b) outcome \<times> 's" where
  "sq m k = bnd m (\<lambda>_. k)"

definition gets :: "('s \<Rightarrow> 'a) \<Rightarrow> 's \<Rightarrow> ('e, 'a) outcome \<times> 's" where
  "gets f s = (Ret (f s), s)"

definition modify :: "('s \<Rightarrow> 's) \<Rightarrow> 's \<Rightarrow> ('e, unit) outcome \<times> 's" where
  "modify f s = (Ret (), f s)"

text \<open>\<^verbatim>\<open>find(k)\<close> on an unordered map followed by a throw when the key is missing.\<close>

definition find_or :: "('s \<Rightarrow> 'k \<rightharpoonup> 'v) \<Rightarrow> 'k \<Rightarrow> 'e \<Rightarrow> 's \<Rightarrow> ('e, 'v) outcome \<times> 's" where
  "find_or tbl k e s = (case tbl s k of None \<Rightarrow> (Throw e, s) | Some v \<Rightarrow> (Ret v, s))"

text \<open>A \<^verbatim>\<open>for\<close> loop over a vector: stops at the first throw.\<close>

fun for_each :: "('x \<Rightarrow> 's \<Rightarrow> ('e, unit) outcome \<times> 's) \<Rightarrow> 'x list
    \<Rightarrow> 's \<Rightarrow> ('e, unit) outcome \<times> 's" where
  "for_each f [] s = (Ret (), s)"
| "for_each f (x # xs) s = (case f x s of
      (Ret _, s') \<Rightarrow> for_each f xs s'
    | (Throw e, s') \<Rightarrow> (Throw e, s')
    | (Hang, s') \<Rightarrow> (Hang, s'))"

lemma bnd_ret [outcome_simps, simp]: "m s = (Ret a, s') \<Longrightarrow> bnd m f s = f a s'"
  by (simp add: bnd_def)

lemma bnd_throw [outcome_simps, simp]: "m s = (Throw e, s') \<Longrightarrow> bnd m f s = (Throw e, s')"
  by (simp add: bnd_def)

lemma bnd_hang [outcome_simps, simp]: "m s = (Hang, s') \<Longrightarrow> bnd m f s = (Hang, s')"
  by (simp add: bnd_def)

lemma ret_apply [outcome_simps, simp]: "ret a s = (Ret a, s)"
  by (simp add: ret_def)

lemma throw_apply [outcome_simps, simp]: "throw e s = (Throw e, s)"
  by (simp add: throw_def)

lemma gets_apply [outcome_simps, simp]: "gets f s = (Ret (f s), s)"
  by (simp add: gets_def)

lemma modify_apply [outcome_simps, simp]: "modify f s = (Ret (), f s)"
  by (simp add: modify_def)

lemma sq_apply [outcome_simps, simp]: "sq m k s = bnd m (\<lambda>_. k) s"
  by (simp add: sq_def)

lemma find_or_some [outcome_simps, simp]: "tbl s k = Some v \<Longrightarrow> find_or tbl k e s = (Ret v, s)"
  by (simp add: find_or_def)

lemma find_or_none [outcome_simps, simp]: "tbl s k = None \<Longrightarrow> find_or tbl k e s = (Throw e, s)"
  by (simp add: find_or_def)

lemma bnd_RetE:
  assumes "bnd m f s = (Ret b, t)"
  obtains a s' where "m s = (Ret a, s')" and "f a s' = (Ret b, t)"
  using assms by (auto simp: bnd_def split: prod.splits outcome.splits)

lemma bnd_cases:
  assumes "bnd m f s = (r, t)"
  obtains (Ret) a s' where "m s = (Ret a, s')" and "f a s' = (r, t)"
    | (Throw) e where "m s = (Throw e, t)" and "r = Throw e"
    | (Hang) "m s = (Hang, t)" and "r = Hang"
  using assms by (auto simp: bnd_def split: prod.splits outcome.splits)

lemma find_or_RetE:
  assumes "find_or tbl k e s = (Ret v, t)"
  obtains "tbl s k = Some v" and "t = s"
  using assms by (auto simp: find_or_def split: option.splits)

subsection \<open>Operations that keep a property of the state\<close>

text \<open>
  \<open>keeps P m\<close>: however \<open>m\<close> ends, the state it leaves satisfies \<open>P\<close> when the one it
  started from did. The rules compose along the combinators.
\<close>

definition keeps :: "('s \<Rightarrow> bool) \<Rightarrow> ('s \<Rightarrow> ('e, 'a) outcome \<times> 's) \<Rightarrow> bool" where
  "keeps P m \<longleftrightarrow> (\<forall>s. P s \<longrightarrow> P (snd (m s)))"

named_theorems keeps_intro \<open>composition rules for keeps\<close>

lemma keepsD: "keeps P m \<Longrightarrow> P s \<Longrightarrow> m s = (r, t) \<Longrightarrow> P t"
  unfolding keeps_def by (metis snd_conv)

lemma keepsI: "(\<And>s r t. P s \<Longrightarrow> m s = (r, t) \<Longrightarrow> P t) \<Longrightarrow> keeps P m"
  unfolding keeps_def by (metis prod.collapse)

lemma keeps_ret [keeps_intro]: "keeps P (ret a)"
  by (simp add: keeps_def)

lemma keeps_throw [keeps_intro]: "keeps P (throw e)"
  by (simp add: keeps_def)

lemma keeps_gets [keeps_intro]: "keeps P (gets f)"
  by (simp add: keeps_def)

lemma keeps_find_or [keeps_intro]: "keeps P (find_or tbl k e)"
  by (auto simp: keeps_def find_or_def split: option.splits)

lemma keeps_modify [keeps_intro]: "(\<And>s. P s \<Longrightarrow> P (f s)) \<Longrightarrow> keeps P (modify f)"
  by (simp add: keeps_def)

lemma keeps_bnd [keeps_intro]:
  assumes "keeps P m" and "\<And>a. keeps P (f a)"
  shows "keeps P (bnd m f)"
proof (rule keepsI)
  fix s r t
  assume P: "P s" and run: "bnd m f s = (r, t)"
  from run show "P t"
    by (cases rule: bnd_cases) (use P assms in \<open>blast dest: keepsD\<close>)+
qed

lemma keeps_sq [keeps_intro]: "keeps P m \<Longrightarrow> keeps P k \<Longrightarrow> keeps P (sq m k)"
  by (simp add: sq_def keeps_bnd)

lemma keeps_if [keeps_intro]: "keeps P m \<Longrightarrow> keeps P k \<Longrightarrow> keeps P (if b then m else k)"
  by simp

lemma keeps_case_option [keeps_intro]:
  "keeps P m \<Longrightarrow> (\<And>v. keeps P (f v)) \<Longrightarrow> keeps P (case x of None \<Rightarrow> m | Some v \<Rightarrow> f v)"
  by (cases x) auto

lemma keeps_for_each [keeps_intro]:
  assumes "\<And>x. keeps P (f x)"
  shows "keeps P (for_each f xs)"
proof (rule keepsI)
  fix s r t
  show "P s \<Longrightarrow> for_each f xs s = (r, t) \<Longrightarrow> P t"
    by (induction xs arbitrary: s)
      (use assms in \<open>auto split: prod.splits outcome.splits dest: keepsD\<close>)
qed

section \<open>Sizes of tables\<close>

text \<open>\<^verbatim>\<open>size()\<close> of an unordered map, as the runtime's counters report it.\<close>

definition table_size :: "('k \<rightharpoonup> 'v) \<Rightarrow> nat" where
  "table_size m = card (dom m)"

lemma table_size_empty [simp]: "table_size Map.empty = 0"
  by (simp add: table_size_def)

lemma table_size_insert:
  "finite (dom m) \<Longrightarrow> m k = None \<Longrightarrow> table_size (m(k \<mapsto> v)) = Suc (table_size m)"
  by (simp add: table_size_def domIff)

lemma table_size_delete:
  "finite (dom m) \<Longrightarrow> m k = Some v \<Longrightarrow> Suc (table_size (m(k := None))) = table_size m"
  by (metis card_Suc_Diff1 domI dom_fun_upd table_size_def)

end
