(* ===== verification/Wire.thy ===== *)
theory Wire
  imports Rt_Prelude
begin

text \<open>
  The byte-level helpers of \<^verbatim>\<open>ffi/rpc_bridge_common.cpp\<close>: little-endian reads and
  writes, and the two tables that cross the FFI as byte arrays (capability identifiers of
  4 bytes each, pipeline pointer indices of 2 bytes each).
\<close>

section \<open>Little-endian integers\<close>

text \<open>
  \<^verbatim>\<open>data\<close> is the byte array the pointer points into; the callers below only read
  where the bytes exist.
\<close>

definition readUint32Le :: "u8 list \<Rightarrow> u32" where
  "readUint32Le data =
     (ucast (data ! 0) OR push_bit 8 (ucast (data ! 1)) OR
      push_bit 16 (ucast (data ! 2)) OR push_bit 24 (ucast (data ! 3)))"

definition readUint16Le :: "u8 list \<Rightarrow> u16" where
  "readUint16Le data = (ucast (data ! 0) OR push_bit 8 (ucast (data ! 1)))"

definition readUint64Le :: "u8 list \<Rightarrow> u64" where
  "readUint64Le data =
     (ucast (data ! 0) OR push_bit 8 (ucast (data ! 1)) OR
      push_bit 16 (ucast (data ! 2)) OR push_bit 24 (ucast (data ! 3)) OR
      push_bit 32 (ucast (data ! 4)) OR push_bit 40 (ucast (data ! 5)) OR
      push_bit 48 (ucast (data ! 6)) OR push_bit 56 (ucast (data ! 7)))"

definition appendUint32Le :: "u8 list \<Rightarrow> u32 \<Rightarrow> u8 list" where
  "appendUint32Le out value = out @
     [ucast (value AND 0xff), ucast (drop_bit 8 value AND 0xff),
      ucast (drop_bit 16 value AND 0xff), ucast (drop_bit 24 value AND 0xff)]"

definition appendUint16Le :: "u8 list \<Rightarrow> u16 \<Rightarrow> u8 list" where
  "appendUint16Le out value = out @
     [ucast (value AND 0xff), ucast (drop_bit 8 value AND 0xff)]"

definition appendUint64Le :: "u8 list \<Rightarrow> u64 \<Rightarrow> u8 list" where
  "appendUint64Le out value = out @
     [ucast (value AND 0xff), ucast (drop_bit 8 value AND 0xff),
      ucast (drop_bit 16 value AND 0xff), ucast (drop_bit 24 value AND 0xff),
      ucast (drop_bit 32 value AND 0xff), ucast (drop_bit 40 value AND 0xff),
      ucast (drop_bit 48 value AND 0xff), ucast (drop_bit 56 value AND 0xff)]"

section \<open>Tables of identifiers\<close>

text \<open>
  The loops \<^verbatim>\<open>for (size_t i = 0; i < size; i += w)\<close>. The error is the
  \<^verbatim>\<open>what()\<close> of the \<^verbatim>\<open>std::runtime_error\<close> thrown.
\<close>

function decode_caps_from :: "u8 list \<Rightarrow> nat \<Rightarrow> u32 list" where
  "decode_caps_from data i =
     (if i < length data then readUint32Le (drop i data) # decode_caps_from data (i + 4) else [])"
  by pat_completeness auto
termination by (relation "measure (\<lambda>(data, i). length data - i)") auto

declare decode_caps_from.simps [simp del]

definition decodeCapTable :: "u8 list \<Rightarrow> string + u32 list" where
  "decodeCapTable data =
     (if length data mod 4 \<noteq> 0
      then Inl ''RPC capability table payload must be a multiple of 4 bytes''
      else Inr (decode_caps_from data 0))"

function decode_ops_from :: "u8 list \<Rightarrow> nat \<Rightarrow> u16 list" where
  "decode_ops_from data i =
     (if i < length data then readUint16Le (drop i data) # decode_ops_from data (i + 2) else [])"
  by pat_completeness auto
termination by (relation "measure (\<lambda>(data, i). length data - i)") auto

declare decode_ops_from.simps [simp del]

definition decodePipelineOps :: "u8 list \<Rightarrow> string + u16 list" where
  "decodePipelineOps data =
     (if length data mod 2 \<noteq> 0
      then Inl ''RPC pipeline ops payload must be a multiple of 2 bytes''
      else Inr (decode_ops_from data 0))"

text \<open>
  The writers of such tables: \<^verbatim>\<open>serializeResponse\<close> and
  \<^verbatim>\<open>encodeRequestForLean\<close> append one identifier per entry,
  \<^verbatim>\<open>multiVatConnectionResolveDisembargoTrace\<close> one tag per entry.
\<close>

definition encode_caps :: "u32 list \<Rightarrow> u8 list" where
  "encode_caps ids = foldl appendUint32Le [] ids"

definition encode_tags :: "u16 list \<Rightarrow> u8 list" where
  "encode_tags tags = foldl appendUint16Le [] tags"

section \<open>Reading back what was written\<close>

lemma length_append32 [simp]: "length (appendUint32Le out v) = length out + 4"
  by (simp add: appendUint32Le_def)

lemma length_append16 [simp]: "length (appendUint16Le out v) = length out + 2"
  by (simp add: appendUint16Le_def)

lemma length_append64 [simp]: "length (appendUint64Le out v) = length out + 8"
  by (simp add: appendUint64Le_def)

text \<open>A byte of a value: the mask before the narrowing cast changes nothing.\<close>

lemma byte_of_masked: "(ucast (v AND 0xff) :: u8) = ucast v"
proof (rule bit_word_eqI)
  fix n :: nat
  assume n: "n < LENGTH(8)"
  have m: "(0xff :: 'a word) = mask 8" by (simp add: mask_eq_exp_minus_1)
  show "bit (ucast (v AND 0xff) :: u8) n = bit (ucast v :: u8) n"
    unfolding m using n
    by (auto simp: bit_unsigned_iff bit_and_iff bit_mask_iff dest: bit_imp_le_length)
qed

lemma bit_byte_at:
  fixes v :: "'a::len word"
  assumes "n < LENGTH('a)"
  shows "bit (push_bit k (ucast (ucast (drop_bit k v) :: u8)) :: 'a word) n
    \<longleftrightarrow> k \<le> n \<and> n < k + 8 \<and> bit v n"
  using assms by (auto simp: bit_push_bit_iff bit_unsigned_iff bit_drop_bit_eq)

lemma bit_byte_0:
  fixes v :: "'a::len word"
  assumes "n < LENGTH('a)"
  shows "bit (ucast (ucast v :: u8) :: 'a word) n \<longleftrightarrow> n < 8 \<and> bit v n"
  using bit_byte_at [OF assms, of 0 v] by simp

lemma read_append32: "readUint32Le (appendUint32Le [] v @ rest) = v"
proof (rule bit_word_eqI)
  fix n :: nat
  assume n: "n < LENGTH(32)"
  then show "bit (readUint32Le (appendUint32Le [] v @ rest)) n = bit v n"
    by (simp add: readUint32Le_def appendUint32Le_def byte_of_masked bit_or_iff bit_byte_at
        bit_byte_0) linarith
qed

lemma read_append16: "readUint16Le (appendUint16Le [] v @ rest) = v"
proof (rule bit_word_eqI)
  fix n :: nat
  assume n: "n < LENGTH(16)"
  then show "bit (readUint16Le (appendUint16Le [] v @ rest)) n = bit v n"
    by (simp add: readUint16Le_def appendUint16Le_def byte_of_masked bit_or_iff bit_byte_at
        bit_byte_0) linarith
qed

lemma bytes_cover: "n < (64 :: nat) \<Longrightarrow> n < 8 \<or> 8 \<le> n \<and> n < 8 + 8 \<or> 16 \<le> n \<and> n < 16 + 8 \<or>
    24 \<le> n \<and> n < 24 + 8 \<or> 32 \<le> n \<and> n < 32 + 8 \<or> 40 \<le> n \<and> n < 40 + 8 \<or>
    48 \<le> n \<and> n < 48 + 8 \<or> 56 \<le> n \<and> n < 56 + 8"
  by (simp only: numeral_plus_numeral semiring_norm) (metis leI)

lemma read_append64: "readUint64Le (appendUint64Le [] v @ rest) = v"
proof (rule bit_word_eqI)
  fix n :: nat
  assume n: "n < LENGTH(64)"
  have shape: "readUint64Le (appendUint64Le [] v @ rest) =
      (ucast (ucast v :: u8) OR push_bit 8 (ucast (ucast (drop_bit 8 v) :: u8)) OR
      push_bit 16 (ucast (ucast (drop_bit 16 v) :: u8)) OR push_bit 24 (ucast (ucast (drop_bit 24 v) :: u8)) OR
      push_bit 32 (ucast (ucast (drop_bit 32 v) :: u8)) OR push_bit 40 (ucast (ucast (drop_bit 40 v) :: u8)) OR
      push_bit 48 (ucast (ucast (drop_bit 48 v) :: u8)) OR push_bit 56 (ucast (ucast (drop_bit 56 v) :: u8)))"
    by (simp add: readUint64Le_def appendUint64Le_def byte_of_masked)
  have "bit (readUint64Le (appendUint64Le [] v @ rest)) n \<longleftrightarrow>
      (n < 8 \<or> 8 \<le> n \<and> n < 8 + 8 \<or> 16 \<le> n \<and> n < 16 + 8 \<or> 24 \<le> n \<and> n < 24 + 8 \<or>
       32 \<le> n \<and> n < 32 + 8 \<or> 40 \<le> n \<and> n < 40 + 8 \<or> 48 \<le> n \<and> n < 48 + 8 \<or>
       56 \<le> n \<and> n < 56 + 8) \<and> bit v n"
    unfolding shape by (simp only: bit_or_iff bit_byte_at [OF n] bit_byte_0 [OF n]) blast
  moreover have "n < 64" using n by simp
  note bytes_cover [OF this]
  ultimately show "bit (readUint64Le (appendUint64Le [] v @ rest)) n = bit v n"
    by blast
qed

text \<open>
  The other direction: four bytes are determined by the integer they read as, so no two
  byte tables of the same length decode to the same identifiers.
\<close>

lemma byte_high: "8 \<le> n \<Longrightarrow> \<not> bit (x :: u8) n"
  using bit_imp_le_length [of x n] by auto

lemma bit_read32:
  assumes "n < 8"
  shows "bit (readUint32Le [a, b, c, d]) n = bit a n"
    and "bit (readUint32Le [a, b, c, d]) (8 + n) = bit b n"
    and "bit (readUint32Le [a, b, c, d]) (16 + n) = bit c n"
    and "bit (readUint32Le [a, b, c, d]) (24 + n) = bit d n"
  using assms
  by (simp_all add: readUint32Le_def bit_or_iff bit_push_bit_iff bit_unsigned_iff byte_high)

lemma append_read32:
  assumes "length bs = 4"
  shows "appendUint32Le [] (readUint32Le bs) = bs"
proof -
  from assms obtain a b c d where bs: "bs = [a, b, c, d]"
    by (auto simp: numeral_nat length_Suc_conv)
  have "ucast (readUint32Le [a, b, c, d]) = a"
    "ucast (drop_bit 8 (readUint32Le [a, b, c, d])) = b"
    "ucast (drop_bit 16 (readUint32Le [a, b, c, d])) = c"
    "ucast (drop_bit 24 (readUint32Le [a, b, c, d])) = d"
    by (rule bit_word_eqI, simp add: bit_unsigned_iff bit_drop_bit_eq bit_read32)+
  then show ?thesis
    unfolding appendUint32Le_def byte_of_masked bs by simp
qed

lemma append32_acc: "appendUint32Le out v = out @ appendUint32Le [] v"
  by (simp add: appendUint32Le_def)

lemma append16_acc: "appendUint16Le out v = out @ appendUint16Le [] v"
  by (simp add: appendUint16Le_def)

lemma encode_caps_acc: "foldl appendUint32Le out ids = out @ encode_caps ids"
proof (induction ids arbitrary: out)
  case Nil
  then show ?case by (simp add: encode_caps_def)
next
  case (Cons v ids)
  show ?case
    using Cons [of "appendUint32Le out v"] Cons [of "appendUint32Le [] v"]
    by (simp add: encode_caps_def append32_acc [of out])
qed

lemma encode_caps_Nil [simp]: "encode_caps [] = []"
  by (simp add: encode_caps_def)

lemma encode_caps_Cons [simp]: "encode_caps (v # ids) = appendUint32Le [] v @ encode_caps ids"
  using encode_caps_acc [of "appendUint32Le [] v" ids] by (simp add: encode_caps_def)

lemma encode_tags_acc: "foldl appendUint16Le out ts = out @ encode_tags ts"
proof (induction ts arbitrary: out)
  case Nil
  then show ?case by (simp add: encode_tags_def)
next
  case (Cons v ts)
  show ?case
    using Cons [of "appendUint16Le out v"] Cons [of "appendUint16Le [] v"]
    by (simp add: encode_tags_def append16_acc [of out])
qed

lemma encode_tags_Nil [simp]: "encode_tags [] = []"
  by (simp add: encode_tags_def)

lemma encode_tags_Cons [simp]: "encode_tags (v # ts) = appendUint16Le [] v @ encode_tags ts"
  using encode_tags_acc [of "appendUint16Le [] v" ts] by (simp add: encode_tags_def)

lemma length_encode_caps [simp]: "length (encode_caps ids) = 4 * length ids"
  by (induction ids) auto

lemma length_encode_tags [simp]: "length (encode_tags ts) = 2 * length ts"
  by (induction ts) auto

text \<open>The loop does not see the bytes before its offset.\<close>

lemma decode_caps_from_append: "decode_caps_from (p @ bs) (length p + i) = decode_caps_from bs i"
proof (induction bs i rule: decode_caps_from.induct)
  case (1 bs i)
  then show ?case
    by (simp add: decode_caps_from.simps [of "p @ bs"] decode_caps_from.simps [of bs i] ac_simps)
qed

lemma decode_ops_from_append: "decode_ops_from (p @ bs) (length p + i) = decode_ops_from bs i"
proof (induction bs i rule: decode_ops_from.induct)
  case (1 bs i)
  then show ?case
    by (simp add: decode_ops_from.simps [of "p @ bs"] decode_ops_from.simps [of bs i] ac_simps)
qed

lemma decode_caps_from_Nil [simp]: "decode_caps_from [] i = []"
  by (simp add: decode_caps_from.simps)

lemma decode_ops_from_Nil [simp]: "decode_ops_from [] i = []"
  by (simp add: decode_ops_from.simps)

lemma decode_caps_from_encode: "decode_caps_from (encode_caps ids) 0 = ids"
proof (induction ids)
  case Nil
  then show ?case by simp
next
  case (Cons v ids)
  have "decode_caps_from (appendUint32Le [] v @ encode_caps ids) 4 = decode_caps_from (encode_caps ids) 0"
    using decode_caps_from_append [of "appendUint32Le [] v" "encode_caps ids" 0] by simp
  with Cons show ?case
    by (simp add: decode_caps_from.simps [of _ 0] read_append32)
qed

lemma decode_ops_from_encode: "decode_ops_from (encode_tags ts) 0 = ts"
proof (induction ts)
  case Nil
  then show ?case by simp
next
  case (Cons v ts)
  have "decode_ops_from (appendUint16Le [] v @ encode_tags ts) (Suc (Suc 0))
      = decode_ops_from (encode_tags ts) 0"
    using decode_ops_from_append [of "appendUint16Le [] v" "encode_tags ts" 0] by simp
  with Cons show ?case
    by (simp add: decode_ops_from.simps [of "_ @ _" 0] read_append16)
qed

lemma encode_decode_caps_from:
  "length bs = 4 * n \<Longrightarrow> encode_caps (decode_caps_from bs 0) = bs"
proof (induction n arbitrary: bs)
  case 0
  then show ?case by simp
next
  case (Suc n)
  let ?h = "take 4 bs" and ?t = "drop 4 bs"
  from Suc.prems have len: "length ?h = 4" "length ?t = 4 * n" by auto
  have split: "decode_caps_from bs 4 = decode_caps_from ?t 0"
    using decode_caps_from_append [of ?h ?t 0] len by simp
  have "readUint32Le bs = readUint32Le ?h"
    by (simp add: readUint32Le_def)
  with append_read32 [OF len(1)] have "appendUint32Le [] (readUint32Le bs) = ?h" by simp
  with split Suc.IH [OF len(2)] Suc.prems show ?case
    by (simp add: decode_caps_from.simps [of bs 0])
qed

lemma decodePipelineOps_roundtrip: "decodePipelineOps (encode_tags ts) = Inr ts"
  by (simp add: decodePipelineOps_def decode_ops_from_encode)

lemma decodeCapTable_roundtrip: "decodeCapTable (encode_caps ids) = Inr ids"
  by (simp add: decodeCapTable_def decode_caps_from_encode)

section \<open>Properties\<close>

text \<open>C1. Decoding a capability table, or a list of pipeline operations, that was written in the
  bridge's format gives back exactly the values written, in order.\<close>

theorem decodeCapTable_encode:
  "decodeCapTable (encode_caps ids) = Inr ids \<and> decodePipelineOps (encode_tags ops) = Inr ops"
  by (simp add: decodeCapTable_roundtrip decodePipelineOps_roundtrip)

text \<open>Decoding accepts exactly the byte arrays whose length is a multiple of four and
  loses nothing: writing the decoded identifiers gives the same bytes.\<close>

theorem decodeCapTable_exact:
  "(case decodeCapTable bs of
      Inl e \<Rightarrow> length bs mod 4 \<noteq> 0 \<and> e = ''RPC capability table payload must be a multiple of 4 bytes''
    | Inr ids \<Rightarrow> length bs = 4 * length ids \<and> encode_caps ids = bs)"
proof (cases "length bs mod 4 = 0")
  case True
  then obtain n where n: "length bs = 4 * n" by fastforce
  from encode_decode_caps_from [OF n] have enc: "encode_caps (decode_caps_from bs 0) = bs" .
  then have "4 * length (decode_caps_from bs 0) = length bs"
    by (metis length_encode_caps)
  with True enc show ?thesis by (simp add: decodeCapTable_def)
qed (simp add: decodeCapTable_def)

end
