(* ===== verification/World.thy ===== *)
theory World
  imports Wire
begin

text \<open>
  What the runtime's operations see of the code that is not in the repository: KJ, the
  Cap'n Proto RPC library, the Lean runtime and the operating system. Their objects are
  opaque identities. Every call the modelled code makes to them is appended to a log, and
  what they answer is a parameter that may depend on the whole log, so nothing is assumed
  about it. Exceptions and their descriptions follow \<^verbatim>\<open>ffi/rpc_bridge_common.cpp\<close>.
\<close>

section \<open>Exceptions\<close>

datatype ex_type = FAILED | OVERLOADED | DISCONNECTED | UNIMPLEMENTED

text \<open>The part of \<^verbatim>\<open>kj::Exception\<close> the code reads: \<open>ex_detail\<close> is
  \<^verbatim>\<open>getDetail(1)\<close>, \<open>ex_remoteTrace\<close> is \<open>None\<close> for a null trace.\<close>

record kj_exception =
  ex_type :: ex_type
  ex_description :: string
  ex_remoteTrace :: "string option"
  ex_detail :: "u8 list option"
  ex_file :: string
  ex_line :: u32

text \<open>
  What an operation can throw, by the handler that catches it in the run loop:
  \<^verbatim>\<open>catch (const kj::Exception&)\<close>, \<^verbatim>\<open>catch (const std::exception&)\<close> with
  its \<^verbatim>\<open>what()\<close>, and \<^verbatim>\<open>catch (...)\<close>.
\<close>

datatype exn = KjEx kj_exception | StdEx string | OtherEx

text \<open>The \<^verbatim>\<open>default\<close> arm of the switch is for values outside the enumeration.\<close>

fun kjExceptionTypeName :: "ex_type \<Rightarrow> string" where
  "kjExceptionTypeName FAILED = ''FAILED''"
| "kjExceptionTypeName OVERLOADED = ''OVERLOADED''"
| "kjExceptionTypeName DISCONNECTED = ''DISCONNECTED''"
| "kjExceptionTypeName UNIMPLEMENTED = ''UNIMPLEMENTED''"

definition newline :: string where
  "newline = [char_of (10 :: nat)]"

text \<open>\<^verbatim>\<open>c_str()\<close>: what a reader of the pointer sees ends at the first null
  character.\<close>

definition c_str :: "string \<Rightarrow> string" where
  "c_str s = takeWhile (\<lambda>ch. ch \<noteq> CHR 0x00) s"

definition bytes_as_chars :: "u8 list \<Rightarrow> string" where
  "bytes_as_chars bs = map (\<lambda>b. char_of (unat b)) bs"

text \<open>The description and the remote trace are read as C strings, the detail with its length.\<close>

definition describeKjException :: "kj_exception \<Rightarrow> string" where
  "describeKjException e =
     c_str (ex_description e) @ newline @ ''exception type: '' @ kjExceptionTypeName (ex_type e) @
     (case ex_remoteTrace e of None \<Rightarrow> [] | Some t \<Rightarrow> newline @ ''remote trace: '' @ c_str t) @
     (case ex_detail e of None \<Rightarrow> [] | Some d \<Rightarrow> newline @ ''remote detail[1]: '' @ bytes_as_chars d)"

text \<open>\<^verbatim>\<open>static_cast<uint8_t>(e.getType())\<close>: the enumeration's values in KJ.\<close>

fun exTypeTag :: "ex_type \<Rightarrow> u8" where
  "exTypeTag FAILED = 0"
| "exTypeTag OVERLOADED = 1"
| "exTypeTag DISCONNECTED = 2"
| "exTypeTag UNIMPLEMENTED = 3"

definition decodeRemoteExceptionType :: "u8 \<Rightarrow> ex_type" where
  "decodeRemoteExceptionType typeTag =
     (if typeTag = 0 then FAILED
      else if typeTag = 1 then OVERLOADED
      else if typeTag = 2 then DISCONNECTED
      else if typeTag = 3 then UNIMPLEMENTED
      else FAILED)"

lemma decode_exTypeTag [simp]: "decodeRemoteExceptionType (exTypeTag t) = t"
  by (cases t) (simp_all add: decodeRemoteExceptionType_def)

text \<open>\<^verbatim>\<open>kj::Exception(type, __FILE__, __LINE__, text)\<close>, with the detail set when
  there are detail bytes. File and line are those of the throwing statement.\<close>

definition mk_exception :: "ex_type \<Rightarrow> string \<Rightarrow> u8 list \<Rightarrow> kj_exception" where
  "mk_exception t msg detail =
     \<lparr>ex_type = t, ex_description = msg, ex_remoteTrace = None,
      ex_detail = (if detail = [] then None else Some detail),
      ex_file = ''ffi/rpc_bridge_runtime.cpp'', ex_line = 0\<rparr>"

section \<open>Objects, clients and promises\<close>

text \<open>Identity of an object of KJ, of the RPC library or of the Lean runtime.\<close>

type_synonym obj = nat

text \<open>
  \<^verbatim>\<open>capnp::Capability::Client\<close>: a client made around one of the source's own
  server classes, a promise client, or one that the RPC library produced. A Lean
  handler's server holds a shared cell with the identifier it was registered under.
\<close>

datatype client =
    ExternalClient obj
  | NullClient
  | PromiseClient obj
  | LoopbackCapabilityServer
  | TailCallForwardingServer client
  | FdCapabilityServer int
  | FdProbeCapabilityServer
  | LeanCapabilityServer nat obj
  | LeanTailCallHandlerServer nat obj
  | LeanAdvancedCapabilityServer nat obj

text \<open>
  Promises as the code composes them. \<open>KjPromise\<close> is one the RPC library returned;
  the others name the combinator or the continuation the code attached.
\<close>

datatype (plugins only: size code) promise =
    KjPromise obj
  | ReadyNow
  | AfterDelay u64
  | ThenP promise promise
  | CatchP promise promise
  | JoinP "promise list"
  | RaceP promise promise
  | WhenResolvedP client
  | OnDisconnectP obj
  | TaskSetOnEmptyP obj
  | StreamingResultP promise
  | FdProbeP "client list"
  | ForwardP promise
  | GuardedP promise nat
  | DeferredHandlerP obj nat bool bool
  | LaterConnectTarget string u32
  | LaterNewClient string u32
  | LaterServerAccept u32 u32
  | LaterPublishSturdyRef u32 "u8 list" u32
  | LaterUnpublishSturdyRef u32 "u8 list"
  | LaterClearSturdyRefs u32
  | LaterRestoreSturdyRef u32 string bool "u8 list"

text \<open>\<^verbatim>\<open>PendingRegisterPromise\<close> and \<^verbatim>\<open>PendingUnitPromise\<close>: a promise and
  the canceler it was wrapped with.\<close>

record pending_promise =
  pp_promise :: promise
  pp_canceler :: obj

text \<open>
  A message is its flat bytes with the clients of its capability table; a null entry is
  \<open>None\<close>. A request is what \<^verbatim>\<open>typelessRequest\<close> is called with, and the message
  put into it, if any.
\<close>

type_synonym bytes = "u8 list"
type_synonym message = "bytes \<times> client option list"

record request =
  rq_target :: client
  rq_interfaceId :: u64
  rq_methodId :: u16
  rq_noPromisePipelining :: bool
  rq_onlyPromisePipeline :: bool
  rq_content :: "message option"

section \<open>The log of external calls\<close>

datatype (plugins only: size code) ext_call =
    LeanInc obj
  | LeanDec obj
  | LeanMarkMt obj
  | LeanIoCancel obj
  | Dup u32
  | CloseFd int
  | NewCapabilityPipe
  | WrapUnixSocketFd int
  | ParseAddress string u32
  | Connect obj
  | Listen obj
  | Accept obj
  | NewTwoPartyVatNetwork obj u32
  | MakeRpcClient obj
  | MakeRpcServer obj client
  | MakeRpcServerWithFactory obj obj
  | RpcBootstrap obj
  | NewTwoPartyClient obj u32
  | TwoPartyClientBootstrap obj
  | GenericRpcBootstrap obj string bool
  | MakeGenericRpcClient string
  | MakeGenericRpcServer string client
  | MakeGenericRpcServerWithFactory string obj
  | ReleaseGenericRpcSystem obj
  | GenericRpcDiagnostics obj string bool
  | GetClientFd client
  | GetStreamFd obj
  | PollWhenResolved client
  | NewPromiseAndFulfiller
  | Fulfill obj client
  | RejectWith obj kj_exception
  | CancelerCancel obj string
  | CancelerRelease obj
  | WaitPromise promise
  | ReadMessage bytes
  | SendRequest request
  | SendStreamingRequest request
  | TailCall request
  | SetResults message
  | SetPipeline message
  | SetPipelineOf obj
  | ReleaseParams
  | PipelinedCap obj "u16 list"
  | TaskSetAdd obj promise
  | TaskSetClear obj
  | TaskSetIsEmpty obj
  | TaskSetOnEmpty obj
  | SetTraceEncoder obj bool
  | SetFlowLimit obj u64
  | QueueMetric obj string

text \<open>
  \<open>log\<close> is the sequence of external calls made so far; \<open>heapNext\<close> names the next
  object the code itself creates (\<^verbatim>\<open>kj::heap<kj::Canceler>()\<close> and the like).
\<close>

record world =
  log :: "ext_call list"
  heapNext :: nat

text \<open>
  The environment: what each external call answers, as a throw or as a value, given the
  calls made before it. One field per type of answer.
\<close>

record env =
  ask_obj :: "ext_call list \<Rightarrow> ext_call \<Rightarrow> exn + obj"
  ask_pair :: "ext_call list \<Rightarrow> ext_call \<Rightarrow> exn + obj \<times> obj"
  ask_int :: "ext_call list \<Rightarrow> ext_call \<Rightarrow> exn + int"
  ask_fd :: "ext_call list \<Rightarrow> ext_call \<Rightarrow> exn + int option"
  ask_bool :: "ext_call list \<Rightarrow> ext_call \<Rightarrow> exn + bool"
  ask_num :: "ext_call list \<Rightarrow> ext_call \<Rightarrow> exn + u64"
  ask_done :: "ext_call list \<Rightarrow> ext_call \<Rightarrow> exn + unit"

text \<open>A call whose answer the environment \<open>f\<close> gives, as a throw or as a value.\<close>

definition call :: "(ext_call list \<Rightarrow> ext_call \<Rightarrow> exn + 'a) \<Rightarrow> ext_call
    \<Rightarrow> 'z world_scheme \<Rightarrow> (exn, 'a) outcome \<times> 'z world_scheme" where
  "call f c s = (case f (log s) c of
      Inl e \<Rightarrow> (Throw e, s\<lparr>log := log s @ [c]\<rparr>)
    | Inr a \<Rightarrow> (Ret a, s\<lparr>log := log s @ [c]\<rparr>))"

text \<open>A call that only has an effect.\<close>

definition tell :: "ext_call \<Rightarrow> 'z world_scheme \<Rightarrow> (exn, unit) outcome \<times> 'z world_scheme" where
  "tell c s = (Ret (), s\<lparr>log := log s @ [c]\<rparr>)"

definition new_object :: "'z world_scheme \<Rightarrow> (exn, obj) outcome \<times> 'z world_scheme" where
  "new_object s = (Ret (heapNext s), s\<lparr>heapNext := heapNext s + 1\<rparr>)"

lemma tell_apply [outcome_simps, simp]: "tell c s = (Ret (), s\<lparr>log := log s @ [c]\<rparr>)"
  by (simp add: tell_def)

lemma new_object_apply [outcome_simps, simp]:
  "new_object s = (Ret (heapNext s), s\<lparr>heapNext := heapNext s + 1\<rparr>)"
  by (simp add: new_object_def)

lemma call_cases:
  assumes "call f c s = (r, t)"
  obtains (Ret) a where "f (log s) c = Inr a" "r = Ret a" "t = s\<lparr>log := log s @ [c]\<rparr>"
    | (Throw) e where "f (log s) c = Inl e" "r = Throw e" "t = s\<lparr>log := log s @ [c]\<rparr>"
  using assms by (auto simp: call_def split: sum.splits)

lemma call_not_Hang [simp]: "call f c s \<noteq> (Hang, t)"
  by (auto simp: call_def split: sum.splits)

text \<open>A property that does not read the log survives every call.\<close>

definition log_free :: "('z world_scheme \<Rightarrow> bool) \<Rightarrow> bool" where
  "log_free P \<longleftrightarrow> (\<forall>s l h. P s \<longrightarrow> P (s\<lparr>log := l\<rparr>) \<and> P (s\<lparr>heapNext := h\<rparr>))"

lemma keeps_call [keeps_intro]: "log_free P \<Longrightarrow> keeps P (call f c)"
  by (auto simp: keeps_def call_def log_free_def split: sum.splits)

lemma keeps_tell [keeps_intro]: "log_free P \<Longrightarrow> keeps P (tell c)"
  by (auto simp: keeps_def tell_def log_free_def)

lemma keeps_new_object [keeps_intro]: "log_free P \<Longrightarrow> keeps P new_object"
  by (auto simp: keeps_def new_object_def log_free_def)

text \<open>An environment in which every call succeeds; the concrete runs use it.\<close>

definition ok_env :: env where
  "ok_env = \<lparr>ask_obj = \<lambda>l c. Inr (length l), ask_pair = \<lambda>l c. Inr (length l, length l),
     ask_int = \<lambda>l c. Inr 3, ask_fd = \<lambda>l c. Inr None, ask_bool = \<lambda>l c. Inr True,
     ask_num = \<lambda>l c. Inr 0, ask_done = \<lambda>l c. Inr ()\<rparr>"

lemma ok_env_simps [simp]:
  "ask_obj ok_env l c = Inr (length l)" "ask_pair ok_env l c = Inr (length l, length l)"
  "ask_int ok_env l c = Inr 3" "ask_fd ok_env l c = Inr None" "ask_bool ok_env l c = Inr True"
  "ask_num ok_env l c = Inr 0" "ask_done ok_env l c = Inr ()"
  by (simp_all add: ok_env_def)

end
