(* ===== verification/Ids.thy ===== *)
theory Ids
  imports World
begin

text \<open>
  The runtime's identifier allocator and the contract of the tables that use it.
  Every \<^verbatim>\<open>addX\<close> of \<^verbatim>\<open>RuntimeLoop\<close> takes its next counter and moves on while
  the identifier is in use; the counter is a \<^verbatim>\<open>uint32_t\<close> and wraps.
\<close>

section \<open>The allocation loop\<close>

text \<open>
  \<^verbatim>\<open>id = next++; while (table.find(id) != table.end()) id = next++;\<close> The result is
  the identifier and the counter it leaves; \<open>None\<close> says that the loop does not end.
\<close>

partial_function (option) alloc_id :: "('k::len word \<rightharpoonup> 'v) \<Rightarrow> 'k word \<Rightarrow> ('k word \<times> 'k word) option"
  where
  "alloc_id m nx = (if m nx = None then Some (nx, nx + 1) else alloc_id m (nx + 1))"

lemma alloc_id_free [simp]: "m nx = None \<Longrightarrow> alloc_id m nx = Some (nx, nx + 1)"
  by (subst alloc_id.simps) simp

lemma alloc_id_used: "m nx \<noteq> None \<Longrightarrow> alloc_id m nx = alloc_id m (nx + 1)"
  by (subst alloc_id.simps) auto

lemma alloc_id_Some:
  assumes "alloc_id m nx = Some (i, n)"
  shows "m i = None \<and> n = i + 1"
proof -
  have "(case r of (i, n) \<Rightarrow> m i = None \<and> n = i + 1)" if "alloc_id m nx = Some r" for r
  proof (rule alloc_id.raw_induct [where P = "\<lambda>m nx r. case r of (i, n) \<Rightarrow> m i = None \<and> n = i + 1", OF _ that])
    fix f :: "('a word \<rightharpoonup> 'b) \<Rightarrow> 'a word \<Rightarrow> ('a word \<times> 'a word) option"
      and m :: "'a word \<rightharpoonup> 'b" and nx r
    assume IH: "\<And>m nx r. f m nx = Some r \<Longrightarrow> case r of (i, n) \<Rightarrow> m i = None \<and> n = i + 1"
      and eq: "(if m nx = None then Some (nx, nx + 1) else f m (nx + 1)) = Some r"
    then show "case r of (i, n) \<Rightarrow> m i = None \<and> n = i + 1"
      by (cases "m nx = None") auto
  qed
  from this [OF assms] show ?thesis by simp
qed

text \<open>Skipping used identifiers does not change the answer.\<close>

lemma alloc_id_skip:
  "\<forall>j < k. m (nx + of_nat j) \<noteq> None \<Longrightarrow> alloc_id m nx = alloc_id m (nx + of_nat k)"
proof (induction k)
  case 0
  then show ?case by simp
next
  case (Suc k)
  then have "alloc_id m nx = alloc_id m (nx + of_nat k)" by simp
  also have "\<dots> = alloc_id m (nx + of_nat k + 1)"
    using Suc.prems by (intro alloc_id_used) simp
  finally show ?case by (simp add: ac_simps)
qed

text \<open>The loop ends exactly when some identifier is free, and takes the first free one.\<close>

lemma alloc_id_first:
  assumes "m (nx + of_nat k) = None" and "\<forall>j < k. m (nx + of_nat j) \<noteq> None"
  shows "alloc_id m nx = Some (nx + of_nat k, nx + of_nat k + 1)"
  using alloc_id_skip [OF assms(2)] assms(1) by simp

lemma alloc_id_total:
  assumes "m i = None"
  shows "\<exists>r. alloc_id m nx = Some r"
proof -
  let ?free = "\<lambda>k. m (nx + of_nat k) = None"
  have "?free (unat (i - nx))" using assms by simp
  then obtain k where "?free k" "\<forall>j < k. \<not> ?free j"
    using exists_least_iff [of ?free] by blast
  then show ?thesis using alloc_id_first [of m nx k] by blast
qed

lemma alloc_id_None_iff: "alloc_id m nx = None \<longleftrightarrow> dom m = UNIV"
proof
  assume none: "alloc_id m nx = None"
  show "dom m = UNIV"
  proof (rule ccontr)
    assume "dom m \<noteq> UNIV"
    then obtain i where "m i = None" by blast
    then have "\<exists>r. alloc_id m nx = Some r" by (rule alloc_id_total)
    with none show False by simp
  qed
next
  assume full: "dom m = UNIV"
  show "alloc_id m nx = None"
  proof (cases "alloc_id m nx")
    case (Some r)
    with alloc_id_Some [of m nx "fst r" "snd r"] full show ?thesis by auto
  qed
qed

section \<open>The contract of an identifier table\<close>

text \<open>
  \<open>tbl\<close> is the table, \<open>nxt\<close> its counter and \<open>add\<close> the registering operation of a
  component. The laws are what the callers of an \<^verbatim>\<open>addX\<close> rely on.
\<close>

locale id_table =
  fixes tbl :: "'s \<Rightarrow> u32 \<rightharpoonup> 'v"
    and nxt :: "'s \<Rightarrow> u32"
    and add :: "'v \<Rightarrow> 's \<Rightarrow> ('e, u32) outcome \<times> 's"
  assumes add_Some: "alloc_id (tbl s) (nxt s) = Some (i, n) \<Longrightarrow>
      \<exists>s'. add v s = (Ret i, s') \<and> tbl s' = (tbl s)(i \<mapsto> v) \<and> nxt s' = n"
    and add_None: "alloc_id (tbl s) (nxt s) = None \<Longrightarrow> add v s = (Hang, s)"
begin

lemma add_ret:
  assumes "add v s = (Ret i, s')"
  shows "tbl s i = None" and "tbl s' = (tbl s)(i \<mapsto> v)" and "nxt s' = i + 1"
proof -
  obtain j n where al: "alloc_id (tbl s) (nxt s) = Some (j, n)"
    using assms add_None [of s v] by (cases "alloc_id (tbl s) (nxt s)") auto
  from add_Some [OF al, of v] alloc_id_Some [OF al] assms
  show "tbl s i = None" and "tbl s' = (tbl s)(i \<mapsto> v)" and "nxt s' = i + 1" by auto
qed

lemma add_outcome: "(\<exists>i s'. add v s = (Ret i, s')) \<or> add v s = (Hang, s)"
proof (cases "alloc_id (tbl s) (nxt s)")
  case None
  then show ?thesis using add_None [of s v] by simp
next
  case (Some r)
  then show ?thesis using add_Some [of s "fst r" "snd r" v] by auto
qed

lemma add_never_throws: "add v s \<noteq> (Throw e, s')"
  using add_outcome [of v s] by auto

lemma add_returns_iff: "(\<exists>i s'. add v s = (Ret i, s')) \<longleftrightarrow> (\<exists>i. tbl s i = None)"
proof
  assume "\<exists>i s'. add v s = (Ret i, s')"
  then show "\<exists>i. tbl s i = None" using add_ret(1) by blast
next
  assume "\<exists>i. tbl s i = None"
  then obtain i where "tbl s i = None" by blast
  then obtain r where "alloc_id (tbl s) (nxt s) = Some r" using alloc_id_total by blast
  then show "\<exists>i s'. add v s = (Ret i, s')" using add_Some [of s "fst r" "snd r" v] by auto
qed

lemma add_free: "tbl s (nxt s) = None \<Longrightarrow> \<exists>s'. add v s = (Ret (nxt s), s')"
  using add_Some [of s "nxt s" "nxt s + 1" v] by auto

lemma add_keeps_others: "add v s = (Ret i, s') \<Longrightarrow> tbl s j = Some w \<Longrightarrow> tbl s' j = Some w"
  using add_ret [of v s i s'] by auto

text \<open>Registering a list of values one after the other.\<close>

fun add_all :: "'v list \<Rightarrow> 's \<Rightarrow> ('e, u32 list) outcome \<times> 's" where
  "add_all [] s = (Ret [], s)"
| "add_all (v # vs) s = bnd (add v) (\<lambda>i. bnd (add_all vs) (\<lambda>is. ret (i # is))) s"

lemma add_all_tables:
  "add_all vs s = (Ret is, s') \<Longrightarrow>
     length is = length vs \<and> distinct is \<and> (\<forall>i \<in> set is. tbl s i = None) \<and>
     (\<forall>j. j \<notin> set is \<longrightarrow> tbl s' j = tbl s j) \<and> (\<forall>k < length vs. tbl s' (is ! k) = Some (vs ! k))"
proof (induction vs arbitrary: s "is" s')
  case Nil
  then show ?case by simp
next
  case (Cons v vs)
  from Cons.prems obtain i s1 js where one: "add v s = (Ret i, s1)"
    and rest: "add_all vs s1 = (Ret js, s')" and isj: "is = i # js"
    by (auto elim!: bnd_RetE)
  note a = add_ret [OF one] and ih = Cons.IH [OF rest]
  have "i \<notin> set js" using ih a(2) by auto
  moreover have "\<forall>j \<in> set js. tbl s j = None" using ih a(2) by (auto split: if_splits)
  moreover have "tbl s' i = Some v" using ih a(2) \<open>i \<notin> set js\<close> by simp
  ultimately show ?case
    using ih a isj by (auto simp: nth_Cons split: nat.splits)
qed

end

text \<open>
  A table whose handles can be released: the release of a live handle removes exactly that
  entry, the release of an unknown one throws and changes nothing. \<open>inv\<close> is what the
  component keeps true of its state.
\<close>

locale handle_table = id_table tbl nxt add
  for tbl :: "'s \<Rightarrow> u32 \<rightharpoonup> 'v" and nxt :: "'s \<Rightarrow> u32"
    and add :: "'v \<Rightarrow> 's \<Rightarrow> ('e, u32) outcome \<times> 's" +
  fixes rel :: "u32 \<Rightarrow> 's \<Rightarrow> ('e, unit) outcome \<times> 's"
    and unknown :: "u32 \<Rightarrow> 'e"
    and inv :: "'s \<Rightarrow> bool"
  assumes rel_known: "inv s \<Longrightarrow> tbl s i = Some v \<Longrightarrow>
      \<exists>s'. rel i s = (Ret (), s') \<and> tbl s' = (tbl s)(i := None) \<and> inv s'"
    and rel_unknown: "inv s \<Longrightarrow> tbl s i = None \<Longrightarrow> rel i s = (Throw (unknown i), s)"
begin

lemma rel_twice:
  assumes "inv s" and "rel i s = (Ret (), s')"
  shows "rel i s' = (Throw (unknown i), s')"
proof -
  have "tbl s i \<noteq> None" using assms rel_unknown by fastforce
  with assms rel_known [of s i] have "inv s'" "tbl s' i = None" by auto
  then show ?thesis by (rule rel_unknown)
qed

lemma rel_keeps_others:
  assumes "inv s" and "rel i s = (r, s')" and "j \<noteq> i"
  shows "tbl s' j = tbl s j"
proof (cases "tbl s i")
  case None
  with assms rel_unknown [of s i] show ?thesis by simp
next
  case (Some v)
  with assms rel_known [of s i v] show ?thesis by auto
qed

lemma rel_returns_iff: "inv s \<Longrightarrow> (\<exists>s'. rel i s = (Ret (), s')) \<longleftrightarrow> tbl s i \<noteq> None"
  using rel_known [of s i] rel_unknown [of s i] by (cases "tbl s i") auto

lemma add_then_rel:
  assumes "add v s = (Ret i, s1)" and "inv s1"
  obtains s2 where "rel i s1 = (Ret (), s2)" and "tbl s2 = tbl s"
proof -
  note a = add_ret [OF assms(1)]
  from a(2) have "tbl s1 i = Some v" by simp
  from rel_known [OF assms(2) this] obtain s2 where "rel i s1 = (Ret (), s2)"
    and "tbl s2 = (tbl s1)(i := None)" by blast
  moreover have "(tbl s1)(i := None) = tbl s" using a(1,2) by auto
  ultimately show thesis using that by simp
qed

end

end
