(* ===== verification/Trace.thy ===== *)
theory Trace
  imports Ids
begin

text \<open>
  The trace encoder of \<^verbatim>\<open>RuntimeLoop\<close>: a switch and an optional Lean closure that turn
  an exception into the trace text sent to the peer. The connections it is applied to are
  in \<^verbatim>\<open>Connections.thy\<close>.
\<close>

record trace_state = world +
  traceEncoderEnabled :: bool
  traceEncoderHandler :: "obj option"

definition traceEncoderActive :: "'z trace_state_scheme \<Rightarrow> bool" where
  "traceEncoderActive s \<longleftrightarrow> traceEncoderEnabled s \<or> traceEncoderHandler s \<noteq> None"

text \<open>
  \<open>apply\<close> is what the Lean closure returns for a description: \<open>None\<close> stands for an
  \<^verbatim>\<open>IO\<close> error. The empty text is KJ's empty string.
\<close>

definition encodeTraceWithLean :: "(obj \<Rightarrow> string \<Rightarrow> string option) \<Rightarrow> kj_exception
    \<Rightarrow> 'z trace_state_scheme \<Rightarrow> string" where
  "encodeTraceWithLean apply e s = (case traceEncoderHandler s of
      None \<Rightarrow> []
    | Some h \<Rightarrow> (case apply h (ex_description e) of None \<Rightarrow> [] | Some t \<Rightarrow> t))"

definition encodeTrace :: "(obj \<Rightarrow> string \<Rightarrow> string option) \<Rightarrow> kj_exception
    \<Rightarrow> 'z trace_state_scheme \<Rightarrow> string" where
  "encodeTrace apply e s =
     (if traceEncoderHandler s \<noteq> None then encodeTraceWithLean apply e s
      else if traceEncoderEnabled s then ''lean4-rpc-trace: '' @ ex_description e
      else [])"

text \<open>
  \<^verbatim>\<open>applyTraceEncoder\<close>: the encoder set on one RPC system is the runtime's own when
  tracing is active, and the constant empty one otherwise.
\<close>

definition applyTraceEncoder :: "obj \<Rightarrow> 'z trace_state_scheme \<Rightarrow> (exn, unit) outcome \<times> 'z trace_state_scheme"
  where
  "applyTraceEncoder rpcSystem s = tell (SetTraceEncoder rpcSystem (traceEncoderActive s)) s"

definition clearTraceEncoderHandler :: "'z trace_state_scheme \<Rightarrow> (exn, unit) outcome \<times> 'z trace_state_scheme"
  where
  "clearTraceEncoderHandler s = (case traceEncoderHandler s of
      None \<Rightarrow> (Ret (), s)
    | Some h \<Rightarrow> sq (tell (LeanDec h)) (modify (\<lambda>s. s\<lparr>traceEncoderHandler := None\<rparr>)) s)"

text \<open>An encoder that is not active sends nothing.\<close>

lemma encodeTrace_inactive: "\<not> traceEncoderActive s \<Longrightarrow> encodeTrace apply e s = []"
  by (simp add: traceEncoderActive_def encodeTrace_def)

lemma keeps_applyTraceEncoder [keeps_intro]: "log_free P \<Longrightarrow> keeps P (applyTraceEncoder r)"
  by (auto simp: keeps_def applyTraceEncoder_def log_free_def)

end
