(* ===== verification/Targets.thy ===== *)
theory Targets
  imports Trace
begin

text \<open>
  The capability table of \<^verbatim>\<open>RuntimeLoop\<close> (\<^verbatim>\<open>ffi/rpc_bridge_runtime.cpp\<close>): targets
  by identifier, and the peers (loopback pipes, network connections) that stay alive as
  long as some target was obtained through them, by a reference count per peer.
\<close>

section \<open>State\<close>

text \<open>\<^verbatim>\<open>LoopbackPeer\<close> and \<^verbatim>\<open>NetworkClientPeer\<close>, by the identities of what they own.\<close>

record loopback_peer =
  clientStream :: obj
  serverStream :: obj
  serverNetwork :: obj
  serverRpcSystem :: obj
  lb_client :: obj

record network_client_peer =
  stream :: obj
  network :: obj
  rpcSystem :: obj

record targets_state = trace_state +
  targets :: "u32 \<rightharpoonup> client"
  nextTargetId :: u32
  loopbackPeers :: "u32 \<rightharpoonup> loopback_peer"
  networkClientPeers :: "u32 \<rightharpoonup> network_client_peer"
  loopbackPeerOwnerByTarget :: "u32 \<rightharpoonup> u32"
  loopbackPeerOwnerRefCount :: "u32 \<rightharpoonup> u32"
  networkPeerOwnerByTarget :: "u32 \<rightharpoonup> u32"
  networkPeerOwnerRefCount :: "u32 \<rightharpoonup> u32"
  idCells :: "u32 list"

text \<open>\<^verbatim>\<open>emplace\<close> of an unordered map: an existing entry stays.\<close>

definition emplace :: "'k \<Rightarrow> 'v \<Rightarrow> ('k \<rightharpoonup> 'v) \<Rightarrow> ('k \<rightharpoonup> 'v)" where
  "emplace k v m = (if m k = None then m(k \<mapsto> v) else m)"

definition unknown_target :: "u32 \<Rightarrow> exn" where
  "unknown_target t = StdEx (''unknown RPC target capability id: '' @ to_string t)"

section \<open>Peer ownership\<close>

definition retainPeerOwnership ::
  "u32 \<Rightarrow> u32 \<Rightarrow> (u32 \<rightharpoonup> u32) \<Rightarrow> (u32 \<rightharpoonup> u32) \<Rightarrow> (u32 \<rightharpoonup> u32) \<times> (u32 \<rightharpoonup> u32)" where
  "retainPeerOwnership sourceTarget retainedTarget ownerByTarget ownerRefCounts =
     (case ownerByTarget sourceTarget of
        None \<Rightarrow> (ownerByTarget, ownerRefCounts)
      | Some owner \<Rightarrow>
          let ownerByTarget' = emplace retainedTarget owner ownerByTarget;
              counts = (case ownerRefCounts owner of
                  None \<Rightarrow> ownerRefCounts(owner \<mapsto> 1)
                | Some _ \<Rightarrow> ownerRefCounts)
          in (ownerByTarget', counts(owner \<mapsto> the (counts owner) + 1)))"

definition releasePeerOwnership ::
  "u32 \<Rightarrow> (u32 \<rightharpoonup> 'p) \<Rightarrow> (u32 \<rightharpoonup> u32) \<Rightarrow> (u32 \<rightharpoonup> u32)
     \<Rightarrow> (u32 \<rightharpoonup> 'p) \<times> (u32 \<rightharpoonup> u32) \<times> (u32 \<rightharpoonup> u32)" where
  "releasePeerOwnership target peers ownerByTarget ownerRefCounts =
     (case ownerByTarget target of
        None \<Rightarrow> (peers, ownerByTarget, ownerRefCounts)
      | Some owner \<Rightarrow>
          let ownerByTarget' = ownerByTarget(target := None)
          in (case ownerRefCounts owner of
                None \<Rightarrow> (peers, ownerByTarget', ownerRefCounts)
              | Some n \<Rightarrow>
                  if n > 1 then (peers, ownerByTarget', ownerRefCounts(owner \<mapsto> n - 1))
                  else (peers(owner := None), ownerByTarget', ownerRefCounts(owner := None))))"

section \<open>Operations\<close>

definition addTarget :: "client \<Rightarrow> 'z targets_state_scheme \<Rightarrow> (exn, u32) outcome \<times> 'z targets_state_scheme"
  where
  "addTarget cap s = (case alloc_id (targets s) (nextTargetId s) of
      None \<Rightarrow> (Hang, s)
    | Some (targetId, nxt) \<Rightarrow>
        (Ret targetId, s\<lparr>nextTargetId := nxt, targets := (targets s)(targetId \<mapsto> cap)\<rparr>))"

definition findTarget :: "u32 \<Rightarrow> 'z targets_state_scheme \<Rightarrow> (exn, client) outcome \<times> 'z targets_state_scheme"
  where
  "findTarget target = find_or targets target (unknown_target target)"

text \<open>Both ownership updates, on the runtime's loopback and network tables.\<close>

definition retainOwners :: "u32 \<Rightarrow> u32 \<Rightarrow> 'z targets_state_scheme \<Rightarrow> 'z targets_state_scheme" where
  "retainOwners sourceTarget retainedTarget s =
     (let (lbo, lrc) = retainPeerOwnership sourceTarget retainedTarget
              (loopbackPeerOwnerByTarget s) (loopbackPeerOwnerRefCount s);
          (nbo, nrc) = retainPeerOwnership sourceTarget retainedTarget
              (networkPeerOwnerByTarget s) (networkPeerOwnerRefCount s)
      in s\<lparr>loopbackPeerOwnerByTarget := lbo, loopbackPeerOwnerRefCount := lrc,
           networkPeerOwnerByTarget := nbo, networkPeerOwnerRefCount := nrc\<rparr>)"

definition dropTargetIfPresent :: "u32 \<Rightarrow> 'z targets_state_scheme \<Rightarrow> bool \<times> 'z targets_state_scheme" where
  "dropTargetIfPresent target s =
     (let erased = targets s target \<noteq> None;
          (lp, lbo, lrc) = releasePeerOwnership target (loopbackPeers s)
              (loopbackPeerOwnerByTarget s) (loopbackPeerOwnerRefCount s);
          (np, nbo, nrc) = releasePeerOwnership target (networkClientPeers s)
              (networkPeerOwnerByTarget s) (networkPeerOwnerRefCount s)
      in (erased, s\<lparr>targets := (targets s)(target := None),
            loopbackPeers := lp, loopbackPeerOwnerByTarget := lbo, loopbackPeerOwnerRefCount := lrc,
            networkClientPeers := np, networkPeerOwnerByTarget := nbo,
            networkPeerOwnerRefCount := nrc\<rparr>))"

definition retainTarget :: "u32 \<Rightarrow> 'z targets_state_scheme \<Rightarrow> (exn, u32) outcome \<times> 'z targets_state_scheme"
  where
  "retainTarget target =
     bnd (findTarget target) (\<lambda>cap.
     bnd (addTarget cap) (\<lambda>retainedTarget.
     sq (modify (retainOwners target retainedTarget))
     (ret retainedTarget)))"

definition releaseTarget :: "u32 \<Rightarrow> 'z targets_state_scheme \<Rightarrow> (exn, unit) outcome \<times> 'z targets_state_scheme"
  where
  "releaseTarget target s = (case dropTargetIfPresent target s of
      (True, s') \<Rightarrow> (Ret (), s')
    | (False, s') \<Rightarrow> (Throw (unknown_target target), s'))"

definition releaseTargets :: "u32 list \<Rightarrow> 'z targets_state_scheme \<Rightarrow> (exn, unit) outcome \<times> 'z targets_state_scheme"
  where
  "releaseTargets ts = for_each (\<lambda>target. if target = 0 then ret () else releaseTarget target) ts"

definition targetCount :: "'z targets_state_scheme \<Rightarrow> u64" where
  "targetCount s = of_nat (table_size (targets s))"

subsection \<open>Registering servers\<close>

text \<open>
  The cell is made with 0, the server is built around it, and the identifier is stored
  into it once the target has one.
\<close>

definition registerWithCell :: "(nat \<Rightarrow> client) \<Rightarrow> 'z targets_state_scheme
    \<Rightarrow> (exn, u32) outcome \<times> 'z targets_state_scheme" where
  "registerWithCell mk =
     bnd (gets (\<lambda>s. length (idCells s))) (\<lambda>cell.
     sq (modify (\<lambda>s. s\<lparr>idCells := idCells s @ [0]\<rparr>))
     (bnd (addTarget (mk cell)) (\<lambda>targetId.
     sq (modify (\<lambda>s. s\<lparr>idCells := (idCells s)[cell := targetId]\<rparr>))
     (ret targetId))))"

text \<open>The servers' constructors take a reference to the Lean closure.\<close>

definition registerHandlerTarget :: "obj \<Rightarrow> 'z targets_state_scheme \<Rightarrow> (exn, u32) outcome \<times> 'z targets_state_scheme"
  where
  "registerHandlerTarget handler =
     sq (tell (LeanInc handler)) (registerWithCell (\<lambda>cell. LeanCapabilityServer cell handler))"

definition registerAdvancedHandlerTarget :: "obj \<Rightarrow> 'z targets_state_scheme
    \<Rightarrow> (exn, u32) outcome \<times> 'z targets_state_scheme" where
  "registerAdvancedHandlerTarget handler =
     sq (tell (LeanInc handler)) (registerWithCell (\<lambda>cell. LeanAdvancedCapabilityServer cell handler))"

definition registerTailCallHandlerTarget :: "obj \<Rightarrow> 'z targets_state_scheme
    \<Rightarrow> (exn, u32) outcome \<times> 'z targets_state_scheme" where
  "registerTailCallHandlerTarget handler =
     sq (tell (LeanInc handler)) (registerWithCell (\<lambda>cell. LeanTailCallHandlerServer cell handler))"

definition registerTailCallTarget :: "u32 \<Rightarrow> 'z targets_state_scheme
    \<Rightarrow> (exn, u32) outcome \<times> 'z targets_state_scheme" where
  "registerTailCallTarget target =
     bnd (findTarget target) (\<lambda>cap.
     bnd (addTarget (TailCallForwardingServer cap)) (\<lambda>forwarderId.
     sq (modify (retainOwners target forwarderId))
     (ret forwarderId)))"

text \<open>\<^verbatim>\<open>std::numeric_limits<int>::max()\<close> on the supported platforms.\<close>

definition maxInt :: u32 where
  "maxInt = 0x7fffffff"

definition registerFdTarget :: "env \<Rightarrow> u32 \<Rightarrow> 'z targets_state_scheme
    \<Rightarrow> (exn, u32) outcome \<times> 'z targets_state_scheme" where
  "registerFdTarget env fd =
     (if fd > maxInt then throw (StdEx ''fd exceeds platform int range'')
      else bnd (call (ask_int env) (Dup fd)) (\<lambda>fdCopy.
           if fdCopy < 0 then throw (StdEx ''dup() failed while registering fd target'')
           else addTarget (FdCapabilityServer fdCopy)))"

definition registerFdProbeTarget :: "'z targets_state_scheme \<Rightarrow> (exn, u32) outcome \<times> 'z targets_state_scheme"
  where
  "registerFdProbeTarget = addTarget FdProbeCapabilityServer"

subsection \<open>Targets that come with a peer\<close>

text \<open>
  \<open>kj\<close> answers the object-returning calls. The bootstrap capability of the connection is
  the client registered; the peer is owned by the target it was made for.
\<close>

definition connectTargetPeer :: "env \<Rightarrow> network_client_peer
    \<Rightarrow> 'z targets_state_scheme \<Rightarrow> (exn, u32) outcome \<times> 'z targets_state_scheme" where
  "connectTargetPeer env peer =
     bnd (call (ask_obj env) (RpcBootstrap (rpcSystem peer))) (\<lambda>cap.
     bnd (addTarget (ExternalClient cap)) (\<lambda>targetId.
     sq (modify (\<lambda>s. s\<lparr>
         networkClientPeers := emplace targetId peer (networkClientPeers s),
         networkPeerOwnerByTarget := emplace targetId targetId (networkPeerOwnerByTarget s),
         networkPeerOwnerRefCount := emplace targetId 1 (networkPeerOwnerRefCount s)\<rparr>))
     (ret targetId)))"

definition registerLoopbackTargetClient :: "env \<Rightarrow> client
    \<Rightarrow> 'z targets_state_scheme \<Rightarrow> (exn, u32) outcome \<times> 'z targets_state_scheme" where
  "registerLoopbackTargetClient env bootstrap =
     bnd (call (ask_pair env) NewCapabilityPipe) (\<lambda>(end0, end1).
     bnd (call (ask_obj env) (NewTwoPartyVatNetwork end0 2)) (\<lambda>srvNetwork.
     bnd (call (ask_obj env) (MakeRpcServer srvNetwork bootstrap)) (\<lambda>srvRpcSystem.
     sq (applyTraceEncoder srvRpcSystem)
     (bnd (call (ask_obj env) (NewTwoPartyClient end1 2)) (\<lambda>cl.
     bnd (call (ask_obj env) (TwoPartyClientBootstrap cl)) (\<lambda>cap.
     bnd (addTarget (ExternalClient cap)) (\<lambda>targetId.
     sq (modify (\<lambda>s. s\<lparr>
         loopbackPeers := emplace targetId
           \<lparr>clientStream = end1, serverStream = end0, serverNetwork = srvNetwork,
            serverRpcSystem = srvRpcSystem, lb_client = cl\<rparr> (loopbackPeers s),
         loopbackPeerOwnerByTarget := emplace targetId targetId (loopbackPeerOwnerByTarget s),
         loopbackPeerOwnerRefCount := emplace targetId 1 (loopbackPeerOwnerRefCount s)\<rparr>))
     (ret targetId))))))))"

definition registerLoopbackTarget :: "env \<Rightarrow> 'z targets_state_scheme
    \<Rightarrow> (exn, u32) outcome \<times> 'z targets_state_scheme" where
  "registerLoopbackTarget env = registerLoopbackTargetClient env LoopbackCapabilityServer"

definition registerLoopbackBootstrapTarget :: "env \<Rightarrow> u32 \<Rightarrow> 'z targets_state_scheme
    \<Rightarrow> (exn, u32) outcome \<times> 'z targets_state_scheme" where
  "registerLoopbackBootstrapTarget env bootstrapTarget =
     bnd (findTarget bootstrapTarget) (registerLoopbackTargetClient env)"

end
