(* ===== verification/Target_Facts.thy ===== *)
theory Target_Facts
  imports Targets
begin

text \<open>
  Facts about the capability table: the invariant that ties targets, peers and reference
  counts together, its preservation by every operation of \<^verbatim>\<open>Targets.thy\<close>, and
  what retain and release do to the peers.
\<close>

section \<open>The ownership invariant\<close>

text \<open>
  One owner table with its peers: every target with an owner is live, the peers and the
  counts have the same keys, a peer exists exactly while some target owns it, and each
  count is the number of its owners.
\<close>

definition owners_ok :: "(u32 \<rightharpoonup> client) \<Rightarrow> (u32 \<rightharpoonup> 'p) \<Rightarrow> (u32 \<rightharpoonup> u32) \<Rightarrow> (u32 \<rightharpoonup> u32) \<Rightarrow> bool" where
  "owners_ok tg peers by rc \<longleftrightarrow>
     dom by \<subseteq> dom tg \<and> dom peers = dom rc \<and> ran by = dom rc \<and>
     (\<forall>owner n. rc owner = Some n \<longrightarrow> unat n = card {t. by t = Some owner})"

text \<open>Identifiers handed out so far are below the counter, and 0 is not among them.\<close>

definition ids_below :: "'z targets_state_scheme \<Rightarrow> bool" where
  "ids_below s \<longleftrightarrow> nextTargetId s \<noteq> 0 \<and>
     (\<forall>k \<in> dom (targets s) \<union> dom (loopbackPeers s) \<union> dom (networkClientPeers s).
        k \<noteq> 0 \<and> k < nextTargetId s)"

definition targets_inv :: "'z targets_state_scheme \<Rightarrow> bool" where
  "targets_inv s \<longleftrightarrow> ids_below s \<and>
     owners_ok (targets s) (loopbackPeers s) (loopbackPeerOwnerByTarget s) (loopbackPeerOwnerRefCount s) \<and>
     owners_ok (targets s) (networkClientPeers s) (networkPeerOwnerByTarget s) (networkPeerOwnerRefCount s)"

text \<open>The counter has not reached its last value: the next identifier does not wrap.\<close>

definition id_room :: "'z targets_state_scheme \<Rightarrow> bool" where
  "id_room s \<longleftrightarrow> nextTargetId s < - 1"

lemma word_below_max_Suc:
  fixes x y :: u32
  assumes "x < - 1" and "y < x \<or> y = x"
  shows "y < x + 1" and "x + 1 \<noteq> 0" and "unat (x + 1) = unat x + 1"
proof -
  have m: "unat (- 1 :: u32) = 2 ^ 32 - 1"
    by (simp add: unsigned_minus_1_eq_mask mask_eq_exp_minus_1)
  have x: "unat x < 2 ^ 32 - 1" using assms(1) m by (simp add: word_less_nat_alt)
  then show u: "unat (x + 1) = unat x + 1" by (simp add: unat_word_ariths)
  show "y < x + 1" using assms(2) by (auto simp: word_less_nat_alt u)
  show "x + 1 \<noteq> 0" using u by (metis Suc_eq_plus1 nat.distinct(1) unat_0)
qed

lemma dom_emplace: "dom (emplace k v m) = insert k (dom m)"
  by (auto simp: emplace_def)

subsection \<open>The owner tables under each update\<close>

lemma owners_ok_add: "owners_ok tg peers by rc \<Longrightarrow> owners_ok (tg(r \<mapsto> c)) peers by rc"
  by (auto simp: owners_ok_def)

lemma owners_ok_new_peer:
  assumes ok: "owners_ok tg peers by rc" and "tg r = None" and "peers r = None"
  shows "owners_ok (tg(r \<mapsto> c)) (emplace r p peers) (emplace r r by) (emplace r 1 rc)"
proof -
  from ok have d: "dom by \<subseteq> dom tg" "dom peers = dom rc" "ran by = dom rc"
    by (simp_all add: owners_ok_def)
  have r1: "by r = None" using d(1) assms(2) by blast
  have r2: "rc r = None" using d(2) assms(3) by (metis domIff)
  have r3: "by t \<noteq> Some r" for t using d(3) r2 by (metis domIff ranI)
  note r = r1 r2 r3
  have "{t. (by(r \<mapsto> r)) t = Some owner} = {t. by t = Some owner}" if "owner \<noteq> r" for owner
    using that r(1) by auto
  moreover have "{t. (by(r \<mapsto> r)) t = Some r} = {r}" using r(3) by auto
  moreover have "ran (by(r \<mapsto> r)) = insert r (ran by)" using r(1) by simp
  ultimately show ?thesis
    using ok assms(2,3) r by (auto simp: owners_ok_def emplace_def)
qed

lemma owners_ok_retain:
  assumes ok: "owners_ok tg peers by rc" and fresh: "tg r = None"
    and room: "card (dom tg) + 1 < 2 ^ 32"
    and upd: "retainPeerOwnership src r by rc = (by', rc')"
  shows "owners_ok (tg(r \<mapsto> c)) peers by' rc'"
proof (cases "by src")
  case None
  with ok upd show ?thesis by (simp add: retainPeerOwnership_def owners_ok_add)
next
  case (Some owner)
  from ok have dom_by: "dom by \<subseteq> dom tg" and ran_by: "ran by = dom rc"
    by (simp_all add: owners_ok_def)
  from Some ran_by have "owner \<in> dom rc" by (metis ranI)
  then obtain n where n: "rc owner = Some n" by blast
  from ok n have cnt: "unat n = card {t. by t = Some owner}" by (simp add: owners_ok_def)
  from fresh dom_by have r: "by r = None" by auto
  have "{t. by t = Some owner} \<subseteq> dom tg" using dom_by by auto
  then have "card {t. by t = Some owner} \<le> card (dom tg)" by (simp add: card_mono)
  with room cnt have small: "unat n + 1 < 2 ^ 32" by simp
  then have inc: "unat (n + 1) = unat n + 1" by (simp add: unat_word_ariths)
  have same: "{t. (by(r \<mapsto> owner)) t = Some owner} = insert r {t. by t = Some owner}"
    using r by auto
  have other: "{t. (by(r \<mapsto> owner)) t = Some o'} = {t. by t = Some o'}" if "o' \<noteq> owner" for o'
    using that r by auto
  have "card {t. (by(r \<mapsto> owner)) t = Some owner} = unat n + 1"
    unfolding same cnt using r by simp
  moreover have "by' = by(r \<mapsto> owner)" "rc' = rc(owner \<mapsto> n + 1)"
    using upd Some n r by (auto simp: retainPeerOwnership_def emplace_def Let_def)
  moreover have "ran (by(r \<mapsto> owner)) = insert owner (ran by)" using r by simp
  ultimately show ?thesis
    using ok n inc other by (auto simp: owners_ok_def)
qed

text \<open>Releasing, in the two cases of the count.\<close>

lemma owner_count:
  assumes "owners_ok tg peers by rc" and "by t = Some owner"
  obtains n where "rc owner = Some n" and "unat n = card {x. by x = Some owner}"
proof -
  have "owner \<in> dom rc" using assms by (metis owners_ok_def ranI)
  then show thesis using that assms(1) by (auto simp: owners_ok_def)
qed

lemma ran_drop_key:
  assumes "by t = Some owner"
  shows "ran (by(t := None)) =
    (if {x. by x = Some owner} = {t} then ran by - {owner} else ran by)"
proof (cases "{x. by x = Some owner} = {t}")
  case True
  have "v \<in> ran (by(t := None)) \<longleftrightarrow> v \<in> ran by - {owner}" for v
  proof
    assume "v \<in> ran (by(t := None))"
    then obtain x where "x \<noteq> t" "by x = Some v" by (auto simp: ran_def split: if_splits)
    then show "v \<in> ran by - {owner}" using True by (auto intro: ranI)
  next
    assume "v \<in> ran by - {owner}"
    then obtain x where "by x = Some v" "v \<noteq> owner" by (auto simp: ran_def)
    then have "(by(t := None)) x = Some v" using assms by auto
    then show "v \<in> ran (by(t := None))" by (rule ranI)
  qed
  then show ?thesis using True by auto
next
  case False
  then obtain t' where t': "t' \<noteq> t" "by t' = Some owner" using assms by auto
  have "v \<in> ran (by(t := None)) \<longleftrightarrow> v \<in> ran by" for v
  proof
    assume "v \<in> ran by"
    then obtain x where x: "by x = Some v" by (auto simp: ran_def)
    show "v \<in> ran (by(t := None))"
    proof (cases "x = t")
      case True
      then have "(by(t := None)) t' = Some v" using x t' assms by simp
      then show ?thesis by (rule ranI)
    next
      case False
      then have "(by(t := None)) x = Some v" using x by simp
      then show ?thesis by (rule ranI)
    qed
  qed (auto simp: ran_def split: if_splits)
  then show ?thesis using False by auto
qed

lemma card_drop_key:
  assumes "by t = Some owner"
  shows "card {x. (by(t := None)) x = Some owner} = card {x. by x = Some owner} - 1"
    and "o' \<noteq> owner \<Longrightarrow> {x. (by(t := None)) x = Some o'} = {x. by x = Some o'}"
proof -
  have "{x. (by(t := None)) x = Some owner} = {x. by x = Some owner} - {t}" by auto
  then show "card {x. (by(t := None)) x = Some owner} = card {x. by x = Some owner} - 1"
    using assms by simp
  show "{x. (by(t := None)) x = Some o'} = {x. by x = Some o'}" if "o' \<noteq> owner"
    using that assms by auto
qed

lemma owners_ok_release:
  assumes ok: "owners_ok tg peers by rc"
    and upd: "releasePeerOwnership t peers by rc = (peers', by', rc')"
  shows "owners_ok (tg(t := None)) peers' by' rc'"
proof (cases "by t")
  case None
  with ok upd show ?thesis by (auto simp: releasePeerOwnership_def owners_ok_def)
next
  case (Some owner)
  from owner_count [OF ok Some] obtain n where n: "rc owner = Some n"
    and cnt: "unat n = card {x. by x = Some owner}" by blast
  note ran' = ran_drop_key [of "by" t owner, OF Some] and card' = card_drop_key [of "by" t owner, OF Some]
  have tH: "t \<in> {x. by x = Some owner}" using Some by simp
  from ok have d: "dom by \<subseteq> dom tg" "dom peers = dom rc" "ran by = dom rc"
    and cs: "\<And>o' m. rc o' = Some m \<Longrightarrow> unat m = card {x. by x = Some o'}"
    by (simp_all add: owners_ok_def)
  have dom': "dom (by(t := None)) \<subseteq> dom (tg(t := None))" using d(1) by auto
  show ?thesis
  proof (cases "n > 1")
    case True
    then have n1: "1 < unat n" by (simp add: word_less_nat_alt)
    then have n': "unat (n - 1) = unat n - 1"
      by (metis less_imp_le_nat unat_1 unat_sub word_le_nat_alt)
    have "{x. by x = Some owner} \<noteq> {t}" using n1 cnt by auto
    with ran' have "ran (by(t := None)) = dom rc" using d(3) by simp
    moreover have "peers' = peers" "by' = by(t := None)" "rc' = rc(owner \<mapsto> n - 1)"
      using upd Some n True by (auto simp: releasePeerOwnership_def Let_def)
    moreover have "unat m = card {x. (by(t := None)) x = Some o'}"
      if "(rc(owner \<mapsto> n - 1)) o' = Some m" for o' m
    proof (cases "o' = owner")
      case True
      then have "m = n - 1" using that by simp
      then show ?thesis using True n' cnt card'(1) by simp
    next
      case False
      then show ?thesis using that cs [of o' m] card'(2) [OF False] by simp
    qed
    ultimately show ?thesis
      unfolding owners_ok_def using dom' d(2) n by (auto simp: insert_absorb)
  next
    case False
    then have "unat n \<le> 1" by (simp add: word_less_nat_alt)
    moreover have "0 < unat n" unfolding cnt using tH by (simp add: card_gt_0_iff) blast
    ultimately have "card {x. by x = Some owner} = 1" using cnt by simp
    then have "{x. by x = Some owner} = {t}" using tH by (metis card_1_singletonE singletonD)
    with ran' have "ran (by(t := None)) = dom rc - {owner}" using d(3) by simp
    moreover have "peers' = peers(owner := None)" "by' = by(t := None)" "rc' = rc(owner := None)"
      using upd Some n False by (auto simp: releasePeerOwnership_def Let_def)
    moreover have "unat m = card {x. (by(t := None)) x = Some o'}"
      if "(rc(owner := None)) o' = Some m" for o' m
    proof -
      have "o' \<noteq> owner" using that by (auto split: if_splits)
      then show ?thesis using that cs [of o' m] card'(2) by simp
    qed
    ultimately show ?thesis
      unfolding owners_ok_def using dom' d(2) by auto
  qed
qed

section \<open>The invariant under each operation\<close>

text \<open>The fields the invariant reads, and the operations that leave them alone.\<close>

definition table_part :: "'z targets_state_scheme \<Rightarrow> (u32 \<rightharpoonup> client) \<times> u32
    \<times> ((u32 \<rightharpoonup> loopback_peer) \<times> (u32 \<rightharpoonup> u32) \<times> (u32 \<rightharpoonup> u32))
    \<times> ((u32 \<rightharpoonup> network_client_peer) \<times> (u32 \<rightharpoonup> u32) \<times> (u32 \<rightharpoonup> u32))" where
  "table_part s = (targets s, nextTargetId s,
     (loopbackPeers s, loopbackPeerOwnerByTarget s, loopbackPeerOwnerRefCount s),
     (networkClientPeers s, networkPeerOwnerByTarget s, networkPeerOwnerRefCount s))"

definition quiet :: "('z targets_state_scheme \<Rightarrow> (exn, 'a) outcome \<times> 'z targets_state_scheme) \<Rightarrow> bool" where
  "quiet m \<longleftrightarrow> (\<forall>s r t. m s = (r, t) \<longrightarrow> table_part t = table_part s)"

lemma targets_inv_part: "table_part t = table_part s \<Longrightarrow> targets_inv t = targets_inv s"
  by (simp add: table_part_def targets_inv_def ids_below_def)

lemma quiet_ret [keeps_intro]: "quiet (ret a)" by (simp add: quiet_def)
lemma quiet_throw [keeps_intro]: "quiet (throw e)" by (simp add: quiet_def)
lemma quiet_gets [keeps_intro]: "quiet (gets f)" by (simp add: quiet_def)
lemma quiet_tell [keeps_intro]: "quiet (tell c)" by (simp add: quiet_def table_part_def)
lemma quiet_call [keeps_intro]: "quiet (call f c)"
  by (auto simp: quiet_def table_part_def elim!: call_cases)
lemma quiet_applyTraceEncoder [keeps_intro]: "quiet (applyTraceEncoder r)"
  by (simp add: quiet_def applyTraceEncoder_def table_part_def)
lemma quiet_findTarget [keeps_intro]: "quiet (findTarget t)"
  by (auto simp: quiet_def findTarget_def find_or_def split: option.splits)
lemma quiet_modify [keeps_intro]: "(\<And>s. table_part (f s) = table_part s) \<Longrightarrow> quiet (modify f)"
  by (auto simp: quiet_def)

lemma quiet_bnd [keeps_intro]:
  assumes "quiet m" and "\<And>a. quiet (f a)"
  shows "quiet (bnd m f)"
  unfolding quiet_def
proof (intro allI impI)
  fix s r t
  assume "bnd m f s = (r, t)"
  then show "table_part t = table_part s"
    by (cases rule: bnd_cases) (use assms in \<open>fastforce simp: quiet_def\<close>)+
qed

lemma quiet_sq [keeps_intro]: "quiet m \<Longrightarrow> quiet k \<Longrightarrow> quiet (sq m k)"
  by (simp add: sq_def quiet_bnd)

text \<open>Operations that keep the invariant and take at most one identifier.\<close>

definition takes_one :: "('z targets_state_scheme \<Rightarrow> (exn, 'a) outcome \<times> 'z targets_state_scheme) \<Rightarrow> bool" where
  "takes_one m \<longleftrightarrow> (\<forall>s r t. targets_inv s \<longrightarrow> id_room s \<longrightarrow> m s = (r, t) \<longrightarrow>
     targets_inv t \<and> unat (nextTargetId t) \<le> unat (nextTargetId s) + 1)"

lemma takes_oneD:
  "takes_one m \<Longrightarrow> targets_inv s \<Longrightarrow> id_room s \<Longrightarrow> m s = (r, t) \<Longrightarrow>
   targets_inv t \<and> unat (nextTargetId t) \<le> unat (nextTargetId s) + 1"
  by (auto simp: takes_one_def)

lemma quiet_takes_one: "quiet m \<Longrightarrow> takes_one m"
  by (metis (no_types, lifting) le_add1 quiet_def takes_one_def targets_inv_part fst_conv snd_conv table_part_def)

lemma takes_one_bnd [keeps_intro]:
  assumes "quiet m" and "\<And>a. takes_one (f a)"
  shows "takes_one (bnd m f)"
  unfolding takes_one_def
proof (intro allI impI)
  fix s r t
  assume s: "targets_inv s" "id_room s" and "bnd m f s = (r, t)"
  from this(3) show "targets_inv t \<and> unat (nextTargetId t) \<le> unat (nextTargetId s) + 1"
  proof (cases rule: bnd_cases)
    case (Ret a s')
    with assms(1) have p: "table_part s' = table_part s" by (auto simp: quiet_def)
    then have "targets_inv s'" "id_room s'" "nextTargetId s' = nextTargetId s"
      using s targets_inv_part [OF p] by (auto simp: id_room_def table_part_def)
    with assms(2) Ret show ?thesis by (metis takes_oneD)
  qed (use s assms(1) quiet_takes_one takes_oneD in blast)+
qed

lemma takes_one_sq [keeps_intro]: "quiet m \<Longrightarrow> takes_one k \<Longrightarrow> takes_one (sq m k)"
  by (simp add: sq_def takes_one_bnd)

lemma takes_one_if: "takes_one m \<Longrightarrow> takes_one k \<Longrightarrow> takes_one (if b then m else k)"
  by simp

text \<open>Below the last identifier the loop takes the counter itself.\<close>

lemma addTarget_room:
  assumes "targets_inv s"
  shows "addTarget cap s = (Ret (nextTargetId s),
    s\<lparr>nextTargetId := nextTargetId s + 1, targets := (targets s)(nextTargetId s \<mapsto> cap)\<rparr>)"
proof -
  have "targets s (nextTargetId s) = None"
    using assms by (auto simp: targets_inv_def ids_below_def)
  then show ?thesis by (simp add: addTarget_def)
qed

lemma fresh_ids:
  assumes "targets_inv s"
  shows "targets s (nextTargetId s) = None" "loopbackPeers s (nextTargetId s) = None"
    "networkClientPeers s (nextTargetId s) = None" "nextTargetId s \<noteq> 0"
  using assms by (auto simp: targets_inv_def ids_below_def)

lemma targets_card:
  assumes "targets_inv s" and "id_room s"
  shows "card (dom (targets s)) + 1 < 2 ^ 32"
proof -
  let ?n = "unat (nextTargetId s)"
  have "k \<noteq> 0 \<and> k < nextTargetId s" if "k \<in> dom (targets s)" for k
    using assms(1) that by (auto simp: targets_inv_def ids_below_def)
  then have "unat ` dom (targets s) \<subseteq> {0..<?n}"
    by (metis (no_types, lifting) atLeastLessThan_iff image_subsetI le0 word_less_nat_alt)
  then have "card (unat ` dom (targets s)) \<le> ?n"
    by (metis atLeast0LessThan card_lessThan card_mono finite_lessThan)
  moreover have "card (unat ` dom (targets s)) = card (dom (targets s))"
    by (intro card_image inj_onI) (metis word_unat_eq_iff)
  moreover have "?n < 2 ^ 32 - 1"
    using assms(2) by (simp add: id_room_def word_less_nat_alt unsigned_minus_1_eq_mask mask_eq_exp_minus_1)
  ultimately show ?thesis by simp
qed

lemma next_Suc:
  assumes "id_room s"
  shows "unat (nextTargetId s + 1) = unat (nextTargetId s) + 1"
    "y < nextTargetId s \<or> y = nextTargetId s \<Longrightarrow> y < nextTargetId s + 1" "nextTargetId s + 1 \<noteq> 0"
proof -
  note r = assms [unfolded id_room_def]
  show "nextTargetId s + 1 \<noteq> 0" by (rule word_below_max_Suc(2) [OF r disjI2 [OF refl]])
  show "unat (nextTargetId s + 1) = unat (nextTargetId s) + 1"
    by (rule word_below_max_Suc(3) [OF r disjI2 [OF refl]])
  show "y < nextTargetId s + 1" if "y < nextTargetId s \<or> y = nextTargetId s"
    using word_below_max_Suc(1) [OF r that] .
qed

lemma takes_one_addTarget [keeps_intro]: "takes_one (addTarget cap)"
  unfolding takes_one_def
proof (intro allI impI)
  fix s :: "'z targets_state_scheme" and r t
  assume s: "targets_inv s" "id_room s" and run: "addTarget cap s = (r, t)"
  let ?t = "s\<lparr>nextTargetId := nextTargetId s + 1, targets := (targets s)(nextTargetId s \<mapsto> cap)\<rparr>"
  have t: "t = ?t" using run addTarget_room [OF s(1)] by simp
  have "ids_below ?t"
    using s(1) next_Suc [OF s(2)] by (auto simp: targets_inv_def ids_below_def)
  then have "targets_inv ?t"
    using s(1) by (simp add: targets_inv_def owners_ok_add)
  then show "targets_inv t \<and> unat (nextTargetId t) \<le> unat (nextTargetId s) + 1"
    using next_Suc(1) [OF s(2)] by (simp add: t)
qed

text \<open>A target that comes with a peer of its own, or that shares its source's peers.\<close>

lemma ids_below_grow:
  assumes "targets_inv s" and "id_room s"
    and "nextTargetId t = nextTargetId s + 1"
    and "dom (targets t) \<subseteq> insert (nextTargetId s) (dom (targets s))"
    and "dom (loopbackPeers t) \<subseteq> insert (nextTargetId s) (dom (loopbackPeers s))"
    and "dom (networkClientPeers t) \<subseteq> insert (nextTargetId s) (dom (networkClientPeers s))"
  shows "ids_below t"
proof -
  have old: "k \<noteq> 0 \<and> k < nextTargetId t"
    if "k \<in> insert (nextTargetId s) (dom (targets s) \<union> dom (loopbackPeers s) \<union> dom (networkClientPeers s))" for k
    using that assms(1,3) next_Suc(2) [OF assms(2), of k] by (auto simp: targets_inv_def ids_below_def)
  have "k \<noteq> 0 \<and> k < nextTargetId t"
    if "k \<in> dom (targets t) \<union> dom (loopbackPeers t) \<union> dom (networkClientPeers t)" for k
    by (rule old) (use that assms(4-6) in blast)
  then show ?thesis
    unfolding ids_below_def using next_Suc(3) [OF assms(2)] assms(3) by metis
qed

lemma takes_one_add_retain [keeps_intro]:
  "takes_one (bnd (addTarget cap) (\<lambda>i. sq (modify (retainOwners target i)) (ret i)))"
  unfolding takes_one_def
proof (intro allI impI)
  fix s :: "'z targets_state_scheme" and r t
  assume s: "targets_inv s" "id_room s"
    and run: "bnd (addTarget cap) (\<lambda>i. sq (modify (retainOwners target i)) (ret i)) s = (r, t)"
  note fr = fresh_ids [OF s(1)]
  obtain lbo lrc where l: "retainPeerOwnership target (nextTargetId s) (loopbackPeerOwnerByTarget s)
      (loopbackPeerOwnerRefCount s) = (lbo, lrc)" by fastforce
  obtain nbo nrc where n: "retainPeerOwnership target (nextTargetId s) (networkPeerOwnerByTarget s)
      (networkPeerOwnerRefCount s) = (nbo, nrc)" by fastforce
  have t: "t = s\<lparr>nextTargetId := nextTargetId s + 1, targets := (targets s)(nextTargetId s \<mapsto> cap),
      loopbackPeerOwnerByTarget := lbo, loopbackPeerOwnerRefCount := lrc,
      networkPeerOwnerByTarget := nbo, networkPeerOwnerRefCount := nrc\<rparr>"
    using run by (simp add: addTarget_room [OF s(1)] retainOwners_def l n)
  note card = targets_card [OF s]
  from s(1) have ok: "owners_ok (targets s) (loopbackPeers s) (loopbackPeerOwnerByTarget s) (loopbackPeerOwnerRefCount s)"
    "owners_ok (targets s) (networkClientPeers s) (networkPeerOwnerByTarget s) (networkPeerOwnerRefCount s)"
    by (simp_all add: targets_inv_def)
  have "ids_below t" by (rule ids_below_grow [OF s]) (auto simp: t)
  then show "targets_inv t \<and> unat (nextTargetId t) \<le> unat (nextTargetId s) + 1"
    using owners_ok_retain [OF ok(1) fr(1) card l] owners_ok_retain [OF ok(2) fr(1) card n] next_Suc(1) [OF s(2)]
    by (simp add: targets_inv_def t)
qed

lemma takes_one_add_network_peer [keeps_intro]:
  "takes_one (bnd (addTarget cap) (\<lambda>i. sq (modify (\<lambda>s. s\<lparr>
     networkClientPeers := emplace i peer (networkClientPeers s),
     networkPeerOwnerByTarget := emplace i i (networkPeerOwnerByTarget s),
     networkPeerOwnerRefCount := emplace i 1 (networkPeerOwnerRefCount s)\<rparr>)) (ret i)))"
  unfolding takes_one_def
proof (intro allI impI)
  fix s :: "'z targets_state_scheme" and r t
  assume s: "targets_inv s" "id_room s"
    and run: "bnd (addTarget cap) (\<lambda>i. sq (modify (\<lambda>s. s\<lparr>
     networkClientPeers := emplace i peer (networkClientPeers s),
     networkPeerOwnerByTarget := emplace i i (networkPeerOwnerByTarget s),
     networkPeerOwnerRefCount := emplace i 1 (networkPeerOwnerRefCount s)\<rparr>)) (ret i)) s = (r, t)"
  note fr = fresh_ids [OF s(1)]
  from s(1) have ok: "owners_ok (targets s) (loopbackPeers s) (loopbackPeerOwnerByTarget s) (loopbackPeerOwnerRefCount s)"
    "owners_ok (targets s) (networkClientPeers s) (networkPeerOwnerByTarget s) (networkPeerOwnerRefCount s)"
    by (simp_all add: targets_inv_def)
  note t = run [unfolded bnd_def addTarget_room [OF s(1)], simplified]
  have "ids_below t" by (rule ids_below_grow [OF s]) (use t in \<open>auto simp: emplace_def split: if_splits\<close>)
  then show "targets_inv t \<and> unat (nextTargetId t) \<le> unat (nextTargetId s) + 1"
    using t owners_ok_add [OF ok(1)] owners_ok_new_peer [OF ok(2) fr(1) fr(3)] next_Suc(1) [OF s(2)]
    by (auto simp: targets_inv_def)
qed

lemma takes_one_add_loopback_peer [keeps_intro]:
  "takes_one (bnd (addTarget cap) (\<lambda>i. sq (modify (\<lambda>s. s\<lparr>
     loopbackPeers := emplace i peer (loopbackPeers s),
     loopbackPeerOwnerByTarget := emplace i i (loopbackPeerOwnerByTarget s),
     loopbackPeerOwnerRefCount := emplace i 1 (loopbackPeerOwnerRefCount s)\<rparr>)) (ret i)))"
  unfolding takes_one_def
proof (intro allI impI)
  fix s :: "'z targets_state_scheme" and r t
  assume s: "targets_inv s" "id_room s"
    and run: "bnd (addTarget cap) (\<lambda>i. sq (modify (\<lambda>s. s\<lparr>
     loopbackPeers := emplace i peer (loopbackPeers s),
     loopbackPeerOwnerByTarget := emplace i i (loopbackPeerOwnerByTarget s),
     loopbackPeerOwnerRefCount := emplace i 1 (loopbackPeerOwnerRefCount s)\<rparr>)) (ret i)) s = (r, t)"
  note fr = fresh_ids [OF s(1)]
  from s(1) have ok: "owners_ok (targets s) (loopbackPeers s) (loopbackPeerOwnerByTarget s) (loopbackPeerOwnerRefCount s)"
    "owners_ok (targets s) (networkClientPeers s) (networkPeerOwnerByTarget s) (networkPeerOwnerRefCount s)"
    by (simp_all add: targets_inv_def)
  note t = run [unfolded bnd_def addTarget_room [OF s(1)], simplified]
  have "ids_below t" by (rule ids_below_grow [OF s]) (use t in \<open>auto simp: emplace_def split: if_splits\<close>)
  then show "targets_inv t \<and> unat (nextTargetId t) \<le> unat (nextTargetId s) + 1"
    using t owners_ok_add [OF ok(2)] owners_ok_new_peer [OF ok(1) fr(1) fr(2)] next_Suc(1) [OF s(2)]
    by (auto simp: targets_inv_def)
qed

text \<open>Every operation that registers or retains a target.\<close>

lemma takes_one_retainTarget: "takes_one (retainTarget target)"
  unfolding retainTarget_def by (rule takes_one_bnd [OF quiet_findTarget takes_one_add_retain])

lemma takes_one_registerTailCallTarget: "takes_one (registerTailCallTarget target)"
  unfolding registerTailCallTarget_def by (rule takes_one_bnd [OF quiet_findTarget takes_one_add_retain])

lemma takes_one_registerFdTarget: "takes_one (registerFdTarget env fd)"
  unfolding registerFdTarget_def
  by (simp, intro impI conjI takes_one_bnd quiet_call quiet_takes_one [OF quiet_throw] takes_one_if takes_one_addTarget)

lemma takes_one_registerFdProbeTarget: "takes_one registerFdProbeTarget"
  unfolding registerFdProbeTarget_def by (rule takes_one_addTarget)

lemma takes_one_connectTargetPeer: "takes_one (connectTargetPeer env peer)"
  unfolding connectTargetPeer_def by (rule takes_one_bnd [OF quiet_call takes_one_add_network_peer])

lemma takes_one_registerLoopbackTargetClient: "takes_one (registerLoopbackTargetClient env cap)"
  unfolding registerLoopbackTargetClient_def
  by (auto intro!: takes_one_bnd takes_one_sq quiet_call quiet_applyTraceEncoder takes_one_add_loopback_peer)

lemma takes_one_registerLoopbackTarget: "takes_one (registerLoopbackTarget env)"
  unfolding registerLoopbackTarget_def by (rule takes_one_registerLoopbackTargetClient)

lemma takes_one_registerLoopbackBootstrapTarget: "takes_one (registerLoopbackBootstrapTarget env target)"
  unfolding registerLoopbackBootstrapTarget_def
  by (rule takes_one_bnd [OF quiet_findTarget takes_one_registerLoopbackTargetClient])

lemma takes_one_then_quiet:
  assumes "takes_one m" and "\<And>a. quiet (f a)"
  shows "takes_one (bnd m f)"
  unfolding takes_one_def
proof (intro allI impI)
  fix s r t
  assume s: "targets_inv s" "id_room s" and "bnd m f s = (r, t)"
  from this(3) show "targets_inv t \<and> unat (nextTargetId t) \<le> unat (nextTargetId s) + 1"
  proof (cases rule: bnd_cases)
    case (Ret a s')
    with assms(2) have p: "table_part t = table_part s'" by (auto simp: quiet_def)
    then have "nextTargetId t = nextTargetId s'" by (simp add: table_part_def)
    with targets_inv_part [OF p] takes_oneD [OF assms(1) s Ret(1)] show ?thesis by simp
  qed (use takes_oneD [OF assms(1) s] in blast)+
qed

lemma takes_one_registerWithCell: "takes_one (registerWithCell mk)"
  unfolding registerWithCell_def
  by (intro takes_one_bnd takes_one_sq takes_one_then_quiet quiet_gets quiet_modify quiet_sq quiet_ret
      takes_one_addTarget) (simp_all add: table_part_def)

lemma takes_one_registerHandlers:
  "takes_one (registerHandlerTarget h)" "takes_one (registerAdvancedHandlerTarget h)"
  "takes_one (registerTailCallHandlerTarget h)"
  unfolding registerHandlerTarget_def registerAdvancedHandlerTarget_def registerTailCallHandlerTarget_def
  by (rule takes_one_sq [OF quiet_tell takes_one_registerWithCell])+

subsection \<open>Releasing\<close>

lemma dom_drop_peer:
  assumes "releasePeerOwnership t peers by rc = (peers', by', rc')"
  shows "dom peers' \<subseteq> dom peers"
  using assms by (auto simp: releasePeerOwnership_def Let_def split: option.splits if_splits)

lemma drop_fields:
  assumes "dropTargetIfPresent target s = (b, t)"
  shows "b \<longleftrightarrow> targets s target \<noteq> None" and "targets t = (targets s)(target := None)"
    and "nextTargetId t = nextTargetId s" and "log t = log s"
  using assms by (auto simp: dropTargetIfPresent_def split: prod.splits)

lemma drop_inv:
  assumes inv: "targets_inv s" and run: "dropTargetIfPresent target s = (b, t)"
  shows "targets_inv t"
proof -
  obtain lp lbo lrc where l: "releasePeerOwnership target (loopbackPeers s)
      (loopbackPeerOwnerByTarget s) (loopbackPeerOwnerRefCount s) = (lp, lbo, lrc)" by (metis prod_cases3)
  obtain np nbo nrc where n: "releasePeerOwnership target (networkClientPeers s)
      (networkPeerOwnerByTarget s) (networkPeerOwnerRefCount s) = (np, nbo, nrc)" by (metis prod_cases3)
  have t: "t = s\<lparr>targets := (targets s)(target := None),
      loopbackPeers := lp, loopbackPeerOwnerByTarget := lbo, loopbackPeerOwnerRefCount := lrc,
      networkClientPeers := np, networkPeerOwnerByTarget := nbo, networkPeerOwnerRefCount := nrc\<rparr>"
    using run by (auto simp: dropTargetIfPresent_def l n)
  from inv have ok: "owners_ok (targets s) (loopbackPeers s) (loopbackPeerOwnerByTarget s) (loopbackPeerOwnerRefCount s)"
    "owners_ok (targets s) (networkClientPeers s) (networkPeerOwnerByTarget s) (networkPeerOwnerRefCount s)"
    and ids: "ids_below s" by (simp_all add: targets_inv_def)
  have sub: "dom (targets t) \<union> dom (loopbackPeers t) \<union> dom (networkClientPeers t)
      \<subseteq> dom (targets s) \<union> dom (loopbackPeers s) \<union> dom (networkClientPeers s)"
    unfolding t using dom_drop_peer [OF l] dom_drop_peer [OF n] by auto
  have "nextTargetId t = nextTargetId s" by (simp add: t)
  with ids have "nextTargetId t \<noteq> 0" by (simp add: ids_below_def)
  moreover have "k \<noteq> 0 \<and> k < nextTargetId t"
    if "k \<in> dom (targets t) \<union> dom (loopbackPeers t) \<union> dom (networkClientPeers t)" for k
    using subsetD [OF sub that] ids \<open>nextTargetId t = nextTargetId s\<close> by (simp add: ids_below_def)
  ultimately have "ids_below t" unfolding ids_below_def by blast
  then show ?thesis
    using owners_ok_release [OF ok(1) l] owners_ok_release [OF ok(2) n] by (simp add: targets_inv_def t)
qed

text \<open>Dropping an identifier that is not there changes nothing.\<close>

lemma release_absent: "by t = None \<Longrightarrow> releasePeerOwnership t peers by rc = (peers, by, rc)"
  by (simp add: releasePeerOwnership_def)

lemma drop_absent:
  assumes "targets_inv s" and "targets s target = None"
  shows "dropTargetIfPresent target s = (False, s)"
proof -
  have "loopbackPeerOwnerByTarget s target = None" "networkPeerOwnerByTarget s target = None"
    using assms by (auto simp: targets_inv_def owners_ok_def)
  then show ?thesis
    using assms(2) by (simp add: dropTargetIfPresent_def release_absent fun_upd_idem)
qed

lemma releaseTarget_known:
  assumes "targets_inv s" and "targets s i = Some v"
  shows "\<exists>t. releaseTarget i s = (Ret (), t) \<and> targets t = (targets s)(i := None) \<and> targets_inv t
    \<and> nextTargetId t = nextTargetId s"
proof -
  obtain b t where run: "dropTargetIfPresent i s = (b, t)" by fastforce
  with assms drop_fields [OF run] drop_inv [OF assms(1) run] show ?thesis
    by (simp add: releaseTarget_def)
qed

lemma releaseTarget_unknown:
  "targets_inv s \<Longrightarrow> targets s i = None \<Longrightarrow> releaseTarget i s = (Throw (unknown_target i), s)"
  by (simp add: releaseTarget_def drop_absent)

lemma releaseTarget_keeps:
  assumes "targets_inv s" and "releaseTarget i s = (r, t)"
  shows "targets_inv t \<and> nextTargetId t = nextTargetId s"
  using assms releaseTarget_known [of s i] releaseTarget_unknown [of s i] by (cases "targets s i") auto

section \<open>The table as an instance of the interfaces\<close>

interpretation target_table: id_table targets nextTargetId addTarget
  by unfold_locales (auto simp: addTarget_def)

interpretation target_handles: handle_table targets nextTargetId addTarget releaseTarget
    unknown_target targets_inv
  by unfold_locales (use releaseTarget_known releaseTarget_unknown in blast)+

section \<open>Runs of the capability table\<close>

definition targets_init :: targets_state where
  "targets_init = \<lparr>log = [], heapNext = 0, traceEncoderEnabled = False, traceEncoderHandler = None,
     targets = Map.empty, nextTargetId = 1, loopbackPeers = Map.empty, networkClientPeers = Map.empty,
     loopbackPeerOwnerByTarget = Map.empty, loopbackPeerOwnerRefCount = Map.empty,
     networkPeerOwnerByTarget = Map.empty, networkPeerOwnerRefCount = Map.empty, idCells = []\<rparr>"

text \<open>
  \<open>target_run env n s\<close>: \<open>s\<close> is reached by \<open>n\<close> operations from the empty table,
  whatever each of them returned or threw.
\<close>

inductive target_run :: "env \<Rightarrow> nat \<Rightarrow> targets_state \<Rightarrow> bool" for env where
  start: "target_run env 0 targets_init"
| add: "target_run env n s \<Longrightarrow> addTarget cap s = (r, t) \<Longrightarrow> target_run env (Suc n) t"
| retain: "target_run env n s \<Longrightarrow> retainTarget target s = (r, t) \<Longrightarrow> target_run env (Suc n) t"
| release: "target_run env n s \<Longrightarrow> releaseTarget target s = (u, t) \<Longrightarrow> target_run env (Suc n) t"
| release_all: "target_run env n s \<Longrightarrow> releaseTargets ts s = (u, t) \<Longrightarrow> target_run env (Suc n) t"
| drop: "target_run env n s \<Longrightarrow> dropTargetIfPresent target s = (b, t) \<Longrightarrow> target_run env (Suc n) t"
| handler: "target_run env n s \<Longrightarrow> registerHandlerTarget h s = (r, t) \<Longrightarrow> target_run env (Suc n) t"
| advanced: "target_run env n s \<Longrightarrow> registerAdvancedHandlerTarget h s = (r, t) \<Longrightarrow> target_run env (Suc n) t"
| tail_handler: "target_run env n s \<Longrightarrow> registerTailCallHandlerTarget h s = (r, t) \<Longrightarrow> target_run env (Suc n) t"
| tail: "target_run env n s \<Longrightarrow> registerTailCallTarget target s = (r, t) \<Longrightarrow> target_run env (Suc n) t"
| fd: "target_run env n s \<Longrightarrow> registerFdTarget env d s = (r, t) \<Longrightarrow> target_run env (Suc n) t"
| probe: "target_run env n s \<Longrightarrow> registerFdProbeTarget s = (r, t) \<Longrightarrow> target_run env (Suc n) t"
| connect: "target_run env n s \<Longrightarrow> connectTargetPeer env peer s = (r, t) \<Longrightarrow> target_run env (Suc n) t"
| loopback: "target_run env n s \<Longrightarrow> registerLoopbackTarget env s = (r, t) \<Longrightarrow> target_run env (Suc n) t"
| bootstrap: "target_run env n s \<Longrightarrow> registerLoopbackBootstrapTarget env target s = (r, t) \<Longrightarrow>
    target_run env (Suc n) t"

lemma targets_init_inv: "targets_inv targets_init"
  by (simp add: targets_inv_def ids_below_def owners_ok_def targets_init_def)

lemma releaseTargets_keeps:
  "targets_inv s \<Longrightarrow> releaseTargets ts s = (u, t) \<Longrightarrow> targets_inv t \<and> nextTargetId t = nextTargetId s"
proof (induction ts arbitrary: s)
  case Nil
  then show ?case by (simp add: releaseTargets_def)
next
  case (Cons i ts)
  show ?case
  proof (cases "i = 0")
    case True
    with Cons show ?thesis by (simp add: releaseTargets_def)
  next
    case False
    obtain v s' where rel: "releaseTarget i s = (v, s')" by fastforce
    note k = releaseTarget_keeps [OF Cons.prems(1) rel]
    show ?thesis
    proof (cases v)
      case (Ret a)
      then have "releaseTargets ts s' = (u, t)"
        using Cons.prems(2) False rel by (simp add: releaseTargets_def)
      with Cons.IH [of s'] k show ?thesis by simp
    qed (use Cons.prems(2) False rel k in \<open>auto simp: releaseTargets_def\<close>)
  qed
qed

text \<open>What one step does to the invariant and to the counter.\<close>

definition below_wrap :: "nat \<Rightarrow> targets_state \<Rightarrow> bool" where
  "below_wrap n s \<longleftrightarrow> targets_inv s \<and> unat (nextTargetId s) \<le> n + 1"

lemma below_wrap_room:
  assumes "below_wrap n s" and "Suc n < 2 ^ 32 - 1"
  shows "id_room s"
  using assms
  by (simp add: below_wrap_def id_room_def word_less_nat_alt unsigned_minus_1_eq_mask mask_eq_exp_minus_1)

lemma below_wrap_takes_one:
  assumes "m s = (r, t)" and "takes_one m" and "below_wrap n s" and "Suc n < 2 ^ 32 - 1"
  shows "below_wrap (Suc n) t"
  using takes_oneD [OF assms(2) _ below_wrap_room [OF assms(3,4)] assms(1)] assms(3)
  by (auto simp: below_wrap_def)

lemma below_wrap_keeps:
  "below_wrap n s \<Longrightarrow> targets_inv t \<and> nextTargetId t = nextTargetId s \<Longrightarrow> below_wrap (Suc n) t"
  by (simp add: below_wrap_def)

lemmas takes_one_ops = takes_one_addTarget takes_one_retainTarget takes_one_registerHandlers
  takes_one_registerTailCallTarget takes_one_registerFdTarget takes_one_registerFdProbeTarget
  takes_one_connectTargetPeer takes_one_registerLoopbackTarget takes_one_registerLoopbackBootstrapTarget

lemma target_run_below_wrap:
  "target_run env n s \<Longrightarrow> n < 2 ^ 32 - 1 \<Longrightarrow> below_wrap n s"
proof (induction rule: target_run.induct)
  case start
  show ?case by (simp add: below_wrap_def targets_init_inv) (simp add: targets_init_def)
next
  case (release n s target u t)
  then show ?case by (intro below_wrap_keeps [of n s]) (auto simp: below_wrap_def dest: releaseTarget_keeps)
next
  case (release_all n s ts u t)
  then show ?case by (intro below_wrap_keeps [of n s]) (auto simp: below_wrap_def dest: releaseTargets_keeps)
next
  case (drop n s target b t)
  then show ?case
    by (intro below_wrap_keeps [of n s]) (auto simp: below_wrap_def dest: drop_inv drop_fields(3))
qed (erule below_wrap_takes_one, rule takes_one_ops, simp, assumption)+

text \<open>C2. In every run of fewer than \<open>2^32 - 1\<close> operations on the capability table, whatever
  each of them returns or throws: every live identifier is nonzero and below the counter, a
  loopback or network peer exists exactly while some live target owns it, and each reference
  count is the number of its owners.\<close>

theorem target_run_inv: "target_run env n s \<Longrightarrow> n < 2 ^ 32 - 1 \<Longrightarrow> targets_inv s"
  using target_run_below_wrap by (auto simp: below_wrap_def)

lemma target_run_inv_witness:
  "targets_inv (snd (releaseTarget 1 (snd (addTarget LoopbackCapabilityServer targets_init))))"
proof -
  obtain r s where a: "addTarget LoopbackCapabilityServer targets_init = (r, s)" by fastforce
  obtain u t where b: "releaseTarget 1 s = (u, t)" by fastforce
  from target_run.release [OF target_run.add [OF target_run.start a] b]
  show ?thesis
    using target_run_inv [of undefined "Suc (Suc 0)" t] by (simp add: a b)
qed

end
