(* ===== verification/Peer_Lifetime.thy ===== *)
theory Peer_Lifetime
  imports Target_Facts
begin

text \<open>
  What retaining and releasing targets does to the peers behind them, what a batch release
  returns, and what happens once the identifier counter has wrapped.
\<close>

section \<open>One release\<close>

lemma peer_alive_iff:
  assumes "owners_ok tg peers by rc"
  shows "peers p \<noteq> None \<longleftrightarrow> (\<exists>x. by x = Some p)"
proof -
  have "dom peers = ran by" using assms by (simp add: owners_ok_def)
  then have "p \<in> dom peers \<longleftrightarrow> p \<in> ran by" by simp
  then show ?thesis by (simp add: domIff ran_def)
qed

text \<open>The peers left by a release: those that another target still owns.\<close>

lemma releasePeerOwnership_peers:
  assumes ok: "owners_ok tg peers by rc"
    and upd: "releasePeerOwnership t peers by rc = (peers', by', rc')"
  shows "by' = by(t := None)"
    and "peers' p = (if \<exists>x. x \<noteq> t \<and> by x = Some p then peers p else None)"
proof -
  show "by' = by(t := None)"
    using upd by (auto simp: releasePeerOwnership_def Let_def split: option.splits if_splits)
  then have alive: "peers' p \<noteq> None \<longleftrightarrow> (\<exists>x. x \<noteq> t \<and> by x = Some p)"
    using peer_alive_iff [OF owners_ok_release [OF ok upd], of p] by auto
  have same: "peers' p = peers p \<or> peers' p = None"
    using upd by (auto simp: releasePeerOwnership_def Let_def split: option.splits if_splits)
  show "peers' p = (if \<exists>x. x \<noteq> t \<and> by x = Some p then peers p else None)"
    using alive same by auto
qed

lemma drop_owner_fields:
  assumes "targets_inv s" and "dropTargetIfPresent target s = (b, t)"
  shows "loopbackPeerOwnerByTarget t = (loopbackPeerOwnerByTarget s)(target := None)"
    and "networkPeerOwnerByTarget t = (networkPeerOwnerByTarget s)(target := None)"
    and "loopbackPeers t p = (if \<exists>x. x \<noteq> target \<and> loopbackPeerOwnerByTarget s x = Some p then loopbackPeers s p else None)"
    and "networkClientPeers t p = (if \<exists>x. x \<noteq> target \<and> networkPeerOwnerByTarget s x = Some p then networkClientPeers s p else None)"
proof -
  obtain lp lbo lrc where l: "releasePeerOwnership target (loopbackPeers s)
      (loopbackPeerOwnerByTarget s) (loopbackPeerOwnerRefCount s) = (lp, lbo, lrc)" by (metis prod_cases3)
  obtain np nbo nrc where n: "releasePeerOwnership target (networkClientPeers s)
      (networkPeerOwnerByTarget s) (networkPeerOwnerRefCount s) = (np, nbo, nrc)" by (metis prod_cases3)
  have t: "t = s\<lparr>targets := (targets s)(target := None),
      loopbackPeers := lp, loopbackPeerOwnerByTarget := lbo, loopbackPeerOwnerRefCount := lrc,
      networkClientPeers := np, networkPeerOwnerByTarget := nbo, networkPeerOwnerRefCount := nrc\<rparr>"
    using assms(2) by (auto simp: dropTargetIfPresent_def l n)
  from assms(1) have ok: "owners_ok (targets s) (loopbackPeers s) (loopbackPeerOwnerByTarget s) (loopbackPeerOwnerRefCount s)"
    "owners_ok (targets s) (networkClientPeers s) (networkPeerOwnerByTarget s) (networkPeerOwnerRefCount s)"
    by (simp_all add: targets_inv_def)
  note L = releasePeerOwnership_peers [OF ok(1) l] and N = releasePeerOwnership_peers [OF ok(2) n]
  show "loopbackPeerOwnerByTarget t = (loopbackPeerOwnerByTarget s)(target := None)"
    "networkPeerOwnerByTarget t = (networkPeerOwnerByTarget s)(target := None)"
    using L(1) N(1) by (simp_all add: t)
  show "loopbackPeers t p = (if \<exists>x. x \<noteq> target \<and> loopbackPeerOwnerByTarget s x = Some p then loopbackPeers s p else None)"
    using L(2) [of p] by (simp add: t)
  show "networkClientPeers t p = (if \<exists>x. x \<noteq> target \<and> networkPeerOwnerByTarget s x = Some p then networkClientPeers s p else None)"
    using N(2) [of p] by (simp add: t)
qed

text \<open>C3. Releasing a live target removes exactly its own entry, and destroys exactly the peers
  whose last owner it was: a peer that another target still owns stays, with its state.\<close>

theorem releaseTarget_peers:
  assumes "targets_inv s" and "targets s i = Some c"
  shows "\<exists>t. releaseTarget i s = (Ret (), t) \<and> targets t = (targets s)(i := None) \<and>
    (\<forall>p. loopbackPeers t p =
      (if \<exists>x. x \<noteq> i \<and> loopbackPeerOwnerByTarget s x = Some p then loopbackPeers s p else None)) \<and>
    (\<forall>p. networkClientPeers t p =
      (if \<exists>x. x \<noteq> i \<and> networkPeerOwnerByTarget s x = Some p then networkClientPeers s p else None))"
proof -
  obtain b t where run: "dropTargetIfPresent i s = (b, t)" by fastforce
  note f = drop_fields [OF run] and o = drop_owner_fields [OF assms(1) run]
  show ?thesis
    using f o(3,4) assms(2) by (intro exI [of _ t]) (simp add: releaseTarget_def run)
qed

text \<open>A connection's only target, released.\<close>

definition connected :: targets_state where
  "connected = snd (connectTargetPeer ok_env \<lparr>stream = 7, network = 8, rpcSystem = 9\<rparr> targets_init)"

lemma connected_eq:
  "connected = targets_init\<lparr>log := [RpcBootstrap 9], nextTargetId := 2,
     targets := [1 \<mapsto> ExternalClient 0],
     networkClientPeers := [1 \<mapsto> \<lparr>stream = 7, network = 8, rpcSystem = 9\<rparr>],
     networkPeerOwnerByTarget := [1 \<mapsto> 1], networkPeerOwnerRefCount := [1 \<mapsto> 1]\<rparr>"
  by (simp add: connected_def connectTargetPeer_def call_def addTarget_def bnd_def targets_init_def emplace_def)

lemma connected_inv: "targets_inv connected"
proof -
  have "{t. t = (1 :: u32) \<and> owner = 1} = (if owner = 1 then {1} else {})" for owner :: u32 by auto
  then show ?thesis
    by (auto simp: connected_eq targets_init_def targets_inv_def ids_below_def owners_ok_def split: if_splits)
qed

lemma releaseTarget_peers_witness:
  "\<exists>t. releaseTarget 1 connected = (Ret (), t) \<and> networkClientPeers t 1 = None"
  using releaseTarget_peers [OF connected_inv, of 1 "ExternalClient 0"]
  by (auto simp: connected_eq)

section \<open>Retain and release\<close>

lemma retain_release_owner:
  assumes ok: "owners_ok tg peers by rc" and fresh: "by r = None"
    and upd: "retainPeerOwnership src r by rc = (by1, rc1)"
    and room: "card (dom tg) + 1 < 2 ^ 32"
  shows "releasePeerOwnership r peers by1 rc1 = (peers, by, rc)"
proof (cases "by src")
  case None
  with upd fresh show ?thesis by (auto simp: retainPeerOwnership_def releasePeerOwnership_def)
next
  case (Some owner)
  from owner_count [OF ok Some] obtain n where n: "rc owner = Some n"
    and cnt: "unat n = card {x. by x = Some owner}" by blast
  have one: "by1 = by(r \<mapsto> owner)" "rc1 = rc(owner \<mapsto> n + 1)"
    using upd Some n fresh by (auto simp: retainPeerOwnership_def emplace_def Let_def)
  have "{x. by x = Some owner} \<subseteq> dom tg" using ok by (auto simp: owners_ok_def)
  then have "unat n \<le> card (dom tg)" unfolding cnt by (simp add: card_mono)
  moreover have "0 < unat n" unfolding cnt using Some by (simp add: card_gt_0_iff) blast
  ultimately have "1 < n + 1"
    using room by (simp add: word_less_nat_alt unat_word_ariths)
  then show ?thesis
    using n fresh by (auto simp: one releasePeerOwnership_def Let_def fun_upd_idem)
qed

lemma retainTarget_ret:
  assumes inv: "targets_inv s" and run: "retainTarget target s = (Ret r, s1)"
  obtains c lbo lrc nbo nrc where "targets s target = Some c" and "r = nextTargetId s"
    and "retainPeerOwnership target r (loopbackPeerOwnerByTarget s) (loopbackPeerOwnerRefCount s) = (lbo, lrc)"
    and "retainPeerOwnership target r (networkPeerOwnerByTarget s) (networkPeerOwnerRefCount s) = (nbo, nrc)"
    and "s1 = s\<lparr>nextTargetId := nextTargetId s + 1, targets := (targets s)(r \<mapsto> c),
      loopbackPeerOwnerByTarget := lbo, loopbackPeerOwnerRefCount := lrc,
      networkPeerOwnerByTarget := nbo, networkPeerOwnerRefCount := nrc\<rparr>"
proof -
  obtain lbo lrc where l: "retainPeerOwnership target (nextTargetId s) (loopbackPeerOwnerByTarget s)
      (loopbackPeerOwnerRefCount s) = (lbo, lrc)" by fastforce
  obtain nbo nrc where n: "retainPeerOwnership target (nextTargetId s) (networkPeerOwnerByTarget s)
      (networkPeerOwnerRefCount s) = (nbo, nrc)" by fastforce
  from run obtain c where c: "targets s target = Some c"
    unfolding retainTarget_def findTarget_def by (auto elim!: bnd_RetE find_or_RetE)
  show thesis
    by (rule that [of c lbo lrc nbo nrc])
      (use run in \<open>auto simp: retainTarget_def findTarget_def c addTarget_room [OF inv] retainOwners_def l n\<close>)
qed

text \<open>C4. Retaining a target and releasing the handle obtained restores every table, the peers
  and the reference counts included; only the identifier counter has moved.\<close>

theorem retain_release_roundtrip:
  assumes "targets_inv s" and "id_room s" and "retainTarget target s = (Ret r, s1)"
  shows "releaseTarget r s1 = (Ret (), s\<lparr>nextTargetId := nextTargetId s + 1\<rparr>)"
proof -
  from retainTarget_ret [OF assms(1,3)] obtain c lbo lrc nbo nrc where r: "r = nextTargetId s"
    and l: "retainPeerOwnership target r (loopbackPeerOwnerByTarget s) (loopbackPeerOwnerRefCount s) = (lbo, lrc)"
    and n: "retainPeerOwnership target r (networkPeerOwnerByTarget s) (networkPeerOwnerRefCount s) = (nbo, nrc)"
    and s1: "s1 = s\<lparr>nextTargetId := nextTargetId s + 1, targets := (targets s)(r \<mapsto> c),
      loopbackPeerOwnerByTarget := lbo, loopbackPeerOwnerRefCount := lrc,
      networkPeerOwnerByTarget := nbo, networkPeerOwnerRefCount := nrc\<rparr>" by metis
  from assms(1) have ok: "owners_ok (targets s) (loopbackPeers s) (loopbackPeerOwnerByTarget s) (loopbackPeerOwnerRefCount s)"
    "owners_ok (targets s) (networkClientPeers s) (networkPeerOwnerByTarget s) (networkPeerOwnerRefCount s)"
    by (simp_all add: targets_inv_def)
  have free: "targets s r = None" using fresh_ids(1) [OF assms(1)] r by simp
  with ok have fr: "loopbackPeerOwnerByTarget s r = None" "networkPeerOwnerByTarget s r = None"
    by (auto simp: owners_ok_def)
  note card = targets_card [OF assms(1,2)]
  show ?thesis
    using retain_release_owner [OF ok(1) fr(1) l card] retain_release_owner [OF ok(2) fr(2) n card] free
    by (simp add: releaseTarget_def dropTargetIfPresent_def s1 fun_upd_idem)
qed

lemma retain_release_roundtrip_witness:
  "\<exists>r s1. retainTarget 1 connected = (Ret r, s1) \<and>
     releaseTarget r s1 = (Ret (), connected\<lparr>nextTargetId := nextTargetId connected + 1\<rparr>)"
proof -
  have "\<exists>s1. retainTarget 1 connected = (Ret 2, s1)"
    by (simp add: connected_eq retainTarget_def findTarget_def addTarget_def targets_init_def)
  then obtain s1 where run: "retainTarget 1 connected = (Ret 2, s1)" ..
  have "id_room connected" by (simp add: id_room_def connected_eq)
  from retain_release_roundtrip [OF connected_inv this run] run show ?thesis by blast
qed

lemma retain_owner_domain:
  assumes "retainPeerOwnership src r by rc = (by1, rc1)" and "by r = None"
  shows "by1 x = (if x = r then by src else by x)"
  using assms by (auto simp: retainPeerOwnership_def emplace_def Let_def split: option.splits)

text \<open>C5. A retained handle keeps the peers alive: after the target it was retained from is
  released, the handle still names the same client and every peer is still there.\<close>

theorem retained_handle_keeps_peers:
  assumes "targets_inv s" and "id_room s" and "retainTarget i s = (Ret r, s1)"
    and "releaseTarget i s1 = (v, s2)"
  shows "v = Ret () \<and> targets s2 i = None \<and> targets s2 r = targets s i \<and>
    loopbackPeers s2 = loopbackPeers s \<and> networkClientPeers s2 = networkClientPeers s"
proof -
  from retainTarget_ret [OF assms(1,3)] obtain c lbo lrc nbo nrc where c: "targets s i = Some c"
    and r: "r = nextTargetId s"
    and l: "retainPeerOwnership i r (loopbackPeerOwnerByTarget s) (loopbackPeerOwnerRefCount s) = (lbo, lrc)"
    and n: "retainPeerOwnership i r (networkPeerOwnerByTarget s) (networkPeerOwnerRefCount s) = (nbo, nrc)"
    and s1: "s1 = s\<lparr>nextTargetId := nextTargetId s + 1, targets := (targets s)(r \<mapsto> c),
      loopbackPeerOwnerByTarget := lbo, loopbackPeerOwnerRefCount := lrc,
      networkPeerOwnerByTarget := nbo, networkPeerOwnerRefCount := nrc\<rparr>" by metis
  from assms(1) have ok: "owners_ok (targets s) (loopbackPeers s) (loopbackPeerOwnerByTarget s) (loopbackPeerOwnerRefCount s)"
    "owners_ok (targets s) (networkClientPeers s) (networkPeerOwnerByTarget s) (networkPeerOwnerRefCount s)"
    by (simp_all add: targets_inv_def)
  have free: "targets s r = None" using fresh_ids(1) [OF assms(1)] r by simp
  with ok have fr: "loopbackPeerOwnerByTarget s r = None" "networkPeerOwnerByTarget s r = None"
    by (auto simp: owners_ok_def)
  note o = retain_owner_domain [OF l fr(1)] retain_owner_domain [OF n fr(2)]
  have ir: "i \<noteq> r" using c free by auto
  have inv1: "targets_inv s1"
    using takes_oneD [OF takes_one_retainTarget assms(1,2,3)] by simp
  have "targets s1 i = Some c" using c ir by (simp add: s1)
  obtain b t where run: "dropTargetIfPresent i s1 = (b, t)" by fastforce
  note f = drop_fields [OF run] and p = drop_owner_fields(3,4) [OF inv1 run]
  have v: "v = Ret ()" "s2 = t"
    using assms(4) f(1) \<open>targets s1 i = Some c\<close> by (auto simp: releaseTarget_def run split: if_splits)
  have ownL: "(\<exists>x. x \<noteq> i \<and> lbo x = Some q) \<longleftrightarrow> (\<exists>x. loopbackPeerOwnerByTarget s x = Some q)" for q
    unfolding o(1) using fr(1) ir by (metis option.distinct(1))
  have ownN: "(\<exists>x. x \<noteq> i \<and> nbo x = Some q) \<longleftrightarrow> (\<exists>x. networkPeerOwnerByTarget s x = Some q)" for q
    unfolding o(2) using fr(2) ir by (metis option.distinct(1))
  have "loopbackPeers t q = loopbackPeers s q" for q
    using p(1) [of q] peer_alive_iff [OF ok(1), of q] ownL [of q]
    by (cases "loopbackPeers s q") (auto simp: s1)
  moreover have "networkClientPeers t q = networkClientPeers s q" for q
    using p(2) [of q] peer_alive_iff [OF ok(2), of q] ownN [of q]
    by (cases "networkClientPeers s q") (auto simp: s1)
  ultimately show ?thesis
    using v f(2) c ir by (auto simp: s1)
qed

lemma retained_handle_keeps_peers_witness:
  "\<exists>r s1 v s2. retainTarget 1 connected = (Ret r, s1) \<and> releaseTarget 1 s1 = (v, s2) \<and>
     networkClientPeers s2 1 \<noteq> None \<and> targets s2 1 = None \<and> targets s2 r = Some (ExternalClient 0)"
proof -
  have "\<exists>s1. retainTarget 1 connected = (Ret 2, s1)"
    by (simp add: connected_eq retainTarget_def findTarget_def addTarget_def targets_init_def)
  then obtain s1 where run: "retainTarget 1 connected = (Ret 2, s1)" ..
  obtain v s2 where rel: "releaseTarget 1 s1 = (v, s2)" by fastforce
  have "id_room connected" by (simp add: id_room_def connected_eq)
  from retained_handle_keeps_peers [OF connected_inv this run rel] run rel
  show ?thesis by (intro exI [of _ 2] exI [of _ s1] exI [of _ v] exI [of _ s2]) (simp add: connected_eq)
qed

section \<open>Batch release\<close>

text \<open>The identifiers of a batch that the release acts on: 0 is skipped.\<close>

definition live_ids :: "u32 list \<Rightarrow> u32 list" where
  "live_ids ts = filter (\<lambda>t. t \<noteq> 0) ts"

lemma restrict_UNIV [simp]: "m |` UNIV = m"
  by (simp add: restrict_map_def)

lemma releaseTargets_Cons:
  "releaseTargets (i # ts) s = (if i = 0 then releaseTargets ts s else bnd (releaseTarget i) (\<lambda>_. releaseTargets ts) s)"
  by (simp add: releaseTargets_def bnd_def split: prod.splits outcome.splits)

text \<open>C6. A batch release returns exactly when its nonzero identifiers are distinct and all live,
  and then it has removed exactly them; otherwise it throws for the first one that is not (or no
  longer) live, with those before it released and nothing after it touched.\<close>

theorem releaseTargets_exact:
  assumes "targets_inv s"
  shows "case releaseTargets ts s of
      (Ret _, t) \<Rightarrow> distinct (live_ids ts) \<and> set (live_ids ts) \<subseteq> dom (targets s) \<and>
        targets t = targets s |` (- set (live_ids ts))
    | (Throw e, t) \<Rightarrow> (\<exists>pre i post. live_ids ts = pre @ i # post \<and> distinct pre \<and>
        set pre \<subseteq> dom (targets s) \<and> (targets s i = None \<or> i \<in> set pre) \<and>
        e = unknown_target i \<and> targets t = targets s |` (- set pre))
    | (Hang, t) \<Rightarrow> False"
  using assms
proof (induction ts arbitrary: s)
  case Nil
  then show ?case by (simp add: releaseTargets_def live_ids_def)
next
  case (Cons i ts)
  show ?case
  proof (cases "i = 0")
    case True
    then have "live_ids (i # ts) = live_ids ts" "releaseTargets (i # ts) s = releaseTargets ts s"
      by (simp_all add: live_ids_def releaseTargets_Cons)
    with Cons.IH [OF Cons.prems] show ?thesis by (simp only:)
  next
    case nz: False
    then have ids: "live_ids (i # ts) = i # live_ids ts" by (simp add: live_ids_def)
    show ?thesis
    proof (cases "targets s i")
      case None
      then have "releaseTargets (i # ts) s = (Throw (unknown_target i), s)"
        using releaseTarget_unknown [OF Cons.prems] nz by (simp add: releaseTargets_Cons)
      moreover have "targets s = targets s |` (- set [])" by simp
      ultimately show ?thesis using None ids by (auto intro!: exI [of _ "[]"])
    next
      case (Some c)
      then obtain t where rel: "releaseTarget i s = (Ret (), t)" and tg: "targets t = (targets s)(i := None)"
        and inv: "targets_inv t" using releaseTarget_known [OF Cons.prems] by blast
      have step: "releaseTargets (i # ts) s = releaseTargets ts t"
        using rel nz by (simp add: releaseTargets_Cons)
      have restrict: "targets t |` (- A) = targets s |` (- insert i A)" for A
        by (auto simp: tg restrict_map_def)
      obtain r u where run: "releaseTargets ts t = (r, u)" by fastforce
      note ih = Cons.IH [OF inv, unfolded run]
      show ?thesis
      proof (cases r)
        case (Ret a)
        with ih have "distinct (live_ids ts)" "set (live_ids ts) \<subseteq> dom (targets t)"
          "targets u = targets t |` (- set (live_ids ts))" by simp_all
        then show ?thesis
          using Some Ret by (auto simp: step run ids restrict tg Compl_insert split: if_splits)
      next
        case (Throw e)
        with ih obtain pre j post where *: "live_ids ts = pre @ j # post" "distinct pre"
          "set pre \<subseteq> dom (targets t)" "targets t j = None \<or> j \<in> set pre" "e = unknown_target j"
          "targets u = targets t |` (- set pre)" by auto
        have "set (i # pre) \<subseteq> dom (targets s)" "distinct (i # pre)"
          "targets u = targets s |` (- set (i # pre))" "targets s j = None \<or> j \<in> set (i # pre)"
          using * Some by (auto simp: restrict tg Compl_insert split: if_splits)
        moreover have "live_ids (i # ts) = (i # pre) @ j # post" by (simp add: ids *(1))
        ultimately show ?thesis
          using *(5) by (simp only: step run Throw prod.case outcome.case) blast
      next
        case Hang
        with ih show ?thesis by simp
      qed
    qed
  qed
qed

lemma releaseTargets_exact_witness:
  "case releaseTargets [0, 1] connected of
      (Ret _, t) \<Rightarrow> distinct (live_ids [0, 1]) \<and> set (live_ids [0, 1]) \<subseteq> dom (targets connected) \<and>
        targets t = targets connected |` (- set (live_ids [0, 1]))
    | (Throw e, t) \<Rightarrow> (\<exists>pre i post. live_ids [0, 1] = pre @ i # post \<and> distinct pre \<and>
        set pre \<subseteq> dom (targets connected) \<and> (targets connected i = None \<or> i \<in> set pre) \<and>
        e = unknown_target i \<and> targets t = targets connected |` (- set pre))
    | (Hang, t) \<Rightarrow> False"
  by (rule releaseTargets_exact [OF connected_inv])

section \<open>Registered servers and the wrapped counter\<close>

text \<open>A registered Lean handler knows the identifier it was registered under: the server behind
  the new target holds a cell of its own, and the cell contains that identifier.\<close>

theorem registered_handler_cell:
  assumes "registerHandlerTarget h s = (Ret i, t)"
  shows "targets s i = None \<and> (\<exists>cell. targets t = (targets s)(i \<mapsto> LeanCapabilityServer cell h) \<and>
    cell = length (idCells s) \<and> idCells t = idCells s @ [i])"
proof -
  from assms obtain n where "alloc_id (targets s) (nextTargetId s) = Some (i, n)"
    and "targets t = (targets s)(i \<mapsto> LeanCapabilityServer (length (idCells s)) h)"
    and "idCells t = (idCells s @ [0])[length (idCells s) := i]"
    by (auto simp: registerHandlerTarget_def registerWithCell_def bnd_def addTarget_def
        split: option.splits)
  then show ?thesis using alloc_id_Some by fastforce
qed

lemma registered_handler_cell_witness:
  "\<exists>i t cell. registerHandlerTarget 5 targets_init = (Ret i, t) \<and>
     targets t i = Some (LeanCapabilityServer cell 5) \<and> idCells t ! cell = i"
proof -
  have "\<exists>t. registerHandlerTarget 5 targets_init = (Ret 1, t)"
    by (simp add: registerHandlerTarget_def registerWithCell_def addTarget_def targets_init_def)
  then obtain t where run: "registerHandlerTarget 5 targets_init = (Ret 1, t)" ..
  from registered_handler_cell [OF run] run show ?thesis
    by (intro exI [of _ 1] exI [of _ t] exI [of _ 0]) (auto simp: targets_init_def)
qed

text \<open>C7. The counter is a 32-bit value that wraps, and the allocation loop skips only identifiers
  in use, so the identifier 0 is handed out after the last one. 0 means the null capability
  everywhere else: the batch release, for one, ignores it, and the target stays.\<close>

theorem addTarget_hands_out_null:
  assumes "nextTargetId s = - 1" and "targets s (- 1) = None" and "targets s 0 = None"
  shows "\<exists>t u. addTarget c s = (Ret (- 1), t) \<and> addTarget d t = (Ret 0, u) \<and>
    targets u 0 = Some d \<and> releaseTargets [0] u = (Ret (), u)"
  using assms by (simp add: addTarget_def releaseTargets_def)

lemma addTarget_hands_out_null_witness:
  "\<exists>t u. addTarget LoopbackCapabilityServer (targets_init\<lparr>nextTargetId := - 1\<rparr>) = (Ret (- 1), t) \<and>
     addTarget FdProbeCapabilityServer t = (Ret 0, u) \<and>
     targets u 0 = Some FdProbeCapabilityServer \<and> releaseTargets [0] u = (Ret (), u)"
  by (rule addTarget_hands_out_null) (simp_all add: targets_init_def)

end
