(* ===== verification/Promise_Caps.thy ===== *)
theory Promise_Caps
  imports Target_Facts
begin

text \<open>
  Promise capabilities: a target whose client resolves later, the fulfiller that resolves
  it, and the hold that delays resolutions until they are flushed, in order.
\<close>

section \<open>State\<close>

record pending_promise_capability =
  fulfiller :: obj
  promiseTarget :: u32

record held_resolve =
  held_fulfillerId :: u32
  held_target :: u32

record promise_caps_state = targets_state +
  promiseCapabilityFulfillers :: "u32 \<rightharpoonup> pending_promise_capability"
  nextPromiseCapabilityFulfillerId :: u32
  heldPromiseCapabilityResolves :: "held_resolve list"
  heldPromiseCapabilityFulfillerIds :: "u32 set"
  holdPromiseCapabilityResolves :: bool

definition unknown_fulfiller :: "u32 \<Rightarrow> exn" where
  "unknown_fulfiller f = StdEx (''unknown RPC promise capability fulfiller id: '' @ to_string f)"

section \<open>Operations\<close>

definition addPromiseCapabilityFulfiller :: "pending_promise_capability
    \<Rightarrow> 'z promise_caps_state_scheme \<Rightarrow> (exn, u32) outcome \<times> 'z promise_caps_state_scheme" where
  "addPromiseCapabilityFulfiller p s =
     (case alloc_id (promiseCapabilityFulfillers s) (nextPromiseCapabilityFulfillerId s) of
        None \<Rightarrow> (Hang, s)
      | Some (fulfillerId, nxt) \<Rightarrow>
          (Ret fulfillerId, s\<lparr>nextPromiseCapabilityFulfillerId := nxt,
             promiseCapabilityFulfillers := (promiseCapabilityFulfillers s)(fulfillerId \<mapsto> p)\<rparr>))"

definition newPromiseCapability :: "env
    \<Rightarrow> 'z promise_caps_state_scheme \<Rightarrow> (exn, u32 \<times> u32) outcome \<times> 'z promise_caps_state_scheme" where
  "newPromiseCapability env =
     bnd (call (ask_pair env) NewPromiseAndFulfiller) (\<lambda>(prom, ful).
     bnd (addTarget (PromiseClient prom)) (\<lambda>targetId.
     bnd (addPromiseCapabilityFulfiller \<lparr>fulfiller = ful, promiseTarget = targetId\<rparr>) (\<lambda>fulfillerId.
     ret (targetId, fulfillerId))))"

definition promiseCapabilityFulfillNow :: "u32 \<Rightarrow> u32
    \<Rightarrow> 'z promise_caps_state_scheme \<Rightarrow> (exn, unit) outcome \<times> 'z promise_caps_state_scheme" where
  "promiseCapabilityFulfillNow fulfillerId target =
     bnd (find_or promiseCapabilityFulfillers fulfillerId (unknown_fulfiller fulfillerId)) (\<lambda>p.
     if target = 0 then throw (StdEx ''cannot fulfill promise capability with null target'')
     else if target = promiseTarget p
       then throw (StdEx ''cannot fulfill promise capability with itself'')
     else bnd (findTarget target) (\<lambda>cap.
       sq (tell (Fulfill (fulfiller p) cap))
       (modify (\<lambda>s. s\<lparr>promiseCapabilityFulfillers :=
          (promiseCapabilityFulfillers s)(fulfillerId := None)\<rparr>))))"

definition promiseCapabilityFulfill :: "u32 \<Rightarrow> u32
    \<Rightarrow> 'z promise_caps_state_scheme \<Rightarrow> (exn, unit) outcome \<times> 'z promise_caps_state_scheme" where
  "promiseCapabilityFulfill fulfillerId target s =
     (if fulfillerId \<in> heldPromiseCapabilityFulfillerIds s
        then throw (StdEx ''promise capability fulfiller already has a held resolve'') s
      else if \<not> holdPromiseCapabilityResolves s
        then promiseCapabilityFulfillNow fulfillerId target s
      else bnd (find_or promiseCapabilityFulfillers fulfillerId (unknown_fulfiller fulfillerId)) (\<lambda>p.
        if target = 0 then throw (StdEx ''cannot fulfill promise capability with null target'')
        else if target = promiseTarget p
          then throw (StdEx ''cannot fulfill promise capability with itself'')
        else bnd (findTarget target) (\<lambda>_.
          modify (\<lambda>s. s\<lparr>
            heldPromiseCapabilityResolves := heldPromiseCapabilityResolves s @
              [\<lparr>held_fulfillerId = fulfillerId, held_target = target\<rparr>],
            heldPromiseCapabilityFulfillerIds :=
              insert fulfillerId (heldPromiseCapabilityFulfillerIds s)\<rparr>))) s)"

text \<open>The first entry of the fulfiller leaves the queue.\<close>

fun erase_held :: "u32 \<Rightarrow> held_resolve list \<Rightarrow> held_resolve list" where
  "erase_held f [] = []"
| "erase_held f (h # hs) = (if held_fulfillerId h = f then hs else h # erase_held f hs)"

definition dropHeldPromiseCapabilityResolve :: "u32
    \<Rightarrow> 'z promise_caps_state_scheme \<Rightarrow> 'z promise_caps_state_scheme" where
  "dropHeldPromiseCapabilityResolve fulfillerId s =
     (if fulfillerId \<notin> heldPromiseCapabilityFulfillerIds s then s
      else s\<lparr>heldPromiseCapabilityFulfillerIds := heldPromiseCapabilityFulfillerIds s - {fulfillerId},
             heldPromiseCapabilityResolves := erase_held fulfillerId (heldPromiseCapabilityResolves s)\<rparr>)"

text \<open>The hold's queue is not touched by a resolution; the flush loop ends because of it.\<close>

lemma fulfillNow_held [simp]:
  assumes "promiseCapabilityFulfillNow f t s = (r, s')"
  shows "heldPromiseCapabilityResolves s' = heldPromiseCapabilityResolves s"
    and "heldPromiseCapabilityFulfillerIds s' = heldPromiseCapabilityFulfillerIds s"
    and "holdPromiseCapabilityResolves s' = holdPromiseCapabilityResolves s"
    and "targets s' = targets s"
  using assms
  by (auto simp: promiseCapabilityFulfillNow_def findTarget_def find_or_def bnd_def throw_def tell_def
      modify_def split: option.splits if_splits)

text \<open>The loop of \<^verbatim>\<open>flushHeldPromiseCapabilityResolves\<close>, with the count so far.\<close>

function flush_from :: "u64 \<Rightarrow> 'z promise_caps_state_scheme
    \<Rightarrow> (exn, u64) outcome \<times> 'z promise_caps_state_scheme" where
  "flush_from flushed s = (case heldPromiseCapabilityResolves s of
      [] \<Rightarrow> (Ret flushed, s)
    | request # rest \<Rightarrow>
        (case promiseCapabilityFulfillNow (held_fulfillerId request) (held_target request)
            (s\<lparr>heldPromiseCapabilityResolves := rest,
               heldPromiseCapabilityFulfillerIds :=
                 heldPromiseCapabilityFulfillerIds s - {held_fulfillerId request}\<rparr>) of
          (Ret _, s') \<Rightarrow> flush_from (flushed + 1) s'
        | (Throw e, s') \<Rightarrow> (Throw e, s')
        | (Hang, s') \<Rightarrow> (Hang, s')))"
  by pat_completeness auto
termination
proof (relation "measure (\<lambda>(n, s). length (heldPromiseCapabilityResolves s))", goal_cases)
  case 1
  show ?case by simp
next
  case (2 flushed s request rest x s' a)
  have "heldPromiseCapabilityResolves s' = rest"
    using fulfillNow_held(1) [OF 2(2) [unfolded 2(3), symmetric]] by simp
  with 2(1) show ?case by simp
qed

declare flush_from.simps [simp del]

definition flushHeldPromiseCapabilityResolves :: "'z promise_caps_state_scheme
    \<Rightarrow> (exn, u64) outcome \<times> 'z promise_caps_state_scheme" where
  "flushHeldPromiseCapabilityResolves = flush_from 0"

definition setResolveHoldEnabled :: "bool \<Rightarrow> 'z promise_caps_state_scheme \<Rightarrow> 'z promise_caps_state_scheme"
  where
  "setResolveHoldEnabled enabled s = s\<lparr>holdPromiseCapabilityResolves := enabled\<rparr>"

definition heldResolveCount :: "'z promise_caps_state_scheme \<Rightarrow> u64" where
  "heldResolveCount s = of_nat (length (heldPromiseCapabilityResolves s))"

definition promiseCapabilityReject :: "u32 \<Rightarrow> u8 \<Rightarrow> string \<Rightarrow> u8 list
    \<Rightarrow> 'z promise_caps_state_scheme \<Rightarrow> (exn, unit) outcome \<times> 'z promise_caps_state_scheme" where
  "promiseCapabilityReject fulfillerId exceptionTypeTag message detailBytes =
     sq (modify (dropHeldPromiseCapabilityResolve fulfillerId))
     (bnd (find_or promiseCapabilityFulfillers fulfillerId (unknown_fulfiller fulfillerId)) (\<lambda>p.
      sq (tell (RejectWith (fulfiller p)
            (mk_exception (decodeRemoteExceptionType exceptionTypeTag) message detailBytes)))
      (modify (\<lambda>s. s\<lparr>promiseCapabilityFulfillers :=
          (promiseCapabilityFulfillers s)(fulfillerId := None)\<rparr>))))"

definition promiseCapabilityRelease :: "u32
    \<Rightarrow> 'z promise_caps_state_scheme \<Rightarrow> (exn, unit) outcome \<times> 'z promise_caps_state_scheme" where
  "promiseCapabilityRelease fulfillerId =
     sq (modify (dropHeldPromiseCapabilityResolve fulfillerId))
     (bnd (gets (\<lambda>s. promiseCapabilityFulfillers s fulfillerId)) (\<lambda>found.
      case found of
        None \<Rightarrow> ret ()
      | Some p \<Rightarrow>
          sq (tell (RejectWith (fulfiller p)
                (mk_exception DISCONNECTED ''promise capability fulfiller released'' [])))
          (modify (\<lambda>s. s\<lparr>promiseCapabilityFulfillers :=
              (promiseCapabilityFulfillers s)(fulfillerId := None)\<rparr>))))"

section \<open>The fulfillers as an identifier table\<close>

interpretation fulfiller_table: id_table promiseCapabilityFulfillers nextPromiseCapabilityFulfillerId
    addPromiseCapabilityFulfiller
  by unfold_locales (auto simp: addPromiseCapabilityFulfiller_def)

section \<open>The hold's invariant\<close>

text \<open>
  The set of held fulfillers is the set of those in the queue, each at most once, and every
  held resolution is one that \<^verbatim>\<open>promiseCapabilityFulfillNow\<close> accepts but for the
  target's being still there.
\<close>

definition acceptable :: "(u32 \<rightharpoonup> pending_promise_capability) \<Rightarrow> held_resolve \<Rightarrow> bool" where
  "acceptable ful h \<longleftrightarrow> (\<exists>p. ful (held_fulfillerId h) = Some p \<and> held_target h \<noteq> 0 \<and>
     held_target h \<noteq> promiseTarget p)"

definition held_inv :: "'z promise_caps_state_scheme \<Rightarrow> bool" where
  "held_inv s \<longleftrightarrow>
     distinct (map held_fulfillerId (heldPromiseCapabilityResolves s)) \<and>
     heldPromiseCapabilityFulfillerIds s = held_fulfillerId ` set (heldPromiseCapabilityResolves s) \<and>
     (\<forall>h \<in> set (heldPromiseCapabilityResolves s). acceptable (promiseCapabilityFulfillers s) h)"

lemma erase_held_filter:
  "distinct (map held_fulfillerId hs) \<Longrightarrow> erase_held f hs = filter (\<lambda>h. held_fulfillerId h \<noteq> f) hs"
proof (induction hs)
  case (Cons h hs)
  then show ?case
    by (auto simp: image_iff intro!: filter_True [symmetric])
qed simp

lemma drop_held:
  assumes "held_inv s"
  shows "heldPromiseCapabilityResolves (dropHeldPromiseCapabilityResolve f s) =
      filter (\<lambda>h. held_fulfillerId h \<noteq> f) (heldPromiseCapabilityResolves s)"
    and "held_inv (dropHeldPromiseCapabilityResolve f s)"
    and "f \<notin> heldPromiseCapabilityFulfillerIds (dropHeldPromiseCapabilityResolve f s)"
    and "promiseCapabilityFulfillers (dropHeldPromiseCapabilityResolve f s) = promiseCapabilityFulfillers s"
proof -
  have er: "erase_held f (heldPromiseCapabilityResolves s) =
      filter (\<lambda>h. held_fulfillerId h \<noteq> f) (heldPromiseCapabilityResolves s)"
    using assms by (simp add: held_inv_def erase_held_filter)
  show res: "heldPromiseCapabilityResolves (dropHeldPromiseCapabilityResolve f s) =
      filter (\<lambda>h. held_fulfillerId h \<noteq> f) (heldPromiseCapabilityResolves s)"
  proof (cases "f \<in> heldPromiseCapabilityFulfillerIds s")
    case False
    with assms show ?thesis
      by (auto simp: dropHeldPromiseCapabilityResolve_def held_inv_def intro!: filter_True [symmetric])
  qed (simp add: dropHeldPromiseCapabilityResolve_def er)
  show "promiseCapabilityFulfillers (dropHeldPromiseCapabilityResolve f s) = promiseCapabilityFulfillers s"
    by (simp add: dropHeldPromiseCapabilityResolve_def)
  have ids: "heldPromiseCapabilityFulfillerIds (dropHeldPromiseCapabilityResolve f s) =
      heldPromiseCapabilityFulfillerIds s - {f}"
    by (auto simp: dropHeldPromiseCapabilityResolve_def)
  then show "f \<notin> heldPromiseCapabilityFulfillerIds (dropHeldPromiseCapabilityResolve f s)" by simp
  show "held_inv (dropHeldPromiseCapabilityResolve f s)"
    using assms unfolding held_inv_def ids res
    by (auto simp: distinct_map_filter dropHeldPromiseCapabilityResolve_def)
qed

text \<open>Resolving a fulfiller that has no held resolution keeps the invariant.\<close>

lemma held_inv_resolved:
  assumes "held_inv s" and "f \<notin> heldPromiseCapabilityFulfillerIds s"
  shows "held_inv (s\<lparr>log := l, promiseCapabilityFulfillers := (promiseCapabilityFulfillers s)(f := None)\<rparr>)"
  using assms by (auto simp: held_inv_def acceptable_def)

lemma held_inv_log [simp]: "held_inv (s\<lparr>log := l\<rparr>) = held_inv s"
  by (simp add: held_inv_def)

text \<open>What the two resolving operations do, by cases.\<close>

lemma fulfillNow_cases:
  assumes "promiseCapabilityFulfillNow f t s = (r, s')"
  obtains (Done) p cap where "promiseCapabilityFulfillers s f = Some p" "t \<noteq> 0" "t \<noteq> promiseTarget p"
      "targets s t = Some cap" "r = Ret ()" "s' = s\<lparr>log := log s @ [Fulfill (fulfiller p) cap],
         promiseCapabilityFulfillers := (promiseCapabilityFulfillers s)(f := None)\<rparr>"
    | (Refused) e where "r = Throw e" "s' = s" "\<And>p. promiseCapabilityFulfillers s f = Some p \<Longrightarrow>
        t \<noteq> 0 \<Longrightarrow> t \<noteq> promiseTarget p \<Longrightarrow> targets s t = None \<and> e = unknown_target t"
proof (cases "promiseCapabilityFulfillers s f")
  case None
  with assms show thesis
    by (intro Refused [of "unknown_fulfiller f"]) (simp_all add: promiseCapabilityFulfillNow_def)
next
  case (Some p)
  show thesis
  proof (cases "t = 0 \<or> t = promiseTarget p")
    case True
    with assms Some show thesis
      by (cases "t = 0") (auto simp: promiseCapabilityFulfillNow_def intro: Refused)
  next
    case False
    show thesis
    proof (cases "targets s t")
      case None
      with assms Some False show thesis
        by (intro Refused [of "unknown_target t"]) (simp_all add: promiseCapabilityFulfillNow_def findTarget_def)
    next
      case (Some cap)
      with assms False \<open>promiseCapabilityFulfillers s f = Some p\<close> show thesis
        by (intro Done [of p cap]) (simp_all add: promiseCapabilityFulfillNow_def findTarget_def)
    qed
  qed
qed

lemma fulfillNow_inv:
  assumes "held_inv s" and "f \<notin> heldPromiseCapabilityFulfillerIds s"
    and "promiseCapabilityFulfillNow f t s = (r, s')"
  shows "held_inv s'"
  using assms(3)
  by (cases rule: fulfillNow_cases) (simp_all add: assms(1) held_inv_resolved [OF assms(1,2)])

lemma fulfill_cases:
  assumes "promiseCapabilityFulfill f t s = (r, s')"
  obtains (Now) "f \<notin> heldPromiseCapabilityFulfillerIds s" "\<not> holdPromiseCapabilityResolves s"
      "promiseCapabilityFulfillNow f t s = (r, s')"
    | (Held) p where "f \<notin> heldPromiseCapabilityFulfillerIds s" "holdPromiseCapabilityResolves s"
        "promiseCapabilityFulfillers s f = Some p" "t \<noteq> 0" "t \<noteq> promiseTarget p" "r = Ret ()"
        "s' = s\<lparr>heldPromiseCapabilityResolves := heldPromiseCapabilityResolves s @
              [\<lparr>held_fulfillerId = f, held_target = t\<rparr>],
            heldPromiseCapabilityFulfillerIds := insert f (heldPromiseCapabilityFulfillerIds s)\<rparr>"
    | (Refused) e where "r = Throw e" "s' = s"
proof (cases "f \<in> heldPromiseCapabilityFulfillerIds s")
  case True
  with assms show thesis by (auto simp: promiseCapabilityFulfill_def intro: Refused)
next
  case out: False
  show thesis
  proof (cases "holdPromiseCapabilityResolves s")
    case False
    with out assms show thesis by (intro Now) (simp_all add: promiseCapabilityFulfill_def)
  next
    case True
    show thesis
    proof (cases "promiseCapabilityFulfillers s f")
      case None
      with out True assms show thesis
        by (intro Refused [of "unknown_fulfiller f"]) (simp_all add: promiseCapabilityFulfill_def)
    next
      case (Some p)
      show thesis
      proof (cases "t = 0 \<or> t = promiseTarget p \<or> targets s t = None")
        case True
        with out \<open>holdPromiseCapabilityResolves s\<close> assms Some show thesis
          by (cases "t = 0"; cases "t = promiseTarget p")
            (auto simp: promiseCapabilityFulfill_def findTarget_def intro: Refused)
      next
        case False
        then obtain cap where "targets s t = Some cap" by blast
        with out True assms Some False show thesis
          by (intro Held [of p]) (simp_all add: promiseCapabilityFulfill_def findTarget_def)
      qed
    qed
  qed
qed

lemma fulfill_inv:
  assumes "held_inv s" and "promiseCapabilityFulfill f t s = (r, s')"
  shows "held_inv s'"
  using assms(2)
proof (cases rule: fulfill_cases)
  case Now
  then show ?thesis by (metis fulfillNow_inv assms(1))
next
  case (Held p)
  with assms(1) show ?thesis by (auto simp: held_inv_def acceptable_def)
qed (use assms(1) in simp)

text \<open>The request at the front of the queue, taken out.\<close>

definition popped :: "held_resolve \<Rightarrow> held_resolve list \<Rightarrow> 'z promise_caps_state_scheme
    \<Rightarrow> 'z promise_caps_state_scheme" where
  "popped h hs s = s\<lparr>heldPromiseCapabilityResolves := hs,
     heldPromiseCapabilityFulfillerIds := heldPromiseCapabilityFulfillerIds s - {held_fulfillerId h}\<rparr>"

lemma popped_inv:
  assumes "held_inv s" and "heldPromiseCapabilityResolves s = h # hs"
  shows "held_inv (popped h hs s)" and "held_fulfillerId h \<notin> heldPromiseCapabilityFulfillerIds (popped h hs s)"
  using assms by (auto simp: held_inv_def popped_def)

lemma flush_Nil [simp]: "heldPromiseCapabilityResolves s = [] \<Longrightarrow> flush_from n s = (Ret n, s)"
  by (simp add: flush_from.simps)

lemma flush_Cons:
  assumes "heldPromiseCapabilityResolves s = h # hs"
  shows "flush_from n s =
    bnd (promiseCapabilityFulfillNow (held_fulfillerId h) (held_target h)) (\<lambda>_. flush_from (n + 1)) (popped h hs s)"
  by (subst flush_from.simps) (simp add: assms bnd_def popped_def)

lemma flush_inv:
  "held_inv s \<Longrightarrow> flush_from n s = (r, t) \<Longrightarrow> held_inv t"
proof (induction "heldPromiseCapabilityResolves s" arbitrary: s n)
  case Nil
  then show ?case by simp
next
  case (Cons h hs)
  note pop = popped_inv [OF Cons.prems(1) Cons.hyps(2) [symmetric]]
  obtain u s' where now: "promiseCapabilityFulfillNow (held_fulfillerId h) (held_target h) (popped h hs s) = (u, s')"
    by fastforce
  have inv: "held_inv s'" by (rule fulfillNow_inv [OF pop now])
  have hs: "heldPromiseCapabilityResolves s' = hs"
    using fulfillNow_held(1) [OF now] by (simp add: popped_def)
  show ?case
  proof (cases u)
    case (Ret a)
    then have "flush_from (n + 1) s' = (r, t)"
      using Cons.prems(2) now by (simp add: flush_Cons [OF Cons.hyps(2) [symmetric]])
    with Cons.hyps(1) [of s'] hs inv show ?thesis by simp
  qed (use Cons.prems(2) now inv in \<open>auto simp: flush_Cons [OF Cons.hyps(2) [symmetric]]\<close>)
qed

lemma reject_inv:
  assumes "held_inv s" and "promiseCapabilityReject f k m d s = (r, s')"
  shows "held_inv s'"
  using assms(2) drop_held(2,3) [OF assms(1), of f] held_inv_resolved [OF drop_held(2,3) [OF assms(1), of f]]
  by (auto simp: promiseCapabilityReject_def find_or_def bnd_def split: option.splits)

lemma release_inv:
  assumes "held_inv s" and "promiseCapabilityRelease f s = (r, s')"
  shows "held_inv s'"
  using assms(2) drop_held(2,3) [OF assms(1), of f] held_inv_resolved [OF drop_held(2,3) [OF assms(1), of f]]
  by (auto simp: promiseCapabilityRelease_def split: option.splits)

lemma held_inv_add:
  assumes "held_inv s" and "addPromiseCapabilityFulfiller p s = (r, t)"
  shows "held_inv t"
proof (cases "alloc_id (promiseCapabilityFulfillers s) (nextPromiseCapabilityFulfillerId s)")
  case (Some x)
  obtain i n where x: "x = (i, n)" by fastforce
  have free: "promiseCapabilityFulfillers s i = None" using alloc_id_Some Some x by blast
  have "acceptable ((promiseCapabilityFulfillers s)(i \<mapsto> p)) h"
    if "acceptable (promiseCapabilityFulfillers s) h" for h
    using that free by (auto simp: acceptable_def)
  with assms Some x show ?thesis
    by (auto simp: addPromiseCapabilityFulfiller_def held_inv_def)
qed (use assms in \<open>simp add: addPromiseCapabilityFulfiller_def\<close>)

text \<open>The hold does not look at the capability table.\<close>

definition hold_part :: "'z promise_caps_state_scheme \<Rightarrow> (u32 \<rightharpoonup> pending_promise_capability)
    \<times> held_resolve list \<times> u32 set" where
  "hold_part s = (promiseCapabilityFulfillers s, heldPromiseCapabilityResolves s,
     heldPromiseCapabilityFulfillerIds s)"

lemma held_inv_part: "hold_part t = hold_part s \<Longrightarrow> held_inv t = held_inv s"
  by (simp add: hold_part_def held_inv_def)

lemma hold_part_addTarget: "addTarget c s = (r, t) \<Longrightarrow> hold_part t = hold_part s"
  by (auto simp: addTarget_def hold_part_def split: option.splits)

lemma new_inv:
  assumes "held_inv s" and "newPromiseCapability env s = (r, t)"
  shows "held_inv t"
proof -
  have tail: "held_inv t"
    if "held_inv u" "bnd (addPromiseCapabilityFulfiller p) (\<lambda>f. ret (i, f)) u = (r, t)" for p i u
    using that(2) by (cases rule: bnd_cases) (use that(1) held_inv_add in \<open>fastforce\<close>)+
  have add: "held_inv t"
    if "held_inv u" "bnd (addTarget c) (\<lambda>i. bnd (addPromiseCapabilityFulfiller (p i)) (\<lambda>f. ret (i, f))) u = (r, t)"
    for c p u
    using that(2)
    by (cases rule: bnd_cases) (use that(1) tail hold_part_addTarget held_inv_part in blast)+
  have pair: "held_inv t"
    if "held_inv u" "(case x of (a, b) \<Rightarrow> bnd (addTarget (PromiseClient a)) (\<lambda>i.
      bnd (addPromiseCapabilityFulfiller \<lparr>fulfiller = b, promiseTarget = i\<rparr>) (\<lambda>f. ret (i, f)))) u = (r, t)"
    for x u
    using that(2) by (cases x) (simp, rule add [OF that(1)])
  from assms(2) show ?thesis
    unfolding newPromiseCapability_def
  proof (cases rule: bnd_cases)
    case (Ret x u)
    then have "held_inv u" by (auto elim!: call_cases simp: assms(1))
    then show ?thesis using Ret(2) by (rule pair)
  qed (auto elim!: call_cases simp: assms(1))
qed

section \<open>Runs of the promise capabilities\<close>

text \<open>\<open>rest\<close> is whatever the other components do: it leaves the hold's part alone.\<close>

inductive hold_run :: "env \<Rightarrow> 'z promise_caps_state_scheme \<Rightarrow> 'z promise_caps_state_scheme \<Rightarrow> bool"
  for env s0 where
  start: "hold_run env s0 s0"
| new: "hold_run env s0 s \<Longrightarrow> newPromiseCapability env s = (r, t) \<Longrightarrow> hold_run env s0 t"
| fulfill: "hold_run env s0 s \<Longrightarrow> promiseCapabilityFulfill f target s = (u, t) \<Longrightarrow> hold_run env s0 t"
| reject: "hold_run env s0 s \<Longrightarrow> promiseCapabilityReject f k m d s = (u, t) \<Longrightarrow> hold_run env s0 t"
| release: "hold_run env s0 s \<Longrightarrow> promiseCapabilityRelease f s = (u, t) \<Longrightarrow> hold_run env s0 t"
| flush: "hold_run env s0 s \<Longrightarrow> flushHeldPromiseCapabilityResolves s = (n, t) \<Longrightarrow> hold_run env s0 t"
| hold: "hold_run env s0 s \<Longrightarrow> hold_run env s0 (setResolveHoldEnabled b s)"
| rest: "hold_run env s0 s \<Longrightarrow> hold_part t = hold_part s \<Longrightarrow> hold_run env s0 t"

definition promise_caps_init :: promise_caps_state where
  "promise_caps_init = targets_state.extend targets_init
     \<lparr>promiseCapabilityFulfillers = Map.empty, nextPromiseCapabilityFulfillerId = 1,
      heldPromiseCapabilityResolves = [], heldPromiseCapabilityFulfillerIds = {},
      holdPromiseCapabilityResolves = False\<rparr>"

lemmas promise_caps_init_simps = promise_caps_init_def targets_state.extend_def targets_init_def

lemma promise_caps_init_inv: "held_inv promise_caps_init"
  by (simp add: held_inv_def promise_caps_init_simps)

text \<open>C8. However promise capabilities are made, fulfilled, rejected, released, held and flushed,
  and whatever the rest of the runtime does in between: each fulfiller has at most one held
  resolution, the set that guards this agrees with the queue, and every held resolution is for a
  live fulfiller, with a target that is neither null nor the promise itself.\<close>

theorem hold_run_inv: "hold_run env s0 s \<Longrightarrow> held_inv s0 \<Longrightarrow> held_inv s"
proof (induction rule: hold_run.induct)
  case (hold s b)
  then show ?case by (simp add: setResolveHoldEnabled_def held_inv_def)
next
  case (rest s t)
  then show ?case using held_inv_part by blast
qed (auto simp: flushHeldPromiseCapabilityResolves_def
    intro: new_inv fulfill_inv reject_inv release_inv flush_inv)

lemma hold_run_inv_witness:
  "held_inv (snd (promiseCapabilityRelease 1 (setResolveHoldEnabled True promise_caps_init)))"
proof -
  obtain u t where run: "promiseCapabilityRelease 1 (setResolveHoldEnabled True promise_caps_init) = (u, t)"
    by fastforce
  from hold_run_inv [OF hold_run.release [OF hold_run.hold [OF hold_run.start] run] promise_caps_init_inv]
  show ?thesis by (simp add: run)
qed

section \<open>Flushing\<close>

text \<open>The resolution that a held entry stands for, in a state where it can be made.\<close>

definition resolution :: "'z promise_caps_state_scheme \<Rightarrow> held_resolve \<Rightarrow> ext_call" where
  "resolution s h = Fulfill (fulfiller (the (promiseCapabilityFulfillers s (held_fulfillerId h))))
     (the (targets s (held_target h)))"

definition live_request :: "'z promise_caps_state_scheme \<Rightarrow> held_resolve \<Rightarrow> bool" where
  "live_request s h \<longleftrightarrow> targets s (held_target h) \<noteq> None"

lemma fulfillNow_live:
  assumes "acceptable (promiseCapabilityFulfillers s) h" and "live_request s h"
  shows "promiseCapabilityFulfillNow (held_fulfillerId h) (held_target h) s = (Ret (),
    s\<lparr>log := log s @ [resolution s h], promiseCapabilityFulfillers :=
      (promiseCapabilityFulfillers s)(held_fulfillerId h := None)\<rparr>)"
proof -
  from assms obtain p cap where "promiseCapabilityFulfillers s (held_fulfillerId h) = Some p"
    "held_target h \<noteq> 0" "held_target h \<noteq> promiseTarget p" "targets s (held_target h) = Some cap"
    by (auto simp: acceptable_def live_request_def)
  then show ?thesis by (simp add: promiseCapabilityFulfillNow_def findTarget_def resolution_def)
qed

lemma flush_live_prefix:
  "held_inv s \<Longrightarrow> heldPromiseCapabilityResolves s = pre @ post \<Longrightarrow> \<forall>h \<in> set pre. live_request s h \<Longrightarrow>
   flush_from n s = flush_from (n + of_nat (length pre)) (s\<lparr>
     log := log s @ map (resolution s) pre,
     promiseCapabilityFulfillers := promiseCapabilityFulfillers s |` (- held_fulfillerId ` set pre),
     heldPromiseCapabilityResolves := post,
     heldPromiseCapabilityFulfillerIds := held_fulfillerId ` set post\<rparr>)"
proof (induction pre arbitrary: s n)
  case Nil
  then have "post = heldPromiseCapabilityResolves s"
    and "held_fulfillerId ` set post = heldPromiseCapabilityFulfillerIds s"
    by (simp_all add: held_inv_def)
  then have eq: "s\<lparr>log := log s @ map (resolution s) [],
     promiseCapabilityFulfillers := promiseCapabilityFulfillers s |` (- held_fulfillerId ` set []),
     heldPromiseCapabilityResolves := post,
     heldPromiseCapabilityFulfillerIds := held_fulfillerId ` set post\<rparr> = s"
    by (simp add: restrict_map_def)
  show ?case by (subst eq) simp
next
  case (Cons h pre)
  let ?hs = "pre @ post"
  have q: "heldPromiseCapabilityResolves s = h # ?hs" using Cons.prems(2) by simp
  note pop = popped_inv [OF Cons.prems(1) q]
  have acc: "acceptable (promiseCapabilityFulfillers (popped h ?hs s)) h"
    using Cons.prems(1) q by (simp add: held_inv_def popped_def)
  have live: "live_request (popped h ?hs s) h"
    using Cons.prems(3) by (simp add: live_request_def popped_def)
  define u where "u = (popped h ?hs s)\<lparr>log := log s @ [resolution s h], promiseCapabilityFulfillers :=
      (promiseCapabilityFulfillers s)(held_fulfillerId h := None)\<rparr>"
  have now: "promiseCapabilityFulfillNow (held_fulfillerId h) (held_target h) (popped h ?hs s) = (Ret (), u)"
    using fulfillNow_live [OF acc live] by (simp add: u_def popped_def resolution_def)
  have inv: "held_inv u" by (rule fulfillNow_inv [OF pop now])
  have hu: "heldPromiseCapabilityResolves u = pre @ post" by (simp add: u_def popped_def)
  have lu: "\<forall>h \<in> set pre. live_request u h"
    using Cons.prems(3) by (simp add: live_request_def u_def popped_def)
  have same: "map (resolution u) pre = map (resolution s) pre"
  proof (rule map_cong [OF refl])
    fix x assume "x \<in> set pre"
    then have "held_fulfillerId x \<in> held_fulfillerId ` set pre" by simp
    moreover have "held_fulfillerId h \<notin> held_fulfillerId ` set pre"
      using Cons.prems(1) q by (simp add: held_inv_def)
    ultimately have "held_fulfillerId x \<noteq> held_fulfillerId h" by metis
    then show "resolution u x = resolution s x" by (simp add: resolution_def u_def popped_def)
  qed
  have "flush_from n s = flush_from (n + 1) u"
    by (simp add: flush_Cons [OF q] now)
  also have "\<dots> = flush_from (n + 1 + of_nat (length pre)) (u\<lparr>
     log := log u @ map (resolution u) pre,
     promiseCapabilityFulfillers := promiseCapabilityFulfillers u |` (- held_fulfillerId ` set pre),
     heldPromiseCapabilityResolves := post,
     heldPromiseCapabilityFulfillerIds := held_fulfillerId ` set post\<rparr>)"
    by (rule Cons.IH [OF inv hu lu])
  also have "promiseCapabilityFulfillers u |` (- held_fulfillerId ` set pre) =
      promiseCapabilityFulfillers s |` (- held_fulfillerId ` set (h # pre))"
    by (auto simp: u_def restrict_map_def)
  finally show ?case
    by (simp add: same) (simp add: u_def popped_def ac_simps)
qed

text \<open>C9. When the targets of all held resolutions are still there, a flush makes every one of
  them, in the order in which they were held, each exactly once; it returns their number, and
  leaves the queue empty and exactly those fulfillers gone.\<close>

theorem flush_fifo:
  assumes "held_inv s" and "\<forall>h \<in> set (heldPromiseCapabilityResolves s). live_request s h"
  shows "flushHeldPromiseCapabilityResolves s = (Ret (heldResolveCount s), s\<lparr>
     log := log s @ map (resolution s) (heldPromiseCapabilityResolves s),
     promiseCapabilityFulfillers := promiseCapabilityFulfillers s |` (- heldPromiseCapabilityFulfillerIds s),
     heldPromiseCapabilityResolves := [], heldPromiseCapabilityFulfillerIds := {}\<rparr>)"
  using flush_live_prefix [OF assms(1), of "heldPromiseCapabilityResolves s" "[]" 0] assms
  by (simp add: flushHeldPromiseCapabilityResolves_def heldResolveCount_def held_inv_def)

text \<open>A flush that meets a held resolution whose target has been released meanwhile throws
  there: the resolutions before it are made, those after it stay held, and the failing one is
  gone from the queue while its fulfiller stays unresolved.\<close>

theorem flush_drops_failing:
  assumes "held_inv s" and "heldPromiseCapabilityResolves s = pre @ h # post"
    and "\<forall>x \<in> set pre. live_request s x" and "\<not> live_request s h"
  shows "\<exists>t. flushHeldPromiseCapabilityResolves s = (Throw (unknown_target (held_target h)), t) \<and>
    log t = log s @ map (resolution s) pre \<and> heldPromiseCapabilityResolves t = post \<and>
    held_fulfillerId h \<notin> heldPromiseCapabilityFulfillerIds t \<and>
    promiseCapabilityFulfillers t (held_fulfillerId h) = promiseCapabilityFulfillers s (held_fulfillerId h) \<and>
    promiseCapabilityFulfillers s (held_fulfillerId h) \<noteq> None"
proof -
  let ?u = "s\<lparr>log := log s @ map (resolution s) pre,
     promiseCapabilityFulfillers := promiseCapabilityFulfillers s |` (- held_fulfillerId ` set pre),
     heldPromiseCapabilityResolves := h # post,
     heldPromiseCapabilityFulfillerIds := held_fulfillerId ` set (h # post)\<rparr>"
  have run: "flush_from 0 s = flush_from (0 + of_nat (length pre)) ?u"
    by (rule flush_live_prefix [OF assms(1,2,3)])
  have d: "held_fulfillerId h \<notin> held_fulfillerId ` set pre" "held_fulfillerId h \<notin> held_fulfillerId ` set post"
    using assms(1,2) by (auto simp: held_inv_def)
  obtain p where p: "promiseCapabilityFulfillers s (held_fulfillerId h) = Some p" "held_target h \<noteq> 0"
    "held_target h \<noteq> promiseTarget p" using assms(1,2) by (auto simp: held_inv_def acceptable_def)
  have q: "heldPromiseCapabilityResolves ?u = h # post" by simp
  have "flush_from n ?u = (Throw (unknown_target (held_target h)), popped h post ?u)" for n
    using p d(1) assms(4)
    by (subst flush_Cons [OF q])
      (simp add: promiseCapabilityFulfillNow_def popped_def live_request_def findTarget_def)
  then show ?thesis
    using run p d by (simp add: flushHeldPromiseCapabilityResolves_def popped_def)
qed

text \<open>Two promise capabilities held for a registered target and then flushed.\<close>

definition two_held :: promise_caps_state where
  "two_held = promise_caps_init\<lparr>nextTargetId := 4,
     targets := [1 \<mapsto> LoopbackCapabilityServer, 2 \<mapsto> PromiseClient 10, 3 \<mapsto> PromiseClient 12],
     promiseCapabilityFulfillers := [1 \<mapsto> \<lparr>fulfiller = 11, promiseTarget = 2\<rparr>,
       2 \<mapsto> \<lparr>fulfiller = 13, promiseTarget = 3\<rparr>],
     nextPromiseCapabilityFulfillerId := 3,
     heldPromiseCapabilityResolves := [\<lparr>held_fulfillerId = 2, held_target = 1\<rparr>,
       \<lparr>held_fulfillerId = 1, held_target = 1\<rparr>],
     heldPromiseCapabilityFulfillerIds := {2, 1}, holdPromiseCapabilityResolves := True\<rparr>"

lemma two_held_inv: "held_inv two_held"
  by (simp add: held_inv_def acceptable_def two_held_def)

lemma flush_fifo_witness:
  "fst (flushHeldPromiseCapabilityResolves two_held) = Ret 2 \<and>
   log (snd (flushHeldPromiseCapabilityResolves two_held)) =
     [Fulfill 13 LoopbackCapabilityServer, Fulfill 11 LoopbackCapabilityServer]"
proof -
  have "\<forall>h \<in> set (heldPromiseCapabilityResolves two_held). live_request two_held h"
    by (simp add: live_request_def two_held_def)
  from flush_fifo [OF two_held_inv this] show ?thesis
    by (simp add: heldResolveCount_def resolution_def two_held_def promise_caps_init_simps)
qed

lemma flush_drops_failing_witness:
  "fst (flushHeldPromiseCapabilityResolves (two_held\<lparr>targets := Map.empty\<rparr>)) = Throw (unknown_target 1)"
proof -
  have "held_inv (two_held\<lparr>targets := Map.empty\<rparr>)"
    using two_held_inv by (simp add: held_inv_def)
  from flush_drops_failing [OF this, of "[]" "\<lparr>held_fulfillerId = 2, held_target = 1\<rparr>"
      "[\<lparr>held_fulfillerId = 1, held_target = 1\<rparr>]"]
  show ?thesis by (auto simp: two_held_def live_request_def)
qed

end
