(* ===== verification/Promises.thy ===== *)
theory Promises
  imports Promise_Caps
begin

text \<open>
  The promise tables of \<^verbatim>\<open>RuntimeLoop\<close>: registrations and unit results that a Lean
  caller awaits, the \<^verbatim>\<open>KjAsync\<close> promises with their combinators, and task sets.
  Waiting runs the event loop, which may run any other work of the runtime, so it is a
  parameter that transforms the state.
\<close>

section \<open>State\<close>

record task_set =
  ts_errorCount :: u32
  ts_lastError :: string
  ts_tasks :: obj

record promises_state = promise_caps_state +
  registerPromises :: "u32 \<rightharpoonup> pending_promise"
  nextRegisterPromiseId :: u32
  activeRegisterPromiseCancelers :: "u32 \<rightharpoonup> obj"
  unitPromises :: "u32 \<rightharpoonup> pending_promise"
  nextUnitPromiseId :: u32
  activeUnitPromiseCancelers :: "u32 \<rightharpoonup> obj"
  kjAsyncPromises :: "u32 \<rightharpoonup> pending_promise"
  nextKjAsyncPromiseId :: u32
  retiredKjAsyncPromises :: "u32 set"
  kjAsyncTaskSets :: "u32 \<rightharpoonup> task_set"
  nextKjAsyncTaskSetId :: u32

section \<open>Registrations and unit results\<close>

definition addRegisterPromise :: "pending_promise
    \<Rightarrow> 'z promises_state_scheme \<Rightarrow> (exn, u32) outcome \<times> 'z promises_state_scheme" where
  "addRegisterPromise p s = (case alloc_id (registerPromises s) (nextRegisterPromiseId s) of
      None \<Rightarrow> (Hang, s)
    | Some (i, nxt) \<Rightarrow> (Ret i, s\<lparr>nextRegisterPromiseId := nxt,
        registerPromises := (registerPromises s)(i \<mapsto> p)\<rparr>))"

definition addUnitPromise :: "pending_promise
    \<Rightarrow> 'z promises_state_scheme \<Rightarrow> (exn, u32) outcome \<times> 'z promises_state_scheme" where
  "addUnitPromise p s = (case alloc_id (unitPromises s) (nextUnitPromiseId s) of
      None \<Rightarrow> (Hang, s)
    | Some (i, nxt) \<Rightarrow> (Ret i, s\<lparr>nextUnitPromiseId := nxt,
        unitPromises := (unitPromises s)(i \<mapsto> p)\<rparr>))"

definition unknown_register_promise :: "u32 \<Rightarrow> exn" where
  "unknown_register_promise i = StdEx (''unknown RPC register promise id: '' @ to_string i)"

definition unknown_unit_promise :: "u32 \<Rightarrow> exn" where
  "unknown_unit_promise i = StdEx (''unknown RPC unit promise id: '' @ to_string i)"

definition takeRegisterPromiseForAwait :: "u32
    \<Rightarrow> 'z promises_state_scheme \<Rightarrow> (exn, pending_promise) outcome \<times> 'z promises_state_scheme" where
  "takeRegisterPromiseForAwait i =
     bnd (find_or registerPromises i (unknown_register_promise i)) (\<lambda>pending.
     sq (modify (\<lambda>s. s\<lparr>registerPromises := (registerPromises s)(i := None)\<rparr>))
     (ret pending))"

definition cancelRegisterPromise :: "u32
    \<Rightarrow> 'z promises_state_scheme \<Rightarrow> (exn, unit) outcome \<times> 'z promises_state_scheme" where
  "cancelRegisterPromise i s = (case registerPromises s i of
      Some p \<Rightarrow> tell (CancelerCancel (pp_canceler p) ''Capnp.Rpc register promise canceled from Lean'') s
    | None \<Rightarrow> (case activeRegisterPromiseCancelers s i of
        Some c \<Rightarrow> tell (CancelerCancel c ''Capnp.Rpc register promise canceled from Lean'') s
      | None \<Rightarrow> throw (unknown_register_promise i) s))"

definition releaseRegisterPromise :: "u32
    \<Rightarrow> 'z promises_state_scheme \<Rightarrow> (exn, unit) outcome \<times> 'z promises_state_scheme" where
  "releaseRegisterPromise i s =
     (if registerPromises s i \<noteq> None
        then (Ret (), s\<lparr>registerPromises := (registerPromises s)(i := None)\<rparr>)
      else if activeRegisterPromiseCancelers s i \<noteq> None
        then (Ret (), s\<lparr>activeRegisterPromiseCancelers := (activeRegisterPromiseCancelers s)(i := None)\<rparr>)
      else throw (unknown_register_promise i) s)"

definition takeUnitPromiseForAwait :: "u32
    \<Rightarrow> 'z promises_state_scheme \<Rightarrow> (exn, pending_promise) outcome \<times> 'z promises_state_scheme" where
  "takeUnitPromiseForAwait i =
     bnd (find_or unitPromises i (unknown_unit_promise i)) (\<lambda>pending.
     sq (modify (\<lambda>s. s\<lparr>unitPromises := (unitPromises s)(i := None)\<rparr>))
     (ret pending))"

definition cancelUnitPromise :: "u32
    \<Rightarrow> 'z promises_state_scheme \<Rightarrow> (exn, unit) outcome \<times> 'z promises_state_scheme" where
  "cancelUnitPromise i s = (case unitPromises s i of
      Some p \<Rightarrow> tell (CancelerCancel (pp_canceler p) ''Capnp.Rpc unit promise canceled from Lean'') s
    | None \<Rightarrow> (case activeUnitPromiseCancelers s i of
        Some c \<Rightarrow> tell (CancelerCancel c ''Capnp.Rpc unit promise canceled from Lean'') s
      | None \<Rightarrow> throw (unknown_unit_promise i) s))"

definition releaseUnitPromise :: "u32
    \<Rightarrow> 'z promises_state_scheme \<Rightarrow> (exn, unit) outcome \<times> 'z promises_state_scheme" where
  "releaseUnitPromise i s =
     (if unitPromises s i \<noteq> None
        then (Ret (), s\<lparr>unitPromises := (unitPromises s)(i := None)\<rparr>)
      else if activeUnitPromiseCancelers s i \<noteq> None
        then (Ret (), s\<lparr>activeUnitPromiseCancelers := (activeUnitPromiseCancelers s)(i := None)\<rparr>)
      else throw (unknown_unit_promise i) s)"

section \<open>KjAsync promises\<close>

definition addKjAsyncPromise :: "pending_promise
    \<Rightarrow> 'z promises_state_scheme \<Rightarrow> (exn, u32) outcome \<times> 'z promises_state_scheme" where
  "addKjAsyncPromise p s = (case alloc_id (kjAsyncPromises s) (nextKjAsyncPromiseId s) of
      None \<Rightarrow> (Hang, s)
    | Some (i, nxt) \<Rightarrow> (Ret i, s\<lparr>nextKjAsyncPromiseId := nxt,
        retiredKjAsyncPromises := retiredKjAsyncPromises s - {i},
        kjAsyncPromises := (kjAsyncPromises s)(i \<mapsto> p)\<rparr>))"

text \<open>\<^verbatim>\<open>kj::heap<kj::Canceler>()\<close>, the promise wrapped with it, and the table entry.\<close>

definition wrap_and_add :: "promise
    \<Rightarrow> 'z promises_state_scheme \<Rightarrow> (exn, u32) outcome \<times> 'z promises_state_scheme" where
  "wrap_and_add p = bnd new_object (\<lambda>canceler.
     addKjAsyncPromise \<lparr>pp_promise = p, pp_canceler = canceler\<rparr>)"

definition kjAsyncSleepNanosStart :: "u64
    \<Rightarrow> 'z promises_state_scheme \<Rightarrow> (exn, u32) outcome \<times> 'z promises_state_scheme" where
  "kjAsyncSleepNanosStart delayNanos = wrap_and_add (AfterDelay delayNanos)"

definition unknown_kj_promise :: "u32 \<Rightarrow> exn" where
  "unknown_kj_promise i = StdEx (''unknown KJ async promise id: '' @ to_string i)"

definition retired_kj_promise :: "u32 \<Rightarrow> exn" where
  "retired_kj_promise i = StdEx (''KJ async promise id already consumed or released: '' @ to_string i)"

definition retire :: "u32 \<Rightarrow> 'z promises_state_scheme \<Rightarrow> 'z promises_state_scheme" where
  "retire i s = s\<lparr>kjAsyncPromises := (kjAsyncPromises s)(i := None),
     retiredKjAsyncPromises := insert i (retiredKjAsyncPromises s)\<rparr>"

definition takeKjAsyncPromise :: "u32
    \<Rightarrow> 'z promises_state_scheme \<Rightarrow> (exn, pending_promise) outcome \<times> 'z promises_state_scheme" where
  "takeKjAsyncPromise i s = (case kjAsyncPromises s i of
      None \<Rightarrow> if i \<in> retiredKjAsyncPromises s then throw (retired_kj_promise i) s
              else throw (unknown_kj_promise i) s
    | Some pending \<Rightarrow>
        sq (modify (retire i)) (sq (tell (CancelerRelease (pp_canceler pending))) (ret pending)) s)"

definition awaitKjAsyncPromise :: "(promise \<Rightarrow> 'z promises_state_scheme
      \<Rightarrow> (exn, unit) outcome \<times> 'z promises_state_scheme) \<Rightarrow> u32
    \<Rightarrow> 'z promises_state_scheme \<Rightarrow> (exn, unit) outcome \<times> 'z promises_state_scheme" where
  "awaitKjAsyncPromise wait i s = (case kjAsyncPromises s i of
      None \<Rightarrow> if i \<in> retiredKjAsyncPromises s then ret () s else throw (unknown_kj_promise i) s
    | Some pending \<Rightarrow>
        sq (modify (retire i)) (sq (tell (CancelerRelease (pp_canceler pending))) (wait (pp_promise pending))) s)"

definition cancelKjAsyncPromise :: "u32
    \<Rightarrow> 'z promises_state_scheme \<Rightarrow> (exn, unit) outcome \<times> 'z promises_state_scheme" where
  "cancelKjAsyncPromise i s = (case kjAsyncPromises s i of
      None \<Rightarrow> if i \<in> retiredKjAsyncPromises s then ret () s else throw (unknown_kj_promise i) s
    | Some pending \<Rightarrow>
        tell (CancelerCancel (pp_canceler pending) ''Capnp.KjAsync promise canceled from Lean'') s)"

definition releaseKjAsyncPromise :: "u32
    \<Rightarrow> 'z promises_state_scheme \<Rightarrow> (exn, unit) outcome \<times> 'z promises_state_scheme" where
  "releaseKjAsyncPromise i s = (case kjAsyncPromises s i of
      None \<Rightarrow> if i \<in> retiredKjAsyncPromises s then ret () s else throw (unknown_kj_promise i) s
    | Some _ \<Rightarrow> modify (retire i) s)"

definition kjAsyncPromiseThenStart :: "u32 \<Rightarrow> u32
    \<Rightarrow> 'z promises_state_scheme \<Rightarrow> (exn, u32) outcome \<times> 'z promises_state_scheme" where
  "kjAsyncPromiseThenStart firstPromiseId secondPromiseId =
     bnd (takeKjAsyncPromise firstPromiseId) (\<lambda>firstPending.
     bnd (takeKjAsyncPromise secondPromiseId) (\<lambda>secondPending.
     wrap_and_add (ThenP (pp_promise firstPending) (pp_promise secondPending))))"

definition kjAsyncPromiseCatchStart :: "u32 \<Rightarrow> u32
    \<Rightarrow> 'z promises_state_scheme \<Rightarrow> (exn, u32) outcome \<times> 'z promises_state_scheme" where
  "kjAsyncPromiseCatchStart promiseId fallbackPromiseId =
     bnd (takeKjAsyncPromise promiseId) (\<lambda>firstPending.
     bnd (takeKjAsyncPromise fallbackPromiseId) (\<lambda>fallbackPending.
     wrap_and_add (CatchP (pp_promise firstPending) (pp_promise fallbackPending))))"

text \<open>The loop that takes the promises of a list in order.\<close>

fun take_all :: "u32 list \<Rightarrow> 'z promises_state_scheme
    \<Rightarrow> (exn, promise list) outcome \<times> 'z promises_state_scheme" where
  "take_all [] s = (Ret [], s)"
| "take_all (i # is) s =
     bnd (takeKjAsyncPromise i) (\<lambda>pending.
     bnd (take_all is) (\<lambda>ps.
     ret (pp_promise pending # ps))) s"

definition kjAsyncPromiseAllStart :: "u32 list
    \<Rightarrow> 'z promises_state_scheme \<Rightarrow> (exn, u32) outcome \<times> 'z promises_state_scheme" where
  "kjAsyncPromiseAllStart promiseIds = bnd (take_all promiseIds) (\<lambda>promises. wrap_and_add (JoinP promises))"

fun race_from :: "promise \<Rightarrow> u32 list \<Rightarrow> 'z promises_state_scheme
    \<Rightarrow> (exn, promise) outcome \<times> 'z promises_state_scheme" where
  "race_from raced [] s = (Ret raced, s)"
| "race_from raced (i # is) s =
     bnd (takeKjAsyncPromise i) (\<lambda>pending. race_from (RaceP raced (pp_promise pending)) is) s"

definition kjAsyncPromiseRaceStart :: "u32 list
    \<Rightarrow> 'z promises_state_scheme \<Rightarrow> (exn, u32) outcome \<times> 'z promises_state_scheme" where
  "kjAsyncPromiseRaceStart promiseIds = (case promiseIds of
      [] \<Rightarrow> throw (StdEx ''promiseRaceStart requires at least one promise id'')
    | i # is \<Rightarrow>
        bnd (takeKjAsyncPromise i) (\<lambda>firstPending.
        bnd (race_from (pp_promise firstPending) is) (\<lambda>raced.
        wrap_and_add raced)))"

section \<open>Task sets\<close>

definition addKjAsyncTaskSet :: "task_set
    \<Rightarrow> 'z promises_state_scheme \<Rightarrow> (exn, u32) outcome \<times> 'z promises_state_scheme" where
  "addKjAsyncTaskSet t s = (case alloc_id (kjAsyncTaskSets s) (nextKjAsyncTaskSetId s) of
      None \<Rightarrow> (Hang, s)
    | Some (i, nxt) \<Rightarrow> (Ret i, s\<lparr>nextKjAsyncTaskSetId := nxt,
        kjAsyncTaskSets := (kjAsyncTaskSets s)(i \<mapsto> t)\<rparr>))"

definition kjAsyncTaskSetNew :: "'z promises_state_scheme \<Rightarrow> (exn, u32) outcome \<times> 'z promises_state_scheme"
  where
  "kjAsyncTaskSetNew = bnd new_object (\<lambda>tasks.
     addKjAsyncTaskSet \<lparr>ts_errorCount = 0, ts_lastError = [], ts_tasks = tasks\<rparr>)"

definition unknown_task_set :: "u32 \<Rightarrow> exn" where
  "unknown_task_set i = StdEx (''unknown KJ async task set id: '' @ to_string i)"

text \<open>\<^verbatim>\<open>ErrorHandler::taskFailed\<close>, called by the event loop for a task of the set \<open>i\<close>.\<close>

definition taskFailed :: "u32 \<Rightarrow> kj_exception \<Rightarrow> 'z promises_state_scheme \<Rightarrow> 'z promises_state_scheme" where
  "taskFailed i e s = (case kjAsyncTaskSets s i of
      None \<Rightarrow> s
    | Some t \<Rightarrow> s\<lparr>kjAsyncTaskSets := (kjAsyncTaskSets s)(i \<mapsto>
        t\<lparr>ts_errorCount := ts_errorCount t + 1, ts_lastError := describeKjException e\<rparr>)\<rparr>)"

definition kjAsyncTaskSetRelease :: "u32
    \<Rightarrow> 'z promises_state_scheme \<Rightarrow> (exn, unit) outcome \<times> 'z promises_state_scheme" where
  "kjAsyncTaskSetRelease i s =
     (if kjAsyncTaskSets s i = None then throw (unknown_task_set i) s
      else (Ret (), s\<lparr>kjAsyncTaskSets := (kjAsyncTaskSets s)(i := None)\<rparr>))"

definition kjAsyncTaskSetAddPromise :: "u32 \<Rightarrow> u32
    \<Rightarrow> 'z promises_state_scheme \<Rightarrow> (exn, unit) outcome \<times> 'z promises_state_scheme" where
  "kjAsyncTaskSetAddPromise taskSetId promiseId =
     bnd (find_or kjAsyncTaskSets taskSetId (unknown_task_set taskSetId)) (\<lambda>t.
     bnd (takeKjAsyncPromise promiseId) (\<lambda>pending.
     tell (TaskSetAdd (ts_tasks t) (pp_promise pending))))"

definition kjAsyncTaskSetClear :: "u32
    \<Rightarrow> 'z promises_state_scheme \<Rightarrow> (exn, unit) outcome \<times> 'z promises_state_scheme" where
  "kjAsyncTaskSetClear i =
     bnd (find_or kjAsyncTaskSets i (unknown_task_set i)) (\<lambda>t. tell (TaskSetClear (ts_tasks t)))"

definition kjAsyncTaskSetIsEmpty :: "env \<Rightarrow> u32
    \<Rightarrow> 'z promises_state_scheme \<Rightarrow> (exn, bool) outcome \<times> 'z promises_state_scheme" where
  "kjAsyncTaskSetIsEmpty env i =
     bnd (find_or kjAsyncTaskSets i (unknown_task_set i)) (\<lambda>t.
     call (ask_bool env) (TaskSetIsEmpty (ts_tasks t)))"

text \<open>\<^verbatim>\<open>onEmpty()\<close> refuses a second caller while one is waiting.\<close>

definition kjAsyncTaskSetOnEmptyStart :: "env \<Rightarrow> u32
    \<Rightarrow> 'z promises_state_scheme \<Rightarrow> (exn, u32) outcome \<times> 'z promises_state_scheme" where
  "kjAsyncTaskSetOnEmptyStart env i =
     bnd (find_or kjAsyncTaskSets i (unknown_task_set i)) (\<lambda>t.
     bnd new_object (\<lambda>canceler.
     sq (call (ask_done env) (TaskSetOnEmpty (ts_tasks t)))
     (addKjAsyncPromise \<lparr>pp_promise = TaskSetOnEmptyP (ts_tasks t), pp_canceler = canceler\<rparr>)))"

definition kjAsyncTaskSetErrorCount :: "u32
    \<Rightarrow> 'z promises_state_scheme \<Rightarrow> (exn, u32) outcome \<times> 'z promises_state_scheme" where
  "kjAsyncTaskSetErrorCount i =
     bnd (find_or kjAsyncTaskSets i (unknown_task_set i)) (\<lambda>t. ret (ts_errorCount t))"

definition kjAsyncTaskSetTakeLastError :: "u32
    \<Rightarrow> 'z promises_state_scheme \<Rightarrow> (exn, string option) outcome \<times> 'z promises_state_scheme" where
  "kjAsyncTaskSetTakeLastError i =
     bnd (find_or kjAsyncTaskSets i (unknown_task_set i)) (\<lambda>t.
     if ts_lastError t = [] then ret None
     else sq (modify (\<lambda>s. s\<lparr>kjAsyncTaskSets := (kjAsyncTaskSets s)(i \<mapsto> t\<lparr>ts_lastError := []\<rparr>)\<rparr>))
          (ret (Some (ts_lastError t))))"

section \<open>The tables as instances of the interfaces\<close>

interpretation register_promise_table: id_table registerPromises nextRegisterPromiseId addRegisterPromise
  by unfold_locales (auto simp: addRegisterPromise_def)

interpretation unit_promise_table: id_table unitPromises nextUnitPromiseId addUnitPromise
  by unfold_locales (auto simp: addUnitPromise_def)

interpretation kj_promise_table: id_table kjAsyncPromises nextKjAsyncPromiseId addKjAsyncPromise
  by unfold_locales (auto simp: addKjAsyncPromise_def)

interpretation task_set_table: id_table kjAsyncTaskSets nextKjAsyncTaskSetId addKjAsyncTaskSet
  by unfold_locales (auto simp: addKjAsyncTaskSet_def)

interpretation task_set_handles: handle_table kjAsyncTaskSets nextKjAsyncTaskSetId addKjAsyncTaskSet
    kjAsyncTaskSetRelease unknown_task_set "\<lambda>_. True"
  by unfold_locales (auto simp: kjAsyncTaskSetRelease_def)

end
