(* ===== verification/Calls.thy ===== *)
theory Calls
  imports Promises
begin

text \<open>
  Calls on targets: building a request from bytes and a capability table, turning a
  response into bytes and newly registered targets, calls that are pending between two
  operations of the Lean side, streaming calls and the questions asked of a target.
\<close>

section \<open>State\<close>

record pending_call =
  pc_promise :: promise
  pc_pipeline :: obj
  pc_canceler :: obj

text \<open>
  \<^verbatim>\<open>DeferredLeanTaskState\<close>. A task the dispatch machinery has destroyed is absent
  from \<open>deferredTasks\<close>, so a weak pointer to it locks to null.
\<close>

record deferred_task =
  dt_waitTask :: obj
  dt_cancelTask :: obj
  dt_allowCancellation :: bool
  dt_completed :: bool
  dt_cancellationRequested :: bool

record calls_state = promises_state +
  pendingCalls :: "u32 \<rightharpoonup> pending_call"
  nextPendingCallId :: u32
  deferredTasks :: "obj \<rightharpoonup> deferred_task"
  activeCancelableDeferredTasks :: "obj list"

section \<open>Payloads\<close>

text \<open>The capability table of a message, looked up in the runtime's targets.\<close>

fun resolve_caps :: "string \<Rightarrow> u32 list
    \<Rightarrow> 'z targets_state_scheme \<Rightarrow> (exn, client option list) outcome \<times> 'z targets_state_scheme" where
  "resolve_caps prefix [] s = (Ret [], s)"
| "resolve_caps prefix (capId # ids) s =
     (if capId = 0 then bnd (resolve_caps prefix ids) (\<lambda>cs. ret (None # cs)) s
      else bnd (find_or targets capId (StdEx (prefix @ to_string capId))) (\<lambda>cap.
           bnd (resolve_caps prefix ids) (\<lambda>cs. ret (Some cap # cs))) s)"

text \<open>\<^verbatim>\<open>InputStreamMessageReader\<close> may refuse the bytes.\<close>

definition setRequestPayload :: "env \<Rightarrow> bytes \<Rightarrow> u32 list
    \<Rightarrow> 'z targets_state_scheme \<Rightarrow> (exn, message option) outcome \<times> 'z targets_state_scheme" where
  "setRequestPayload env requestData requestCaps =
     (if requestData = [] then
        (if requestCaps \<noteq> []
           then throw (StdEx ''RPC request capability table requires a non-empty payload'')
         else ret None)
      else sq (call (ask_done env) (ReadMessage requestData))
        (if requestCaps = [] then ret (Some (requestData, []))
         else bnd (resolve_caps ''unknown RPC request capability id: '' requestCaps) (\<lambda>table.
              ret (Some (requestData, table)))))"

text \<open>The callback of \<^verbatim>\<open>withDecodedPayloadAndCapTable\<close> is the rest of the operation.\<close>

definition withDecodedPayloadAndCapTable :: "env \<Rightarrow> bytes \<Rightarrow> u32 list \<Rightarrow> string
    \<Rightarrow> (message \<Rightarrow> 'z targets_state_scheme \<Rightarrow> (exn, unit) outcome \<times> 'z targets_state_scheme)
    \<Rightarrow> 'z targets_state_scheme \<Rightarrow> (exn, unit) outcome \<times> 'z targets_state_scheme" where
  "withDecodedPayloadAndCapTable env payloadBytes payloadCapIds unknownCapErrorPrefix setPayload =
     sq (call (ask_done env) (ReadMessage payloadBytes))
     (if payloadCapIds = [] then setPayload (payloadBytes, [])
      else bnd (resolve_caps unknownCapErrorPrefix payloadCapIds) (\<lambda>table.
           setPayload (payloadBytes, table)))"

definition decode_caps_or_throw :: "bytes \<Rightarrow> 's \<Rightarrow> (exn, u32 list) outcome \<times> 's" where
  "decode_caps_or_throw bs = (case decodeCapTable bs of
      Inl msg \<Rightarrow> throw (StdEx msg) | Inr ids \<Rightarrow> ret ids)"

definition setContextResultsFromPayloadWithCapIds :: "env \<Rightarrow> bytes \<Rightarrow> u32 list \<Rightarrow> string
    \<Rightarrow> 'z targets_state_scheme \<Rightarrow> (exn, unit) outcome \<times> 'z targets_state_scheme" where
  "setContextResultsFromPayloadWithCapIds env responseBytes responseCapIds prefix =
     withDecodedPayloadAndCapTable env responseBytes responseCapIds prefix (\<lambda>m. tell (SetResults m))"

definition setContextResultsFromPayload :: "env \<Rightarrow> bytes \<Rightarrow> bytes \<Rightarrow> string
    \<Rightarrow> 'z targets_state_scheme \<Rightarrow> (exn, unit) outcome \<times> 'z targets_state_scheme" where
  "setContextResultsFromPayload env responseBytes responseCaps prefix =
     bnd (decode_caps_or_throw responseCaps) (\<lambda>ids.
     setContextResultsFromPayloadWithCapIds env responseBytes ids prefix)"

definition setContextPipelineFromPayload :: "env \<Rightarrow> bytes \<Rightarrow> bytes \<Rightarrow> string
    \<Rightarrow> 'z targets_state_scheme \<Rightarrow> (exn, unit) outcome \<times> 'z targets_state_scheme" where
  "setContextPipelineFromPayload env pipelineBytes pipelineCaps prefix =
     (if pipelineBytes = [] then
        (if pipelineCaps \<noteq> []
           then throw (StdEx ''RPC pipeline capability table requires a non-empty payload'')
         else ret ())
      else bnd (if pipelineCaps \<noteq> [] then decode_caps_or_throw pipelineCaps else ret []) (\<lambda>ids.
           withDecodedPayloadAndCapTable env pipelineBytes ids prefix (\<lambda>m. tell (SetPipeline m))))"

text \<open>
  Registering the capabilities of a message: the bytes of the table written so far, and
  the identifiers made.
\<close>

fun register_caps :: "client option list \<Rightarrow> bytes \<Rightarrow> u32 list
    \<Rightarrow> 'z targets_state_scheme \<Rightarrow> (exn, bytes \<times> u32 list) outcome \<times> 'z targets_state_scheme" where
  "register_caps [] out ids s = (Ret (out, ids), s)"
| "register_caps (None # cs) out ids s = register_caps cs (appendUint32Le out 0) ids s"
| "register_caps (Some cap # cs) out ids s =
     bnd (addTarget cap) (\<lambda>capId. register_caps cs (appendUint32Le out capId) (ids @ [capId])) s"

text \<open>\<^verbatim>\<open>RawCallResult\<close>: the flat bytes of the response and its capability table.\<close>

definition serializeResponse :: "message
    \<Rightarrow> 'z targets_state_scheme \<Rightarrow> (exn, bytes \<times> bytes) outcome \<times> 'z targets_state_scheme" where
  "serializeResponse response =
     bnd (register_caps (snd response) [] []) (\<lambda>(responseCaps, _). ret (fst response, responseCaps))"

definition encodeRequestForLean :: "message
    \<Rightarrow> 'z targets_state_scheme \<Rightarrow> (exn, bytes \<times> bytes \<times> u32 list) outcome \<times> 'z targets_state_scheme" where
  "encodeRequestForLean params =
     bnd (register_caps (snd params) [] []) (\<lambda>(requestCaps, ids). ret (fst params, requestCaps, ids))"

section \<open>Dropping the capabilities of a request\<close>

fun dropRequestCaps :: "u32 list \<Rightarrow> 'z targets_state_scheme \<Rightarrow> 'z targets_state_scheme" where
  "dropRequestCaps [] s = s"
| "dropRequestCaps (capId # ids) s = dropRequestCaps ids (snd (dropTargetIfPresent capId s))"

text \<open>The overload with a list of retained identifiers, and the one with a single one.\<close>

fun drop_unless :: "(u32 \<Rightarrow> bool) \<Rightarrow> u32 list \<Rightarrow> 'z targets_state_scheme \<Rightarrow> 'z targets_state_scheme" where
  "drop_unless keep [] s = s"
| "drop_unless keep (capId # ids) s =
     drop_unless keep ids (if keep capId then s else snd (dropTargetIfPresent capId s))"

definition dropRequestCapsExcept :: "u32 list \<Rightarrow> u32 list
    \<Rightarrow> 'z targets_state_scheme \<Rightarrow> 'z targets_state_scheme" where
  "dropRequestCapsExcept requestCapIds retainedCaps =
     (if retainedCaps = [] then dropRequestCaps requestCapIds
      else let retained = set (filter (\<lambda>capId. capId \<noteq> 0) retainedCaps)
           in drop_unless (\<lambda>capId. capId \<in> retained) requestCapIds)"

definition dropRequestCapsExceptOne :: "u32 list \<Rightarrow> u32
    \<Rightarrow> 'z targets_state_scheme \<Rightarrow> 'z targets_state_scheme" where
  "dropRequestCapsExceptOne requestCapIds retainedCapId =
     drop_unless (\<lambda>capId. capId = 0 \<or> capId = retainedCapId) requestCapIds"

section \<open>Calls on a target\<close>

definition typelessRequest :: "client \<Rightarrow> u64 \<Rightarrow> u16 \<Rightarrow> message option \<Rightarrow> request" where
  "typelessRequest target interfaceId methodId content =
     \<lparr>rq_target = target, rq_interfaceId = interfaceId, rq_methodId = methodId,
      rq_noPromisePipelining = False, rq_onlyPromisePipeline = False, rq_content = content\<rparr>"

text \<open>
  \<^verbatim>\<open>send()\<close> gives the promise of the response and the pipeline. The continuation
  that serializes the response runs when the promise resolves: the caller applies
  \<open>serializeResponse\<close> to it.
\<close>

definition processRawCall :: "env \<Rightarrow> u32 \<Rightarrow> u64 \<Rightarrow> u16 \<Rightarrow> bytes \<Rightarrow> u32 list
    \<Rightarrow> 'z targets_state_scheme \<Rightarrow> (exn, promise) outcome \<times> 'z targets_state_scheme" where
  "processRawCall env target interfaceId methodId requestData requestCaps =
     bnd (findTarget target) (\<lambda>cap.
     bnd (setRequestPayload env requestData requestCaps) (\<lambda>content.
     bnd (call (ask_pair env) (SendRequest (typelessRequest cap interfaceId methodId content))) (\<lambda>(p, _).
     ret (KjPromise p))))"

definition addPendingCall :: "pending_call
    \<Rightarrow> 'z calls_state_scheme \<Rightarrow> (exn, u32) outcome \<times> 'z calls_state_scheme" where
  "addPendingCall p s = (case alloc_id (pendingCalls s) (nextPendingCallId s) of
      None \<Rightarrow> (Hang, s)
    | Some (i, nxt) \<Rightarrow> (Ret i, s\<lparr>nextPendingCallId := nxt, pendingCalls := (pendingCalls s)(i \<mapsto> p)\<rparr>))"

definition startPendingCall :: "env \<Rightarrow> u32 \<Rightarrow> u64 \<Rightarrow> u16 \<Rightarrow> bytes \<Rightarrow> u32 list
    \<Rightarrow> 'z calls_state_scheme \<Rightarrow> (exn, u32) outcome \<times> 'z calls_state_scheme" where
  "startPendingCall env target interfaceId methodId requestData requestCaps =
     bnd (findTarget target) (\<lambda>cap.
     bnd (setRequestPayload env requestData requestCaps) (\<lambda>content.
     bnd (call (ask_pair env) (SendRequest (typelessRequest cap interfaceId methodId content))) (\<lambda>(p, pipeline).
     bnd new_object (\<lambda>canceler.
     addPendingCall \<lparr>pc_promise = KjPromise p, pc_pipeline = pipeline, pc_canceler = canceler\<rparr>))))"

text \<open>A streaming call has no pipeline: that of a request on a null client is used.\<close>

definition startStreamingPendingCall :: "env \<Rightarrow> u32 \<Rightarrow> u64 \<Rightarrow> u16 \<Rightarrow> bytes \<Rightarrow> u32 list
    \<Rightarrow> 'z calls_state_scheme \<Rightarrow> (exn, u32) outcome \<times> 'z calls_state_scheme" where
  "startStreamingPendingCall env target interfaceId methodId requestData requestCaps =
     bnd (findTarget target) (\<lambda>cap.
     bnd (setRequestPayload env requestData requestCaps) (\<lambda>content.
     bnd (call (ask_obj env) (SendStreamingRequest (typelessRequest cap interfaceId methodId content))) (\<lambda>p.
     bnd new_object (\<lambda>canceler.
     bnd (call (ask_pair env) (SendRequest (typelessRequest NullClient 0 0 None))) (\<lambda>(_, pipeline).
     addPendingCall \<lparr>pc_promise = StreamingResultP (KjPromise p), pc_pipeline = pipeline,
       pc_canceler = canceler\<rparr>)))))"

definition unknown_pending_call :: "u32 \<Rightarrow> exn" where
  "unknown_pending_call i = StdEx (''unknown pending RPC call id: '' @ to_string i)"

text \<open>The promise of the result; \<open>serializeResponse\<close> is its continuation.\<close>

definition awaitPendingCall :: "u32
    \<Rightarrow> 'z calls_state_scheme \<Rightarrow> (exn, promise) outcome \<times> 'z calls_state_scheme" where
  "awaitPendingCall i =
     bnd (find_or pendingCalls i (unknown_pending_call i)) (\<lambda>pending.
     sq (modify (\<lambda>s. s\<lparr>pendingCalls := (pendingCalls s)(i := None)\<rparr>))
     (sq (tell (CancelerRelease (pc_canceler pending)))
     (ret (pc_promise pending))))"

subsection \<open>Canceling deferred handlers\<close>

definition requestCancellation :: "obj \<Rightarrow> 'z calls_state_scheme \<Rightarrow> bool \<times> 'z calls_state_scheme" where
  "requestCancellation task s = (case deferredTasks s task of
      None \<Rightarrow> (False, s)
    | Some d \<Rightarrow>
        if \<not> dt_allowCancellation d \<or> dt_completed d then (False, s)
        else if dt_cancellationRequested d then (False, s)
        else (True, s\<lparr>
          deferredTasks := (deferredTasks s)(task \<mapsto> d\<lparr>dt_cancellationRequested := True\<rparr>),
          log := log s @ LeanIoCancel (dt_cancelTask d) #
            (if dt_waitTask d \<noteq> dt_cancelTask d then [LeanIoCancel (dt_waitTask d)] else [])\<rparr>))"

text \<open>The destructor requests the cancellation, and the object is gone.\<close>

definition destroyDeferredTask :: "obj \<Rightarrow> 'z calls_state_scheme \<Rightarrow> 'z calls_state_scheme" where
  "destroyDeferredTask task s =
     (snd (requestCancellation task s))\<lparr>deferredTasks := (deferredTasks (snd (requestCancellation task s)))(task := None)\<rparr>"

fun cancel_first :: "obj list \<Rightarrow> 'z calls_state_scheme \<Rightarrow> 'z calls_state_scheme" where
  "cancel_first [] s = s\<lparr>activeCancelableDeferredTasks := []\<rparr>"
| "cancel_first (task # tasks) s =
     (if deferredTasks s task \<noteq> None \<and> fst (requestCancellation task s)
        then (snd (requestCancellation task s))\<lparr>activeCancelableDeferredTasks := tasks\<rparr>
      else cancel_first tasks (snd (requestCancellation task s)))"

definition cancelOneActiveDeferredTask :: "'z calls_state_scheme \<Rightarrow> 'z calls_state_scheme" where
  "cancelOneActiveDeferredTask s = cancel_first (activeCancelableDeferredTasks s) s"

definition releasePendingCall :: "u32
    \<Rightarrow> 'z calls_state_scheme \<Rightarrow> (exn, unit) outcome \<times> 'z calls_state_scheme" where
  "releasePendingCall i =
     bnd (find_or pendingCalls i (unknown_pending_call i)) (\<lambda>pending.
     sq (modify cancelOneActiveDeferredTask)
     (sq (tell (CancelerCancel (pc_canceler pending) ''Capnp.Rpc pending call released from Lean''))
     (modify (\<lambda>s. s\<lparr>pendingCalls := (pendingCalls s)(i := None)\<rparr>))))"

subsection \<open>Pipelines, streaming and questions about a target\<close>

definition getPipelinedCap :: "env \<Rightarrow> u32 \<Rightarrow> u16 list
    \<Rightarrow> 'z calls_state_scheme \<Rightarrow> (exn, u32) outcome \<times> 'z calls_state_scheme" where
  "getPipelinedCap env i pointerPath =
     bnd (find_or pendingCalls i (unknown_pending_call i)) (\<lambda>pending.
     bnd (call (ask_obj env) (PipelinedCap (pc_pipeline pending) pointerPath)) (\<lambda>cap.
     addTarget (ExternalClient cap)))"

definition processStreamingCall :: "env \<Rightarrow> (promise \<Rightarrow> 'z targets_state_scheme
      \<Rightarrow> (exn, unit) outcome \<times> 'z targets_state_scheme) \<Rightarrow> u32 \<Rightarrow> u64 \<Rightarrow> u16 \<Rightarrow> bytes \<Rightarrow> u32 list
    \<Rightarrow> 'z targets_state_scheme \<Rightarrow> (exn, unit) outcome \<times> 'z targets_state_scheme" where
  "processStreamingCall env wait target interfaceId methodId requestData requestCaps =
     bnd (findTarget target) (\<lambda>cap.
     bnd (setRequestPayload env requestData requestCaps) (\<lambda>content.
     bnd (call (ask_obj env) (SendStreamingRequest (typelessRequest cap interfaceId methodId content))) (\<lambda>p.
     wait (KjPromise p))))"

text \<open>\<^verbatim>\<open>getFd().wait(waitScope)\<close> and \<^verbatim>\<open>whenResolved()\<close>; -1 stands for no descriptor.\<close>

definition targetGetFd :: "(client \<Rightarrow> 'z targets_state_scheme
      \<Rightarrow> (exn, int option) outcome \<times> 'z targets_state_scheme) \<Rightarrow> u32
    \<Rightarrow> 'z targets_state_scheme \<Rightarrow> (exn, int) outcome \<times> 'z targets_state_scheme" where
  "targetGetFd waitFd target =
     bnd (findTarget target) (\<lambda>cap.
     bnd (waitFd cap) (\<lambda>fdMaybe. ret (case fdMaybe of Some fd \<Rightarrow> fd | None \<Rightarrow> - 1)))"

definition targetWhenResolved :: "(promise \<Rightarrow> 'z targets_state_scheme
      \<Rightarrow> (exn, unit) outcome \<times> 'z targets_state_scheme) \<Rightarrow> u32
    \<Rightarrow> 'z targets_state_scheme \<Rightarrow> (exn, unit) outcome \<times> 'z targets_state_scheme" where
  "targetWhenResolved wait target = bnd (findTarget target) (\<lambda>cap. wait (WhenResolvedP cap))"

definition targetWhenResolvedStart :: "u32
    \<Rightarrow> 'z promises_state_scheme \<Rightarrow> (exn, u32) outcome \<times> 'z promises_state_scheme" where
  "targetWhenResolvedStart target =
     bnd (findTarget target) (\<lambda>cap.
     bnd new_object (\<lambda>canceler.
     addUnitPromise \<lparr>pp_promise = WhenResolvedP cap, pp_canceler = canceler\<rparr>))"

definition targetWhenResolvedPoll :: "(promise \<Rightarrow> 'z targets_state_scheme
      \<Rightarrow> (exn, bool) outcome \<times> 'z targets_state_scheme) \<Rightarrow> u32
    \<Rightarrow> 'z targets_state_scheme \<Rightarrow> (exn, bool) outcome \<times> 'z targets_state_scheme" where
  "targetWhenResolvedPoll poll target = bnd (findTarget target) (\<lambda>cap. poll (WhenResolvedP cap))"

section \<open>Pending calls as an identifier table\<close>

interpretation pending_call_table: id_table pendingCalls nextPendingCallId addPendingCall
  by unfold_locales (auto simp: addPendingCall_def)

lemma requestCancellation_calls [simp]:
  "pendingCalls (snd (requestCancellation t s)) = pendingCalls s"
  "activeCancelableDeferredTasks (snd (requestCancellation t s)) = activeCancelableDeferredTasks s"
  by (auto simp: requestCancellation_def split: option.splits)

lemma cancel_first_calls [simp]: "pendingCalls (cancel_first ts s) = pendingCalls s"
  by (induction ts arbitrary: s) simp_all

lemma cancelOne_calls [simp]: "pendingCalls (cancelOneActiveDeferredTask s) = pendingCalls s"
  by (simp add: cancelOneActiveDeferredTask_def)

interpretation pending_call_handles: handle_table pendingCalls nextPendingCallId addPendingCall
    releasePendingCall unknown_pending_call "\<lambda>_. True"
  by unfold_locales (auto simp: releasePendingCall_def)

end
