(* ===== verification/Handlers.thy ===== *)
theory Handlers
  imports Calls
begin

text \<open>
  The server classes of the runtime: what each does with a call. A Lean closure's reply
  is a parameter that may change the runtime's state, because a handler may call back into
  the runtime. What a server does to its \<^verbatim>\<open>CallContext\<close> is logged.
\<close>

section \<open>Results and cleanup\<close>

record dispatch_result =
  dr_promise :: promise
  dr_isStreaming :: bool
  dr_allowCancellation :: bool

text \<open>\<^verbatim>\<open>try { m } catch (...) { f; throw; }\<close>\<close>

definition on_throw :: "('s \<Rightarrow> ('e, 'a) outcome \<times> 's) \<Rightarrow> ('s \<Rightarrow> 's) \<Rightarrow> 's \<Rightarrow> ('e, 'a) outcome \<times> 's" where
  "on_throw m f s = (case m s of (Throw e, s') \<Rightarrow> (Throw e, f s') | r \<Rightarrow> r)"

text \<open>\<^verbatim>\<open>RequestCapCleanupState\<close>, shared by the continuations of one call.\<close>

record cleanup_state =
  cl_requestCapIds :: "u32 list"
  cl_done :: bool

record handlers_state = calls_state +
  cleanups :: "cleanup_state list"

section \<open>Servers without a Lean closure\<close>

definition loopback_dispatch :: "message
    \<Rightarrow> 'z targets_state_scheme \<Rightarrow> (exn, dispatch_result) outcome \<times> 'z targets_state_scheme" where
  "loopback_dispatch params = sq (tell (SetResults params))
     (ret \<lparr>dr_promise = ReadyNow, dr_isStreaming = False, dr_allowCancellation = False\<rparr>)"

definition tail_forward_dispatch :: "env \<Rightarrow> client \<Rightarrow> u64 \<Rightarrow> u16 \<Rightarrow> message
    \<Rightarrow> 'z targets_state_scheme \<Rightarrow> (exn, dispatch_result) outcome \<times> 'z targets_state_scheme" where
  "tail_forward_dispatch env target interfaceId methodId params =
     bnd (call (ask_obj env) (TailCall (typelessRequest target interfaceId methodId (Some params)))) (\<lambda>p.
     ret \<lparr>dr_promise = KjPromise p, dr_isStreaming = False, dr_allowCancellation = False\<rparr>)"

definition fd_server_getFd :: "int \<Rightarrow> int option" where
  "fd_server_getFd fd = (if fd < 0 then None else Some fd)"

text \<open>The probe counts the descriptors delivered and writes the count into one data word.\<close>

definition fd_probe_result :: "int option list \<Rightarrow> bytes" where
  "fd_probe_result fds =
     (let deliveredCount = of_nat (length (filter (\<lambda>f. f \<noteq> None) fds)) :: u64
      in map (\<lambda>i. ucast (drop_bit (i * 8) deliveredCount AND 0xff)) [0..<8])"

definition fd_probe_dispatch :: "client list
    \<Rightarrow> 'z targets_state_scheme \<Rightarrow> (exn, dispatch_result) outcome \<times> 'z targets_state_scheme" where
  "fd_probe_dispatch params =
     ret \<lparr>dr_promise = FdProbeP params, dr_isStreaming = False, dr_allowCancellation = False\<rparr>"

section \<open>Lean handlers\<close>

text \<open>What applying a closure to the encoded call yields; \<open>None\<close> is an \<^verbatim>\<open>IO\<close> error.\<close>

type_synonym ('r, 's) lean_apply = "obj \<Rightarrow> u32 \<Rightarrow> u64 \<Rightarrow> u16 \<Rightarrow> bytes \<Rightarrow> bytes \<Rightarrow> 's \<Rightarrow> 'r option \<times> 's"

definition apply_lean :: "('r, 'z targets_state_scheme) lean_apply \<Rightarrow> nat \<Rightarrow> obj \<Rightarrow> u64 \<Rightarrow> u16 \<Rightarrow> bytes \<Rightarrow> bytes
    \<Rightarrow> 'z targets_state_scheme \<Rightarrow> (exn, 'r option) outcome \<times> 'z targets_state_scheme" where
  "apply_lean apply cell handler interfaceId methodId req reqCaps s =
     (let (reply, s') = apply handler (idCells s ! cell) interfaceId methodId req reqCaps
            (s\<lparr>log := log s @ [LeanInc handler]\<rparr>)
      in (Ret reply, s'))"

definition lean_dispatch :: "env \<Rightarrow> (bytes \<times> bytes, 'z targets_state_scheme) lean_apply
    \<Rightarrow> nat \<Rightarrow> obj \<Rightarrow> u64 \<Rightarrow> u16 \<Rightarrow> message
    \<Rightarrow> 'z targets_state_scheme \<Rightarrow> (exn, dispatch_result) outcome \<times> 'z targets_state_scheme" where
  "lean_dispatch env apply cell handler interfaceId methodId params =
     bnd (encodeRequestForLean params) (\<lambda>(req, reqCaps, requestCapIds).
     bnd (apply_lean apply cell handler interfaceId methodId req reqCaps) (\<lambda>reply.
     case reply of
       None \<Rightarrow> sq (modify (dropRequestCapsExceptOne requestCapIds 0))
                 (throw (StdEx ''Lean RPC handler returned IO error''))
     | Some (response, responseCaps) \<Rightarrow>
         sq (on_throw
              (bnd (decode_caps_or_throw responseCaps) (\<lambda>responseCapIds.
               sq (modify (dropRequestCapsExcept requestCapIds responseCapIds))
               (setContextResultsFromPayloadWithCapIds env response responseCapIds
                  ''unknown RPC response capability id from Lean handler: '')))
              (dropRequestCaps requestCapIds))
         (ret \<lparr>dr_promise = ReadyNow, dr_isStreaming = False, dr_allowCancellation = False\<rparr>)))"

definition lean_tail_dispatch :: "env \<Rightarrow> (u32, 'z targets_state_scheme) lean_apply
    \<Rightarrow> nat \<Rightarrow> obj \<Rightarrow> u64 \<Rightarrow> u16 \<Rightarrow> message
    \<Rightarrow> 'z targets_state_scheme \<Rightarrow> (exn, dispatch_result) outcome \<times> 'z targets_state_scheme" where
  "lean_tail_dispatch env apply cell handler interfaceId methodId params =
     bnd (encodeRequestForLean params) (\<lambda>(req, reqCaps, requestCapIds).
     bnd (apply_lean apply cell handler interfaceId methodId req reqCaps) (\<lambda>reply.
     case reply of
       None \<Rightarrow> sq (modify (dropRequestCapsExceptOne requestCapIds 0))
                 (throw (StdEx ''Lean RPC tail-call handler returned IO error''))
     | Some forwardTargetId \<Rightarrow>
         bnd (gets (\<lambda>s. targets s forwardTargetId)) (\<lambda>found.
         case found of
           None \<Rightarrow> sq (modify (dropRequestCapsExceptOne requestCapIds 0))
             (throw (StdEx (''unknown RPC tail-call target capability id from Lean handler: '' @
                to_string forwardTargetId)))
         | Some cap \<Rightarrow> sq (modify (dropRequestCapsExceptOne requestCapIds forwardTargetId))
             (bnd (call (ask_obj env) (TailCall (typelessRequest cap interfaceId methodId (Some params)))) (\<lambda>p.
              ret \<lparr>dr_promise = KjPromise p, dr_isStreaming = False, dr_allowCancellation = False\<rparr>)))))"

section \<open>Advanced handlers: the action\<close>

text \<open>The Lean value a handler returns, a constructor per tag; flags are its scalar fields.\<close>

datatype lean_action =
    RawReturn bytes bytes
  | RawAsyncCall u64 u32 u16 bytes bytes
  | RawTailCall u64 u32 u16 bytes bytes
  | RawThrowRemote string bytes
  | RawControl u8 u8 u8 lean_action
  | RawAwait obj obj
  | RawSendResultsToCaller lean_action
  | RawCallHints u8 u8 lean_action
  | RawExceptionType u8 lean_action
  | RawSetPipeline bytes bytes lean_action
  | RawUnknown

datatype action_kind = RETURN_PAYLOAD | ASYNC_CALL | TAIL_CALL | THROW_REMOTE | AWAIT_TASK

record handler_action =
  ac_kind :: action_kind
  ac_releaseParams :: bool
  ac_allowCancellation :: bool
  ac_isStreaming :: bool
  ac_sendResultsToCaller :: bool
  ac_noPromisePipelining :: bool
  ac_onlyPromisePipeline :: bool
  ac_hasPipeline :: bool
  ac_target :: u32
  ac_interfaceId :: u64
  ac_methodId :: u16
  ac_pipelineBytes :: bytes
  ac_pipelineCaps :: bytes
  ac_payloadBytes :: bytes
  ac_payloadCaps :: bytes
  ac_message :: string
  ac_remoteExceptionType :: ex_type
  ac_detailBytes :: bytes
  ac_deferredWaitTask :: obj
  ac_deferredCancelTask :: obj

definition action_init :: handler_action where
  "action_init = \<lparr>ac_kind = RETURN_PAYLOAD, ac_releaseParams = False, ac_allowCancellation = False,
     ac_isStreaming = False, ac_sendResultsToCaller = False, ac_noPromisePipelining = False,
     ac_onlyPromisePipeline = False, ac_hasPipeline = False, ac_target = 0, ac_interfaceId = 0,
     ac_methodId = 0, ac_pipelineBytes = [], ac_pipelineCaps = [], ac_payloadBytes = [],
     ac_payloadCaps = [], ac_message = [], ac_remoteExceptionType = FAILED, ac_detailBytes = [],
     ac_deferredWaitTask = 0, ac_deferredCancelTask = 0\<rparr>"

text \<open>The \<^verbatim>\<open>while (true)\<close> of \<^verbatim>\<open>decodeAction\<close> peels the wrappers.\<close>

fun decode_from :: "handler_action \<Rightarrow> lean_action \<Rightarrow> exn + handler_action" where
  "decode_from action (RawControl release allow streaming next) =
     decode_from (action\<lparr>
       ac_releaseParams := ac_releaseParams action \<or> release \<noteq> 0,
       ac_allowCancellation := ac_allowCancellation action \<or> allow \<noteq> 0,
       ac_isStreaming := ac_isStreaming action \<or> streaming \<noteq> 0\<rparr>) next"
| "decode_from action (RawSendResultsToCaller next) =
     decode_from (action\<lparr>ac_sendResultsToCaller := True\<rparr>) next"
| "decode_from action (RawCallHints noPromise onlyPipeline next) =
     decode_from (action\<lparr>
       ac_noPromisePipelining := ac_noPromisePipelining action \<or> noPromise \<noteq> 0,
       ac_onlyPromisePipeline := ac_onlyPromisePipeline action \<or> onlyPipeline \<noteq> 0\<rparr>) next"
| "decode_from action (RawExceptionType typeTag next) =
     decode_from (action\<lparr>ac_remoteExceptionType := decodeRemoteExceptionType typeTag\<rparr>) next"
| "decode_from action (RawSetPipeline pbytes caps next) =
     (if ac_hasPipeline action
        then Inl (StdEx ''Lean RPC advanced handler: setPipeline may only be specified once'')
      else decode_from (action\<lparr>ac_hasPipeline := True, ac_pipelineBytes := pbytes,
             ac_pipelineCaps := caps\<rparr>) next)"
| "decode_from action (RawReturn payload caps) =
     Inr (action\<lparr>ac_kind := RETURN_PAYLOAD, ac_payloadBytes := payload, ac_payloadCaps := caps\<rparr>)"
| "decode_from action (RawAsyncCall interfaceId target methodId payload caps) =
     Inr (action\<lparr>ac_kind := ASYNC_CALL, ac_interfaceId := interfaceId, ac_target := target,
       ac_methodId := methodId, ac_payloadBytes := payload, ac_payloadCaps := caps\<rparr>)"
| "decode_from action (RawTailCall interfaceId target methodId payload caps) =
     Inr (action\<lparr>ac_kind := TAIL_CALL, ac_interfaceId := interfaceId, ac_target := target,
       ac_methodId := methodId, ac_payloadBytes := payload, ac_payloadCaps := caps\<rparr>)"
| "decode_from action (RawThrowRemote message detail) =
     Inr (action\<lparr>ac_kind := THROW_REMOTE, ac_message := message, ac_detailBytes := detail\<rparr>)"
| "decode_from action (RawAwait waitTask cancelTask) =
     Inr (action\<lparr>ac_kind := AWAIT_TASK, ac_deferredWaitTask := waitTask,
       ac_deferredCancelTask := cancelTask\<rparr>)"
| "decode_from action RawUnknown = Inl (StdEx ''unknown Lean RPC advanced handler result tag'')"

definition decodeAction :: "lean_action \<Rightarrow> exn + handler_action" where
  "decodeAction = decode_from action_init"

section \<open>Advanced handlers: acting on it\<close>

definition cleanupRequestCaps :: "nat \<Rightarrow> u32 list
    \<Rightarrow> 'z handlers_state_scheme \<Rightarrow> 'z handlers_state_scheme" where
  "cleanupRequestCaps cl retainedCaps s =
     (if cl_done (cleanups s ! cl) then s
      else let s' = dropRequestCapsExcept (cl_requestCapIds (cleanups s ! cl)) retainedCaps s
           in s'\<lparr>cleanups := (cleanups s')[cl := (cleanups s' ! cl)\<lparr>cl_done := True\<rparr>]\<rparr>)"

definition requestOf :: "client \<Rightarrow> handler_action \<Rightarrow> message option \<Rightarrow> request" where
  "requestOf cap action content =
     \<lparr>rq_target = cap, rq_interfaceId = ac_interfaceId action, rq_methodId = ac_methodId action,
      rq_noPromisePipelining = ac_noPromisePipelining action,
      rq_onlyPromisePipeline = ac_onlyPromisePipeline action, rq_content = content\<rparr>"

definition resultOf :: "promise \<Rightarrow> handler_action \<Rightarrow> dispatch_result" where
  "resultOf p action = \<lparr>dr_promise = p, dr_isStreaming = ac_isStreaming action,
     dr_allowCancellation = ac_allowCancellation action\<rparr>"

definition drop_response_caps :: "u32 list \<Rightarrow> 'z targets_state_scheme \<Rightarrow> 'z targets_state_scheme" where
  "drop_response_caps ids = drop_unless (\<lambda>capId. capId = 0) ids"

text \<open>The checks made before the action's kind is looked at.\<close>

definition check_action :: "env \<Rightarrow> handler_action \<Rightarrow> nat
    \<Rightarrow> 'z handlers_state_scheme \<Rightarrow> (exn, unit) outcome \<times> 'z handlers_state_scheme" where
  "check_action env action cl =
     (if (ac_sendResultsToCaller action \<or> ac_noPromisePipelining action \<or> ac_onlyPromisePipeline action) \<and>
         ac_kind action \<noteq> ASYNC_CALL
        then sq (modify (cleanupRequestCaps cl []))
          (throw (StdEx ''Lean RPC advanced handler: forward options are only valid with forwardCall''))
      else if ac_remoteExceptionType action \<noteq> FAILED \<and> ac_kind action \<noteq> THROW_REMOTE
        then sq (modify (cleanupRequestCaps cl []))
          (throw (StdEx ''Lean RPC advanced handler: exceptionType is only valid with throwRemote''))
      else sq (if ac_releaseParams action then tell ReleaseParams else ret ())
       (if ac_hasPipeline action then
          (if ac_kind action \<noteq> AWAIT_TASK
             then sq (modify (cleanupRequestCaps cl []))
               (throw (StdEx ''Lean RPC advanced handler: setPipeline is only valid with defer''))
           else on_throw (setContextPipelineFromPayload env (ac_pipelineBytes action)
                   (ac_pipelineCaps action) ''unknown RPC pipeline capability id: '')
                 (cleanupRequestCaps cl []))
        else ret ()))"

definition act_return :: "env \<Rightarrow> handler_action \<Rightarrow> nat
    \<Rightarrow> 'z handlers_state_scheme \<Rightarrow> (exn, dispatch_result) outcome \<times> 'z handlers_state_scheme" where
  "act_return env action cl =
     bnd (decode_caps_or_throw (ac_payloadCaps action)) (\<lambda>responseCapIds.
     sq (if ac_isStreaming action
           then sq (modify (cleanupRequestCaps cl [])) (modify (drop_response_caps responseCapIds))
         else sq (modify (cleanupRequestCaps cl responseCapIds))
           (setContextResultsFromPayloadWithCapIds env (ac_payloadBytes action) responseCapIds
              ''unknown RPC response capability id from Lean advanced handler: ''))
     (ret (resultOf ReadyNow action)))"

definition act_async :: "env \<Rightarrow> handler_action \<Rightarrow> nat
    \<Rightarrow> 'z handlers_state_scheme \<Rightarrow> (exn, dispatch_result) outcome \<times> 'z handlers_state_scheme" where
  "act_async env action cl =
     bnd (gets (\<lambda>s. targets s (ac_target action))) (\<lambda>found.
     case found of
       None \<Rightarrow> sq (modify (cleanupRequestCaps cl []))
         (throw (StdEx (''unknown RPC async-call target capability id from Lean handler: '' @
            to_string (ac_target action))))
     | Some cap \<Rightarrow>
         bnd (decode_caps_or_throw (ac_payloadCaps action)) (\<lambda>requestCapIdsOut.
         bnd (setRequestPayload env (ac_payloadBytes action) requestCapIdsOut) (\<lambda>content.
         sq (modify (cleanupRequestCaps cl []))
         (if ac_sendResultsToCaller action then
            bnd (call (ask_obj env) (TailCall (requestOf cap action content))) (\<lambda>p.
            ret (resultOf (KjPromise p) action))
          else if ac_onlyPromisePipeline action then
            throw (StdEx ''Lean RPC advanced handler: onlyPromisePipeline requires sendResultsTo.caller'')
          else bnd (call (ask_pair env) (SendRequest (requestOf cap action content))) (\<lambda>(p, pipeline).
            if ac_isStreaming action then
              ret \<lparr>dr_promise = KjPromise p, dr_isStreaming = True,
                   dr_allowCancellation = ac_allowCancellation action\<rparr>
            else sq (tell (SetPipelineOf pipeline)) (ret (resultOf (ForwardP (KjPromise p)) action)))))))"

definition act_tail :: "env \<Rightarrow> handler_action \<Rightarrow> nat
    \<Rightarrow> 'z handlers_state_scheme \<Rightarrow> (exn, dispatch_result) outcome \<times> 'z handlers_state_scheme" where
  "act_tail env action cl =
     bnd (gets (\<lambda>s. targets s (ac_target action))) (\<lambda>found.
     case found of
       None \<Rightarrow> sq (modify (cleanupRequestCaps cl []))
         (throw (StdEx (''unknown RPC tail-call target capability id from Lean advanced handler: '' @
            to_string (ac_target action))))
     | Some cap \<Rightarrow>
         bnd (decode_caps_or_throw (ac_payloadCaps action)) (\<lambda>requestCapIdsOut.
         bnd (setRequestPayload env (ac_payloadBytes action) requestCapIdsOut) (\<lambda>content.
         sq (modify (cleanupRequestCaps cl []))
         (bnd (call (ask_obj env) (TailCall (requestOf cap action content))) (\<lambda>p.
          ret (resultOf (KjPromise p) action))))))"

definition act_throw :: "handler_action \<Rightarrow> nat
    \<Rightarrow> 'z handlers_state_scheme \<Rightarrow> (exn, dispatch_result) outcome \<times> 'z handlers_state_scheme" where
  "act_throw action cl = sq (modify (cleanupRequestCaps cl []))
     (throw (KjEx (mk_exception (ac_remoteExceptionType action) (ac_message action) (ac_detailBytes action))))"

text \<open>The deferred task is a new object; its continuation is \<open>resumeDeferred\<close> below.\<close>

definition act_await :: "handler_action \<Rightarrow> nat
    \<Rightarrow> 'z handlers_state_scheme \<Rightarrow> (exn, dispatch_result) outcome \<times> 'z handlers_state_scheme" where
  "act_await action cl =
     bnd new_object (\<lambda>task.
     sq (modify (\<lambda>s. s\<lparr>
       deferredTasks := (deferredTasks s)(task \<mapsto>
         \<lparr>dt_waitTask = ac_deferredWaitTask action, dt_cancelTask = ac_deferredCancelTask action,
          dt_allowCancellation = ac_allowCancellation action, dt_completed = False,
          dt_cancellationRequested = False\<rparr>),
       activeCancelableDeferredTasks := activeCancelableDeferredTasks s @
         (if ac_allowCancellation action then [task] else [])\<rparr>))
     (ret (resultOf (DeferredHandlerP task cl (ac_allowCancellation action) (ac_isStreaming action)) action)))"

definition dispatchDecodedAction :: "env \<Rightarrow> handler_action \<Rightarrow> nat
    \<Rightarrow> 'z handlers_state_scheme \<Rightarrow> (exn, dispatch_result) outcome \<times> 'z handlers_state_scheme" where
  "dispatchDecodedAction env action cl =
     sq (check_action env action cl)
     (case ac_kind action of
        RETURN_PAYLOAD \<Rightarrow> act_return env action cl
      | ASYNC_CALL \<Rightarrow> act_async env action cl
      | TAIL_CALL \<Rightarrow> act_tail env action cl
      | THROW_REMOTE \<Rightarrow> act_throw action cl
      | AWAIT_TASK \<Rightarrow> act_await action cl)"

definition lift_sum :: "exn + 'a \<Rightarrow> 's \<Rightarrow> (exn, 'a) outcome \<times> 's" where
  "lift_sum x = (case x of Inl e \<Rightarrow> throw e | Inr a \<Rightarrow> ret a)"

definition advanced_dispatch :: "env \<Rightarrow> (lean_action, 'z handlers_state_scheme) lean_apply
    \<Rightarrow> nat \<Rightarrow> obj \<Rightarrow> u64 \<Rightarrow> u16 \<Rightarrow> message
    \<Rightarrow> 'z handlers_state_scheme \<Rightarrow> (exn, dispatch_result) outcome \<times> 'z handlers_state_scheme" where
  "advanced_dispatch env apply cell handler interfaceId methodId params =
     bnd (encodeRequestForLean params) (\<lambda>(req, reqCaps, requestCapIds).
     bnd (gets (\<lambda>s. length (cleanups s))) (\<lambda>cl.
     sq (modify (\<lambda>s. s\<lparr>cleanups := cleanups s @
       [\<lparr>cl_requestCapIds = requestCapIds, cl_done = False\<rparr>]\<rparr>))
     (bnd (apply_lean apply cell handler interfaceId methodId req reqCaps) (\<lambda>reply.
      case reply of
        None \<Rightarrow> sq (modify (cleanupRequestCaps cl []))
          (throw (StdEx ''Lean RPC advanced handler returned IO error''))
      | Some raw \<Rightarrow> on_throw
          (bnd (lift_sum (decodeAction raw)) (\<lambda>action. dispatchDecodedAction env action cl))
          (cleanupRequestCaps cl [])))))"

subsection \<open>Deferred handlers\<close>

text \<open>
  One poll of \<^verbatim>\<open>waitLeanActionTask\<close>. \<open>state\<close> is what the Lean runtime says of the task:
  \<open>None\<close> not finished, otherwise the constructor tag of its result and the value in it.
\<close>

definition waitLeanActionTask :: "(nat \<times> lean_action) option \<Rightarrow> obj
    \<Rightarrow> 'z calls_state_scheme \<Rightarrow> (exn, handler_action option) outcome \<times> 'z calls_state_scheme" where
  "waitLeanActionTask state task = (case state of
      None \<Rightarrow> ret None
    | Some (tag, raw) \<Rightarrow>
        sq (modify (\<lambda>s. s\<lparr>deferredTasks := (deferredTasks s)(task := map_option
              (\<lambda>d. d\<lparr>dt_completed := True\<rparr>) (deferredTasks s task))\<rparr>))
        (if tag = 0 then throw (StdEx ''Lean RPC advanced deferred handler task returned IO error'')
         else if tag \<noteq> 1
           then throw (StdEx ''Lean RPC advanced deferred handler task returned invalid result'')
         else bnd (lift_sum (decodeAction raw)) (\<lambda>action. ret (Some action))))"

text \<open>
  The continuation when the task has given an action, and the one for an exception. An
  exception of the first is not seen by the second: both belong to the same
  \<^verbatim>\<open>then\<close>. The nested promise has a handler of its own.
\<close>

definition resumeDeferred :: "env \<Rightarrow> nat \<Rightarrow> bool \<Rightarrow> bool \<Rightarrow> handler_action
    \<Rightarrow> 'z handlers_state_scheme \<Rightarrow> (exn, promise) outcome \<times> 'z handlers_state_scheme" where
  "resumeDeferred env cl earlyAllowCancellation earlyIsStreaming nextAction =
     (if ac_allowCancellation nextAction \<and> \<not> earlyAllowCancellation
        then sq (modify (cleanupRequestCaps cl []))
          (throw (StdEx ''Lean RPC advanced deferred handler: allowCancellation must be set before defer''))
      else if ac_isStreaming nextAction \<and> \<not> earlyIsStreaming
        then sq (modify (cleanupRequestCaps cl []))
          (throw (StdEx ''Lean RPC advanced deferred handler: isStreaming must be set before defer''))
      else bnd (dispatchDecodedAction env nextAction cl) (\<lambda>nextResult.
           ret (GuardedP (dr_promise nextResult) cl)))"

definition guardedFailed :: "nat \<Rightarrow> exn
    \<Rightarrow> 'z handlers_state_scheme \<Rightarrow> (exn, unit) outcome \<times> 'z handlers_state_scheme" where
  "guardedFailed cl e = sq (modify (cleanupRequestCaps cl [])) (throw e)"

text \<open>
  One turn of a deferred handler: \<open>Ret None\<close> polls again, and when the turn settles the
  promise the attached task state is destroyed.
\<close>

definition deferred_turn :: "env \<Rightarrow> (nat \<times> lean_action) option \<Rightarrow> obj \<Rightarrow> nat \<Rightarrow> bool \<Rightarrow> bool
    \<Rightarrow> 'z handlers_state_scheme \<Rightarrow> (exn, promise option) outcome \<times> 'z handlers_state_scheme" where
  "deferred_turn env state task cl earlyAllowCancellation earlyIsStreaming s =
     (case waitLeanActionTask state task s of
        (Ret None, s') \<Rightarrow> (Ret None, s')
      | (Ret (Some action), s') \<Rightarrow>
          (case resumeDeferred env cl earlyAllowCancellation earlyIsStreaming action s' of
             (Ret p, t) \<Rightarrow> (Ret (Some p), t)
           | (Throw e, t) \<Rightarrow> (Throw e, destroyDeferredTask task t)
           | (Hang, t) \<Rightarrow> (Hang, t))
      | (Throw e, s') \<Rightarrow> (Throw e, destroyDeferredTask task (cleanupRequestCaps cl [] s'))
      | (Hang, s') \<Rightarrow> (Hang, s'))"

definition setContextResultsFromResponse :: "env \<Rightarrow> message
    \<Rightarrow> 'z targets_state_scheme \<Rightarrow> (exn, unit) outcome \<times> 'z targets_state_scheme" where
  "setContextResultsFromResponse env response =
     bnd (serializeResponse response) (\<lambda>(responseBytes, responseCaps).
     setContextResultsFromPayload env responseBytes responseCaps
       ''unknown RPC response capability id from Lean advanced handler: '')"

end
