(* ===== verification/Promise_Facts.thy ===== *)
theory Promise_Facts
  imports Promises
begin

text \<open>
  The life of \<^verbatim>\<open>KjAsync\<close> promise identifiers, what the combinators consume, and the
  task sets' error report.
\<close>

section \<open>Issued, live and retired identifiers\<close>

text \<open>Every identifier below the counter has been issued, and is either live or retired.\<close>

definition kj_ids_ok :: "'z promises_state_scheme \<Rightarrow> bool" where
  "kj_ids_ok s \<longleftrightarrow> nextKjAsyncPromiseId s \<noteq> 0 \<and>
     dom (kjAsyncPromises s) \<inter> retiredKjAsyncPromises s = {} \<and>
     dom (kjAsyncPromises s) \<union> retiredKjAsyncPromises s = {k. k \<noteq> 0 \<and> k < nextKjAsyncPromiseId s}"

definition kj_at :: "u32 \<Rightarrow> 'z promises_state_scheme \<Rightarrow> bool" where
  "kj_at n s \<longleftrightarrow> kj_ids_ok s \<and> nextKjAsyncPromiseId s = n"

text \<open>The state at the end of an operation that issues at most one identifier.\<close>

definition kj_after :: "u32 \<Rightarrow> 'z promises_state_scheme \<Rightarrow> bool" where
  "kj_after n s \<longleftrightarrow> kj_ids_ok s \<and> (nextKjAsyncPromiseId s = n \<or> nextKjAsyncPromiseId s = n + 1)"

lemma kj_at_after: "kj_at n s \<Longrightarrow> kj_after n s"
  by (simp add: kj_at_def kj_after_def)

lemma log_free_kj_at [keeps_intro]: "log_free (kj_at n)"
  by (auto simp: log_free_def kj_at_def kj_ids_ok_def)

lemma kj_ids_retire: "kj_ids_ok s \<Longrightarrow> kjAsyncPromises s i \<noteq> None \<Longrightarrow> kj_ids_ok (retire i s)"
  by (auto simp: kj_ids_ok_def retire_def)

lemma kj_ids_log [simp]: "kj_ids_ok (s\<lparr>log := l\<rparr>) = kj_ids_ok s"
  by (simp add: kj_ids_ok_def)

lemma next_retire [simp]: "nextKjAsyncPromiseId (retire i s) = nextKjAsyncPromiseId s"
  by (simp add: retire_def)

text \<open>What taking a promise does, by cases.\<close>

lemma take_cases:
  assumes "takeKjAsyncPromise i s = (r, t)"
  obtains (Live) p where "kjAsyncPromises s i = Some p" "r = Ret p"
      "t = (retire i s)\<lparr>log := log s @ [CancelerRelease (pp_canceler p)]\<rparr>"
    | (Retired) "kjAsyncPromises s i = None" "i \<in> retiredKjAsyncPromises s"
        "r = Throw (retired_kj_promise i)" "t = s"
    | (Unknown) "kjAsyncPromises s i = None" "i \<notin> retiredKjAsyncPromises s"
        "r = Throw (unknown_kj_promise i)" "t = s"
proof (cases "kjAsyncPromises s i")
  case None
  with assms show thesis
    by (cases "i \<in> retiredKjAsyncPromises s") (auto simp: takeKjAsyncPromise_def intro: Retired Unknown)
next
  case (Some p)
  with assms show thesis
    by (intro Live [of p]) (auto simp: takeKjAsyncPromise_def retire_def)
qed

lemma keeps_take [keeps_intro]: "keeps (kj_at n) (takeKjAsyncPromise i)"
proof (rule keepsI)
  fix s r t
  assume "kj_at n s" and "takeKjAsyncPromise i s = (r, t)"
  from this(2) show "kj_at n t"
    by (cases rule: take_cases) (use \<open>kj_at n s\<close> in \<open>auto simp: kj_at_def kj_ids_retire\<close>)
qed

lemma keeps_take_all [keeps_intro]: "keeps (kj_at n) (take_all is)"
proof (induction "is")
  case Nil
  then show ?case by (simp add: keeps_def)
next
  case (Cons i "is")
  have "take_all (i # is) = bnd (takeKjAsyncPromise i) (\<lambda>pending.
     bnd (take_all is) (\<lambda>ps. ret (pp_promise pending # ps)))" by (rule ext) simp
  then show ?case using Cons by (simp add: keeps_intro)
qed

lemma keeps_race_from [keeps_intro]: "keeps (kj_at n) (race_from p is)"
proof (induction "is" arbitrary: p)
  case Nil
  then show ?case by (simp add: keeps_def)
next
  case (Cons i "is")
  have "race_from p (i # is) = bnd (takeKjAsyncPromise i) (\<lambda>pending.
     race_from (RaceP p (pp_promise pending)) is)" by (rule ext) simp
  then show ?case using Cons by (simp add: keeps_intro)
qed

text \<open>Operations that issue at most one identifier, from a counter \<open>n\<close> that has room.\<close>

definition issues :: "u32 \<Rightarrow> ('z promises_state_scheme \<Rightarrow> (exn, 'a) outcome \<times> 'z promises_state_scheme) \<Rightarrow> bool"
  where
  "issues n m \<longleftrightarrow> (\<forall>s r t. kj_at n s \<longrightarrow> m s = (r, t) \<longrightarrow> kj_after n t)"

lemma issues_bnd:
  assumes "keeps (kj_at n) m" and "\<And>a. issues n (f a)"
  shows "issues n (bnd m f)"
  unfolding issues_def
proof (intro allI impI)
  fix s r t
  assume at: "kj_at n s" and "bnd m f s = (r, t)"
  from this(2) show "kj_after n t"
  proof (cases rule: bnd_cases)
    case (Ret a s')
    from keepsD [OF assms(1) at Ret(1)] show ?thesis
      using assms(2) [of a] Ret(2) unfolding issues_def by blast
  qed (use keepsD [OF assms(1) at] kj_at_after in blast)+
qed

lemma keeps_issues: "keeps (kj_at n) m \<Longrightarrow> issues n m"
  unfolding issues_def by (metis keepsD kj_at_after)

lemma issues_add:
  assumes "n < - 1"
  shows "issues n (addKjAsyncPromise p)"
  unfolding issues_def
proof (intro allI impI)
  fix s :: "'z promises_state_scheme" and r t
  assume "kj_at n s" and run: "addKjAsyncPromise p s = (r, t)"
  then have ok: "kj_ids_ok s" and n: "nextKjAsyncPromiseId s = n" by (simp_all add: kj_at_def)
  have "n \<notin> dom (kjAsyncPromises s) \<union> retiredKjAsyncPromises s"
    using ok n by (simp add: kj_ids_ok_def)
  then have free: "kjAsyncPromises s n = None" "retiredKjAsyncPromises s - {n} = retiredKjAsyncPromises s"
    by auto
  have t: "t = s\<lparr>nextKjAsyncPromiseId := n + 1, kjAsyncPromises := (kjAsyncPromises s)(n \<mapsto> p)\<rparr>"
    using run free by (simp add: addKjAsyncPromise_def n)
  have up: "n + 1 \<noteq> 0" by (rule word_below_max_Suc(2) [OF assms disjI2 [OF refl]])
  have le: "k < n + 1 \<longleftrightarrow> k < n \<or> k = n" for k
    using word_below_max_Suc(3) [OF assms disjI2 [OF refl]]
    by (auto simp: word_less_nat_alt less_Suc_eq word_unat_eq_iff)
  have "n \<noteq> 0" using ok n by (simp add: kj_ids_ok_def)
  then have "{k. k \<noteq> 0 \<and> k < n + 1} = insert n {k. k \<noteq> 0 \<and> k < n}" by (auto simp: le)
  then have "kj_ids_ok t"
    using ok up free \<open>n \<notin> _\<close> n by (auto simp: kj_ids_ok_def t)
  then show "kj_after n t" by (simp add: kj_after_def t)
qed

lemma issues_wrap: "n < - 1 \<Longrightarrow> issues n (wrap_and_add p)"
  unfolding wrap_and_add_def by (rule issues_bnd [OF keeps_new_object [OF log_free_kj_at] issues_add])

lemma issues_throw: "issues n (throw e)"
  by (rule keeps_issues [OF keeps_throw])

lemmas kj_issues = issues_bnd keeps_take keeps_take_all keeps_race_from issues_wrap

text \<open>Every operation on \<^verbatim>\<open>KjAsync\<close> promises.\<close>

lemma issues_starts:
  assumes "n < - 1"
  shows "issues n (kjAsyncSleepNanosStart d)" and "issues n (kjAsyncPromiseThenStart i j)"
    and "issues n (kjAsyncPromiseCatchStart i j)" and "issues n (kjAsyncPromiseAllStart is)"
    and "issues n (kjAsyncPromiseRaceStart is)"
  unfolding kjAsyncSleepNanosStart_def kjAsyncPromiseThenStart_def kjAsyncPromiseCatchStart_def
    kjAsyncPromiseAllStart_def kjAsyncPromiseRaceStart_def
  by (auto split: list.splits intro!: kj_issues issues_throw assms)

lemma issues_on_empty:
  assumes "n < - 1"
  shows "issues n (kjAsyncTaskSetOnEmptyStart env i)"
  unfolding kjAsyncTaskSetOnEmptyStart_def sq_def
  by (intro issues_bnd keeps_find_or keeps_new_object keeps_call log_free_kj_at issues_add assms)

lemma kj_at_retire: "kj_at n s \<Longrightarrow> kjAsyncPromises s i = Some p \<Longrightarrow> kj_at n (retire i s)"
  by (simp add: kj_at_def kj_ids_retire)

lemma keeps_release_cancel:
  shows "keeps (kj_at n) (releaseKjAsyncPromise i)" and "keeps (kj_at n) (cancelKjAsyncPromise i)"
    and "keeps (kj_at n) (kjAsyncTaskSetAddPromise k i)"
proof -
  show "keeps (kj_at n) (releaseKjAsyncPromise i)" "keeps (kj_at n) (cancelKjAsyncPromise i)"
    unfolding keeps_def releaseKjAsyncPromise_def cancelKjAsyncPromise_def
    by (auto simp: kj_at_retire split: option.splits) (simp add: kj_at_def)
  show "keeps (kj_at n) (kjAsyncTaskSetAddPromise k i)"
    unfolding kjAsyncTaskSetAddPromise_def by (intro keeps_intro)
qed

lemma keeps_await:
  assumes "\<And>p. keeps (kj_at n) (wait p)"
  shows "keeps (kj_at n) (awaitKjAsyncPromise wait i)"
proof (rule keepsI)
  fix s r t
  assume at: "kj_at n s" and run: "awaitKjAsyncPromise wait i s = (r, t)"
  show "kj_at n t"
  proof (cases "kjAsyncPromises s i")
    case None
    with at run show ?thesis by (auto simp: awaitKjAsyncPromise_def split: if_splits)
  next
    case (Some p)
    let ?u = "(retire i s)\<lparr>log := log (retire i s) @ [CancelerRelease (pp_canceler p)]\<rparr>"
    have "kj_at n ?u" using kj_at_retire [OF at Some] by (simp add: kj_at_def)
    moreover have "wait (pp_promise p) ?u = (r, t)"
      using run Some by (simp add: awaitKjAsyncPromise_def)
    ultimately show ?thesis using assms by (metis keepsD)
  qed
qed

section \<open>Runs\<close>

text \<open>What the \<^verbatim>\<open>KjAsync\<close> tables consist of; everything else may change at any time.\<close>

definition kj_part :: "'z promises_state_scheme \<Rightarrow> (u32 \<rightharpoonup> pending_promise) \<times> u32 set \<times> u32" where
  "kj_part s = (kjAsyncPromises s, retiredKjAsyncPromises s, nextKjAsyncPromiseId s)"

lemma kj_at_part: "kj_part t = kj_part s \<Longrightarrow> kj_at n t = kj_at n s"
  by (simp add: kj_part_def kj_at_def kj_ids_ok_def)

inductive kj_run :: "env \<Rightarrow> 'z promises_state_scheme \<Rightarrow> nat \<Rightarrow> 'z promises_state_scheme \<Rightarrow> bool" for env s0 where
  start: "kj_run env s0 0 s0"
| sleep: "kj_run env s0 n s \<Longrightarrow> kjAsyncSleepNanosStart d s = (r, t) \<Longrightarrow> kj_run env s0 (Suc n) t"
| thenS: "kj_run env s0 n s \<Longrightarrow> kjAsyncPromiseThenStart i j s = (r, t) \<Longrightarrow> kj_run env s0 (Suc n) t"
| catchS: "kj_run env s0 n s \<Longrightarrow> kjAsyncPromiseCatchStart i j s = (r, t) \<Longrightarrow> kj_run env s0 (Suc n) t"
| allS: "kj_run env s0 n s \<Longrightarrow> kjAsyncPromiseAllStart is s = (r, t) \<Longrightarrow> kj_run env s0 (Suc n) t"
| raceS: "kj_run env s0 n s \<Longrightarrow> kjAsyncPromiseRaceStart is s = (r, t) \<Longrightarrow> kj_run env s0 (Suc n) t"
| onEmpty: "kj_run env s0 n s \<Longrightarrow> kjAsyncTaskSetOnEmptyStart env k s = (r, t) \<Longrightarrow> kj_run env s0 (Suc n) t"
| addTask: "kj_run env s0 n s \<Longrightarrow> kjAsyncTaskSetAddPromise k i s = (u, t) \<Longrightarrow> kj_run env s0 (Suc n) t"
| await: "kj_run env s0 n s \<Longrightarrow> awaitKjAsyncPromise wait i s = (u, t) \<Longrightarrow>
    (\<And>p v w x. wait p v = (w, x) \<Longrightarrow> kj_part x = kj_part v) \<Longrightarrow> kj_run env s0 (Suc n) t"
| cancel: "kj_run env s0 n s \<Longrightarrow> cancelKjAsyncPromise i s = (u, t) \<Longrightarrow> kj_run env s0 (Suc n) t"
| release: "kj_run env s0 n s \<Longrightarrow> releaseKjAsyncPromise i s = (u, t) \<Longrightarrow> kj_run env s0 (Suc n) t"
| rest: "kj_run env s0 n s \<Longrightarrow> kj_part t = kj_part s \<Longrightarrow> kj_run env s0 (Suc n) t"

definition kj_below :: "nat \<Rightarrow> 'z promises_state_scheme \<Rightarrow> bool" where
  "kj_below n s \<longleftrightarrow> kj_ids_ok s \<and> unat (nextKjAsyncPromiseId s) \<le> n + 1"

lemma kj_below_issues:
  assumes "m s = (r, t)"
    and "nextKjAsyncPromiseId s < - 1 \<Longrightarrow> issues (nextKjAsyncPromiseId s) m"
    and "kj_below n s" and "Suc n < 2 ^ 32 - 1"
  shows "kj_below (Suc n) t"
proof -
  let ?n = "nextKjAsyncPromiseId s"
  have room: "?n < - 1" using assms(3,4)
    by (simp add: kj_below_def word_less_nat_alt unsigned_minus_1_eq_mask mask_eq_exp_minus_1)
  have "kj_at ?n s" using assms(3) by (simp add: kj_below_def kj_at_def)
  with assms(1,2) room have "kj_after ?n t" unfolding issues_def by blast
  then show ?thesis
    using assms(3) word_below_max_Suc(3) [OF room disjI2 [OF refl]]
    by (auto simp: kj_below_def kj_after_def)
qed

lemma kj_below_keeps:
  "(m s :: (exn, 'a) outcome \<times> _) = (r, t) \<Longrightarrow> keeps (kj_at (nextKjAsyncPromiseId s)) m \<Longrightarrow> kj_below n s \<Longrightarrow>
   Suc n < 2 ^ 32 - 1 \<Longrightarrow> kj_below (Suc n) t"
  by (rule kj_below_issues [of m s r t n]) (auto intro: keeps_issues)

lemma kj_run_below: "kj_run env s0 n s \<Longrightarrow> kj_below 0 s0 \<Longrightarrow> n < 2 ^ 32 - 1 \<Longrightarrow> kj_below n s"
proof (induction rule: kj_run.induct)
  case (await n s wait i u t)
  have "keeps (kj_at m) (wait p)" for m p
    by (rule keepsI) (use await.hyps(3) kj_at_part in blast)
  with await show ?case
    by (intro kj_below_keeps [OF await.hyps(2) keeps_await]) simp_all
next
  case (rest n s t)
  then have "kj_below n t" by (simp add: kj_below_def kj_part_def kj_ids_ok_def)
  then show ?case by (simp add: kj_below_def)
next
  case (cancel n s i u t)
  then show ?case by (intro kj_below_keeps [OF cancel.hyps(2) keeps_release_cancel(2)]) simp_all
next
  case (release n s i u t)
  then show ?case by (intro kj_below_keeps [OF release.hyps(2) keeps_release_cancel(1)]) simp_all
next
  case (addTask n s k i u t)
  then show ?case by (intro kj_below_keeps [OF addTask.hyps(2) keeps_release_cancel(3)]) simp_all
qed (simp, (erule kj_below_issues, rule issues_starts issues_on_empty, assumption, simp, assumption)+)

definition promises_init :: promises_state where
  "promises_init = promise_caps_state.extend promise_caps_init
     \<lparr>registerPromises = Map.empty, nextRegisterPromiseId = 1, activeRegisterPromiseCancelers = Map.empty,
      unitPromises = Map.empty, nextUnitPromiseId = 1, activeUnitPromiseCancelers = Map.empty,
      kjAsyncPromises = Map.empty, nextKjAsyncPromiseId = 1, retiredKjAsyncPromises = {},
      kjAsyncTaskSets = Map.empty, nextKjAsyncTaskSetId = 1\<rparr>"

lemmas promises_init_simps = promises_init_def promise_caps_state.extend_def promise_caps_init_simps

lemma promises_init_below: "kj_below 0 promises_init"
proof -
  have "k < 1 \<Longrightarrow> k = (0 :: u32)" for k by (simp add: word_less_nat_alt unat_eq_0)
  then show ?thesis by (auto simp: kj_below_def kj_ids_ok_def promises_init_simps)
qed

text \<open>C10. In every run of fewer than \<open>2^32 - 1\<close> steps, with waits that leave these tables alone:
  the identifiers issued so far are those below the counter, each is live or retired and not
  both; so canceling or releasing an identifier throws exactly when it was never issued, and
  taking one throws "already consumed" exactly when it was issued and is no longer live.\<close>

theorem kj_promise_lifecycle:
  assumes "kj_run env s0 n s" and "kj_below 0 s0" and "n < 2 ^ 32 - 1"
  shows "dom (kjAsyncPromises s) \<inter> retiredKjAsyncPromises s = {} \<and>
    dom (kjAsyncPromises s) \<union> retiredKjAsyncPromises s = {k. k \<noteq> 0 \<and> k < nextKjAsyncPromiseId s} \<and>
    ((\<exists>e t. releaseKjAsyncPromise i s = (Throw e, t)) \<longleftrightarrow> i = 0 \<or> \<not> i < nextKjAsyncPromiseId s) \<and>
    ((\<exists>e t. cancelKjAsyncPromise i s = (Throw e, t)) \<longleftrightarrow> i = 0 \<or> \<not> i < nextKjAsyncPromiseId s) \<and>
    ((\<exists>t. takeKjAsyncPromise i s = (Throw (retired_kj_promise i), t)) \<longleftrightarrow>
       i \<noteq> 0 \<and> i < nextKjAsyncPromiseId s \<and> kjAsyncPromises s i = None)"
proof -
  from kj_run_below [OF assms] have ok: "dom (kjAsyncPromises s) \<inter> retiredKjAsyncPromises s = {}"
    and un: "dom (kjAsyncPromises s) \<union> retiredKjAsyncPromises s = {k. k \<noteq> 0 \<and> k < nextKjAsyncPromiseId s}"
    by (simp_all add: kj_below_def kj_ids_ok_def)
  from un have iff: "i \<in> retiredKjAsyncPromises s \<or> kjAsyncPromises s i \<noteq> None \<longleftrightarrow>
      i \<noteq> 0 \<and> i < nextKjAsyncPromiseId s" by (auto simp: set_eq_iff domIff)
  have ne: "unknown_kj_promise i \<noteq> retired_kj_promise i"
    by (simp add: unknown_kj_promise_def retired_kj_promise_def)
  have "(\<exists>e t. releaseKjAsyncPromise i s = (Throw e, t)) \<longleftrightarrow> i = 0 \<or> \<not> i < nextKjAsyncPromiseId s"
    using iff by (auto simp: releaseKjAsyncPromise_def split: option.splits)
  moreover have "(\<exists>e t. cancelKjAsyncPromise i s = (Throw e, t)) \<longleftrightarrow> i = 0 \<or> \<not> i < nextKjAsyncPromiseId s"
    using iff by (auto simp: cancelKjAsyncPromise_def split: option.splits)
  moreover have "(\<exists>t. takeKjAsyncPromise i s = (Throw (retired_kj_promise i), t)) \<longleftrightarrow>
      i \<in> retiredKjAsyncPromises s \<and> kjAsyncPromises s i = None"
    using ne by (auto simp: takeKjAsyncPromise_def split: option.splits)
  ultimately show ?thesis using ok un iff by blast
qed

lemma kj_promise_lifecycle_witness:
  "\<exists>e t. releaseKjAsyncPromise 2 (snd (kjAsyncSleepNanosStart 5 promises_init)) = (Throw e, t)"
proof -
  obtain r s where run: "kjAsyncSleepNanosStart 5 promises_init = (r, s)" by fastforce
  have "nextKjAsyncPromiseId s = 2"
    using run by (auto simp: kjAsyncSleepNanosStart_def wrap_and_add_def addKjAsyncPromise_def promises_init_simps)
  with kj_promise_lifecycle [OF kj_run.sleep [OF kj_run.start run, of ok_env] promises_init_below, of 2]
  show ?thesis by (simp add: run)
qed

section \<open>What the combinators consume\<close>

definition consumed :: "u32 list \<Rightarrow> 'z promises_state_scheme \<Rightarrow> 'z promises_state_scheme" where
  "consumed is s = s\<lparr>
     log := log s @ map (\<lambda>i. CancelerRelease (pp_canceler (the (kjAsyncPromises s i)))) is,
     kjAsyncPromises := kjAsyncPromises s |` (- set is),
     retiredKjAsyncPromises := retiredKjAsyncPromises s \<union> set is\<rparr>"

lemma take_live:
  "kjAsyncPromises s i = Some p \<Longrightarrow> takeKjAsyncPromise i s = (Ret p, consumed [i] s)"
  by (simp add: takeKjAsyncPromise_def retire_def consumed_def restrict_complement_singleton_eq)

lemma consumed_consumed:
  assumes "distinct (is @ js)"
  shows "consumed js (consumed is s) = consumed (is @ js) s"
proof -
  have "(kjAsyncPromises s |` (- set is)) j = kjAsyncPromises s j" if "j \<in> set js" for j
    using that assms by (auto simp: restrict_map_def)
  then have "map (\<lambda>i. CancelerRelease (pp_canceler (the ((kjAsyncPromises s |` (- set is)) i)))) js =
    map (\<lambda>i. CancelerRelease (pp_canceler (the (kjAsyncPromises s i)))) js" by simp
  moreover have "kjAsyncPromises s |` (- set is) |` (- set js) = kjAsyncPromises s |` (- set (is @ js))"
    by (auto simp: restrict_map_def)
  ultimately show ?thesis by (simp add: consumed_def Un_assoc)
qed

definition live :: "u32 list \<Rightarrow> 'z promises_state_scheme \<Rightarrow> bool" where
  "live is s \<longleftrightarrow> distinct is \<and> set is \<subseteq> dom (kjAsyncPromises s)"

definition promise_of :: "'z promises_state_scheme \<Rightarrow> u32 \<Rightarrow> promise" where
  "promise_of s i = pp_promise (the (kjAsyncPromises s i))"

lemma live_Cons:
  assumes "live (i # is) s"
  shows "takeKjAsyncPromise i s = (Ret (the (kjAsyncPromises s i)), consumed [i] s)"
    and "live is (consumed [i] s)" and "j \<in> set is \<Longrightarrow> promise_of (consumed [i] s) j = promise_of s j"
    and "consumed is (consumed [i] s) = consumed (i # is) s"
proof -
  from assms obtain p where p: "kjAsyncPromises s i = Some p" by (auto simp: live_def)
  show "takeKjAsyncPromise i s = (Ret (the (kjAsyncPromises s i)), consumed [i] s)"
    using take_live [OF p] p by simp
  show "live is (consumed [i] s)" using assms by (auto simp: live_def consumed_def)
  show "promise_of (consumed [i] s) j = promise_of s j" if "j \<in> set is"
    using that assms by (auto simp: live_def promise_of_def consumed_def restrict_map_def)
  show "consumed is (consumed [i] s) = consumed (i # is) s"
    using consumed_consumed [of "[i]" "is" s] assms by (simp add: live_def)
qed

lemma consumed_Nil [simp]: "consumed [] s = s"
  by (simp add: consumed_def restrict_map_def)

lemma take_all_live: "live is s \<Longrightarrow> take_all is s = (Ret (map (promise_of s) is), consumed is s)"
proof (induction "is" arbitrary: s)
  case Nil
  then show ?case by simp
next
  case (Cons i "is")
  note l = live_Cons [OF Cons.prems]
  have "map (promise_of (consumed [i] s)) is = map (promise_of s) is" using l(3) by simp
  then show ?case using l(1,2,4) Cons.IH [OF l(2)] by (simp add: promise_of_def)
qed

lemma race_live: "live is s \<Longrightarrow> race_from p is s = (Ret (foldl RaceP p (map (promise_of s) is)), consumed is s)"
proof (induction "is" arbitrary: s p)
  case Nil
  then show ?case by simp
next
  case (Cons i "is")
  note l = live_Cons [OF Cons.prems]
  have mp: "map (promise_of (consumed [i] s)) is = map (promise_of s) is" using l(3) by simp
  show ?case
    using l(1,4) Cons.IH [OF l(2), of "RaceP p (promise_of s i)", unfolded mp]
    by (simp add: promise_of_def [of s i])
qed

lemma wrap_and_add_ret:
  assumes "wrap_and_add p s = (Ret r, t)"
  shows "kjAsyncPromises t = (kjAsyncPromises s)(r \<mapsto> \<lparr>pp_promise = p, pp_canceler = heapNext s\<rparr>) \<and>
    kjAsyncPromises s r = None \<and> retiredKjAsyncPromises t = retiredKjAsyncPromises s - {r}"
  using assms alloc_id_Some [of "kjAsyncPromises s" "nextKjAsyncPromiseId s"]
  by (auto simp: wrap_and_add_def addKjAsyncPromise_def split: option.splits)

lemma all_consume_race:
  assumes "live is s" and "is \<noteq> []"
  shows "kjAsyncPromiseAllStart is s = (Ret r, t) \<Longrightarrow>
      kjAsyncPromises t = (kjAsyncPromises s |` (- set is))
        (r \<mapsto> \<lparr>pp_promise = JoinP (map (promise_of s) is), pp_canceler = heapNext s\<rparr>)"
    and "kjAsyncPromiseRaceStart is s = (Ret r, t) \<Longrightarrow>
      kjAsyncPromises t = (kjAsyncPromises s |` (- set is))
        (r \<mapsto> \<lparr>pp_promise = foldl RaceP (promise_of s (hd is)) (map (promise_of s) (tl is)),
              pp_canceler = heapNext s\<rparr>)"
proof -
  assume "kjAsyncPromiseAllStart is s = (Ret r, t)"
  then have "wrap_and_add (JoinP (map (promise_of s) is)) (consumed is s) = (Ret r, t)"
    by (simp add: kjAsyncPromiseAllStart_def take_all_live [OF assms(1)])
  from wrap_and_add_ret [OF this] show "kjAsyncPromises t = (kjAsyncPromises s |` (- set is))
        (r \<mapsto> \<lparr>pp_promise = JoinP (map (promise_of s) is), pp_canceler = heapNext s\<rparr>)"
    by (simp add: consumed_def)
next
  assume run: "kjAsyncPromiseRaceStart is s = (Ret r, t)"
  obtain i js where ij: "is = i # js" using assms(2) by (cases "is") auto
  note l = live_Cons [OF assms(1) [unfolded ij]]
  have mp: "map (promise_of (consumed [i] s)) js = map (promise_of s) js" using l(3) by simp
  have "wrap_and_add (foldl RaceP (promise_of s i) (map (promise_of s) js)) (consumed is s) = (Ret r, t)"
    using run l(1,4) race_live [OF l(2), of "promise_of s i", unfolded mp]
    by (simp add: kjAsyncPromiseRaceStart_def ij promise_of_def [of s i])
  from wrap_and_add_ret [OF this] show "kjAsyncPromises t = (kjAsyncPromises s |` (- set is))
        (r \<mapsto> \<lparr>pp_promise = foldl RaceP (promise_of s (hd is)) (map (promise_of s) (tl is)),
              pp_canceler = heapNext s\<rparr>)"
    by (simp add: consumed_def ij)
qed

lemma start_never_throws:
  assumes "live is s" and "is \<noteq> []"
  shows "kjAsyncPromiseAllStart is s \<noteq> (Throw e, t)" and "kjAsyncPromiseRaceStart is s \<noteq> (Throw e, t)"
proof -
  have w: "wrap_and_add p u \<noteq> (Throw e, t)" for p u
    by (auto simp: wrap_and_add_def addKjAsyncPromise_def split: option.splits)
  show "kjAsyncPromiseAllStart is s \<noteq> (Throw e, t)"
    using w by (simp add: kjAsyncPromiseAllStart_def take_all_live [OF assms(1)])
  obtain i js where ij: "is = i # js" using assms(2) by (cases "is") auto
  note l = live_Cons [OF assms(1) [unfolded ij]]
  show "kjAsyncPromiseRaceStart is s \<noteq> (Throw e, t)"
    using w l(1) race_live [OF l(2)] by (simp add: kjAsyncPromiseRaceStart_def ij)
qed

text \<open>Joining distinct live promises consumes exactly them, and the identifier it returns
  names the join of their promises in the order given; a race of them names their left-nested
  exclusive join.\<close>

theorem all_and_race_consume:
  assumes "live is s" and "is \<noteq> []"
  shows "(case kjAsyncPromiseAllStart is s of (Ret r, t) \<Rightarrow>
      kjAsyncPromises t = (kjAsyncPromises s |` (- set is))
        (r \<mapsto> \<lparr>pp_promise = JoinP (map (promise_of s) is), pp_canceler = heapNext s\<rparr>)
      | (Throw e, t) \<Rightarrow> False | (Hang, t) \<Rightarrow> True) \<and>
    (case kjAsyncPromiseRaceStart is s of (Ret r, t) \<Rightarrow>
      kjAsyncPromises t = (kjAsyncPromises s |` (- set is))
        (r \<mapsto> \<lparr>pp_promise = foldl RaceP (promise_of s (hd is)) (map (promise_of s) (tl is)),
              pp_canceler = heapNext s\<rparr>)
      | (Throw e, t) \<Rightarrow> False | (Hang, t) \<Rightarrow> True)"
  using all_consume_race [OF assms] start_never_throws [OF assms]
  by (auto split: prod.splits outcome.splits)

lemma all_and_race_consume_witness:
  "\<exists>r t. kjAsyncPromiseAllStart [1] (snd (kjAsyncSleepNanosStart 5 promises_init)) = (Ret r, t) \<and>
     kjAsyncPromises t 1 = None \<and> (\<exists>c. kjAsyncPromises t r = Some \<lparr>pp_promise = JoinP [AfterDelay 5], pp_canceler = c\<rparr>)"
proof -
  let ?s = "snd (kjAsyncSleepNanosStart 5 promises_init)"
  have s: "kjAsyncPromises ?s = [1 \<mapsto> \<lparr>pp_promise = AfterDelay 5, pp_canceler = 0\<rparr>]"
    "nextKjAsyncPromiseId ?s = 2"
    by (simp_all add: kjAsyncSleepNanosStart_def wrap_and_add_def addKjAsyncPromise_def promises_init_simps)
  have live: "live [1] ?s" by (simp add: live_def s)
  have "\<exists>t. kjAsyncPromiseAllStart [1] ?s = (Ret 2, t)"
    by (simp add: kjAsyncPromiseAllStart_def take_all_live [OF live] wrap_and_add_def addKjAsyncPromise_def
        consumed_def s del: take_all.simps)
  then obtain t where run: "kjAsyncPromiseAllStart [1] ?s = (Ret 2, t)" ..
  from all_and_race_consume [OF live] run show ?thesis
    by (intro exI [of _ 2] exI [of _ t]) (simp add: s promise_of_def)
qed

text \<open>Sequencing consumes its first promise even when it then fails because the second is not
  live: the call throws, the first promise is gone, and nothing was started.\<close>

theorem then_start_loses_first:
  assumes "kjAsyncPromises s i = Some p" and "kjAsyncPromises s j = None \<or> j = i"
  shows "\<exists>e t. kjAsyncPromiseThenStart i j s = (Throw e, t) \<and>
    kjAsyncPromises t = (kjAsyncPromises s)(i := None) \<and> i \<in> retiredKjAsyncPromises t \<and>
    nextKjAsyncPromiseId t = nextKjAsyncPromiseId s"
proof -
  let ?u = "consumed [i] s"
  have none: "kjAsyncPromises ?u j = None" using assms(2) by (auto simp: consumed_def restrict_map_def)
  then obtain e where "takeKjAsyncPromise j ?u = (Throw e, ?u)"
    by (cases "j \<in> retiredKjAsyncPromises ?u") (auto simp: takeKjAsyncPromise_def)
  then show ?thesis
    using take_live [OF assms(1)]
    by (simp add: kjAsyncPromiseThenStart_def) (simp add: consumed_def restrict_complement_singleton_eq)
qed

lemma then_start_loses_first_witness:
  "\<exists>e t. kjAsyncPromiseThenStart 1 1 (snd (kjAsyncSleepNanosStart 5 promises_init)) = (Throw e, t) \<and>
     kjAsyncPromises t 1 = None"
  using then_start_loses_first [of "snd (kjAsyncSleepNanosStart 5 promises_init)" 1
      "\<lparr>pp_promise = AfterDelay 5, pp_canceler = 0\<rparr>" 1]
  by (auto simp: kjAsyncSleepNanosStart_def wrap_and_add_def addKjAsyncPromise_def promises_init_simps)

section \<open>Errors of a task set\<close>

lemma describe_nonempty [simp]: "describeKjException e \<noteq> []"
  by (simp add: describeKjException_def newline_def)

text \<open>A failed task of a live set is counted and its description is reported exactly once:
  the first read of the last error returns it, the next returns nothing until another failure.\<close>

theorem task_error_reported_once:
  assumes "kjAsyncTaskSets s k = Some t"
  shows "kjAsyncTaskSetErrorCount k (taskFailed k e s) = (Ret (ts_errorCount t + 1), taskFailed k e s) \<and>
    (\<exists>u. kjAsyncTaskSetTakeLastError k (taskFailed k e s) = (Ret (Some (describeKjException e)), u) \<and>
      kjAsyncTaskSetTakeLastError k u = (Ret None, u) \<and>
      kjAsyncTaskSetErrorCount k u = (Ret (ts_errorCount t + 1), u))"
  using assms
  by (simp add: taskFailed_def kjAsyncTaskSetErrorCount_def kjAsyncTaskSetTakeLastError_def)

lemma task_error_reported_once_witness:
  "\<exists>u. kjAsyncTaskSetTakeLastError 1 (taskFailed 1 (mk_exception FAILED ''boom'' [])
     (promises_init\<lparr>kjAsyncTaskSets := [1 \<mapsto> \<lparr>ts_errorCount = 0, ts_lastError = [], ts_tasks = 9\<rparr>]\<rparr>)) =
     (Ret (Some (''boom'' @ newline @ ''exception type: FAILED'')), u)"
  using task_error_reported_once [of
      "promises_init\<lparr>kjAsyncTaskSets := [1 \<mapsto> \<lparr>ts_errorCount = 0, ts_lastError = [], ts_tasks = 9\<rparr>]\<rparr>" 1
      "\<lparr>ts_errorCount = 0, ts_lastError = [], ts_tasks = 9\<rparr>" "mk_exception FAILED ''boom'' []"]
  by (auto simp: describeKjException_def mk_exception_def c_str_def)

end
