(* ===== verification/Call_Facts.thy ===== *)
theory Call_Facts
  imports Handlers Promise_Facts
begin

text \<open>
  What the payload operations do to the capability table, which calls a server registers
  and which it drops again, and how pending calls are released.
\<close>

section \<open>Registering the capabilities of a message\<close>

text \<open>The identifiers of the slots of a capability table: 0 for a null entry.\<close>

fun slots :: "client option list \<Rightarrow> u32 list \<Rightarrow> u32 list" where
  "slots [] ids = []"
| "slots (None # cs) ids = 0 # slots cs ids"
| "slots (Some c # cs) ids = hd ids # slots cs (tl ids)"

definition clients_of :: "client option list \<Rightarrow> client list" where
  "clients_of cs = map the (filter (\<lambda>c. c \<noteq> None) cs)"

lemma clients_of_simps [simp]: "clients_of [] = []" "clients_of (None # cs) = clients_of cs"
  "clients_of (Some c # cs) = c # clients_of cs"
  by (simp_all add: clients_of_def)

lemma length_slots [simp]: "length (slots cs ids) = length cs"
  by (induction cs ids rule: slots.induct) simp_all

text \<open>
  The registrations are those of \<open>add_all\<close> on the clients, so the facts of the table's
  interface apply; the bytes written are the encoded slots.
\<close>

lemma register_caps_ret:
  "register_caps cs out ids s = (Ret (b, js), t) \<Longrightarrow>
   \<exists>new. js = ids @ new \<and> length new = length (clients_of cs) \<and>
     b = out @ encode_caps (slots cs new) \<and>
     target_table.add_all (clients_of cs) s = (Ret new, t)"
proof (induction cs out ids s rule: register_caps.induct)
  case (1 out ids s)
  then show ?case by (simp add: encode_caps_def)
next
  case (2 cs out ids s)
  from 2(2) have "register_caps cs (appendUint32Le out 0) ids s = (Ret (b, js), t)" by simp
  from 2(1) [OF this] obtain new where "js = ids @ new" "length new = length (clients_of cs)"
    "b = appendUint32Le out 0 @ encode_caps (slots cs new)"
    "target_table.add_all (clients_of cs) s = (Ret new, t)" by blast
  then show ?case
    by (intro exI [of _ new]) (simp add: append32_acc [of out])
next
  case (3 cap cs out ids s)
  from 3(2) obtain i s' where one: "addTarget cap s = (Ret i, s')"
    and rest: "register_caps cs (appendUint32Le out i) (ids @ [i]) s' = (Ret (b, js), t)"
    by (auto elim!: bnd_RetE)
  from 3(1) [OF rest] obtain new where "js = (ids @ [i]) @ new" "length new = length (clients_of cs)"
    "b = appendUint32Le out i @ encode_caps (slots cs new)"
    "target_table.add_all (clients_of cs) s' = (Ret new, t)" by blast
  then show ?case
    using one
    by (intro exI [of _ "i # new"])
      (simp add: append32_acc [of out])
qed

lemma slots_live:
  assumes "length new = length (clients_of cs)"
    and "\<forall>k < length (clients_of cs). tg (new ! k) = Some (clients_of cs ! k)"
  shows "k < length cs \<Longrightarrow> case cs ! k of None \<Rightarrow> slots cs new ! k = 0
    | Some c \<Rightarrow> slots cs new ! k \<in> set new \<and> tg (slots cs new ! k) = Some c"
  using assms
proof (induction cs new arbitrary: k rule: slots.induct)
  case (2 cs ids)
  show ?case
  proof (cases k)
    case (Suc k')
    then show ?thesis using 2(1) [of k'] 2(2-4) by (auto split: option.splits)
  qed simp
next
  case (3 c cs ids)
  then obtain i "is" where i: "ids = i # is" by (cases ids) auto
  have tl: "length is = length (clients_of cs)"
    "\<forall>k < length (clients_of cs). tg (is ! k) = Some (clients_of cs ! k)"
    using 3(3,4) i by (auto simp: nth_Cons')
  have hd: "tg i = Some c" using 3(4) i by (auto simp: nth_Cons')
  show ?case
  proof (cases k)
    case 0
    then show ?thesis using hd i by simp
  next
    case (Suc k')
    then show ?thesis
      using 3(1) [of k'] 3(2) tl i by (auto split: option.splits)
  qed
qed simp

lemma addTarget_log: "addTarget c s = (r, t) \<Longrightarrow> log t = log s"
  by (auto simp: addTarget_def split: option.splits)

lemma register_caps_log: "register_caps cs out ids s = (Ret x, t) \<Longrightarrow> log t = log s"
proof (induction cs out ids s rule: register_caps.induct)
  case (3 cap cs out ids s)
  from 3(2) obtain i s' where "addTarget cap s = (Ret i, s')"
    "register_caps cs (appendUint32Le out i) (ids @ [i]) s' = (Ret x, t)"
    by (auto elim!: bnd_RetE)
  with 3(1) addTarget_log show ?case by metis
qed simp_all

text \<open>Different entries get different slots, and no other identifier is made.\<close>

lemma slots_inj:
  assumes "length new = length (clients_of cs)" and "distinct new"
  shows "k < length cs \<Longrightarrow> cs ! k \<noteq> None \<Longrightarrow> slots cs new ! k \<in> set new \<and>
    (\<forall>l < length cs. cs ! l \<noteq> None \<longrightarrow> l \<noteq> k \<longrightarrow> slots cs new ! l \<noteq> slots cs new ! k)"
  using assms
proof (induction cs new arbitrary: k rule: slots.induct)
  case (2 cs ids)
  then show ?case
    by (cases k) (auto simp: nth_Cons split: nat.splits)
next
  case (3 c cs ids)
  then obtain i "is" where i: "ids = i # is"
    by (cases ids) auto
  have len: "length is = length (clients_of cs)" and "distinct is" and fresh: "i \<notin> set is"
    using 3(4,5) i by simp_all
  have mem: "slots cs is ! l \<in> set is" "slots cs is ! l \<noteq> i" if "l < length cs" "cs ! l \<noteq> None" for l
    using 3(1)[of l] that len \<open>distinct is\<close> fresh i by auto
  show ?case
  proof (cases k)
    case 0
    then show ?thesis
      using mem i by (auto simp: nth_Cons split: nat.splits)
  next
    case (Suc k')
    then have k': "k' < length cs" "cs ! k' \<noteq> None"
      using 3(2,3) by simp_all
    then show ?thesis
      using 3(1)[of k'] len \<open>distinct is\<close> mem(2)[OF k'] i Suc by (auto simp: nth_Cons split: nat.splits)
  qed
qed simp

lemma slots_onto:
  assumes "length new = length (clients_of cs)" and "i \<in> set new"
  shows "\<exists>k < length cs. cs ! k \<noteq> None \<and> slots cs new ! k = i"
  using assms
proof (induction cs new rule: slots.induct)
  case (2 cs ids)
  then obtain k where "k < length cs \<and> cs ! k \<noteq> None \<and> slots cs ids ! k = i"
    by auto
  then show ?case
    by (intro exI[of _ "Suc k"]) simp
next
  case (3 c cs ids)
  show ?case
  proof (cases "i = hd ids")
    case False
    then obtain k where "k < length cs \<and> cs ! k \<noteq> None \<and> slots cs (tl ids) ! k = i"
      using 3 by (cases ids) auto
    then show ?thesis
      by (intro exI[of _ "Suc k"]) simp
  qed (auto intro: exI[of _ 0])
qed simp

text \<open>The entries \<open>cs\<close> were put into the table under \<open>ids\<close>, and nothing else was.\<close>

definition registered_as :: "client option list \<Rightarrow> u32 list \<Rightarrow> (u32 \<rightharpoonup> client) \<Rightarrow> (u32 \<rightharpoonup> client) \<Rightarrow> bool" where
  "registered_as cs ids before after \<longleftrightarrow> length ids = length cs \<and>
     (\<forall>k < length cs. case cs ! k of None \<Rightarrow> ids ! k = 0
       | Some c \<Rightarrow> before (ids ! k) = None \<and> after (ids ! k) = Some c) \<and>
     (\<forall>k < length cs. \<forall>l < length cs. cs ! k \<noteq> None \<longrightarrow> cs ! l \<noteq> None \<longrightarrow> k \<noteq> l \<longrightarrow> ids ! k \<noteq> ids ! l) \<and>
     (\<forall>j. (\<forall>k < length cs. cs ! k \<noteq> None \<longrightarrow> ids ! k \<noteq> j) \<longrightarrow> after j = before j)"

lemma add_all_registered:
  assumes "target_table.add_all (clients_of cs) s = (Ret new, t)"
  shows "registered_as cs (slots cs new) (targets s) (targets t)"
proof -
  note tab = target_table.add_all_tables [OF assms]
  have len: "length new = length (clients_of cs)" and dist: "distinct new"
    using tab by blast+
  have "case cs ! k of None \<Rightarrow> slots cs new ! k = 0
      | Some c \<Rightarrow> targets s (slots cs new ! k) = None \<and> targets t (slots cs new ! k) = Some c" if "k < length cs" for k
    using slots_live [OF len _ that, of "targets t"] tab by (auto split: option.splits)
  moreover have "targets t j = targets s j" if "\<forall>k < length cs. cs ! k \<noteq> None \<longrightarrow> slots cs new ! k \<noteq> j" for j
    using slots_onto [OF len, of j] that tab by blast
  ultimately show ?thesis
    using slots_inj [OF len dist] unfolding registered_as_def by auto
qed

text \<open>C11. Serializing a response registers each capability it carries: the capability table
  decodes to one identifier per entry, 0 for a null entry and otherwise one that was free before
  and names that very client now. Two entries never share an identifier, also when they are the
  same client, and nothing but the entries is registered: every other identifier names what it
  named before.\<close>

theorem serializeResponse_caps:
  assumes "serializeResponse (payload, cs) s = (Ret (b, caps), t)"
  shows "b = payload \<and> (\<exists>ids. decodeCapTable caps = Inr ids \<and> length ids = length cs \<and>
    (\<forall>k < length cs. case cs ! k of None \<Rightarrow> ids ! k = 0
      | Some c \<Rightarrow> targets s (ids ! k) = None \<and> targets t (ids ! k) = Some c) \<and>
    (\<forall>k < length cs. \<forall>l < length cs. cs ! k \<noteq> None \<longrightarrow> cs ! l \<noteq> None \<longrightarrow> k \<noteq> l \<longrightarrow> ids ! k \<noteq> ids ! l) \<and>
    (\<forall>j. (\<forall>k < length cs. cs ! k \<noteq> None \<longrightarrow> ids ! k \<noteq> j) \<longrightarrow> targets t j = targets s j))"
proof -
  from assms obtain js where run: "register_caps cs [] [] s = (Ret (caps, js), t)" and b: "b = payload"
    by (auto simp: serializeResponse_def elim!: bnd_RetE)
  from register_caps_ret [OF run] obtain new where caps: "caps = encode_caps (slots cs new)"
    and all: "target_table.add_all (clients_of cs) s = (Ret new, t)" by auto
  show ?thesis
    using b add_all_registered [OF all, unfolded registered_as_def] decodeCapTable_roundtrip [of "slots cs new"]
    unfolding caps by blast
qed

lemma serializeResponse_caps_witness:
  "\<exists>caps t. serializeResponse ([1, 2], [None, Some NullClient]) targets_init = (Ret ([1, 2], caps), t) \<and>
     decodeCapTable caps = Inr [0, 1] \<and> targets t 1 = Some NullClient"
proof -
  have "\<exists>t. serializeResponse ([1, 2], [None, Some NullClient]) targets_init =
      (Ret ([1, 2], encode_caps [0, 1]), t)"
    by (simp add: serializeResponse_def addTarget_def targets_init_def append32_acc [of "appendUint32Le [] 0"])
  then obtain t where run: "serializeResponse ([1, 2], [None, Some NullClient]) targets_init =
      (Ret ([1, 2], encode_caps [0, 1]), t)" ..
  have "targets t ([0, 1] ! 1) = Some NullClient"
    using serializeResponse_caps [OF run] decodeCapTable_roundtrip [of "[0, 1]"] by (auto dest!: spec [of _ 1])
  then show ?thesis
    using run decodeCapTable_roundtrip [of "[0, 1]"] by auto
qed

section \<open>Dropping them\<close>

lemma dropRequestCaps_targets:
  "targets (dropRequestCaps ids s) = targets s |` (- set ids)"
proof (induction ids arbitrary: s)
  case (Cons i ids)
  have "targets (snd (dropTargetIfPresent i s)) = (targets s)(i := None)"
    using drop_fields(2) [of i s] by (metis prod.collapse)
  then show ?case using Cons by (auto simp: restrict_map_def)
qed (simp add: restrict_map_def)

lemma drop_unless_targets:
  "targets (drop_unless keep ids s) = targets s |` (- {i \<in> set ids. \<not> keep i})"
proof (induction ids arbitrary: s)
  case (Cons i ids)
  have "targets (snd (dropTargetIfPresent i s)) = (targets s)(i := None)"
    using drop_fields(2) [of i s] by (metis prod.collapse)
  then show ?case using Cons by (auto simp: restrict_map_def)
qed (simp add: restrict_map_def)

lemma dropExcept_targets:
  "targets (dropRequestCapsExcept ids kept s) = targets s |` (- (set ids - (set kept - {0})))"
  by (auto simp: dropRequestCapsExcept_def dropRequestCaps_targets drop_unless_targets Let_def
      restrict_map_def)

lemma dropExceptOne_targets:
  "targets (dropRequestCapsExceptOne ids kept s) = targets s |` (- (set ids - {0, kept}))"
  by (auto simp: dropRequestCapsExceptOne_def drop_unless_targets restrict_map_def)

section \<open>Payload operations leave the table alone\<close>

lemma quiet_resolve_caps [keeps_intro]: "quiet (resolve_caps prefix ids)"
proof (induction ids)
  case Nil
  then show ?case by (simp add: quiet_def)
next
  case (Cons i ids)
  have find: "quiet (find_or targets i e)" for e
    by (auto simp: quiet_def find_or_def split: option.splits)
  have eq: "resolve_caps prefix (i # ids) =
     (if i = 0 then bnd (resolve_caps prefix ids) (\<lambda>cs. ret (None # cs))
      else bnd (find_or targets i (StdEx (prefix @ to_string i))) (\<lambda>cap.
           bnd (resolve_caps prefix ids) (\<lambda>cs. ret (Some cap # cs))))"
    by (rule ext) simp
  show ?case
    unfolding eq using Cons by (auto intro!: quiet_bnd find quiet_ret)
qed

lemma quiet_if [keeps_intro]: "quiet m \<Longrightarrow> quiet k \<Longrightarrow> quiet (if b then m else k)"
  by simp

lemma quiet_setRequestPayload [keeps_intro]: "quiet (setRequestPayload env bs ids)"
  unfolding setRequestPayload_def
  by (intro quiet_if quiet_throw quiet_ret quiet_sq quiet_call quiet_bnd quiet_resolve_caps)

lemma quiet_decode_caps [keeps_intro]: "quiet (decode_caps_or_throw bs)"
  by (auto simp: decode_caps_or_throw_def split: sum.splits intro: quiet_throw quiet_ret)

lemma quiet_setResults [keeps_intro]: "quiet (setContextResultsFromPayloadWithCapIds env bs ids prefix)"
  unfolding setContextResultsFromPayloadWithCapIds_def withDecodedPayloadAndCapTable_def
  by (intro quiet_if quiet_tell quiet_sq quiet_call quiet_bnd quiet_resolve_caps)

lemma quiet_targets: "quiet m \<Longrightarrow> m s = (r, t) \<Longrightarrow> targets t = targets s"
  by (auto simp: quiet_def table_part_def)

section \<open>A Lean handler's call\<close>

text \<open>Fresh identifiers are not 0 while the counter does not wrap.\<close>

lemma add_all_nonzero:
  "targets_inv s \<Longrightarrow> unat (nextTargetId s) + length vs < 2 ^ 32 \<Longrightarrow>
   target_table.add_all vs s = (Ret new, t) \<Longrightarrow> 0 \<notin> set new"
proof (induction vs arbitrary: s new)
  case Nil
  then show ?case by simp
next
  case (Cons v vs)
  from Cons.prems(3) obtain i s1 js where one: "addTarget v s = (Ret i, s1)"
    and rest: "target_table.add_all vs s1 = (Ret js, t)" and new: "new = i # js"
    by (auto elim!: bnd_RetE)
  have i: "i = nextTargetId s" using one addTarget_room [OF Cons.prems(1)] by simp
  have room: "id_room s"
    using Cons.prems(2) by (simp add: id_room_def word_less_nat_alt unsigned_minus_1_eq_mask mask_eq_exp_minus_1)
  note s1 = takes_oneD [OF takes_one_addTarget Cons.prems(1) room one]
  have "0 \<notin> set js" using Cons.IH [OF _ _ rest] s1 Cons.prems(2) by simp
  then show ?case using new i fresh_ids(4) [OF Cons.prems(1)] by simp
qed

text \<open>The identifiers registered for a call, and the state the closure is applied in.\<close>

lemma encode_ret:
  assumes "encodeRequestForLean (payload, cs) s = (Ret (req, caps, ids), t)"
  shows "req = payload" and "caps = encode_caps (slots cs ids)" and "distinct ids"
    and "\<forall>i \<in> set ids. targets s i = None" and "\<forall>j. j \<notin> set ids \<longrightarrow> targets t j = targets s j"
    and "targets_inv s \<Longrightarrow> unat (nextTargetId s) + length (clients_of cs) < 2 ^ 32 \<Longrightarrow> 0 \<notin> set ids"
    and "registered_as cs (slots cs ids) (targets s) (targets t)"
proof -
  from assms have run: "register_caps cs [] [] s = (Ret (caps, ids), t)" and "req = payload"
    by (auto simp: encodeRequestForLean_def elim!: bnd_RetE)
  from register_caps_ret [OF run] have all: "target_table.add_all (clients_of cs) s = (Ret ids, t)"
    and "caps = encode_caps (slots cs ids)" by auto
  note tab = target_table.add_all_tables [OF all]
  show "req = payload" "caps = encode_caps (slots cs ids)" "distinct ids"
    "\<forall>i \<in> set ids. targets s i = None" "\<forall>j. j \<notin> set ids \<longrightarrow> targets t j = targets s j" by fact+ (use tab in auto)
  show "registered_as cs (slots cs ids) (targets s) (targets t)" by (rule add_all_registered [OF all])
  show "0 \<notin> set ids" if "targets_inv s" "unat (nextTargetId s) + length (clients_of cs) < 2 ^ 32"
    using add_all_nonzero [OF that(1) _ all] that(2) by simp
qed

lemma encode_slots:
  assumes "encodeRequestForLean (payload, cs) s = (Ret (req, caps, ids), t)"
  shows "(\<forall>k < length cs. cs ! k \<noteq> None \<longrightarrow> slots cs ids ! k \<in> set ids) \<and>
    (\<forall>i \<in> set ids. \<exists>k < length cs. cs ! k \<noteq> None \<and> slots cs ids ! k = i)"
proof -
  from assms have "register_caps cs [] [] s = (Ret (caps, ids), t)"
    by (auto simp: encodeRequestForLean_def elim!: bnd_RetE)
  then have "length ids = length (clients_of cs)"
    using register_caps_ret by fastforce
  then show ?thesis
    using slots_inj [OF _ encode_ret(3) [OF assms]] slots_onto by blast
qed

text \<open>A closure that leaves the capability table as it finds it.\<close>

definition leaves_targets :: "('r, 'z targets_state_scheme) lean_apply \<Rightarrow> bool" where
  "leaves_targets apply \<longleftrightarrow> (\<forall>h i iid mid req caps s r t.
     apply h i iid mid req caps s = (r, t) \<longrightarrow> targets t = targets s)"

lemma apply_lean_targets:
  "leaves_targets apply \<Longrightarrow> apply_lean apply cell h iid mid req caps s = (r, t) \<Longrightarrow>
   targets t = targets s \<and> (\<exists>x. r = Ret x)"
  by (fastforce simp: apply_lean_def leaves_targets_def Let_def split: prod.splits)

lemma on_throw_cases:
  assumes "on_throw m f s = (r, t)"
  obtains (Ret) a where "m s = (Ret a, t)" "r = Ret a"
    | (Throw) e s' where "m s = (Throw e, s')" "r = Throw e" "t = f s'"
    | (Hang) "m s = (Hang, t)" "r = Hang"
  using assms by (auto simp: on_throw_def split: prod.splits outcome.splits)

lemma decode_caps_ret:
  "decode_caps_or_throw bs s = (r, t) \<Longrightarrow>
   t = s \<and> (case decodeCapTable bs of Inl e \<Rightarrow> r = Throw (StdEx e) | Inr ids \<Rightarrow> r = Ret ids)"
  by (auto simp: decode_caps_or_throw_def split: sum.splits)

text \<open>What the handler's server does with the reply.\<close>

lemma lean_reply_targets:
  assumes run: "on_throw
      (bnd (decode_caps_or_throw responseCaps) (\<lambda>rids.
       sq (modify (dropRequestCapsExcept ids rids))
       (setContextResultsFromPayloadWithCapIds env response rids prefix)))
      (dropRequestCaps ids) u = (r, t)"
  shows "case r of
      Ret _ \<Rightarrow> (\<exists>rids. decodeCapTable responseCaps = Inr rids \<and>
        targets t = targets u |` (- (set ids - (set rids - {0}))))
    | Throw e \<Rightarrow> targets t = targets u |` (- set ids)
    | Hang \<Rightarrow> True"
proof -
  let ?m = "bnd (decode_caps_or_throw responseCaps) (\<lambda>rids.
       sq (modify (dropRequestCapsExcept ids rids))
       (setContextResultsFromPayloadWithCapIds env response rids prefix))"
  have body: "targets v |` (- set ids) = targets u |` (- set ids) \<and>
      (\<forall>a. x = Ret a \<longrightarrow> (\<exists>rids. decodeCapTable responseCaps = Inr rids \<and>
        targets v = targets u |` (- (set ids - (set rids - {0})))))"
    if m: "?m u = (x, v)" for x v
  proof (cases "decodeCapTable responseCaps")
    case (Inl e)
    with m show ?thesis by (auto simp: decode_caps_or_throw_def bnd_def)
  next
    case (Inr rids)
    then have "setContextResultsFromPayloadWithCapIds env response rids prefix
        (dropRequestCapsExcept ids rids u) = (x, v)"
      using m by (simp add: decode_caps_or_throw_def bnd_def)
    from quiet_targets [OF quiet_setResults this]
    have "targets v = targets u |` (- (set ids - (set rids - {0})))"
      by (simp add: dropExcept_targets)
    then show ?thesis using Inr by (auto simp: restrict_map_def fun_eq_iff)
  qed
  from run show ?thesis
  proof (cases rule: on_throw_cases)
    case (Ret a)
    with body [OF Ret(1)] show ?thesis by simp
  next
    case (Throw e s')
    with body [OF Throw(1)] show ?thesis by (simp add: dropRequestCaps_targets)
  qed simp
qed

lemma register_caps_no_throw: "register_caps cs out ids s \<noteq> (Throw e, t)"
proof (induction cs out ids s rule: register_caps.induct)
  case (3 cap cs out ids s)
  show ?case
  proof
    assume "register_caps (Some cap # cs) out ids s = (Throw e, t)"
    then have "bnd (addTarget cap) (\<lambda>capId. register_caps cs (appendUint32Le out capId) (ids @ [capId])) s = (Throw e, t)"
      by simp
    then show False
      by (cases rule: bnd_cases) (use 3 target_table.add_never_throws in blast)+
  qed
qed simp_all

lemma encode_no_throw: "encodeRequestForLean params s \<noteq> (Throw e, t)"
  using register_caps_no_throw [of "snd params" "[]" "[]" s]
  by (auto simp: encodeRequestForLean_def elim!: bnd_cases)

text \<open>The ways a call ends, by what it leaves of the table \<open>s1\<close> in which \<open>ids\<close> were registered.\<close>

definition call_ends :: "(bytes \<times> bytes, 'z targets_state_scheme) lean_apply \<Rightarrow> nat \<Rightarrow> obj \<Rightarrow> u64 \<Rightarrow> u16
    \<Rightarrow> bytes \<Rightarrow> bytes \<Rightarrow> u32 list \<Rightarrow> 'z targets_state_scheme \<Rightarrow> (exn, dispatch_result) outcome
    \<Rightarrow> 'z targets_state_scheme \<Rightarrow> bool" where
  "call_ends apply cell h iid mid payload reqCaps ids s1 r t \<longleftrightarrow>
     (\<exists>e. r = Throw e \<and> targets t = targets s1 |` (- (set ids - {0}))) \<or>
      (\<exists>u reply. targets u = targets s1 \<and> fst (apply h (idCells u ! cell) iid mid payload reqCaps u) = Some reply \<and>
        (case r of
          Ret _ \<Rightarrow> (\<exists>rids. decodeCapTable (snd reply) = Inr rids \<and>
            targets t = targets s1 |` (- (set ids - (set rids - {0}))))
        | Throw e \<Rightarrow> targets t = targets s1 |` (- set ids)
        | Hang \<Rightarrow> True))"

lemma lean_dispatch_steps:
  assumes "lean_dispatch env apply cell h iid mid (payload, cs) s = (r, t)" and "leaves_targets apply"
    and "r \<noteq> Hang"
  obtains ids reqCaps s1 where "encodeRequestForLean (payload, cs) s = (Ret (payload, reqCaps, ids), s1)"
    and "call_ends apply cell h iid mid payload reqCaps ids s1 r t"
proof -
  from assms(1) [unfolded lean_dispatch_def] show thesis
  proof (cases rule: bnd_cases)
    case (Ret x s1)
    obtain req reqCaps ids where x: "x = (req, reqCaps, ids)" by (cases x)
    note enc = Ret(1) [unfolded x]
    have req: "req = payload" by (rule encode_ret(1) [OF enc])
    note enc = enc [unfolded req]
    from Ret(2) [unfolded x req prod.case] show thesis
    proof (cases rule: bnd_cases)
      case (Ret reply s2)
      note tg = apply_lean_targets [OF assms(2) Ret(1)]
      have app: "\<exists>u. targets u = targets s1 \<and> fst (apply h (idCells u ! cell) iid mid payload reqCaps u) = reply"
        using Ret(1) by (intro exI [of _ "s1\<lparr>log := log s1 @ [LeanInc h]\<rparr>"])
          (auto simp: apply_lean_def Let_def split: prod.splits)
      show thesis
      proof (cases reply)
        case None
        with Ret(2) have "r = Throw (StdEx ''Lean RPC handler returned IO error'')"
          "targets t = targets s1 |` (- (set ids - {0}))"
          using tg by (auto simp: dropExceptOne_targets)
        then show thesis using enc by (intro that [OF enc]) (auto simp: call_ends_def)
      next
        case (Some rc)
        obtain resp respCaps where rc: "rc = (resp, respCaps)" by fastforce
        from Ret(2) Some rc obtain x3 where
          att: "on_throw (bnd (decode_caps_or_throw respCaps) (\<lambda>rids.
             sq (modify (dropRequestCapsExcept ids rids))
             (setContextResultsFromPayloadWithCapIds env resp rids
                ''unknown RPC response capability id from Lean handler: '')))
             (dropRequestCaps ids) s2 = (x3, t)"
          and r: "r = (case x3 of Ret _ \<Rightarrow> Ret \<lparr>dr_promise = ReadyNow, dr_isStreaming = False, dr_allowCancellation = False\<rparr>
             | Throw e \<Rightarrow> Throw e | Hang \<Rightarrow> Hang)"
          by (auto elim!: bnd_cases)
        note lr = lean_reply_targets [OF att]
        show thesis
          using enc app Some rc lr r tg assms(3)
          by (intro that [OF enc]) (auto simp: call_ends_def split: outcome.splits)
      qed
    next
      case (Throw e)
      then show thesis using apply_lean_targets [OF assms(2) Throw(1)] by simp
    next
      case Hang
      then show thesis using assms(3) by simp
    qed
  next
    case (Throw e)
    then show thesis using encode_no_throw by blast
  next
    case Hang
    then show thesis using assms(3) by simp
  qed
qed

lemma restrict_fresh:
  assumes "\<forall>i \<in> A. m i = None" and "\<forall>j. j \<notin> A \<longrightarrow> m' j = m j"
  shows "m' |` (- A) = m"
  using assms by (auto simp: restrict_map_def fun_eq_iff)

text \<open>C12. A call to a Lean handler leaks no capability: with a closure that leaves the table
  alone and no wrap of the counter, a call that throws leaves the capability table exactly as it
  was. For one that returns, the closure was given a capability table with a fresh identifier for
  each capability of the request, which named that capability while the closure ran; afterwards each of these identifiers names that capability if
  the closure put it into its response and nothing otherwise, and all other identifiers name what
  they named before.\<close>

theorem lean_dispatch_no_leak:
  assumes "targets_inv s" and "unat (nextTargetId s) + length (clients_of cs) < 2 ^ 32"
    and "leaves_targets apply"
    and "lean_dispatch env apply cell h iid mid (payload, cs) s = (r, t)"
  shows "case r of
      Ret _ \<Rightarrow> (\<exists>u reply reqCaps ids rids.
        fst (apply h (idCells u ! cell) iid mid payload reqCaps u) = Some reply \<and>
        decodeCapTable reqCaps = Inr ids \<and> decodeCapTable (snd reply) = Inr rids \<and> length ids = length cs \<and>
        (\<forall>k < length cs. case cs ! k of None \<Rightarrow> ids ! k = 0
          | Some c \<Rightarrow> targets s (ids ! k) = None \<and> targets u (ids ! k) = Some c \<and>
              targets t (ids ! k) = (if ids ! k \<in> set rids then Some c else None)) \<and>
        (\<forall>j. (\<forall>k < length cs. cs ! k \<noteq> None \<longrightarrow> ids ! k \<noteq> j) \<longrightarrow> targets u j = targets s j \<and> targets t j = targets s j))
    | Throw e \<Rightarrow> targets t = targets s
    | Hang \<Rightarrow> True"
proof (cases "r = Hang")
  case False
  from lean_dispatch_steps [OF assms(4,3) False] obtain ids reqCaps s1
    where enc: "encodeRequestForLean (payload, cs) s = (Ret (payload, reqCaps, ids), s1)"
      and ends: "call_ends apply cell h iid mid payload reqCaps ids s1 r t" by blast
  note e = encode_ret [OF enc]
  have zero: "0 \<notin> set ids" using e(6) [OF assms(1,2)] by auto
  then have nz: "set ids - {0} = set ids" by auto
  have undo: "targets s1 |` (- set ids) = targets s" by (rule restrict_fresh [OF e(4,5)])
  show ?thesis
  proof (cases r)
    case (Ret a)
    from ends [unfolded Ret call_ends_def outcome.case] obtain u reply rids
      where u: "targets u = targets s1" and reply: "fst (apply h (idCells u ! cell) iid mid payload reqCaps u) = Some reply"
      and rids: "decodeCapTable (snd reply) = Inr rids"
      and t: "targets t = targets s1 |` (- (set ids - (set rids - {0})))" by blast
    have slot: "case cs ! k of None \<Rightarrow> slots cs ids ! k = 0
        | Some c \<Rightarrow> targets s (slots cs ids ! k) = None \<and> targets u (slots cs ids ! k) = Some c \<and>
          targets t (slots cs ids ! k) = (if slots cs ids ! k \<in> set rids then Some c else None)" if "k < length cs" for k
      using e(7) [unfolded registered_as_def] that encode_slots [OF enc] zero
      by (auto simp: t u restrict_map_def split: option.splits)
    have other: "targets u j = targets s j \<and> targets t j = targets s j" if "\<forall>k < length cs. cs ! k \<noteq> None \<longrightarrow> slots cs ids ! k \<noteq> j" for j
    proof -
      have "j \<notin> set ids"
        using encode_slots [OF enc] that by blast
      then show ?thesis
        using e(5) by (simp add: t u restrict_map_def)
    qed
    have dec: "decodeCapTable reqCaps = Inr (slots cs ids)"
      by (simp add: e(2) decodeCapTable_roundtrip)
    show ?thesis
      unfolding Ret outcome.case
      by (rule exI [of _ u], rule exI [of _ reply], rule exI [of _ reqCaps], rule exI [of _ "slots cs ids"],
          rule exI [of _ rids]) (use reply rids dec slot other in simp)
  next
    case (Throw x)
    from ends [unfolded Throw call_ends_def outcome.case nz] have "targets t = targets s1 |` (- set ids)"
      by blast
    then show ?thesis using Throw undo by simp
  qed (use False in simp)
qed simp

lemma lean_dispatch_no_leak_witness:
  "let fails = (\<lambda>h i iid mid req caps s. (None, s));
       echoes = (\<lambda>h i iid mid req caps s. (Some (req, caps), s));
       (r, t) = lean_dispatch ok_env fails 0 7 1 2 ([5], [Some NullClient]) targets_init;
       (r', t') = lean_dispatch ok_env echoes 0 7 1 2 ([5], [Some NullClient]) targets_init
   in r = Throw (StdEx ''Lean RPC handler returned IO error'') \<and> targets t = targets targets_init \<and>
     (\<exists>x. r' = Ret x) \<and> (\<exists>i. targets targets_init i = None \<and> targets t' i = Some NullClient)"
proof -
  define fails :: "(bytes \<times> bytes, targets_state) lean_apply" where "fails = (\<lambda>h i iid mid req caps s. (None, s))"
  define echoes :: "(bytes \<times> bytes, targets_state) lean_apply"
    where "echoes = (\<lambda>h i iid mid req caps s. (Some (req, caps), s))"
  obtain r t where run: "lean_dispatch ok_env fails 0 7 1 2 ([5], [Some NullClient]) targets_init = (r, t)"
    by fastforce
  obtain r' t' where run': "lean_dispatch ok_env echoes 0 7 1 2 ([5], [Some NullClient]) targets_init = (r', t')"
    by fastforce
  have r: "r = Throw (StdEx ''Lean RPC handler returned IO error'')"
    using run by (auto simp: lean_dispatch_def encodeRequestForLean_def addTarget_def apply_lean_def fails_def
        Let_def targets_init_def)
  have r': "\<exists>x. r' = Ret x"
    using run' decodeCapTable_roundtrip [of "[1]"]
    by (auto simp: lean_dispatch_def encodeRequestForLean_def addTarget_def apply_lean_def echoes_def
        Let_def targets_init_def decode_caps_or_throw_def setContextResultsFromPayloadWithCapIds_def
        withDecodedPayloadAndCapTable_def call_def dropRequestCapsExcept_def on_throw_def)
  have leaves: "leaves_targets fails" "leaves_targets echoes"
    by (auto simp: leaves_targets_def fails_def echoes_def)
  have room: "unat (nextTargetId targets_init) + length (clients_of [Some NullClient]) < 2 ^ 32"
    by (simp add: targets_init_def)
  have "targets t = targets targets_init"
    using lean_dispatch_no_leak [OF targets_init_inv room leaves(1) run] r by simp
  moreover have "\<exists>i. targets targets_init i = None \<and> targets t' i = Some NullClient"
    using lean_dispatch_no_leak [OF targets_init_inv room leaves(2) run'] r'
    by (fastforce simp: echoes_def length_Suc_conv)
  ultimately show ?thesis
    using run r run' r' by (simp add: fails_def echoes_def)
qed

section \<open>Building a request\<close>

lemma resolve_caps_exact:
  "resolve_caps prefix ids s =
     (case filter (\<lambda>i. i \<noteq> 0 \<and> targets s i = None) ids of
        [] \<Rightarrow> (Ret (map (\<lambda>i. if i = 0 then None else targets s i) ids), s)
      | i # _ \<Rightarrow> (Throw (StdEx (prefix @ to_string i)), s))"
proof (induction ids)
  case (Cons i ids)
  show ?case
  proof (cases "i = 0")
    case True
    with Cons show ?thesis by (simp add: bnd_def split: list.splits)
  next
    case False
    show ?thesis
    proof (cases "targets s i")
      case (Some c)
      with Cons False show ?thesis by (simp add: bnd_def split: list.splits)
    qed (use False in simp)
  qed
qed simp

text \<open>C13. A request with an empty payload is accepted only without capabilities; otherwise, when
  the bytes are a readable message, the request is refused for the first nonzero identifier that
  is not live, and carries the named clients in order, null for 0, when all are.\<close>

theorem setRequestPayload_exact:
  "setRequestPayload ok_env bs ids s =
    (if bs = [] then
       (if ids = [] then Ret None
        else Throw (StdEx ''RPC request capability table requires a non-empty payload''), s)
     else (case filter (\<lambda>i. i \<noteq> 0 \<and> targets s i = None) ids of
        [] \<Rightarrow> Ret (Some (bs, map (\<lambda>i. if i = 0 then None else targets s i) ids))
      | i # _ \<Rightarrow> Throw (StdEx (''unknown RPC request capability id: '' @ to_string i)),
      s\<lparr>log := log s @ [ReadMessage bs]\<rparr>))"
proof -
  have "call (ask_done ok_env) (ReadMessage bs) s = (Ret (), s\<lparr>log := log s @ [ReadMessage bs]\<rparr>)"
    by (simp add: call_def)
  then show ?thesis
    by (auto simp: setRequestPayload_def bnd_def resolve_caps_exact split: list.splits)
qed

section \<open>Capabilities an advanced handler leaves behind\<close>

definition calls_init :: calls_state where
  "calls_init = promises_state.extend promises_init
     \<lparr>pendingCalls = Map.empty, nextPendingCallId = 1, deferredTasks = Map.empty,
      activeCancelableDeferredTasks = []\<rparr>"

definition handlers_init :: handlers_state where
  "handlers_init = calls_state.extend calls_init \<lparr>cleanups = []\<rparr>"

lemmas calls_init_simps = calls_init_def promises_state.extend_def promises_init_simps
lemmas handlers_init_simps = handlers_init_def calls_state.extend_def calls_init_simps

text \<open>A call whose request brought the capability 2, waiting for its deferred task 0.\<close>

definition deferred_call :: handlers_state where
  "deferred_call = handlers_init\<lparr>nextTargetId := 3,
     targets := [1 \<mapsto> LoopbackCapabilityServer, 2 \<mapsto> NullClient],
     deferredTasks := [0 \<mapsto> \<lparr>dt_waitTask = 4, dt_cancelTask = 5, dt_allowCancellation = False,
        dt_completed = False, dt_cancellationRequested = False\<rparr>],
     cleanups := [\<lparr>cl_requestCapIds = [2], cl_done = False\<rparr>]\<rparr>"

definition forward_unknown :: lean_action where
  "forward_unknown = RawAsyncCall 1 1 2 [9] (encode_caps [7])"

definition forward_action :: handler_action where
  "forward_action = action_init\<lparr>ac_kind := ASYNC_CALL, ac_interfaceId := 1, ac_target := 1,
     ac_methodId := 2, ac_payloadBytes := [9], ac_payloadCaps := encode_caps [7]\<rparr>"

lemma decode_forward: "decodeAction forward_unknown = Inr forward_action"
  by (simp add: decodeAction_def forward_unknown_def forward_action_def)

text \<open>Acting on it throws, and nothing but the log has changed.\<close>

lemma dispatch_forward:
  assumes "targets s 1 = Some c" and "targets s 7 = None"
  shows "dispatchDecodedAction ok_env forward_action cl s =
    (Throw (StdEx (''unknown RPC request capability id: '' @ to_string 7)), s\<lparr>log := log s @ [ReadMessage [9]]\<rparr>)"
proof -
  have "check_action ok_env forward_action cl s = (Ret (), s)"
    by (simp add: check_action_def forward_action_def action_init_def)
  moreover have "act_async ok_env forward_action cl s =
      (Throw (StdEx (''unknown RPC request capability id: '' @ to_string 7)), s\<lparr>log := log s @ [ReadMessage [9]]\<rparr>)"
    using assms by (simp add: act_async_def forward_action_def action_init_def decode_caps_or_throw_def
        decodeCapTable_roundtrip setRequestPayload_def call_def del: encode_caps_Cons)
  moreover have "ac_kind forward_action = ASYNC_CALL" by (simp add: forward_action_def)
  ultimately show ?thesis by (simp add: dispatchDecodedAction_def)
qed

text \<open>A deferred handler whose late answer forwards a call with a capability that is not live
  fails without releasing the capabilities of the original request: the exception of the
  continuation is not seen by the handler that would have released them. The same answer given
  at once releases them.\<close>

theorem deferred_failure_leaks:
  "\<exists>e t. deferred_turn ok_env (Some (1, forward_unknown)) 0 0 False False deferred_call = (Throw e, t) \<and>
     targets t 2 = Some NullClient \<and> \<not> cl_done (cleanups t ! 0) \<and>
     (\<exists>u. on_throw (bnd (lift_sum (decodeAction forward_unknown))
         (\<lambda>action. dispatchDecodedAction ok_env action 0)) (cleanupRequestCaps 0 []) deferred_call = (Throw e, u) \<and>
       targets u 2 = None \<and> cl_done (cleanups u ! 0))"
proof -
  let ?e = "StdEx (''unknown RPC request capability id: '' @ to_string 7)"
  let ?s = "deferred_call\<lparr>deferredTasks := (deferredTasks deferred_call)(0 := map_option
      (\<lambda>d. d\<lparr>dt_completed := True\<rparr>) (deferredTasks deferred_call 0))\<rparr>"
  have tg: "targets deferred_call = [1 \<mapsto> LoopbackCapabilityServer, 2 \<mapsto> NullClient]"
    and cl: "cleanups deferred_call = [\<lparr>cl_requestCapIds = [2], cl_done = False\<rparr>]"
    by (simp_all add: deferred_call_def)
  have wait: "waitLeanActionTask (Some (1, forward_unknown)) 0 deferred_call = (Ret (Some forward_action), ?s)"
    by (simp add: waitLeanActionTask_def decode_forward lift_sum_def)
  have resume: "resumeDeferred ok_env 0 False False forward_action ?s =
      (Throw ?e, ?s\<lparr>log := log ?s @ [ReadMessage [9]]\<rparr>)"
    using dispatch_forward [of ?s] by (simp add: resumeDeferred_def tg)
      (simp add: forward_action_def action_init_def)
  have late: "\<exists>t. deferred_turn ok_env (Some (1, forward_unknown)) 0 0 False False deferred_call = (Throw ?e, t) \<and>
      targets t = targets deferred_call \<and> cleanups t = cleanups deferred_call"
    by (simp only: deferred_turn_def wait resume prod.case outcome.case option.case)
      (simp add: destroyDeferredTask_def requestCancellation_def split: option.splits)
  have "bnd (lift_sum (decodeAction forward_unknown)) (\<lambda>action. dispatchDecodedAction ok_env action 0) deferred_call =
      (Throw ?e, deferred_call\<lparr>log := log deferred_call @ [ReadMessage [9]]\<rparr>)"
    using dispatch_forward [of deferred_call] by (simp add: decode_forward lift_sum_def tg)
  then have "\<exists>u. on_throw (bnd (lift_sum (decodeAction forward_unknown))
      (\<lambda>action. dispatchDecodedAction ok_env action 0)) (cleanupRequestCaps 0 []) deferred_call = (Throw ?e, u) \<and>
       targets u 2 = None \<and> cl_done (cleanups u ! 0)"
    by (simp add: on_throw_def cleanupRequestCaps_def cl Let_def dropExcept_targets)
      (simp add: dropRequestCapsExcept_def dropTargetIfPresent_def tg cl split: prod.splits)
  with late show ?thesis using tg cl by fastforce
qed

section \<open>Forwarded responses\<close>

lemma slots_back:
  assumes "length new = length (clients_of cs)" and "0 \<notin> set new"
    and "\<forall>k < length (clients_of cs). tg (new ! k) = Some (clients_of cs ! k)"
  shows "map (\<lambda>i. if i = 0 then None else tg i) (slots cs new) = cs"
    and "filter (\<lambda>i. i \<noteq> 0 \<and> tg i = None) (slots cs new) = []"
proof -
  have k: "slots cs new ! k = 0 \<and> cs ! k = None \<or> slots cs new ! k \<noteq> 0 \<and> cs ! k = tg (slots cs new ! k)
      \<and> tg (slots cs new ! k) \<noteq> None" if "k < length cs" for k
    using slots_live [OF assms(1,3) that] assms(2) by (cases "cs ! k") auto
  show "map (\<lambda>i. if i = 0 then None else tg i) (slots cs new) = cs"
    by (rule nth_equalityI) (use k in fastforce)+
  show "filter (\<lambda>i. i \<noteq> 0 \<and> tg i = None) (slots cs new) = []"
    unfolding filter_empty_conv
  proof
    fix x assume "x \<in> set (slots cs new)"
    then obtain j where "j < length cs" "x = slots cs new ! j" by (auto simp: in_set_conv_nth)
    with k [of j] show "\<not> (x \<noteq> 0 \<and> tg x = None)" by auto
  qed
qed

text \<open>The response of a forwarded call reaches the caller as it was, but every capability in it
  has been registered on the way and nothing ever drops those registrations: the capability
  table has grown by one entry per capability.\<close>

theorem forwarded_response_leaks:
  assumes "targets_inv s" and "unat (nextTargetId s) + length (clients_of cs) < 2 ^ 32"
    and "setContextResultsFromResponse ok_env (b, cs) s = (Ret u, t)"
  shows "log t = log s @ [ReadMessage b, SetResults (b, cs)] \<and>
    (\<exists>new. length new = length (clients_of cs) \<and> distinct new \<and> (\<forall>i \<in> set new. targets s i = None) \<and>
      (\<forall>k < length new. targets t (new ! k) = Some (clients_of cs ! k)))"
proof -
  from assms(3) obtain caps s1 where ser: "serializeResponse (b, cs) s = (Ret (b, caps), s1)"
    and set: "setContextResultsFromPayload ok_env b caps
      ''unknown RPC response capability id from Lean advanced handler: '' s1 = (Ret u, t)"
    by (auto simp: setContextResultsFromResponse_def serializeResponse_def elim!: bnd_RetE)
  from ser obtain js where run: "register_caps cs [] [] s = (Ret (caps, js), s1)"
    by (auto simp: serializeResponse_def elim!: bnd_RetE)
  from register_caps_ret [OF run] obtain new where len: "length new = length (clients_of cs)"
    and caps: "caps = encode_caps (slots cs new)"
    and all: "target_table.add_all (clients_of cs) s = (Ret new, s1)" by auto
  note tab = target_table.add_all_tables [OF all]
  have nz: "0 \<notin> set new" by (rule add_all_nonzero [OF assms(1,2) all])
  have lv: "\<forall>k < length (clients_of cs). targets s1 (new ! k) = Some (clients_of cs ! k)" using tab by simp
  note back_again = slots_back [OF len nz lv]
  have logs: "log s1 = log s" using register_caps_log [OF run] .
  have dec: "decode_caps_or_throw caps s1 = (Ret (slots cs new), s1)"
    by (simp add: caps decode_caps_or_throw_def decodeCapTable_roundtrip)
  have "t = s1\<lparr>log := log s1 @ [ReadMessage b, SetResults (b, cs)]\<rparr>"
  proof (cases "cs = []")
    case True
    with set show ?thesis
      by (simp add: setContextResultsFromPayload_def setContextResultsFromPayloadWithCapIds_def
          withDecodedPayloadAndCapTable_def dec call_def)
  next
    case False
    then have ne: "slots cs new \<noteq> []" by (metis length_0_conv length_slots)
    let ?s = "s1\<lparr>log := log s1 @ [ReadMessage b]\<rparr>"
    have "resolve_caps p (slots cs new) ?s = (Ret cs, ?s)" for p
    proof -
      have "targets ?s = targets s1" by simp
      then show ?thesis unfolding resolve_caps_exact by (simp only: back_again list.case)
    qed
    then show ?thesis
      using set ne by (simp add: setContextResultsFromPayload_def setContextResultsFromPayloadWithCapIds_def
          withDecodedPayloadAndCapTable_def dec call_def)
  qed
  then show ?thesis using tab len logs by (intro conjI exI [of _ new]) simp_all
qed

lemma forwarded_response_leaks_witness:
  "\<exists>t. setContextResultsFromResponse ok_env ([5], [Some NullClient]) targets_init = (Ret (), t) \<and>
     targets targets_init = Map.empty \<and> (\<exists>i. targets t i = Some NullClient)"
proof -
  let ?run = "setContextResultsFromResponse ok_env ([5], [Some NullClient]) targets_init"
  have "\<exists>t. ?run = (Ret (), t)"
    using decodeCapTable_roundtrip [of "[1]"]
    by (simp add: setContextResultsFromResponse_def serializeResponse_def addTarget_def targets_init_def
        setContextResultsFromPayload_def setContextResultsFromPayloadWithCapIds_def
        withDecodedPayloadAndCapTable_def decode_caps_or_throw_def call_def)
  then obtain t where run: "?run = (Ret (), t)" ..
  have "unat (nextTargetId targets_init) + length (clients_of [Some NullClient]) < 2 ^ 32"
    by (simp add: targets_init_def)
  from forwarded_response_leaks [OF targets_init_inv this run] obtain new where "length new = 1"
    "\<forall>k < length new. targets t (new ! k) = Some (clients_of [Some NullClient] ! k)" by auto
  then have "targets t (new ! 0) = Some NullClient" by simp
  then show ?thesis using run by (auto simp: targets_init_def)
qed

section \<open>Canceling a deferred handler\<close>

definition cancellable :: "'z calls_state_scheme \<Rightarrow> obj \<Rightarrow> bool" where
  "cancellable s task \<longleftrightarrow> (\<exists>d. deferredTasks s task = Some d \<and> dt_allowCancellation d \<and>
     \<not> dt_completed d \<and> \<not> dt_cancellationRequested d)"

definition canceled_state :: "obj \<Rightarrow> 'z calls_state_scheme \<Rightarrow> 'z calls_state_scheme" where
  "canceled_state task s = (let d = the (deferredTasks s task) in s\<lparr>
     deferredTasks := (deferredTasks s)(task \<mapsto> d\<lparr>dt_cancellationRequested := True\<rparr>),
     log := log s @ LeanIoCancel (dt_cancelTask d) #
       (if dt_waitTask d \<noteq> dt_cancelTask d then [LeanIoCancel (dt_waitTask d)] else [])\<rparr>)"

lemma requestCancellation_iff:
  "requestCancellation task s = (if cancellable s task then (True, canceled_state task s) else (False, s))"
  by (auto simp: requestCancellation_def cancellable_def canceled_state_def Let_def split: option.splits)

lemma cancel_first_exact:
  "cancel_first tasks s = (case dropWhile (\<lambda>x. \<not> cancellable s x) tasks of
      [] \<Rightarrow> s\<lparr>activeCancelableDeferredTasks := []\<rparr>
    | task # post \<Rightarrow> (canceled_state task s)\<lparr>activeCancelableDeferredTasks := post\<rparr>)"
  by (induction tasks) (auto simp: requestCancellation_iff cancellable_def)

text \<open>The messages that cancel a task, and those that cancel the cancellable ones of a list.\<close>

definition cancel_messages :: "'z calls_state_scheme \<Rightarrow> obj \<Rightarrow> ext_call list" where
  "cancel_messages s task = (if cancellable s task then let d = the (deferredTasks s task) in
      LeanIoCancel (dt_cancelTask d) #
        (if dt_waitTask d \<noteq> dt_cancelTask d then [LeanIoCancel (dt_waitTask d)] else []) else [])"

text \<open>The promise machinery destroys the tasks \<open>ds\<close>, one after the other.\<close>

definition destroy_tasks :: "obj list \<Rightarrow> 'z calls_state_scheme \<Rightarrow> 'z calls_state_scheme" where
  "destroy_tasks ds s = fold destroyDeferredTask ds s"

lemma destroy_one:
  "destroyDeferredTask d s = s\<lparr>deferredTasks := (deferredTasks s)(d := None),
     log := log s @ cancel_messages s d\<rparr>"
  by (simp add: destroyDeferredTask_def requestCancellation_iff canceled_state_def cancel_messages_def Let_def)

lemma destroy_tasks_exact:
  assumes "distinct ds"
  shows "destroy_tasks ds s = s\<lparr>deferredTasks := deferredTasks s |` (- set ds),
     log := log s @ concat (map (cancel_messages s) ds)\<rparr>"
  using assms
proof (induction ds arbitrary: s)
  case Nil
  show ?case
    unfolding destroy_tasks_def by (cases s) (simp add: restrict_map_def)
next
  case (Cons d ds)
  let ?s = "destroyDeferredTask d s"
  have "cancel_messages ?s x = cancel_messages s x" if "x \<in> set ds" for x
    using that Cons.prems by (auto simp: destroy_one cancel_messages_def cancellable_def)
  then have "concat (map (cancel_messages ?s) ds) = concat (map (cancel_messages s) ds)"
    by (simp cong: map_cong)
  moreover have "deferredTasks ?s |` (- set ds) = deferredTasks s |` (- set (d # ds))"
    by (auto simp: destroy_one restrict_map_def fun_eq_iff)
  moreover have "destroy_tasks (d # ds) s = destroy_tasks ds ?s"
    by (simp add: destroy_tasks_def)
  moreover have "log ?s = log s @ cancel_messages s d"
    by (simp add: destroy_one)
  ultimately have "destroy_tasks (d # ds) s = ?s\<lparr>deferredTasks := deferredTasks s |` (- set (d # ds)),
      log := log s @ concat (map (cancel_messages s) (d # ds))\<rparr>"
    using Cons.IH [of ?s] Cons.prems by simp
  then show ?case
    by (simp add: destroy_one)
qed

text \<open>C14. Releasing a pending call requests the cancellation of the first deferred handler in the
  runtime's queue that is alive, allows cancellation, has not completed and has not been canceled
  yet, whichever call that handler serves; the entries before it are dropped, those after it stay,
  and the queue is emptied when there is none. Then the call's canceler is canceled and the call is
  gone. The handlers \<open>ds\<close> that the promise machinery destroys along with the call request their own
  cancellation, each one that still can be canceled: what has been requested on the way is the one
  request from the queue and one for each of these, in this order, never two for the same handler,
  and no other handler is touched.\<close>

theorem releasePendingCall_cancels:
  assumes "pendingCalls s i = Some p" and "distinct ds"
  shows "let queue = dropWhile (\<lambda>x. \<not> cancellable s x) (activeCancelableDeferredTasks s);
      first = set (take 1 queue);
      (r, t) = releasePendingCall i s
    in r = Ret () \<and> pendingCalls t = (pendingCalls s)(i := None) \<and>
      activeCancelableDeferredTasks t = tl queue \<and>
      log (destroy_tasks ds t) = log s @ concat (map (cancel_messages s) (take 1 queue)) @
        CancelerCancel (pc_canceler p) ''Capnp.Rpc pending call released from Lean'' #
        concat (map (cancel_messages s) (filter (\<lambda>d. d \<notin> first) ds)) \<and>
      (\<forall>x. deferredTasks (destroy_tasks ds t) x =
        (if x \<in> set ds then None
         else if x \<in> first then map_option (\<lambda>d. d\<lparr>dt_cancellationRequested := True\<rparr>) (deferredTasks s x)
         else deferredTasks s x))"
proof -
  define t where "t = (cancelOneActiveDeferredTask s)\<lparr>pendingCalls := (pendingCalls s)(i := None),
      log := log (cancelOneActiveDeferredTask s) @
        [CancelerCancel (pc_canceler p) ''Capnp.Rpc pending call released from Lean'']\<rparr>"
  have run: "releasePendingCall i s = (Ret (), t)"
    using assms(1) by (simp add: releasePendingCall_def t_def)
  note destroyed = destroy_tasks_exact [OF assms(2), of t]
  show ?thesis
  proof (cases "dropWhile (\<lambda>x. \<not> cancellable s x) (activeCancelableDeferredTasks s)")
    case Nil
    then have one: "cancelOneActiveDeferredTask s = s\<lparr>activeCancelableDeferredTasks := []\<rparr>"
      by (simp only: cancelOneActiveDeferredTask_def cancel_first_exact list.case)
    moreover have "cancel_messages t = cancel_messages s"
      unfolding t_def one by (intro ext) (simp add: cancel_messages_def cancellable_def cong: if_cong)
    ultimately show ?thesis
      unfolding Nil run by (simp add: destroyed Let_def) (simp add: t_def restrict_map_def one)
  next
    case (Cons task post)
    then have task: "cancellable s task"
      by (auto simp: dropWhile_eq_Cons_conv)
    have one: "cancelOneActiveDeferredTask s = (canceled_state task s)\<lparr>activeCancelableDeferredTasks := post\<rparr>"
      using Cons by (simp add: cancelOneActiveDeferredTask_def cancel_first_exact)
    have "cancel_messages t x = (if x = task then [] else cancel_messages s x)" for x
      unfolding t_def one by (cases "x = task")
        (auto simp: cancel_messages_def cancellable_def canceled_state_def Let_def)
    then have msgs: "concat (map (cancel_messages t) ds) = concat (map (cancel_messages s) (filter (\<lambda>d. d \<noteq> task) ds))"
      by (induction ds) simp_all
    obtain d where d: "deferredTasks s task = Some d"
      using task by (auto simp: cancellable_def)
    show ?thesis
      using Cons task d
      by (simp add: run destroyed msgs Let_def)
        (simp add: t_def one restrict_map_def canceled_state_def cancel_messages_def Let_def)
  qed
qed

text \<open>Task 0 does not allow cancellation, tasks 1 and 2 do; the call 5 is pending.\<close>

definition three_tasks :: handlers_state where
  "three_tasks = deferred_call\<lparr>pendingCalls := [5 \<mapsto> \<lparr>pc_promise = ReadyNow, pc_pipeline = 8, pc_canceler = 9\<rparr>],
     activeCancelableDeferredTasks := [0, 1, 2],
     deferredTasks := (deferredTasks deferred_call)(1 \<mapsto> \<lparr>dt_waitTask = 6, dt_cancelTask = 6,
        dt_allowCancellation = True, dt_completed = False, dt_cancellationRequested = False\<rparr>,
        2 \<mapsto> \<lparr>dt_waitTask = 7, dt_cancelTask = 7,
        dt_allowCancellation = True, dt_completed = False, dt_cancellationRequested = False\<rparr>)\<rparr>"

lemma releasePendingCall_cancels_witness:
  "\<exists>t. releasePendingCall 5 three_tasks = (Ret (), t) \<and> activeCancelableDeferredTasks t = [2] \<and>
     log (destroy_tasks [2] t) = [LeanIoCancel 6,
       CancelerCancel 9 ''Capnp.Rpc pending call released from Lean'', LeanIoCancel 7]"
proof -
  have call: "pendingCalls three_tasks 5 = Some \<lparr>pc_promise = ReadyNow, pc_pipeline = 8, pc_canceler = 9\<rparr>"
    by (simp add: three_tasks_def)
  have can: "\<not> cancellable three_tasks 0" "cancellable three_tasks 1" "cancellable three_tasks 2"
    "activeCancelableDeferredTasks three_tasks = [0, 1, 2]"
    by (simp_all add: three_tasks_def deferred_call_def cancellable_def)
  have msgs: "cancel_messages three_tasks 1 = [LeanIoCancel 6]" "cancel_messages three_tasks 2 = [LeanIoCancel 7]"
    using can by (simp_all add: cancel_messages_def) (simp_all add: three_tasks_def)
  have none: "log three_tasks = []"
    by (simp add: three_tasks_def deferred_call_def handlers_init_simps)
  show ?thesis
    using releasePendingCall_cancels [OF call, of "[2]"] can msgs none
    by (auto simp: Let_def split: prod.splits)
qed

section \<open>Decoding an advanced handler's answer\<close>

text \<open>The wrappers around an answer, and what it ends in.\<close>

fun pipelines :: "lean_action \<Rightarrow> nat" where
  "pipelines (RawControl r a st next) = pipelines next"
| "pipelines (RawSendResultsToCaller next) = pipelines next"
| "pipelines (RawCallHints n p next) = pipelines next"
| "pipelines (RawExceptionType x next) = pipelines next"
| "pipelines (RawSetPipeline b c next) = Suc (pipelines next)"
| "pipelines _ = 0"

fun ends_in :: "lean_action \<Rightarrow> action_kind option" where
  "ends_in (RawControl r a st next) = ends_in next"
| "ends_in (RawSendResultsToCaller next) = ends_in next"
| "ends_in (RawCallHints n p next) = ends_in next"
| "ends_in (RawExceptionType x next) = ends_in next"
| "ends_in (RawSetPipeline b c next) = ends_in next"
| "ends_in (RawReturn p c) = Some RETURN_PAYLOAD"
| "ends_in (RawAsyncCall i t m p c) = Some ASYNC_CALL"
| "ends_in (RawTailCall i t m p c) = Some TAIL_CALL"
| "ends_in (RawThrowRemote m d) = Some THROW_REMOTE"
| "ends_in (RawAwait w c) = Some AWAIT_TASK"
| "ends_in RawUnknown = None"

fun allows_cancel :: "lean_action \<Rightarrow> bool" where
  "allows_cancel (RawControl r a st next) = (a \<noteq> 0 \<or> allows_cancel next)"
| "allows_cancel (RawSendResultsToCaller next) = allows_cancel next"
| "allows_cancel (RawCallHints n p next) = allows_cancel next"
| "allows_cancel (RawExceptionType x next) = allows_cancel next"
| "allows_cancel (RawSetPipeline b c next) = allows_cancel next"
| "allows_cancel _ = False"

lemma decode_from_exact:
  "(case decode_from a raw of
      Inr action \<Rightarrow> ends_in raw = Some (ac_kind action) \<and>
        pipelines raw + (if ac_hasPipeline a then 1 else 0) \<le> 1 \<and>
        (ac_hasPipeline action \<longleftrightarrow> ac_hasPipeline a \<or> pipelines raw = 1) \<and>
        (ac_allowCancellation action \<longleftrightarrow> ac_allowCancellation a \<or> allows_cancel raw)
    | Inl e \<Rightarrow> ends_in raw = None \<or> pipelines raw + (if ac_hasPipeline a then 1 else 0) > 1)"
  by (induction a raw rule: decode_from.induct) (auto split: sum.splits if_splits)

text \<open>Decoding an answer fails exactly when its innermost constructor is unknown or it sets the
  pipeline twice; otherwise the action has the kind of the innermost constructor, has a pipeline
  exactly when one was set, and allows cancellation exactly when some wrapper says so.\<close>

theorem decodeAction_exact:
  "(case decodeAction raw of
      Inr action \<Rightarrow> ends_in raw = Some (ac_kind action) \<and> pipelines raw \<le> 1 \<and>
        (ac_hasPipeline action \<longleftrightarrow> pipelines raw = 1) \<and>
        (ac_allowCancellation action \<longleftrightarrow> allows_cancel raw)
    | Inl e \<Rightarrow> ends_in raw = None \<or> pipelines raw > 1)"
  using decode_from_exact [where a = action_init and raw = raw]
  by (auto simp: decodeAction_def action_init_def split: sum.splits)

end
