(* ===== verification/Connections.thy ===== *)
theory Connections
  imports Handlers
begin

text \<open>
  Transports, listeners, clients and servers of \<^verbatim>\<open>RuntimeLoop\<close>. A wait that yields an
  object (an address, a connection) is a parameter that may transform the state, because
  the event loop runs meanwhile; what the runtime does before and after it is the code's.
\<close>

section \<open>State\<close>

record server_peer =
  sp_ioConnection :: "obj option"
  sp_capConnection :: "obj option"
  sp_network :: obj
  sp_rpcSystem :: obj

record runtime_server =
  rs_bootstrap :: "client option"
  rs_bootstrapFactory :: "obj option"
  rs_peers :: "server_peer list"

record connections_state = handlers_state +
  transports :: "u32 \<rightharpoonup> obj"
  nextTransportId :: u32
  listeners :: "u32 \<rightharpoonup> obj"
  nextListenerId :: u32
  clients :: "u32 \<rightharpoonup> network_client_peer"
  nextClientId :: u32
  servers :: "u32 \<rightharpoonup> runtime_server"
  nextServerId :: u32
  networkServerPeers :: "server_peer list"
  maxFdsPerMessage :: u32

type_synonym 's wait_obj = "ext_call \<Rightarrow> 's \<Rightarrow> (exn, obj) outcome \<times> 's"
type_synonym 's wait_unit = "promise \<Rightarrow> 's \<Rightarrow> (exn, unit) outcome \<times> 's"

definition unknown_transport :: "u32 \<Rightarrow> exn" where
  "unknown_transport i = StdEx (''unknown RPC transport id: '' @ to_string i)"

definition unknown_client :: "u32 \<Rightarrow> exn" where
  "unknown_client i = StdEx (''unknown RPC client id: '' @ to_string i)"

definition unknown_listener :: "u32 \<Rightarrow> exn" where
  "unknown_listener i = StdEx (''unknown RPC listener id: '' @ to_string i)"

definition unknown_server :: "u32 \<Rightarrow> exn" where
  "unknown_server i = StdEx (''unknown RPC server id: '' @ to_string i)"

section \<open>Identifier tables\<close>

definition addListener :: "obj
    \<Rightarrow> 'z connections_state_scheme \<Rightarrow> (exn, u32) outcome \<times> 'z connections_state_scheme" where
  "addListener l s = (case alloc_id (listeners s) (nextListenerId s) of
      None \<Rightarrow> (Hang, s)
    | Some (i, nxt) \<Rightarrow> (Ret i, s\<lparr>nextListenerId := nxt, listeners := (listeners s)(i \<mapsto> l)\<rparr>))"

definition addClient :: "network_client_peer
    \<Rightarrow> 'z connections_state_scheme \<Rightarrow> (exn, u32) outcome \<times> 'z connections_state_scheme" where
  "addClient c s = (case alloc_id (clients s) (nextClientId s) of
      None \<Rightarrow> (Hang, s)
    | Some (i, nxt) \<Rightarrow> (Ret i, s\<lparr>nextClientId := nxt, clients := (clients s)(i \<mapsto> c)\<rparr>))"

definition addServer :: "runtime_server
    \<Rightarrow> 'z connections_state_scheme \<Rightarrow> (exn, u32) outcome \<times> 'z connections_state_scheme" where
  "addServer v s = (case alloc_id (servers s) (nextServerId s) of
      None \<Rightarrow> (Hang, s)
    | Some (i, nxt) \<Rightarrow> (Ret i, s\<lparr>nextServerId := nxt, servers := (servers s)(i \<mapsto> v)\<rparr>))"

definition addTransport :: "obj
    \<Rightarrow> 'z connections_state_scheme \<Rightarrow> (exn, u32) outcome \<times> 'z connections_state_scheme" where
  "addTransport t s = (case alloc_id (transports s) (nextTransportId s) of
      None \<Rightarrow> (Hang, s)
    | Some (i, nxt) \<Rightarrow> (Ret i, s\<lparr>nextTransportId := nxt, transports := (transports s)(i \<mapsto> t)\<rparr>))"

section \<open>Transports\<close>

definition takeTransport :: "u32
    \<Rightarrow> 'z connections_state_scheme \<Rightarrow> (exn, obj) outcome \<times> 'z connections_state_scheme" where
  "takeTransport i =
     bnd (find_or transports i (unknown_transport i)) (\<lambda>stream.
     sq (modify (\<lambda>s. s\<lparr>transports := (transports s)(i := None)\<rparr>))
     (ret stream))"

definition newTransportPipe :: "env
    \<Rightarrow> 'z connections_state_scheme \<Rightarrow> (exn, u32 \<times> u32) outcome \<times> 'z connections_state_scheme" where
  "newTransportPipe env =
     bnd (call (ask_pair env) NewCapabilityPipe) (\<lambda>(end0, end1).
     bnd (addTransport end0) (\<lambda>firstId.
     bnd (addTransport end1) (\<lambda>secondId.
     ret (firstId, secondId))))"

definition dup_fd :: "env \<Rightarrow> u32 \<Rightarrow> string
    \<Rightarrow> 'z world_scheme \<Rightarrow> (exn, int) outcome \<times> 'z world_scheme" where
  "dup_fd env fd msg =
     (if fd > maxInt then throw (StdEx ''fd exceeds platform int range'')
      else bnd (call (ask_int env) (Dup fd)) (\<lambda>fdCopy.
           if fdCopy < 0 then throw (StdEx msg) else ret fdCopy))"

definition newTransportFromFd :: "env \<Rightarrow> u32
    \<Rightarrow> 'z connections_state_scheme \<Rightarrow> (exn, u32) outcome \<times> 'z connections_state_scheme" where
  "newTransportFromFd env fd =
     bnd (dup_fd env fd ''dup() failed while creating RPC transport from fd'') (\<lambda>fdCopy.
     bnd (call (ask_obj env) (WrapUnixSocketFd fdCopy)) addTransport)"

definition newTransportFromFdTake :: "env \<Rightarrow> u32
    \<Rightarrow> 'z connections_state_scheme \<Rightarrow> (exn, u32) outcome \<times> 'z connections_state_scheme" where
  "newTransportFromFdTake env fd =
     (if fd > maxInt then throw (StdEx ''fd exceeds platform int range'')
      else bnd (call (ask_obj env) (WrapUnixSocketFd (uint fd))) addTransport)"

definition releaseTransport :: "u32
    \<Rightarrow> 'z connections_state_scheme \<Rightarrow> (exn, unit) outcome \<times> 'z connections_state_scheme" where
  "releaseTransport i s =
     (if transports s i = None then throw (unknown_transport i) s
      else (Ret (), s\<lparr>transports := (transports s)(i := None)\<rparr>))"

definition transportGetFd :: "env \<Rightarrow> u32
    \<Rightarrow> 'z connections_state_scheme \<Rightarrow> (exn, int) outcome \<times> 'z connections_state_scheme" where
  "transportGetFd env i =
     bnd (find_or transports i (unknown_transport i)) (\<lambda>stream.
     bnd (call (ask_fd env) (GetStreamFd stream)) (\<lambda>fdMaybe.
     ret (case fdMaybe of None \<Rightarrow> - 1 | Some fd \<Rightarrow> fd)))"

section \<open>Clients\<close>

text \<open>A network and an RPC client system over a stream; every way to connect ends so.\<close>

definition clientPeer :: "env \<Rightarrow> obj
    \<Rightarrow> 'z connections_state_scheme \<Rightarrow> (exn, network_client_peer) outcome \<times> 'z connections_state_scheme" where
  "clientPeer env strm =
     bnd (gets maxFdsPerMessage) (\<lambda>fds.
     bnd (call (ask_obj env) (NewTwoPartyVatNetwork strm fds)) (\<lambda>netw.
     bnd (call (ask_obj env) (MakeRpcClient netw)) (\<lambda>rpc.
     sq (applyTraceEncoder rpc)
     (ret \<lparr>stream = strm, network = netw, rpcSystem = rpc\<rparr>))))"

definition connectPeer :: "env \<Rightarrow> 'z connections_state_scheme wait_obj \<Rightarrow> string \<Rightarrow> u32
    \<Rightarrow> 'z connections_state_scheme \<Rightarrow> (exn, network_client_peer) outcome \<times> 'z connections_state_scheme" where
  "connectPeer env wait address portHint =
     bnd (wait (ParseAddress address portHint)) (\<lambda>addr.
     bnd (wait (Connect addr)) (\<lambda>strm.
     clientPeer env strm))"

definition connectTarget :: "env \<Rightarrow> 'z connections_state_scheme wait_obj \<Rightarrow> string \<Rightarrow> u32
    \<Rightarrow> 'z connections_state_scheme \<Rightarrow> (exn, u32) outcome \<times> 'z connections_state_scheme" where
  "connectTarget env wait address portHint =
     bnd (connectPeer env wait address portHint) (connectTargetPeer env)"

text \<open>
  The started forms register a promise; \<open>connectPeerStart_done\<close> is the continuation of
  \<^verbatim>\<open>connectPeerStart\<close> once the stream is there, followed by the caller's own.
\<close>

definition connectTargetStart :: "string \<Rightarrow> u32
    \<Rightarrow> 'z promises_state_scheme \<Rightarrow> (exn, u32) outcome \<times> 'z promises_state_scheme" where
  "connectTargetStart address portHint =
     bnd new_object (\<lambda>canceler.
     addRegisterPromise \<lparr>pp_promise = LaterConnectTarget address portHint, pp_canceler = canceler\<rparr>)"

definition connectTargetStart_done :: "env \<Rightarrow> obj
    \<Rightarrow> 'z connections_state_scheme \<Rightarrow> (exn, u32) outcome \<times> 'z connections_state_scheme" where
  "connectTargetStart_done env strm = bnd (clientPeer env strm) (connectTargetPeer env)"

definition connectTargetFd :: "env \<Rightarrow> u32
    \<Rightarrow> 'z connections_state_scheme \<Rightarrow> (exn, u32) outcome \<times> 'z connections_state_scheme" where
  "connectTargetFd env fd =
     bnd (dup_fd env fd ''dup() failed while connecting RPC target fd'') (\<lambda>fdCopy.
     bnd (call (ask_obj env) (WrapUnixSocketFd fdCopy)) (\<lambda>strm.
     bnd (clientPeer env strm) (connectTargetPeer env)))"

definition connectTargetTransport :: "env \<Rightarrow> u32
    \<Rightarrow> 'z connections_state_scheme \<Rightarrow> (exn, u32) outcome \<times> 'z connections_state_scheme" where
  "connectTargetTransport env transportId =
     bnd (takeTransport transportId) (\<lambda>strm.
     bnd (clientPeer env strm) (connectTargetPeer env))"

definition newClient :: "env \<Rightarrow> 'z connections_state_scheme wait_obj \<Rightarrow> string \<Rightarrow> u32
    \<Rightarrow> 'z connections_state_scheme \<Rightarrow> (exn, u32) outcome \<times> 'z connections_state_scheme" where
  "newClient env wait address portHint = bnd (connectPeer env wait address portHint) addClient"

definition newClientStart :: "string \<Rightarrow> u32
    \<Rightarrow> 'z promises_state_scheme \<Rightarrow> (exn, u32) outcome \<times> 'z promises_state_scheme" where
  "newClientStart address portHint =
     bnd new_object (\<lambda>canceler.
     addRegisterPromise \<lparr>pp_promise = LaterNewClient address portHint, pp_canceler = canceler\<rparr>)"

definition newClientStart_done :: "env \<Rightarrow> obj
    \<Rightarrow> 'z connections_state_scheme \<Rightarrow> (exn, u32) outcome \<times> 'z connections_state_scheme" where
  "newClientStart_done env strm = bnd (clientPeer env strm) addClient"

definition releaseClient :: "u32
    \<Rightarrow> 'z connections_state_scheme \<Rightarrow> (exn, unit) outcome \<times> 'z connections_state_scheme" where
  "releaseClient i s =
     (if clients s i = None then throw (unknown_client i) s
      else (Ret (), s\<lparr>clients := (clients s)(i := None)\<rparr>))"

definition findClient :: "u32
    \<Rightarrow> 'z connections_state_scheme \<Rightarrow> (exn, network_client_peer) outcome \<times> 'z connections_state_scheme" where
  "findClient i = find_or clients i (unknown_client i)"

definition clientBootstrap :: "env \<Rightarrow> u32
    \<Rightarrow> 'z connections_state_scheme \<Rightarrow> (exn, u32) outcome \<times> 'z connections_state_scheme" where
  "clientBootstrap env i =
     bnd (findClient i) (\<lambda>c.
     bnd (call (ask_obj env) (RpcBootstrap (rpcSystem c))) (\<lambda>cap.
     addTarget (ExternalClient cap)))"

definition clientOnDisconnect :: "'z connections_state_scheme wait_unit \<Rightarrow> u32
    \<Rightarrow> 'z connections_state_scheme \<Rightarrow> (exn, unit) outcome \<times> 'z connections_state_scheme" where
  "clientOnDisconnect wait i = bnd (findClient i) (\<lambda>c. wait (OnDisconnectP (network c)))"

definition clientOnDisconnectStart :: "u32
    \<Rightarrow> 'z connections_state_scheme \<Rightarrow> (exn, u32) outcome \<times> 'z connections_state_scheme" where
  "clientOnDisconnectStart i =
     bnd (findClient i) (\<lambda>c.
     bnd new_object (\<lambda>canceler.
     addUnitPromise \<lparr>pp_promise = OnDisconnectP (network c), pp_canceler = canceler\<rparr>))"

definition clientQueueSize :: "env \<Rightarrow> u32
    \<Rightarrow> 'z connections_state_scheme \<Rightarrow> (exn, u64) outcome \<times> 'z connections_state_scheme" where
  "clientQueueSize env i = bnd (findClient i) (\<lambda>c.
     call (ask_num env) (QueueMetric (network c) ''getCurrentQueueSize''))"

definition clientQueueCount :: "env \<Rightarrow> u32
    \<Rightarrow> 'z connections_state_scheme \<Rightarrow> (exn, u64) outcome \<times> 'z connections_state_scheme" where
  "clientQueueCount env i = bnd (findClient i) (\<lambda>c.
     call (ask_num env) (QueueMetric (network c) ''getCurrentQueueCount''))"

definition clientOutgoingWaitNanos :: "env \<Rightarrow> u32
    \<Rightarrow> 'z connections_state_scheme \<Rightarrow> (exn, u64) outcome \<times> 'z connections_state_scheme" where
  "clientOutgoingWaitNanos env i = bnd (findClient i) (\<lambda>c.
     call (ask_num env) (QueueMetric (network c) ''getOutgoingMessageWaitTime''))"

text \<open>\<^verbatim>\<open>size_t\<close> has 64 bits on the supported platforms, so the range check never fails.\<close>

definition clientSetFlowLimit :: "u32 \<Rightarrow> u64
    \<Rightarrow> 'z connections_state_scheme \<Rightarrow> (exn, unit) outcome \<times> 'z connections_state_scheme" where
  "clientSetFlowLimit i flow = bnd (findClient i) (\<lambda>c.
     if flow > - 1 then throw (StdEx ''flow limit exceeds platform size_t range'')
     else tell (SetFlowLimit (rpcSystem c) flow))"

definition listenerCount :: "'z connections_state_scheme \<Rightarrow> u64" where
  "listenerCount s = of_nat (table_size (listeners s))"

definition clientCount :: "'z connections_state_scheme \<Rightarrow> u64" where
  "clientCount s = of_nat (table_size (clients s))"

definition serverCount :: "'z connections_state_scheme \<Rightarrow> u64" where
  "serverCount s = of_nat (table_size (servers s))"

definition pendingCallCount :: "'z calls_state_scheme \<Rightarrow> u64" where
  "pendingCallCount s = of_nat (table_size (pendingCalls s))"

section \<open>Servers\<close>

text \<open>The peers of an accepted connection; the first two forms have no descriptors.\<close>

definition makeServerPeer :: "env \<Rightarrow> client \<Rightarrow> obj
    \<Rightarrow> 'z connections_state_scheme \<Rightarrow> (exn, server_peer) outcome \<times> 'z connections_state_scheme" where
  "makeServerPeer env bootstrap connection =
     bnd (call (ask_obj env) (NewTwoPartyVatNetwork connection 0)) (\<lambda>netw.
     bnd (call (ask_obj env) (MakeRpcServer netw bootstrap)) (\<lambda>rpc.
     sq (applyTraceEncoder rpc)
     (ret \<lparr>sp_ioConnection = Some connection, sp_capConnection = None, sp_network = netw,
           sp_rpcSystem = rpc\<rparr>)))"

definition makeServerPeerFactory :: "env \<Rightarrow> obj \<Rightarrow> obj
    \<Rightarrow> 'z connections_state_scheme \<Rightarrow> (exn, server_peer) outcome \<times> 'z connections_state_scheme" where
  "makeServerPeerFactory env factory connection =
     bnd (call (ask_obj env) (NewTwoPartyVatNetwork connection 0)) (\<lambda>netw.
     bnd (call (ask_obj env) (MakeRpcServerWithFactory netw factory)) (\<lambda>rpc.
     sq (applyTraceEncoder rpc)
     (ret \<lparr>sp_ioConnection = Some connection, sp_capConnection = None, sp_network = netw,
           sp_rpcSystem = rpc\<rparr>)))"

definition makeServerPeerWithFds :: "env \<Rightarrow> client \<Rightarrow> obj
    \<Rightarrow> 'z connections_state_scheme \<Rightarrow> (exn, server_peer) outcome \<times> 'z connections_state_scheme" where
  "makeServerPeerWithFds env bootstrap connection =
     bnd (gets maxFdsPerMessage) (\<lambda>fds.
     bnd (call (ask_obj env) (NewTwoPartyVatNetwork connection fds)) (\<lambda>netw.
     bnd (call (ask_obj env) (MakeRpcServer netw bootstrap)) (\<lambda>rpc.
     sq (applyTraceEncoder rpc)
     (ret \<lparr>sp_ioConnection = None, sp_capConnection = Some connection, sp_network = netw,
           sp_rpcSystem = rpc\<rparr>))))"

definition makeServerPeerWithFdsFactory :: "env \<Rightarrow> obj \<Rightarrow> obj
    \<Rightarrow> 'z connections_state_scheme \<Rightarrow> (exn, server_peer) outcome \<times> 'z connections_state_scheme" where
  "makeServerPeerWithFdsFactory env factory connection =
     bnd (gets maxFdsPerMessage) (\<lambda>fds.
     bnd (call (ask_obj env) (NewTwoPartyVatNetwork connection fds)) (\<lambda>netw.
     bnd (call (ask_obj env) (MakeRpcServerWithFactory netw factory)) (\<lambda>rpc.
     sq (applyTraceEncoder rpc)
     (ret \<lparr>sp_ioConnection = None, sp_capConnection = Some connection, sp_network = netw,
           sp_rpcSystem = rpc\<rparr>))))"

text \<open>A server has a factory or a bootstrap client.\<close>

definition makeRuntimeServerPeerWithFds :: "env \<Rightarrow> runtime_server \<Rightarrow> obj
    \<Rightarrow> 'z connections_state_scheme \<Rightarrow> (exn, server_peer) outcome \<times> 'z connections_state_scheme" where
  "makeRuntimeServerPeerWithFds env server connection =
     (case rs_bootstrapFactory server of
        Some factory \<Rightarrow> makeServerPeerWithFdsFactory env factory connection
      | None \<Rightarrow> makeServerPeerWithFds env (the (rs_bootstrap server)) connection)"

text \<open>\<^verbatim>\<open>LeanBootstrapFactory::createFor\<close>: the Lean closure names a registered target.\<close>

definition createFor :: "(obj \<Rightarrow> u16 \<Rightarrow> 'z targets_state_scheme \<Rightarrow> u32 option \<times> 'z targets_state_scheme)
    \<Rightarrow> obj \<Rightarrow> u16 \<Rightarrow> 'z targets_state_scheme \<Rightarrow> (exn, client) outcome \<times> 'z targets_state_scheme" where
  "createFor apply factory side s =
     (let (reply, s') = apply factory side (s\<lparr>log := log s @ [LeanInc factory]\<rparr>)
      in case reply of
           None \<Rightarrow> (Throw (StdEx ''Lean bootstrap factory returned IO error''), s')
         | Some targetId \<Rightarrow> find_or targets targetId
             (StdEx (''unknown RPC bootstrap capability id from Lean bootstrap factory: '' @
                to_string targetId)) s')"

definition listenLoopback :: "env \<Rightarrow> 'z connections_state_scheme wait_obj \<Rightarrow> string \<Rightarrow> u32
    \<Rightarrow> 'z connections_state_scheme \<Rightarrow> (exn, u32) outcome \<times> 'z connections_state_scheme" where
  "listenLoopback env wait address portHint =
     bnd (wait (ParseAddress address portHint)) (\<lambda>addr.
     bnd (call (ask_obj env) (Listen addr)) addListener)"

definition acceptLoopback :: "env \<Rightarrow> 'z connections_state_scheme wait_obj \<Rightarrow> u32
    \<Rightarrow> 'z connections_state_scheme \<Rightarrow> (exn, unit) outcome \<times> 'z connections_state_scheme" where
  "acceptLoopback env wait listenerId =
     bnd (find_or listeners listenerId (unknown_listener listenerId)) (\<lambda>l.
     bnd (wait (Accept l)) (\<lambda>connection.
     bnd (makeServerPeer env LoopbackCapabilityServer connection) (\<lambda>peer.
     modify (\<lambda>s. s\<lparr>networkServerPeers := networkServerPeers s @ [peer]\<rparr>))))"

definition releaseListener :: "u32
    \<Rightarrow> 'z connections_state_scheme \<Rightarrow> (exn, unit) outcome \<times> 'z connections_state_scheme" where
  "releaseListener i s =
     (if listeners s i = None then throw (unknown_listener i) s
      else (Ret (), s\<lparr>listeners := (listeners s)(i := None)\<rparr>))"

definition newServer :: "u32
    \<Rightarrow> 'z connections_state_scheme \<Rightarrow> (exn, u32) outcome \<times> 'z connections_state_scheme" where
  "newServer bootstrapTarget =
     bnd (findTarget bootstrapTarget) (\<lambda>cap.
     addServer \<lparr>rs_bootstrap = Some cap, rs_bootstrapFactory = None, rs_peers = []\<rparr>)"

definition newServerWithBootstrapFactory :: "obj
    \<Rightarrow> 'z connections_state_scheme \<Rightarrow> (exn, u32) outcome \<times> 'z connections_state_scheme" where
  "newServerWithBootstrapFactory bootstrapFactory =
     sq (tell (LeanInc bootstrapFactory))
     (addServer \<lparr>rs_bootstrap = None, rs_bootstrapFactory = Some bootstrapFactory, rs_peers = []\<rparr>)"

text \<open>The factory's destructor drops its reference to the Lean closure.\<close>

definition drop_server :: "runtime_server \<Rightarrow> ext_call list" where
  "drop_server v = (case rs_bootstrapFactory v of None \<Rightarrow> [] | Some factory \<Rightarrow> [LeanDec factory])"

definition releaseServer :: "u32
    \<Rightarrow> 'z connections_state_scheme \<Rightarrow> (exn, unit) outcome \<times> 'z connections_state_scheme" where
  "releaseServer i s =
     (case servers s i of
        None \<Rightarrow> throw (unknown_server i) s
      | Some v \<Rightarrow> (Ret (), s\<lparr>servers := (servers s)(i := None), log := log s @ drop_server v\<rparr>))"

definition findServer :: "u32
    \<Rightarrow> 'z connections_state_scheme \<Rightarrow> (exn, runtime_server) outcome \<times> 'z connections_state_scheme" where
  "findServer i = find_or servers i (unknown_server i)"

definition add_peer :: "u32 \<Rightarrow> server_peer \<Rightarrow> 'z connections_state_scheme \<Rightarrow> 'z connections_state_scheme" where
  "add_peer serverId peer s = s\<lparr>servers := (servers s)(serverId := map_option
     (\<lambda>v. v\<lparr>rs_peers := rs_peers v @ [peer]\<rparr>) (servers s serverId))\<rparr>"

definition serverListen :: "env \<Rightarrow> 'z connections_state_scheme wait_obj \<Rightarrow> u32 \<Rightarrow> string \<Rightarrow> u32
    \<Rightarrow> 'z connections_state_scheme \<Rightarrow> (exn, u32) outcome \<times> 'z connections_state_scheme" where
  "serverListen env wait serverId address portHint =
     bnd (findServer serverId) (\<lambda>_.
     bnd (wait (ParseAddress address portHint)) (\<lambda>addr.
     bnd (call (ask_obj env) (Listen addr)) addListener))"

definition serverAccept :: "env \<Rightarrow> 'z connections_state_scheme wait_obj \<Rightarrow> u32 \<Rightarrow> u32
    \<Rightarrow> 'z connections_state_scheme \<Rightarrow> (exn, unit) outcome \<times> 'z connections_state_scheme" where
  "serverAccept env wait serverId listenerId =
     bnd (findServer serverId) (\<lambda>server.
     bnd (find_or listeners listenerId (unknown_listener listenerId)) (\<lambda>l.
     bnd (wait (Accept l)) (\<lambda>connection.
     bnd (makeRuntimeServerPeerWithFds env server connection) (\<lambda>peer.
     modify (add_peer serverId peer)))))"

text \<open>The started form looks everything up later, in the two continuations.\<close>

definition serverAcceptStart :: "u32 \<Rightarrow> u32
    \<Rightarrow> 'z promises_state_scheme \<Rightarrow> (exn, u32) outcome \<times> 'z promises_state_scheme" where
  "serverAcceptStart serverId listenerId =
     bnd new_object (\<lambda>canceler.
     addUnitPromise \<lparr>pp_promise = LaterServerAccept serverId listenerId, pp_canceler = canceler\<rparr>)"

definition serverAcceptStart_listener :: "u32
    \<Rightarrow> 'z connections_state_scheme \<Rightarrow> (exn, obj) outcome \<times> 'z connections_state_scheme" where
  "serverAcceptStart_listener listenerId = find_or listeners listenerId (unknown_listener listenerId)"

definition serverAcceptStart_done :: "env \<Rightarrow> u32 \<Rightarrow> obj
    \<Rightarrow> 'z connections_state_scheme \<Rightarrow> (exn, unit) outcome \<times> 'z connections_state_scheme" where
  "serverAcceptStart_done env serverId connection =
     bnd (findServer serverId) (\<lambda>server.
     bnd (makeRuntimeServerPeerWithFds env server connection) (\<lambda>peer.
     modify (add_peer serverId peer)))"

definition serverAcceptFd :: "env \<Rightarrow> u32 \<Rightarrow> u32
    \<Rightarrow> 'z connections_state_scheme \<Rightarrow> (exn, unit) outcome \<times> 'z connections_state_scheme" where
  "serverAcceptFd env serverId fd =
     bnd (findServer serverId) (\<lambda>server.
     bnd (dup_fd env fd ''dup() failed while accepting RPC server fd'') (\<lambda>fdCopy.
     bnd (call (ask_obj env) (WrapUnixSocketFd fdCopy)) (\<lambda>connection.
     bnd (makeRuntimeServerPeerWithFds env server connection) (\<lambda>peer.
     modify (add_peer serverId peer)))))"

definition serverAcceptTransport :: "env \<Rightarrow> u32 \<Rightarrow> u32
    \<Rightarrow> 'z connections_state_scheme \<Rightarrow> (exn, unit) outcome \<times> 'z connections_state_scheme" where
  "serverAcceptTransport env serverId transportId =
     bnd (findServer serverId) (\<lambda>server.
     bnd (takeTransport transportId) (\<lambda>connection.
     bnd (makeRuntimeServerPeerWithFds env server connection) (\<lambda>peer.
     modify (add_peer serverId peer))))"

definition serverDrain :: "'z connections_state_scheme wait_unit \<Rightarrow> u32
    \<Rightarrow> 'z connections_state_scheme \<Rightarrow> (exn, unit) outcome \<times> 'z connections_state_scheme" where
  "serverDrain wait serverId =
     bnd (findServer serverId) (\<lambda>server.
     for_each (\<lambda>peer. wait (OnDisconnectP (sp_network peer))) (rs_peers server))"

definition serverDrainStart :: "u32
    \<Rightarrow> 'z connections_state_scheme \<Rightarrow> (exn, u32) outcome \<times> 'z connections_state_scheme" where
  "serverDrainStart serverId =
     bnd (findServer serverId) (\<lambda>server.
     bnd new_object (\<lambda>canceler.
     addUnitPromise \<lparr>pp_promise = JoinP (map (\<lambda>peer. OnDisconnectP (sp_network peer)) (rs_peers server)),
       pp_canceler = canceler\<rparr>))"

section \<open>Calls over a connection made and accepted for them\<close>

text \<open>
  Connect and accept are started together and awaited in order; the server's peer is kept
  by the runtime, the client side only for the call.
\<close>

definition connect_and_accept :: "env \<Rightarrow> 'z connections_state_scheme wait_obj \<Rightarrow> u32 \<Rightarrow> u32 \<Rightarrow> string \<Rightarrow> u32
    \<Rightarrow> 'z connections_state_scheme \<Rightarrow> (exn, client) outcome \<times> 'z connections_state_scheme" where
  "connect_and_accept env wait serverId listenerId address portHint =
     bnd (findServer serverId) (\<lambda>server.
     bnd (find_or listeners listenerId (unknown_listener listenerId)) (\<lambda>l.
     bnd (wait (ParseAddress address portHint)) (\<lambda>addr.
     bnd (wait (Connect addr)) (\<lambda>strm.
     bnd (wait (Accept l)) (\<lambda>connection.
     bnd (makeRuntimeServerPeerWithFds env server connection) (\<lambda>peer.
     sq (modify (\<lambda>s. s\<lparr>networkServerPeers := networkServerPeers s @ [peer]\<rparr>))
     (bnd (clientPeer env strm) (\<lambda>c.
      bnd (call (ask_obj env) (RpcBootstrap (rpcSystem c))) (\<lambda>cap.
      ret (ExternalClient cap))))))))))"

definition processCppCallWithAccept :: "env \<Rightarrow> 'z connections_state_scheme wait_obj
    \<Rightarrow> (promise \<Rightarrow> 'z connections_state_scheme \<Rightarrow> (exn, message) outcome \<times> 'z connections_state_scheme)
    \<Rightarrow> u32 \<Rightarrow> u32 \<Rightarrow> string \<Rightarrow> u32 \<Rightarrow> u64 \<Rightarrow> u16 \<Rightarrow> bytes \<Rightarrow> u32 list
    \<Rightarrow> 'z connections_state_scheme \<Rightarrow> (exn, bytes \<times> bytes) outcome \<times> 'z connections_state_scheme" where
  "processCppCallWithAccept env wait waitResponse serverId listenerId address portHint
       interfaceId methodId requestData requestCaps =
     bnd (connect_and_accept env wait serverId listenerId address portHint) (\<lambda>target.
     bnd (setRequestPayload env requestData requestCaps) (\<lambda>content.
     bnd (call (ask_pair env) (SendRequest (typelessRequest target interfaceId methodId content))) (\<lambda>(p, _).
     bnd (waitResponse (KjPromise p)) serializeResponse)))"

definition processCppPipelinedCallWithAccept :: "env \<Rightarrow> 'z connections_state_scheme wait_obj
    \<Rightarrow> (promise \<Rightarrow> 'z connections_state_scheme \<Rightarrow> (exn, message) outcome \<times> 'z connections_state_scheme)
    \<Rightarrow> u32 \<Rightarrow> u32 \<Rightarrow> string \<Rightarrow> u32 \<Rightarrow> u64 \<Rightarrow> u16 \<Rightarrow> bytes \<Rightarrow> u32 list \<Rightarrow> bytes \<Rightarrow> u32 list
    \<Rightarrow> 'z connections_state_scheme \<Rightarrow> (exn, bytes \<times> bytes) outcome \<times> 'z connections_state_scheme" where
  "processCppPipelinedCallWithAccept env wait waitResponse serverId listenerId address portHint
       interfaceId methodId requestData requestCaps pipelinedRequestData pipelinedRequestCaps =
     bnd (connect_and_accept env wait serverId listenerId address portHint) (\<lambda>target.
     bnd (setRequestPayload env requestData requestCaps) (\<lambda>content.
     bnd (call (ask_pair env) (SendRequest (typelessRequest target interfaceId methodId content))) (\<lambda>(_, pipeline).
     bnd (call (ask_obj env) (PipelinedCap pipeline [])) (\<lambda>cap.
     bnd (setRequestPayload env pipelinedRequestData pipelinedRequestCaps) (\<lambda>content2.
     bnd (call (ask_pair env) (SendRequest (typelessRequest (ExternalClient cap) interfaceId methodId content2))) (\<lambda>(p, _).
     bnd (waitResponse (KjPromise p)) serializeResponse))))))"

section \<open>The trace encoder on every connection\<close>

text \<open>
  \<open>order\<close> is the order in which an unordered map is iterated, as a function of its keys.
\<close>

definition trace_systems :: "(u32 set \<Rightarrow> u32 list) \<Rightarrow> 'z connections_state_scheme \<Rightarrow> obj list" where
  "trace_systems order s =
     map (\<lambda>i. rpcSystem (the (clients s i))) (order (dom (clients s))) @
     map (\<lambda>i. rpcSystem (the (networkClientPeers s i))) (order (dom (networkClientPeers s))) @
     map (\<lambda>i. serverRpcSystem (the (loopbackPeers s i))) (order (dom (loopbackPeers s))) @
     map sp_rpcSystem (networkServerPeers s) @
     concat (map (\<lambda>i. map sp_rpcSystem (rs_peers (the (servers s i)))) (order (dom (servers s))))"

definition applyTraceEncoderToAllActiveConnections :: "(u32 set \<Rightarrow> u32 list)
    \<Rightarrow> 'z connections_state_scheme \<Rightarrow> (exn, unit) outcome \<times> 'z connections_state_scheme" where
  "applyTraceEncoderToAllActiveConnections order s =
     for_each applyTraceEncoder (trace_systems order s) s"

definition setTraceEncoderEnabled :: "(u32 set \<Rightarrow> u32 list) \<Rightarrow> bool
    \<Rightarrow> 'z connections_state_scheme \<Rightarrow> (exn, unit) outcome \<times> 'z connections_state_scheme" where
  "setTraceEncoderEnabled order enabled =
     sq clearTraceEncoderHandler
     (sq (modify (\<lambda>s. s\<lparr>traceEncoderEnabled := enabled\<rparr>))
     (applyTraceEncoderToAllActiveConnections order))"

definition setTraceEncoderFromLean :: "(u32 set \<Rightarrow> u32 list) \<Rightarrow> obj
    \<Rightarrow> 'z connections_state_scheme \<Rightarrow> (exn, unit) outcome \<times> 'z connections_state_scheme" where
  "setTraceEncoderFromLean order encoder =
     sq clearTraceEncoderHandler
     (sq (modify (\<lambda>s. s\<lparr>traceEncoderEnabled := False, traceEncoderHandler := Some encoder\<rparr>))
     (applyTraceEncoderToAllActiveConnections order))"

section \<open>The tables as instances of the interfaces\<close>

interpretation listener_table: id_table listeners nextListenerId addListener
  by unfold_locales (auto simp: addListener_def)

interpretation listener_handles: handle_table listeners nextListenerId addListener releaseListener
    unknown_listener "\<lambda>_. True"
  by unfold_locales (auto simp: releaseListener_def)

interpretation client_table: id_table clients nextClientId addClient
  by unfold_locales (auto simp: addClient_def)

interpretation client_handles: handle_table clients nextClientId addClient releaseClient
    unknown_client "\<lambda>_. True"
  by unfold_locales (auto simp: releaseClient_def)

interpretation server_table: id_table servers nextServerId addServer
  by unfold_locales (auto simp: addServer_def)

interpretation server_handles: handle_table servers nextServerId addServer releaseServer
    unknown_server "\<lambda>_. True"
  by unfold_locales (auto simp: releaseServer_def)

interpretation transport_table: id_table transports nextTransportId addTransport
  by unfold_locales (auto simp: addTransport_def)

interpretation transport_handles: handle_table transports nextTransportId addTransport releaseTransport
    unknown_transport "\<lambda>_. True"
  by unfold_locales (auto simp: releaseTransport_def)

text \<open>\<^verbatim>\<open>sanitizeMaxFdsPerMessage\<close>: 0 asks for the default, which the header sets to 16.\<close>

definition sanitizeMaxFdsPerMessage :: "u32 \<Rightarrow> u32 \<Rightarrow> u32" where
  "sanitizeMaxFdsPerMessage dflt fds = (if fds = 0 then dflt else fds)"

end
