(* ===== verification/Connection_Facts.thy ===== *)
theory Connection_Facts
  imports Connections Call_Facts
begin

text \<open>
  Which encoder every connection has. The runtime keeps one switch and one Lean encoder,
  and each RPC system is told once, when it is made, and again whenever they change.
\<close>

section \<open>The encoder an RPC system was last given\<close>

fun last_encoder :: "ext_call list \<Rightarrow> obj \<Rightarrow> bool option" where
  "last_encoder [] r = None"
| "last_encoder (c # cs) r =
     (case last_encoder cs r of
        Some b \<Rightarrow> Some b
      | None \<Rightarrow> (case c of SetTraceEncoder r' b \<Rightarrow> if r' = r then Some b else None | _ \<Rightarrow> None))"

definition sets_encoder :: "ext_call \<Rightarrow> bool" where
  "sets_encoder c = (case c of SetTraceEncoder r b \<Rightarrow> True | _ \<Rightarrow> False)"

lemma last_encoder_snoc:
  "last_encoder (cs @ [c]) r =
     (case c of SetTraceEncoder r' b \<Rightarrow> if r' = r then Some b else last_encoder cs r | _ \<Rightarrow> last_encoder cs r)"
  by (induction cs) (auto split: ext_call.splits option.splits)

lemma last_encoder_set [simp]:
  "last_encoder (cs @ [SetTraceEncoder r' b]) r = (if r' = r then Some b else last_encoder cs r)"
  by (simp add: last_encoder_snoc)

lemma last_encoder_other [simp]: "\<not> sets_encoder c \<Longrightarrow> last_encoder (cs @ [c]) r = last_encoder cs r"
  by (cases c) (simp_all add: last_encoder_snoc sets_encoder_def)

lemma last_encoder_drop_server [simp]:
  "last_encoder (cs @ drop_server v) r = last_encoder cs r"
  by (simp add: drop_server_def last_encoder_snoc split: option.splits)

section \<open>Live systems\<close>

text \<open>
  Every two-party RPC system that the runtime's tables hold as such; the client end of a loopback
  pair is a \<^verbatim>\<open>TwoPartyClient\<close> with a system of its own.
\<close>

definition live_systems :: "'z connections_state_scheme \<Rightarrow> obj set" where
  "live_systems s =
     rpcSystem ` ran (clients s) \<union> rpcSystem ` ran (networkClientPeers s) \<union>
     serverRpcSystem ` ran (loopbackPeers s) \<union> sp_rpcSystem ` set (networkServerPeers s) \<union>
     (\<Union>v \<in> ran (servers s). sp_rpcSystem ` set (rs_peers v))"

text \<open>They all have the encoder of the current switch; \<open>R\<close> adds systems not yet stored.\<close>

definition traced :: "obj set \<Rightarrow> 'z connections_state_scheme \<Rightarrow> bool" where
  "traced R s \<longleftrightarrow> (\<forall>r \<in> R \<union> live_systems s. last_encoder (log s) r = Some (traceEncoderActive s))"

lemma traced_mono: "traced R s \<Longrightarrow> R' \<subseteq> R \<Longrightarrow> traced R' s"
  by (auto simp: traced_def)

lemma traced_transfer:
  assumes "traced R s" and "live_systems t \<subseteq> R \<union> live_systems s" and "R' \<subseteq> R"
    and "\<And>r. last_encoder (log t) r = last_encoder (log s) r"
    and "traceEncoderActive t = traceEncoderActive s"
  shows "traced R' t"
  using assms by (auto simp: traced_def)

lemma active_log [simp]:
  "traceEncoderActive (s\<lparr>log := l\<rparr>) = traceEncoderActive s"
  "traceEncoderActive (s\<lparr>heapNext := h\<rparr>) = traceEncoderActive s"
  by (simp_all add: traceEncoderActive_def)

lemma live_systems_log [simp]:
  "live_systems (s\<lparr>log := l\<rparr>) = live_systems s"
  "live_systems (s\<lparr>heapNext := h\<rparr>) = live_systems s"
  by (simp_all add: live_systems_def)

text \<open>The parts of the state an operation may change freely.\<close>

lemma traced_call [keeps_intro]: "\<not> sets_encoder c \<Longrightarrow> keeps (traced R) (call f c)"
  by (auto simp: keeps_def call_def traced_def split: sum.splits)

lemma traced_tell [keeps_intro]: "\<not> sets_encoder c \<Longrightarrow> keeps (traced R) (tell c)"
  by (auto simp: keeps_def traced_def)

lemma traced_new_object [keeps_intro]: "keeps (traced R) new_object"
  by (auto simp: keeps_def traced_def)

lemma traced_applyTraceEncoder [keeps_intro]: "keeps (traced R) (applyTraceEncoder r)"
  by (auto simp: keeps_def applyTraceEncoder_def traced_def)

lemmas sets_encoder_simps [simp] = sets_encoder_def

section \<open>Operations that make a system\<close>

text \<open>\<open>yields P m Q\<close>: a return leaves \<open>Q\<close> of the value, anything else leaves \<open>P\<close>.\<close>

definition yields :: "('s \<Rightarrow> bool) \<Rightarrow> ('s \<Rightarrow> ('e, 'a) outcome \<times> 's) \<Rightarrow> ('a \<Rightarrow> 's \<Rightarrow> bool) \<Rightarrow> bool" where
  "yields P m Q \<longleftrightarrow> (\<forall>s. P s \<longrightarrow> (case m s of (Ret a, t) \<Rightarrow> Q a t | (_, t) \<Rightarrow> P t))"

lemma yields_cases:
  assumes "yields P m Q" and "P s" and "m s = (r, t)"
  shows "(\<exists>a. r = Ret a \<and> Q a t) \<or> ((\<forall>a. r \<noteq> Ret a) \<and> P t)"
proof -
  have "case m s of (Ret a, t) \<Rightarrow> Q a t | (_, t) \<Rightarrow> P t"
    using assms(1,2) by (simp add: yields_def)
  with assms(3) show ?thesis by (cases r) auto
qed

lemma yieldsI:
  assumes "\<And>s a t. P s \<Longrightarrow> m s = (Ret a, t) \<Longrightarrow> Q a t"
    and "\<And>s r t. P s \<Longrightarrow> m s = (r, t) \<Longrightarrow> \<forall>a. r \<noteq> Ret a \<Longrightarrow> P t"
  shows "yields P m Q"
  unfolding yields_def using assms by (simp split: prod.split outcome.split)

lemma keeps_bnd_yields:
  assumes "yields P m Q" and "\<And>a. keeps (Q a) (f a)" and "\<And>a t. Q a t \<Longrightarrow> P t"
  shows "keeps P (bnd m f)"
proof (rule keepsI)
  fix s r t
  assume P: "P s" and run: "bnd m f s = (r, t)"
  from run show "P t"
  proof (cases rule: bnd_cases)
    case (Ret a s')
    then have "Q a s'" using yields_cases [OF assms(1) P] by auto
    then have "Q a t" using Ret(2) keepsD [OF assms(2)] by blast
    then show ?thesis by (rule assms(3))
  next
    case (Throw e)
    then show ?thesis using yields_cases [OF assms(1) P] by auto
  next
    case Hang
    then show ?thesis using yields_cases [OF assms(1) P] by auto
  qed
qed

lemma yields_bnd:
  assumes m: "keeps P m" and f: "\<And>a. yields P (f a) Q"
  shows "yields P (bnd m f) Q"
proof (rule yieldsI)
  fix s a t
  assume P: "P s" and run: "bnd m f s = (Ret a, t)"
  then show "Q a t"
    by (elim bnd_RetE) (use yields_cases [OF f] keepsD [OF m P] in blast)
next
  fix s r t
  assume P: "P s" and run: "bnd m f s = (r, t)" and no: "\<forall>a. r \<noteq> Ret a"
  from run show "P t"
    by (cases rule: bnd_cases) (use no yields_cases [OF f] keepsD [OF m P] in blast)+
qed

lemma yields_keeps: "keeps P m \<Longrightarrow> yields P m (\<lambda>_. P)"
  by (auto simp: yields_def split: prod.splits outcome.splits dest: keepsD)

text \<open>Telling the new system its encoder is what makes it traced.\<close>

lemma yields_traced_make:
  "yields (traced R) (sq (applyTraceEncoder r) (ret p)) (\<lambda>a. traced (insert r R))"
  by (auto simp: yields_def applyTraceEncoder_def traced_def)

lemma yields_clientPeer: "yields (traced R) (clientPeer env strm) (\<lambda>a. traced (insert (rpcSystem a) R))"
  unfolding clientPeer_def
  by (intro yields_bnd keeps_intro)
    (auto intro!: keeps_intro yieldsI simp: applyTraceEncoder_def traced_def)

lemma yields_makeServerPeer:
  "yields (traced R) (makeServerPeer env b c) (\<lambda>a. traced (insert (sp_rpcSystem a) R))"
  "yields (traced R) (makeServerPeerFactory env f c) (\<lambda>a. traced (insert (sp_rpcSystem a) R))"
  "yields (traced R) (makeServerPeerWithFds env b c) (\<lambda>a. traced (insert (sp_rpcSystem a) R))"
  "yields (traced R) (makeServerPeerWithFdsFactory env f c) (\<lambda>a. traced (insert (sp_rpcSystem a) R))"
  unfolding makeServerPeer_def makeServerPeerFactory_def makeServerPeerWithFds_def makeServerPeerWithFdsFactory_def
  by (intro yields_bnd keeps_intro;
      (auto intro!: keeps_intro yieldsI simp: applyTraceEncoder_def traced_def)[1])+

lemma yields_makeRuntimeServerPeerWithFds:
  "yields (traced R) (makeRuntimeServerPeerWithFds env v c) (\<lambda>a. traced (insert (sp_rpcSystem a) R))"
  by (simp add: makeRuntimeServerPeerWithFds_def yields_makeServerPeer split: option.split)

section \<open>Every operation keeps the systems traced\<close>

text \<open>Registering an identifier or erasing an entry makes no system.\<close>

lemma ran_delete: "ran (m(k := None)) \<subseteq> ran m"
  by (auto simp: ran_def)

lemma traced_addTarget [keeps_intro]: "keeps (traced R) (addTarget cap)"
  by (auto simp: keeps_def addTarget_def traced_def live_systems_def traceEncoderActive_def
      split: option.split prod.split)

lemma traced_addListener [keeps_intro]: "keeps (traced R) (addListener l)"
  by (auto simp: keeps_def addListener_def traced_def live_systems_def traceEncoderActive_def
      split: option.split prod.split)

lemma traced_addTransport [keeps_intro]: "keeps (traced R) (addTransport l)"
  by (auto simp: keeps_def addTransport_def traced_def live_systems_def traceEncoderActive_def
      split: option.split prod.split)

lemma traced_findTarget [keeps_intro]: "keeps (traced R) (findTarget x)"
  by (simp add: findTarget_def keeps_intro)

lemma traced_takeTransport [keeps_intro]: "keeps (traced R) (takeTransport i)"
  unfolding takeTransport_def
  by (intro keeps_intro) (auto simp: traced_def live_systems_def traceEncoderActive_def)

lemma ran_update_subset: "ran (m(k \<mapsto> v)) \<subseteq> insert v (ran m)"
  by (auto simp: ran_def)

lemma ran_emplace_subset: "ran (emplace k v m) \<subseteq> insert v (ran m)"
  by (auto simp: emplace_def ran_def)

lemma traced_addClient [keeps_intro]: "keeps (traced (insert (rpcSystem c) R)) (addClient c)"
  using ran_update_subset
  by (fastforce simp: keeps_def addClient_def traced_def live_systems_def traceEncoderActive_def
      split: option.split prod.split)

lemma traced_addServer [keeps_intro]:
  "rs_peers v = [] \<Longrightarrow> keeps (traced R) (addServer v)"
  using ran_update_subset
  by (fastforce simp: keeps_def addServer_def traced_def live_systems_def traceEncoderActive_def
      split: option.split prod.split)

lemma traced_network_peer:
  "traced (insert (sp_rpcSystem p) R) s \<Longrightarrow>
   traced (insert (sp_rpcSystem p) R) (s\<lparr>networkServerPeers := networkServerPeers s @ [p]\<rparr>)"
  by (auto simp: traced_def live_systems_def traceEncoderActive_def)

lemma ran_map_option_update:
  "ran (m(k := map_option f (m k))) \<subseteq> f ` ran m \<union> ran m"
  by (auto simp: ran_def split: if_splits)

lemma live_add_peer: "live_systems (add_peer i p s) \<subseteq> insert (sp_rpcSystem p) (live_systems s)"
  unfolding live_systems_def add_peer_def
  by (auto simp: ran_def split: if_splits; blast)

lemma traced_add_peer:
  assumes "traced (insert (sp_rpcSystem p) R) s"
  shows "traced (insert (sp_rpcSystem p) R) (add_peer i p s)"
  by (rule traced_transfer [OF assms]) (use live_add_peer in \<open>auto simp: add_peer_def traceEncoderActive_def\<close>)

lemma traced_store_peer:
  "keeps (traced (insert (rpcSystem peer) R)) (connectTargetPeer env peer)"
  unfolding connectTargetPeer_def
  using ran_emplace_subset
  by (intro keeps_intro) (fastforce simp: traced_def live_systems_def traceEncoderActive_def)+

lemma traced_dup_fd [keeps_intro]: "keeps (traced R) (dup_fd env fd msg)"
  unfolding dup_fd_def Let_def by (intro keeps_intro) simp_all

lemma traced_drop_R: "traced R s \<Longrightarrow> traced {} s"
  by (rule traced_mono) simp_all

lemma traced_insert: "traced (insert r R) s \<Longrightarrow> traced R s"
  by (rule traced_mono) auto

lemmas traced_made = keeps_bnd_yields [OF _ _ traced_insert]

lemma traced_client_target [keeps_intro]:
  "keeps (traced R) (bnd (clientPeer env strm) (connectTargetPeer env))"
  by (rule traced_made [OF yields_clientPeer traced_store_peer])

lemma traced_client_add [keeps_intro]: "keeps (traced R) (bnd (clientPeer env strm) addClient)"
  by (rule traced_made [OF yields_clientPeer traced_addClient])

lemma traced_server_add [keeps_intro]:
  "keeps (traced R) (bnd (makeRuntimeServerPeerWithFds env v c) (\<lambda>peer. modify (add_peer i peer)))"
  by (rule traced_made [OF yields_makeRuntimeServerPeerWithFds])
    (intro keeps_modify traced_add_peer)

lemma traced_accept_add [keeps_intro]:
  "keeps (traced R) (bnd (makeServerPeer env b c)
     (\<lambda>peer. modify (\<lambda>s. s\<lparr>networkServerPeers := networkServerPeers s @ [peer]\<rparr>)))"
  by (rule traced_made [OF yields_makeServerPeer(1)]) (intro keeps_modify traced_network_peer)

lemma bnd_assoc2: "bnd (bnd m f) g = bnd m (\<lambda>a. bnd (f a) g)"
  by (rule ext) (auto simp: bnd_def split: prod.splits outcome.splits)

lemma traced_no_wait [keeps_intro]:
  "keeps (traced R) (connectTargetStart_done env strm)"
  "keeps (traced R) (newClientStart_done env strm)"
  "keeps (traced R) (connectTargetFd env fd)"
  "keeps (traced R) (connectTargetTransport env i)"
  unfolding connectTargetStart_done_def newClientStart_done_def connectTargetFd_def connectTargetTransport_def
     apply (rule traced_client_target)
    apply (rule traced_client_add)
   apply (rule keeps_bnd [OF traced_dup_fd keeps_bnd [OF traced_call traced_client_target]], simp)
  apply (rule keeps_bnd [OF traced_takeTransport traced_client_target])
  done

lemma traced_server_no_wait [keeps_intro]:
  "keeps (traced R) (serverAcceptStart_done env i strm)"
  "keeps (traced R) (serverAcceptFd env i fd)"
  "keeps (traced R) (serverAcceptTransport env i j)"
  unfolding serverAcceptStart_done_def serverAcceptFd_def serverAcceptTransport_def findServer_def
    apply (rule keeps_bnd [OF keeps_find_or traced_server_add])
   apply (rule keeps_bnd [OF keeps_find_or keeps_bnd [OF traced_dup_fd keeps_bnd [OF traced_call traced_server_add]]], simp)
  apply (rule keeps_bnd [OF keeps_find_or keeps_bnd [OF traced_takeTransport traced_server_add]])
  done

lemma traced_new_server [keeps_intro]:
  "keeps (traced R) (clientBootstrap env i)"
  "keeps (traced R) (newServer j)"
  "keeps (traced R) (newServerWithBootstrapFactory h)"
  unfolding clientBootstrap_def newServer_def newServerWithBootstrapFactory_def findClient_def
  by (intro keeps_bnd keeps_sq keeps_find_or traced_call traced_tell traced_findTarget traced_addTarget
      traced_addServer; simp)+

text \<open>A release only removes systems.\<close>

lemma traced_release_step:
  assumes "live_systems t \<subseteq> live_systems s" and "\<And>r. last_encoder (log t) r = last_encoder (log s) r"
    and "traceEncoderActive t = traceEncoderActive s" and "traced R s"
  shows "traced R t"
  by (rule traced_transfer [OF assms(4)]) (use assms in auto)

lemma live_release_client: "live_systems (s\<lparr>clients := (clients s)(i := None)\<rparr>) \<subseteq> live_systems s"
proof -
  have "rpcSystem ` ran ((clients s)(i := None)) \<subseteq> rpcSystem ` ran (clients s)"
    by (intro image_mono ran_delete)
  then show ?thesis unfolding live_systems_def by (simp add: le_supI1)
qed

lemma live_release_server: "live_systems (s\<lparr>servers := (servers s)(i := None), log := l\<rparr>) \<subseteq> live_systems s"
proof -
  have "(\<Union>v \<in> ran ((servers s)(i := None)). sp_rpcSystem ` set (rs_peers v)) \<subseteq>
      (\<Union>v \<in> ran (servers s). sp_rpcSystem ` set (rs_peers v))"
    by (intro UN_mono ran_delete order_refl)
  then show ?thesis unfolding live_systems_def by (simp add: le_supI2)
qed

lemma traced_releaseClient [keeps_intro]: "keeps (traced R) (releaseClient i)"
proof (rule keepsI)
  fix s :: "'a connections_state_scheme" and r t
  assume P: "traced R s" and run: "releaseClient i s = (r, t)"
  show "traced R t"
  proof (cases "clients s i")
    case None
    with run P show ?thesis by (simp add: releaseClient_def)
  next
    case (Some c)
    then have t: "t = s\<lparr>clients := (clients s)(i := None)\<rparr>" using run by (simp add: releaseClient_def)
    show ?thesis unfolding t
      by (rule traced_release_step [OF live_release_client _ _ P]) (simp_all add: traceEncoderActive_def)
  qed
qed

lemma traced_releaseServer [keeps_intro]: "keeps (traced R) (releaseServer i)"
proof (rule keepsI)
  fix s :: "'a connections_state_scheme" and r t
  assume P: "traced R s" and run: "releaseServer i s = (r, t)"
  show "traced R t"
  proof (cases "servers s i")
    case None
    with run P show ?thesis by (simp add: releaseServer_def)
  next
    case (Some v)
    then have t: "t = s\<lparr>servers := (servers s)(i := None), log := log s @ drop_server v\<rparr>"
      using run by (simp add: releaseServer_def)
    show ?thesis unfolding t
      by (rule traced_release_step [OF live_release_server _ _ P]) (simp_all add: traceEncoderActive_def)
  qed
qed

lemma traced_other_releases [keeps_intro]:
  "keeps (traced R) (releaseListener i)" "keeps (traced R) (releaseTransport i)"
  by (auto simp: keeps_def releaseListener_def releaseTransport_def traced_def live_systems_def
      traceEncoderActive_def)

text \<open>Dropping a target can only drop the peer it owned.\<close>

lemma releasePeerOwnership_ran:
  "releasePeerOwnership i peers by rc = (peers', by', rc') \<Longrightarrow> ran peers' \<subseteq> ran peers"
  using ran_delete by (fastforce simp: releasePeerOwnership_def Let_def split: option.splits if_splits)

lemma traced_drop:
  assumes P: "traced R s" and drop: "dropTargetIfPresent i s = (b, t)"
  shows "traced R t"
proof -
  obtain lp lbo lrc where l: "releasePeerOwnership i (loopbackPeers s)
      (loopbackPeerOwnerByTarget s) (loopbackPeerOwnerRefCount s) = (lp, lbo, lrc)" by (metis prod_cases3)
  obtain np nbo nrc where n: "releasePeerOwnership i (networkClientPeers s)
      (networkPeerOwnerByTarget s) (networkPeerOwnerRefCount s) = (np, nbo, nrc)" by (metis prod_cases3)
  have t: "t = s\<lparr>targets := (targets s)(i := None),
      loopbackPeers := lp, loopbackPeerOwnerByTarget := lbo, loopbackPeerOwnerRefCount := lrc,
      networkClientPeers := np, networkPeerOwnerByTarget := nbo, networkPeerOwnerRefCount := nrc\<rparr>"
    using drop by (auto simp: dropTargetIfPresent_def l n)
  have "rpcSystem ` ran np \<subseteq> rpcSystem ` ran (networkClientPeers s)"
    "serverRpcSystem ` ran lp \<subseteq> serverRpcSystem ` ran (loopbackPeers s)"
    using releasePeerOwnership_ran [OF l] releasePeerOwnership_ran [OF n] by (simp_all add: image_mono)
  then have "live_systems t \<subseteq> live_systems s" unfolding t live_systems_def by auto
  then show ?thesis
    by (rule traced_release_step [OF _ _ _ P]) (simp_all add: t traceEncoderActive_def)
qed

lemma traced_releaseTarget [keeps_intro]: "keeps (traced R) (releaseTarget i)"
proof (rule keepsI)
  fix s :: "'a connections_state_scheme" and r t
  assume P: "traced R s" and run: "releaseTarget i s = (r, t)"
  obtain b u where d: "dropTargetIfPresent i s = (b, u)" by (metis prod.collapse)
  with run have "t = u" by (cases b) (simp_all add: releaseTarget_def)
  with traced_drop [OF P d] show "traced R t" by simp
qed

lemma traced_retainOwners: "traced R s \<Longrightarrow> traced R (retainOwners i j s)"
  by (simp add: retainOwners_def traced_def live_systems_def traceEncoderActive_def split: prod.split)

lemma traced_retainTarget [keeps_intro]: "keeps (traced R) (retainTarget i)"
  unfolding retainTarget_def by (intro keeps_intro traced_retainOwners)

lemma traced_loopback_store:
  assumes "traced (insert r R) s" and "serverRpcSystem p = r"
  shows "traced (insert r R) (s\<lparr>loopbackPeers := emplace i p (loopbackPeers s),
     loopbackPeerOwnerByTarget := a, loopbackPeerOwnerRefCount := b\<rparr>)"
proof (rule traced_transfer [OF assms(1)])
  have "serverRpcSystem ` ran (emplace i p (loopbackPeers s)) \<subseteq> insert r (serverRpcSystem ` ran (loopbackPeers s))"
    using ran_emplace_subset [of i p "loopbackPeers s"] assms(2) by auto
  then show "live_systems (s\<lparr>loopbackPeers := emplace i p (loopbackPeers s),
     loopbackPeerOwnerByTarget := a, loopbackPeerOwnerRefCount := b\<rparr>) \<subseteq> insert r R \<union> live_systems s"
    unfolding live_systems_def by auto
qed (simp_all add: traceEncoderActive_def subset_insertI)

lemma yields_apply: "yields (traced R) (applyTraceEncoder r) (\<lambda>_. traced (insert r R))"
  by (auto simp: yields_def applyTraceEncoder_def traced_def)

lemma traced_registerLoopback [keeps_intro]: "keeps (traced R) (registerLoopbackTargetClient env b)"
proof -
  have rest: "keeps (traced (insert r R)) (bnd (call (ask_obj env) (NewTwoPartyClient e1 2)) (\<lambda>cl.
     bnd (call (ask_obj env) (TwoPartyClientBootstrap cl)) (\<lambda>cap.
     bnd (addTarget (ExternalClient cap)) (\<lambda>targetId.
     sq (modify (\<lambda>s. s\<lparr>
         loopbackPeers := emplace targetId
           \<lparr>clientStream = e1, serverStream = e0, serverNetwork = nw,
            serverRpcSystem = r, lb_client = cl\<rparr> (loopbackPeers s),
         loopbackPeerOwnerByTarget := emplace targetId targetId (loopbackPeerOwnerByTarget s),
         loopbackPeerOwnerRefCount := emplace targetId 1 (loopbackPeerOwnerRefCount s)\<rparr>))
     (ret targetId)))))" for r e0 e1 nw
    by (intro keeps_intro traced_loopback_store) simp_all
  show ?thesis
    unfolding registerLoopbackTargetClient_def sq_def
    apply (rule keeps_bnd [OF traced_call], simp)
    apply (clarsimp simp del: sets_encoder_simps)
    apply (rule keeps_bnd [OF traced_call], simp)
    apply (rule keeps_bnd [OF traced_call], simp)
    apply (rule keeps_bnd_yields [OF yields_apply rest [unfolded sq_def] traced_insert])
    apply assumption
    done
qed

section \<open>While an operation waits\<close>

text \<open>
  While an operation waits, the event loop takes turns. A turn is the continuation of a started
  connect or accept, a handler on the worker thread that drops, keeps or pairs a target, or
  anything else, which leaves the tables of connections and the encoder setting alone and sets no
  encoder itself: registering targets, answering calls, settling promises.
\<close>

definition same_connections :: "'z connections_state_scheme \<Rightarrow> 'z connections_state_scheme \<Rightarrow> bool" where
  "same_connections s t \<longleftrightarrow> clients t = clients s \<and> networkClientPeers t = networkClientPeers s \<and>
     loopbackPeers t = loopbackPeers s \<and> networkServerPeers t = networkServerPeers s \<and>
     servers t = servers s \<and> traceEncoderEnabled t = traceEncoderEnabled s \<and>
     traceEncoderHandler t = traceEncoderHandler s \<and>
     (\<exists>cs. log t = log s @ cs \<and> (\<forall>c \<in> set cs. \<not> sets_encoder c))"

inductive wait_turn :: "env \<Rightarrow> 'z connections_state_scheme \<Rightarrow> 'z connections_state_scheme \<Rightarrow> bool"
  for env where
  connected: "connectTargetStart_done env strm s = (r, t) \<Longrightarrow> wait_turn env s t"
| client_made: "newClientStart_done env strm s = (r, t) \<Longrightarrow> wait_turn env s t"
| accepted: "serverAcceptStart_done env i strm s = (r, t) \<Longrightarrow> wait_turn env s t"
| dropped: "dropTargetIfPresent i s = (b, t) \<Longrightarrow> wait_turn env s t"
| retained: "retainTarget i s = (r, t) \<Longrightarrow> wait_turn env s t"
| paired: "registerLoopbackTargetClient env b s = (r, t) \<Longrightarrow> wait_turn env s t"
| other: "same_connections s t \<Longrightarrow> wait_turn env s t"

definition fair_wait :: "env \<Rightarrow> ('x \<Rightarrow> 'z connections_state_scheme \<Rightarrow> (exn, 'a) outcome \<times> 'z connections_state_scheme) \<Rightarrow> bool"
  where
  "fair_wait env wait \<longleftrightarrow> (\<forall>c s r t. wait c s = (r, t) \<longrightarrow> (wait_turn env)\<^sup>*\<^sup>* s t)"

lemma last_encoder_append:
  "\<forall>c \<in> set cs'. \<not> sets_encoder c \<Longrightarrow> last_encoder (cs @ cs') r = last_encoder cs r"
proof (induction cs' rule: rev_induct)
  case (snoc c cs')
  then have "last_encoder ((cs @ cs') @ [c]) r = last_encoder (cs @ cs') r"
    by (intro last_encoder_other) simp
  with snoc show ?case by simp
qed simp

lemma traced_same: "traced R s \<Longrightarrow> same_connections s t \<Longrightarrow> traced R t"
  by (rule traced_transfer [where R = R and s = s])
    (auto simp: same_connections_def live_systems_def traceEncoderActive_def last_encoder_append
      simp del: sets_encoder_simps)

lemma traced_turn:
  assumes "wait_turn env s t" and "traced R s"
  shows "traced R t"
  using assms
proof (cases rule: wait_turn.cases)
  case (dropped i b)
  then show ?thesis
    using traced_drop assms(2) by blast
qed (use assms(2) traced_same in \<open>blast dest: traced_no_wait [THEN keepsD] traced_server_no_wait [THEN keepsD]
    traced_retainTarget [THEN keepsD] traced_registerLoopback [THEN keepsD]\<close>)+

lemma traced_turns: "(wait_turn env)\<^sup>*\<^sup>* s t \<Longrightarrow> traced R s \<Longrightarrow> traced R t"
  by (induction rule: rtranclp_induct) (simp_all add: traced_turn)

lemma fair_waitD: "fair_wait env wait \<Longrightarrow> keeps (traced R) (wait c)"
  using traced_turns unfolding fair_wait_def keeps_def by (metis prod.collapse)

lemma same_call: "\<not> sets_encoder c \<Longrightarrow> call f c s = (r, t) \<Longrightarrow> same_connections s t"
  by (auto simp: call_def same_connections_def simp del: sets_encoder_simps split: sum.splits)

lemma fair_call: "\<not> sets_encoder (g p) \<Longrightarrow> fair_wait env (\<lambda>_. call f (g p))"
  unfolding fair_wait_def using same_call wait_turn.other by blast

lemma traced_connects [keeps_intro]:
  assumes "fair_wait env wait"
  shows "keeps (traced R) (connectTarget env wait a p)" "keeps (traced R) (newClient env wait a p)"
  unfolding connectTarget_def newClient_def connectPeer_def bnd_assoc2
  by (rule keeps_bnd fair_waitD [OF assms] traced_client_target traced_client_add)+

lemma traced_accepts [keeps_intro]:
  assumes "fair_wait env wait"
  shows "keeps (traced R) (acceptLoopback env wait l)" "keeps (traced R) (serverAccept env wait i l)"
    "keeps (traced R) (listenLoopback env wait a p)" "keeps (traced R) (serverListen env wait i a p)"
  unfolding acceptLoopback_def serverAccept_def listenLoopback_def serverListen_def findServer_def
     apply (rule keeps_bnd [OF keeps_find_or keeps_bnd [OF fair_waitD [OF assms] traced_accept_add]])
    apply (rule keeps_bnd [OF keeps_find_or keeps_bnd [OF keeps_find_or keeps_bnd [OF fair_waitD [OF assms] traced_server_add]]])
   apply (rule keeps_bnd [OF fair_waitD [OF assms] keeps_bnd [OF traced_call traced_addListener]], simp)
  apply (rule keeps_bnd [OF keeps_find_or keeps_bnd [OF fair_waitD [OF assms] keeps_bnd [OF traced_call traced_addListener]]], simp)
  done

text \<open>A call over a connection accepted for it: both ends are made here, one of them stays.\<close>

lemma resolve_caps_state: "snd (resolve_caps prefix ids s) = s"
  by (simp add: resolve_caps_exact split: list.split)

lemma traced_resolve_caps [keeps_intro]: "keeps (traced R) (resolve_caps prefix ids)"
  by (simp add: keeps_def resolve_caps_state)

lemma traced_setRequestPayload [keeps_intro]: "keeps (traced R) (setRequestPayload env bs ids)"
  unfolding setRequestPayload_def by (intro keeps_intro) simp_all

lemma traced_register_caps: "keeps (traced R) (register_caps cs out ids)"
proof (induction cs arbitrary: out ids)
  case Nil
  show ?case by (simp add: keeps_def)
next
  case (Cons c cs)
  show ?case
  proof (cases c)
    case None
    with Cons show ?thesis by (simp add: keeps_def)
  next
    case (Some cap)
    then show ?thesis
      using keeps_bnd [OF traced_addTarget Cons.IH] by (simp add: keeps_def)
  qed
qed

lemma traced_serializeResponse [keeps_intro]: "keeps (traced R) (serializeResponse m)"
  unfolding serializeResponse_def
  by (rule keeps_bnd [OF traced_register_caps]) (simp add: keeps_ret split: prod.split)

lemma traced_connect_and_accept [keeps_intro]:
  assumes "fair_wait env wait"
  shows "keeps (traced R) (connect_and_accept env wait i l a p)"
proof -
  have dial: "keeps (traced S) (bnd (clientPeer env strm) (\<lambda>c.
      bnd (call (ask_obj env) (RpcBootstrap (rpcSystem c))) (\<lambda>cap. ret (ExternalClient cap))))" for S strm
    by (rule traced_made [OF yields_clientPeer]) (intro keeps_bnd traced_call keeps_ret, simp)
  have both: "keeps (traced R) (bnd (makeRuntimeServerPeerWithFds env v c) (\<lambda>peer.
      sq (modify (\<lambda>s. s\<lparr>networkServerPeers := networkServerPeers s @ [peer]\<rparr>))
      (bnd (clientPeer env strm) (\<lambda>c.
       bnd (call (ask_obj env) (RpcBootstrap (rpcSystem c))) (\<lambda>cap. ret (ExternalClient cap))))))" for v c strm
    by (rule traced_made [OF yields_makeRuntimeServerPeerWithFds])
      (intro keeps_sq keeps_modify traced_network_peer dial)
  show ?thesis
    unfolding connect_and_accept_def findServer_def
    by (intro keeps_bnd keeps_find_or fair_waitD [OF assms] both)
qed

lemma traced_call_with_accept [keeps_intro]:
  assumes "fair_wait env wait" and "fair_wait env waitResponse"
  shows "keeps (traced R) (processCppCallWithAccept env wait waitResponse i l a p iid mid bs caps)"
    and "keeps (traced R) (processCppPipelinedCallWithAccept env wait waitResponse i l a p iid mid bs caps bs' caps')"
proof -
  note step = keeps_bnd [OF traced_setRequestPayload] keeps_bnd [OF traced_connect_and_accept [OF assms(1)]]
    keeps_bnd [OF fair_waitD [OF assms(2)] traced_serializeResponse]
  have ask: "keeps (traced R) (bnd (call f (SendRequest q)) g)" if "\<And>x. keeps (traced R) (g x)"
    for f :: "_ \<Rightarrow> _ \<Rightarrow> exn + 'c" and q and g :: "'c \<Rightarrow> 'a connections_state_scheme \<Rightarrow> (exn, bytes \<times> bytes) outcome \<times> 'a connections_state_scheme"
    by (rule keeps_bnd [OF traced_call that]) simp
  have cap: "keeps (traced R) (bnd (call f (PipelinedCap o1 ops)) g)" if "\<And>x. keeps (traced R) (g x)"
    for f :: "_ \<Rightarrow> _ \<Rightarrow> exn + 'c" and o1 ops and g :: "'c \<Rightarrow> 'a connections_state_scheme \<Rightarrow> (exn, bytes \<times> bytes) outcome \<times> 'a connections_state_scheme"
    by (rule keeps_bnd [OF traced_call that]) simp
  show "keeps (traced R) (processCppCallWithAccept env wait waitResponse i l a p iid mid bs caps)"
    unfolding processCppCallWithAccept_def
    by (intro step ask) (auto intro!: step)
  show "keeps (traced R) (processCppPipelinedCallWithAccept env wait waitResponse i l a p iid mid bs caps bs' caps')"
    unfolding processCppPipelinedCallWithAccept_def
    by (intro step ask) (auto intro!: step ask cap)
qed

section \<open>Changing the encoder\<close>

lemma apply_all:
  "for_each applyTraceEncoder rs s =
     (Ret (), s\<lparr>log := log s @ map (\<lambda>r. SetTraceEncoder r (traceEncoderActive s)) rs\<rparr>)"
  by (induction rs arbitrary: s) (simp_all add: applyTraceEncoder_def)

lemma last_encoder_all:
  "last_encoder (cs @ map (\<lambda>r. SetTraceEncoder r b) rs) r = (if r \<in> set rs then Some b else last_encoder cs r)"
  by (induction rs rule: rev_induct) (simp_all flip: append_assoc)

lemma ran_image: "f ` ran m = (\<lambda>i. f (the (m i))) ` dom m"
  by (force simp: ran_def image_def)

lemma set_trace_systems:
  assumes "\<forall>S. set (order S) = S"
  shows "set (trace_systems order s) = live_systems s"
proof -
  have "(\<Union>v \<in> ran (servers s). sp_rpcSystem ` set (rs_peers v)) =
      (\<Union>i \<in> dom (servers s). sp_rpcSystem ` set (rs_peers (the (servers s i))))"
    by (force simp: ran_def)
  then show ?thesis
    unfolding trace_systems_def live_systems_def ran_image using assms by auto
qed

lemma traced_apply_all:
  assumes "\<forall>S. set (order S) = S"
  shows "traced {} (snd (applyTraceEncoderToAllActiveConnections order s))"
  using set_trace_systems [OF assms, of s]
  by (simp add: applyTraceEncoderToAllActiveConnections_def apply_all traced_def last_encoder_all)

lemma traced_after_clear:
  assumes "\<forall>S. set (order S) = S"
  shows "keeps (traced {}) (sq clearTraceEncoderHandler (sq (modify f) (applyTraceEncoderToAllActiveConnections order)))"
proof (rule keepsI)
  fix s :: "'a connections_state_scheme" and r t
  assume run: "sq clearTraceEncoderHandler (sq (modify f) (applyTraceEncoderToAllActiveConnections order)) s = (r, t)"
  obtain u where "clearTraceEncoderHandler s = (Ret (), u)"
    by (cases "traceEncoderHandler s") (simp_all add: clearTraceEncoderHandler_def)
  with run have "applyTraceEncoderToAllActiveConnections order (f u) = (r, t)" by simp
  then show "traced {} t" using traced_apply_all [OF assms, of "f u"] by simp
qed

lemma traced_setters:
  assumes "\<forall>S. set (order S) = S"
  shows "keeps (traced {}) (setTraceEncoderEnabled order b)"
    and "keeps (traced {}) (setTraceEncoderFromLean order h)"
  unfolding setTraceEncoderEnabled_def setTraceEncoderFromLean_def
  by (rule traced_after_clear [OF assms])+

section \<open>Every run\<close>

definition connections_init :: "u32 \<Rightarrow> connections_state" where
  "connections_init fds = handlers_state.extend handlers_init
     \<lparr>transports = Map.empty, nextTransportId = 1, listeners = Map.empty, nextListenerId = 1,
      clients = Map.empty, nextClientId = 1, servers = Map.empty, nextServerId = 1,
      networkServerPeers = [], maxFdsPerMessage = sanitizeMaxFdsPerMessage 16 fds\<rparr>"

text \<open>
  \<open>conn_run env wait order s\<close>: \<open>s\<close> is reached from the runtime's first state by the
  operations that make, keep or drop connections, or that change the encoder, in any order, with
  turns of the event loop between them.
\<close>

inductive conn_run :: "env \<Rightarrow> connections_state wait_obj \<Rightarrow> (u32 set \<Rightarrow> u32 list) \<Rightarrow> connections_state \<Rightarrow> bool"
  for env wait order where
  start: "conn_run env wait order (connections_init fds)"
| enable: "conn_run env wait order s \<Longrightarrow> setTraceEncoderEnabled order b s = (u, t) \<Longrightarrow> conn_run env wait order t"
| from_lean: "conn_run env wait order s \<Longrightarrow> setTraceEncoderFromLean order h s = (u, t) \<Longrightarrow> conn_run env wait order t"
| connect: "conn_run env wait order s \<Longrightarrow> connectTarget env wait a p s = (r, t) \<Longrightarrow> conn_run env wait order t"
| connect_later: "conn_run env wait order s \<Longrightarrow> connectTargetStart_done env strm s = (r, t) \<Longrightarrow>
    conn_run env wait order t"
| connect_fd: "conn_run env wait order s \<Longrightarrow> connectTargetFd env fd s = (r, t) \<Longrightarrow> conn_run env wait order t"
| connect_transport: "conn_run env wait order s \<Longrightarrow> connectTargetTransport env i s = (r, t) \<Longrightarrow>
    conn_run env wait order t"
| client: "conn_run env wait order s \<Longrightarrow> newClient env wait a p s = (r, t) \<Longrightarrow> conn_run env wait order t"
| client_later: "conn_run env wait order s \<Longrightarrow> newClientStart_done env strm s = (r, t) \<Longrightarrow>
    conn_run env wait order t"
| bootstrap: "conn_run env wait order s \<Longrightarrow> clientBootstrap env i s = (r, t) \<Longrightarrow> conn_run env wait order t"
| server: "conn_run env wait order s \<Longrightarrow> newServer j s = (r, t) \<Longrightarrow> conn_run env wait order t"
| server_factory: "conn_run env wait order s \<Longrightarrow> newServerWithBootstrapFactory h s = (r, t) \<Longrightarrow>
    conn_run env wait order t"
| listen: "conn_run env wait order s \<Longrightarrow> serverListen env wait i a p s = (r, t) \<Longrightarrow> conn_run env wait order t"
| listen_loopback: "conn_run env wait order s \<Longrightarrow> listenLoopback env wait a p s = (r, t) \<Longrightarrow>
    conn_run env wait order t"
| accept: "conn_run env wait order s \<Longrightarrow> serverAccept env wait i l s = (u, t) \<Longrightarrow> conn_run env wait order t"
| accept_later: "conn_run env wait order s \<Longrightarrow> serverAcceptStart_done env i strm s = (u, t) \<Longrightarrow>
    conn_run env wait order t"
| accept_fd: "conn_run env wait order s \<Longrightarrow> serverAcceptFd env i fd s = (u, t) \<Longrightarrow> conn_run env wait order t"
| accept_transport: "conn_run env wait order s \<Longrightarrow> serverAcceptTransport env i j s = (u, t) \<Longrightarrow>
    conn_run env wait order t"
| accept_loopback: "conn_run env wait order s \<Longrightarrow> acceptLoopback env wait l s = (u, t) \<Longrightarrow>
    conn_run env wait order t"
| loopback: "conn_run env wait order s \<Longrightarrow> registerLoopbackTargetClient env b s = (r, t) \<Longrightarrow>
    conn_run env wait order t"
| retain: "conn_run env wait order s \<Longrightarrow> retainTarget i s = (r, t) \<Longrightarrow> conn_run env wait order t"
| release: "conn_run env wait order s \<Longrightarrow> releaseTarget i s = (u, t) \<Longrightarrow> conn_run env wait order t"
| release_client: "conn_run env wait order s \<Longrightarrow> releaseClient i s = (u, t) \<Longrightarrow> conn_run env wait order t"
| release_server: "conn_run env wait order s \<Longrightarrow> releaseServer i s = (u, t) \<Longrightarrow> conn_run env wait order t"
| release_listener: "conn_run env wait order s \<Longrightarrow> releaseListener i s = (u, t) \<Longrightarrow> conn_run env wait order t"
| release_transport: "conn_run env wait order s \<Longrightarrow> releaseTransport i s = (u, t) \<Longrightarrow> conn_run env wait order t"
| call_accept: "conn_run env wait order s \<Longrightarrow> fair_wait env waitResponse \<Longrightarrow>
    processCppCallWithAccept env wait waitResponse i l a p iid mid bs caps s = (res, t) \<Longrightarrow> conn_run env wait order t"
| pipelined_call_accept: "conn_run env wait order s \<Longrightarrow> fair_wait env waitResponse \<Longrightarrow>
    processCppPipelinedCallWithAccept env wait waitResponse i l a p iid mid bs caps bs' caps' s = (res, t) \<Longrightarrow>
    conn_run env wait order t"
| turn: "conn_run env wait order s \<Longrightarrow> wait_turn env s t \<Longrightarrow> conn_run env wait order t"

lemma live_init [simp]: "live_systems (connections_init fds) = {}"
  by (simp add: live_systems_def connections_init_def handlers_init_def calls_init_def promises_init_def
      promise_caps_init_def targets_init_def connections_state.defs handlers_state.defs calls_state.defs
      promises_state.defs promise_caps_state.defs targets_state.defs)

lemma conn_run_traced:
  assumes "conn_run env wait order s" and wait: "fair_wait env wait" and order: "\<forall>S. set (order S) = S"
  shows "traced {} s"
  using assms(1)
proof (induction rule: conn_run.induct)
  case (start fds)
  show ?case by (simp add: traced_def)
next
  case (call_accept s waitResponse i l a p iid mid bs caps res t)
  then show ?case
    using traced_call_with_accept(1) [OF wait, THEN keepsD] by blast
next
  case (pipelined_call_accept s waitResponse i l a p iid mid bs caps bs' caps' res t)
  then show ?case
    using traced_call_with_accept(2) [OF wait, THEN keepsD] by blast
next
  case (turn s t)
  then show ?case
    by (blast intro: traced_turn)
qed (drule (1) traced_setters [OF order, THEN keepsD] traced_connects [OF wait, THEN keepsD]
    traced_no_wait [THEN keepsD] traced_server_no_wait [THEN keepsD] traced_new_server [THEN keepsD]
    traced_accepts [OF wait, THEN keepsD] traced_registerLoopback [THEN keepsD]
    traced_retainTarget [THEN keepsD] traced_releaseTarget [THEN keepsD] traced_releaseClient [THEN keepsD]
    traced_releaseServer [THEN keepsD] traced_other_releases [THEN keepsD], assumption)+

text \<open>C15. Every two-party RPC system in the runtime's tables (of a client, a dialled target, the
  server end of a loopback pair, an accepted connection of the runtime or of a server), however it
  was made (dialled, accepted, over a descriptor, a transport or a loopback pipe, by a blocking or
  a started operation, for a call with accept), has the encoder that the current setting asks for,
  after any sequence of the operations that make, keep or drop connections or change the setting:
  a change reaches all of them and a new connection starts with it. An operation that waits lets
  the event loop take any turns meanwhile: the continuations of started operations, handlers that
  drop, keep or pair targets, and whatever leaves the connections alone. The client end of a
  loopback pair is inside a \<open>TwoPartyClient\<close>, which the code never gives an encoder; it is not
  among these systems.\<close>

theorem every_connection_traced:
  assumes "conn_run env wait order s" and "fair_wait env wait" and "\<forall>S. set (order S) = S"
    and "r \<in> live_systems s"
  shows "last_encoder (log s) r = Some (traceEncoderActive s)"
  using conn_run_traced [OF assms(1-3)] assms(4) by (simp add: traced_def)

definition wait_ok :: "connections_state wait_obj" where
  "wait_ok c = call (ask_obj ok_env) NewCapabilityPipe"

lemma fair_wait_ok: "fair_wait env wait_ok"
  using fair_call [of "\<lambda>_. NewCapabilityPipe"] by (simp add: fair_wait_def wait_ok_def)

text \<open>Tracing is switched on, then a target is dialled: system 1 is live and traced.\<close>

lemma init_parts:
  "clients (connections_init f) = Map.empty" "networkClientPeers (connections_init f) = Map.empty"
  "loopbackPeers (connections_init f) = Map.empty" "networkServerPeers (connections_init f) = []"
  "servers (connections_init f) = Map.empty" "traceEncoderHandler (connections_init f) = None"
  "log (connections_init f) = []" "targets (connections_init f) = Map.empty"
  "nextTargetId (connections_init f) = 1"
  by (simp_all add: connections_init_def handlers_init_def calls_init_def promises_init_def
      promise_caps_init_def targets_init_def connections_state.defs handlers_state.defs calls_state.defs
      promises_state.defs promise_caps_state.defs targets_state.defs)

lemma every_connection_traced_witness:
  "\<exists>t. conn_run ok_env wait_ok sorted_list_of_set t \<and> 1 \<in> live_systems t \<and>
     last_encoder (log t) 1 = Some (traceEncoderActive t)"
proof -
  obtain s where on: "setTraceEncoderEnabled sorted_list_of_set True (connections_init 0) = (Ret (), s)"
    and s: "s = (connections_init 0)\<lparr>traceEncoderEnabled := True\<rparr>"
    by (simp add: setTraceEncoderEnabled_def clearTraceEncoderHandler_def init_parts
        applyTraceEncoderToAllActiveConnections_def trace_systems_def)
  obtain t where dial: "connectTargetStart_done ok_env 0 s = (Ret 1, t)" and live: "1 \<in> live_systems t"
    by (simp add: connectTargetStart_done_def clientPeer_def applyTraceEncoder_def connectTargetPeer_def
        addTarget_def call_def s init_parts emplace_def live_systems_def)
  have run: "conn_run ok_env wait_ok sorted_list_of_set t"
    by (rule conn_run.connect_later [OF conn_run.enable [OF conn_run.start on] dial])
  have "last_encoder (log t) 1 = Some (traceEncoderActive t)"
    by (rule every_connection_traced [OF run fair_wait_ok _ live]) simp
  with run live show ?thesis by blast
qed

end
