(* ===== verification/Generic_Vat.thy ===== *)
theory Generic_Vat
  imports Ids
begin

text \<open>
  The in-process vat network of \<^verbatim>\<open>ffi/rpc_bridge_generic_vat.cpp\<close>: named vats, the
  connections between them with their blocked deliveries, and the third-party handoff.
  The RPC library drives the connections; every method it can call is an operation here.
  Vats are named by their name (the network never removes one and refuses duplicates),
  connections by the order in which they were created.
\<close>

section \<open>State\<close>

record vat_id =
  host :: string
  unique :: bool

record third_party_contact =
  path :: vat_id
  token :: u64
  sentBy :: string

text \<open>
  Strings go through \<^verbatim>\<open>c_str()\<close> and \<^verbatim>\<open>cStr()\<close> on the way into a message
  and out of one (\<open>c_str\<close>).
\<close>

definition setLeanVatId :: "vat_id \<Rightarrow> vat_id" where
  "setLeanVatId v = v\<lparr>host := c_str (host v)\<rparr>"

definition decodeLeanVatId :: "vat_id \<Rightarrow> vat_id" where
  "decodeLeanVatId v = v\<lparr>host := c_str (host v)\<rparr>"

definition setThirdPartyContact :: "third_party_contact \<Rightarrow> third_party_contact" where
  "setThirdPartyContact ct = ct\<lparr>path := setLeanVatId (path ct), sentBy := c_str (sentBy ct)\<rparr>"

definition decodeThirdPartyContact :: "third_party_contact \<Rightarrow> third_party_contact" where
  "decodeThirdPartyContact ct = ct\<lparr>path := decodeLeanVatId (path ct), sentBy := c_str (sentBy ct)\<rparr>"

text \<open>A protocol message: which member of \<^verbatim>\<open>rpc::Message\<close> it is, and its words.\<close>

datatype which = RESOLVE | DISEMBARGO | OTHER_MESSAGE u16

record rpc_message =
  msg_which :: which
  msg_words :: "u8 list"

record protocol_message_counts =
  resolveCount :: u64
  disembargoCount :: u64

text \<open>
  The promise of a \<^verbatim>\<open>block()\<close>: waiting, fulfilled by \<^verbatim>\<open>unblock()\<close>, or broken
  because its fulfiller was destroyed first.
\<close>

datatype block_state = Waiting | Fulfilled | Broken

text \<open>The calls made to a \<^verbatim>\<open>kj::ProducerConsumerQueue\<close>.\<close>

datatype 'm queue_call = Push "'m option" | Pop | RejectAll kj_exception

text \<open>
  A connection. A task of the task set holds a message and the block it waits for (none
  for \<^verbatim>\<open>evalLater\<close>); \<open>tasks = None\<close> after \<^verbatim>\<open>tasks_ = nullptr\<close>.
\<close>

record connection =
  vat :: string
  peerVat :: string
  isUnique :: bool
  partner :: "nat option"
  partnerName :: string
  networkException :: "kj_exception option"
  messageQueue :: "rpc_message queue_call list"
  fulfillOnEnd :: "nat option"
  idle :: bool
  initiatedIdleShutdown :: bool
  tasks :: "(nat option \<times> rpc_message) list option"
  currentBlock :: "nat option"
  onSendHandler :: "(rpc_message \<Rightarrow> bool) option"
  protocolMessageCounts :: protocol_message_counts
  protocolMessageTrace :: "u16 list"

record generic_vat =
  sent :: u64
  received :: u64
  vat_connections :: "string \<rightharpoonup> nat"
  acceptQueue :: "nat queue_call list"
  tphExchanges :: "u64 \<rightharpoonup> nat"

text \<open>
  The network, with the objects on the heap: connections and exchanges by number, the
  blocks, and the promises of \<^verbatim>\<open>fulfillOnEnd_\<close> (fulfilled or not). An exchange holds
  the value its fulfiller was given.
\<close>

record generic_network =
  vats :: "string \<rightharpoonup> generic_vat"
  tokenCounter :: u64
  forwardingEnabled :: bool
  forwardCount :: u64
  deniedForwardCount :: u64
  conns :: "nat \<rightharpoonup> connection"
  nextConn :: nat
  blocks :: "block_state list"
  ends :: "bool list"
  exchanges :: "obj option list"
  embargoCounter :: u32

definition network_init :: generic_network where
  "network_init = \<lparr>vats = Map.empty, tokenCounter = 0, forwardingEnabled = False, forwardCount = 0,
     deniedForwardCount = 0, conns = Map.empty, nextConn = 0, blocks = [], ends = [], exchanges = [],
     embargoCounter = 0\<rparr>"

text \<open>\<^verbatim>\<open>KJ_REQUIRE(cond)\<close>: a failed one throws, with the condition in its text.\<close>

definition kj_require :: "string \<Rightarrow> exn" where
  "kj_require cond = KjEx \<lparr>ex_type = FAILED, ex_description = ''expected '' @ cond, ex_remoteTrace = None,
     ex_detail = None, ex_file = ''ffi/rpc_bridge_generic_vat.cpp'', ex_line = 0\<rparr>"

type_synonym 'a net_op = "generic_network \<Rightarrow> (exn, 'a) outcome \<times> generic_network"

text \<open>Updates of one vat and of one connection; a reference to either is always valid in C++.\<close>

definition upd_vat :: "string \<Rightarrow> (generic_vat \<Rightarrow> generic_vat) \<Rightarrow> generic_network \<Rightarrow> generic_network" where
  "upd_vat v f n = n\<lparr>vats := (vats n)(v := map_option f (vats n v))\<rparr>"

definition upd_conn :: "nat \<Rightarrow> (connection \<Rightarrow> connection) \<Rightarrow> generic_network \<Rightarrow> generic_network" where
  "upd_conn c f n = n\<lparr>conns := (conns n)(c := map_option f (conns n c))\<rparr>"

definition conn_of :: "generic_network \<Rightarrow> nat \<Rightarrow> connection" where
  "conn_of n c = the (conns n c)"

definition vat_of :: "generic_network \<Rightarrow> string \<Rightarrow> generic_vat" where
  "vat_of n v = the (vats n v)"

section \<open>The network\<close>

definition add :: "string \<Rightarrow> unit net_op" where
  "add name n = (if vats n name \<noteq> None then (Throw (StdEx (''vat already exists: '' @ name)), n)
     else (Ret (), n\<lparr>vats := (vats n)(name \<mapsto>
        \<lparr>sent = 0, received = 0, vat_connections = Map.empty, acceptQueue = [], tphExchanges = Map.empty\<rparr>)\<rparr>))"

definition newToken :: "generic_network \<Rightarrow> u64 \<times> generic_network" where
  "newToken n = (tokenCounter n + 1, n\<lparr>tokenCounter := tokenCounter n + 1\<rparr>)"

definition setForwardingEnabled :: "bool \<Rightarrow> generic_network \<Rightarrow> generic_network" where
  "setForwardingEnabled b n = n\<lparr>forwardingEnabled := b\<rparr>"

definition resetForwardingStats :: "generic_network \<Rightarrow> generic_network" where
  "resetForwardingStats n = n\<lparr>forwardCount := 0, deniedForwardCount := 0\<rparr>"

section \<open>Making and destroying connections\<close>

text \<open>
  \<^verbatim>\<open>ConnectionImpl::ConnectionImpl\<close>: a connection that is not unique becomes the one
  its vat knows for the peer.
\<close>

definition newConnection :: "string \<Rightarrow> string \<Rightarrow> bool \<Rightarrow> generic_network \<Rightarrow> nat \<times> generic_network" where
  "newConnection v p uniq n =
     (let c = nextConn n;
          n1 = n\<lparr>nextConn := Suc c, conns := (conns n)(c \<mapsto>
            \<lparr>vat = v, peerVat = p, isUnique = uniq, partner = None, partnerName = [],
             networkException = None, messageQueue = [], fulfillOnEnd = None, idle = True,
             initiatedIdleShutdown = False, tasks = Some [], currentBlock = None,
             onSendHandler = None,
             protocolMessageCounts = \<lparr>resolveCount = 0, disembargoCount = 0\<rparr>,
             protocolMessageTrace = []\<rparr>)\<rparr>
      in (c, if uniq then n1
             else upd_vat v (\<lambda>w. w\<lparr>vat_connections := (vat_connections w)(p \<mapsto> c)\<rparr>) n1))"

text \<open>
  \<^verbatim>\<open>~ConnectionImpl\<close>, run when the last reference is dropped. Its members are
  destroyed with it, and with them the fulfiller of a block that still waits.
\<close>

definition break_block :: "nat option \<Rightarrow> generic_network \<Rightarrow> generic_network" where
  "break_block b n = (case b of None \<Rightarrow> n | Some i \<Rightarrow>
     if blocks n ! i = Waiting then n\<lparr>blocks := (blocks n)[i := Broken]\<rparr> else n)"

definition destroyConnection :: "nat \<Rightarrow> generic_network \<Rightarrow> generic_network" where
  "destroyConnection c n =
     (let k = conn_of n c;
          n1 = (if isUnique k then n
                else upd_vat (vat k) (\<lambda>w. w\<lparr>vat_connections := (vat_connections w)(peerVat k := None)\<rparr>) n);
          n2 = (case partner k of None \<Rightarrow> n1 | Some p \<Rightarrow> upd_conn p (\<lambda>q. q\<lparr>partner := None\<rparr>) n1);
          n3 = break_block (currentBlock k) n2
      in n3\<lparr>conns := (conns n3)(c := None)\<rparr>)"

definition attach :: "nat \<Rightarrow> nat \<Rightarrow> unit net_op" where
  "attach c d n =
     (if partner (conn_of n c) \<noteq> None then (Throw (kj_require ''partner_ == kj::none''), n)
      else if partner (conn_of n d) \<noteq> None then (Throw (kj_require ''other.partner_ == kj::none''), n)
      else (Ret (),
        upd_conn d (\<lambda>k. k\<lparr>partner := Some c, partnerName := vat (conn_of n c)\<rparr>)
          (upd_conn c (\<lambda>k. k\<lparr>partner := Some d, partnerName := vat (conn_of n d)\<rparr>) n)))"

definition fulfill_end :: "nat option \<Rightarrow> generic_network \<Rightarrow> generic_network" where
  "fulfill_end e n = (case e of None \<Rightarrow> n | Some i \<Rightarrow> n\<lparr>ends := (ends n)[i := True]\<rparr>)"

definition push :: "rpc_message option \<Rightarrow> connection \<Rightarrow> connection" where
  "push m k = k\<lparr>messageQueue := messageQueue k @ [Push m]\<rparr>"

definition initiateIdleShutdown :: "nat \<Rightarrow> generic_network \<Rightarrow> generic_network" where
  "initiateIdleShutdown c n =
     fulfill_end (fulfillOnEnd (conn_of n c))
       (upd_conn c (\<lambda>k. push None (k\<lparr>initiatedIdleShutdown := True\<rparr>)) n)"

definition disconnect :: "nat \<Rightarrow> kj_exception \<Rightarrow> generic_network \<Rightarrow> generic_network" where
  "disconnect c e = upd_conn c (\<lambda>k. k\<lparr>messageQueue := messageQueue k @ [RejectAll e],
     networkException := Some e, tasks := None\<rparr>)"

text \<open>
  \<^verbatim>\<open>~GenericVat\<close>: every connection the vat still knows is disconnected. \<open>order\<close> is
  the order in which the unordered map is iterated.
\<close>

definition destroyVat :: "string list \<Rightarrow> string \<Rightarrow> generic_network \<Rightarrow> generic_network" where
  "destroyVat order v n =
     (let e = (mk_exception FAILED ''GenericVat network was destroyed.'' [])\<lparr>ex_file := ''ffi/rpc_bridge_generic_vat.cpp''\<rparr>
      in foldl (\<lambda>n' p. case vat_connections (vat_of n v) p of None \<Rightarrow> n' | Some c \<Rightarrow> disconnect c e n') n order)"

section \<open>Blocking and sending\<close>

text \<open>The assignments replace the old fork and the old fulfiller, which is destroyed.\<close>

definition block :: "nat \<Rightarrow> generic_network \<Rightarrow> generic_network" where
  "block c n =
     (let b = length (blocks n);
          old = currentBlock (conn_of n c)
      in break_block old (upd_conn c (\<lambda>k. k\<lparr>currentBlock := Some b\<rparr>) (n\<lparr>blocks := blocks n @ [Waiting]\<rparr>)))"

definition unblock :: "nat \<Rightarrow> generic_network \<Rightarrow> generic_network" where
  "unblock c n = (case currentBlock (conn_of n c) of
      None \<Rightarrow> n
    | Some b \<Rightarrow> upd_conn c (\<lambda>k. k\<lparr>currentBlock := None\<rparr>)
        (if blocks n ! b = Waiting then n\<lparr>blocks := (blocks n)[b := Fulfilled]\<rparr> else n))"

definition onSend :: "(rpc_message \<Rightarrow> bool) \<Rightarrow> nat \<Rightarrow> generic_network \<Rightarrow> generic_network" where
  "onSend h c = upd_conn c (\<lambda>k. k\<lparr>onSendHandler := Some h\<rparr>)"

definition recordProtocolMessage :: "rpc_message \<Rightarrow> connection \<Rightarrow> connection" where
  "recordProtocolMessage m k = (case msg_which m of
      RESOLVE \<Rightarrow> k\<lparr>protocolMessageCounts := (protocolMessageCounts k)
          \<lparr>resolveCount := resolveCount (protocolMessageCounts k) + 1\<rparr>,
        protocolMessageTrace := protocolMessageTrace k @ [1]\<rparr>
    | DISEMBARGO \<Rightarrow> k\<lparr>protocolMessageCounts := (protocolMessageCounts k)
          \<lparr>disembargoCount := disembargoCount (protocolMessageCounts k) + 1\<rparr>,
        protocolMessageTrace := protocolMessageTrace k @ [2]\<rparr>
    | OTHER_MESSAGE _ \<Rightarrow> k)"

definition resetProtocolMessageTrace :: "nat \<Rightarrow> generic_network \<Rightarrow> generic_network" where
  "resetProtocolMessageTrace c = upd_conn c (\<lambda>k. k\<lparr>protocolMessageTrace := []\<rparr>)"

definition resetProtocolMessageCounts :: "nat \<Rightarrow> generic_network \<Rightarrow> generic_network" where
  "resetProtocolMessageCounts c =
     upd_conn c (\<lambda>k. k\<lparr>protocolMessageCounts := \<lparr>resolveCount = 0, disembargoCount = 0\<rparr>\<rparr>)"

definition newOutgoingMessage :: "nat \<Rightarrow> unit net_op" where
  "newOutgoingMessage c n =
     (if idle (conn_of n c) then (Throw (kj_require ''!idle_''), n) else (Ret (), n))"

text \<open>\<^verbatim>\<open>OutgoingRpcMessageImpl::send\<close>.\<close>

definition send :: "nat \<Rightarrow> rpc_message \<Rightarrow> generic_network \<Rightarrow> generic_network" where
  "send c m n =
     (let k = conn_of n c
      in if networkException k \<noteq> None then n
         else if (case onSendHandler k of None \<Rightarrow> False | Some h \<Rightarrow> \<not> h m) then n
         else upd_vat (vat k) (\<lambda>w. w\<lparr>sent := sent w + 1\<rparr>)
           (upd_conn c (\<lambda>k. (recordProtocolMessage m k)
              \<lparr>tasks := map_option (\<lambda>ts. ts @ [(currentBlock k, m)]) (tasks k)\<rparr>) n))"

text \<open>
  The event loop runs task \<open>i\<close> of connection \<open>c\<close> once the promise it waits for is
  resolved: the message goes to the partner's queue. A broken block fails the task, and
  \<^verbatim>\<open>taskFailed\<close> ignores the exception.
\<close>

definition task_ready :: "nat option \<Rightarrow> generic_network \<Rightarrow> bool" where
  "task_ready b n = (case b of None \<Rightarrow> True | Some i \<Rightarrow> blocks n ! i \<noteq> Waiting)"

definition runTask :: "nat \<Rightarrow> nat \<Rightarrow> generic_network \<Rightarrow> generic_network" where
  "runTask c i n =
     (case tasks (conn_of n c) of None \<Rightarrow> n | Some ts \<Rightarrow>
        if i < length ts \<and> task_ready (fst (ts ! i)) n then
          (let n1 = upd_conn c (\<lambda>k. k\<lparr>tasks := Some (take i ts @ drop (Suc i) ts)\<rparr>) n
           in if (case fst (ts ! i) of None \<Rightarrow> False | Some b \<Rightarrow> blocks n ! b = Broken) then n1
              else (case partner (conn_of n c) of
                      None \<Rightarrow> n1
                    | Some p \<Rightarrow> upd_conn p (push (Some (snd (ts ! i)))) n1))
        else n)"

section \<open>Receiving and shutting down\<close>

text \<open>
  \<^verbatim>\<open>receiveIncomingMessage\<close> up to its \<^verbatim>\<open>co_await\<close>: it throws, ends with none, or
  pops the queue (\<open>None\<close>); then what it does with the popped element.
\<close>

definition receiveIncomingMessage :: "nat \<Rightarrow> rpc_message option option net_op" where
  "receiveIncomingMessage c n =
     (case networkException (conn_of n c) of
        Some e \<Rightarrow> (Throw (KjEx e), n)
      | None \<Rightarrow> if initiatedIdleShutdown (conn_of n c) then (Ret (Some None), n)
                else (Ret None, upd_conn c (\<lambda>k. k\<lparr>messageQueue := messageQueue k @ [Pop]\<rparr>) n))"

definition receivePopped :: "nat \<Rightarrow> rpc_message option \<Rightarrow> rpc_message option net_op" where
  "receivePopped c result n =
     (case result of
        None \<Rightarrow> (Ret None, fulfill_end (fulfillOnEnd (conn_of n c)) n)
      | Some m \<Rightarrow> (Ret (Some m), upd_vat (vat (conn_of n c)) (\<lambda>w. w\<lparr>received := received w + 1\<rparr>) n))"

text \<open>
  \<^verbatim>\<open>shutdown\<close>: ready at once, or (\<open>False\<close>) after \<open>shutdownLater\<close>, which is then
  ready at once or with the end it waits for.
\<close>

definition shutdown :: "nat \<Rightarrow> generic_network \<Rightarrow> bool" where
  "shutdown c n = (case partner (conn_of n c) of
      None \<Rightarrow> True
    | Some p \<Rightarrow> initiatedIdleShutdown (conn_of n p))"

definition shutdownLater :: "nat \<Rightarrow> generic_network \<Rightarrow> nat option \<times> generic_network" where
  "shutdownLater c n = (case partner (conn_of n c) of
      None \<Rightarrow> (None, n)
    | Some p \<Rightarrow> let e = length (ends n) in
        (Some e, upd_conn p (\<lambda>k. (push None k)\<lparr>fulfillOnEnd := Some e\<rparr>) (n\<lparr>ends := ends n @ [False]\<rparr>)))"

definition setIdle :: "bool \<Rightarrow> nat \<Rightarrow> unit net_op" where
  "setIdle b c n =
     (if b = idle (conn_of n c) then (Throw (kj_require ''idle != idle_''), n)
      else (Ret (), upd_conn c (\<lambda>k. k\<lparr>idle := b\<rparr>) n))"

section \<open>Connecting\<close>

definition getConnectionTo :: "string \<Rightarrow> string \<Rightarrow> generic_network \<Rightarrow> nat option" where
  "getConnectionTo v other n = vat_connections (vat_of n v) other"

text \<open>None when the host is the vat itself; an existing shared connection is reused.\<close>

definition connectByVatId :: "string \<Rightarrow> vat_id \<Rightarrow> nat option net_op" where
  "connectByVatId v hostId n =
     (if host hostId = v then (Ret None, n)
      else if vats n (host hostId) = None then (Throw (StdEx (''unknown vat host: '' @ host hostId)), n)
      else case (if unique hostId then None else vat_connections (vat_of n v) (host hostId)) of
          Some c \<Rightarrow> (Ret (Some c), n)
        | None \<Rightarrow>
            let (local, n1) = newConnection v (host hostId) (unique hostId) n;
                (remote, n2) = newConnection (host hostId) v (unique hostId) n1
            in bnd (attach local remote) (\<lambda>_.
               sq (modify (upd_vat (host hostId) (\<lambda>w. w\<lparr>acceptQueue := acceptQueue w @ [Push (Some remote)]\<rparr>)))
               (ret (Some local))) n2)"

definition connect :: "string \<Rightarrow> vat_id \<Rightarrow> nat option net_op" where
  "connect v hostId = connectByVatId v (decodeLeanVatId hostId)"

definition getPeerVatId :: "nat \<Rightarrow> generic_network \<Rightarrow> vat_id" where
  "getPeerVatId c n = setLeanVatId \<lparr>host = peerVat (conn_of n c), unique = isUnique (conn_of n c)\<rparr>"

definition accept :: "string \<Rightarrow> generic_network \<Rightarrow> generic_network" where
  "accept v = upd_vat v (\<lambda>w. w\<lparr>acceptQueue := acceptQueue w @ [Pop]\<rparr>)"

section \<open>Third-party handoff\<close>

definition canIntroduceTo :: "nat \<Rightarrow> nat \<Rightarrow> bool" where
  "canIntroduceTo c other = True"

text \<open>The contact for the recipient and the token the introduced party awaits.\<close>

definition introduceTo :: "nat \<Rightarrow> nat \<Rightarrow> (third_party_contact \<times> u64) net_op" where
  "introduceTo c other n =
     (let (tok, n1) = newToken n
      in (Ret (setThirdPartyContact
                 \<lparr>path = \<lparr>host = partnerName (conn_of n other), unique = False\<rparr>, token = tok,
                  sentBy = vat (conn_of n c)\<rparr>, tok), n1))"

text \<open>The token completed and the connection, none when the contact is the vat itself.\<close>

definition connectToIntroduced :: "nat \<Rightarrow> third_party_contact \<Rightarrow> (u64 \<times> nat option) net_op" where
  "connectToIntroduced c contact n =
     (let decoded = decodeThirdPartyContact contact
      in if sentBy decoded \<noteq> partnerName (conn_of n c)
           then (Throw (kj_require ''decoded.sentBy == partnerName_''), n)
         else bnd (connectByVatId (vat (conn_of n c)) (path decoded)) (\<lambda>r. ret (token decoded, r)) n)"

definition canForwardThirdPartyToContact :: "nat \<Rightarrow> generic_network \<Rightarrow> bool \<times> generic_network" where
  "canForwardThirdPartyToContact c n =
     (forwardingEnabled n,
      if forwardingEnabled n then n else n\<lparr>deniedForwardCount := deniedForwardCount n + 1\<rparr>)"

definition forwardThirdPartyToContact :: "nat \<Rightarrow> third_party_contact \<Rightarrow> third_party_contact net_op" where
  "forwardThirdPartyToContact c contact n =
     (let decoded = decodeThirdPartyContact contact
      in if \<not> forwardingEnabled n then (Throw (kj_require ''vat_.network_.forwardingEnabled()''), n)
         else if sentBy decoded \<noteq> partnerName (conn_of n c)
           then (Throw (kj_require ''decoded.sentBy == partnerName_''), n)
         else (Ret (setThirdPartyContact (decoded\<lparr>sentBy := vat (conn_of n c)\<rparr>)),
               n\<lparr>forwardCount := forwardCount n + 1\<rparr>))"

definition getThirdPartyExchange :: "string \<Rightarrow> u64 \<Rightarrow> generic_network \<Rightarrow> nat \<times> generic_network" where
  "getThirdPartyExchange v tok n = (case tphExchanges (vat_of n v) tok of
      Some x \<Rightarrow> (x, n)
    | None \<Rightarrow> let x = length (exchanges n) in
        (x, upd_vat v (\<lambda>w. w\<lparr>tphExchanges := (tphExchanges w)(tok \<mapsto> x)\<rparr>) (n\<lparr>exchanges := exchanges n @ [None]\<rparr>)))"

definition eraseThirdPartyExchange :: "string \<Rightarrow> u64 \<Rightarrow> generic_network \<Rightarrow> generic_network" where
  "eraseThirdPartyExchange v tok = upd_vat v (\<lambda>w. w\<lparr>tphExchanges := (tphExchanges w)(tok := None)\<rparr>)"

text \<open>
  \<^verbatim>\<open>awaitThirdParty\<close> fulfills the exchange (a fulfilled one keeps its value) and
  returns a token whose release erases it; \<^verbatim>\<open>completeThirdParty\<close> returns a branch of
  the exchange's promise.
\<close>

definition awaitThirdParty :: "nat \<Rightarrow> u64 \<Rightarrow> obj \<Rightarrow> (string \<times> u64) net_op" where
  "awaitThirdParty c tok value n =
     (let v = vat (conn_of n c);
          (x, n1) = getThirdPartyExchange v tok n
      in (Ret (v, tok), n1\<lparr>exchanges := (exchanges n1)[x :=
            (case exchanges n1 ! x of None \<Rightarrow> Some value | Some w \<Rightarrow> Some w)]\<rparr>))"

definition completeThirdParty :: "nat \<Rightarrow> u64 \<Rightarrow> nat net_op" where
  "completeThirdParty c tok n =
     (let (x, n1) = getThirdPartyExchange (vat (conn_of n c)) tok n in (Ret x, n1))"

text \<open>A static counter, as the bytes of a little-endian machine.\<close>

definition generateEmbargoId :: "u8 list net_op" where
  "generateEmbargoId n = (Ret (appendUint32Le [] (embargoCounter n)), n\<lparr>embargoCounter := embargoCounter n + 1\<rparr>)"

end
