(* ===== verification/Vat_Facts.thy ===== *)
theory Vat_Facts
  imports Generic_Vat
begin

text \<open>
  What the vat network guarantees: no reference from a vat or a connection to a connection
  that is gone, deliveries in order and held back by a block, introductions that reach the
  right vat, and an exchange that does not depend on who comes first.
\<close>

section \<open>Views of the state\<close>

text \<open>The part of the network that its references depend on.\<close>

definition link :: "connection \<Rightarrow> string \<times> string \<times> bool \<times> nat option \<times> string" where
  "link k = (vat k, peerVat k, isUnique k, partner k, partnerName k)"

definition links :: "generic_network \<Rightarrow> (nat \<rightharpoonup> string \<times> string \<times> bool \<times> nat option \<times> string) \<times>
    (string \<rightharpoonup> string \<rightharpoonup> nat) \<times> nat" where
  "links n = (\<lambda>c. map_option link (conns n c), \<lambda>v. map_option vat_connections (vats n v), nextConn n)"

definition links_ok :: "(nat \<rightharpoonup> string \<times> string \<times> bool \<times> nat option \<times> string) \<times>
    (string \<rightharpoonup> string \<rightharpoonup> nat) \<times> nat \<Rightarrow> bool" where
  "links_ok = (\<lambda>(K, V, nx).
     (\<forall>c. nx \<le> c \<longrightarrow> K c = None) \<and>
     (\<forall>c v p u q pn. K c = Some (v, p, u, q, pn) \<longrightarrow> V v \<noteq> None \<and> V p \<noteq> None) \<and>
     (\<forall>c v p u d pn. K c = Some (v, p, u, Some d, pn) \<longrightarrow>
        d \<noteq> c \<and> pn = p \<and> (\<exists>qn. K d = Some (p, v, u, Some c, qn))) \<and>
     (\<forall>v m p c. V v = Some m \<longrightarrow> m p = Some c \<longrightarrow> (\<exists>q pn. K c = Some (v, p, False, q, pn))))"

definition net_inv :: "generic_network \<Rightarrow> bool" where
  "net_inv n \<longleftrightarrow> links_ok (links n)"

lemma net_inv_same: "net_inv n \<Longrightarrow> links n' = links n \<Longrightarrow> net_inv n'"
  by (simp add: net_inv_def)

lemma links_upd_conn:
  "(\<And>k. link (f k) = link k) \<Longrightarrow> links (upd_conn c f n) = links n"
  by (auto simp: links_def upd_conn_def option.map_comp comp_def)

lemma links_upd_vat:
  "(\<And>w. vat_connections (f w) = vat_connections w) \<Longrightarrow> links (upd_vat v f n) = links n"
  by (auto simp: links_def upd_vat_def option.map_comp comp_def)

lemma links_fields [simp]:
  "links (n\<lparr>blocks := b\<rparr>) = links n" "links (n\<lparr>ends := e\<rparr>) = links n" "links (n\<lparr>exchanges := x\<rparr>) = links n"
  "links (n\<lparr>tokenCounter := k\<rparr>) = links n" "links (n\<lparr>forwardCount := k\<rparr>) = links n"
  "links (n\<lparr>deniedForwardCount := k\<rparr>) = links n" "links (n\<lparr>forwardingEnabled := z\<rparr>) = links n"
  "links (n\<lparr>embargoCounter := y\<rparr>) = links n"
  by (simp_all add: links_def)

lemma links_break_block [simp]: "links (break_block b n) = links n"
  by (simp add: break_block_def split: option.split)

lemma links_fulfill_end [simp]: "links (fulfill_end e n) = links n"
  by (simp add: fulfill_end_def split: option.split)

text \<open>Everything but adding a vat, connecting and destroying leaves the references alone.\<close>

lemma links_block: "links (block c n) = links n"
  by (simp add: block_def Let_def links_upd_conn link_def)

lemma links_unblock: "links (unblock c n) = links n"
  by (simp add: unblock_def links_upd_conn link_def split: option.split)

lemma links_send: "links (send c m n) = links n"
  by (simp add: send_def Let_def links_upd_vat links_upd_conn link_def recordProtocolMessage_def
      split: which.split)

lemma links_runTask: "links (runTask c i n) = links n"
  by (simp add: runTask_def Let_def links_upd_conn link_def push_def split: option.split)

lemma links_disconnect: "links (disconnect c e n) = links n"
  by (simp add: disconnect_def links_upd_conn link_def)

lemma links_idle_shutdown: "links (initiateIdleShutdown c n) = links n"
  by (simp add: initiateIdleShutdown_def links_upd_conn link_def push_def)

lemma links_shutdownLater: "shutdownLater c n = (r, n') \<Longrightarrow> links n' = links n"
  by (auto simp: shutdownLater_def Let_def links_upd_conn link_def push_def split: option.splits)

lemma links_receive: "receiveIncomingMessage c n = (r, n') \<Longrightarrow> links n' = links n"
  by (auto simp: receiveIncomingMessage_def links_upd_conn link_def split: option.splits if_splits)

lemma links_receivePopped: "receivePopped c m n = (r, n') \<Longrightarrow> links n' = links n"
  by (auto simp: receivePopped_def links_upd_vat split: option.splits)

lemma links_setIdle: "setIdle b c n = (r, n') \<Longrightarrow> links n' = links n"
  by (auto simp: setIdle_def links_upd_conn link_def split: if_splits)

lemma links_introduceTo: "introduceTo c d n = (r, n') \<Longrightarrow> links n' = links n"
  by (auto simp: introduceTo_def newToken_def)

lemma links_forward: "forwardThirdPartyToContact c ct n = (r, n') \<Longrightarrow> links n' = links n"
  by (auto simp: forwardThirdPartyToContact_def Let_def split: if_splits)

lemma links_canForward: "canForwardThirdPartyToContact c n = (r, n') \<Longrightarrow> links n' = links n"
  by (auto simp: canForwardThirdPartyToContact_def split: if_splits)

lemma links_getExchange: "getThirdPartyExchange v t n = (x, n') \<Longrightarrow> links n' = links n"
  by (auto simp: getThirdPartyExchange_def Let_def links_upd_vat split: option.splits)

lemma links_eraseExchange: "links (eraseThirdPartyExchange v t n) = links n"
  by (simp add: eraseThirdPartyExchange_def links_upd_vat)

lemma links_await: "awaitThirdParty c t x n = (r, n') \<Longrightarrow> links n' = links n"
  by (auto simp: awaitThirdParty_def Let_def dest: links_getExchange split: prod.splits)

lemma links_complete: "completeThirdParty c t n = (r, n') \<Longrightarrow> links n' = links n"
  by (auto simp: completeThirdParty_def Let_def dest: links_getExchange split: prod.splits)

lemma links_onSend: "links (onSend h c n) = links n"
  by (simp add: onSend_def links_upd_conn link_def)

lemma links_resets: "links (resetProtocolMessageTrace c n) = links n" "links (resetProtocolMessageCounts c n) = links n"
  by (simp_all add: resetProtocolMessageTrace_def resetProtocolMessageCounts_def links_upd_conn link_def)

lemma links_accept: "links (accept v n) = links n"
  by (simp add: accept_def links_upd_vat)

section \<open>The three operations that change references\<close>

lemma inv_init: "net_inv network_init"
  by (simp add: net_inv_def links_ok_def links_def network_init_def)

lemma links_okD:
  assumes "links_ok (K, V, nx)"
  shows "nx \<le> c \<Longrightarrow> K c = None"
    and "K c = Some (v, p, u, q, pn) \<Longrightarrow> \<exists>m. V v = Some m"
    and "K c = Some (v, p, u, q, pn) \<Longrightarrow> \<exists>m. V p = Some m"
    and "K c = Some (v, p, u, Some d, pn) \<Longrightarrow> d \<noteq> c \<and> pn = p \<and> (\<exists>qn. K d = Some (p, v, u, Some c, qn))"
    and "V v = Some m \<Longrightarrow> m p = Some c \<Longrightarrow> \<exists>q pn. K c = Some (v, p, False, q, pn)"
  using assms unfolding links_ok_def by blast+

lemma links_okI:
  assumes "\<And>c. nx \<le> c \<Longrightarrow> K c = None"
    and "\<And>c v p u q pn. K c = Some (v, p, u, q, pn) \<Longrightarrow> V v \<noteq> None \<and> V p \<noteq> None"
    and "\<And>c v p u d pn. K c = Some (v, p, u, Some d, pn) \<Longrightarrow>
        d \<noteq> c \<and> pn = p \<and> (\<exists>qn. K d = Some (p, v, u, Some c, qn))"
    and "\<And>v m p c. V v = Some m \<Longrightarrow> m p = Some c \<Longrightarrow> \<exists>q pn. K c = Some (v, p, False, q, pn)"
  shows "links_ok (K, V, nx)"
  unfolding links_ok_def using assms by blast

lemma links_ok_new_vat:
  assumes "links_ok (K, V, nx)"
  shows "links_ok (K, V(v \<mapsto> Map.empty), nx)"
proof (rule links_okI)
  fix w m p c
  assume "(V(v \<mapsto> Map.empty)) w = Some m" "m p = Some c"
  then show "\<exists>q pn. K c = Some (w, p, False, q, pn)"
    using links_okD(5) [OF assms] by (auto split: if_splits)
qed (use links_okD [OF assms] in \<open>fastforce split: if_splits\<close>)+

lemma links_ok_pair:
  assumes ok: "links_ok (K, V, nx)" and v: "V v = Some mv" and p: "V p = Some mp" and ne: "v \<noteq> p"
  shows "links_ok (K(nx \<mapsto> (v, p, u, Some (Suc nx), p), Suc nx \<mapsto> (p, v, u, Some nx, v)),
     (if u then V else V(v \<mapsto> mv(p \<mapsto> nx), p \<mapsto> mp(v \<mapsto> Suc nx))), Suc (Suc nx))"
    (is "links_ok (?K, ?V, _)")
proof (rule links_okI)
  fix c
  assume "Suc (Suc nx) \<le> c"
  then show "?K c = None" using links_okD(1) [OF ok] by simp
next
  fix c a b w q pn
  assume "?K c = Some (a, b, w, q, pn)"
  then show "?V a \<noteq> None \<and> ?V b \<noteq> None"
    using links_okD(2,3) [OF ok] v p by (fastforce split: if_splits)
next
  fix c a b w d pn
  assume K: "?K c = Some (a, b, w, Some d, pn)"
  show "d \<noteq> c \<and> pn = b \<and> (\<exists>qn. ?K d = Some (b, a, w, Some c, qn))"
  proof (cases "c = nx \<or> c = Suc nx")
    case True
    then show ?thesis using K by auto
  next
    case False
    with K have "K c = Some (a, b, w, Some d, pn)" by simp
    from links_okD(4) [OF ok this] obtain qn where "d \<noteq> c" "pn = b" "K d = Some (b, a, w, Some c, qn)" by blast
    moreover from this have "d \<noteq> nx" "d \<noteq> Suc nx" using links_okD(1) [OF ok] by force+
    ultimately show ?thesis by simp
  qed
next
  fix a m b c
  assume V: "?V a = Some m" and m: "m b = Some c"
  show "\<exists>q pn. ?K c = Some (a, b, False, q, pn)"
  proof (cases "\<not> u \<and> (a = v \<and> b = p \<or> a = p \<and> b = v)")
    case True
    then show ?thesis using V m ne by (auto split: if_splits)
  next
    case False
    then obtain m0 where "V a = Some m0" "m0 b = Some c"
      using V m ne v p by (auto split: if_splits)
    from links_okD(5) [OF ok this] obtain q pn where k: "K c = Some (a, b, False, q, pn)" by blast
    then have "c \<noteq> nx" "c \<noteq> Suc nx" using links_okD(1) [OF ok] by force+
    with k show ?thesis by simp
  qed
qed

text \<open>What the table has after one connection is gone and its partner was told.\<close>

definition forget :: "nat option \<Rightarrow> (nat \<rightharpoonup> string \<times> string \<times> bool \<times> nat option \<times> string)
    \<Rightarrow> (nat \<rightharpoonup> string \<times> string \<times> bool \<times> nat option \<times> string)" where
  "forget q K = (case q of None \<Rightarrow> K
     | Some d \<Rightarrow> K(d := map_option (\<lambda>(a, b, w, r, rn). (a, b, w, None, rn)) (K d)))"

lemma forget_Some:
  assumes "forget q K e = Some (a, b, w, r, rn)"
  shows "\<exists>r0. K e = Some (a, b, w, r0, rn) \<and> (r \<noteq> None \<longrightarrow> r0 = r \<and> q \<noteq> Some e)"
proof (cases "q = Some e")
  case True
  with assms show ?thesis by (cases "K e") (auto simp: forget_def)
next
  case False
  with assms have "K e = Some (a, b, w, r, rn)" by (cases q) (auto simp: forget_def)
  with False show ?thesis by simp
qed

lemma forget_keeps:
  assumes "K e = Some (a, b, w, r, rn)"
  shows "\<exists>r'. forget q K e = Some (a, b, w, r', rn) \<and> (q \<noteq> Some e \<longrightarrow> r' = r)"
  using assms by (cases q) (auto simp: forget_def)

lemma forget_None [simp]: "forget q K e = None \<longleftrightarrow> K e = None"
  by (auto simp: forget_def split: option.split)

lemma links_ok_destroy:
  assumes ok: "links_ok (K, V, nx)" and c: "K c = Some (v, p, u, q, pn)"
  shows "links_ok ((forget q K)(c := None),
     (if u then V else V(v := map_option (\<lambda>m. m(p := None)) (V v))), nx)"
    (is "links_ok (?K, ?V, _)")
proof (rule links_okI)
  fix e
  assume "nx \<le> e"
  then show "?K e = None" using links_okD(1) [OF ok] by simp
next
  fix e a b w r rn
  assume "?K e = Some (a, b, w, r, rn)"
  then have "forget q K e = Some (a, b, w, r, rn)" by (simp split: if_splits)
  from forget_Some [of q K, OF this] obtain r0 where "K e = Some (a, b, w, r0, rn)" by blast
  from links_okD(2,3) [OF ok this] show "?V a \<noteq> None \<and> ?V b \<noteq> None" by auto
next
  fix e a b w d rn
  assume K': "?K e = Some (a, b, w, Some d, rn)"
  then have e: "e \<noteq> c" and "forget q K e = Some (a, b, w, Some d, rn)" by (simp_all split: if_splits)
  from forget_Some [of q K, OF this(2)] have K: "K e = Some (a, b, w, Some d, rn)" and nq: "q \<noteq> Some e" by auto
  from links_okD(4) [OF ok K] obtain qn where d: "d \<noteq> e" "rn = b" "K d = Some (b, a, w, Some e, qn)" by blast
  have "d \<noteq> c" using d c nq by auto
  moreover have "q \<noteq> Some d"
  proof
    assume "q = Some d"
    with links_okD(4) [OF ok c [unfolded this]] d(3) e show False by auto
  qed
  ultimately show "d \<noteq> e \<and> rn = b \<and> (\<exists>qn. ?K d = Some (b, a, w, Some e, qn))"
    using d forget_keeps [of K d b a w "Some e" qn q] by auto
next
  fix a m b e
  assume V: "?V a = Some m" and m: "m b = Some e"
  have "\<exists>m0. V a = Some m0 \<and> m0 b = Some e \<and> (u \<or> \<not> (a = v \<and> b = p))"
    using V m by (cases u; cases "a = v"; cases "b = p") auto
  then obtain m0 where m0: "V a = Some m0" "m0 b = Some e" and new: "u \<or> \<not> (a = v \<and> b = p)" by blast
  from links_okD(5) [OF ok m0] obtain r rn where k: "K e = Some (a, b, False, r, rn)" by blast
  have "e \<noteq> c" using k c new by auto
  with k forget_keeps [of K e a b False r rn q] show "\<exists>r rn. ?K e = Some (a, b, False, r, rn)" by auto
qed

lemma inv_add: "net_inv n \<Longrightarrow> add name n = (r, n') \<Longrightarrow> net_inv n'"
proof (cases "vats n name")
  case None
  assume inv: "net_inv n" and run: "add name n = (r, n')"
  from None run have "links n' = (fst (links n), (fst (snd (links n)))(name \<mapsto> Map.empty), snd (snd (links n)))"
    by (auto simp: add_def links_def)
  with inv show ?thesis
    using links_ok_new_vat [of "fst (links n)" "fst (snd (links n))" "snd (snd (links n))" name]
    by (simp add: net_inv_def)
qed (simp add: add_def)

lemma links_newConnection:
  assumes "newConnection v p u n = (c, n')" and "vats n v = Some w"
  shows "c = nextConn n"
    and "links n' = ((fst (links n))(c \<mapsto> (v, p, u, None, [])),
      (if u then fst (snd (links n)) else (fst (snd (links n)))(v \<mapsto> (vat_connections w)(p \<mapsto> c))), Suc c)"
    and "\<exists>k. conns n' = (conns n)(c \<mapsto> k) \<and> link k = (v, p, u, None, [])"
    and "x \<noteq> v \<Longrightarrow> vats n' x = vats n x" and "nextConn n' = Suc c"
  using assms by (auto simp: newConnection_def Let_def links_def link_def upd_vat_def fun_eq_iff
      split: if_splits)

lemma attach_new:
  assumes "partner (conn_of n c) = None" and "partner (conn_of n d) = None"
    and "conns n c = Some k" and "conns n d = Some l" and "c \<noteq> d"
  shows "\<exists>n'. attach c d n = (Ret (), n') \<and> vats n' = vats n \<and> nextConn n' = nextConn n \<and>
     conns n' = (conns n)(c \<mapsto> k\<lparr>partner := Some d, partnerName := vat l\<rparr>,
                          d \<mapsto> l\<lparr>partner := Some c, partnerName := vat k\<rparr>)"
  using assms by (auto simp: attach_def upd_conn_def conn_of_def)

text \<open>A fresh pair of connections is all that connecting adds.\<close>

lemma connect_new:
  assumes v: "vats n v = Some wv" and p: "vats n (host h) = Some wp" and ne: "host h \<noteq> v"
    and new: "unique h \<or> vat_connections wv (host h) = None"
  defines "c \<equiv> nextConn n"
  shows "\<exists>n'. connectByVatId v h n = (Ret (Some c), n') \<and>
     links n' = ((fst (links n))(c \<mapsto> (v, host h, unique h, Some (Suc c), host h),
                    Suc c \<mapsto> (host h, v, unique h, Some c, v)),
        (if unique h then fst (snd (links n))
         else (fst (snd (links n)))(v \<mapsto> (vat_connections wv)(host h \<mapsto> c),
                host h \<mapsto> (vat_connections wp)(v \<mapsto> Suc c))), Suc (Suc c))"
proof -
  obtain c1 n1 where n1: "newConnection v (host h) (unique h) n = (c1, n1)" by fastforce
  note L1 = links_newConnection [OF n1 v]
  have p1: "vats n1 (host h) = Some wp" using L1(4) ne p by simp
  obtain c2 n2 where n2: "newConnection (host h) v (unique h) n1 = (c2, n2)" by fastforce
  note L2 = links_newConnection [OF n2 p1]
  have c1: "c1 = c" using L1(1) by (simp add: c_def)
  have c2: "c2 = Suc c" using L2(1) L1(5) c1 by simp
  from L1(3) c1 obtain k where k1: "conns n1 = (conns n)(c \<mapsto> k)"
    and k: "link k = (v, host h, unique h, None, [])" by blast
  from L2(3) c2 obtain l where l2: "conns n2 = (conns n1)(Suc c \<mapsto> l)"
    and l: "link l = (host h, v, unique h, None, [])" by blast
  have kl: "conns n2 c = Some k" "conns n2 (Suc c) = Some l" by (simp_all add: k1 l2)
  have free: "partner (conn_of n2 c) = None" "partner (conn_of n2 (Suc c)) = None"
    using k l by (simp_all add: conn_of_def kl link_def)
  from attach_new [OF free kl] obtain n3 where n3: "attach c (Suc c) n2 = (Ret (), n3)"
    "vats n3 = vats n2" "nextConn n3 = nextConn n2"
    "conns n3 = (conns n2)(c \<mapsto> k\<lparr>partner := Some (Suc c), partnerName := vat l\<rparr>,
       Suc c \<mapsto> l\<lparr>partner := Some c, partnerName := vat k\<rparr>)" by auto
  let ?n = "upd_vat (host h) (\<lambda>w. w\<lparr>acceptQueue := acceptQueue w @ [Push (Some (Suc c))]\<rparr>) n3"
  have "connectByVatId v h n = (Ret (Some c), ?n)"
    using v p ne new n1 n2 n3(1) c1 c2
    by (auto simp: connectByVatId_def vat_of_def split: option.split)
  moreover have "links ?n = links n3" by (rule links_upd_vat) simp
  moreover have "links n3 = ((fst (links n2))(c \<mapsto> (v, host h, unique h, Some (Suc c), host h),
      Suc c \<mapsto> (host h, v, unique h, Some c, v)), snd (links n2))"
    using n3 k l by (auto simp: links_def link_def)
  ultimately show ?thesis
    using L1(2) L2(2) c1 c2 by (simp add: fun_upd_twist [of _ c])
qed

lemma connect_cases:
  assumes "vats n v = Some wv"
  obtains (self) "host h = v" "connectByVatId v h n = (Ret None, n)"
    | (unknown) "host h \<noteq> v" "vats n (host h) = None"
        "connectByVatId v h n = (Throw (StdEx (''unknown vat host: '' @ host h)), n)"
    | (reuse) c where "host h \<noteq> v" "vats n (host h) \<noteq> None" "\<not> unique h"
        "vat_connections wv (host h) = Some c" "connectByVatId v h n = (Ret (Some c), n)"
    | (new) wp where "host h \<noteq> v" "vats n (host h) = Some wp"
        "unique h \<or> vat_connections wv (host h) = None"
proof -
  show thesis
  proof (cases "host h = v \<or> vats n (host h) = None")
    case True
    with self unknown show thesis by (auto simp: connectByVatId_def)
  next
    case False
    show thesis
    proof (cases "\<not> unique h \<and> vat_connections wv (host h) \<noteq> None")
      case True
      then obtain c where "vat_connections wv (host h) = Some c" by blast
      with reuse [of c] True False assms show thesis by (auto simp: connectByVatId_def vat_of_def)
    qed (use new False in auto)
  qed
qed

lemma inv_connectByVatId:
  assumes inv: "net_inv n" and v: "vats n v \<noteq> None" and run: "connectByVatId v h n = (r, n')"
  shows "net_inv n'"
proof -
  from v obtain wv where wv: "vats n v = Some wv" by blast
  then show ?thesis
  proof (cases rule: connect_cases [of n v wv h])
    case (new wp)
    from connect_new [OF wv new(2,1,3)] run
    have L: "links n' = ((fst (links n))(nextConn n \<mapsto> (v, host h, unique h, Some (Suc (nextConn n)), host h),
                    Suc (nextConn n) \<mapsto> (host h, v, unique h, Some (nextConn n), v)),
        (if unique h then fst (snd (links n))
         else (fst (snd (links n)))(v \<mapsto> (vat_connections wv)(host h \<mapsto> nextConn n),
                host h \<mapsto> (vat_connections wp)(v \<mapsto> Suc (nextConn n)))), Suc (Suc (nextConn n)))" by auto
    have ok: "links_ok (fst (links n), fst (snd (links n)), nextConn n)"
      using inv by (simp add: net_inv_def links_def)
    show ?thesis unfolding net_inv_def L
      by (rule links_ok_pair [OF ok]) (use wv new in \<open>simp_all add: links_def\<close>)
  qed (use run inv in auto)
qed

lemma links_destroy:
  assumes "conns n c = Some k" and "partner k \<noteq> Some c"
  shows "links (destroyConnection c n) =
     ((forget (partner k) (fst (links n)))(c := None),
      (if isUnique k then fst (snd (links n))
       else (fst (snd (links n)))(vat k := map_option (\<lambda>m. m(peerVat k := None)) (fst (snd (links n)) (vat k)))),
      nextConn n)"
proof -
  have up: "links (n0\<lparr>conns := (conns n0)(c := None)\<rparr>) = ((fst (links n0))(c := None), snd (links n0))" for n0
    by (auto simp: links_def)
  have told: "links (upd_conn d (\<lambda>q. q\<lparr>partner := None\<rparr>) n0) = (forget (Some d) (fst (links n0)), snd (links n0))"
    for d n0
    by (auto simp: links_def upd_conn_def forget_def link_def option.map_comp comp_def)
  have vat: "links (upd_vat (vat k) (\<lambda>w. w\<lparr>vat_connections := (vat_connections w)(peerVat k := None)\<rparr>) n) =
      (fst (links n), (fst (snd (links n)))(vat k := map_option (\<lambda>m. m(peerVat k := None)) (fst (snd (links n)) (vat k))),
       nextConn n)"
    by (auto simp: links_def upd_vat_def option.map_comp comp_def)
  have sl: "snd (links n) = (fst (snd (links n)), nextConn n)" by (simp add: links_def)
  have fN: "forget None K = K" for K by (simp add: forget_def)
  show ?thesis
    using assms sl
    by (cases "partner k"; cases "isUnique k")
      (simp_all add: destroyConnection_def Let_def conn_of_def up told vat fN)
qed

lemma inv_destroy:
  assumes inv: "net_inv n" and c: "conns n c \<noteq> None"
  shows "net_inv (destroyConnection c n)"
proof -
  from c obtain k where k: "conns n c = Some k" by blast
  have ok: "links_ok (fst (links n), fst (snd (links n)), nextConn n)"
    using inv by (simp add: net_inv_def links_def)
  have K: "fst (links n) c = Some (vat k, peerVat k, isUnique k, partner k, partnerName k)"
    by (simp add: links_def k link_def)
  have "partner k \<noteq> Some c" using links_okD(4) [OF ok] K by metis
  from links_destroy [OF k this] links_ok_destroy [OF ok K] show ?thesis
    by (simp add: net_inv_def links_def)
qed

section \<open>Every run of the network\<close>

text \<open>
  \<open>net_run n\<close>: \<open>n\<close> is reached from the empty network by what the runtime and the RPC
  library may call, on vats and connections that exist.
\<close>

inductive net_run :: "generic_network \<Rightarrow> bool" where
  start: "net_run network_init"
| add: "net_run n \<Longrightarrow> add name n = (r, n') \<Longrightarrow> net_run n'"
| connect: "net_run n \<Longrightarrow> vats n v \<noteq> None \<Longrightarrow> connect v h n = (r', n') \<Longrightarrow> net_run n'"
| accept: "net_run n \<Longrightarrow> net_run (accept v n)"
| destroy: "net_run n \<Longrightarrow> conns n c \<noteq> None \<Longrightarrow> net_run (destroyConnection c n)"
| idle_shutdown: "net_run n \<Longrightarrow> net_run (initiateIdleShutdown c n)"
| disconnect: "net_run n \<Longrightarrow> net_run (disconnect c e n)"
| block: "net_run n \<Longrightarrow> net_run (block c n)"
| unblock: "net_run n \<Longrightarrow> net_run (unblock c n)"
| on_send: "net_run n \<Longrightarrow> net_run (onSend h c n)"
| send: "net_run n \<Longrightarrow> net_run (send c m n)"
| task: "net_run n \<Longrightarrow> net_run (runTask c i n)"
| receive: "net_run n \<Longrightarrow> receiveIncomingMessage c n = (x, n') \<Longrightarrow> net_run n'"
| popped: "net_run n \<Longrightarrow> receivePopped c result n = (y, n') \<Longrightarrow> net_run n'"
| shutdown: "net_run n \<Longrightarrow> shutdownLater c n = (e', n') \<Longrightarrow> net_run n'"
| idle: "net_run n \<Longrightarrow> setIdle b c n = (r, n') \<Longrightarrow> net_run n'"
| introduce: "net_run n \<Longrightarrow> introduceTo c d n = (z, n') \<Longrightarrow> net_run n'"
| introduced: "net_run n \<Longrightarrow> conns n c \<noteq> None \<Longrightarrow> connectToIntroduced c ct n = (q, n') \<Longrightarrow> net_run n'"
| can_forward: "net_run n \<Longrightarrow> canForwardThirdPartyToContact c n = (b, n') \<Longrightarrow> net_run n'"
| forward: "net_run n \<Longrightarrow> forwardThirdPartyToContact c ct n = (f, n') \<Longrightarrow> net_run n'"
| await: "net_run n \<Longrightarrow> awaitThirdParty c t obj n = (g, n') \<Longrightarrow> net_run n'"
| released: "net_run n \<Longrightarrow> net_run (eraseThirdPartyExchange v t n)"
| complete: "net_run n \<Longrightarrow> completeThirdParty c t n = (j, n') \<Longrightarrow> net_run n'"
| forwarding: "net_run n \<Longrightarrow> net_run (setForwardingEnabled b n)"
| reset_stats: "net_run n \<Longrightarrow> net_run (resetForwardingStats n)"
| reset_trace: "net_run n \<Longrightarrow> net_run (resetProtocolMessageTrace c n)"

lemma net_inv_live_vat: "net_inv n \<Longrightarrow> conns n c = Some k \<Longrightarrow> vats n (vat k) \<noteq> None"
  unfolding net_inv_def
  using links_okD(2) [of "fst (links n)" "fst (snd (links n))" "snd (snd (links n))" c]
  by (force simp: links_def link_def)

lemma inv_connectToIntroduced:
  assumes "net_inv n" and "conns n c \<noteq> None" and "connectToIntroduced c ct n = (q, n')"
  shows "net_inv n'"
proof -
  from assms(2) obtain k where k: "conns n c = Some k" by blast
  have v: "vats n (vat (conn_of n c)) \<noteq> None"
    using net_inv_live_vat [OF assms(1) k] k by (simp add: conn_of_def)
  show ?thesis
    using assms(3) assms(1) inv_connectByVatId [OF assms(1) v]
    by (auto simp: connectToIntroduced_def Let_def elim!: bnd_cases split: if_splits)
qed

lemma net_run_inv: "net_run n \<Longrightarrow> net_inv n"
proof (induction rule: net_run.induct)
  case start
  show ?case by (rule inv_init)
next
  case (add n name r n')
  then show ?case using inv_add by blast
next
  case (connect n v h r n')
  then show ?case using inv_connectByVatId by (auto simp: connect_def)
next
  case (destroy n c)
  then show ?case using inv_destroy by blast
next
  case (introduced n c ct q n')
  then show ?case using inv_connectToIntroduced by blast
next
  case (forwarding n b)
  then show ?case by (simp add: setForwardingEnabled_def net_inv_def)
next
  case (reset_stats n)
  then show ?case by (simp add: resetForwardingStats_def net_inv_def)
qed (rule net_inv_same, assumption, (rule links_accept links_idle_shutdown links_disconnect links_block
    links_unblock links_onSend links_send links_runTask links_eraseExchange links_resets
  | erule links_receive links_receivePopped links_shutdownLater links_setIdle links_introduceTo links_canForward
    links_forward links_await links_complete))+

text \<open>C16. No vat and no connection ever refers to a connection that is gone: what
  \<^verbatim>\<open>getConnectionTo\<close> returns is alive, belongs to that vat and leads to that peer, and a
  partner is alive and points back.\<close>

theorem no_dangling_connection:
  assumes "net_run n"
  shows "(\<forall>v w p c. vats n v = Some w \<and> getConnectionTo v p n = Some c \<longrightarrow>
      (\<exists>k. conns n c = Some k \<and> vat k = v \<and> peerVat k = p \<and> \<not> isUnique k)) \<and>
    (\<forall>c k d. conns n c = Some k \<and> partner k = Some d \<longrightarrow>
      (\<exists>l. conns n d = Some l \<and> partner l = Some c \<and> vat l = peerVat k \<and> partnerName k = vat l))"
proof -
  have ok: "links_ok (fst (links n), fst (snd (links n)), nextConn n)"
    using net_run_inv [OF assms] by (simp add: net_inv_def links_def)
  have "\<exists>k. conns n c = Some k \<and> vat k = v \<and> peerVat k = p \<and> \<not> isUnique k"
    if "vats n v = Some w" "getConnectionTo v p n = Some c" for v w p c
    using links_okD(5) [OF ok, of v "vat_connections w" p c] that
    by (auto simp: links_def getConnectionTo_def vat_of_def link_def)
  moreover have "\<exists>l. conns n d = Some l \<and> partner l = Some c \<and> vat l = peerVat k \<and> partnerName k = vat l"
    if "conns n c = Some k" "partner k = Some d" for c k d
    using links_okD(4) [OF ok, of c "vat k" "peerVat k" "isUnique k" d "partnerName k"] that
    by (auto simp: links_def link_def)
  ultimately show ?thesis by blast
qed

text \<open>Two vats, and the connection of the first to the second.\<close>

definition two_vats :: generic_network where
  "two_vats = snd (add ''B'' (snd (add ''A'' network_init)))"

definition dial_B :: "generic_network \<Rightarrow> generic_network" where
  "dial_B n = snd (connect ''A'' \<lparr>host = ''B'', unique = False\<rparr> n)"

lemmas vat_eval = two_vats_def dial_B_def connect_def connectByVatId_def add_def network_init_def
  newConnection_def attach_def upd_vat_def upd_conn_def conn_of_def vat_of_def decodeLeanVatId_def c_str_def

lemma net_run_two_vats: "net_run two_vats"
  unfolding two_vats_def
  by (rule net_run.add [OF net_run.add [OF net_run.start prod.collapse [symmetric]] prod.collapse [symmetric]])

lemma net_run_dial_B: "net_run n \<Longrightarrow> vats n ''A'' \<noteq> None \<Longrightarrow> net_run (dial_B n)"
  unfolding dial_B_def by (rule net_run.connect [OF _ _ prod.collapse [symmetric]])

lemma dialled:
  "net_run (dial_B two_vats)" "getConnectionTo ''A'' ''B'' (dial_B two_vats) = Some 0"
  "getConnectionTo ''B'' ''A'' (dial_B two_vats) = Some 1"
  "vats (dial_B two_vats) ''A'' \<noteq> None" "conns (dial_B two_vats) 0 \<noteq> None"
  by (rule net_run_dial_B [OF net_run_two_vats]) (simp_all add: vat_eval getConnectionTo_def Let_def)

lemma no_dangling_connection_witness:
  "\<exists>k. conns (dial_B two_vats) 0 = Some k \<and> vat k = ''A'' \<and> peerVat k = ''B''"
proof -
  obtain w where "vats (dial_B two_vats) ''A'' = Some w" using dialled(4) by blast
  with no_dangling_connection [OF dialled(1)] dialled(2) show ?thesis by blast
qed

text \<open>\<^verbatim>\<open>~ConnectionImpl\<close> erases the vat's entry for its peer even when that entry is
  another, newer connection: the newer one stays alive and attached, but
  \<^verbatim>\<open>getConnectionTo\<close> no longer finds it, and the next connect makes one more connection
  next to it.\<close>

theorem stale_destructor_unregisters:
  assumes "net_run n" and "conns n old = Some k" and "\<not> isUnique k" and "peerVat k \<noteq> vat k"
    and "vats n (vat k) = Some w" and "vat_connections w (peerVat k) = Some new" and "new \<noteq> old"
  shows "getConnectionTo (vat k) (peerVat k) (destroyConnection old n) = None \<and>
    (\<exists>l. conns (destroyConnection old n) new = Some l \<and> vat l = vat k \<and> peerVat l = peerVat k \<and> \<not> isUnique l) \<and>
    (\<exists>c n'. connectByVatId (vat k) \<lparr>host = peerVat k, unique = False\<rparr> (destroyConnection old n) = (Ret (Some c), n') \<and>
      c \<noteq> new)"
proof -
  let ?n = "destroyConnection old n"
  have inv: "net_inv n" using net_run_inv [OF assms(1)] .
  have ok: "links_ok (fst (links n), fst (snd (links n)), nextConn n)"
    using inv by (simp add: net_inv_def links_def)
  have K: "fst (links n) old = Some (vat k, peerVat k, isUnique k, partner k, partnerName k)"
    by (simp add: links_def assms(2) link_def)
  have "partner k \<noteq> Some old" using links_okD(4) [OF ok] K by metis
  note L = links_destroy [OF assms(2) this]
  have V: "fst (snd (links n)) (vat k) = Some (vat_connections w)" by (simp add: links_def assms(5))
  from links_okD(5) [OF ok V assms(6)] obtain q pn where
    new: "fst (links n) new = Some (vat k, peerVat k, False, q, pn)" by blast
  obtain w' where w': "vats ?n (vat k) = Some w'" "vat_connections w' (peerVat k) = None"
    using arg_cong [OF L, of "\<lambda>x. fst (snd x) (vat k)"] V assms(3)
    by (cases "vats ?n (vat k)") (auto simp: links_def)
  obtain q' where "forget (partner k) (fst (links n)) new = Some (vat k, peerVat k, False, q', pn)"
    using forget_keeps [of "fst (links n)", OF new] by blast
  then have "fst (links ?n) new = Some (vat k, peerVat k, False, q', pn)" using L assms(7) by simp
  then obtain l where l: "conns ?n new = Some l" "vat l = vat k" "peerVat l = peerVat k" "\<not> isUnique l"
    by (auto simp: links_def link_def)
  have inv': "net_inv ?n" using inv_destroy [OF inv] assms(2) by simp
  have "fst (snd (links n)) (peerVat k) \<noteq> None" using links_okD(3) [OF ok K] by simp
  then have "fst (snd (links ?n)) (peerVat k) \<noteq> None" using L assms(3,4) by simp
  then obtain wp where wp: "vats ?n (peerVat k) = Some wp" by (auto simp: links_def)
  have lt: "new \<noteq> nextConn ?n"
  proof
    assume "new = nextConn ?n"
    with inv' l(1) show False
      using links_okD(1) [of "fst (links ?n)" "fst (snd (links ?n))" "nextConn ?n" new]
      by (simp add: net_inv_def links_def)
  qed
  have "\<exists>n'. connectByVatId (vat k) \<lparr>host = peerVat k, unique = False\<rparr> ?n = (Ret (Some (nextConn ?n)), n')"
    using connect_new [OF w'(1), of "\<lparr>host = peerVat k, unique = False\<rparr>" wp] wp w'(2) assms(4) by auto
  with l lt w' show ?thesis by (auto simp: getConnectionTo_def vat_of_def)
qed

text \<open>The first vat drops its side and dials again before the second has dropped its own.\<close>

definition dialled_twice :: generic_network where
  "dialled_twice = dial_B (destroyConnection 0 (dial_B two_vats))"

lemma net_run_dialled_twice: "net_run dialled_twice"
  unfolding dialled_twice_def
  by (rule net_run_dial_B [OF net_run.destroy [OF dialled(1,5)]])
    (simp add: vat_eval destroyConnection_def break_block_def Let_def)

lemma stale_destructor_unregisters_witness:
  "getConnectionTo ''B'' ''A'' dialled_twice = Some 3 \<and>
   getConnectionTo ''B'' ''A'' (destroyConnection 1 dialled_twice) = None"
proof -
  obtain k w where "conns dialled_twice 1 = Some k" "\<not> isUnique k" "vat k = ''B''" "peerVat k = ''A''"
    "vats dialled_twice ''B'' = Some w" "vat_connections w ''A'' = Some 3"
    by (simp add: dialled_twice_def vat_eval destroyConnection_def break_block_def Let_def)
  with stale_destructor_unregisters [OF net_run_dialled_twice, of 1 k w 3] show ?thesis
    by (simp add: getConnectionTo_def vat_of_def)
qed

section \<open>Sending in order\<close>

text \<open>The messages a partner's queue was given.\<close>

definition pushed :: "connection \<Rightarrow> rpc_message option list" where
  "pushed k = concat (map (\<lambda>q. case q of Push m \<Rightarrow> [m] | _ \<Rightarrow> []) (messageQueue k))"

definition send_all :: "nat \<Rightarrow> rpc_message list \<Rightarrow> generic_network \<Rightarrow> generic_network" where
  "send_all c ms n = foldl (\<lambda>n' m. send c m n') n ms"

definition protocol_tag :: "rpc_message \<Rightarrow> u16 list" where
  "protocol_tag m = (case msg_which m of RESOLVE \<Rightarrow> [1] | DISEMBARGO \<Rightarrow> [2] | OTHER_MESSAGE _ \<Rightarrow> [])"

definition open_conn :: "nat \<Rightarrow> connection \<Rightarrow> (nat option \<times> rpc_message) list \<Rightarrow> generic_network \<Rightarrow> bool" where
  "open_conn c k ts n \<longleftrightarrow> conns n c = Some k \<and> networkException k = None \<and> onSendHandler k = None \<and> tasks k = Some ts"

text \<open>One send on an open connection, as a change of its record and of its vat's counter.\<close>

lemma send_open:
  assumes "open_conn c k ts n"
  shows "conns (send c m n) = (conns n)(c \<mapsto>
      (recordProtocolMessage m k)\<lparr>tasks := Some (ts @ [(currentBlock k, m)])\<rparr>)"
    and "vats (send c m n) = (vats n)(vat k := map_option (\<lambda>w. w\<lparr>sent := sent w + 1\<rparr>) (vats n (vat k)))"
    and "blocks (send c m n) = blocks n"
  using assms
  by (simp_all add: send_def open_conn_def conn_of_def upd_conn_def upd_vat_def Let_def
      recordProtocolMessage_def split: which.split)

lemma record_fields [simp]:
  "vat (recordProtocolMessage m k) = vat k" "partner (recordProtocolMessage m k) = partner k"
  "currentBlock (recordProtocolMessage m k) = currentBlock k" "tasks (recordProtocolMessage m k) = tasks k"
  "messageQueue (recordProtocolMessage m k) = messageQueue k"
  "networkException (recordProtocolMessage m k) = networkException k"
  "onSendHandler (recordProtocolMessage m k) = onSendHandler k"
  "recordProtocolMessage m (k\<lparr>tasks := x\<rparr>) = (recordProtocolMessage m k)\<lparr>tasks := x\<rparr>"
  by (simp_all add: recordProtocolMessage_def split: which.split)

lemma fold_record_fields [simp]:
  "vat (fold recordProtocolMessage ms k) = vat k" "partner (fold recordProtocolMessage ms k) = partner k"
  "currentBlock (fold recordProtocolMessage ms k) = currentBlock k"
  "tasks (fold recordProtocolMessage ms k) = tasks k"
  "messageQueue (fold recordProtocolMessage ms k) = messageQueue k"
  "networkException (fold recordProtocolMessage ms k) = networkException k"
  "onSendHandler (fold recordProtocolMessage ms k) = onSendHandler k"
  "fold recordProtocolMessage ms (k\<lparr>tasks := x\<rparr>) = (fold recordProtocolMessage ms k)\<lparr>tasks := x\<rparr>"
  by (induction ms arbitrary: k) simp_all

lemma fold_record_trace:
  "protocolMessageTrace (fold recordProtocolMessage ms k) = protocolMessageTrace k @ concat (map protocol_tag ms)"
  by (induction ms arbitrary: k) (simp_all add: recordProtocolMessage_def protocol_tag_def split: which.split)

lemma fold_record_counts:
  "resolveCount (protocolMessageCounts (fold recordProtocolMessage ms k)) =
     resolveCount (protocolMessageCounts k) + of_nat (length (filter (\<lambda>m. msg_which m = RESOLVE) ms))"
  "disembargoCount (protocolMessageCounts (fold recordProtocolMessage ms k)) =
     disembargoCount (protocolMessageCounts k) + of_nat (length (filter (\<lambda>m. msg_which m = DISEMBARGO) ms))"
  by (induction ms arbitrary: k) (simp_all add: recordProtocolMessage_def split: which.split)

lemma open_send:
  assumes "open_conn c k ts n"
  shows "open_conn c ((recordProtocolMessage m k)\<lparr>tasks := Some (ts @ [(currentBlock k, m)])\<rparr>)
     (ts @ [(currentBlock k, m)]) (send c m n)"
  using assms send_open [OF assms, of m] by (simp add: open_conn_def)

lemma send_all_open:
  assumes "open_conn c k ts n"
  shows "conns (send_all c ms n) = (conns n)(c \<mapsto>
      (fold recordProtocolMessage ms k)\<lparr>tasks := Some (ts @ map (Pair (currentBlock k)) ms)\<rparr>)"
    and "blocks (send_all c ms n) = blocks n"
    and "vats n (vat k) = Some w \<Longrightarrow>
      vats (send_all c ms n) = (vats n)(vat k \<mapsto> w\<lparr>sent := sent w + of_nat (length ms)\<rparr>)"
  using assms
proof (induction ms arbitrary: n k ts w)
  case Nil
  {
    case 1
    then show ?case by (simp add: send_all_def open_conn_def fun_upd_idem)
  next
    case 2
    then show ?case by (simp add: send_all_def)
  next
    case 3
    then show ?case by (simp add: send_all_def fun_upd_idem)
  }
next
  case (Cons m ms)
  have eq: "send_all c (m # ms) n = send_all c ms (send c m n)" for n by (simp add: send_all_def)
  {
    case 1
    then show ?case unfolding eq
      using Cons.IH(1) [OF open_send [OF 1, of m]] send_open [OF 1, of m] by (simp add: fun_eq_iff)
  next
    case 2
    then show ?case unfolding eq
      using Cons.IH(2) [OF open_send [OF 2, of m]] send_open [OF 2, of m] by simp
  next
    case 3
    note S = send_open(2) [OF 3(2), of m]
    have "vats (send c m n) (vat ((recordProtocolMessage m k)\<lparr>tasks := Some (ts @ [(currentBlock k, m)])\<rparr>)) =
        Some (w\<lparr>sent := sent w + 1\<rparr>)"
      using 3(1) S by simp
    from Cons.IH(3) [OF this open_send [OF 3(2), of m]] S 3(1) show ?case unfolding eq by (simp add: ac_simps fun_eq_iff)
  }
qed

text \<open>Messages sent on an open connection are all counted and traced in order: the vat's
  counter grows by their number, the Resolve and Disembargo counters by the number of each, the trace
  by one tag each (1 and 2), and every message is queued for delivery in the order of the sends,
  waiting for the block that was set.\<close>

theorem send_all_recorded:
  assumes "conns n c = Some k" and "networkException k = None" and "onSendHandler k = None"
    and "tasks k = Some ts" and "vats n (vat k) = Some w"
  shows "\<exists>k'. conns (send_all c ms n) = (conns n)(c \<mapsto> k') \<and>
     tasks k' = Some (ts @ map (Pair (currentBlock k)) ms) \<and>
     protocolMessageTrace k' = protocolMessageTrace k @ concat (map protocol_tag ms) \<and>
     resolveCount (protocolMessageCounts k') =
       resolveCount (protocolMessageCounts k) + of_nat (length (filter (\<lambda>m. msg_which m = RESOLVE) ms)) \<and>
     disembargoCount (protocolMessageCounts k') =
       disembargoCount (protocolMessageCounts k) + of_nat (length (filter (\<lambda>m. msg_which m = DISEMBARGO) ms)) \<and>
     vats (send_all c ms n) = (vats n)(vat k \<mapsto> w\<lparr>sent := sent w + of_nat (length ms)\<rparr>)"
proof -
  have o: "open_conn c k ts n" using assms by (simp add: open_conn_def)
  show ?thesis
    using send_all_open [OF o] assms(5) fold_record_trace [of ms k] fold_record_counts [of ms k]
    by (intro exI [of _ "(fold recordProtocolMessage ms k)\<lparr>tasks := Some (ts @ map (Pair (currentBlock k)) ms)\<rparr>"])
      simp
qed

lemma send_all_recorded_witness:
  "\<exists>k'. conns (send_all 0 [\<lparr>msg_which = RESOLVE, msg_words = [7]\<rparr>, \<lparr>msg_which = OTHER_MESSAGE 2, msg_words = []\<rparr>,
      \<lparr>msg_which = DISEMBARGO, msg_words = []\<rparr>] (dial_B two_vats)) 0 = Some k' \<and>
    protocolMessageTrace k' = [1, 2]"
proof -
  obtain k w where k: "conns (dial_B two_vats) 0 = Some k" "networkException k = None" "onSendHandler k = None"
    "tasks k = Some []" "protocolMessageTrace k = []" "vats (dial_B two_vats) (vat k) = Some w"
    by (simp add: vat_eval Let_def)
  from send_all_recorded [OF k(1-4,6), of "[\<lparr>msg_which = RESOLVE, msg_words = [7]\<rparr>,
      \<lparr>msg_which = OTHER_MESSAGE 2, msg_words = []\<rparr>, \<lparr>msg_which = DISEMBARGO, msg_words = []\<rparr>]"]
  show ?thesis by (auto simp: k(5) protocol_tag_def)
qed

section \<open>Blocks\<close>

definition deliver :: "nat \<Rightarrow> nat \<Rightarrow> generic_network \<Rightarrow> generic_network" where
  "deliver c i n = (runTask c 0 ^^ i) n"

lemma deliver_0 [simp]: "deliver c 0 n = n"
  by (simp add: deliver_def)

lemma deliver_Suc: "deliver c (Suc i) n = deliver c i (runTask c 0 n)"
  by (simp add: deliver_def funpow_Suc_right del: funpow.simps)

lemma run_head:
  assumes "conns n c = Some k" and "tasks k = Some ((Some b, m) # ts)" and "blocks n ! b = Fulfilled"
    and "partner k = Some p" and "p \<noteq> c" and "conns n p = Some q"
  shows "runTask c 0 n = n\<lparr>conns := (conns n)(c \<mapsto> k\<lparr>tasks := Some ts\<rparr>, p \<mapsto> push (Some m) q)\<rparr>"
  using assms by (simp add: runTask_def conn_of_def task_ready_def upd_conn_def Let_def)

lemma run_head_broken:
  assumes "conns n c = Some k" and "tasks k = Some ((Some b, m) # ts)" and "blocks n ! b = Broken"
  shows "runTask c 0 n = n\<lparr>conns := (conns n)(c \<mapsto> k\<lparr>tasks := Some ts\<rparr>)\<rparr>"
  using assms by (simp add: runTask_def conn_of_def task_ready_def upd_conn_def Let_def)

lemma deliver_fulfilled:
  assumes "conns n c = Some k" and "tasks k = Some (map (Pair (Some b)) ms)" and "blocks n ! b = Fulfilled"
    and "partner k = Some p" and "p \<noteq> c" and "conns n p = Some q"
  shows "conns (deliver c (length ms) n) = (conns n)(c \<mapsto> k\<lparr>tasks := Some []\<rparr>,
      p \<mapsto> q\<lparr>messageQueue := messageQueue q @ map (Push \<circ> Some) ms\<rparr>)"
  using assms
proof (induction ms arbitrary: n k q)
  case Nil
  then show ?case by (auto simp: fun_eq_iff)
next
  case (Cons m ms)
  let ?n = "n\<lparr>conns := (conns n)(c \<mapsto> k\<lparr>tasks := Some (map (Pair (Some b)) ms)\<rparr>, p \<mapsto> push (Some m) q)\<rparr>"
  have step: "runTask c 0 n = ?n"
    using run_head [OF Cons.prems(1) _ Cons.prems(3-6)] Cons.prems(2) by simp
  have "conns (deliver c (length ms) ?n) = (conns ?n)(c \<mapsto> (k\<lparr>tasks := Some (map (Pair (Some b)) ms)\<rparr>)\<lparr>tasks := Some []\<rparr>,
      p \<mapsto> (push (Some m) q)\<lparr>messageQueue := messageQueue (push (Some m) q) @ map (Push \<circ> Some) ms\<rparr>)"
    by (rule Cons.IH) (use Cons.prems in simp_all)
  then show ?case
    using Cons.prems(5) by (auto simp: deliver_Suc step push_def fun_eq_iff)
qed

lemma deliver_broken:
  assumes "conns n c = Some k" and "tasks k = Some (map (Pair (Some b)) ms)" and "blocks n ! b = Broken"
  shows "conns (deliver c (length ms) n) = (conns n)(c \<mapsto> k\<lparr>tasks := Some []\<rparr>)"
  using assms
proof (induction ms arbitrary: n k)
  case Nil
  then show ?case by (auto simp: fun_eq_iff)
next
  case (Cons m ms)
  let ?n = "n\<lparr>conns := (conns n)(c \<mapsto> k\<lparr>tasks := Some (map (Pair (Some b)) ms)\<rparr>)\<rparr>"
  have step: "runTask c 0 n = ?n"
    using run_head_broken [OF Cons.prems(1) _ Cons.prems(3)] Cons.prems(2) by simp
  have "conns (deliver c (length ms) ?n) = (conns ?n)(c \<mapsto> (k\<lparr>tasks := Some (map (Pair (Some b)) ms)\<rparr>)\<lparr>tasks := Some []\<rparr>)"
    by (rule Cons.IH) (use Cons.prems in simp_all)
  then show ?case by (simp add: deliver_Suc step)
qed

text \<open>The state after a block and some sends.\<close>

lemma blocked_sends:
  assumes "conns n c = Some k" and "networkException k = None" and "onSendHandler k = None"
    and "tasks k = Some []" and "currentBlock k = None"
  defines "b \<equiv> length (blocks n)"
  shows "conns (send_all c ms (block c n)) = (conns n)(c \<mapsto>
      (fold recordProtocolMessage ms (k\<lparr>currentBlock := Some b\<rparr>))\<lparr>tasks := Some (map (Pair (Some b)) ms)\<rparr>)"
    and "blocks (send_all c ms (block c n)) = blocks n @ [Waiting]"
proof -
  have blk: "block c n = n\<lparr>blocks := blocks n @ [Waiting], conns := (conns n)(c \<mapsto> k\<lparr>currentBlock := Some b\<rparr>)\<rparr>"
    using assms by (simp add: block_def Let_def break_block_def upd_conn_def conn_of_def)
  have o: "open_conn c (k\<lparr>currentBlock := Some b\<rparr>) [] (block c n)"
    using assms by (simp add: blk open_conn_def)
  show "conns (send_all c ms (block c n)) = (conns n)(c \<mapsto>
      (fold recordProtocolMessage ms (k\<lparr>currentBlock := Some b\<rparr>))\<lparr>tasks := Some (map (Pair (Some b)) ms)\<rparr>)"
    using send_all_open(1) [OF o, of ms] by (simp add: blk fun_eq_iff)
  show "blocks (send_all c ms (block c n)) = blocks n @ [Waiting]"
    using send_all_open(2) [OF o, of ms] by (simp add: blk)
qed

text \<open>C17. A block holds everything back and an unblock lets it through in order: while the
  connection is blocked no task can run, so nothing that was sent reaches the partner; after the
  unblock the tasks put exactly the messages sent, in the order of the sends, into the partner's
  queue, and none is left.\<close>

theorem block_holds_unblock_delivers:
  assumes "net_run n" and "conns n c = Some k" and "networkException k = None" and "onSendHandler k = None"
    and "tasks k = Some []" and "currentBlock k = None" and "partner k = Some p" and "conns n p = Some q"
  shows "runTask c i (send_all c ms (block c n)) = send_all c ms (block c n) \<and>
    (\<exists>k' q'. conns (deliver c (length ms) (unblock c (send_all c ms (block c n)))) = (conns n)(c \<mapsto> k', p \<mapsto> q') \<and>
       tasks k' = Some [] \<and> currentBlock k' = None \<and>
       messageQueue q' = messageQueue q @ map (Push \<circ> Some) ms)"
proof -
  let ?b = "length (blocks n)" and ?n = "send_all c ms (block c n)"
  let ?k = "(fold recordProtocolMessage ms (k\<lparr>currentBlock := Some ?b\<rparr>))\<lparr>tasks := Some (map (Pair (Some ?b)) ms)\<rparr>"
  have "p \<noteq> c"
    using net_run_inv [OF assms(1)] assms(2,7)
      links_okD(4) [of "fst (links n)" "fst (snd (links n))" "snd (snd (links n))" c "vat k" "peerVat k" "isUnique k" p]
    by (auto simp: net_inv_def links_def link_def)
  note S = blocked_sends [OF assms(2-6), of ms]
  have "\<not> task_ready (Some ?b) ?n" by (simp add: task_ready_def S nth_append)
  then have held: "runTask c i ?n = ?n"
    by (cases "i < length ms") (simp_all add: runTask_def conn_of_def S)
  let ?u = "unblock c ?n"
  have un: "conns ?u = (conns n)(c \<mapsto> ?k\<lparr>currentBlock := None\<rparr>)" "blocks ?u ! ?b = Fulfilled"
    by (simp_all add: unblock_def conn_of_def S upd_conn_def fun_eq_iff)
  have "conns (deliver c (length ms) ?u) = (conns ?u)(c \<mapsto> (?k\<lparr>currentBlock := None\<rparr>)\<lparr>tasks := Some []\<rparr>,
      p \<mapsto> q\<lparr>messageQueue := messageQueue q @ map (Push \<circ> Some) ms\<rparr>)"
    by (rule deliver_fulfilled) (use un \<open>p \<noteq> c\<close> assms in simp_all)
  then show ?thesis
    using held un(1)
    by (intro conjI exI [of _ "(?k\<lparr>currentBlock := None\<rparr>)\<lparr>tasks := Some []\<rparr>"]
        exI [of _ "q\<lparr>messageQueue := messageQueue q @ map (Push \<circ> Some) ms\<rparr>"])
      (simp_all add: fun_eq_iff)
qed

lemma block_holds_unblock_delivers_witness:
  "\<exists>q'. conns (deliver 0 2 (unblock 0 (send_all 0 [\<lparr>msg_which = RESOLVE, msg_words = [1]\<rparr>,
       \<lparr>msg_which = OTHER_MESSAGE 3, msg_words = [2]\<rparr>] (block 0 (dial_B two_vats))))) 1 = Some q' \<and>
     messageQueue q' = [Push (Some \<lparr>msg_which = RESOLVE, msg_words = [1]\<rparr>),
       Push (Some \<lparr>msg_which = OTHER_MESSAGE 3, msg_words = [2]\<rparr>)]"
proof -
  obtain k q where k: "conns (dial_B two_vats) 0 = Some k" "networkException k = None" "onSendHandler k = None"
    "tasks k = Some []" "currentBlock k = None" "partner k = Some 1" "conns (dial_B two_vats) 1 = Some q"
    "messageQueue q = []"
    by (simp add: vat_eval Let_def)
  let ?ms = "[\<lparr>msg_which = RESOLVE, msg_words = [1]\<rparr>, \<lparr>msg_which = OTHER_MESSAGE 3, msg_words = [2]\<rparr>]"
  from block_holds_unblock_delivers [OF dialled(1) k(1-7), of 0 ?ms] obtain k' q'
    where "conns (deliver 0 (length ?ms) (unblock 0 (send_all 0 ?ms (block 0 (dial_B two_vats))))) =
        (conns (dial_B two_vats))(0 \<mapsto> k', 1 \<mapsto> q')"
      and "messageQueue q' = map (Push \<circ> Some) ?ms"
    using k(8) by auto
  moreover have "length ?ms = 2" by simp
  ultimately show ?thesis by (intro exI [of _ q']) (simp add: numeral_2_eq_2)
qed

lemma block_again:
  assumes "conns n c = Some k" and "currentBlock k = Some b" and "b < length (blocks n)" and "blocks n ! b = Waiting"
  shows "block c n = n\<lparr>blocks := (blocks n @ [Waiting])[b := Broken],
     conns := (conns n)(c \<mapsto> k\<lparr>currentBlock := Some (length (blocks n))\<rparr>)\<rparr>"
  using assms by (simp add: block_def Let_def break_block_def upd_conn_def conn_of_def nth_append)

text \<open>A second block before the first is lifted loses what the first one held: its fulfiller
  is destroyed unfulfilled, the waiting deliveries fail, and \<^verbatim>\<open>taskFailed\<close> drops the
  exception; no message reaches the partner, not even after an unblock.\<close>

theorem second_block_drops_messages:
  assumes "conns n c = Some k" and "networkException k = None" and "onSendHandler k = None"
    and "tasks k = Some []" and "currentBlock k = None"
  shows "\<exists>k'. conns (deliver c (length ms) (unblock c (block c (send_all c ms (block c n))))) = (conns n)(c \<mapsto> k') \<and>
    tasks k' = Some []"
proof -
  let ?b = "length (blocks n)" and ?n = "send_all c ms (block c n)"
  let ?k = "(fold recordProtocolMessage ms (k\<lparr>currentBlock := Some ?b\<rparr>))\<lparr>tasks := Some (map (Pair (Some ?b)) ms)\<rparr>"
  note S = blocked_sends [OF assms, of ms]
  let ?u = "unblock c (block c ?n)"
  have "block c ?n = ?n\<lparr>blocks := (blocks n @ [Waiting, Waiting])[?b := Broken],
      conns := (conns n)(c \<mapsto> ?k\<lparr>currentBlock := Some (Suc ?b)\<rparr>)\<rparr>"
    using block_again [of ?n c ?k ?b] by (simp add: S nth_append)
  then have un: "conns ?u = (conns n)(c \<mapsto> ?k\<lparr>currentBlock := None\<rparr>)" "blocks ?u ! ?b = Broken"
    by (simp_all add: unblock_def conn_of_def upd_conn_def nth_append nth_list_update)
  have "conns (deliver c (length ms) ?u) = (conns ?u)(c \<mapsto> (?k\<lparr>currentBlock := None\<rparr>)\<lparr>tasks := Some []\<rparr>)"
    by (rule deliver_broken) (use un in simp_all)
  then show ?thesis using un(1)
    by (intro exI [of _ "(?k\<lparr>currentBlock := None\<rparr>)\<lparr>tasks := Some []\<rparr>"]) (simp add: fun_eq_iff)
qed

lemma second_block_drops_messages_witness:
  "conns (deliver 0 1 (unblock 0 (block 0 (send_all 0 [\<lparr>msg_which = RESOLVE, msg_words = [1]\<rparr>]
     (block 0 (dial_B two_vats)))))) 1 = conns (dial_B two_vats) 1"
proof -
  obtain k where k: "conns (dial_B two_vats) 0 = Some k" "networkException k = None" "onSendHandler k = None"
    "tasks k = Some []" "currentBlock k = None"
    by (simp add: vat_eval Let_def)
  from second_block_drops_messages [OF k, of "[\<lparr>msg_which = RESOLVE, msg_words = [1]\<rparr>]"]
  show ?thesis by auto
qed

section \<open>Third-party handoff\<close>

lemma live_partner:
  assumes "net_run n" and "conns n c = Some k" and "partner k = Some d"
  shows "partnerName k = peerVat k" and "vats n (peerVat k) \<noteq> None" and "vats n (vat k) \<noteq> None"
proof -
  have ok: "links_ok (fst (links n), fst (snd (links n)), nextConn n)"
    using net_run_inv [OF assms(1)] by (simp add: net_inv_def links_def)
  have K: "fst (links n) c = Some (vat k, peerVat k, isUnique k, partner k, partnerName k)"
    by (simp add: links_def assms(2) link_def)
  show "partnerName k = peerVat k" using links_okD(4) [OF ok] K assms(3) by metis
  show "vats n (peerVat k) \<noteq> None" "vats n (vat k) \<noteq> None"
    using links_okD(2,3) [OF ok K] by (auto simp: links_def)
qed

text \<open>A connection made by name is there afterwards, and joins the two vats named.\<close>

lemma connect_reaches:
  assumes inv: "net_inv n" and v: "vats n v \<noteq> None" and h: "vats n h \<noteq> None" and ne: "h \<noteq> v"
  shows "\<exists>c n' k. connectByVatId v \<lparr>host = h, unique = u\<rparr> n = (Ret (Some c), n') \<and>
     conns n' c = Some k \<and> vat k = v \<and> peerVat k = h \<and> isUnique k = u"
proof -
  obtain wv where wv: "vats n v = Some wv" using v by blast
  then show ?thesis
  proof (cases rule: connect_cases [of n v wv "\<lparr>host = h, unique = u\<rparr>"])
    case (reuse c)
    then have "vat_connections wv h = Some c" by simp
    moreover have "fst (snd (links n)) v = Some (vat_connections wv)" by (simp add: links_def wv)
    ultimately obtain q pn where "fst (links n) c = Some (v, h, False, q, pn)"
      using inv links_okD(5) [of "fst (links n)" "fst (snd (links n))" "snd (snd (links n))" v "vat_connections wv" h c]
      by (auto simp: net_inv_def)
    with reuse show ?thesis by (auto simp: links_def link_def)
  next
    case (new wp)
    let ?id = "\<lparr>host = h, unique = u\<rparr>" and ?c = "nextConn n"
    obtain n' where n': "connectByVatId v ?id n = (Ret (Some ?c), n')"
      and L: "links n' = ((fst (links n))(?c \<mapsto> (v, h, u, Some (Suc ?c), h), Suc ?c \<mapsto> (h, v, u, Some ?c, v)),
        (if u then fst (snd (links n))
         else (fst (snd (links n)))(v \<mapsto> (vat_connections wv)(h \<mapsto> ?c), h \<mapsto> (vat_connections wp)(v \<mapsto> Suc ?c))),
        Suc (Suc ?c))"
      using connect_new [OF wv, of ?id wp] new by auto
    from L have "fst (links n') ?c = Some (v, h, u, Some (Suc ?c), h)" by simp
    then have "map_option link (conns n' ?c) = Some (v, h, u, Some (Suc ?c), h)" by (simp add: links_def)
    then obtain k where "conns n' ?c = Some k" "vat k = v" "peerVat k = h" "isUnique k = u"
      by (auto simp: link_def)
    with n' show ?thesis by blast
  qed (use h ne in auto)
qed

text \<open>C18. An introduction arrives: when vat A introduces on one of its connections the vat C at
  the other end of another, a vat B that is connected to A accepts the contact (it was sent by its
  partner) and gets the token that C awaits together with a connection from B to C; and when B
  forwards the contact instead, which counts as one forward, a vat D connected to B accepts it the
  same way. Names are C strings, so they must hold no null character.\<close>

theorem introduction_reaches:
  assumes run: "net_run n"
    and c: "conns n c = Some k" and other: "conns n other = Some ko" "partner ko = Some x"
    and d: "conns n d = Some kd" "partner kd = Some y" "peerVat kd = vat k"
    and e: "conns n e = Some ke" "partner ke = Some z" "peerVat ke = vat kd"
    and names: "c_str (vat k) = vat k" "c_str (peerVat ko) = peerVat ko" "c_str (vat kd) = vat kd"
    and distinct: "peerVat ko \<noteq> vat kd" "peerVat ko \<noteq> vat ke"
    and intro: "introduceTo c other n = (Ret (contact, tok), n1)"
  shows "(\<exists>i n2 l. connectToIntroduced d contact n1 = (Ret (tok, Some i), n2) \<and>
      conns n2 i = Some l \<and> vat l = vat kd \<and> peerVat l = peerVat ko) \<and>
    (forwardingEnabled n \<longrightarrow> (\<exists>contact' n2 i n3 l.
      forwardThirdPartyToContact d contact n1 = (Ret contact', n2) \<and> forwardCount n2 = forwardCount n + 1 \<and>
      connectToIntroduced e contact' n2 = (Ret (tok, Some i), n3) \<and>
      conns n3 i = Some l \<and> vat l = vat ke \<and> peerVat l = peerVat ko))"
proof -
  note D = live_partner [OF run d(1,2)] and O = live_partner [OF run other] and E = live_partner [OF run e(1,2)]
  have n1: "n1 = n\<lparr>tokenCounter := tokenCounter n + 1\<rparr>" and tok: "tok = tokenCounter n + 1"
    and contact: "contact = \<lparr>path = \<lparr>host = peerVat ko, unique = False\<rparr>, token = tok, sentBy = vat k\<rparr>"
    using intro O(1) names
    by (auto simp: introduceTo_def newToken_def conn_of_def c other setThirdPartyContact_def setLeanVatId_def)
  have dec: "decodeThirdPartyContact contact = contact"
    by (simp add: contact decodeThirdPartyContact_def decodeLeanVatId_def names)
  have inv: "net_inv n" using net_run_inv [OF run] .
  then have inv1: "net_inv n1" by (simp add: n1 net_inv_def)
  from connect_reaches [OF inv1, of "vat kd" "peerVat ko" False] D O distinct(1)
  obtain i n2 l where "connectByVatId (vat kd) \<lparr>host = peerVat ko, unique = False\<rparr> n1 = (Ret (Some i), n2)"
    "conns n2 i = Some l" "vat l = vat kd" "peerVat l = peerVat ko" by (auto simp: n1)
  moreover from this(1) have "connectToIntroduced d contact n1 = (Ret (tok, Some i), n2)"
    unfolding connectToIntroduced_def dec by (simp add: contact conn_of_def n1 d D(1))
  ultimately have direct: "\<exists>i n2 l. connectToIntroduced d contact n1 = (Ret (tok, Some i), n2) \<and>
      conns n2 i = Some l \<and> vat l = vat kd \<and> peerVat l = peerVat ko" by blast
  show ?thesis
  proof (intro conjI impI direct)
    assume on: "forwardingEnabled n"
    let ?contact = "contact\<lparr>sentBy := vat kd\<rparr>" and ?n2 = "n1\<lparr>forwardCount := forwardCount n1 + 1\<rparr>"
    have fwd: "forwardThirdPartyToContact d contact n1 = (Ret ?contact, ?n2)"
      unfolding forwardThirdPartyToContact_def dec
      by (simp add: on contact conn_of_def n1 d D(1) setThirdPartyContact_def setLeanVatId_def names)
    have dec': "decodeThirdPartyContact ?contact = ?contact"
      by (simp add: contact decodeThirdPartyContact_def decodeLeanVatId_def names)
    have "net_inv ?n2" using inv1 by (simp add: net_inv_def)
    from connect_reaches [OF this, of "vat ke" "peerVat ko" False] E O distinct(2)
    obtain i n3 l where "connectByVatId (vat ke) \<lparr>host = peerVat ko, unique = False\<rparr> ?n2 = (Ret (Some i), n3)"
      "conns n3 i = Some l" "vat l = vat ke" "peerVat l = peerVat ko" by (auto simp: n1)
    moreover from this(1) have "connectToIntroduced e ?contact ?n2 = (Ret (tok, Some i), n3)"
      unfolding connectToIntroduced_def dec' by (simp add: contact conn_of_def n1 e E(1))
    ultimately show "\<exists>contact' n2 i n3 l.
      forwardThirdPartyToContact d contact n1 = (Ret contact', n2) \<and> forwardCount n2 = forwardCount n + 1 \<and>
      connectToIntroduced e contact' n2 = (Ret (tok, Some i), n3) \<and>
      conns n3 i = Some l \<and> vat l = vat ke \<and> peerVat l = peerVat ko"
      using fwd by (intro exI [of _ ?contact] exI [of _ ?n2]) (auto simp: n1)
  qed
qed

definition dial :: "string \<Rightarrow> string \<Rightarrow> generic_network \<Rightarrow> generic_network" where
  "dial v h n = snd (connect v \<lparr>host = h, unique = False\<rparr> n)"

text \<open>A is connected to B and to C, and B to D.\<close>

definition four_vats :: generic_network where
  "four_vats = setForwardingEnabled True (dial ''B'' ''D'' (dial ''A'' ''C'' (dial ''A'' ''B''
     (snd (add ''D'' (snd (add ''C'' two_vats)))))))"

lemma net_run_dial: "net_run n \<Longrightarrow> vats n v \<noteq> None \<Longrightarrow> net_run (dial v h n)"
  unfolding dial_def by (rule net_run.connect [OF _ _ prod.collapse [symmetric]])

lemma net_run_add: "net_run n \<Longrightarrow> net_run (snd (add name n))"
  by (rule net_run.add [OF _ prod.collapse [symmetric]])

lemma net_run_four_vats: "net_run four_vats"
  unfolding four_vats_def
  by (rule net_run.forwarding, intro net_run_dial net_run_add net_run_two_vats)
    (simp_all add: dial_def vat_eval Let_def)

lemma four_vats_conns:
  "\<exists>k. conns four_vats 0 = Some k \<and> vat k = ''A''"
  "\<exists>k. conns four_vats 2 = Some k \<and> partner k = Some 3 \<and> peerVat k = ''C''"
  "\<exists>k. conns four_vats 1 = Some k \<and> partner k = Some 0 \<and> vat k = ''B'' \<and> peerVat k = ''A''"
  "\<exists>k. conns four_vats 5 = Some k \<and> partner k = Some 4 \<and> vat k = ''D'' \<and> peerVat k = ''B''"
  "forwardingEnabled four_vats"
  by (simp_all add: four_vats_def dial_def vat_eval setForwardingEnabled_def Let_def)

lemma introduction_reaches_witness:
  "\<exists>contact tok n1 contact' n2 i n3 l. introduceTo 0 2 four_vats = (Ret (contact, tok), n1) \<and>
     forwardThirdPartyToContact 1 contact n1 = (Ret contact', n2) \<and>
     connectToIntroduced 5 contact' n2 = (Ret (tok, Some i), n3) \<and>
     conns n3 i = Some l \<and> vat l = ''D'' \<and> peerVat l = ''C''"
proof -
  obtain k ko kd ke where c: "conns four_vats 0 = Some k" "vat k = ''A''"
    and o: "conns four_vats 2 = Some ko" "partner ko = Some 3" "peerVat ko = ''C''"
    and d: "conns four_vats 1 = Some kd" "partner kd = Some 0" "vat kd = ''B''" "peerVat kd = ''A''"
    and e: "conns four_vats 5 = Some ke" "partner ke = Some 4" "vat ke = ''D''" "peerVat ke = ''B''"
    using four_vats_conns(1-4) by blast
  obtain contact tok n1 where i: "introduceTo 0 2 four_vats = (Ret (contact, tok), n1)"
    by (simp add: introduceTo_def newToken_def)
  from introduction_reaches [OF net_run_four_vats c(1) o(1,2) d(1,2) _ e(1,2) _ _ _ _ _ _ i] c o d e i
  show ?thesis by (simp add: c_str_def four_vats_conns(5)) blast
qed

text \<open>C19. The meeting of the two sides of a handoff does not depend on who comes first: whether the
  vat awaits the third party before or after the other side completes with the token, the promise that
  completing returned is the one whose exchange holds the awaited value; exchanges of other tokens are
  untouched; and once the await is released the token is free again.\<close>

theorem exchange_either_order:
  assumes c: "conns n c = Some kc" and d: "conns n d = Some kd" "vat kd = vat kc"
    and w: "vats n (vat kc) = Some w" and free: "tphExchanges w tok = None"
    and first: "awaitThirdParty c tok val n = (Ret tr, n1)" "completeThirdParty d tok n1 = (Ret x, n2)"
    and second: "completeThirdParty d tok n = (Ret y, m1)" "awaitThirdParty c tok val m1 = (Ret tr', m2)"
  shows "x = y \<and> exchanges n2 = exchanges n @ [Some val] \<and> exchanges m2 = exchanges n2 \<and> x = length (exchanges n) \<and>
    tr = (vat kc, tok) \<and> vats m2 = vats n2 \<and>
    tphExchanges (vat_of n2 (vat kc)) = (tphExchanges w)(tok \<mapsto> x) \<and>
    tphExchanges (vat_of (eraseThirdPartyExchange (vat kc) tok n2) (vat kc)) = tphExchanges w"
  using assms
  by (auto simp: awaitThirdParty_def completeThirdParty_def getThirdPartyExchange_def eraseThirdPartyExchange_def
      conn_of_def vat_of_def upd_vat_def Let_def fun_eq_iff)

lemma await_total: "\<exists>tr n'. awaitThirdParty c t x n = (Ret tr, n')"
  by (cases "getThirdPartyExchange (vat (conn_of n c)) t n") (simp add: awaitThirdParty_def Let_def)

lemma complete_total: "\<exists>x n'. completeThirdParty c t n = (Ret x, n')"
  by (cases "getThirdPartyExchange (vat (conn_of n c)) t n") (simp add: completeThirdParty_def Let_def)

lemma exchange_either_order_witness:
  "\<exists>x n1 n2 tr. awaitThirdParty 0 7 9 (dial_B two_vats) = (Ret tr, n1) \<and> completeThirdParty 0 7 n1 = (Ret x, n2) \<and>
     exchanges n2 ! x = Some 9"
proof -
  obtain k w where k: "conns (dial_B two_vats) 0 = Some k" "vats (dial_B two_vats) (vat k) = Some w"
    "tphExchanges w 7 = None" "exchanges (dial_B two_vats) = []"
    by (simp add: vat_eval Let_def)
  obtain tr n1 where a: "awaitThirdParty 0 7 9 (dial_B two_vats) = (Ret tr, n1)" using await_total by blast
  obtain x n2 where b: "completeThirdParty 0 7 n1 = (Ret x, n2)" using complete_total by blast
  obtain y m1 where c: "completeThirdParty 0 7 (dial_B two_vats) = (Ret y, m1)" using complete_total by blast
  obtain tr' m2 where d: "awaitThirdParty 0 7 9 m1 = (Ret tr', m2)" using await_total by blast
  from exchange_either_order [OF k(1,1) refl k(2,3) a b c d] k(4) a b show ?thesis by auto
qed

end
