(* ===== verification/Multi_Vat.thy ===== *)
theory Multi_Vat
  imports Connections Generic_Vat
begin

text \<open>
  Multi-vat peers of \<^verbatim>\<open>RuntimeLoop\<close>: named peers on the in-process network, their
  sturdy references and restorers, and the controls of their connections. The RPC library
  works on the network while it is called; \<open>lib\<close> is what it does to it.
\<close>

section \<open>State\<close>

record multi_vat_peer =
  mv_name :: string
  mv_rpcSystem :: obj
  sturdyRefRestorer :: "obj option"

record multi_vat_state = connections_state +
  genericVatNetwork :: generic_network
  multiVatPeers :: "u32 \<rightharpoonup> multi_vat_peer"
  multiVatPeerIdsByName :: "string \<rightharpoonup> u32"
  sturdyRefs :: "u32 \<rightharpoonup> (string \<rightharpoonup> client)"
  genericBootstrapFactories :: "obj list"
  nextMultiVatPeerId :: u32

type_synonym lib = "ext_call list \<Rightarrow> ext_call \<Rightarrow> generic_network \<Rightarrow> generic_network"

definition on_net :: "'a net_op \<Rightarrow> 'z multi_vat_state_scheme \<Rightarrow> (exn, 'a) outcome \<times> 'z multi_vat_state_scheme" where
  "on_net m s = (let (r, n) = m (genericVatNetwork s) in (r, s\<lparr>genericVatNetwork := n\<rparr>))"

text \<open>A call into the RPC library: it answers, and leaves the network as it did.\<close>

definition rpc_call :: "(ext_call list \<Rightarrow> ext_call \<Rightarrow> exn + 'a) \<Rightarrow> lib \<Rightarrow> ext_call
    \<Rightarrow> 'z multi_vat_state_scheme \<Rightarrow> (exn, 'a) outcome \<times> 'z multi_vat_state_scheme" where
  "rpc_call f lib c s =
     call f c (s\<lparr>genericVatNetwork := lib (log s) c (genericVatNetwork s)\<rparr>)"

section \<open>Peers\<close>

definition addMultiVatPeer :: "multi_vat_peer
    \<Rightarrow> 'z multi_vat_state_scheme \<Rightarrow> (exn, u32) outcome \<times> 'z multi_vat_state_scheme" where
  "addMultiVatPeer peer s = (case alloc_id (multiVatPeers s) (nextMultiVatPeerId s) of
      None \<Rightarrow> (Hang, s)
    | Some (peerId, nxt) \<Rightarrow> (Ret peerId, s\<lparr>nextMultiVatPeerId := nxt,
        multiVatPeerIdsByName := (multiVatPeerIdsByName s)(mv_name peer \<mapsto> peerId),
        multiVatPeers := (multiVatPeers s)(peerId \<mapsto> peer)\<rparr>))"

definition unknown_peer :: "u32 \<Rightarrow> exn" where
  "unknown_peer i = StdEx (''unknown multi-vat peer id: '' @ to_string i)"

definition requireMultiVatPeer :: "u32
    \<Rightarrow> 'z multi_vat_state_scheme \<Rightarrow> (exn, multi_vat_peer) outcome \<times> 'z multi_vat_state_scheme" where
  "requireMultiVatPeer i = find_or multiVatPeers i (unknown_peer i)"

definition requireMultiVatPeerByHost :: "string
    \<Rightarrow> 'z multi_vat_state_scheme \<Rightarrow> (exn, multi_vat_peer) outcome \<times> 'z multi_vat_state_scheme" where
  "requireMultiVatPeerByHost h =
     bnd (find_or multiVatPeerIdsByName h (StdEx (''unknown multi-vat host: '' @ h))) requireMultiVatPeer"

definition sturdyObjectKey :: "bytes \<Rightarrow> string" where
  "sturdyObjectKey objectId = (if objectId = [] then [] else bytes_as_chars objectId)"

definition new_peer :: "string \<Rightarrow> obj \<Rightarrow> multi_vat_peer" where
  "new_peer name rpc = \<lparr>mv_name = name, mv_rpcSystem = rpc, sturdyRefRestorer = None\<rparr>"

definition newMultiVatClient :: "env \<Rightarrow> lib \<Rightarrow> string
    \<Rightarrow> 'z multi_vat_state_scheme \<Rightarrow> (exn, u32) outcome \<times> 'z multi_vat_state_scheme" where
  "newMultiVatClient env lib name =
     sq (on_net (add name))
     (bnd (rpc_call (ask_obj env) lib (MakeGenericRpcClient name)) (\<lambda>rpc.
      addMultiVatPeer (new_peer name rpc)))"

definition newMultiVatServer :: "env \<Rightarrow> lib \<Rightarrow> string \<Rightarrow> u32
    \<Rightarrow> 'z multi_vat_state_scheme \<Rightarrow> (exn, u32) outcome \<times> 'z multi_vat_state_scheme" where
  "newMultiVatServer env lib name bootstrapTarget =
     bnd (findTarget bootstrapTarget) (\<lambda>cap.
     sq (on_net (add name))
     (bnd (rpc_call (ask_obj env) lib (MakeGenericRpcServer name cap)) (\<lambda>rpc.
      addMultiVatPeer (new_peer name rpc))))"

text \<open>
  The factory takes a reference to the Lean closure and is kept until the runtime ends. It is
  put into \<^verbatim>\<open>genericBootstrapFactories_\<close> only once the RPC system exists; a throw before
  that destroys it.
\<close>

definition newMultiVatServerWithBootstrapFactory :: "env \<Rightarrow> lib \<Rightarrow> string \<Rightarrow> obj
    \<Rightarrow> 'z multi_vat_state_scheme \<Rightarrow> (exn, u32) outcome \<times> 'z multi_vat_state_scheme" where
  "newMultiVatServerWithBootstrapFactory env lib name factory =
     sq (on_net (add name))
     (sq (tell (LeanInc factory))
     (bnd (on_throw (rpc_call (ask_obj env) lib (MakeGenericRpcServerWithFactory name factory))
             (\<lambda>s. s\<lparr>log := log s @ [LeanDec factory]\<rparr>)) (\<lambda>rpc.
      sq (modify (\<lambda>s. s\<lparr>genericBootstrapFactories := genericBootstrapFactories s @ [factory]\<rparr>))
      (addMultiVatPeer (new_peer name rpc)))))"

text \<open>\<^verbatim>\<open>LeanGenericBootstrapFactory::createFor\<close>.\<close>

definition createForGeneric ::
    "(obj \<Rightarrow> string \<Rightarrow> bool \<Rightarrow> 'z targets_state_scheme \<Rightarrow> u32 option \<times> 'z targets_state_scheme)
    \<Rightarrow> obj \<Rightarrow> vat_id \<Rightarrow> 'z targets_state_scheme \<Rightarrow> (exn, client) outcome \<times> 'z targets_state_scheme" where
  "createForGeneric apply factory clientId s =
     (let decoded = decodeLeanVatId clientId;
          (reply, s') = apply factory (host decoded) (unique decoded) (s\<lparr>log := log s @ [LeanInc factory]\<rparr>)
      in case reply of
           None \<Rightarrow> (Throw (StdEx ''Lean generic bootstrap factory returned IO error''), s')
         | Some targetId \<Rightarrow> find_or targets targetId
             (StdEx (''unknown RPC bootstrap capability id from Lean generic bootstrap factory: '' @
                to_string targetId)) s')"

text \<open>Erasing the peer runs \<^verbatim>\<open>~MultiVatPeer\<close> and then destroys its RPC system.\<close>

definition drop_restorer :: "multi_vat_peer \<Rightarrow> ext_call list" where
  "drop_restorer peer = (case sturdyRefRestorer peer of None \<Rightarrow> [] | Some r \<Rightarrow> [LeanDec r])"

definition releaseMultiVatPeer :: "lib \<Rightarrow> u32
    \<Rightarrow> 'z multi_vat_state_scheme \<Rightarrow> (exn, unit) outcome \<times> 'z multi_vat_state_scheme" where
  "releaseMultiVatPeer lib peerId =
     bnd (requireMultiVatPeer peerId) (\<lambda>peer.
     modify (\<lambda>s.
       let s1 = s\<lparr>multiVatPeerIdsByName := (multiVatPeerIdsByName s)(mv_name peer := None),
             sturdyRefs := (sturdyRefs s)(peerId := None),
             multiVatPeers := (multiVatPeers s)(peerId := None),
             log := log s @ drop_restorer peer\<rparr>;
           c = ReleaseGenericRpcSystem (mv_rpcSystem peer)
       in s1\<lparr>log := log s1 @ [c], genericVatNetwork := lib (log s1) c (genericVatNetwork s1)\<rparr>))"

definition multiVatBootstrap :: "env \<Rightarrow> lib \<Rightarrow> u32 \<Rightarrow> vat_id
    \<Rightarrow> 'z multi_vat_state_scheme \<Rightarrow> (exn, u32) outcome \<times> 'z multi_vat_state_scheme" where
  "multiVatBootstrap env lib sourcePeerId vatId =
     bnd (requireMultiVatPeer sourcePeerId) (\<lambda>source.
     let hostId = setLeanVatId vatId
     in bnd (rpc_call (ask_obj env) lib (GenericRpcBootstrap (mv_rpcSystem source) (host hostId) (unique hostId)))
          (\<lambda>cap. addTarget (ExternalClient cap)))"

definition multiVatBootstrapPeer :: "env \<Rightarrow> lib \<Rightarrow> u32 \<Rightarrow> u32 \<Rightarrow> bool
    \<Rightarrow> 'z multi_vat_state_scheme \<Rightarrow> (exn, u32) outcome \<times> 'z multi_vat_state_scheme" where
  "multiVatBootstrapPeer env lib sourcePeerId targetPeerId uniq =
     bnd (requireMultiVatPeer targetPeerId) (\<lambda>target.
     multiVatBootstrap env lib sourcePeerId \<lparr>host = mv_name target, unique = uniq\<rparr>)"

section \<open>Forwarding and diagnostics\<close>

definition multiVatSetForwardingEnabled :: "bool
    \<Rightarrow> 'z multi_vat_state_scheme \<Rightarrow> 'z multi_vat_state_scheme" where
  "multiVatSetForwardingEnabled b s = s\<lparr>genericVatNetwork := setForwardingEnabled b (genericVatNetwork s)\<rparr>"

definition multiVatResetForwardingStats :: "'z multi_vat_state_scheme \<Rightarrow> 'z multi_vat_state_scheme" where
  "multiVatResetForwardingStats s = s\<lparr>genericVatNetwork := resetForwardingStats (genericVatNetwork s)\<rparr>"

definition multiVatForwardCount :: "'z multi_vat_state_scheme \<Rightarrow> u64" where
  "multiVatForwardCount s = forwardCount (genericVatNetwork s)"

definition multiVatThirdPartyTokenCount :: "'z multi_vat_state_scheme \<Rightarrow> u64" where
  "multiVatThirdPartyTokenCount s = tokenCounter (genericVatNetwork s)"

definition multiVatDeniedForwardCount :: "'z multi_vat_state_scheme \<Rightarrow> u64" where
  "multiVatDeniedForwardCount s = deniedForwardCount (genericVatNetwork s)"

definition multiVatHasConnection :: "u32 \<Rightarrow> u32
    \<Rightarrow> 'z multi_vat_state_scheme \<Rightarrow> (exn, bool) outcome \<times> 'z multi_vat_state_scheme" where
  "multiVatHasConnection fromPeerId toPeerId =
     bnd (requireMultiVatPeer fromPeerId) (\<lambda>from'.
     bnd (requireMultiVatPeer toPeerId) (\<lambda>to'.
     gets (\<lambda>s. getConnectionTo (mv_name from') (mv_name to') (genericVatNetwork s) \<noteq> None)))"

definition multiVatGetDiagnostics :: "env \<Rightarrow> lib \<Rightarrow> u32 \<Rightarrow> vat_id
    \<Rightarrow> 'z multi_vat_state_scheme \<Rightarrow> (exn, obj) outcome \<times> 'z multi_vat_state_scheme" where
  "multiVatGetDiagnostics env lib peerId targetVatIdObj =
     bnd (requireMultiVatPeer peerId) (\<lambda>peer.
     let hostId = setLeanVatId (decodeLeanVatId targetVatIdObj)
     in rpc_call (ask_obj env) lib (GenericRpcDiagnostics (mv_rpcSystem peer) (host hostId) (unique hostId)))"

section \<open>Controls of a connection\<close>

text \<open>The connection between two peers, and the throw when there is none.\<close>

definition withConnection :: "u32 \<Rightarrow> u32 \<Rightarrow> (nat \<Rightarrow> 'a net_op)
    \<Rightarrow> 'z multi_vat_state_scheme \<Rightarrow> (exn, 'a) outcome \<times> 'z multi_vat_state_scheme" where
  "withConnection fromPeerId toPeerId f =
     bnd (requireMultiVatPeer fromPeerId) (\<lambda>from'.
     bnd (requireMultiVatPeer toPeerId) (\<lambda>to'.
     bnd (gets (\<lambda>s. getConnectionTo (mv_name from') (mv_name to') (genericVatNetwork s))) (\<lambda>conn.
     case conn of
       None \<Rightarrow> throw (StdEx (''no connection from '' @ mv_name from' @ '' to '' @ mv_name to'))
     | Some c \<Rightarrow> on_net (f c))))"

definition multiVatConnectionBlock :: "u32 \<Rightarrow> u32
    \<Rightarrow> 'z multi_vat_state_scheme \<Rightarrow> (exn, unit) outcome \<times> 'z multi_vat_state_scheme" where
  "multiVatConnectionBlock f t = withConnection f t (\<lambda>c. modify (block c))"

definition multiVatConnectionUnblock :: "u32 \<Rightarrow> u32
    \<Rightarrow> 'z multi_vat_state_scheme \<Rightarrow> (exn, unit) outcome \<times> 'z multi_vat_state_scheme" where
  "multiVatConnectionUnblock f t = withConnection f t (\<lambda>c. modify (unblock c))"

definition multiVatConnectionDisconnect :: "u32 \<Rightarrow> u32 \<Rightarrow> u8 \<Rightarrow> string \<Rightarrow> bytes
    \<Rightarrow> 'z multi_vat_state_scheme \<Rightarrow> (exn, unit) outcome \<times> 'z multi_vat_state_scheme" where
  "multiVatConnectionDisconnect f t typeTag message detailBytes =
     withConnection f t (\<lambda>c. modify (disconnect c
       (mk_exception (decodeRemoteExceptionType typeTag) (c_str message) detailBytes)))"

definition multiVatConnectionResolveDisembargoCounts :: "u32 \<Rightarrow> u32
    \<Rightarrow> 'z multi_vat_state_scheme \<Rightarrow> (exn, protocol_message_counts) outcome \<times> 'z multi_vat_state_scheme" where
  "multiVatConnectionResolveDisembargoCounts f t =
     withConnection f t (\<lambda>c. gets (\<lambda>n. protocolMessageCounts (conn_of n c)))"

definition multiVatConnectionResolveDisembargoTrace :: "u32 \<Rightarrow> u32
    \<Rightarrow> 'z multi_vat_state_scheme \<Rightarrow> (exn, bytes) outcome \<times> 'z multi_vat_state_scheme" where
  "multiVatConnectionResolveDisembargoTrace f t =
     withConnection f t (\<lambda>c. gets (\<lambda>n. fold (\<lambda>tag out. appendUint16Le out tag)
       (protocolMessageTrace (conn_of n c)) []))"

definition multiVatConnectionResetResolveDisembargoTrace :: "u32 \<Rightarrow> u32
    \<Rightarrow> 'z multi_vat_state_scheme \<Rightarrow> (exn, unit) outcome \<times> 'z multi_vat_state_scheme" where
  "multiVatConnectionResetResolveDisembargoTrace f t =
     withConnection f t (\<lambda>c. modify (resetProtocolMessageTrace c))"

section \<open>Sturdy references\<close>

definition multiVatSetRestorer :: "u32 \<Rightarrow> obj
    \<Rightarrow> 'z multi_vat_state_scheme \<Rightarrow> (exn, unit) outcome \<times> 'z multi_vat_state_scheme" where
  "multiVatSetRestorer peerId restorer =
     bnd (requireMultiVatPeer peerId) (\<lambda>peer.
     modify (\<lambda>s. s\<lparr>log := log s @ drop_restorer peer,
       multiVatPeers := (multiVatPeers s)(peerId \<mapsto> peer\<lparr>sturdyRefRestorer := Some restorer\<rparr>)\<rparr>))"

definition multiVatClearRestorer :: "u32
    \<Rightarrow> 'z multi_vat_state_scheme \<Rightarrow> (exn, unit) outcome \<times> 'z multi_vat_state_scheme" where
  "multiVatClearRestorer peerId =
     bnd (requireMultiVatPeer peerId) (\<lambda>peer.
     modify (\<lambda>s. s\<lparr>log := log s @ drop_restorer peer,
       multiVatPeers := (multiVatPeers s)(peerId \<mapsto> peer\<lparr>sturdyRefRestorer := None\<rparr>)\<rparr>))"

definition refs_of :: "u32 \<Rightarrow> 'z multi_vat_state_scheme \<Rightarrow> string \<rightharpoonup> client" where
  "refs_of h s = (case sturdyRefs s h of None \<Rightarrow> Map.empty | Some m \<Rightarrow> m)"

definition multiVatPublishSturdyRef :: "u32 \<Rightarrow> bytes \<Rightarrow> u32
    \<Rightarrow> 'z multi_vat_state_scheme \<Rightarrow> (exn, unit) outcome \<times> 'z multi_vat_state_scheme" where
  "multiVatPublishSturdyRef hostPeerId objectId targetId =
     bnd (requireMultiVatPeer hostPeerId) (\<lambda>_.
     bnd (findTarget targetId) (\<lambda>cap.
     modify (\<lambda>s. s\<lparr>sturdyRefs := (sturdyRefs s)(hostPeerId \<mapsto>
       (refs_of hostPeerId s)(sturdyObjectKey objectId \<mapsto> cap))\<rparr>)))"

definition multiVatUnpublishSturdyRef :: "u32 \<Rightarrow> bytes
    \<Rightarrow> 'z multi_vat_state_scheme \<Rightarrow> (exn, unit) outcome \<times> 'z multi_vat_state_scheme" where
  "multiVatUnpublishSturdyRef hostPeerId objectId =
     bnd (requireMultiVatPeer hostPeerId) (\<lambda>_.
     bnd (find_or sturdyRefs hostPeerId
            (StdEx (''no sturdy refs published for host peer id: '' @ to_string hostPeerId))) (\<lambda>hostRefs.
     let key = sturdyObjectKey objectId; hostRefs' = hostRefs(key := None)
     in if hostRefs key = None then throw (StdEx ''unknown sturdy ref object id'')
        else modify (\<lambda>s. s\<lparr>sturdyRefs := (sturdyRefs s)(hostPeerId :=
               (if dom hostRefs' = {} then None else Some hostRefs'))\<rparr>)))"

definition multiVatClearPublishedSturdyRefs :: "u32
    \<Rightarrow> 'z multi_vat_state_scheme \<Rightarrow> (exn, unit) outcome \<times> 'z multi_vat_state_scheme" where
  "multiVatClearPublishedSturdyRefs hostPeerId =
     bnd (requireMultiVatPeer hostPeerId) (\<lambda>_.
     modify (\<lambda>s. s\<lparr>sturdyRefs := (sturdyRefs s)(hostPeerId := None)\<rparr>))"

definition multiVatPublishedSturdyRefCount :: "u32
    \<Rightarrow> 'z multi_vat_state_scheme \<Rightarrow> (exn, u64) outcome \<times> 'z multi_vat_state_scheme" where
  "multiVatPublishedSturdyRefCount hostPeerId =
     bnd (requireMultiVatPeer hostPeerId) (\<lambda>_.
     gets (\<lambda>s. of_nat (table_size (refs_of hostPeerId s))))"

text \<open>
  \<open>apply restorer source unique objectId\<close> runs the Lean restorer, which may use the
  runtime; \<open>None\<close> is an \<^verbatim>\<open>IO\<close> error. The text of \<^verbatim>\<open>at()\<close>'s exception is
  the library's.
\<close>

definition multiVatRestoreSturdyRef ::
    "(obj \<Rightarrow> string \<Rightarrow> bool \<Rightarrow> bytes \<Rightarrow> 'z multi_vat_state_scheme \<Rightarrow> u32 option \<times> 'z multi_vat_state_scheme)
    \<Rightarrow> u32 \<Rightarrow> vat_id \<Rightarrow> bytes
    \<Rightarrow> 'z multi_vat_state_scheme \<Rightarrow> (exn, u32) outcome \<times> 'z multi_vat_state_scheme" where
  "multiVatRestoreSturdyRef apply sourcePeerId hostVatId objectId =
     bnd (requireMultiVatPeer sourcePeerId) (\<lambda>source.
     bnd (requireMultiVatPeerByHost (host hostVatId)) (\<lambda>hostPeer.
     case sturdyRefRestorer hostPeer of
       Some restorer \<Rightarrow>
         sq (tell (LeanInc restorer))
         (bnd (\<lambda>s. let (reply, s') = apply restorer (c_str (mv_name source)) (unique hostVatId) objectId s
                   in (Ret reply, s')) (\<lambda>reply.
          case reply of
            None \<Rightarrow> throw (StdEx ''multi-vat sturdy ref restorer returned IO error'')
          | Some targetId \<Rightarrow> retainTarget targetId))
     | None \<Rightarrow>
         bnd (find_or multiVatPeerIdsByName (mv_name hostPeer) (StdEx ''unordered_map::at'')) (\<lambda>hostId.
         bnd (find_or sturdyRefs hostId
                (StdEx (''no sturdy refs published for host: '' @ mv_name hostPeer))) (\<lambda>hostRefs.
         case hostRefs (sturdyObjectKey objectId) of
           None \<Rightarrow> throw (StdEx ''unknown sturdy ref object id'')
         | Some cap \<Rightarrow> addTarget cap))))"

section \<open>The started forms\<close>

text \<open>They register a promise whose continuation is the operation of the same name.\<close>

definition start_unit :: "promise \<Rightarrow> 'z promises_state_scheme \<Rightarrow> (exn, u32) outcome \<times> 'z promises_state_scheme" where
  "start_unit p = bnd new_object (\<lambda>canceler. addUnitPromise \<lparr>pp_promise = p, pp_canceler = canceler\<rparr>)"

definition multiVatPublishSturdyRefStart :: "u32 \<Rightarrow> bytes \<Rightarrow> u32
    \<Rightarrow> 'z multi_vat_state_scheme \<Rightarrow> (exn, u32) outcome \<times> 'z multi_vat_state_scheme" where
  "multiVatPublishSturdyRefStart h objectId t = start_unit (LaterPublishSturdyRef h objectId t)"

definition multiVatUnpublishSturdyRefStart :: "u32 \<Rightarrow> bytes
    \<Rightarrow> 'z multi_vat_state_scheme \<Rightarrow> (exn, u32) outcome \<times> 'z multi_vat_state_scheme" where
  "multiVatUnpublishSturdyRefStart h objectId = start_unit (LaterUnpublishSturdyRef h objectId)"

definition multiVatClearPublishedSturdyRefsStart :: "u32
    \<Rightarrow> 'z multi_vat_state_scheme \<Rightarrow> (exn, u32) outcome \<times> 'z multi_vat_state_scheme" where
  "multiVatClearPublishedSturdyRefsStart h = start_unit (LaterClearSturdyRefs h)"

definition multiVatRestoreSturdyRefStart :: "u32 \<Rightarrow> string \<Rightarrow> bool \<Rightarrow> bytes
    \<Rightarrow> 'z multi_vat_state_scheme \<Rightarrow> (exn, u32) outcome \<times> 'z multi_vat_state_scheme" where
  "multiVatRestoreSturdyRefStart sourcePeerId h uniq objectId =
     bnd new_object (\<lambda>canceler.
     addRegisterPromise \<lparr>pp_promise = LaterRestoreSturdyRef sourcePeerId h uniq objectId, pp_canceler = canceler\<rparr>)"

end
