(* ===== verification/Multi_Vat_Facts.thy ===== *)
theory Multi_Vat_Facts
  imports Multi_Vat Connection_Facts Vat_Facts
begin

text \<open>
  The tables of the multi-vat peers agree with each other in every run, sturdy references
  come back as they were published, and the name of a released peer stays taken.
\<close>

section \<open>The peer table as an instance of the interfaces\<close>

interpretation peer_table: id_table multiVatPeers nextMultiVatPeerId addMultiVatPeer
  by unfold_locales (auto simp: addMultiVatPeer_def)

interpretation peer_handles: handle_table multiVatPeers nextMultiVatPeerId addMultiVatPeer
    "releaseMultiVatPeer lib" unknown_peer "\<lambda>_. True" for lib
  by unfold_locales (auto simp: releaseMultiVatPeer_def requireMultiVatPeer_def Let_def)

section \<open>The invariant\<close>

text \<open>The tables the invariant speaks of, and the names the network knows.\<close>

definition mv_view :: "'z multi_vat_state_scheme \<Rightarrow>
    (u32 \<rightharpoonup> multi_vat_peer) \<times> (string \<rightharpoonup> u32) \<times> (u32 \<rightharpoonup> string \<rightharpoonup> client)" where
  "mv_view s = (multiVatPeers s, multiVatPeerIdsByName s, sturdyRefs s)"

definition names_known :: "'z multi_vat_state_scheme \<Rightarrow> string set" where
  "names_known s = dom (vats (genericVatNetwork s))"

definition mv_inv :: "'z multi_vat_state_scheme \<Rightarrow> bool" where
  "mv_inv s \<longleftrightarrow>
     (\<forall>i p. multiVatPeers s i = Some p \<longrightarrow>
        multiVatPeerIdsByName s (mv_name p) = Some i \<and> mv_name p \<in> names_known s) \<and>
     (\<forall>nm i. multiVatPeerIdsByName s nm = Some i \<longrightarrow> (\<exists>p. multiVatPeers s i = Some p \<and> mv_name p = nm)) \<and>
     (\<forall>h m. sturdyRefs s h = Some m \<longrightarrow> multiVatPeers s h \<noteq> None \<and> dom m \<noteq> {})"

lemma mv_inv_transfer:
  "mv_inv s \<Longrightarrow> mv_view t = mv_view s \<Longrightarrow> names_known s \<subseteq> names_known t \<Longrightarrow> mv_inv t"
  by (auto simp: mv_inv_def mv_view_def)

text \<open>\<open>steady m\<close>: the operation leaves the view alone and forgets no name.\<close>

definition steady :: "('z multi_vat_state_scheme \<Rightarrow> ('e, 'a) outcome \<times> 'z multi_vat_state_scheme) \<Rightarrow> bool" where
  "steady m \<longleftrightarrow> (\<forall>s r t. m s = (r, t) \<longrightarrow> mv_view t = mv_view s \<and> names_known s \<subseteq> names_known t)"

named_theorems steady_intro \<open>operations that leave the multi-vat tables alone\<close>

lemma steadyD: "steady m \<Longrightarrow> m s = (r, t) \<Longrightarrow> mv_view t = mv_view s"
  "steady m \<Longrightarrow> m s = (r, t) \<Longrightarrow> names_known s \<subseteq> names_known t"
  by (auto simp: steady_def)

lemma steady_inv: "steady m \<Longrightarrow> mv_inv s \<Longrightarrow> m s = (r, t) \<Longrightarrow> mv_inv t"
  by (rule mv_inv_transfer [of s]) (blast dest: steadyD)+

lemma steady_base [steady_intro]:
  "steady (ret a)" "steady (throw e)" "steady (gets f)" "steady (find_or tbl k e)" "steady (tell c)"
  by (auto simp: steady_def mv_view_def names_known_def find_or_def split: option.splits)

lemma steady_call [steady_intro]: "steady (call f c)"
  by (auto simp: steady_def mv_view_def names_known_def call_def split: sum.splits)

lemma steady_modify: "(\<And>s. mv_view (f s) = mv_view s \<and> names_known s \<subseteq> names_known (f s)) \<Longrightarrow> steady (modify f)"
  by (auto simp: steady_def)

lemma steady_bnd [steady_intro]:
  assumes "steady m" and "\<And>a. steady (f a)"
  shows "steady (bnd m f)"
  unfolding steady_def
proof (intro allI impI)
  fix s r t
  assume "bnd m f s = (r, t)"
  then show "mv_view t = mv_view s \<and> names_known s \<subseteq> names_known t"
  proof (cases rule: bnd_cases)
    case (Ret a s')
    with steadyD [OF assms(1) Ret(1)] steadyD [OF assms(2) Ret(2)] show ?thesis by auto
  qed (use steadyD [OF assms(1)] in blast)+
qed

lemma steady_sq [steady_intro]: "steady m \<Longrightarrow> steady k \<Longrightarrow> steady (sq m k)"
  by (simp add: sq_def steady_bnd)

lemma steady_require [steady_intro]: "steady (requireMultiVatPeer i)" "steady (requireMultiVatPeerByHost h)"
  by (auto simp: requireMultiVatPeer_def requireMultiVatPeerByHost_def intro!: steady_intro)

lemma steady_addTarget [steady_intro]: "steady (addTarget cap)"
  by (auto simp: steady_def mv_view_def names_known_def addTarget_def split: option.splits)

lemma steady_findTarget [steady_intro]: "steady (findTarget i)"
  by (simp add: findTarget_def steady_intro)

lemma steady_retainTarget [steady_intro]: "steady (retainTarget i)"
  unfolding retainTarget_def
  by (intro steady_intro steady_modify)
    (simp add: mv_view_def names_known_def retainOwners_def split: prod.split)

lemma steady_releaseTarget [steady_intro]: "steady (releaseTarget i)"
proof -
  have "multi_vat_state.more (snd (dropTargetIfPresent i s)) = multi_vat_state.more s \<and>
      mv_view (snd (dropTargetIfPresent i s)) = mv_view s \<and>
      names_known (snd (dropTargetIfPresent i s)) = names_known s"
    for s :: "'a multi_vat_state_scheme"
    by (simp add: dropTargetIfPresent_def mv_view_def names_known_def split: prod.split)
  then show ?thesis
    by (auto simp: steady_def releaseTarget_def split: prod.splits bool.splits)
      (metis snd_conv subset_iff)+
qed

text \<open>The laws of the library: it forgets no vat of the network.\<close>

definition lib_keeps_vats :: "lib \<Rightarrow> bool" where
  "lib_keeps_vats lib \<longleftrightarrow> (\<forall>l c n. dom (vats n) \<subseteq> dom (vats (lib l c n)))"

lemma steady_rpc_call: "lib_keeps_vats lib \<Longrightarrow> steady (rpc_call f lib c)"
  by (auto simp: steady_def rpc_call_def call_def mv_view_def names_known_def lib_keeps_vats_def
      split: sum.splits)

lemma steady_on_net:
  assumes "\<And>n r n'. m n = (r, n') \<Longrightarrow> dom (vats n) \<subseteq> dom (vats n')"
  shows "steady (on_net m)"
  using assms by (auto simp: steady_def on_net_def mv_view_def names_known_def split: prod.splits)

lemma dom_upd_vat [simp]: "dom (vats (upd_vat v f n)) = dom (vats n)"
  by (auto simp: upd_vat_def)

lemma vats_upd_conn [simp]: "vats (upd_conn c f n) = vats n"
  by (simp add: upd_conn_def)

lemma vats_break_block [simp]: "vats (break_block b n) = vats n"
  by (simp add: break_block_def split: option.split)

lemma steady_controls:
  "steady (multiVatConnectionBlock f t)" "steady (multiVatConnectionUnblock f t)"
  "steady (multiVatConnectionDisconnect f t x y z)" "steady (multiVatConnectionResetResolveDisembargoTrace f t)"
  unfolding multiVatConnectionBlock_def multiVatConnectionUnblock_def multiVatConnectionDisconnect_def
    multiVatConnectionResetResolveDisembargoTrace_def withConnection_def
  by (auto intro!: steady_intro steady_on_net split: option.split
      simp: block_def unblock_def disconnect_def resetProtocolMessageTrace_def Let_def split: option.splits)

section \<open>Operations that change the tables\<close>

lemma mv_inv_new_peer:
  assumes inv: "mv_inv s" and nm: "mv_name peer \<in> names_known s" and free: "multiVatPeerIdsByName s (mv_name peer) = None"
    and run: "addMultiVatPeer peer s = (r, t)"
  shows "mv_inv t"
proof (cases "alloc_id (multiVatPeers s) (nextMultiVatPeerId s)")
  case None
  with run inv show ?thesis by (simp add: addMultiVatPeer_def)
next
  case (Some x)
  obtain i n where x: "x = (i, n)" by fastforce
  with Some have fresh: "multiVatPeers s i = None" using alloc_id_Some by blast
  from run Some x have t: "multiVatPeers t = (multiVatPeers s)(i \<mapsto> peer)"
    "multiVatPeerIdsByName t = (multiVatPeerIdsByName s)(mv_name peer \<mapsto> i)"
    "sturdyRefs t = sturdyRefs s" "names_known t = names_known s"
    by (auto simp: addMultiVatPeer_def names_known_def)
  show ?thesis
    unfolding mv_inv_def t
  proof (intro conjI allI impI)
    fix j p
    assume "((multiVatPeers s)(i \<mapsto> peer)) j = Some p"
    then show "((multiVatPeerIdsByName s)(mv_name peer \<mapsto> i)) (mv_name p) = Some j" "mv_name p \<in> names_known s"
      using inv nm free by (fastforce simp: mv_inv_def split: if_splits)+
  next
    fix m j
    assume "((multiVatPeerIdsByName s)(mv_name peer \<mapsto> i)) m = Some j"
    then show "\<exists>p. ((multiVatPeers s)(i \<mapsto> peer)) j = Some p \<and> mv_name p = m"
      using inv fresh by (fastforce simp: mv_inv_def split: if_splits)
  next
    fix h m
    assume "sturdyRefs s h = Some m"
    then show "((multiVatPeers s)(i \<mapsto> peer)) h \<noteq> None" "dom m \<noteq> {}"
      using inv by (auto simp: mv_inv_def)
  qed
qed

text \<open>Once a name was added to the network no peer has it yet.\<close>

lemma name_added:
  assumes "mv_inv s" and "on_net (add name) s = (Ret (), t)"
  shows "mv_inv t" and "name \<in> names_known t" and "multiVatPeerIdsByName t name = None"
proof -
  from assms(2) have t: "t = s\<lparr>genericVatNetwork := snd (add name (genericVatNetwork s))\<rparr>"
    and new: "vats (genericVatNetwork s) name = None"
    by (auto simp: on_net_def add_def split: if_splits)
  then have known: "names_known t = insert name (names_known s)" by (simp add: names_known_def add_def)
  then show "name \<in> names_known t" by simp
  show "mv_inv t" by (rule mv_inv_transfer [OF assms(1)]) (auto simp: known, simp add: t mv_view_def)
  have "name \<notin> names_known s" using new by (auto simp: names_known_def)
  then show "multiVatPeerIdsByName t name = None"
    using assms(1) by (cases "multiVatPeerIdsByName s name") (fastforce simp: t mv_inv_def)+
qed

text \<open>Whatever happens between adding the name and adding the peer leaves the tables alone.\<close>

lemma mv_inv_make_peer:
  assumes inv: "mv_inv s" and st: "steady m" and run: "sq (on_net (add name)) (bnd m (\<lambda>rpc. addMultiVatPeer (new_peer name rpc))) s = (r, t)"
  shows "mv_inv t"
proof -
  obtain u s1 where a: "on_net (add name) s = (u, s1)" by fastforce
  show ?thesis
  proof (cases u)
    case (Ret x)
    with a have a: "on_net (add name) s = (Ret (), s1)" by simp
    note N = name_added [OF inv a]
    from run a have "bnd m (\<lambda>rpc. addMultiVatPeer (new_peer name rpc)) s1 = (r, t)" by simp
    then show ?thesis
    proof (cases rule: bnd_cases)
      case (Ret rpc s2)
      note D = steadyD [OF st Ret(1)]
      have "mv_inv s2" using steady_inv [OF st N(1) Ret(1)] .
      moreover have "name \<in> names_known s2" using D(2) N(2) by blast
      moreover have "multiVatPeerIdsByName s2 name = None" using D(1) N(3) by (simp add: mv_view_def)
      ultimately show ?thesis using mv_inv_new_peer [OF _ _ _ Ret(2)] by (simp add: new_peer_def)
    qed (use steady_inv [OF st N(1)] in blast)+
  next
    case (Throw e)
    with run a have "t = s1" by simp
    moreover have "mv_inv s1" using a Throw inv by (auto simp: on_net_def add_def mv_inv_def names_known_def split: if_splits)
    ultimately show ?thesis by simp
  next
    case Hang
    with a show ?thesis by (auto simp: on_net_def add_def split: if_splits)
  qed
qed

lemma steady_on_throw:
  assumes "steady m" and "\<And>s. mv_view (f s) = mv_view s \<and> names_known (f s) = names_known s"
  shows "steady (on_throw m f)"
  unfolding steady_def
proof (intro allI impI)
  fix s r t
  assume "on_throw m f s = (r, t)"
  then show "mv_view t = mv_view s \<and> names_known s \<subseteq> names_known t"
  proof (cases rule: on_throw_cases)
  qed (use steadyD [OF assms(1)] assms(2) in auto)
qed

lemma bnd_ret_fun: "bnd (ret a) f = f a"
  by (rule ext) simp

lemma mv_inv_new:
  assumes "lib_keeps_vats lib" and inv: "mv_inv s"
  shows "newMultiVatClient env lib name s = (r, t) \<Longrightarrow> mv_inv t"
    and "newMultiVatServer env lib name target s = (r, t) \<Longrightarrow> mv_inv t"
    and "newMultiVatServerWithBootstrapFactory env lib name f s = (r, t) \<Longrightarrow> mv_inv t"
proof -
  note call = steady_rpc_call [OF assms(1)]
  show "mv_inv t" if "newMultiVatClient env lib name s = (r, t)"
    using that unfolding newMultiVatClient_def by (rule mv_inv_make_peer [OF inv call])
  show "mv_inv t" if "newMultiVatServer env lib name target s = (r, t)"
    using that unfolding newMultiVatServer_def
  proof (cases rule: bnd_cases)
    case (Ret cap s')
    then have "s' = s" by (auto simp: findTarget_def elim: find_or_RetE)
    with Ret(2) show ?thesis using mv_inv_make_peer [OF inv call] by simp
  qed (use inv in \<open>auto simp: findTarget_def find_or_def split: option.splits\<close>)
  show "mv_inv t" if run: "newMultiVatServerWithBootstrapFactory env lib name f s = (r, t)"
  proof -
    let ?m = "sq (tell (LeanInc f)) (bnd (on_throw (rpc_call (ask_obj env) lib (MakeGenericRpcServerWithFactory name f))
             (\<lambda>s. s\<lparr>log := log s @ [LeanDec f]\<rparr>)) (\<lambda>rpc.
      sq (modify (\<lambda>s. s\<lparr>genericBootstrapFactories := genericBootstrapFactories s @ [f]\<rparr>)) (ret rpc)))"
    have "steady ?m"
      by (intro steady_intro steady_on_throw call steady_modify) (simp_all add: mv_view_def names_known_def)
    moreover have "sq (on_net (add name)) (bnd ?m (\<lambda>rpc. addMultiVatPeer (new_peer name rpc))) s = (r, t)"
      using run unfolding newMultiVatServerWithBootstrapFactory_def sq_def bnd_assoc2 bnd_ret_fun .
    ultimately show ?thesis using mv_inv_make_peer [OF inv] by blast
  qed
qed

lemma release_effect:
  assumes p: "multiVatPeers s i = Some p" and lib: "lib_keeps_vats lib" and run: "releaseMultiVatPeer lib i s = (r, t)"
  shows "multiVatPeers t = (multiVatPeers s)(i := None)"
    and "multiVatPeerIdsByName t = (multiVatPeerIdsByName s)(mv_name p := None)"
    and "sturdyRefs t = (sturdyRefs s)(i := None)" and "names_known s \<subseteq> names_known t"
proof -
  have eq: "t = s\<lparr>multiVatPeerIdsByName := (multiVatPeerIdsByName s)(mv_name p := None),
      sturdyRefs := (sturdyRefs s)(i := None), multiVatPeers := (multiVatPeers s)(i := None),
      log := log s @ drop_restorer p @ [ReleaseGenericRpcSystem (mv_rpcSystem p)],
      genericVatNetwork := lib (log s @ drop_restorer p) (ReleaseGenericRpcSystem (mv_rpcSystem p)) (genericVatNetwork s)\<rparr>"
    using p run by (auto simp: releaseMultiVatPeer_def requireMultiVatPeer_def Let_def)
  show "multiVatPeers t = (multiVatPeers s)(i := None)"
    "multiVatPeerIdsByName t = (multiVatPeerIdsByName s)(mv_name p := None)"
    "sturdyRefs t = (sturdyRefs s)(i := None)" "names_known s \<subseteq> names_known t"
    using lib [unfolded lib_keeps_vats_def, rule_format] by (simp_all add: eq names_known_def)
qed

lemma mv_inv_release:
  assumes inv: "mv_inv s" and lib: "lib_keeps_vats lib" and run: "releaseMultiVatPeer lib i s = (r, t)"
  shows "mv_inv t"
proof (cases "multiVatPeers s i")
  case None
  with run inv show ?thesis by (simp add: releaseMultiVatPeer_def requireMultiVatPeer_def)
next
  case (Some p)
  note t = release_effect [OF Some lib run]
  have ids: "multiVatPeerIdsByName s (mv_name p) = Some i" using inv Some by (simp add: mv_inv_def)
  show ?thesis
    unfolding mv_inv_def t
  proof (intro conjI allI impI)
    fix j q
    assume "((multiVatPeers s)(i := None)) j = Some q"
    then have j: "j \<noteq> i" "multiVatPeers s j = Some q" by (simp_all split: if_splits)
    then have "multiVatPeerIdsByName s (mv_name q) = Some j" "mv_name q \<in> names_known s"
      using inv by (simp_all add: mv_inv_def)
    then show "((multiVatPeerIdsByName s)(mv_name p := None)) (mv_name q) = Some j" "mv_name q \<in> names_known t"
      using ids j t(4) by auto
  next
    fix nm j
    assume "((multiVatPeerIdsByName s)(mv_name p := None)) nm = Some j"
    then have "nm \<noteq> mv_name p" "multiVatPeerIdsByName s nm = Some j" by (simp_all split: if_splits)
    moreover from this obtain q where "multiVatPeers s j = Some q" "mv_name q = nm"
      using inv unfolding mv_inv_def by blast
    ultimately show "\<exists>q. ((multiVatPeers s)(i := None)) j = Some q \<and> mv_name q = nm"
      using Some by auto
  next
    fix h m
    assume "((sturdyRefs s)(i := None)) h = Some m"
    then show "((multiVatPeers s)(i := None)) h \<noteq> None" "dom m \<noteq> {}"
      using inv by (auto simp: mv_inv_def split: if_splits)
  qed
qed

text \<open>Restorers and published references change one entry of one table.\<close>

lemma mv_inv_set_peer:
  assumes "mv_inv s" and "multiVatPeers s i = Some p" and "mv_name q = mv_name p"
    and "multiVatPeers t = (multiVatPeers s)(i \<mapsto> q)" and "multiVatPeerIdsByName t = multiVatPeerIdsByName s"
    and "sturdyRefs t = sturdyRefs s" and "names_known t = names_known s"
  shows "mv_inv t"
  using assms unfolding mv_inv_def by (auto split: if_splits) (metis option.inject)+

lemma mv_inv_set_refs:
  assumes "mv_inv s" and "multiVatPeers s h \<noteq> None"
    and "sturdyRefs t = (sturdyRefs s)(h := x)" and "\<And>m. x = Some m \<Longrightarrow> dom m \<noteq> {}"
    and "multiVatPeers t = multiVatPeers s" and "multiVatPeerIdsByName t = multiVatPeerIdsByName s"
    and "names_known t = names_known s"
  shows "mv_inv t"
  using assms unfolding mv_inv_def by auto

lemma require_cases:
  assumes "bnd (requireMultiVatPeer i) f s = (r, t)"
  obtains p where "multiVatPeers s i = Some p" "f p s = (r, t)"
  | "multiVatPeers s i = None" "r = Throw (unknown_peer i)" "t = s"
  using assms by (cases "multiVatPeers s i") (auto simp: requireMultiVatPeer_def)

lemma mv_inv_restorers:
  assumes inv: "mv_inv s"
  shows "multiVatSetRestorer i x s = (r, t) \<Longrightarrow> mv_inv t" and "multiVatClearRestorer i s = (r, t) \<Longrightarrow> mv_inv t"
proof -
  show "mv_inv t" if "multiVatSetRestorer i x s = (r, t)"
    using that unfolding multiVatSetRestorer_def
  proof (cases rule: require_cases)
    case (1 p)
    then have t: "t = s\<lparr>log := log s @ drop_restorer p,
       multiVatPeers := (multiVatPeers s)(i \<mapsto> p\<lparr>sturdyRefRestorer := Some x\<rparr>)\<rparr>" by simp
    show ?thesis by (rule mv_inv_set_peer [OF inv 1(1)]) (simp_all add: t names_known_def)
  qed (use inv in simp)
  show "mv_inv t" if "multiVatClearRestorer i s = (r, t)"
    using that unfolding multiVatClearRestorer_def
  proof (cases rule: require_cases)
    case (1 p)
    then have t: "t = s\<lparr>log := log s @ drop_restorer p,
       multiVatPeers := (multiVatPeers s)(i \<mapsto> p\<lparr>sturdyRefRestorer := None\<rparr>)\<rparr>" by simp
    show ?thesis by (rule mv_inv_set_peer [OF inv 1(1)]) (simp_all add: t names_known_def)
  qed (use inv in simp)
qed

lemma mv_inv_publish:
  assumes inv: "mv_inv s" and run: "multiVatPublishSturdyRef h objectId t s = (r, s')"
  shows "mv_inv s'"
  using run unfolding multiVatPublishSturdyRef_def
proof (cases rule: require_cases)
  case (1 p)
  show ?thesis
  proof (cases "targets s t")
    case None
    with 1(2) inv show ?thesis by (simp add: findTarget_def)
  next
    case (Some cap)
    with 1(2) have "s' = s\<lparr>sturdyRefs := (sturdyRefs s)(h \<mapsto> (refs_of h s)(sturdyObjectKey objectId \<mapsto> cap))\<rparr>"
      by (simp add: findTarget_def)
    then show ?thesis
      by (intro mv_inv_set_refs [OF inv, of h s' "Some ((refs_of h s)(sturdyObjectKey objectId \<mapsto> cap))"])
        (auto simp: 1(1) names_known_def)
  qed
qed (use inv in simp)

lemma mv_inv_unpublish:
  assumes inv: "mv_inv s" and run: "multiVatUnpublishSturdyRef h objectId s = (r, s')"
  shows "mv_inv s'"
  using run unfolding multiVatUnpublishSturdyRef_def
proof (cases rule: require_cases)
  case (1 p)
  show ?thesis
  proof (cases "sturdyRefs s h")
    case None
    with 1(2) inv show ?thesis by simp
  next
    case (Some m)
    show ?thesis
    proof (cases "m (sturdyObjectKey objectId)")
      case None
      with Some 1(2) inv show ?thesis by (simp add: Let_def)
    next
      case (Some cap)
      let ?m = "m(sturdyObjectKey objectId := None)"
      have "s' = s\<lparr>sturdyRefs := (sturdyRefs s)(h := (if dom ?m = {} then None else Some ?m))\<rparr>"
        using Some \<open>sturdyRefs s h = Some m\<close> 1(2) by (simp add: Let_def del: dom_fun_upd)
      then have t: "multiVatPeers s' = multiVatPeers s" "multiVatPeerIdsByName s' = multiVatPeerIdsByName s"
        "names_known s' = names_known s"
        "sturdyRefs s' = (sturdyRefs s)(h := (if dom ?m = {} then None else Some ?m))"
        by (simp_all add: names_known_def del: dom_fun_upd)
      show ?thesis
      proof (rule mv_inv_set_refs [OF inv _ t(4) _ t(1,2,3)])
        show "multiVatPeers s h \<noteq> None" using 1(1) by simp
        show "dom m' \<noteq> {}" if "(if dom ?m = {} then None else Some ?m) = Some m'" for m'
          using that by (cases "dom ?m = {}") (simp_all del: dom_fun_upd)
      qed
    qed
  qed
qed (use inv in simp)

lemma mv_inv_clear:
  assumes inv: "mv_inv s" and run: "multiVatClearPublishedSturdyRefs h s = (r, s')"
  shows "mv_inv s'"
  using run unfolding multiVatClearPublishedSturdyRefs_def
proof (cases rule: require_cases)
  case (1 p)
  then have t: "s' = s\<lparr>sturdyRefs := (sturdyRefs s)(h := None)\<rparr>" by simp
  show ?thesis by (rule mv_inv_set_refs [OF inv, of h _ None]) (simp_all add: t 1(1) names_known_def)
qed (use inv in simp)

section \<open>Every run\<close>

definition multi_vat_init :: "u32 \<Rightarrow> multi_vat_state" where
  "multi_vat_init fds = connections_state.extend (connections_init fds)
     \<lparr>genericVatNetwork = network_init, multiVatPeers = Map.empty, multiVatPeerIdsByName = Map.empty,
      sturdyRefs = Map.empty, genericBootstrapFactories = [], nextMultiVatPeerId = 1\<rparr>"

text \<open>
  \<open>mv_run\<close>: any sequence of the multi-vat operations and, in \<open>other\<close>, of anything that
  leaves their tables alone and forgets no vat (every other operation of the runtime, and
  the event loop's work on the network).
\<close>

type_synonym restorer = "obj \<Rightarrow> string \<Rightarrow> bool \<Rightarrow> bytes \<Rightarrow> multi_vat_state \<Rightarrow> u32 option \<times> multi_vat_state"

inductive mv_run :: "env \<Rightarrow> lib \<Rightarrow> restorer \<Rightarrow> multi_vat_state \<Rightarrow> bool" for env lib rst where
  start: "mv_run env lib rst (multi_vat_init fds)"
| client: "mv_run env lib rst s \<Longrightarrow> newMultiVatClient env lib name s = (r, t) \<Longrightarrow> mv_run env lib rst t"
| server: "mv_run env lib rst s \<Longrightarrow> newMultiVatServer env lib name i s = (r, t) \<Longrightarrow> mv_run env lib rst t"
| factory: "mv_run env lib rst s \<Longrightarrow> newMultiVatServerWithBootstrapFactory env lib name f s = (r, t) \<Longrightarrow>
    mv_run env lib rst t"
| release: "mv_run env lib rst s \<Longrightarrow> releaseMultiVatPeer lib i s = (u, t) \<Longrightarrow> mv_run env lib rst t"
| bootstrap: "mv_run env lib rst s \<Longrightarrow> multiVatBootstrap env lib i v s = (r, t) \<Longrightarrow> mv_run env lib rst t"
| bootstrap_peer: "mv_run env lib rst s \<Longrightarrow> multiVatBootstrapPeer env lib i j b s = (r, t) \<Longrightarrow>
    mv_run env lib rst t"
| diagnostics: "mv_run env lib rst s \<Longrightarrow> multiVatGetDiagnostics env lib i v s = (d, t) \<Longrightarrow> mv_run env lib rst t"
| hold: "mv_run env lib rst s \<Longrightarrow> multiVatConnectionBlock i j s = (u, t) \<Longrightarrow> mv_run env lib rst t"
| unhold: "mv_run env lib rst s \<Longrightarrow> multiVatConnectionUnblock i j s = (u, t) \<Longrightarrow> mv_run env lib rst t"
| cut: "mv_run env lib rst s \<Longrightarrow> multiVatConnectionDisconnect i j x y z s = (u, t) \<Longrightarrow> mv_run env lib rst t"
| reset: "mv_run env lib rst s \<Longrightarrow> multiVatConnectionResetResolveDisembargoTrace i j s = (u, t) \<Longrightarrow>
    mv_run env lib rst t"
| set_restorer: "mv_run env lib rst s \<Longrightarrow> multiVatSetRestorer i x' s = (u, t) \<Longrightarrow> mv_run env lib rst t"
| clear_restorer: "mv_run env lib rst s \<Longrightarrow> multiVatClearRestorer i s = (u, t) \<Longrightarrow> mv_run env lib rst t"
| publish: "mv_run env lib rst s \<Longrightarrow> multiVatPublishSturdyRef i objectId j s = (u, t) \<Longrightarrow> mv_run env lib rst t"
| unpublish: "mv_run env lib rst s \<Longrightarrow> multiVatUnpublishSturdyRef i objectId s = (u, t) \<Longrightarrow> mv_run env lib rst t"
| clear: "mv_run env lib rst s \<Longrightarrow> multiVatClearPublishedSturdyRefs i s = (u, t) \<Longrightarrow> mv_run env lib rst t"
| restore: "mv_run env lib rst s \<Longrightarrow> multiVatRestoreSturdyRef rst i v objectId s = (r, t) \<Longrightarrow>
    mv_run env lib rst t"
| other: "mv_run env lib rst s \<Longrightarrow> mv_view t = mv_view s \<Longrightarrow> names_known s \<subseteq> names_known t \<Longrightarrow>
    mv_run env lib rst t"

text \<open>The law of the restorers: what they call back leaves these tables alone.\<close>

definition restorer_frame :: "restorer \<Rightarrow> bool" where
  "restorer_frame rst \<longleftrightarrow> (\<forall>o' nm u bs s a t. rst o' nm u bs s = (a, t) \<longrightarrow>
     mv_view t = mv_view s \<and> names_known s \<subseteq> names_known t)"

lemma steady_bootstrap:
  assumes "lib_keeps_vats lib"
  shows "steady (multiVatBootstrap env lib i v)" "steady (multiVatBootstrapPeer env lib i j b)"
    "steady (multiVatGetDiagnostics env lib i v)"
  unfolding multiVatBootstrapPeer_def multiVatBootstrap_def multiVatGetDiagnostics_def Let_def
  by (intro steady_intro steady_rpc_call assms)+

lemma steady_restore:
  assumes "restorer_frame rst"
  shows "steady (multiVatRestoreSturdyRef rst i v objectId)"
proof -
  have "steady (\<lambda>s. let (reply, s') = rst x nm u bs s in (Ret reply, s'))" for x nm u bs
    using assms by (auto simp: steady_def restorer_frame_def split: prod.splits)
  then show ?thesis
    unfolding multiVatRestoreSturdyRef_def by (intro steady_intro allI) (auto intro!: steady_intro split: option.split)
qed

lemma mv_init [simp]: "mv_inv (multi_vat_init fds)"
  by (simp add: mv_inv_def multi_vat_init_def connections_state.defs)

lemma mv_run_inv:
  assumes "mv_run env lib rst s" and lib: "lib_keeps_vats lib" and app: "restorer_frame rst"
  shows "mv_inv s"
  using assms(1)
proof (induction rule: mv_run.induct)
  case (start fds)
  show ?case by simp
next
  case (other s t)
  then show ?case using mv_inv_transfer by blast
qed (blast intro: mv_inv_new [OF lib] mv_inv_release [OF _ lib] mv_inv_restorers mv_inv_publish mv_inv_unpublish
    mv_inv_clear steady_inv [OF steady_bootstrap(1) [OF lib]] steady_inv [OF steady_bootstrap(2) [OF lib]]
    steady_inv [OF steady_bootstrap(3) [OF lib]] steady_inv [OF steady_controls(1)] steady_inv [OF steady_controls(2)]
    steady_inv [OF steady_controls(3)] steady_inv [OF steady_controls(4)] steady_inv [OF steady_restore [OF app]])+

text \<open>C20. The tables of the multi-vat peers agree in every run: a peer is found by its name and only
  by it, so two live peers never share a name and the lookup by name in a restore cannot fail; and
  sturdy references are published only for live peers, a released peer's are gone, and no empty set of
  them is kept.\<close>

theorem peer_tables_agree:
  assumes "mv_run env lib rst s" and "lib_keeps_vats lib" and "restorer_frame rst"
  shows "(\<forall>nm i. multiVatPeerIdsByName s nm = Some i \<longleftrightarrow> (\<exists>p. multiVatPeers s i = Some p \<and> mv_name p = nm)) \<and>
    (\<forall>i p j q. multiVatPeers s i = Some p \<and> multiVatPeers s j = Some q \<and> mv_name p = mv_name q \<longrightarrow> i = j) \<and>
    (\<forall>h m. sturdyRefs s h = Some m \<longrightarrow> multiVatPeers s h \<noteq> None \<and> dom m \<noteq> {})"
proof -
  have inv: "mv_inv s" by (rule mv_run_inv [OF assms])
  then have a: "multiVatPeerIdsByName s nm = Some i \<longleftrightarrow> (\<exists>p. multiVatPeers s i = Some p \<and> mv_name p = nm)" for nm i
    unfolding mv_inv_def by blast
  have "i = j" if "multiVatPeers s i = Some p" "multiVatPeers s j = Some q" "mv_name p = mv_name q" for i p j q
    using a [of "mv_name p" i] a [of "mv_name p" j] that by auto
  with a inv show ?thesis unfolding mv_inv_def by blast
qed

text \<open>A client and a server with a published reference; the client is released at the end.\<close>

definition idle_lib :: lib where "idle_lib l c n = n"

definition no_restorer :: restorer where "no_restorer r nm u bs s = (None, s)"

lemma laws_ok: "lib_keeps_vats idle_lib" "restorer_frame no_restorer"
  by (auto simp: lib_keeps_vats_def idle_lib_def restorer_frame_def no_restorer_def)

definition with_target :: multi_vat_state where
  "with_target = (multi_vat_init 0)\<lparr>targets := [1 \<mapsto> ExternalClient 4], nextTargetId := 2\<rparr>"

definition published :: multi_vat_state where
  "published = snd (multiVatPublishSturdyRef 2 [7] 1 (snd (newMultiVatServer ok_env idle_lib ''h'' 1
     (snd (newMultiVatClient ok_env idle_lib ''c'' with_target)))))"

lemma run_published: "mv_run ok_env idle_lib no_restorer published"
proof -
  have w: "mv_run ok_env idle_lib no_restorer with_target"
    by (rule mv_run.other [OF mv_run.start]) (auto simp: with_target_def mv_view_def names_known_def)
  show ?thesis
    unfolding published_def
    by (rule mv_run.publish [OF mv_run.server [OF mv_run.client [OF w prod.collapse [symmetric]]
        prod.collapse [symmetric]] prod.collapse [symmetric]])
qed

lemma init_mv_parts:
  "targets (multi_vat_init fds) = Map.empty" "multiVatPeers (multi_vat_init fds) = Map.empty"
  "nextMultiVatPeerId (multi_vat_init fds) = 1" "genericVatNetwork (multi_vat_init fds) = network_init"
  "sturdyRefs (multi_vat_init fds) = Map.empty" "log (multi_vat_init fds) = []"
  "multiVatPeerIdsByName (multi_vat_init fds) = Map.empty"
  by (simp_all add: multi_vat_init_def connections_init_def handlers_init_def calls_init_def promises_init_def
      promise_caps_init_def targets_init_def connections_state.defs handlers_state.defs calls_state.defs
      promises_state.defs promise_caps_state.defs targets_state.defs)

lemmas mv_eval = published_def with_target_def init_mv_parts newMultiVatClient_def newMultiVatServer_def on_net_def
  add_def rpc_call_def call_def addMultiVatPeer_def new_peer_def multiVatPublishSturdyRef_def requireMultiVatPeer_def
  findTarget_def idle_lib_def network_init_def

lemma published_state:
  "multiVatPeers published 2 = Some \<lparr>mv_name = ''h'', mv_rpcSystem = 1, sturdyRefRestorer = None\<rparr>"
  "multiVatPeers published 1 = Some \<lparr>mv_name = ''c'', mv_rpcSystem = 0, sturdyRefRestorer = None\<rparr>"
  "targets published = [1 \<mapsto> ExternalClient 4]" "nextTargetId published = 2"
  by (simp_all add: mv_eval)

lemma peer_tables_agree_witness:
  "multiVatPeerIdsByName published ''h'' = Some 2 \<and> multiVatPeerIdsByName published ''x'' \<noteq> Some 2"
  using peer_tables_agree [OF run_published laws_ok] published_state(1) by auto

section \<open>Sturdy references\<close>

lemma bytes_as_chars_inj [simp]: "bytes_as_chars a = bytes_as_chars b \<longleftrightarrow> a = b"
proof -
  have "inj (\<lambda>w :: u8. char_of (unat w) :: char)"
  proof (rule injI)
    fix x y :: u8
    assume eq: "(char_of (unat x) :: char) = char_of (unat y)"
    have "unat x < 256" "unat y < 256" using unsigned_less [of x, where ?'a = nat] unsigned_less [of y, where ?'a = nat] by simp_all
    then have "unat x = unat y" using arg_cong [OF eq, of "of_char :: char \<Rightarrow> nat"] by simp
    then show "x = y" by (rule unsigned_word_eqI)
  qed
  then show ?thesis by (simp add: bytes_as_chars_def inj_map_eq_map)
qed

lemma sturdyObjectKey_inj [simp]: "sturdyObjectKey a = sturdyObjectKey b \<longleftrightarrow> a = b"
  using bytes_as_chars_inj [of a b] bytes_as_chars_inj [of a "[]"] bytes_as_chars_inj [of "[]" b]
  by (auto simp: sturdyObjectKey_def bytes_as_chars_def)

text \<open>What a restore by a live peer does when the host has no restorer.\<close>

lemma restore_published:
  assumes inv: "mv_inv s" and source: "multiVatPeers s src = Some p"
    and hst: "multiVatPeers s h = Some q" "sturdyRefRestorer q = None"
  shows "multiVatRestoreSturdyRef rst src \<lparr>host = mv_name q, unique = u\<rparr> objectId s =
     (case sturdyRefs s h of
        None \<Rightarrow> (Throw (StdEx (''no sturdy refs published for host: '' @ mv_name q)), s)
      | Some m \<Rightarrow> (case m (sturdyObjectKey objectId) of
            None \<Rightarrow> (Throw (StdEx ''unknown sturdy ref object id''), s)
          | Some cap \<Rightarrow> addTarget cap s))"
proof -
  have "multiVatPeerIdsByName s (mv_name q) = Some h" using inv hst(1) by (simp add: mv_inv_def)
  with source hst show ?thesis
    by (auto simp: multiVatRestoreSturdyRef_def requireMultiVatPeer_def requireMultiVatPeerByHost_def
        split: option.split)
qed

lemma restore_by_restorer:
  assumes inv: "mv_inv s" and source: "multiVatPeers s src = Some p"
    and hst: "multiVatPeers s h = Some q" "sturdyRefRestorer q = Some x"
  shows "multiVatRestoreSturdyRef rst src \<lparr>host = mv_name q, unique = u\<rparr> objectId s =
     (case rst x (c_str (mv_name p)) u objectId (s\<lparr>log := log s @ [LeanInc x]\<rparr>) of
        (None, t) \<Rightarrow> (Throw (StdEx ''multi-vat sturdy ref restorer returned IO error''), t)
      | (Some i, t) \<Rightarrow> retainTarget i t)"
proof -
  have "multiVatPeerIdsByName s (mv_name q) = Some h" using inv hst(1) by (simp add: mv_inv_def)
  with source hst show ?thesis
    by (simp add: multiVatRestoreSturdyRef_def requireMultiVatPeer_def requireMultiVatPeerByHost_def bnd_def
        Let_def split: prod.split option.split)
qed

text \<open>C21. A sturdy reference comes back as it was published, when its host has no restorer:
  whatever is done to the capability table in between (the published target may have been
  released), a restore from any peer by the host's name and the same object registers a new target
  for exactly the client published last under that object, and once it is unpublished the restore
  throws. For a host with a restorer the published references do not matter, before or after they
  are unpublished: the restorer is asked with the name of the asking peer and the object, and the
  target it names is retained, or the restore throws when it fails. In either case another object
  of the same host is not affected by publishing and unpublishing succeeds.\<close>

theorem publish_then_restore:
  assumes run: "mv_run env lib rst s" and laws: "lib_keeps_vats lib" "restorer_frame rst"
    and pub: "multiVatPublishSturdyRef h objectId i s = (Ret (), s1)"
    and hst: "multiVatPeers s h = Some q" and src: "multiVatPeers s src = Some p"
    and later: "mv_view s2 = mv_view s1" "names_known s1 \<subseteq> names_known s2" and free: "targets s2 x = None"
    and unpub: "multiVatUnpublishSturdyRef h objectId s2 = (v, s4)"
  shows "(objectId' \<noteq> objectId \<longrightarrow> refs_of h s2 (sturdyObjectKey objectId') = refs_of h s (sturdyObjectKey objectId')) \<and>
    v = Ret () \<and>
    (case sturdyRefRestorer q of
       None \<Rightarrow>
         (\<exists>j s3. multiVatRestoreSturdyRef rst src \<lparr>host = mv_name q, unique = u\<rparr> objectId s2 = (Ret j, s3) \<and>
           targets s2 j = None \<and> targets s3 = (targets s2)(j := targets s i)) \<and>
         (\<exists>e. multiVatRestoreSturdyRef rst src \<lparr>host = mv_name q, unique = u\<rparr> objectId s4 = (Throw e, s4))
     | Some restorer \<Rightarrow> \<forall>s' \<in> {s2, s4}.
         multiVatRestoreSturdyRef rst src \<lparr>host = mv_name q, unique = u\<rparr> objectId s' =
           (case rst restorer (c_str (mv_name p)) u objectId (s'\<lparr>log := log s' @ [LeanInc restorer]\<rparr>) of
              (None, t) \<Rightarrow> (Throw (StdEx ''multi-vat sturdy ref restorer returned IO error''), t)
            | (Some j, t) \<Rightarrow> retainTarget j t))"
proof -
  have inv: "mv_inv s" by (rule mv_run_inv [OF run laws])
  obtain cap where cap: "targets s i = Some cap"
    and s1: "s1 = s\<lparr>sturdyRefs := (sturdyRefs s)(h \<mapsto> (refs_of h s)(sturdyObjectKey objectId \<mapsto> cap))\<rparr>"
    using pub hst(1) by (cases "targets s i")
      (auto simp: multiVatPublishSturdyRef_def requireMultiVatPeer_def findTarget_def)
  have inv2: "mv_inv s2" by (rule mv_inv_transfer [OF mv_inv_publish [OF inv pub] later])
  have v2: "multiVatPeers s2 h = Some q" "multiVatPeers s2 src = Some p"
    "sturdyRefs s2 h = Some ((refs_of h s)(sturdyObjectKey objectId \<mapsto> cap))"
    using later(1) hst src by (simp_all add: s1 mv_view_def)
  let ?m = "(refs_of h s)(sturdyObjectKey objectId := None)"
  have "multiVatUnpublishSturdyRef h objectId s2 =
      (Ret (), s2\<lparr>sturdyRefs := (sturdyRefs s2)(h := (if dom ?m = {} then None else Some ?m))\<rparr>)"
    unfolding multiVatUnpublishSturdyRef_def requireMultiVatPeer_def Let_def
    by (simp add: v2 del: dom_fun_upd)
  with unpub have s4: "v = Ret ()"
    "s4 = s2\<lparr>sturdyRefs := (sturdyRefs s2)(h := (if dom ?m = {} then None else Some ?m))\<rparr>" by simp_all
  have inv4: "mv_inv s4" by (rule mv_inv_unpublish [OF inv2 unpub])
  have v4: "multiVatPeers s4 h = Some q" "multiVatPeers s4 src = Some p" using v2 by (simp_all add: s4(2))
  have frame: "objectId' \<noteq> objectId \<longrightarrow>
      refs_of h s2 (sturdyObjectKey objectId') = refs_of h s (sturdyObjectKey objectId')"
    using v2(3) by (simp add: refs_of_def)
  show ?thesis
  proof (cases "sturdyRefRestorer q")
    case None
    have "multiVatRestoreSturdyRef rst src \<lparr>host = mv_name q, unique = u\<rparr> objectId s2 = addTarget cap s2"
      using restore_published [OF inv2 v2(2,1) None, of rst u objectId] v2(3) by simp
    moreover obtain j n where "alloc_id (targets s2) (nextTargetId s2) = Some (j, n)"
      using alloc_id_total [of "targets s2" x] free by fastforce
    ultimately have "\<exists>j s3. multiVatRestoreSturdyRef rst src \<lparr>host = mv_name q, unique = u\<rparr> objectId s2 = (Ret j, s3) \<and>
        targets s2 j = None \<and> targets s3 = (targets s2)(j := targets s i)"
      using alloc_id_Some [of "targets s2" "nextTargetId s2"] cap by (auto simp: addTarget_def)
    moreover have "\<exists>e. multiVatRestoreSturdyRef rst src \<lparr>host = mv_name q, unique = u\<rparr> objectId s4 = (Throw e, s4)"
      using restore_published [OF inv4 v4(2,1) None, of rst u objectId]
      by (simp add: s4(2) del: dom_fun_upd split: if_split)
    ultimately show ?thesis
      using frame s4(1) None by simp
  next
    case (Some r)
    then show ?thesis
      using frame s4(1) restore_by_restorer [OF inv2 v2(2,1) Some] restore_by_restorer [OF inv4 v4(2,1) Some]
      by simp
  qed
qed

lemma publish_then_restore_witness:
  "\<exists>j s3 v s4. multiVatRestoreSturdyRef no_restorer 1 \<lparr>host = ''h'', unique = False\<rparr> [9] s3 = (Ret j, s4) \<and>
     targets s4 j = Some (ExternalClient 4) \<and> multiVatUnpublishSturdyRef 2 [9] s3 = (Ret (), v)"
proof -
  obtain s1 where pub: "multiVatPublishSturdyRef 2 [9] 1 published = (Ret (), s1)"
    using published_state by (simp add: multiVatPublishSturdyRef_def requireMultiVatPeer_def findTarget_def)
  let ?s2 = "s1\<lparr>targets := Map.empty\<rparr>"
  obtain v s4 where un: "multiVatUnpublishSturdyRef 2 [9] ?s2 = (v, s4)" by fastforce
  have "(\<exists>j s3. multiVatRestoreSturdyRef no_restorer 1 \<lparr>host = ''h'', unique = False\<rparr> [9] ?s2 = (Ret j, s3) \<and>
      targets ?s2 j = None \<and> targets s3 = (targets ?s2)(j := targets published 1)) \<and> v = Ret ()"
    using publish_then_restore [OF run_published laws_ok pub published_state(1,2) _ _ _ un,
        of 0 "[]" False]
    by (simp add: mv_view_def names_known_def)
  then obtain j s3 where "multiVatRestoreSturdyRef no_restorer 1 \<lparr>host = ''h'', unique = False\<rparr> [9] ?s2 = (Ret j, s3)"
    "targets s3 = [j \<mapsto> ExternalClient 4]" "v = Ret ()"
    by (auto simp: published_state(3))
  with un show ?thesis by (intro exI [of _ j] exI [of _ ?s2] exI [of _ s4] exI [of _ s3]) simp
qed

section \<open>Names\<close>

text \<open>A released peer's name is not free again: the network never removes a vat, so after a peer
  has been released every later attempt to make a client or a server of that name throws
  \<^verbatim>\<open>vat already exists\<close>, although no peer of that name is left.\<close>

theorem released_name_stays_taken:
  assumes run: "mv_run env lib rst s" and laws: "lib_keeps_vats lib" "restorer_frame rst"
    and p: "multiVatPeers s i = Some p" and rel: "releaseMultiVatPeer lib i s = (Ret (), s1)"
    and later: "names_known s1 \<subseteq> names_known s2" and target: "targets s2 j = Some cap"
  shows "multiVatPeerIdsByName s1 (mv_name p) = None \<and>
    newMultiVatClient env lib (mv_name p) s2 = (Throw (StdEx (''vat already exists: '' @ mv_name p)), s2) \<and>
    newMultiVatServer env lib (mv_name p) j s2 = (Throw (StdEx (''vat already exists: '' @ mv_name p)), s2) \<and>
    newMultiVatServerWithBootstrapFactory env lib (mv_name p) f s2 =
      (Throw (StdEx (''vat already exists: '' @ mv_name p)), s2)"
proof -
  have inv: "mv_inv s" by (rule mv_run_inv [OF run laws])
  have "mv_name p \<in> names_known s" using inv p by (simp add: mv_inv_def)
  note R = release_effect [OF p laws(1) rel]
  have gone: "multiVatPeerIdsByName s1 (mv_name p) = None" by (simp add: R(2))
  have "mv_name p \<in> names_known s2" using \<open>mv_name p \<in> names_known s\<close> R(4) later by blast
  then obtain w where "vats (genericVatNetwork s2) (mv_name p) = Some w" by (auto simp: names_known_def)
  then have "on_net (add (mv_name p)) s2 = (Throw (StdEx (''vat already exists: '' @ mv_name p)), s2)"
    by (simp add: on_net_def add_def)
  with gone target show ?thesis
    by (simp add: newMultiVatClient_def newMultiVatServer_def newMultiVatServerWithBootstrapFactory_def findTarget_def)
qed

lemma released_name_stays_taken_witness:
  "\<exists>s1. releaseMultiVatPeer idle_lib 1 published = (Ret (), s1) \<and>
     fst (newMultiVatClient ok_env idle_lib ''c'' s1) = Throw (StdEx ''vat already exists: c'')"
proof -
  obtain s1 where rel: "releaseMultiVatPeer idle_lib 1 published = (Ret (), s1)" and "targets s1 = targets published"
    using published_state by (simp add: releaseMultiVatPeer_def requireMultiVatPeer_def Let_def)
  with released_name_stays_taken [OF run_published laws_ok published_state(2) rel order_refl, of 1 "ExternalClient 4"]
  show ?thesis by (simp add: published_state(3))
qed

end
