(* ===== verification/Completions.thy ===== *)
theory Completions
  imports Generic_Vat
begin

text \<open>
  The completions of \<^verbatim>\<open>ffi/rpc_bridge_common.h\<close> and the functions of
  \<^verbatim>\<open>ffi/rpc_bridge_common.cpp\<close> that answer them. A completion is shared between the
  thread that asked for an operation and waits until it is done, and the runtime's thread.
\<close>

section \<open>Completions\<close>

text \<open>One kind per completion type of the source.\<close>

datatype completion_kind =
    RawCallCompletion
  | RegisterTargetCompletion
  | UnitCompletion
  | UInt64Completion
  | BoolCompletion
  | OptionalStringCompletion
  | Int64Completion
  | ByteArrayCompletion
  | RegisterPairCompletion
  | KjPromiseIdCompletion
  | DiagnosticsCompletion
  | ProtocolMessageCountsCompletion
  | AsyncUnitCompletion

text \<open>
  A Lean object of type \<^verbatim>\<open>Except IO.Error Unit\<close> as it lies in memory: the index of the
  constructor and its field.
\<close>

datatype lean_field = BoxedUnit | IoUserError string

datatype lean_except = LeanCtor nat lean_field

text \<open>\<^verbatim>\<open>Except\<close> declares \<^verbatim>\<open>error\<close> first, so Lean code reads index 0 as an
  error and index 1 as a success.\<close>

definition reads_as_ok :: "lean_except \<Rightarrow> bool" where
  "reads_as_ok v = (case v of LeanCtor i _ \<Rightarrow> i = 1)"

text \<open>The payload each kind carries; \<open>AsyncUnitValue\<close> is the Lean promise and what it was
  resolved with.\<close>

datatype completion_value =
    RawCallValue bytes bytes
  | TargetIdValue u32
  | UnitValue
  | UInt64Value u64
  | BoolValue bool
  | OptionalStringValue bool string
  | Int64Value u64
  | ByteArrayValue bytes
  | PairValue u32 u32
  | KjPromiseIdValue u32
  | DiagnosticsValue obj
  | CountsValue protocol_message_counts
  | AsyncUnitValue obj "lean_except option"

fun kind_of :: "completion_value \<Rightarrow> completion_kind" where
  "kind_of (RawCallValue _ _) = RawCallCompletion"
| "kind_of (TargetIdValue _) = RegisterTargetCompletion"
| "kind_of UnitValue = UnitCompletion"
| "kind_of (UInt64Value _) = UInt64Completion"
| "kind_of (BoolValue _) = BoolCompletion"
| "kind_of (OptionalStringValue _ _) = OptionalStringCompletion"
| "kind_of (Int64Value _) = Int64Completion"
| "kind_of (ByteArrayValue _) = ByteArrayCompletion"
| "kind_of (PairValue _ _) = RegisterPairCompletion"
| "kind_of (KjPromiseIdValue _) = KjPromiseIdCompletion"
| "kind_of (DiagnosticsValue _) = DiagnosticsCompletion"
| "kind_of (CountsValue _) = ProtocolMessageCountsCompletion"
| "kind_of (AsyncUnitValue _ _) = AsyncUnitCompletion"

text \<open>
  The fields from \<open>exceptionTypeTag\<close> to \<open>lineNumber\<close> exist in \<^verbatim>\<open>RawCallCompletion\<close>
  only and keep their initial values in the others.
\<close>

record completion =
  is_done :: bool
  is_ok :: bool
  error_text :: string
  payload :: completion_value
  exceptionTypeTag :: u8
  exceptionDescription :: string
  remoteTrace :: string
  detailBytes :: bytes
  fileName :: string
  lineNumber :: u32

text \<open>The value a payload starts with. \<open>p\<close> is the Lean promise of an asynchronous unit.\<close>

fun initial_value :: "obj \<Rightarrow> completion_kind \<Rightarrow> completion_value" where
  "initial_value p RawCallCompletion = RawCallValue [] []"
| "initial_value p RegisterTargetCompletion = TargetIdValue 0"
| "initial_value p UnitCompletion = UnitValue"
| "initial_value p UInt64Completion = UInt64Value 0"
| "initial_value p BoolCompletion = BoolValue False"
| "initial_value p OptionalStringCompletion = OptionalStringValue False []"
| "initial_value p Int64Completion = Int64Value 0"
| "initial_value p ByteArrayCompletion = ByteArrayValue []"
| "initial_value p RegisterPairCompletion = PairValue 0 0"
| "initial_value p KjPromiseIdCompletion = KjPromiseIdValue 0"
| "initial_value p DiagnosticsCompletion = DiagnosticsValue 0"
| "initial_value p ProtocolMessageCountsCompletion = CountsValue \<lparr>resolveCount = 0, disembargoCount = 0\<rparr>"
| "initial_value p AsyncUnitCompletion = AsyncUnitValue p None"

definition new_completion :: "obj \<Rightarrow> completion_kind \<Rightarrow> completion" where
  "new_completion p k = \<lparr>is_done = False, is_ok = False, error_text = [], payload = initial_value p k,
     exceptionTypeTag = 0, exceptionDescription = [], remoteTrace = [], detailBytes = [],
     fileName = [], lineNumber = 0\<rparr>"

section \<open>Answering\<close>

definition completeSuccess :: "bytes \<Rightarrow> bytes \<Rightarrow> completion \<Rightarrow> completion" where
  "completeSuccess words caps c = c\<lparr>is_ok := True, payload := RawCallValue words caps, is_done := True\<rparr>"

definition completeFailure :: "string \<Rightarrow> completion \<Rightarrow> completion" where
  "completeFailure message c = c\<lparr>is_ok := False, error_text := message,
     exceptionTypeTag := exTypeTag FAILED, exceptionDescription := message,
     remoteTrace := [], detailBytes := [], is_done := True\<rparr>"

definition completeFailureKj :: "kj_exception \<Rightarrow> completion \<Rightarrow> completion" where
  "completeFailureKj e c = c\<lparr>is_ok := False, error_text := describeKjException e,
     exceptionTypeTag := exTypeTag (ex_type e),
     exceptionDescription := c_str (ex_description e),
     remoteTrace := (case ex_remoteTrace e of None \<Rightarrow> [] | Some t \<Rightarrow> c_str t),
     detailBytes := (case ex_detail e of None \<Rightarrow> [] | Some d \<Rightarrow> d),
     fileName := ex_file e, lineNumber := ex_line e, is_done := True\<rparr>"

definition completeRegisterSuccess :: "u32 \<Rightarrow> completion \<Rightarrow> completion" where
  "completeRegisterSuccess targetId c = c\<lparr>is_ok := True, payload := TargetIdValue targetId, is_done := True\<rparr>"

definition completeRegisterFailure :: "string \<Rightarrow> completion \<Rightarrow> completion" where
  "completeRegisterFailure message c = c\<lparr>is_ok := False, error_text := message, is_done := True\<rparr>"

definition completeUnitSuccess :: "completion \<Rightarrow> completion" where
  "completeUnitSuccess c = c\<lparr>is_ok := True, is_done := True\<rparr>"

definition completeUnitFailure :: "string \<Rightarrow> completion \<Rightarrow> completion" where
  "completeUnitFailure message c = c\<lparr>is_ok := False, error_text := message, is_done := True\<rparr>"

definition completeUInt64Success :: "u64 \<Rightarrow> completion \<Rightarrow> completion" where
  "completeUInt64Success v c = c\<lparr>is_ok := True, payload := UInt64Value v, is_done := True\<rparr>"

definition completeUInt64Failure :: "string \<Rightarrow> completion \<Rightarrow> completion" where
  "completeUInt64Failure message c = c\<lparr>is_ok := False, error_text := message, is_done := True\<rparr>"

definition completeBoolSuccess :: "bool \<Rightarrow> completion \<Rightarrow> completion" where
  "completeBoolSuccess v c = c\<lparr>is_ok := True, payload := BoolValue v, is_done := True\<rparr>"

definition completeBoolFailure :: "string \<Rightarrow> completion \<Rightarrow> completion" where
  "completeBoolFailure message c = c\<lparr>is_ok := False, error_text := message, is_done := True\<rparr>"

definition completeOptionalStringSuccess :: "string option \<Rightarrow> completion \<Rightarrow> completion" where
  "completeOptionalStringSuccess v c = c\<lparr>is_ok := True,
     payload := (case v of Some x \<Rightarrow> OptionalStringValue True x | None \<Rightarrow> OptionalStringValue False []),
     is_done := True\<rparr>"

definition completeOptionalStringFailure :: "string \<Rightarrow> completion \<Rightarrow> completion" where
  "completeOptionalStringFailure message c = c\<lparr>is_ok := False, error_text := message, is_done := True\<rparr>"

definition completeInt64Success :: "u64 \<Rightarrow> completion \<Rightarrow> completion" where
  "completeInt64Success v c = c\<lparr>is_ok := True, payload := Int64Value v, is_done := True\<rparr>"

definition completeInt64Failure :: "string \<Rightarrow> completion \<Rightarrow> completion" where
  "completeInt64Failure message c = c\<lparr>is_ok := False, error_text := message, is_done := True\<rparr>"

definition completeByteArraySuccess :: "bytes \<Rightarrow> completion \<Rightarrow> completion" where
  "completeByteArraySuccess v c = c\<lparr>is_ok := True, payload := ByteArrayValue v, is_done := True\<rparr>"

definition completeByteArrayFailure :: "string \<Rightarrow> completion \<Rightarrow> completion" where
  "completeByteArrayFailure message c = c\<lparr>is_ok := False, error_text := message, is_done := True\<rparr>"

definition completeRegisterPairSuccess :: "u32 \<Rightarrow> u32 \<Rightarrow> completion \<Rightarrow> completion" where
  "completeRegisterPairSuccess a b c = c\<lparr>is_ok := True, payload := PairValue a b, is_done := True\<rparr>"

definition completeRegisterPairFailure :: "string \<Rightarrow> completion \<Rightarrow> completion" where
  "completeRegisterPairFailure message c = c\<lparr>is_ok := False, error_text := message, is_done := True\<rparr>"

definition completeKjPromiseIdSuccess :: "u32 \<Rightarrow> completion \<Rightarrow> completion" where
  "completeKjPromiseIdSuccess promiseId c =
     c\<lparr>is_ok := True, payload := KjPromiseIdValue promiseId, is_done := True\<rparr>"

definition completeKjPromiseIdFailure :: "string \<Rightarrow> completion \<Rightarrow> completion" where
  "completeKjPromiseIdFailure message c = c\<lparr>is_ok := False, error_text := message, is_done := True\<rparr>"

definition completeDiagnosticsSuccess :: "obj \<Rightarrow> completion \<Rightarrow> completion" where
  "completeDiagnosticsSuccess v c = c\<lparr>is_ok := True, payload := DiagnosticsValue v, is_done := True\<rparr>"

definition completeDiagnosticsFailure :: "string \<Rightarrow> completion \<Rightarrow> completion" where
  "completeDiagnosticsFailure message c = c\<lparr>is_ok := False, error_text := message, is_done := True\<rparr>"

definition completeProtocolMessageCountsSuccess :: "protocol_message_counts \<Rightarrow> completion \<Rightarrow> completion" where
  "completeProtocolMessageCountsSuccess v c = c\<lparr>is_ok := True, payload := CountsValue v, is_done := True\<rparr>"

definition completeProtocolMessageCountsFailure :: "string \<Rightarrow> completion \<Rightarrow> completion" where
  "completeProtocolMessageCountsFailure message c = c\<lparr>is_ok := False, error_text := message, is_done := True\<rparr>"

text \<open>
  \<^verbatim>\<open>lean_io_promise_resolve\<close>: the first resolution of a promise stays. Whoever waits
  for an asynchronous unit waits for its promise, so \<open>is_done\<close> stands for its being resolved.
\<close>

definition resolve_promise :: "lean_except \<Rightarrow> completion \<Rightarrow> completion" where
  "resolve_promise e c = (case payload c of
      AsyncUnitValue p None \<Rightarrow> c\<lparr>payload := AsyncUnitValue p (Some e), is_done := True\<rparr>
    | _ \<Rightarrow> c\<lparr>is_done := True\<rparr>)"

definition completeAsyncUnitSuccess :: "completion \<Rightarrow> completion" where
  "completeAsyncUnitSuccess c = resolve_promise (LeanCtor 0 BoxedUnit) c"

definition completeAsyncUnitFailure :: "string \<Rightarrow> completion \<Rightarrow> completion" where
  "completeAsyncUnitFailure message c = resolve_promise (LeanCtor 1 (IoUserError (c_str message))) c"

text \<open>The overload the source picks from the type of the completion.\<close>

fun complete_ok :: "completion_value \<Rightarrow> completion \<Rightarrow> completion" where
  "complete_ok (RawCallValue w caps) = completeSuccess w caps"
| "complete_ok (TargetIdValue t) = completeRegisterSuccess t"
| "complete_ok UnitValue = completeUnitSuccess"
| "complete_ok (UInt64Value v) = completeUInt64Success v"
| "complete_ok (BoolValue v) = completeBoolSuccess v"
| "complete_ok (OptionalStringValue has v) = completeOptionalStringSuccess (if has then Some v else None)"
| "complete_ok (Int64Value v) = completeInt64Success v"
| "complete_ok (ByteArrayValue v) = completeByteArraySuccess v"
| "complete_ok (PairValue a b) = completeRegisterPairSuccess a b"
| "complete_ok (KjPromiseIdValue i) = completeKjPromiseIdSuccess i"
| "complete_ok (DiagnosticsValue v) = completeDiagnosticsSuccess v"
| "complete_ok (CountsValue v) = completeProtocolMessageCountsSuccess v"
| "complete_ok (AsyncUnitValue _ _) = completeAsyncUnitSuccess"

fun complete_error :: "completion_kind \<Rightarrow> string \<Rightarrow> completion \<Rightarrow> completion" where
  "complete_error RawCallCompletion m = completeFailure m"
| "complete_error RegisterTargetCompletion m = completeRegisterFailure m"
| "complete_error UnitCompletion m = completeUnitFailure m"
| "complete_error UInt64Completion m = completeUInt64Failure m"
| "complete_error BoolCompletion m = completeBoolFailure m"
| "complete_error OptionalStringCompletion m = completeOptionalStringFailure m"
| "complete_error Int64Completion m = completeInt64Failure m"
| "complete_error ByteArrayCompletion m = completeByteArrayFailure m"
| "complete_error RegisterPairCompletion m = completeRegisterPairFailure m"
| "complete_error KjPromiseIdCompletion m = completeKjPromiseIdFailure m"
| "complete_error DiagnosticsCompletion m = completeDiagnosticsFailure m"
| "complete_error ProtocolMessageCountsCompletion m = completeProtocolMessageCountsFailure m"
| "complete_error AsyncUnitCompletion m = completeAsyncUnitFailure m"

text \<open>The three handlers that follow each operation of the run loop: a raw call keeps the
  fields of a KJ exception, the others its description. \<open>unknown\<close> is the text for
  \<^verbatim>\<open>catch (...)\<close>.\<close>

definition complete_caught :: "completion_kind \<Rightarrow> string \<Rightarrow> exn \<Rightarrow> completion \<Rightarrow> completion" where
  "complete_caught k unknown e = (case e of
      KjEx x \<Rightarrow> if k = RawCallCompletion then completeFailureKj x
               else complete_error k (describeKjException x)
    | StdEx what \<Rightarrow> complete_error k what
    | OtherEx \<Rightarrow> complete_error k unknown)"

section \<open>Every answer is final and keeps the kind\<close>

named_theorems completion_defs

lemmas [completion_defs] = completeSuccess_def completeFailure_def completeFailureKj_def
  completeRegisterSuccess_def completeRegisterFailure_def completeUnitSuccess_def
  completeUnitFailure_def completeUInt64Success_def completeUInt64Failure_def
  completeBoolSuccess_def completeBoolFailure_def completeOptionalStringSuccess_def
  completeOptionalStringFailure_def completeInt64Success_def completeInt64Failure_def
  completeByteArraySuccess_def completeByteArrayFailure_def completeRegisterPairSuccess_def
  completeRegisterPairFailure_def completeKjPromiseIdSuccess_def completeKjPromiseIdFailure_def
  completeDiagnosticsSuccess_def completeDiagnosticsFailure_def
  completeProtocolMessageCountsSuccess_def completeProtocolMessageCountsFailure_def
  completeAsyncUnitSuccess_def completeAsyncUnitFailure_def resolve_promise_def

lemma new_completion_simps [simp]:
  "is_done (new_completion p k) = False" "kind_of (payload (new_completion p k)) = k"
  by (simp add: new_completion_def, cases k, simp_all add: new_completion_def)

lemma resolve_promise_simps [simp]:
  "is_done (resolve_promise e c)" "kind_of (payload (resolve_promise e c)) = kind_of (payload c)"
  by (auto simp: resolve_promise_def split: completion_value.splits option.splits)

lemma complete_ok_done [simp]: "is_done (complete_ok v c)"
  by (cases v) (simp_all add: completion_defs del: resolve_promise_simps
      add: resolve_promise_simps[unfolded resolve_promise_def])

lemma complete_ok_kind [simp]:
  "kind_of v = kind_of (payload c) \<Longrightarrow> kind_of (payload (complete_ok v c)) = kind_of (payload c)"
  by (cases v) (simp_all add: completion_defs resolve_promise_simps[unfolded resolve_promise_def])

lemma complete_error_done [simp]: "is_done (complete_error k m c)"
  by (cases k) (simp_all add: completion_defs resolve_promise_simps[unfolded resolve_promise_def])

lemma complete_error_kind [simp]: "kind_of (payload (complete_error k m c)) = kind_of (payload c)"
  by (cases k) (simp_all add: completion_defs resolve_promise_simps[unfolded resolve_promise_def])

lemma complete_caught_simps [simp]:
  "is_done (complete_caught k u e c)" "kind_of (payload (complete_caught k u e c)) = kind_of (payload c)"
  by (auto simp: complete_caught_def completeFailureKj_def split: exn.splits)

end
