(* ===== verification/Queue.thy ===== *)
theory Queue
  imports Completions
begin

text \<open>
  The queue of \<^verbatim>\<open>RuntimeLoop\<close>: the operations other threads ask of the runtime's
  thread, with the methods that put them there. An operation is queued together with the
  handle of its completion, an index into \<open>completions\<close>. The methods run with
  \<^verbatim>\<open>queueMutex_\<close> held, so each is one step.
\<close>

section \<open>Operations\<close>

text \<open>
  The alternatives of \<^verbatim>\<open>QueuedOperation\<close>, in groups that follow the order of the run
  loop. The completion of each struct is the handle beside it in the queue. The bytes of a
  request are what its buffer holds when the operation runs.
\<close>

datatype call_op =
    QueuedRawCall u32 u64 u16 bytes "u32 list"
  | QueuedRawCallData u32 u64 u16 bytes "u32 list"
  | QueuedStartPendingCall u32 u64 u16 bytes "u32 list"
  | QueuedStartPendingCallData u32 u64 u16 bytes "u32 list"
  | QueuedStartStreamingPendingCall u32 u64 u16 bytes "u32 list"
  | QueuedStartStreamingPendingCallData u32 u64 u16 bytes "u32 list"
  | QueuedAwaitPendingCall u32
  | QueuedReleasePendingCall u32
  | QueuedGetPipelinedCap u32 "u16 list"
  | QueuedStreamingCall u32 u64 u16 bytes "u32 list"

datatype target_op =
    QueuedTargetGetFd u32
  | QueuedTargetWhenResolved u32
  | QueuedTargetWhenResolvedStart u32
  | QueuedTargetWhenResolvedPoll u32
  | QueuedEnableTraceEncoder
  | QueuedDisableTraceEncoder
  | QueuedSetTraceEncoder obj

datatype register_op =
    QueuedCppCallWithAccept u32 u32 string u32 u64 u16 bytes "u32 list"
  | QueuedCppCallPipelinedWithAccept u32 u32 string u32 u64 u16 bytes "u32 list" bytes "u32 list"
  | QueuedRegisterLoopbackTarget
  | QueuedRegisterLoopbackBootstrapTarget u32
  | QueuedRegisterHandlerTarget obj
  | QueuedRegisterAdvancedHandlerTarget obj
  | QueuedRegisterTailCallHandlerTarget obj
  | QueuedRegisterTailCallTarget u32
  | QueuedRegisterFdTarget u32
  | QueuedRegisterFdProbeTarget

datatype ownership_op =
    QueuedReleaseTarget u32
  | QueuedReleaseTargets "u32 list"
  | QueuedRetainTarget u32
  | QueuedNewPromiseCapability
  | QueuedPromiseCapabilityFulfill u32 u32
  | QueuedPromiseCapabilityReject u32 u8 string bytes
  | QueuedPromiseCapabilityRelease u32
  | QueuedOrderingSetResolveHold bool
  | QueuedOrderingFlushHeldResolves
  | QueuedOrderingHeldResolveCount

datatype transport_op =
    QueuedConnectTarget string u32
  | QueuedConnectTargetStart string u32
  | QueuedConnectTargetFd u32
  | QueuedNewTransportPipe
  | QueuedNewTransportFromFd u32
  | QueuedNewTransportFromFdTake u32
  | QueuedReleaseTransport u32
  | QueuedTransportGetFd u32
  | QueuedConnectTargetTransport u32

datatype client_op =
    QueuedListenLoopback string u32
  | QueuedAcceptLoopback u32
  | QueuedReleaseListener u32
  | QueuedNewClient string u32
  | QueuedNewClientStart string u32
  | QueuedReleaseClient u32
  | QueuedClientBootstrap u32
  | QueuedClientOnDisconnect u32
  | QueuedClientOnDisconnectStart u32
  | QueuedClientSetFlowLimit u32 u64

datatype metric_op =
    QueuedClientQueueSize u32
  | QueuedClientQueueCount u32
  | QueuedClientOutgoingWaitNanos u32
  | QueuedTargetCount
  | QueuedListenerCount
  | QueuedClientCount
  | QueuedServerCount
  | QueuedPendingCallCount

datatype server_op =
    QueuedNewServer u32
  | QueuedNewServerWithBootstrapFactory obj
  | QueuedReleaseServer u32
  | QueuedServerListen u32 string u32
  | QueuedServerAccept u32 u32
  | QueuedServerAcceptStart u32 u32
  | QueuedServerAcceptFd u32 u32
  | QueuedServerAcceptTransport u32 u32
  | QueuedServerDrain u32
  | QueuedServerDrainStart u32

datatype promise_op =
    QueuedAwaitRegisterPromise u32
  | QueuedCancelRegisterPromise u32
  | QueuedReleaseRegisterPromise u32
  | QueuedAwaitUnitPromise u32
  | QueuedCancelUnitPromise u32
  | QueuedReleaseUnitPromise u32

datatype async_op =
    QueuedKjAsyncSleepNanosStart u64
  | QueuedKjAsyncPromiseAwait u32
  | QueuedKjAsyncPromiseCancel u32
  | QueuedKjAsyncPromiseRelease u32
  | QueuedKjAsyncPromiseThenStart u32 u32
  | QueuedKjAsyncPromiseCatchStart u32 u32
  | QueuedKjAsyncPromiseAllStart "u32 list"
  | QueuedKjAsyncPromiseRaceStart "u32 list"

datatype task_set_op =
    QueuedKjAsyncTaskSetNew
  | QueuedKjAsyncTaskSetRelease u32
  | QueuedKjAsyncTaskSetAddPromise u32 u32
  | QueuedKjAsyncTaskSetClear u32
  | QueuedKjAsyncTaskSetIsEmpty u32
  | QueuedKjAsyncTaskSetOnEmptyStart u32
  | QueuedKjAsyncTaskSetErrorCount u32
  | QueuedKjAsyncTaskSetTakeLastError u32

datatype peer_op =
    QueuedMultiVatNewClient string
  | QueuedMultiVatNewServer string u32
  | QueuedMultiVatNewServerWithBootstrapFactory string obj
  | QueuedMultiVatReleasePeer u32
  | QueuedMultiVatBootstrap u32 string bool
  | QueuedMultiVatBootstrapPeer u32 u32 bool

datatype forwarding_op =
    QueuedMultiVatSetForwardingEnabled bool
  | QueuedMultiVatResetForwardingStats
  | QueuedMultiVatForwardCount
  | QueuedMultiVatThirdPartyTokenCount
  | QueuedMultiVatDeniedForwardCount
  | QueuedMultiVatHasConnection u32 u32
  | QueuedMultiVatSetRestorer u32 obj
  | QueuedMultiVatClearRestorer u32

datatype sturdy_op =
    QueuedMultiVatPublishSturdyRef u32 bytes u32
  | QueuedMultiVatPublishSturdyRefStart u32 bytes u32
  | QueuedMultiVatUnpublishSturdyRef u32 bytes
  | QueuedMultiVatUnpublishSturdyRefStart u32 bytes
  | QueuedMultiVatClearPublishedSturdyRefs u32
  | QueuedMultiVatClearPublishedSturdyRefsStart u32
  | QueuedMultiVatPublishedSturdyRefCount u32
  | QueuedMultiVatRestoreSturdyRef u32 string bool bytes
  | QueuedMultiVatRestoreSturdyRefStart u32 string bool bytes
  | QueuedMultiVatGetDiagnostics u32 obj

datatype link_op =
    QueuedMultiVatConnectionBlock u32 u32
  | QueuedMultiVatConnectionUnblock u32 u32
  | QueuedMultiVatConnectionDisconnect u32 u32 u8 string bytes
  | QueuedMultiVatConnectionResolveDisembargoCounts u32 u32
  | QueuedMultiVatConnectionResolveDisembargoTrace u32 u32
  | QueuedMultiVatConnectionResetResolveDisembargoTrace u32 u32

datatype pump_op =
    QueuedPump
  | QueuedPumpAsync

datatype queued_operation =
    CallOp call_op
  | TargetOp target_op
  | RegisterOp register_op
  | OwnershipOp ownership_op
  | TransportOp transport_op
  | ClientOp client_op
  | MetricOp metric_op
  | ServerOp server_op
  | PromiseOp promise_op
  | AsyncOp async_op
  | TaskSetOp task_set_op
  | PeerOp peer_op
  | ForwardingOp forwarding_op
  | SturdyOp sturdy_op
  | LinkOp link_op
  | PumpOp pump_op

text \<open>The type of the completion each struct holds.\<close>

fun call_op_kind :: "call_op \<Rightarrow> completion_kind" where
  "call_op_kind (QueuedRawCall _ _ _ _ _) = RawCallCompletion"
| "call_op_kind (QueuedRawCallData _ _ _ _ _) = RawCallCompletion"
| "call_op_kind (QueuedStartPendingCall _ _ _ _ _) = RegisterTargetCompletion"
| "call_op_kind (QueuedStartPendingCallData _ _ _ _ _) = RegisterTargetCompletion"
| "call_op_kind (QueuedStartStreamingPendingCall _ _ _ _ _) = RegisterTargetCompletion"
| "call_op_kind (QueuedStartStreamingPendingCallData _ _ _ _ _) = RegisterTargetCompletion"
| "call_op_kind (QueuedAwaitPendingCall _) = RawCallCompletion"
| "call_op_kind (QueuedReleasePendingCall _) = UnitCompletion"
| "call_op_kind (QueuedGetPipelinedCap _ _) = RegisterTargetCompletion"
| "call_op_kind (QueuedStreamingCall _ _ _ _ _) = UnitCompletion"

fun target_op_kind :: "target_op \<Rightarrow> completion_kind" where
  "target_op_kind (QueuedTargetGetFd _) = Int64Completion"
| "target_op_kind (QueuedTargetWhenResolved _) = UnitCompletion"
| "target_op_kind (QueuedTargetWhenResolvedStart _) = RegisterTargetCompletion"
| "target_op_kind (QueuedTargetWhenResolvedPoll _) = BoolCompletion"
| "target_op_kind QueuedEnableTraceEncoder = UnitCompletion"
| "target_op_kind QueuedDisableTraceEncoder = UnitCompletion"
| "target_op_kind (QueuedSetTraceEncoder _) = UnitCompletion"

fun register_op_kind :: "register_op \<Rightarrow> completion_kind" where
  "register_op_kind (QueuedCppCallWithAccept _ _ _ _ _ _ _ _) = RawCallCompletion"
| "register_op_kind (QueuedCppCallPipelinedWithAccept _ _ _ _ _ _ _ _ _ _) = RawCallCompletion"
| "register_op_kind QueuedRegisterLoopbackTarget = RegisterTargetCompletion"
| "register_op_kind (QueuedRegisterLoopbackBootstrapTarget _) = RegisterTargetCompletion"
| "register_op_kind (QueuedRegisterHandlerTarget _) = RegisterTargetCompletion"
| "register_op_kind (QueuedRegisterAdvancedHandlerTarget _) = RegisterTargetCompletion"
| "register_op_kind (QueuedRegisterTailCallHandlerTarget _) = RegisterTargetCompletion"
| "register_op_kind (QueuedRegisterTailCallTarget _) = RegisterTargetCompletion"
| "register_op_kind (QueuedRegisterFdTarget _) = RegisterTargetCompletion"
| "register_op_kind QueuedRegisterFdProbeTarget = RegisterTargetCompletion"

fun ownership_op_kind :: "ownership_op \<Rightarrow> completion_kind" where
  "ownership_op_kind (QueuedReleaseTarget _) = UnitCompletion"
| "ownership_op_kind (QueuedReleaseTargets _) = UnitCompletion"
| "ownership_op_kind (QueuedRetainTarget _) = RegisterTargetCompletion"
| "ownership_op_kind QueuedNewPromiseCapability = RegisterPairCompletion"
| "ownership_op_kind (QueuedPromiseCapabilityFulfill _ _) = UnitCompletion"
| "ownership_op_kind (QueuedPromiseCapabilityReject _ _ _ _) = UnitCompletion"
| "ownership_op_kind (QueuedPromiseCapabilityRelease _) = UnitCompletion"
| "ownership_op_kind (QueuedOrderingSetResolveHold _) = UnitCompletion"
| "ownership_op_kind QueuedOrderingFlushHeldResolves = UInt64Completion"
| "ownership_op_kind QueuedOrderingHeldResolveCount = UInt64Completion"

fun transport_op_kind :: "transport_op \<Rightarrow> completion_kind" where
  "transport_op_kind (QueuedConnectTarget _ _) = RegisterTargetCompletion"
| "transport_op_kind (QueuedConnectTargetStart _ _) = RegisterTargetCompletion"
| "transport_op_kind (QueuedConnectTargetFd _) = RegisterTargetCompletion"
| "transport_op_kind QueuedNewTransportPipe = RegisterPairCompletion"
| "transport_op_kind (QueuedNewTransportFromFd _) = RegisterTargetCompletion"
| "transport_op_kind (QueuedNewTransportFromFdTake _) = RegisterTargetCompletion"
| "transport_op_kind (QueuedReleaseTransport _) = UnitCompletion"
| "transport_op_kind (QueuedTransportGetFd _) = Int64Completion"
| "transport_op_kind (QueuedConnectTargetTransport _) = RegisterTargetCompletion"

fun client_op_kind :: "client_op \<Rightarrow> completion_kind" where
  "client_op_kind (QueuedListenLoopback _ _) = RegisterTargetCompletion"
| "client_op_kind (QueuedAcceptLoopback _) = UnitCompletion"
| "client_op_kind (QueuedReleaseListener _) = UnitCompletion"
| "client_op_kind (QueuedNewClient _ _) = RegisterTargetCompletion"
| "client_op_kind (QueuedNewClientStart _ _) = RegisterTargetCompletion"
| "client_op_kind (QueuedReleaseClient _) = UnitCompletion"
| "client_op_kind (QueuedClientBootstrap _) = RegisterTargetCompletion"
| "client_op_kind (QueuedClientOnDisconnect _) = UnitCompletion"
| "client_op_kind (QueuedClientOnDisconnectStart _) = RegisterTargetCompletion"
| "client_op_kind (QueuedClientSetFlowLimit _ _) = UnitCompletion"

fun metric_op_kind :: "metric_op \<Rightarrow> completion_kind" where
  "metric_op_kind (QueuedClientQueueSize _) = UInt64Completion"
| "metric_op_kind (QueuedClientQueueCount _) = UInt64Completion"
| "metric_op_kind (QueuedClientOutgoingWaitNanos _) = UInt64Completion"
| "metric_op_kind QueuedTargetCount = UInt64Completion"
| "metric_op_kind QueuedListenerCount = UInt64Completion"
| "metric_op_kind QueuedClientCount = UInt64Completion"
| "metric_op_kind QueuedServerCount = UInt64Completion"
| "metric_op_kind QueuedPendingCallCount = UInt64Completion"

fun server_op_kind :: "server_op \<Rightarrow> completion_kind" where
  "server_op_kind (QueuedNewServer _) = RegisterTargetCompletion"
| "server_op_kind (QueuedNewServerWithBootstrapFactory _) = RegisterTargetCompletion"
| "server_op_kind (QueuedReleaseServer _) = UnitCompletion"
| "server_op_kind (QueuedServerListen _ _ _) = RegisterTargetCompletion"
| "server_op_kind (QueuedServerAccept _ _) = UnitCompletion"
| "server_op_kind (QueuedServerAcceptStart _ _) = RegisterTargetCompletion"
| "server_op_kind (QueuedServerAcceptFd _ _) = UnitCompletion"
| "server_op_kind (QueuedServerAcceptTransport _ _) = UnitCompletion"
| "server_op_kind (QueuedServerDrain _) = UnitCompletion"
| "server_op_kind (QueuedServerDrainStart _) = RegisterTargetCompletion"

fun promise_op_kind :: "promise_op \<Rightarrow> completion_kind" where
  "promise_op_kind (QueuedAwaitRegisterPromise _) = RegisterTargetCompletion"
| "promise_op_kind (QueuedCancelRegisterPromise _) = UnitCompletion"
| "promise_op_kind (QueuedReleaseRegisterPromise _) = UnitCompletion"
| "promise_op_kind (QueuedAwaitUnitPromise _) = UnitCompletion"
| "promise_op_kind (QueuedCancelUnitPromise _) = UnitCompletion"
| "promise_op_kind (QueuedReleaseUnitPromise _) = UnitCompletion"

fun async_op_kind :: "async_op \<Rightarrow> completion_kind" where
  "async_op_kind (QueuedKjAsyncSleepNanosStart _) = KjPromiseIdCompletion"
| "async_op_kind (QueuedKjAsyncPromiseAwait _) = UnitCompletion"
| "async_op_kind (QueuedKjAsyncPromiseCancel _) = UnitCompletion"
| "async_op_kind (QueuedKjAsyncPromiseRelease _) = UnitCompletion"
| "async_op_kind (QueuedKjAsyncPromiseThenStart _ _) = KjPromiseIdCompletion"
| "async_op_kind (QueuedKjAsyncPromiseCatchStart _ _) = KjPromiseIdCompletion"
| "async_op_kind (QueuedKjAsyncPromiseAllStart _) = KjPromiseIdCompletion"
| "async_op_kind (QueuedKjAsyncPromiseRaceStart _) = KjPromiseIdCompletion"

fun task_set_op_kind :: "task_set_op \<Rightarrow> completion_kind" where
  "task_set_op_kind QueuedKjAsyncTaskSetNew = RegisterTargetCompletion"
| "task_set_op_kind (QueuedKjAsyncTaskSetRelease _) = UnitCompletion"
| "task_set_op_kind (QueuedKjAsyncTaskSetAddPromise _ _) = UnitCompletion"
| "task_set_op_kind (QueuedKjAsyncTaskSetClear _) = UnitCompletion"
| "task_set_op_kind (QueuedKjAsyncTaskSetIsEmpty _) = BoolCompletion"
| "task_set_op_kind (QueuedKjAsyncTaskSetOnEmptyStart _) = KjPromiseIdCompletion"
| "task_set_op_kind (QueuedKjAsyncTaskSetErrorCount _) = UInt64Completion"
| "task_set_op_kind (QueuedKjAsyncTaskSetTakeLastError _) = OptionalStringCompletion"

fun peer_op_kind :: "peer_op \<Rightarrow> completion_kind" where
  "peer_op_kind (QueuedMultiVatNewClient _) = RegisterTargetCompletion"
| "peer_op_kind (QueuedMultiVatNewServer _ _) = RegisterTargetCompletion"
| "peer_op_kind (QueuedMultiVatNewServerWithBootstrapFactory _ _) = RegisterTargetCompletion"
| "peer_op_kind (QueuedMultiVatReleasePeer _) = UnitCompletion"
| "peer_op_kind (QueuedMultiVatBootstrap _ _ _) = RegisterTargetCompletion"
| "peer_op_kind (QueuedMultiVatBootstrapPeer _ _ _) = RegisterTargetCompletion"

fun forwarding_op_kind :: "forwarding_op \<Rightarrow> completion_kind" where
  "forwarding_op_kind (QueuedMultiVatSetForwardingEnabled _) = UnitCompletion"
| "forwarding_op_kind QueuedMultiVatResetForwardingStats = UnitCompletion"
| "forwarding_op_kind QueuedMultiVatForwardCount = UInt64Completion"
| "forwarding_op_kind QueuedMultiVatThirdPartyTokenCount = UInt64Completion"
| "forwarding_op_kind QueuedMultiVatDeniedForwardCount = UInt64Completion"
| "forwarding_op_kind (QueuedMultiVatHasConnection _ _) = UInt64Completion"
| "forwarding_op_kind (QueuedMultiVatSetRestorer _ _) = UnitCompletion"
| "forwarding_op_kind (QueuedMultiVatClearRestorer _) = UnitCompletion"

fun sturdy_op_kind :: "sturdy_op \<Rightarrow> completion_kind" where
  "sturdy_op_kind (QueuedMultiVatPublishSturdyRef _ _ _) = UnitCompletion"
| "sturdy_op_kind (QueuedMultiVatPublishSturdyRefStart _ _ _) = RegisterTargetCompletion"
| "sturdy_op_kind (QueuedMultiVatUnpublishSturdyRef _ _) = UnitCompletion"
| "sturdy_op_kind (QueuedMultiVatUnpublishSturdyRefStart _ _) = RegisterTargetCompletion"
| "sturdy_op_kind (QueuedMultiVatClearPublishedSturdyRefs _) = UnitCompletion"
| "sturdy_op_kind (QueuedMultiVatClearPublishedSturdyRefsStart _) = RegisterTargetCompletion"
| "sturdy_op_kind (QueuedMultiVatPublishedSturdyRefCount _) = UInt64Completion"
| "sturdy_op_kind (QueuedMultiVatRestoreSturdyRef _ _ _ _) = RegisterTargetCompletion"
| "sturdy_op_kind (QueuedMultiVatRestoreSturdyRefStart _ _ _ _) = RegisterTargetCompletion"
| "sturdy_op_kind (QueuedMultiVatGetDiagnostics _ _) = DiagnosticsCompletion"

fun link_op_kind :: "link_op \<Rightarrow> completion_kind" where
  "link_op_kind (QueuedMultiVatConnectionBlock _ _) = UnitCompletion"
| "link_op_kind (QueuedMultiVatConnectionUnblock _ _) = UnitCompletion"
| "link_op_kind (QueuedMultiVatConnectionDisconnect _ _ _ _ _) = UnitCompletion"
| "link_op_kind (QueuedMultiVatConnectionResolveDisembargoCounts _ _) = ProtocolMessageCountsCompletion"
| "link_op_kind (QueuedMultiVatConnectionResolveDisembargoTrace _ _) = ByteArrayCompletion"
| "link_op_kind (QueuedMultiVatConnectionResetResolveDisembargoTrace _ _) = UnitCompletion"

fun pump_op_kind :: "pump_op \<Rightarrow> completion_kind" where
  "pump_op_kind QueuedPump = UnitCompletion"
| "pump_op_kind QueuedPumpAsync = AsyncUnitCompletion"

fun op_kind :: "queued_operation \<Rightarrow> completion_kind" where
  "op_kind (CallOp x) = call_op_kind x"
| "op_kind (TargetOp x) = target_op_kind x"
| "op_kind (RegisterOp x) = register_op_kind x"
| "op_kind (OwnershipOp x) = ownership_op_kind x"
| "op_kind (TransportOp x) = transport_op_kind x"
| "op_kind (ClientOp x) = client_op_kind x"
| "op_kind (MetricOp x) = metric_op_kind x"
| "op_kind (ServerOp x) = server_op_kind x"
| "op_kind (PromiseOp x) = promise_op_kind x"
| "op_kind (AsyncOp x) = async_op_kind x"
| "op_kind (TaskSetOp x) = task_set_op_kind x"
| "op_kind (PeerOp x) = peer_op_kind x"
| "op_kind (ForwardingOp x) = forwarding_op_kind x"
| "op_kind (SturdyOp x) = sturdy_op_kind x"
| "op_kind (LinkOp x) = link_op_kind x"
| "op_kind (PumpOp x) = pump_op_kind x"

text \<open>The Lean object a queued operation holds a reference to.\<close>

fun held_object :: "queued_operation \<Rightarrow> obj option" where
  "held_object (TargetOp (QueuedSetTraceEncoder x)) = Some x"
| "held_object (RegisterOp (QueuedRegisterHandlerTarget x)) = Some x"
| "held_object (RegisterOp (QueuedRegisterAdvancedHandlerTarget x)) = Some x"
| "held_object (RegisterOp (QueuedRegisterTailCallHandlerTarget x)) = Some x"
| "held_object (ServerOp (QueuedNewServerWithBootstrapFactory x)) = Some x"
| "held_object (PeerOp (QueuedMultiVatNewServerWithBootstrapFactory _ x)) = Some x"
| "held_object (ForwardingOp (QueuedMultiVatSetRestorer _ x)) = Some x"
| "held_object (SturdyOp (QueuedMultiVatGetDiagnostics _ x)) = Some x"
| "held_object _ = None"

section \<open>State\<close>

text \<open>
  \<open>leanRefs\<close> is what is done to the reference counts of Lean objects for the queue's
  sake, in order.
\<close>

record queue_state =
  queue :: "(queued_operation \<times> nat) list"
  stopping :: bool
  completions :: "completion list"
  leanRefs :: "ext_call list"

definition shutting_down :: string where
  "shutting_down = ''Capnp.Rpc runtime is shutting down''"

text \<open>
  What every method below does: \<open>pre\<close> before taking the lock, then \<open>undo\<close> and a failed
  completion if the runtime is stopping, else \<open>post\<close> and the operation at the end of the
  queue. \<^verbatim>\<open>notifyWorker\<close> only ends a wait of the runtime's thread early.
\<close>

definition enqueue_with :: "completion_kind \<Rightarrow> obj \<Rightarrow> ext_call list \<Rightarrow> ext_call list \<Rightarrow> ext_call list
    \<Rightarrow> queued_operation \<Rightarrow> 'z queue_state_scheme \<Rightarrow> nat \<times> 'z queue_state_scheme" where
  "enqueue_with k promise pre undo post op s =
     (let h = length (completions s); c = new_completion promise k
      in if stopping s
         then (h, s\<lparr>completions := completions s @ [complete_error k shutting_down c],
                   leanRefs := leanRefs s @ pre @ undo\<rparr>)
         else (h, s\<lparr>completions := completions s @ [c], leanRefs := leanRefs s @ pre @ post,
                   queue := queue s @ [(op, h)]\<rparr>))"

definition enqueueWithCompletion :: "completion_kind \<Rightarrow> queued_operation
    \<Rightarrow> 'z queue_state_scheme \<Rightarrow> nat \<times> 'z queue_state_scheme" where
  "enqueueWithCompletion k op = enqueue_with k 0 [] [] [] op"

definition enqueueRegisterCompletion :: "queued_operation
    \<Rightarrow> 'z queue_state_scheme \<Rightarrow> nat \<times> 'z queue_state_scheme" where
  "enqueueRegisterCompletion op = enqueueWithCompletion RegisterTargetCompletion op"

definition enqueueUnitCompletion :: "queued_operation
    \<Rightarrow> 'z queue_state_scheme \<Rightarrow> nat \<times> 'z queue_state_scheme" where
  "enqueueUnitCompletion op = enqueueWithCompletion UnitCompletion op"

text \<open>The methods that pass a Lean object on share it between threads and keep a reference.\<close>

definition enqueueRetaining :: "completion_kind \<Rightarrow> obj \<Rightarrow> queued_operation
    \<Rightarrow> 'z queue_state_scheme \<Rightarrow> nat \<times> 'z queue_state_scheme" where
  "enqueueRetaining k x op = enqueue_with k 0 [LeanMarkMt x, LeanInc x] [LeanDec x] [] op"

text \<open>\<^verbatim>\<open>shutdown\<close> up to joining the thread; a second call changes nothing.\<close>

definition shutdown :: "'z queue_state_scheme \<Rightarrow> 'z queue_state_scheme" where
  "shutdown s = (if stopping s then s else s\<lparr>stopping := True\<rparr>)"

section \<open>The enqueueing methods\<close>

definition enqueueRawCall :: "u32 \<Rightarrow> u64 \<Rightarrow> u16 \<Rightarrow> bytes \<Rightarrow> u32 list \<Rightarrow> 
    'z queue_state_scheme \<Rightarrow> nat \<times> 'z queue_state_scheme" where
  "enqueueRawCall target interfaceId methodId request requestCaps =
     enqueueWithCompletion RawCallCompletion (CallOp (QueuedRawCall target interfaceId methodId request requestCaps))"

definition enqueueRawCallData :: "u32 \<Rightarrow> u64 \<Rightarrow> u16 \<Rightarrow> bytes \<Rightarrow> u32 list \<Rightarrow> 
    'z queue_state_scheme \<Rightarrow> nat \<times> 'z queue_state_scheme" where
  "enqueueRawCallData target interfaceId methodId request requestCaps =
     enqueueWithCompletion RawCallCompletion (CallOp (QueuedRawCallData target interfaceId methodId request requestCaps))"

definition enqueueStartPendingCall :: "u32 \<Rightarrow> u64 \<Rightarrow> u16 \<Rightarrow> bytes \<Rightarrow> u32 list \<Rightarrow> 
    'z queue_state_scheme \<Rightarrow> nat \<times> 'z queue_state_scheme" where
  "enqueueStartPendingCall target interfaceId methodId request requestCaps =
     enqueueWithCompletion RegisterTargetCompletion (CallOp (QueuedStartPendingCall target interfaceId methodId request requestCaps))"

definition enqueueStartPendingCallData :: "u32 \<Rightarrow> u64 \<Rightarrow> u16 \<Rightarrow> bytes \<Rightarrow> u32 list \<Rightarrow> 
    'z queue_state_scheme \<Rightarrow> nat \<times> 'z queue_state_scheme" where
  "enqueueStartPendingCallData target interfaceId methodId request requestCaps =
     enqueueWithCompletion RegisterTargetCompletion (CallOp (QueuedStartPendingCallData target interfaceId methodId request requestCaps))"

definition enqueueStartStreamingPendingCall :: "u32 \<Rightarrow> u64 \<Rightarrow> u16 \<Rightarrow> bytes \<Rightarrow> u32 list \<Rightarrow> 
    'z queue_state_scheme \<Rightarrow> nat \<times> 'z queue_state_scheme" where
  "enqueueStartStreamingPendingCall target interfaceId methodId request requestCaps =
     enqueueWithCompletion RegisterTargetCompletion (CallOp (QueuedStartStreamingPendingCall target interfaceId methodId request requestCaps))"

definition enqueueStartStreamingPendingCallData :: "u32 \<Rightarrow> u64 \<Rightarrow> u16 \<Rightarrow> bytes \<Rightarrow> u32 list \<Rightarrow> 
    'z queue_state_scheme \<Rightarrow> nat \<times> 'z queue_state_scheme" where
  "enqueueStartStreamingPendingCallData target interfaceId methodId request requestCaps =
     enqueueWithCompletion RegisterTargetCompletion (CallOp (QueuedStartStreamingPendingCallData target interfaceId methodId request requestCaps))"

definition enqueueAwaitPendingCall :: "u32 \<Rightarrow> 'z queue_state_scheme \<Rightarrow> nat \<times> 'z queue_state_scheme" where
  "enqueueAwaitPendingCall pendingCallId =
     enqueueWithCompletion RawCallCompletion (CallOp (QueuedAwaitPendingCall pendingCallId))"

definition enqueueReleasePendingCall :: "u32 \<Rightarrow> 'z queue_state_scheme \<Rightarrow> nat \<times> 'z queue_state_scheme" where
  "enqueueReleasePendingCall pendingCallId =
     enqueueWithCompletion UnitCompletion (CallOp (QueuedReleasePendingCall pendingCallId))"

definition enqueueGetPipelinedCap :: "u32 \<Rightarrow> u16 list \<Rightarrow> 
    'z queue_state_scheme \<Rightarrow> nat \<times> 'z queue_state_scheme" where
  "enqueueGetPipelinedCap pendingCallId pointerPath =
     enqueueWithCompletion RegisterTargetCompletion (CallOp (QueuedGetPipelinedCap pendingCallId pointerPath))"

definition enqueueStreamingCall :: "u32 \<Rightarrow> u64 \<Rightarrow> u16 \<Rightarrow> bytes \<Rightarrow> u32 list \<Rightarrow> 
    'z queue_state_scheme \<Rightarrow> nat \<times> 'z queue_state_scheme" where
  "enqueueStreamingCall target interfaceId methodId request requestCaps =
     enqueueWithCompletion UnitCompletion (CallOp (QueuedStreamingCall target interfaceId methodId request requestCaps))"

definition enqueueTargetGetFd :: "u32 \<Rightarrow> 'z queue_state_scheme \<Rightarrow> nat \<times> 'z queue_state_scheme" where
  "enqueueTargetGetFd target =
     enqueueWithCompletion Int64Completion (TargetOp (QueuedTargetGetFd target))"

definition enqueueTargetWhenResolved :: "u32 \<Rightarrow> 'z queue_state_scheme \<Rightarrow> nat \<times> 'z queue_state_scheme" where
  "enqueueTargetWhenResolved target =
     enqueueWithCompletion UnitCompletion (TargetOp (QueuedTargetWhenResolved target))"

definition enqueueTargetWhenResolvedStart :: "u32 \<Rightarrow> 'z queue_state_scheme \<Rightarrow> nat \<times> 'z queue_state_scheme" where
  "enqueueTargetWhenResolvedStart target =
     enqueueWithCompletion RegisterTargetCompletion (TargetOp (QueuedTargetWhenResolvedStart target))"

definition enqueueTargetWhenResolvedPoll :: "u32 \<Rightarrow> 'z queue_state_scheme \<Rightarrow> nat \<times> 'z queue_state_scheme" where
  "enqueueTargetWhenResolvedPoll target =
     enqueueWithCompletion BoolCompletion (TargetOp (QueuedTargetWhenResolvedPoll target))"

definition enqueueEnableTraceEncoder :: "'z queue_state_scheme \<Rightarrow> nat \<times> 'z queue_state_scheme" where
  "enqueueEnableTraceEncoder =
     enqueueWithCompletion UnitCompletion (TargetOp QueuedEnableTraceEncoder)"

definition enqueueDisableTraceEncoder :: "'z queue_state_scheme \<Rightarrow> nat \<times> 'z queue_state_scheme" where
  "enqueueDisableTraceEncoder =
     enqueueWithCompletion UnitCompletion (TargetOp QueuedDisableTraceEncoder)"

definition enqueueSetTraceEncoder :: "obj \<Rightarrow> 'z queue_state_scheme \<Rightarrow> nat \<times> 'z queue_state_scheme" where
  "enqueueSetTraceEncoder encoder =
     enqueueRetaining UnitCompletion encoder (TargetOp (QueuedSetTraceEncoder encoder))"

definition enqueueCppCallWithAccept :: "u32 \<Rightarrow> u32 \<Rightarrow> string \<Rightarrow> u32 \<Rightarrow> u64 \<Rightarrow> u16 \<Rightarrow> bytes \<Rightarrow> u32 list \<Rightarrow> 
    'z queue_state_scheme \<Rightarrow> nat \<times> 'z queue_state_scheme" where
  "enqueueCppCallWithAccept serverId listenerId address portHint interfaceId methodId request requestCaps =
     enqueueWithCompletion RawCallCompletion (RegisterOp (QueuedCppCallWithAccept serverId listenerId address portHint interfaceId methodId request requestCaps))"

definition enqueueCppCallPipelinedWithAccept :: "u32 \<Rightarrow> u32 \<Rightarrow> string \<Rightarrow> u32 \<Rightarrow> u64 \<Rightarrow> u16 \<Rightarrow> bytes \<Rightarrow> u32 list \<Rightarrow> bytes \<Rightarrow> u32 list \<Rightarrow> 
    'z queue_state_scheme \<Rightarrow> nat \<times> 'z queue_state_scheme" where
  "enqueueCppCallPipelinedWithAccept serverId listenerId address portHint interfaceId methodId request requestCaps pipelinedRequest pipelinedRequestCaps =
     enqueueWithCompletion RawCallCompletion (RegisterOp (QueuedCppCallPipelinedWithAccept serverId listenerId address portHint interfaceId methodId request requestCaps pipelinedRequest pipelinedRequestCaps))"

definition enqueueRegisterLoopbackTarget :: "'z queue_state_scheme \<Rightarrow> nat \<times> 'z queue_state_scheme" where
  "enqueueRegisterLoopbackTarget =
     enqueueWithCompletion RegisterTargetCompletion (RegisterOp QueuedRegisterLoopbackTarget)"

definition enqueueRegisterLoopbackBootstrapTarget :: "u32 \<Rightarrow> 'z queue_state_scheme \<Rightarrow> nat \<times> 'z queue_state_scheme" where
  "enqueueRegisterLoopbackBootstrapTarget bootstrapTarget =
     enqueueWithCompletion RegisterTargetCompletion (RegisterOp (QueuedRegisterLoopbackBootstrapTarget bootstrapTarget))"

definition enqueueRegisterHandlerTarget :: "obj \<Rightarrow> 'z queue_state_scheme \<Rightarrow> nat \<times> 'z queue_state_scheme" where
  "enqueueRegisterHandlerTarget handler =
     enqueueRetaining RegisterTargetCompletion handler (RegisterOp (QueuedRegisterHandlerTarget handler))"

definition enqueueRegisterAdvancedHandlerTarget :: "obj \<Rightarrow> 'z queue_state_scheme \<Rightarrow> nat \<times> 'z queue_state_scheme" where
  "enqueueRegisterAdvancedHandlerTarget handler =
     enqueueRetaining RegisterTargetCompletion handler (RegisterOp (QueuedRegisterAdvancedHandlerTarget handler))"

definition enqueueRegisterTailCallHandlerTarget :: "obj \<Rightarrow> 'z queue_state_scheme \<Rightarrow> nat \<times> 'z queue_state_scheme" where
  "enqueueRegisterTailCallHandlerTarget handler =
     enqueueRetaining RegisterTargetCompletion handler (RegisterOp (QueuedRegisterTailCallHandlerTarget handler))"

definition enqueueRegisterTailCallTarget :: "u32 \<Rightarrow> 'z queue_state_scheme \<Rightarrow> nat \<times> 'z queue_state_scheme" where
  "enqueueRegisterTailCallTarget target =
     enqueueWithCompletion RegisterTargetCompletion (RegisterOp (QueuedRegisterTailCallTarget target))"

definition enqueueRegisterFdTarget :: "u32 \<Rightarrow> 'z queue_state_scheme \<Rightarrow> nat \<times> 'z queue_state_scheme" where
  "enqueueRegisterFdTarget fd =
     enqueueWithCompletion RegisterTargetCompletion (RegisterOp (QueuedRegisterFdTarget fd))"

definition enqueueRegisterFdProbeTarget :: "'z queue_state_scheme \<Rightarrow> nat \<times> 'z queue_state_scheme" where
  "enqueueRegisterFdProbeTarget =
     enqueueWithCompletion RegisterTargetCompletion (RegisterOp QueuedRegisterFdProbeTarget)"

definition enqueueReleaseTarget :: "u32 \<Rightarrow> 'z queue_state_scheme \<Rightarrow> nat \<times> 'z queue_state_scheme" where
  "enqueueReleaseTarget target =
     enqueueWithCompletion UnitCompletion (OwnershipOp (QueuedReleaseTarget target))"

definition enqueueReleaseTargets :: "u32 list \<Rightarrow> 
    'z queue_state_scheme \<Rightarrow> nat \<times> 'z queue_state_scheme" where
  "enqueueReleaseTargets ids =
     enqueueWithCompletion UnitCompletion (OwnershipOp (QueuedReleaseTargets ids))"

definition enqueueRetainTarget :: "u32 \<Rightarrow> 'z queue_state_scheme \<Rightarrow> nat \<times> 'z queue_state_scheme" where
  "enqueueRetainTarget target =
     enqueueWithCompletion RegisterTargetCompletion (OwnershipOp (QueuedRetainTarget target))"

definition enqueueNewPromiseCapability :: "'z queue_state_scheme \<Rightarrow> nat \<times> 'z queue_state_scheme" where
  "enqueueNewPromiseCapability =
     enqueueWithCompletion RegisterPairCompletion (OwnershipOp QueuedNewPromiseCapability)"

definition enqueuePromiseCapabilityFulfill :: "u32 \<Rightarrow> u32 \<Rightarrow> 
    'z queue_state_scheme \<Rightarrow> nat \<times> 'z queue_state_scheme" where
  "enqueuePromiseCapabilityFulfill fulfillerId target =
     enqueueWithCompletion UnitCompletion (OwnershipOp (QueuedPromiseCapabilityFulfill fulfillerId target))"

definition enqueuePromiseCapabilityReject :: "u32 \<Rightarrow> u8 \<Rightarrow> string \<Rightarrow> bytes \<Rightarrow> 
    'z queue_state_scheme \<Rightarrow> nat \<times> 'z queue_state_scheme" where
  "enqueuePromiseCapabilityReject fulfillerId typeTag message detail =
     enqueueWithCompletion UnitCompletion (OwnershipOp (QueuedPromiseCapabilityReject fulfillerId typeTag message detail))"

definition enqueuePromiseCapabilityRelease :: "u32 \<Rightarrow> 'z queue_state_scheme \<Rightarrow> nat \<times> 'z queue_state_scheme" where
  "enqueuePromiseCapabilityRelease fulfillerId =
     enqueueWithCompletion UnitCompletion (OwnershipOp (QueuedPromiseCapabilityRelease fulfillerId))"

definition enqueueOrderingSetResolveHold :: "bool \<Rightarrow> 'z queue_state_scheme \<Rightarrow> nat \<times> 'z queue_state_scheme" where
  "enqueueOrderingSetResolveHold enabled =
     enqueueWithCompletion UnitCompletion (OwnershipOp (QueuedOrderingSetResolveHold enabled))"

definition enqueueOrderingFlushHeldResolves :: "'z queue_state_scheme \<Rightarrow> nat \<times> 'z queue_state_scheme" where
  "enqueueOrderingFlushHeldResolves =
     enqueueWithCompletion UInt64Completion (OwnershipOp QueuedOrderingFlushHeldResolves)"

definition enqueueOrderingHeldResolveCount :: "'z queue_state_scheme \<Rightarrow> nat \<times> 'z queue_state_scheme" where
  "enqueueOrderingHeldResolveCount =
     enqueueWithCompletion UInt64Completion (OwnershipOp QueuedOrderingHeldResolveCount)"

definition enqueueConnectTarget :: "string \<Rightarrow> u32 \<Rightarrow> 
    'z queue_state_scheme \<Rightarrow> nat \<times> 'z queue_state_scheme" where
  "enqueueConnectTarget address portHint =
     enqueueWithCompletion RegisterTargetCompletion (TransportOp (QueuedConnectTarget address portHint))"

definition enqueueConnectTargetStart :: "string \<Rightarrow> u32 \<Rightarrow> 
    'z queue_state_scheme \<Rightarrow> nat \<times> 'z queue_state_scheme" where
  "enqueueConnectTargetStart address portHint =
     enqueueWithCompletion RegisterTargetCompletion (TransportOp (QueuedConnectTargetStart address portHint))"

definition enqueueConnectTargetFd :: "u32 \<Rightarrow> 'z queue_state_scheme \<Rightarrow> nat \<times> 'z queue_state_scheme" where
  "enqueueConnectTargetFd fd =
     enqueueWithCompletion RegisterTargetCompletion (TransportOp (QueuedConnectTargetFd fd))"

definition enqueueNewTransportPipe :: "'z queue_state_scheme \<Rightarrow> nat \<times> 'z queue_state_scheme" where
  "enqueueNewTransportPipe =
     enqueueWithCompletion RegisterPairCompletion (TransportOp QueuedNewTransportPipe)"

definition enqueueNewTransportFromFd :: "u32 \<Rightarrow> 'z queue_state_scheme \<Rightarrow> nat \<times> 'z queue_state_scheme" where
  "enqueueNewTransportFromFd fd =
     enqueueWithCompletion RegisterTargetCompletion (TransportOp (QueuedNewTransportFromFd fd))"

definition enqueueNewTransportFromFdTake :: "u32 \<Rightarrow> 'z queue_state_scheme \<Rightarrow> nat \<times> 'z queue_state_scheme" where
  "enqueueNewTransportFromFdTake fd =
     enqueueWithCompletion RegisterTargetCompletion (TransportOp (QueuedNewTransportFromFdTake fd))"

definition enqueueReleaseTransport :: "u32 \<Rightarrow> 'z queue_state_scheme \<Rightarrow> nat \<times> 'z queue_state_scheme" where
  "enqueueReleaseTransport transportId =
     enqueueWithCompletion UnitCompletion (TransportOp (QueuedReleaseTransport transportId))"

definition enqueueTransportGetFd :: "u32 \<Rightarrow> 'z queue_state_scheme \<Rightarrow> nat \<times> 'z queue_state_scheme" where
  "enqueueTransportGetFd transportId =
     enqueueWithCompletion Int64Completion (TransportOp (QueuedTransportGetFd transportId))"

definition enqueueConnectTargetTransport :: "u32 \<Rightarrow> 'z queue_state_scheme \<Rightarrow> nat \<times> 'z queue_state_scheme" where
  "enqueueConnectTargetTransport transportId =
     enqueueWithCompletion RegisterTargetCompletion (TransportOp (QueuedConnectTargetTransport transportId))"

definition enqueueListenLoopback :: "string \<Rightarrow> u32 \<Rightarrow> 
    'z queue_state_scheme \<Rightarrow> nat \<times> 'z queue_state_scheme" where
  "enqueueListenLoopback address portHint =
     enqueueWithCompletion RegisterTargetCompletion (ClientOp (QueuedListenLoopback address portHint))"

definition enqueueAcceptLoopback :: "u32 \<Rightarrow> 'z queue_state_scheme \<Rightarrow> nat \<times> 'z queue_state_scheme" where
  "enqueueAcceptLoopback listenerId =
     enqueueWithCompletion UnitCompletion (ClientOp (QueuedAcceptLoopback listenerId))"

definition enqueueReleaseListener :: "u32 \<Rightarrow> 'z queue_state_scheme \<Rightarrow> nat \<times> 'z queue_state_scheme" where
  "enqueueReleaseListener listenerId =
     enqueueWithCompletion UnitCompletion (ClientOp (QueuedReleaseListener listenerId))"

definition enqueueNewClient :: "string \<Rightarrow> u32 \<Rightarrow> 
    'z queue_state_scheme \<Rightarrow> nat \<times> 'z queue_state_scheme" where
  "enqueueNewClient address portHint =
     enqueueWithCompletion RegisterTargetCompletion (ClientOp (QueuedNewClient address portHint))"

definition enqueueNewClientStart :: "string \<Rightarrow> u32 \<Rightarrow> 
    'z queue_state_scheme \<Rightarrow> nat \<times> 'z queue_state_scheme" where
  "enqueueNewClientStart address portHint =
     enqueueWithCompletion RegisterTargetCompletion (ClientOp (QueuedNewClientStart address portHint))"

definition enqueueReleaseClient :: "u32 \<Rightarrow> 'z queue_state_scheme \<Rightarrow> nat \<times> 'z queue_state_scheme" where
  "enqueueReleaseClient clientId =
     enqueueWithCompletion UnitCompletion (ClientOp (QueuedReleaseClient clientId))"

definition enqueueClientBootstrap :: "u32 \<Rightarrow> 'z queue_state_scheme \<Rightarrow> nat \<times> 'z queue_state_scheme" where
  "enqueueClientBootstrap clientId =
     enqueueWithCompletion RegisterTargetCompletion (ClientOp (QueuedClientBootstrap clientId))"

definition enqueueClientOnDisconnect :: "u32 \<Rightarrow> 'z queue_state_scheme \<Rightarrow> nat \<times> 'z queue_state_scheme" where
  "enqueueClientOnDisconnect clientId =
     enqueueWithCompletion UnitCompletion (ClientOp (QueuedClientOnDisconnect clientId))"

definition enqueueClientOnDisconnectStart :: "u32 \<Rightarrow> 'z queue_state_scheme \<Rightarrow> nat \<times> 'z queue_state_scheme" where
  "enqueueClientOnDisconnectStart clientId =
     enqueueWithCompletion RegisterTargetCompletion (ClientOp (QueuedClientOnDisconnectStart clientId))"

definition enqueueClientSetFlowLimit :: "u32 \<Rightarrow> u64 \<Rightarrow> 
    'z queue_state_scheme \<Rightarrow> nat \<times> 'z queue_state_scheme" where
  "enqueueClientSetFlowLimit clientId words =
     enqueueWithCompletion UnitCompletion (ClientOp (QueuedClientSetFlowLimit clientId words))"

definition enqueueClientQueueSize :: "u32 \<Rightarrow> 'z queue_state_scheme \<Rightarrow> nat \<times> 'z queue_state_scheme" where
  "enqueueClientQueueSize clientId =
     enqueueWithCompletion UInt64Completion (MetricOp (QueuedClientQueueSize clientId))"

definition enqueueClientQueueCount :: "u32 \<Rightarrow> 'z queue_state_scheme \<Rightarrow> nat \<times> 'z queue_state_scheme" where
  "enqueueClientQueueCount clientId =
     enqueueWithCompletion UInt64Completion (MetricOp (QueuedClientQueueCount clientId))"

definition enqueueClientOutgoingWaitNanos :: "u32 \<Rightarrow> 'z queue_state_scheme \<Rightarrow> nat \<times> 'z queue_state_scheme" where
  "enqueueClientOutgoingWaitNanos clientId =
     enqueueWithCompletion UInt64Completion (MetricOp (QueuedClientOutgoingWaitNanos clientId))"

definition enqueueTargetCount :: "'z queue_state_scheme \<Rightarrow> nat \<times> 'z queue_state_scheme" where
  "enqueueTargetCount = enqueueWithCompletion UInt64Completion (MetricOp QueuedTargetCount)"

definition enqueueListenerCount :: "'z queue_state_scheme \<Rightarrow> nat \<times> 'z queue_state_scheme" where
  "enqueueListenerCount = enqueueWithCompletion UInt64Completion (MetricOp QueuedListenerCount)"

definition enqueueClientCount :: "'z queue_state_scheme \<Rightarrow> nat \<times> 'z queue_state_scheme" where
  "enqueueClientCount = enqueueWithCompletion UInt64Completion (MetricOp QueuedClientCount)"

definition enqueueServerCount :: "'z queue_state_scheme \<Rightarrow> nat \<times> 'z queue_state_scheme" where
  "enqueueServerCount = enqueueWithCompletion UInt64Completion (MetricOp QueuedServerCount)"

definition enqueuePendingCallCount :: "'z queue_state_scheme \<Rightarrow> nat \<times> 'z queue_state_scheme" where
  "enqueuePendingCallCount =
     enqueueWithCompletion UInt64Completion (MetricOp QueuedPendingCallCount)"

definition enqueueNewServer :: "u32 \<Rightarrow> 'z queue_state_scheme \<Rightarrow> nat \<times> 'z queue_state_scheme" where
  "enqueueNewServer bootstrapTarget =
     enqueueWithCompletion RegisterTargetCompletion (ServerOp (QueuedNewServer bootstrapTarget))"

definition enqueueNewServerWithBootstrapFactory :: "obj \<Rightarrow> 'z queue_state_scheme \<Rightarrow> nat \<times> 'z queue_state_scheme" where
  "enqueueNewServerWithBootstrapFactory bootstrapFactory =
     enqueueRetaining RegisterTargetCompletion bootstrapFactory (ServerOp (QueuedNewServerWithBootstrapFactory bootstrapFactory))"

definition enqueueReleaseServer :: "u32 \<Rightarrow> 'z queue_state_scheme \<Rightarrow> nat \<times> 'z queue_state_scheme" where
  "enqueueReleaseServer serverId =
     enqueueWithCompletion UnitCompletion (ServerOp (QueuedReleaseServer serverId))"

definition enqueueServerListen :: "u32 \<Rightarrow> string \<Rightarrow> u32 \<Rightarrow> 
    'z queue_state_scheme \<Rightarrow> nat \<times> 'z queue_state_scheme" where
  "enqueueServerListen serverId address portHint =
     enqueueWithCompletion RegisterTargetCompletion (ServerOp (QueuedServerListen serverId address portHint))"

definition enqueueServerAccept :: "u32 \<Rightarrow> u32 \<Rightarrow> 
    'z queue_state_scheme \<Rightarrow> nat \<times> 'z queue_state_scheme" where
  "enqueueServerAccept serverId listenerId =
     enqueueWithCompletion UnitCompletion (ServerOp (QueuedServerAccept serverId listenerId))"

definition enqueueServerAcceptStart :: "u32 \<Rightarrow> u32 \<Rightarrow> 
    'z queue_state_scheme \<Rightarrow> nat \<times> 'z queue_state_scheme" where
  "enqueueServerAcceptStart serverId listenerId =
     enqueueWithCompletion RegisterTargetCompletion (ServerOp (QueuedServerAcceptStart serverId listenerId))"

definition enqueueServerAcceptFd :: "u32 \<Rightarrow> u32 \<Rightarrow> 
    'z queue_state_scheme \<Rightarrow> nat \<times> 'z queue_state_scheme" where
  "enqueueServerAcceptFd serverId fd =
     enqueueWithCompletion UnitCompletion (ServerOp (QueuedServerAcceptFd serverId fd))"

definition enqueueServerAcceptTransport :: "u32 \<Rightarrow> u32 \<Rightarrow> 
    'z queue_state_scheme \<Rightarrow> nat \<times> 'z queue_state_scheme" where
  "enqueueServerAcceptTransport serverId transportId =
     enqueueWithCompletion UnitCompletion (ServerOp (QueuedServerAcceptTransport serverId transportId))"

definition enqueueServerDrain :: "u32 \<Rightarrow> 'z queue_state_scheme \<Rightarrow> nat \<times> 'z queue_state_scheme" where
  "enqueueServerDrain serverId =
     enqueueWithCompletion UnitCompletion (ServerOp (QueuedServerDrain serverId))"

definition enqueueServerDrainStart :: "u32 \<Rightarrow> 'z queue_state_scheme \<Rightarrow> nat \<times> 'z queue_state_scheme" where
  "enqueueServerDrainStart serverId =
     enqueueWithCompletion RegisterTargetCompletion (ServerOp (QueuedServerDrainStart serverId))"

definition enqueueAwaitRegisterPromise :: "u32 \<Rightarrow> 'z queue_state_scheme \<Rightarrow> nat \<times> 'z queue_state_scheme" where
  "enqueueAwaitRegisterPromise promiseId =
     enqueueRegisterCompletion (PromiseOp (QueuedAwaitRegisterPromise promiseId))"

definition enqueueCancelRegisterPromise :: "u32 \<Rightarrow> 'z queue_state_scheme \<Rightarrow> nat \<times> 'z queue_state_scheme" where
  "enqueueCancelRegisterPromise promiseId =
     enqueueUnitCompletion (PromiseOp (QueuedCancelRegisterPromise promiseId))"

definition enqueueReleaseRegisterPromise :: "u32 \<Rightarrow> 'z queue_state_scheme \<Rightarrow> nat \<times> 'z queue_state_scheme" where
  "enqueueReleaseRegisterPromise promiseId =
     enqueueUnitCompletion (PromiseOp (QueuedReleaseRegisterPromise promiseId))"

definition enqueueAwaitUnitPromise :: "u32 \<Rightarrow> 'z queue_state_scheme \<Rightarrow> nat \<times> 'z queue_state_scheme" where
  "enqueueAwaitUnitPromise promiseId =
     enqueueUnitCompletion (PromiseOp (QueuedAwaitUnitPromise promiseId))"

definition enqueueCancelUnitPromise :: "u32 \<Rightarrow> 'z queue_state_scheme \<Rightarrow> nat \<times> 'z queue_state_scheme" where
  "enqueueCancelUnitPromise promiseId =
     enqueueUnitCompletion (PromiseOp (QueuedCancelUnitPromise promiseId))"

definition enqueueReleaseUnitPromise :: "u32 \<Rightarrow> 'z queue_state_scheme \<Rightarrow> nat \<times> 'z queue_state_scheme" where
  "enqueueReleaseUnitPromise promiseId =
     enqueueUnitCompletion (PromiseOp (QueuedReleaseUnitPromise promiseId))"

definition enqueueKjAsyncSleepNanosStart :: "u64 \<Rightarrow> 'z queue_state_scheme \<Rightarrow> nat \<times> 'z queue_state_scheme" where
  "enqueueKjAsyncSleepNanosStart delayNanos =
     enqueueWithCompletion KjPromiseIdCompletion (AsyncOp (QueuedKjAsyncSleepNanosStart delayNanos))"

definition enqueueKjAsyncPromiseAwait :: "u32 \<Rightarrow> 'z queue_state_scheme \<Rightarrow> nat \<times> 'z queue_state_scheme" where
  "enqueueKjAsyncPromiseAwait promiseId =
     enqueueWithCompletion UnitCompletion (AsyncOp (QueuedKjAsyncPromiseAwait promiseId))"

definition enqueueKjAsyncPromiseCancel :: "u32 \<Rightarrow> 'z queue_state_scheme \<Rightarrow> nat \<times> 'z queue_state_scheme" where
  "enqueueKjAsyncPromiseCancel promiseId =
     enqueueWithCompletion UnitCompletion (AsyncOp (QueuedKjAsyncPromiseCancel promiseId))"

definition enqueueKjAsyncPromiseRelease :: "u32 \<Rightarrow> 'z queue_state_scheme \<Rightarrow> nat \<times> 'z queue_state_scheme" where
  "enqueueKjAsyncPromiseRelease promiseId =
     enqueueWithCompletion UnitCompletion (AsyncOp (QueuedKjAsyncPromiseRelease promiseId))"

definition enqueueKjAsyncPromiseThenStart :: "u32 \<Rightarrow> u32 \<Rightarrow> 
    'z queue_state_scheme \<Rightarrow> nat \<times> 'z queue_state_scheme" where
  "enqueueKjAsyncPromiseThenStart firstPromiseId secondPromiseId =
     enqueueWithCompletion KjPromiseIdCompletion (AsyncOp (QueuedKjAsyncPromiseThenStart firstPromiseId secondPromiseId))"

definition enqueueKjAsyncPromiseCatchStart :: "u32 \<Rightarrow> u32 \<Rightarrow> 
    'z queue_state_scheme \<Rightarrow> nat \<times> 'z queue_state_scheme" where
  "enqueueKjAsyncPromiseCatchStart promiseId fallbackPromiseId =
     enqueueWithCompletion KjPromiseIdCompletion (AsyncOp (QueuedKjAsyncPromiseCatchStart promiseId fallbackPromiseId))"

definition enqueueKjAsyncPromiseAllStart :: "u32 list \<Rightarrow> 
    'z queue_state_scheme \<Rightarrow> nat \<times> 'z queue_state_scheme" where
  "enqueueKjAsyncPromiseAllStart promiseIds =
     enqueueWithCompletion KjPromiseIdCompletion (AsyncOp (QueuedKjAsyncPromiseAllStart promiseIds))"

definition enqueueKjAsyncPromiseRaceStart :: "u32 list \<Rightarrow> 
    'z queue_state_scheme \<Rightarrow> nat \<times> 'z queue_state_scheme" where
  "enqueueKjAsyncPromiseRaceStart promiseIds =
     enqueueWithCompletion KjPromiseIdCompletion (AsyncOp (QueuedKjAsyncPromiseRaceStart promiseIds))"

definition enqueueKjAsyncTaskSetNew :: "'z queue_state_scheme \<Rightarrow> nat \<times> 'z queue_state_scheme" where
  "enqueueKjAsyncTaskSetNew =
     enqueueWithCompletion RegisterTargetCompletion (TaskSetOp QueuedKjAsyncTaskSetNew)"

definition enqueueKjAsyncTaskSetRelease :: "u32 \<Rightarrow> 'z queue_state_scheme \<Rightarrow> nat \<times> 'z queue_state_scheme" where
  "enqueueKjAsyncTaskSetRelease taskSetId =
     enqueueWithCompletion UnitCompletion (TaskSetOp (QueuedKjAsyncTaskSetRelease taskSetId))"

definition enqueueKjAsyncTaskSetAddPromise :: "u32 \<Rightarrow> u32 \<Rightarrow> 
    'z queue_state_scheme \<Rightarrow> nat \<times> 'z queue_state_scheme" where
  "enqueueKjAsyncTaskSetAddPromise taskSetId promiseId =
     enqueueWithCompletion UnitCompletion (TaskSetOp (QueuedKjAsyncTaskSetAddPromise taskSetId promiseId))"

definition enqueueKjAsyncTaskSetClear :: "u32 \<Rightarrow> 'z queue_state_scheme \<Rightarrow> nat \<times> 'z queue_state_scheme" where
  "enqueueKjAsyncTaskSetClear taskSetId =
     enqueueWithCompletion UnitCompletion (TaskSetOp (QueuedKjAsyncTaskSetClear taskSetId))"

definition enqueueKjAsyncTaskSetIsEmpty :: "u32 \<Rightarrow> 'z queue_state_scheme \<Rightarrow> nat \<times> 'z queue_state_scheme" where
  "enqueueKjAsyncTaskSetIsEmpty taskSetId =
     enqueueWithCompletion BoolCompletion (TaskSetOp (QueuedKjAsyncTaskSetIsEmpty taskSetId))"

definition enqueueKjAsyncTaskSetOnEmptyStart :: "u32 \<Rightarrow> 'z queue_state_scheme \<Rightarrow> nat \<times> 'z queue_state_scheme" where
  "enqueueKjAsyncTaskSetOnEmptyStart taskSetId =
     enqueueWithCompletion KjPromiseIdCompletion (TaskSetOp (QueuedKjAsyncTaskSetOnEmptyStart taskSetId))"

definition enqueueKjAsyncTaskSetErrorCount :: "u32 \<Rightarrow> 'z queue_state_scheme \<Rightarrow> nat \<times> 'z queue_state_scheme" where
  "enqueueKjAsyncTaskSetErrorCount taskSetId =
     enqueueWithCompletion UInt64Completion (TaskSetOp (QueuedKjAsyncTaskSetErrorCount taskSetId))"

definition enqueueKjAsyncTaskSetTakeLastError :: "u32 \<Rightarrow> 'z queue_state_scheme \<Rightarrow> nat \<times> 'z queue_state_scheme" where
  "enqueueKjAsyncTaskSetTakeLastError taskSetId =
     enqueueWithCompletion OptionalStringCompletion (TaskSetOp (QueuedKjAsyncTaskSetTakeLastError taskSetId))"

definition enqueueMultiVatNewClient :: "string \<Rightarrow> 
    'z queue_state_scheme \<Rightarrow> nat \<times> 'z queue_state_scheme" where
  "enqueueMultiVatNewClient name =
     enqueueWithCompletion RegisterTargetCompletion (PeerOp (QueuedMultiVatNewClient name))"

definition enqueueMultiVatNewServer :: "string \<Rightarrow> u32 \<Rightarrow> 
    'z queue_state_scheme \<Rightarrow> nat \<times> 'z queue_state_scheme" where
  "enqueueMultiVatNewServer name bootstrapTarget =
     enqueueWithCompletion RegisterTargetCompletion (PeerOp (QueuedMultiVatNewServer name bootstrapTarget))"

definition enqueueMultiVatNewServerWithBootstrapFactory :: "string \<Rightarrow> obj \<Rightarrow> 
    'z queue_state_scheme \<Rightarrow> nat \<times> 'z queue_state_scheme" where
  "enqueueMultiVatNewServerWithBootstrapFactory name bootstrapFactory =
     enqueueRetaining RegisterTargetCompletion bootstrapFactory (PeerOp (QueuedMultiVatNewServerWithBootstrapFactory name bootstrapFactory))"

definition enqueueMultiVatReleasePeer :: "u32 \<Rightarrow> 'z queue_state_scheme \<Rightarrow> nat \<times> 'z queue_state_scheme" where
  "enqueueMultiVatReleasePeer peerId =
     enqueueWithCompletion UnitCompletion (PeerOp (QueuedMultiVatReleasePeer peerId))"

definition enqueueMultiVatBootstrap :: "u32 \<Rightarrow> string \<Rightarrow> bool \<Rightarrow> 
    'z queue_state_scheme \<Rightarrow> nat \<times> 'z queue_state_scheme" where
  "enqueueMultiVatBootstrap sourcePeerId hst uniq =
     enqueueWithCompletion RegisterTargetCompletion (PeerOp (QueuedMultiVatBootstrap sourcePeerId hst uniq))"

definition enqueueMultiVatBootstrapPeer :: "u32 \<Rightarrow> u32 \<Rightarrow> bool \<Rightarrow> 
    'z queue_state_scheme \<Rightarrow> nat \<times> 'z queue_state_scheme" where
  "enqueueMultiVatBootstrapPeer sourcePeerId targetPeerId uniq =
     enqueueWithCompletion RegisterTargetCompletion (PeerOp (QueuedMultiVatBootstrapPeer sourcePeerId targetPeerId uniq))"

definition enqueueMultiVatSetForwardingEnabled :: "bool \<Rightarrow> 'z queue_state_scheme \<Rightarrow> nat \<times> 'z queue_state_scheme" where
  "enqueueMultiVatSetForwardingEnabled enabled =
     enqueueWithCompletion UnitCompletion (ForwardingOp (QueuedMultiVatSetForwardingEnabled enabled))"

definition enqueueMultiVatResetForwardingStats :: "'z queue_state_scheme \<Rightarrow> nat \<times> 'z queue_state_scheme" where
  "enqueueMultiVatResetForwardingStats =
     enqueueWithCompletion UnitCompletion (ForwardingOp QueuedMultiVatResetForwardingStats)"

definition enqueueMultiVatForwardCount :: "'z queue_state_scheme \<Rightarrow> nat \<times> 'z queue_state_scheme" where
  "enqueueMultiVatForwardCount =
     enqueueWithCompletion UInt64Completion (ForwardingOp QueuedMultiVatForwardCount)"

definition enqueueMultiVatThirdPartyTokenCount :: "'z queue_state_scheme \<Rightarrow> nat \<times> 'z queue_state_scheme" where
  "enqueueMultiVatThirdPartyTokenCount =
     enqueueWithCompletion UInt64Completion (ForwardingOp QueuedMultiVatThirdPartyTokenCount)"

definition enqueueMultiVatDeniedForwardCount :: "'z queue_state_scheme \<Rightarrow> nat \<times> 'z queue_state_scheme" where
  "enqueueMultiVatDeniedForwardCount =
     enqueueWithCompletion UInt64Completion (ForwardingOp QueuedMultiVatDeniedForwardCount)"

definition enqueueMultiVatHasConnection :: "u32 \<Rightarrow> u32 \<Rightarrow> 
    'z queue_state_scheme \<Rightarrow> nat \<times> 'z queue_state_scheme" where
  "enqueueMultiVatHasConnection fromPeerId toPeerId =
     enqueueWithCompletion UInt64Completion (ForwardingOp (QueuedMultiVatHasConnection fromPeerId toPeerId))"

definition enqueueMultiVatSetRestorer :: "u32 \<Rightarrow> obj \<Rightarrow> 
    'z queue_state_scheme \<Rightarrow> nat \<times> 'z queue_state_scheme" where
  "enqueueMultiVatSetRestorer peerId restorer =
     enqueueRetaining UnitCompletion restorer (ForwardingOp (QueuedMultiVatSetRestorer peerId restorer))"

definition enqueueMultiVatClearRestorer :: "u32 \<Rightarrow> 'z queue_state_scheme \<Rightarrow> nat \<times> 'z queue_state_scheme" where
  "enqueueMultiVatClearRestorer peerId =
     enqueueWithCompletion UnitCompletion (ForwardingOp (QueuedMultiVatClearRestorer peerId))"

definition enqueueMultiVatPublishSturdyRef :: "u32 \<Rightarrow> bytes \<Rightarrow> u32 \<Rightarrow> 
    'z queue_state_scheme \<Rightarrow> nat \<times> 'z queue_state_scheme" where
  "enqueueMultiVatPublishSturdyRef hostPeerId objectId targetId =
     enqueueWithCompletion UnitCompletion (SturdyOp (QueuedMultiVatPublishSturdyRef hostPeerId objectId targetId))"

definition enqueueMultiVatPublishSturdyRefStart :: "u32 \<Rightarrow> bytes \<Rightarrow> u32 \<Rightarrow> 
    'z queue_state_scheme \<Rightarrow> nat \<times> 'z queue_state_scheme" where
  "enqueueMultiVatPublishSturdyRefStart hostPeerId objectId targetId =
     enqueueWithCompletion RegisterTargetCompletion (SturdyOp (QueuedMultiVatPublishSturdyRefStart hostPeerId objectId targetId))"

definition enqueueMultiVatUnpublishSturdyRef :: "u32 \<Rightarrow> bytes \<Rightarrow> 
    'z queue_state_scheme \<Rightarrow> nat \<times> 'z queue_state_scheme" where
  "enqueueMultiVatUnpublishSturdyRef hostPeerId objectId =
     enqueueWithCompletion UnitCompletion (SturdyOp (QueuedMultiVatUnpublishSturdyRef hostPeerId objectId))"

definition enqueueMultiVatUnpublishSturdyRefStart :: "u32 \<Rightarrow> bytes \<Rightarrow> 
    'z queue_state_scheme \<Rightarrow> nat \<times> 'z queue_state_scheme" where
  "enqueueMultiVatUnpublishSturdyRefStart hostPeerId objectId =
     enqueueWithCompletion RegisterTargetCompletion (SturdyOp (QueuedMultiVatUnpublishSturdyRefStart hostPeerId objectId))"

definition enqueueMultiVatClearPublishedSturdyRefs :: "u32 \<Rightarrow> 'z queue_state_scheme \<Rightarrow> nat \<times> 'z queue_state_scheme" where
  "enqueueMultiVatClearPublishedSturdyRefs hostPeerId =
     enqueueWithCompletion UnitCompletion (SturdyOp (QueuedMultiVatClearPublishedSturdyRefs hostPeerId))"

definition enqueueMultiVatClearPublishedSturdyRefsStart :: "u32 \<Rightarrow> 'z queue_state_scheme \<Rightarrow> nat \<times> 'z queue_state_scheme" where
  "enqueueMultiVatClearPublishedSturdyRefsStart hostPeerId =
     enqueueWithCompletion RegisterTargetCompletion (SturdyOp (QueuedMultiVatClearPublishedSturdyRefsStart hostPeerId))"

definition enqueueMultiVatPublishedSturdyRefCount :: "u32 \<Rightarrow> 'z queue_state_scheme \<Rightarrow> nat \<times> 'z queue_state_scheme" where
  "enqueueMultiVatPublishedSturdyRefCount hostPeerId =
     enqueueWithCompletion UInt64Completion (SturdyOp (QueuedMultiVatPublishedSturdyRefCount hostPeerId))"

definition enqueueMultiVatRestoreSturdyRef :: "u32 \<Rightarrow> string \<Rightarrow> bool \<Rightarrow> bytes \<Rightarrow> 
    'z queue_state_scheme \<Rightarrow> nat \<times> 'z queue_state_scheme" where
  "enqueueMultiVatRestoreSturdyRef sourcePeerId hst uniq objectId =
     enqueueWithCompletion RegisterTargetCompletion (SturdyOp (QueuedMultiVatRestoreSturdyRef sourcePeerId hst uniq objectId))"

definition enqueueMultiVatRestoreSturdyRefStart :: "u32 \<Rightarrow> string \<Rightarrow> bool \<Rightarrow> bytes \<Rightarrow> 
    'z queue_state_scheme \<Rightarrow> nat \<times> 'z queue_state_scheme" where
  "enqueueMultiVatRestoreSturdyRefStart sourcePeerId hst uniq objectId =
     enqueueWithCompletion RegisterTargetCompletion (SturdyOp (QueuedMultiVatRestoreSturdyRefStart sourcePeerId hst uniq objectId))"

definition enqueueMultiVatGetDiagnostics :: "u32 \<Rightarrow> obj \<Rightarrow> 
    'z queue_state_scheme \<Rightarrow> nat \<times> 'z queue_state_scheme" where
  "enqueueMultiVatGetDiagnostics peerId targetVatId =
     enqueue_with DiagnosticsCompletion 0 [] [] [LeanInc targetVatId] (SturdyOp (QueuedMultiVatGetDiagnostics peerId targetVatId))"

definition enqueueMultiVatConnectionBlock :: "u32 \<Rightarrow> u32 \<Rightarrow> 
    'z queue_state_scheme \<Rightarrow> nat \<times> 'z queue_state_scheme" where
  "enqueueMultiVatConnectionBlock fromPeerId toPeerId =
     enqueueWithCompletion UnitCompletion (LinkOp (QueuedMultiVatConnectionBlock fromPeerId toPeerId))"

definition enqueueMultiVatConnectionUnblock :: "u32 \<Rightarrow> u32 \<Rightarrow> 
    'z queue_state_scheme \<Rightarrow> nat \<times> 'z queue_state_scheme" where
  "enqueueMultiVatConnectionUnblock fromPeerId toPeerId =
     enqueueWithCompletion UnitCompletion (LinkOp (QueuedMultiVatConnectionUnblock fromPeerId toPeerId))"

definition enqueueMultiVatConnectionDisconnect :: "u32 \<Rightarrow> u32 \<Rightarrow> u8 \<Rightarrow> string \<Rightarrow> bytes \<Rightarrow> 
    'z queue_state_scheme \<Rightarrow> nat \<times> 'z queue_state_scheme" where
  "enqueueMultiVatConnectionDisconnect fromPeerId toPeerId typeTag message detail =
     enqueueWithCompletion UnitCompletion (LinkOp (QueuedMultiVatConnectionDisconnect fromPeerId toPeerId typeTag message detail))"

definition enqueueMultiVatConnectionResolveDisembargoCounts :: "u32 \<Rightarrow> u32 \<Rightarrow> 
    'z queue_state_scheme \<Rightarrow> nat \<times> 'z queue_state_scheme" where
  "enqueueMultiVatConnectionResolveDisembargoCounts fromPeerId toPeerId =
     enqueueWithCompletion ProtocolMessageCountsCompletion (LinkOp (QueuedMultiVatConnectionResolveDisembargoCounts fromPeerId toPeerId))"

definition enqueueMultiVatConnectionResolveDisembargoTrace :: "u32 \<Rightarrow> u32 \<Rightarrow> 
    'z queue_state_scheme \<Rightarrow> nat \<times> 'z queue_state_scheme" where
  "enqueueMultiVatConnectionResolveDisembargoTrace fromPeerId toPeerId =
     enqueueWithCompletion ByteArrayCompletion (LinkOp (QueuedMultiVatConnectionResolveDisembargoTrace fromPeerId toPeerId))"

definition enqueueMultiVatConnectionResetResolveDisembargoTrace :: "u32 \<Rightarrow> u32 \<Rightarrow> 
    'z queue_state_scheme \<Rightarrow> nat \<times> 'z queue_state_scheme" where
  "enqueueMultiVatConnectionResetResolveDisembargoTrace fromPeerId toPeerId =
     enqueueWithCompletion UnitCompletion (LinkOp (QueuedMultiVatConnectionResetResolveDisembargoTrace fromPeerId toPeerId))"

definition enqueuePump :: "'z queue_state_scheme \<Rightarrow> nat \<times> 'z queue_state_scheme" where
  "enqueuePump = enqueueWithCompletion UnitCompletion (PumpOp QueuedPump)"

definition enqueuePumpAsync :: "obj \<Rightarrow> 'z queue_state_scheme \<Rightarrow> nat \<times> 'z queue_state_scheme" where
  "enqueuePumpAsync promise =
     enqueue_with AsyncUnitCompletion promise [] [] [] (PumpOp QueuedPumpAsync)"

section \<open>Asking for an operation\<close>

text \<open>
  The method that queues a given operation. \<open>promise\<close> is the Lean promise of
  \<^verbatim>\<open>pumpAsync\<close>.
\<close>

fun ask_call_op :: "call_op \<Rightarrow> 'z queue_state_scheme \<Rightarrow> nat \<times> 'z queue_state_scheme" where
  "ask_call_op (QueuedRawCall a b c d e) = enqueueRawCall a b c d e"
| "ask_call_op (QueuedRawCallData a b c d e) = enqueueRawCallData a b c d e"
| "ask_call_op (QueuedStartPendingCall a b c d e) = enqueueStartPendingCall a b c d e"
| "ask_call_op (QueuedStartPendingCallData a b c d e) = enqueueStartPendingCallData a b c d e"
| "ask_call_op (QueuedStartStreamingPendingCall a b c d e) = enqueueStartStreamingPendingCall a b c d e"
| "ask_call_op (QueuedStartStreamingPendingCallData a b c d e) = enqueueStartStreamingPendingCallData a b c d e"
| "ask_call_op (QueuedAwaitPendingCall a) = enqueueAwaitPendingCall a"
| "ask_call_op (QueuedReleasePendingCall a) = enqueueReleasePendingCall a"
| "ask_call_op (QueuedGetPipelinedCap a b) = enqueueGetPipelinedCap a b"
| "ask_call_op (QueuedStreamingCall a b c d e) = enqueueStreamingCall a b c d e"

fun ask_target_op :: "target_op \<Rightarrow> 'z queue_state_scheme \<Rightarrow> nat \<times> 'z queue_state_scheme" where
  "ask_target_op (QueuedTargetGetFd a) = enqueueTargetGetFd a"
| "ask_target_op (QueuedTargetWhenResolved a) = enqueueTargetWhenResolved a"
| "ask_target_op (QueuedTargetWhenResolvedStart a) = enqueueTargetWhenResolvedStart a"
| "ask_target_op (QueuedTargetWhenResolvedPoll a) = enqueueTargetWhenResolvedPoll a"
| "ask_target_op QueuedEnableTraceEncoder = enqueueEnableTraceEncoder"
| "ask_target_op QueuedDisableTraceEncoder = enqueueDisableTraceEncoder"
| "ask_target_op (QueuedSetTraceEncoder a) = enqueueSetTraceEncoder a"

fun ask_register_op :: "register_op \<Rightarrow> 'z queue_state_scheme \<Rightarrow> nat \<times> 'z queue_state_scheme" where
  "ask_register_op (QueuedCppCallWithAccept a b c d e f g h) = enqueueCppCallWithAccept a b c d e f g h"
| "ask_register_op (QueuedCppCallPipelinedWithAccept a b c d e f g h i j) = enqueueCppCallPipelinedWithAccept a b c d e f g h i j"
| "ask_register_op QueuedRegisterLoopbackTarget = enqueueRegisterLoopbackTarget"
| "ask_register_op (QueuedRegisterLoopbackBootstrapTarget a) = enqueueRegisterLoopbackBootstrapTarget a"
| "ask_register_op (QueuedRegisterHandlerTarget a) = enqueueRegisterHandlerTarget a"
| "ask_register_op (QueuedRegisterAdvancedHandlerTarget a) = enqueueRegisterAdvancedHandlerTarget a"
| "ask_register_op (QueuedRegisterTailCallHandlerTarget a) = enqueueRegisterTailCallHandlerTarget a"
| "ask_register_op (QueuedRegisterTailCallTarget a) = enqueueRegisterTailCallTarget a"
| "ask_register_op (QueuedRegisterFdTarget a) = enqueueRegisterFdTarget a"
| "ask_register_op QueuedRegisterFdProbeTarget = enqueueRegisterFdProbeTarget"

fun ask_ownership_op :: "ownership_op \<Rightarrow> 'z queue_state_scheme \<Rightarrow> nat \<times> 'z queue_state_scheme" where
  "ask_ownership_op (QueuedReleaseTarget a) = enqueueReleaseTarget a"
| "ask_ownership_op (QueuedReleaseTargets a) = enqueueReleaseTargets a"
| "ask_ownership_op (QueuedRetainTarget a) = enqueueRetainTarget a"
| "ask_ownership_op QueuedNewPromiseCapability = enqueueNewPromiseCapability"
| "ask_ownership_op (QueuedPromiseCapabilityFulfill a b) = enqueuePromiseCapabilityFulfill a b"
| "ask_ownership_op (QueuedPromiseCapabilityReject a b c d) = enqueuePromiseCapabilityReject a b c d"
| "ask_ownership_op (QueuedPromiseCapabilityRelease a) = enqueuePromiseCapabilityRelease a"
| "ask_ownership_op (QueuedOrderingSetResolveHold a) = enqueueOrderingSetResolveHold a"
| "ask_ownership_op QueuedOrderingFlushHeldResolves = enqueueOrderingFlushHeldResolves"
| "ask_ownership_op QueuedOrderingHeldResolveCount = enqueueOrderingHeldResolveCount"

fun ask_transport_op :: "transport_op \<Rightarrow> 'z queue_state_scheme \<Rightarrow> nat \<times> 'z queue_state_scheme" where
  "ask_transport_op (QueuedConnectTarget a b) = enqueueConnectTarget a b"
| "ask_transport_op (QueuedConnectTargetStart a b) = enqueueConnectTargetStart a b"
| "ask_transport_op (QueuedConnectTargetFd a) = enqueueConnectTargetFd a"
| "ask_transport_op QueuedNewTransportPipe = enqueueNewTransportPipe"
| "ask_transport_op (QueuedNewTransportFromFd a) = enqueueNewTransportFromFd a"
| "ask_transport_op (QueuedNewTransportFromFdTake a) = enqueueNewTransportFromFdTake a"
| "ask_transport_op (QueuedReleaseTransport a) = enqueueReleaseTransport a"
| "ask_transport_op (QueuedTransportGetFd a) = enqueueTransportGetFd a"
| "ask_transport_op (QueuedConnectTargetTransport a) = enqueueConnectTargetTransport a"

fun ask_client_op :: "client_op \<Rightarrow> 'z queue_state_scheme \<Rightarrow> nat \<times> 'z queue_state_scheme" where
  "ask_client_op (QueuedListenLoopback a b) = enqueueListenLoopback a b"
| "ask_client_op (QueuedAcceptLoopback a) = enqueueAcceptLoopback a"
| "ask_client_op (QueuedReleaseListener a) = enqueueReleaseListener a"
| "ask_client_op (QueuedNewClient a b) = enqueueNewClient a b"
| "ask_client_op (QueuedNewClientStart a b) = enqueueNewClientStart a b"
| "ask_client_op (QueuedReleaseClient a) = enqueueReleaseClient a"
| "ask_client_op (QueuedClientBootstrap a) = enqueueClientBootstrap a"
| "ask_client_op (QueuedClientOnDisconnect a) = enqueueClientOnDisconnect a"
| "ask_client_op (QueuedClientOnDisconnectStart a) = enqueueClientOnDisconnectStart a"
| "ask_client_op (QueuedClientSetFlowLimit a b) = enqueueClientSetFlowLimit a b"

fun ask_metric_op :: "metric_op \<Rightarrow> 'z queue_state_scheme \<Rightarrow> nat \<times> 'z queue_state_scheme" where
  "ask_metric_op (QueuedClientQueueSize a) = enqueueClientQueueSize a"
| "ask_metric_op (QueuedClientQueueCount a) = enqueueClientQueueCount a"
| "ask_metric_op (QueuedClientOutgoingWaitNanos a) = enqueueClientOutgoingWaitNanos a"
| "ask_metric_op QueuedTargetCount = enqueueTargetCount"
| "ask_metric_op QueuedListenerCount = enqueueListenerCount"
| "ask_metric_op QueuedClientCount = enqueueClientCount"
| "ask_metric_op QueuedServerCount = enqueueServerCount"
| "ask_metric_op QueuedPendingCallCount = enqueuePendingCallCount"

fun ask_server_op :: "server_op \<Rightarrow> 'z queue_state_scheme \<Rightarrow> nat \<times> 'z queue_state_scheme" where
  "ask_server_op (QueuedNewServer a) = enqueueNewServer a"
| "ask_server_op (QueuedNewServerWithBootstrapFactory a) = enqueueNewServerWithBootstrapFactory a"
| "ask_server_op (QueuedReleaseServer a) = enqueueReleaseServer a"
| "ask_server_op (QueuedServerListen a b c) = enqueueServerListen a b c"
| "ask_server_op (QueuedServerAccept a b) = enqueueServerAccept a b"
| "ask_server_op (QueuedServerAcceptStart a b) = enqueueServerAcceptStart a b"
| "ask_server_op (QueuedServerAcceptFd a b) = enqueueServerAcceptFd a b"
| "ask_server_op (QueuedServerAcceptTransport a b) = enqueueServerAcceptTransport a b"
| "ask_server_op (QueuedServerDrain a) = enqueueServerDrain a"
| "ask_server_op (QueuedServerDrainStart a) = enqueueServerDrainStart a"

fun ask_promise_op :: "promise_op \<Rightarrow> 'z queue_state_scheme \<Rightarrow> nat \<times> 'z queue_state_scheme" where
  "ask_promise_op (QueuedAwaitRegisterPromise a) = enqueueAwaitRegisterPromise a"
| "ask_promise_op (QueuedCancelRegisterPromise a) = enqueueCancelRegisterPromise a"
| "ask_promise_op (QueuedReleaseRegisterPromise a) = enqueueReleaseRegisterPromise a"
| "ask_promise_op (QueuedAwaitUnitPromise a) = enqueueAwaitUnitPromise a"
| "ask_promise_op (QueuedCancelUnitPromise a) = enqueueCancelUnitPromise a"
| "ask_promise_op (QueuedReleaseUnitPromise a) = enqueueReleaseUnitPromise a"

fun ask_async_op :: "async_op \<Rightarrow> 'z queue_state_scheme \<Rightarrow> nat \<times> 'z queue_state_scheme" where
  "ask_async_op (QueuedKjAsyncSleepNanosStart a) = enqueueKjAsyncSleepNanosStart a"
| "ask_async_op (QueuedKjAsyncPromiseAwait a) = enqueueKjAsyncPromiseAwait a"
| "ask_async_op (QueuedKjAsyncPromiseCancel a) = enqueueKjAsyncPromiseCancel a"
| "ask_async_op (QueuedKjAsyncPromiseRelease a) = enqueueKjAsyncPromiseRelease a"
| "ask_async_op (QueuedKjAsyncPromiseThenStart a b) = enqueueKjAsyncPromiseThenStart a b"
| "ask_async_op (QueuedKjAsyncPromiseCatchStart a b) = enqueueKjAsyncPromiseCatchStart a b"
| "ask_async_op (QueuedKjAsyncPromiseAllStart a) = enqueueKjAsyncPromiseAllStart a"
| "ask_async_op (QueuedKjAsyncPromiseRaceStart a) = enqueueKjAsyncPromiseRaceStart a"

fun ask_task_set_op :: "task_set_op \<Rightarrow> 'z queue_state_scheme \<Rightarrow> nat \<times> 'z queue_state_scheme" where
  "ask_task_set_op QueuedKjAsyncTaskSetNew = enqueueKjAsyncTaskSetNew"
| "ask_task_set_op (QueuedKjAsyncTaskSetRelease a) = enqueueKjAsyncTaskSetRelease a"
| "ask_task_set_op (QueuedKjAsyncTaskSetAddPromise a b) = enqueueKjAsyncTaskSetAddPromise a b"
| "ask_task_set_op (QueuedKjAsyncTaskSetClear a) = enqueueKjAsyncTaskSetClear a"
| "ask_task_set_op (QueuedKjAsyncTaskSetIsEmpty a) = enqueueKjAsyncTaskSetIsEmpty a"
| "ask_task_set_op (QueuedKjAsyncTaskSetOnEmptyStart a) = enqueueKjAsyncTaskSetOnEmptyStart a"
| "ask_task_set_op (QueuedKjAsyncTaskSetErrorCount a) = enqueueKjAsyncTaskSetErrorCount a"
| "ask_task_set_op (QueuedKjAsyncTaskSetTakeLastError a) = enqueueKjAsyncTaskSetTakeLastError a"

fun ask_peer_op :: "peer_op \<Rightarrow> 'z queue_state_scheme \<Rightarrow> nat \<times> 'z queue_state_scheme" where
  "ask_peer_op (QueuedMultiVatNewClient a) = enqueueMultiVatNewClient a"
| "ask_peer_op (QueuedMultiVatNewServer a b) = enqueueMultiVatNewServer a b"
| "ask_peer_op (QueuedMultiVatNewServerWithBootstrapFactory a b) = enqueueMultiVatNewServerWithBootstrapFactory a b"
| "ask_peer_op (QueuedMultiVatReleasePeer a) = enqueueMultiVatReleasePeer a"
| "ask_peer_op (QueuedMultiVatBootstrap a b c) = enqueueMultiVatBootstrap a b c"
| "ask_peer_op (QueuedMultiVatBootstrapPeer a b c) = enqueueMultiVatBootstrapPeer a b c"

fun ask_forwarding_op :: "forwarding_op \<Rightarrow> 'z queue_state_scheme \<Rightarrow> nat \<times> 'z queue_state_scheme" where
  "ask_forwarding_op (QueuedMultiVatSetForwardingEnabled a) = enqueueMultiVatSetForwardingEnabled a"
| "ask_forwarding_op QueuedMultiVatResetForwardingStats = enqueueMultiVatResetForwardingStats"
| "ask_forwarding_op QueuedMultiVatForwardCount = enqueueMultiVatForwardCount"
| "ask_forwarding_op QueuedMultiVatThirdPartyTokenCount = enqueueMultiVatThirdPartyTokenCount"
| "ask_forwarding_op QueuedMultiVatDeniedForwardCount = enqueueMultiVatDeniedForwardCount"
| "ask_forwarding_op (QueuedMultiVatHasConnection a b) = enqueueMultiVatHasConnection a b"
| "ask_forwarding_op (QueuedMultiVatSetRestorer a b) = enqueueMultiVatSetRestorer a b"
| "ask_forwarding_op (QueuedMultiVatClearRestorer a) = enqueueMultiVatClearRestorer a"

fun ask_sturdy_op :: "sturdy_op \<Rightarrow> 'z queue_state_scheme \<Rightarrow> nat \<times> 'z queue_state_scheme" where
  "ask_sturdy_op (QueuedMultiVatPublishSturdyRef a b c) = enqueueMultiVatPublishSturdyRef a b c"
| "ask_sturdy_op (QueuedMultiVatPublishSturdyRefStart a b c) = enqueueMultiVatPublishSturdyRefStart a b c"
| "ask_sturdy_op (QueuedMultiVatUnpublishSturdyRef a b) = enqueueMultiVatUnpublishSturdyRef a b"
| "ask_sturdy_op (QueuedMultiVatUnpublishSturdyRefStart a b) = enqueueMultiVatUnpublishSturdyRefStart a b"
| "ask_sturdy_op (QueuedMultiVatClearPublishedSturdyRefs a) = enqueueMultiVatClearPublishedSturdyRefs a"
| "ask_sturdy_op (QueuedMultiVatClearPublishedSturdyRefsStart a) = enqueueMultiVatClearPublishedSturdyRefsStart a"
| "ask_sturdy_op (QueuedMultiVatPublishedSturdyRefCount a) = enqueueMultiVatPublishedSturdyRefCount a"
| "ask_sturdy_op (QueuedMultiVatRestoreSturdyRef a b c d) = enqueueMultiVatRestoreSturdyRef a b c d"
| "ask_sturdy_op (QueuedMultiVatRestoreSturdyRefStart a b c d) = enqueueMultiVatRestoreSturdyRefStart a b c d"
| "ask_sturdy_op (QueuedMultiVatGetDiagnostics a b) = enqueueMultiVatGetDiagnostics a b"

fun ask_link_op :: "link_op \<Rightarrow> 'z queue_state_scheme \<Rightarrow> nat \<times> 'z queue_state_scheme" where
  "ask_link_op (QueuedMultiVatConnectionBlock a b) = enqueueMultiVatConnectionBlock a b"
| "ask_link_op (QueuedMultiVatConnectionUnblock a b) = enqueueMultiVatConnectionUnblock a b"
| "ask_link_op (QueuedMultiVatConnectionDisconnect a b c d e) = enqueueMultiVatConnectionDisconnect a b c d e"
| "ask_link_op (QueuedMultiVatConnectionResolveDisembargoCounts a b) = enqueueMultiVatConnectionResolveDisembargoCounts a b"
| "ask_link_op (QueuedMultiVatConnectionResolveDisembargoTrace a b) = enqueueMultiVatConnectionResolveDisembargoTrace a b"
| "ask_link_op (QueuedMultiVatConnectionResetResolveDisembargoTrace a b) = enqueueMultiVatConnectionResetResolveDisembargoTrace a b"

fun ask_pump_op :: "obj \<Rightarrow> pump_op \<Rightarrow> 'z queue_state_scheme \<Rightarrow> nat \<times> 'z queue_state_scheme" where
  "ask_pump_op promise QueuedPump = enqueuePump"
| "ask_pump_op promise QueuedPumpAsync = enqueuePumpAsync promise"

fun issue :: "obj \<Rightarrow> queued_operation \<Rightarrow> 'z queue_state_scheme \<Rightarrow> nat \<times> 'z queue_state_scheme" where
  "issue promise (CallOp x) = ask_call_op x"
| "issue promise (TargetOp x) = ask_target_op x"
| "issue promise (RegisterOp x) = ask_register_op x"
| "issue promise (OwnershipOp x) = ask_ownership_op x"
| "issue promise (TransportOp x) = ask_transport_op x"
| "issue promise (ClientOp x) = ask_client_op x"
| "issue promise (MetricOp x) = ask_metric_op x"
| "issue promise (ServerOp x) = ask_server_op x"
| "issue promise (PromiseOp x) = ask_promise_op x"
| "issue promise (AsyncOp x) = ask_async_op x"
| "issue promise (TaskSetOp x) = ask_task_set_op x"
| "issue promise (PeerOp x) = ask_peer_op x"
| "issue promise (ForwardingOp x) = ask_forwarding_op x"
| "issue promise (SturdyOp x) = ask_sturdy_op x"
| "issue promise (LinkOp x) = ask_link_op x"
| "issue promise (PumpOp x) = ask_pump_op promise x"

end
