(* ===== verification/Dispatch.thy ===== *)
theory Dispatch
  imports Queue Multi_Vat
begin

text \<open>
  What the run loop does for each operation it takes from the queue: the body of the
  \<^verbatim>\<open>try\<close> block, the kind of completion it answers and the text for an unknown
  exception. The loop around it is in \<^verbatim>\<open>Run_Loop.thy\<close>.
\<close>

section \<open>The state of the runtime's thread\<close>

text \<open>
  A task of the loop's \<^verbatim>\<open>kj::TaskSet\<close> waits for a promise and then answers a
  completion: of a raw call, of a registration, or of a unit result. The last two also take
  the promise's canceler out of its table, under the identifier given.
\<close>

datatype task =
    RawTask promise
  | RegisterTask u32 promise
  | UnitTask u32 promise

fun task_kind :: "task \<Rightarrow> completion_kind" where
  "task_kind (RawTask _) = RawCallCompletion"
| "task_kind (RegisterTask _ _) = RegisterTargetCompletion"
| "task_kind (UnitTask _ _) = UnitCompletion"

text \<open>
  While the event loop runs it sees the tasks there are in \<open>waiting\<close>, by the handle of their
  completion, and notes in \<open>settlements\<close> whose promises ended, in order, and how.
\<close>

datatype settlement =
    RawSettled nat "kj_exception + bytes \<times> bytes"
  | RegisterSettled nat "kj_exception + u32"
  | UnitSettled nat "kj_exception + unit"

record rt_state = multi_vat_state +
  waiting :: "(nat \<times> task) list"
  settlements :: "settlement list"

text \<open>
  The code outside the repository, as the thread meets it: the answers to calls, the waits
  on the event loop with all they do to the thread's state before they end, the Lean
  closures of restorers, the order in which hash tables are walked, and the contents of a
  Lean \<^verbatim>\<open>VatId\<close>. \<open>poll\<close> is one non-blocking turn and the number of events it ran.
\<close>

record 's kj =
  kj_env :: env
  kj_lib :: lib
  await_unit :: "promise \<Rightarrow> 's \<Rightarrow> (exn, unit) outcome \<times> 's"
  await_obj :: "ext_call \<Rightarrow> 's \<Rightarrow> (exn, obj) outcome \<times> 's"
  await_message :: "promise \<Rightarrow> 's \<Rightarrow> (exn, message) outcome \<times> 's"
  await_fd :: "client \<Rightarrow> 's \<Rightarrow> (exn, int option) outcome \<times> 's"
  await_bool :: "promise \<Rightarrow> 's \<Rightarrow> (exn, bool) outcome \<times> 's"
  restore :: "obj \<Rightarrow> string \<Rightarrow> bool \<Rightarrow> bytes \<Rightarrow> 's \<Rightarrow> u32 option \<times> 's"
  table_order :: "u32 set \<Rightarrow> u32 list"
  vat_of :: "obj \<Rightarrow> vat_id"
  poll :: "'s \<Rightarrow> (exn, nat) outcome \<times> 's"

section \<open>Branches\<close>

text \<open>
  A body answers its completion itself, or hands it to the task it adds.
\<close>

datatype reply = Answer completion_value | Schedule task

fun reply_kind :: "reply \<Rightarrow> completion_kind" where
  "reply_kind (Answer v) = kind_of v"
| "reply_kind (Schedule t) = task_kind t"

record branch =
  br_kind :: completion_kind
  br_unknown :: string
  br_body :: "rt_state \<Rightarrow> (exn, reply) outcome \<times> rt_state"

definition answering :: "completion_kind \<Rightarrow> ('a \<Rightarrow> completion_value) \<Rightarrow> string
    \<Rightarrow> (rt_state \<Rightarrow> (exn, 'a) outcome \<times> rt_state) \<Rightarrow> branch" where
  "answering k mk name m = \<lparr>br_kind = k, br_unknown = ''unknown exception in '' @ name,
     br_body = bnd m (\<lambda>a. ret (Answer (mk a)))\<rparr>"

text \<open>One abbreviation per function that completes the result of the body.\<close>

abbreviation raw_branch :: "string \<Rightarrow> (rt_state \<Rightarrow> (exn, bytes \<times> bytes) outcome \<times> rt_state) \<Rightarrow> branch" where
  "raw_branch \<equiv> answering RawCallCompletion (\<lambda>(w, caps). RawCallValue w caps)"

abbreviation register_branch :: "string \<Rightarrow> (rt_state \<Rightarrow> (exn, u32) outcome \<times> rt_state) \<Rightarrow> branch" where
  "register_branch \<equiv> answering RegisterTargetCompletion TargetIdValue"

abbreviation unit_branch :: "string \<Rightarrow> (rt_state \<Rightarrow> (exn, unit) outcome \<times> rt_state) \<Rightarrow> branch" where
  "unit_branch \<equiv> answering UnitCompletion (\<lambda>_. UnitValue)"

abbreviation uint64_branch :: "string \<Rightarrow> (rt_state \<Rightarrow> (exn, u64) outcome \<times> rt_state) \<Rightarrow> branch" where
  "uint64_branch \<equiv> answering UInt64Completion UInt64Value"

abbreviation bool_branch :: "string \<Rightarrow> (rt_state \<Rightarrow> (exn, bool) outcome \<times> rt_state) \<Rightarrow> branch" where
  "bool_branch \<equiv> answering BoolCompletion BoolValue"

abbreviation optional_string_branch ::
    "string \<Rightarrow> (rt_state \<Rightarrow> (exn, string option) outcome \<times> rt_state) \<Rightarrow> branch" where
  "optional_string_branch \<equiv> answering OptionalStringCompletion
     (\<lambda>v. case v of Some x \<Rightarrow> OptionalStringValue True x | None \<Rightarrow> OptionalStringValue False [])"

abbreviation int64_branch :: "string \<Rightarrow> (rt_state \<Rightarrow> (exn, int) outcome \<times> rt_state) \<Rightarrow> branch" where
  "int64_branch \<equiv> answering Int64Completion (\<lambda>n. Int64Value (word_of_int n))"

abbreviation byte_array_branch :: "string \<Rightarrow> (rt_state \<Rightarrow> (exn, bytes) outcome \<times> rt_state) \<Rightarrow> branch" where
  "byte_array_branch \<equiv> answering ByteArrayCompletion ByteArrayValue"

abbreviation pair_branch :: "string \<Rightarrow> (rt_state \<Rightarrow> (exn, u32 \<times> u32) outcome \<times> rt_state) \<Rightarrow> branch" where
  "pair_branch \<equiv> answering RegisterPairCompletion (\<lambda>(a, b). PairValue a b)"

abbreviation kj_promise_branch :: "string \<Rightarrow> (rt_state \<Rightarrow> (exn, u32) outcome \<times> rt_state) \<Rightarrow> branch" where
  "kj_promise_branch \<equiv> answering KjPromiseIdCompletion KjPromiseIdValue"

abbreviation diagnostics_branch :: "string \<Rightarrow> (rt_state \<Rightarrow> (exn, obj) outcome \<times> rt_state) \<Rightarrow> branch" where
  "diagnostics_branch \<equiv> answering DiagnosticsCompletion DiagnosticsValue"

abbreviation counts_branch ::
    "string \<Rightarrow> (rt_state \<Rightarrow> (exn, protocol_message_counts) outcome \<times> rt_state) \<Rightarrow> branch" where
  "counts_branch \<equiv> answering ProtocolMessageCountsCompletion CountsValue"

abbreviation async_branch :: "string \<Rightarrow> (rt_state \<Rightarrow> (exn, unit) outcome \<times> rt_state) \<Rightarrow> branch" where
  "async_branch \<equiv> answering AsyncUnitCompletion (\<lambda>_. AsyncUnitValue 0 None)"

text \<open>The three ways a body hands its completion to a task: \<^verbatim>\<open>scheduleRawCallCompletion\<close>
  and its siblings, up to \<^verbatim>\<open>tasks.add\<close>.\<close>

definition raw_later_branch :: "string \<Rightarrow> (rt_state \<Rightarrow> (exn, promise) outcome \<times> rt_state) \<Rightarrow> branch" where
  "raw_later_branch name m = \<lparr>br_kind = RawCallCompletion,
     br_unknown = ''unknown exception in '' @ name, br_body = bnd m (\<lambda>p. ret (Schedule (RawTask p)))\<rparr>"

definition register_later_branch :: "u32 \<Rightarrow> string
    \<Rightarrow> (rt_state \<Rightarrow> (exn, pending_promise) outcome \<times> rt_state) \<Rightarrow> branch" where
  "register_later_branch promiseId name m = \<lparr>br_kind = RegisterTargetCompletion,
     br_unknown = ''unknown exception in '' @ name,
     br_body = bnd m (\<lambda>pending. sq (modify (\<lambda>s. s\<lparr>activeRegisterPromiseCancelers :=
         (activeRegisterPromiseCancelers s)(promiseId \<mapsto> pp_canceler pending)\<rparr>))
       (ret (Schedule (RegisterTask promiseId (pp_promise pending)))))\<rparr>"

definition unit_later_branch :: "u32 \<Rightarrow> string
    \<Rightarrow> (rt_state \<Rightarrow> (exn, pending_promise) outcome \<times> rt_state) \<Rightarrow> branch" where
  "unit_later_branch promiseId name m = \<lparr>br_kind = UnitCompletion,
     br_unknown = ''unknown exception in '' @ name,
     br_body = bnd m (\<lambda>pending. sq (modify (\<lambda>s. s\<lparr>activeUnitPromiseCancelers :=
         (activeUnitPromiseCancelers s)(promiseId \<mapsto> pp_canceler pending)\<rparr>))
       (ret (Schedule (UnitTask promiseId (pp_promise pending)))))\<rparr>"

text \<open>References dropped on every exit of a body, or (\<open>on_throw\<close>) when it throws.\<close>

definition lean_dec :: "obj \<Rightarrow> 'z world_scheme \<Rightarrow> 'z world_scheme" where
  "lean_dec x s = s\<lparr>log := log s @ [LeanDec x]\<rparr>"

definition afterwards :: "('s \<Rightarrow> ('e, 'a) outcome \<times> 's) \<Rightarrow> ('s \<Rightarrow> 's) \<Rightarrow> 's \<Rightarrow> ('e, 'a) outcome \<times> 's" where
  "afterwards m f s = (case m s of (Hang, t) \<Rightarrow> (Hang, t) | (r, t) \<Rightarrow> (r, f t))"

section \<open>The operations\<close>

fun run_call_op :: "rt_state kj \<Rightarrow> call_op \<Rightarrow> branch" where
  "run_call_op K (QueuedRawCall a b c d e) = raw_later_branch ''capnp_lean_rpc_raw_call''
     (processRawCall (kj_env K) a b c d e)"
| "run_call_op K (QueuedRawCallData a b c d e) = raw_later_branch ''capnp_lean_rpc_raw_call''
     (processRawCall (kj_env K) a b c d e)"
| "run_call_op K (QueuedStartPendingCall a b c d e) = register_branch ''capnp_lean_rpc_runtime_start_call_with_caps''
     (startPendingCall (kj_env K) a b c d e)"
| "run_call_op K (QueuedStartPendingCallData a b c d e) = register_branch ''capnp_lean_rpc_runtime_start_call_with_caps''
     (startPendingCall (kj_env K) a b c d e)"
| "run_call_op K (QueuedStartStreamingPendingCall a b c d e) = register_branch ''capnp_lean_rpc_runtime_start_streaming_call_with_caps''
     (startStreamingPendingCall (kj_env K) a b c d e)"
| "run_call_op K (QueuedStartStreamingPendingCallData a b c d e) = register_branch ''capnp_lean_rpc_runtime_start_streaming_call_with_caps''
     (startStreamingPendingCall (kj_env K) a b c d e)"
| "run_call_op K (QueuedAwaitPendingCall a) = raw_later_branch ''capnp_lean_rpc_runtime_pending_call_await''
     (awaitPendingCall a)"
| "run_call_op K (QueuedReleasePendingCall a) = unit_branch ''capnp_lean_rpc_runtime_pending_call_release''
     (releasePendingCall a)"
| "run_call_op K (QueuedGetPipelinedCap a b) = register_branch ''capnp_lean_rpc_runtime_pending_call_get_pipelined_cap''
     (getPipelinedCap (kj_env K) a b)"
| "run_call_op K (QueuedStreamingCall a b c d e) = unit_branch ''capnp_lean_rpc_runtime_streaming_call_with_caps''
     (processStreamingCall (kj_env K) (await_unit K) a b c d e)"

fun run_target_op :: "rt_state kj \<Rightarrow> target_op \<Rightarrow> branch" where
  "run_target_op K (QueuedTargetGetFd a) = int64_branch ''capnp_lean_rpc_runtime_target_get_fd''
     (targetGetFd (await_fd K) a)"
| "run_target_op K (QueuedTargetWhenResolved a) = unit_branch ''capnp_lean_rpc_runtime_target_when_resolved''
     (targetWhenResolved (await_unit K) a)"
| "run_target_op K (QueuedTargetWhenResolvedStart a) = register_branch ''capnp_lean_rpc_runtime_target_when_resolved_start''
     (targetWhenResolvedStart a)"
| "run_target_op K (QueuedTargetWhenResolvedPoll a) = bool_branch ''capnp_lean_rpc_runtime_target_when_resolved_poll''
     (targetWhenResolvedPoll (await_bool K) a)"
| "run_target_op K QueuedEnableTraceEncoder = unit_branch ''capnp_lean_rpc_runtime_enable_trace_encoder''
     (setTraceEncoderEnabled (table_order K) True)"
| "run_target_op K QueuedDisableTraceEncoder = unit_branch ''capnp_lean_rpc_runtime_disable_trace_encoder''
     (setTraceEncoderEnabled (table_order K) False)"
| "run_target_op K (QueuedSetTraceEncoder a) = unit_branch ''capnp_lean_rpc_runtime_set_trace_encoder''
     (on_throw (setTraceEncoderFromLean (table_order K) a) (lean_dec a))"

fun run_register_op :: "rt_state kj \<Rightarrow> register_op \<Rightarrow> branch" where
  "run_register_op K (QueuedCppCallWithAccept a b c d e f g h) = raw_branch ''capnp_lean_rpc_runtime_cpp_call_with_accept''
     (processCppCallWithAccept (kj_env K) (await_obj K) (await_message K) a b c d e f g h)"
| "run_register_op K (QueuedCppCallPipelinedWithAccept a b c d e f g h i j) = raw_branch ''capnp_lean_rpc_runtime_cpp_call_pipelined_with_accept''
     (processCppPipelinedCallWithAccept (kj_env K) (await_obj K) (await_message K)
        a b c d e f g h i j)"
| "run_register_op K QueuedRegisterLoopbackTarget = register_branch ''capnp_lean_rpc_runtime_register_echo_target''
     (registerLoopbackTarget (kj_env K))"
| "run_register_op K (QueuedRegisterLoopbackBootstrapTarget a) = register_branch ''capnp_lean_rpc_runtime_register_loopback_target''
     (registerLoopbackBootstrapTarget (kj_env K) a)"
| "run_register_op K (QueuedRegisterHandlerTarget a) = register_branch ''capnp_lean_rpc_runtime_register_handler_target''
     (afterwards (registerHandlerTarget a) (lean_dec a))"
| "run_register_op K (QueuedRegisterAdvancedHandlerTarget a) = register_branch ''capnp_lean_rpc_runtime_register_advanced_handler_target''
     (afterwards (registerAdvancedHandlerTarget a) (lean_dec a))"
| "run_register_op K (QueuedRegisterTailCallHandlerTarget a) = register_branch ''capnp_lean_rpc_runtime_register_tailcall_handler_target''
     (afterwards (registerTailCallHandlerTarget a) (lean_dec a))"
| "run_register_op K (QueuedRegisterTailCallTarget a) = register_branch ''capnp_lean_rpc_runtime_register_tailcall_target''
     (registerTailCallTarget a)"
| "run_register_op K (QueuedRegisterFdTarget a) = register_branch ''capnp_lean_rpc_runtime_register_fd_target''
     (registerFdTarget (kj_env K) a)"
| "run_register_op K QueuedRegisterFdProbeTarget = register_branch ''capnp_lean_rpc_runtime_register_fd_probe_target''
     (registerFdProbeTarget)"

fun run_ownership_op :: "rt_state kj \<Rightarrow> ownership_op \<Rightarrow> branch" where
  "run_ownership_op K (QueuedReleaseTarget a) = unit_branch ''capnp_lean_rpc_runtime_release_target''
     (releaseTarget a)"
| "run_ownership_op K (QueuedReleaseTargets a) = unit_branch ''capnp_lean_rpc_runtime_release_targets''
     (releaseTargets a)"
| "run_ownership_op K (QueuedRetainTarget a) = register_branch ''capnp_lean_rpc_runtime_retain_target''
     (retainTarget a)"
| "run_ownership_op K QueuedNewPromiseCapability = pair_branch ''capnp_lean_rpc_runtime_new_promise_capability''
     (newPromiseCapability (kj_env K))"
| "run_ownership_op K (QueuedPromiseCapabilityFulfill a b) = unit_branch ''capnp_lean_rpc_runtime_promise_capability_fulfill''
     (promiseCapabilityFulfill a b)"
| "run_ownership_op K (QueuedPromiseCapabilityReject a b c d) = unit_branch ''capnp_lean_rpc_runtime_promise_capability_reject''
     (promiseCapabilityReject a b c d)"
| "run_ownership_op K (QueuedPromiseCapabilityRelease a) = unit_branch ''capnp_lean_rpc_runtime_promise_capability_release''
     (promiseCapabilityRelease a)"
| "run_ownership_op K (QueuedOrderingSetResolveHold a) = unit_branch ''capnp_lean_rpc_runtime_ordering_set_resolve_hold''
     (modify (setResolveHoldEnabled a))"
| "run_ownership_op K QueuedOrderingFlushHeldResolves = uint64_branch ''capnp_lean_rpc_runtime_ordering_flush_resolves''
     (flushHeldPromiseCapabilityResolves)"
| "run_ownership_op K QueuedOrderingHeldResolveCount = uint64_branch ''capnp_lean_rpc_runtime_ordering_held_resolve_count''
     (gets heldResolveCount)"

fun run_transport_op :: "rt_state kj \<Rightarrow> transport_op \<Rightarrow> branch" where
  "run_transport_op K (QueuedConnectTarget a b) = register_branch ''capnp_lean_rpc_runtime_connect''
     (connectTarget (kj_env K) (await_obj K) a b)"
| "run_transport_op K (QueuedConnectTargetStart a b) = register_branch ''capnp_lean_rpc_runtime_connect_start''
     (connectTargetStart a b)"
| "run_transport_op K (QueuedConnectTargetFd a) = register_branch ''capnp_lean_rpc_runtime_connect_fd''
     (connectTargetFd (kj_env K) a)"
| "run_transport_op K QueuedNewTransportPipe = pair_branch ''capnp_lean_rpc_runtime_new_transport_pipe''
     (newTransportPipe (kj_env K))"
| "run_transport_op K (QueuedNewTransportFromFd a) = register_branch ''capnp_lean_rpc_runtime_new_transport_from_fd''
     (newTransportFromFd (kj_env K) a)"
| "run_transport_op K (QueuedNewTransportFromFdTake a) = register_branch ''capnp_lean_rpc_runtime_new_transport_from_fd_take''
     (newTransportFromFdTake (kj_env K) a)"
| "run_transport_op K (QueuedReleaseTransport a) = unit_branch ''capnp_lean_rpc_runtime_release_transport''
     (releaseTransport a)"
| "run_transport_op K (QueuedTransportGetFd a) = int64_branch ''capnp_lean_rpc_runtime_transport_get_fd''
     (transportGetFd (kj_env K) a)"
| "run_transport_op K (QueuedConnectTargetTransport a) = register_branch ''capnp_lean_rpc_runtime_connect_transport''
     (connectTargetTransport (kj_env K) a)"

fun run_client_op :: "rt_state kj \<Rightarrow> client_op \<Rightarrow> branch" where
  "run_client_op K (QueuedListenLoopback a b) = register_branch ''capnp_lean_rpc_runtime_listen_echo''
     (listenLoopback (kj_env K) (await_obj K) a b)"
| "run_client_op K (QueuedAcceptLoopback a) = unit_branch ''capnp_lean_rpc_runtime_accept_echo''
     (acceptLoopback (kj_env K) (await_obj K) a)"
| "run_client_op K (QueuedReleaseListener a) = unit_branch ''capnp_lean_rpc_runtime_release_listener''
     (releaseListener a)"
| "run_client_op K (QueuedNewClient a b) = register_branch ''capnp_lean_rpc_runtime_new_client''
     (newClient (kj_env K) (await_obj K) a b)"
| "run_client_op K (QueuedNewClientStart a b) = register_branch ''capnp_lean_rpc_runtime_new_client_start''
     (newClientStart a b)"
| "run_client_op K (QueuedReleaseClient a) = unit_branch ''capnp_lean_rpc_runtime_release_client''
     (releaseClient a)"
| "run_client_op K (QueuedClientBootstrap a) = register_branch ''capnp_lean_rpc_runtime_client_bootstrap''
     (clientBootstrap (kj_env K) a)"
| "run_client_op K (QueuedClientOnDisconnect a) = unit_branch ''capnp_lean_rpc_runtime_client_on_disconnect''
     (clientOnDisconnect (await_unit K) a)"
| "run_client_op K (QueuedClientOnDisconnectStart a) = register_branch ''capnp_lean_rpc_runtime_client_on_disconnect_start''
     (clientOnDisconnectStart a)"
| "run_client_op K (QueuedClientSetFlowLimit a b) = unit_branch ''capnp_lean_rpc_runtime_client_set_flow_limit''
     (clientSetFlowLimit a b)"

fun run_metric_op :: "rt_state kj \<Rightarrow> metric_op \<Rightarrow> branch" where
  "run_metric_op K (QueuedClientQueueSize a) = uint64_branch ''capnp_lean_rpc_runtime_client_queue_size''
     (clientQueueSize (kj_env K) a)"
| "run_metric_op K (QueuedClientQueueCount a) = uint64_branch ''capnp_lean_rpc_runtime_client_queue_count''
     (clientQueueCount (kj_env K) a)"
| "run_metric_op K (QueuedClientOutgoingWaitNanos a) = uint64_branch ''capnp_lean_rpc_runtime_client_outgoing_wait_nanos''
     (clientOutgoingWaitNanos (kj_env K) a)"
| "run_metric_op K QueuedTargetCount = uint64_branch ''capnp_lean_rpc_runtime_target_count''
     (gets targetCount)"
| "run_metric_op K QueuedListenerCount = uint64_branch ''capnp_lean_rpc_runtime_listener_count''
     (gets listenerCount)"
| "run_metric_op K QueuedClientCount = uint64_branch ''capnp_lean_rpc_runtime_client_count''
     (gets clientCount)"
| "run_metric_op K QueuedServerCount = uint64_branch ''capnp_lean_rpc_runtime_server_count''
     (gets serverCount)"
| "run_metric_op K QueuedPendingCallCount = uint64_branch ''capnp_lean_rpc_runtime_pending_call_count''
     (gets pendingCallCount)"

fun run_server_op :: "rt_state kj \<Rightarrow> server_op \<Rightarrow> branch" where
  "run_server_op K (QueuedNewServer a) = register_branch ''capnp_lean_rpc_runtime_new_server''
     (newServer a)"
| "run_server_op K (QueuedNewServerWithBootstrapFactory a) = register_branch ''capnp_lean_rpc_runtime_new_server_with_bootstrap_factory''
     (afterwards (newServerWithBootstrapFactory a) (lean_dec a))"
| "run_server_op K (QueuedReleaseServer a) = unit_branch ''capnp_lean_rpc_runtime_release_server''
     (releaseServer a)"
| "run_server_op K (QueuedServerListen a b c) = register_branch ''capnp_lean_rpc_runtime_server_listen''
     (serverListen (kj_env K) (await_obj K) a b c)"
| "run_server_op K (QueuedServerAccept a b) = unit_branch ''capnp_lean_rpc_runtime_server_accept''
     (serverAccept (kj_env K) (await_obj K) a b)"
| "run_server_op K (QueuedServerAcceptStart a b) = register_branch ''capnp_lean_rpc_runtime_server_accept_start''
     (serverAcceptStart a b)"
| "run_server_op K (QueuedServerAcceptFd a b) = unit_branch ''capnp_lean_rpc_runtime_server_accept_fd''
     (serverAcceptFd (kj_env K) a b)"
| "run_server_op K (QueuedServerAcceptTransport a b) = unit_branch ''capnp_lean_rpc_runtime_server_accept_transport''
     (serverAcceptTransport (kj_env K) a b)"
| "run_server_op K (QueuedServerDrain a) = unit_branch ''capnp_lean_rpc_runtime_server_drain''
     (serverDrain (await_unit K) a)"
| "run_server_op K (QueuedServerDrainStart a) = register_branch ''capnp_lean_rpc_runtime_server_drain_start''
     (serverDrainStart a)"

fun run_promise_op :: "rt_state kj \<Rightarrow> promise_op \<Rightarrow> branch" where
  "run_promise_op K (QueuedAwaitRegisterPromise a) = register_later_branch a ''capnp_lean_rpc_runtime_register_promise_await''
     (takeRegisterPromiseForAwait a)"
| "run_promise_op K (QueuedCancelRegisterPromise a) = unit_branch ''capnp_lean_rpc_runtime_register_promise_cancel''
     (cancelRegisterPromise a)"
| "run_promise_op K (QueuedReleaseRegisterPromise a) = unit_branch ''capnp_lean_rpc_runtime_register_promise_release''
     (releaseRegisterPromise a)"
| "run_promise_op K (QueuedAwaitUnitPromise a) = unit_later_branch a ''capnp_lean_rpc_runtime_unit_promise_await''
     (takeUnitPromiseForAwait a)"
| "run_promise_op K (QueuedCancelUnitPromise a) = unit_branch ''capnp_lean_rpc_runtime_unit_promise_cancel''
     (cancelUnitPromise a)"
| "run_promise_op K (QueuedReleaseUnitPromise a) = unit_branch ''capnp_lean_rpc_runtime_unit_promise_release''
     (releaseUnitPromise a)"

fun run_async_op :: "rt_state kj \<Rightarrow> async_op \<Rightarrow> branch" where
  "run_async_op K (QueuedKjAsyncSleepNanosStart a) = kj_promise_branch ''capnp_lean_kj_async_runtime_sleep_nanos_start''
     (kjAsyncSleepNanosStart a)"
| "run_async_op K (QueuedKjAsyncPromiseAwait a) = unit_branch ''capnp_lean_kj_async_runtime_promise_await''
     (awaitKjAsyncPromise (await_unit K) a)"
| "run_async_op K (QueuedKjAsyncPromiseCancel a) = unit_branch ''capnp_lean_kj_async_runtime_promise_cancel''
     (cancelKjAsyncPromise a)"
| "run_async_op K (QueuedKjAsyncPromiseRelease a) = unit_branch ''capnp_lean_kj_async_runtime_promise_release''
     (releaseKjAsyncPromise a)"
| "run_async_op K (QueuedKjAsyncPromiseThenStart a b) = kj_promise_branch ''capnp_lean_kj_async_runtime_promise_then_start''
     (kjAsyncPromiseThenStart a b)"
| "run_async_op K (QueuedKjAsyncPromiseCatchStart a b) = kj_promise_branch ''capnp_lean_kj_async_runtime_promise_catch_start''
     (kjAsyncPromiseCatchStart a b)"
| "run_async_op K (QueuedKjAsyncPromiseAllStart a) = kj_promise_branch ''capnp_lean_kj_async_runtime_promise_all_start''
     (kjAsyncPromiseAllStart a)"
| "run_async_op K (QueuedKjAsyncPromiseRaceStart a) = kj_promise_branch ''capnp_lean_kj_async_runtime_promise_race_start''
     (kjAsyncPromiseRaceStart a)"

fun run_task_set_op :: "rt_state kj \<Rightarrow> task_set_op \<Rightarrow> branch" where
  "run_task_set_op K QueuedKjAsyncTaskSetNew = register_branch ''capnp_lean_kj_async_runtime_task_set_new''
     (kjAsyncTaskSetNew)"
| "run_task_set_op K (QueuedKjAsyncTaskSetRelease a) = unit_branch ''capnp_lean_kj_async_runtime_task_set_release''
     (kjAsyncTaskSetRelease a)"
| "run_task_set_op K (QueuedKjAsyncTaskSetAddPromise a b) = unit_branch ''capnp_lean_kj_async_runtime_task_set_add_promise''
     (kjAsyncTaskSetAddPromise a b)"
| "run_task_set_op K (QueuedKjAsyncTaskSetClear a) = unit_branch ''capnp_lean_kj_async_runtime_task_set_clear''
     (kjAsyncTaskSetClear a)"
| "run_task_set_op K (QueuedKjAsyncTaskSetIsEmpty a) = bool_branch ''capnp_lean_kj_async_runtime_task_set_is_empty''
     (kjAsyncTaskSetIsEmpty (kj_env K) a)"
| "run_task_set_op K (QueuedKjAsyncTaskSetOnEmptyStart a) = kj_promise_branch ''capnp_lean_kj_async_runtime_task_set_on_empty_start''
     (kjAsyncTaskSetOnEmptyStart (kj_env K) a)"
| "run_task_set_op K (QueuedKjAsyncTaskSetErrorCount a) = uint64_branch ''capnp_lean_kj_async_runtime_task_set_error_count''
     (bnd (kjAsyncTaskSetErrorCount a) (\<lambda>n. ret (ucast n)))"
| "run_task_set_op K (QueuedKjAsyncTaskSetTakeLastError a) = optional_string_branch ''capnp_lean_kj_async_runtime_task_set_take_last_error''
     (kjAsyncTaskSetTakeLastError a)"

fun run_peer_op :: "rt_state kj \<Rightarrow> peer_op \<Rightarrow> branch" where
  "run_peer_op K (QueuedMultiVatNewClient a) = register_branch ''capnp_lean_rpc_runtime_multivat_new_client''
     (newMultiVatClient (kj_env K) (kj_lib K) a)"
| "run_peer_op K (QueuedMultiVatNewServer a b) = register_branch ''capnp_lean_rpc_runtime_multivat_new_server''
     (newMultiVatServer (kj_env K) (kj_lib K) a b)"
| "run_peer_op K (QueuedMultiVatNewServerWithBootstrapFactory a b) = register_branch ''capnp_lean_rpc_runtime_multivat_new_server_with_bootstrap_factory''
     (afterwards (newMultiVatServerWithBootstrapFactory (kj_env K) (kj_lib K) a b) (lean_dec b))"
| "run_peer_op K (QueuedMultiVatReleasePeer a) = unit_branch ''capnp_lean_rpc_runtime_multivat_release_peer''
     (releaseMultiVatPeer (kj_lib K) a)"
| "run_peer_op K (QueuedMultiVatBootstrap a b c) = register_branch ''capnp_lean_rpc_runtime_multivat_bootstrap''
     (multiVatBootstrap (kj_env K) (kj_lib K) a \<lparr>host = b, unique = c\<rparr>)"
| "run_peer_op K (QueuedMultiVatBootstrapPeer a b c) = register_branch ''capnp_lean_rpc_runtime_multivat_bootstrap_peer''
     (multiVatBootstrapPeer (kj_env K) (kj_lib K) a b c)"

fun run_forwarding_op :: "rt_state kj \<Rightarrow> forwarding_op \<Rightarrow> branch" where
  "run_forwarding_op K (QueuedMultiVatSetForwardingEnabled a) = unit_branch ''capnp_lean_rpc_runtime_multivat_set_forwarding_enabled''
     (modify (multiVatSetForwardingEnabled a))"
| "run_forwarding_op K QueuedMultiVatResetForwardingStats = unit_branch ''capnp_lean_rpc_runtime_multivat_reset_forwarding_stats''
     (modify multiVatResetForwardingStats)"
| "run_forwarding_op K QueuedMultiVatForwardCount = uint64_branch ''capnp_lean_rpc_runtime_multivat_forward_count''
     (gets multiVatForwardCount)"
| "run_forwarding_op K QueuedMultiVatThirdPartyTokenCount = uint64_branch ''capnp_lean_rpc_runtime_multivat_third_party_token_count''
     (gets multiVatThirdPartyTokenCount)"
| "run_forwarding_op K QueuedMultiVatDeniedForwardCount = uint64_branch ''capnp_lean_rpc_runtime_multivat_denied_forward_count''
     (gets multiVatDeniedForwardCount)"
| "run_forwarding_op K (QueuedMultiVatHasConnection a b) = uint64_branch ''capnp_lean_rpc_runtime_multivat_has_connection''
     (bnd (multiVatHasConnection a b) (\<lambda>yes. ret (if yes then 1 else 0)))"
| "run_forwarding_op K (QueuedMultiVatSetRestorer a b) = unit_branch ''capnp_lean_rpc_runtime_multivat_set_restorer''
     (on_throw (multiVatSetRestorer a b) (lean_dec b))"
| "run_forwarding_op K (QueuedMultiVatClearRestorer a) = unit_branch ''capnp_lean_rpc_runtime_multivat_clear_restorer''
     (multiVatClearRestorer a)"

fun run_sturdy_op :: "rt_state kj \<Rightarrow> sturdy_op \<Rightarrow> branch" where
  "run_sturdy_op K (QueuedMultiVatPublishSturdyRef a b c) = unit_branch ''capnp_lean_rpc_runtime_multivat_publish_sturdy_ref''
     (multiVatPublishSturdyRef a b c)"
| "run_sturdy_op K (QueuedMultiVatPublishSturdyRefStart a b c) = register_branch ''capnp_lean_rpc_runtime_multivat_publish_sturdy_ref_start''
     (multiVatPublishSturdyRefStart a b c)"
| "run_sturdy_op K (QueuedMultiVatUnpublishSturdyRef a b) = unit_branch ''capnp_lean_rpc_runtime_multivat_unpublish_sturdy_ref''
     (multiVatUnpublishSturdyRef a b)"
| "run_sturdy_op K (QueuedMultiVatUnpublishSturdyRefStart a b) = register_branch ''capnp_lean_rpc_runtime_multivat_unpublish_sturdy_ref_start''
     (multiVatUnpublishSturdyRefStart a b)"
| "run_sturdy_op K (QueuedMultiVatClearPublishedSturdyRefs a) = unit_branch ''capnp_lean_rpc_runtime_multivat_clear_published_sturdy_refs''
     (multiVatClearPublishedSturdyRefs a)"
| "run_sturdy_op K (QueuedMultiVatClearPublishedSturdyRefsStart a) = register_branch ''capnp_lean_rpc_runtime_multivat_clear_published_sturdy_refs_start''
     (multiVatClearPublishedSturdyRefsStart a)"
| "run_sturdy_op K (QueuedMultiVatPublishedSturdyRefCount a) = uint64_branch ''capnp_lean_rpc_runtime_multivat_published_sturdy_ref_count''
     (multiVatPublishedSturdyRefCount a)"
| "run_sturdy_op K (QueuedMultiVatRestoreSturdyRef a b c d) = register_branch ''capnp_lean_rpc_runtime_multivat_restore_sturdy_ref''
     (multiVatRestoreSturdyRef (restore K) a \<lparr>host = b, unique = c\<rparr> d)"
| "run_sturdy_op K (QueuedMultiVatRestoreSturdyRefStart a b c d) = register_branch ''capnp_lean_rpc_runtime_multivat_restore_sturdy_ref_start''
     (multiVatRestoreSturdyRefStart a b c d)"
| "run_sturdy_op K (QueuedMultiVatGetDiagnostics a b) = diagnostics_branch ''capnp_lean_rpc_runtime_multivat_get_diagnostics''
     (afterwards (multiVatGetDiagnostics (kj_env K) (kj_lib K) a (vat_of K b)) (lean_dec b))"

fun run_link_op :: "rt_state kj \<Rightarrow> link_op \<Rightarrow> branch" where
  "run_link_op K (QueuedMultiVatConnectionBlock a b) = unit_branch ''multiVatConnectionBlock''
     (multiVatConnectionBlock a b)"
| "run_link_op K (QueuedMultiVatConnectionUnblock a b) = unit_branch ''multiVatConnectionUnblock''
     (multiVatConnectionUnblock a b)"
| "run_link_op K (QueuedMultiVatConnectionDisconnect a b c d e) = unit_branch ''multiVatConnectionDisconnect''
     (multiVatConnectionDisconnect a b c d e)"
| "run_link_op K (QueuedMultiVatConnectionResolveDisembargoCounts a b) = counts_branch ''multiVatConnectionResolveDisembargoCounts''
     (multiVatConnectionResolveDisembargoCounts a b)"
| "run_link_op K (QueuedMultiVatConnectionResolveDisembargoTrace a b) = byte_array_branch ''multiVatConnectionResolveDisembargoTrace''
     (multiVatConnectionResolveDisembargoTrace a b)"
| "run_link_op K (QueuedMultiVatConnectionResetResolveDisembargoTrace a b) = unit_branch ''multiVatConnectionResetResolveDisembargoTrace''
     (multiVatConnectionResetResolveDisembargoTrace a b)"

fun run_pump_op :: "rt_state kj \<Rightarrow> pump_op \<Rightarrow> branch" where
  "run_pump_op K QueuedPump = unit_branch ''capnp_lean_rpc_runtime_pump''
     (sq (poll K) (ret ()))"
| "run_pump_op K QueuedPumpAsync = async_branch ''capnp_lean_rpc_runtime_pump_async''
     (sq (poll K) (ret ()))"

fun run_operation :: "rt_state kj \<Rightarrow> queued_operation \<Rightarrow> branch" where
  "run_operation K (CallOp x) = run_call_op K x"
| "run_operation K (TargetOp x) = run_target_op K x"
| "run_operation K (RegisterOp x) = run_register_op K x"
| "run_operation K (OwnershipOp x) = run_ownership_op K x"
| "run_operation K (TransportOp x) = run_transport_op K x"
| "run_operation K (ClientOp x) = run_client_op K x"
| "run_operation K (MetricOp x) = run_metric_op K x"
| "run_operation K (ServerOp x) = run_server_op K x"
| "run_operation K (PromiseOp x) = run_promise_op K x"
| "run_operation K (AsyncOp x) = run_async_op K x"
| "run_operation K (TaskSetOp x) = run_task_set_op K x"
| "run_operation K (PeerOp x) = run_peer_op K x"
| "run_operation K (ForwardingOp x) = run_forwarding_op K x"
| "run_operation K (SturdyOp x) = run_sturdy_op K x"
| "run_operation K (LinkOp x) = run_link_op K x"
| "run_operation K (PumpOp x) = run_pump_op K x"

section \<open>Each operation answers the completion it was queued with\<close>

text \<open>
  The kind the run loop answers is the kind of the struct's completion, and what a body
  replies has that kind.
\<close>

definition well_kinded :: "branch \<Rightarrow> bool" where
  "well_kinded b \<longleftrightarrow> (\<forall>s r t. br_body b s = (Ret r, t) \<longrightarrow> reply_kind r = br_kind b)"

lemma well_kinded_answering [simp]:
  "(\<And>a. kind_of (mk a) = k) \<Longrightarrow> well_kinded (answering k mk name m)"
  by (auto simp: well_kinded_def answering_def elim!: bnd_RetE)

lemma well_kinded_later [simp]:
  "well_kinded (raw_later_branch name mp)"
  "well_kinded (register_later_branch i name m)"
  "well_kinded (unit_later_branch i name m)"
  by (auto simp: well_kinded_def raw_later_branch_def register_later_branch_def unit_later_branch_def
      elim!: bnd_RetE)

lemma br_kind_simps [simp]:
  "br_kind (answering k mk name m) = k"
  "br_kind (raw_later_branch name mp) = RawCallCompletion"
  "br_kind (register_later_branch i name mq) = RegisterTargetCompletion"
  "br_kind (unit_later_branch i name mq) = UnitCompletion"
  by (simp_all add: answering_def raw_later_branch_def register_later_branch_def unit_later_branch_def)

lemmas value_kind_simps = prod.case_eq_if option.case_eq_if

lemma run_call_op_kinds: "br_kind (run_call_op K x) = call_op_kind x \<and> well_kinded (run_call_op K x)"
  by (cases x) (simp_all add: value_kind_simps)

lemma run_target_op_kinds: "br_kind (run_target_op K x) = target_op_kind x \<and> well_kinded (run_target_op K x)"
  by (cases x) (simp_all add: value_kind_simps)

lemma run_register_op_kinds: "br_kind (run_register_op K x) = register_op_kind x \<and> well_kinded (run_register_op K x)"
  by (cases x) (simp_all add: value_kind_simps)

lemma run_ownership_op_kinds: "br_kind (run_ownership_op K x) = ownership_op_kind x \<and> well_kinded (run_ownership_op K x)"
  by (cases x) (simp_all add: value_kind_simps)

lemma run_transport_op_kinds: "br_kind (run_transport_op K x) = transport_op_kind x \<and> well_kinded (run_transport_op K x)"
  by (cases x) (simp_all add: value_kind_simps)

lemma run_client_op_kinds: "br_kind (run_client_op K x) = client_op_kind x \<and> well_kinded (run_client_op K x)"
  by (cases x) (simp_all add: value_kind_simps)

lemma run_metric_op_kinds: "br_kind (run_metric_op K x) = metric_op_kind x \<and> well_kinded (run_metric_op K x)"
  by (cases x) (simp_all add: value_kind_simps)

lemma run_server_op_kinds: "br_kind (run_server_op K x) = server_op_kind x \<and> well_kinded (run_server_op K x)"
  by (cases x) (simp_all add: value_kind_simps)

lemma run_promise_op_kinds: "br_kind (run_promise_op K x) = promise_op_kind x \<and> well_kinded (run_promise_op K x)"
  by (cases x) (simp_all add: value_kind_simps)

lemma run_async_op_kinds: "br_kind (run_async_op K x) = async_op_kind x \<and> well_kinded (run_async_op K x)"
  by (cases x) (simp_all add: value_kind_simps)

lemma run_task_set_op_kinds: "br_kind (run_task_set_op K x) = task_set_op_kind x \<and> well_kinded (run_task_set_op K x)"
  by (cases x) (simp_all add: value_kind_simps)

lemma run_peer_op_kinds: "br_kind (run_peer_op K x) = peer_op_kind x \<and> well_kinded (run_peer_op K x)"
  by (cases x) (simp_all add: value_kind_simps)

lemma run_forwarding_op_kinds: "br_kind (run_forwarding_op K x) = forwarding_op_kind x \<and> well_kinded (run_forwarding_op K x)"
  by (cases x) (simp_all add: value_kind_simps)

lemma run_sturdy_op_kinds: "br_kind (run_sturdy_op K x) = sturdy_op_kind x \<and> well_kinded (run_sturdy_op K x)"
  by (cases x) (simp_all add: value_kind_simps)

lemma run_link_op_kinds: "br_kind (run_link_op K x) = link_op_kind x \<and> well_kinded (run_link_op K x)"
  by (cases x) (simp_all add: value_kind_simps)

lemma run_pump_op_kinds: "br_kind (run_pump_op K x) = pump_op_kind x \<and> well_kinded (run_pump_op K x)"
  by (cases x) (simp_all add: value_kind_simps)

lemma run_operation_kind [simp]: "br_kind (run_operation K op) = op_kind op"
  by (cases op) (simp_all add: run_call_op_kinds run_target_op_kinds run_register_op_kinds run_ownership_op_kinds run_transport_op_kinds run_client_op_kinds
    run_metric_op_kinds run_server_op_kinds run_promise_op_kinds run_async_op_kinds run_task_set_op_kinds run_peer_op_kinds
    run_forwarding_op_kinds run_sturdy_op_kinds run_link_op_kinds run_pump_op_kinds)

lemma run_operation_replies: "br_body (run_operation K op) s = (Ret r, t) \<Longrightarrow> reply_kind r = op_kind op"
proof -
  have "well_kinded (run_operation K op)"
    by (cases op) (simp_all add: run_call_op_kinds run_target_op_kinds run_register_op_kinds run_ownership_op_kinds run_transport_op_kinds run_client_op_kinds
      run_metric_op_kinds run_server_op_kinds run_promise_op_kinds run_async_op_kinds run_task_set_op_kinds run_peer_op_kinds
      run_forwarding_op_kinds run_sturdy_op_kinds run_link_op_kinds run_pump_op_kinds)
  then show "br_body (run_operation K op) s = (Ret r, t) \<Longrightarrow> reply_kind r = op_kind op"
    by (auto simp: well_kinded_def)
qed

end
