(* ===== verification/Run_Loop.thy ===== *)
theory Run_Loop
  imports Dispatch
begin

text \<open>
  \<^verbatim>\<open>RuntimeLoop::run\<close>: the loop of the runtime's thread around the operations of
  \<^verbatim>\<open>Dispatch.thy\<close>, its task set, the end of the thread, and
  \<^verbatim>\<open>failPendingCalls\<close>. Other threads put operations into the queue between its turns;
  what they do while an operation runs touches only the queue, and so commutes with it.
\<close>

section \<open>State\<close>

text \<open>
  The thread runs, waits inside an operation for something that does not happen, has left
  the loop, was thrown out of the loop, or has ended the process.
\<close>

datatype phase = Running | Blocked | Exited | Aborted | Terminated

text \<open>\<open>current\<close> is the completion of the operation the thread is busy with. The tasks are
  named by their completions.\<close>

record loop_state = queue_state +
  rt :: rt_state
  tasks :: "(nat \<times> task) list"
  current :: "nat option"
  phase :: phase

definition answer :: "nat \<Rightarrow> (completion \<Rightarrow> completion) \<Rightarrow> 'z queue_state_scheme \<Rightarrow> 'z queue_state_scheme" where
  "answer h f s = s\<lparr>completions := (completions s)[h := f (completions s ! h)]\<rparr>"

section \<open>Tasks\<close>

definition end_task :: "nat \<Rightarrow> (completion \<Rightarrow> completion) \<Rightarrow> loop_state \<Rightarrow> loop_state" where
  "end_task h f s = answer h f (s\<lparr>tasks := filter (\<lambda>t. fst t \<noteq> h) (tasks s)\<rparr>)"

text \<open>The continuations the tasks were added with.\<close>

definition raw_done :: "kj_exception + bytes \<times> bytes \<Rightarrow> completion \<Rightarrow> completion" where
  "raw_done r = (case r of Inl e \<Rightarrow> completeFailureKj e | Inr (w, caps) \<Rightarrow> completeSuccess w caps)"

definition register_done :: "kj_exception + u32 \<Rightarrow> completion \<Rightarrow> completion" where
  "register_done r = (case r of
     Inl e \<Rightarrow> completeRegisterFailure (describeKjException e) | Inr t \<Rightarrow> completeRegisterSuccess t)"

definition unit_done :: "kj_exception + unit \<Rightarrow> completion \<Rightarrow> completion" where
  "unit_done r = (case r of
     Inl e \<Rightarrow> completeUnitFailure (describeKjException e) | Inr _ \<Rightarrow> completeUnitSuccess)"

fun settle :: "settlement \<Rightarrow> loop_state \<Rightarrow> loop_state" where
  "settle (RawSettled h r) s = (case map_of (tasks s) h of
     Some (RawTask p) \<Rightarrow> end_task h (raw_done r) s
   | _ \<Rightarrow> s)"
| "settle (RegisterSettled h r) s = (case map_of (tasks s) h of
     Some (RegisterTask i p) \<Rightarrow> end_task h (register_done r)
       (s\<lparr>rt := (rt s)\<lparr>activeRegisterPromiseCancelers := (activeRegisterPromiseCancelers (rt s))(i := None)\<rparr>\<rparr>)
   | _ \<Rightarrow> s)"
| "settle (UnitSettled h r) s = (case map_of (tasks s) h of
     Some (UnitTask i p) \<Rightarrow> end_task h (unit_done r)
       (s\<lparr>rt := (rt s)\<lparr>activeUnitPromiseCancelers := (activeUnitPromiseCancelers (rt s))(i := None)\<rparr>\<rparr>)
   | _ \<Rightarrow> s)"

definition absorb :: "loop_state \<Rightarrow> loop_state" where
  "absorb s = fold settle (settlements (rt s)) (s\<lparr>rt := (rt s)\<lparr>settlements := []\<rparr>\<rparr>)"

text \<open>Code of the thread that may run the event loop; the tasks that ended meanwhile are
  taken off when it returns.\<close>

definition on_thread :: "(rt_state \<Rightarrow> (exn, 'a) outcome \<times> rt_state) \<Rightarrow> loop_state
    \<Rightarrow> (exn, 'a) outcome \<times> loop_state" where
  "on_thread m s =
     (let (r, t) = m ((rt s)\<lparr>waiting := tasks s\<rparr>) in (r, absorb (s\<lparr>rt := t\<rparr>)))"

section \<open>One operation\<close>

definition answer_operation :: "branch \<Rightarrow> nat \<Rightarrow> (exn, reply) outcome \<Rightarrow> loop_state
    \<Rightarrow> (exn, unit) outcome \<times> loop_state" where
  "answer_operation b h r s = (case r of
      Ret (Answer v) \<Rightarrow> (Ret (), answer h (complete_ok v) (s\<lparr>current := None\<rparr>))
    | Ret (Schedule t) \<Rightarrow> (Ret (), s\<lparr>current := None, tasks := tasks s @ [(h, t)]\<rparr>)
    | Throw e \<Rightarrow> (Ret (), answer h (complete_caught (br_kind b) (br_unknown b) e) (s\<lparr>current := None\<rparr>))
    | Hang \<Rightarrow> (Hang, s))"

definition process :: "rt_state kj \<Rightarrow> queued_operation \<Rightarrow> nat \<Rightarrow> loop_state
    \<Rightarrow> (exn, unit) outcome \<times> loop_state" where
  "process K op h s =
     (let b = run_operation K op; (r, s') = on_thread (br_body b) s in answer_operation b h r s')"

section \<open>Failing what is queued\<close>

text \<open>The two alternatives \<^verbatim>\<open>failPendingCalls\<close> has no arm for.\<close>

fun unhandled :: "queued_operation \<Rightarrow> bool" where
  "unhandled (LinkOp (QueuedMultiVatConnectionResolveDisembargoTrace _ _)) = True"
| "unhandled (LinkOp (QueuedMultiVatConnectionResetResolveDisembargoTrace _ _)) = True"
| "unhandled _ = False"

definition fail_assert :: exn where
  "fail_assert = KjEx (mk_exception FAILED ''unhandled runtime queued operation in failPendingCalls'' [])"

definition drop_held :: "queued_operation \<Rightarrow> 'z queue_state_scheme \<Rightarrow> 'z queue_state_scheme" where
  "drop_held op s = (case held_object op of None \<Rightarrow> s
     | Some x \<Rightarrow> s\<lparr>leanRefs := leanRefs s @ [LeanDec x]\<rparr>)"

fun fail_each :: "string \<Rightarrow> (queued_operation \<times> nat) list
    \<Rightarrow> 'z queue_state_scheme \<Rightarrow> (exn, unit) outcome \<times> 'z queue_state_scheme" where
  "fail_each message [] s = (Ret (), s)"
| "fail_each message ((op, h) # pending) s =
     (if unhandled op then (Throw fail_assert, s)
      else fail_each message pending (answer h (complete_error (op_kind op) message) (drop_held op s)))"

definition failPendingCalls :: "string \<Rightarrow> 'z queue_state_scheme
    \<Rightarrow> (exn, unit) outcome \<times> 'z queue_state_scheme" where
  "failPendingCalls message s = fail_each message (queue s) (s\<lparr>queue := []\<rparr>)"

section \<open>The end of the thread\<close>

definition drop_peer :: "rt_state kj \<Rightarrow> u32 \<Rightarrow> rt_state \<Rightarrow> rt_state" where
  "drop_peer K i s = (case multiVatPeers s i of None \<Rightarrow> s
     | Some peer \<Rightarrow>
         let s1 = s\<lparr>log := log s @ drop_restorer peer\<rparr>; c = ReleaseGenericRpcSystem (mv_rpcSystem peer)
         in s1\<lparr>log := log s1 @ [c], genericVatNetwork := kj_lib K (log s1) c (genericVatNetwork s1)\<rparr>)"

definition drop_servers :: "rt_state kj \<Rightarrow> rt_state \<Rightarrow> ext_call list" where
  "drop_servers K s = concat (map (\<lambda>i. case servers s i of None \<Rightarrow> [] | Some v \<Rightarrow> drop_server v)
     (table_order K (dom (servers s))))"

text \<open>The tables are cleared in this order; destroying the objects of KJ and of the RPC
  library has no effect the model sees, but for the peers' RPC systems.\<close>

definition teardown :: "rt_state kj \<Rightarrow> rt_state \<Rightarrow> rt_state" where
  "teardown K s =
     (let s1 = s\<lparr>targets := Map.empty, listeners := Map.empty, loopbackPeers := Map.empty,
            networkClientPeers := Map.empty, transports := Map.empty,
            loopbackPeerOwnerByTarget := Map.empty, loopbackPeerOwnerRefCount := Map.empty,
            networkPeerOwnerByTarget := Map.empty, networkPeerOwnerRefCount := Map.empty,
            networkServerPeers := [], pendingCalls := Map.empty, activeCancelableDeferredTasks := [],
            registerPromises := Map.empty, unitPromises := Map.empty, kjAsyncPromises := Map.empty,
            retiredKjAsyncPromises := {}, kjAsyncTaskSets := Map.empty,
            promiseCapabilityFulfillers := Map.empty, heldPromiseCapabilityResolves := [],
            heldPromiseCapabilityFulfillerIds := {}, holdPromiseCapabilityResolves := False,
            clients := Map.empty\<rparr>;
          s2 = s1\<lparr>servers := Map.empty, log := log s1 @ drop_servers K s1,
            sturdyRefs := Map.empty, multiVatPeerIdsByName := Map.empty\<rparr>;
          s3 = (fold (drop_peer K) (table_order K (dom (multiVatPeers s2))) s2)\<lparr>multiVatPeers := Map.empty\<rparr>;
          s4 = s3\<lparr>genericBootstrapFactories := [], log := log s3 @ map LeanDec (genericBootstrapFactories s3)\<rparr>
      in (snd (clearTraceEncoderHandler s4))\<lparr>traceEncoderEnabled := False\<rparr>)"

text \<open>
  The handlers around the loop. By then the task set is gone with its tasks. An exception
  out of a handler ends the process.
\<close>

definition abort_text :: "exn \<Rightarrow> string" where
  "abort_text e = (case e of KjEx x \<Rightarrow> describeKjException x | StdEx what \<Rightarrow> what
     | OtherEx \<Rightarrow> ''unknown exception while starting Capnp.Rpc runtime'')"

definition abort :: "exn \<Rightarrow> loop_state \<Rightarrow> loop_state" where
  "abort e s = (case failPendingCalls (abort_text e) (s\<lparr>tasks := [], current := None\<rparr>) of
      (Ret _, s') \<Rightarrow> s'\<lparr>phase := Aborted\<rparr>
    | (_, s') \<Rightarrow> s'\<lparr>phase := Terminated\<rparr>)"

definition finish :: "rt_state kj \<Rightarrow> loop_state \<Rightarrow> loop_state" where
  "finish K s =
     (case failPendingCalls ''Capnp.Rpc runtime shut down'' (s\<lparr>rt := teardown K (rt s)\<rparr>) of
        (Ret _, s') \<Rightarrow> s'\<lparr>phase := Exited\<rparr>
      | (Throw e, s') \<Rightarrow> abort e s'
      | (Hang, s') \<Rightarrow> s'\<lparr>phase := Blocked\<rparr>)"

section \<open>The loop\<close>

text \<open>With nothing queued: one poll, and if that found nothing to do, a timer of 1 ms.\<close>

definition idle :: "rt_state kj \<Rightarrow> rt_state \<Rightarrow> (exn, unit) outcome \<times> rt_state" where
  "idle K = bnd (poll K) (\<lambda>n. if n > 0 then ret () else await_unit K (AfterDelay 1000000))"

definition loop_turn :: "rt_state kj \<Rightarrow> loop_state \<Rightarrow> (exn, unit) outcome \<times> loop_state" where
  "loop_turn K s = (case queue s of
      [] \<Rightarrow> on_thread (idle K) s
    | (op, h) # q \<Rightarrow> bnd (process K op h) (\<lambda>_. on_thread (sq (poll K) (ret ())))
        (s\<lparr>queue := q, current := Some h\<rparr>))"

definition worker :: "rt_state kj \<Rightarrow> loop_state \<Rightarrow> loop_state" where
  "worker K s =
     (if phase s \<noteq> Running then s
      else if queue s = [] \<and> stopping s \<and> tasks s = [] then finish K s
      else case loop_turn K s of
             (Ret _, s') \<Rightarrow> s'
           | (Throw e, s') \<Rightarrow> abort e s'
           | (Hang, s') \<Rightarrow> s'\<lparr>phase := Blocked\<rparr>)"

text \<open>A run: other threads ask for operations or for the end, and the thread takes turns.\<close>

datatype event = Issue obj queued_operation | Shutdown | Worker

fun step :: "rt_state kj \<Rightarrow> event \<Rightarrow> loop_state \<Rightarrow> loop_state" where
  "step K (Issue promise op) s = snd (issue promise op s)"
| "step K Shutdown s = shutdown s"
| "step K Worker s = worker K s"

definition run_events :: "rt_state kj \<Rightarrow> event list \<Rightarrow> loop_state \<Rightarrow> loop_state" where
  "run_events K es s = fold (step K) es s"

definition loop_init :: "rt_state \<Rightarrow> loop_state" where
  "loop_init r = \<lparr>queue = [], stopping = False, completions = [], leanRefs = [],
     rt = r, tasks = [], current = None, phase = Running\<rparr>"

end
