(* ===== verification/Service.thy ===== *)
theory Service
  imports Rt_Prelude
begin

text \<open>
  What both runtimes promise to the threads that ask them for operations: an abstract
  service that takes requests in order and answers each one at most once. Their run loops
  are shown to refine it in \<^verbatim>\<open>Run_Loop_Facts.thy\<close> and
  \<^verbatim>\<open>Kj_Loop_Facts.thy\<close>.
\<close>

section \<open>The abstract service\<close>

text \<open>
  Requests are numbered as they are issued. A request waits in the backlog, is active, has
  been answered, or was lost.
\<close>

record service =
  issued :: nat
  closed :: bool
  backlog :: "nat list"
  active :: "nat set"
  answered :: "nat set"
  lost :: "nat set"

inductive serve :: "service \<Rightarrow> service \<Rightarrow> bool" where
  serve_issue: "\<not> closed v \<Longrightarrow>
     serve v (v\<lparr>issued := Suc (issued v), backlog := backlog v @ [issued v]\<rparr>)"
| serve_refuse: "closed v \<Longrightarrow>
     serve v (v\<lparr>issued := Suc (issued v), answered := insert (issued v) (answered v)\<rparr>)"
| serve_close: "serve v (v\<lparr>closed := True\<rparr>)"
| serve_start: "backlog v = h # q \<Longrightarrow> serve v (v\<lparr>backlog := q, active := insert h (active v)\<rparr>)"
| serve_answer: "h \<in> active v \<Longrightarrow>
     serve v (v\<lparr>active := active v - {h}, answered := insert h (answered v)\<rparr>)"
| serve_lose: "h \<in> active v \<Longrightarrow>
     serve v (v\<lparr>active := active v - {h}, lost := insert h (lost v)\<rparr>)"

definition service_init :: service where
  "service_init = \<lparr>issued = 0, closed = False, backlog = [], active = {}, answered = {}, lost = {}\<rparr>"

text \<open>Each request is in one place, and the backlog is an interval of the numbers.\<close>

definition at_marks :: "nat \<Rightarrow> nat \<Rightarrow> service \<Rightarrow> bool" where
  "at_marks k m v \<longleftrightarrow> k \<le> m \<and> m \<le> issued v \<and> (\<not> closed v \<longrightarrow> m = issued v) \<and> backlog v = [k..<m] \<and>
     active v \<union> answered v \<union> lost v = {0..<k} \<union> {m..<issued v} \<and>
     active v \<union> lost v \<subseteq> {0..<k} \<and>
     active v \<inter> answered v = {} \<and> active v \<inter> lost v = {} \<and> answered v \<inter> lost v = {}"

definition service_inv :: "service \<Rightarrow> bool" where
  "service_inv v \<longleftrightarrow> (\<exists>k m. at_marks k m v)"

lemma service_init_inv: "service_inv service_init"
  by (simp add: service_inv_def at_marks_def service_init_def)

lemma upt_eq_Cons: "[k..<m] = h # q \<Longrightarrow> h = k \<and> k < m \<and> q = [Suc k..<m]"
  by (metis list.distinct(1) list.sel(1) list.sel(3) upt_rec)

lemma mark_issue:
  "at_marks k m v \<Longrightarrow> \<not> closed v \<Longrightarrow>
   at_marks k (Suc m) (v\<lparr>issued := Suc (issued v), backlog := backlog v @ [issued v]\<rparr>)"
  unfolding at_marks_def by simp

lemma mark_refuse:
  assumes "at_marks k m v" and "closed v"
  shows "at_marks k m (v\<lparr>issued := Suc (issued v), answered := insert (issued v) (answered v)\<rparr>)"
proof -
  have "active v \<subseteq> {0..<k}" "lost v \<subseteq> {0..<k}" "k \<le> issued v"
    using assms unfolding at_marks_def by auto
  then have "issued v \<notin> active v" "issued v \<notin> lost v"
    by auto
  moreover have "{m..<Suc (issued v)} = insert (issued v) {m..<issued v}"
    using assms unfolding at_marks_def by auto
  ultimately show ?thesis
    using assms unfolding at_marks_def by simp
qed

lemma mark_move:
  assumes "at_marks k m v"
    and "A' \<union> B' \<union> C' = active v \<union> answered v \<union> lost v" and "A' \<union> C' \<subseteq> active v \<union> lost v"
    and "A' \<inter> B' = {}" and "A' \<inter> C' = {}" and "B' \<inter> C' = {}"
  shows "at_marks k m (v\<lparr>active := A', answered := B', lost := C'\<rparr>)"
proof -
  have "A' \<union> C' \<subseteq> {0..<k}"
    using assms(1,3) unfolding at_marks_def by blast
  then show ?thesis
    using assms unfolding at_marks_def by simp
qed

lemma mark_start:
  assumes "at_marks k m v" and "backlog v = h # q"
  shows "at_marks (Suc k) m (v\<lparr>backlog := q, active := insert h (active v)\<rparr>)"
proof -
  have "[k..<m] = h # q"
    using assms unfolding at_marks_def by simp
  then have h: "h = k" "k < m" "q = [Suc k..<m]"
    using upt_eq_Cons by blast+
  have sub: "active v \<union> lost v \<subseteq> {0..<k}"
    and all: "active v \<union> answered v \<union> lost v = {0..<k} \<union> {m..<issued v}"
    using assms(1) unfolding at_marks_def by blast+
  have "k \<notin> active v \<union> answered v \<union> lost v"
    unfolding all using h(2) by simp
  then have "insert k (active v) \<inter> answered v = {}" "insert k (active v) \<inter> lost v = {}"
    using assms(1) unfolding at_marks_def by blast+
  moreover have "insert k (active v) \<union> lost v \<subseteq> {0..<Suc k}"
    using sub by (auto simp: less_Suc_eq)
  moreover have "{0..<Suc k} = insert k {0..<k}"
    by auto
  then have "insert k (active v) \<union> answered v \<union> lost v = {0..<Suc k} \<union> {m..<issued v}"
    using all by blast
  ultimately show ?thesis
    using assms(1) h unfolding at_marks_def by (simp add: Suc_leI)
qed

lemma mark_answer:
  assumes "at_marks k m v" and "h \<in> active v"
  shows "at_marks k m (v\<lparr>active := active v - {h}, answered := insert h (answered v)\<rparr>)"
proof -
  have "active v \<inter> answered v = {}" "active v \<inter> lost v = {}" "answered v \<inter> lost v = {}"
    using assms(1) unfolding at_marks_def by blast+
  then have "at_marks k m (v\<lparr>active := active v - {h}, answered := insert h (answered v), lost := lost v\<rparr>)"
    using assms(2) by (intro mark_move[OF assms(1)]) blast+
  then show ?thesis by simp
qed

lemma mark_lose:
  assumes "at_marks k m v" and "h \<in> active v"
  shows "at_marks k m (v\<lparr>active := active v - {h}, lost := insert h (lost v)\<rparr>)"
proof -
  have "active v \<inter> answered v = {}" "active v \<inter> lost v = {}" "answered v \<inter> lost v = {}"
    using assms(1) unfolding at_marks_def by blast+
  then have "at_marks k m (v\<lparr>active := active v - {h}, answered := answered v, lost := insert h (lost v)\<rparr>)"
    using assms(2) by (intro mark_move[OF assms(1)]) blast+
  then show ?thesis by simp
qed

lemma serve_inv: "serve v w \<Longrightarrow> service_inv v \<Longrightarrow> service_inv w"
proof (induction rule: serve.induct)
  case (serve_close v)
  then show ?case
    unfolding service_inv_def at_marks_def by simp blast
qed (auto simp: service_inv_def intro: mark_issue mark_refuse mark_start mark_answer mark_lose)

lemma serve_star_inv: "serve\<^sup>*\<^sup>* v w \<Longrightarrow> service_inv v \<Longrightarrow> service_inv w"
  by (induction rule: rtranclp_induct) (auto intro: serve_inv)

lemma lose_active:
  "set hs \<subseteq> active v \<Longrightarrow> distinct hs \<Longrightarrow>
   serve\<^sup>*\<^sup>* v (v\<lparr>active := active v - set hs, lost := lost v \<union> set hs\<rparr>)"
proof (induction hs arbitrary: v)
  case Nil
  then show ?case by simp
next
  case (Cons h hs)
  let ?w = "v\<lparr>active := active v - {h}, lost := insert h (lost v)\<rparr>"
  have "serve v ?w"
    using Cons.prems by (intro serve_lose) auto
  moreover have "serve\<^sup>*\<^sup>* ?w (?w\<lparr>active := active ?w - set hs, lost := lost ?w \<union> set hs\<rparr>)"
    using Cons.prems by (intro Cons.IH) auto
  moreover have "active v - {h} - set hs = active v - set (h # hs)"
    "insert h (lost v) \<union> set hs = lost v \<union> set (h # hs)"
    by auto
  ultimately show ?case
    by (simp add: converse_rtranclp_into_rtranclp)
qed

lemma lose_backlog:
  "distinct (backlog v) \<Longrightarrow> set (backlog v) \<inter> active v = {} \<Longrightarrow>
   serve\<^sup>*\<^sup>* v (v\<lparr>backlog := [], lost := lost v \<union> set (backlog v)\<rparr>)"
proof (induction "backlog v" arbitrary: v)
  case Nil
  then have "v\<lparr>backlog := [], lost := lost v \<union> set (backlog v)\<rparr> = v"
    by simp
  then show ?case by simp
next
  case (Cons h q)
  let ?u = "v\<lparr>backlog := q, active := insert h (active v)\<rparr>"
  let ?w = "v\<lparr>backlog := q, lost := insert h (lost v)\<rparr>"
  have q: "backlog v = h # q"
    using Cons.hyps(2) by simp
  have "serve v ?u"
    using q by (rule serve_start)
  moreover have "serve ?u (?u\<lparr>active := active ?u - {h}, lost := insert h (lost ?u)\<rparr>)"
    by (intro serve_lose) simp
  moreover have "?u\<lparr>active := active ?u - {h}, lost := insert h (lost ?u)\<rparr> = ?w"
    using Cons.prems q by auto
  moreover have "serve\<^sup>*\<^sup>* ?w (?w\<lparr>backlog := [], lost := lost ?w \<union> set (backlog ?w)\<rparr>)"
    using Cons.prems q by (intro Cons.hyps(1)) auto
  moreover have "insert h (lost v) \<union> set q = lost v \<union> set (h # q)"
    by auto
  ultimately show ?case
    using q by (simp add: converse_rtranclp_into_rtranclp)
qed

end
