(* ===== verification/Run_Loop_Facts.thy ===== *)
theory Run_Loop_Facts
  imports Run_Loop Multi_Vat_Facts Service
begin

text \<open>
  The run loop against the abstract service of \<^verbatim>\<open>Service.thy\<close>; completions keep
  their kind and their answer; the thread ends after it was told to.
\<close>

section \<open>The loop as such a service\<close>

text \<open>The completions the thread is working on: of the operation at hand, and of the tasks.\<close>

definition held_by :: "loop_state \<Rightarrow> nat list" where
  "held_by s = (case current s of None \<Rightarrow> [] | Some h \<Rightarrow> [h]) @ map fst (tasks s)"

definition undone :: "loop_state \<Rightarrow> nat set" where
  "undone s = {h. h < length (completions s) \<and> \<not> is_done (completions s ! h)}"

definition kind_at :: "loop_state \<Rightarrow> nat \<Rightarrow> completion_kind" where
  "kind_at s h = kind_of (payload (completions s ! h))"

definition view :: "loop_state \<Rightarrow> service" where
  "view s = \<lparr>issued = length (completions s), closed = stopping s, backlog = map snd (queue s),
     active = set (held_by s),
     answered = {h. h < length (completions s) \<and> is_done (completions s ! h)},
     lost = undone s - set (map snd (queue s)) - set (held_by s)\<rparr>"

text \<open>Every waiting completion has one owner, whose kind is its own.\<close>

definition loop_inv :: "loop_state \<Rightarrow> bool" where
  "loop_inv s \<longleftrightarrow> distinct (map snd (queue s) @ held_by s) \<and>
     set (map snd (queue s) @ held_by s) \<subseteq> undone s \<and>
     (\<forall>(op, h) \<in> set (queue s). kind_at s h = op_kind op) \<and>
     (\<forall>(h, t) \<in> set (tasks s). kind_at s h = task_kind t)"

definition keeps_answers :: "loop_state \<Rightarrow> loop_state \<Rightarrow> bool" where
  "keeps_answers s s' \<longleftrightarrow> length (completions s) \<le> length (completions s') \<and>
     (\<forall>h < length (completions s). kind_at s' h = kind_at s h \<and>
        (is_done (completions s ! h) \<longrightarrow> completions s' ! h = completions s ! h))"

definition evolves :: "loop_state \<Rightarrow> loop_state \<Rightarrow> bool" where
  "evolves s s' \<longleftrightarrow> serve\<^sup>*\<^sup>* (view s) (view s') \<and> keeps_answers s s'"

lemma keeps_answers_trans: "keeps_answers s t \<Longrightarrow> keeps_answers t u \<Longrightarrow> keeps_answers s u"
  by (auto simp: keeps_answers_def)

lemma evolves_refl [simp, intro]: "evolves s s"
  by (simp add: evolves_def keeps_answers_def)

lemma evolves_trans: "evolves s t \<Longrightarrow> evolves t u \<Longrightarrow> evolves s u"
  by (auto simp: evolves_def intro: keeps_answers_trans)

text \<open>The observations do not read the runtime's tables, nor the phase.\<close>

lemma view_rt [simp]: "view (s\<lparr>rt := r\<rparr>) = view s" "view (s\<lparr>phase := p\<rparr>) = view s"
  "view (s\<lparr>leanRefs := l\<rparr>) = view s"
  by (simp_all add: view_def held_by_def undone_def)

lemma kind_at_simps [simp]: "kind_at (s\<lparr>rt := r\<rparr>) h = kind_at s h" "kind_at (s\<lparr>phase := p\<rparr>) h = kind_at s h"
  "kind_at (s\<lparr>leanRefs := l\<rparr>) h = kind_at s h" "kind_at (s\<lparr>queue := q\<rparr>) h = kind_at s h"
  "kind_at (s\<lparr>current := c\<rparr>) h = kind_at s h" "kind_at (s\<lparr>tasks := ts\<rparr>) h = kind_at s h"
  by (simp_all add: kind_at_def)

lemma held_by_simps [simp]: "held_by (s\<lparr>rt := r\<rparr>) = held_by s" "held_by (s\<lparr>phase := p\<rparr>) = held_by s"
  "held_by (s\<lparr>leanRefs := l\<rparr>) = held_by s" "held_by (s\<lparr>queue := q\<rparr>) = held_by s"
  "held_by (s\<lparr>completions := cs\<rparr>) = held_by s"
  by (simp_all add: held_by_def)

lemma undone_simps [simp]: "undone (s\<lparr>rt := r\<rparr>) = undone s" "undone (s\<lparr>phase := p\<rparr>) = undone s"
  "undone (s\<lparr>leanRefs := l\<rparr>) = undone s" "undone (s\<lparr>queue := q\<rparr>) = undone s"
  "undone (s\<lparr>current := c\<rparr>) = undone s" "undone (s\<lparr>tasks := ts\<rparr>) = undone s"
  by (simp_all add: undone_def)

lemma loop_inv_simps [simp]: "loop_inv (s\<lparr>rt := r\<rparr>) = loop_inv s" "loop_inv (s\<lparr>phase := p\<rparr>) = loop_inv s"
  "loop_inv (s\<lparr>leanRefs := l\<rparr>) = loop_inv s"
  by (simp_all add: loop_inv_def)

lemma evolves_rt: "view s' = view s \<Longrightarrow> completions s' = completions s \<Longrightarrow> evolves s s'"
  by (simp add: evolves_def keeps_answers_def kind_at_def)

subsection \<open>Answering\<close>

lemma answer_held:
  assumes inv: "loop_inv s" and h: "h \<in> set (held_by s)"
    and eqs: "completions s' = (completions s)[h := c]" "queue s' = queue s" "stopping s' = stopping s"
      "held_by s' = filter (\<lambda>x. x \<noteq> h) (held_by s)" "set (tasks s') \<subseteq> set (tasks s)"
    and c: "is_done c" "kind_of (payload c) = kind_at s h"
  shows "loop_inv s'" and "evolves s s'" and "lost (view s') = lost (view s)"
proof -
  have hu: "h < length (completions s)" "\<not> is_done (completions s ! h)" "h \<notin> set (map snd (queue s))"
    using inv h unfolding loop_inv_def undone_def by auto
  have und: "undone s' = undone s - {h}"
    using hu c by (auto simp: undone_def eqs nth_list_update)
  have ans: "{x. x < length (completions s') \<and> is_done (completions s' ! x)} =
      insert h {x. x < length (completions s) \<and> is_done (completions s ! x)}"
    using hu c by (auto simp: eqs nth_list_update)
  have kinds: "kind_at s' x = kind_at s x" for x
    using hu c by (cases "x = h") (simp_all add: kind_at_def eqs)
  have held: "set (held_by s') = set (held_by s) - {h}"
    by (auto simp: eqs)
  show "loop_inv s'"
    using inv hu eqs(5) unfolding loop_inv_def und kinds by (auto simp: eqs(2-4))
  show lost: "lost (view s') = lost (view s)"
    using h by (auto simp: view_def und held eqs)
  have "view s' = (view s)\<lparr>active := active (view s) - {h}, answered := insert h (answered (view s))\<rparr>"
    using lost by (simp add: view_def held ans) (simp add: eqs)
  moreover have "h \<in> active (view s)"
    using h by (simp add: view_def)
  ultimately have "serve (view s) (view s')"
    using serve_answer[of h "view s"] by (simp only:)
  moreover have "keeps_answers s s'"
    using hu by (auto simp: keeps_answers_def kinds eqs nth_list_update)
  ultimately show "evolves s s'"
    by (simp add: evolves_def)
qed

subsection \<open>Settling tasks\<close>

text \<open>What the event loop may do to a loop state: a good state stays good, nothing is lost,
  and the queue, the operation at hand and the phase are as before.\<close>

definition calm :: "loop_state \<Rightarrow> loop_state \<Rightarrow> bool" where
  "calm s s' \<longleftrightarrow> queue s' = queue s \<and> stopping s' = stopping s \<and> current s' = current s \<and> phase s' = phase s \<and>
     (loop_inv s \<longrightarrow> loop_inv s' \<and> evolves s s' \<and> lost (view s') = lost (view s))"

lemma calm_refl [simp]: "calm s s"
  by (simp add: calm_def)

lemma calm_trans: "calm s t \<Longrightarrow> calm t u \<Longrightarrow> calm s u"
  by (auto simp: calm_def intro: evolves_trans)

lemma calm_rt [simp]: "calm s (s\<lparr>rt := r\<rparr>)"
  by (simp add: calm_def evolves_rt)

lemma calm_end_task:
  assumes "map_of (tasks s) h = Some t" and "\<And>c. is_done (f c)"
    and "\<And>c. kind_of (payload c) = task_kind t \<Longrightarrow> kind_of (payload (f c)) = task_kind t"
  shows "calm s (end_task h f (s\<lparr>rt := r\<rparr>))"
proof -
  let ?s' = "end_task h f (s\<lparr>rt := r\<rparr>)"
  have ht: "(h, t) \<in> set (tasks s)"
    using assms(1) by (rule map_of_SomeD)
  have eqs: "completions ?s' = (completions s)[h := f (completions s ! h)]" "queue ?s' = queue s"
    "stopping ?s' = stopping s" "set (tasks ?s') \<subseteq> set (tasks s)" "current ?s' = current s" "phase ?s' = phase s"
    "tasks ?s' = filter (\<lambda>t. fst t \<noteq> h) (tasks s)"
    by (auto simp: end_task_def answer_def)
  {
    assume inv: "loop_inv s"
    have "h \<in> fst ` set (tasks s)"
      using ht by force
    then have "current s \<noteq> Some h"
      using inv unfolding loop_inv_def held_by_def by (auto split: option.splits)
    then have held: "held_by ?s' = filter (\<lambda>x. x \<noteq> h) (held_by s)"
      by (auto simp: held_by_def eqs filter_map comp_def split: option.splits)
    have "h \<in> set (held_by s)"
      using ht by (force simp: held_by_def)
    moreover have "kind_at s h = task_kind t"
      using inv ht unfolding loop_inv_def by auto
    then have "kind_of (payload (f (completions s ! h))) = kind_at s h"
      using assms(3)[of "completions s ! h"] by (simp add: kind_at_def)
    ultimately have "loop_inv ?s' \<and> evolves s ?s' \<and> lost (view ?s') = lost (view s)"
      using answer_held[OF inv _ eqs(1-3) held eqs(4)] assms(2) by blast
  }
  then show ?thesis
    by (simp add: calm_def eqs)
qed

lemma done_simps [simp]:
  "is_done (raw_done r1 c)" "is_done (register_done r2 c)" "is_done (unit_done r3 c)"
  by (auto simp: raw_done_def register_done_def unit_done_def completion_defs split: sum.splits)

lemma done_kinds:
  "kind_of (payload c) = RawCallCompletion \<Longrightarrow> kind_of (payload (raw_done r1 c)) = RawCallCompletion"
  "kind_of (payload c) = RegisterTargetCompletion \<Longrightarrow>
     kind_of (payload (register_done r2 c)) = RegisterTargetCompletion"
  "kind_of (payload c) = UnitCompletion \<Longrightarrow> kind_of (payload (unit_done r3 c)) = UnitCompletion"
  by (auto simp: raw_done_def register_done_def unit_done_def completion_defs split: sum.splits)

lemma calm_settle: "calm s (settle x s)"
proof (cases x)
  case (RawSettled h r)
  then show ?thesis
    using calm_end_task[of s h _ "raw_done r" "rt s"]
    by (auto simp: done_kinds split: option.splits task.splits)
next
  case (RegisterSettled h r)
  then show ?thesis
    using calm_end_task[of s h _ "register_done r"]
    by (auto simp: done_kinds split: option.splits task.splits)
next
  case (UnitSettled h r)
  then show ?thesis
    using calm_end_task[of s h _ "unit_done r"]
    by (auto simp: done_kinds split: option.splits task.splits)
qed

lemma calm_fold_settle: "calm s (fold settle xs s)"
proof (induction xs arbitrary: s)
  case (Cons x xs)
  show ?case
    using calm_trans[OF calm_settle Cons.IH] by simp
qed simp

lemma calm_absorb: "calm s (absorb s)"
  unfolding absorb_def by (rule calm_trans[OF calm_rt calm_fold_settle])

lemma calm_on_thread: "on_thread m s = (r, s') \<Longrightarrow> calm s s'"
  unfolding on_thread_def by (auto split: prod.splits intro: calm_trans[OF calm_rt calm_absorb])


subsection \<open>An operation and its turn\<close>

lemma loop_inv_current:
  assumes "loop_inv s" and "current s = Some h"
  shows "h < length (completions s)" and "h \<in> set (held_by s)"
    and "map fst (tasks s) = filter (\<lambda>x. x \<noteq> h) (held_by s)"
proof -
  show h: "h \<in> set (held_by s)"
    using assms(2) by (simp add: held_by_def)
  show "h < length (completions s)"
    using assms(1) h unfolding loop_inv_def undone_def by auto
  have "h \<notin> set (map fst (tasks s))"
    using assms unfolding loop_inv_def held_by_def by auto
  then have "filter (\<lambda>x. x \<noteq> h) (map fst (tasks s)) = map fst (tasks s)"
    by (intro filter_True) auto
  moreover have "held_by s = h # map fst (tasks s)"
    using assms(2) by (simp add: held_by_def)
  ultimately show "map fst (tasks s) = filter (\<lambda>x. x \<noteq> h) (held_by s)"
    by (simp only: filter.simps simp_thms if_False)
qed

lemma answer_current:
  assumes "loop_inv s" and "current s = Some h"
    and "\<And>c. is_done (f c)" and "kind_of (payload (f (completions s ! h))) = kind_at s h"
  shows "loop_inv (answer h f (s\<lparr>current := None\<rparr>))" and "evolves s (answer h f (s\<lparr>current := None\<rparr>))"
    and "lost (view (answer h f (s\<lparr>current := None\<rparr>))) = lost (view s)"
proof -
  let ?s' = "answer h f (s\<lparr>current := None\<rparr>)"
  have eqs: "completions ?s' = (completions s)[h := f (completions s ! h)]" "queue ?s' = queue s"
    "stopping ?s' = stopping s" "set (tasks ?s') \<subseteq> set (tasks s)" "held_by ?s' = map fst (tasks s)"
    by (simp_all add: answer_def held_by_def)
  have "held_by ?s' = filter (\<lambda>x. x \<noteq> h) (held_by s)"
    unfolding eqs(5) by (rule loop_inv_current(3)[OF assms(1,2)])
  note eqs = eqs(1-3) this eqs(4)
  show "loop_inv ?s'" "evolves s ?s'" "lost (view ?s') = lost (view s)"
    using answer_held[OF assms(1) loop_inv_current(2)[OF assms(1,2)] eqs assms(3,4)] by blast+
qed

lemma schedule_current:
  assumes "loop_inv s" and "current s = Some h" and "kind_at s h = task_kind t"
  shows "loop_inv (s\<lparr>current := None, tasks := tasks s @ [(h, t)]\<rparr>)"
    and "evolves s (s\<lparr>current := None, tasks := tasks s @ [(h, t)]\<rparr>)"
    and "lost (view (s\<lparr>current := None, tasks := tasks s @ [(h, t)]\<rparr>)) = lost (view s)"
proof -
  let ?s' = "s\<lparr>current := None, tasks := tasks s @ [(h, t)]\<rparr>"
  have held: "held_by s = h # map fst (tasks s)" "held_by ?s' = map fst (tasks s) @ [h]"
    using assms(2) by (simp_all add: held_by_def)
  then have same: "set (held_by ?s') = set (held_by s)" "distinct (held_by ?s') = distinct (held_by s)"
    by auto
  have view: "view ?s' = view s"
    unfolding view_def same by simp
  then show "evolves s ?s'" "lost (view ?s') = lost (view s)"
    by (simp_all add: evolves_rt)
  have "loop_inv s = loop_inv (s\<lparr>current := None, tasks := tasks s @ [(h, t)]\<rparr>)"
    unfolding loop_inv_def distinct_append set_append same using assms(3) by auto
  then show "loop_inv ?s'"
    using assms(1) by simp
qed

lemma process_ok:
  assumes inv: "loop_inv s" and cur: "current s = Some h" and k: "kind_at s h = op_kind op"
    and run: "process K op h s = (r, s')"
  shows "loop_inv s'" and "evolves s s'" and "lost (view s') = lost (view s)"
    and "queue s' = queue s" and "stopping s' = stopping s" and "phase s' = phase s"
    and "current s' = (if r = Hang then Some h else None)" and "r = Ret () \<or> r = Hang"
proof -
  obtain q s1 where thread: "on_thread (br_body (run_operation K op)) s = (q, s1)"
    by (cases "on_thread (br_body (run_operation K op)) s")
  have body: "\<exists>u t. br_body (run_operation K op) u = (q, t)"
    using thread unfolding on_thread_def by (auto split: prod.splits)
  have calm: "calm s s1"
    using thread by (rule calm_on_thread)
  then have s1: "loop_inv s1" "evolves s s1" "lost (view s1) = lost (view s)" "current s1 = Some h"
    "queue s1 = queue s" "stopping s1 = stopping s" "phase s1 = phase s"
    using inv cur unfolding calm_def by auto
  have "kind_at s1 h = op_kind op"
    using s1(2) loop_inv_current(1)[OF inv cur] k unfolding evolves_def keeps_answers_def by auto
  then have kinds: "kind_of (payload (completions s1 ! h)) = op_kind op"
    by (simp add: kind_at_def)
  have s': "(r, s') = answer_operation (run_operation K op) h q s1"
    using run thread by (simp add: process_def)
  consider (ok) v where "q = Ret (Answer v)" "kind_of v = op_kind op"
    | (later) t where "q = Ret (Schedule t)" "task_kind t = op_kind op"
    | (throw) e where "q = Throw e" | (hang) "q = Hang"
    using body run_operation_replies by (cases q) (metis reply.exhaust reply_kind.simps)+
  then have "loop_inv s' \<and> evolves s1 s' \<and> lost (view s') = lost (view s1) \<and> queue s' = queue s1 \<and>
      stopping s' = stopping s1 \<and> phase s' = phase s1 \<and>
      current s' = (if r = Hang then Some h else None) \<and> (r = Ret () \<or> r = Hang)"
  proof cases
    case ok
    then have "r = Ret ()" "s' = answer h (complete_ok v) (s1\<lparr>current := None\<rparr>)"
      using s' by (simp_all add: answer_operation_def)
    then show ?thesis
      using answer_current[OF s1(1,4), of "complete_ok v"] ok kinds
      by (simp add: kind_at_def) (simp add: answer_def)
  next
    case later
    then have "r = Ret ()" "s' = s1\<lparr>current := None, tasks := tasks s1 @ [(h, t)]\<rparr>"
      using s' by (simp_all add: answer_operation_def)
    then show ?thesis
      using schedule_current[OF s1(1,4), of t] later kinds by (simp add: kind_at_def)
  next
    case throw
    then have "r = Ret ()" "s' = answer h (complete_caught (br_kind (run_operation K op))
        (br_unknown (run_operation K op)) e) (s1\<lparr>current := None\<rparr>)"
      using s' by (simp_all add: answer_operation_def)
    then show ?thesis
      using answer_current[OF s1(1,4), of "complete_caught (br_kind (run_operation K op))
          (br_unknown (run_operation K op)) e"] kinds
      by (simp add: kind_at_def) (simp add: answer_def)
  next
    case hang
    then show ?thesis
      using s' s1 by (simp add: answer_operation_def)
  qed
  then show "loop_inv s'" "evolves s s'" "lost (view s') = lost (view s)" "queue s' = queue s"
    "stopping s' = stopping s" "phase s' = phase s"
    "current s' = (if r = Hang then Some h else None)" "r = Ret () \<or> r = Hang"
    using s1 evolves_trans by auto
qed

lemma start_ok:
  assumes inv: "loop_inv s" and cur: "current s = None" and q: "queue s = (op, h) # q"
  shows "loop_inv (s\<lparr>queue := q, current := Some h\<rparr>)"
    and "evolves s (s\<lparr>queue := q, current := Some h\<rparr>)"
    and "lost (view (s\<lparr>queue := q, current := Some h\<rparr>)) = lost (view s)"
    and "kind_at (s\<lparr>queue := q, current := Some h\<rparr>) h = op_kind op"
proof -
  let ?s' = "s\<lparr>queue := q, current := Some h\<rparr>"
  have held: "held_by s = map fst (tasks s)" "held_by ?s' = h # map fst (tasks s)"
    using cur by (simp_all add: held_by_def)
  show "loop_inv ?s'"
    using inv q unfolding loop_inv_def held by auto
  show k: "kind_at ?s' h = op_kind op"
    using inv q unfolding loop_inv_def by simp
  show lost: "lost (view ?s') = lost (view s)"
    by (auto simp: view_def held q)
  have "backlog (view s) = h # map snd q"
    by (simp add: view_def q)
  moreover have "view ?s' = (view s)\<lparr>backlog := map snd q, active := insert h (active (view s))\<rparr>"
    using lost by (simp add: view_def held)
  ultimately have "serve (view s) (view ?s')"
    using serve_start[of "view s" h "map snd q"] by (simp only:)
  then show "evolves s ?s'"
    by (simp add: evolves_def keeps_answers_def)
qed

lemma loop_turn_ok:
  assumes inv: "loop_inv s" and cur: "current s = None" and run: "loop_turn K s = (r, s')"
  shows "loop_inv s'" and "evolves s s'" and "lost (view s') = lost (view s)"
    and "stopping s' = stopping s" and "phase s' = phase s" and "r \<noteq> Hang \<Longrightarrow> current s' = None"
    and "queue s' = tl (queue s)"
proof -
  have "loop_inv s' \<and> evolves s s' \<and> lost (view s') = lost (view s) \<and> stopping s' = stopping s \<and>
      phase s' = phase s \<and> (r \<noteq> Hang \<longrightarrow> current s' = None) \<and> queue s' = tl (queue s)"
  proof (cases "queue s")
    case Nil
    then have "calm s s'"
      using run by (simp add: loop_turn_def calm_on_thread)
    then show ?thesis
      using inv cur Nil unfolding calm_def by auto
  next
    case (Cons a q)
    then obtain op h where q: "queue s = (op, h) # q"
      by (cases a) auto
    let ?s0 = "s\<lparr>queue := q, current := Some h\<rparr>"
    note s0 = start_ok[OF inv cur q]
    obtain r1 s1 where p: "process K op h ?s0 = (r1, s1)"
      by (cases "process K op h ?s0")
    note s1 = process_ok[OF s0(1) _ s0(4) p, simplified]
    show ?thesis
    proof (cases "r1 = Hang")
      case True
      then have "r = Hang" "s' = s1"
        using run p q by (simp_all add: loop_turn_def)
      then show ?thesis
        using s0 s1 q by (auto intro: evolves_trans)
    next
      case False
      then have "r1 = Ret ()"
        using s1(8) by blast
      then have "on_thread (sq (poll K) (ret ())) s1 = (r, s')"
        using run p q by (simp add: loop_turn_def)
      then have "calm s1 s'"
        by (rule calm_on_thread)
      then show ?thesis
        using s0 s1 q False unfolding calm_def by (auto intro: evolves_trans)
    qed
  qed
  then show "loop_inv s'" "evolves s s'" "lost (view s') = lost (view s)" "stopping s' = stopping s"
    "phase s' = phase s" "r \<noteq> Hang \<Longrightarrow> current s' = None" "queue s' = tl (queue s)"
    by blast+
qed

subsection \<open>Failing what is queued\<close>

lemma lose_queue:
  assumes "loop_inv s"
  shows "loop_inv (s\<lparr>queue := []\<rparr>)" and "evolves s (s\<lparr>queue := []\<rparr>)"
proof -
  let ?v = "view s"
  have d: "distinct (backlog ?v)" "set (backlog ?v) \<inter> active ?v = {}" "set (backlog ?v) \<subseteq> undone s"
    using assms unfolding loop_inv_def view_def by auto
  have "view (s\<lparr>queue := []\<rparr>) = ?v\<lparr>backlog := [], lost := lost ?v \<union> set (backlog ?v)\<rparr>"
    using d by (auto simp: view_def)
  then have "serve\<^sup>*\<^sup>* ?v (view (s\<lparr>queue := []\<rparr>))"
    using lose_backlog[OF d(1,2)] by (simp only:)
  then show "evolves s (s\<lparr>queue := []\<rparr>)"
    by (simp add: evolves_def keeps_answers_def)
  show "loop_inv (s\<lparr>queue := []\<rparr>)"
    using assms unfolding loop_inv_def by auto
qed

lemma lose_tasks:
  assumes "loop_inv s" and "current s = None"
  shows "loop_inv (s\<lparr>tasks := []\<rparr>)" and "evolves s (s\<lparr>tasks := []\<rparr>)"
proof -
  let ?v = "view s"
  have held: "held_by s = map fst (tasks s)" "held_by (s\<lparr>tasks := []\<rparr>) = []"
    using assms(2) by (simp_all add: held_by_def)
  have d: "set (held_by s) \<subseteq> active ?v" "distinct (held_by s)"
    "set (held_by s) \<inter> set (map snd (queue s)) = {}" "set (held_by s) \<subseteq> undone s"
    using assms(1) unfolding loop_inv_def view_def by auto
  have "view (s\<lparr>tasks := []\<rparr>) = ?v\<lparr>active := active ?v - set (held_by s), lost := lost ?v \<union> set (held_by s)\<rparr>"
    unfolding view_def held(2) undone_simps using d by auto
  then have "serve\<^sup>*\<^sup>* ?v (view (s\<lparr>tasks := []\<rparr>))"
    using lose_active[OF d(1,2)] by (simp only:)
  then show "evolves s (s\<lparr>tasks := []\<rparr>)"
    by (simp add: evolves_def keeps_answers_def)
  show "loop_inv (s\<lparr>tasks := []\<rparr>)"
    using assms(1) unfolding loop_inv_def held by auto
qed

lemma fail_one:
  assumes inv: "loop_inv (s\<lparr>queue := (op, h) # p\<rparr>)" and cur: "current s = None"
  shows "loop_inv ((answer h (complete_error (op_kind op) m) (drop_held op s))\<lparr>queue := p\<rparr>)"
    and "evolves (s\<lparr>queue := (op, h) # p\<rparr>)
      ((answer h (complete_error (op_kind op) m) (drop_held op s))\<lparr>queue := p\<rparr>)"
proof -
  let ?a = "s\<lparr>queue := (op, h) # p\<rparr>" and ?f = "complete_error (op_kind op) m"
  let ?b = "?a\<lparr>queue := p, current := Some h\<rparr>"
  let ?c = "answer h ?f (?b\<lparr>current := None\<rparr>)"
  have b: "loop_inv ?b" "evolves ?a ?b" "kind_at ?b h = op_kind op"
    using start_ok[of ?a op h p] inv cur by auto
  have "loop_inv ?c" "evolves ?b ?c"
    using answer_current[OF b(1), of h ?f] by (simp_all add: kind_at_def)
  moreover have "(answer h ?f (drop_held op s))\<lparr>queue := p\<rparr> =
      ?c\<lparr>leanRefs := leanRefs (drop_held op s)\<rparr>"
    using cur by (cases s) (auto simp: drop_held_def answer_def split: option.splits)
  ultimately show "loop_inv ((answer h ?f (drop_held op s))\<lparr>queue := p\<rparr>)"
    "evolves ?a ((answer h ?f (drop_held op s))\<lparr>queue := p\<rparr>)"
    using b(2) evolves_rt[of "?c\<lparr>leanRefs := leanRefs (drop_held op s)\<rparr>" ?c]
    by (auto intro: evolves_trans)
qed

lemma fail_each_ok:
  assumes "loop_inv (s\<lparr>queue := p\<rparr>)" and "queue s = []" and "current s = None" and "fail_each m p s = (r, s')"
  shows "loop_inv s' \<and> evolves (s\<lparr>queue := p\<rparr>) s' \<and> queue s' = [] \<and> tasks s' = tasks s \<and> current s' = None"
  using assms
proof (induction p arbitrary: s)
  case Nil
  then have "s' = s" "s\<lparr>queue := []\<rparr> = s"
    by (cases s, simp)+
  then show ?case
    using Nil by (metis evolves_refl)
next
  case (Cons a p)
  obtain op h where a: "a = (op, h)" by (cases a)
  show ?case
  proof (cases "unhandled op")
    case True
    then have "s' = (s\<lparr>queue := a # p\<rparr>)\<lparr>queue := []\<rparr>"
      using Cons.prems a by simp
    then show ?thesis
      using lose_queue[OF Cons.prems(1)] Cons.prems by simp
  next
    case False
    let ?s1 = "answer h (complete_error (op_kind op) m) (drop_held op s)"
    have s1: "queue ?s1 = []" "current ?s1 = None" "tasks ?s1 = tasks s"
      using Cons.prems by (auto simp: answer_def drop_held_def split: option.splits)
    have "fail_each m p ?s1 = (r, s')"
      using Cons.prems(4) a False by simp
    then show ?thesis
      using Cons.IH[OF _ s1(1,2)] fail_one[of op h p s m] Cons.prems(1,3) a s1(3)
      by (auto intro: evolves_trans)
  qed
qed

lemma abort_ok:
  assumes inv: "loop_inv s" and cur: "current s = None"
  shows "loop_inv (abort e s)" and "evolves s (abort e s)" and "current (abort e s) = None"
    and "phase (abort e s) = Aborted \<or> phase (abort e s) = Terminated" and "queue (abort e s) = []"
proof -
  let ?s0 = "s\<lparr>tasks := []\<rparr>"
  have same: "s\<lparr>tasks := [], current := None\<rparr> = ?s0"
    using cur by (cases s) simp
  have refill: "?s0\<lparr>queue := [], queue := queue s\<rparr> = ?s0"
    by (cases s) simp
  obtain r s1 where f: "failPendingCalls (abort_text e) ?s0 = (r, s1)"
    by (cases "failPendingCalls (abort_text e) ?s0")
  have "fail_each (abort_text e) (queue s) (?s0\<lparr>queue := []\<rparr>) = (r, s1)"
    using f by (simp add: failPendingCalls_def)
  moreover have "loop_inv (?s0\<lparr>queue := [], queue := queue s\<rparr>)"
    unfolding refill by (rule lose_tasks(1)[OF inv cur])
  moreover have "queue (?s0\<lparr>queue := []\<rparr>) = []" "current (?s0\<lparr>queue := []\<rparr>) = None"
    using cur by simp_all
  ultimately have "loop_inv s1 \<and> evolves (?s0\<lparr>queue := [], queue := queue s\<rparr>) s1 \<and> queue s1 = [] \<and>
      current s1 = None"
    using fail_each_ok by blast
  then have "loop_inv s1 \<and> evolves ?s0 s1 \<and> queue s1 = [] \<and> current s1 = None"
    unfolding refill .
  then have s1: "loop_inv s1" "evolves s s1" "queue s1 = []" "current s1 = None"
    using lose_tasks(2)[OF inv cur] by (auto intro: evolves_trans)
  have "\<exists>p. abort e s = s1\<lparr>phase := p\<rparr> \<and> (p = Aborted \<or> p = Terminated)"
    unfolding abort_def same f by (cases r) auto
  then obtain p where p: "abort e s = s1\<lparr>phase := p\<rparr>" "p = Aborted \<or> p = Terminated"
    by blast
  have "evolves s1 (s1\<lparr>phase := p\<rparr>)"
    by (rule evolves_rt) simp_all
  then show "evolves s (abort e s)"
    unfolding p(1) using s1(2) by (rule evolves_trans[rotated])
  show "loop_inv (abort e s)" "current (abort e s) = None" "queue (abort e s) = []"
    "phase (abort e s) = Aborted \<or> phase (abort e s) = Terminated"
    unfolding p(1) using s1 p(2) by simp_all
qed

lemma finish_exits:
  assumes "queue s = []"
  shows "finish K s = s\<lparr>rt := teardown K (rt s), phase := Exited\<rparr>"
  using assms by (simp add: finish_def failPendingCalls_def)

subsection \<open>Asking\<close>

lemmas enqueue_defs =
  enqueueRawCall_def enqueueRawCallData_def enqueueStartPendingCall_def
  enqueueStartPendingCallData_def enqueueStartStreamingPendingCall_def
  enqueueStartStreamingPendingCallData_def enqueueAwaitPendingCall_def
  enqueueReleasePendingCall_def enqueueGetPipelinedCap_def enqueueStreamingCall_def
  enqueueTargetGetFd_def enqueueTargetWhenResolved_def enqueueTargetWhenResolvedStart_def
  enqueueTargetWhenResolvedPoll_def enqueueEnableTraceEncoder_def enqueueDisableTraceEncoder_def
  enqueueSetTraceEncoder_def enqueueCppCallWithAccept_def enqueueCppCallPipelinedWithAccept_def
  enqueueRegisterLoopbackTarget_def enqueueRegisterLoopbackBootstrapTarget_def
  enqueueRegisterHandlerTarget_def enqueueRegisterAdvancedHandlerTarget_def
  enqueueRegisterTailCallHandlerTarget_def enqueueRegisterTailCallTarget_def
  enqueueRegisterFdTarget_def enqueueRegisterFdProbeTarget_def enqueueReleaseTarget_def
  enqueueReleaseTargets_def enqueueRetainTarget_def enqueueNewPromiseCapability_def
  enqueuePromiseCapabilityFulfill_def enqueuePromiseCapabilityReject_def
  enqueuePromiseCapabilityRelease_def enqueueOrderingSetResolveHold_def
  enqueueOrderingFlushHeldResolves_def enqueueOrderingHeldResolveCount_def
  enqueueConnectTarget_def enqueueConnectTargetStart_def enqueueConnectTargetFd_def
  enqueueNewTransportPipe_def enqueueNewTransportFromFd_def enqueueNewTransportFromFdTake_def
  enqueueReleaseTransport_def enqueueTransportGetFd_def enqueueConnectTargetTransport_def
  enqueueListenLoopback_def enqueueAcceptLoopback_def enqueueReleaseListener_def
  enqueueNewClient_def enqueueNewClientStart_def enqueueReleaseClient_def
  enqueueClientBootstrap_def enqueueClientOnDisconnect_def enqueueClientOnDisconnectStart_def
  enqueueClientSetFlowLimit_def enqueueClientQueueSize_def enqueueClientQueueCount_def
  enqueueClientOutgoingWaitNanos_def enqueueTargetCount_def enqueueListenerCount_def
  enqueueClientCount_def enqueueServerCount_def enqueuePendingCallCount_def enqueueNewServer_def
  enqueueNewServerWithBootstrapFactory_def enqueueReleaseServer_def enqueueServerListen_def
  enqueueServerAccept_def enqueueServerAcceptStart_def enqueueServerAcceptFd_def
  enqueueServerAcceptTransport_def enqueueServerDrain_def enqueueServerDrainStart_def
  enqueueAwaitRegisterPromise_def enqueueCancelRegisterPromise_def
  enqueueReleaseRegisterPromise_def enqueueAwaitUnitPromise_def enqueueCancelUnitPromise_def
  enqueueReleaseUnitPromise_def enqueueKjAsyncSleepNanosStart_def enqueueKjAsyncPromiseAwait_def
  enqueueKjAsyncPromiseCancel_def enqueueKjAsyncPromiseRelease_def
  enqueueKjAsyncPromiseThenStart_def enqueueKjAsyncPromiseCatchStart_def
  enqueueKjAsyncPromiseAllStart_def enqueueKjAsyncPromiseRaceStart_def
  enqueueKjAsyncTaskSetNew_def enqueueKjAsyncTaskSetRelease_def
  enqueueKjAsyncTaskSetAddPromise_def enqueueKjAsyncTaskSetClear_def
  enqueueKjAsyncTaskSetIsEmpty_def enqueueKjAsyncTaskSetOnEmptyStart_def
  enqueueKjAsyncTaskSetErrorCount_def enqueueKjAsyncTaskSetTakeLastError_def
  enqueueMultiVatNewClient_def enqueueMultiVatNewServer_def
  enqueueMultiVatNewServerWithBootstrapFactory_def enqueueMultiVatReleasePeer_def
  enqueueMultiVatBootstrap_def enqueueMultiVatBootstrapPeer_def
  enqueueMultiVatSetForwardingEnabled_def enqueueMultiVatResetForwardingStats_def
  enqueueMultiVatForwardCount_def enqueueMultiVatThirdPartyTokenCount_def
  enqueueMultiVatDeniedForwardCount_def enqueueMultiVatHasConnection_def
  enqueueMultiVatSetRestorer_def enqueueMultiVatClearRestorer_def
  enqueueMultiVatPublishSturdyRef_def enqueueMultiVatPublishSturdyRefStart_def
  enqueueMultiVatUnpublishSturdyRef_def enqueueMultiVatUnpublishSturdyRefStart_def
  enqueueMultiVatClearPublishedSturdyRefs_def enqueueMultiVatClearPublishedSturdyRefsStart_def
  enqueueMultiVatPublishedSturdyRefCount_def enqueueMultiVatRestoreSturdyRef_def
  enqueueMultiVatRestoreSturdyRefStart_def enqueueMultiVatGetDiagnostics_def
  enqueueMultiVatConnectionBlock_def enqueueMultiVatConnectionUnblock_def
  enqueueMultiVatConnectionDisconnect_def enqueueMultiVatConnectionResolveDisembargoCounts_def
  enqueueMultiVatConnectionResolveDisembargoTrace_def
  enqueueMultiVatConnectionResetResolveDisembargoTrace_def enqueuePump_def enqueuePumpAsync_def
  enqueueWithCompletion_def enqueueRegisterCompletion_def enqueueUnitCompletion_def
  enqueueRetaining_def

lemma issue_shape:
  obtains p pre undo post where "issue promise op s = enqueue_with (op_kind op) p pre undo post op s"
proof -
  have "\<exists>p pre undo post. issue promise op s = enqueue_with (op_kind op) p pre undo post op s"
  proof (cases op)
    case (CallOp x)
    then show ?thesis
      by (cases x) (auto simp: enqueue_defs intro: exI)
  next
    case (TargetOp x)
    then show ?thesis
      by (cases x) (auto simp: enqueue_defs intro: exI)
  next
    case (RegisterOp x)
    then show ?thesis
      by (cases x) (auto simp: enqueue_defs intro: exI)
  next
    case (OwnershipOp x)
    then show ?thesis
      by (cases x) (auto simp: enqueue_defs intro: exI)
  next
    case (TransportOp x)
    then show ?thesis
      by (cases x) (auto simp: enqueue_defs intro: exI)
  next
    case (ClientOp x)
    then show ?thesis
      by (cases x) (auto simp: enqueue_defs intro: exI)
  next
    case (MetricOp x)
    then show ?thesis
      by (cases x) (auto simp: enqueue_defs intro: exI)
  next
    case (ServerOp x)
    then show ?thesis
      by (cases x) (auto simp: enqueue_defs intro: exI)
  next
    case (PromiseOp x)
    then show ?thesis
      by (cases x) (auto simp: enqueue_defs intro: exI)
  next
    case (AsyncOp x)
    then show ?thesis
      by (cases x) (auto simp: enqueue_defs intro: exI)
  next
    case (TaskSetOp x)
    then show ?thesis
      by (cases x) (auto simp: enqueue_defs intro: exI)
  next
    case (PeerOp x)
    then show ?thesis
      by (cases x) (auto simp: enqueue_defs intro: exI)
  next
    case (ForwardingOp x)
    then show ?thesis
      by (cases x) (auto simp: enqueue_defs intro: exI)
  next
    case (SturdyOp x)
    then show ?thesis
      by (cases x) (auto simp: enqueue_defs intro: exI)
  next
    case (LinkOp x)
    then show ?thesis
      by (cases x) (auto simp: enqueue_defs intro: exI)
  next
    case (PumpOp x)
    then show ?thesis
      by (cases x) (auto simp: enqueue_defs intro: exI)
  qed
  then show thesis
    using that by blast
qed


lemma enqueue_with_ok:
  assumes inv: "loop_inv s" and run: "enqueue_with (op_kind op) p pre undo post op s = (h, s')"
  shows "loop_inv s'" and "evolves s s'" and "lost (view s') = lost (view s)"
    and "h = length (completions s)" and "kind_at s' h = op_kind op" and "h < length (completions s')"
    and "stopping s' = stopping s" and "phase s' = phase s" and "tasks s' = tasks s" and "current s' = current s"
    and "rt s' = rt s" and "stopping s \<Longrightarrow> queue s' = queue s \<and> is_done (completions s' ! h)"
proof -
  let ?n = "length (completions s)"
  have all: "loop_inv s' \<and> evolves s s' \<and> lost (view s') = lost (view s) \<and> h = ?n \<and> kind_at s' h = op_kind op \<and>
      h < length (completions s') \<and> stopping s' = stopping s \<and> phase s' = phase s \<and> tasks s' = tasks s \<and>
      current s' = current s \<and> rt s' = rt s \<and> (stopping s \<longrightarrow> queue s' = queue s \<and> is_done (completions s' ! h))"
  proof -
    let ?new = "new_completion p (op_kind op)"
    define c where "c = (if stopping s then complete_error (op_kind op) shutting_down ?new else ?new)"
    define u where "u = s\<lparr>completions := completions s @ [c],
        leanRefs := leanRefs s @ pre @ (if stopping s then undo else post),
        queue := (if stopping s then queue s else queue s @ [(op, ?n)])\<rparr>"
    have "(h, s') = (?n, u)"
      unfolding run[symmetric] enqueue_with_def Let_def c_def u_def
      by (cases "stopping s") (cases s, simp)+
    then have h: "h = ?n" and s': "s' = u"
      by simp_all
    have c: "completions s' = completions s @ [c]" "is_done c = stopping s" "kind_of (payload c) = op_kind op"
      and q: "queue s' = (if stopping s then queue s else queue s @ [(op, h)])" "h = ?n"
      and same: "stopping s' = stopping s" "phase s' = phase s" "tasks s' = tasks s" "current s' = current s"
        "rt s' = rt s"
      by (simp_all add: s' u_def h c_def)
    have old: "kind_at s' x = kind_at s x" if "x < ?n" for x
      using that by (simp add: kind_at_def c nth_append)
    have und: "undone s' = (if stopping s then undone s else insert ?n (undone s))"
      using c by (auto simp: undone_def nth_append less_Suc_eq)
    have held: "held_by s' = held_by s"
      by (simp add: held_by_def same)
    have small: "set (map snd (queue s)) \<subseteq> {..<?n}" "set (held_by s) \<subseteq> {..<?n}" "undone s \<subseteq> {..<?n}"
      using inv unfolding loop_inv_def undone_def by auto
    have qk: "kind_at s' x = op_kind o1" if "(o1, x) \<in> set (queue s)" for o1 x
    proof -
      have "x < ?n" "kind_at s x = op_kind o1"
        using that inv small(1) unfolding loop_inv_def by auto
      then show ?thesis using old by simp
    qed
    have tk: "kind_at s' x = task_kind t" if "(x, t) \<in> set (tasks s)" for x t
    proof -
      have "x \<in> set (held_by s)"
        using that by (force simp: held_by_def)
      then have "x < ?n" "kind_at s x = task_kind t"
        using that inv small(2) unfolding loop_inv_def by auto
      then show ?thesis using old by simp
    qed
    have nk: "kind_at s' ?n = op_kind op"
      by (simp add: kind_at_def c)
    have new: "?n \<notin> set (map snd (queue s))" "?n \<notin> set (held_by s)"
      using small by auto
    have inv': "loop_inv s'"
    proof (cases "stopping s")
      case True
      then show ?thesis
        using inv qk tk unfolding loop_inv_def und held same(3) q by auto
    next
      case False
      then show ?thesis
        using inv qk tk nk new unfolding loop_inv_def und held same(3) q(1) h by auto
    qed
    have lost: "lost (view s') = lost (view s)"
      using small by (auto simp: view_def und held q)
    have ans: "{x. x < length (completions s') \<and> is_done (completions s' ! x)} =
        (if stopping s then insert ?n else id) {x. x < ?n \<and> is_done (completions s ! x)}"
      using c by (auto simp: nth_append less_Suc_eq)
    have "view s' = (if stopping s
        then (view s)\<lparr>issued := Suc (issued (view s)), answered := insert (issued (view s)) (answered (view s))\<rparr>
        else (view s)\<lparr>issued := Suc (issued (view s)), backlog := backlog (view s) @ [issued (view s)]\<rparr>)"
      using lost unfolding view_def ans held same q by (simp add: c)
    moreover have "closed (view s) = stopping s"
      by (simp add: view_def)
    ultimately have "serve (view s) (view s')"
      by (cases "stopping s") (simp_all add: serve_issue serve_refuse)
    moreover have "keeps_answers s s'"
      using old by (auto simp: keeps_answers_def c nth_append)
    ultimately show ?thesis
      using inv' lost c q same by (auto simp: evolves_def kind_at_def)
  qed
  then show "loop_inv s'" "evolves s s'" "lost (view s') = lost (view s)" "h = ?n" "kind_at s' h = op_kind op"
    "h < length (completions s')" "stopping s' = stopping s" "phase s' = phase s" "tasks s' = tasks s"
    "current s' = current s" "rt s' = rt s" "stopping s \<Longrightarrow> queue s' = queue s \<and> is_done (completions s' ! h)"
    by blast+
qed

lemma issue_ok:
  assumes "loop_inv s" and "issue promise op s = (h, s')"
  shows "loop_inv s'" and "evolves s s'" and "lost (view s') = lost (view s)"
    and "kind_at s' h = op_kind op" and "h < length (completions s')"
    and "stopping s' = stopping s" and "phase s' = phase s" and "tasks s' = tasks s" and "current s' = current s"
    and "stopping s \<Longrightarrow> queue s' = queue s"
proof -
  obtain p pre undo post where "issue promise op s = enqueue_with (op_kind op) p pre undo post op s"
    by (rule issue_shape)
  then have run: "enqueue_with (op_kind op) p pre undo post op s = (h, s')"
    using assms(2) by simp
  show "loop_inv s'" "evolves s s'" "lost (view s') = lost (view s)" "kind_at s' h = op_kind op"
    "h < length (completions s')" "stopping s' = stopping s" "phase s' = phase s" "tasks s' = tasks s"
    "current s' = current s" "stopping s \<Longrightarrow> queue s' = queue s"
    using enqueue_with_ok[OF assms(1) run] by blast+
qed

subsection \<open>Runs\<close>

definition run_inv :: "loop_state \<Rightarrow> bool" where
  "run_inv s \<longleftrightarrow> loop_inv s \<and> (phase s \<noteq> Blocked \<longrightarrow> current s = None) \<and>
     (phase s \<noteq> Aborted \<and> phase s \<noteq> Terminated \<longrightarrow> lost (view s) = {}) \<and>
     (phase s = Exited \<longrightarrow> queue s = [] \<and> tasks s = [] \<and> stopping s)"

lemma loop_init_inv: "run_inv (loop_init r)"
  by (simp add: run_inv_def loop_inv_def loop_init_def held_by_def view_def undone_def)

lemma view_loop_init: "view (loop_init r) = service_init"
  by (auto simp: view_def loop_init_def service_init_def held_by_def undone_def)

lemma worker_ok:
  assumes "run_inv s"
  shows "run_inv (worker K s)" and "evolves s (worker K s)"
proof -
  have "run_inv (worker K s) \<and> evolves s (worker K s)"
  proof (cases "phase s = Running")
    case False
    then show ?thesis
      using assms by (simp add: worker_def)
  next
    case run: True
    then have inv: "loop_inv s" "current s = None" "lost (view s) = {}"
      using assms unfolding run_inv_def by auto
    show ?thesis
    proof (cases "queue s = [] \<and> stopping s \<and> tasks s = []")
      case True
      let ?t = "s\<lparr>rt := teardown K (rt s), phase := Exited\<rparr>"
      have "worker K s = ?t"
        using True run by (simp add: worker_def finish_exits)
      moreover have "run_inv ?t"
        using inv True unfolding run_inv_def by simp
      moreover have "evolves s ?t"
        by (rule evolves_rt) simp_all
      ultimately show ?thesis by (simp only:)
    next
      case False
      obtain o1 s1 where turn: "loop_turn K s = (o1, s1)"
        by (cases "loop_turn K s")
      note s1 = loop_turn_ok[OF inv(1,2) turn]
      have w: "worker K s = (case o1 of Ret _ \<Rightarrow> s1 | Throw e \<Rightarrow> abort e s1 | Hang \<Rightarrow> s1\<lparr>phase := Blocked\<rparr>)"
        using False run turn by (auto simp: worker_def)
      show ?thesis
      proof (cases o1)
        case (Ret a)
        then show ?thesis
          using w s1 inv run unfolding run_inv_def by simp
      next
        case (Throw e)
        then have ab: "loop_inv (abort e s1)" "evolves s1 (abort e s1)" "current (abort e s1) = None"
          "phase (abort e s1) = Aborted \<or> phase (abort e s1) = Terminated"
          using abort_ok[OF s1(1)] s1(6) by auto
        then show ?thesis
          using w s1(2) Throw unfolding run_inv_def by (auto intro: evolves_trans)
      next
        case Hang
        have "evolves s1 (s1\<lparr>phase := Blocked\<rparr>)"
          by (rule evolves_rt) simp_all
        then show ?thesis
          using w s1 Hang inv unfolding run_inv_def by (auto intro: evolves_trans)
      qed
    qed
  qed
  then show "run_inv (worker K s)" "evolves s (worker K s)"
    by blast+
qed

lemma step_ok:
  assumes "run_inv s"
  shows "run_inv (step K e s) \<and> evolves s (step K e s)"
proof (cases e)
  case (Issue promise op)
  obtain h s' where i: "issue promise op s = (h, s')"
    by (cases "issue promise op s")
  note s' = issue_ok[OF _ i]
  have "run_inv s'"
    using assms s' unfolding run_inv_def by metis
  moreover have "step K e s = s'"
    using Issue i by simp
  ultimately show ?thesis
    using assms s'(2) unfolding run_inv_def by simp
next
  case Shutdown
  let ?t = "s\<lparr>stopping := True\<rparr>"
  have v: "view ?t = (view s)\<lparr>closed := True\<rparr>"
    by (simp add: view_def held_by_def undone_def)
  have "serve (view s) (view ?t)"
    unfolding v by (rule serve_close)
  then have "evolves s ?t"
    by (auto simp: evolves_def keeps_answers_def kind_at_def)
  moreover have "loop_inv ?t = loop_inv s"
    by (simp add: loop_inv_def held_by_def undone_def kind_at_def)
  moreover have "lost (view ?t) = lost (view s)"
    by (simp add: v)
  ultimately have "run_inv ?t \<and> evolves s ?t"
    using assms unfolding run_inv_def by simp
  then show ?thesis
    using assms Shutdown by (simp add: shutdown_def)
next
  case Worker
  then show ?thesis
    using worker_ok[OF assms] by simp
qed

lemma run_ok:
  "run_inv s \<Longrightarrow> run_inv (run_events K es s) \<and> evolves s (run_events K es s)"
proof (induction es arbitrary: s)
  case (Cons e es)
  have "run_inv (step K e s)" "evolves s (step K e s)"
    using step_ok[OF Cons.prems] by blast+
  then show ?case
    using Cons.IH[of "step K e s"] by (auto simp: run_events_def intro: evolves_trans)
qed (simp add: run_events_def)


lemma reach: "s = run_events K es (loop_init r) \<Longrightarrow> run_inv s"
  using run_ok[OF loop_init_inv] by simp

section \<open>A concrete event loop\<close>

text \<open>An event loop in which nothing is ready until the timer is waited for, which ends the
  oldest task.\<close>

definition rt_init :: "u32 \<Rightarrow> rt_state" where
  "rt_init fds = multi_vat_state.extend (multi_vat_init fds) \<lparr>waiting = [], settlements = []\<rparr>"

definition demo_wait :: "rt_state \<Rightarrow> rt_state" where
  "demo_wait s = (case waiting s of [] \<Rightarrow> s
     | (h, t) # _ \<Rightarrow> s\<lparr>settlements := settlements s @ [RawSettled h (Inr ([], []))]\<rparr>)"

definition demo_kj :: "rt_state kj" where
  "demo_kj = \<lparr>kj_env = ok_env, kj_lib = \<lambda>_ _ n. n, await_unit = \<lambda>p s. (Ret (), demo_wait s),
     await_obj = \<lambda>c s. (Ret 0, s), await_message = \<lambda>p s. (Ret ([], []), s),
     await_fd = \<lambda>c s. (Ret None, s), await_bool = \<lambda>p s. (Ret True, s),
     restore = \<lambda>_ _ _ _ s. (None, s), table_order = \<lambda>_. [], vat_of = \<lambda>_. \<lparr>host = [], unique = False\<rparr>,
     poll = \<lambda>s. (Ret 0, s)\<rparr>"

definition demo_call :: pending_call where
  "demo_call = \<lparr>pc_promise = KjPromise 5, pc_pipeline = 6, pc_canceler = 7\<rparr>"

definition demo_start :: loop_state where
  "demo_start = run_events demo_kj [Issue 0 (CallOp (QueuedAwaitPendingCall 1)), Shutdown]
     (loop_init ((rt_init 0)\<lparr>pendingCalls := [1 \<mapsto> demo_call]\<rparr>))"

lemma demo_start_state:
  "demo_start = \<lparr>queue = [(CallOp (QueuedAwaitPendingCall 1), 0)], stopping = True,
     completions = [new_completion 0 RawCallCompletion], leanRefs = [],
     rt = (rt_init 0)\<lparr>pendingCalls := [1 \<mapsto> demo_call]\<rparr>, tasks = [], current = None, phase = Running\<rparr>"
  by (simp add: demo_start_def run_events_def loop_init_def shutdown_def enqueueAwaitPendingCall_def
      enqueueWithCompletion_def enqueue_with_def Let_def)

lemma rt_init_settlements: "settlements (rt_init f) = []"
  by (simp add: rt_init_def multi_vat_state.extend_def)

section \<open>The properties of the loop\<close>

lemma run_serves: "serve\<^sup>*\<^sup>* service_init (view (run_events K es (loop_init r)))"
  using run_ok[OF loop_init_inv[of r], of K es] by (simp add: evolves_def view_loop_init)

text \<open>C22. The runtime's thread with its queue, tasks and completions is a first-in
  first-out service: whatever is asked of it in whatever order, every run is a run of the
  abstract service, in which requests are started in the order they were issued and each
  one is answered at most once.\<close>

theorem run_refines_service:
  "serve\<^sup>*\<^sup>* service_init (view (run_events K es (loop_init r)))"
  by (rule run_serves)

text \<open>C23. As long as the thread has not been thrown out of its loop, what is not answered is
  either queued or held by exactly one owner, the operation at hand or one task; and the
  queue is an interval of the requests' numbers, up to the newest while the runtime is
  not stopping, so no request overtakes another and none is dropped.\<close>

theorem each_request_has_one_owner:
  assumes "s = run_events K es (loop_init r)" and "phase s \<noteq> Aborted" and "phase s \<noteq> Terminated"
  shows "\<exists>k m. map snd (queue s) = [k..<m] \<and> m \<le> length (completions s) \<and>
    (stopping s \<or> m = length (completions s)) \<and>
    distinct (held_by s) \<and> set (held_by s) \<subseteq> {..<k} \<and>
    {h. h < length (completions s) \<and> \<not> is_done (completions s ! h)} = {k..<m} \<union> set (held_by s)"
proof -
  have inv: "run_inv s"
    using assms(1) by (rule reach)
  then have "loop_inv s" "lost (view s) = {}"
    using assms unfolding run_inv_def by auto
  then have d: "distinct (held_by s)" "set (map snd (queue s)) \<union> set (held_by s) = undone s"
    unfolding loop_inv_def view_def by auto
  have "service_inv (view s)"
    using serve_star_inv[OF run_serves service_init_inv] assms(1) by simp
  then obtain k m where "at_marks k m (view s)"
    unfolding service_inv_def by blast
  then have "m \<le> length (completions s)" "\<not> stopping s \<longrightarrow> m = length (completions s)"
    "map snd (queue s) = [k..<m]" "set (held_by s) \<subseteq> {0..<k}"
    unfolding at_marks_def view_def by auto
  then show ?thesis
    using d unfolding undone_def by (intro exI[of _ k] exI[of _ m]) (auto simp: atLeast0LessThan)
qed

theorem each_request_has_one_owner_witness:
  "\<exists>k m. map snd (queue (run_events demo_kj [Issue 0 (PumpOp QueuedPump)] (loop_init (rt_init 0)))) = [k..<m] \<and> k < m"
proof -
  let ?s = "run_events demo_kj [Issue 0 (PumpOp QueuedPump)] (loop_init (rt_init 0))"
  have s: "phase ?s = Running" "length (queue ?s) = 1"
    by (simp_all add: run_events_def loop_init_def enqueuePump_def enqueueWithCompletion_def enqueue_with_def Let_def)
  obtain k m where "map snd (queue ?s) = [k..<m]"
    using each_request_has_one_owner[OF refl, of demo_kj "[Issue 0 (PumpOp QueuedPump)]" "rt_init 0"] s by auto
  moreover from this have "k < m"
    using s(2) by (metis length_map length_upt zero_less_diff zero_less_one)
  ultimately show ?thesis by blast
qed

text \<open>C24. An answer is final: once a completion is done, nothing that happens later changes
  it, whether operations run, tasks end, the runtime shuts down or its thread is thrown
  out of the loop.\<close>

theorem answers_are_final:
  assumes "s = run_events K es (loop_init r)" and "h < length (completions s)" and "is_done (completions s ! h)"
  shows "completions (run_events K es' s) ! h = completions s ! h"
  using run_ok[OF reach[OF assms(1)], of K es'] assms(2,3) by (auto simp: evolves_def keeps_answers_def)

theorem answers_are_final_witness:
  "is_done (completions (run_events demo_kj [Worker]
     (run_events demo_kj [Shutdown, Issue 0 (PumpOp QueuedPump)] (loop_init (rt_init 0)))) ! 0)"
proof -
  let ?s = "run_events demo_kj [Shutdown, Issue 0 (PumpOp QueuedPump)] (loop_init (rt_init 0))"
  have "0 < length (completions ?s)" "is_done (completions ?s ! 0)"
    by (simp_all add: run_events_def loop_init_def shutdown_def enqueuePump_def enqueueWithCompletion_def
        enqueue_with_def Let_def completion_defs)
  then show ?thesis
    using answers_are_final[OF refl, of 0 demo_kj "[Shutdown, Issue 0 (PumpOp QueuedPump)]" "rt_init 0" "[Worker]"] by simp
qed

text \<open>The completion of an operation carries a value of the type its struct declares.\<close>

lemma completion_keeps_type:
  assumes "s = run_events K es (loop_init r)" and "issue promise op s = (h, s')"
  shows "kind_of (payload (completions (run_events K es' s') ! h)) = op_kind op"
proof -
  have inv: "run_inv s"
    using assms(1) by (rule reach)
  then have "run_inv s'"
    using step_ok[of s K "Issue promise op"] assms(2) by simp
  moreover have "kind_at s' h = op_kind op" "h < length (completions s')"
    using issue_ok[OF _ assms(2)] inv unfolding run_inv_def by auto
  ultimately show ?thesis
    using run_ok[of s' K es'] by (auto simp: evolves_def keeps_answers_def kind_at_def)
qed

subsection \<open>The end of the thread\<close>

lemma settle_length: "length (tasks (settle x s)) \<le> length (tasks s)"
  by (cases x) (auto simp: end_task_def answer_def split: option.splits task.splits)

lemma on_thread_length: "on_thread m s = (q, s') \<Longrightarrow> length (tasks s') \<le> length (tasks s)"
proof -
  have fold: "length (tasks (fold settle xs u)) \<le> length (tasks u)" for xs u
  proof (induction xs arbitrary: u)
    case (Cons x xs)
    show ?case
      using Cons.IH[of "settle x u"] settle_length[of x u] by simp
  qed simp
  assume "on_thread m s = (q, s')"
  then obtain t where "s' = absorb (s\<lparr>rt := t\<rparr>)"
    unfolding on_thread_def by (auto split: prod.splits)
  then show ?thesis
    using fold[of "settlements t" "s\<lparr>rt := t\<lparr>settlements := []\<rparr>\<rparr>"] by (simp add: absorb_def)
qed

lemma process_length: "process K op h s = (q, s') \<Longrightarrow> length (tasks s') \<le> length (tasks s) + 1"
proof -
  assume p: "process K op h s = (q, s')"
  obtain r1 s1 where t: "on_thread (br_body (run_operation K op)) s = (r1, s1)"
    by (cases "on_thread (br_body (run_operation K op)) s")
  then have "(q, s') = answer_operation (run_operation K op) h r1 s1"
    using p by (simp add: process_def)
  then have "length (tasks s') \<le> length (tasks s1) + 1"
    by (auto simp: answer_operation_def answer_def split: outcome.splits reply.splits)
  then show ?thesis
    using on_thread_length[OF t] by simp
qed

text \<open>How much there is to do; a turn that neither blocks nor throws does some of it.\<close>

definition work :: "loop_state \<Rightarrow> nat" where
  "work s = (if phase s = Running then 2 * length (queue s) + length (tasks s) + 1 else 0)"

lemma worker_progress:
  assumes inv: "run_inv s" and run: "phase s = Running" and stop: "stopping s"
    and smooth: "phase (worker K s) = Running \<or> phase (worker K s) = Exited"
    and fair: "queue s = [] \<and> tasks s \<noteq> [] \<longrightarrow> length (tasks (worker K s)) < length (tasks s)"
  shows "work (worker K s) < work s" and "stopping (worker K s)"
proof -
  have inv': "loop_inv s" "current s = None"
    using inv run unfolding run_inv_def by auto
  have "work (worker K s) < work s \<and> stopping (worker K s)"
  proof (cases "queue s = [] \<and> tasks s = []")
    case True
    then show ?thesis
      using run stop by (simp add: worker_def finish_exits work_def)
  next
    case False
    obtain o1 s1 where turn: "loop_turn K s = (o1, s1)"
      by (cases "loop_turn K s")
    note s1 = loop_turn_ok[OF inv' turn]
    have w: "worker K s = (case o1 of Ret _ \<Rightarrow> s1 | Throw e \<Rightarrow> abort e s1 | Hang \<Rightarrow> s1\<lparr>phase := Blocked\<rparr>)"
      using False run turn by (auto simp: worker_def)
    have o1: "worker K s = s1"
    proof (cases o1)
      case (Throw e)
      then show ?thesis
        using w abort_ok(4)[OF s1(1), of e] s1(6) smooth by auto
    qed (use w smooth in auto)
    have "work s1 < work s"
    proof (cases "queue s")
      case Nil
      then show ?thesis
        using s1(5,7) fair False run by (simp add: work_def o1)
    next
      case (Cons a q)
      then obtain op h where q: "queue s = (op, h) # q"
        by (cases a) auto
      obtain r2 s2 where p: "process K op h (s\<lparr>queue := q, current := Some h\<rparr>) = (r2, s2)"
        by (cases "process K op h (s\<lparr>queue := q, current := Some h\<rparr>)")
      have "length (tasks s1) \<le> length (tasks s2)"
      proof (cases r2)
        case (Ret a)
        then have "on_thread (sq (poll K) (ret ())) s2 = (o1, s1)"
          using turn p q by (simp add: loop_turn_def)
        then show ?thesis
          by (rule on_thread_length)
      qed (use turn p q in \<open>auto simp: loop_turn_def\<close>)
      then have "length (tasks s1) \<le> length (tasks s) + 1"
        using process_length[OF p] by simp
      then show ?thesis
        using s1(5,7) q run by (simp add: work_def)
    qed
    then show ?thesis
      using o1 s1(4) stop by simp
  qed
  then show "work (worker K s) < work s" "stopping (worker K s)"
    by blast+
qed

text \<open>The assumption on a stretch of turns: none blocks or throws, and an idle turn with tasks
  outstanding ends one of them.\<close>

definition smooth_turns :: "rt_state kj \<Rightarrow> nat \<Rightarrow> loop_state \<Rightarrow> bool" where
  "smooth_turns K n s \<longleftrightarrow> (\<forall>i < n. let t = (worker K ^^ i) s; t' = worker K t in
     phase t' \<in> {Running, Exited} \<and>
     (phase t = Running \<and> queue t = [] \<and> tasks t \<noteq> [] \<longrightarrow> length (tasks t') < length (tasks t)))"

lemma worker_exited: "phase s = Exited \<Longrightarrow> (worker K ^^ n) s = s"
  by (induction n) (simp_all add: worker_def)

lemma exits_within:
  assumes "run_inv s" and "stopping s" and "phase s \<in> {Running, Exited}" and "work s \<le> n" and "smooth_turns K n s"
  shows "phase ((worker K ^^ n) s) = Exited \<and> run_inv ((worker K ^^ n) s)"
  using assms
proof (induction n arbitrary: s)
  case 0
  then show ?case by (auto simp: work_def split: if_splits)
next
  case (Suc n)
  show ?case
  proof (cases "phase s = Exited")
    case True
    then show ?thesis
      using Suc.prems(1) worker_exited[of s "Suc n" K] by simp
  next
    case False
    then have run: "phase s = Running"
      using Suc.prems(3) by simp
    have first: "phase (worker K s) \<in> {Running, Exited}"
      "queue s = [] \<and> tasks s \<noteq> [] \<longrightarrow> length (tasks (worker K s)) < length (tasks s)"
      using Suc.prems(5) run unfolding smooth_turns_def by (auto simp: Let_def dest: spec[of _ 0])
    have rest: "smooth_turns K n (worker K s)"
      unfolding smooth_turns_def
    proof (intro allI impI)
      fix i assume "i < n"
      then have "Suc i < Suc n" by simp
      then show "let t = (worker K ^^ i) (worker K s); t' = worker K t in
          phase t' \<in> {Running, Exited} \<and>
          (phase t = Running \<and> queue t = [] \<and> tasks t \<noteq> [] \<longrightarrow> length (tasks t') < length (tasks t))"
        using Suc.prems(5) unfolding smooth_turns_def by (metis funpow_swap1 funpow.simps(2) comp_apply)
    qed
    have "work (worker K s) < work s" "stopping (worker K s)"
      using worker_progress[OF Suc.prems(1) run Suc.prems(2)] first by auto
    then have "phase ((worker K ^^ n) (worker K s)) = Exited \<and> run_inv ((worker K ^^ n) (worker K s))"
      using Suc.prems(4) first(1) rest worker_ok(1)[OF Suc.prems(1)] by (intro Suc.IH) auto
    then show ?thesis
      by (simp add: funpow_swap1)
  qed
qed


lemma exited_stays:
  "run_inv s \<Longrightarrow> phase s = Exited \<Longrightarrow> phase (run_events K es s) = Exited"
proof (induction es arbitrary: s)
  case (Cons e es)
  have "phase (step K e s) = Exited"
  proof (cases e)
    case (Issue p op)
    then show ?thesis
      using issue_ok(7)[of s p op] Cons.prems unfolding run_inv_def by (cases "issue p op s") simp
  qed (use Cons.prems in \<open>simp_all add: shutdown_def worker_def\<close>)
  then have "phase (run_events K es (step K e s)) = Exited"
    using Cons.IH step_ok[OF Cons.prems(1)] by blast
  then show ?case by (simp add: run_events_def)
qed (simp add: run_events_def)

lemma exited_all_done: "run_inv s \<Longrightarrow> phase s = Exited \<Longrightarrow> list_all is_done (completions s)"
  unfolding run_inv_def loop_inv_def view_def held_by_def undone_def
  by (auto simp: list_all_length)

text \<open>C25. Once the runtime was told to stop, its thread leaves the loop, at the latest after two
  turns for each queued operation, one for each outstanding task and one more, provided no
  turn blocks or throws and each idle turn with tasks outstanding ends one of them. Then
  every completion has been answered, and so is each one asked for afterwards.\<close>

theorem shutdown_answers_everything:
  assumes "s = run_events K es (loop_init r)" and "phase s = Running" and "stopping s"
    and "2 * length (queue s) + length (tasks s) + 1 \<le> n" and "smooth_turns K n s"
  shows "phase ((worker K ^^ n) s) = Exited \<and>
    list_all is_done (completions (run_events K es' ((worker K ^^ n) s)))"
proof -
  have "phase ((worker K ^^ n) s) = Exited \<and> run_inv ((worker K ^^ n) s)"
    using assms reach[OF assms(1)] by (intro exits_within) (auto simp: work_def)
  then show ?thesis
    using exited_stays exited_all_done run_ok by blast
qed

lemma demo_turn_1:
  obtains r where "worker demo_kj demo_start = demo_start\<lparr>queue := [], rt := r, tasks := [(0, RawTask (KjPromise 5))]\<rparr>"
    and "settlements r = []"
proof -
  show thesis
    by (rule that)
      (auto simp: demo_start_state worker_def loop_turn_def process_def on_thread_def absorb_def answer_operation_def
        raw_later_branch_def awaitPendingCall_def demo_call_def demo_kj_def rt_init_settlements bnd_def)
qed

lemma demo_turn_2:
  assumes "settlements r = []"
  obtains r' c where "worker demo_kj (demo_start\<lparr>queue := [], rt := r, tasks := [(0, RawTask (KjPromise 5))]\<rparr>) =
      demo_start\<lparr>queue := [], rt := r', tasks := [], completions := [c]\<rparr>"
proof -
  show thesis
    by (rule that)
      (auto simp: assms demo_start_state worker_def loop_turn_def idle_def on_thread_def absorb_def end_task_def
        answer_def demo_wait_def demo_kj_def bnd_def)
qed


lemma demo_smooth: "smooth_turns demo_kj 3 demo_start"
proof -
  obtain r where t1: "worker demo_kj demo_start =
      demo_start\<lparr>queue := [], rt := r, tasks := [(0, RawTask (KjPromise 5))]\<rparr>" and r: "settlements r = []"
    by (rule demo_turn_1)
  obtain r' c where t2: "worker demo_kj (demo_start\<lparr>queue := [], rt := r, tasks := [(0, RawTask (KjPromise 5))]\<rparr>) =
      demo_start\<lparr>queue := [], rt := r', tasks := [], completions := [c]\<rparr>"
    using r by (rule demo_turn_2)
  have t3: "phase (worker demo_kj (demo_start\<lparr>queue := [], rt := r', tasks := [], completions := [c]\<rparr>)) = Exited"
    by (simp add: worker_def finish_exits demo_start_state)
  have "phase demo_start = Running" "queue demo_start \<noteq> []"
    by (simp_all add: demo_start_state)
  then show ?thesis
    using t3 by (simp add: smooth_turns_def numeral_3_eq_3 All_less_Suc t1 t2 Let_def)
qed

theorem shutdown_answers_everything_witness:
  "phase ((worker demo_kj ^^ 3) demo_start) = Exited \<and>
   list_all is_done (completions (run_events demo_kj [Issue 0 (PumpOp QueuedPump)] ((worker demo_kj ^^ 3) demo_start)))"
  using demo_smooth
  by (intro shutdown_answers_everything[OF demo_start_def]) (simp_all add: demo_start_state)

subsection \<open>An exception out of the loop\<close>

lemma fail_each_result:
  assumes "fail_each m p s = (q, s')"
  shows "q = (if list_ex (\<lambda>(op, _). unhandled op) p then Throw fail_assert else Ret ()) \<and>
    length (completions s') = length (completions s) \<and>
    (\<forall>h < length (completions s). is_done (completions s' ! h) \<longleftrightarrow>
      is_done (completions s ! h) \<or> h \<in> snd ` set (takeWhile (\<lambda>(op, _). \<not> unhandled op) p))"
  using assms
proof (induction p arbitrary: s)
  case (Cons a p)
  obtain op k where a: "a = (op, k)" by (cases a)
  let ?s1 = "answer k (complete_error (op_kind op) m) (drop_held op s)"
  have s1: "completions ?s1 = (completions s)[k := complete_error (op_kind op) m (completions s ! k)]"
    by (auto simp: answer_def drop_held_def split: option.splits)
  show ?case
  proof (cases "unhandled op")
    case True
    then show ?thesis using Cons.prems a by simp
  next
    case False
    then have "fail_each m p ?s1 = (q, s')"
      using Cons.prems a by simp
    note IH = Cons.IH[OF this]
    have "is_done (completions ?s1 ! h) \<longleftrightarrow> is_done (completions s ! h) \<or> h = k"
      if "h < length (completions s)" for h
      using that unfolding s1 by (cases "h = k") simp_all
    then show ?thesis
      using IH False a by (auto simp: s1)
  qed
qed simp

text \<open>C26. If an exception gets out of the loop, the completions answered by that are the
  queued ones before the first operation that \<^verbatim>\<open>failPendingCalls\<close> has no arm for. With
  such an operation in the queue the handler itself throws and the process ends; without
  one the thread ends. Whoever waits for an outstanding task is not answered either way.\<close>

theorem abort_outcome:
  assumes "s = run_events K es (loop_init r)" and "phase s = Running"
  shows "phase (abort e s) = (if list_ex (\<lambda>(op, _). unhandled op) (queue s) then Terminated else Aborted) \<and>
    (\<forall>h < length (completions s). is_done (completions (abort e s) ! h) \<longleftrightarrow>
       is_done (completions s ! h) \<or> h \<in> snd ` set (takeWhile (\<lambda>(op, _). \<not> unhandled op) (queue s)))"
proof -
  let ?s0 = "s\<lparr>tasks := [], current := None, queue := []\<rparr>"
  obtain q s1 where f: "fail_each (abort_text e) (queue s) ?s0 = (q, s1)"
    by (cases "fail_each (abort_text e) (queue s) ?s0")
  then have "failPendingCalls (abort_text e) (s\<lparr>tasks := [], current := None\<rparr>) = (q, s1)"
    by (simp add: failPendingCalls_def)
  moreover note q = fail_each_result[OF f]
  ultimately have "abort e s = s1\<lparr>phase :=
      (if list_ex (\<lambda>(op, _). unhandled op) (queue s) then Terminated else Aborted)\<rparr>"
    by (simp add: abort_def)
  then show ?thesis
    using q by simp
qed

theorem abort_outcome_witness:
  "phase (abort OtherEx (run_events demo_kj
     [Issue 0 (PumpOp QueuedPump), Issue 0 (LinkOp (QueuedMultiVatConnectionResolveDisembargoTrace 1 2))]
     (loop_init (rt_init 0)))) = Terminated"
proof -
  let ?es = "[Issue 0 (PumpOp QueuedPump), Issue 0 (LinkOp (QueuedMultiVatConnectionResolveDisembargoTrace 1 2))]"
  let ?s = "run_events demo_kj ?es (loop_init (rt_init 0))"
  have "phase ?s = Running" "list_ex (\<lambda>(op, _). unhandled op) (queue ?s)"
    by (simp_all add: run_events_def loop_init_def enqueuePump_def
        enqueueMultiVatConnectionResolveDisembargoTrace_def enqueueWithCompletion_def enqueue_with_def Let_def)
  then show ?thesis
    using abort_outcome[OF refl, of demo_kj ?es "rt_init 0" OtherEx] by simp
qed

text \<open>
  The thread ends without \<^verbatim>\<open>stopping_\<close> being set, so what is asked for afterwards is
  queued, and stays unanswered.
\<close>

theorem aborted_queue_is_dead:
  assumes "phase s = Aborted" and "\<not> stopping s" and "issue promise op s = (h, s')"
  shows "\<not> is_done (completions ((worker K ^^ n) s') ! h)"
proof -
  obtain p pre undo post where "issue promise op s = enqueue_with (op_kind op) p pre undo post op s"
    by (rule issue_shape)
  then have "h = length (completions s)" "completions s' = completions s @ [new_completion p (op_kind op)]"
    "phase s' = Aborted"
    using assms by (auto simp: enqueue_with_def Let_def)
  moreover have "(worker K ^^ n) s' = s'"
    using calculation(3) by (induction n) (simp_all add: worker_def)
  ultimately show ?thesis by simp
qed

text \<open>
  A successful \<^verbatim>\<open>pumpAsync\<close> resolves its promise with what Lean reads as an error, and
  a failed one with what it reads as a success.
\<close>

theorem async_unit_inverted:
  assumes "payload c = AsyncUnitValue p None"
  shows "\<exists>v w. payload (completeAsyncUnitSuccess c) = AsyncUnitValue p (Some v) \<and> \<not> reads_as_ok v \<and>
    payload (completeAsyncUnitFailure m c) = AsyncUnitValue p (Some w) \<and> reads_as_ok w"
  using assms by (simp add: completeAsyncUnitSuccess_def completeAsyncUnitFailure_def resolve_promise_def
      reads_as_ok_def)

end
