(* ===== verification/Registry.thy ===== *)
theory Registry
  imports Ids
begin

text \<open>
  The process-wide tables: the runtimes by identifier (\<^verbatim>\<open>gRuntimes\<close> of
  \<^verbatim>\<open>ffi/rpc_bridge_runtime.cpp\<close>) and the payload references Lean code holds between
  calls (\<^verbatim>\<open>ffi/rpc_bridge_payload_ref.cpp\<close>). Each operation holds the mutex of its
  table, so it is one step.
\<close>

section \<open>State\<close>

text \<open>
  An entry has the two Lean byte arrays of a payload, or the raw bytes of a result. A null
  pointer is \<open>None\<close>.
\<close>

record payload_entry =
  pe_runtimeId :: u64
  pe_messageBytes :: "obj option"
  pe_capBytes :: "obj option"
  pe_rawBytes :: "(bytes \<times> bytes) option"

definition hasLeanBytes :: "payload_entry \<Rightarrow> bool" where
  "hasLeanBytes e \<longleftrightarrow> pe_messageBytes e \<noteq> None \<and> pe_capBytes e \<noteq> None"

record registry_state = world +
  payloadRefs :: "u32 \<rightharpoonup> payload_entry"
  nextPayloadRefId :: u32
  runtimes :: "u64 \<rightharpoonup> obj"
  nextRuntimeId :: u64

section \<open>Identifiers\<close>

text \<open>Both allocators take the next value of their counter until it is neither 0 nor in use.\<close>

definition alloc_nonzero :: "('k::len word \<rightharpoonup> 'v) \<Rightarrow> 'k word \<Rightarrow> ('k word \<times> 'k word) option" where
  "alloc_nonzero m nx = alloc_id (\<lambda>i. if i = 0 \<or> m i \<noteq> None then Some () else None) nx"

lemma alloc_nonzero_Some:
  "alloc_nonzero m nx = Some (i, n) \<Longrightarrow> i \<noteq> 0 \<and> m i = None \<and> n = i + 1"
  unfolding alloc_nonzero_def by (drule alloc_id_Some) (auto split: if_splits)

lemma alloc_nonzero_total: "i \<noteq> 0 \<Longrightarrow> m i = None \<Longrightarrow> \<exists>r. alloc_nonzero m nx = Some r"
  unfolding alloc_nonzero_def by (rule alloc_id_total [of _ i]) simp

lemma alloc_nonzero_None: "alloc_nonzero m nx = None \<longleftrightarrow> (\<forall>i. i \<noteq> 0 \<longrightarrow> m i \<noteq> None)"
  unfolding alloc_nonzero_def alloc_id_None_iff dom_def by (auto split: if_splits)

section \<open>Runtimes\<close>

text \<open>The runtime itself, with its thread, is made before the registry is locked; what its constructor
  waits for and throws is \<^verbatim>\<open>RuntimeLoop\<close> of the theory \<^verbatim>\<open>Rpc_Exports\<close>, whose
  \<^verbatim>\<open>rpc_runtime_new_with_fd_limit\<close> runs it first.\<close>

definition createRuntime :: "obj \<Rightarrow> 'z registry_state_scheme \<Rightarrow> (exn, u64) outcome \<times> 'z registry_state_scheme" where
  "createRuntime runtime s = (case alloc_nonzero (runtimes s) (nextRuntimeId s) of
      None \<Rightarrow> (Hang, s)
    | Some (i, nxt) \<Rightarrow> (Ret i, s\<lparr>nextRuntimeId := nxt, runtimes := (runtimes s)(i \<mapsto> runtime)\<rparr>))"

definition getRuntime :: "u64 \<Rightarrow> 'z registry_state_scheme \<Rightarrow> obj option" where
  "getRuntime i s = runtimes s i"

definition isRuntimeAlive :: "u64 \<Rightarrow> 'z registry_state_scheme \<Rightarrow> bool" where
  "isRuntimeAlive i s \<longleftrightarrow> runtimes s i \<noteq> None"

definition unregisterRuntime :: "u64 \<Rightarrow> 'z registry_state_scheme \<Rightarrow> obj option \<times> 'z registry_state_scheme" where
  "unregisterRuntime i s = (case runtimes s i of
      Some runtime \<Rightarrow> (Some runtime, s\<lparr>runtimes := (runtimes s)(i := None)\<rparr>)
    | None \<Rightarrow> (None, s))"

section \<open>Payload references\<close>

definition add_payload :: "payload_entry \<Rightarrow> 'z registry_state_scheme
    \<Rightarrow> (exn, u32) outcome \<times> 'z registry_state_scheme" where
  "add_payload e s = (case alloc_nonzero (payloadRefs s) (nextPayloadRefId s) of
      None \<Rightarrow> (Hang, s)
    | Some (i, nxt) \<Rightarrow> (Ret i, s\<lparr>nextPayloadRefId := nxt, payloadRefs := (payloadRefs s)(i \<mapsto> e)\<rparr>))"

definition registerRuntimePayloadRef :: "u64 \<Rightarrow> obj option \<Rightarrow> obj option \<Rightarrow> bool
    \<Rightarrow> 'z registry_state_scheme \<Rightarrow> (exn, u32) outcome \<times> 'z registry_state_scheme" where
  "registerRuntimePayloadRef runtimeId messageBytes capBytes retainInputs =
     (case (messageBytes, capBytes) of
        (Some mb, Some cb) \<Rightarrow>
          sq (modify (\<lambda>s. s\<lparr>log := log s @ [LeanMarkMt mb, LeanMarkMt cb] @
              (if retainInputs then [LeanInc mb, LeanInc cb] else [])\<rparr>))
          (add_payload \<lparr>pe_runtimeId = runtimeId, pe_messageBytes = Some mb, pe_capBytes = Some cb,
             pe_rawBytes = None\<rparr>)
      | _ \<Rightarrow> throw (StdEx ''runtime payload ref requires message and cap byte arrays''))"

definition registerRuntimePayloadRefFromRawCallResult :: "u64 \<Rightarrow> bytes \<Rightarrow> bytes
    \<Rightarrow> 'z registry_state_scheme \<Rightarrow> (exn, u32) outcome \<times> 'z registry_state_scheme" where
  "registerRuntimePayloadRefFromRawCallResult runtimeId responseWords responseCaps =
     add_payload \<lparr>pe_runtimeId = runtimeId, pe_messageBytes = None, pe_capBytes = None,
       pe_rawBytes = Some (responseWords, responseCaps)\<rparr>"

text \<open>What a caller holds: an entry of its own, with references of its own.\<close>

definition retainRuntimePayloadRef :: "u32
    \<Rightarrow> 'z registry_state_scheme \<Rightarrow> payload_entry option \<times> 'z registry_state_scheme" where
  "retainRuntimePayloadRef payloadRefId s = (case payloadRefs s payloadRefId of
      None \<Rightarrow> (None, s)
    | Some e \<Rightarrow> (case (pe_messageBytes e, pe_capBytes e) of
        (Some mb, Some cb) \<Rightarrow> (Some (e\<lparr>pe_rawBytes := None\<rparr>), s\<lparr>log := log s @ [LeanInc mb, LeanInc cb]\<rparr>)
      | _ \<Rightarrow> (Some (e\<lparr>pe_messageBytes := None, pe_capBytes := None\<rparr>), s)))"

text \<open>\<^verbatim>\<open>RetainedRuntimePayloadRef::reset\<close>, which its destructor calls.\<close>

definition drop_pointer :: "obj option \<Rightarrow> ext_call list" where
  "drop_pointer p = (case p of None \<Rightarrow> [] | Some x \<Rightarrow> [LeanDec x])"

definition resetRetained :: "payload_entry \<Rightarrow> 'z registry_state_scheme \<Rightarrow> payload_entry \<times> 'z registry_state_scheme" where
  "resetRetained e s = (e\<lparr>pe_messageBytes := None, pe_capBytes := None, pe_rawBytes := None\<rparr>,
     s\<lparr>log := log s @ drop_pointer (pe_messageBytes e) @ drop_pointer (pe_capBytes e)\<rparr>)"

definition drop_entry :: "payload_entry \<Rightarrow> ext_call list" where
  "drop_entry e = (case (pe_messageBytes e, pe_capBytes e) of
      (Some mb, Some cb) \<Rightarrow> [LeanDec mb, LeanDec cb]
    | _ \<Rightarrow> [])"

definition erase_payload :: "u32 \<Rightarrow> payload_entry \<Rightarrow> 'z registry_state_scheme \<Rightarrow> 'z registry_state_scheme" where
  "erase_payload i e s = s\<lparr>log := log s @ drop_entry e, payloadRefs := (payloadRefs s)(i := None)\<rparr>"

text \<open>The result says whether the entry was erased, or what is wrong.\<close>

definition releaseRuntimePayloadRef :: "u64 \<Rightarrow> u32
    \<Rightarrow> 'z registry_state_scheme \<Rightarrow> (string + unit) \<times> 'z registry_state_scheme" where
  "releaseRuntimePayloadRef runtimeId payloadRefId s = (case payloadRefs s payloadRefId of
      None \<Rightarrow> (Inl ''unknown runtime payload ref id'', s)
    | Some e \<Rightarrow>
        if pe_runtimeId e \<noteq> runtimeId
        then (Inl ''runtime payload ref belongs to a different Capnp.Rpc runtime'', s)
        else (Inr (), erase_payload payloadRefId e s))"

text \<open>The loop over the whole table, in the order the table is walked.\<close>

fun release_walk :: "u64 \<Rightarrow> u32 list \<Rightarrow> 'z registry_state_scheme \<Rightarrow> u64 \<times> 'z registry_state_scheme" where
  "release_walk runtimeId [] s = (0, s)"
| "release_walk runtimeId (i # is) s = (case payloadRefs s i of
      Some e \<Rightarrow> if pe_runtimeId e = runtimeId
        then let (n, s') = release_walk runtimeId is (erase_payload i e s) in (n + 1, s')
        else release_walk runtimeId is s
    | None \<Rightarrow> release_walk runtimeId is s)"

definition releaseRuntimePayloadRefsForRuntime :: "(u32 set \<Rightarrow> u32 list) \<Rightarrow> u64
    \<Rightarrow> 'z registry_state_scheme \<Rightarrow> u64 \<times> 'z registry_state_scheme" where
  "releaseRuntimePayloadRefsForRuntime order runtimeId s =
     release_walk runtimeId (order (dom (payloadRefs s))) s"

section \<open>Identifiers of runtimes\<close>

text \<open>C27. Making a runtime ends as long as one of the 64-bit identifiers other than 0 is
  unused, and only then; the identifier is not 0 and was not in use, and it finds this
  runtime while every other identifier finds what it found before.\<close>

theorem createRuntime_exact:
  "(\<exists>i s'. createRuntime runtime s = (Ret i, s')) = (\<exists>i. i \<noteq> 0 \<and> runtimes s i = None) \<and>
   (\<forall>i s'. createRuntime runtime s = (Ret i, s') \<longrightarrow>
      i \<noteq> 0 \<and> getRuntime i s = None \<and> getRuntime i s' = Some runtime \<and>
      (\<forall>j. j \<noteq> i \<longrightarrow> getRuntime j s' = getRuntime j s) \<and>
      fst (unregisterRuntime i s') = Some runtime \<and> \<not> isRuntimeAlive i (snd (unregisterRuntime i s')))"
proof (cases "alloc_nonzero (runtimes s) (nextRuntimeId s)")
  case None
  then show ?thesis
    using alloc_nonzero_None [of "runtimes s"] by (auto simp: createRuntime_def)
next
  case (Some r)
  then obtain i n where r: "alloc_nonzero (runtimes s) (nextRuntimeId s) = Some (i, n)"
    by (cases r) auto
  from alloc_nonzero_Some [OF r] show ?thesis
    by (auto simp: createRuntime_def r getRuntime_def unregisterRuntime_def isRuntimeAlive_def)
qed

theorem createRuntime_exact_witness:
  "\<exists>s'. createRuntime 7 \<lparr>log = [], heapNext = 0, payloadRefs = Map.empty, nextPayloadRefId = 1,
     runtimes = Map.empty, nextRuntimeId = 0\<rparr> = (Ret 1, s') \<and> getRuntime 1 s' = Some 7"
proof -
  let ?s = "\<lparr>log = [], heapNext = 0, payloadRefs = Map.empty, nextPayloadRefId = 1,
     runtimes = Map.empty, nextRuntimeId = 0\<rparr> :: registry_state"
  have "alloc_nonzero (Map.empty :: u64 \<rightharpoonup> obj) 0 = Some (1, 2)"
    unfolding alloc_nonzero_def by (subst alloc_id_used) simp_all
  then have "createRuntime 7 ?s = (Ret 1, ?s\<lparr>nextRuntimeId := 2, runtimes := [1 \<mapsto> 7]\<rparr>)"
    by (simp add: createRuntime_def)
  moreover from this have "getRuntime 1 (?s\<lparr>nextRuntimeId := 2, runtimes := [1 \<mapsto> 7]\<rparr>) = Some 7"
    using createRuntime_exact [of 7 ?s] by blast
  ultimately show ?thesis by blast
qed

section \<open>References to Lean objects\<close>

text \<open>How often an object is referred to by an entry, by the table, and by what a caller holds.\<close>

definition entry_refs :: "obj \<Rightarrow> payload_entry \<Rightarrow> nat" where
  "entry_refs x e = (if pe_messageBytes e = Some x then 1 else 0) + (if pe_capBytes e = Some x then 1 else 0)"

definition table_refs :: "obj \<Rightarrow> 'z registry_state_scheme \<Rightarrow> nat" where
  "table_refs x s = (\<Sum>i \<in> dom (payloadRefs s). entry_refs x (the (payloadRefs s i)))"

definition incs :: "obj \<Rightarrow> ext_call list \<Rightarrow> nat" where
  "incs x l = length (filter (\<lambda>c. c = LeanInc x) l)"

definition decs :: "obj \<Rightarrow> ext_call list \<Rightarrow> nat" where
  "decs x l = length (filter (\<lambda>c. c = LeanDec x) l)"

lemma incs_simps [simp]: "incs x (l @ l') = incs x l + incs x l'" "incs x [] = 0"
  "incs x (c # l) = (if c = LeanInc x then 1 else 0) + incs x l"
  by (simp_all add: incs_def)

lemma decs_simps [simp]: "decs x (l @ l') = decs x l + decs x l'" "decs x [] = 0"
  "decs x (c # l) = (if c = LeanDec x then 1 else 0) + decs x l"
  by (simp_all add: decs_def)

text \<open>
  \<open>payload_run order s given held\<close>: the table is \<open>s\<close> after some calls, \<open>given\<close> lists the
  references handed over with \<^verbatim>\<open>retainInputs\<close> false, and \<open>held\<close> the retained payloads
  not yet destroyed. A payload whose bytes \<^verbatim>\<open>takeMessageBytes\<close> and
  \<^verbatim>\<open>takeCapBytes\<close> give to the caller stays in \<open>held\<close>: its references are the caller's
  from then on.
\<close>

inductive payload_run :: "(u32 set \<Rightarrow> u32 list) \<Rightarrow> registry_state \<Rightarrow> obj list \<Rightarrow> payload_entry list \<Rightarrow> bool"
  for order where
  start: "payload_run order \<lparr>log = [], heapNext = 0, payloadRefs = Map.empty, nextPayloadRefId = 1,
      runtimes = Map.empty, nextRuntimeId = 1\<rparr> [] []"
| keep: "payload_run order s g h \<Longrightarrow> registerRuntimePayloadRef r (Some mb) (Some cb) True s = (Ret i, t) \<Longrightarrow>
    payload_run order t g h"
| hand_over: "payload_run order s g h \<Longrightarrow> registerRuntimePayloadRef r (Some mb) (Some cb) False s = (Ret i, t) \<Longrightarrow>
    payload_run order t (mb # cb # g) h"
| result: "payload_run order s g h \<Longrightarrow> registerRuntimePayloadRefFromRawCallResult r w c s = (Ret i, t) \<Longrightarrow>
    payload_run order t g h"
| retain: "payload_run order s g h \<Longrightarrow> retainRuntimePayloadRef i s = (Some e, t) \<Longrightarrow> payload_run order t g (e # h)"
| destroy: "payload_run order s g (h1 @ e # h2) \<Longrightarrow> resetRetained e s = (e', t) \<Longrightarrow> payload_run order t g (h1 @ h2)"
| release: "payload_run order s g h \<Longrightarrow> releaseRuntimePayloadRef r i s = (q, t) \<Longrightarrow> payload_run order t g h"
| release_all: "payload_run order s g h \<Longrightarrow> releaseRuntimePayloadRefsForRuntime order r s = (n, t) \<Longrightarrow>
    payload_run order t g h"

definition balanced :: "registry_state \<Rightarrow> obj list \<Rightarrow> payload_entry list \<Rightarrow> bool" where
  "balanced s g h \<longleftrightarrow> finite (dom (payloadRefs s)) \<and>
     (\<forall>e \<in> ran (payloadRefs s) \<union> set h. (pe_messageBytes e = None) = (pe_capBytes e = None)) \<and>
     (\<forall>x. incs x (log s) + length (filter (\<lambda>y. y = x) g) =
        decs x (log s) + table_refs x s + sum_list (map (entry_refs x) h))"

lemma table_refs_add:
  "finite (dom m) \<Longrightarrow> m i = None \<Longrightarrow>
   (\<Sum>j \<in> dom (m(i \<mapsto> e)). entry_refs x (the ((m(i \<mapsto> e)) j))) = entry_refs x e + (\<Sum>j \<in> dom m. entry_refs x (the (m j)))"
proof -
  assume fin: "finite (dom m)" and free: "m i = None"
  then have "i \<notin> dom m" by auto
  moreover have "(\<Sum>j \<in> dom m. entry_refs x (the ((m(i \<mapsto> e)) j))) = (\<Sum>j \<in> dom m. entry_refs x (the (m j)))"
    using free by (intro sum.cong) auto
  ultimately show ?thesis
    using fin by (simp add: dom_fun_upd)
qed

lemma table_refs_erase:
  assumes "finite (dom m)" and "m i = Some e"
  shows "entry_refs x e + (\<Sum>j \<in> dom (m(i := None)). entry_refs x (the ((m(i := None)) j))) =
    (\<Sum>j \<in> dom m. entry_refs x (the (m j)))"
proof -
  have "(\<Sum>j \<in> dom m - {i}. entry_refs x (the ((m(i := None)) j))) =
      (\<Sum>j \<in> dom m - {i}. entry_refs x (the (m j)))"
    by (intro sum.cong) auto
  moreover have "i \<in> dom m"
    using assms(2) by auto
  ultimately show ?thesis
    using assms sum.remove [of "dom m" i "\<lambda>j. entry_refs x (the (m j))"] by (simp add: dom_fun_upd)
qed

lemma balanced_add:
  assumes bal: "balanced s g h" and run: "add_payload e (s\<lparr>log := log s @ l\<rparr>) = (Ret i, u)"
    and pair: "(pe_messageBytes e = None) = (pe_capBytes e = None)"
    and count: "\<And>x. incs x l + length (filter (\<lambda>y. y = x) g') =
      decs x l + entry_refs x e + length (filter (\<lambda>y. y = x) g)"
  shows "balanced u g' h"
proof -
  obtain n where al: "alloc_nonzero (payloadRefs s) (nextPayloadRefId s) = Some (i, n)"
    and u: "payloadRefs u = (payloadRefs s)(i \<mapsto> e)" "log u = log s @ l"
    using run by (auto simp: add_payload_def split: option.splits)
  have free: "payloadRefs s i = None"
    using alloc_nonzero_Some [OF al] by simp
  have fin: "finite (dom (payloadRefs s))"
    using bal by (simp add: balanced_def)
  have refs: "table_refs x u = entry_refs x e + table_refs x s" for x
    unfolding table_refs_def u using table_refs_add [OF fin free, of x e] by simp
  have "\<forall>e' \<in> ran (payloadRefs u) \<union> set h. (pe_messageBytes e' = None) = (pe_capBytes e' = None)"
    using bal pair free unfolding balanced_def u by auto
  moreover have "incs x (log u) + length (filter (\<lambda>y. y = x) g') =
      decs x (log u) + table_refs x u + sum_list (map (entry_refs x) h)" for x
  proof -
    have "incs x (log s) + length (filter (\<lambda>y. y = x) g) =
        decs x (log s) + table_refs x s + sum_list (map (entry_refs x) h)"
      using bal unfolding balanced_def by blast
    then show ?thesis
      using count [of x] by (simp add: u refs)
  qed
  ultimately show ?thesis
    using fin unfolding balanced_def u by simp
qed

lemma drop_entry_count:
  "(pe_messageBytes e = None) = (pe_capBytes e = None) \<Longrightarrow>
   decs x (drop_entry e) = entry_refs x e \<and> incs x (drop_entry e) = 0"
  by (auto simp: drop_entry_def entry_refs_def split: option.splits)

lemma balanced_erase:
  assumes bal: "balanced s g h" and e: "payloadRefs s i = Some e"
  shows "balanced (erase_payload i e s) g h"
proof -
  let ?t = "erase_payload i e s"
  have fin: "finite (dom (payloadRefs s))"
    and eq: "\<And>x. incs x (log s) + length (filter (\<lambda>y. y = x) g) =
        decs x (log s) + table_refs x s + sum_list (map (entry_refs x) h)"
    and pairs: "\<forall>e \<in> ran (payloadRefs s) \<union> set h. (pe_messageBytes e = None) = (pe_capBytes e = None)"
    using bal unfolding balanced_def by auto
  have "e \<in> ran (payloadRefs s)"
    using e by (rule ranI)
  then have "decs x (drop_entry e) = entry_refs x e \<and> incs x (drop_entry e) = 0" for x
    using pairs drop_entry_count by blast
  moreover have "entry_refs x e + table_refs x ?t = table_refs x s" for x
    using table_refs_erase [OF fin e, of x] by (simp add: table_refs_def erase_payload_def)
  ultimately have "incs x (log ?t) + length (filter (\<lambda>y. y = x) g) =
      decs x (log ?t) + table_refs x ?t + sum_list (map (entry_refs x) h)" for x
  proof -
    assume *: "\<And>x. decs x (drop_entry e) = entry_refs x e \<and> incs x (drop_entry e) = 0"
      "\<And>x. entry_refs x e + table_refs x ?t = table_refs x s"
    have "log ?t = log s @ drop_entry e"
      by (simp add: erase_payload_def)
    then show ?thesis
      using eq [of x] *(1) [of x] *(2) [of x] by simp
  qed
  moreover have "finite (dom (payloadRefs ?t))"
    using fin by (simp add: erase_payload_def)
  moreover have "ran (payloadRefs ?t) \<subseteq> ran (payloadRefs s)"
    by (auto simp: erase_payload_def ran_def split: if_splits)
  ultimately show ?thesis
    using pairs unfolding balanced_def by blast
qed

lemma balanced_walk: "balanced s g h \<Longrightarrow> release_walk r is s = (n, t) \<Longrightarrow> balanced t g h"
proof (induction "is" arbitrary: s n t)
  case (Cons i "is")
  show ?case
  proof (cases "\<exists>e. payloadRefs s i = Some e \<and> pe_runtimeId e = r")
    case True
    then obtain e where e: "payloadRefs s i = Some e" "pe_runtimeId e = r" by blast
    obtain n' t' where w: "release_walk r is (erase_payload i e s) = (n', t')"
      by (cases "release_walk r is (erase_payload i e s)")
    then have "t = t'"
      using Cons.prems(2) e by simp
    then show ?thesis
      using Cons.IH [OF balanced_erase [OF Cons.prems(1) e(1)] w] by simp
  next
    case False
    then have "release_walk r is s = (n, t)"
      using Cons.prems(2) by (auto split: option.splits if_splits)
    then show ?thesis
      using Cons.IH Cons.prems(1) by blast
  qed
qed simp

text \<open>C28. References to Lean objects balance in every run of the payload table: counting those
  handed over, each object has been taken as often as it has been dropped, plus once for
  each table entry and each retained payload that still refers to it. So once both are
  gone nothing leaks, and nothing is dropped twice.\<close>

theorem payload_references_balance:
  assumes "payload_run order s given held"
  shows "incs x (log s) + length (filter (\<lambda>y. y = x) given) =
    decs x (log s) + table_refs x s + sum_list (map (entry_refs x) held)"
proof -
  have "balanced s given held"
    using assms
  proof (induction rule: payload_run.induct)
    case start
    then show ?case by (simp add: balanced_def table_refs_def)
  next
    case (keep s g h r mb cb i t)
    then have "add_payload \<lparr>pe_runtimeId = r, pe_messageBytes = Some mb, pe_capBytes = Some cb, pe_rawBytes = None\<rparr>
        (s\<lparr>log := log s @ [LeanMarkMt mb, LeanMarkMt cb, LeanInc mb, LeanInc cb]\<rparr>) = (Ret i, t)"
      by (simp add: registerRuntimePayloadRef_def)
    from balanced_add [OF keep.IH this] show ?case
      by (auto simp: entry_refs_def)
  next
    case (hand_over s g h r mb cb i t)
    then have "add_payload \<lparr>pe_runtimeId = r, pe_messageBytes = Some mb, pe_capBytes = Some cb, pe_rawBytes = None\<rparr>
        (s\<lparr>log := log s @ [LeanMarkMt mb, LeanMarkMt cb]\<rparr>) = (Ret i, t)"
      by (simp add: registerRuntimePayloadRef_def)
    from balanced_add [OF hand_over.IH this] show ?case
      by (auto simp: entry_refs_def)
  next
    case (result s g h r w c i t)
    then have "add_payload \<lparr>pe_runtimeId = r, pe_messageBytes = None, pe_capBytes = None, pe_rawBytes = Some (w, c)\<rparr>
        (s\<lparr>log := log s @ []\<rparr>) = (Ret i, t)"
      by (simp add: registerRuntimePayloadRefFromRawCallResult_def)
    from balanced_add [OF result.IH this] show ?case
      by (auto simp: entry_refs_def)
  next
    case (retain s g h i e t)
    obtain e0 where e0: "payloadRefs s i = Some e0"
      using retain.hyps(2) by (auto simp: retainRuntimePayloadRef_def split: option.splits)
    then have "e0 \<in> ran (payloadRefs s)"
      by (rule ranI)
    then have pair: "(pe_messageBytes e0 = None) = (pe_capBytes e0 = None)"
      using retain.IH unfolding balanced_def by blast
    have "payloadRefs t = payloadRefs s \<and> (pe_messageBytes e = None) = (pe_capBytes e = None) \<and>
        (\<exists>l. log t = log s @ l \<and> (\<forall>x. incs x l = entry_refs x e \<and> decs x l = 0))"
      using retain.hyps(2) e0 pair
      by (auto simp: retainRuntimePayloadRef_def entry_refs_def split: option.splits)
    then show ?case
      using retain.IH unfolding balanced_def table_refs_def by auto
  next
    case (destroy s g h1 e h2 e' t)
    have "(pe_messageBytes e = None) = (pe_capBytes e = None)"
      using destroy.IH unfolding balanced_def by auto
    then have "payloadRefs t = payloadRefs s \<and> (\<exists>l. log t = log s @ l \<and> (\<forall>x. incs x l = 0 \<and> decs x l = entry_refs x e))"
      using destroy.hyps(2)
      by (auto simp: resetRetained_def drop_pointer_def entry_refs_def split: option.splits)
    then show ?case
      using destroy.IH unfolding balanced_def table_refs_def by auto
  next
    case (release s g h r i q t)
    then show ?case
      by (auto simp: releaseRuntimePayloadRef_def split: option.splits if_splits intro: balanced_erase)
  next
    case (release_all s g h r n t)
    then show ?case
      unfolding releaseRuntimePayloadRefsForRuntime_def by (blast intro: balanced_walk)
  qed
  then show ?thesis by (simp add: balanced_def)
qed

theorem payload_references_balance_witness:
  "\<exists>s. payload_run (\<lambda>_. []) s [8, 9] [] \<and> payloadRefs s 1 \<noteq> None \<and> incs 8 (log s) + 1 = decs 8 (log s) + table_refs 8 s"
proof -
  let ?s0 = "\<lparr>log = [], heapNext = 0, payloadRefs = Map.empty, nextPayloadRefId = 1,
      runtimes = Map.empty, nextRuntimeId = 1\<rparr> :: registry_state"
  have "alloc_nonzero (Map.empty :: u32 \<rightharpoonup> payload_entry) 1 = Some (1, 2)"
    by (simp add: alloc_nonzero_def)
  then obtain t where t: "registerRuntimePayloadRef 5 (Some 8) (Some 9) False ?s0 = (Ret 1, t)" "payloadRefs t 1 \<noteq> None"
    by (auto simp: registerRuntimePayloadRef_def add_payload_def)
  have run: "payload_run (\<lambda>_. []) t [8, 9] []"
    using hand_over [OF start t(1)] by simp
  from payload_references_balance [OF run, of 8] show ?thesis
    using run t(2) by auto
qed

end
