(* ===== verification/Kj_Wire.thy ===== *)
theory Kj_Wire
  imports World
begin

text \<open>
  The pure parts of \<^verbatim>\<open>ffi/kj_async_bridge.cpp\<close>: the text of an exception, header lists
  as bytes, HTTP methods and other tags, URLs, the encoding of a server request, and
  WebSocket messages. The four-byte integers are those of \<^verbatim>\<open>Wire.thy\<close>; this file has
  its own copy of the same two functions.
\<close>

section \<open>Exceptions\<close>

text \<open>
  The part of \<^verbatim>\<open>kj::Exception\<close> this file reads. A null pointer is \<open>None\<close>. Details are
  stored with the identifier they were set under.
\<close>

record kj_error =
  ke_type :: ex_type
  ke_file :: "string option"
  ke_line :: u32
  ke_description :: "string option"
  ke_details :: "(u64 \<times> bytes) list"

datatype kexn = KjError kj_error | StdError string | OtherError

text \<open>
  \<^verbatim>\<open>for (uint i = 0;; ++i)\<close> up to the first identifier without a detail. There are
  no more turns than details, which the fuel stands for.
\<close>

fun describe_details :: "nat \<Rightarrow> u32 \<Rightarrow> (u64 \<times> bytes) list \<Rightarrow> string" where
  "describe_details 0 i details = []"
| "describe_details (Suc fuel) i details = (case map_of details (ucast i) of
      None \<Rightarrow> []
    | Some detail \<Rightarrow> newline @ ''detail['' @ to_string i @ '']: '' @ bytes_as_chars detail @
        describe_details fuel (i + 1) details)"

definition kjDescribe :: "kj_error \<Rightarrow> string" where
  "kjDescribe e =
     (case ke_file e of None \<Rightarrow> [] | Some file \<Rightarrow> c_str file @ '':'' @ to_string (ke_line e) @ '': '') @
     (case ke_description e of None \<Rightarrow> ''(no description)'' | Some d \<Rightarrow> c_str d) @
     describe_details (Suc (length (ke_details e))) 0 (ke_details e)"

text \<open>\<^verbatim>\<open>kj::Exception(type, __FILE__, __LINE__, text)\<close>.\<close>

definition mk_kj_error :: "ex_type \<Rightarrow> string \<Rightarrow> kj_error" where
  "mk_kj_error t text = \<lparr>ke_type = t, ke_file = Some ''ffi/kj_async_bridge.cpp'', ke_line = 0,
     ke_description = Some text, ke_details = []\<rparr>"

section \<open>Lists of headers\<close>

type_synonym headers = "(string \<times> string) list"

definition chars_as_bytes :: "string \<Rightarrow> bytes" where
  "chars_as_bytes s = map (\<lambda>ch. word_of_nat (of_char ch)) s"

definition uint32_max :: nat where
  "uint32_max = 4294967295"

fun encode_fields :: "bytes \<Rightarrow> headers \<Rightarrow> string + bytes" where
  "encode_fields out [] = Inr out"
| "encode_fields out ((name, v) # kvs) =
     (if length name > uint32_max \<or> length v > uint32_max
      then Inl ''header field exceeds UInt32 size''
      else encode_fields
        (appendUint32Le (appendUint32Le out (of_nat (length name)) @ chars_as_bytes name) (of_nat (length v)) @
           chars_as_bytes v) kvs)"

definition encodeHeaderPairs :: "headers \<Rightarrow> string + bytes" where
  "encodeHeaderPairs hs = encode_fields (appendUint32Le [] (of_nat (length hs))) hs"

definition encodedEmptyHeaderPairs :: bytes where
  "encodedEmptyHeaderPairs = (case encodeHeaderPairs [] of Inr bs \<Rightarrow> bs | Inl _ \<Rightarrow> [])"

text \<open>The value read and the offset after it.\<close>

definition decodeUint32LeChecked :: "bytes \<Rightarrow> nat \<Rightarrow> string \<Rightarrow> string + u32 \<times> nat" where
  "decodeUint32LeChecked bs offset what =
     (if offset + 4 > length bs then Inl (''invalid '' @ what @ '': truncated uint32'')
      else Inr (readUint32Le (drop offset bs), offset + 4))"

text \<open>The next \<open>n\<close> bytes as a string, and the offset after them.\<close>

definition take_chars :: "bytes \<Rightarrow> nat \<Rightarrow> u32 \<Rightarrow> string \<Rightarrow> string + string \<times> nat" where
  "take_chars bs offset n what =
     (if offset + unat n > length bs then Inl (''invalid header list: truncated '' @ what)
      else Inr (bytes_as_chars (take (unat n) (drop offset bs)), offset + unat n))"

definition sum_bind :: "'e + 'a \<Rightarrow> ('a \<Rightarrow> 'e + 'b) \<Rightarrow> 'e + 'b" where
  "sum_bind m f = (case m of Inl e \<Rightarrow> Inl e | Inr a \<Rightarrow> f a)"

lemma sum_bind_simps [simp]: "sum_bind (Inr a) f = f a" "sum_bind (Inl e) f = Inl e"
  by (simp_all add: sum_bind_def)

definition decode_pair :: "bytes \<Rightarrow> nat \<Rightarrow> string + (string \<times> string) \<times> nat" where
  "decode_pair bs offset =
     sum_bind (decodeUint32LeChecked bs offset ''header name length'') (\<lambda>(nameSize, offset).
     sum_bind (take_chars bs offset nameSize ''header name'') (\<lambda>(name, offset).
     sum_bind (decodeUint32LeChecked bs offset ''header value length'') (\<lambda>(valueSize, offset).
     sum_bind (take_chars bs offset valueSize ''header value'') (\<lambda>(v, offset).
     Inr ((name, v), offset)))))"

fun decode_pairs :: "nat \<Rightarrow> bytes \<Rightarrow> nat \<Rightarrow> string + headers \<times> nat" where
  "decode_pairs 0 bs offset = Inr ([], offset)"
| "decode_pairs (Suc n) bs offset =
     sum_bind (decode_pair bs offset) (\<lambda>(kv, offset).
     sum_bind (decode_pairs n bs offset) (\<lambda>(kvs, offset). Inr (kv # kvs, offset)))"

text \<open>The memory reserved for the announced number of pairs is taken to be available.\<close>

definition decodeHeaderPairs :: "bytes \<Rightarrow> string + headers" where
  "decodeHeaderPairs bs =
     sum_bind (decodeUint32LeChecked bs 0 ''header list'') (\<lambda>(count, offset).
     sum_bind (decode_pairs (unat count) bs offset) (\<lambda>(out, offset).
     if offset \<noteq> length bs then Inl ''invalid header list: trailing bytes'' else Inr out))"

text \<open>\<^verbatim>\<open>applyHeadersFromPairs\<close> and \<^verbatim>\<open>captureHeaders\<close>: what reaches the header
  object, and what is read from one.\<close>

definition applyHeadersFromPairs :: "headers \<Rightarrow> headers" where
  "applyHeadersFromPairs pairs = map (\<lambda>(name, v). (c_str name, c_str v)) pairs"

definition captureHeaders :: "headers \<Rightarrow> headers" where
  "captureHeaders hs = map (\<lambda>(name, v). (c_str name, c_str v)) hs"

definition decodeUint32Array :: "bytes \<Rightarrow> string + u32 list" where
  "decodeUint32Array bs =
     (if length bs mod 4 \<noteq> 0 then Inl ''uint32 array payload must be a multiple of 4 bytes''
      else Inr (decode_caps_from bs 0))"

section \<open>Tags\<close>

datatype (plugins only: size code) http_method =
    GET | HEAD | POST | PUT | DELETE | PATCH | PURGE | OPTIONS | TRACE | COPY | LOCK | MKCOL
  | MOVE | PROPFIND | PROPPATCH | SEARCH | UNLOCK | ACL | REPORT | MKACTIVITY | CHECKOUT | MERGE
  | MSEARCH | NOTIFY | SUBSCRIBE | UNSUBSCRIBE | QUERY | BAN | UnsupportedMethod nat

definition decodeHttpMethod :: "u32 \<Rightarrow> string + http_method" where
  "decodeHttpMethod m =
     (if m = 0 then Inr GET else if m = 1 then Inr HEAD else if m = 2 then Inr POST
      else if m = 3 then Inr PUT else if m = 4 then Inr DELETE else if m = 5 then Inr PATCH
      else if m = 6 then Inr PURGE else if m = 7 then Inr OPTIONS else if m = 8 then Inr TRACE
      else if m = 9 then Inr COPY else if m = 10 then Inr LOCK else if m = 11 then Inr MKCOL
      else if m = 12 then Inr MOVE else if m = 13 then Inr PROPFIND else if m = 14 then Inr PROPPATCH
      else if m = 15 then Inr SEARCH else if m = 16 then Inr UNLOCK else if m = 17 then Inr ACL
      else if m = 18 then Inr REPORT else if m = 19 then Inr MKACTIVITY else if m = 20 then Inr CHECKOUT
      else if m = 21 then Inr MERGE else if m = 22 then Inr MSEARCH else if m = 23 then Inr NOTIFY
      else if m = 24 then Inr SUBSCRIBE else if m = 25 then Inr UNSUBSCRIBE else if m = 26 then Inr QUERY
      else if m = 27 then Inr BAN
      else Inl (''unknown HTTP method tag: '' @ to_string m))"

fun encodeHttpMethodTag :: "http_method \<Rightarrow> string + u32" where
  "encodeHttpMethodTag GET = Inr 0"
| "encodeHttpMethodTag HEAD = Inr 1"
| "encodeHttpMethodTag POST = Inr 2"
| "encodeHttpMethodTag PUT = Inr 3"
| "encodeHttpMethodTag DELETE = Inr 4"
| "encodeHttpMethodTag PATCH = Inr 5"
| "encodeHttpMethodTag PURGE = Inr 6"
| "encodeHttpMethodTag OPTIONS = Inr 7"
| "encodeHttpMethodTag TRACE = Inr 8"
| "encodeHttpMethodTag COPY = Inr 9"
| "encodeHttpMethodTag LOCK = Inr 10"
| "encodeHttpMethodTag MKCOL = Inr 11"
| "encodeHttpMethodTag MOVE = Inr 12"
| "encodeHttpMethodTag PROPFIND = Inr 13"
| "encodeHttpMethodTag PROPPATCH = Inr 14"
| "encodeHttpMethodTag SEARCH = Inr 15"
| "encodeHttpMethodTag UNLOCK = Inr 16"
| "encodeHttpMethodTag ACL = Inr 17"
| "encodeHttpMethodTag REPORT = Inr 18"
| "encodeHttpMethodTag MKACTIVITY = Inr 19"
| "encodeHttpMethodTag CHECKOUT = Inr 20"
| "encodeHttpMethodTag MERGE = Inr 21"
| "encodeHttpMethodTag MSEARCH = Inr 22"
| "encodeHttpMethodTag NOTIFY = Inr 23"
| "encodeHttpMethodTag SUBSCRIBE = Inr 24"
| "encodeHttpMethodTag UNSUBSCRIBE = Inr 25"
| "encodeHttpMethodTag QUERY = Inr 26"
| "encodeHttpMethodTag BAN = Inr 27"
| "encodeHttpMethodTag (UnsupportedMethod _) = Inl ''unsupported HTTP method in Capnp.KjAsync bridge''"

datatype tls_version = SSL_3 | TLS_1_0 | TLS_1_1 | TLS_1_2 | TLS_1_3

definition decodeTlsVersionTag :: "u32 \<Rightarrow> string + tls_version option" where
  "decodeTlsVersionTag tag =
     (if tag = 0 then Inr None else if tag = 1 then Inr (Some SSL_3)
      else if tag = 2 then Inr (Some TLS_1_0) else if tag = 3 then Inr (Some TLS_1_1)
      else if tag = 4 then Inr (Some TLS_1_2) else if tag = 5 then Inr (Some TLS_1_3)
      else Inl (''unknown TLS minVersion tag: '' @ to_string tag))"

datatype compression_mode = NO_COMPRESSION | MANUAL_COMPRESSION | AUTOMATIC_COMPRESSION

definition decodeWebSocketCompressionMode :: "u32 \<Rightarrow> string + compression_mode" where
  "decodeWebSocketCompressionMode tag =
     (if tag = 0 then Inr NO_COMPRESSION else if tag = 1 then Inr MANUAL_COMPRESSION
      else if tag = 2 then Inr AUTOMATIC_COMPRESSION
      else Inl (''unknown websocket compression mode tag: '' @ to_string tag))"

section \<open>Durations\<close>

definition int64_max :: nat where
  "int64_max = 9223372036854775807"

definition nanosToDuration :: "u64 \<Rightarrow> string \<Rightarrow> string + int" where
  "nanosToDuration nanos what =
     (if unat nanos > int64_max then Inl (what @ '' exceeds Int64 nanoseconds range'')
      else Inr (int (unat nanos)))"

text \<open>A sleep is cut to the range instead.\<close>

definition sleep_duration :: "u64 \<Rightarrow> int" where
  "sleep_duration delayNanos = int (min (unat delayNanos) int64_max)"

section \<open>URLs\<close>

definition buildUrl :: "string \<Rightarrow> string \<Rightarrow> u32 \<Rightarrow> string \<Rightarrow> string" where
  "buildUrl scheme address portHint path =
     (let host = (if CHR '':'' \<in> set address \<and>
               \<not> (length address \<ge> 2 \<and> hd address = CHR ''['' \<and> last address = CHR '']'')
             then ''['' @ address @ '']'' else address);
          normalizedPath = (if path = [] then ''/''
             else if hd path \<noteq> CHR ''/'' then CHR ''/'' # path else path)
      in if portHint = 0 then scheme @ ''://'' @ c_str host @ c_str normalizedPath
         else scheme @ ''://'' @ c_str host @ '':'' @ to_string portHint @ c_str normalizedPath)"

section \<open>Requests to a server\<close>

record http_server_request =
  rq_requestId :: u32
  rq_methodTag :: u32
  rq_webSocketRequested :: bool
  rq_path :: string
  rq_headers :: headers
  rq_body :: bytes
  rq_bodyHandle :: u32

definition encodeHttpServerRequest :: "http_server_request \<Rightarrow> string + bytes" where
  "encodeHttpServerRequest request =
     (if length (rq_path request) > uint32_max then Inl ''HTTP server request path exceeds UInt32 size''
      else sum_bind (encodeHeaderPairs (rq_headers request)) (\<lambda>headerBytes.
        if length headerBytes > uint32_max \<or> length (rq_body request) > uint32_max
        then Inl ''HTTP server request payload exceeds UInt32 size''
        else Inr
         (let out = appendUint32Le [] (rq_requestId request);
              out = appendUint32Le out (rq_methodTag request);
              out = appendUint32Le out (if rq_webSocketRequested request then 1 else 0);
              out = appendUint32Le out (of_nat (length (rq_path request))) @ chars_as_bytes (rq_path request);
              out = appendUint32Le out (of_nat (length headerBytes)) @ headerBytes;
              out = appendUint32Le out (of_nat (length (rq_body request))) @ rq_body request
          in appendUint32Le out (rq_bodyHandle request))))"

section \<open>WebSocket messages\<close>

datatype ws_message = WsText string | WsBinary bytes | WsClose u16 string

record ws_result =
  wm_tag :: u8
  wm_closeCode :: u16
  wm_text :: string
  wm_bytes :: bytes

fun decodeWebSocketMessage :: "ws_message \<Rightarrow> ws_result" where
  "decodeWebSocketMessage (WsText t) = \<lparr>wm_tag = 0, wm_closeCode = 0, wm_text = c_str t, wm_bytes = []\<rparr>"
| "decodeWebSocketMessage (WsBinary b) = \<lparr>wm_tag = 1, wm_closeCode = 0, wm_text = [], wm_bytes = b\<rparr>"
| "decodeWebSocketMessage (WsClose code reason) =
     \<lparr>wm_tag = 2, wm_closeCode = code, wm_text = c_str reason, wm_bytes = []\<rparr>"

end
