(* ===== verification/Kj_Wire_Facts.thy ===== *)
theory Kj_Wire_Facts
  imports Kj_Wire
begin

text \<open>
  Round trips of the byte formats of \<^verbatim>\<open>Kj_Wire.thy\<close>, and what its texts leave out.
\<close>

section \<open>Strings and bytes\<close>

lemma char_byte_char: "char_of (unat (word_of_nat (of_char ch) :: u8)) = ch"
  by (simp add: unat_of_nat)

lemma byte_char_byte: "word_of_nat (of_char (char_of (unat w))) = (w :: u8)"
proof -
  have "unat w < 256"
    using unsigned_less[of w] by simp
  then show ?thesis by simp
qed

lemma bytes_chars [simp]: "bytes_as_chars (chars_as_bytes s) = s"
  by (induction s) (simp_all add: bytes_as_chars_def chars_as_bytes_def char_byte_char)

lemma chars_bytes [simp]: "chars_as_bytes (bytes_as_chars b) = b"
  by (induction b) (simp_all add: bytes_as_chars_def chars_as_bytes_def byte_char_byte del: of_char_of)

lemma length_chars [simp]: "length (chars_as_bytes s) = length s" "length (bytes_as_chars b) = length b"
  by (simp_all add: bytes_as_chars_def chars_as_bytes_def)

section \<open>Reading what was appended\<close>

abbreviation le32 :: "u32 \<Rightarrow> bytes" where
  "le32 v \<equiv> appendUint32Le [] v"

lemma decode_le32: "decodeUint32LeChecked (p @ le32 v @ rest) (length p) what = Inr (v, length p + 4)"
  by (simp add: decodeUint32LeChecked_def read_append32)

lemma take_field:
  "n = unat m \<Longrightarrow> length c = n \<Longrightarrow>
   take_chars (p @ c @ rest) (length p) m what = Inr (bytes_as_chars c, length p + n)"
  by (simp add: take_chars_def)

lemma of_nat_len: "n \<le> uint32_max \<Longrightarrow> unat (of_nat n :: u32) = n"
  by (simp add: uint32_max_def unat_of_nat)

lemma u32_bound: "unat (x :: u32) \<le> uint32_max"
proof -
  have "unat x < 4294967296"
    using unsigned_less[of x] by simp
  then show ?thesis by (simp add: uint32_max_def)
qed

lemma decode_le32D:
  assumes "decodeUint32LeChecked bs offset what = Inr (v, offset')"
  shows "offset' = offset + 4" and "offset' \<le> length bs" and "take 4 (drop offset bs) = le32 v"
proof -
  show a: "offset' = offset + 4" "offset' \<le> length bs"
    using assms by (auto simp: decodeUint32LeChecked_def split: if_splits)
  have v: "v = readUint32Le (drop offset bs)"
    using assms by (auto simp: decodeUint32LeChecked_def split: if_splits)
  have "length (take 4 (drop offset bs)) = 4"
    using a by simp
  moreover have "readUint32Le (take 4 (drop offset bs)) = v"
    by (simp add: v readUint32Le_def)
  ultimately show "take 4 (drop offset bs) = le32 v"
    using append_read32 by metis
qed

lemma take_fieldD:
  assumes "take_chars bs offset m what = Inr (s, offset')"
  shows "offset' = offset + unat m" and "offset' \<le> length bs"
    and "chars_as_bytes s = take (unat m) (drop offset bs)" and "length s = unat m"
  using assms by (auto simp: take_chars_def split: if_splits)

section \<open>Header lists\<close>

definition field :: "string \<Rightarrow> bytes" where
  "field s = le32 (of_nat (length s)) @ chars_as_bytes s"

definition short :: "string \<times> string \<Rightarrow> bool" where
  "short kv \<longleftrightarrow> length (fst kv) \<le> uint32_max \<and> length (snd kv) \<le> uint32_max"

definition pair_bytes :: "string \<times> string \<Rightarrow> bytes" where
  "pair_bytes kv = field (fst kv) @ field (snd kv)"

lemma encode_fields_eq:
  "encode_fields out kvs = (if list_all short kvs then Inr (out @ concat (map pair_bytes kvs))
     else Inl ''header field exceeds UInt32 size'')"
proof (induction kvs arbitrary: out)
  case (Cons kv kvs)
  obtain name v where kv: "kv = (name, v)" by (cases kv)
  have acc: "appendUint32Le (appendUint32Le out (of_nat (length name)) @ chars_as_bytes name) (of_nat (length v)) @
      chars_as_bytes v = out @ pair_bytes kv"
    unfolding pair_bytes_def field_def kv fst_conv snd_conv
    by (subst (2) append32_acc, subst append32_acc) simp
  have "short kv \<longleftrightarrow> \<not> (length name > uint32_max \<or> length v > uint32_max)"
    by (auto simp: short_def kv)
  then show ?case
    unfolding kv encode_fields.simps acc[unfolded kv] Cons.IH by simp
qed simp

lemma encode_headers_eq:
  "encodeHeaderPairs hs = (if list_all short hs
     then Inr (le32 (of_nat (length hs)) @ concat (map pair_bytes hs))
     else Inl ''header field exceeds UInt32 size'')"
  by (simp add: encodeHeaderPairs_def encode_fields_eq)

lemma length_field [simp]: "length (field s) = 4 + length s"
  by (simp add: field_def)

lemma decode_one:
  assumes "short kv"
  shows "decode_pair (p @ pair_bytes kv @ rest) (length p) = Inr (kv, length p + length (pair_bytes kv))"
proof -
  obtain name v where kv: "kv = (name, v)" by (cases kv)
  define a b c where "a = p @ le32 (of_nat (length name))" and "b = a @ chars_as_bytes name"
    and "c = b @ le32 (of_nat (length v))"
  let ?bs = "p @ pair_bytes kv @ rest"
  note shapes = pair_bytes_def field_def kv a_def b_def c_def
  have s: "length name \<le> uint32_max" "length v \<le> uint32_max"
    using assms by (simp_all add: short_def kv)
  have 1: "decodeUint32LeChecked ?bs (length p) w = Inr (of_nat (length name), length a)" for w
    using decode_le32[of p "of_nat (length name)" "chars_as_bytes name @ field v @ rest" w]
    by (simp add: shapes)
  have 2: "take_chars ?bs (length a) (of_nat (length name)) w = Inr (name, length b)" for w
    using take_field[of "length name" "of_nat (length name)" "chars_as_bytes name" a "field v @ rest" w] s
    by (simp add: shapes of_nat_len)
  have 3: "decodeUint32LeChecked ?bs (length b) w = Inr (of_nat (length v), length c)" for w
    using decode_le32[of b "of_nat (length v)" "chars_as_bytes v @ rest" w]
    by (simp add: shapes)
  have 4: "take_chars ?bs (length c) (of_nat (length v)) w = Inr (v, length c + length v)" for w
    using take_field[of "length v" "of_nat (length v)" "chars_as_bytes v" c rest w] s
    by (simp add: shapes of_nat_len)
  have len: "length c + length v = length p + length (pair_bytes kv)"
    by (simp add: shapes)
  show ?thesis
    unfolding decode_pair_def by (simp add: 1 2 3 4 len) (simp add: kv)
qed

lemma decode_all:
  "list_all short kvs \<Longrightarrow> decode_pairs (length kvs) (p @ concat (map pair_bytes kvs)) (length p) =
     Inr (kvs, length p + length (concat (map pair_bytes kvs)))"
proof (induction kvs arbitrary: p)
  case (Cons kv kvs)
  have "decode_pair (p @ concat (map pair_bytes (kv # kvs))) (length p) = Inr (kv, length (p @ pair_bytes kv))"
    using decode_one[of kv p "concat (map pair_bytes kvs)"] Cons.prems by simp
  moreover have "decode_pairs (length kvs) (p @ concat (map pair_bytes (kv # kvs))) (length (p @ pair_bytes kv)) =
      Inr (kvs, length p + length (concat (map pair_bytes (kv # kvs))))"
    using Cons.IH[of "p @ pair_bytes kv"] Cons.prems by simp
  ultimately show ?case by simp
qed simp

lemma decode_pairD:
  assumes "decode_pair bs offset = Inr (kv, offset')"
  shows "short kv" and "offset \<le> offset'" and "offset' \<le> length bs"
    and "take (offset' - offset) (drop offset bs) = pair_bytes kv"
proof -
  obtain m a name b k c v where
    1: "decodeUint32LeChecked bs offset ''header name length'' = Inr (m, a)" and
    2: "take_chars bs a m ''header name'' = Inr (name, b)" and
    3: "decodeUint32LeChecked bs b ''header value length'' = Inr (k, c)" and
    4: "take_chars bs c k ''header value'' = Inr (v, offset')" and kv: "kv = (name, v)"
    using assms by (auto simp: decode_pair_def sum_bind_def split: sum.splits prod.splits)
  note d = decode_le32D[OF 1] take_fieldD[OF 2] decode_le32D[OF 3] take_fieldD[OF 4]
  show "short kv" and "offset \<le> offset'" and "offset' \<le> length bs"
    using d u32_bound[of m] u32_bound[of k] by (simp_all add: short_def kv)
  have n: "of_nat (length name) = m" "of_nat (length v) = k"
    using d by simp_all
  have "drop 4 (drop offset bs) = drop a bs" "drop (unat m) (drop a bs) = drop b bs"
    "drop 4 (drop b bs) = drop c bs"
    using d(1,4,8) by (simp_all add: add.commute)
  then have "take (4 + (unat m + (4 + unat k))) (drop offset bs) =
      take 4 (drop offset bs) @ take (unat m) (drop a bs) @ take 4 (drop b bs) @ take (unat k) (drop c bs)"
    by (simp only: take_add)
  moreover have "offset' - offset = 4 + (unat m + (4 + unat k))"
    using d(1,4,8,11) by simp
  ultimately show "take (offset' - offset) (drop offset bs) = pair_bytes kv"
    unfolding pair_bytes_def field_def kv fst_conv snd_conv n
    by (simp add: d(3,6,10,13))
qed

lemma decode_pairsD:
  "decode_pairs n bs offset = Inr (kvs, offset') \<Longrightarrow>
   length kvs = n \<and> list_all short kvs \<and> offset \<le> offset' \<and> (offset \<le> length bs \<longrightarrow> offset' \<le> length bs) \<and>
   take (offset' - offset) (drop offset bs) = concat (map pair_bytes kvs)"
proof (induction n arbitrary: offset kvs)
  case (Suc n)
  then obtain kv o1 rest where 1: "decode_pair bs offset = Inr (kv, o1)"
    and 2: "decode_pairs n bs o1 = Inr (rest, offset')" and kvs: "kvs = kv # rest"
    by (auto simp: sum_bind_def split: sum.splits prod.splits)
  note d = decode_pairD[OF 1] and ih = Suc.IH[OF 2]
  have "take ((o1 - offset) + (offset' - o1)) (drop offset bs) =
      take (o1 - offset) (drop offset bs) @ take (offset' - o1) (drop o1 bs)"
    using d(2) by (simp only: take_add drop_drop) simp
  moreover have "(o1 - offset) + (offset' - o1) = offset' - offset"
    using d ih by simp
  ultimately have "take (offset' - offset) (drop offset bs) =
      take (o1 - offset) (drop offset bs) @ take (offset' - o1) (drop o1 bs)"
    by simp
  then show ?case
    using d ih by (auto simp: kvs)
qed simp

lemma decode_headers_accepts:
  assumes "decodeHeaderPairs bs = Inr hs"
  shows "encodeHeaderPairs hs = Inr bs" and "length hs \<le> uint32_max"
proof -
  obtain count a b where 1: "decodeUint32LeChecked bs 0 ''header list'' = Inr (count, a)"
    and 2: "decode_pairs (unat count) bs a = Inr (hs, b)" and b: "b = length bs"
    using assms by (auto simp: decodeHeaderPairs_def sum_bind_def split: sum.splits prod.splits if_splits)
  note d = decode_le32D[OF 1] and ih = decode_pairsD[OF 2]
  have "bs = take 4 bs @ take (b - a) (drop 4 bs)"
    using d b by (simp del: d append_take_drop_id) (metis append_take_drop_id)
  then have "bs = le32 (of_nat (length hs)) @ concat (map pair_bytes hs)"
    using d ih by simp
  then show "encodeHeaderPairs hs = Inr bs"
    using ih by (simp add: encode_headers_eq)
  show "length hs \<le> uint32_max"
    using ih u32_bound[of count] by simp
qed

lemma decode_headers_encode:
  assumes "list_all short hs" and "length hs \<le> uint32_max"
  shows "decodeHeaderPairs (le32 (of_nat (length hs)) @ concat (map pair_bytes hs)) = Inr hs"
proof -
  let ?p = "le32 (of_nat (length hs))"
  have "decodeUint32LeChecked (?p @ concat (map pair_bytes hs)) 0 w = Inr (of_nat (length hs), length ?p)" for w
    using decode_le32[of "[]" "of_nat (length hs)" "concat (map pair_bytes hs)" w] by simp
  moreover have "decode_pairs (unat (of_nat (length hs) :: u32)) (?p @ concat (map pair_bytes hs)) (length ?p) =
      Inr (hs, length (?p @ concat (map pair_bytes hs)))"
    using decode_all[OF assms(1), of ?p] by (simp add: of_nat_len[OF assms(2)])
  ultimately show ?thesis
    by (simp add: decodeHeaderPairs_def)
qed

section \<open>The formats\<close>

text \<open>A header list that could be encoded is decoded to itself; the count is written
  modulo \<open>2^32\<close>, hence the bound.\<close>

theorem header_pairs_roundtrip:
  assumes "encodeHeaderPairs hs = Inr bs" and "length hs \<le> uint32_max"
  shows "decodeHeaderPairs bs = Inr hs"
  using assms decode_headers_encode[of hs] by (simp add: encode_headers_eq split: if_splits)

lemma header_pairs_roundtrip_witness:
  "decodeHeaderPairs (case encodeHeaderPairs [(''Host'', ''a''), ([], ''b'')] of Inr bs \<Rightarrow> bs | Inl _ \<Rightarrow> []) =
     Inr [(''Host'', ''a''), ([], ''b'')]"
  by (rule header_pairs_roundtrip) (simp_all add: encodeHeaderPairs_def uint32_max_def)

text \<open>C29. What the header decoder accepts is exactly the output of the encoder: no other bytes
  are taken for a header list, and nothing is left over.\<close>

theorem header_pairs_canonical:
  "decodeHeaderPairs bs = Inr hs \<longleftrightarrow> encodeHeaderPairs hs = Inr bs \<and> length hs \<le> uint32_max"
  using decode_headers_accepts[of bs hs] decode_headers_encode[of hs]
  by (auto simp: encode_headers_eq split: if_splits)

lemma http_method_tag_inverse: "encodeHttpMethodTag m = Inr tag \<Longrightarrow> decodeHttpMethod tag = Inr m"
  by (cases m) (auto simp: decodeHttpMethod_def)

text \<open>The two method tables are inverse to each other.\<close>

theorem http_method_tags: "decodeHttpMethod tag = Inr m \<longleftrightarrow> encodeHttpMethodTag m = Inr tag"
proof
  assume "decodeHttpMethod tag = Inr m"
  then show "encodeHttpMethodTag m = Inr tag"
    unfolding decodeHttpMethod_def by (auto split: if_splits)
qed (rule http_method_tag_inverse)

section \<open>Server requests\<close>

lemma le32_inj: "le32 v @ x = le32 w @ y \<longleftrightarrow> v = w \<and> x = y"
proof
  assume eq: "le32 v @ x = le32 w @ y"
  then have "v = w"
    using read_append32 by metis
  with eq show "v = w \<and> x = y" by simp
qed simp

lemma sized_inj:
  assumes "le32 (of_nat (length p)) @ p @ x = le32 (of_nat (length q)) @ q @ y"
    and "length p \<le> uint32_max" and "length q \<le> uint32_max"
  shows "p = q \<and> x = y"
proof -
  have "(of_nat (length p) :: u32) = of_nat (length q)" and rest: "p @ x = q @ y"
    using assms(1) by (simp_all add: le32_inj)
  then have "length p = length q"
    using of_nat_len assms(2,3) by metis
  with rest show ?thesis by simp
qed

lemma header_bytes_bound: "encodeHeaderPairs hs = Inr bs \<Longrightarrow> length hs \<le> length bs"
proof -
  have "length hs \<le> length (concat (map pair_bytes hs))"
    by (induction hs) (auto simp: pair_bytes_def)
  then show "encodeHeaderPairs hs = Inr bs \<Longrightarrow> length hs \<le> length bs"
    by (auto simp: encode_headers_eq split: if_splits)
qed

lemma encode_request_shape:
  assumes "encodeHttpServerRequest r = Inr bs"
  obtains hb where "encodeHeaderPairs (rq_headers r) = Inr hb" and "length hb \<le> uint32_max"
    and "length (rq_path r) \<le> uint32_max" and "length (rq_body r) \<le> uint32_max"
    and "bs = le32 (rq_requestId r) @ le32 (rq_methodTag r) @ le32 (if rq_webSocketRequested r then 1 else 0) @
      le32 (of_nat (length (chars_as_bytes (rq_path r)))) @ chars_as_bytes (rq_path r) @
      le32 (of_nat (length hb)) @ hb @ le32 (of_nat (length (rq_body r))) @ rq_body r @ le32 (rq_bodyHandle r)"
  using assms
  by (auto simp: encodeHttpServerRequest_def sum_bind_def Let_def appendUint32Le_def not_less split: if_splits sum.splits)

text \<open>C30. Two different requests never become the same bytes: what a server polls
  determines the request.\<close>

theorem server_request_injective:
  assumes "encodeHttpServerRequest r = Inr bs" and "encodeHttpServerRequest r' = Inr bs"
  shows "r = r'"
proof -
  obtain hb where h: "encodeHeaderPairs (rq_headers r) = Inr hb" "length hb \<le> uint32_max"
    and l: "length (rq_path r) \<le> uint32_max" "length (rq_body r) \<le> uint32_max" and
    bs: "bs = le32 (rq_requestId r) @ le32 (rq_methodTag r) @ le32 (if rq_webSocketRequested r then 1 else 0) @
      le32 (of_nat (length (chars_as_bytes (rq_path r)))) @ chars_as_bytes (rq_path r) @
      le32 (of_nat (length hb)) @ hb @ le32 (of_nat (length (rq_body r))) @ rq_body r @ le32 (rq_bodyHandle r)"
    by (rule encode_request_shape[OF assms(1)])
  obtain hb' where h': "encodeHeaderPairs (rq_headers r') = Inr hb'" "length hb' \<le> uint32_max"
    and l': "length (rq_path r') \<le> uint32_max" "length (rq_body r') \<le> uint32_max" and
    bs': "bs = le32 (rq_requestId r') @ le32 (rq_methodTag r') @ le32 (if rq_webSocketRequested r' then 1 else 0) @
      le32 (of_nat (length (chars_as_bytes (rq_path r')))) @ chars_as_bytes (rq_path r') @
      le32 (of_nat (length hb')) @ hb' @ le32 (of_nat (length (rq_body r'))) @ rq_body r' @ le32 (rq_bodyHandle r')"
    by (rule encode_request_shape[OF assms(2)])
  note eq = bs[unfolded bs', unfolded le32_inj]
  have 1: "rq_requestId r' = rq_requestId r" "rq_methodTag r' = rq_methodTag r"
    "rq_webSocketRequested r' = rq_webSocketRequested r"
    using eq by (simp_all split: if_splits)
  have 2: "chars_as_bytes (rq_path r') = chars_as_bytes (rq_path r) \<and>
      le32 (of_nat (length hb')) @ hb' @ le32 (of_nat (length (rq_body r'))) @ rq_body r' @ le32 (rq_bodyHandle r') =
      le32 (of_nat (length hb)) @ hb @ le32 (of_nat (length (rq_body r))) @ rq_body r @ le32 (rq_bodyHandle r)"
    by (rule sized_inj) (use eq l l' in simp_all)
  have 3: "hb' = hb \<and> le32 (of_nat (length (rq_body r'))) @ rq_body r' @ le32 (rq_bodyHandle r') =
      le32 (of_nat (length (rq_body r))) @ rq_body r @ le32 (rq_bodyHandle r)"
    by (rule sized_inj) (use 2 h h' in simp_all)
  have 4: "rq_body r' = rq_body r \<and> le32 (rq_bodyHandle r') = le32 (rq_bodyHandle r)"
    by (rule sized_inj) (use 3 l l' in simp_all)
  have 5: "rq_path r' = rq_path r"
    using 2 bytes_chars by metis
  have "rq_headers r' = rq_headers r"
  proof -
    have "length (rq_headers r) \<le> uint32_max" "length (rq_headers r') \<le> uint32_max"
      using header_bytes_bound[OF h(1)] header_bytes_bound[OF h'(1)] h(2) h'(2) by simp_all
    then have "decodeHeaderPairs hb = Inr (rq_headers r)" "decodeHeaderPairs hb' = Inr (rq_headers r')"
      using h h' by (auto simp: encode_headers_eq dest: decode_headers_encode split: if_splits)
    then show ?thesis
      using 3 by simp
  qed
  moreover have "rq_bodyHandle r' = rq_bodyHandle r"
    using 4 le32_inj[of "rq_bodyHandle r'" "[]" "rq_bodyHandle r" "[]"] by simp
  ultimately show ?thesis
    using 1 4 5 by simp
qed

definition demo_request :: http_server_request where
  "demo_request = \<lparr>rq_requestId = 7, rq_methodTag = 2, rq_webSocketRequested = False, rq_path = ''/x'',
     rq_headers = [(''Host'', ''a'')], rq_body = [1, 2], rq_bodyHandle = 3\<rparr>"

lemma server_request_injective_witness:
  "\<exists>bs. encodeHttpServerRequest demo_request = Inr bs \<and> (\<forall>r. encodeHttpServerRequest r = Inr bs \<longrightarrow> r = demo_request)"
proof -
  obtain bs where bs: "encodeHttpServerRequest demo_request = Inr bs"
    by (simp add: encodeHttpServerRequest_def demo_request_def encodeHeaderPairs_def uint32_max_def appendUint32Le_def)
  then show ?thesis
    using server_request_injective by blast
qed

section \<open>What the texts leave out\<close>

text \<open>
  \<^verbatim>\<open>getDetail\<close> is asked with 0, 1, 2, \dots although its argument is an identifier
  (the other bridge attaches the remote detail under 1): unless a detail has the identifier 0, none is shown.
\<close>

lemma details_not_shown:
  assumes "map_of (ke_details e) 0 = None" and "ke_file e = None" and "ke_description e = Some d"
  shows "kjDescribe e = c_str d"
  using assms by (simp add: kjDescribe_def)

text \<open>A text message is cut at its first null character.\<close>

lemma text_message_cut:
  "wm_text (decodeWebSocketMessage (WsText (s @ CHR 0x00 # t))) = wm_text (decodeWebSocketMessage (WsText s))"
  by (simp add: c_str_def takeWhile_append) (auto simp: takeWhile_eq_all_conv[THEN iffD2])

subsection \<open>The loop over details ends\<close>

lemma details_gap:
  fixes details :: "(u64 \<times> bytes) list"
  assumes "length details < 2 ^ 32"
  obtains m where "m \<le> length details" and "map_of details (ucast (of_nat m :: u32)) = None"
    and "\<forall>j < m. map_of details (ucast (of_nat j :: u32)) \<noteq> None"
proof -
  let ?key = "\<lambda>j :: nat. ucast (of_nat j :: u32) :: u64" and ?n = "Suc (length details)"
  have key: "unat (?key j) = j" if "j < ?n" for j
    using that assms by (simp add: unsigned_ucast_eq unat_of_nat take_bit_nat_eq_self)
  have inj: "inj_on ?key {..< ?n}"
    by (rule inj_on_inverseI[where g = unat]) (use key in auto)
  have "\<exists>j < ?n. map_of details (?key j) = None"
  proof (rule ccontr)
    assume "\<not> (\<exists>j < ?n. map_of details (?key j) = None)"
    then have "?key ` {..< ?n} \<subseteq> dom (map_of details)"
      by auto
    then have "card {..< ?n} \<le> card (dom (map_of details))"
      using inj by (metis card_image card_mono finite_dom_map_of)
    moreover have "card (dom (map_of details)) \<le> length details"
      by (metis card_length dom_map_of_conv_image_fst length_map set_map)
    ultimately show False by simp
  qed
  then obtain j where "j \<le> length details" "map_of details (?key j) = None"
    by (auto simp: less_Suc_eq_le)
  moreover from this(2) obtain m where "map_of details (?key m) = None"
    "\<forall>i < m. map_of details (?key i) \<noteq> None"
    using exists_least_iff[of "\<lambda>j. map_of details (?key j) = None"] by blast
  ultimately show thesis
    using that[of m] by (meson not_le order.trans order_less_imp_le)
qed

lemma describe_details_gap:
  "map_of details (ucast (of_nat m :: u32)) = None \<Longrightarrow> m < i + n \<Longrightarrow> m < i + k \<Longrightarrow> i \<le> m \<Longrightarrow>
   describe_details n (of_nat i) details = describe_details k (of_nat i) details"
proof (induction "m - i" arbitrary: i n k)
  case 0
  then have "i = m" by linarith
  moreover obtain n' k' where "n = Suc n'" "k = Suc k'"
    using 0 \<open>i = m\<close> by (cases n; cases k) simp_all
  ultimately show ?case
    using 0(2) by simp
next
  case (Suc d)
  obtain n' k' where n: "n = Suc n'" "k = Suc k'"
    using Suc.prems Suc.hyps(2) by (cases n; cases k) linarith+
  have "describe_details n' (of_nat (Suc i)) details = describe_details k' (of_nat (Suc i)) details"
    using Suc.prems Suc.hyps(2) unfolding n by (intro Suc.hyps(1)) linarith+
  moreover have "(of_nat (Suc i) :: u32) = of_nat i + 1" by simp
  ultimately show ?case
    unfolding n describe_details.simps by (simp only:)
qed

text \<open>More fuel than there are details makes no difference.\<close>

lemma describe_details_fuel:
  assumes "length details < 2 ^ 32" and "length details < n"
  shows "describe_details n 0 details = describe_details (Suc (length details)) 0 details"
proof -
  obtain m where "m \<le> length details" and "map_of details (ucast (of_nat m :: u32)) = None"
    by (rule details_gap[OF assms(1)])
  then show ?thesis
    using describe_details_gap[of details m 0 n "Suc (length details)"] assms(2) by simp
qed

end
