(* ===== verification/Kj_State.thy ===== *)
theory Kj_State
  imports Kj_Wire Ids
begin

text \<open>
  The state of \<^verbatim>\<open>KjAsyncRuntimeLoop\<close> in \<^verbatim>\<open>ffi/kj_async_bridge.cpp\<close>, its tables
  with their identifiers, and what its thread sees of KJ: calls with their answers, and
  promises that are waited for. While it waits, the event loop runs callbacks of this file
  (\<^verbatim>\<open>Kj_Events.thy\<close>).
\<close>

section \<open>KJ as the thread meets it\<close>

text \<open>
  Promises as the code composes them. \<open>KOp\<close> is one a KJ call returned; \<open>KContinued\<close> has a
  continuation that reads or writes the runtime's tables, kept in \<open>continuations\<close>.
\<close>

datatype kprom =
    KReady
  | KOp obj
  | KDelay int
  | KThen kprom kprom
  | KCatch kprom kprom
  | KJoin "kprom list"
  | KRace kprom kprom
  | KParseThenConnect obj
  | KHttpReply "bytes option" obj u64
  | KWebSocketReply obj obj
  | KContinued obj
  | KTimed kprom int

record pending =
  kp_promise :: kprom
  kp_canceler :: obj

record tls_options =
  tls_useSystemTrustStore :: bool
  tls_verifyClients :: bool
  tls_minVersion :: "tls_version option"
  tls_trustedCertificates :: string
  tls_certificateChain :: string
  tls_privateKey :: string
  tls_cipherList :: string
  tls_curveList :: string
  tls_acceptTimeout :: "int option"

record server_settings =
  ss_headerTimeout :: int
  ss_pipelineTimeout :: int
  ss_canceledUploadGracePeriod :: int
  ss_canceledUploadGraceBytes :: u64
  ss_webSocketCompressionMode :: compression_mode

text \<open>What a pending response is fulfilled with. The completion is a handle of the queue's.\<close>

datatype http_command =
    HttpCommand u32 string headers bytes
  | WebSocketCommand headers nat
  | StreamingCommand u32 string headers nat

datatype (plugins only: size code) kcall =
    KParseAddress string u32
  | KListen obj
  | KAccept obj
  | KConnect obj
  | KAddressToString obj
  | KAddressClone obj
  | KBindDatagramPort obj
  | KWrite obj bytes
  | KTryRead obj u32 u32
  | KShutdownWrite obj
  | KWhenWriteDisconnected obj
  | KAbortRead obj
  | KAbortWrite obj kj_error
  | KGetFd obj
  | KDup int
  | KWrapSocketFd int
  | KWrapListenSocketFd int
  | KWrapDatagramSocketFd int
  | KNewTwoWayPipe
  | KNewCapabilityPipe
  | KGetPort obj
  | KMakeReceiver obj u32
  | KReceive obj
  | KSend obj bytes obj
  | KCancel obj string
  | KCancelerRelease obj
  | KTaskAdd obj kprom
  | KTaskClear obj
  | KTaskIsEmpty obj
  | KTaskOnEmpty obj
  | KTlsCertificate string
  | KTlsPrivateKey string
  | KNewTlsContext tls_options
  | KWrapNetwork obj
  | KWrapPort obj obj
  | KNewHttpClient "obj option" "obj option"
  | KHttpRequest obj http_method string headers "u64 option"
  | KOpenWebSocket obj string headers
  | KSocketSendText obj string
  | KSocketSendBinary obj bytes
  | KSocketReceive obj u32
  | KSocketClose obj u16 string
  | KSocketDisconnect obj
  | KSocketAbort obj
  | KNewWebSocketPipe
  | KNewHttpServer server_settings
  | KListenHttp obj obj
  | KDrain obj
  | KFulfillCommand obj http_command
  | KFulfill obj
  | KReject obj kj_error
  | KDropStream obj
  | KAcceptWebSocket obj headers
  | KResponseSend obj u32 string headers "u64 option"
  | KWait kprom

section \<open>State\<close>

record runtime_task_set =
  rts_errorCount :: u32
  rts_lastError :: string
  rts_tasks :: obj

record runtime_web_socket =
  rws_owner :: "obj option"
  rws_requestCompletion :: "obj option"
  rws_socket :: obj

record runtime_http_body =
  rhb_owner :: obj
  rhb_stream :: obj

record server_request_body =
  srb_stream :: obj
  srb_serverId :: u32
  srb_requestId :: u32

record server_response_body =
  rsb_stream :: obj
  rsb_doneFulfiller :: obj
  rsb_serverId :: u32
  rsb_requestId :: u32

record http_server =
  hs_serverId :: u32
  hs_listener :: obj
  hs_server :: obj
  hs_listenPromiseId :: u32
  hs_nextRequestId :: u32
  hs_requestQueue :: "http_server_request list"
  hs_pendingResponses :: "u32 \<rightharpoonup> obj"

record http_result =
  res_statusCode :: u32
  res_statusText :: string
  res_headers :: bytes
  res_body :: bytes
  res_bodyHandle :: u32

text \<open>
  A continuation that has not run, or what it left behind: the send that was started, the
  response decoded, or the exception thrown.
\<close>

datatype continuation =
    SendWhenParsed u32 bytes
  | SendStarted obj
  | DecodeStreaming obj
  | StreamingDecoded http_result
  | ContinuationFailed kexn

text \<open>
  The promise \<^verbatim>\<open>RuntimeHttpService::request\<close> returned, while KJ holds it: the request
  body and the response live as long. \<open>or_command\<close> is set once its fulfiller was called and
  until the continuation runs.
\<close>

record open_request =
  or_serverId :: u32
  or_requestId :: u32
  or_fulfiller :: obj
  or_body :: obj
  or_response :: obj
  or_command :: "http_command option"

text \<open>
  \<open>klog\<close> is the calls made so far and \<open>kheap\<close> names the next object this code creates;
  \<open>openRequests\<close> and \<open>continuations\<close> are promises in KJ's hands; \<open>handled\<close> lists the
  completions answered by callbacks. The other fields are the members of the class.
\<close>

record kj_state =
  klog :: "kcall list"
  kheap :: nat
  nextPromiseId :: u32
  promises :: "u32 \<rightharpoonup> pending"
  retiredPromiseIds :: "u32 set"
  nextConnectionPromiseId :: u32
  connectionPromises :: "u32 \<rightharpoonup> pending"
  nextBytesPromiseId :: u32
  bytesPromises :: "u32 \<rightharpoonup> pending"
  nextUInt32PromiseId :: u32
  uint32Promises :: "u32 \<rightharpoonup> pending"
  nextDatagramReceivePromiseId :: u32
  datagramReceivePromises :: "u32 \<rightharpoonup> pending"
  nextHttpResponsePromiseId :: u32
  httpResponsePromises :: "u32 \<rightharpoonup> pending"
  nextWebSocketPromiseId :: u32
  webSocketPromises :: "u32 \<rightharpoonup> pending"
  nextWebSocketMessagePromiseId :: u32
  webSocketMessagePromises :: "u32 \<rightharpoonup> pending"
  nextListenerId :: u32
  listeners :: "u32 \<rightharpoonup> obj"
  nextNetworkAddressId :: u32
  networkAddresses :: "u32 \<rightharpoonup> obj"
  nextConnectionId :: u32
  connections :: "u32 \<rightharpoonup> obj"
  nextTaskSetId :: u32
  taskSets :: "u32 \<rightharpoonup> runtime_task_set"
  nextDatagramPortId :: u32
  datagramPorts :: "u32 \<rightharpoonup> obj"
  nextWebSocketId :: u32
  webSockets :: "u32 \<rightharpoonup> runtime_web_socket"
  nextHttpRequestBodyId :: u32
  httpRequestBodies :: "u32 \<rightharpoonup> runtime_http_body"
  nextHttpResponseBodyId :: u32
  httpResponseBodies :: "u32 \<rightharpoonup> runtime_http_body"
  nextHttpServerRequestBodyId :: u32
  httpServerRequestBodies :: "u32 \<rightharpoonup> server_request_body"
  nextHttpServerResponseBodyId :: u32
  httpServerResponseBodies :: "u32 \<rightharpoonup> server_response_body"
  nextHttpServerId :: u32
  httpServers :: "u32 \<rightharpoonup> http_server"
  tlsContext :: "obj option"
  tlsNetwork :: "obj option"
  openRequests :: "obj \<rightharpoonup> open_request"
  continuations :: "obj \<rightharpoonup> continuation"
  handled :: "(nat \<times> (string + u32)) list"

type_synonym 'a kop = "kj_state \<Rightarrow> (kexn, 'a) outcome \<times> kj_state"

text \<open>The state a runtime starts in.\<close>

definition kj_init :: kj_state where
  "kj_init = \<lparr>klog = [], kheap = 1,
     nextPromiseId = 1, promises = Map.empty, retiredPromiseIds = {},
     nextConnectionPromiseId = 1, connectionPromises = Map.empty,
     nextBytesPromiseId = 1, bytesPromises = Map.empty,
     nextUInt32PromiseId = 1, uint32Promises = Map.empty,
     nextDatagramReceivePromiseId = 1, datagramReceivePromises = Map.empty,
     nextHttpResponsePromiseId = 1, httpResponsePromises = Map.empty,
     nextWebSocketPromiseId = 1, webSocketPromises = Map.empty,
     nextWebSocketMessagePromiseId = 1, webSocketMessagePromises = Map.empty,
     nextListenerId = 1, listeners = Map.empty,
     nextNetworkAddressId = 1, networkAddresses = Map.empty,
     nextConnectionId = 1, connections = Map.empty,
     nextTaskSetId = 1, taskSets = Map.empty,
     nextDatagramPortId = 1, datagramPorts = Map.empty,
     nextWebSocketId = 1, webSockets = Map.empty,
     nextHttpRequestBodyId = 1, httpRequestBodies = Map.empty,
     nextHttpResponseBodyId = 1, httpResponseBodies = Map.empty,
     nextHttpServerRequestBodyId = 1, httpServerRequestBodies = Map.empty,
     nextHttpServerResponseBodyId = 1, httpServerResponseBodies = Map.empty,
     nextHttpServerId = 1, httpServers = Map.empty,
     tlsContext = None, tlsNetwork = None,
     openRequests = Map.empty, continuations = Map.empty, handled = []\<rparr>"

section \<open>Calls\<close>

definition ask :: "(kcall list \<Rightarrow> kcall \<Rightarrow> kexn + 'a) \<Rightarrow> kcall \<Rightarrow> 'a kop" where
  "ask f c s = (case f (klog s) c of
      Inl e \<Rightarrow> (Throw e, s\<lparr>klog := klog s @ [c]\<rparr>)
    | Inr a \<Rightarrow> (Ret a, s\<lparr>klog := klog s @ [c]\<rparr>))"

definition noting :: "kcall \<Rightarrow> unit kop" where
  "noting c s = (Ret (), s\<lparr>klog := klog s @ [c]\<rparr>)"

definition fresh :: "obj kop" where
  "fresh s = (Ret (kheap s), s\<lparr>kheap := kheap s + 1\<rparr>)"

definition lift_error :: "string + 'a \<Rightarrow> 'a kop" where
  "lift_error r s = (case r of Inl what \<Rightarrow> (Throw (StdError what), s) | Inr a \<Rightarrow> (Ret a, s))"

lemma noting_apply [outcome_simps, simp]: "noting c s = (Ret (), s\<lparr>klog := klog s @ [c]\<rparr>)"
  by (simp add: noting_def)

lemma fresh_apply [outcome_simps, simp]: "fresh s = (Ret (kheap s), s\<lparr>kheap := kheap s + 1\<rparr>)"
  by (simp add: fresh_def)

lemma lift_error_simps [outcome_simps, simp]:
  "lift_error (Inl what) s = (Throw (StdError what), s)" "lift_error (Inr a) s = (Ret a, s)"
  by (simp_all add: lift_error_def)

text \<open>\<^verbatim>\<open>throw std::runtime_error(what)\<close>, and the lookups that end in it.\<close>

definition fail :: "string \<Rightarrow> 'a kop" where
  "fail what = throw (StdError what)"

definition unknown_id :: "string \<Rightarrow> u32 \<Rightarrow> kexn" where
  "unknown_id what i = StdError (''unknown KJ '' @ what @ '' id: '' @ to_string i)"

section \<open>Identifiers\<close>

text \<open>
  The \<^verbatim>\<open>addX\<close> functions: the next free identifier and the entry under it.
\<close>

definition addPromise :: "pending \<Rightarrow> u32 kop" where
  "addPromise v s = (case alloc_id (promises s) (nextPromiseId s) of
      None \<Rightarrow> (Hang, s)
    | Some (i, n) \<Rightarrow> (Ret i, s\<lparr>nextPromiseId := n, retiredPromiseIds := retiredPromiseIds s - {i}, promises := (promises s)(i \<mapsto> v)\<rparr>))"

definition addConnectionPromise :: "pending \<Rightarrow> u32 kop" where
  "addConnectionPromise v s = (case alloc_id (connectionPromises s) (nextConnectionPromiseId s) of
      None \<Rightarrow> (Hang, s)
    | Some (i, n) \<Rightarrow> (Ret i, s\<lparr>nextConnectionPromiseId := n, connectionPromises := (connectionPromises s)(i \<mapsto> v)\<rparr>))"

definition addBytesPromise :: "pending \<Rightarrow> u32 kop" where
  "addBytesPromise v s = (case alloc_id (bytesPromises s) (nextBytesPromiseId s) of
      None \<Rightarrow> (Hang, s)
    | Some (i, n) \<Rightarrow> (Ret i, s\<lparr>nextBytesPromiseId := n, bytesPromises := (bytesPromises s)(i \<mapsto> v)\<rparr>))"

definition addUInt32Promise :: "pending \<Rightarrow> u32 kop" where
  "addUInt32Promise v s = (case alloc_id (uint32Promises s) (nextUInt32PromiseId s) of
      None \<Rightarrow> (Hang, s)
    | Some (i, n) \<Rightarrow> (Ret i, s\<lparr>nextUInt32PromiseId := n, uint32Promises := (uint32Promises s)(i \<mapsto> v)\<rparr>))"

definition addDatagramReceivePromise :: "pending \<Rightarrow> u32 kop" where
  "addDatagramReceivePromise v s = (case alloc_id (datagramReceivePromises s) (nextDatagramReceivePromiseId s) of
      None \<Rightarrow> (Hang, s)
    | Some (i, n) \<Rightarrow> (Ret i, s\<lparr>nextDatagramReceivePromiseId := n, datagramReceivePromises := (datagramReceivePromises s)(i \<mapsto> v)\<rparr>))"

definition addHttpResponsePromise :: "pending \<Rightarrow> u32 kop" where
  "addHttpResponsePromise v s = (case alloc_id (httpResponsePromises s) (nextHttpResponsePromiseId s) of
      None \<Rightarrow> (Hang, s)
    | Some (i, n) \<Rightarrow> (Ret i, s\<lparr>nextHttpResponsePromiseId := n, httpResponsePromises := (httpResponsePromises s)(i \<mapsto> v)\<rparr>))"

definition addWebSocketPromise :: "pending \<Rightarrow> u32 kop" where
  "addWebSocketPromise v s = (case alloc_id (webSocketPromises s) (nextWebSocketPromiseId s) of
      None \<Rightarrow> (Hang, s)
    | Some (i, n) \<Rightarrow> (Ret i, s\<lparr>nextWebSocketPromiseId := n, webSocketPromises := (webSocketPromises s)(i \<mapsto> v)\<rparr>))"

definition addWebSocketMessagePromise :: "pending \<Rightarrow> u32 kop" where
  "addWebSocketMessagePromise v s = (case alloc_id (webSocketMessagePromises s) (nextWebSocketMessagePromiseId s) of
      None \<Rightarrow> (Hang, s)
    | Some (i, n) \<Rightarrow> (Ret i, s\<lparr>nextWebSocketMessagePromiseId := n, webSocketMessagePromises := (webSocketMessagePromises s)(i \<mapsto> v)\<rparr>))"

definition addListener :: "obj \<Rightarrow> u32 kop" where
  "addListener v s = (case alloc_id (listeners s) (nextListenerId s) of
      None \<Rightarrow> (Hang, s)
    | Some (i, n) \<Rightarrow> (Ret i, s\<lparr>nextListenerId := n, listeners := (listeners s)(i \<mapsto> v)\<rparr>))"

definition addNetworkAddress :: "obj \<Rightarrow> u32 kop" where
  "addNetworkAddress v s = (case alloc_id (networkAddresses s) (nextNetworkAddressId s) of
      None \<Rightarrow> (Hang, s)
    | Some (i, n) \<Rightarrow> (Ret i, s\<lparr>nextNetworkAddressId := n, networkAddresses := (networkAddresses s)(i \<mapsto> v)\<rparr>))"

definition addConnection :: "obj \<Rightarrow> u32 kop" where
  "addConnection v s = (case alloc_id (connections s) (nextConnectionId s) of
      None \<Rightarrow> (Hang, s)
    | Some (i, n) \<Rightarrow> (Ret i, s\<lparr>nextConnectionId := n, connections := (connections s)(i \<mapsto> v)\<rparr>))"

definition addTaskSet :: "runtime_task_set \<Rightarrow> u32 kop" where
  "addTaskSet v s = (case alloc_id (taskSets s) (nextTaskSetId s) of
      None \<Rightarrow> (Hang, s)
    | Some (i, n) \<Rightarrow> (Ret i, s\<lparr>nextTaskSetId := n, taskSets := (taskSets s)(i \<mapsto> v)\<rparr>))"

definition addDatagramPort :: "obj \<Rightarrow> u32 kop" where
  "addDatagramPort v s = (case alloc_id (datagramPorts s) (nextDatagramPortId s) of
      None \<Rightarrow> (Hang, s)
    | Some (i, n) \<Rightarrow> (Ret i, s\<lparr>nextDatagramPortId := n, datagramPorts := (datagramPorts s)(i \<mapsto> v)\<rparr>))"

definition addWebSocket :: "runtime_web_socket \<Rightarrow> u32 kop" where
  "addWebSocket v s = (case alloc_id (webSockets s) (nextWebSocketId s) of
      None \<Rightarrow> (Hang, s)
    | Some (i, n) \<Rightarrow> (Ret i, s\<lparr>nextWebSocketId := n, webSockets := (webSockets s)(i \<mapsto> v)\<rparr>))"

definition addHttpServer :: "http_server \<Rightarrow> u32 kop" where
  "addHttpServer v s = (case alloc_id (httpServers s) (nextHttpServerId s) of
      None \<Rightarrow> (Hang, s)
    | Some (i, n) \<Rightarrow> (Ret i, s\<lparr>nextHttpServerId := n, httpServers := (httpServers s)(i \<mapsto> v)\<rparr>))"

definition addHttpRequestBody :: "runtime_http_body \<Rightarrow> u32 kop" where
  "addHttpRequestBody v s = (case alloc_id (httpRequestBodies s) (nextHttpRequestBodyId s) of
      None \<Rightarrow> (Hang, s)
    | Some (i, n) \<Rightarrow> (Ret i, s\<lparr>nextHttpRequestBodyId := n, httpRequestBodies := (httpRequestBodies s)(i \<mapsto> v)\<rparr>))"

definition addHttpResponseBody :: "runtime_http_body \<Rightarrow> u32 kop" where
  "addHttpResponseBody v s = (case alloc_id (httpResponseBodies s) (nextHttpResponseBodyId s) of
      None \<Rightarrow> (Hang, s)
    | Some (i, n) \<Rightarrow> (Ret i, s\<lparr>nextHttpResponseBodyId := n, httpResponseBodies := (httpResponseBodies s)(i \<mapsto> v)\<rparr>))"

definition addHttpServerRequestBody :: "server_request_body \<Rightarrow> u32 kop" where
  "addHttpServerRequestBody v s = (case alloc_id (httpServerRequestBodies s) (nextHttpServerRequestBodyId s) of
      None \<Rightarrow> (Hang, s)
    | Some (i, n) \<Rightarrow> (Ret i, s\<lparr>nextHttpServerRequestBodyId := n, httpServerRequestBodies := (httpServerRequestBodies s)(i \<mapsto> v)\<rparr>))"

definition addHttpServerResponseBody :: "server_response_body \<Rightarrow> u32 kop" where
  "addHttpServerResponseBody v s = (case alloc_id (httpServerResponseBodies s) (nextHttpServerResponseBodyId s) of
      None \<Rightarrow> (Hang, s)
    | Some (i, n) \<Rightarrow> (Ret i, s\<lparr>nextHttpServerResponseBodyId := n, httpServerResponseBodies := (httpServerResponseBodies s)(i \<mapsto> v)\<rparr>))"

section \<open>The tables as instances of the interface\<close>

interpretation kj_promises: id_table promises nextPromiseId addPromise
  by unfold_locales (auto simp: addPromise_def)

interpretation kj_connection_promises: id_table connectionPromises nextConnectionPromiseId addConnectionPromise
  by unfold_locales (auto simp: addConnectionPromise_def)

interpretation kj_bytes_promises: id_table bytesPromises nextBytesPromiseId addBytesPromise
  by unfold_locales (auto simp: addBytesPromise_def)

interpretation kj_uint32_promises: id_table uint32Promises nextUInt32PromiseId addUInt32Promise
  by unfold_locales (auto simp: addUInt32Promise_def)

interpretation kj_datagram_promises: id_table datagramReceivePromises nextDatagramReceivePromiseId addDatagramReceivePromise
  by unfold_locales (auto simp: addDatagramReceivePromise_def)

interpretation kj_http_promises: id_table httpResponsePromises nextHttpResponsePromiseId addHttpResponsePromise
  by unfold_locales (auto simp: addHttpResponsePromise_def)

interpretation kj_socket_promises: id_table webSocketPromises nextWebSocketPromiseId addWebSocketPromise
  by unfold_locales (auto simp: addWebSocketPromise_def)

interpretation kj_message_promises: id_table webSocketMessagePromises nextWebSocketMessagePromiseId addWebSocketMessagePromise
  by unfold_locales (auto simp: addWebSocketMessagePromise_def)

interpretation kj_listeners: id_table listeners nextListenerId addListener
  by unfold_locales (auto simp: addListener_def)

interpretation kj_addresses: id_table networkAddresses nextNetworkAddressId addNetworkAddress
  by unfold_locales (auto simp: addNetworkAddress_def)

interpretation kj_connections: id_table connections nextConnectionId addConnection
  by unfold_locales (auto simp: addConnection_def)

interpretation kj_task_sets: id_table taskSets nextTaskSetId addTaskSet
  by unfold_locales (auto simp: addTaskSet_def)

interpretation kj_ports: id_table datagramPorts nextDatagramPortId addDatagramPort
  by unfold_locales (auto simp: addDatagramPort_def)

interpretation kj_sockets: id_table webSockets nextWebSocketId addWebSocket
  by unfold_locales (auto simp: addWebSocket_def)

interpretation kj_servers: id_table httpServers nextHttpServerId addHttpServer
  by unfold_locales (auto simp: addHttpServer_def)

interpretation kj_request_bodies: id_table httpRequestBodies nextHttpRequestBodyId addHttpRequestBody
  by unfold_locales (auto simp: addHttpRequestBody_def)

interpretation kj_response_bodies: id_table httpResponseBodies nextHttpResponseBodyId addHttpResponseBody
  by unfold_locales (auto simp: addHttpResponseBody_def)

interpretation kj_server_request_bodies: id_table httpServerRequestBodies nextHttpServerRequestBodyId addHttpServerRequestBody
  by unfold_locales (auto simp: addHttpServerRequestBody_def)

interpretation kj_server_response_bodies: id_table httpServerResponseBodies nextHttpServerResponseBodyId addHttpServerResponseBody
  by unfold_locales (auto simp: addHttpServerResponseBody_def)

end
