(* ===== verification/Kj_Events.thy ===== *)
theory Kj_Events
  imports Kj_State
begin

text \<open>
  What runs while the thread of \<^verbatim>\<open>KjAsyncRuntimeLoop\<close> waits: the HTTP service
  handler \<^verbatim>\<open>RuntimeHttpService::request\<close> with its continuation and clean-up, the
  continuations that read the runtime's tables, and the error handler of task sets; and the
  waits themselves.
\<close>

section \<open>What KJ answers\<close>

text \<open>
  A reply to an HTTP request, and to a WebSocket upgrade: the status, the text, the headers
  (none for a null pointer) and the body's stream or the socket.
\<close>

record http_reply =
  rep_statusCode :: u32
  rep_statusText :: string
  rep_headers :: "headers option"
  rep_body :: "obj option"

datatype socket_reply =
    UpgradedSocket u32 obj
  | RefusedBody u32 "kexn + string"

datatype kj_event =
    RequestArrives u32 http_method string headers bool obj obj
  | CommandRuns obj
  | RequestEnds obj
  | AddressParsed obj obj
  | ReplyArrives obj http_reply
  | TaskFails obj kj_error

text \<open>
  The answers to calls, by their type; \<open>turns\<close> is the callbacks that run during a wait, and
  \<open>wait_\<close> what the promise then yields, or \<open>None\<close> when it never does. All may depend on all
  the calls made so far. \<open>table_walk\<close> is the order in which the keys with a property are met in a walk over a
  hash table.
\<close>

record kenv =
  k_obj :: "kcall list \<Rightarrow> kcall \<Rightarrow> kexn + obj"
  k_pair :: "kcall list \<Rightarrow> kcall \<Rightarrow> kexn + obj \<times> obj"
  k_int :: "kcall list \<Rightarrow> kcall \<Rightarrow> kexn + int"
  k_fd :: "kcall list \<Rightarrow> kcall \<Rightarrow> kexn + int option"
  k_bool :: "kcall list \<Rightarrow> kcall \<Rightarrow> kexn + bool"
  k_uint :: "kcall list \<Rightarrow> kcall \<Rightarrow> kexn + u32"
  k_string :: "kcall list \<Rightarrow> kcall \<Rightarrow> kexn + string"
  k_done :: "kcall list \<Rightarrow> kcall \<Rightarrow> kexn + unit"
  k_request :: "kcall list \<Rightarrow> kcall \<Rightarrow> kexn + obj option \<times> obj"
  turns :: "kcall list \<Rightarrow> kprom \<Rightarrow> kj_event list"
  wait_unit :: "kcall list \<Rightarrow> kprom \<Rightarrow> (kexn + unit) option"
  wait_obj :: "kcall list \<Rightarrow> kprom \<Rightarrow> (kexn + obj) option"
  wait_optional :: "kcall list \<Rightarrow> kprom \<Rightarrow> (kexn + obj option) option"
  wait_bytes :: "kcall list \<Rightarrow> kprom \<Rightarrow> (kexn + bytes) option"
  wait_size :: "kcall list \<Rightarrow> kprom \<Rightarrow> (kexn + u64) option"
  wait_datagram :: "kcall list \<Rightarrow> kprom \<Rightarrow> (kexn + string \<times> bytes) option"
  wait_reply :: "kcall list \<Rightarrow> kprom \<Rightarrow> (kexn + http_reply \<times> bytes) option"
  wait_socket :: "kcall list \<Rightarrow> kprom \<Rightarrow> (kexn + socket_reply) option"
  wait_message :: "kcall list \<Rightarrow> kprom \<Rightarrow> (kexn + ws_message) option"
  wait_failure :: "kcall list \<Rightarrow> kprom \<Rightarrow> kexn option"
  table_walk :: "(u32 \<Rightarrow> bool) \<Rightarrow> u32 list"

section \<open>Bodies of server requests\<close>

definition releaseHttpServerRequestBodiesForRequest :: "u32 \<Rightarrow> u32 \<Rightarrow> unit kop" where
  "releaseHttpServerRequestBodiesForRequest serverId requestId = modify (\<lambda>s.
     s\<lparr>httpServerRequestBodies := (\<lambda>i. case httpServerRequestBodies s i of
        Some b \<Rightarrow> if srb_serverId b = serverId \<and> srb_requestId b = requestId then None else Some b
      | None \<Rightarrow> None)\<rparr>)"

text \<open>\<open>ids\<close> is what the first loop collects; each body loses its stream and its
  \<^verbatim>\<open>doneFulfiller\<close> is rejected.\<close>

definition reject_body :: "string \<Rightarrow> u32 \<Rightarrow> unit kop" where
  "reject_body text i s = (case httpServerResponseBodies s i of
      None \<Rightarrow> ret () s
    | Some b \<Rightarrow> sq (modify (\<lambda>s. s\<lparr>httpServerResponseBodies := (httpServerResponseBodies s)(i := None)\<rparr>))
        (sq (noting (KDropStream (rsb_stream b)))
        (noting (KReject (rsb_doneFulfiller b) (mk_kj_error DISCONNECTED text)))) s)"

definition response_body_ids :: "kenv \<Rightarrow> (server_response_body \<Rightarrow> bool) \<Rightarrow> kj_state \<Rightarrow> u32 list" where
  "response_body_ids K P s =
     table_walk K (\<lambda>i. case httpServerResponseBodies s i of None \<Rightarrow> False | Some b \<Rightarrow> P b)"

definition releaseHttpServerResponseBodiesForRequest :: "kenv \<Rightarrow> u32 \<Rightarrow> u32 \<Rightarrow> unit kop" where
  "releaseHttpServerResponseBodiesForRequest K serverId requestId s =
     for_each (reject_body ''HTTP server response stream released'')
       (response_body_ids K (\<lambda>b. rsb_serverId b = serverId \<and> rsb_requestId b = requestId) s) s"

definition releaseHttpServerBodiesForServer :: "kenv \<Rightarrow> u32 \<Rightarrow> unit kop" where
  "releaseHttpServerBodiesForServer K serverId =
     sq (modify (\<lambda>s. s\<lparr>httpServerRequestBodies := (\<lambda>i. case httpServerRequestBodies s i of
          Some b \<Rightarrow> if srb_serverId b = serverId then None else Some b
        | None \<Rightarrow> None)\<rparr>))
     (\<lambda>s. for_each (reject_body ''HTTP server released while streaming response'')
        (response_body_ids K (\<lambda>b. rsb_serverId b = serverId) s) s)"

section \<open>The HTTP service\<close>

text \<open>
  \<^verbatim>\<open>RuntimeHttpService::request\<close> up to its return. A second response pending under
  the same identifier is not stored: its fulfiller is dropped.
\<close>

definition request :: "u32 \<Rightarrow> http_method \<Rightarrow> string \<Rightarrow> headers \<Rightarrow> bool \<Rightarrow> obj \<Rightarrow> obj \<Rightarrow> unit kop" where
  "request server method url hs isWebSocket requestBody response s = (case httpServers s server of
      None \<Rightarrow> ret () s
    | Some st \<Rightarrow>
      bnd (lift_error (encodeHttpMethodTag method)) (\<lambda>methodTag.
      let requestId = hs_nextRequestId st in
      sq (modify (\<lambda>s. s\<lparr>httpServers := (httpServers s)(server \<mapsto> st\<lparr>hs_nextRequestId := requestId + 1\<rparr>)\<rparr>))
      (bnd (addHttpServerRequestBody \<lparr>srb_stream = requestBody, srb_serverId = hs_serverId st,
          srb_requestId = requestId\<rparr>) (\<lambda>bodyHandle.
       bnd fresh (\<lambda>fulfiller.
       bnd fresh (\<lambda>promise.
       modify (\<lambda>s. s\<lparr>
         httpServers := (httpServers s)(server \<mapsto> st\<lparr>hs_nextRequestId := requestId + 1,
           hs_pendingResponses := (case hs_pendingResponses st requestId of
              None \<Rightarrow> (hs_pendingResponses st)(requestId \<mapsto> fulfiller)
            | Some _ \<Rightarrow> hs_pendingResponses st),
           hs_requestQueue := hs_requestQueue st @
             [\<lparr>rq_requestId = requestId, rq_methodTag = methodTag, rq_webSocketRequested = isWebSocket,
               rq_path = c_str url, rq_headers = captureHeaders hs, rq_body = [], rq_bodyHandle = bodyHandle\<rparr>]\<rparr>),
         openRequests := (openRequests s)(promise \<mapsto>
           \<lparr>or_serverId = hs_serverId st, or_requestId = requestId, or_fulfiller = fulfiller,
            or_body = requestBody, or_response = response, or_command = None\<rparr>)\<rparr>)))))) s)"

text \<open>\<^verbatim>\<open>fulfill(command)\<close>: without effect when the promise is gone.\<close>

definition fulfill_command :: "obj \<Rightarrow> http_command \<Rightarrow> unit kop" where
  "fulfill_command f command =
     sq (noting (KFulfillCommand f command))
     (modify (\<lambda>s. s\<lparr>openRequests := (\<lambda>p. map_option (\<lambda>r.
        if or_fulfiller r = f then r\<lparr>or_command := Some command\<rparr> else r) (openRequests s p))\<rparr>))"

definition kexn_text :: "string \<Rightarrow> kexn \<Rightarrow> string" where
  "kexn_text unknown e = (case e of KjError x \<Rightarrow> kjDescribe x | StdError what \<Rightarrow> what | OtherError \<Rightarrow> unknown)"

definition answer_handle :: "nat \<Rightarrow> string + u32 \<Rightarrow> unit kop" where
  "answer_handle h r = modify (\<lambda>s. s\<lparr>handled := handled s @ [(h, r)]\<rparr>)"

text \<open>A \<^verbatim>\<open>try\<close> whose handlers answer the completion and throw again.\<close>

definition answering_handle :: "nat \<Rightarrow> string \<Rightarrow> u32 kop \<Rightarrow> unit kop" where
  "answering_handle h unknown m s = (case m s of
      (Ret i, t) \<Rightarrow> answer_handle h (Inr i) t
    | (Throw e, t) \<Rightarrow> sq (answer_handle h (Inl (kexn_text unknown e))) (throw e) t
    | (Hang, t) \<Rightarrow> (Hang, t))"

text \<open>The continuation of the response promise.\<close>

fun run_command :: "kenv \<Rightarrow> open_request \<Rightarrow> http_command \<Rightarrow> unit kop" where
  "run_command K r (WebSocketCommand hs h) =
     answering_handle h ''unknown exception in websocket accept''
       (bnd (ask (k_obj K) (KAcceptWebSocket (or_response r) (applyHeadersFromPairs hs))) (\<lambda>socket.
        bnd fresh (\<lambda>requestDone.
        addWebSocket \<lparr>rws_owner = None, rws_requestCompletion = Some requestDone, rws_socket = socket\<rparr>)))"
| "run_command K r (StreamingCommand statusCode statusText hs h) =
     answering_handle h ''unknown exception in http streaming respond''
       (bnd (ask (k_obj K) (KResponseSend (or_response r) statusCode (c_str statusText)
            (applyHeadersFromPairs hs) None)) (\<lambda>output.
        bnd fresh (\<lambda>doneFulfiller.
        addHttpServerResponseBody \<lparr>rsb_stream = output, rsb_doneFulfiller = doneFulfiller,
          rsb_serverId = or_serverId r, rsb_requestId = or_requestId r\<rparr>)))"
| "run_command K r (HttpCommand statusCode statusText hs body) =
     bnd (ask (k_obj K) (KResponseSend (or_response r) statusCode (c_str statusText)
         (applyHeadersFromPairs hs) (Some (of_nat (length body))))) (\<lambda>output.
     if body = [] then ret () else sq (ask (k_obj K) (KWrite output body)) (ret ()))"

definition command_runs :: "kenv \<Rightarrow> obj \<Rightarrow> unit kop" where
  "command_runs K p s = (case openRequests s p of
      Some r \<Rightarrow> (case or_command r of
        Some command \<Rightarrow>
          sq (modify (\<lambda>s. s\<lparr>openRequests := (openRequests s)(p \<mapsto> r\<lparr>or_command := None\<rparr>)\<rparr>))
          (run_command K r command) s
      | None \<Rightarrow> ret () s)
    | None \<Rightarrow> ret () s)"

text \<open>The promise is destroyed: finished, failed, or dropped by KJ. \<^verbatim>\<open>cleanup\<close> runs.\<close>

definition request_ends :: "kenv \<Rightarrow> obj \<Rightarrow> unit kop" where
  "request_ends K p s = (case openRequests s p of
      None \<Rightarrow> ret () s
    | Some r \<Rightarrow>
        sq (modify (\<lambda>s. s\<lparr>openRequests := (openRequests s)(p := None)\<rparr>))
        (sq (releaseHttpServerRequestBodiesForRequest (or_serverId r) (or_requestId r))
        (releaseHttpServerResponseBodiesForRequest K (or_serverId r) (or_requestId r))) s)"

section \<open>Continuations\<close>

definition finish_continuation :: "obj \<Rightarrow> continuation kop \<Rightarrow> unit kop" where
  "finish_continuation k m s = (case m s of
      (Ret c, t) \<Rightarrow> (Ret (), t\<lparr>continuations := (continuations t)(k \<mapsto> c)\<rparr>)
    | (Throw e, t) \<Rightarrow> (Ret (), t\<lparr>continuations := (continuations t)(k \<mapsto> ContinuationFailed e)\<rparr>)
    | (Hang, t) \<Rightarrow> (Hang, t))"

text \<open>The lambda of \<^verbatim>\<open>datagramSendStart\<close>: the port is looked up again.\<close>

definition send_parsed :: "kenv \<Rightarrow> u32 \<Rightarrow> bytes \<Rightarrow> obj \<Rightarrow> continuation kop" where
  "send_parsed K portId bs addr =
     bnd (find_or datagramPorts portId (unknown_id ''datagram port'' portId)) (\<lambda>port.
     bnd (ask (k_obj K) (KSend port bs addr)) (\<lambda>p. ret (SendStarted p)))"

definition decodeStreamingHttpResponse :: "http_reply \<Rightarrow> obj \<Rightarrow> http_result kop" where
  "decodeStreamingHttpResponse response owner =
     bnd (case rep_headers response of None \<Rightarrow> ret []
          | Some hs \<Rightarrow> lift_error (encodeHeaderPairs (captureHeaders hs))) (\<lambda>hs.
     case rep_body response of
       None \<Rightarrow> fail ''HTTP response missing body stream''
     | Some body \<Rightarrow>
         bnd (addHttpResponseBody \<lparr>rhb_owner = owner, rhb_stream = body\<rparr>) (\<lambda>bodyHandle.
         ret \<lparr>res_statusCode = rep_statusCode response, res_statusText = c_str (rep_statusText response),
              res_headers = hs, res_body = [], res_bodyHandle = bodyHandle\<rparr>))"

definition address_parsed :: "kenv \<Rightarrow> obj \<Rightarrow> obj \<Rightarrow> unit kop" where
  "address_parsed K k addr s = (case continuations s k of
      Some (SendWhenParsed portId bs) \<Rightarrow> finish_continuation k (send_parsed K portId bs addr) s
    | _ \<Rightarrow> ret () s)"

definition reply_arrives :: "obj \<Rightarrow> http_reply \<Rightarrow> unit kop" where
  "reply_arrives k response s = (case continuations s k of
      Some (DecodeStreaming owner) \<Rightarrow> finish_continuation k
        (bnd (decodeStreamingHttpResponse response owner) (\<lambda>r. ret (StreamingDecoded r))) s
    | _ \<Rightarrow> ret () s)"

section \<open>Task sets\<close>

text \<open>\<^verbatim>\<open>ErrorHandler::taskFailed\<close> of the set whose tasks are \<open>tasks\<close>.\<close>

definition kjTaskFailed :: "obj \<Rightarrow> kj_error \<Rightarrow> unit kop" where
  "kjTaskFailed tasks e = modify (\<lambda>s. s\<lparr>taskSets := (\<lambda>i. map_option (\<lambda>t.
     if rts_tasks t = tasks
     then t\<lparr>rts_errorCount := rts_errorCount t + 1, rts_lastError := kjDescribe e\<rparr> else t)
     (taskSets s i))\<rparr>)"

section \<open>The event loop\<close>

text \<open>What a callback throws rejects a promise of KJ's.\<close>

definition swallow :: "unit kop \<Rightarrow> unit kop" where
  "swallow m s = (case m s of (Throw e, t) \<Rightarrow> (Ret (), t) | r \<Rightarrow> r)"

fun callback :: "kenv \<Rightarrow> kj_event \<Rightarrow> unit kop" where
  "callback K (RequestArrives server method url hs isWebSocket body response) =
     request server method url hs isWebSocket body response"
| "callback K (CommandRuns p) = command_runs K p"
| "callback K (RequestEnds p) = request_ends K p"
| "callback K (AddressParsed k addr) = address_parsed K k addr"
| "callback K (ReplyArrives k response) = reply_arrives k response"
| "callback K (TaskFails tasks e) = kjTaskFailed tasks e"

definition run_callbacks :: "kenv \<Rightarrow> kprom \<Rightarrow> unit kop" where
  "run_callbacks K p s =
     for_each (\<lambda>e. swallow (callback K e)) (turns K (klog s) p) (s\<lparr>klog := klog s @ [KWait p]\<rparr>)"

text \<open>\<^verbatim>\<open>promise.wait(waitScope)\<close>; \<open>f\<close> is the field of the environment for its type.\<close>

definition waiting_for :: "kenv \<Rightarrow> (kcall list \<Rightarrow> kprom \<Rightarrow> (kexn + 'a) option) \<Rightarrow> kprom \<Rightarrow> 'a kop" where
  "waiting_for K f p = sq (run_callbacks K p) (\<lambda>s. case f (klog s) p of
      None \<Rightarrow> (Hang, s)
    | Some (Inl e) \<Rightarrow> (Throw e, s)
    | Some (Inr a) \<Rightarrow> (Ret a, s))"

end
