(* ===== verification/Kj_Promises.thy ===== *)
theory Kj_Promises
  imports Kj_Events
begin

text \<open>
  The promises of \<^verbatim>\<open>KjAsyncRuntimeLoop\<close>: combinators on the unit promises, task
  sets, and awaiting, cancelling and releasing the promises of each type. A unit promise
  that was taken leaves its identifier behind in \<open>retiredPromiseIds\<close>.
\<close>

section \<open>Unit promises\<close>

definition unknown_promise :: "u32 \<Rightarrow> kexn" where
  "unknown_promise i = unknown_id ''promise'' i"

definition consumed_promise :: "u32 \<Rightarrow> kexn" where
  "consumed_promise i = StdError (''KJ promise id already consumed or released: '' @ to_string i)"

text \<open>\<^verbatim>\<open>kj::heap<kj::Canceler>()\<close>, the promise wrapped with it, and the table entry.\<close>

definition wrap_promise :: "(pending \<Rightarrow> u32 kop) \<Rightarrow> kprom \<Rightarrow> u32 kop" where
  "wrap_promise add p = bnd fresh (\<lambda>canceler. add \<lparr>kp_promise = p, kp_canceler = canceler\<rparr>)"

definition retire_promise :: "u32 \<Rightarrow> kj_state \<Rightarrow> kj_state" where
  "retire_promise i s = s\<lparr>promises := (promises s)(i := None),
     retiredPromiseIds := insert i (retiredPromiseIds s)\<rparr>"

text \<open>How the combinators take a promise out of the table.\<close>

definition take_promise :: "u32 \<Rightarrow> kprom kop" where
  "take_promise i s = (case promises s i of
      None \<Rightarrow> throw (if i \<in> retiredPromiseIds s then consumed_promise i else unknown_promise i) s
    | Some pending \<Rightarrow> sq (modify (retire_promise i))
        (sq (noting (KCancelerRelease (kp_canceler pending))) (ret (kp_promise pending))) s)"

fun take_promises :: "u32 list \<Rightarrow> kprom list kop" where
  "take_promises [] s = (Ret [], s)"
| "take_promises (i # is) s = bnd (take_promise i) (\<lambda>p. bnd (take_promises is) (\<lambda>ps. ret (p # ps))) s"

definition promiseAllStart :: "u32 list \<Rightarrow> u32 kop" where
  "promiseAllStart promiseIds = bnd (take_promises promiseIds) (\<lambda>ps. wrap_promise addPromise (KJoin ps))"

fun race_promises :: "kprom \<Rightarrow> u32 list \<Rightarrow> kprom kop" where
  "race_promises raced [] s = (Ret raced, s)"
| "race_promises raced (i # is) s = bnd (take_promise i) (\<lambda>p. race_promises (KRace raced p) is) s"

definition promiseRaceStart :: "u32 list \<Rightarrow> u32 kop" where
  "promiseRaceStart promiseIds = (case promiseIds of
      [] \<Rightarrow> fail ''promiseRaceStart requires at least one promise id''
    | i # is \<Rightarrow> bnd (take_promise i) (\<lambda>p. bnd (race_promises p is) (wrap_promise addPromise)))"

definition promiseThenStart :: "u32 \<Rightarrow> u32 \<Rightarrow> u32 kop" where
  "promiseThenStart firstPromiseId secondPromiseId =
     bnd (take_promise firstPromiseId) (\<lambda>first.
     bnd (take_promise secondPromiseId) (\<lambda>second.
     wrap_promise addPromise (KThen first second)))"

definition promiseCatchStart :: "u32 \<Rightarrow> u32 \<Rightarrow> u32 kop" where
  "promiseCatchStart promiseId fallbackPromiseId =
     bnd (take_promise promiseId) (\<lambda>first.
     bnd (take_promise fallbackPromiseId) (\<lambda>fallback.
     wrap_promise addPromise (KCatch first fallback)))"

text \<open>The clamped sleep of the run loop.\<close>

definition sleepNanosStart :: "u64 \<Rightarrow> u32 kop" where
  "sleepNanosStart delayNanos = wrap_promise addPromise (KDelay (sleep_duration delayNanos))"

definition awaitPromise :: "kenv \<Rightarrow> u32 \<Rightarrow> unit kop" where
  "awaitPromise K i s = (case promises s i of
      None \<Rightarrow> if i \<in> retiredPromiseIds s then ret () s else throw (unknown_promise i) s
    | Some pending \<Rightarrow> sq (modify (retire_promise i)) (waiting_for K (wait_unit K) (kp_promise pending)) s)"

definition cancelPromise :: "u32 \<Rightarrow> unit kop" where
  "cancelPromise i s = (case promises s i of
      None \<Rightarrow> if i \<in> retiredPromiseIds s then ret () s else throw (unknown_promise i) s
    | Some pending \<Rightarrow> noting (KCancel (kp_canceler pending) ''Capnp.KjAsync promise canceled from Lean'') s)"

definition releasePromise :: "u32 \<Rightarrow> unit kop" where
  "releasePromise i s = (case promises s i of
      None \<Rightarrow> if i \<in> retiredPromiseIds s then ret () s else throw (unknown_promise i) s
    | Some _ \<Rightarrow> modify (retire_promise i) s)"

section \<open>Task sets\<close>

definition taskSetNew :: "u32 kop" where
  "taskSetNew = bnd fresh (\<lambda>tasks. addTaskSet \<lparr>rts_errorCount = 0, rts_lastError = [], rts_tasks = tasks\<rparr>)"

definition taskSetRelease :: "u32 \<Rightarrow> unit kop" where
  "taskSetRelease i s =
     (if taskSets s i = None then throw (unknown_id ''task set'' i) s
      else (Ret (), s\<lparr>taskSets := (taskSets s)(i := None)\<rparr>))"

definition find_task_set :: "u32 \<Rightarrow> runtime_task_set kop" where
  "find_task_set i = find_or taskSets i (unknown_id ''task set'' i)"

text \<open>Unlike the combinators it tells no consumed identifier from an unknown one.\<close>

definition taskSetAddPromise :: "u32 \<Rightarrow> u32 \<Rightarrow> unit kop" where
  "taskSetAddPromise taskSetId promiseId =
     bnd (find_task_set taskSetId) (\<lambda>t.
     bnd (find_or promises promiseId (unknown_promise promiseId)) (\<lambda>pending.
     sq (modify (retire_promise promiseId))
     (sq (noting (KCancelerRelease (kp_canceler pending)))
     (noting (KTaskAdd (rts_tasks t) (kp_promise pending))))))"

definition taskSetClear :: "kenv \<Rightarrow> u32 \<Rightarrow> unit kop" where
  "taskSetClear K i = bnd (find_task_set i) (\<lambda>t. ask (k_done K) (KTaskClear (rts_tasks t)))"

definition taskSetIsEmpty :: "kenv \<Rightarrow> u32 \<Rightarrow> bool kop" where
  "taskSetIsEmpty K i = bnd (find_task_set i) (\<lambda>t. ask (k_bool K) (KTaskIsEmpty (rts_tasks t)))"

text \<open>\<^verbatim>\<open>onEmpty()\<close> may refuse a second caller.\<close>

definition taskSetOnEmptyStart :: "kenv \<Rightarrow> u32 \<Rightarrow> u32 kop" where
  "taskSetOnEmptyStart K i =
     bnd (find_task_set i) (\<lambda>t.
     bnd fresh (\<lambda>canceler.
     bnd (ask (k_obj K) (KTaskOnEmpty (rts_tasks t))) (\<lambda>p.
     addPromise \<lparr>kp_promise = KOp p, kp_canceler = canceler\<rparr>)))"

definition taskSetErrorCount :: "u32 \<Rightarrow> u32 kop" where
  "taskSetErrorCount i = bnd (find_task_set i) (\<lambda>t. ret (rts_errorCount t))"

definition taskSetTakeLastError :: "u32 \<Rightarrow> string option kop" where
  "taskSetTakeLastError i =
     bnd (find_task_set i) (\<lambda>t.
     if rts_lastError t = [] then ret None
     else sq (modify (\<lambda>s. s\<lparr>taskSets := (taskSets s)(i \<mapsto> t\<lparr>rts_lastError := []\<rparr>)\<rparr>))
          (ret (Some (rts_lastError t))))"

section \<open>Promises of the other types\<close>

text \<open>Here the identifier of a promise that was taken is unknown again.\<close>

definition take_pending :: "(kj_state \<Rightarrow> u32 \<rightharpoonup> pending) \<Rightarrow> (u32 \<Rightarrow> kj_state \<Rightarrow> kj_state) \<Rightarrow> string \<Rightarrow> u32
    \<Rightarrow> pending kop" where
  "take_pending tbl del what i =
     bnd (find_or tbl i (unknown_id what i)) (\<lambda>pending. sq (modify (del i)) (ret pending))"

definition cancel_pending :: "(kj_state \<Rightarrow> u32 \<rightharpoonup> pending) \<Rightarrow> string \<Rightarrow> u32 \<Rightarrow> unit kop" where
  "cancel_pending tbl what i =
     bnd (find_or tbl i (unknown_id what i)) (\<lambda>pending.
     noting (KCancel (kp_canceler pending) (''Capnp.KjAsync '' @ what @ '' canceled from Lean'')))"

definition takeConnectionPromise :: "u32 \<Rightarrow> pending kop" where
  "takeConnectionPromise = take_pending connectionPromises
     (\<lambda>i s. s\<lparr>connectionPromises := (connectionPromises s)(i := None)\<rparr>) ''connection promise''"

definition awaitConnectionPromise :: "kenv \<Rightarrow> u32 \<Rightarrow> u32 kop" where
  "awaitConnectionPromise K i =
     bnd (takeConnectionPromise i) (\<lambda>pending.
     bnd (waiting_for K (wait_obj K) (kp_promise pending)) addConnection)"

definition awaitConnectionPromiseWithTimeout :: "kenv \<Rightarrow> u32 \<Rightarrow> u64 \<Rightarrow> u32 option kop" where
  "awaitConnectionPromiseWithTimeout K i timeoutNanos =
     (if timeoutNanos = 0 then bnd (awaitConnectionPromise K i) (\<lambda>c. ret (Some c))
      else
       bnd (takeConnectionPromise i) (\<lambda>pending.
       bnd (lift_error (nanosToDuration timeoutNanos ''connection promise timeout'')) (\<lambda>timeout.
       bnd (waiting_for K (wait_optional K) (KTimed (kp_promise pending) timeout)) (\<lambda>result.
       case result of
         Some stream \<Rightarrow> bnd (addConnection stream) (\<lambda>c. ret (Some c))
       | None \<Rightarrow> sq (noting (KCancel (kp_canceler pending)
           ''Capnp.KjAsync connection promise timed out from Lean awaitWithTimeout'')) (ret None)))))"

definition cancelConnectionPromise :: "u32 \<Rightarrow> unit kop" where
  "cancelConnectionPromise = cancel_pending connectionPromises ''connection promise''"

definition releaseConnectionPromise :: "u32 \<Rightarrow> unit kop" where
  "releaseConnectionPromise i = sq (takeConnectionPromise i) (ret ())"

definition takeBytesPromise :: "u32 \<Rightarrow> pending kop" where
  "takeBytesPromise = take_pending bytesPromises
     (\<lambda>i s. s\<lparr>bytesPromises := (bytesPromises s)(i := None)\<rparr>) ''bytes promise''"

definition awaitBytesPromise :: "kenv \<Rightarrow> u32 \<Rightarrow> bytes kop" where
  "awaitBytesPromise K i =
     bnd (takeBytesPromise i) (\<lambda>pending.
     waiting_for K (wait_bytes K) (kp_promise pending))"

definition cancelBytesPromise :: "u32 \<Rightarrow> unit kop" where
  "cancelBytesPromise = cancel_pending bytesPromises ''bytes promise''"

definition releaseBytesPromise :: "u32 \<Rightarrow> unit kop" where
  "releaseBytesPromise i = sq (takeBytesPromise i) (ret ())"

text \<open>
  A send runs its continuation in the event loop; if that has not happened, the promise can
  only have failed before. The byte count is checked against 32 bits.
\<close>

definition continuation_failure :: "kenv \<Rightarrow> kprom \<Rightarrow> 'a kop" where
  "continuation_failure K p s = (case wait_failure K (klog s) p of None \<Rightarrow> (Hang, s) | Some e \<Rightarrow> (Throw e, s))"

definition sent_count :: "u64 \<Rightarrow> string + u32" where
  "sent_count sent = (if unat sent > uint32_max then Inl ''datagram send byte count exceeds UInt32 range''
     else Inr (ucast sent))"

definition wait_sent :: "kenv \<Rightarrow> kprom \<Rightarrow> u64 kop" where
  "wait_sent K p = sq (run_callbacks K p) (\<lambda>s. case p of
      KContinued k \<Rightarrow> (case continuations s k of
        Some (SendStarted q) \<Rightarrow> waiting_for K (wait_size K) (KOp q) s
      | Some (ContinuationFailed e) \<Rightarrow> throw e s
      | _ \<Rightarrow> continuation_failure K p s)
    | _ \<Rightarrow> continuation_failure K p s)"

definition takeUInt32Promise :: "u32 \<Rightarrow> pending kop" where
  "takeUInt32Promise = take_pending uint32Promises
     (\<lambda>i s. s\<lparr>uint32Promises := (uint32Promises s)(i := None)\<rparr>) ''UInt32 promise''"

definition awaitUInt32Promise :: "kenv \<Rightarrow> u32 \<Rightarrow> u32 kop" where
  "awaitUInt32Promise K i =
     bnd (takeUInt32Promise i) (\<lambda>pending.
     bnd (wait_sent K (kp_promise pending)) (\<lambda>sent. lift_error (sent_count sent)))"

definition cancelUInt32Promise :: "u32 \<Rightarrow> unit kop" where
  "cancelUInt32Promise = cancel_pending uint32Promises ''UInt32 promise''"

definition releaseUInt32Promise :: "u32 \<Rightarrow> unit kop" where
  "releaseUInt32Promise i = sq (takeUInt32Promise i) (ret ())"

definition takeDatagramReceivePromise :: "u32 \<Rightarrow> pending kop" where
  "takeDatagramReceivePromise = take_pending datagramReceivePromises
     (\<lambda>i s. s\<lparr>datagramReceivePromises := (datagramReceivePromises s)(i := None)\<rparr>) ''datagram receive promise''"

definition awaitDatagramReceivePromise :: "kenv \<Rightarrow> u32 \<Rightarrow> (string \<times> bytes) kop" where
  "awaitDatagramReceivePromise K i =
     bnd (takeDatagramReceivePromise i) (\<lambda>pending.
     bnd (waiting_for K (wait_datagram K) (kp_promise pending)) (\<lambda>(source, content).
     ret (c_str source, content)))"

definition cancelDatagramReceivePromise :: "u32 \<Rightarrow> unit kop" where
  "cancelDatagramReceivePromise = cancel_pending datagramReceivePromises ''datagram receive promise''"

definition releaseDatagramReceivePromise :: "u32 \<Rightarrow> unit kop" where
  "releaseDatagramReceivePromise i = sq (takeDatagramReceivePromise i) (ret ())"

text \<open>
  \<^verbatim>\<open>readHttpResponse\<close>: the reply with its whole body. The test of the status code
  against 32 bits never fails, \<^verbatim>\<open>kj::uint\<close> being that wide.
\<close>

definition readHttpResponse :: "http_reply \<Rightarrow> bytes \<Rightarrow> string + http_result" where
  "readHttpResponse response body =
     sum_bind (case rep_headers response of None \<Rightarrow> Inr []
        | Some hs \<Rightarrow> encodeHeaderPairs (captureHeaders hs)) (\<lambda>hs.
     Inr \<lparr>res_statusCode = rep_statusCode response, res_statusText = c_str (rep_statusText response),
          res_headers = hs, res_body = body, res_bodyHandle = 0\<rparr>)"

definition wait_response :: "kenv \<Rightarrow> kprom \<Rightarrow> http_result kop" where
  "wait_response K p = (case p of
      KContinued k \<Rightarrow> sq (run_callbacks K p) (\<lambda>s. case continuations s k of
        Some (StreamingDecoded r) \<Rightarrow> ret r s
      | Some (ContinuationFailed e) \<Rightarrow> throw e s
      | _ \<Rightarrow> continuation_failure K p s)
    | _ \<Rightarrow> bnd (waiting_for K (wait_reply K) p) (\<lambda>(response, body).
        lift_error (readHttpResponse response body)))"

definition takeHttpResponsePromise :: "u32 \<Rightarrow> pending kop" where
  "takeHttpResponsePromise = take_pending httpResponsePromises
     (\<lambda>i s. s\<lparr>httpResponsePromises := (httpResponsePromises s)(i := None)\<rparr>) ''HTTP response promise''"

definition awaitHttpResponsePromise :: "kenv \<Rightarrow> u32 \<Rightarrow> http_result kop" where
  "awaitHttpResponsePromise K i =
     bnd (takeHttpResponsePromise i) (\<lambda>pending.
     wait_response K (kp_promise pending))"

definition cancelHttpResponsePromise :: "u32 \<Rightarrow> unit kop" where
  "cancelHttpResponsePromise = cancel_pending httpResponsePromises ''HTTP response promise''"

definition releaseHttpResponsePromise :: "u32 \<Rightarrow> unit kop" where
  "releaseHttpResponsePromise i = sq (takeHttpResponsePromise i) (ret ())"

text \<open>\<^verbatim>\<open>decodeWebSocketResponse\<close>.\<close>

definition decodeWebSocketResponse :: "obj \<Rightarrow> socket_reply \<Rightarrow> runtime_web_socket kop" where
  "decodeWebSocketResponse owner response = (case response of
      UpgradedSocket statusCode socket \<Rightarrow>
        if statusCode \<noteq> 101 then fail (''websocket connect failed with status '' @ to_string statusCode)
        else ret \<lparr>rws_owner = Some owner, rws_requestCompletion = None, rws_socket = socket\<rparr>
    | RefusedBody statusCode body \<Rightarrow>
        if statusCode \<noteq> 101
        then (case body of Inl e \<Rightarrow> throw e
          | Inr text \<Rightarrow> fail (''websocket connect failed with status '' @ to_string statusCode @ '': '' @ c_str text))
        else fail ''websocket connect returned HTTP body instead of websocket upgrade'')"

definition wait_web_socket :: "kenv \<Rightarrow> kprom \<Rightarrow> runtime_web_socket kop" where
  "wait_web_socket K p = bnd (waiting_for K (wait_socket K) p) (\<lambda>response.
     case p of KWebSocketReply q owner \<Rightarrow> decodeWebSocketResponse owner response
     | _ \<Rightarrow> throw OtherError)"

definition takeWebSocketPromise :: "u32 \<Rightarrow> pending kop" where
  "takeWebSocketPromise = take_pending webSocketPromises
     (\<lambda>i s. s\<lparr>webSocketPromises := (webSocketPromises s)(i := None)\<rparr>) ''websocket promise''"

definition awaitWebSocketPromise :: "kenv \<Rightarrow> u32 \<Rightarrow> u32 kop" where
  "awaitWebSocketPromise K i =
     bnd (takeWebSocketPromise i) (\<lambda>pending.
     bnd (wait_web_socket K (kp_promise pending)) addWebSocket)"

definition cancelWebSocketPromise :: "u32 \<Rightarrow> unit kop" where
  "cancelWebSocketPromise = cancel_pending webSocketPromises ''websocket promise''"

definition releaseWebSocketPromise :: "u32 \<Rightarrow> unit kop" where
  "releaseWebSocketPromise i = sq (takeWebSocketPromise i) (ret ())"

definition takeWebSocketMessagePromise :: "u32 \<Rightarrow> pending kop" where
  "takeWebSocketMessagePromise = take_pending webSocketMessagePromises
     (\<lambda>i s. s\<lparr>webSocketMessagePromises := (webSocketMessagePromises s)(i := None)\<rparr>) ''websocket message promise''"

definition awaitWebSocketMessagePromise :: "kenv \<Rightarrow> u32 \<Rightarrow> ws_result kop" where
  "awaitWebSocketMessagePromise K i =
     bnd (takeWebSocketMessagePromise i) (\<lambda>pending.
     bnd (waiting_for K (wait_message K) (kp_promise pending)) (\<lambda>m.
     ret (decodeWebSocketMessage m)))"

definition cancelWebSocketMessagePromise :: "u32 \<Rightarrow> unit kop" where
  "cancelWebSocketMessagePromise = cancel_pending webSocketMessagePromises ''websocket message promise''"

definition releaseWebSocketMessagePromise :: "u32 \<Rightarrow> unit kop" where
  "releaseWebSocketMessagePromise i = sq (takeWebSocketMessagePromise i) (ret ())"

end
