(* ===== verification/Kj_Net.thy ===== *)
theory Kj_Net
  imports Kj_Promises
begin

text \<open>
  Listeners, network addresses, connections, file descriptors, pipes and datagram ports of
  \<^verbatim>\<open>KjAsyncRuntimeLoop\<close>, as built for a platform other than Windows.
\<close>

section \<open>Lookups\<close>

definition find_listener :: "u32 \<Rightarrow> obj kop" where
  "find_listener i = find_or listeners i (unknown_id ''listener'' i)"

definition find_address :: "u32 \<Rightarrow> obj kop" where
  "find_address i = find_or networkAddresses i (unknown_id ''network address'' i)"

definition find_connection :: "u32 \<Rightarrow> obj kop" where
  "find_connection i = find_or connections i (unknown_id ''connection'' i)"

definition find_port :: "u32 \<Rightarrow> obj kop" where
  "find_port i = find_or datagramPorts i (unknown_id ''datagram port'' i)"

section \<open>Listeners and addresses\<close>

definition resolve_address :: "kenv \<Rightarrow> string \<Rightarrow> u32 \<Rightarrow> obj kop" where
  "resolve_address K address portHint =
     bnd (ask (k_obj K) (KParseAddress (c_str address) portHint)) (\<lambda>p. waiting_for K (wait_obj K) (KOp p))"

definition listen :: "kenv \<Rightarrow> string \<Rightarrow> u32 \<Rightarrow> u32 kop" where
  "listen K address portHint =
     bnd (resolve_address K address portHint) (\<lambda>addr.
     bnd (ask (k_obj K) (KListen addr)) addListener)"

definition releaseListener :: "u32 \<Rightarrow> unit kop" where
  "releaseListener i = sq (find_listener i) (modify (\<lambda>s. s\<lparr>listeners := (listeners s)(i := None)\<rparr>))"

definition accept :: "kenv \<Rightarrow> u32 \<Rightarrow> u32 kop" where
  "accept K i =
     bnd (find_listener i) (\<lambda>listener.
     bnd (ask (k_obj K) (KAccept listener)) (\<lambda>p.
     bnd (waiting_for K (wait_obj K) (KOp p)) addConnection))"

definition acceptStart :: "kenv \<Rightarrow> u32 \<Rightarrow> u32 kop" where
  "acceptStart K i =
     bnd (find_listener i) (\<lambda>listener.
     bnd fresh (\<lambda>canceler.
     bnd (ask (k_obj K) (KAccept listener)) (\<lambda>p.
     addConnectionPromise \<lparr>kp_promise = KOp p, kp_canceler = canceler\<rparr>)))"

definition connect :: "kenv \<Rightarrow> string \<Rightarrow> u32 \<Rightarrow> u32 kop" where
  "connect K address portHint =
     bnd (resolve_address K address portHint) (\<lambda>addr.
     bnd (ask (k_obj K) (KConnect addr)) (\<lambda>p.
     bnd (waiting_for K (wait_obj K) (KOp p)) addConnection))"

definition connectStart :: "kenv \<Rightarrow> string \<Rightarrow> u32 \<Rightarrow> u32 kop" where
  "connectStart K address portHint =
     bnd fresh (\<lambda>canceler.
     bnd (ask (k_obj K) (KParseAddress (c_str address) portHint)) (\<lambda>p.
     addConnectionPromise \<lparr>kp_promise = KParseThenConnect p, kp_canceler = canceler\<rparr>))"

definition parseAddress :: "kenv \<Rightarrow> string \<Rightarrow> u32 \<Rightarrow> u32 kop" where
  "parseAddress K address portHint = bnd (resolve_address K address portHint) addNetworkAddress"

definition releaseNetworkAddress :: "u32 \<Rightarrow> unit kop" where
  "releaseNetworkAddress i =
     sq (find_address i) (modify (\<lambda>s. s\<lparr>networkAddresses := (networkAddresses s)(i := None)\<rparr>))"

definition networkAddressToString :: "kenv \<Rightarrow> u32 \<Rightarrow> string option kop" where
  "networkAddressToString K i =
     bnd (find_address i) (\<lambda>addr.
     bnd (ask (k_string K) (KAddressToString addr)) (\<lambda>text. ret (Some (c_str text))))"

definition networkAddressClone :: "kenv \<Rightarrow> u32 \<Rightarrow> u32 kop" where
  "networkAddressClone K i =
     bnd (find_address i) (\<lambda>addr. bnd (ask (k_obj K) (KAddressClone addr)) addNetworkAddress)"

definition networkAddressConnect :: "kenv \<Rightarrow> u32 \<Rightarrow> u32 kop" where
  "networkAddressConnect K i =
     bnd (find_address i) (\<lambda>addr.
     bnd (ask (k_obj K) (KConnect addr)) (\<lambda>p.
     bnd (waiting_for K (wait_obj K) (KOp p)) addConnection))"

definition networkAddressConnectStart :: "kenv \<Rightarrow> u32 \<Rightarrow> u32 kop" where
  "networkAddressConnectStart K i =
     bnd (find_address i) (\<lambda>addr.
     bnd fresh (\<lambda>canceler.
     bnd (ask (k_obj K) (KAddressClone addr)) (\<lambda>copy.
     bnd (ask (k_obj K) (KConnect copy)) (\<lambda>p.
     addConnectionPromise \<lparr>kp_promise = KOp p, kp_canceler = canceler\<rparr>))))"

definition networkAddressListen :: "kenv \<Rightarrow> u32 \<Rightarrow> u32 kop" where
  "networkAddressListen K i =
     bnd (find_address i) (\<lambda>addr. bnd (ask (k_obj K) (KListen addr)) addListener)"

definition networkAddressBindDatagramPort :: "kenv \<Rightarrow> u32 \<Rightarrow> u32 kop" where
  "networkAddressBindDatagramPort K i =
     bnd (find_address i) (\<lambda>addr. bnd (ask (k_obj K) (KBindDatagramPort addr)) addDatagramPort)"

section \<open>Connections\<close>

definition releaseConnection :: "u32 \<Rightarrow> unit kop" where
  "releaseConnection i = sq (find_connection i) (modify (\<lambda>s. s\<lparr>connections := (connections s)(i := None)\<rparr>))"

text \<open>Writing to a stream; no bytes are written without asking KJ.\<close>

definition write_stream :: "kenv \<Rightarrow> obj \<Rightarrow> bytes \<Rightarrow> u32 kop" where
  "write_stream K stream bs =
     bnd fresh (\<lambda>canceler.
     if bs = [] then addPromise \<lparr>kp_promise = KReady, kp_canceler = canceler\<rparr>
     else bnd (ask (k_obj K) (KWrite stream bs)) (\<lambda>p.
       addPromise \<lparr>kp_promise = KOp p, kp_canceler = canceler\<rparr>))"

text \<open>Reading from a stream into a buffer of \<open>maxBytes\<close>.\<close>

definition read_stream :: "kenv \<Rightarrow> obj \<Rightarrow> u32 \<Rightarrow> u32 \<Rightarrow> u32 kop" where
  "read_stream K stream minBytes maxBytes =
     bnd fresh (\<lambda>canceler.
     if maxBytes = 0 then addBytesPromise \<lparr>kp_promise = KReady, kp_canceler = canceler\<rparr>
     else bnd (ask (k_obj K) (KTryRead stream minBytes maxBytes)) (\<lambda>p.
       addBytesPromise \<lparr>kp_promise = KOp p, kp_canceler = canceler\<rparr>))"

definition connectionWriteStart :: "kenv \<Rightarrow> u32 \<Rightarrow> bytes \<Rightarrow> u32 kop" where
  "connectionWriteStart K i bs = bnd (find_connection i) (\<lambda>stream. write_stream K stream bs)"

definition connectionWrite :: "kenv \<Rightarrow> u32 \<Rightarrow> bytes \<Rightarrow> unit kop" where
  "connectionWrite K i bs = bnd (connectionWriteStart K i bs) (awaitPromise K)"

definition connectionReadStart :: "kenv \<Rightarrow> u32 \<Rightarrow> u32 \<Rightarrow> u32 \<Rightarrow> u32 kop" where
  "connectionReadStart K i minBytes maxBytes =
     (if minBytes > maxBytes then fail ''connection read requires minBytes <= maxBytes''
      else bnd (find_connection i) (\<lambda>stream. read_stream K stream minBytes maxBytes))"

definition connectionRead :: "kenv \<Rightarrow> u32 \<Rightarrow> u32 \<Rightarrow> u32 \<Rightarrow> bytes kop" where
  "connectionRead K i minBytes maxBytes = bnd (connectionReadStart K i minBytes maxBytes) (awaitBytesPromise K)"

definition connectionShutdownWrite :: "kenv \<Rightarrow> u32 \<Rightarrow> unit kop" where
  "connectionShutdownWrite K i =
     bnd (find_connection i) (\<lambda>stream. ask (k_done K) (KShutdownWrite stream))"

definition connectionShutdownWriteStart :: "kenv \<Rightarrow> u32 \<Rightarrow> u32 kop" where
  "connectionShutdownWriteStart K i =
     bnd (find_connection i) (\<lambda>stream.
     sq (ask (k_done K) (KShutdownWrite stream))
     (wrap_promise addPromise KReady))"

definition connectionWhenWriteDisconnectedStart :: "kenv \<Rightarrow> u32 \<Rightarrow> u32 kop" where
  "connectionWhenWriteDisconnectedStart K i =
     bnd (find_connection i) (\<lambda>stream.
     bnd fresh (\<lambda>canceler.
     bnd (ask (k_obj K) (KWhenWriteDisconnected stream)) (\<lambda>p.
     addPromise \<lparr>kp_promise = KOp p, kp_canceler = canceler\<rparr>)))"

definition connectionAbortRead :: "kenv \<Rightarrow> u32 \<Rightarrow> unit kop" where
  "connectionAbortRead K i = bnd (find_connection i) (\<lambda>stream. ask (k_done K) (KAbortRead stream))"

definition connectionAbortWrite :: "kenv \<Rightarrow> u32 \<Rightarrow> string \<Rightarrow> unit kop" where
  "connectionAbortWrite K i reason =
     bnd (find_connection i) (\<lambda>stream.
     ask (k_done K) (KAbortWrite stream (mk_kj_error FAILED (c_str reason))))"

text \<open>\<open>KGetFd\<close> covers the downcast: there is no descriptor when the stream is no capability
  stream. \<open>dup\<close> reports an error by a negative number.\<close>

definition connectionDupFd :: "kenv \<Rightarrow> u32 \<Rightarrow> u32 option kop" where
  "connectionDupFd K i =
     bnd (find_connection i) (\<lambda>stream.
     bnd (ask (k_fd K) (KGetFd stream)) (\<lambda>fd. case fd of
       None \<Rightarrow> ret None
     | Some fd \<Rightarrow> bnd (ask (k_int K) (KDup fd)) (\<lambda>fdCopy.
         if fdCopy < 0 then fail ''dup() failed while duplicating KJ connection fd''
         else ret (Some (word_of_int fdCopy)))))"

section \<open>File descriptors\<close>

definition int_max :: nat where
  "int_max = 2147483647"

definition ensurePlatformFdAndDup :: "kenv \<Rightarrow> u32 \<Rightarrow> string \<Rightarrow> int kop" where
  "ensurePlatformFdAndDup K fd opName =
     (if unat fd > int_max then fail (''fd exceeds supported range for '' @ opName)
      else bnd (ask (k_int K) (KDup (int (unat fd)))) (\<lambda>duplicatedFd.
        if duplicatedFd < 0 then fail (''dup() failed while running '' @ opName) else ret duplicatedFd))"

definition wrapSocketFdTake :: "kenv \<Rightarrow> u32 \<Rightarrow> u32 kop" where
  "wrapSocketFdTake K fd =
     (if unat fd > int_max then fail ''fd exceeds supported range for wrapSocketFdTake''
      else bnd (ask (k_obj K) (KWrapSocketFd (int (unat fd)))) addConnection)"

definition wrapSocketFd :: "kenv \<Rightarrow> u32 \<Rightarrow> u32 kop" where
  "wrapSocketFd K fd =
     bnd (ensurePlatformFdAndDup K fd ''wrapSocketFd'') (\<lambda>duplicatedFd.
     bnd (ask (k_obj K) (KWrapSocketFd duplicatedFd)) addConnection)"

definition wrapListenSocketFdTake :: "kenv \<Rightarrow> u32 \<Rightarrow> u32 kop" where
  "wrapListenSocketFdTake K fd =
     (if unat fd > int_max then fail ''fd exceeds supported range for wrapListenSocketFdTake''
      else bnd (ask (k_obj K) (KWrapListenSocketFd (int (unat fd)))) addListener)"

definition wrapListenSocketFd :: "kenv \<Rightarrow> u32 \<Rightarrow> u32 kop" where
  "wrapListenSocketFd K fd =
     bnd (ensurePlatformFdAndDup K fd ''wrapListenSocketFd'') (\<lambda>duplicatedFd.
     bnd (ask (k_obj K) (KWrapListenSocketFd duplicatedFd)) addListener)"

definition wrapDatagramSocketFdTake :: "kenv \<Rightarrow> u32 \<Rightarrow> u32 kop" where
  "wrapDatagramSocketFdTake K fd =
     (if unat fd > int_max then fail ''fd exceeds supported range for wrapDatagramSocketFdTake''
      else bnd (ask (k_obj K) (KWrapDatagramSocketFd (int (unat fd)))) addDatagramPort)"

definition wrapDatagramSocketFd :: "kenv \<Rightarrow> u32 \<Rightarrow> u32 kop" where
  "wrapDatagramSocketFd K fd =
     bnd (ensurePlatformFdAndDup K fd ''wrapDatagramSocketFd'') (\<lambda>duplicatedFd.
     bnd (ask (k_obj K) (KWrapDatagramSocketFd duplicatedFd)) addDatagramPort)"

section \<open>Pipes\<close>

definition add_ends :: "obj \<times> obj \<Rightarrow> (u32 \<times> u32) kop" where
  "add_ends ends = bnd (addConnection (fst ends)) (\<lambda>first.
     bnd (addConnection (snd ends)) (\<lambda>second. ret (first, second)))"

definition newTwoWayPipe :: "kenv \<Rightarrow> (u32 \<times> u32) kop" where
  "newTwoWayPipe K = bnd (ask (k_pair K) KNewTwoWayPipe) add_ends"

definition newCapabilityPipe :: "kenv \<Rightarrow> (u32 \<times> u32) kop" where
  "newCapabilityPipe K = bnd (ask (k_pair K) KNewCapabilityPipe) add_ends"

section \<open>Datagram ports\<close>

definition datagramBind :: "kenv \<Rightarrow> string \<Rightarrow> u32 \<Rightarrow> u32 kop" where
  "datagramBind K address portHint =
     bnd (resolve_address K address portHint) (\<lambda>addr.
     bnd (ask (k_obj K) (KBindDatagramPort addr)) addDatagramPort)"

definition datagramReleasePort :: "u32 \<Rightarrow> unit kop" where
  "datagramReleasePort i = sq (find_port i) (modify (\<lambda>s. s\<lparr>datagramPorts := (datagramPorts s)(i := None)\<rparr>))"

definition datagramGetPort :: "kenv \<Rightarrow> u32 \<Rightarrow> u32 kop" where
  "datagramGetPort K i = bnd (find_port i) (\<lambda>port. ask (k_uint K) (KGetPort port))"

text \<open>The send itself happens in the continuation (\<open>send_parsed\<close>), once the address is known.\<close>

definition datagramSendStart :: "kenv \<Rightarrow> u32 \<Rightarrow> string \<Rightarrow> u32 \<Rightarrow> bytes \<Rightarrow> u32 kop" where
  "datagramSendStart K portId address portHint bs =
     sq (find_port portId)
     (bnd fresh (\<lambda>canceler.
      bnd (ask (k_obj K) (KParseAddress (c_str address) portHint)) (\<lambda>p.
      bnd fresh (\<lambda>k.
      sq (modify (\<lambda>s. s\<lparr>continuations := (continuations s)(k \<mapsto> SendWhenParsed portId bs)\<rparr>))
      (addUInt32Promise \<lparr>kp_promise = KContinued k, kp_canceler = canceler\<rparr>)))))"

definition datagramSend :: "kenv \<Rightarrow> u32 \<Rightarrow> string \<Rightarrow> u32 \<Rightarrow> bytes \<Rightarrow> u32 kop" where
  "datagramSend K portId address portHint bs =
     bnd (datagramSendStart K portId address portHint bs) (awaitUInt32Promise K)"

definition datagramReceiveStart :: "kenv \<Rightarrow> u32 \<Rightarrow> u32 \<Rightarrow> u32 kop" where
  "datagramReceiveStart K portId maxBytes =
     (if maxBytes = 0 then fail ''datagram receive requires maxBytes > 0''
      else bnd (find_port portId) (\<lambda>port.
        bnd (ask (k_obj K) (KMakeReceiver port maxBytes)) (\<lambda>receiver.
        bnd fresh (\<lambda>canceler.
        bnd (ask (k_obj K) (KReceive receiver)) (\<lambda>p.
        addDatagramReceivePromise \<lparr>kp_promise = KOp p, kp_canceler = canceler\<rparr>)))))"

definition datagramReceive :: "kenv \<Rightarrow> u32 \<Rightarrow> u32 \<Rightarrow> (string \<times> bytes) kop" where
  "datagramReceive K portId maxBytes = bnd (datagramReceiveStart K portId maxBytes) (awaitDatagramReceivePromise K)"

section \<open>Release as an instance of the interface\<close>

interpretation kj_listener_handles: handle_table listeners nextListenerId addListener releaseListener
    "unknown_id ''listener''" "\<lambda>_. True"
  by unfold_locales (auto simp: releaseListener_def find_listener_def)

interpretation kj_address_handles: handle_table networkAddresses nextNetworkAddressId addNetworkAddress
    releaseNetworkAddress "unknown_id ''network address''" "\<lambda>_. True"
  by unfold_locales (auto simp: releaseNetworkAddress_def find_address_def)

interpretation kj_connection_handles: handle_table connections nextConnectionId addConnection
    releaseConnection "unknown_id ''connection''" "\<lambda>_. True"
  by unfold_locales (auto simp: releaseConnection_def find_connection_def)

interpretation kj_port_handles: handle_table datagramPorts nextDatagramPortId addDatagramPort
    datagramReleasePort "unknown_id ''datagram port''" "\<lambda>_. True"
  by unfold_locales (auto simp: datagramReleasePort_def find_port_def)

interpretation kj_task_set_handles: handle_table taskSets nextTaskSetId addTaskSet taskSetRelease
    "unknown_id ''task set''" "\<lambda>_. True"
  by unfold_locales (auto simp: taskSetRelease_def)

end
