(* ===== verification/Kj_Http.thy ===== *)
theory Kj_Http
  imports Kj_Net
begin

text \<open>
  TLS, the HTTP client, WebSockets and the HTTP server of
  \<^verbatim>\<open>KjAsyncRuntimeLoop\<close>. What the server's handler does when a request arrives, and
  after it was answered, is in \<^verbatim>\<open>Kj_Events.thy\<close>.
\<close>

section \<open>TLS\<close>

text \<open>
  Certificates and keys are passed to \<^verbatim>\<open>TlsContext\<close> as text, read as C strings. An
  empty string leaves an option unset.
\<close>

definition configureTls :: "kenv \<Rightarrow> bool \<Rightarrow> bool \<Rightarrow> u32 \<Rightarrow> string \<Rightarrow> string \<Rightarrow> string \<Rightarrow> string \<Rightarrow> string
    \<Rightarrow> u64 \<Rightarrow> unit kop" where
  "configureTls K useSystemTrustStore verifyClients minVersionTag trustedCertificatesPem
       certificateChainPem privateKeyPem cipherList curveList acceptTimeoutNanos =
     (if (certificateChainPem = []) \<noteq> (privateKeyPem = [])
      then fail ''TLS configuration requires both certificateChainPem and privateKeyPem to be set''
      else
       bnd (lift_error (decodeTlsVersionTag minVersionTag)) (\<lambda>minVersion.
       sq (if trustedCertificatesPem = [] then ret ()
           else ask (k_done K) (KTlsCertificate (c_str trustedCertificatesPem)))
       (sq (if certificateChainPem = [] then ret ()
            else sq (ask (k_done K) (KTlsPrivateKey (c_str privateKeyPem)))
              (ask (k_done K) (KTlsCertificate (c_str certificateChainPem))))
       (bnd (if acceptTimeoutNanos = 0 then ret None
            else bnd (lift_error (nanosToDuration acceptTimeoutNanos ''TLS accept timeout'')) (\<lambda>d. ret (Some d)))
         (\<lambda>acceptTimeout.
       bnd (ask (k_obj K) (KNewTlsContext \<lparr>tls_useSystemTrustStore = useSystemTrustStore,
           tls_verifyClients = verifyClients, tls_minVersion = minVersion,
           tls_trustedCertificates = c_str trustedCertificatesPem,
           tls_certificateChain = c_str certificateChainPem, tls_privateKey = c_str privateKeyPem,
           tls_cipherList = c_str cipherList, tls_curveList = c_str curveList,
           tls_acceptTimeout = acceptTimeout\<rparr>)) (\<lambda>context.
       bnd (ask (k_obj K) (KWrapNetwork context)) (\<lambda>network.
       modify (\<lambda>s. s\<lparr>tlsContext := Some context, tlsNetwork := Some network\<rparr>))))))))"

definition enableTls :: "kenv \<Rightarrow> unit kop" where
  "enableTls K s = (case tlsContext s of
      Some _ \<Rightarrow> ret () s
    | None \<Rightarrow> configureTls K True False 0 [] [] [] [] [] 0 s)"

definition resolveTlsNetwork :: "bool \<Rightarrow> obj option kop" where
  "resolveTlsNetwork useTls s =
     (if \<not> useTls then ret None s
      else case tlsNetwork s of
        Some network \<Rightarrow> ret (Some network) s
      | None \<Rightarrow> fail ''TLS is not enabled in this runtime; call Runtime.enableTls before HTTPS/WSS operations'' s)"

section \<open>The HTTP client\<close>

definition url_scheme :: "bool \<Rightarrow> string" where
  "url_scheme useTls = (if useTls then ''https'' else ''http'')"

text \<open>
  The request body is written first when there is one; the response is awaited after it.
  A method without a body stream refuses a body.
\<close>

definition httpRequestStart :: "kenv \<Rightarrow> u32 \<Rightarrow> string \<Rightarrow> u32 \<Rightarrow> string \<Rightarrow> headers \<Rightarrow> bytes \<Rightarrow> bool \<Rightarrow> u64
    \<Rightarrow> u32 kop" where
  "httpRequestStart K m address portHint path requestHeaders body useTls responseBodyLimit =
     bnd (lift_error (decodeHttpMethod m)) (\<lambda>decodedMethod.
     bnd (resolveTlsNetwork useTls) (\<lambda>network.
     bnd (ask (k_obj K) (KNewHttpClient network None)) (\<lambda>client.
     bnd (ask (k_request K) (KHttpRequest client decodedMethod
         (buildUrl (url_scheme useTls) address portHint path) (applyHeadersFromPairs requestHeaders)
         (if body = [] then None else Some (of_nat (length body))))) (\<lambda>(stream, response).
     bnd (case stream of
         None \<Rightarrow> if body \<noteq> [] then fail ''HTTP method does not accept a request body''
           else ret (KHttpReply None response responseBodyLimit)
       | Some out \<Rightarrow>
           if body = [] then ret (KHttpReply None response responseBodyLimit)
           else bnd (ask (k_obj K) (KWrite out body)) (\<lambda>_. ret (KHttpReply (Some body) response responseBodyLimit)))
       (wrap_promise addHttpResponsePromise)))))"

definition httpRequest :: "kenv \<Rightarrow> u32 \<Rightarrow> string \<Rightarrow> u32 \<Rightarrow> string \<Rightarrow> headers \<Rightarrow> bytes \<Rightarrow> bool \<Rightarrow> u64
    \<Rightarrow> http_result kop" where
  "httpRequest K m address portHint path requestHeaders body useTls responseBodyLimit =
     bnd (httpRequestStart K m address portHint path requestHeaders body useTls responseBodyLimit)
       (awaitHttpResponsePromise K)"

definition httpRequestStartStreaming :: "kenv \<Rightarrow> u32 \<Rightarrow> string \<Rightarrow> u32 \<Rightarrow> string \<Rightarrow> headers \<Rightarrow> bool
    \<Rightarrow> (u32 \<times> u32) kop" where
  "httpRequestStartStreaming K m address portHint path requestHeaders useTls =
     bnd (lift_error (decodeHttpMethod m)) (\<lambda>decodedMethod.
     bnd fresh (\<lambda>owner.
     bnd (resolveTlsNetwork useTls) (\<lambda>network.
     bnd (ask (k_obj K) (KNewHttpClient network None)) (\<lambda>client.
     bnd (ask (k_request K) (KHttpRequest client decodedMethod
         (buildUrl (url_scheme useTls) address portHint path) (applyHeadersFromPairs requestHeaders) None))
       (\<lambda>(stream, response).
     bnd (case stream of None \<Rightarrow> ret 0
         | Some out \<Rightarrow> addHttpRequestBody \<lparr>rhb_owner = owner, rhb_stream = out\<rparr>) (\<lambda>requestBodyId.
     bnd fresh (\<lambda>k.
     sq (modify (\<lambda>s. s\<lparr>continuations := (continuations s)(k \<mapsto> DecodeStreaming owner)\<rparr>))
     (bnd (wrap_promise addHttpResponsePromise (KContinued k)) (\<lambda>responsePromiseId.
      ret (requestBodyId, responsePromiseId))))))))))"

subsection \<open>Request and response bodies\<close>

definition find_request_body :: "u32 \<Rightarrow> runtime_http_body kop" where
  "find_request_body i = find_or httpRequestBodies i (unknown_id ''HTTP request body'' i)"

definition find_response_body :: "u32 \<Rightarrow> runtime_http_body kop" where
  "find_response_body i = find_or httpResponseBodies i (unknown_id ''HTTP response body'' i)"

definition httpRequestBodyWriteStart :: "kenv \<Rightarrow> u32 \<Rightarrow> bytes \<Rightarrow> u32 kop" where
  "httpRequestBodyWriteStart K i bs = bnd (find_request_body i) (\<lambda>b. write_stream K (rhb_stream b) bs)"

definition httpRequestBodyWrite :: "kenv \<Rightarrow> u32 \<Rightarrow> bytes \<Rightarrow> unit kop" where
  "httpRequestBodyWrite K i bs = bnd (httpRequestBodyWriteStart K i bs) (awaitPromise K)"

definition httpRequestBodyFinishStart :: "u32 \<Rightarrow> u32 kop" where
  "httpRequestBodyFinishStart i =
     sq (find_request_body i)
     (sq (modify (\<lambda>s. s\<lparr>httpRequestBodies := (httpRequestBodies s)(i := None)\<rparr>))
     (wrap_promise addPromise KReady))"

definition httpRequestBodyFinish :: "kenv \<Rightarrow> u32 \<Rightarrow> unit kop" where
  "httpRequestBodyFinish K i = bnd (httpRequestBodyFinishStart i) (awaitPromise K)"

definition httpRequestBodyRelease :: "u32 \<Rightarrow> unit kop" where
  "httpRequestBodyRelease i =
     sq (find_request_body i) (modify (\<lambda>s. s\<lparr>httpRequestBodies := (httpRequestBodies s)(i := None)\<rparr>))"

definition httpResponseBodyReadStart :: "kenv \<Rightarrow> u32 \<Rightarrow> u32 \<Rightarrow> u32 \<Rightarrow> u32 kop" where
  "httpResponseBodyReadStart K i minBytes maxBytes =
     (if minBytes > maxBytes then fail ''HTTP response body read requires minBytes <= maxBytes''
      else bnd (find_response_body i) (\<lambda>b. read_stream K (rhb_stream b) minBytes maxBytes))"

definition httpResponseBodyRead :: "kenv \<Rightarrow> u32 \<Rightarrow> u32 \<Rightarrow> u32 \<Rightarrow> bytes kop" where
  "httpResponseBodyRead K i minBytes maxBytes =
     bnd (httpResponseBodyReadStart K i minBytes maxBytes) (awaitBytesPromise K)"

definition httpResponseBodyRelease :: "u32 \<Rightarrow> unit kop" where
  "httpResponseBodyRelease i =
     sq (find_response_body i) (modify (\<lambda>s. s\<lparr>httpResponseBodies := (httpResponseBodies s)(i := None)\<rparr>))"

section \<open>The HTTP server\<close>

definition find_server :: "u32 \<Rightarrow> http_server kop" where
  "find_server i = find_or httpServers i (unknown_id ''HTTP server'' i)"

definition find_server_request_body :: "u32 \<Rightarrow> server_request_body kop" where
  "find_server_request_body i = find_or httpServerRequestBodies i (unknown_id ''HTTP server request body'' i)"

definition find_server_response_body :: "u32 \<Rightarrow> server_response_body kop" where
  "find_server_response_body i = find_or httpServerResponseBodies i (unknown_id ''HTTP server response body'' i)"

text \<open>\<^verbatim>\<open>HttpServerConfig\<close>, with its defaults.\<close>

record http_server_config =
  cfg_headerTimeoutNanos :: u64
  cfg_pipelineTimeoutNanos :: u64
  cfg_canceledUploadGracePeriodNanos :: u64
  cfg_canceledUploadGraceBytes :: u64
  cfg_webSocketCompressionMode :: u32

definition default_config :: http_server_config where
  "default_config = \<lparr>cfg_headerTimeoutNanos = 15000000000, cfg_pipelineTimeoutNanos = 5000000000,
     cfg_canceledUploadGracePeriodNanos = 1000000000, cfg_canceledUploadGraceBytes = 65536,
     cfg_webSocketCompressionMode = 0\<rparr>"

definition decode_settings :: "http_server_config \<Rightarrow> server_settings kop" where
  "decode_settings config =
     bnd (lift_error (nanosToDuration (cfg_headerTimeoutNanos config) ''HTTP header timeout'')) (\<lambda>h.
     bnd (lift_error (nanosToDuration (cfg_pipelineTimeoutNanos config) ''HTTP pipeline timeout'')) (\<lambda>p.
     bnd (lift_error (nanosToDuration (cfg_canceledUploadGracePeriodNanos config)
         ''HTTP canceled upload grace period'')) (\<lambda>g.
     bnd (lift_error (decodeWebSocketCompressionMode (cfg_webSocketCompressionMode config))) (\<lambda>m.
     ret \<lparr>ss_headerTimeout = h, ss_pipelineTimeout = p, ss_canceledUploadGracePeriod = g,
          ss_canceledUploadGraceBytes = cfg_canceledUploadGraceBytes config,
          ss_webSocketCompressionMode = m\<rparr>))))"

text \<open>The server's identifier and the bound port. The test of \<^verbatim>\<open>canceledUploadGraceBytes\<close>
  against the largest \<^verbatim>\<open>size_t\<close> never holds where that type has 64 bits.\<close>

definition httpServerListen :: "kenv \<Rightarrow> string \<Rightarrow> u32 \<Rightarrow> bool \<Rightarrow> http_server_config \<Rightarrow> (u32 \<times> u32) kop" where
  "httpServerListen K address portHint useTls config =
     bnd (resolve_address K address portHint) (\<lambda>addr.
     bnd (ask (k_obj K) (KListen addr)) (\<lambda>plain.
     bnd (if \<not> useTls then ret plain
          else (\<lambda>s. case tlsContext s of
            Some context \<Rightarrow> ask (k_obj K) (KWrapPort context plain) s
          | None \<Rightarrow> fail ''TLS is not enabled in this runtime; call Runtime.enableTls or Runtime.configureTls before HTTPS/WSS server listen'' s))
       (\<lambda>listener.
     bnd (ask (k_uint K) (KGetPort listener)) (\<lambda>boundPort.
     bnd (decode_settings config) (\<lambda>settings.
     bnd (ask (k_obj K) (KNewHttpServer settings)) (\<lambda>server.
     bnd (addHttpServer \<lparr>hs_serverId = 0, hs_listener = listener, hs_server = server, hs_listenPromiseId = 0,
         hs_nextRequestId = 1, hs_requestQueue = [], hs_pendingResponses = Map.empty\<rparr>) (\<lambda>serverId.
     sq (modify (\<lambda>s. s\<lparr>httpServers := (httpServers s)(serverId :=
         map_option (\<lambda>st. st\<lparr>hs_serverId := serverId\<rparr>) (httpServers s serverId))\<rparr>))
     (bnd fresh (\<lambda>canceler.
      bnd (ask (k_obj K) (KListenHttp server listener)) (\<lambda>p.
      bnd (addPromise \<lparr>kp_promise = KOp p, kp_canceler = canceler\<rparr>) (\<lambda>listenPromiseId.
      sq (modify (\<lambda>s. s\<lparr>httpServers := (httpServers s)(serverId :=
          map_option (\<lambda>st. st\<lparr>hs_listenPromiseId := listenPromiseId\<rparr>) (httpServers s serverId))\<rparr>))
      (ret (serverId, boundPort)))))))))))))"

definition httpServerDrainStart :: "kenv \<Rightarrow> u32 \<Rightarrow> u32 kop" where
  "httpServerDrainStart K i =
     bnd (find_server i) (\<lambda>st.
     bnd fresh (\<lambda>canceler.
     bnd (ask (k_obj K) (KDrain (hs_server st))) (\<lambda>p.
     addPromise \<lparr>kp_promise = KOp p, kp_canceler = canceler\<rparr>)))"

definition httpServerDrain :: "kenv \<Rightarrow> u32 \<Rightarrow> unit kop" where
  "httpServerDrain K i = bnd (httpServerDrainStart K i) (awaitPromise K)"

definition cancel_listening :: "u32 \<Rightarrow> unit kop" where
  "cancel_listening listenPromiseId s =
     (if listenPromiseId = 0 then ret () s
      else case promises s listenPromiseId of
        None \<Rightarrow> ret () s
      | Some pending \<Rightarrow>
          sq (noting (KCancel (kp_canceler pending) ''Capnp.KjAsync HTTP server released''))
          (modify (retire_promise listenPromiseId)) s)"

text \<open>
  Destroying the server at the end destroys the requests KJ still holds; their clean-up
  finds no bodies any more.
\<close>

definition httpServerRelease :: "kenv \<Rightarrow> u32 \<Rightarrow> unit kop" where
  "httpServerRelease K i =
     bnd (find_server i) (\<lambda>st.
     sq (cancel_listening (hs_listenPromiseId st))
     (sq (for_each (\<lambda>r. case hs_pendingResponses st r of None \<Rightarrow> ret ()
            | Some f \<Rightarrow> noting (KReject f (mk_kj_error DISCONNECTED ''Capnp.KjAsync HTTP server released'')))
          (table_walk K (\<lambda>r. hs_pendingResponses st r \<noteq> None)))
     (sq (releaseHttpServerBodiesForServer K i)
     (modify (\<lambda>s. s\<lparr>httpServers := (httpServers s)(i := None),
        openRequests := (\<lambda>p. case openRequests s p of
           Some r \<Rightarrow> if or_serverId r = i then None else Some r | None \<Rightarrow> None)\<rparr>)))))"

text \<open>Whether there is a request, and its bytes. The request is off the queue before it is encoded.\<close>

definition httpServerPollRequest :: "u32 \<Rightarrow> (bool \<times> bytes) kop" where
  "httpServerPollRequest i =
     bnd (find_server i) (\<lambda>st. case hs_requestQueue st of
       [] \<Rightarrow> ret (False, [])
     | front # queue \<Rightarrow>
         sq (modify (\<lambda>s. s\<lparr>httpServers := (httpServers s)(i \<mapsto> st\<lparr>hs_requestQueue := queue\<rparr>)\<rparr>))
         (bnd (lift_error (encodeHttpServerRequest front)) (\<lambda>bs. ret (True, bs))))"

text \<open>The common part of the three ways to respond.\<close>

definition respond :: "u32 \<Rightarrow> u32 \<Rightarrow> http_command \<Rightarrow> unit kop" where
  "respond serverId requestId command =
     bnd (find_server serverId) (\<lambda>st. case hs_pendingResponses st requestId of
       None \<Rightarrow> throw (unknown_id ''HTTP server request'' requestId)
     | Some fulfiller \<Rightarrow>
         sq (modify (\<lambda>s. s\<lparr>httpServers := (httpServers s)(serverId \<mapsto>
             st\<lparr>hs_pendingResponses := (hs_pendingResponses st)(requestId := None)\<rparr>)\<rparr>))
         (fulfill_command fulfiller command))"

definition httpServerRespond :: "u32 \<Rightarrow> u32 \<Rightarrow> u32 \<Rightarrow> string \<Rightarrow> headers \<Rightarrow> bytes \<Rightarrow> unit kop" where
  "httpServerRespond serverId requestId statusCode statusText responseHeaders body =
     respond serverId requestId (HttpCommand statusCode statusText responseHeaders body)"

definition httpServerRespondWebSocket :: "u32 \<Rightarrow> u32 \<Rightarrow> headers \<Rightarrow> nat \<Rightarrow> unit kop" where
  "httpServerRespondWebSocket serverId requestId responseHeaders h =
     respond serverId requestId (WebSocketCommand responseHeaders h)"

definition httpServerRespondStartStreaming :: "u32 \<Rightarrow> u32 \<Rightarrow> u32 \<Rightarrow> string \<Rightarrow> headers \<Rightarrow> nat \<Rightarrow> unit kop" where
  "httpServerRespondStartStreaming serverId requestId statusCode statusText responseHeaders h =
     respond serverId requestId (StreamingCommand statusCode statusText responseHeaders h)"

definition httpServerRequestBodyReadStart :: "kenv \<Rightarrow> u32 \<Rightarrow> u32 \<Rightarrow> u32 \<Rightarrow> u32 kop" where
  "httpServerRequestBodyReadStart K i minBytes maxBytes =
     (if minBytes > maxBytes then fail ''HTTP server request body read requires minBytes <= maxBytes''
      else bnd (find_server_request_body i) (\<lambda>b. read_stream K (srb_stream b) minBytes maxBytes))"

definition httpServerRequestBodyRead :: "kenv \<Rightarrow> u32 \<Rightarrow> u32 \<Rightarrow> u32 \<Rightarrow> bytes kop" where
  "httpServerRequestBodyRead K i minBytes maxBytes =
     bnd (httpServerRequestBodyReadStart K i minBytes maxBytes) (awaitBytesPromise K)"

definition httpServerRequestBodyRelease :: "u32 \<Rightarrow> unit kop" where
  "httpServerRequestBodyRelease i =
     sq (find_server_request_body i)
     (modify (\<lambda>s. s\<lparr>httpServerRequestBodies := (httpServerRequestBodies s)(i := None)\<rparr>))"

definition httpServerResponseBodyWriteStart :: "kenv \<Rightarrow> u32 \<Rightarrow> bytes \<Rightarrow> u32 kop" where
  "httpServerResponseBodyWriteStart K i bs =
     bnd (find_server_response_body i) (\<lambda>b. write_stream K (rsb_stream b) bs)"

definition httpServerResponseBodyWrite :: "kenv \<Rightarrow> u32 \<Rightarrow> bytes \<Rightarrow> unit kop" where
  "httpServerResponseBodyWrite K i bs = bnd (httpServerResponseBodyWriteStart K i bs) (awaitPromise K)"

definition httpServerResponseBodyRelease :: "u32 \<Rightarrow> unit kop" where
  "httpServerResponseBodyRelease i =
     bnd (find_server_response_body i) (\<lambda>b.
     sq (modify (\<lambda>s. s\<lparr>httpServerResponseBodies := (httpServerResponseBodies s)(i := None)\<rparr>))
     (sq (noting (KDropStream (rsb_stream b)))
     (noting (KFulfill (rsb_doneFulfiller b)))))"

definition httpServerResponseBodyFinishStart :: "u32 \<Rightarrow> u32 kop" where
  "httpServerResponseBodyFinishStart i =
     bnd (find_server_response_body i) (\<lambda>b.
     sq (modify (\<lambda>s. s\<lparr>httpServerResponseBodies := (httpServerResponseBodies s)(i := None)\<rparr>))
     (sq (noting (KDropStream (rsb_stream b)))
     (sq (noting (KFulfill (rsb_doneFulfiller b)))
     (wrap_promise addPromise KReady))))"

definition httpServerResponseBodyFinish :: "kenv \<Rightarrow> u32 \<Rightarrow> unit kop" where
  "httpServerResponseBodyFinish K i = bnd (httpServerResponseBodyFinishStart i) (awaitPromise K)"

section \<open>WebSockets\<close>

definition find_web_socket :: "u32 \<Rightarrow> runtime_web_socket kop" where
  "find_web_socket i = find_or webSockets i (unknown_id ''websocket'' i)"

definition webSocketConnectStart :: "kenv \<Rightarrow> string \<Rightarrow> u32 \<Rightarrow> string \<Rightarrow> headers \<Rightarrow> bool \<Rightarrow> u32 kop" where
  "webSocketConnectStart K address portHint path requestHeaders useTls =
     bnd fresh (\<lambda>owner.
     bnd fresh (\<lambda>entropySource.
     bnd (resolveTlsNetwork useTls) (\<lambda>network.
     bnd (ask (k_obj K) (KNewHttpClient network (Some entropySource))) (\<lambda>client.
     bnd (ask (k_obj K) (KOpenWebSocket client (buildUrl (url_scheme useTls) address portHint path)
         (applyHeadersFromPairs requestHeaders))) (\<lambda>p.
     wrap_promise addWebSocketPromise (KWebSocketReply p owner))))))"

definition webSocketConnect :: "kenv \<Rightarrow> string \<Rightarrow> u32 \<Rightarrow> string \<Rightarrow> headers \<Rightarrow> bool \<Rightarrow> u32 kop" where
  "webSocketConnect K address portHint path requestHeaders useTls =
     bnd (webSocketConnectStart K address portHint path requestHeaders useTls) (awaitWebSocketPromise K)"

definition webSocketRelease :: "u32 \<Rightarrow> unit kop" where
  "webSocketRelease i =
     bnd (find_web_socket i) (\<lambda>w.
     sq (case rws_requestCompletion w of None \<Rightarrow> ret () | Some fulfiller \<Rightarrow> noting (KFulfill fulfiller))
     (modify (\<lambda>s. s\<lparr>webSockets := (webSockets s)(i := None)\<rparr>)))"

definition webSocketSendText :: "kenv \<Rightarrow> u32 \<Rightarrow> string \<Rightarrow> unit kop" where
  "webSocketSendText K i text =
     bnd (find_web_socket i) (\<lambda>w.
     bnd (ask (k_obj K) (KSocketSendText (rws_socket w) text)) (\<lambda>p. waiting_for K (wait_unit K) (KOp p)))"

definition webSocketSendTextStart :: "kenv \<Rightarrow> u32 \<Rightarrow> string \<Rightarrow> u32 kop" where
  "webSocketSendTextStart K i text =
     bnd (find_web_socket i) (\<lambda>w.
     bnd fresh (\<lambda>canceler.
     bnd (ask (k_obj K) (KSocketSendText (rws_socket w) text)) (\<lambda>p.
     addPromise \<lparr>kp_promise = KOp p, kp_canceler = canceler\<rparr>)))"

definition webSocketSendBinary :: "kenv \<Rightarrow> u32 \<Rightarrow> bytes \<Rightarrow> unit kop" where
  "webSocketSendBinary K i bs =
     bnd (find_web_socket i) (\<lambda>w.
     bnd (ask (k_obj K) (KSocketSendBinary (rws_socket w) bs)) (\<lambda>p. waiting_for K (wait_unit K) (KOp p)))"

definition webSocketSendBinaryStart :: "kenv \<Rightarrow> u32 \<Rightarrow> bytes \<Rightarrow> u32 kop" where
  "webSocketSendBinaryStart K i bs =
     bnd (find_web_socket i) (\<lambda>w.
     bnd fresh (\<lambda>canceler.
     bnd (ask (k_obj K) (KSocketSendBinary (rws_socket w) bs)) (\<lambda>p.
     addPromise \<lparr>kp_promise = KOp p, kp_canceler = canceler\<rparr>)))"

definition webSocketReceiveStart :: "kenv \<Rightarrow> u32 \<Rightarrow> u32 \<Rightarrow> u32 kop" where
  "webSocketReceiveStart K i maxBytes =
     bnd (find_web_socket i) (\<lambda>w.
     bnd fresh (\<lambda>canceler.
     bnd (ask (k_obj K) (KSocketReceive (rws_socket w) maxBytes)) (\<lambda>p.
     addWebSocketMessagePromise \<lparr>kp_promise = KOp p, kp_canceler = canceler\<rparr>)))"

definition webSocketReceive :: "kenv \<Rightarrow> u32 \<Rightarrow> u32 \<Rightarrow> ws_result kop" where
  "webSocketReceive K i maxBytes = bnd (webSocketReceiveStart K i maxBytes) (awaitWebSocketMessagePromise K)"

definition webSocketCloseStart :: "kenv \<Rightarrow> u32 \<Rightarrow> u16 \<Rightarrow> string \<Rightarrow> u32 kop" where
  "webSocketCloseStart K i closeCode reason =
     bnd (find_web_socket i) (\<lambda>w.
     bnd fresh (\<lambda>canceler.
     bnd (ask (k_obj K) (KSocketClose (rws_socket w) closeCode reason)) (\<lambda>p.
     addPromise \<lparr>kp_promise = KOp p, kp_canceler = canceler\<rparr>)))"

definition webSocketClose :: "kenv \<Rightarrow> u32 \<Rightarrow> u16 \<Rightarrow> string \<Rightarrow> unit kop" where
  "webSocketClose K i closeCode reason = bnd (webSocketCloseStart K i closeCode reason) (awaitPromise K)"

definition webSocketDisconnect :: "kenv \<Rightarrow> u32 \<Rightarrow> unit kop" where
  "webSocketDisconnect K i = bnd (find_web_socket i) (\<lambda>w. ask (k_done K) (KSocketDisconnect (rws_socket w)))"

definition webSocketAbort :: "kenv \<Rightarrow> u32 \<Rightarrow> unit kop" where
  "webSocketAbort K i = bnd (find_web_socket i) (\<lambda>w. ask (k_done K) (KSocketAbort (rws_socket w)))"

definition newWebSocketPipe :: "kenv \<Rightarrow> (u32 \<times> u32) kop" where
  "newWebSocketPipe K =
     bnd (ask (k_pair K) KNewWebSocketPipe) (\<lambda>(a, b).
     bnd (addWebSocket \<lparr>rws_owner = None, rws_requestCompletion = None, rws_socket = a\<rparr>) (\<lambda>first.
     bnd (addWebSocket \<lparr>rws_owner = None, rws_requestCompletion = None, rws_socket = b\<rparr>) (\<lambda>second.
     ret (first, second))))"

end
