(* ===== verification/Kj_Completions.thy ===== *)
theory Kj_Completions
  imports Kj_Http
begin

text \<open>
  The completions of \<^verbatim>\<open>ffi/kj_async_bridge.cpp\<close> and the functions that answer them.
  A waiting thread sees \<open>kc_done\<close> become true; each function sets it last, under the
  completion's lock.
\<close>

section \<open>Completions\<close>

text \<open>One kind per completion struct, and what each carries. The bytes start as a null pointer.\<close>

datatype kj_kind =
    KjUnit
  | KjPromiseId
  | KjHandle
  | KjBytes
  | KjHandlePair
  | KjBool
  | KjUInt32
  | KjOptionalUInt32
  | KjOptionalString
  | KjDatagramReceive
  | KjHttpResponse
  | KjHttpServerRequest
  | KjWebSocketMessage

datatype (plugins only: size code) kj_value =
    UnitResult
  | PromiseIdResult u32
  | HandleResult u32
  | BytesResult "bytes option"
  | HandlePairResult u32 u32
  | BoolResult bool
  | UInt32Result u32
  | OptionalUInt32Result bool u32
  | OptionalStringResult bool string
  | DatagramResult string bytes
  | HttpResponseResult http_result
  | ServerRequestResult bool bytes
  | MessageResult ws_result

fun kj_kind_of :: "kj_value \<Rightarrow> kj_kind" where
  "kj_kind_of UnitResult = KjUnit"
| "kj_kind_of (PromiseIdResult _) = KjPromiseId"
| "kj_kind_of (HandleResult _) = KjHandle"
| "kj_kind_of (BytesResult _) = KjBytes"
| "kj_kind_of (HandlePairResult _ _) = KjHandlePair"
| "kj_kind_of (BoolResult _) = KjBool"
| "kj_kind_of (UInt32Result _) = KjUInt32"
| "kj_kind_of (OptionalUInt32Result _ _) = KjOptionalUInt32"
| "kj_kind_of (OptionalStringResult _ _) = KjOptionalString"
| "kj_kind_of (DatagramResult _ _) = KjDatagramReceive"
| "kj_kind_of (HttpResponseResult _) = KjHttpResponse"
| "kj_kind_of (ServerRequestResult _ _) = KjHttpServerRequest"
| "kj_kind_of (MessageResult _) = KjWebSocketMessage"

record kj_completion =
  kc_done :: bool
  kc_ok :: bool
  kc_payload :: kj_value
  kc_error :: string

fun kj_initial_value :: "kj_kind \<Rightarrow> kj_value" where
  "kj_initial_value KjUnit = UnitResult"
| "kj_initial_value KjPromiseId = PromiseIdResult 0"
| "kj_initial_value KjHandle = HandleResult 0"
| "kj_initial_value KjBytes = BytesResult None"
| "kj_initial_value KjHandlePair = HandlePairResult 0 0"
| "kj_initial_value KjBool = BoolResult False"
| "kj_initial_value KjUInt32 = UInt32Result 0"
| "kj_initial_value KjOptionalUInt32 = OptionalUInt32Result False 0"
| "kj_initial_value KjOptionalString = OptionalStringResult False []"
| "kj_initial_value KjDatagramReceive = DatagramResult [] []"
| "kj_initial_value KjHttpResponse = HttpResponseResult \<lparr>res_statusCode = 0, res_statusText = [],
     res_headers = [], res_body = [], res_bodyHandle = 0\<rparr>"
| "kj_initial_value KjHttpServerRequest = ServerRequestResult False []"
| "kj_initial_value KjWebSocketMessage = MessageResult \<lparr>wm_tag = 0, wm_closeCode = 0, wm_text = [],
     wm_bytes = []\<rparr>"

definition new_kj_completion :: "kj_kind \<Rightarrow> kj_completion" where
  "new_kj_completion k = \<lparr>kc_done = False, kc_ok = False, kc_payload = kj_initial_value k, kc_error = []\<rparr>"

section \<open>Answering\<close>

text \<open>Every \<^verbatim>\<open>completeXFailure\<close> is this one.\<close>

definition completeFailureWithError :: "string \<Rightarrow> kj_completion \<Rightarrow> kj_completion" where
  "completeFailureWithError message c = c\<lparr>kc_ok := False, kc_error := message, kc_done := True\<rparr>"

definition kjCompleteUnitSuccess :: "kj_completion \<Rightarrow> kj_completion" where
  "kjCompleteUnitSuccess c = c\<lparr>kc_ok := True, kc_done := True\<rparr>"

definition kjCompletePromiseIdSuccess :: "u32 \<Rightarrow> kj_completion \<Rightarrow> kj_completion" where
  "kjCompletePromiseIdSuccess i c = c\<lparr>kc_ok := True, kc_payload := PromiseIdResult i, kc_done := True\<rparr>"

definition kjCompleteHandleSuccess :: "u32 \<Rightarrow> kj_completion \<Rightarrow> kj_completion" where
  "kjCompleteHandleSuccess i c = c\<lparr>kc_ok := True, kc_payload := HandleResult i, kc_done := True\<rparr>"

definition kjCompleteBytesSuccess :: "bytes option \<Rightarrow> kj_completion \<Rightarrow> kj_completion" where
  "kjCompleteBytesSuccess b c = c\<lparr>kc_ok := True,
     kc_payload := BytesResult (Some (case b of Some bs \<Rightarrow> bs | None \<Rightarrow> [])), kc_done := True\<rparr>"

definition kjCompleteHandlePairSuccess :: "u32 \<Rightarrow> u32 \<Rightarrow> kj_completion \<Rightarrow> kj_completion" where
  "kjCompleteHandlePairSuccess i j c = c\<lparr>kc_ok := True, kc_payload := HandlePairResult i j, kc_done := True\<rparr>"

definition kjCompleteBoolSuccess :: "bool \<Rightarrow> kj_completion \<Rightarrow> kj_completion" where
  "kjCompleteBoolSuccess b c = c\<lparr>kc_ok := True, kc_payload := BoolResult b, kc_done := True\<rparr>"

definition kjCompleteUInt32Success :: "u32 \<Rightarrow> kj_completion \<Rightarrow> kj_completion" where
  "kjCompleteUInt32Success v c = c\<lparr>kc_ok := True, kc_payload := UInt32Result v, kc_done := True\<rparr>"

definition kjCompleteOptionalUInt32Success :: "u32 option \<Rightarrow> kj_completion \<Rightarrow> kj_completion" where
  "kjCompleteOptionalUInt32Success v c = c\<lparr>kc_ok := True, kc_payload := (case v of
     Some x \<Rightarrow> OptionalUInt32Result True x | None \<Rightarrow> OptionalUInt32Result False 0), kc_done := True\<rparr>"

definition kjCompleteOptionalStringSuccess :: "string option \<Rightarrow> kj_completion \<Rightarrow> kj_completion" where
  "kjCompleteOptionalStringSuccess v c = c\<lparr>kc_ok := True, kc_payload := (case v of
     Some x \<Rightarrow> OptionalStringResult True x | None \<Rightarrow> OptionalStringResult False []), kc_done := True\<rparr>"

definition kjCompleteDatagramReceiveSuccess :: "string \<Rightarrow> bytes \<Rightarrow> kj_completion \<Rightarrow> kj_completion" where
  "kjCompleteDatagramReceiveSuccess sourceAddress bs c =
     c\<lparr>kc_ok := True, kc_payload := DatagramResult sourceAddress bs, kc_done := True\<rparr>"

definition kjCompleteHttpResponseSuccess :: "u32 \<Rightarrow> string \<Rightarrow> bytes \<Rightarrow> bytes \<Rightarrow> u32 \<Rightarrow> kj_completion \<Rightarrow> kj_completion" where
  "kjCompleteHttpResponseSuccess statusCode statusText hs body bodyHandle c =
     c\<lparr>kc_ok := True, kc_payload := HttpResponseResult \<lparr>res_statusCode = statusCode,
        res_statusText = statusText, res_headers = hs, res_body = body, res_bodyHandle = bodyHandle\<rparr>,
       kc_done := True\<rparr>"

definition kjCompleteHttpServerRequestSuccess :: "bool \<Rightarrow> bytes \<Rightarrow> kj_completion \<Rightarrow> kj_completion" where
  "kjCompleteHttpServerRequestSuccess hasRequest requestBytes c =
     c\<lparr>kc_ok := True, kc_payload := ServerRequestResult hasRequest requestBytes, kc_done := True\<rparr>"

definition kjCompleteWebSocketMessageSuccess :: "u8 \<Rightarrow> u16 \<Rightarrow> string \<Rightarrow> bytes \<Rightarrow> kj_completion \<Rightarrow> kj_completion" where
  "kjCompleteWebSocketMessageSuccess tag closeCode text bs c =
     c\<lparr>kc_ok := True, kc_payload := MessageResult \<lparr>wm_tag = tag, wm_closeCode = closeCode,
        wm_text = text, wm_bytes = bs\<rparr>, kc_done := True\<rparr>"

text \<open>How a completion looks once it was answered by one of them: \<open>Inl\<close> the error or
  \<open>Inr\<close> the payload.\<close>

definition kj_outcome :: "kj_completion \<Rightarrow> string + kj_value" where
  "kj_outcome c = (if kc_ok c then Inr (kc_payload c) else Inl (kc_error c))"

end
