(* ===== verification/Kj_Queue.thy ===== *)
theory Kj_Queue
  imports Kj_Completions
begin

text \<open>
  The queue of \<^verbatim>\<open>KjAsyncRuntimeLoop\<close>, with the methods other threads put
  operations there with. An operation is queued with the handle of its completion, an index
  into \<open>kj_completions\<close>; each method holds \<^verbatim>\<open>queueMutex_\<close> and so is one step.
\<close>

section \<open>Operations\<close>

text \<open>The alternatives of \<^verbatim>\<open>QueuedOperation\<close>, in the order of the run loop.\<close>

datatype (plugins only: size code) sleep_op =
    QueuedSleepNanos u64
  | QueuedAwaitPromise u32
  | QueuedCancelPromise u32
  | QueuedReleasePromise u32
  | QueuedPromiseThenStart u32 u32
  | QueuedPromiseCatchStart u32 u32

datatype (plugins only: size code) dial_op =
    QueuedListen string u32
  | QueuedReleaseListener u32
  | QueuedAccept u32
  | QueuedAcceptStart u32
  | QueuedConnect string u32
  | QueuedConnectStart string u32

datatype (plugins only: size code) address_op =
    QueuedParseAddress string u32
  | QueuedReleaseNetworkAddress u32
  | QueuedNetworkAddressToString u32
  | QueuedNetworkAddressClone u32
  | QueuedNetworkAddressConnect u32
  | QueuedNetworkAddressConnectStart u32
  | QueuedNetworkAddressListen u32
  | QueuedNetworkAddressBindDatagramPort u32

datatype (plugins only: size code) connecting_op =
    QueuedAwaitConnectionPromise u32
  | QueuedAwaitConnectionPromiseWithTimeout u32 u64
  | QueuedCancelConnectionPromise u32
  | QueuedReleaseConnectionPromise u32

datatype (plugins only: size code) stream_op =
    QueuedReleaseConnection u32
  | QueuedConnectionWrite u32 bytes
  | QueuedConnectionWriteStart u32 bytes
  | QueuedConnectionRead u32 u32 u32
  | QueuedConnectionReadStart u32 u32 u32
  | QueuedBytesPromiseAwait u32
  | QueuedBytesPromiseCancel u32
  | QueuedBytesPromiseRelease u32
  | QueuedConnectionShutdownWrite u32
  | QueuedConnectionShutdownWriteStart u32

datatype (plugins only: size code) compose_op =
    QueuedPromiseAllStart "u32 list"
  | QueuedPromiseRaceStart "u32 list"
  | QueuedTaskSetNew
  | QueuedTaskSetRelease u32
  | QueuedTaskSetAddPromise u32 u32
  | QueuedTaskSetClear u32
  | QueuedTaskSetIsEmpty u32
  | QueuedTaskSetOnEmptyStart u32
  | QueuedTaskSetErrorCount u32
  | QueuedTaskSetTakeLastError u32

datatype (plugins only: size code) descriptor_op =
    QueuedConnectionWhenWriteDisconnectedStart u32
  | QueuedConnectionAbortRead u32
  | QueuedConnectionAbortWrite u32 string
  | QueuedConnectionDupFd u32
  | QueuedWrapSocketFd u32
  | QueuedWrapSocketFdTake u32
  | QueuedWrapListenSocketFd u32
  | QueuedWrapListenSocketFdTake u32
  | QueuedWrapDatagramSocketFd u32
  | QueuedWrapDatagramSocketFdTake u32

datatype (plugins only: size code) datagram_op =
    QueuedNewTwoWayPipe
  | QueuedNewCapabilityPipe
  | QueuedDatagramBind string u32
  | QueuedDatagramReleasePort u32
  | QueuedDatagramGetPort u32
  | QueuedDatagramSend u32 string u32 bytes
  | QueuedDatagramSendStart u32 string u32 bytes

datatype (plugins only: size code) awaiting_op =
    QueuedUInt32PromiseAwait u32
  | QueuedUInt32PromiseCancel u32
  | QueuedUInt32PromiseRelease u32
  | QueuedDatagramReceive u32 u32
  | QueuedDatagramReceiveStart u32 u32
  | QueuedDatagramReceivePromiseAwait u32
  | QueuedDatagramReceivePromiseCancel u32
  | QueuedDatagramReceivePromiseRelease u32

datatype (plugins only: size code) http_op =
    QueuedEnableTls
  | QueuedConfigureTls u32 u32 u32 string string string string string u64
  | QueuedHttpRequest u32 string u32 string bytes bytes bool u64
  | QueuedHttpRequestStart u32 string u32 string bytes bytes bool u64
  | QueuedHttpRequestStartStreaming u32 string u32 string bytes bool
  | QueuedHttpResponsePromiseAwait u32
  | QueuedHttpResponsePromiseAwaitStreaming u32

datatype (plugins only: size code) body_op =
    QueuedHttpResponsePromiseCancel u32
  | QueuedHttpResponsePromiseRelease u32
  | QueuedHttpRequestBodyWriteStart u32 bytes
  | QueuedHttpRequestBodyWrite u32 bytes
  | QueuedHttpRequestBodyFinishStart u32
  | QueuedHttpRequestBodyFinish u32
  | QueuedHttpRequestBodyRelease u32
  | QueuedHttpResponseBodyReadStart u32 u32 u32
  | QueuedHttpResponseBodyRead u32 u32 u32
  | QueuedHttpResponseBodyRelease u32

datatype (plugins only: size code) upgrade_op =
    QueuedHttpServerRequestBodyReadStart u32 u32 u32
  | QueuedHttpServerRequestBodyRead u32 u32 u32
  | QueuedHttpServerRequestBodyRelease u32
  | QueuedWebSocketConnect string u32 string bytes bool
  | QueuedWebSocketConnectStart string u32 string bytes bool
  | QueuedWebSocketPromiseAwait u32
  | QueuedWebSocketPromiseCancel u32
  | QueuedWebSocketPromiseRelease u32
  | QueuedWebSocketRelease u32

datatype (plugins only: size code) message_op =
    QueuedWebSocketSendTextStart u32 string
  | QueuedWebSocketSendText u32 string
  | QueuedWebSocketSendBinaryStart u32 bytes
  | QueuedWebSocketSendBinary u32 bytes
  | QueuedWebSocketReceiveStart u32 u32
  | QueuedWebSocketMessagePromiseAwait u32
  | QueuedWebSocketMessagePromiseCancel u32
  | QueuedWebSocketMessagePromiseRelease u32
  | QueuedWebSocketReceive u32 u32

datatype (plugins only: size code) closing_op =
    QueuedWebSocketCloseStart u32 u16 string
  | QueuedWebSocketClose u32 u16 string
  | QueuedWebSocketDisconnect u32
  | QueuedWebSocketAbort u32
  | QueuedNewWebSocketPipe

datatype (plugins only: size code) serving_op =
    QueuedHttpServerListen string u32 bool http_server_config
  | QueuedHttpServerRelease u32
  | QueuedHttpServerDrainStart u32
  | QueuedHttpServerDrain u32
  | QueuedHttpServerPollRequest u32

datatype (plugins only: size code) respond_op =
    QueuedHttpServerRespond u32 u32 u32 string bytes bytes
  | QueuedHttpServerRespondWebSocket u32 u32 bytes
  | QueuedHttpServerRespondStartStreaming u32 u32 u32 string bytes

datatype (plugins only: size code) answer_op =
    QueuedHttpServerResponseBodyWriteStart u32 bytes
  | QueuedHttpServerResponseBodyWrite u32 bytes
  | QueuedHttpServerResponseBodyFinishStart u32
  | QueuedHttpServerResponseBodyFinish u32
  | QueuedHttpServerResponseBodyRelease u32

datatype (plugins only: size code) kj_operation =
    SleepOp sleep_op
  | DialOp dial_op
  | AddressOp address_op
  | ConnectingOp connecting_op
  | StreamOp stream_op
  | ComposeOp compose_op
  | DescriptorOp descriptor_op
  | DatagramOp datagram_op
  | AwaitingOp awaiting_op
  | HttpOp http_op
  | BodyOp body_op
  | UpgradeOp upgrade_op
  | MessageOp message_op
  | ClosingOp closing_op
  | ServingOp serving_op
  | RespondOp respond_op
  | AnswerOp answer_op

text \<open>The type of the completion each struct holds.\<close>

fun sleep_op_kind :: "sleep_op \<Rightarrow> kj_kind" where
  "sleep_op_kind (QueuedSleepNanos _) = KjPromiseId"
| "sleep_op_kind (QueuedAwaitPromise _) = KjUnit"
| "sleep_op_kind (QueuedCancelPromise _) = KjUnit"
| "sleep_op_kind (QueuedReleasePromise _) = KjUnit"
| "sleep_op_kind (QueuedPromiseThenStart _ _) = KjPromiseId"
| "sleep_op_kind (QueuedPromiseCatchStart _ _) = KjPromiseId"

fun dial_op_kind :: "dial_op \<Rightarrow> kj_kind" where
  "dial_op_kind (QueuedListen _ _) = KjHandle"
| "dial_op_kind (QueuedReleaseListener _) = KjUnit"
| "dial_op_kind (QueuedAccept _) = KjHandle"
| "dial_op_kind (QueuedAcceptStart _) = KjPromiseId"
| "dial_op_kind (QueuedConnect _ _) = KjHandle"
| "dial_op_kind (QueuedConnectStart _ _) = KjPromiseId"

fun address_op_kind :: "address_op \<Rightarrow> kj_kind" where
  "address_op_kind (QueuedParseAddress _ _) = KjHandle"
| "address_op_kind (QueuedReleaseNetworkAddress _) = KjUnit"
| "address_op_kind (QueuedNetworkAddressToString _) = KjOptionalString"
| "address_op_kind (QueuedNetworkAddressClone _) = KjHandle"
| "address_op_kind (QueuedNetworkAddressConnect _) = KjHandle"
| "address_op_kind (QueuedNetworkAddressConnectStart _) = KjPromiseId"
| "address_op_kind (QueuedNetworkAddressListen _) = KjHandle"
| "address_op_kind (QueuedNetworkAddressBindDatagramPort _) = KjHandle"

fun connecting_op_kind :: "connecting_op \<Rightarrow> kj_kind" where
  "connecting_op_kind (QueuedAwaitConnectionPromise _) = KjHandle"
| "connecting_op_kind (QueuedAwaitConnectionPromiseWithTimeout _ _) = KjOptionalUInt32"
| "connecting_op_kind (QueuedCancelConnectionPromise _) = KjUnit"
| "connecting_op_kind (QueuedReleaseConnectionPromise _) = KjUnit"

fun stream_op_kind :: "stream_op \<Rightarrow> kj_kind" where
  "stream_op_kind (QueuedReleaseConnection _) = KjUnit"
| "stream_op_kind (QueuedConnectionWrite _ _) = KjUnit"
| "stream_op_kind (QueuedConnectionWriteStart _ _) = KjPromiseId"
| "stream_op_kind (QueuedConnectionRead _ _ _) = KjBytes"
| "stream_op_kind (QueuedConnectionReadStart _ _ _) = KjPromiseId"
| "stream_op_kind (QueuedBytesPromiseAwait _) = KjBytes"
| "stream_op_kind (QueuedBytesPromiseCancel _) = KjUnit"
| "stream_op_kind (QueuedBytesPromiseRelease _) = KjUnit"
| "stream_op_kind (QueuedConnectionShutdownWrite _) = KjUnit"
| "stream_op_kind (QueuedConnectionShutdownWriteStart _) = KjPromiseId"

fun compose_op_kind :: "compose_op \<Rightarrow> kj_kind" where
  "compose_op_kind (QueuedPromiseAllStart _) = KjPromiseId"
| "compose_op_kind (QueuedPromiseRaceStart _) = KjPromiseId"
| "compose_op_kind QueuedTaskSetNew = KjHandle"
| "compose_op_kind (QueuedTaskSetRelease _) = KjUnit"
| "compose_op_kind (QueuedTaskSetAddPromise _ _) = KjUnit"
| "compose_op_kind (QueuedTaskSetClear _) = KjUnit"
| "compose_op_kind (QueuedTaskSetIsEmpty _) = KjBool"
| "compose_op_kind (QueuedTaskSetOnEmptyStart _) = KjPromiseId"
| "compose_op_kind (QueuedTaskSetErrorCount _) = KjUInt32"
| "compose_op_kind (QueuedTaskSetTakeLastError _) = KjOptionalString"

fun descriptor_op_kind :: "descriptor_op \<Rightarrow> kj_kind" where
  "descriptor_op_kind (QueuedConnectionWhenWriteDisconnectedStart _) = KjPromiseId"
| "descriptor_op_kind (QueuedConnectionAbortRead _) = KjUnit"
| "descriptor_op_kind (QueuedConnectionAbortWrite _ _) = KjUnit"
| "descriptor_op_kind (QueuedConnectionDupFd _) = KjOptionalUInt32"
| "descriptor_op_kind (QueuedWrapSocketFd _) = KjHandle"
| "descriptor_op_kind (QueuedWrapSocketFdTake _) = KjHandle"
| "descriptor_op_kind (QueuedWrapListenSocketFd _) = KjHandle"
| "descriptor_op_kind (QueuedWrapListenSocketFdTake _) = KjHandle"
| "descriptor_op_kind (QueuedWrapDatagramSocketFd _) = KjHandle"
| "descriptor_op_kind (QueuedWrapDatagramSocketFdTake _) = KjHandle"

fun datagram_op_kind :: "datagram_op \<Rightarrow> kj_kind" where
  "datagram_op_kind QueuedNewTwoWayPipe = KjHandlePair"
| "datagram_op_kind QueuedNewCapabilityPipe = KjHandlePair"
| "datagram_op_kind (QueuedDatagramBind _ _) = KjHandle"
| "datagram_op_kind (QueuedDatagramReleasePort _) = KjUnit"
| "datagram_op_kind (QueuedDatagramGetPort _) = KjHandle"
| "datagram_op_kind (QueuedDatagramSend _ _ _ _) = KjUInt32"
| "datagram_op_kind (QueuedDatagramSendStart _ _ _ _) = KjPromiseId"

fun awaiting_op_kind :: "awaiting_op \<Rightarrow> kj_kind" where
  "awaiting_op_kind (QueuedUInt32PromiseAwait _) = KjUInt32"
| "awaiting_op_kind (QueuedUInt32PromiseCancel _) = KjUnit"
| "awaiting_op_kind (QueuedUInt32PromiseRelease _) = KjUnit"
| "awaiting_op_kind (QueuedDatagramReceive _ _) = KjDatagramReceive"
| "awaiting_op_kind (QueuedDatagramReceiveStart _ _) = KjPromiseId"
| "awaiting_op_kind (QueuedDatagramReceivePromiseAwait _) = KjDatagramReceive"
| "awaiting_op_kind (QueuedDatagramReceivePromiseCancel _) = KjUnit"
| "awaiting_op_kind (QueuedDatagramReceivePromiseRelease _) = KjUnit"

fun http_op_kind :: "http_op \<Rightarrow> kj_kind" where
  "http_op_kind QueuedEnableTls = KjUnit"
| "http_op_kind (QueuedConfigureTls _ _ _ _ _ _ _ _ _) = KjUnit"
| "http_op_kind (QueuedHttpRequest _ _ _ _ _ _ _ _) = KjHttpResponse"
| "http_op_kind (QueuedHttpRequestStart _ _ _ _ _ _ _ _) = KjPromiseId"
| "http_op_kind (QueuedHttpRequestStartStreaming _ _ _ _ _ _) = KjHandlePair"
| "http_op_kind (QueuedHttpResponsePromiseAwait _) = KjHttpResponse"
| "http_op_kind (QueuedHttpResponsePromiseAwaitStreaming _) = KjHttpResponse"

fun body_op_kind :: "body_op \<Rightarrow> kj_kind" where
  "body_op_kind (QueuedHttpResponsePromiseCancel _) = KjUnit"
| "body_op_kind (QueuedHttpResponsePromiseRelease _) = KjUnit"
| "body_op_kind (QueuedHttpRequestBodyWriteStart _ _) = KjPromiseId"
| "body_op_kind (QueuedHttpRequestBodyWrite _ _) = KjUnit"
| "body_op_kind (QueuedHttpRequestBodyFinishStart _) = KjPromiseId"
| "body_op_kind (QueuedHttpRequestBodyFinish _) = KjUnit"
| "body_op_kind (QueuedHttpRequestBodyRelease _) = KjUnit"
| "body_op_kind (QueuedHttpResponseBodyReadStart _ _ _) = KjPromiseId"
| "body_op_kind (QueuedHttpResponseBodyRead _ _ _) = KjBytes"
| "body_op_kind (QueuedHttpResponseBodyRelease _) = KjUnit"

fun upgrade_op_kind :: "upgrade_op \<Rightarrow> kj_kind" where
  "upgrade_op_kind (QueuedHttpServerRequestBodyReadStart _ _ _) = KjPromiseId"
| "upgrade_op_kind (QueuedHttpServerRequestBodyRead _ _ _) = KjBytes"
| "upgrade_op_kind (QueuedHttpServerRequestBodyRelease _) = KjUnit"
| "upgrade_op_kind (QueuedWebSocketConnect _ _ _ _ _) = KjHandle"
| "upgrade_op_kind (QueuedWebSocketConnectStart _ _ _ _ _) = KjPromiseId"
| "upgrade_op_kind (QueuedWebSocketPromiseAwait _) = KjHandle"
| "upgrade_op_kind (QueuedWebSocketPromiseCancel _) = KjUnit"
| "upgrade_op_kind (QueuedWebSocketPromiseRelease _) = KjUnit"
| "upgrade_op_kind (QueuedWebSocketRelease _) = KjUnit"

fun message_op_kind :: "message_op \<Rightarrow> kj_kind" where
  "message_op_kind (QueuedWebSocketSendTextStart _ _) = KjPromiseId"
| "message_op_kind (QueuedWebSocketSendText _ _) = KjUnit"
| "message_op_kind (QueuedWebSocketSendBinaryStart _ _) = KjPromiseId"
| "message_op_kind (QueuedWebSocketSendBinary _ _) = KjUnit"
| "message_op_kind (QueuedWebSocketReceiveStart _ _) = KjPromiseId"
| "message_op_kind (QueuedWebSocketMessagePromiseAwait _) = KjWebSocketMessage"
| "message_op_kind (QueuedWebSocketMessagePromiseCancel _) = KjUnit"
| "message_op_kind (QueuedWebSocketMessagePromiseRelease _) = KjUnit"
| "message_op_kind (QueuedWebSocketReceive _ _) = KjWebSocketMessage"

fun closing_op_kind :: "closing_op \<Rightarrow> kj_kind" where
  "closing_op_kind (QueuedWebSocketCloseStart _ _ _) = KjPromiseId"
| "closing_op_kind (QueuedWebSocketClose _ _ _) = KjUnit"
| "closing_op_kind (QueuedWebSocketDisconnect _) = KjUnit"
| "closing_op_kind (QueuedWebSocketAbort _) = KjUnit"
| "closing_op_kind QueuedNewWebSocketPipe = KjHandlePair"

fun serving_op_kind :: "serving_op \<Rightarrow> kj_kind" where
  "serving_op_kind (QueuedHttpServerListen _ _ _ _) = KjHandlePair"
| "serving_op_kind (QueuedHttpServerRelease _) = KjUnit"
| "serving_op_kind (QueuedHttpServerDrainStart _) = KjPromiseId"
| "serving_op_kind (QueuedHttpServerDrain _) = KjUnit"
| "serving_op_kind (QueuedHttpServerPollRequest _) = KjHttpServerRequest"

fun respond_op_kind :: "respond_op \<Rightarrow> kj_kind" where
  "respond_op_kind (QueuedHttpServerRespond _ _ _ _ _ _) = KjUnit"
| "respond_op_kind (QueuedHttpServerRespondWebSocket _ _ _) = KjHandle"
| "respond_op_kind (QueuedHttpServerRespondStartStreaming _ _ _ _ _) = KjHandle"

fun answer_op_kind :: "answer_op \<Rightarrow> kj_kind" where
  "answer_op_kind (QueuedHttpServerResponseBodyWriteStart _ _) = KjPromiseId"
| "answer_op_kind (QueuedHttpServerResponseBodyWrite _ _) = KjUnit"
| "answer_op_kind (QueuedHttpServerResponseBodyFinishStart _) = KjPromiseId"
| "answer_op_kind (QueuedHttpServerResponseBodyFinish _) = KjUnit"
| "answer_op_kind (QueuedHttpServerResponseBodyRelease _) = KjUnit"

fun kj_op_kind :: "kj_operation \<Rightarrow> kj_kind" where
  "kj_op_kind (SleepOp x) = sleep_op_kind x"
| "kj_op_kind (DialOp x) = dial_op_kind x"
| "kj_op_kind (AddressOp x) = address_op_kind x"
| "kj_op_kind (ConnectingOp x) = connecting_op_kind x"
| "kj_op_kind (StreamOp x) = stream_op_kind x"
| "kj_op_kind (ComposeOp x) = compose_op_kind x"
| "kj_op_kind (DescriptorOp x) = descriptor_op_kind x"
| "kj_op_kind (DatagramOp x) = datagram_op_kind x"
| "kj_op_kind (AwaitingOp x) = awaiting_op_kind x"
| "kj_op_kind (HttpOp x) = http_op_kind x"
| "kj_op_kind (BodyOp x) = body_op_kind x"
| "kj_op_kind (UpgradeOp x) = upgrade_op_kind x"
| "kj_op_kind (MessageOp x) = message_op_kind x"
| "kj_op_kind (ClosingOp x) = closing_op_kind x"
| "kj_op_kind (ServingOp x) = serving_op_kind x"
| "kj_op_kind (RespondOp x) = respond_op_kind x"
| "kj_op_kind (AnswerOp x) = answer_op_kind x"

section \<open>State\<close>

record kj_queue_state =
  kj_queue :: "(kj_operation \<times> nat) list"
  kj_stopping :: bool
  kj_completions :: "kj_completion list"

definition kj_shutting_down :: string where
  "kj_shutting_down = ''Capnp.KjAsync runtime is shutting down''"

text \<open>What every method below does. \<^verbatim>\<open>notify_one\<close> only wakes the runtime's thread.\<close>

definition kj_enqueue :: "kj_kind \<Rightarrow> kj_operation \<Rightarrow> 'z kj_queue_state_scheme \<Rightarrow> nat \<times> 'z kj_queue_state_scheme" where
  "kj_enqueue k op s =
     (let h = length (kj_completions s); c = new_kj_completion k
      in if kj_stopping s
         then (h, s\<lparr>kj_completions := kj_completions s @ [completeFailureWithError kj_shutting_down c]\<rparr>)
         else (h, s\<lparr>kj_completions := kj_completions s @ [c], kj_queue := kj_queue s @ [(op, h)]\<rparr>))"

text \<open>\<^verbatim>\<open>shutdown\<close> up to joining the thread.\<close>

definition kj_shutdown :: "'z kj_queue_state_scheme \<Rightarrow> 'z kj_queue_state_scheme" where
  "kj_shutdown s = (if kj_stopping s then s else s\<lparr>kj_stopping := True\<rparr>)"

section \<open>The enqueueing methods\<close>

definition enqueueSleepNanos :: "u64 \<Rightarrow> 'z kj_queue_state_scheme
    \<Rightarrow> nat \<times> 'z kj_queue_state_scheme" where
  "enqueueSleepNanos delayNanos =
     kj_enqueue KjPromiseId (SleepOp (QueuedSleepNanos delayNanos))"

definition enqueueAwaitPromise :: "u32 \<Rightarrow> 'z kj_queue_state_scheme
    \<Rightarrow> nat \<times> 'z kj_queue_state_scheme" where
  "enqueueAwaitPromise promiseId =
     kj_enqueue KjUnit (SleepOp (QueuedAwaitPromise promiseId))"

definition enqueueCancelPromise :: "u32 \<Rightarrow> 'z kj_queue_state_scheme
    \<Rightarrow> nat \<times> 'z kj_queue_state_scheme" where
  "enqueueCancelPromise promiseId =
     kj_enqueue KjUnit (SleepOp (QueuedCancelPromise promiseId))"

definition enqueueReleasePromise :: "u32 \<Rightarrow> 'z kj_queue_state_scheme
    \<Rightarrow> nat \<times> 'z kj_queue_state_scheme" where
  "enqueueReleasePromise promiseId =
     kj_enqueue KjUnit (SleepOp (QueuedReleasePromise promiseId))"

definition enqueuePromiseThenStart :: "u32 \<Rightarrow> u32 \<Rightarrow> 'z kj_queue_state_scheme
    \<Rightarrow> nat \<times> 'z kj_queue_state_scheme" where
  "enqueuePromiseThenStart firstPromiseId secondPromiseId =
     kj_enqueue KjPromiseId (SleepOp (QueuedPromiseThenStart firstPromiseId secondPromiseId))"

definition enqueuePromiseCatchStart :: "u32 \<Rightarrow> u32 \<Rightarrow> 'z kj_queue_state_scheme
    \<Rightarrow> nat \<times> 'z kj_queue_state_scheme" where
  "enqueuePromiseCatchStart promiseId fallbackPromiseId =
     kj_enqueue KjPromiseId (SleepOp (QueuedPromiseCatchStart promiseId fallbackPromiseId))"

definition enqueueListen :: "string \<Rightarrow> u32 \<Rightarrow> 'z kj_queue_state_scheme
    \<Rightarrow> nat \<times> 'z kj_queue_state_scheme" where
  "enqueueListen address portHint =
     kj_enqueue KjHandle (DialOp (QueuedListen address portHint))"

definition enqueueReleaseListener :: "u32 \<Rightarrow> 'z kj_queue_state_scheme
    \<Rightarrow> nat \<times> 'z kj_queue_state_scheme" where
  "enqueueReleaseListener listenerId =
     kj_enqueue KjUnit (DialOp (QueuedReleaseListener listenerId))"

definition enqueueAccept :: "u32 \<Rightarrow> 'z kj_queue_state_scheme
    \<Rightarrow> nat \<times> 'z kj_queue_state_scheme" where
  "enqueueAccept listenerId =
     kj_enqueue KjHandle (DialOp (QueuedAccept listenerId))"

definition enqueueAcceptStart :: "u32 \<Rightarrow> 'z kj_queue_state_scheme
    \<Rightarrow> nat \<times> 'z kj_queue_state_scheme" where
  "enqueueAcceptStart listenerId =
     kj_enqueue KjPromiseId (DialOp (QueuedAcceptStart listenerId))"

definition enqueueConnect :: "string \<Rightarrow> u32 \<Rightarrow> 'z kj_queue_state_scheme
    \<Rightarrow> nat \<times> 'z kj_queue_state_scheme" where
  "enqueueConnect address portHint =
     kj_enqueue KjHandle (DialOp (QueuedConnect address portHint))"

definition enqueueConnectStart :: "string \<Rightarrow> u32 \<Rightarrow> 'z kj_queue_state_scheme
    \<Rightarrow> nat \<times> 'z kj_queue_state_scheme" where
  "enqueueConnectStart address portHint =
     kj_enqueue KjPromiseId (DialOp (QueuedConnectStart address portHint))"

definition enqueueParseAddress :: "string \<Rightarrow> u32 \<Rightarrow> 'z kj_queue_state_scheme
    \<Rightarrow> nat \<times> 'z kj_queue_state_scheme" where
  "enqueueParseAddress address portHint =
     kj_enqueue KjHandle (AddressOp (QueuedParseAddress address portHint))"

definition enqueueReleaseNetworkAddress :: "u32 \<Rightarrow> 'z kj_queue_state_scheme
    \<Rightarrow> nat \<times> 'z kj_queue_state_scheme" where
  "enqueueReleaseNetworkAddress addressId =
     kj_enqueue KjUnit (AddressOp (QueuedReleaseNetworkAddress addressId))"

definition enqueueNetworkAddressToString :: "u32 \<Rightarrow> 'z kj_queue_state_scheme
    \<Rightarrow> nat \<times> 'z kj_queue_state_scheme" where
  "enqueueNetworkAddressToString addressId =
     kj_enqueue KjOptionalString (AddressOp (QueuedNetworkAddressToString addressId))"

definition enqueueNetworkAddressClone :: "u32 \<Rightarrow> 'z kj_queue_state_scheme
    \<Rightarrow> nat \<times> 'z kj_queue_state_scheme" where
  "enqueueNetworkAddressClone addressId =
     kj_enqueue KjHandle (AddressOp (QueuedNetworkAddressClone addressId))"

definition enqueueNetworkAddressConnect :: "u32 \<Rightarrow> 'z kj_queue_state_scheme
    \<Rightarrow> nat \<times> 'z kj_queue_state_scheme" where
  "enqueueNetworkAddressConnect addressId =
     kj_enqueue KjHandle (AddressOp (QueuedNetworkAddressConnect addressId))"

definition enqueueNetworkAddressConnectStart :: "u32 \<Rightarrow> 'z kj_queue_state_scheme
    \<Rightarrow> nat \<times> 'z kj_queue_state_scheme" where
  "enqueueNetworkAddressConnectStart addressId =
     kj_enqueue KjPromiseId (AddressOp (QueuedNetworkAddressConnectStart addressId))"

definition enqueueNetworkAddressListen :: "u32 \<Rightarrow> 'z kj_queue_state_scheme
    \<Rightarrow> nat \<times> 'z kj_queue_state_scheme" where
  "enqueueNetworkAddressListen addressId =
     kj_enqueue KjHandle (AddressOp (QueuedNetworkAddressListen addressId))"

definition enqueueNetworkAddressBindDatagramPort :: "u32 \<Rightarrow> 'z kj_queue_state_scheme
    \<Rightarrow> nat \<times> 'z kj_queue_state_scheme" where
  "enqueueNetworkAddressBindDatagramPort addressId =
     kj_enqueue KjHandle (AddressOp (QueuedNetworkAddressBindDatagramPort addressId))"

definition enqueueAwaitConnectionPromise :: "u32 \<Rightarrow> 'z kj_queue_state_scheme
    \<Rightarrow> nat \<times> 'z kj_queue_state_scheme" where
  "enqueueAwaitConnectionPromise promiseId =
     kj_enqueue KjHandle (ConnectingOp (QueuedAwaitConnectionPromise promiseId))"

definition enqueueAwaitConnectionPromiseWithTimeout :: "u32 \<Rightarrow> u64 \<Rightarrow> 'z kj_queue_state_scheme
    \<Rightarrow> nat \<times> 'z kj_queue_state_scheme" where
  "enqueueAwaitConnectionPromiseWithTimeout promiseId timeoutNanos =
     kj_enqueue KjOptionalUInt32 (ConnectingOp (QueuedAwaitConnectionPromiseWithTimeout promiseId timeoutNanos))"

definition enqueueCancelConnectionPromise :: "u32 \<Rightarrow> 'z kj_queue_state_scheme
    \<Rightarrow> nat \<times> 'z kj_queue_state_scheme" where
  "enqueueCancelConnectionPromise promiseId =
     kj_enqueue KjUnit (ConnectingOp (QueuedCancelConnectionPromise promiseId))"

definition enqueueReleaseConnectionPromise :: "u32 \<Rightarrow> 'z kj_queue_state_scheme
    \<Rightarrow> nat \<times> 'z kj_queue_state_scheme" where
  "enqueueReleaseConnectionPromise promiseId =
     kj_enqueue KjUnit (ConnectingOp (QueuedReleaseConnectionPromise promiseId))"

definition enqueueReleaseConnection :: "u32 \<Rightarrow> 'z kj_queue_state_scheme
    \<Rightarrow> nat \<times> 'z kj_queue_state_scheme" where
  "enqueueReleaseConnection connectionId =
     kj_enqueue KjUnit (StreamOp (QueuedReleaseConnection connectionId))"

definition enqueueConnectionWrite :: "u32 \<Rightarrow> bytes \<Rightarrow> 'z kj_queue_state_scheme
    \<Rightarrow> nat \<times> 'z kj_queue_state_scheme" where
  "enqueueConnectionWrite connectionId bs =
     kj_enqueue KjUnit (StreamOp (QueuedConnectionWrite connectionId bs))"

definition enqueueConnectionWriteStart :: "u32 \<Rightarrow> bytes \<Rightarrow> 'z kj_queue_state_scheme
    \<Rightarrow> nat \<times> 'z kj_queue_state_scheme" where
  "enqueueConnectionWriteStart connectionId bs =
     kj_enqueue KjPromiseId (StreamOp (QueuedConnectionWriteStart connectionId bs))"

definition enqueueConnectionRead :: "u32 \<Rightarrow> u32 \<Rightarrow> u32 \<Rightarrow> 'z kj_queue_state_scheme
    \<Rightarrow> nat \<times> 'z kj_queue_state_scheme" where
  "enqueueConnectionRead connectionId minBytes maxBytes =
     kj_enqueue KjBytes (StreamOp (QueuedConnectionRead connectionId minBytes maxBytes))"

definition enqueueConnectionReadStart :: "u32 \<Rightarrow> u32 \<Rightarrow> u32 \<Rightarrow> 'z kj_queue_state_scheme
    \<Rightarrow> nat \<times> 'z kj_queue_state_scheme" where
  "enqueueConnectionReadStart connectionId minBytes maxBytes =
     kj_enqueue KjPromiseId (StreamOp (QueuedConnectionReadStart connectionId minBytes maxBytes))"

definition enqueueBytesPromiseAwait :: "u32 \<Rightarrow> 'z kj_queue_state_scheme
    \<Rightarrow> nat \<times> 'z kj_queue_state_scheme" where
  "enqueueBytesPromiseAwait promiseId =
     kj_enqueue KjBytes (StreamOp (QueuedBytesPromiseAwait promiseId))"

definition enqueueBytesPromiseCancel :: "u32 \<Rightarrow> 'z kj_queue_state_scheme
    \<Rightarrow> nat \<times> 'z kj_queue_state_scheme" where
  "enqueueBytesPromiseCancel promiseId =
     kj_enqueue KjUnit (StreamOp (QueuedBytesPromiseCancel promiseId))"

definition enqueueBytesPromiseRelease :: "u32 \<Rightarrow> 'z kj_queue_state_scheme
    \<Rightarrow> nat \<times> 'z kj_queue_state_scheme" where
  "enqueueBytesPromiseRelease promiseId =
     kj_enqueue KjUnit (StreamOp (QueuedBytesPromiseRelease promiseId))"

definition enqueueConnectionShutdownWrite :: "u32 \<Rightarrow> 'z kj_queue_state_scheme
    \<Rightarrow> nat \<times> 'z kj_queue_state_scheme" where
  "enqueueConnectionShutdownWrite connectionId =
     kj_enqueue KjUnit (StreamOp (QueuedConnectionShutdownWrite connectionId))"

definition enqueueConnectionShutdownWriteStart :: "u32 \<Rightarrow> 'z kj_queue_state_scheme
    \<Rightarrow> nat \<times> 'z kj_queue_state_scheme" where
  "enqueueConnectionShutdownWriteStart connectionId =
     kj_enqueue KjPromiseId (StreamOp (QueuedConnectionShutdownWriteStart connectionId))"

definition enqueuePromiseAllStart :: "u32 list \<Rightarrow> 'z kj_queue_state_scheme
    \<Rightarrow> nat \<times> 'z kj_queue_state_scheme" where
  "enqueuePromiseAllStart promiseIds =
     kj_enqueue KjPromiseId (ComposeOp (QueuedPromiseAllStart promiseIds))"

definition enqueuePromiseRaceStart :: "u32 list \<Rightarrow> 'z kj_queue_state_scheme
    \<Rightarrow> nat \<times> 'z kj_queue_state_scheme" where
  "enqueuePromiseRaceStart promiseIds =
     kj_enqueue KjPromiseId (ComposeOp (QueuedPromiseRaceStart promiseIds))"

definition enqueueTaskSetNew :: "'z kj_queue_state_scheme
    \<Rightarrow> nat \<times> 'z kj_queue_state_scheme" where
  "enqueueTaskSetNew =
     kj_enqueue KjHandle (ComposeOp QueuedTaskSetNew)"

definition enqueueTaskSetRelease :: "u32 \<Rightarrow> 'z kj_queue_state_scheme
    \<Rightarrow> nat \<times> 'z kj_queue_state_scheme" where
  "enqueueTaskSetRelease taskSetId =
     kj_enqueue KjUnit (ComposeOp (QueuedTaskSetRelease taskSetId))"

definition enqueueTaskSetAddPromise :: "u32 \<Rightarrow> u32 \<Rightarrow> 'z kj_queue_state_scheme
    \<Rightarrow> nat \<times> 'z kj_queue_state_scheme" where
  "enqueueTaskSetAddPromise taskSetId promiseId =
     kj_enqueue KjUnit (ComposeOp (QueuedTaskSetAddPromise taskSetId promiseId))"

definition enqueueTaskSetClear :: "u32 \<Rightarrow> 'z kj_queue_state_scheme
    \<Rightarrow> nat \<times> 'z kj_queue_state_scheme" where
  "enqueueTaskSetClear taskSetId =
     kj_enqueue KjUnit (ComposeOp (QueuedTaskSetClear taskSetId))"

definition enqueueTaskSetIsEmpty :: "u32 \<Rightarrow> 'z kj_queue_state_scheme
    \<Rightarrow> nat \<times> 'z kj_queue_state_scheme" where
  "enqueueTaskSetIsEmpty taskSetId =
     kj_enqueue KjBool (ComposeOp (QueuedTaskSetIsEmpty taskSetId))"

definition enqueueTaskSetOnEmptyStart :: "u32 \<Rightarrow> 'z kj_queue_state_scheme
    \<Rightarrow> nat \<times> 'z kj_queue_state_scheme" where
  "enqueueTaskSetOnEmptyStart taskSetId =
     kj_enqueue KjPromiseId (ComposeOp (QueuedTaskSetOnEmptyStart taskSetId))"

definition enqueueTaskSetErrorCount :: "u32 \<Rightarrow> 'z kj_queue_state_scheme
    \<Rightarrow> nat \<times> 'z kj_queue_state_scheme" where
  "enqueueTaskSetErrorCount taskSetId =
     kj_enqueue KjUInt32 (ComposeOp (QueuedTaskSetErrorCount taskSetId))"

definition enqueueTaskSetTakeLastError :: "u32 \<Rightarrow> 'z kj_queue_state_scheme
    \<Rightarrow> nat \<times> 'z kj_queue_state_scheme" where
  "enqueueTaskSetTakeLastError taskSetId =
     kj_enqueue KjOptionalString (ComposeOp (QueuedTaskSetTakeLastError taskSetId))"

definition enqueueConnectionWhenWriteDisconnectedStart :: "u32 \<Rightarrow> 'z kj_queue_state_scheme
    \<Rightarrow> nat \<times> 'z kj_queue_state_scheme" where
  "enqueueConnectionWhenWriteDisconnectedStart connectionId =
     kj_enqueue KjPromiseId (DescriptorOp (QueuedConnectionWhenWriteDisconnectedStart connectionId))"

definition enqueueConnectionAbortRead :: "u32 \<Rightarrow> 'z kj_queue_state_scheme
    \<Rightarrow> nat \<times> 'z kj_queue_state_scheme" where
  "enqueueConnectionAbortRead connectionId =
     kj_enqueue KjUnit (DescriptorOp (QueuedConnectionAbortRead connectionId))"

definition enqueueConnectionAbortWrite :: "u32 \<Rightarrow> string \<Rightarrow> 'z kj_queue_state_scheme
    \<Rightarrow> nat \<times> 'z kj_queue_state_scheme" where
  "enqueueConnectionAbortWrite connectionId reason =
     kj_enqueue KjUnit (DescriptorOp (QueuedConnectionAbortWrite connectionId reason))"

definition enqueueConnectionDupFd :: "u32 \<Rightarrow> 'z kj_queue_state_scheme
    \<Rightarrow> nat \<times> 'z kj_queue_state_scheme" where
  "enqueueConnectionDupFd connectionId =
     kj_enqueue KjOptionalUInt32 (DescriptorOp (QueuedConnectionDupFd connectionId))"

definition enqueueWrapSocketFd :: "u32 \<Rightarrow> 'z kj_queue_state_scheme
    \<Rightarrow> nat \<times> 'z kj_queue_state_scheme" where
  "enqueueWrapSocketFd fd =
     kj_enqueue KjHandle (DescriptorOp (QueuedWrapSocketFd fd))"

definition enqueueWrapSocketFdTake :: "u32 \<Rightarrow> 'z kj_queue_state_scheme
    \<Rightarrow> nat \<times> 'z kj_queue_state_scheme" where
  "enqueueWrapSocketFdTake fd =
     kj_enqueue KjHandle (DescriptorOp (QueuedWrapSocketFdTake fd))"

definition enqueueWrapListenSocketFd :: "u32 \<Rightarrow> 'z kj_queue_state_scheme
    \<Rightarrow> nat \<times> 'z kj_queue_state_scheme" where
  "enqueueWrapListenSocketFd fd =
     kj_enqueue KjHandle (DescriptorOp (QueuedWrapListenSocketFd fd))"

definition enqueueWrapListenSocketFdTake :: "u32 \<Rightarrow> 'z kj_queue_state_scheme
    \<Rightarrow> nat \<times> 'z kj_queue_state_scheme" where
  "enqueueWrapListenSocketFdTake fd =
     kj_enqueue KjHandle (DescriptorOp (QueuedWrapListenSocketFdTake fd))"

definition enqueueWrapDatagramSocketFd :: "u32 \<Rightarrow> 'z kj_queue_state_scheme
    \<Rightarrow> nat \<times> 'z kj_queue_state_scheme" where
  "enqueueWrapDatagramSocketFd fd =
     kj_enqueue KjHandle (DescriptorOp (QueuedWrapDatagramSocketFd fd))"

definition enqueueWrapDatagramSocketFdTake :: "u32 \<Rightarrow> 'z kj_queue_state_scheme
    \<Rightarrow> nat \<times> 'z kj_queue_state_scheme" where
  "enqueueWrapDatagramSocketFdTake fd =
     kj_enqueue KjHandle (DescriptorOp (QueuedWrapDatagramSocketFdTake fd))"

definition enqueueNewTwoWayPipe :: "'z kj_queue_state_scheme
    \<Rightarrow> nat \<times> 'z kj_queue_state_scheme" where
  "enqueueNewTwoWayPipe =
     kj_enqueue KjHandlePair (DatagramOp QueuedNewTwoWayPipe)"

definition enqueueNewCapabilityPipe :: "'z kj_queue_state_scheme
    \<Rightarrow> nat \<times> 'z kj_queue_state_scheme" where
  "enqueueNewCapabilityPipe =
     kj_enqueue KjHandlePair (DatagramOp QueuedNewCapabilityPipe)"

definition enqueueDatagramBind :: "string \<Rightarrow> u32 \<Rightarrow> 'z kj_queue_state_scheme
    \<Rightarrow> nat \<times> 'z kj_queue_state_scheme" where
  "enqueueDatagramBind address portHint =
     kj_enqueue KjHandle (DatagramOp (QueuedDatagramBind address portHint))"

definition enqueueDatagramReleasePort :: "u32 \<Rightarrow> 'z kj_queue_state_scheme
    \<Rightarrow> nat \<times> 'z kj_queue_state_scheme" where
  "enqueueDatagramReleasePort portId =
     kj_enqueue KjUnit (DatagramOp (QueuedDatagramReleasePort portId))"

definition enqueueDatagramGetPort :: "u32 \<Rightarrow> 'z kj_queue_state_scheme
    \<Rightarrow> nat \<times> 'z kj_queue_state_scheme" where
  "enqueueDatagramGetPort portId =
     kj_enqueue KjHandle (DatagramOp (QueuedDatagramGetPort portId))"

definition enqueueDatagramSend :: "u32 \<Rightarrow> string \<Rightarrow> u32 \<Rightarrow> bytes \<Rightarrow> 'z kj_queue_state_scheme
    \<Rightarrow> nat \<times> 'z kj_queue_state_scheme" where
  "enqueueDatagramSend portId address portHint bs =
     kj_enqueue KjUInt32 (DatagramOp (QueuedDatagramSend portId address portHint bs))"

definition enqueueDatagramSendStart :: "u32 \<Rightarrow> string \<Rightarrow> u32 \<Rightarrow> bytes \<Rightarrow> 'z kj_queue_state_scheme
    \<Rightarrow> nat \<times> 'z kj_queue_state_scheme" where
  "enqueueDatagramSendStart portId address portHint bs =
     kj_enqueue KjPromiseId (DatagramOp (QueuedDatagramSendStart portId address portHint bs))"

definition enqueueUInt32PromiseAwait :: "u32 \<Rightarrow> 'z kj_queue_state_scheme
    \<Rightarrow> nat \<times> 'z kj_queue_state_scheme" where
  "enqueueUInt32PromiseAwait promiseId =
     kj_enqueue KjUInt32 (AwaitingOp (QueuedUInt32PromiseAwait promiseId))"

definition enqueueUInt32PromiseCancel :: "u32 \<Rightarrow> 'z kj_queue_state_scheme
    \<Rightarrow> nat \<times> 'z kj_queue_state_scheme" where
  "enqueueUInt32PromiseCancel promiseId =
     kj_enqueue KjUnit (AwaitingOp (QueuedUInt32PromiseCancel promiseId))"

definition enqueueUInt32PromiseRelease :: "u32 \<Rightarrow> 'z kj_queue_state_scheme
    \<Rightarrow> nat \<times> 'z kj_queue_state_scheme" where
  "enqueueUInt32PromiseRelease promiseId =
     kj_enqueue KjUnit (AwaitingOp (QueuedUInt32PromiseRelease promiseId))"

definition enqueueDatagramReceive :: "u32 \<Rightarrow> u32 \<Rightarrow> 'z kj_queue_state_scheme
    \<Rightarrow> nat \<times> 'z kj_queue_state_scheme" where
  "enqueueDatagramReceive portId maxBytes =
     kj_enqueue KjDatagramReceive (AwaitingOp (QueuedDatagramReceive portId maxBytes))"

definition enqueueDatagramReceiveStart :: "u32 \<Rightarrow> u32 \<Rightarrow> 'z kj_queue_state_scheme
    \<Rightarrow> nat \<times> 'z kj_queue_state_scheme" where
  "enqueueDatagramReceiveStart portId maxBytes =
     kj_enqueue KjPromiseId (AwaitingOp (QueuedDatagramReceiveStart portId maxBytes))"

definition enqueueDatagramReceivePromiseAwait :: "u32 \<Rightarrow> 'z kj_queue_state_scheme
    \<Rightarrow> nat \<times> 'z kj_queue_state_scheme" where
  "enqueueDatagramReceivePromiseAwait promiseId =
     kj_enqueue KjDatagramReceive (AwaitingOp (QueuedDatagramReceivePromiseAwait promiseId))"

definition enqueueDatagramReceivePromiseCancel :: "u32 \<Rightarrow> 'z kj_queue_state_scheme
    \<Rightarrow> nat \<times> 'z kj_queue_state_scheme" where
  "enqueueDatagramReceivePromiseCancel promiseId =
     kj_enqueue KjUnit (AwaitingOp (QueuedDatagramReceivePromiseCancel promiseId))"

definition enqueueDatagramReceivePromiseRelease :: "u32 \<Rightarrow> 'z kj_queue_state_scheme
    \<Rightarrow> nat \<times> 'z kj_queue_state_scheme" where
  "enqueueDatagramReceivePromiseRelease promiseId =
     kj_enqueue KjUnit (AwaitingOp (QueuedDatagramReceivePromiseRelease promiseId))"

definition enqueueEnableTls :: "'z kj_queue_state_scheme
    \<Rightarrow> nat \<times> 'z kj_queue_state_scheme" where
  "enqueueEnableTls =
     kj_enqueue KjUnit (HttpOp QueuedEnableTls)"

definition enqueueConfigureTls :: "u32 \<Rightarrow> u32 \<Rightarrow> u32 \<Rightarrow> string \<Rightarrow> string \<Rightarrow> string \<Rightarrow> string \<Rightarrow> string \<Rightarrow> u64 \<Rightarrow> 'z kj_queue_state_scheme
    \<Rightarrow> nat \<times> 'z kj_queue_state_scheme" where
  "enqueueConfigureTls useSystemTrustStore verifyClients minVersionTag trustedCertificatesPem certificateChainPem privateKeyPem cipherList curveList acceptTimeoutNanos =
     kj_enqueue KjUnit (HttpOp (QueuedConfigureTls useSystemTrustStore verifyClients minVersionTag trustedCertificatesPem certificateChainPem privateKeyPem cipherList curveList acceptTimeoutNanos))"

definition enqueueHttpRequest :: "u32 \<Rightarrow> string \<Rightarrow> u32 \<Rightarrow> string \<Rightarrow> bytes \<Rightarrow> bytes \<Rightarrow> bool \<Rightarrow> u64 \<Rightarrow> 'z kj_queue_state_scheme
    \<Rightarrow> nat \<times> 'z kj_queue_state_scheme" where
  "enqueueHttpRequest m address portHint path requestHeaders body useTls responseBodyLimit =
     kj_enqueue KjHttpResponse (HttpOp (QueuedHttpRequest m address portHint path requestHeaders body useTls responseBodyLimit))"

definition enqueueHttpRequestStart :: "u32 \<Rightarrow> string \<Rightarrow> u32 \<Rightarrow> string \<Rightarrow> bytes \<Rightarrow> bytes \<Rightarrow> bool \<Rightarrow> u64 \<Rightarrow> 'z kj_queue_state_scheme
    \<Rightarrow> nat \<times> 'z kj_queue_state_scheme" where
  "enqueueHttpRequestStart m address portHint path requestHeaders body useTls responseBodyLimit =
     kj_enqueue KjPromiseId (HttpOp (QueuedHttpRequestStart m address portHint path requestHeaders body useTls responseBodyLimit))"

definition enqueueHttpRequestStartStreaming :: "u32 \<Rightarrow> string \<Rightarrow> u32 \<Rightarrow> string \<Rightarrow> bytes \<Rightarrow> bool \<Rightarrow> 'z kj_queue_state_scheme
    \<Rightarrow> nat \<times> 'z kj_queue_state_scheme" where
  "enqueueHttpRequestStartStreaming m address portHint path requestHeaders useTls =
     kj_enqueue KjHandlePair (HttpOp (QueuedHttpRequestStartStreaming m address portHint path requestHeaders useTls))"

definition enqueueHttpResponsePromiseAwait :: "u32 \<Rightarrow> 'z kj_queue_state_scheme
    \<Rightarrow> nat \<times> 'z kj_queue_state_scheme" where
  "enqueueHttpResponsePromiseAwait promiseId =
     kj_enqueue KjHttpResponse (HttpOp (QueuedHttpResponsePromiseAwait promiseId))"

definition enqueueHttpResponsePromiseAwaitStreaming :: "u32 \<Rightarrow> 'z kj_queue_state_scheme
    \<Rightarrow> nat \<times> 'z kj_queue_state_scheme" where
  "enqueueHttpResponsePromiseAwaitStreaming promiseId =
     kj_enqueue KjHttpResponse (HttpOp (QueuedHttpResponsePromiseAwaitStreaming promiseId))"

definition enqueueHttpResponsePromiseCancel :: "u32 \<Rightarrow> 'z kj_queue_state_scheme
    \<Rightarrow> nat \<times> 'z kj_queue_state_scheme" where
  "enqueueHttpResponsePromiseCancel promiseId =
     kj_enqueue KjUnit (BodyOp (QueuedHttpResponsePromiseCancel promiseId))"

definition enqueueHttpResponsePromiseRelease :: "u32 \<Rightarrow> 'z kj_queue_state_scheme
    \<Rightarrow> nat \<times> 'z kj_queue_state_scheme" where
  "enqueueHttpResponsePromiseRelease promiseId =
     kj_enqueue KjUnit (BodyOp (QueuedHttpResponsePromiseRelease promiseId))"

definition enqueueHttpRequestBodyWriteStart :: "u32 \<Rightarrow> bytes \<Rightarrow> 'z kj_queue_state_scheme
    \<Rightarrow> nat \<times> 'z kj_queue_state_scheme" where
  "enqueueHttpRequestBodyWriteStart requestBodyId bs =
     kj_enqueue KjPromiseId (BodyOp (QueuedHttpRequestBodyWriteStart requestBodyId bs))"

definition enqueueHttpRequestBodyWrite :: "u32 \<Rightarrow> bytes \<Rightarrow> 'z kj_queue_state_scheme
    \<Rightarrow> nat \<times> 'z kj_queue_state_scheme" where
  "enqueueHttpRequestBodyWrite requestBodyId bs =
     kj_enqueue KjUnit (BodyOp (QueuedHttpRequestBodyWrite requestBodyId bs))"

definition enqueueHttpRequestBodyFinishStart :: "u32 \<Rightarrow> 'z kj_queue_state_scheme
    \<Rightarrow> nat \<times> 'z kj_queue_state_scheme" where
  "enqueueHttpRequestBodyFinishStart requestBodyId =
     kj_enqueue KjPromiseId (BodyOp (QueuedHttpRequestBodyFinishStart requestBodyId))"

definition enqueueHttpRequestBodyFinish :: "u32 \<Rightarrow> 'z kj_queue_state_scheme
    \<Rightarrow> nat \<times> 'z kj_queue_state_scheme" where
  "enqueueHttpRequestBodyFinish requestBodyId =
     kj_enqueue KjUnit (BodyOp (QueuedHttpRequestBodyFinish requestBodyId))"

definition enqueueHttpRequestBodyRelease :: "u32 \<Rightarrow> 'z kj_queue_state_scheme
    \<Rightarrow> nat \<times> 'z kj_queue_state_scheme" where
  "enqueueHttpRequestBodyRelease requestBodyId =
     kj_enqueue KjUnit (BodyOp (QueuedHttpRequestBodyRelease requestBodyId))"

definition enqueueHttpResponseBodyReadStart :: "u32 \<Rightarrow> u32 \<Rightarrow> u32 \<Rightarrow> 'z kj_queue_state_scheme
    \<Rightarrow> nat \<times> 'z kj_queue_state_scheme" where
  "enqueueHttpResponseBodyReadStart responseBodyId minBytes maxBytes =
     kj_enqueue KjPromiseId (BodyOp (QueuedHttpResponseBodyReadStart responseBodyId minBytes maxBytes))"

definition enqueueHttpResponseBodyRead :: "u32 \<Rightarrow> u32 \<Rightarrow> u32 \<Rightarrow> 'z kj_queue_state_scheme
    \<Rightarrow> nat \<times> 'z kj_queue_state_scheme" where
  "enqueueHttpResponseBodyRead responseBodyId minBytes maxBytes =
     kj_enqueue KjBytes (BodyOp (QueuedHttpResponseBodyRead responseBodyId minBytes maxBytes))"

definition enqueueHttpResponseBodyRelease :: "u32 \<Rightarrow> 'z kj_queue_state_scheme
    \<Rightarrow> nat \<times> 'z kj_queue_state_scheme" where
  "enqueueHttpResponseBodyRelease responseBodyId =
     kj_enqueue KjUnit (BodyOp (QueuedHttpResponseBodyRelease responseBodyId))"

definition enqueueHttpServerRequestBodyReadStart :: "u32 \<Rightarrow> u32 \<Rightarrow> u32 \<Rightarrow> 'z kj_queue_state_scheme
    \<Rightarrow> nat \<times> 'z kj_queue_state_scheme" where
  "enqueueHttpServerRequestBodyReadStart requestBodyId minBytes maxBytes =
     kj_enqueue KjPromiseId (UpgradeOp (QueuedHttpServerRequestBodyReadStart requestBodyId minBytes maxBytes))"

definition enqueueHttpServerRequestBodyRead :: "u32 \<Rightarrow> u32 \<Rightarrow> u32 \<Rightarrow> 'z kj_queue_state_scheme
    \<Rightarrow> nat \<times> 'z kj_queue_state_scheme" where
  "enqueueHttpServerRequestBodyRead requestBodyId minBytes maxBytes =
     kj_enqueue KjBytes (UpgradeOp (QueuedHttpServerRequestBodyRead requestBodyId minBytes maxBytes))"

definition enqueueHttpServerRequestBodyRelease :: "u32 \<Rightarrow> 'z kj_queue_state_scheme
    \<Rightarrow> nat \<times> 'z kj_queue_state_scheme" where
  "enqueueHttpServerRequestBodyRelease requestBodyId =
     kj_enqueue KjUnit (UpgradeOp (QueuedHttpServerRequestBodyRelease requestBodyId))"

definition enqueueWebSocketConnect :: "string \<Rightarrow> u32 \<Rightarrow> string \<Rightarrow> bytes \<Rightarrow> bool \<Rightarrow> 'z kj_queue_state_scheme
    \<Rightarrow> nat \<times> 'z kj_queue_state_scheme" where
  "enqueueWebSocketConnect address portHint path requestHeaders useTls =
     kj_enqueue KjHandle (UpgradeOp (QueuedWebSocketConnect address portHint path requestHeaders useTls))"

definition enqueueWebSocketConnectStart :: "string \<Rightarrow> u32 \<Rightarrow> string \<Rightarrow> bytes \<Rightarrow> bool \<Rightarrow> 'z kj_queue_state_scheme
    \<Rightarrow> nat \<times> 'z kj_queue_state_scheme" where
  "enqueueWebSocketConnectStart address portHint path requestHeaders useTls =
     kj_enqueue KjPromiseId (UpgradeOp (QueuedWebSocketConnectStart address portHint path requestHeaders useTls))"

definition enqueueWebSocketPromiseAwait :: "u32 \<Rightarrow> 'z kj_queue_state_scheme
    \<Rightarrow> nat \<times> 'z kj_queue_state_scheme" where
  "enqueueWebSocketPromiseAwait promiseId =
     kj_enqueue KjHandle (UpgradeOp (QueuedWebSocketPromiseAwait promiseId))"

definition enqueueWebSocketPromiseCancel :: "u32 \<Rightarrow> 'z kj_queue_state_scheme
    \<Rightarrow> nat \<times> 'z kj_queue_state_scheme" where
  "enqueueWebSocketPromiseCancel promiseId =
     kj_enqueue KjUnit (UpgradeOp (QueuedWebSocketPromiseCancel promiseId))"

definition enqueueWebSocketPromiseRelease :: "u32 \<Rightarrow> 'z kj_queue_state_scheme
    \<Rightarrow> nat \<times> 'z kj_queue_state_scheme" where
  "enqueueWebSocketPromiseRelease promiseId =
     kj_enqueue KjUnit (UpgradeOp (QueuedWebSocketPromiseRelease promiseId))"

definition enqueueWebSocketRelease :: "u32 \<Rightarrow> 'z kj_queue_state_scheme
    \<Rightarrow> nat \<times> 'z kj_queue_state_scheme" where
  "enqueueWebSocketRelease webSocketId =
     kj_enqueue KjUnit (UpgradeOp (QueuedWebSocketRelease webSocketId))"

definition enqueueWebSocketSendTextStart :: "u32 \<Rightarrow> string \<Rightarrow> 'z kj_queue_state_scheme
    \<Rightarrow> nat \<times> 'z kj_queue_state_scheme" where
  "enqueueWebSocketSendTextStart webSocketId txt =
     kj_enqueue KjPromiseId (MessageOp (QueuedWebSocketSendTextStart webSocketId txt))"

definition enqueueWebSocketSendText :: "u32 \<Rightarrow> string \<Rightarrow> 'z kj_queue_state_scheme
    \<Rightarrow> nat \<times> 'z kj_queue_state_scheme" where
  "enqueueWebSocketSendText webSocketId txt =
     kj_enqueue KjUnit (MessageOp (QueuedWebSocketSendText webSocketId txt))"

definition enqueueWebSocketSendBinaryStart :: "u32 \<Rightarrow> bytes \<Rightarrow> 'z kj_queue_state_scheme
    \<Rightarrow> nat \<times> 'z kj_queue_state_scheme" where
  "enqueueWebSocketSendBinaryStart webSocketId bs =
     kj_enqueue KjPromiseId (MessageOp (QueuedWebSocketSendBinaryStart webSocketId bs))"

definition enqueueWebSocketSendBinary :: "u32 \<Rightarrow> bytes \<Rightarrow> 'z kj_queue_state_scheme
    \<Rightarrow> nat \<times> 'z kj_queue_state_scheme" where
  "enqueueWebSocketSendBinary webSocketId bs =
     kj_enqueue KjUnit (MessageOp (QueuedWebSocketSendBinary webSocketId bs))"

definition enqueueWebSocketReceiveStart :: "u32 \<Rightarrow> u32 \<Rightarrow> 'z kj_queue_state_scheme
    \<Rightarrow> nat \<times> 'z kj_queue_state_scheme" where
  "enqueueWebSocketReceiveStart webSocketId maxBytes =
     kj_enqueue KjPromiseId (MessageOp (QueuedWebSocketReceiveStart webSocketId maxBytes))"

definition enqueueWebSocketMessagePromiseAwait :: "u32 \<Rightarrow> 'z kj_queue_state_scheme
    \<Rightarrow> nat \<times> 'z kj_queue_state_scheme" where
  "enqueueWebSocketMessagePromiseAwait promiseId =
     kj_enqueue KjWebSocketMessage (MessageOp (QueuedWebSocketMessagePromiseAwait promiseId))"

definition enqueueWebSocketMessagePromiseCancel :: "u32 \<Rightarrow> 'z kj_queue_state_scheme
    \<Rightarrow> nat \<times> 'z kj_queue_state_scheme" where
  "enqueueWebSocketMessagePromiseCancel promiseId =
     kj_enqueue KjUnit (MessageOp (QueuedWebSocketMessagePromiseCancel promiseId))"

definition enqueueWebSocketMessagePromiseRelease :: "u32 \<Rightarrow> 'z kj_queue_state_scheme
    \<Rightarrow> nat \<times> 'z kj_queue_state_scheme" where
  "enqueueWebSocketMessagePromiseRelease promiseId =
     kj_enqueue KjUnit (MessageOp (QueuedWebSocketMessagePromiseRelease promiseId))"

definition enqueueWebSocketReceive :: "u32 \<Rightarrow> u32 \<Rightarrow> 'z kj_queue_state_scheme
    \<Rightarrow> nat \<times> 'z kj_queue_state_scheme" where
  "enqueueWebSocketReceive webSocketId maxBytes =
     kj_enqueue KjWebSocketMessage (MessageOp (QueuedWebSocketReceive webSocketId maxBytes))"

definition enqueueWebSocketCloseStart :: "u32 \<Rightarrow> u16 \<Rightarrow> string \<Rightarrow> 'z kj_queue_state_scheme
    \<Rightarrow> nat \<times> 'z kj_queue_state_scheme" where
  "enqueueWebSocketCloseStart webSocketId closeCode reason =
     kj_enqueue KjPromiseId (ClosingOp (QueuedWebSocketCloseStart webSocketId closeCode reason))"

definition enqueueWebSocketClose :: "u32 \<Rightarrow> u16 \<Rightarrow> string \<Rightarrow> 'z kj_queue_state_scheme
    \<Rightarrow> nat \<times> 'z kj_queue_state_scheme" where
  "enqueueWebSocketClose webSocketId closeCode reason =
     kj_enqueue KjUnit (ClosingOp (QueuedWebSocketClose webSocketId closeCode reason))"

definition enqueueWebSocketDisconnect :: "u32 \<Rightarrow> 'z kj_queue_state_scheme
    \<Rightarrow> nat \<times> 'z kj_queue_state_scheme" where
  "enqueueWebSocketDisconnect webSocketId =
     kj_enqueue KjUnit (ClosingOp (QueuedWebSocketDisconnect webSocketId))"

definition enqueueWebSocketAbort :: "u32 \<Rightarrow> 'z kj_queue_state_scheme
    \<Rightarrow> nat \<times> 'z kj_queue_state_scheme" where
  "enqueueWebSocketAbort webSocketId =
     kj_enqueue KjUnit (ClosingOp (QueuedWebSocketAbort webSocketId))"

definition enqueueNewWebSocketPipe :: "'z kj_queue_state_scheme
    \<Rightarrow> nat \<times> 'z kj_queue_state_scheme" where
  "enqueueNewWebSocketPipe =
     kj_enqueue KjHandlePair (ClosingOp QueuedNewWebSocketPipe)"

definition enqueueHttpServerListen :: "string \<Rightarrow> u32 \<Rightarrow> bool \<Rightarrow> http_server_config \<Rightarrow> 'z kj_queue_state_scheme
    \<Rightarrow> nat \<times> 'z kj_queue_state_scheme" where
  "enqueueHttpServerListen address portHint useTls config =
     kj_enqueue KjHandlePair (ServingOp (QueuedHttpServerListen address portHint useTls config))"

definition enqueueHttpServerRelease :: "u32 \<Rightarrow> 'z kj_queue_state_scheme
    \<Rightarrow> nat \<times> 'z kj_queue_state_scheme" where
  "enqueueHttpServerRelease serverId =
     kj_enqueue KjUnit (ServingOp (QueuedHttpServerRelease serverId))"

definition enqueueHttpServerDrainStart :: "u32 \<Rightarrow> 'z kj_queue_state_scheme
    \<Rightarrow> nat \<times> 'z kj_queue_state_scheme" where
  "enqueueHttpServerDrainStart serverId =
     kj_enqueue KjPromiseId (ServingOp (QueuedHttpServerDrainStart serverId))"

definition enqueueHttpServerDrain :: "u32 \<Rightarrow> 'z kj_queue_state_scheme
    \<Rightarrow> nat \<times> 'z kj_queue_state_scheme" where
  "enqueueHttpServerDrain serverId =
     kj_enqueue KjUnit (ServingOp (QueuedHttpServerDrain serverId))"

definition enqueueHttpServerPollRequest :: "u32 \<Rightarrow> 'z kj_queue_state_scheme
    \<Rightarrow> nat \<times> 'z kj_queue_state_scheme" where
  "enqueueHttpServerPollRequest serverId =
     kj_enqueue KjHttpServerRequest (ServingOp (QueuedHttpServerPollRequest serverId))"

definition enqueueHttpServerRespond :: "u32 \<Rightarrow> u32 \<Rightarrow> u32 \<Rightarrow> string \<Rightarrow> bytes \<Rightarrow> bytes \<Rightarrow> 'z kj_queue_state_scheme
    \<Rightarrow> nat \<times> 'z kj_queue_state_scheme" where
  "enqueueHttpServerRespond serverId requestId statusCode statusText responseHeaders body =
     kj_enqueue KjUnit (RespondOp (QueuedHttpServerRespond serverId requestId statusCode statusText responseHeaders body))"

definition enqueueHttpServerRespondWebSocket :: "u32 \<Rightarrow> u32 \<Rightarrow> bytes \<Rightarrow> 'z kj_queue_state_scheme
    \<Rightarrow> nat \<times> 'z kj_queue_state_scheme" where
  "enqueueHttpServerRespondWebSocket serverId requestId responseHeaders =
     kj_enqueue KjHandle (RespondOp (QueuedHttpServerRespondWebSocket serverId requestId responseHeaders))"

definition enqueueHttpServerRespondStartStreaming :: "u32 \<Rightarrow> u32 \<Rightarrow> u32 \<Rightarrow> string \<Rightarrow> bytes \<Rightarrow> 'z kj_queue_state_scheme
    \<Rightarrow> nat \<times> 'z kj_queue_state_scheme" where
  "enqueueHttpServerRespondStartStreaming serverId requestId statusCode statusText responseHeaders =
     kj_enqueue KjHandle (RespondOp (QueuedHttpServerRespondStartStreaming serverId requestId statusCode statusText responseHeaders))"

definition enqueueHttpServerResponseBodyWriteStart :: "u32 \<Rightarrow> bytes \<Rightarrow> 'z kj_queue_state_scheme
    \<Rightarrow> nat \<times> 'z kj_queue_state_scheme" where
  "enqueueHttpServerResponseBodyWriteStart responseBodyId bs =
     kj_enqueue KjPromiseId (AnswerOp (QueuedHttpServerResponseBodyWriteStart responseBodyId bs))"

definition enqueueHttpServerResponseBodyWrite :: "u32 \<Rightarrow> bytes \<Rightarrow> 'z kj_queue_state_scheme
    \<Rightarrow> nat \<times> 'z kj_queue_state_scheme" where
  "enqueueHttpServerResponseBodyWrite responseBodyId bs =
     kj_enqueue KjUnit (AnswerOp (QueuedHttpServerResponseBodyWrite responseBodyId bs))"

definition enqueueHttpServerResponseBodyFinishStart :: "u32 \<Rightarrow> 'z kj_queue_state_scheme
    \<Rightarrow> nat \<times> 'z kj_queue_state_scheme" where
  "enqueueHttpServerResponseBodyFinishStart responseBodyId =
     kj_enqueue KjPromiseId (AnswerOp (QueuedHttpServerResponseBodyFinishStart responseBodyId))"

definition enqueueHttpServerResponseBodyFinish :: "u32 \<Rightarrow> 'z kj_queue_state_scheme
    \<Rightarrow> nat \<times> 'z kj_queue_state_scheme" where
  "enqueueHttpServerResponseBodyFinish responseBodyId =
     kj_enqueue KjUnit (AnswerOp (QueuedHttpServerResponseBodyFinish responseBodyId))"

definition enqueueHttpServerResponseBodyRelease :: "u32 \<Rightarrow> 'z kj_queue_state_scheme
    \<Rightarrow> nat \<times> 'z kj_queue_state_scheme" where
  "enqueueHttpServerResponseBodyRelease responseBodyId =
     kj_enqueue KjUnit (AnswerOp (QueuedHttpServerResponseBodyRelease responseBodyId))"

section \<open>Each method asks for the completion the run loop will answer\<close>

text \<open>Dispatching on the operation, as callers that hold one do.\<close>

definition kj_issue :: "kj_operation \<Rightarrow> 'z kj_queue_state_scheme \<Rightarrow> nat \<times> 'z kj_queue_state_scheme" where
  "kj_issue op = kj_enqueue (kj_op_kind op) op"

lemma issue_sleep_op:
  "enqueueSleepNanos = (\<lambda>a. kj_issue (SleepOp (QueuedSleepNanos a)))"
  "enqueueAwaitPromise = (\<lambda>a. kj_issue (SleepOp (QueuedAwaitPromise a)))"
  "enqueueCancelPromise = (\<lambda>a. kj_issue (SleepOp (QueuedCancelPromise a)))"
  "enqueueReleasePromise = (\<lambda>a. kj_issue (SleepOp (QueuedReleasePromise a)))"
  "enqueuePromiseThenStart = (\<lambda>a b. kj_issue (SleepOp (QueuedPromiseThenStart a b)))"
  "enqueuePromiseCatchStart = (\<lambda>a b. kj_issue (SleepOp (QueuedPromiseCatchStart a b)))"
  by (simp_all add: fun_eq_iff kj_issue_def enqueueSleepNanos_def enqueueAwaitPromise_def enqueueCancelPromise_def enqueueReleasePromise_def enqueuePromiseThenStart_def enqueuePromiseCatchStart_def)

lemma issue_dial_op:
  "enqueueListen = (\<lambda>a b. kj_issue (DialOp (QueuedListen a b)))"
  "enqueueReleaseListener = (\<lambda>a. kj_issue (DialOp (QueuedReleaseListener a)))"
  "enqueueAccept = (\<lambda>a. kj_issue (DialOp (QueuedAccept a)))"
  "enqueueAcceptStart = (\<lambda>a. kj_issue (DialOp (QueuedAcceptStart a)))"
  "enqueueConnect = (\<lambda>a b. kj_issue (DialOp (QueuedConnect a b)))"
  "enqueueConnectStart = (\<lambda>a b. kj_issue (DialOp (QueuedConnectStart a b)))"
  by (simp_all add: fun_eq_iff kj_issue_def enqueueListen_def enqueueReleaseListener_def enqueueAccept_def enqueueAcceptStart_def enqueueConnect_def enqueueConnectStart_def)

lemma issue_address_op:
  "enqueueParseAddress = (\<lambda>a b. kj_issue (AddressOp (QueuedParseAddress a b)))"
  "enqueueReleaseNetworkAddress = (\<lambda>a. kj_issue (AddressOp (QueuedReleaseNetworkAddress a)))"
  "enqueueNetworkAddressToString = (\<lambda>a. kj_issue (AddressOp (QueuedNetworkAddressToString a)))"
  "enqueueNetworkAddressClone = (\<lambda>a. kj_issue (AddressOp (QueuedNetworkAddressClone a)))"
  "enqueueNetworkAddressConnect = (\<lambda>a. kj_issue (AddressOp (QueuedNetworkAddressConnect a)))"
  "enqueueNetworkAddressConnectStart = (\<lambda>a. kj_issue (AddressOp (QueuedNetworkAddressConnectStart a)))"
  "enqueueNetworkAddressListen = (\<lambda>a. kj_issue (AddressOp (QueuedNetworkAddressListen a)))"
  "enqueueNetworkAddressBindDatagramPort = (\<lambda>a. kj_issue (AddressOp (QueuedNetworkAddressBindDatagramPort a)))"
  by (simp_all add: fun_eq_iff kj_issue_def enqueueParseAddress_def enqueueReleaseNetworkAddress_def enqueueNetworkAddressToString_def enqueueNetworkAddressClone_def enqueueNetworkAddressConnect_def enqueueNetworkAddressConnectStart_def enqueueNetworkAddressListen_def enqueueNetworkAddressBindDatagramPort_def)

lemma issue_connecting_op:
  "enqueueAwaitConnectionPromise = (\<lambda>a. kj_issue (ConnectingOp (QueuedAwaitConnectionPromise a)))"
  "enqueueAwaitConnectionPromiseWithTimeout = (\<lambda>a b. kj_issue (ConnectingOp (QueuedAwaitConnectionPromiseWithTimeout a b)))"
  "enqueueCancelConnectionPromise = (\<lambda>a. kj_issue (ConnectingOp (QueuedCancelConnectionPromise a)))"
  "enqueueReleaseConnectionPromise = (\<lambda>a. kj_issue (ConnectingOp (QueuedReleaseConnectionPromise a)))"
  by (simp_all add: fun_eq_iff kj_issue_def enqueueAwaitConnectionPromise_def enqueueAwaitConnectionPromiseWithTimeout_def enqueueCancelConnectionPromise_def enqueueReleaseConnectionPromise_def)

lemma issue_stream_op:
  "enqueueReleaseConnection = (\<lambda>a. kj_issue (StreamOp (QueuedReleaseConnection a)))"
  "enqueueConnectionWrite = (\<lambda>a b. kj_issue (StreamOp (QueuedConnectionWrite a b)))"
  "enqueueConnectionWriteStart = (\<lambda>a b. kj_issue (StreamOp (QueuedConnectionWriteStart a b)))"
  "enqueueConnectionRead = (\<lambda>a b c. kj_issue (StreamOp (QueuedConnectionRead a b c)))"
  "enqueueConnectionReadStart = (\<lambda>a b c. kj_issue (StreamOp (QueuedConnectionReadStart a b c)))"
  "enqueueBytesPromiseAwait = (\<lambda>a. kj_issue (StreamOp (QueuedBytesPromiseAwait a)))"
  "enqueueBytesPromiseCancel = (\<lambda>a. kj_issue (StreamOp (QueuedBytesPromiseCancel a)))"
  "enqueueBytesPromiseRelease = (\<lambda>a. kj_issue (StreamOp (QueuedBytesPromiseRelease a)))"
  "enqueueConnectionShutdownWrite = (\<lambda>a. kj_issue (StreamOp (QueuedConnectionShutdownWrite a)))"
  "enqueueConnectionShutdownWriteStart = (\<lambda>a. kj_issue (StreamOp (QueuedConnectionShutdownWriteStart a)))"
  by (simp_all add: fun_eq_iff kj_issue_def enqueueReleaseConnection_def enqueueConnectionWrite_def enqueueConnectionWriteStart_def enqueueConnectionRead_def enqueueConnectionReadStart_def enqueueBytesPromiseAwait_def enqueueBytesPromiseCancel_def enqueueBytesPromiseRelease_def enqueueConnectionShutdownWrite_def enqueueConnectionShutdownWriteStart_def)

lemma issue_compose_op:
  "enqueuePromiseAllStart = (\<lambda>a. kj_issue (ComposeOp (QueuedPromiseAllStart a)))"
  "enqueuePromiseRaceStart = (\<lambda>a. kj_issue (ComposeOp (QueuedPromiseRaceStart a)))"
  "enqueueTaskSetNew = kj_issue (ComposeOp QueuedTaskSetNew)"
  "enqueueTaskSetRelease = (\<lambda>a. kj_issue (ComposeOp (QueuedTaskSetRelease a)))"
  "enqueueTaskSetAddPromise = (\<lambda>a b. kj_issue (ComposeOp (QueuedTaskSetAddPromise a b)))"
  "enqueueTaskSetClear = (\<lambda>a. kj_issue (ComposeOp (QueuedTaskSetClear a)))"
  "enqueueTaskSetIsEmpty = (\<lambda>a. kj_issue (ComposeOp (QueuedTaskSetIsEmpty a)))"
  "enqueueTaskSetOnEmptyStart = (\<lambda>a. kj_issue (ComposeOp (QueuedTaskSetOnEmptyStart a)))"
  "enqueueTaskSetErrorCount = (\<lambda>a. kj_issue (ComposeOp (QueuedTaskSetErrorCount a)))"
  "enqueueTaskSetTakeLastError = (\<lambda>a. kj_issue (ComposeOp (QueuedTaskSetTakeLastError a)))"
  by (simp_all add: fun_eq_iff kj_issue_def enqueuePromiseAllStart_def enqueuePromiseRaceStart_def enqueueTaskSetNew_def enqueueTaskSetRelease_def enqueueTaskSetAddPromise_def enqueueTaskSetClear_def enqueueTaskSetIsEmpty_def enqueueTaskSetOnEmptyStart_def enqueueTaskSetErrorCount_def enqueueTaskSetTakeLastError_def)

lemma issue_descriptor_op:
  "enqueueConnectionWhenWriteDisconnectedStart = (\<lambda>a. kj_issue (DescriptorOp (QueuedConnectionWhenWriteDisconnectedStart a)))"
  "enqueueConnectionAbortRead = (\<lambda>a. kj_issue (DescriptorOp (QueuedConnectionAbortRead a)))"
  "enqueueConnectionAbortWrite = (\<lambda>a b. kj_issue (DescriptorOp (QueuedConnectionAbortWrite a b)))"
  "enqueueConnectionDupFd = (\<lambda>a. kj_issue (DescriptorOp (QueuedConnectionDupFd a)))"
  "enqueueWrapSocketFd = (\<lambda>a. kj_issue (DescriptorOp (QueuedWrapSocketFd a)))"
  "enqueueWrapSocketFdTake = (\<lambda>a. kj_issue (DescriptorOp (QueuedWrapSocketFdTake a)))"
  "enqueueWrapListenSocketFd = (\<lambda>a. kj_issue (DescriptorOp (QueuedWrapListenSocketFd a)))"
  "enqueueWrapListenSocketFdTake = (\<lambda>a. kj_issue (DescriptorOp (QueuedWrapListenSocketFdTake a)))"
  "enqueueWrapDatagramSocketFd = (\<lambda>a. kj_issue (DescriptorOp (QueuedWrapDatagramSocketFd a)))"
  "enqueueWrapDatagramSocketFdTake = (\<lambda>a. kj_issue (DescriptorOp (QueuedWrapDatagramSocketFdTake a)))"
  by (simp_all add: fun_eq_iff kj_issue_def enqueueConnectionWhenWriteDisconnectedStart_def enqueueConnectionAbortRead_def enqueueConnectionAbortWrite_def enqueueConnectionDupFd_def enqueueWrapSocketFd_def enqueueWrapSocketFdTake_def enqueueWrapListenSocketFd_def enqueueWrapListenSocketFdTake_def enqueueWrapDatagramSocketFd_def enqueueWrapDatagramSocketFdTake_def)

lemma issue_datagram_op:
  "enqueueNewTwoWayPipe = kj_issue (DatagramOp QueuedNewTwoWayPipe)"
  "enqueueNewCapabilityPipe = kj_issue (DatagramOp QueuedNewCapabilityPipe)"
  "enqueueDatagramBind = (\<lambda>a b. kj_issue (DatagramOp (QueuedDatagramBind a b)))"
  "enqueueDatagramReleasePort = (\<lambda>a. kj_issue (DatagramOp (QueuedDatagramReleasePort a)))"
  "enqueueDatagramGetPort = (\<lambda>a. kj_issue (DatagramOp (QueuedDatagramGetPort a)))"
  "enqueueDatagramSend = (\<lambda>a b c d. kj_issue (DatagramOp (QueuedDatagramSend a b c d)))"
  "enqueueDatagramSendStart = (\<lambda>a b c d. kj_issue (DatagramOp (QueuedDatagramSendStart a b c d)))"
  by (simp_all add: fun_eq_iff kj_issue_def enqueueNewTwoWayPipe_def enqueueNewCapabilityPipe_def enqueueDatagramBind_def enqueueDatagramReleasePort_def enqueueDatagramGetPort_def enqueueDatagramSend_def enqueueDatagramSendStart_def)

lemma issue_awaiting_op:
  "enqueueUInt32PromiseAwait = (\<lambda>a. kj_issue (AwaitingOp (QueuedUInt32PromiseAwait a)))"
  "enqueueUInt32PromiseCancel = (\<lambda>a. kj_issue (AwaitingOp (QueuedUInt32PromiseCancel a)))"
  "enqueueUInt32PromiseRelease = (\<lambda>a. kj_issue (AwaitingOp (QueuedUInt32PromiseRelease a)))"
  "enqueueDatagramReceive = (\<lambda>a b. kj_issue (AwaitingOp (QueuedDatagramReceive a b)))"
  "enqueueDatagramReceiveStart = (\<lambda>a b. kj_issue (AwaitingOp (QueuedDatagramReceiveStart a b)))"
  "enqueueDatagramReceivePromiseAwait = (\<lambda>a. kj_issue (AwaitingOp (QueuedDatagramReceivePromiseAwait a)))"
  "enqueueDatagramReceivePromiseCancel = (\<lambda>a. kj_issue (AwaitingOp (QueuedDatagramReceivePromiseCancel a)))"
  "enqueueDatagramReceivePromiseRelease = (\<lambda>a. kj_issue (AwaitingOp (QueuedDatagramReceivePromiseRelease a)))"
  by (simp_all add: fun_eq_iff kj_issue_def enqueueUInt32PromiseAwait_def enqueueUInt32PromiseCancel_def enqueueUInt32PromiseRelease_def enqueueDatagramReceive_def enqueueDatagramReceiveStart_def enqueueDatagramReceivePromiseAwait_def enqueueDatagramReceivePromiseCancel_def enqueueDatagramReceivePromiseRelease_def)

lemma issue_http_op:
  "enqueueEnableTls = kj_issue (HttpOp QueuedEnableTls)"
  "enqueueConfigureTls = (\<lambda>a b c d e f g h i. kj_issue (HttpOp (QueuedConfigureTls a b c d e f g h i)))"
  "enqueueHttpRequest = (\<lambda>a b c d e f g h. kj_issue (HttpOp (QueuedHttpRequest a b c d e f g h)))"
  "enqueueHttpRequestStart = (\<lambda>a b c d e f g h. kj_issue (HttpOp (QueuedHttpRequestStart a b c d e f g h)))"
  "enqueueHttpRequestStartStreaming = (\<lambda>a b c d e f. kj_issue (HttpOp (QueuedHttpRequestStartStreaming a b c d e f)))"
  "enqueueHttpResponsePromiseAwait = (\<lambda>a. kj_issue (HttpOp (QueuedHttpResponsePromiseAwait a)))"
  "enqueueHttpResponsePromiseAwaitStreaming = (\<lambda>a. kj_issue (HttpOp (QueuedHttpResponsePromiseAwaitStreaming a)))"
  by (simp_all add: fun_eq_iff kj_issue_def enqueueEnableTls_def enqueueConfigureTls_def enqueueHttpRequest_def enqueueHttpRequestStart_def enqueueHttpRequestStartStreaming_def enqueueHttpResponsePromiseAwait_def enqueueHttpResponsePromiseAwaitStreaming_def)

lemma issue_body_op:
  "enqueueHttpResponsePromiseCancel = (\<lambda>a. kj_issue (BodyOp (QueuedHttpResponsePromiseCancel a)))"
  "enqueueHttpResponsePromiseRelease = (\<lambda>a. kj_issue (BodyOp (QueuedHttpResponsePromiseRelease a)))"
  "enqueueHttpRequestBodyWriteStart = (\<lambda>a b. kj_issue (BodyOp (QueuedHttpRequestBodyWriteStart a b)))"
  "enqueueHttpRequestBodyWrite = (\<lambda>a b. kj_issue (BodyOp (QueuedHttpRequestBodyWrite a b)))"
  "enqueueHttpRequestBodyFinishStart = (\<lambda>a. kj_issue (BodyOp (QueuedHttpRequestBodyFinishStart a)))"
  "enqueueHttpRequestBodyFinish = (\<lambda>a. kj_issue (BodyOp (QueuedHttpRequestBodyFinish a)))"
  "enqueueHttpRequestBodyRelease = (\<lambda>a. kj_issue (BodyOp (QueuedHttpRequestBodyRelease a)))"
  "enqueueHttpResponseBodyReadStart = (\<lambda>a b c. kj_issue (BodyOp (QueuedHttpResponseBodyReadStart a b c)))"
  "enqueueHttpResponseBodyRead = (\<lambda>a b c. kj_issue (BodyOp (QueuedHttpResponseBodyRead a b c)))"
  "enqueueHttpResponseBodyRelease = (\<lambda>a. kj_issue (BodyOp (QueuedHttpResponseBodyRelease a)))"
  by (simp_all add: fun_eq_iff kj_issue_def enqueueHttpResponsePromiseCancel_def enqueueHttpResponsePromiseRelease_def enqueueHttpRequestBodyWriteStart_def enqueueHttpRequestBodyWrite_def enqueueHttpRequestBodyFinishStart_def enqueueHttpRequestBodyFinish_def enqueueHttpRequestBodyRelease_def enqueueHttpResponseBodyReadStart_def enqueueHttpResponseBodyRead_def enqueueHttpResponseBodyRelease_def)

lemma issue_upgrade_op:
  "enqueueHttpServerRequestBodyReadStart = (\<lambda>a b c. kj_issue (UpgradeOp (QueuedHttpServerRequestBodyReadStart a b c)))"
  "enqueueHttpServerRequestBodyRead = (\<lambda>a b c. kj_issue (UpgradeOp (QueuedHttpServerRequestBodyRead a b c)))"
  "enqueueHttpServerRequestBodyRelease = (\<lambda>a. kj_issue (UpgradeOp (QueuedHttpServerRequestBodyRelease a)))"
  "enqueueWebSocketConnect = (\<lambda>a b c d e. kj_issue (UpgradeOp (QueuedWebSocketConnect a b c d e)))"
  "enqueueWebSocketConnectStart = (\<lambda>a b c d e. kj_issue (UpgradeOp (QueuedWebSocketConnectStart a b c d e)))"
  "enqueueWebSocketPromiseAwait = (\<lambda>a. kj_issue (UpgradeOp (QueuedWebSocketPromiseAwait a)))"
  "enqueueWebSocketPromiseCancel = (\<lambda>a. kj_issue (UpgradeOp (QueuedWebSocketPromiseCancel a)))"
  "enqueueWebSocketPromiseRelease = (\<lambda>a. kj_issue (UpgradeOp (QueuedWebSocketPromiseRelease a)))"
  "enqueueWebSocketRelease = (\<lambda>a. kj_issue (UpgradeOp (QueuedWebSocketRelease a)))"
  by (simp_all add: fun_eq_iff kj_issue_def enqueueHttpServerRequestBodyReadStart_def enqueueHttpServerRequestBodyRead_def enqueueHttpServerRequestBodyRelease_def enqueueWebSocketConnect_def enqueueWebSocketConnectStart_def enqueueWebSocketPromiseAwait_def enqueueWebSocketPromiseCancel_def enqueueWebSocketPromiseRelease_def enqueueWebSocketRelease_def)

lemma issue_message_op:
  "enqueueWebSocketSendTextStart = (\<lambda>a b. kj_issue (MessageOp (QueuedWebSocketSendTextStart a b)))"
  "enqueueWebSocketSendText = (\<lambda>a b. kj_issue (MessageOp (QueuedWebSocketSendText a b)))"
  "enqueueWebSocketSendBinaryStart = (\<lambda>a b. kj_issue (MessageOp (QueuedWebSocketSendBinaryStart a b)))"
  "enqueueWebSocketSendBinary = (\<lambda>a b. kj_issue (MessageOp (QueuedWebSocketSendBinary a b)))"
  "enqueueWebSocketReceiveStart = (\<lambda>a b. kj_issue (MessageOp (QueuedWebSocketReceiveStart a b)))"
  "enqueueWebSocketMessagePromiseAwait = (\<lambda>a. kj_issue (MessageOp (QueuedWebSocketMessagePromiseAwait a)))"
  "enqueueWebSocketMessagePromiseCancel = (\<lambda>a. kj_issue (MessageOp (QueuedWebSocketMessagePromiseCancel a)))"
  "enqueueWebSocketMessagePromiseRelease = (\<lambda>a. kj_issue (MessageOp (QueuedWebSocketMessagePromiseRelease a)))"
  "enqueueWebSocketReceive = (\<lambda>a b. kj_issue (MessageOp (QueuedWebSocketReceive a b)))"
  by (simp_all add: fun_eq_iff kj_issue_def enqueueWebSocketSendTextStart_def enqueueWebSocketSendText_def enqueueWebSocketSendBinaryStart_def enqueueWebSocketSendBinary_def enqueueWebSocketReceiveStart_def enqueueWebSocketMessagePromiseAwait_def enqueueWebSocketMessagePromiseCancel_def enqueueWebSocketMessagePromiseRelease_def enqueueWebSocketReceive_def)

lemma issue_closing_op:
  "enqueueWebSocketCloseStart = (\<lambda>a b c. kj_issue (ClosingOp (QueuedWebSocketCloseStart a b c)))"
  "enqueueWebSocketClose = (\<lambda>a b c. kj_issue (ClosingOp (QueuedWebSocketClose a b c)))"
  "enqueueWebSocketDisconnect = (\<lambda>a. kj_issue (ClosingOp (QueuedWebSocketDisconnect a)))"
  "enqueueWebSocketAbort = (\<lambda>a. kj_issue (ClosingOp (QueuedWebSocketAbort a)))"
  "enqueueNewWebSocketPipe = kj_issue (ClosingOp QueuedNewWebSocketPipe)"
  by (simp_all add: fun_eq_iff kj_issue_def enqueueWebSocketCloseStart_def enqueueWebSocketClose_def enqueueWebSocketDisconnect_def enqueueWebSocketAbort_def enqueueNewWebSocketPipe_def)

lemma issue_serving_op:
  "enqueueHttpServerListen = (\<lambda>a b c d. kj_issue (ServingOp (QueuedHttpServerListen a b c d)))"
  "enqueueHttpServerRelease = (\<lambda>a. kj_issue (ServingOp (QueuedHttpServerRelease a)))"
  "enqueueHttpServerDrainStart = (\<lambda>a. kj_issue (ServingOp (QueuedHttpServerDrainStart a)))"
  "enqueueHttpServerDrain = (\<lambda>a. kj_issue (ServingOp (QueuedHttpServerDrain a)))"
  "enqueueHttpServerPollRequest = (\<lambda>a. kj_issue (ServingOp (QueuedHttpServerPollRequest a)))"
  by (simp_all add: fun_eq_iff kj_issue_def enqueueHttpServerListen_def enqueueHttpServerRelease_def enqueueHttpServerDrainStart_def enqueueHttpServerDrain_def enqueueHttpServerPollRequest_def)

lemma issue_respond_op:
  "enqueueHttpServerRespond = (\<lambda>a b c d e f. kj_issue (RespondOp (QueuedHttpServerRespond a b c d e f)))"
  "enqueueHttpServerRespondWebSocket = (\<lambda>a b c. kj_issue (RespondOp (QueuedHttpServerRespondWebSocket a b c)))"
  "enqueueHttpServerRespondStartStreaming = (\<lambda>a b c d e. kj_issue (RespondOp (QueuedHttpServerRespondStartStreaming a b c d e)))"
  by (simp_all add: fun_eq_iff kj_issue_def enqueueHttpServerRespond_def enqueueHttpServerRespondWebSocket_def enqueueHttpServerRespondStartStreaming_def)

lemma issue_answer_op:
  "enqueueHttpServerResponseBodyWriteStart = (\<lambda>a b. kj_issue (AnswerOp (QueuedHttpServerResponseBodyWriteStart a b)))"
  "enqueueHttpServerResponseBodyWrite = (\<lambda>a b. kj_issue (AnswerOp (QueuedHttpServerResponseBodyWrite a b)))"
  "enqueueHttpServerResponseBodyFinishStart = (\<lambda>a. kj_issue (AnswerOp (QueuedHttpServerResponseBodyFinishStart a)))"
  "enqueueHttpServerResponseBodyFinish = (\<lambda>a. kj_issue (AnswerOp (QueuedHttpServerResponseBodyFinish a)))"
  "enqueueHttpServerResponseBodyRelease = (\<lambda>a. kj_issue (AnswerOp (QueuedHttpServerResponseBodyRelease a)))"
  by (simp_all add: fun_eq_iff kj_issue_def enqueueHttpServerResponseBodyWriteStart_def enqueueHttpServerResponseBodyWrite_def enqueueHttpServerResponseBodyFinishStart_def enqueueHttpServerResponseBodyFinish_def enqueueHttpServerResponseBodyRelease_def)

lemmas kj_issues = issue_sleep_op issue_dial_op issue_address_op issue_connecting_op issue_stream_op issue_compose_op issue_descriptor_op issue_datagram_op issue_awaiting_op issue_http_op issue_body_op issue_upgrade_op issue_message_op issue_closing_op issue_serving_op issue_respond_op issue_answer_op

end
