(* ===== verification/Kj_Dispatch.thy ===== *)
theory Kj_Dispatch
  imports Kj_Queue
begin

text \<open>
  The branches of \<^verbatim>\<open>KjAsyncRuntimeLoop::run\<close>: what the thread does with each queued
  operation and how it answers its completion.
\<close>

section \<open>Branches\<close>

text \<open>
  The \<^verbatim>\<open>try\<close> block of a branch, with the answer it gives at the end, and the text of its
  last handler. A branch that leaves the answer to a callback ends with \<open>id\<close>.
\<close>

record kj_branch =
  kb_body :: "(kj_completion \<Rightarrow> kj_completion) kop"
  kb_unknown :: string

definition kj_answering :: "('a \<Rightarrow> kj_completion \<Rightarrow> kj_completion) \<Rightarrow> string \<Rightarrow> 'a kop \<Rightarrow> kj_branch" where
  "kj_answering complete unknown m = \<lparr>kb_body = bnd m (\<lambda>a. ret (complete a)), kb_unknown = unknown\<rparr>"

definition kj_unit_branch :: "string \<Rightarrow> unit kop \<Rightarrow> kj_branch" where
  "kj_unit_branch = kj_answering (\<lambda>_. kjCompleteUnitSuccess)"

definition kj_promise_id_branch :: "string \<Rightarrow> u32 kop \<Rightarrow> kj_branch" where
  "kj_promise_id_branch = kj_answering kjCompletePromiseIdSuccess"

definition kj_handle_branch :: "string \<Rightarrow> u32 kop \<Rightarrow> kj_branch" where
  "kj_handle_branch = kj_answering kjCompleteHandleSuccess"

definition kj_bytes_branch :: "string \<Rightarrow> bytes kop \<Rightarrow> kj_branch" where
  "kj_bytes_branch = kj_answering (\<lambda>b. kjCompleteBytesSuccess (Some b))"

definition kj_pair_branch :: "string \<Rightarrow> (u32 \<times> u32) kop \<Rightarrow> kj_branch" where
  "kj_pair_branch = kj_answering (\<lambda>(i, j). kjCompleteHandlePairSuccess i j)"

definition kj_bool_branch :: "string \<Rightarrow> bool kop \<Rightarrow> kj_branch" where
  "kj_bool_branch = kj_answering kjCompleteBoolSuccess"

definition kj_uint32_branch :: "string \<Rightarrow> u32 kop \<Rightarrow> kj_branch" where
  "kj_uint32_branch = kj_answering kjCompleteUInt32Success"

definition kj_optional_uint32_branch :: "string \<Rightarrow> u32 option kop \<Rightarrow> kj_branch" where
  "kj_optional_uint32_branch = kj_answering kjCompleteOptionalUInt32Success"

definition kj_optional_string_branch :: "string \<Rightarrow> string option kop \<Rightarrow> kj_branch" where
  "kj_optional_string_branch = kj_answering kjCompleteOptionalStringSuccess"

definition kj_datagram_branch :: "string \<Rightarrow> (string \<times> bytes) kop \<Rightarrow> kj_branch" where
  "kj_datagram_branch = kj_answering (\<lambda>(source, bs). kjCompleteDatagramReceiveSuccess source bs)"

text \<open>Without streaming, the body handle of the result is not passed on.\<close>

definition kj_http_response_branch :: "string \<Rightarrow> http_result kop \<Rightarrow> kj_branch" where
  "kj_http_response_branch = kj_answering (\<lambda>r. kjCompleteHttpResponseSuccess (res_statusCode r)
     (res_statusText r) (res_headers r) (res_body r) 0)"

definition kj_streaming_response_branch :: "string \<Rightarrow> http_result kop \<Rightarrow> kj_branch" where
  "kj_streaming_response_branch = kj_answering (\<lambda>r. kjCompleteHttpResponseSuccess (res_statusCode r)
     (res_statusText r) (res_headers r) (res_body r) (res_bodyHandle r))"

definition kj_server_request_branch :: "string \<Rightarrow> (bool \<times> bytes) kop \<Rightarrow> kj_branch" where
  "kj_server_request_branch = kj_answering (\<lambda>(hasRequest, bs). kjCompleteHttpServerRequestSuccess hasRequest bs)"

definition kj_message_branch :: "string \<Rightarrow> ws_result kop \<Rightarrow> kj_branch" where
  "kj_message_branch = kj_answering (\<lambda>m. kjCompleteWebSocketMessageSuccess (wm_tag m) (wm_closeCode m)
     (wm_text m) (wm_bytes m))"

text \<open>
  The loop that waits with a timer of 0 until a callback has answered the completion. It is
  \<open>None\<close> when that never happens; the thread then stays in it.
\<close>

partial_function (option) pump :: "kenv \<Rightarrow> nat \<Rightarrow> kj_state \<Rightarrow> ((kexn, unit) outcome \<times> kj_state) option" where
  "pump K h s =
     (if h \<in> fst ` set (handled s) then Some (Ret (), s)
      else case waiting_for K (wait_unit K) (KDelay 0) s of
        (Ret _, t) \<Rightarrow> pump K h t
      | (Throw e, t) \<Rightarrow> Some (Throw e, t)
      | (Hang, t) \<Rightarrow> Some (Hang, t))"

definition pump_until_handled :: "kenv \<Rightarrow> nat \<Rightarrow> unit kop" where
  "pump_until_handled K h s = (case pump K h s of None \<Rightarrow> (Hang, s) | Some r \<Rightarrow> r)"

definition kj_pumped_branch :: "kenv \<Rightarrow> nat \<Rightarrow> string \<Rightarrow> unit kop \<Rightarrow> kj_branch" where
  "kj_pumped_branch K h unknown m = kj_answering (\<lambda>_. id) unknown (sq m (pump_until_handled K h))"

definition with_headers :: "bytes \<Rightarrow> (headers \<Rightarrow> 'a kop) \<Rightarrow> 'a kop" where
  "with_headers encoded f = bnd (lift_error (decodeHeaderPairs encoded)) f"

section \<open>The operations\<close>


fun run_sleep_op :: "kenv \<Rightarrow> nat \<Rightarrow> sleep_op \<Rightarrow> kj_branch" where
  "run_sleep_op K cp (QueuedSleepNanos a) =
     kj_promise_id_branch ''unknown exception in Capnp.KjAsync sleep''
       (sleepNanosStart a)"
| "run_sleep_op K cp (QueuedAwaitPromise a) =
     kj_unit_branch ''unknown exception in Capnp.KjAsync promise await''
       (awaitPromise K a)"
| "run_sleep_op K cp (QueuedCancelPromise a) =
     kj_unit_branch ''unknown exception in Capnp.KjAsync promise cancel''
       (cancelPromise a)"
| "run_sleep_op K cp (QueuedReleasePromise a) =
     kj_unit_branch ''unknown exception in Capnp.KjAsync promise release''
       (releasePromise a)"
| "run_sleep_op K cp (QueuedPromiseThenStart a b) =
     kj_promise_id_branch ''unknown exception in Capnp.KjAsync promiseThenStart''
       (promiseThenStart a b)"
| "run_sleep_op K cp (QueuedPromiseCatchStart a b) =
     kj_promise_id_branch ''unknown exception in Capnp.KjAsync promiseCatchStart''
       (promiseCatchStart a b)"

fun run_dial_op :: "kenv \<Rightarrow> nat \<Rightarrow> dial_op \<Rightarrow> kj_branch" where
  "run_dial_op K cp (QueuedListen a b) =
     kj_handle_branch ''unknown exception in Capnp.KjAsync listen''
       (listen K a b)"
| "run_dial_op K cp (QueuedReleaseListener a) =
     kj_unit_branch ''unknown exception in Capnp.KjAsync release listener''
       (releaseListener a)"
| "run_dial_op K cp (QueuedAccept a) =
     kj_handle_branch ''unknown exception in Capnp.KjAsync accept''
       (accept K a)"
| "run_dial_op K cp (QueuedAcceptStart a) =
     kj_promise_id_branch ''unknown exception in Capnp.KjAsync acceptStart''
       (acceptStart K a)"
| "run_dial_op K cp (QueuedConnect a b) =
     kj_handle_branch ''unknown exception in Capnp.KjAsync connect''
       (connect K a b)"
| "run_dial_op K cp (QueuedConnectStart a b) =
     kj_promise_id_branch ''unknown exception in Capnp.KjAsync connectStart''
       (connectStart K a b)"

fun run_address_op :: "kenv \<Rightarrow> nat \<Rightarrow> address_op \<Rightarrow> kj_branch" where
  "run_address_op K cp (QueuedParseAddress a b) =
     kj_handle_branch ''unknown exception in Capnp.KjAsync parseAddress''
       (parseAddress K a b)"
| "run_address_op K cp (QueuedReleaseNetworkAddress a) =
     kj_unit_branch ''unknown exception in Capnp.KjAsync release network address''
       (releaseNetworkAddress a)"
| "run_address_op K cp (QueuedNetworkAddressToString a) =
     kj_optional_string_branch ''unknown exception in Capnp.KjAsync network address toString''
       (networkAddressToString K a)"
| "run_address_op K cp (QueuedNetworkAddressClone a) =
     kj_handle_branch ''unknown exception in Capnp.KjAsync network address clone''
       (networkAddressClone K a)"
| "run_address_op K cp (QueuedNetworkAddressConnect a) =
     kj_handle_branch ''unknown exception in Capnp.KjAsync network address connect''
       (networkAddressConnect K a)"
| "run_address_op K cp (QueuedNetworkAddressConnectStart a) =
     kj_promise_id_branch ''unknown exception in Capnp.KjAsync network address connectStart''
       (networkAddressConnectStart K a)"
| "run_address_op K cp (QueuedNetworkAddressListen a) =
     kj_handle_branch ''unknown exception in Capnp.KjAsync network address listen''
       (networkAddressListen K a)"
| "run_address_op K cp (QueuedNetworkAddressBindDatagramPort a) =
     kj_handle_branch ''unknown exception in Capnp.KjAsync network address bindDatagramPort''
       (networkAddressBindDatagramPort K a)"

fun run_connecting_op :: "kenv \<Rightarrow> nat \<Rightarrow> connecting_op \<Rightarrow> kj_branch" where
  "run_connecting_op K cp (QueuedAwaitConnectionPromise a) =
     kj_handle_branch ''unknown exception in Capnp.KjAsync connection promise await''
       (awaitConnectionPromise K a)"
| "run_connecting_op K cp (QueuedAwaitConnectionPromiseWithTimeout a b) =
     kj_optional_uint32_branch ''unknown exception in Capnp.KjAsync connection promise awaitWithTimeout''
       (awaitConnectionPromiseWithTimeout K a b)"
| "run_connecting_op K cp (QueuedCancelConnectionPromise a) =
     kj_unit_branch ''unknown exception in Capnp.KjAsync connection promise cancel''
       (cancelConnectionPromise a)"
| "run_connecting_op K cp (QueuedReleaseConnectionPromise a) =
     kj_unit_branch ''unknown exception in Capnp.KjAsync connection promise release''
       (releaseConnectionPromise a)"

fun run_stream_op :: "kenv \<Rightarrow> nat \<Rightarrow> stream_op \<Rightarrow> kj_branch" where
  "run_stream_op K cp (QueuedReleaseConnection a) =
     kj_unit_branch ''unknown exception in Capnp.KjAsync release connection''
       (releaseConnection a)"
| "run_stream_op K cp (QueuedConnectionWrite a b) =
     kj_unit_branch ''unknown exception in Capnp.KjAsync connection write''
       (connectionWrite K a b)"
| "run_stream_op K cp (QueuedConnectionWriteStart a b) =
     kj_promise_id_branch ''unknown exception in Capnp.KjAsync connection write start''
       (connectionWriteStart K a b)"
| "run_stream_op K cp (QueuedConnectionRead a b c) =
     kj_bytes_branch ''unknown exception in Capnp.KjAsync connection read''
       (connectionRead K a b c)"
| "run_stream_op K cp (QueuedConnectionReadStart a b c) =
     kj_promise_id_branch ''unknown exception in Capnp.KjAsync connection read start''
       (connectionReadStart K a b c)"
| "run_stream_op K cp (QueuedBytesPromiseAwait a) =
     kj_bytes_branch ''unknown exception in Capnp.KjAsync bytes promise await''
       (awaitBytesPromise K a)"
| "run_stream_op K cp (QueuedBytesPromiseCancel a) =
     kj_unit_branch ''unknown exception in Capnp.KjAsync bytes promise cancel''
       (cancelBytesPromise a)"
| "run_stream_op K cp (QueuedBytesPromiseRelease a) =
     kj_unit_branch ''unknown exception in Capnp.KjAsync bytes promise release''
       (releaseBytesPromise a)"
| "run_stream_op K cp (QueuedConnectionShutdownWrite a) =
     kj_unit_branch ''unknown exception in Capnp.KjAsync connection shutdownWrite''
       (connectionShutdownWrite K a)"
| "run_stream_op K cp (QueuedConnectionShutdownWriteStart a) =
     kj_promise_id_branch ''unknown exception in Capnp.KjAsync connection shutdownWrite start''
       (connectionShutdownWriteStart K a)"

fun run_compose_op :: "kenv \<Rightarrow> nat \<Rightarrow> compose_op \<Rightarrow> kj_branch" where
  "run_compose_op K cp (QueuedPromiseAllStart a) =
     kj_promise_id_branch ''unknown exception in Capnp.KjAsync promiseAllStart''
       (promiseAllStart a)"
| "run_compose_op K cp (QueuedPromiseRaceStart a) =
     kj_promise_id_branch ''unknown exception in Capnp.KjAsync promiseRaceStart''
       (promiseRaceStart a)"
| "run_compose_op K cp QueuedTaskSetNew =
     kj_handle_branch ''unknown exception in Capnp.KjAsync taskSetNew''
       taskSetNew"
| "run_compose_op K cp (QueuedTaskSetRelease a) =
     kj_unit_branch ''unknown exception in Capnp.KjAsync taskSetRelease''
       (taskSetRelease a)"
| "run_compose_op K cp (QueuedTaskSetAddPromise a b) =
     kj_unit_branch ''unknown exception in Capnp.KjAsync taskSetAddPromise''
       (taskSetAddPromise a b)"
| "run_compose_op K cp (QueuedTaskSetClear a) =
     kj_unit_branch ''unknown exception in Capnp.KjAsync taskSetClear''
       (taskSetClear K a)"
| "run_compose_op K cp (QueuedTaskSetIsEmpty a) =
     kj_bool_branch ''unknown exception in Capnp.KjAsync taskSetIsEmpty''
       (taskSetIsEmpty K a)"
| "run_compose_op K cp (QueuedTaskSetOnEmptyStart a) =
     kj_promise_id_branch ''unknown exception in Capnp.KjAsync taskSetOnEmptyStart''
       (taskSetOnEmptyStart K a)"
| "run_compose_op K cp (QueuedTaskSetErrorCount a) =
     kj_uint32_branch ''unknown exception in Capnp.KjAsync taskSetErrorCount''
       (taskSetErrorCount a)"
| "run_compose_op K cp (QueuedTaskSetTakeLastError a) =
     kj_optional_string_branch ''unknown exception in Capnp.KjAsync taskSetTakeLastError''
       (taskSetTakeLastError a)"

fun run_descriptor_op :: "kenv \<Rightarrow> nat \<Rightarrow> descriptor_op \<Rightarrow> kj_branch" where
  "run_descriptor_op K cp (QueuedConnectionWhenWriteDisconnectedStart a) =
     kj_promise_id_branch ''unknown exception in Capnp.KjAsync connection whenWriteDisconnected start''
       (connectionWhenWriteDisconnectedStart K a)"
| "run_descriptor_op K cp (QueuedConnectionAbortRead a) =
     kj_unit_branch ''unknown exception in Capnp.KjAsync connection abortRead''
       (connectionAbortRead K a)"
| "run_descriptor_op K cp (QueuedConnectionAbortWrite a b) =
     kj_unit_branch ''unknown exception in Capnp.KjAsync connection abortWrite''
       (connectionAbortWrite K a b)"
| "run_descriptor_op K cp (QueuedConnectionDupFd a) =
     kj_optional_uint32_branch ''unknown exception in Capnp.KjAsync connection dupFd''
       (connectionDupFd K a)"
| "run_descriptor_op K cp (QueuedWrapSocketFd a) =
     kj_handle_branch ''unknown exception in Capnp.KjAsync wrapSocketFd''
       (wrapSocketFd K a)"
| "run_descriptor_op K cp (QueuedWrapSocketFdTake a) =
     kj_handle_branch ''unknown exception in Capnp.KjAsync wrapSocketFdTake''
       (wrapSocketFdTake K a)"
| "run_descriptor_op K cp (QueuedWrapListenSocketFd a) =
     kj_handle_branch ''unknown exception in Capnp.KjAsync wrapListenSocketFd''
       (wrapListenSocketFd K a)"
| "run_descriptor_op K cp (QueuedWrapListenSocketFdTake a) =
     kj_handle_branch ''unknown exception in Capnp.KjAsync wrapListenSocketFdTake''
       (wrapListenSocketFdTake K a)"
| "run_descriptor_op K cp (QueuedWrapDatagramSocketFd a) =
     kj_handle_branch ''unknown exception in Capnp.KjAsync wrapDatagramSocketFd''
       (wrapDatagramSocketFd K a)"
| "run_descriptor_op K cp (QueuedWrapDatagramSocketFdTake a) =
     kj_handle_branch ''unknown exception in Capnp.KjAsync wrapDatagramSocketFdTake''
       (wrapDatagramSocketFdTake K a)"

fun run_datagram_op :: "kenv \<Rightarrow> nat \<Rightarrow> datagram_op \<Rightarrow> kj_branch" where
  "run_datagram_op K cp QueuedNewTwoWayPipe =
     kj_pair_branch ''unknown exception in Capnp.KjAsync newTwoWayPipe''
       (newTwoWayPipe K)"
| "run_datagram_op K cp QueuedNewCapabilityPipe =
     kj_pair_branch ''unknown exception in Capnp.KjAsync newCapabilityPipe''
       (newCapabilityPipe K)"
| "run_datagram_op K cp (QueuedDatagramBind a b) =
     kj_handle_branch ''unknown exception in Capnp.KjAsync datagramBind''
       (datagramBind K a b)"
| "run_datagram_op K cp (QueuedDatagramReleasePort a) =
     kj_unit_branch ''unknown exception in Capnp.KjAsync datagramReleasePort''
       (datagramReleasePort a)"
| "run_datagram_op K cp (QueuedDatagramGetPort a) =
     kj_handle_branch ''unknown exception in Capnp.KjAsync datagramGetPort''
       (datagramGetPort K a)"
| "run_datagram_op K cp (QueuedDatagramSend a b c d) =
     kj_uint32_branch ''unknown exception in Capnp.KjAsync datagramSend''
       (datagramSend K a b c d)"
| "run_datagram_op K cp (QueuedDatagramSendStart a b c d) =
     kj_promise_id_branch ''unknown exception in Capnp.KjAsync datagramSendStart''
       (datagramSendStart K a b c d)"

fun run_awaiting_op :: "kenv \<Rightarrow> nat \<Rightarrow> awaiting_op \<Rightarrow> kj_branch" where
  "run_awaiting_op K cp (QueuedUInt32PromiseAwait a) =
     kj_uint32_branch ''unknown exception in Capnp.KjAsync uint32 promise await''
       (awaitUInt32Promise K a)"
| "run_awaiting_op K cp (QueuedUInt32PromiseCancel a) =
     kj_unit_branch ''unknown exception in Capnp.KjAsync uint32 promise cancel''
       (cancelUInt32Promise a)"
| "run_awaiting_op K cp (QueuedUInt32PromiseRelease a) =
     kj_unit_branch ''unknown exception in Capnp.KjAsync uint32 promise release''
       (releaseUInt32Promise a)"
| "run_awaiting_op K cp (QueuedDatagramReceive a b) =
     kj_datagram_branch ''unknown exception in Capnp.KjAsync datagramReceive''
       (datagramReceive K a b)"
| "run_awaiting_op K cp (QueuedDatagramReceiveStart a b) =
     kj_promise_id_branch ''unknown exception in Capnp.KjAsync datagramReceiveStart''
       (datagramReceiveStart K a b)"
| "run_awaiting_op K cp (QueuedDatagramReceivePromiseAwait a) =
     kj_datagram_branch ''unknown exception in Capnp.KjAsync datagram receive promise await''
       (awaitDatagramReceivePromise K a)"
| "run_awaiting_op K cp (QueuedDatagramReceivePromiseCancel a) =
     kj_unit_branch ''unknown exception in Capnp.KjAsync datagram receive promise cancel''
       (cancelDatagramReceivePromise a)"
| "run_awaiting_op K cp (QueuedDatagramReceivePromiseRelease a) =
     kj_unit_branch ''unknown exception in Capnp.KjAsync datagram receive promise release''
       (releaseDatagramReceivePromise a)"

fun run_http_op :: "kenv \<Rightarrow> nat \<Rightarrow> http_op \<Rightarrow> kj_branch" where
  "run_http_op K cp QueuedEnableTls =
     kj_unit_branch ''unknown exception in Capnp.KjAsync enableTls''
       (enableTls K)"
| "run_http_op K cp (QueuedConfigureTls a b c d e f g h i) =
     kj_unit_branch ''unknown exception in Capnp.KjAsync configureTls''
       (configureTls K (a \<noteq> 0) (b \<noteq> 0) c d e f g h i)"
| "run_http_op K cp (QueuedHttpRequest a b c d e f g h) =
     kj_http_response_branch ''unknown exception in Capnp.KjAsync httpRequest''
       (with_headers e (\<lambda>hs. httpRequest K a b c d hs f g h))"
| "run_http_op K cp (QueuedHttpRequestStart a b c d e f g h) =
     kj_promise_id_branch ''unknown exception in Capnp.KjAsync httpRequestStart''
       (with_headers e (\<lambda>hs. httpRequestStart K a b c d hs f g h))"
| "run_http_op K cp (QueuedHttpRequestStartStreaming a b c d e f) =
     kj_pair_branch ''unknown exception in Capnp.KjAsync httpRequestStartStreaming''
       (with_headers e (\<lambda>hs. httpRequestStartStreaming K a b c d hs f))"
| "run_http_op K cp (QueuedHttpResponsePromiseAwait a) =
     kj_http_response_branch ''unknown exception in Capnp.KjAsync HTTP response promise await''
       (awaitHttpResponsePromise K a)"
| "run_http_op K cp (QueuedHttpResponsePromiseAwaitStreaming a) =
     kj_streaming_response_branch ''unknown exception in Capnp.KjAsync HTTP response streaming promise await''
       (awaitHttpResponsePromise K a)"

fun run_body_op :: "kenv \<Rightarrow> nat \<Rightarrow> body_op \<Rightarrow> kj_branch" where
  "run_body_op K cp (QueuedHttpResponsePromiseCancel a) =
     kj_unit_branch ''unknown exception in Capnp.KjAsync HTTP response promise cancel''
       (cancelHttpResponsePromise a)"
| "run_body_op K cp (QueuedHttpResponsePromiseRelease a) =
     kj_unit_branch ''unknown exception in Capnp.KjAsync HTTP response promise release''
       (releaseHttpResponsePromise a)"
| "run_body_op K cp (QueuedHttpRequestBodyWriteStart a b) =
     kj_promise_id_branch ''unknown exception in Capnp.KjAsync httpRequestBodyWriteStart''
       (httpRequestBodyWriteStart K a b)"
| "run_body_op K cp (QueuedHttpRequestBodyWrite a b) =
     kj_unit_branch ''unknown exception in Capnp.KjAsync httpRequestBodyWrite''
       (httpRequestBodyWrite K a b)"
| "run_body_op K cp (QueuedHttpRequestBodyFinishStart a) =
     kj_promise_id_branch ''unknown exception in Capnp.KjAsync httpRequestBodyFinishStart''
       (httpRequestBodyFinishStart a)"
| "run_body_op K cp (QueuedHttpRequestBodyFinish a) =
     kj_unit_branch ''unknown exception in Capnp.KjAsync httpRequestBodyFinish''
       (httpRequestBodyFinish K a)"
| "run_body_op K cp (QueuedHttpRequestBodyRelease a) =
     kj_unit_branch ''unknown exception in Capnp.KjAsync httpRequestBodyRelease''
       (httpRequestBodyRelease a)"
| "run_body_op K cp (QueuedHttpResponseBodyReadStart a b c) =
     kj_promise_id_branch ''unknown exception in Capnp.KjAsync httpResponseBodyReadStart''
       (httpResponseBodyReadStart K a b c)"
| "run_body_op K cp (QueuedHttpResponseBodyRead a b c) =
     kj_bytes_branch ''unknown exception in Capnp.KjAsync httpResponseBodyRead''
       (httpResponseBodyRead K a b c)"
| "run_body_op K cp (QueuedHttpResponseBodyRelease a) =
     kj_unit_branch ''unknown exception in Capnp.KjAsync httpResponseBodyRelease''
       (httpResponseBodyRelease a)"

fun run_upgrade_op :: "kenv \<Rightarrow> nat \<Rightarrow> upgrade_op \<Rightarrow> kj_branch" where
  "run_upgrade_op K cp (QueuedHttpServerRequestBodyReadStart a b c) =
     kj_promise_id_branch ''unknown exception in Capnp.KjAsync httpServerRequestBodyReadStart''
       (httpServerRequestBodyReadStart K a b c)"
| "run_upgrade_op K cp (QueuedHttpServerRequestBodyRead a b c) =
     kj_bytes_branch ''unknown exception in Capnp.KjAsync httpServerRequestBodyRead''
       (httpServerRequestBodyRead K a b c)"
| "run_upgrade_op K cp (QueuedHttpServerRequestBodyRelease a) =
     kj_unit_branch ''unknown exception in Capnp.KjAsync httpServerRequestBodyRelease''
       (httpServerRequestBodyRelease a)"
| "run_upgrade_op K cp (QueuedWebSocketConnect a b c d e) =
     kj_handle_branch ''unknown exception in Capnp.KjAsync websocketConnect''
       (with_headers d (\<lambda>hs. webSocketConnect K a b c hs e))"
| "run_upgrade_op K cp (QueuedWebSocketConnectStart a b c d e) =
     kj_promise_id_branch ''unknown exception in Capnp.KjAsync websocketConnectStart''
       (with_headers d (\<lambda>hs. webSocketConnectStart K a b c hs e))"
| "run_upgrade_op K cp (QueuedWebSocketPromiseAwait a) =
     kj_handle_branch ''unknown exception in Capnp.KjAsync websocket promise await''
       (awaitWebSocketPromise K a)"
| "run_upgrade_op K cp (QueuedWebSocketPromiseCancel a) =
     kj_unit_branch ''unknown exception in Capnp.KjAsync websocket promise cancel''
       (cancelWebSocketPromise a)"
| "run_upgrade_op K cp (QueuedWebSocketPromiseRelease a) =
     kj_unit_branch ''unknown exception in Capnp.KjAsync websocket promise release''
       (releaseWebSocketPromise a)"
| "run_upgrade_op K cp (QueuedWebSocketRelease a) =
     kj_unit_branch ''unknown exception in Capnp.KjAsync websocketRelease''
       (webSocketRelease a)"

fun run_message_op :: "kenv \<Rightarrow> nat \<Rightarrow> message_op \<Rightarrow> kj_branch" where
  "run_message_op K cp (QueuedWebSocketSendTextStart a b) =
     kj_promise_id_branch ''unknown exception in Capnp.KjAsync websocketSendTextStart''
       (webSocketSendTextStart K a b)"
| "run_message_op K cp (QueuedWebSocketSendText a b) =
     kj_unit_branch ''unknown exception in Capnp.KjAsync websocketSendText''
       (webSocketSendText K a b)"
| "run_message_op K cp (QueuedWebSocketSendBinaryStart a b) =
     kj_promise_id_branch ''unknown exception in Capnp.KjAsync websocketSendBinaryStart''
       (webSocketSendBinaryStart K a b)"
| "run_message_op K cp (QueuedWebSocketSendBinary a b) =
     kj_unit_branch ''unknown exception in Capnp.KjAsync websocketSendBinary''
       (webSocketSendBinary K a b)"
| "run_message_op K cp (QueuedWebSocketReceiveStart a b) =
     kj_promise_id_branch ''unknown exception in Capnp.KjAsync websocketReceiveStart''
       (webSocketReceiveStart K a b)"
| "run_message_op K cp (QueuedWebSocketMessagePromiseAwait a) =
     kj_message_branch ''unknown exception in Capnp.KjAsync websocket message promise await''
       (awaitWebSocketMessagePromise K a)"
| "run_message_op K cp (QueuedWebSocketMessagePromiseCancel a) =
     kj_unit_branch ''unknown exception in Capnp.KjAsync websocket message promise cancel''
       (cancelWebSocketMessagePromise a)"
| "run_message_op K cp (QueuedWebSocketMessagePromiseRelease a) =
     kj_unit_branch ''unknown exception in Capnp.KjAsync websocket message promise release''
       (releaseWebSocketMessagePromise a)"
| "run_message_op K cp (QueuedWebSocketReceive a b) =
     kj_message_branch ''unknown exception in Capnp.KjAsync websocketReceive''
       (webSocketReceive K a b)"

fun run_closing_op :: "kenv \<Rightarrow> nat \<Rightarrow> closing_op \<Rightarrow> kj_branch" where
  "run_closing_op K cp (QueuedWebSocketCloseStart a b c) =
     kj_promise_id_branch ''unknown exception in Capnp.KjAsync websocketCloseStart''
       (webSocketCloseStart K a b c)"
| "run_closing_op K cp (QueuedWebSocketClose a b c) =
     kj_unit_branch ''unknown exception in Capnp.KjAsync websocketClose''
       (webSocketClose K a b c)"
| "run_closing_op K cp (QueuedWebSocketDisconnect a) =
     kj_unit_branch ''unknown exception in Capnp.KjAsync websocketDisconnect''
       (webSocketDisconnect K a)"
| "run_closing_op K cp (QueuedWebSocketAbort a) =
     kj_unit_branch ''unknown exception in Capnp.KjAsync websocketAbort''
       (webSocketAbort K a)"
| "run_closing_op K cp QueuedNewWebSocketPipe =
     kj_pair_branch ''unknown exception in Capnp.KjAsync newWebSocketPipe''
       (newWebSocketPipe K)"

fun run_serving_op :: "kenv \<Rightarrow> nat \<Rightarrow> serving_op \<Rightarrow> kj_branch" where
  "run_serving_op K cp (QueuedHttpServerListen a b c d) =
     kj_pair_branch ''unknown exception in Capnp.KjAsync http server listen''
       (httpServerListen K a b c d)"
| "run_serving_op K cp (QueuedHttpServerRelease a) =
     kj_unit_branch ''unknown exception in Capnp.KjAsync http server release''
       (httpServerRelease K a)"
| "run_serving_op K cp (QueuedHttpServerDrainStart a) =
     kj_promise_id_branch ''unknown exception in Capnp.KjAsync http server drain start''
       (httpServerDrainStart K a)"
| "run_serving_op K cp (QueuedHttpServerDrain a) =
     kj_unit_branch ''unknown exception in Capnp.KjAsync http server drain''
       (httpServerDrain K a)"
| "run_serving_op K cp (QueuedHttpServerPollRequest a) =
     kj_server_request_branch ''unknown exception in Capnp.KjAsync http server poll request''
       (httpServerPollRequest a)"

fun run_respond_op :: "kenv \<Rightarrow> nat \<Rightarrow> respond_op \<Rightarrow> kj_branch" where
  "run_respond_op K cp (QueuedHttpServerRespond a b c d e f) =
     kj_unit_branch ''unknown exception in Capnp.KjAsync http server respond''
       (with_headers e (\<lambda>hs. httpServerRespond a b c d hs f))"
| "run_respond_op K cp (QueuedHttpServerRespondWebSocket a b c) =
     kj_pumped_branch K cp ''unknown exception in Capnp.KjAsync http server websocket respond''
       (with_headers c (\<lambda>hs. httpServerRespondWebSocket a b hs cp))"
| "run_respond_op K cp (QueuedHttpServerRespondStartStreaming a b c d e) =
     kj_pumped_branch K cp ''unknown exception in Capnp.KjAsync http server respond start streaming''
       (with_headers e (\<lambda>hs. httpServerRespondStartStreaming a b c d hs cp))"

fun run_answer_op :: "kenv \<Rightarrow> nat \<Rightarrow> answer_op \<Rightarrow> kj_branch" where
  "run_answer_op K cp (QueuedHttpServerResponseBodyWriteStart a b) =
     kj_promise_id_branch ''unknown exception in Capnp.KjAsync httpServerResponseBodyWriteStart''
       (httpServerResponseBodyWriteStart K a b)"
| "run_answer_op K cp (QueuedHttpServerResponseBodyWrite a b) =
     kj_unit_branch ''unknown exception in Capnp.KjAsync httpServerResponseBodyWrite''
       (httpServerResponseBodyWrite K a b)"
| "run_answer_op K cp (QueuedHttpServerResponseBodyFinishStart a) =
     kj_promise_id_branch ''unknown exception in Capnp.KjAsync httpServerResponseBodyFinishStart''
       (httpServerResponseBodyFinishStart a)"
| "run_answer_op K cp (QueuedHttpServerResponseBodyFinish a) =
     kj_unit_branch ''unknown exception in Capnp.KjAsync httpServerResponseBodyFinish''
       (httpServerResponseBodyFinish K a)"
| "run_answer_op K cp (QueuedHttpServerResponseBodyRelease a) =
     kj_unit_branch ''unknown exception in Capnp.KjAsync httpServerResponseBodyRelease''
       (httpServerResponseBodyRelease a)"

fun run_kj_operation :: "kenv \<Rightarrow> nat \<Rightarrow> kj_operation \<Rightarrow> kj_branch" where
  "run_kj_operation K cp (SleepOp x) = run_sleep_op K cp x"
| "run_kj_operation K cp (DialOp x) = run_dial_op K cp x"
| "run_kj_operation K cp (AddressOp x) = run_address_op K cp x"
| "run_kj_operation K cp (ConnectingOp x) = run_connecting_op K cp x"
| "run_kj_operation K cp (StreamOp x) = run_stream_op K cp x"
| "run_kj_operation K cp (ComposeOp x) = run_compose_op K cp x"
| "run_kj_operation K cp (DescriptorOp x) = run_descriptor_op K cp x"
| "run_kj_operation K cp (DatagramOp x) = run_datagram_op K cp x"
| "run_kj_operation K cp (AwaitingOp x) = run_awaiting_op K cp x"
| "run_kj_operation K cp (HttpOp x) = run_http_op K cp x"
| "run_kj_operation K cp (BodyOp x) = run_body_op K cp x"
| "run_kj_operation K cp (UpgradeOp x) = run_upgrade_op K cp x"
| "run_kj_operation K cp (MessageOp x) = run_message_op K cp x"
| "run_kj_operation K cp (ClosingOp x) = run_closing_op K cp x"
| "run_kj_operation K cp (ServingOp x) = run_serving_op K cp x"
| "run_kj_operation K cp (RespondOp x) = run_respond_op K cp x"
| "run_kj_operation K cp (AnswerOp x) = run_answer_op K cp x"

section \<open>Each operation answers with its own kind of result\<close>

text \<open>What a branch does to a completion of its kind leaves the kind as it is.\<close>

definition keeps_kind :: "kj_kind \<Rightarrow> (kj_completion \<Rightarrow> kj_completion) \<Rightarrow> bool" where
  "keeps_kind k f \<longleftrightarrow> (\<forall>c. kj_kind_of (kc_payload c) = k \<longrightarrow> kj_kind_of (kc_payload (f c)) = k)"

definition branch_fits :: "kj_kind \<Rightarrow> kj_branch \<Rightarrow> bool" where
  "branch_fits k b \<longleftrightarrow> (\<forall>s f t. kb_body b s = (Ret f, t) \<longrightarrow> keeps_kind k f)"

lemma branch_fits_answering: "(\<And>a. keeps_kind k (complete a)) \<Longrightarrow> branch_fits k (kj_answering complete u m)"
  unfolding branch_fits_def kj_answering_def by (auto elim!: bnd_RetE)

lemma kj_branches_fit [simp]:
  "branch_fits KjUnit (kj_unit_branch u m1)"
  "branch_fits KjPromiseId (kj_promise_id_branch u m2)"
  "branch_fits KjHandle (kj_handle_branch u m3)"
  "branch_fits KjBytes (kj_bytes_branch u m4)"
  "branch_fits KjHandlePair (kj_pair_branch u m5)"
  "branch_fits KjBool (kj_bool_branch u m6)"
  "branch_fits KjUInt32 (kj_uint32_branch u m7)"
  "branch_fits KjOptionalUInt32 (kj_optional_uint32_branch u m8)"
  "branch_fits KjOptionalString (kj_optional_string_branch u m9)"
  "branch_fits KjDatagramReceive (kj_datagram_branch u m10)"
  "branch_fits KjHttpResponse (kj_http_response_branch u m11)"
  "branch_fits KjHttpResponse (kj_streaming_response_branch u m12)"
  "branch_fits KjHttpServerRequest (kj_server_request_branch u m13)"
  "branch_fits KjWebSocketMessage (kj_message_branch u m14)"
  "branch_fits k (kj_pumped_branch K h u m15)"
  unfolding kj_unit_branch_def kj_promise_id_branch_def kj_handle_branch_def kj_bytes_branch_def
    kj_pair_branch_def kj_bool_branch_def kj_uint32_branch_def kj_optional_uint32_branch_def
    kj_optional_string_branch_def kj_datagram_branch_def kj_http_response_branch_def
    kj_streaming_response_branch_def kj_server_request_branch_def kj_message_branch_def
    kj_pumped_branch_def
  by (rule branch_fits_answering, simp add: keeps_kind_def kjCompleteUnitSuccess_def
    kjCompletePromiseIdSuccess_def kjCompleteHandleSuccess_def kjCompleteBytesSuccess_def
    kjCompleteHandlePairSuccess_def kjCompleteBoolSuccess_def kjCompleteUInt32Success_def
    kjCompleteOptionalUInt32Success_def kjCompleteOptionalStringSuccess_def
    kjCompleteDatagramReceiveSuccess_def kjCompleteHttpResponseSuccess_def
    kjCompleteHttpServerRequestSuccess_def kjCompleteWebSocketMessageSuccess_def
    split: prod.split option.split)+

lemma run_sleep_op_fits [simp]: "branch_fits (sleep_op_kind x) (run_sleep_op K h x)"
  by (cases x) simp_all

lemma run_dial_op_fits [simp]: "branch_fits (dial_op_kind x) (run_dial_op K h x)"
  by (cases x) simp_all

lemma run_address_op_fits [simp]: "branch_fits (address_op_kind x) (run_address_op K h x)"
  by (cases x) simp_all

lemma run_connecting_op_fits [simp]: "branch_fits (connecting_op_kind x) (run_connecting_op K h x)"
  by (cases x) simp_all

lemma run_stream_op_fits [simp]: "branch_fits (stream_op_kind x) (run_stream_op K h x)"
  by (cases x) simp_all

lemma run_compose_op_fits [simp]: "branch_fits (compose_op_kind x) (run_compose_op K h x)"
  by (cases x) simp_all

lemma run_descriptor_op_fits [simp]: "branch_fits (descriptor_op_kind x) (run_descriptor_op K h x)"
  by (cases x) simp_all

lemma run_datagram_op_fits [simp]: "branch_fits (datagram_op_kind x) (run_datagram_op K h x)"
  by (cases x) simp_all

lemma run_awaiting_op_fits [simp]: "branch_fits (awaiting_op_kind x) (run_awaiting_op K h x)"
  by (cases x) simp_all

lemma run_http_op_fits [simp]: "branch_fits (http_op_kind x) (run_http_op K h x)"
  by (cases x) simp_all

lemma run_body_op_fits [simp]: "branch_fits (body_op_kind x) (run_body_op K h x)"
  by (cases x) simp_all

lemma run_upgrade_op_fits [simp]: "branch_fits (upgrade_op_kind x) (run_upgrade_op K h x)"
  by (cases x) simp_all

lemma run_message_op_fits [simp]: "branch_fits (message_op_kind x) (run_message_op K h x)"
  by (cases x) simp_all

lemma run_closing_op_fits [simp]: "branch_fits (closing_op_kind x) (run_closing_op K h x)"
  by (cases x) simp_all

lemma run_serving_op_fits [simp]: "branch_fits (serving_op_kind x) (run_serving_op K h x)"
  by (cases x) simp_all

lemma run_respond_op_fits [simp]: "branch_fits (respond_op_kind x) (run_respond_op K h x)"
  by (cases x) simp_all

lemma run_answer_op_fits [simp]: "branch_fits (answer_op_kind x) (run_answer_op K h x)"
  by (cases x) simp_all

lemma run_kj_operation_fits: "branch_fits (kj_op_kind op) (run_kj_operation K h op)"
  by (cases op) simp_all

end

