(* ===== verification/Kj_Loop.thy ===== *)
theory Kj_Loop
  imports Kj_Dispatch
begin

text \<open>
  \<^verbatim>\<open>KjAsyncRuntimeLoop::run\<close>: the thread that takes operations off the queue, its
  start and its end. Unlike the RPC runtime's thread it keeps no tasks and does not run the
  event loop while the queue is empty; it waits for an operation.
\<close>

section \<open>State\<close>

text \<open>The thread runs, stays for ever inside an operation, has left the loop, or failed to start.\<close>

datatype kj_phase = KjStarting | KjRunning | KjBlocked | KjExited | KjFailed

record kj_loop = kj_queue_state +
  kj :: kj_state
  kj_current :: "nat option"
  kj_phase :: kj_phase
  kj_alive :: bool
  startupError :: string

definition kj_answer :: "nat \<Rightarrow> (kj_completion \<Rightarrow> kj_completion) \<Rightarrow> 'z kj_queue_state_scheme
    \<Rightarrow> 'z kj_queue_state_scheme" where
  "kj_answer h f s = s\<lparr>kj_completions := (kj_completions s)[h := f (kj_completions s ! h)]\<rparr>"

section \<open>One operation\<close>

text \<open>The answers callbacks gave while the event loop ran.\<close>

definition handle_answer :: "string + u32 \<Rightarrow> kj_completion \<Rightarrow> kj_completion" where
  "handle_answer r = (case r of Inl message \<Rightarrow> completeFailureWithError message
     | Inr i \<Rightarrow> kjCompleteHandleSuccess i)"

definition take_answers :: "kj_loop \<Rightarrow> kj_loop" where
  "take_answers s = fold (\<lambda>(h, r). kj_answer h (handle_answer r)) (handled (kj s))
     (s\<lparr>kj := (kj s)\<lparr>handled := []\<rparr>\<rparr>)"

definition on_kj_thread :: "'a kop \<Rightarrow> kj_loop \<Rightarrow> (kexn, 'a) outcome \<times> kj_loop" where
  "on_kj_thread m s = (let (r, t) = m (kj s) in (r, take_answers (s\<lparr>kj := t\<rparr>)))"

definition kj_process :: "kenv \<Rightarrow> kj_operation \<Rightarrow> nat \<Rightarrow> kj_loop \<Rightarrow> kj_loop" where
  "kj_process K op h s =
     (let b = run_kj_operation K h op; (r, t) = on_kj_thread (kb_body b) s in case r of
        Ret f \<Rightarrow> kj_answer h f (t\<lparr>kj_current := None\<rparr>)
      | Throw e \<Rightarrow> kj_answer h (completeFailureWithError (kexn_text (kb_unknown b) e)) (t\<lparr>kj_current := None\<rparr>)
      | Hang \<Rightarrow> t\<lparr>kj_phase := KjBlocked\<rparr>)"

section \<open>The end of the thread\<close>

definition failOutstanding :: "string \<Rightarrow> 'z kj_queue_state_scheme \<Rightarrow> 'z kj_queue_state_scheme" where
  "failOutstanding message s =
     fold (\<lambda>(op, h). kj_answer h (completeFailureWithError message)) (kj_queue s) (s\<lparr>kj_queue := []\<rparr>)"

definition release_servers :: "kenv \<Rightarrow> kj_state \<Rightarrow> kj_state" where
  "release_servers K s =
     fold (\<lambda>i s. snd (httpServerRelease K i s)) (table_walk K (\<lambda>i. httpServers s i \<noteq> None)) s"

definition reject_sockets :: "kenv \<Rightarrow> kj_state \<Rightarrow> kcall list" where
  "reject_sockets K s = concat (map (\<lambda>i. case webSockets s i of
      Some w \<Rightarrow> (case rws_requestCompletion w of
         Some f \<Rightarrow> [KReject f (mk_kj_error DISCONNECTED ''Capnp.KjAsync websocket released'')]
       | None \<Rightarrow> [])
    | None \<Rightarrow> []) (table_walk K (\<lambda>i. webSockets s i \<noteq> None)))"

definition reject_bodies :: "kenv \<Rightarrow> kj_state \<Rightarrow> kcall list" where
  "reject_bodies K s = concat (map (\<lambda>i. case httpServerResponseBodies s i of
      Some b \<Rightarrow> [KDropStream (rsb_stream b),
         KReject (rsb_doneFulfiller b) (mk_kj_error DISCONNECTED ''Capnp.KjAsync runtime released'')]
    | None \<Rightarrow> []) (table_walk K (\<lambda>i. httpServerResponseBodies s i \<noteq> None)))"

text \<open>Destroying the promises ends the continuations KJ still holds.\<close>

definition kj_teardown :: "kenv \<Rightarrow> kj_state \<Rightarrow> kj_state" where
  "kj_teardown K s =
     (let s1 = release_servers K s;
          s2 = s1\<lparr>promises := Map.empty, retiredPromiseIds := {}, connectionPromises := Map.empty,
            bytesPromises := Map.empty, uint32Promises := Map.empty, datagramReceivePromises := Map.empty,
            httpResponsePromises := Map.empty, webSocketPromises := Map.empty,
            webSocketMessagePromises := Map.empty, continuations := Map.empty,
            listeners := Map.empty, networkAddresses := Map.empty,
            connections := Map.empty, taskSets := Map.empty, datagramPorts := Map.empty\<rparr>;
          s3 = s2\<lparr>klog := klog s2 @ reject_sockets K s2, webSockets := Map.empty,
            httpRequestBodies := Map.empty, httpResponseBodies := Map.empty,
            httpServerRequestBodies := Map.empty\<rparr>
      in s3\<lparr>klog := klog s3 @ reject_bodies K s3, httpServerResponseBodies := Map.empty,
           tlsNetwork := None, tlsContext := None\<rparr>)"

definition kj_finish :: "kenv \<Rightarrow> kj_loop \<Rightarrow> kj_loop" where
  "kj_finish K s = s\<lparr>kj := kj_teardown K (kj s), kj_phase := KjExited, kj_alive := False\<rparr>"

section \<open>The loop\<close>

definition kj_worker :: "kenv \<Rightarrow> kj_loop \<Rightarrow> kj_loop" where
  "kj_worker K s =
     (if kj_phase s \<noteq> KjRunning then s
      else case kj_queue s of
        [] \<Rightarrow> if kj_stopping s then kj_finish K s else s
      | (op, h) # q \<Rightarrow> kj_process K op h (s\<lparr>kj_queue := q, kj_current := Some h\<rparr>))"

text \<open>\<open>setup\<close> is what \<^verbatim>\<open>kj::setupAsyncIo\<close> throws, if it does.\<close>

definition kj_start :: "kexn option \<Rightarrow> kj_loop \<Rightarrow> kj_loop" where
  "kj_start setup s = (case setup of
      None \<Rightarrow> s\<lparr>kj_phase := KjRunning, kj_alive := True\<rparr>
    | Some e \<Rightarrow> let text = kexn_text ''unknown exception in Capnp.KjAsync runtime thread'' e in
        (failOutstanding text (s\<lparr>startupError := text\<rparr>))\<lparr>kj_phase := KjFailed, kj_alive := False\<rparr>)"

definition kj_loop_init :: kj_loop where
  "kj_loop_init = \<lparr>kj_queue = [], kj_stopping = False, kj_completions = [],
     kj = kj_init, kj_current = None, kj_phase = KjStarting, kj_alive = False, startupError = []\<rparr>"

text \<open>
  The constructor waits for the start and throws what went wrong with it. The thread is
  then destroyed while it can still be joined, which ends the process.
\<close>

datatype construction = Constructed kj_loop | ProcessTerminates

definition KjAsyncRuntimeLoop :: "kexn option \<Rightarrow> construction" where
  "KjAsyncRuntimeLoop setup = (let s = kj_start setup kj_loop_init in
     if startupError s = [] then Constructed s else ProcessTerminates)"

text \<open>A run: other threads ask for operations or for the end, and the thread takes turns.\<close>

datatype kj_move = KjIssue kj_operation | KjShutdown | KjWorker

fun kj_step :: "kenv \<Rightarrow> kj_move \<Rightarrow> kj_loop \<Rightarrow> kj_loop" where
  "kj_step K (KjIssue op) s = snd (kj_issue op s)"
| "kj_step K KjShutdown s = kj_shutdown s"
| "kj_step K KjWorker s = kj_worker K s"

definition kj_run :: "kenv \<Rightarrow> kj_move list \<Rightarrow> kj_loop \<Rightarrow> kj_loop" where
  "kj_run K es s = fold (kj_step K) es s"

end
