(* ===== verification/Kj_Guards.thy ===== *)
theory Kj_Guards
  imports Kj_Loop
begin

text \<open>
  Invariants of the HTTP server's tables. The interface \<open>kj_guard\<close> says what an invariant
  has to withstand: the callbacks, and the few operations that touch these tables. It then
  holds across every operation of the runtime.
\<close>

section \<open>Composition\<close>

lemma keeps_fail [keeps_intro]: "keeps P (fail what)"
  unfolding fail_def by (rule keeps_throw)

lemma keeps_lift_error [keeps_intro]: "keeps P (lift_error r)"
  by (simp add: keeps_def lift_error_def split: sum.split)

lemma keeps_case_prod [keeps_intro]: "(\<And>a b. keeps P (f a b)) \<Longrightarrow> keeps P (case x of (a, b) \<Rightarrow> f a b)"
  by (cases x) simp

lemma keeps_case_list [keeps_intro]:
  "keeps P m \<Longrightarrow> (\<And>y ys. keeps P (f y ys)) \<Longrightarrow> keeps P (case x of [] \<Rightarrow> m | y # ys \<Rightarrow> f y ys)"
  by (cases x) auto

lemma keeps_case_sum [keeps_intro]:
  "(\<And>a. keeps P (f a)) \<Longrightarrow> (\<And>b. keeps P (g b)) \<Longrightarrow> keeps P (case x of Inl a \<Rightarrow> f a | Inr b \<Rightarrow> g b)"
  by (cases x) auto

text \<open>Code that reads the state first.\<close>

lemma keeps_read_option [keeps_intro]:
  "keeps P m \<Longrightarrow> (\<And>v. keeps P (f v)) \<Longrightarrow> keeps P (\<lambda>s. case g s of None \<Rightarrow> m s | Some v \<Rightarrow> f v s)"
  by (auto simp: keeps_def split: option.split)

lemma keeps_read_if [keeps_intro]:
  "keeps P m \<Longrightarrow> keeps P k \<Longrightarrow> keeps P (\<lambda>s. if b s then m s else k s)"
  by (simp add: keeps_def)

lemma keeps_walk: "(\<And>x. keeps P (f x)) \<Longrightarrow> keeps P (\<lambda>s. for_each f (g s) s)"
  using keeps_for_each[of P f] by (simp add: keeps_def)

lemma keeps_read_continuation [keeps_intro]:
  "(\<And>i b. keeps P (f1 i b)) \<Longrightarrow> (\<And>q. keeps P (f2 q)) \<Longrightarrow> (\<And>q. keeps P (f3 q)) \<Longrightarrow> (\<And>r. keeps P (f4 r)) \<Longrightarrow>
   (\<And>e. keeps P (f5 e)) \<Longrightarrow> keeps P (\<lambda>s. case c of SendWhenParsed i b \<Rightarrow> f1 i b s | SendStarted q \<Rightarrow> f2 q s
     | DecodeStreaming q \<Rightarrow> f3 q s | StreamingDecoded r \<Rightarrow> f4 r s | ContinuationFailed e \<Rightarrow> f5 e s)"
  by (simp add: keeps_def split: continuation.split)

section \<open>Operations that a callback answers\<close>

text \<open>These two are answered from the HTTP service's callbacks, all others by the loop itself.\<close>

fun answered_by_callback :: "kj_operation \<Rightarrow> bool" where
  "answered_by_callback (RespondOp (QueuedHttpServerRespondWebSocket _ _ _)) = True"
| "answered_by_callback (RespondOp (QueuedHttpServerRespondStartStreaming _ _ _ _ _)) = True"
| "answered_by_callback _ = False"

lemma callback_op_kind: "answered_by_callback op \<Longrightarrow> kj_op_kind op = KjHandle"
  by (cases op rule: answered_by_callback.cases) simp_all

section \<open>What the server's invariants see\<close>

definition server_view :: "kj_state \<Rightarrow> (obj \<rightharpoonup> open_request) \<times> (u32 \<rightharpoonup> server_request_body) \<times>
    (u32 \<rightharpoonup> server_response_body) \<times> (u32 \<rightharpoonup> http_server) \<times> (nat \<times> (string + u32)) list" where
  "server_view s = (openRequests s, httpServerRequestBodies s, httpServerResponseBodies s, httpServers s, handled s)"

text \<open>The commands that carry no other handle than \<open>h\<close>.\<close>

fun command_handles :: "http_command \<Rightarrow> nat set" where
  "command_handles (HttpCommand _ _ _ _) = {}"
| "command_handles (WebSocketCommand _ h) = {h}"
| "command_handles (StreamingCommand _ _ _ h) = {h}"

text \<open>Putting a server into the table, with its identifier.\<close>

definition enter_server :: "http_server \<Rightarrow> u32 kop" where
  "enter_server v = bnd (addHttpServer v) (\<lambda>i. sq (modify (\<lambda>s. s\<lparr>httpServers := (httpServers s)(i :=
     map_option (\<lambda>st. st\<lparr>hs_serverId := i\<rparr>) (httpServers s i))\<rparr>)) (ret i))"

lemma enter_server_bnd:
  "bnd (addHttpServer v) (\<lambda>i. sq (modify (\<lambda>s. s\<lparr>httpServers := (httpServers s)(i :=
     map_option (\<lambda>st. st\<lparr>hs_serverId := i\<rparr>) (httpServers s i))\<rparr>)) (k i)) = bnd (enter_server v) k"
  by (rule ext) (simp add: enter_server_def bnd_def sq_def split: prod.split outcome.split)

lemmas add_defs = addPromise_def addConnectionPromise_def addBytesPromise_def addUInt32Promise_def
  addDatagramReceivePromise_def addHttpResponsePromise_def addWebSocketPromise_def
  addWebSocketMessagePromise_def addListener_def addNetworkAddress_def addConnection_def addTaskSet_def
  addDatagramPort_def addWebSocket_def addHttpRequestBody_def addHttpResponseBody_def

named_theorems kj_kept \<open>operations that keep an invariant of the tables\<close>

lemmas [kj_kept] = keeps_ret keeps_throw keeps_gets keeps_find_or keeps_bnd keeps_sq keeps_if
  keeps_case_option keeps_fail keeps_lift_error keeps_case_prod keeps_case_list keeps_case_sum
  keeps_read_option keeps_read_if keeps_read_continuation

locale kj_view =
  fixes P :: "kj_state \<Rightarrow> bool"
  assumes by_view: "server_view s = server_view t \<Longrightarrow> kheap s \<le> kheap t \<Longrightarrow> P s \<Longrightarrow> P t"
begin

lemma keeps_unseen [kj_kept]: "(\<And>s. server_view (f s) = server_view s) \<Longrightarrow> (\<And>s. kheap s \<le> kheap (f s)) \<Longrightarrow> keeps P (modify f)"
  by (rule keeps_modify) (metis by_view)

lemma keeps_add:
  assumes "\<And>s. add s = (case g s of None \<Rightarrow> (Hang, s) | Some (i, n) \<Rightarrow> (Ret i, upd i n s))"
    and "\<And>i n s. server_view (upd i n s) = server_view s" and "\<And>i n s. kheap (upd i n s) = kheap s"
  shows "keeps P (add :: u32 kop)"
  unfolding keeps_def assms(1) by (auto split: option.splits intro: by_view[OF assms(2)[symmetric]] simp: assms(3))

lemma keeps_noting [kj_kept]: "keeps P (noting c)"
  by (rule keepsI) (auto intro: by_view[rotated 2] simp: server_view_def)

lemma keeps_fresh [kj_kept]: "keeps P fresh"
  by (rule keepsI) (auto intro: by_view[rotated 2] simp: server_view_def)

lemma keeps_ask [kj_kept]: "keeps P (ask f c)"
  by (rule keepsI) (auto intro: by_view[rotated 2] simp: server_view_def ask_def split: sum.splits)

lemma keeps_swallow: "keeps P m \<Longrightarrow> keeps P (swallow m)"
  unfolding keeps_def swallow_def by (auto split: prod.split outcome.split)

lemma keeps_adds [kj_kept]:
  "keeps P (addPromise v0)"
  "keeps P (addConnectionPromise v1)"
  "keeps P (addBytesPromise v2)"
  "keeps P (addUInt32Promise v3)"
  "keeps P (addDatagramReceivePromise v4)"
  "keeps P (addHttpResponsePromise v5)"
  "keeps P (addWebSocketPromise v6)"
  "keeps P (addWebSocketMessagePromise v7)"
  "keeps P (addListener v8)"
  "keeps P (addNetworkAddress v9)"
  "keeps P (addConnection v10)"
  "keeps P (addTaskSet v11)"
  "keeps P (addDatagramPort v12)"
  "keeps P (addWebSocket v13)"
  "keeps P (addHttpRequestBody v14)"
  "keeps P (addHttpResponseBody v15)"
  by (rule keeps_add, rule add_defs, simp add: server_view_def, simp)+

lemma keeps_finish: "keeps P m \<Longrightarrow> keeps P (finish_continuation k m)"
  by (rule keepsI) (auto simp: finish_continuation_def server_view_def
    split: prod.splits outcome.splits dest!: keepsD intro: by_view[rotated 2])

lemma keeps_answering_handle:
  assumes "keeps P m" and "\<And>r. keeps P (answer_handle h r)"
  shows "keeps P (answering_handle h unknown m)"
proof (rule keepsI)
  fix s r t
  assume "P s" and run: "answering_handle h unknown m s = (r, t)"
  obtain q u where m: "m s = (q, u)" by fastforce
  then have "P u"
    by (rule keepsD[OF assms(1) \<open>P s\<close>])
  then have "P (snd (answer_handle h x u))" for x
    using assms(2) by (simp add: keeps_def)
  then show "P t"
    using run \<open>P u\<close> by (auto simp: answering_handle_def m answer_handle_def split: outcome.splits)
qed

lemma keeps_continuations:
  "keeps P (address_parsed K k addr)" "keeps P (reply_arrives k response)" "keeps P (kjTaskFailed ts e)"
proof -
  have "keeps P (send_parsed K i b addr)" for i b
    unfolding send_parsed_def by (intro kj_kept)
  then show "keeps P (address_parsed K k addr)"
    unfolding address_parsed_def[abs_def] by (intro kj_kept keeps_finish)
  have "keeps P (decodeStreamingHttpResponse response owner)" for owner
    unfolding decodeStreamingHttpResponse_def by (intro kj_kept)
  then show "keeps P (reply_arrives k response)"
    unfolding reply_arrives_def[abs_def] by (intro kj_kept keeps_finish)
  show "keeps P (kjTaskFailed ts e)"
    unfolding kjTaskFailed_def by (rule keeps_unseen) (simp_all add: server_view_def)
qed

end

locale kj_guard = kj_view P for P +
  fixes K :: kenv and C :: "nat set"
  assumes callback_kept: "keeps P (callback K e)"
    and respond_kept: "command_handles command \<subseteq> C \<Longrightarrow> keeps P (respond serverId requestId command)"
    and enter_kept: "keeps P (enter_server v)"
    and listening_kept: "P s \<Longrightarrow> P (s\<lparr>httpServers := (httpServers s)(i :=
        map_option (\<lambda>st. st\<lparr>hs_listenPromiseId := n\<rparr>) (httpServers s i))\<rparr>)"
    and polled_kept: "P s \<Longrightarrow> httpServers s i = Some st \<Longrightarrow>
        P (s\<lparr>httpServers := (httpServers s)(i \<mapsto> st\<lparr>hs_requestQueue := q\<rparr>)\<rparr>)"
    and release_kept: "keeps P (httpServerRelease K i)"
    and request_body_dropped: "P s \<Longrightarrow> P (s\<lparr>httpServerRequestBodies := (httpServerRequestBodies s)(i := None)\<rparr>)"
    and response_body_dropped: "P s \<Longrightarrow> P (s\<lparr>httpServerResponseBodies := (httpServerResponseBodies s)(i := None)\<rparr>)"
begin

lemma keeps_callbacks [kj_kept]: "keeps P (run_callbacks K p)"
proof (rule keepsI)
  fix s r t
  assume P: "P s" and run: "run_callbacks K p s = (r, t)"
  have "P (s\<lparr>klog := klog s @ [KWait p]\<rparr>)"
    by (rule by_view[OF _ _ P]) (simp_all add: server_view_def)
  then show "P t"
    using run unfolding run_callbacks_def
    by (rule keepsD[OF keeps_for_each[OF keeps_swallow[OF callback_kept]]])
qed

lemma keeps_waiting [kj_kept]: "keeps P (waiting_for K f p)"
  unfolding waiting_for_def
  by (intro keeps_sq keeps_callbacks) (simp add: keeps_def split: option.split sum.split)


subsection \<open>Promises\<close>

lemma keeps_put [kj_kept]:
  "(\<And>s. server_view (f s) = server_view s) \<Longrightarrow> (\<And>s. kheap s \<le> kheap (f s)) \<Longrightarrow> keeps P (\<lambda>s. (r, f s))"
  unfolding keeps_def by (metis by_view snd_conv)

lemma keeps_throw_of [kj_kept]: "keeps P (\<lambda>s. throw (e s) s)"
  by (simp add: keeps_def)

lemma keeps_wrap [kj_kept]: "(\<And>p. keeps P (add p)) \<Longrightarrow> keeps P (wrap_promise add q)"
  unfolding wrap_promise_def by (intro kj_kept)

lemma keeps_take_promise [kj_kept]:
  "keeps P (take_promise a0)"
  unfolding take_promise_def[abs_def]
  by ((intro kj_kept); simp add: server_view_def retire_promise_def)+

lemma keeps_take_promises [kj_kept]: "keeps P (take_promises is)"
proof (induction "is")
  case Nil
  show ?case by (simp add: keeps_def)
next
  case (Cons i "is")
  have "keeps P (bnd (take_promise i) (\<lambda>p. bnd (take_promises is) (\<lambda>ps. ret (p # ps))))"
    by (intro kj_kept Cons)
  then show ?case by (simp add: keeps_def)
qed

lemma keeps_race_promises [kj_kept]: "keeps P (race_promises p is)"
proof (induction "is" arbitrary: p)
  case Nil
  show ?case by (simp add: keeps_def)
next
  case (Cons i "is")
  have "keeps P (bnd (take_promise i) (\<lambda>q. race_promises (KRace p q) is))"
    by (intro kj_kept Cons)
  then show ?case by (simp add: keeps_def)
qed

lemma keeps_combinators [kj_kept]:
  "keeps P (promiseAllStart a0)"
  "keeps P (promiseRaceStart a1)"
  "keeps P (promiseThenStart a2 b2)"
  "keeps P (promiseCatchStart a3 b3)"
  "keeps P (sleepNanosStart a4)"
  "keeps P (awaitPromise K b5)"
  "keeps P (cancelPromise a6)"
  "keeps P (releasePromise a7)"
  unfolding promiseAllStart_def[abs_def] promiseRaceStart_def[abs_def] promiseThenStart_def[abs_def] promiseCatchStart_def[abs_def] sleepNanosStart_def[abs_def] awaitPromise_def[abs_def] cancelPromise_def[abs_def] releasePromise_def[abs_def]
  by ((intro kj_kept); simp add: server_view_def retire_promise_def)+

lemma keeps_find_task_set [kj_kept]:
  "keeps P (find_task_set a0)"
  unfolding find_task_set_def[abs_def]
  by ((intro kj_kept); simp add: server_view_def retire_promise_def)+

lemma keeps_task_sets [kj_kept]:
  "keeps P taskSetNew"
  "keeps P (taskSetRelease a1)"
  "keeps P (taskSetAddPromise a2 b2)"
  "keeps P (taskSetClear K b3)"
  "keeps P (taskSetIsEmpty K b4)"
  "keeps P (taskSetOnEmptyStart K b5)"
  "keeps P (taskSetErrorCount a6)"
  "keeps P (taskSetTakeLastError a7)"
  unfolding taskSetNew_def[abs_def] taskSetRelease_def[abs_def] taskSetAddPromise_def[abs_def] taskSetClear_def[abs_def] taskSetIsEmpty_def[abs_def] taskSetOnEmptyStart_def[abs_def] taskSetErrorCount_def[abs_def] taskSetTakeLastError_def[abs_def]
  by ((intro kj_kept); simp add: server_view_def retire_promise_def)+

lemma keeps_pending [kj_kept]:
  "(\<And>j s. server_view (del j s) = server_view s) \<Longrightarrow> (\<And>j s. kheap s \<le> kheap (del j s)) \<Longrightarrow>
     keeps P (take_pending tbl del what i)"
  "keeps P (cancel_pending tbl what2 i2)"
  unfolding take_pending_def cancel_pending_def by (intro kj_kept; simp)+

lemma keeps_takes [kj_kept]:
  "keeps P (takeConnectionPromise a0)"
  "keeps P (takeBytesPromise a1)"
  "keeps P (takeUInt32Promise a2)"
  "keeps P (takeDatagramReceivePromise a3)"
  "keeps P (takeHttpResponsePromise a4)"
  "keeps P (takeWebSocketPromise a5)"
  "keeps P (takeWebSocketMessagePromise a6)"
  unfolding takeConnectionPromise_def[abs_def] takeBytesPromise_def[abs_def] takeUInt32Promise_def[abs_def] takeDatagramReceivePromise_def[abs_def] takeHttpResponsePromise_def[abs_def] takeWebSocketPromise_def[abs_def] takeWebSocketMessagePromise_def[abs_def]
  by ((intro kj_kept); simp add: server_view_def retire_promise_def)+

lemma keeps_releases [kj_kept]:
  "keeps P (releaseConnectionPromise a0)"
  "keeps P (releaseBytesPromise a1)"
  "keeps P (releaseUInt32Promise a2)"
  "keeps P (releaseDatagramReceivePromise a3)"
  "keeps P (releaseHttpResponsePromise a4)"
  "keeps P (releaseWebSocketPromise a5)"
  "keeps P (releaseWebSocketMessagePromise a6)"
  "keeps P (cancelConnectionPromise a7)"
  "keeps P (cancelBytesPromise a8)"
  "keeps P (cancelUInt32Promise a9)"
  "keeps P (cancelDatagramReceivePromise a10)"
  "keeps P (cancelHttpResponsePromise a11)"
  "keeps P (cancelWebSocketPromise a12)"
  "keeps P (cancelWebSocketMessagePromise a13)"
  unfolding releaseConnectionPromise_def[abs_def] releaseBytesPromise_def[abs_def] releaseUInt32Promise_def[abs_def] releaseDatagramReceivePromise_def[abs_def] releaseHttpResponsePromise_def[abs_def] releaseWebSocketPromise_def[abs_def] releaseWebSocketMessagePromise_def[abs_def] cancelConnectionPromise_def[abs_def] cancelBytesPromise_def[abs_def] cancelUInt32Promise_def[abs_def] cancelDatagramReceivePromise_def[abs_def] cancelHttpResponsePromise_def[abs_def] cancelWebSocketPromise_def[abs_def] cancelWebSocketMessagePromise_def[abs_def]
  by ((intro kj_kept); simp add: server_view_def retire_promise_def)+

lemma keeps_continuation_failure [kj_kept]: "keeps P (continuation_failure K p)"
  by (simp add: keeps_def continuation_failure_def split: option.split)

lemma keeps_wait_sent [kj_kept]: "keeps P (wait_sent K p)"
  unfolding wait_sent_def by (intro keeps_sq keeps_callbacks, cases p; simp only: kprom.case; intro kj_kept)

lemma keeps_wait_response [kj_kept]: "keeps P (wait_response K p)"
  unfolding wait_response_def by (cases p; simp only: kprom.case; intro kj_kept)

lemma keeps_decode_socket [kj_kept]: "keeps P (decodeWebSocketResponse owner r)"
  unfolding decodeWebSocketResponse_def by (cases r; simp only: socket_reply.case; intro kj_kept)

lemma keeps_wait_web_socket [kj_kept]: "keeps P (wait_web_socket K p)"
  unfolding wait_web_socket_def by (intro keeps_bnd keeps_waiting, cases p; simp only: kprom.case; intro kj_kept)

lemma keeps_await_connection [kj_kept]:
  "keeps P (awaitConnectionPromise K b0)"
  unfolding awaitConnectionPromise_def[abs_def]
  by ((intro kj_kept); simp add: server_view_def retire_promise_def)+

lemma keeps_awaits [kj_kept]:
  "keeps P (awaitConnectionPromiseWithTimeout K b0 c0)"
  "keeps P (awaitBytesPromise K b1)"
  "keeps P (awaitUInt32Promise K b2)"
  "keeps P (awaitDatagramReceivePromise K b3)"
  "keeps P (awaitHttpResponsePromise K b4)"
  "keeps P (awaitWebSocketPromise K b5)"
  "keeps P (awaitWebSocketMessagePromise K b6)"
  unfolding awaitConnectionPromiseWithTimeout_def[abs_def] awaitBytesPromise_def[abs_def] awaitUInt32Promise_def[abs_def] awaitDatagramReceivePromise_def[abs_def] awaitHttpResponsePromise_def[abs_def] awaitWebSocketPromise_def[abs_def] awaitWebSocketMessagePromise_def[abs_def]
  by ((intro kj_kept); simp add: server_view_def retire_promise_def)+

subsection \<open>The network\<close>

lemma keeps_net_lookups [kj_kept]:
  "keeps P (find_listener a0)"
  "keeps P (find_address a1)"
  "keeps P (find_connection a2)"
  "keeps P (find_port a3)"
  "keeps P (resolve_address K b4 c4)"
  "keeps P (write_stream K b5 c5)"
  "keeps P (read_stream K b6 c6 d6)"
  "keeps P (ensurePlatformFdAndDup K b7 c7)"
  "keeps P (add_ends a8)"
  unfolding find_listener_def[abs_def] find_address_def[abs_def] find_connection_def[abs_def] find_port_def[abs_def] resolve_address_def[abs_def] write_stream_def[abs_def] read_stream_def[abs_def] ensurePlatformFdAndDup_def[abs_def] add_ends_def[abs_def]
  by ((intro kj_kept); simp add: server_view_def retire_promise_def)+

lemma keeps_addresses [kj_kept]:
  "keeps P (listen K b0 c0)"
  "keeps P (releaseListener a1)"
  "keeps P (accept K b2)"
  "keeps P (acceptStart K b3)"
  "keeps P (connect K b4 c4)"
  "keeps P (connectStart K b5 c5)"
  "keeps P (parseAddress K b6 c6)"
  "keeps P (releaseNetworkAddress a7)"
  "keeps P (networkAddressToString K b8)"
  "keeps P (networkAddressClone K b9)"
  "keeps P (networkAddressConnect K b10)"
  "keeps P (networkAddressConnectStart K b11)"
  "keeps P (networkAddressListen K b12)"
  "keeps P (networkAddressBindDatagramPort K b13)"
  unfolding listen_def[abs_def] releaseListener_def[abs_def] accept_def[abs_def] acceptStart_def[abs_def] connect_def[abs_def] connectStart_def[abs_def] parseAddress_def[abs_def] releaseNetworkAddress_def[abs_def] networkAddressToString_def[abs_def] networkAddressClone_def[abs_def] networkAddressConnect_def[abs_def] networkAddressConnectStart_def[abs_def] networkAddressListen_def[abs_def] networkAddressBindDatagramPort_def[abs_def]
  by ((intro kj_kept); simp add: server_view_def retire_promise_def)+

lemma keeps_stream_starts [kj_kept]:
  "keeps P (connectionWriteStart K b0 c0)"
  "keeps P (connectionReadStart K b1 c1 d1)"
  "keeps P (datagramSendStart K b2 c2 d2 e2)"
  "keeps P (datagramReceiveStart K b3 c3)"
  unfolding connectionWriteStart_def[abs_def] connectionReadStart_def[abs_def] datagramSendStart_def[abs_def] datagramReceiveStart_def[abs_def]
  by ((intro kj_kept); simp add: server_view_def retire_promise_def)+

lemma keeps_streams [kj_kept]:
  "keeps P (releaseConnection a0)"
  "keeps P (connectionWrite K b1 c1)"
  "keeps P (connectionRead K b2 c2 d2)"
  "keeps P (connectionShutdownWrite K b3)"
  "keeps P (connectionShutdownWriteStart K b4)"
  "keeps P (connectionWhenWriteDisconnectedStart K b5)"
  "keeps P (connectionAbortRead K b6)"
  "keeps P (connectionAbortWrite K b7 c7)"
  "keeps P (connectionDupFd K b8)"
  unfolding releaseConnection_def[abs_def] connectionWrite_def[abs_def] connectionRead_def[abs_def] connectionShutdownWrite_def[abs_def] connectionShutdownWriteStart_def[abs_def] connectionWhenWriteDisconnectedStart_def[abs_def] connectionAbortRead_def[abs_def] connectionAbortWrite_def[abs_def] connectionDupFd_def[abs_def]
  by ((intro kj_kept); simp add: server_view_def retire_promise_def)+

lemma keeps_descriptors [kj_kept]:
  "keeps P (wrapSocketFdTake K b0)"
  "keeps P (wrapSocketFd K b1)"
  "keeps P (wrapListenSocketFdTake K b2)"
  "keeps P (wrapListenSocketFd K b3)"
  "keeps P (wrapDatagramSocketFdTake K b4)"
  "keeps P (wrapDatagramSocketFd K b5)"
  "keeps P (newTwoWayPipe K)"
  "keeps P (newCapabilityPipe K)"
  "keeps P (datagramBind K b8 c8)"
  "keeps P (datagramReleasePort a9)"
  "keeps P (datagramGetPort K b10)"
  "keeps P (datagramSend K b11 c11 d11 e11)"
  "keeps P (datagramReceive K b12 c12)"
  unfolding wrapSocketFdTake_def[abs_def] wrapSocketFd_def[abs_def] wrapListenSocketFdTake_def[abs_def] wrapListenSocketFd_def[abs_def] wrapDatagramSocketFdTake_def[abs_def] wrapDatagramSocketFd_def[abs_def] newTwoWayPipe_def[abs_def] newCapabilityPipe_def[abs_def] datagramBind_def[abs_def] datagramReleasePort_def[abs_def] datagramGetPort_def[abs_def] datagramSend_def[abs_def] datagramReceive_def[abs_def]
  by ((intro kj_kept); simp add: server_view_def retire_promise_def)+

subsection \<open>HTTP\<close>

lemma keeps_tls [kj_kept]:
  "keeps P (configureTls K b0 c0 d0 e0 f0 g0 h0 i0 j0)"
  "keeps P (resolveTlsNetwork a1)"
  unfolding configureTls_def[abs_def] resolveTlsNetwork_def[abs_def]
  by ((intro kj_kept); simp add: server_view_def retire_promise_def)+

lemma keeps_http_lookups [kj_kept]:
  "keeps P (find_request_body a0)"
  "keeps P (find_response_body a1)"
  "keeps P (find_server a2)"
  "keeps P (find_server_request_body a3)"
  "keeps P (find_server_response_body a4)"
  "keeps P (find_web_socket a5)"
  "keeps P (decode_settings a6)"
  "keeps P (enableTls K)"
  unfolding find_request_body_def[abs_def] find_response_body_def[abs_def] find_server_def[abs_def] find_server_request_body_def[abs_def] find_server_response_body_def[abs_def] find_web_socket_def[abs_def] decode_settings_def[abs_def] enableTls_def[abs_def]
  by ((intro kj_kept); simp add: server_view_def retire_promise_def)+

lemma keeps_http_starts [kj_kept]:
  "keeps P (httpRequestStart K b0 c0 d0 e0 f0 g0 h0 i0)"
  "keeps P (httpRequestStartStreaming K b1 c1 d1 e1 f1 g1)"
  "keeps P (httpRequestBodyWriteStart K b2 c2)"
  "keeps P (httpRequestBodyFinishStart a3)"
  "keeps P (httpResponseBodyReadStart K b4 c4 d4)"
  "keeps P (httpServerRequestBodyReadStart K b5 c5 d5)"
  "keeps P (httpServerResponseBodyWriteStart K b6 c6)"
  "keeps P (httpServerDrainStart K b7)"
  "keeps P (webSocketConnectStart K b8 c8 d8 e8 f8)"
  "keeps P (webSocketReceiveStart K b9 c9)"
  "keeps P (webSocketCloseStart K b10 c10 d10)"
  unfolding httpRequestStart_def[abs_def] httpRequestStartStreaming_def[abs_def] httpRequestBodyWriteStart_def[abs_def] httpRequestBodyFinishStart_def[abs_def] httpResponseBodyReadStart_def[abs_def] httpServerRequestBodyReadStart_def[abs_def] httpServerResponseBodyWriteStart_def[abs_def] httpServerDrainStart_def[abs_def] webSocketConnectStart_def[abs_def] webSocketReceiveStart_def[abs_def] webSocketCloseStart_def[abs_def]
  by ((intro kj_kept); simp add: server_view_def retire_promise_def)+

lemma keeps_client [kj_kept]:
  "keeps P (httpRequest K b0 c0 d0 e0 f0 g0 h0 i0)"
  "keeps P (httpRequestBodyWrite K b1 c1)"
  "keeps P (httpRequestBodyFinish K b2)"
  "keeps P (httpRequestBodyRelease a3)"
  "keeps P (httpResponseBodyRead K b4 c4 d4)"
  "keeps P (httpResponseBodyRelease a5)"
  "keeps P (httpServerRequestBodyRead K b6 c6 d6)"
  "keeps P (httpServerResponseBodyWrite K b7 c7)"
  "keeps P (httpServerDrain K b8)"
  unfolding httpRequest_def[abs_def] httpRequestBodyWrite_def[abs_def] httpRequestBodyFinish_def[abs_def] httpRequestBodyRelease_def[abs_def] httpResponseBodyRead_def[abs_def] httpResponseBodyRelease_def[abs_def] httpServerRequestBodyRead_def[abs_def] httpServerResponseBodyWrite_def[abs_def] httpServerDrain_def[abs_def]
  by ((intro kj_kept); simp add: server_view_def retire_promise_def)+

lemma keeps_sockets [kj_kept]:
  "keeps P (webSocketConnect K b0 c0 d0 e0 f0)"
  "keeps P (webSocketRelease a1)"
  "keeps P (webSocketSendText K b2 c2)"
  "keeps P (webSocketSendTextStart K b3 c3)"
  "keeps P (webSocketSendBinary K b4 c4)"
  "keeps P (webSocketSendBinaryStart K b5 c5)"
  "keeps P (webSocketReceive K b6 c6)"
  "keeps P (webSocketClose K b7 c7 d7)"
  "keeps P (webSocketDisconnect K b8)"
  "keeps P (webSocketAbort K b9)"
  "keeps P (newWebSocketPipe K)"
  unfolding webSocketConnect_def[abs_def] webSocketRelease_def[abs_def] webSocketSendText_def[abs_def] webSocketSendTextStart_def[abs_def] webSocketSendBinary_def[abs_def] webSocketSendBinaryStart_def[abs_def] webSocketReceive_def[abs_def] webSocketClose_def[abs_def] webSocketDisconnect_def[abs_def] webSocketAbort_def[abs_def] newWebSocketPipe_def[abs_def]
  by ((intro kj_kept); simp add: server_view_def retire_promise_def)+

subsection \<open>The server\<close>

lemma keeps_bodies_dropped [kj_kept]:
  "keeps P (modify (\<lambda>s. s\<lparr>httpServerRequestBodies := (httpServerRequestBodies s)(i := None)\<rparr>))"
  "keeps P (modify (\<lambda>s. s\<lparr>httpServerResponseBodies := (httpServerResponseBodies s)(i := None)\<rparr>))"
  by (simp_all add: keeps_modify request_body_dropped response_body_dropped)

lemma keeps_listening [kj_kept]:
  "keeps P (modify (\<lambda>s. s\<lparr>httpServers := (httpServers s)(i :=
      map_option (\<lambda>st. st\<lparr>hs_listenPromiseId := n\<rparr>) (httpServers s i))\<rparr>))"
  by (simp add: keeps_modify listening_kept)

lemma keeps_listen [kj_kept]: "keeps P (httpServerListen K a b c d)"
  unfolding httpServerListen_def enter_server_bnd by (intro kj_kept enter_kept)

lemma keeps_poll [kj_kept]: "keeps P (httpServerPollRequest i)"
  by (rule keepsI) (auto simp: httpServerPollRequest_def find_server_def find_or_def bnd_def sq_def lift_error_def
    intro: polled_kept split: option.splits list.splits sum.splits)

lemma keeps_body_ends [kj_kept]:
  "keeps P (httpServerRequestBodyRelease a0)"
  "keeps P (httpServerResponseBodyRelease a1)"
  "keeps P (httpServerResponseBodyFinishStart a2)"
  unfolding httpServerRequestBodyRelease_def[abs_def] httpServerResponseBodyRelease_def[abs_def] httpServerResponseBodyFinishStart_def[abs_def]
  by ((intro kj_kept); simp add: server_view_def retire_promise_def)+

lemma keeps_body_finish [kj_kept]:
  "keeps P (httpServerResponseBodyFinish K b0)"
  unfolding httpServerResponseBodyFinish_def[abs_def]
  by ((intro kj_kept); simp add: server_view_def retire_promise_def)+

lemma keeps_respond_plain [kj_kept]: "keeps P (httpServerRespond a b c d e f)"
  unfolding httpServerRespond_def by (simp add: respond_kept)

lemma keeps_responds:
  assumes "cp \<in> C"
  shows "keeps P (httpServerRespondWebSocket a2 b2 c2 cp)"
    and "keeps P (httpServerRespondStartStreaming a3 b3 c3 d3 e3 cp)"
  unfolding httpServerRespondWebSocket_def httpServerRespondStartStreaming_def
  using assms by (simp_all add: respond_kept)

lemma pump_kept: "pump K' h s = Some y \<Longrightarrow> K' = K \<longrightarrow> P s \<longrightarrow> P (snd y)"
proof (erule pump.raw_induct[rotated], intro impI)
  fix pump' :: "kenv \<Rightarrow> nat \<Rightarrow> kj_state \<Rightarrow> ((kexn, unit) outcome \<times> kj_state) option"
    and K' :: kenv and h s y
  assume IH: "\<And>K' h s y. pump' K' h s = Some y \<Longrightarrow> K' = K \<longrightarrow> P s \<longrightarrow> P (snd y)"
    and K': "K' = K" and P: "P s"
    and run: "(if h \<in> fst ` set (handled s) then Some (Ret (), s)
      else case waiting_for K' (wait_unit K') (KDelay 0) s of
        (Ret _, t) \<Rightarrow> pump' K' h t | (Throw e, t) \<Rightarrow> Some (Throw e, t) | (Hang, t) \<Rightarrow> Some (Hang, t)) = Some y"
  obtain r t where w: "waiting_for K (wait_unit K) (KDelay 0) s = (r, t)"
    by (cases "waiting_for K (wait_unit K) (KDelay 0) s")
  then have "P t"
    by (rule keepsD[OF keeps_waiting P])
  then show "P (snd y)"
    using run P IH unfolding K' w by (auto split: if_splits outcome.splits)
qed

lemma keeps_pumping [kj_kept]: "keeps P (pump_until_handled K h)"
  using pump_kept by (auto simp: keeps_def pump_until_handled_def split: option.split)

lemma keeps_release [kj_kept]: "keeps P (httpServerRelease K i)"
  by (rule release_kept)

subsection \<open>Every operation\<close>

lemma keeps_with_headers [kj_kept]: "(\<And>hs. keeps P (f hs)) \<Longrightarrow> keeps P (with_headers encoded f)"
  unfolding with_headers_def by (intro kj_kept)

lemma keeps_answering: "keeps P m \<Longrightarrow> keeps P (kb_body (kj_answering complete u m))"
  by (simp add: kj_answering_def keeps_bnd keeps_ret)

lemma keeps_branches:
  "keeps P m1 \<Longrightarrow> keeps P (kb_body (kj_unit_branch u m1))"
  "keeps P m2 \<Longrightarrow> keeps P (kb_body (kj_promise_id_branch u m2))"
  "keeps P m3 \<Longrightarrow> keeps P (kb_body (kj_handle_branch u m3))"
  "keeps P m4 \<Longrightarrow> keeps P (kb_body (kj_bytes_branch u m4))"
  "keeps P m5 \<Longrightarrow> keeps P (kb_body (kj_pair_branch u m5))"
  "keeps P m6 \<Longrightarrow> keeps P (kb_body (kj_bool_branch u m6))"
  "keeps P m7 \<Longrightarrow> keeps P (kb_body (kj_uint32_branch u m7))"
  "keeps P m8 \<Longrightarrow> keeps P (kb_body (kj_optional_uint32_branch u m8))"
  "keeps P m9 \<Longrightarrow> keeps P (kb_body (kj_optional_string_branch u m9))"
  "keeps P m10 \<Longrightarrow> keeps P (kb_body (kj_datagram_branch u m10))"
  "keeps P m11 \<Longrightarrow> keeps P (kb_body (kj_http_response_branch u m11))"
  "keeps P m12 \<Longrightarrow> keeps P (kb_body (kj_streaming_response_branch u m12))"
  "keeps P m13 \<Longrightarrow> keeps P (kb_body (kj_server_request_branch u m13))"
  "keeps P m14 \<Longrightarrow> keeps P (kb_body (kj_message_branch u m14))"
  "keeps P m15 \<Longrightarrow> keeps P (kb_body (kj_pumped_branch K h u m15))"
  by (simp_all add: kj_unit_branch_def kj_promise_id_branch_def kj_handle_branch_def kj_bytes_branch_def
    kj_pair_branch_def kj_bool_branch_def kj_uint32_branch_def kj_optional_uint32_branch_def
    kj_optional_string_branch_def kj_datagram_branch_def kj_http_response_branch_def
    kj_streaming_response_branch_def kj_server_request_branch_def kj_message_branch_def
    kj_pumped_branch_def keeps_answering keeps_sq keeps_pumping)

lemma keeps_run_sleep_op: "keeps P (kb_body (run_sleep_op K cp x))"
  by (cases x; simp only: run_sleep_op.simps; intro keeps_branches kj_kept)

lemma keeps_run_dial_op: "keeps P (kb_body (run_dial_op K cp x))"
  by (cases x; simp only: run_dial_op.simps; intro keeps_branches kj_kept)

lemma keeps_run_address_op: "keeps P (kb_body (run_address_op K cp x))"
  by (cases x; simp only: run_address_op.simps; intro keeps_branches kj_kept)

lemma keeps_run_connecting_op: "keeps P (kb_body (run_connecting_op K cp x))"
  by (cases x; simp only: run_connecting_op.simps; intro keeps_branches kj_kept)

lemma keeps_run_stream_op: "keeps P (kb_body (run_stream_op K cp x))"
  by (cases x; simp only: run_stream_op.simps; intro keeps_branches kj_kept)

lemma keeps_run_compose_op: "keeps P (kb_body (run_compose_op K cp x))"
  by (cases x; simp only: run_compose_op.simps; intro keeps_branches kj_kept)

lemma keeps_run_descriptor_op: "keeps P (kb_body (run_descriptor_op K cp x))"
  by (cases x; simp only: run_descriptor_op.simps; intro keeps_branches kj_kept)

lemma keeps_run_datagram_op: "keeps P (kb_body (run_datagram_op K cp x))"
  by (cases x; simp only: run_datagram_op.simps; intro keeps_branches kj_kept)

lemma keeps_run_awaiting_op: "keeps P (kb_body (run_awaiting_op K cp x))"
  by (cases x; simp only: run_awaiting_op.simps; intro keeps_branches kj_kept)

lemma keeps_run_http_op: "keeps P (kb_body (run_http_op K cp x))"
  by (cases x; simp only: run_http_op.simps; intro keeps_branches kj_kept)

lemma keeps_run_body_op: "keeps P (kb_body (run_body_op K cp x))"
  by (cases x; simp only: run_body_op.simps; intro keeps_branches kj_kept)

lemma keeps_run_upgrade_op: "keeps P (kb_body (run_upgrade_op K cp x))"
  by (cases x; simp only: run_upgrade_op.simps; intro keeps_branches kj_kept)

lemma keeps_run_message_op: "keeps P (kb_body (run_message_op K cp x))"
  by (cases x; simp only: run_message_op.simps; intro keeps_branches kj_kept)

lemma keeps_run_closing_op: "keeps P (kb_body (run_closing_op K cp x))"
  by (cases x; simp only: run_closing_op.simps; intro keeps_branches kj_kept)

lemma keeps_run_serving_op: "keeps P (kb_body (run_serving_op K cp x))"
  by (cases x; simp only: run_serving_op.simps; intro keeps_branches kj_kept)

lemma keeps_run_respond_op:
  assumes "answered_by_callback (RespondOp x) \<Longrightarrow> cp \<in> C"
  shows "keeps P (kb_body (run_respond_op K cp x))"
proof (cases x)
  case (QueuedHttpServerRespond a b c d e f)
  show ?thesis
    unfolding QueuedHttpServerRespond run_respond_op.simps by (intro keeps_branches kj_kept)
next
  case (QueuedHttpServerRespondWebSocket a b c)
  with assms have "cp \<in> C" by simp
  then show ?thesis
    unfolding QueuedHttpServerRespondWebSocket run_respond_op.simps
    by (intro keeps_branches keeps_with_headers keeps_responds)
next
  case (QueuedHttpServerRespondStartStreaming a b c d e)
  with assms have "cp \<in> C" by simp
  then show ?thesis
    unfolding QueuedHttpServerRespondStartStreaming run_respond_op.simps
    by (intro keeps_branches keeps_with_headers keeps_responds)
qed

lemma keeps_run_answer_op: "keeps P (kb_body (run_answer_op K cp x))"
  by (cases x; simp only: run_answer_op.simps; intro keeps_branches kj_kept)

text \<open>The completion of the operation, if a callback may answer it, is one of \<open>C\<close>.\<close>

lemma keeps_operation:
  "(answered_by_callback op \<Longrightarrow> cp \<in> C) \<Longrightarrow> keeps P (kb_body (run_kj_operation K cp op))"
  by (cases op) (simp_all add: keeps_run_sleep_op keeps_run_dial_op keeps_run_address_op keeps_run_connecting_op keeps_run_stream_op keeps_run_compose_op keeps_run_descriptor_op keeps_run_datagram_op keeps_run_awaiting_op keeps_run_http_op keeps_run_body_op keeps_run_upgrade_op keeps_run_message_op keeps_run_closing_op keeps_run_serving_op keeps_run_respond_op keeps_run_answer_op)

end

end
