(* ===== verification/Kj_Server_Facts.thy ===== *)
theory Kj_Server_Facts
  imports Kj_Guards
begin

text \<open>
  Invariants of the HTTP server of \<^verbatim>\<open>KjAsyncRuntimeLoop\<close>, as instances of
  \<open>kj_guard\<close>: which completions callbacks can answer, and that every stream Lean code can
  name belongs to a request that KJ has not finished with.
\<close>

text \<open>How a request arrives: unknown to the table or with a method without a tag, without an
  identifier left for its body, or entered.\<close>

definition new_request :: "kj_state \<Rightarrow> http_server \<Rightarrow> obj \<Rightarrow> obj \<Rightarrow> open_request" where
  "new_request s st body response = \<lparr>or_serverId = hs_serverId st, or_requestId = hs_nextRequestId st,
     or_fulfiller = kheap s, or_body = body, or_response = response, or_command = None\<rparr>"

definition new_request_body :: "http_server \<Rightarrow> obj \<Rightarrow> server_request_body" where
  "new_request_body st body = \<lparr>srb_stream = body, srb_serverId = hs_serverId st,
     srb_requestId = hs_nextRequestId st\<rparr>"

definition queue_request :: "kj_state \<Rightarrow> http_server \<Rightarrow> http_server_request \<Rightarrow> http_server" where
  "queue_request s st q = st\<lparr>hs_nextRequestId := hs_nextRequestId st + 1,
     hs_pendingResponses := (case hs_pendingResponses st (hs_nextRequestId st) of
        None \<Rightarrow> (hs_pendingResponses st)(hs_nextRequestId st \<mapsto> kheap s)
      | Some _ \<Rightarrow> hs_pendingResponses st),
     hs_requestQueue := hs_requestQueue st @ [q]\<rparr>"

lemma request_cases:
  assumes "request server m url hs w body response s = (r, t)"
  obtains (refused) "t = s"
  | (counted) st where "httpServers s server = Some st" and "r = Hang"
      and "t = s\<lparr>httpServers := (httpServers s)(server \<mapsto> st\<lparr>hs_nextRequestId := hs_nextRequestId st + 1\<rparr>)\<rparr>"
  | (entered) st tag i n where "httpServers s server = Some st" and "encodeHttpMethodTag m = Inr tag"
      and "alloc_id (httpServerRequestBodies s) (nextHttpServerRequestBodyId s) = Some (i, n)" and "r = Ret ()"
      and "t = s\<lparr>nextHttpServerRequestBodyId := n,
          httpServerRequestBodies := (httpServerRequestBodies s)(i \<mapsto> new_request_body st body),
          kheap := kheap s + 2,
          httpServers := (httpServers s)(server \<mapsto> queue_request s st
            \<lparr>rq_requestId = hs_nextRequestId st, rq_methodTag = tag, rq_webSocketRequested = w,
             rq_path = c_str url, rq_headers = captureHeaders hs, rq_body = [], rq_bodyHandle = i\<rparr>),
          openRequests := (openRequests s)(kheap s + 1 \<mapsto> new_request s st body response)\<rparr>"
proof (cases "httpServers s server")
  case None
  then show ?thesis using assms refused by (simp add: request_def)
next
  case (Some st)
  show ?thesis
  proof (cases "encodeHttpMethodTag m")
    case (Inl e)
    then show ?thesis using assms refused Some by (simp add: request_def)
  next
    case (Inr tag)
    show ?thesis
    proof (cases "alloc_id (httpServerRequestBodies s) (nextHttpServerRequestBodyId s)")
      case None
      then show ?thesis
        using assms counted[OF Some] Some Inr by (simp add: request_def addHttpServerRequestBody_def Let_def)
    next
      case (Some x)
      obtain i n where x: "x = (i, n)" by (cases x)
      show ?thesis
        using assms \<open>httpServers s server = Some st\<close> Inr Some
        by (intro entered[OF \<open>httpServers s server = Some st\<close> Inr Some[unfolded x]])
          (simp_all add: x request_def addHttpServerRequestBody_def Let_def queue_request_def
            new_request_def new_request_body_def)
    qed
  qed
qed

section \<open>Completions in the hands of callbacks\<close>

definition handles_in :: "nat set \<Rightarrow> kj_state \<Rightarrow> bool" where
  "handles_in H s \<longleftrightarrow> fst ` set (handled s) \<subseteq> H \<and>
     (\<forall>p r c. openRequests s p = Some r \<longrightarrow> or_command r = Some c \<longrightarrow> command_handles c \<subseteq> H)"

lemma handles_in_view: "server_view s = server_view t \<Longrightarrow> handles_in H s \<Longrightarrow> handles_in H t"
  unfolding handles_in_def server_view_def by simp

lemma handles_in_updates [simp]:
  "handles_in H (s\<lparr>httpServerResponseBodies := b\<rparr>) = handles_in H s"
  "handles_in H (s\<lparr>nextHttpServerResponseBodyId := n\<rparr>) = handles_in H s"
  "handles_in H (s\<lparr>httpServerRequestBodies := b2\<rparr>) = handles_in H s"
  "handles_in H (s\<lparr>nextHttpServerRequestBodyId := n\<rparr>) = handles_in H s"
  "handles_in H (s\<lparr>httpServers := t\<rparr>) = handles_in H s"
  "handles_in H (s\<lparr>nextHttpServerId := n\<rparr>) = handles_in H s"
  "handles_in H (s\<lparr>kheap := k\<rparr>) = handles_in H s"
  "handles_in H (s\<lparr>klog := l\<rparr>) = handles_in H s"
  by (simp_all add: handles_in_def)

interpretation handle_view: kj_view "handles_in H" for H
  by unfold_locales (rule handles_in_view)

lemma handles_in_answer: "h \<in> H \<Longrightarrow> keeps (handles_in H) (answer_handle h r)"
  unfolding answer_handle_def by (rule keeps_modify) (simp add: handles_in_def)

lemma handles_in_body: "keeps (handles_in H) (addHttpServerResponseBody b)"
  by (rule keepsI) (auto simp: addHttpServerResponseBody_def split: option.splits)

lemma handles_in_run_command:
  assumes "command_handles c \<subseteq> H"
  shows "keeps (handles_in H) (run_command K r c)"
proof (cases c)
  case (HttpCommand x1 x2 x3 x4)
  show ?thesis
    unfolding HttpCommand run_command.simps by (intro handle_view.keeps_ask kj_kept)
next
  case (WebSocketCommand hs h)
  with assms have "h \<in> H" by simp
  show ?thesis
    unfolding WebSocketCommand run_command.simps
    by (intro handle_view.keeps_answering_handle handles_in_answer[OF \<open>h \<in> H\<close>]
        handle_view.keeps_ask handle_view.keeps_fresh handle_view.keeps_adds kj_kept)
next
  case (StreamingCommand x1 x2 hs h)
  with assms have "h \<in> H" by simp
  show ?thesis
    unfolding StreamingCommand run_command.simps
    by (intro handle_view.keeps_answering_handle handles_in_answer[OF \<open>h \<in> H\<close>]
        handle_view.keeps_ask handle_view.keeps_fresh handles_in_body kj_kept)
qed

lemma handles_in_command_runs: "keeps (handles_in H) (command_runs K p)"
proof (rule keepsI)
  fix s r t
  assume inv: "handles_in H s" and run: "command_runs K p s = (r, t)"
  show "handles_in H t"
  proof (cases "\<exists>q c. openRequests s p = Some q \<and> or_command q = Some c")
    case True
    then obtain q c where q: "openRequests s p = Some q" "or_command q = Some c" by blast
    let ?s = "s\<lparr>openRequests := (openRequests s)(p \<mapsto> q\<lparr>or_command := None\<rparr>)\<rparr>"
    have "handles_in H ?s"
      using inv by (auto simp: handles_in_def)
    moreover have "command_handles c \<subseteq> H"
      using inv q unfolding handles_in_def by blast
    moreover have "run_command K q c ?s = (r, t)"
      using run q by (simp add: command_runs_def)
    ultimately show ?thesis
      by (metis handles_in_run_command keepsD)
  next
    case False
    then show ?thesis
      using inv run by (auto simp: command_runs_def split: option.splits)
  qed
qed

lemma handles_in_reject: "keeps (handles_in H) (reject_body what i)"
proof -
  have drop: "keeps (handles_in H) (modify (\<lambda>s. s\<lparr>httpServerResponseBodies := (httpServerResponseBodies s)(j := None)\<rparr>))" for j
    by (rule keeps_modify) (simp add: handles_in_def)
  show ?thesis
    unfolding reject_body_def[abs_def] by (intro kj_kept drop handle_view.keeps_noting)
qed

lemma handles_in_forget:
  "keeps (handles_in H) (modify (\<lambda>s. s\<lparr>httpServerRequestBodies := f s\<rparr>))"
  by (rule keeps_modify) simp

lemma handles_in_releases:
  "keeps (handles_in H) (releaseHttpServerRequestBodiesForRequest i j)"
  "keeps (handles_in H) (releaseHttpServerResponseBodiesForRequest K i j)"
  "keeps (handles_in H) (releaseHttpServerBodiesForServer K i)"
  unfolding releaseHttpServerRequestBodiesForRequest_def releaseHttpServerResponseBodiesForRequest_def[abs_def]
    releaseHttpServerBodiesForServer_def
  by (intro kj_kept keeps_walk handles_in_forget handles_in_reject)+

lemma handles_in_restrict:
  assumes "handles_in H s" and "\<And>p r. q p = Some r \<Longrightarrow>
     (\<exists>r'. openRequests s p = Some r' \<and> or_command r = or_command r') \<or> or_command r = None"
  shows "handles_in H (s\<lparr>openRequests := q\<rparr>)"
proof -
  have "command_handles c \<subseteq> H" if "q p = Some r" "or_command r = Some c" for p r c
    using assms(2)[OF that(1)] assms(1) that(2) unfolding handles_in_def by (metis option.distinct(1))
  then show ?thesis
    using assms(1) unfolding handles_in_def by simp
qed

lemma handles_in_request: "keeps (handles_in H) (request server m url hs w body response)"
proof (rule keepsI)
  fix s r t
  assume inv: "handles_in H s" and run: "request server m url hs w body response s = (r, t)"
  from run show "handles_in H t"
  proof (cases rule: request_cases)
    case (entered st tag i n)
    have "handles_in H (s\<lparr>openRequests := (openRequests s)(kheap s + 1 \<mapsto> new_request s st body response)\<rparr>)"
      by (rule handles_in_restrict[OF inv]) (auto simp: new_request_def split: if_splits)
    then show ?thesis
      unfolding entered(5) by (simp add: handles_in_def)
  qed (simp_all add: inv)
qed

lemma handles_in_request_ends: "keeps (handles_in H) (request_ends K p)"
proof -
  have "keeps (handles_in H) (modify (\<lambda>s. s\<lparr>openRequests := (openRequests s)(p := None)\<rparr>))"
    by (rule keeps_modify, rule handles_in_restrict) (auto split: if_splits)
  note drop = this
  show ?thesis
    unfolding request_ends_def[abs_def] by (intro drop handles_in_releases kj_kept)
qed

lemma handles_in_callback: "keeps (handles_in H) (callback K e)"
  by (cases e) (simp_all add: handles_in_request handles_in_command_runs handles_in_request_ends
    handle_view.keeps_continuations)

lemma handles_in_respond:
  assumes "command_handles c \<subseteq> H"
  shows "keeps (handles_in H) (respond i j c)"
proof -
  have set_command: "handles_in H (s\<lparr>openRequests := (\<lambda>p. map_option
      (\<lambda>r. if or_fulfiller r = f then r\<lparr>or_command := Some c\<rparr> else r) (openRequests s p))\<rparr>)"
    if inv: "handles_in H s" for f s
  proof -
    have "command_handles c' \<subseteq> H" if "openRequests s p = Some r"
        "or_command (if or_fulfiller r = f then r\<lparr>or_command := Some c\<rparr> else r) = Some c'" for p r c'
      using inv that assms unfolding handles_in_def by (cases "or_fulfiller r = f") auto
    moreover have "fst ` set (handled s) \<subseteq> H"
      using inv unfolding handles_in_def by blast
    ultimately show ?thesis
      unfolding handles_in_def by (simp add: map_option_case split: option.split)
  qed
  have fulfill: "keeps (handles_in H) (fulfill_command f c)" for f
    unfolding fulfill_command_def
    by (intro keeps_sq handle_view.keeps_noting keeps_modify set_command)
  have update: "keeps (handles_in H) (modify (\<lambda>s. s\<lparr>httpServers := f s\<rparr>))" for f
    by (rule keeps_modify) simp
  show ?thesis
    unfolding respond_def find_server_def by (intro fulfill update kj_kept)
qed

lemma handles_in_enter: "keeps (handles_in H) (enter_server v)"
  unfolding enter_server_def addHttpServer_def
  by (rule keepsI) (auto simp: bnd_def split: option.splits prod.splits)

lemma handles_in_release: "keeps (handles_in H) (httpServerRelease K i)"
proof -
  have cancel: "keeps (handles_in H) (cancel_listening n)" for n
    unfolding cancel_listening_def[abs_def]
    by (intro kj_kept handle_view.keeps_noting handle_view.keeps_unseen)
      (simp_all add: retire_promise_def server_view_def)
  have erase: "keeps (handles_in H) (modify (\<lambda>s. s\<lparr>httpServers := (httpServers s)(i := None),
        openRequests := (\<lambda>p. case openRequests s p of
           Some r \<Rightarrow> if or_serverId r = i then None else Some r | None \<Rightarrow> None)\<rparr>))"
    by (rule keeps_modify) (auto simp: handles_in_def split: option.splits if_splits)
  show ?thesis
    unfolding httpServerRelease_def find_server_def
    by (intro cancel erase handles_in_releases keeps_for_each handle_view.keeps_noting kj_kept)
qed

interpretation handle_guard: kj_guard "handles_in H" K H for H K
  by unfold_locales (simp_all add: handles_in_callback handles_in_respond handles_in_enter handles_in_release)

section \<open>Streams and the requests they belong to\<close>

definition open_for :: "kj_state \<Rightarrow> u32 \<Rightarrow> u32 \<Rightarrow> bool" where
  "open_for s i j \<longleftrightarrow> (\<exists>p r. openRequests s p = Some r \<and> or_serverId r = i \<and> or_requestId r = j)"

text \<open>
  Each server knows its identifier, each open request has its server, and each body in the
  tables has an open request, whose stream is the body's.
\<close>

definition servers_named :: "kj_state \<Rightarrow> bool" where
  "servers_named s \<longleftrightarrow> (\<forall>i st. httpServers s i = Some st \<longrightarrow> hs_serverId st = i)"

definition requests_served :: "kj_state \<Rightarrow> bool" where
  "requests_served s \<longleftrightarrow> (\<forall>p r. openRequests s p = Some r \<longrightarrow>
     httpServers s (or_serverId r) \<noteq> None \<and> p < kheap s)"

definition request_bodies_open :: "kj_state \<Rightarrow> bool" where
  "request_bodies_open s \<longleftrightarrow> (\<forall>i b. httpServerRequestBodies s i = Some b \<longrightarrow>
     (\<exists>p r. openRequests s p = Some r \<and> or_serverId r = srb_serverId b \<and>
        or_requestId r = srb_requestId b \<and> or_body r = srb_stream b))"

definition response_bodies_open :: "kj_state \<Rightarrow> bool" where
  "response_bodies_open s \<longleftrightarrow> (\<forall>i b. httpServerResponseBodies s i = Some b \<longrightarrow>
     open_for s (rsb_serverId b) (rsb_requestId b))"

definition attended :: "kj_state \<Rightarrow> bool" where
  "attended s \<longleftrightarrow> servers_named s \<and> requests_served s \<and> request_bodies_open s \<and> response_bodies_open s"

lemmas attended_defs = attended_def servers_named_def requests_served_def request_bodies_open_def
  response_bodies_open_def open_for_def

lemma attended_init: "attended kj_init"
  by (simp add: attended_defs kj_init_def)

lemma attended_view:
  assumes "server_view s = server_view t" and "kheap s \<le> kheap t" and "attended s"
  shows "attended t"
proof -
  have eqs: "openRequests t = openRequests s" "httpServerRequestBodies t = httpServerRequestBodies s"
    "httpServerResponseBodies t = httpServerResponseBodies s" "httpServers t = httpServers s"
    using assms(1) by (simp_all add: server_view_def)
  show ?thesis
    using assms(2,3) unfolding attended_defs eqs by (simp, meson less_le_trans)
qed

lemma attended_handled [simp]: "attended (s\<lparr>handled := l\<rparr>) = attended s"
  by (simp add: attended_defs)

text \<open>Forgetting bodies does no harm, nor does a change to a server's own data.\<close>

lemma map_le_Some: "m \<subseteq>\<^sub>m m' \<Longrightarrow> m i = Some b \<Longrightarrow> m' i = Some b"
  unfolding map_le_def by (metis domI)

lemma attended_drop_request_bodies:
  assumes "attended s" and "m \<subseteq>\<^sub>m httpServerRequestBodies s"
  shows "attended (s\<lparr>httpServerRequestBodies := m\<rparr>)"
proof -
  have "request_bodies_open (s\<lparr>httpServerRequestBodies := m\<rparr>)"
    using assms(1) map_le_Some[OF assms(2)] unfolding attended_def request_bodies_open_def by simp blast
  then show ?thesis
    using assms(1) by (simp add: attended_def servers_named_def requests_served_def response_bodies_open_def open_for_def)
qed

lemma attended_drop_response_bodies:
  assumes "attended s" and "m \<subseteq>\<^sub>m httpServerResponseBodies s"
  shows "attended (s\<lparr>httpServerResponseBodies := m\<rparr>)"
proof -
  have "response_bodies_open (s\<lparr>httpServerResponseBodies := m\<rparr>)"
    using assms(1) map_le_Some[OF assms(2)] unfolding attended_def response_bodies_open_def open_for_def by simp blast
  then show ?thesis
    using assms(1) by (simp add: attended_def servers_named_def requests_served_def request_bodies_open_def)
qed

lemma attended_update_server:
  "attended s \<Longrightarrow> httpServers s i = Some st \<Longrightarrow> hs_serverId st' = hs_serverId st \<Longrightarrow>
   attended (s\<lparr>httpServers := (httpServers s)(i \<mapsto> st')\<rparr>)"
  unfolding attended_defs by simp

lemma attended_commands:
  assumes "attended s" and "\<And>p. map_option (\<lambda>r. r\<lparr>or_command := None\<rparr>) (q p) =
    map_option (\<lambda>r. r\<lparr>or_command := None\<rparr>) (openRequests s p)"
  shows "attended (s\<lparr>openRequests := q\<rparr>)"
proof -
  have same: "\<exists>r'. q p = Some r' \<and> or_serverId r' = or_serverId r \<and> or_requestId r' = or_requestId r \<and>
      or_body r' = or_body r" if r: "openRequests s p = Some r" for p r
  proof -
    obtain r' where "q p = Some r'" "r'\<lparr>or_command := None\<rparr> = r\<lparr>or_command := None\<rparr>"
      using assms(2)[of p] r by (cases "q p") auto
    then show ?thesis
      by (metis open_request.select_convs(1,2,4) open_request.surjective open_request.update_convs(6))
  qed
  have older: "\<exists>r'. openRequests s p = Some r' \<and> or_serverId r' = or_serverId r" if r: "q p = Some r" for p r
  proof -
    obtain r' where "openRequests s p = Some r'"
      using assms(2)[of p] r by (cases "openRequests s p") auto
    with same[OF this] r show ?thesis by auto
  qed
  have "servers_named (s\<lparr>openRequests := q\<rparr>)"
    using assms(1) by (simp add: attended_defs)
  moreover have "requests_served (s\<lparr>openRequests := q\<rparr>)"
    using assms(1) older unfolding attended_def requests_served_def by simp metis
  moreover have "request_bodies_open (s\<lparr>openRequests := q\<rparr>)"
    using assms(1) same unfolding attended_def request_bodies_open_def by simp metis
  moreover have "response_bodies_open (s\<lparr>openRequests := q\<rparr>)"
    using assms(1) same unfolding attended_def response_bodies_open_def open_for_def by simp metis
  ultimately show ?thesis
    unfolding attended_def by blast
qed

subsection \<open>A request arrives\<close>

lemma attended_request: "keeps attended (request server m url hs w body response)"
proof (rule keepsI)
  fix s r t
  assume inv: "attended s" and run: "request server m url hs w body response s = (r, t)"
  from run show "attended t"
  proof (cases rule: request_cases)
    case (counted st)
    show ?thesis
      unfolding counted(3) by (rule attended_update_server[OF inv counted(1)]) simp
  next
    case (entered st tag i n)
    have named: "hs_serverId st = server"
      using inv entered(1) unfolding attended_def servers_named_def by blast
    have old: "openRequests s p = Some r \<Longrightarrow> p \<noteq> kheap s + 1 \<and> p < kheap s + 2 \<and>
        (or_serverId r \<noteq> server \<longrightarrow> httpServers s (or_serverId r) \<noteq> None)" for p r
      using inv unfolding attended_def requests_served_def by fastforce
    have "servers_named t"
      using inv named unfolding entered(5) attended_def servers_named_def by (simp add: queue_request_def)
    moreover have "requests_served t"
      using old named unfolding entered(5) requests_served_def by (auto simp: new_request_def split: if_splits)
    moreover have "request_bodies_open t"
      unfolding request_bodies_open_def
    proof (intro allI impI)
      fix j b
      assume b: "httpServerRequestBodies t j = Some b"
      show "\<exists>p r. openRequests t p = Some r \<and> or_serverId r = srb_serverId b \<and>
          or_requestId r = srb_requestId b \<and> or_body r = srb_stream b"
      proof (cases "j = i")
        case True
        then show ?thesis
          using b unfolding entered(5) by (auto simp: new_request_body_def new_request_def)
      next
        case False
        then have "httpServerRequestBodies s j = Some b"
          using b unfolding entered(5) by simp
        then obtain p r where p: "openRequests s p = Some r" "or_serverId r = srb_serverId b \<and>
            or_requestId r = srb_requestId b \<and> or_body r = srb_stream b"
          using inv unfolding attended_def request_bodies_open_def by blast
        then have "openRequests t p = Some r"
          using old[OF p(1)] unfolding entered(5) by simp
        then show ?thesis
          using p(2) by blast
      qed
    qed
    moreover have "openRequests t p = Some r" if "openRequests s p = Some r" for p r
      using old[OF that] that unfolding entered(5) by simp
    then have "open_for s x y \<Longrightarrow> open_for t x y" for x y
      unfolding open_for_def by blast
    then have "response_bodies_open t"
      using inv unfolding attended_def response_bodies_open_def entered(5) by simp
    ultimately show ?thesis
      unfolding attended_def by blast
  qed (simp add: inv)
qed

subsection \<open>The response is sent\<close>

definition attended_for :: "open_request \<Rightarrow> kj_state \<Rightarrow> bool" where
  "attended_for r s \<longleftrightarrow> attended s \<and> open_for s (or_serverId r) (or_requestId r)"

lemma open_for_view: "server_view s = server_view t \<Longrightarrow> open_for s i j \<Longrightarrow> open_for t i j"
  by (simp add: open_for_def server_view_def)

interpretation sending_view: kj_view "attended_for r" for r
  by unfold_locales (auto simp: attended_for_def intro: attended_view open_for_view)

lemma attended_for_answer: "keeps (attended_for r) (answer_handle h x)"
  unfolding answer_handle_def by (rule keeps_modify) (simp add: attended_for_def open_for_def)

lemma attended_for_body:
  assumes "rsb_serverId b = or_serverId r" and "rsb_requestId b = or_requestId r"
  shows "keeps (attended_for r) (addHttpServerResponseBody b)"
proof (rule keepsI)
  fix s q t
  assume inv: "attended_for r s" and run: "addHttpServerResponseBody b s = (q, t)"
  have ok: "attended_for r (s\<lparr>nextHttpServerResponseBodyId := n,
      httpServerResponseBodies := (httpServerResponseBodies s)(i \<mapsto> b)\<rparr>)" for n i
    using inv assms unfolding attended_for_def attended_defs by simp
  show "attended_for r t"
  proof (cases "alloc_id (httpServerResponseBodies s) (nextHttpServerResponseBodyId s)")
    case None
    then show ?thesis using inv run by (simp add: addHttpServerResponseBody_def)
  next
    case (Some x)
    then show ?thesis using run ok by (cases x) (auto simp: addHttpServerResponseBody_def)
  qed
qed

lemma attended_run_command: "keeps (attended_for r) (run_command K r c)"
  by (cases c; simp only: run_command.simps;
    intro sending_view.keeps_answering_handle attended_for_answer attended_for_body sending_view.keeps_ask
      sending_view.keeps_fresh sending_view.keeps_adds keeps_bnd keeps_sq keeps_if keeps_ret; simp)

lemma attended_command_runs: "keeps attended (command_runs K p)"
proof (rule keepsI)
  fix s r t
  assume inv: "attended s" and run: "command_runs K p s = (r, t)"
  show "attended t"
  proof (cases "\<exists>q c. openRequests s p = Some q \<and> or_command q = Some c")
    case True
    then obtain q c where q: "openRequests s p = Some q" "or_command q = Some c" by blast
    let ?s = "s\<lparr>openRequests := (openRequests s)(p \<mapsto> q\<lparr>or_command := None\<rparr>)\<rparr>"
    have "attended ?s"
      by (rule attended_commands[OF inv]) (simp add: q)
    then have "attended_for q ?s"
      unfolding attended_for_def open_for_def by (auto intro!: exI[of _ p])
    moreover have "run_command K q c ?s = (r, t)"
      using run q by (simp add: command_runs_def)
    ultimately have "attended_for q t"
      by (metis attended_run_command keepsD)
    then show ?thesis
      by (simp add: attended_for_def)
  next
    case False
    then show ?thesis
      using inv run by (auto simp: command_runs_def split: option.splits)
  qed
qed

subsection \<open>A request ends\<close>

text \<open>The walk over the response bodies takes exactly those it was given out of the table.\<close>

lemma reject_body_run:
  "\<exists>l. reject_body what i s = (Ret (), s\<lparr>httpServerResponseBodies := (httpServerResponseBodies s) |` (- {i}),
     klog := klog s @ l\<rparr>)"
proof (cases "httpServerResponseBodies s i")
  case None
  then have "(httpServerResponseBodies s) |` (- {i}) = httpServerResponseBodies s"
    by (auto simp: restrict_map_def)
  then show ?thesis
    using None by (auto simp: reject_body_def intro!: exI[of _ "[]"])
next
  case (Some b)
  have "(httpServerResponseBodies s) |` (- {i}) = (httpServerResponseBodies s)(i := None)"
    by (auto simp: restrict_map_def)
  then show ?thesis
    using Some by (auto simp: reject_body_def)
qed

lemma reject_bodies_run:
  "\<exists>l. for_each (reject_body what) is s = (Ret (), s\<lparr>httpServerResponseBodies := (httpServerResponseBodies s) |` (- set is),
     klog := klog s @ l\<rparr>)"
proof (induction "is" arbitrary: s)
  case Nil
  show ?case by (auto intro!: exI[of _ "[]"])
next
  case (Cons i "is")
  obtain l where l: "reject_body what i s = (Ret (), s\<lparr>httpServerResponseBodies := (httpServerResponseBodies s) |` (- {i}),
      klog := klog s @ l\<rparr>)"
    using reject_body_run by blast
  have "(- {i}) \<inter> (- set is) = - set (i # is)" by auto
  then show ?case
    using Cons.IH[of "s\<lparr>httpServerResponseBodies := (httpServerResponseBodies s) |` (- {i}), klog := klog s @ l\<rparr>"]
    by (auto simp: l)
qed

text \<open>A table walk yields each key.\<close>

definition walks :: "kenv \<Rightarrow> bool" where
  "walks K \<longleftrightarrow> (\<forall>Q. set (table_walk K Q) = {i. Q i})"

lemma response_body_ids_walk:
  assumes "walks K"
  shows "set (response_body_ids K Q s) = {i. \<exists>b. httpServerResponseBodies s i = Some b \<and> Q b}"
proof -
  have walk: "set (table_walk K R) = {i. R i}" for R
    using assms unfolding walks_def by blast
  show ?thesis
    unfolding response_body_ids_def walk by (rule Collect_cong) (simp split: option.split)
qed

text \<open>Ending the requests \<open>Q\<close> of which no body is left.\<close>

lemma attended_end:
  assumes "attended s" and "\<And>p. q p = openRequests s p \<or> q p = None"
    and "\<And>p r. openRequests s p = Some r \<Longrightarrow> q p = None \<Longrightarrow>
      (\<forall>i b. httpServerRequestBodies s i = Some b \<longrightarrow> \<not> (srb_serverId b = or_serverId r \<and> srb_requestId b = or_requestId r)) \<and>
      (\<forall>i b. httpServerResponseBodies s i = Some b \<longrightarrow> \<not> (rsb_serverId b = or_serverId r \<and> rsb_requestId b = or_requestId r))"
  shows "attended (s\<lparr>openRequests := q\<rparr>)"
proof -
  have keep: "q p = Some r" if "openRequests s p = Some r" "q p \<noteq> None" for p r
    using assms(2)[of p] that by auto
  have "servers_named (s\<lparr>openRequests := q\<rparr>)"
    using assms(1) by (simp add: attended_def servers_named_def)
  moreover have "openRequests s p = Some r" if "q p = Some r" for p r
    using assms(2)[of p] that by auto
  then have "requests_served (s\<lparr>openRequests := q\<rparr>)"
    using assms(1) unfolding attended_def requests_served_def by simp blast
  moreover have "request_bodies_open (s\<lparr>openRequests := q\<rparr>)"
    unfolding request_bodies_open_def
  proof (intro allI impI)
    fix i b
    assume "httpServerRequestBodies (s\<lparr>openRequests := q\<rparr>) i = Some b"
    then have b: "httpServerRequestBodies s i = Some b" by simp
    then obtain p r where p: "openRequests s p = Some r" "or_serverId r = srb_serverId b"
        "or_requestId r = srb_requestId b" "or_body r = srb_stream b"
      using assms(1) unfolding attended_def request_bodies_open_def by blast
    then have "q p = Some r"
      using assms(3)[OF p(1)] b by (metis keep)
    then show "\<exists>p r. openRequests (s\<lparr>openRequests := q\<rparr>) p = Some r \<and> or_serverId r = srb_serverId b \<and>
        or_requestId r = srb_requestId b \<and> or_body r = srb_stream b"
      using p by auto
  qed
  moreover have "response_bodies_open (s\<lparr>openRequests := q\<rparr>)"
    unfolding response_bodies_open_def open_for_def
  proof (intro allI impI)
    fix i b
    assume "httpServerResponseBodies (s\<lparr>openRequests := q\<rparr>) i = Some b"
    then have b: "httpServerResponseBodies s i = Some b" by simp
    then obtain p r where p: "openRequests s p = Some r" "or_serverId r = rsb_serverId b"
        "or_requestId r = rsb_requestId b"
      using assms(1) unfolding attended_def response_bodies_open_def open_for_def by blast
    then have "q p = Some r"
      using assms(3)[OF p(1)] b by (metis keep)
    then show "\<exists>p r. openRequests (s\<lparr>openRequests := q\<rparr>) p = Some r \<and> or_serverId r = rsb_serverId b \<and>
        or_requestId r = rsb_requestId b"
      using p by auto
  qed
  ultimately show ?thesis
    unfolding attended_def by blast
qed

text \<open>What is left of a table when the entries with a property are taken out.\<close>

definition drops :: "('v \<Rightarrow> bool) \<Rightarrow> ('k \<rightharpoonup> 'v) \<Rightarrow> 'k \<rightharpoonup> 'v" where
  "drops Q m = (\<lambda>i. case m i of Some b \<Rightarrow> if Q b then None else Some b | None \<Rightarrow> None)"

lemma drops_Some: "drops Q m i = Some b \<longleftrightarrow> m i = Some b \<and> \<not> Q b"
  by (auto simp: drops_def split: option.split)

lemma drops_le: "drops Q m \<subseteq>\<^sub>m m"
  by (auto simp: map_le_def drops_def split: option.splits if_splits)

lemma restrict_drops: "m |` (- {i. \<exists>b. m i = Some b \<and> Q b}) = drops Q m"
  by (auto simp: restrict_map_def drops_def fun_eq_iff split: option.split)

lemma release_request_bodies:
  "releaseHttpServerRequestBodiesForRequest x y = modify (\<lambda>s. s\<lparr>httpServerRequestBodies :=
     drops (\<lambda>b. srb_serverId b = x \<and> srb_requestId b = y) (httpServerRequestBodies s)\<rparr>)"
  by (simp add: releaseHttpServerRequestBodiesForRequest_def drops_def)

lemma release_server_bodies:
  "releaseHttpServerBodiesForServer K x = sq (modify (\<lambda>s. s\<lparr>httpServerRequestBodies :=
     drops (\<lambda>b. srb_serverId b = x) (httpServerRequestBodies s)\<rparr>))
     (\<lambda>s. for_each (reject_body ''HTTP server released while streaming response'')
        (response_body_ids K (\<lambda>b. rsb_serverId b = x) s) s)"
  by (simp add: releaseHttpServerBodiesForServer_def drops_def)

lemma release_for_request_run:
  assumes "walks K"
  shows "\<exists>l. sq (releaseHttpServerRequestBodiesForRequest x y) (releaseHttpServerResponseBodiesForRequest K x y) s =
    (Ret (), s\<lparr>httpServerRequestBodies :=
        drops (\<lambda>b. srb_serverId b = x \<and> srb_requestId b = y) (httpServerRequestBodies s),
      httpServerResponseBodies :=
        drops (\<lambda>b. rsb_serverId b = x \<and> rsb_requestId b = y) (httpServerResponseBodies s),
      klog := klog s @ l\<rparr>)"
  using reject_bodies_run[of "''HTTP server response stream released''"
      "response_body_ids K (\<lambda>b. rsb_serverId b = x \<and> rsb_requestId b = y)
        (s\<lparr>httpServerRequestBodies := drops (\<lambda>b. srb_serverId b = x \<and> srb_requestId b = y) (httpServerRequestBodies s)\<rparr>)"
      "s\<lparr>httpServerRequestBodies := drops (\<lambda>b. srb_serverId b = x \<and> srb_requestId b = y) (httpServerRequestBodies s)\<rparr>"]
  by (simp add: release_request_bodies releaseHttpServerResponseBodiesForRequest_def
      response_body_ids_walk[OF assms] restrict_drops)

lemma release_for_server_run:
  assumes "walks K"
  shows "\<exists>l. releaseHttpServerBodiesForServer K x s =
    (Ret (), s\<lparr>httpServerRequestBodies := drops (\<lambda>b. srb_serverId b = x) (httpServerRequestBodies s),
      httpServerResponseBodies := drops (\<lambda>b. rsb_serverId b = x) (httpServerResponseBodies s),
      klog := klog s @ l\<rparr>)"
  using reject_bodies_run[of "''HTTP server released while streaming response''"
      "response_body_ids K (\<lambda>b. rsb_serverId b = x)
        (s\<lparr>httpServerRequestBodies := drops (\<lambda>b. srb_serverId b = x) (httpServerRequestBodies s)\<rparr>)"
      "s\<lparr>httpServerRequestBodies := drops (\<lambda>b. srb_serverId b = x) (httpServerRequestBodies s)\<rparr>"]
  by (simp add: release_server_bodies response_body_ids_walk[OF assms] restrict_drops)

text \<open>Requests whose identifiers satisfy \<open>R\<close> may end together with the bodies that have these.\<close>

lemma attended_end_drops:
  assumes "attended s" and "\<And>p. q p = openRequests s p \<or> q p = None"
    and "\<And>p r. openRequests s p = Some r \<Longrightarrow> q p = None \<Longrightarrow> R (or_serverId r) (or_requestId r)"
    and "server_view t = (q, drops (\<lambda>b. R (srb_serverId b) (srb_requestId b)) (httpServerRequestBodies s),
      drops (\<lambda>b. R (rsb_serverId b) (rsb_requestId b)) (httpServerResponseBodies s), httpServers s, h)"
    and "kheap s \<le> kheap t"
  shows "attended t"
proof -
  let ?u = "s\<lparr>httpServerRequestBodies := drops (\<lambda>b. R (srb_serverId b) (srb_requestId b)) (httpServerRequestBodies s)\<rparr>"
  let ?v = "?u\<lparr>httpServerResponseBodies := drops (\<lambda>b. R (rsb_serverId b) (rsb_requestId b)) (httpServerResponseBodies s)\<rparr>"
  have "attended ?u"
    by (rule attended_drop_request_bodies[OF assms(1) drops_le])
  moreover have "drops (\<lambda>b. R (rsb_serverId b) (rsb_requestId b)) (httpServerResponseBodies s) \<subseteq>\<^sub>m
      httpServerResponseBodies ?u"
    by (simp add: drops_le)
  ultimately have "attended ?v"
    by (rule attended_drop_response_bodies)
  then have "attended (?v\<lparr>openRequests := q\<rparr>)"
    by (rule attended_end) (use assms(2,3) in \<open>auto simp: drops_Some\<close>)
  then have "attended (?v\<lparr>openRequests := q, handled := h\<rparr>)"
    by simp
  then show ?thesis
    by (rule attended_view[rotated 2]) (use assms(4,5) in \<open>simp_all add: server_view_def\<close>)
qed

lemma attended_request_ends:
  assumes "walks K"
  shows "keeps attended (request_ends K p)"
proof (rule keepsI)
  fix s r t
  assume inv: "attended s" and run: "request_ends K p s = (r, t)"
  show "attended t"
  proof (cases "openRequests s p")
    case None
    then show ?thesis using inv run by (simp add: request_ends_def)
  next
    case (Some q)
    let ?u = "s\<lparr>openRequests := (openRequests s)(p := None)\<rparr>"
    obtain l where l: "sq (releaseHttpServerRequestBodiesForRequest (or_serverId q) (or_requestId q))
        (releaseHttpServerResponseBodiesForRequest K (or_serverId q) (or_requestId q)) ?u =
      (Ret (), ?u\<lparr>httpServerRequestBodies := drops (\<lambda>b. srb_serverId b = or_serverId q \<and>
          srb_requestId b = or_requestId q) (httpServerRequestBodies ?u),
        httpServerResponseBodies := drops (\<lambda>b. rsb_serverId b = or_serverId q \<and>
          rsb_requestId b = or_requestId q) (httpServerResponseBodies ?u),
        klog := klog ?u @ l\<rparr>)"
      using release_for_request_run[OF assms] by blast
    have t: "server_view t = ((openRequests s)(p := None),
        drops (\<lambda>b. srb_serverId b = or_serverId q \<and> srb_requestId b = or_requestId q) (httpServerRequestBodies s),
        drops (\<lambda>b. rsb_serverId b = or_serverId q \<and> rsb_requestId b = or_requestId q) (httpServerResponseBodies s),
        httpServers s, handled s)" "kheap t = kheap s"
      using run l Some by (auto simp: request_ends_def server_view_def)
    show ?thesis
      by (rule attended_end_drops[where R = "\<lambda>x y. x = or_serverId q \<and> y = or_requestId q", OF inv _ _ t(1)])
        (use Some t(2) in \<open>auto split: if_splits\<close>)
  qed
qed

interpretation attended_seen: kj_view attended
  by unfold_locales (rule attended_view)

lemma attended_callback: "walks K \<Longrightarrow> keeps attended (callback K e)"
  by (cases e) (simp_all add: attended_request attended_command_runs attended_request_ends
    attended_seen.keeps_continuations)

subsection \<open>Operations on the server\<close>

lemma attended_respond: "keeps attended (respond i j c)"
proof (rule keepsI)
  fix s r t
  assume inv: "attended s" and run: "respond i j c s = (r, t)"
  show "attended t"
  proof (cases "\<exists>st f. httpServers s i = Some st \<and> hs_pendingResponses st j = Some f")
    case True
    then obtain st f where st: "httpServers s i = Some st" "hs_pendingResponses st j = Some f" by blast
    let ?s1 = "s\<lparr>httpServers := (httpServers s)(i \<mapsto> st\<lparr>hs_pendingResponses := (hs_pendingResponses st)(j := None)\<rparr>)\<rparr>"
    let ?q = "\<lambda>p. map_option (\<lambda>r. if or_fulfiller r = f then r\<lparr>or_command := Some c\<rparr> else r) (openRequests s p)"
    have "attended ?s1"
      by (rule attended_update_server[OF inv st(1)]) simp
    then have "attended (?s1\<lparr>openRequests := ?q\<rparr>)"
      by (rule attended_commands) (simp add: map_option_case split: option.split)
    then show ?thesis
      by (rule attended_view[rotated 2])
        (use run st in \<open>auto simp: respond_def find_server_def fulfill_command_def server_view_def\<close>)
  next
    case False
    then show ?thesis
      using inv run by (auto simp: respond_def find_server_def find_or_def bnd_def split: option.splits)
  qed
qed

lemma attended_enter: "keeps attended (enter_server v)"
proof (rule keepsI)
  fix s r t
  assume inv: "attended s" and run: "enter_server v s = (r, t)"
  show "attended t"
  proof (cases "alloc_id (httpServers s) (nextHttpServerId s)")
    case None
    then show ?thesis using inv run by (simp add: enter_server_def addHttpServer_def)
  next
    case (Some x)
    obtain i n where x: "x = (i, n)" by (cases x)
    have "attended (s\<lparr>httpServers := (httpServers s)(i \<mapsto> v\<lparr>hs_serverId := i\<rparr>)\<rparr>)"
      using inv unfolding attended_defs by simp
    then show ?thesis
      by (rule attended_view[rotated 2])
        (use run Some x in \<open>auto simp: enter_server_def addHttpServer_def server_view_def\<close>)
  qed
qed

text \<open>Steps that return and change nothing the invariant sees.\<close>

definition quiet :: "unit kop \<Rightarrow> bool" where
  "quiet m \<longleftrightarrow> (\<forall>s. \<exists>t. m s = (Ret (), t) \<and> server_view t = server_view s \<and> kheap t = kheap s)"

lemma quiet_cancel: "quiet (cancel_listening n)"
  unfolding quiet_def cancel_listening_def
  by (auto simp: retire_promise_def server_view_def split: option.split)

lemma quiet_for_each:
  assumes "\<And>x. quiet (f x)"
  shows "quiet (for_each f xs)"
  unfolding quiet_def
proof
  fix s
  show "\<exists>t. for_each f xs s = (Ret (), t) \<and> server_view t = server_view s \<and> kheap t = kheap s"
  proof (induction xs arbitrary: s)
    case Nil
    show ?case by simp
  next
    case (Cons x xs)
    obtain u where u: "f x s = (Ret (), u)" "server_view u = server_view s" "kheap u = kheap s"
      using assms[of x] unfolding quiet_def by blast
    with Cons.IH[of u] show ?case by auto
  qed
qed

lemma quiet_reject:
  "quiet (for_each (\<lambda>r. case m r of None \<Rightarrow> ret () | Some f \<Rightarrow> noting (KReject f e)) rs)"
  by (rule quiet_for_each) (auto simp: quiet_def server_view_def split: option.split)

lemma attended_release:
  assumes "walks K"
  shows "keeps attended (httpServerRelease K i)"
proof (rule keepsI)
  fix s r t
  assume inv: "attended s" and run: "httpServerRelease K i s = (r, t)"
  show "attended t"
  proof (cases "httpServers s i")
    case None
    then show ?thesis
      using inv run by (simp add: httpServerRelease_def find_server_def)
  next
    case (Some st)
    let ?rejects = "for_each (\<lambda>r. case hs_pendingResponses st r of None \<Rightarrow> ret ()
        | Some f \<Rightarrow> noting (KReject f (mk_kj_error DISCONNECTED ''Capnp.KjAsync HTTP server released'')))
      (table_walk K (\<lambda>r. hs_pendingResponses st r \<noteq> None))"
    obtain s1 where s1: "cancel_listening (hs_listenPromiseId st) s = (Ret (), s1)"
        "server_view s1 = server_view s" "kheap s1 = kheap s"
      using quiet_cancel unfolding quiet_def by blast
    obtain s2 where s2: "?rejects s1 = (Ret (), s2)" "server_view s2 = server_view s1" "kheap s2 = kheap s1"
      using quiet_reject unfolding quiet_def by blast
    obtain l where l: "releaseHttpServerBodiesForServer K i s2 =
        (Ret (), s2\<lparr>httpServerRequestBodies := drops (\<lambda>b. srb_serverId b = i) (httpServerRequestBodies s2),
          httpServerResponseBodies := drops (\<lambda>b. rsb_serverId b = i) (httpServerResponseBodies s2),
          klog := klog s2 @ l\<rparr>)"
      using release_for_server_run[OF assms] by blast
    let ?q = "\<lambda>p. case openRequests s p of
        Some r \<Rightarrow> if or_serverId r = i then None else Some r | None \<Rightarrow> None"
    have eqs: "openRequests s2 = openRequests s" "httpServerRequestBodies s2 = httpServerRequestBodies s"
        "httpServerResponseBodies s2 = httpServerResponseBodies s" "httpServers s2 = httpServers s"
        "handled s2 = handled s" "kheap s2 = kheap s"
      using s1(2,3) s2(2,3) by (simp_all add: server_view_def)
    have t: "openRequests t = ?q" "httpServers t = (httpServers s)(i := None)" "kheap t = kheap s"
        "httpServerRequestBodies t = drops (\<lambda>b. srb_serverId b = i) (httpServerRequestBodies s)"
        "httpServerResponseBodies t = drops (\<lambda>b. rsb_serverId b = i) (httpServerResponseBodies s)"
      using run Some s1(1) s2(1) l by (auto simp: httpServerRelease_def find_server_def eqs)
    have "attended (t\<lparr>httpServers := httpServers s\<rparr>)"
      by (rule attended_end_drops[where R = "\<lambda>x y. x = i" and q = ?q, OF inv])
        (auto simp: server_view_def t split: option.splits if_splits)
    then show ?thesis
      unfolding attended_defs by (auto simp: t split: option.splits if_splits)
  qed
qed

text \<open>It takes a table walk that yields each key.\<close>

definition attended_if :: "kenv \<Rightarrow> kj_state \<Rightarrow> bool" where
  "attended_if K s \<longleftrightarrow> (walks K \<longrightarrow> attended s)"

lemma attended_if: "(walks K \<Longrightarrow> keeps attended m) \<Longrightarrow> keeps (attended_if K) m"
  unfolding keeps_def attended_if_def by blast

interpretation attended_guard: kj_guard "attended_if K" K UNIV for K
proof (unfold_locales, goal_cases)
  case (1 s t)
  then show ?case unfolding attended_if_def using attended_view by blast
next
  case (2 e)
  show ?case by (rule attended_if) (rule attended_callback)
next
  case (3 c i j)
  show ?case by (rule attended_if) (rule attended_respond)
next
  case (4 v)
  show ?case by (rule attended_if) (rule attended_enter)
next
  case (5 s i n)
  then show ?case
    unfolding attended_if_def using attended_update_server[of s i]
    by (cases "httpServers s i") (auto simp: fun_upd_idem)
next
  case (6 s i st q)
  then show ?case
    unfolding attended_if_def by (auto intro: attended_update_server)
next
  case (7 i)
  show ?case by (rule attended_if) (rule attended_release)
next
  case (8 s i)
  then show ?case
    unfolding attended_if_def by (auto intro!: attended_drop_request_bodies simp: map_le_def)
next
  case (9 s i)
  then show ?case
    unfolding attended_if_def by (auto intro!: attended_drop_response_bodies simp: map_le_def)
qed

end
