(* ===== verification/Kj_Loop_Facts.thy ===== *)
theory Kj_Loop_Facts
  imports Kj_Server_Facts Service
begin

text \<open>
  The KJ runtime's loop against the abstract service of \<^verbatim>\<open>Service.thy\<close>, with the
  order and the kinds of its answers, its end, and the safety of its server's tables in
  every run.
\<close>

section \<open>Every branch gives its answer\<close>

text \<open>A branch that ends has answered, itself or through a callback.\<close>

definition branch_answers :: "nat \<Rightarrow> kj_branch \<Rightarrow> bool" where
  "branch_answers cp b \<longleftrightarrow> (\<forall>s f t. kb_body b s = (Ret f, t) \<longrightarrow>
     (\<forall>c. kc_done (f c)) \<or> f = id \<and> cp \<in> fst ` set (handled t))"

lemma branch_answers_answering: "(\<And>a c. kc_done (complete a c)) \<Longrightarrow> branch_answers cp (kj_answering complete u m)"
  unfolding branch_answers_def kj_answering_def by (auto elim!: bnd_RetE)

lemma kj_branches_answer [simp]:
  "branch_answers cp (kj_unit_branch u m1)"
  "branch_answers cp (kj_promise_id_branch u m2)"
  "branch_answers cp (kj_handle_branch u m3)"
  "branch_answers cp (kj_bytes_branch u m4)"
  "branch_answers cp (kj_pair_branch u m5)"
  "branch_answers cp (kj_bool_branch u m6)"
  "branch_answers cp (kj_uint32_branch u m7)"
  "branch_answers cp (kj_optional_uint32_branch u m8)"
  "branch_answers cp (kj_optional_string_branch u m9)"
  "branch_answers cp (kj_datagram_branch u m10)"
  "branch_answers cp (kj_http_response_branch u m11)"
  "branch_answers cp (kj_streaming_response_branch u m12)"
  "branch_answers cp (kj_server_request_branch u m13)"
  "branch_answers cp (kj_message_branch u m14)"
  unfolding kj_unit_branch_def kj_promise_id_branch_def kj_handle_branch_def kj_bytes_branch_def
    kj_pair_branch_def kj_bool_branch_def kj_uint32_branch_def kj_optional_uint32_branch_def
    kj_optional_string_branch_def kj_datagram_branch_def kj_http_response_branch_def
    kj_streaming_response_branch_def kj_server_request_branch_def kj_message_branch_def
  by (rule branch_answers_answering, simp add: kjCompleteUnitSuccess_def
    kjCompletePromiseIdSuccess_def kjCompleteHandleSuccess_def kjCompleteBytesSuccess_def
    kjCompleteHandlePairSuccess_def kjCompleteBoolSuccess_def kjCompleteUInt32Success_def
    kjCompleteOptionalUInt32Success_def kjCompleteOptionalStringSuccess_def
    kjCompleteDatagramReceiveSuccess_def kjCompleteHttpResponseSuccess_def
    kjCompleteHttpServerRequestSuccess_def kjCompleteWebSocketMessageSuccess_def
    split: prod.split)+

lemma pump_handled: "pump K h s = Some y \<Longrightarrow> fst y = Ret () \<longrightarrow> h \<in> fst ` set (handled (snd y))"
proof (erule pump.raw_induct[rotated], intro impI)
  fix pump' :: "kenv \<Rightarrow> nat \<Rightarrow> kj_state \<Rightarrow> ((kexn, unit) outcome \<times> kj_state) option"
    and K h s y
  assume IH: "\<And>K h s y. pump' K h s = Some y \<Longrightarrow> fst y = Ret () \<longrightarrow> h \<in> fst ` set (handled (snd y))"
    and ret: "fst y = Ret ()"
    and run: "(if h \<in> fst ` set (handled s) then Some (Ret (), s)
      else case waiting_for K (wait_unit K) (KDelay 0) s of
        (Ret _, t) \<Rightarrow> pump' K h t | (Throw e, t) \<Rightarrow> Some (Throw e, t) | (Hang, t) \<Rightarrow> Some (Hang, t)) = Some y"
  obtain r t where w: "waiting_for K (wait_unit K) (KDelay 0) s = (r, t)"
    by (cases "waiting_for K (wait_unit K) (KDelay 0) s")
  show "h \<in> fst ` set (handled (snd y))"
    using run ret IH unfolding w by (auto split: if_splits outcome.splits)
qed

lemma pumped_branch_answers [simp]: "branch_answers cp (kj_pumped_branch K cp u m)"
  unfolding branch_answers_def kj_pumped_branch_def kj_answering_def
proof (intro allI impI)
  fix s f t
  assume "kb_body \<lparr>kb_body = bnd (sq m (pump_until_handled K cp)) (\<lambda>a. ret id), kb_unknown = u\<rparr> s = (Ret f, t)"
  then obtain s' where "pump_until_handled K cp s' = (Ret (), t)" and f: "f = id"
    by (auto simp: sq_def elim!: bnd_RetE)
  then have "cp \<in> fst ` set (handled t)"
    unfolding pump_until_handled_def using pump_handled[of K cp s'] by (auto split: option.splits)
  with f show "(\<forall>c. kc_done (f c)) \<or> f = id \<and> cp \<in> fst ` set (handled t)"
    by simp
qed

lemma run_sleep_op_answers [simp]: "branch_answers cp (run_sleep_op K cp x)"
  by (cases x) simp_all

lemma run_dial_op_answers [simp]: "branch_answers cp (run_dial_op K cp x)"
  by (cases x) simp_all

lemma run_address_op_answers [simp]: "branch_answers cp (run_address_op K cp x)"
  by (cases x) simp_all

lemma run_connecting_op_answers [simp]: "branch_answers cp (run_connecting_op K cp x)"
  by (cases x) simp_all

lemma run_stream_op_answers [simp]: "branch_answers cp (run_stream_op K cp x)"
  by (cases x) simp_all

lemma run_compose_op_answers [simp]: "branch_answers cp (run_compose_op K cp x)"
  by (cases x) simp_all

lemma run_descriptor_op_answers [simp]: "branch_answers cp (run_descriptor_op K cp x)"
  by (cases x) simp_all

lemma run_datagram_op_answers [simp]: "branch_answers cp (run_datagram_op K cp x)"
  by (cases x) simp_all

lemma run_awaiting_op_answers [simp]: "branch_answers cp (run_awaiting_op K cp x)"
  by (cases x) simp_all

lemma run_http_op_answers [simp]: "branch_answers cp (run_http_op K cp x)"
  by (cases x) simp_all

lemma run_body_op_answers [simp]: "branch_answers cp (run_body_op K cp x)"
  by (cases x) simp_all

lemma run_upgrade_op_answers [simp]: "branch_answers cp (run_upgrade_op K cp x)"
  by (cases x) simp_all

lemma run_message_op_answers [simp]: "branch_answers cp (run_message_op K cp x)"
  by (cases x) simp_all

lemma run_closing_op_answers [simp]: "branch_answers cp (run_closing_op K cp x)"
  by (cases x) simp_all

lemma run_serving_op_answers [simp]: "branch_answers cp (run_serving_op K cp x)"
  by (cases x) simp_all

lemma run_respond_op_answers [simp]: "branch_answers cp (run_respond_op K cp x)"
  by (cases x) simp_all

lemma run_answer_op_answers [simp]: "branch_answers cp (run_answer_op K cp x)"
  by (cases x) simp_all

lemma run_kj_operation_answers: "branch_answers cp (run_kj_operation K cp op)"
  by (cases op) simp_all

section \<open>The loop as a service\<close>

definition kj_kind_at :: "kj_loop \<Rightarrow> nat \<Rightarrow> kj_kind" where
  "kj_kind_at s h = kj_kind_of (kc_payload (kj_completions s ! h))"

definition kj_done :: "kj_loop \<Rightarrow> nat set" where
  "kj_done s = {h. h < length (kj_completions s) \<and> kc_done (kj_completions s ! h)}"

definition kj_busy :: "kj_loop \<Rightarrow> nat set" where
  "kj_busy s = (case kj_current s of None \<Rightarrow> {} | Some h \<Rightarrow> {h}) - kj_done s"

definition kj_service :: "kj_loop \<Rightarrow> service" where
  "kj_service s = \<lparr>issued = length (kj_completions s), closed = kj_stopping s,
     backlog = map snd (kj_queue s), active = kj_busy s, answered = kj_done s, lost = {}\<rparr>"

text \<open>The completions a callback may answer.\<close>

definition callable :: "kj_loop \<Rightarrow> nat set" where
  "callable s = {h. h < length (kj_completions s) \<and> h \<notin> snd ` set (kj_queue s) \<and> kj_kind_at s h = KjHandle}"

definition kj_loop_inv :: "kj_loop \<Rightarrow> bool" where
  "kj_loop_inv s \<longleftrightarrow>
     (\<forall>(op, h) \<in> set (kj_queue s). h < length (kj_completions s) \<and> h \<notin> kj_done s \<and> kj_kind_at s h = kj_op_kind op) \<and>
     distinct (map snd (kj_queue s)) \<and>
     (\<forall>h < length (kj_completions s). h \<in> kj_done s \<or> h \<in> snd ` set (kj_queue s) \<or> kj_current s = Some h) \<and>
     (\<forall>h. kj_current s = Some h \<longrightarrow> h < length (kj_completions s) \<and> h \<notin> snd ` set (kj_queue s)) \<and>
     handles_in (callable s) (kj s)"

subsection \<open>Answers\<close>

lemma kj_answer_frame [simp]:
  "kj_queue (kj_answer h f s) = kj_queue s" "kj_stopping (kj_answer h f s) = kj_stopping s"
  "length (kj_completions (kj_answer h f s)) = length (kj_completions s)"
  by (simp_all add: kj_answer_def)

lemma kj_answer_loop_frame [simp]:
  "kj (kj_answer h f s) = kj s" "kj_current (kj_answer h f s) = kj_current s"
  "kj_phase (kj_answer h f s) = kj_phase s"
  by (simp_all add: kj_answer_def)

lemma kj_answer_nth:
  "i < length (kj_completions s) \<Longrightarrow> kj_completions (kj_answer h f s) ! i =
    (if i = h then f (kj_completions s ! i) else kj_completions s ! i)"
  by (simp add: kj_answer_def nth_list_update)

definition answer_all :: "(nat \<times> (string + u32)) list \<Rightarrow> kj_loop \<Rightarrow> kj_loop" where
  "answer_all xs s = fold (\<lambda>(h, r). kj_answer h (handle_answer r)) xs s"

lemma answer_all_simps [simp]:
  "answer_all [] s = s" "answer_all ((h, r) # xs) s = answer_all xs (kj_answer h (handle_answer r) s)"
  by (simp_all add: answer_all_def)

lemma answer_all_frame [simp]:
  "kj_queue (answer_all xs s) = kj_queue s" "kj_stopping (answer_all xs s) = kj_stopping s"
  "length (kj_completions (answer_all xs s)) = length (kj_completions s)"
  "kj (answer_all xs s) = kj s" "kj_current (answer_all xs s) = kj_current s"
  "kj_phase (answer_all xs s) = kj_phase s"
  by (induction xs arbitrary: s) (auto simp: answer_all_def)

lemma handle_answer_done [simp]: "kc_done (handle_answer r c)"
  by (cases r) (simp_all add: handle_answer_def completeFailureWithError_def kjCompleteHandleSuccess_def)

lemma handle_answer_kind:
  "kj_kind_of (kc_payload c) = KjHandle \<Longrightarrow> kj_kind_of (kc_payload (handle_answer r c)) = KjHandle"
  by (cases r) (simp_all add: handle_answer_def completeFailureWithError_def kjCompleteHandleSuccess_def)

text \<open>Answering completions of handles: these are done, the others as they were.\<close>

lemma answer_all_nth:
  assumes "i < length (kj_completions s)"
  shows "i \<notin> fst ` set xs \<Longrightarrow> kj_completions (answer_all xs s) ! i = kj_completions s ! i"
    and "i \<in> fst ` set xs \<or> kc_done (kj_completions s ! i) \<Longrightarrow> kc_done (kj_completions (answer_all xs s) ! i)"
    and "kj_kind_of (kc_payload (kj_completions s ! i)) = KjHandle \<Longrightarrow>
      kj_kind_of (kc_payload (kj_completions (answer_all xs s) ! i)) = KjHandle"
proof -
  have "(i \<notin> fst ` set xs \<longrightarrow> kj_completions (answer_all xs s) ! i = kj_completions s ! i) \<and>
    (i \<in> fst ` set xs \<or> kc_done (kj_completions s ! i) \<longrightarrow> kc_done (kj_completions (answer_all xs s) ! i)) \<and>
    (kj_kind_of (kc_payload (kj_completions s ! i)) = KjHandle \<longrightarrow>
      kj_kind_of (kc_payload (kj_completions (answer_all xs s) ! i)) = KjHandle)"
    using assms
  proof (induction xs arbitrary: s)
    case (Cons x xs)
    obtain h r where x: "x = (h, r)" by (cases x)
    have len: "i < length (kj_completions (kj_answer h (handle_answer r) s))"
      using Cons.prems by simp
    show ?case
    proof (cases "i = h")
      case True
      then show ?thesis
        using Cons.IH[OF len] Cons.prems by (simp add: x kj_answer_nth handle_answer_kind)
    next
      case False
      then show ?thesis
        using Cons.IH[OF len] Cons.prems by (simp add: x kj_answer_nth)
    qed
  qed simp
  then show "i \<notin> fst ` set xs \<Longrightarrow> kj_completions (answer_all xs s) ! i = kj_completions s ! i"
    and "i \<in> fst ` set xs \<or> kc_done (kj_completions s ! i) \<Longrightarrow> kc_done (kj_completions (answer_all xs s) ! i)"
    and "kj_kind_of (kc_payload (kj_completions s ! i)) = KjHandle \<Longrightarrow>
      kj_kind_of (kc_payload (kj_completions (answer_all xs s) ! i)) = KjHandle"
    by blast+
qed

lemma take_answers_eq: "take_answers s = answer_all (handled (kj s)) (s\<lparr>kj := (kj s)\<lparr>handled := []\<rparr>\<rparr>)"
  by (simp add: take_answers_def answer_all_def)

subsection \<open>One operation\<close>

text \<open>What running an operation does to the completions and to the queue.\<close>

lemma completeFailureWithError_simps [simp]:
  "kc_done (completeFailureWithError e c)" "kc_payload (completeFailureWithError e c) = kc_payload c"
  by (simp_all add: completeFailureWithError_def)

lemma in_kj_done: "i \<in> kj_done s \<longleftrightarrow> i < length (kj_completions s) \<and> kc_done (kj_completions s ! i)"
  by (simp add: kj_done_def)

lemma take_answers_effect:
  assumes "fst ` set (handled u) \<subseteq> callable s" and "t = take_answers (s\<lparr>kj := u\<rparr>)"
  shows "length (kj_completions t) = length (kj_completions s)"
    and "i < length (kj_completions s) \<Longrightarrow> kj_kind_at t i = kj_kind_at s i"
    and "kj_done t = kj_done s \<union> fst ` set (handled u)"
proof -
  have t: "t = answer_all (handled u) (s\<lparr>kj := u\<lparr>handled := []\<rparr>\<rparr>)"
    using assms(2) by (simp add: take_answers_eq)
  show len: "length (kj_completions t) = length (kj_completions s)"
    by (simp add: t)
  show "kj_kind_at t i = kj_kind_at s i" if "i < length (kj_completions s)"
  proof (cases "i \<in> fst ` set (handled u)")
    case True
    then have "kj_kind_at s i = KjHandle"
      using assms(1) unfolding callable_def by blast
    then show ?thesis
      using answer_all_nth(3)[of i "s\<lparr>kj := u\<lparr>handled := []\<rparr>\<rparr>"] that by (simp add: t kj_kind_at_def)
  next
    case False
    then show ?thesis
      using answer_all_nth(1)[of i "s\<lparr>kj := u\<lparr>handled := []\<rparr>\<rparr>"] that by (simp add: t kj_kind_at_def)
  qed
  have "i \<in> kj_done t \<longleftrightarrow> i \<in> kj_done s \<or> i \<in> fst ` set (handled u)" for i
  proof (cases "i < length (kj_completions s)")
    case True
    then show ?thesis
      using answer_all_nth(1,2)[of i "s\<lparr>kj := u\<lparr>handled := []\<rparr>\<rparr>" "handled u"]
      by (auto simp: in_kj_done t)
  next
    case False
    then have "i \<notin> fst ` set (handled u)"
      using assms(1) unfolding callable_def by blast
    then show ?thesis
      using False by (simp add: in_kj_done len)
  qed
  then show "kj_done t = kj_done s \<union> fst ` set (handled u)"
    by blast
qed

lemma kj_answer_done:
  "h < length (kj_completions s) \<Longrightarrow> kc_done (f (kj_completions s ! h)) \<Longrightarrow>
   kj_done (kj_answer h f s) = insert h (kj_done s)"
  by (auto simp: in_kj_done kj_answer_nth split: if_splits)

lemma kj_answer_kind:
  "kj_kind_of (kc_payload (f (kj_completions s ! h))) = kj_kind_at s h \<Longrightarrow> i < length (kj_completions s) \<Longrightarrow>
   kj_kind_at (kj_answer h f s) i = kj_kind_at s i"
  by (simp add: kj_kind_at_def kj_answer_nth)

lemma kj_done_simps [simp]: "kj_done (s\<lparr>kj_current := c\<rparr>) = kj_done s" "kj_done (s\<lparr>kj_phase := p\<rparr>) = kj_done s"
  "kj_done (s\<lparr>kj := k\<rparr>) = kj_done s" "kj_done (s\<lparr>kj_alive := b\<rparr>) = kj_done s" "kj_done (s\<lparr>kj_queue := q\<rparr>) = kj_done s"
  by (simp_all add: kj_done_def)

lemma kj_kind_at_simps [simp]:
  "kj_kind_at (s\<lparr>kj_current := c\<rparr>) h = kj_kind_at s h" "kj_kind_at (s\<lparr>kj_phase := p\<rparr>) h = kj_kind_at s h"
  "kj_kind_at (s\<lparr>kj := k\<rparr>) h = kj_kind_at s h" "kj_kind_at (s\<lparr>kj_alive := b\<rparr>) h = kj_kind_at s h"
  "kj_kind_at (s\<lparr>kj_queue := q\<rparr>) h = kj_kind_at s h"
  by (simp_all add: kj_kind_at_def)

text \<open>The operation's end: its completion is answered, or the thread stays inside.\<close>

lemma kj_process_end:
  assumes run: "kb_body (run_kj_operation K h op) (kj s) = (r, u)"
    and h: "h < length (kj_completions s)" and kind: "kj_kind_at s h = kj_op_kind op"
    and answers: "fst ` set (handled u) \<subseteq> callable s"
    and cur: "kj_current s = Some h" and phase: "kj_phase s = KjRunning"
    and m: "m = take_answers (s\<lparr>kj := u\<rparr>)"
  shows "(\<exists>f. kj_process K op h s = kj_answer h f (m\<lparr>kj_current := None\<rparr>) \<and>
      kc_done (f (kj_completions m ! h)) \<and> kj_kind_of (kc_payload (f (kj_completions m ! h))) = kj_kind_at s h) \<or>
    kj_process K op h s = m\<lparr>kj_phase := KjBlocked\<rparr>"
proof -
  have process: "kj_process K op h s = (case r of
      Ret f \<Rightarrow> kj_answer h f (m\<lparr>kj_current := None\<rparr>)
    | Throw e \<Rightarrow> kj_answer h (completeFailureWithError (kexn_text (kb_unknown (run_kj_operation K h op)) e))
        (m\<lparr>kj_current := None\<rparr>)
    | Hang \<Rightarrow> m\<lparr>kj_phase := KjBlocked\<rparr>)"
    unfolding kj_process_def on_kj_thread_def Let_def m using run by simp
  have mk: "kj_kind_of (kc_payload (kj_completions m ! h)) = kj_kind_at s h"
    using take_answers_effect(2)[OF answers m h] by (simp add: kj_kind_at_def)
  show ?thesis
  proof (cases r)
    case (Ret f)
    have "keeps_kind (kj_op_kind op) f"
      using run_kj_operation_fits run unfolding branch_fits_def Ret by blast
    then have "kj_kind_of (kc_payload (f (kj_completions m ! h))) = kj_kind_at s h"
      using mk kind unfolding keeps_kind_def by simp
    moreover have "kc_done (f (kj_completions m ! h))"
    proof -
      have "(\<forall>c. kc_done (f c)) \<or> f = id \<and> h \<in> fst ` set (handled u)"
        using run_kj_operation_answers run unfolding branch_answers_def Ret by blast
      moreover have "h \<in> fst ` set (handled u) \<Longrightarrow> kc_done (kj_completions m ! h)"
        using take_answers_effect(3)[OF answers m] by (metis UnI2 in_kj_done)
      ultimately show ?thesis by (metis id_apply)
    qed
    ultimately show ?thesis
      using process unfolding Ret by auto
  next
    case (Throw e)
    then show ?thesis
      using process mk by auto
  next
    case Hang
    then show ?thesis
      using process by simp
  qed
qed

lemma handles_in_mono: "handles_in H s \<Longrightarrow> H \<subseteq> H' \<Longrightarrow> handles_in H' s"
  unfolding handles_in_def by blast

lemma handles_in_absorbed [simp]: "handles_in H (s\<lparr>handled := []\<rparr>) = (\<forall>p r c. openRequests s p = Some r \<longrightarrow>
    or_command r = Some c \<longrightarrow> command_handles c \<subseteq> H)"
  by (simp add: handles_in_def)

lemma take_answers_frame [simp]:
  "kj_queue (take_answers s) = kj_queue s" "kj_stopping (take_answers s) = kj_stopping s"
  "kj (take_answers s) = (kj s)\<lparr>handled := []\<rparr>" "kj_current (take_answers s) = kj_current s"
  "kj_phase (take_answers s) = kj_phase s"
  by (simp_all add: take_answers_eq)

text \<open>A turn with an operation: the service starts a request, and answers it unless the
  thread stays inside.\<close>

lemma kj_turn:
  assumes inv: "kj_loop_inv s" and q: "kj_queue s = (op, h) # q"
    and cur: "kj_current s = None" and phase: "kj_phase s = KjRunning"
    and t: "t = kj_worker K s"
  shows "kj_loop_inv t" and "serve\<^sup>*\<^sup>* (kj_service s) (kj_service t)"
    and "kj_queue t = q" and "kj_stopping t = kj_stopping s"
    and "length (kj_completions t) = length (kj_completions s)"
    and "\<And>i. i < length (kj_completions s) \<Longrightarrow> kj_kind_at t i = kj_kind_at s i"
    and "kj_phase t = KjRunning \<and> kj_current t = None \<or> kj_phase t = KjBlocked"
proof -
  let ?s1 = "s\<lparr>kj_queue := q, kj_current := Some h\<rparr>"
  obtain r u where run: "kb_body (run_kj_operation K h op) (kj ?s1) = (r, u)"
    by (cases "kb_body (run_kj_operation K h op) (kj ?s1)")
  let ?m = "take_answers (?s1\<lparr>kj := u\<rparr>)"
  have worker: "t = kj_process K op h ?s1"
    using t q phase by (simp add: kj_worker_def)
  have h: "h < length (kj_completions s)" "h \<notin> kj_done s" "kj_kind_at s h = kj_op_kind op" "h \<notin> snd ` set q"
      "distinct (map snd q)"
    using inv q unfolding kj_loop_inv_def by (auto simp: image_iff)
  have callable1: "callable ?s1 = (if kj_kind_at s h = KjHandle then insert h (callable s) else callable s)"
    using h(1,4) by (auto simp: callable_def q)
  have "handles_in (callable ?s1) (kj s)"
    using inv callable1 unfolding kj_loop_inv_def by (auto intro: handles_in_mono)
  moreover have "keeps (handles_in (callable ?s1)) (kb_body (run_kj_operation K h op))"
    by (rule handle_guard.keeps_operation) (use h(3) callable1 callback_op_kind in simp)
  ultimately have u: "handles_in (callable ?s1) u"
    using run keepsD by fastforce
  then have answers: "fst ` set (handled u) \<subseteq> callable ?s1"
    unfolding handles_in_def by blast
  note effect = take_answers_effect[OF answers refl]
  have others: "i \<in> kj_done s" if "i \<in> callable ?s1" "i \<noteq> h" for i
    using inv that cur q unfolding kj_loop_inv_def callable_def by force
  have dm: "kj_done ?m = kj_done s \<or> kj_done ?m = insert h (kj_done s)"
    using effect(3) answers others by auto
  have s1: "kj_service ?s1 = (kj_service s)\<lparr>backlog := map snd q, active := insert h (active (kj_service s))\<rparr>"
    using cur h(2) by (auto simp: kj_service_def kj_busy_def)
  have start: "serve (kj_service s) (kj_service ?s1)"
    unfolding s1 by (rule serve_start) (simp add: kj_service_def q)
  have handles: "handles_in (callable ?s1) (u\<lparr>handled := []\<rparr>)"
    using u by (simp add: handles_in_def)
  have ends: "(\<exists>f. t = kj_answer h f (?m\<lparr>kj_current := None\<rparr>) \<and> kc_done (f (kj_completions ?m ! h)) \<and>
      kj_kind_of (kc_payload (f (kj_completions ?m ! h))) = kj_kind_at s h) \<or> t = ?m\<lparr>kj_phase := KjBlocked\<rparr>"
    using kj_process_end[OF run _ _ answers _ _ refl] h(1,3) phase unfolding worker by simp
  show len: "length (kj_completions t) = length (kj_completions s)"
    using ends effect(1) by auto
  show q': "kj_queue t = q" and "kj_stopping t = kj_stopping s"
    using ends by auto
  show kinds: "kj_kind_at t i = kj_kind_at s i" if "i < length (kj_completions s)" for i
    using ends
  proof
    assume "\<exists>f. t = kj_answer h f (?m\<lparr>kj_current := None\<rparr>) \<and> kc_done (f (kj_completions ?m ! h)) \<and>
      kj_kind_of (kc_payload (f (kj_completions ?m ! h))) = kj_kind_at s h"
    then obtain f where f: "t = kj_answer h f (?m\<lparr>kj_current := None\<rparr>)"
        "kj_kind_of (kc_payload (f (kj_completions ?m ! h))) = kj_kind_at s h" by blast
    have "kj_kind_at t i = kj_kind_at (?m\<lparr>kj_current := None\<rparr>) i"
      unfolding f(1) by (rule kj_answer_kind) (use f(2) effect(1,2) h(1) that in simp_all)
    then show ?thesis
      using effect(2) that by simp
  next
    assume "t = ?m\<lparr>kj_phase := KjBlocked\<rparr>"
    then show ?thesis
      using effect(2) that by simp
  qed
  have callable_t: "callable t = callable ?s1"
    using kinds by (auto simp: callable_def q' len)
  have kj_t: "kj t = u\<lparr>handled := []\<rparr>"
    using ends by auto
  have done_t: "kj_phase t = KjRunning \<and> kj_current t = None \<and> kj_done t = insert h (kj_done s) \<or>
      kj_phase t = KjBlocked \<and> kj_current t = Some h \<and> kj_done t = kj_done ?m"
    using ends
  proof
    assume "\<exists>f. t = kj_answer h f (?m\<lparr>kj_current := None\<rparr>) \<and> kc_done (f (kj_completions ?m ! h)) \<and>
      kj_kind_of (kc_payload (f (kj_completions ?m ! h))) = kj_kind_at s h"
    then obtain f where f: "t = kj_answer h f (?m\<lparr>kj_current := None\<rparr>)" "kc_done (f (kj_completions ?m ! h))" by blast
    have "kj_done t = insert h (kj_done (?m\<lparr>kj_current := None\<rparr>))"
      unfolding f(1) by (rule kj_answer_done) (use f(2) effect(1) h(1) in simp_all)
    then show ?thesis
      using f(1) dm phase by auto
  qed simp
  then show "kj_phase t = KjRunning \<and> kj_current t = None \<or> kj_phase t = KjBlocked"
    by blast
  have done_cases: "kj_done t = kj_done s \<and> kj_current t = Some h \<or> kj_done t = insert h (kj_done s)"
    using done_t dm by auto
  have old: "i \<in> kj_done s \<or> i \<in> snd ` set q \<or> i = h" if "i < length (kj_completions s)" for i
    using inv that cur q unfolding kj_loop_inv_def by auto
  show "kj_loop_inv t"
    unfolding kj_loop_inv_def q' len callable_t kj_t
  proof (intro conjI)
    show "\<forall>(op, i)\<in>set q. i < length (kj_completions s) \<and> i \<notin> kj_done t \<and> kj_kind_at t i = kj_op_kind op"
    proof (rule ballI, clarify)
      fix a i
      assume i: "(a, i) \<in> set q"
      then have "i < length (kj_completions s) \<and> i \<notin> kj_done s \<and> kj_kind_at s i = kj_op_kind a"
        using inv q unfolding kj_loop_inv_def by auto
      moreover have "i \<noteq> h"
        using i h(4) by (metis image_eqI snd_conv)
      ultimately show "i < length (kj_completions s) \<and> i \<notin> kj_done t \<and> kj_kind_at t i = kj_op_kind a"
        using done_cases kinds by auto
    qed
    show "\<forall>i<length (kj_completions s). i \<in> kj_done t \<or> i \<in> snd ` set q \<or> kj_current t = Some i"
      using old done_cases by blast
    show "\<forall>i. kj_current t = Some i \<longrightarrow> i < length (kj_completions s) \<and> i \<notin> snd ` set q"
    proof (intro allI impI)
      fix i
      assume "kj_current t = Some i"
      then have "i = h" using done_t by auto
      then show "i < length (kj_completions s) \<and> i \<notin> snd ` set q" using h(1,4) by simp
    qed
  qed (use h(5) handles in simp_all)
  show "serve\<^sup>*\<^sup>* (kj_service s) (kj_service t)"
  proof (cases "h \<in> kj_done t")
    case True
    then have d: "kj_done t = insert h (kj_done s)"
      using done_cases h(2) by auto
    have "kj_current t = None \<or> kj_current t = Some h"
      using done_t by blast
    then have b: "kj_busy t = {}"
      using True by (auto simp: kj_busy_def)
    have "kj_service t = (kj_service ?s1)\<lparr>active := active (kj_service ?s1) - {h},
        answered := insert h (answered (kj_service ?s1))\<rparr>"
      using d b len q' \<open>kj_stopping t = kj_stopping s\<close> h(2) by (auto simp: kj_service_def kj_busy_def)
    moreover have "h \<in> active (kj_service ?s1)"
      unfolding s1 by simp
    ultimately have "serve (kj_service ?s1) (kj_service t)"
      using serve_answer by metis
    with start show ?thesis
      by (meson converse_rtranclp_into_rtranclp r_into_rtranclp)
  next
    case False
    then have d: "kj_done t = kj_done s" "kj_current t = Some h"
      using done_cases by auto
    then have "kj_service t = kj_service ?s1"
      using len q' \<open>kj_stopping t = kj_stopping s\<close> by (simp add: kj_service_def kj_busy_def)
    with start show ?thesis by auto
  qed
qed

subsection \<open>Runs\<close>

definition kj_run_inv :: "kj_loop \<Rightarrow> bool" where
  "kj_run_inv s \<longleftrightarrow> kj_loop_inv s \<and> (kj_phase s = KjRunning \<longrightarrow> kj_current s = None) \<and>
     (kj_phase s = KjExited \<longrightarrow> kj_current s = None \<and> kj_stopping s \<and> kj_queue s = []) \<and>
     kj_phase s \<in> {KjRunning, KjBlocked, KjExited}"

definition kj_started :: kj_loop where
  "kj_started = kj_start None kj_loop_init"

lemma kj_started_inv: "kj_run_inv kj_started"
  by (simp add: kj_run_inv_def kj_loop_inv_def kj_started_def kj_start_def kj_loop_init_def
    handles_in_def kj_init_def)

lemma kj_started_service: "kj_service kj_started = service_init"
  by (simp add: kj_service_def service_init_def kj_started_def kj_start_def kj_loop_init_def
    kj_done_def kj_busy_def)

lemma kj_issue_ok:
  assumes "kj_run_inv s" and "t = snd (kj_issue op s)"
  shows "kj_run_inv t" and "serve (kj_service s) (kj_service t)"
    and "\<And>i. i < length (kj_completions s) \<Longrightarrow> kj_kind_at t i = kj_kind_at s i"
    and "length (kj_completions t) = Suc (length (kj_completions s))"
    and "kj_kind_at t (length (kj_completions s)) = kj_op_kind op"
proof -
  let ?n = "length (kj_completions s)"
  have new_kind: "kj_kind_of (kc_payload (new_kj_completion k)) = k" for k
    by (cases k) (simp_all add: new_kj_completion_def)
  have cs: "kj_completions t = kj_completions s @ [if kj_stopping s
      then completeFailureWithError kj_shutting_down (new_kj_completion (kj_op_kind op))
      else new_kj_completion (kj_op_kind op)]"
    and q: "kj_queue t = (if kj_stopping s then kj_queue s else kj_queue s @ [(op, ?n)])"
    and rest: "kj_stopping t = kj_stopping s" "kj_current t = kj_current s" "kj_phase t = kj_phase s" "kj t = kj s"
    using assms(2) by (simp_all add: kj_issue_def kj_enqueue_def Let_def)
  show len: "length (kj_completions t) = Suc ?n"
    by (simp add: cs)
  show kinds: "kj_kind_at t i = kj_kind_at s i" if "i < ?n" for i
    using that by (simp add: kj_kind_at_def cs nth_append)
  show kind: "kj_kind_at t ?n = kj_op_kind op"
    by (simp add: kj_kind_at_def cs nth_append new_kind)
  have d: "kj_done t = (if kj_stopping s then insert ?n (kj_done s) else kj_done s)"
    by (auto simp: kj_done_def cs nth_append new_kj_completion_def less_Suc_eq)
  have inv: "kj_loop_inv s" and below: "\<forall>(op, h) \<in> set (kj_queue s). h < ?n"
    using assms(1) unfolding kj_run_inv_def kj_loop_inv_def by auto
  have "callable s \<subseteq> callable t"
    using kinds below by (auto simp: callable_def len q split: if_splits)
  moreover have "handles_in (callable s) (kj s)"
    using inv by (simp add: kj_loop_inv_def)
  ultimately have handles: "handles_in (callable t) (kj t)"
    unfolding rest(4) by (rule handles_in_mono[rotated])
  have "kj_loop_inv t"
    unfolding kj_loop_inv_def
  proof (intro conjI)
    show "\<forall>(o', i)\<in>set (kj_queue t). i < length (kj_completions t) \<and> i \<notin> kj_done t \<and> kj_kind_at t i = kj_op_kind o'"
    proof (rule ballI, clarify)
      fix o' i
      assume i: "(o', i) \<in> set (kj_queue t)"
      show "i < length (kj_completions t) \<and> i \<notin> kj_done t \<and> kj_kind_at t i = kj_op_kind o'"
      proof (cases "(o', i) \<in> set (kj_queue s)")
        case True
        then have "i < ?n \<and> i \<notin> kj_done s \<and> kj_kind_at s i = kj_op_kind o'"
          using inv unfolding kj_loop_inv_def by auto
        then show ?thesis
          using kinds by (simp add: len d)
      next
        case False
        then have "o' = op" "i = ?n" "\<not> kj_stopping s"
          using i q by (auto split: if_splits)
        then show ?thesis
          using kind by (simp add: len d in_kj_done)
      qed
    qed
    show "distinct (map snd (kj_queue t))"
      using inv below unfolding kj_loop_inv_def by (force simp: q)
    show "\<forall>h<length (kj_completions t). h \<in> kj_done t \<or> h \<in> snd ` set (kj_queue t) \<or> kj_current t = Some h"
      using inv unfolding kj_loop_inv_def by (auto simp: q len d rest less_Suc_eq)
    show "\<forall>h. kj_current t = Some h \<longrightarrow> h < length (kj_completions t) \<and> h \<notin> snd ` set (kj_queue t)"
      using inv unfolding kj_loop_inv_def by (auto simp: q len rest)
    show "handles_in (callable t) (kj t)"
      by (rule handles)
  qed
  then show "kj_run_inv t"
    using assms(1) unfolding kj_run_inv_def by (auto simp: rest q)
  have busy: "kj_busy t = kj_busy s"
    using inv unfolding kj_loop_inv_def by (auto simp: kj_busy_def rest d split: option.splits)
  show "serve (kj_service s) (kj_service t)"
  proof (cases "kj_stopping s")
    case True
    then have "kj_service t = (kj_service s)\<lparr>issued := Suc (issued (kj_service s)),
        answered := insert (issued (kj_service s)) (answered (kj_service s))\<rparr>"
      by (simp add: kj_service_def len rest q d busy)
    then show ?thesis
      using serve_refuse[of "kj_service s"] True by (simp add: kj_service_def)
  next
    case False
    then have "kj_service t = (kj_service s)\<lparr>issued := Suc (issued (kj_service s)),
        backlog := backlog (kj_service s) @ [issued (kj_service s)]\<rparr>"
      by (simp add: kj_service_def len rest q d busy)
    then show ?thesis
      using serve_issue[of "kj_service s"] False by (simp add: kj_service_def)
  qed
qed

lemma kj_shutdown_ok:
  assumes "kj_run_inv s" and "t = kj_shutdown s"
  shows "kj_run_inv t" and "serve (kj_service s) (kj_service t)" and "kj_completions t = kj_completions s"
proof -
  have t: "kj_stopping t" "kj_queue t = kj_queue s" "kj_current t = kj_current s" "kj_phase t = kj_phase s"
      "kj t = kj s"
    and cs: "kj_completions t = kj_completions s"
    using assms(2) by (auto simp: kj_shutdown_def)
  have same: "kj_done t = kj_done s" "callable t = callable s" "kj_kind_at t = kj_kind_at s" "kj_busy t = kj_busy s"
    by (simp_all add: kj_done_def callable_def kj_kind_at_def kj_busy_def t cs fun_eq_iff)
  show "kj_run_inv t"
    using assms(1) t(1) unfolding kj_run_inv_def kj_loop_inv_def same t(2-) cs by auto
  have "kj_service t = (kj_service s)\<lparr>closed := True\<rparr>"
    by (simp add: kj_service_def same t cs)
  then show "serve (kj_service s) (kj_service t)"
    using serve_close by simp
qed (use assms(2) in \<open>simp add: kj_shutdown_def\<close>)

lemma kj_teardown_handles: "handles_in H s \<Longrightarrow> handles_in H (kj_teardown K s)"
proof -
  assume s: "handles_in H s"
  have "handles_in H (fold (\<lambda>i s. snd (httpServerRelease K i s)) is s)" for "is"
    using s
  proof (induction "is" arbitrary: s)
    case (Cons i "is")
    then show ?case
      using handle_guard.keeps_release[of H K i] by (simp add: keeps_def)
  qed simp
  then show ?thesis
    by (simp add: kj_teardown_def Let_def release_servers_def handles_in_def)
qed

lemma kj_finish_ok:
  assumes "kj_run_inv s" and "kj_queue s = []" and "kj_stopping s" and "kj_phase s = KjRunning"
  shows "kj_run_inv (kj_finish K s)" and "kj_service (kj_finish K s) = kj_service s"
    and "kj_completions (kj_finish K s) = kj_completions s"
proof -
  have t: "kj_queue (kj_finish K s) = []" "kj_stopping (kj_finish K s)" "kj_phase (kj_finish K s) = KjExited"
      "kj (kj_finish K s) = kj_teardown K (kj s)"
    and cur: "kj_current (kj_finish K s) = kj_current s"
    and cs: "kj_completions (kj_finish K s) = kj_completions s"
    using assms by (simp_all add: kj_finish_def)
  have same: "kj_done (kj_finish K s) = kj_done s" "callable (kj_finish K s) = callable s"
      "kj_kind_at (kj_finish K s) = kj_kind_at s" "kj_busy (kj_finish K s) = kj_busy s"
    using assms(2) by (simp_all add: kj_done_def callable_def kj_kind_at_def kj_busy_def t cur cs fun_eq_iff)
  have "kj_current s = None" "handles_in (callable s) (kj s)"
      "\<forall>h<length (kj_completions s). h \<in> kj_done s \<or> h \<in> snd ` set (kj_queue s) \<or> kj_current s = Some h"
    using assms(1,4) unfolding kj_run_inv_def kj_loop_inv_def by auto
  then show "kj_run_inv (kj_finish K s)"
    using assms(2) t(2) unfolding kj_run_inv_def kj_loop_inv_def same t(1,3,4) cur cs
    by (simp add: kj_teardown_handles)
  show "kj_service (kj_finish K s) = kj_service s"
    using assms(2,3) t(2) by (simp add: kj_service_def same t(1) cs)
  show "kj_completions (kj_finish K s) = kj_completions s"
    by (rule cs)
qed

lemma kj_worker_ok:
  assumes "kj_run_inv s" and "t = kj_worker K s"
  shows "kj_run_inv t" and "serve\<^sup>*\<^sup>* (kj_service s) (kj_service t)"
    and "length (kj_completions t) = length (kj_completions s)"
    and "\<And>i. i < length (kj_completions s) \<Longrightarrow> kj_kind_at t i = kj_kind_at s i"
proof -
  consider (still) "t = s" | (ends) "kj_phase s = KjRunning" "kj_queue s = []" "kj_stopping s" "t = kj_finish K s"
    | (turn) op h q where "kj_phase s = KjRunning" "kj_queue s = (op, h) # q" "kj_current s = None"
    using assms unfolding kj_worker_def kj_run_inv_def
    by (cases "kj_queue s") (auto split: if_splits)
  then have "kj_run_inv t \<and> serve\<^sup>*\<^sup>* (kj_service s) (kj_service t) \<and>
    length (kj_completions t) = length (kj_completions s) \<and>
    (\<forall>i < length (kj_completions s). kj_kind_at t i = kj_kind_at s i)"
  proof cases
    case still
    then show ?thesis using assms(1) by simp
  next
    case ends
    then show ?thesis
      using kj_finish_ok[OF assms(1) ends(2,3,1)] by (simp add: kj_kind_at_def)
  next
    case turn
    have "kj_loop_inv s"
      using assms(1) by (simp add: kj_run_inv_def)
    note this = kj_turn[OF this turn(2,3,1) assms(2)]
    then show ?thesis
      by (auto simp: kj_run_inv_def)
  qed
  then show "kj_run_inv t" "serve\<^sup>*\<^sup>* (kj_service s) (kj_service t)"
    "length (kj_completions t) = length (kj_completions s)"
    "\<And>i. i < length (kj_completions s) \<Longrightarrow> kj_kind_at t i = kj_kind_at s i"
    by blast+
qed

lemma kj_step_ok:
  assumes "kj_run_inv s" and "t = kj_step K e s"
  shows "kj_run_inv t" and "serve\<^sup>*\<^sup>* (kj_service s) (kj_service t)"
    and "length (kj_completions s) \<le> length (kj_completions t)"
    and "\<And>i. i < length (kj_completions s) \<Longrightarrow> kj_kind_at t i = kj_kind_at s i"
proof -
  have "kj_run_inv t \<and> serve\<^sup>*\<^sup>* (kj_service s) (kj_service t) \<and>
    length (kj_completions s) \<le> length (kj_completions t) \<and>
    (\<forall>i < length (kj_completions s). kj_kind_at t i = kj_kind_at s i)"
  proof (cases e)
    case (KjIssue op)
    then show ?thesis
      using kj_issue_ok[OF assms(1), of t op] assms(2) by auto
  next
    case KjShutdown
    then show ?thesis
      using kj_shutdown_ok[OF assms(1), of t] assms(2) by (auto simp: kj_kind_at_def)
  next
    case KjWorker
    then show ?thesis
      using kj_worker_ok[OF assms(1), of t K] assms(2) by auto
  qed
  then show "kj_run_inv t" "serve\<^sup>*\<^sup>* (kj_service s) (kj_service t)"
    "length (kj_completions s) \<le> length (kj_completions t)"
    "\<And>i. i < length (kj_completions s) \<Longrightarrow> kj_kind_at t i = kj_kind_at s i"
    by blast+
qed

lemma kj_run_ok:
  assumes "kj_run_inv s"
  shows "kj_run_inv (kj_run K es s) \<and> serve\<^sup>*\<^sup>* (kj_service s) (kj_service (kj_run K es s)) \<and>
    length (kj_completions s) \<le> length (kj_completions (kj_run K es s)) \<and>
    (\<forall>i < length (kj_completions s). kj_kind_at (kj_run K es s) i = kj_kind_at s i)"
  using assms
proof (induction es arbitrary: s)
  case Nil
  then show ?case by (simp add: kj_run_def)
next
  case (Cons e es)
  let ?t = "kj_step K e s"
  note step = kj_step_ok[where K = K and e = e, OF Cons.prems refl]
  have "kj_run K (e # es) s = kj_run K es ?t"
    by (simp add: kj_run_def)
  then show ?case
    using Cons.IH[OF step(1)] step(2-4) by (auto intro: rtranclp_trans)
qed

section \<open>Properties of every run\<close>

lemma kj_serves: "serve\<^sup>*\<^sup>* service_init (kj_service (kj_run K es kj_started))"
  using kj_run_ok[OF kj_started_inv, of K es] unfolding kj_started_service by blast

text \<open>C31. The thread of the KJ runtime with its queue and completions is the service of
  \<^verbatim>\<open>Service.thy\<close>: in every run, whatever KJ answers and whatever callbacks run, each
  request is queued, with the thread or answered; requests are taken off the queue in the order
  they were made; one that is answered stays answered, and none is lost.\<close>

theorem kj_run_refines_service:
  "serve\<^sup>*\<^sup>* service_init (kj_service (kj_run K es kj_started))"
  by (rule kj_serves)

lemma kj_busy_card: "card (kj_busy s) \<le> 1"
  by (auto simp: kj_busy_def split: option.split intro: order_trans[OF card_mono[of "{_}"]])

text \<open>At any time the unanswered requests to the KJ runtime are an interval of their
  numbers: the queue holds the requests from some number on to the last one accepted, in
  order, and all others are answered, but for at most one that the thread is busy with.\<close>

theorem kj_answers_in_order:
  "\<exists>k m. map snd (kj_queue (kj_run K es kj_started)) = [k..<m] \<and>
     kj_done (kj_run K es kj_started) =
       {0..<k} \<union> {m..<length (kj_completions (kj_run K es kj_started))} - kj_busy (kj_run K es kj_started) \<and>
     card (kj_busy (kj_run K es kj_started)) \<le> 1"
proof -
  let ?s = "kj_run K es kj_started"
  have "service_inv (kj_service ?s)"
    using kj_serves service_init_inv by (rule serve_star_inv)
  then obtain k m where "at_marks k m (kj_service ?s)"
    unfolding service_inv_def by blast
  then have "map snd (kj_queue ?s) = [k..<m]"
      and "kj_busy ?s \<union> kj_done ?s = {0..<k} \<union> {m..<length (kj_completions ?s)}"
      and "kj_busy ?s \<inter> kj_done ?s = {}"
    unfolding at_marks_def by (simp_all add: kj_service_def)
  then show ?thesis
    using kj_busy_card by blast
qed

text \<open>A completion carries a value of the type of the struct its operation was queued in.\<close>

lemma kj_completion_kind:
  "kj_kind_of (kc_payload (kj_completions
     (kj_run K es' (snd (kj_issue op (kj_run K es kj_started)))) ! fst (kj_issue op (kj_run K es kj_started)))) =
   kj_op_kind op"
proof -
  let ?s = "kj_run K es kj_started"
  have s: "kj_run_inv ?s"
    using kj_run_ok[OF kj_started_inv] by blast
  have h: "fst (kj_issue op ?s) = length (kj_completions ?s)"
    by (simp add: kj_issue_def kj_enqueue_def Let_def)
  note issue = kj_issue_ok[where op = op, OF s refl]
  show ?thesis
    using kj_run_ok[OF issue(1), of K es'] issue(4,5) unfolding h kj_kind_at_def by simp
qed

subsection \<open>Answers are final\<close>

text \<open>No callback has the completion \<open>h\<close> or will be given it by a queued operation.\<close>

definition out_of_reach :: "nat \<Rightarrow> kj_loop \<Rightarrow> bool" where
  "out_of_reach h s \<longleftrightarrow> h < length (kj_completions s) \<and> handles_in (- {h}) (kj s) \<and>
     (\<forall>(op, i) \<in> set (kj_queue s). answered_by_callback op \<longrightarrow> i \<noteq> h)"

lemma reach_issue: "out_of_reach h s \<Longrightarrow> out_of_reach h (snd (kj_issue op s)) \<and>
    kj_completions (snd (kj_issue op s)) ! h = kj_completions s ! h"
  by (auto simp: out_of_reach_def kj_issue_def kj_enqueue_def Let_def nth_append)

lemma reach_process:
  assumes q: "kj_queue s = (op, i) # q" and far: "out_of_reach h s"
    and t: "t = kj_process K op i (s\<lparr>kj_queue := q, kj_current := Some i\<rparr>)"
  shows "out_of_reach h t" and "i \<noteq> h \<Longrightarrow> kj_completions t ! h = kj_completions s ! h"
proof -
  let ?s = "s\<lparr>kj_queue := q, kj_current := Some i\<rparr>"
  obtain r u where run: "kb_body (run_kj_operation K i op) (kj ?s) = (r, u)"
    by (cases "kb_body (run_kj_operation K i op) (kj ?s)")
  have "keeps (handles_in (- {h})) (kb_body (run_kj_operation K i op))"
    by (rule handle_guard.keeps_operation) (use far q in \<open>auto simp: out_of_reach_def\<close>)
  then have u: "handles_in (- {h}) u"
    using run far keepsD unfolding out_of_reach_def by fastforce
  let ?m = "take_answers (?s\<lparr>kj := u\<rparr>)"
  have same: "kj_completions ?m ! h = kj_completions s ! h"
    using far u answer_all_nth(1)[of h "?s\<lparr>kj := u\<lparr>handled := []\<rparr>\<rparr>" "handled u"]
    by (auto simp: take_answers_eq out_of_reach_def handles_in_def)
  have len: "length (kj_completions ?m) = length (kj_completions s)"
    by (simp add: take_answers_eq)
  have ends: "(\<exists>f. t = kj_answer i f (?m\<lparr>kj_current := None\<rparr>)) \<or> t = ?m\<lparr>kj_phase := KjBlocked\<rparr>"
    using run unfolding t kj_process_def on_kj_thread_def Let_def by (cases r) auto
  have "handles_in (- {h}) (u\<lparr>handled := []\<rparr>)"
    using u by (simp add: handles_in_def)
  then show "out_of_reach h t"
    using ends far q len by (auto simp: out_of_reach_def)
  show "kj_completions t ! h = kj_completions s ! h" if "i \<noteq> h"
    using ends far same len that by (auto simp: kj_answer_nth out_of_reach_def)
qed

lemma reach_step:
  assumes inv: "kj_run_inv s" and far: "out_of_reach h s"
  shows "out_of_reach h (kj_step K e s) \<and>
    (h \<in> kj_done s \<longrightarrow> kj_completions (kj_step K e s) ! h = kj_completions s ! h)"
proof (cases e)
  case (KjIssue op)
  then show ?thesis
    using reach_issue[OF far] by simp
next
  case KjShutdown
  then show ?thesis
    using far by (simp add: out_of_reach_def kj_shutdown_def)
next
  case KjWorker
  show ?thesis
  proof (cases "kj_phase s = KjRunning")
    case False
    then show ?thesis
      using KjWorker far by (simp add: kj_worker_def)
  next
    case True
    show ?thesis
    proof (cases "kj_queue s")
      case Nil
      then show ?thesis
        using KjWorker True far by (simp add: kj_worker_def kj_finish_def out_of_reach_def kj_teardown_handles)
    next
      case (Cons x q)
      obtain op i where x: "x = (op, i)" by (cases x)
      have "h \<in> kj_done s \<Longrightarrow> i \<noteq> h"
        using inv Cons x unfolding kj_run_inv_def kj_loop_inv_def by auto
      then show ?thesis
        using KjWorker True Cons x reach_process[OF Cons[unfolded x] far refl] by (simp add: kj_worker_def)
    qed
  qed
qed

lemma reach_run:
  "kj_run_inv s \<Longrightarrow> out_of_reach h s \<Longrightarrow> out_of_reach h (kj_run K es s) \<and>
   (h \<in> kj_done s \<longrightarrow> kj_completions (kj_run K es s) ! h = kj_completions s ! h)"
proof (induction es arbitrary: s)
  case Nil
  then show ?case by (simp add: kj_run_def)
next
  case (Cons e es)
  note step = reach_step[where K = K and e = e, OF Cons.prems]
  have "h \<in> kj_done (kj_step K e s)" if "h \<in> kj_done s"
    using that step by (auto simp: in_kj_done out_of_reach_def)
  then show ?case
    using Cons.IH[OF kj_step_ok(1)[OF Cons.prems(1) refl]] step by (simp add: kj_run_def)
qed

lemma issued_out_of_reach:
  assumes "kj_run_inv s" and "\<not> answered_by_callback op"
  shows "out_of_reach (length (kj_completions s)) (snd (kj_issue op s))"
proof -
  have "callable s \<subseteq> - {length (kj_completions s)}"
    by (auto simp: callable_def)
  then have "handles_in (- {length (kj_completions s)}) (kj s)"
    using assms(1) handles_in_mono unfolding kj_run_inv_def kj_loop_inv_def by blast
  moreover have "\<forall>(op, i) \<in> set (kj_queue s). i < length (kj_completions s)"
    using assms(1) unfolding kj_run_inv_def kj_loop_inv_def by auto
  ultimately show ?thesis
    using assms(2) by (auto simp: out_of_reach_def kj_issue_def kj_enqueue_def Let_def)
qed

text \<open>C32. An answer of the KJ runtime is final, for every operation but the two that a callback of
  the HTTP service answers (the WebSocket upgrade and the start of a streamed response): whatever
  another thread asks for in whatever state of a run, and however the run goes on, once the
  completion it was given is done neither its outcome nor its value changes. In particular no
  callback that runs during a wait, however late, can answer it a second time.\<close>

theorem kj_answers_are_final:
  assumes "\<not> answered_by_callback op" and "kj_issue op (kj_run K es kj_started) = (h, s)"
    and "kc_done (kj_completions (kj_run K es' s) ! h)"
  shows "kj_completions (kj_run K es'' (kj_run K es' s)) ! h = kj_completions (kj_run K es' s) ! h"
proof -
  let ?s0 = "kj_run K es kj_started"
  have inv0: "kj_run_inv ?s0"
    using kj_run_ok[OF kj_started_inv] by blast
  have h: "h = length (kj_completions ?s0)" "s = snd (kj_issue op ?s0)"
    using assms(2) by (auto simp: kj_issue_def kj_enqueue_def Let_def split: if_splits)
  have "kj_run_inv s"
    unfolding h(2) by (rule kj_issue_ok(1)[OF inv0 refl])
  moreover have "out_of_reach h s"
    unfolding h by (rule issued_out_of_reach[OF inv0 assms(1)])
  ultimately have "kj_run_inv (kj_run K es' s)" "out_of_reach h (kj_run K es' s)"
    using kj_run_ok reach_run by blast+
  then show ?thesis
    using reach_run[of "kj_run K es' s" h K es''] assms(3) by (auto simp: in_kj_done out_of_reach_def)
qed

text \<open>A turn takes one operation off the queue, or ends the thread.\<close>

lemma kj_turns_to_end:
  "kj_run_inv s \<Longrightarrow> kj_stopping s \<Longrightarrow> length (kj_queue s) = n \<Longrightarrow>
   kj_phase ((kj_worker K ^^ Suc n) s) \<in> {KjBlocked, KjExited}"
proof (induction n arbitrary: s)
  case 0
  then show ?case
    by (auto simp: kj_worker_def kj_finish_def kj_run_inv_def)
next
  case (Suc n)
  have fixed: "(kj_worker K ^^ m) s = s" if "kj_phase s \<noteq> KjRunning" for m
    using that by (induction m) (simp_all add: kj_worker_def)
  show ?case
  proof (cases "kj_phase s = KjRunning")
    case False
    then show ?thesis
      using Suc.prems(1) unfolding fixed[OF False] kj_run_inv_def by auto
  next
    case True
    obtain op h q where q: "kj_queue s = (op, h) # q"
      using Suc.prems(3) by (cases "kj_queue s") auto
    have inv: "kj_loop_inv s" and cur: "kj_current s = None"
      using Suc.prems(1) True by (simp_all add: kj_run_inv_def)
    note turn = kj_turn[where K = K, OF inv q cur True refl]
    have "kj_run_inv (kj_worker K s)"
      using kj_worker_ok(1)[OF Suc.prems(1) refl] .
    then have "kj_phase ((kj_worker K ^^ Suc n) (kj_worker K s)) \<in> {KjBlocked, KjExited}"
      by (rule Suc.IH) (use turn(3,4) Suc.prems(2,3) q in simp_all)
    then show ?thesis
      by (simp add: funpow_swap1)
  qed
qed

lemma kj_exited_done:
  "kj_run_inv s \<Longrightarrow> kj_phase s = KjExited \<Longrightarrow> list_all kc_done (kj_completions s)"
  by (auto simp: kj_run_inv_def kj_loop_inv_def list_all_length in_kj_done)

text \<open>C33. Once the KJ runtime is told to stop, in any state of a run, its thread ends after as
  many turns as operations are queued and one more, with every completion answered, unless an
  operation never returns.\<close>

theorem kj_shutdown_answers_everything:
  "(let s = kj_shutdown (kj_run K es kj_started); t = (kj_worker K ^^ Suc (length (kj_queue s))) s
    in kj_phase t = KjBlocked \<or> (kj_phase t = KjExited \<and> list_all kc_done (kj_completions t)))"
proof -
  let ?s = "kj_shutdown (kj_run K es kj_started)"
  let ?t = "(kj_worker K ^^ Suc (length (kj_queue ?s))) ?s"
  have s: "kj_run_inv ?s"
    using kj_run_ok[OF kj_started_inv] kj_shutdown_ok(1)[OF _ refl] by blast
  have "kj_run_inv ((kj_worker K ^^ n) ?s)" for n
    using s by (induction n) (simp_all add: kj_worker_ok(1)[OF _ refl])
  then have "kj_phase ?t = KjExited \<Longrightarrow> list_all kc_done (kj_completions ?t)"
    using kj_exited_done by blast
  moreover have "kj_phase ?t \<in> {KjBlocked, KjExited}"
    by (rule kj_turns_to_end[OF s _ refl]) (simp add: kj_shutdown_def)
  ultimately show ?thesis
    by (auto simp: Let_def)
qed

section \<open>Streams in every run\<close>

lemma attended_if_view:
  assumes "attended_if K s" and "server_view t = server_view s" and "kheap s \<le> kheap t"
  shows "attended_if K t"
  using assms attended_view unfolding attended_if_def by metis

lemma attended_process:
  assumes "attended_if K (kj s)"
  shows "attended_if K (kj (kj_process K op h s))"
proof -
  obtain r u where run: "kb_body (run_kj_operation K h op) (kj s) = (r, u)"
    by (cases "kb_body (run_kj_operation K h op) (kj s)")
  then have "attended_if K u"
    using attended_guard.keeps_operation[where op = op and cp = h and K = K] assms by (auto simp: keeps_def dest: spec[of _ "kj s"])
  then have "attended_if K (u\<lparr>handled := []\<rparr>)"
    by (simp add: attended_if_def)
  then show ?thesis
    using run by (auto simp: kj_process_def on_kj_thread_def Let_def split: outcome.splits)
qed

lemma attended_teardown:
  assumes "attended_if K s"
  shows "attended_if K (kj_teardown K s)"
proof -
  have "attended_if K (fold (\<lambda>i s. snd (httpServerRelease K i s)) is s)" for "is"
    using assms
  proof (induction "is" arbitrary: s)
    case (Cons i "is")
    then show ?case
      using attended_guard.keeps_release[of K i] by (simp add: keeps_def)
  qed simp
  then have "attended_if K (release_servers K s)"
    by (simp add: release_servers_def)
  then have "attended_if K ((release_servers K s)\<lparr>httpServerRequestBodies := Map.empty,
      httpServerResponseBodies := Map.empty\<rparr>)"
    unfolding attended_if_def by (simp add: attended_defs)
  then show ?thesis
    by (rule attended_if_view) (simp_all add: kj_teardown_def Let_def server_view_def)
qed

lemma attended_step: "attended_if K (kj s) \<Longrightarrow> attended_if K (kj (kj_step K e s))"
  by (cases e) (auto simp: kj_issue_def kj_enqueue_def Let_def kj_shutdown_def kj_worker_def kj_finish_def
    attended_teardown intro!: attended_process split: list.split)

lemma attended_run: "attended_if K (kj s) \<Longrightarrow> attended_if K (kj (kj_run K es s))"
  unfolding kj_run_def by (induction es arbitrary: s) (simp_all add: attended_step)

text \<open>C34. In every run of the KJ runtime, the streams Lean code can reach through the HTTP
  server's tables are alive: a request body's stream is that of a request KJ has not finished
  with, a response body belongs to such a request, and the server of each such request is still
  registered, so that no callback reads a server that was destroyed. This relies on a walk over
  an unordered map visiting each key.\<close>

theorem kj_streams_attended:
  assumes "walks K"
  shows "attended (kj (kj_run K es kj_started))"
proof -
  have "attended_if K (kj kj_started)"
    using attended_init by (simp add: kj_started_def kj_start_def kj_loop_init_def attended_if_def)
  then show ?thesis
    using attended_run[of K kj_started es] assms by (simp add: attended_if_def)
qed

text \<open>A run in which a server listens, and a request arrives while a sleep is awaited.\<close>

definition kj_demo_walk :: "(u32 \<Rightarrow> bool) \<Rightarrow> u32 list" where
  "kj_demo_walk Q = filter Q (map word_of_nat [0..<2 ^ 32])"

definition kj_demo :: kenv where
  "kj_demo = \<lparr>k_obj = (\<lambda>l c. Inr 50), k_pair = (\<lambda>l c. Inr (51, 52)), k_int = (\<lambda>l c. Inr 3),
     k_fd = (\<lambda>l c. Inr None), k_bool = (\<lambda>l c. Inr True), k_uint = (\<lambda>l c. Inr 8080), k_string = (\<lambda>l c. Inr []),
     k_done = (\<lambda>l c. Inr ()), k_request = (\<lambda>l c. Inr (None, 53)),
     turns = (\<lambda>l p. case p of KDelay _ \<Rightarrow> [RequestArrives 1 GET ''/'' [] False 7 8] | _ \<Rightarrow> []),
     wait_unit = (\<lambda>l p. Some (Inr ())), wait_obj = (\<lambda>l p. Some (Inr 54)), wait_optional = (\<lambda>l p. None),
     wait_bytes = (\<lambda>l p. None), wait_size = (\<lambda>l p. None), wait_datagram = (\<lambda>l p. None),
     wait_reply = (\<lambda>l p. None), wait_socket = (\<lambda>l p. None), wait_message = (\<lambda>l p. None),
     wait_failure = (\<lambda>l p. None), table_walk = kj_demo_walk\<rparr>"

definition kj_demo_moves :: "kj_move list" where
  "kj_demo_moves = [KjIssue (ServingOp (QueuedHttpServerListen [] 0 False default_config)),
     KjIssue (SleepOp (QueuedSleepNanos 0)), KjIssue (SleepOp (QueuedAwaitPromise 2)),
     KjWorker, KjWorker, KjWorker]"

lemma kj_demo_walks: "walks kj_demo"
proof -
  have "i \<in> word_of_nat ` {0..<2 ^ 32}" for i :: u32
    using unsigned_less[of i] by (intro image_eqI[of _ _ "unat i"]) simp_all
  then show ?thesis
    by (auto simp: walks_def kj_demo_def kj_demo_walk_def)
qed

theorem kj_streams_attended_witness:
  "walks kj_demo \<and> attended (kj (kj_run kj_demo kj_demo_moves kj_started))"
  using kj_streams_attended[OF kj_demo_walks, of kj_demo_moves] kj_demo_walks by blast

text \<open>A sleep is answered; then another operation is queued and the runtime ends.\<close>

lemma kj_answers_are_final_witness:
  "\<exists>s. kj_issue (SleepOp (QueuedSleepNanos 0)) (kj_run kj_demo [] kj_started) = (0, s) \<and>
     \<not> kc_done (kj_completions s ! 0) \<and> kc_done (kj_completions (kj_run kj_demo [KjWorker] s) ! 0) \<and>
     kj_completions (kj_run kj_demo [KjIssue (SleepOp (QueuedCancelPromise 1)), KjShutdown, KjWorker, KjWorker]
       (kj_run kj_demo [KjWorker] s)) ! 0 = kj_completions (kj_run kj_demo [KjWorker] s) ! 0"
proof -
  let ?op = "SleepOp (QueuedSleepNanos 0)"
  obtain h s where issue: "kj_issue ?op (kj_run kj_demo [] kj_started) = (h, s)"
    by fastforce
  then have s: "h = 0" "\<not> kc_done (kj_completions s ! 0)" "kj_queue s = [(?op, 0)]" "kj_phase s = KjRunning"
      "kj s = kj_init" "length (kj_completions s) = 1"
    by (auto simp: kj_issue_def kj_enqueue_def Let_def kj_run_def kj_started_def kj_start_def kj_loop_init_def
        new_kj_completion_def)
  have "kc_done (kj_completions (kj_run kj_demo [KjWorker] s) ! 0)"
    using s by (simp add: kj_run_def kj_worker_def kj_process_def on_kj_thread_def kj_promise_id_branch_def
        kj_answering_def Let_def sleepNanosStart_def wrap_promise_def addPromise_def kj_init_def
        kj_answer_nth take_answers_eq kjCompletePromiseIdSuccess_def split: option.split)
  then show ?thesis
    using kj_answers_are_final[OF _ issue, of "[KjWorker]"
        "[KjIssue (SleepOp (QueuedCancelPromise 1)), KjShutdown, KjWorker, KjWorker]"] s issue by simp
qed

end
