(* ===== verification/Ffi.thy ===== *)
theory Ffi
  imports Run_Loop Kj_Loop Registry
begin

text \<open>
  How Lean calls the two runtimes: the values that cross the boundary, the process with its
  registries and the loops of its runtimes, and what the exported functions of
  \<^verbatim>\<open>ffi/kj_async_bridge.cpp\<close> and \<^verbatim>\<open>ffi/rpc_bridge.cpp\<close> are made of. An
  exported function looks its runtime up, queues an operation there, waits for the completion
  and converts what it carries; on the thread of an RPC runtime some act at once instead.
\<close>

section \<open>Lean values\<close>

text \<open>
  What a call returns. A pair is a constructor object with two fields, which is also how
  \<^verbatim>\<open>RawCallOutcome.ok\<close> lies in memory; \<open>LCtor1\<close> is an object of a second
  constructor with one field. \<open>LBytesRef\<close> is an external object around shared bytes,
  \<open>LObject\<close> a Lean object that is handed back as it came.
\<close>

datatype (plugins only: size code) lean_value =
    LUnit
  | LBool bool
  | LUInt32 u32
  | LUInt64 u64
  | LString string
  | LBytes bytes
  | LBytesRef bytes
  | LPair lean_value lean_value
  | LCtor1 lean_value
  | LObject obj
  | LRemoteException string string bytes string u32 u8
  | LDiagnostics obj
  | LCounts u64 u64

text \<open>The types of the Lean declarations.\<close>

datatype (plugins only: size code) lean_type = TUnit | TBool | TUInt32 | TUInt64 | TString | TByteArray
  | TBytesRef | TProd lean_type lean_type | TRawCallOutcome | TDiagnostics | TCounts

fun has_type :: "lean_type \<Rightarrow> lean_value \<Rightarrow> bool" where
  "has_type TUnit v = (v = LUnit)"
| "has_type TBool v = (case v of LBool _ \<Rightarrow> True | _ \<Rightarrow> False)"
| "has_type TUInt32 v = (case v of LUInt32 _ \<Rightarrow> True | _ \<Rightarrow> False)"
| "has_type TUInt64 v = (case v of LUInt64 _ \<Rightarrow> True | _ \<Rightarrow> False)"
| "has_type TString v = (case v of LString _ \<Rightarrow> True | _ \<Rightarrow> False)"
| "has_type TByteArray v = (case v of LBytes _ \<Rightarrow> True | LObject _ \<Rightarrow> True | _ \<Rightarrow> False)"
| "has_type TBytesRef v = (case v of LBytesRef _ \<Rightarrow> True | _ \<Rightarrow> False)"
| "has_type (TProd S T) v = (case v of LPair a b \<Rightarrow> has_type S a \<and> has_type T b | _ \<Rightarrow> False)"
| "has_type TRawCallOutcome v = (case v of
      LPair a b \<Rightarrow> has_type TByteArray a \<and> has_type TByteArray b
    | LCtor1 e \<Rightarrow> (case e of LRemoteException _ _ _ _ _ _ \<Rightarrow> True | _ \<Rightarrow> False)
    | _ \<Rightarrow> False)"
| "has_type TDiagnostics v = (case v of LDiagnostics _ \<Rightarrow> True | _ \<Rightarrow> False)"
| "has_type TCounts v = (case v of LCounts _ _ \<Rightarrow> True | _ \<Rightarrow> False)"

text \<open>\<^verbatim>\<open>lean_mk_string(text.c_str())\<close>, and the error of an \<^verbatim>\<open>IO\<close> action.\<close>

definition lean_mk_string :: "string \<Rightarrow> lean_value" where
  "lean_mk_string text = LString (c_str text)"

type_synonym io_result = "string + lean_value"

definition mkIoUserError :: "string \<Rightarrow> io_result" where
  "mkIoUserError message = Inl (c_str message)"

text \<open>An object that should be shared bytes; the pointer in it may be null.\<close>

datatype lean_object = BytesRefObject "bytes option" | OtherObject

definition mkBytesRef :: "bytes option \<Rightarrow> lean_value" where
  "mkBytesRef b = LBytesRef (case b of Some bs \<Rightarrow> bs | None \<Rightarrow> [])"

section \<open>The process\<close>

text \<open>
  Both bridges draw identifiers of runtimes from \<^verbatim>\<open>gNextRuntimeId\<close>. A registry maps
  them to runtimes; a runtime that was taken off its registry lives on while a caller waits
  for it.
\<close>

record ffi_state = registry_state +
  rpcLoops :: "obj \<Rightarrow> loop_state"
  kjRuntimes :: "u64 \<rightharpoonup> obj"
  kjLoops :: "obj \<Rightarrow> kj_loop"

datatype caller = LeanThread | WorkerThread obj

text \<open>
  Where a call stands: it has an answer; it waits for a completion of a runtime and goes on
  with what that carries (\<open>None\<close>: it does not return from that); it waits for the thread of a runtime to end; it stays for ever in
  the code it runs itself; or it has ended the process.
\<close>

datatype ffi_outcome =
    Answered io_result
  | AwaitsKj obj nat "kj_value \<Rightarrow> lean_value"
  | AwaitsRpc obj nat "completion \<Rightarrow> ffi_state \<Rightarrow> io_result option \<times> ffi_state"
  | JoinsKj obj
  | JoinsRpc obj "ffi_state \<Rightarrow> ffi_state"
  | NeverReturns
  | EndsProcess

type_synonym ffi_call = "caller \<Rightarrow> ffi_state \<Rightarrow> ffi_outcome \<times> ffi_state"

definition isWorkerThread :: "caller \<Rightarrow> obj \<Rightarrow> bool" where
  "isWorkerThread c r \<longleftrightarrow> c = WorkerThread r"

definition fails :: "string \<Rightarrow> ffi_state \<Rightarrow> ffi_outcome \<times> ffi_state" where
  "fails message P = (Answered (mkIoUserError message), P)"

definition answers :: "lean_value \<Rightarrow> ffi_state \<Rightarrow> ffi_outcome \<times> ffi_state" where
  "answers v P = (Answered (Inr v), P)"

definition getKjAsyncRuntime :: "u64 \<Rightarrow> ffi_state \<Rightarrow> obj option" where
  "getKjAsyncRuntime runtimeId P = kjRuntimes P runtimeId"

definition unregisterKjAsyncRuntime :: "u64 \<Rightarrow> ffi_state \<Rightarrow> obj option \<times> ffi_state" where
  "unregisterKjAsyncRuntime runtimeId P = (case kjRuntimes P runtimeId of
      None \<Rightarrow> (None, P)
    | Some r \<Rightarrow> (Some r, P\<lparr>kjRuntimes := (kjRuntimes P)(runtimeId := None)\<rparr>))"

definition isKjAsyncRuntimeAlive :: "u64 \<Rightarrow> ffi_state \<Rightarrow> bool" where
  "isKjAsyncRuntimeAlive runtimeId P =
     ((case getKjAsyncRuntime runtimeId P of Some r \<Rightarrow> kj_alive (kjLoops P r) | None \<Rightarrow> False) \<or>
      isRuntimeAlive runtimeId P)"

definition allocateKjAsyncRuntimeIdLocked :: "ffi_state \<Rightarrow> (u64 \<times> u64) option" where
  "allocateKjAsyncRuntimeIdLocked P = alloc_nonzero (kjRuntimes P) (nextRuntimeId P)"

section \<open>Waiting\<close>

text \<open>A call that waits goes on when what it waits for has come.\<close>

fun continue_call :: "ffi_outcome \<Rightarrow> ffi_state \<Rightarrow> ffi_outcome \<times> ffi_state" where
  "continue_call (AwaitsKj r h read) P =
     (let c = kj_completions (kjLoops P r) ! h in
      if \<not> kc_done c then (AwaitsKj r h read, P)
      else if kc_ok c then answers (read (kc_payload c)) P
      else fails (kc_error c) P)"
| "continue_call (AwaitsRpc r h k) P =
     (let c = completions (rpcLoops P r) ! h in
      if \<not> is_done c then (AwaitsRpc r h k, P)
      else case k c P of (Some x, Q) \<Rightarrow> (Answered x, Q) | (None, Q) \<Rightarrow> (NeverReturns, Q))"
| "continue_call (JoinsKj r) P =
     (if kj_phase (kjLoops P r) = KjExited then answers LUnit P else (JoinsKj r, P))"
| "continue_call (JoinsRpc r k) P =
     (if phase (rpcLoops P r) = Exited \<or> phase (rpcLoops P r) = Aborted then answers LUnit (k P)
      else (JoinsRpc r k, P))"
| "continue_call other P = (other, P)"

section \<open>Calls to a KJ runtime\<close>

definition invalid_kj_handle :: string where
  "invalid_kj_handle = ''Capnp.KjAsync runtime handle is invalid or already released''"

definition kj_ask :: "obj \<Rightarrow> (kj_loop \<Rightarrow> nat \<times> kj_loop) \<Rightarrow> (kj_value \<Rightarrow> lean_value) \<Rightarrow> ffi_state
    \<Rightarrow> ffi_outcome \<times> ffi_state" where
  "kj_ask r enq read P = (let (h, l) = enq (kjLoops P r)
     in (AwaitsKj r h read, P\<lparr>kjLoops := (kjLoops P)(r := l)\<rparr>))"

text \<open>The arguments are converted once the runtime was found.\<close>

definition kj_call :: "u64 \<Rightarrow> string + (kj_loop \<Rightarrow> nat \<times> kj_loop) \<Rightarrow> (kj_value \<Rightarrow> lean_value) \<Rightarrow> ffi_call" where
  "kj_call runtimeId asked read c P = (case getKjAsyncRuntime runtimeId P of
      None \<Rightarrow> fails invalid_kj_handle P
    | Some r \<Rightarrow> (case asked of
        Inl what \<Rightarrow> fails what P
      | Inr enq \<Rightarrow> kj_ask r enq read P))"

text \<open>The functions that also serve RPC runtimes; \<open>rpc\<close> is what they do there.\<close>

definition kj_or_rpc_call :: "u64 \<Rightarrow> (kj_loop \<Rightarrow> nat \<times> kj_loop) \<Rightarrow> (kj_value \<Rightarrow> lean_value)
    \<Rightarrow> (obj \<Rightarrow> ffi_call) \<Rightarrow> ffi_call" where
  "kj_or_rpc_call runtimeId enq read rpc c P = (case getKjAsyncRuntime runtimeId P of
      Some r \<Rightarrow> kj_ask r enq read P
    | None \<Rightarrow> (case getRuntime runtimeId P of
        Some r \<Rightarrow> rpc r c P
      | None \<Rightarrow> fails invalid_kj_handle P))"

text \<open>What the bridge's own \<^verbatim>\<open>describeKjException\<close> reads of an exception the RPC
  runtime threw.\<close>

definition kj_error_of :: "kj_exception \<Rightarrow> kj_error" where
  "kj_error_of x = \<lparr>ke_type = ex_type x, ke_file = Some (ex_file x), ke_line = ex_line x,
     ke_description = Some (ex_description x),
     ke_details = (case ex_detail x of None \<Rightarrow> [] | Some d \<Rightarrow> [(1, d)])\<rparr>"

section \<open>Calls to an RPC runtime\<close>

definition invalid_rpc_handle :: string where
  "invalid_rpc_handle = ''Capnp.Rpc runtime handle is invalid or already released''"

definition rpc_ask :: "obj \<Rightarrow> (loop_state \<Rightarrow> nat \<times> loop_state)
    \<Rightarrow> (completion \<Rightarrow> ffi_state \<Rightarrow> io_result option \<times> ffi_state) \<Rightarrow> ffi_state \<Rightarrow> ffi_outcome \<times> ffi_state" where
  "rpc_ask r enq k P = (let (h, l) = enq (rpcLoops P r)
     in (AwaitsRpc r h k, P\<lparr>rpcLoops := (rpcLoops P)(r := l)\<rparr>))"

definition rpc_reply :: "(completion_value \<Rightarrow> lean_value) \<Rightarrow> completion \<Rightarrow> ffi_state
    \<Rightarrow> io_result option \<times> ffi_state" where
  "rpc_reply read c P =
     (Some (if is_ok c then Inr (read (payload c)) else mkIoUserError (error_text c)), P)"

definition rpc_call_or :: "string \<Rightarrow> u64 \<Rightarrow> string + (loop_state \<Rightarrow> nat \<times> loop_state)
    \<Rightarrow> (completion_value \<Rightarrow> lean_value) \<Rightarrow> ffi_call" where
  "rpc_call_or invalid runtimeId asked read c P = (case getRuntime runtimeId P of
      None \<Rightarrow> fails invalid P
    | Some r \<Rightarrow> (case asked of
        Inl what \<Rightarrow> fails what P
      | Inr enq \<Rightarrow> rpc_ask r enq (rpc_reply read) P))"

definition rpc_call :: "u64 \<Rightarrow> string + (loop_state \<Rightarrow> nat \<times> loop_state)
    \<Rightarrow> (completion_value \<Rightarrow> lean_value) \<Rightarrow> ffi_call" where
  "rpc_call = rpc_call_or invalid_rpc_handle"

text \<open>An operation the thread of the runtime runs itself, and what the handlers around it make
  of an exception. \<open>describe\<close> is the bridge's description of one of KJ's.\<close>

definition caught_text :: "(kj_exception \<Rightarrow> string) \<Rightarrow> string \<Rightarrow> exn \<Rightarrow> string" where
  "caught_text describe unknown e = (case e of KjEx x \<Rightarrow> describe x | StdEx what \<Rightarrow> what | OtherEx \<Rightarrow> unknown)"

definition rpc_inline :: "(kj_exception \<Rightarrow> string) \<Rightarrow> string \<Rightarrow> obj
    \<Rightarrow> (loop_state \<Rightarrow> (exn, 'a) outcome \<times> rt_state) \<Rightarrow> ('a \<Rightarrow> lean_value) \<Rightarrow> ffi_state
    \<Rightarrow> ffi_outcome \<times> ffi_state" where
  "rpc_inline describe unknown r act read P =
     (let l = rpcLoops P r; (a, s) = act l; Q = P\<lparr>rpcLoops := (rpcLoops P)(r := l\<lparr>rt := s\<rparr>)\<rparr>
      in case a of
        Ret v \<Rightarrow> answers (read v) Q
      | Throw e \<Rightarrow> fails (caught_text describe unknown e) Q
      | Hang \<Rightarrow> (NeverReturns, Q))"

text \<open>The functions with both ways.\<close>

definition rpc_inline_or_ask :: "(kj_exception \<Rightarrow> string) \<Rightarrow> string
    \<Rightarrow> (loop_state \<Rightarrow> (exn, 'a) outcome \<times> rt_state) \<Rightarrow> ('a \<Rightarrow> lean_value)
    \<Rightarrow> (loop_state \<Rightarrow> nat \<times> loop_state) \<Rightarrow> (completion_value \<Rightarrow> lean_value) \<Rightarrow> obj \<Rightarrow> ffi_call" where
  "rpc_inline_or_ask describe unknown act read enq read' r c P =
     (if isWorkerThread c r then rpc_inline describe unknown r act read P
      else rpc_ask r enq (rpc_reply read') P)"

definition rpc_inline_call :: "string \<Rightarrow> u64 \<Rightarrow> (loop_state \<Rightarrow> (exn, 'a) outcome \<times> rt_state) \<Rightarrow> ('a \<Rightarrow> lean_value)
    \<Rightarrow> (loop_state \<Rightarrow> nat \<times> loop_state) \<Rightarrow> (completion_value \<Rightarrow> lean_value) \<Rightarrow> ffi_call" where
  "rpc_inline_call unknown runtimeId act read enq read' c P = (case getRuntime runtimeId P of
      None \<Rightarrow> fails invalid_rpc_handle P
    | Some r \<Rightarrow> rpc_inline_or_ask describeKjException unknown act read enq read' r c P)"

definition on_rt :: "(rt_state \<Rightarrow> (exn, 'a) outcome \<times> rt_state) \<Rightarrow> loop_state \<Rightarrow> (exn, 'a) outcome \<times> rt_state" where
  "on_rt m l = m (rt l)"

text \<open>\<open>ioProvider_\<close> is set while the loop runs.\<close>

definition with_io_provider :: "string \<Rightarrow> (rt_state \<Rightarrow> (exn, 'a) outcome \<times> rt_state)
    \<Rightarrow> loop_state \<Rightarrow> (exn, 'a) outcome \<times> rt_state" where
  "with_io_provider message m l =
     (if phase l = Running \<or> phase l = Blocked then m (rt l) else (Throw (StdEx message), rt l))"

text \<open>\<^verbatim>\<open>shutdown\<close>: only the first call joins the thread.\<close>

definition rpc_shutdown :: "obj \<Rightarrow> (ffi_state \<Rightarrow> ffi_state) \<Rightarrow> ffi_state \<Rightarrow> ffi_outcome \<times> ffi_state" where
  "rpc_shutdown r k P =
     (if stopping (rpcLoops P r) then answers LUnit (k P)
      else (JoinsRpc r k, P\<lparr>rpcLoops := (rpcLoops P)(r := Queue.shutdown (rpcLoops P r))\<rparr>))"

section \<open>What completions of an RPC runtime carry\<close>

text \<open>
  The C++ code knows the completion's struct; a value of another kind does not occur, and the
  readers make nothing of it.
\<close>

definition lean_pair :: "u32 \<times> u32 \<Rightarrow> lean_value" where
  "lean_pair p = LPair (LUInt32 (fst p)) (LUInt32 (snd p))"

definition lean_optional_string :: "string option \<Rightarrow> lean_value" where
  "lean_optional_string v = LPair (LBool (v \<noteq> None)) (lean_mk_string (case v of Some t \<Rightarrow> t | None \<Rightarrow> []))"

definition read_rpc_unit :: "completion_value \<Rightarrow> lean_value" where
  "read_rpc_unit _ = LUnit"

definition read_target :: "completion_value \<Rightarrow> lean_value" where
  "read_target v = (case v of TargetIdValue t \<Rightarrow> LUInt32 t | _ \<Rightarrow> LUnit)"

definition read_kj_promise :: "completion_value \<Rightarrow> lean_value" where
  "read_kj_promise v = (case v of KjPromiseIdValue p \<Rightarrow> LUInt32 p | _ \<Rightarrow> LUnit)"

definition read_uint64 :: "completion_value \<Rightarrow> lean_value" where
  "read_uint64 v = (case v of UInt64Value n \<Rightarrow> LUInt64 n | _ \<Rightarrow> LUnit)"

definition read_count32 :: "completion_value \<Rightarrow> lean_value" where
  "read_count32 v = (case v of UInt64Value n \<Rightarrow> LUInt32 (ucast n) | _ \<Rightarrow> LUnit)"

definition read_flag :: "completion_value \<Rightarrow> lean_value" where
  "read_flag v = (case v of UInt64Value n \<Rightarrow> LBool (n \<noteq> 0) | _ \<Rightarrow> LUnit)"

definition read_rpc_bool :: "completion_value \<Rightarrow> lean_value" where
  "read_rpc_bool v = (case v of BoolValue b \<Rightarrow> LBool b | _ \<Rightarrow> LUnit)"

definition read_rpc_optional_string :: "completion_value \<Rightarrow> lean_value" where
  "read_rpc_optional_string v = (case v of
      OptionalStringValue b t \<Rightarrow> LPair (LBool b) (lean_mk_string t) | _ \<Rightarrow> LUnit)"

definition read_rpc_pair :: "completion_value \<Rightarrow> lean_value" where
  "read_rpc_pair v = (case v of PairValue i j \<Rightarrow> LPair (LUInt32 i) (LUInt32 j) | _ \<Rightarrow> LUnit)"

text \<open>A descriptor that is not there is -1.\<close>

definition read_fd :: "completion_value \<Rightarrow> lean_value" where
  "read_fd v = (case v of Int64Value n \<Rightarrow> LUInt32 (if n <s 0 then - 1 else ucast n) | _ \<Rightarrow> LUnit)"

definition read_optional_fd :: "completion_value \<Rightarrow> lean_value" where
  "read_optional_fd v = (case v of
      Int64Value n \<Rightarrow> LPair (LBool (\<not> n <s 0)) (LUInt32 (if n <s 0 then 0 else ucast n)) | _ \<Rightarrow> LUnit)"

end
