(* ===== verification/Kj_Exports.thy ===== *)
theory Kj_Exports
  imports Ffi
begin

text \<open>
  The functions \<^verbatim>\<open>ffi/kj_async_bridge.cpp\<close> exports to Lean, one definition each,
  with the arguments of the C++ function: what it queues on the runtime and how it reads the
  completion. Some of them also serve RPC runtimes.
\<close>

section \<open>What completions carry\<close>

text \<open>
  The C++ code knows the completion's struct; a value of another kind does not occur, and the
  readers make nothing of it.
\<close>

definition read_unit :: "kj_value \<Rightarrow> lean_value" where
  "read_unit _ = LUnit"

definition read_promise_id :: "kj_value \<Rightarrow> lean_value" where
  "read_promise_id v = (case v of PromiseIdResult i \<Rightarrow> LUInt32 i | _ \<Rightarrow> LUnit)"

definition read_handle :: "kj_value \<Rightarrow> lean_value" where
  "read_handle v = (case v of HandleResult i \<Rightarrow> LUInt32 i | _ \<Rightarrow> LUnit)"

definition read_uint32 :: "kj_value \<Rightarrow> lean_value" where
  "read_uint32 v = (case v of UInt32Result n \<Rightarrow> LUInt32 n | _ \<Rightarrow> LUnit)"

definition read_bool :: "kj_value \<Rightarrow> lean_value" where
  "read_bool v = (case v of BoolResult b \<Rightarrow> LBool b | _ \<Rightarrow> LUnit)"

definition read_bytes_ref :: "kj_value \<Rightarrow> lean_value" where
  "read_bytes_ref v = (case v of BytesResult b \<Rightarrow> mkBytesRef b | _ \<Rightarrow> LUnit)"

definition read_pair :: "kj_value \<Rightarrow> lean_value" where
  "read_pair v = (case v of HandlePairResult i j \<Rightarrow> LPair (LUInt32 i) (LUInt32 j) | _ \<Rightarrow> LUnit)"

definition read_optional_uint32 :: "kj_value \<Rightarrow> lean_value" where
  "read_optional_uint32 v = (case v of
      OptionalUInt32Result b n \<Rightarrow> LPair (LBool b) (LUInt32 n) | _ \<Rightarrow> LUnit)"

definition read_optional_string :: "kj_value \<Rightarrow> lean_value" where
  "read_optional_string v = (case v of
      OptionalStringResult b t \<Rightarrow> LPair (LBool b) (lean_mk_string t) | _ \<Rightarrow> LUnit)"

definition read_datagram :: "kj_value \<Rightarrow> lean_value" where
  "read_datagram v = (case v of
      DatagramResult src bs \<Rightarrow> LPair (lean_mk_string src) (LBytesRef bs) | _ \<Rightarrow> LUnit)"

definition read_response :: "kj_value \<Rightarrow> lean_value" where
  "read_response v = (case v of
      HttpResponseResult r \<Rightarrow> LPair (LUInt32 (res_statusCode r)) (LBytes (res_body r)) | _ \<Rightarrow> LUnit)"

definition read_response_ref :: "kj_value \<Rightarrow> lean_value" where
  "read_response_ref v = (case v of
      HttpResponseResult r \<Rightarrow> LPair (LUInt32 (res_statusCode r)) (LBytesRef (res_body r)) | _ \<Rightarrow> LUnit)"

definition lean_full_response :: "http_result \<Rightarrow> lean_value \<Rightarrow> lean_value" where
  "lean_full_response r body = LPair (LUInt32 (res_statusCode r))
     (LPair (lean_mk_string (res_statusText r)) (LPair (LBytes (res_headers r)) body))"

definition read_full_response :: "kj_value \<Rightarrow> lean_value" where
  "read_full_response v = (case v of
      HttpResponseResult r \<Rightarrow> lean_full_response r (LBytes (res_body r)) | _ \<Rightarrow> LUnit)"

definition read_full_response_ref :: "kj_value \<Rightarrow> lean_value" where
  "read_full_response_ref v = (case v of
      HttpResponseResult r \<Rightarrow> lean_full_response r (LBytesRef (res_body r)) | _ \<Rightarrow> LUnit)"

definition read_streaming_response :: "kj_value \<Rightarrow> lean_value" where
  "read_streaming_response v = (case v of
      HttpResponseResult r \<Rightarrow> lean_full_response r (LUInt32 (res_bodyHandle r)) | _ \<Rightarrow> LUnit)"

definition read_server_request :: "kj_value \<Rightarrow> lean_value" where
  "read_server_request v = (case v of
      ServerRequestResult b bs \<Rightarrow> LPair (LBool b) (LBytes bs) | _ \<Rightarrow> LUnit)"

definition read_message :: "kj_value \<Rightarrow> lean_value" where
  "read_message v = (case v of
      MessageResult m \<Rightarrow> LPair (LUInt32 (ucast (wm_tag m))) (LPair (LUInt32 (ucast (wm_closeCode m)))
        (LPair (lean_mk_string (wm_text m)) (LBytesRef (wm_bytes m)))) | _ \<Rightarrow> LUnit)"

section \<open>Shared bytes\<close>

fun getBytesRefDataOrThrow :: "lean_object \<Rightarrow> string + bytes" where
  "getBytesRefDataOrThrow (BytesRefObject b) = Inr (case b of Some bs \<Rightarrow> bs | None \<Rightarrow> [])"
| "getBytesRefDataOrThrow OtherObject = Inl ''invalid Capnp.KjAsync.BytesRef object''"

definition kj_async_bytes_ref_of_byte_array :: "bytes \<Rightarrow> ffi_call" where
  "kj_async_bytes_ref_of_byte_array bs c = answers (mkBytesRef (Some bs))"

definition kj_async_bytes_ref_to_byte_array :: "lean_object \<Rightarrow> ffi_call" where
  "kj_async_bytes_ref_to_byte_array bytesRef c = (case getBytesRefDataOrThrow bytesRef of
      Inl what \<Rightarrow> fails what | Inr bs \<Rightarrow> answers (LBytes bs))"

definition kj_async_bytes_ref_size :: "lean_object \<Rightarrow> ffi_call" where
  "kj_async_bytes_ref_size bytesRef c = (case getBytesRefDataOrThrow bytesRef of
      Inl what \<Rightarrow> fails what | Inr bs \<Rightarrow> answers (LUInt64 (of_nat (length bs))))"

section \<open>Runtimes\<close>

text \<open>\<open>setup\<close> is what starting the thread throws, if it does; \<open>r\<close> is the new runtime.\<close>

definition kj_async_runtime_new :: "kexn option \<Rightarrow> obj \<Rightarrow> ffi_call" where
  "kj_async_runtime_new setup r c P = (case KjAsyncRuntimeLoop setup of
      ProcessTerminates \<Rightarrow> (EndsProcess, P)
    | Constructed l \<Rightarrow> (case allocateKjAsyncRuntimeIdLocked P of
        None \<Rightarrow> (NeverReturns, P)
      | Some (i, nxt) \<Rightarrow> answers (LUInt64 i) (P\<lparr>nextRuntimeId := nxt,
          kjRuntimes := (kjRuntimes P)(i \<mapsto> r), kjLoops := (kjLoops P)(r := l)\<rparr>)))"

definition kj_async_runtime_release :: "u64 \<Rightarrow> ffi_call" where
  "kj_async_runtime_release runtimeId c P = (case unregisterKjAsyncRuntime runtimeId P of
      (Some r, Q) \<Rightarrow> (JoinsKj r, Q\<lparr>kjLoops := (kjLoops Q)(r := kj_shutdown (kjLoops Q r))\<rparr>)
    | (None, Q) \<Rightarrow> (case getRuntime runtimeId Q of
        None \<Rightarrow> answers LUnit Q
      | Some r \<Rightarrow>
          if isWorkerThread c r
          then fails ''Capnp.KjAsync runtime shutdown is not allowed from the Capnp.Rpc worker thread'' Q
          else rpc_shutdown r id (snd (unregisterRuntime runtimeId Q))))"

definition kj_async_runtime_is_alive :: "u64 \<Rightarrow> ffi_call" where
  "kj_async_runtime_is_alive runtimeId c P = answers (LBool (isKjAsyncRuntimeAlive runtimeId P)) P"

text \<open>The functions that serve RPC runtimes act at once on the thread of one.\<close>

definition kj_inline_or_ask :: "string \<Rightarrow> (loop_state \<Rightarrow> (exn, 'a) outcome \<times> rt_state) \<Rightarrow> ('a \<Rightarrow> lean_value)
    \<Rightarrow> (loop_state \<Rightarrow> nat \<times> loop_state) \<Rightarrow> (completion_value \<Rightarrow> lean_value) \<Rightarrow> obj \<Rightarrow> ffi_call" where
  "kj_inline_or_ask = rpc_inline_or_ask (\<lambda>x. kjDescribe (kj_error_of x))"

text \<open>The size a WebSocket message may have when the caller names none; \<open>suggestedMax\<close> is KJ's.\<close>

definition defaultWebSocketReceiveMaxBytes :: "nat \<Rightarrow> u32" where
  "defaultWebSocketReceiveMaxBytes suggestedMax =
     (if suggestedMax > uint32_max then - 1 else of_nat suggestedMax)"

section \<open>TLS, the clock and promises\<close>

definition kj_async_runtime_enable_tls :: "u64 \<Rightarrow> ffi_call" where
  "kj_async_runtime_enable_tls runtimeId =
     kj_call runtimeId (Inr Kj_Queue.enqueueEnableTls) read_unit"

definition kj_async_runtime_configure_tls :: "u64 \<Rightarrow> u32 \<Rightarrow> u32 \<Rightarrow>
    u32 \<Rightarrow> string \<Rightarrow> string \<Rightarrow> string \<Rightarrow> string
    \<Rightarrow> string \<Rightarrow> u64 \<Rightarrow> ffi_call" where
  "kj_async_runtime_configure_tls runtimeId useSystemTrustStore verifyClients minVersionTag
      trustedCertificatesPem certificateChainPem privateKeyPem cipherList curveList
      acceptTimeoutNanos =
     kj_call runtimeId (Inr (Kj_Queue.enqueueConfigureTls useSystemTrustStore verifyClients
         minVersionTag (c_str trustedCertificatesPem) (c_str certificateChainPem) (c_str
         privateKeyPem) (c_str cipherList) (c_str curveList) acceptTimeoutNanos)) read_unit"

definition kj_async_runtime_sleep_nanos_start :: "u64 \<Rightarrow> u64 \<Rightarrow> ffi_call"
    where
  "kj_async_runtime_sleep_nanos_start runtimeId delayNanos =
     kj_or_rpc_call runtimeId (Kj_Queue.enqueueSleepNanos delayNanos) read_promise_id
     (kj_inline_or_ask
       ''unknown exception in capnp_lean_kj_async_runtime_sleep_nanos_start''
       (with_io_provider ''RPC runtime is not ready for KJ async sleep''
           (Promises.kjAsyncSleepNanosStart delayNanos)) LUInt32
       (Queue.enqueueKjAsyncSleepNanosStart delayNanos) read_kj_promise)"

definition kj_async_runtime_promise_await :: "u64 \<Rightarrow> u32 \<Rightarrow> ffi_call" where
  "kj_async_runtime_promise_await runtimeId promiseId =
     kj_or_rpc_call runtimeId (Kj_Queue.enqueueAwaitPromise promiseId) read_unit
     (\<lambda>r c P.
       if isWorkerThread c r
       then fails ''Capnp.KjAsync promise await is not allowed from the Capnp.Rpc worker thread'' P
       else rpc_ask r (Queue.enqueueKjAsyncPromiseAwait promiseId) (rpc_reply read_rpc_unit) P)"

definition kj_async_runtime_promise_cancel :: "u64 \<Rightarrow> u32 \<Rightarrow> ffi_call" where
  "kj_async_runtime_promise_cancel runtimeId promiseId =
     kj_or_rpc_call runtimeId (Kj_Queue.enqueueCancelPromise promiseId) read_unit
     (kj_inline_or_ask
       ''unknown exception in capnp_lean_kj_async_runtime_promise_cancel''
       (on_rt (cancelKjAsyncPromise promiseId)) (\<lambda>_. LUnit)
       (Queue.enqueueKjAsyncPromiseCancel promiseId) read_rpc_unit)"

definition kj_async_runtime_promise_release :: "u64 \<Rightarrow> u32 \<Rightarrow> ffi_call" where
  "kj_async_runtime_promise_release runtimeId promiseId =
     kj_or_rpc_call runtimeId (Kj_Queue.enqueueReleasePromise promiseId) read_unit
     (kj_inline_or_ask
       ''unknown exception in capnp_lean_kj_async_runtime_promise_release''
       (on_rt (releaseKjAsyncPromise promiseId)) (\<lambda>_. LUnit)
       (Queue.enqueueKjAsyncPromiseRelease promiseId) read_rpc_unit)"

section \<open>Listeners and connections\<close>

definition kj_async_runtime_listen :: "u64 \<Rightarrow> string \<Rightarrow> u32 \<Rightarrow>
    ffi_call" where
  "kj_async_runtime_listen runtimeId address portHint =
     kj_call runtimeId (Inr (Kj_Queue.enqueueListen (c_str address) portHint)) read_handle"

definition kj_async_runtime_release_listener :: "u64 \<Rightarrow> u32 \<Rightarrow> ffi_call" where
  "kj_async_runtime_release_listener runtimeId listenerId =
     kj_call runtimeId (Inr (Kj_Queue.enqueueReleaseListener listenerId)) read_unit"

definition kj_async_runtime_listener_accept :: "u64 \<Rightarrow> u32 \<Rightarrow> ffi_call" where
  "kj_async_runtime_listener_accept runtimeId listenerId =
     kj_call runtimeId (Inr (Kj_Queue.enqueueAccept listenerId)) read_handle"

definition kj_async_runtime_listener_accept_start :: "u64 \<Rightarrow> u32 \<Rightarrow> ffi_call"
    where
  "kj_async_runtime_listener_accept_start runtimeId listenerId =
     kj_call runtimeId (Inr (Kj_Queue.enqueueAcceptStart listenerId)) read_promise_id"

definition kj_async_runtime_connect :: "u64 \<Rightarrow> string \<Rightarrow> u32 \<Rightarrow>
    ffi_call" where
  "kj_async_runtime_connect runtimeId address portHint =
     kj_call runtimeId (Inr (Kj_Queue.enqueueConnect (c_str address) portHint)) read_handle"

definition kj_async_runtime_connect_start :: "u64 \<Rightarrow> string \<Rightarrow> u32
    \<Rightarrow> ffi_call" where
  "kj_async_runtime_connect_start runtimeId address portHint =
     kj_call runtimeId (Inr (Kj_Queue.enqueueConnectStart (c_str address) portHint))
         read_promise_id"

definition kj_async_runtime_parse_address :: "u64 \<Rightarrow> string \<Rightarrow> u32
    \<Rightarrow> ffi_call" where
  "kj_async_runtime_parse_address runtimeId address portHint =
     kj_call runtimeId (Inr (Kj_Queue.enqueueParseAddress (c_str address) portHint)) read_handle"

definition kj_async_runtime_release_network_address :: "u64 \<Rightarrow> u32 \<Rightarrow>
    ffi_call" where
  "kj_async_runtime_release_network_address runtimeId addressId =
     kj_call runtimeId (Inr (Kj_Queue.enqueueReleaseNetworkAddress addressId)) read_unit"

definition kj_async_runtime_network_address_to_string :: "u64 \<Rightarrow> u32 \<Rightarrow>
    ffi_call" where
  "kj_async_runtime_network_address_to_string runtimeId addressId =
     kj_call runtimeId (Inr (Kj_Queue.enqueueNetworkAddressToString addressId))
         read_optional_string"

definition kj_async_runtime_network_address_clone :: "u64 \<Rightarrow> u32 \<Rightarrow> ffi_call"
    where
  "kj_async_runtime_network_address_clone runtimeId addressId =
     kj_call runtimeId (Inr (Kj_Queue.enqueueNetworkAddressClone addressId)) read_handle"

definition kj_async_runtime_network_address_connect :: "u64 \<Rightarrow> u32 \<Rightarrow>
    ffi_call" where
  "kj_async_runtime_network_address_connect runtimeId addressId =
     kj_call runtimeId (Inr (Kj_Queue.enqueueNetworkAddressConnect addressId)) read_handle"

definition kj_async_runtime_network_address_connect_start :: "u64 \<Rightarrow> u32 \<Rightarrow>
    ffi_call" where
  "kj_async_runtime_network_address_connect_start runtimeId addressId =
     kj_call runtimeId (Inr (Kj_Queue.enqueueNetworkAddressConnectStart addressId)) read_promise_id"

definition kj_async_runtime_network_address_listen :: "u64 \<Rightarrow> u32 \<Rightarrow> ffi_call"
    where
  "kj_async_runtime_network_address_listen runtimeId addressId =
     kj_call runtimeId (Inr (Kj_Queue.enqueueNetworkAddressListen addressId)) read_handle"

definition kj_async_runtime_network_address_bind_datagram_port :: "u64 \<Rightarrow> u32
    \<Rightarrow> ffi_call" where
  "kj_async_runtime_network_address_bind_datagram_port runtimeId addressId =
     kj_call runtimeId (Inr (Kj_Queue.enqueueNetworkAddressBindDatagramPort addressId)) read_handle"

definition kj_async_runtime_connection_promise_await :: "u64 \<Rightarrow> u32 \<Rightarrow>
    ffi_call" where
  "kj_async_runtime_connection_promise_await runtimeId promiseId =
     kj_call runtimeId (Inr (Kj_Queue.enqueueAwaitConnectionPromise promiseId)) read_handle"

definition kj_async_runtime_connection_promise_await_with_timeout :: "u64 \<Rightarrow> u32
    \<Rightarrow> u64 \<Rightarrow> ffi_call" where
  "kj_async_runtime_connection_promise_await_with_timeout runtimeId promiseId timeoutNanos =
     kj_call runtimeId (Inr (Kj_Queue.enqueueAwaitConnectionPromiseWithTimeout promiseId
         timeoutNanos)) read_optional_uint32"

definition kj_async_runtime_connection_promise_cancel :: "u64 \<Rightarrow> u32 \<Rightarrow>
    ffi_call" where
  "kj_async_runtime_connection_promise_cancel runtimeId promiseId =
     kj_call runtimeId (Inr (Kj_Queue.enqueueCancelConnectionPromise promiseId)) read_unit"

definition kj_async_runtime_connection_promise_release :: "u64 \<Rightarrow> u32 \<Rightarrow>
    ffi_call" where
  "kj_async_runtime_connection_promise_release runtimeId promiseId =
     kj_call runtimeId (Inr (Kj_Queue.enqueueReleaseConnectionPromise promiseId)) read_unit"

definition kj_async_runtime_release_connection :: "u64 \<Rightarrow> u32 \<Rightarrow> ffi_call"
    where
  "kj_async_runtime_release_connection runtimeId connectionId =
     kj_or_rpc_call runtimeId (Kj_Queue.enqueueReleaseConnection connectionId) read_unit
     (\<lambda>r _. rpc_ask r (Queue.enqueueReleaseTransport connectionId) (rpc_reply
         read_rpc_unit))"

definition kj_async_runtime_connection_write_ref :: "u64 \<Rightarrow> u32 \<Rightarrow> lean_object
    \<Rightarrow> ffi_call" where
  "kj_async_runtime_connection_write_ref runtimeId connectionId bytesRef =
     kj_call runtimeId (sum_bind (getBytesRefDataOrThrow bytesRef) (\<lambda>b. Inr
         (Kj_Queue.enqueueConnectionWrite connectionId b))) read_unit"

definition kj_async_runtime_connection_write_start_ref :: "u64 \<Rightarrow> u32 \<Rightarrow>
    lean_object \<Rightarrow> ffi_call" where
  "kj_async_runtime_connection_write_start_ref runtimeId connectionId bytesRef =
     kj_call runtimeId (sum_bind (getBytesRefDataOrThrow bytesRef) (\<lambda>b. Inr
         (Kj_Queue.enqueueConnectionWriteStart connectionId b))) read_promise_id"

definition kj_async_runtime_connection_read_ref :: "u64 \<Rightarrow> u32 \<Rightarrow> u32
    \<Rightarrow> u32 \<Rightarrow> ffi_call" where
  "kj_async_runtime_connection_read_ref runtimeId connectionId minBytes maxBytes =
     kj_call runtimeId (Inr (Kj_Queue.enqueueConnectionRead connectionId minBytes maxBytes))
         read_bytes_ref"

definition kj_async_runtime_connection_read_start :: "u64 \<Rightarrow> u32 \<Rightarrow> u32
    \<Rightarrow> u32 \<Rightarrow> ffi_call" where
  "kj_async_runtime_connection_read_start runtimeId connectionId minBytes maxBytes =
     kj_call runtimeId (Inr (Kj_Queue.enqueueConnectionReadStart connectionId minBytes maxBytes))
         read_promise_id"

definition kj_async_runtime_bytes_promise_await_ref :: "u64 \<Rightarrow> u32 \<Rightarrow>
    ffi_call" where
  "kj_async_runtime_bytes_promise_await_ref runtimeId promiseId =
     kj_call runtimeId (Inr (Kj_Queue.enqueueBytesPromiseAwait promiseId)) read_bytes_ref"

definition kj_async_runtime_bytes_promise_cancel :: "u64 \<Rightarrow> u32 \<Rightarrow> ffi_call"
    where
  "kj_async_runtime_bytes_promise_cancel runtimeId promiseId =
     kj_call runtimeId (Inr (Kj_Queue.enqueueBytesPromiseCancel promiseId)) read_unit"

definition kj_async_runtime_bytes_promise_release :: "u64 \<Rightarrow> u32 \<Rightarrow> ffi_call"
    where
  "kj_async_runtime_bytes_promise_release runtimeId promiseId =
     kj_call runtimeId (Inr (Kj_Queue.enqueueBytesPromiseRelease promiseId)) read_unit"

definition kj_async_runtime_connection_shutdown_write :: "u64 \<Rightarrow> u32 \<Rightarrow>
    ffi_call" where
  "kj_async_runtime_connection_shutdown_write runtimeId connectionId =
     kj_call runtimeId (Inr (Kj_Queue.enqueueConnectionShutdownWrite connectionId)) read_unit"

definition kj_async_runtime_connection_shutdown_write_start :: "u64 \<Rightarrow> u32 \<Rightarrow>
    ffi_call" where
  "kj_async_runtime_connection_shutdown_write_start runtimeId connectionId =
     kj_call runtimeId (Inr (Kj_Queue.enqueueConnectionShutdownWriteStart connectionId))
         read_promise_id"

definition kj_async_runtime_promise_then_start :: "u64 \<Rightarrow> u32 \<Rightarrow> u32
    \<Rightarrow> ffi_call" where
  "kj_async_runtime_promise_then_start runtimeId firstPromiseId secondPromiseId =
     kj_or_rpc_call runtimeId (Kj_Queue.enqueuePromiseThenStart firstPromiseId secondPromiseId)
         read_promise_id
     (kj_inline_or_ask
       ''unknown exception in capnp_lean_kj_async_runtime_promise_then_start''
       (on_rt (kjAsyncPromiseThenStart firstPromiseId secondPromiseId)) LUInt32
       (Queue.enqueueKjAsyncPromiseThenStart firstPromiseId secondPromiseId) read_kj_promise)"

definition kj_async_runtime_promise_catch_start :: "u64 \<Rightarrow> u32 \<Rightarrow> u32
    \<Rightarrow> ffi_call" where
  "kj_async_runtime_promise_catch_start runtimeId promiseId fallbackPromiseId =
     kj_or_rpc_call runtimeId (Kj_Queue.enqueuePromiseCatchStart promiseId fallbackPromiseId)
         read_promise_id
     (kj_inline_or_ask
       ''unknown exception in capnp_lean_kj_async_runtime_promise_catch_start''
       (on_rt (kjAsyncPromiseCatchStart promiseId fallbackPromiseId)) LUInt32
       (Queue.enqueueKjAsyncPromiseCatchStart promiseId fallbackPromiseId) read_kj_promise)"

definition kj_async_runtime_promise_all_start :: "u64 \<Rightarrow> bytes \<Rightarrow> ffi_call"
    where
  "kj_async_runtime_promise_all_start runtimeId promiseIds =
     (case decodeUint32Array promiseIds of
      Inl what \<Rightarrow> (\<lambda>_. fails what)
    | Inr ids \<Rightarrow> kj_or_rpc_call runtimeId (Kj_Queue.enqueuePromiseAllStart ids)
        read_promise_id
     (kj_inline_or_ask
       ''unknown exception in capnp_lean_kj_async_runtime_promise_all_start''
       (on_rt (kjAsyncPromiseAllStart ids)) LUInt32
       (Queue.enqueueKjAsyncPromiseAllStart ids) read_kj_promise))"

definition kj_async_runtime_promise_race_start :: "u64 \<Rightarrow> bytes \<Rightarrow> ffi_call"
    where
  "kj_async_runtime_promise_race_start runtimeId promiseIds =
     (case decodeUint32Array promiseIds of
      Inl what \<Rightarrow> (\<lambda>_. fails what)
    | Inr ids \<Rightarrow> kj_or_rpc_call runtimeId (Kj_Queue.enqueuePromiseRaceStart ids)
        read_promise_id
     (kj_inline_or_ask
       ''unknown exception in capnp_lean_kj_async_runtime_promise_race_start''
       (on_rt (kjAsyncPromiseRaceStart ids)) LUInt32
       (Queue.enqueueKjAsyncPromiseRaceStart ids) read_kj_promise))"

definition kj_async_runtime_task_set_new :: "u64 \<Rightarrow> ffi_call" where
  "kj_async_runtime_task_set_new runtimeId =
     kj_or_rpc_call runtimeId Kj_Queue.enqueueTaskSetNew read_handle
     (kj_inline_or_ask
       ''unknown exception in capnp_lean_kj_async_runtime_task_set_new''
       (on_rt kjAsyncTaskSetNew) LUInt32
       (Queue.enqueueKjAsyncTaskSetNew) read_target)"

definition kj_async_runtime_task_set_release :: "u64 \<Rightarrow> u32 \<Rightarrow> ffi_call" where
  "kj_async_runtime_task_set_release runtimeId taskSetId =
     kj_or_rpc_call runtimeId (Kj_Queue.enqueueTaskSetRelease taskSetId) read_unit
     (kj_inline_or_ask
       ''unknown exception in capnp_lean_kj_async_runtime_task_set_release''
       (on_rt (kjAsyncTaskSetRelease taskSetId)) (\<lambda>_. LUnit)
       (Queue.enqueueKjAsyncTaskSetRelease taskSetId) read_rpc_unit)"

definition kj_async_runtime_task_set_add_promise :: "u64 \<Rightarrow> u32 \<Rightarrow> u32
    \<Rightarrow> ffi_call" where
  "kj_async_runtime_task_set_add_promise runtimeId taskSetId promiseId =
     kj_or_rpc_call runtimeId (Kj_Queue.enqueueTaskSetAddPromise taskSetId promiseId) read_unit
     (kj_inline_or_ask
       ''unknown exception in capnp_lean_kj_async_runtime_task_set_add_promise''
       (on_rt (kjAsyncTaskSetAddPromise taskSetId promiseId)) (\<lambda>_. LUnit)
       (Queue.enqueueKjAsyncTaskSetAddPromise taskSetId promiseId) read_rpc_unit)"

definition kj_async_runtime_task_set_clear :: "u64 \<Rightarrow> u32 \<Rightarrow> ffi_call" where
  "kj_async_runtime_task_set_clear runtimeId taskSetId =
     kj_or_rpc_call runtimeId (Kj_Queue.enqueueTaskSetClear taskSetId) read_unit
     (kj_inline_or_ask
       ''unknown exception in capnp_lean_kj_async_runtime_task_set_clear''
       (on_rt (kjAsyncTaskSetClear taskSetId)) (\<lambda>_. LUnit)
       (Queue.enqueueKjAsyncTaskSetClear taskSetId) read_rpc_unit)"

definition kj_async_runtime_task_set_is_empty :: "env \<Rightarrow> u64 \<Rightarrow> u32
    \<Rightarrow> ffi_call" where
  "kj_async_runtime_task_set_is_empty E runtimeId taskSetId =
     kj_or_rpc_call runtimeId (Kj_Queue.enqueueTaskSetIsEmpty taskSetId) read_bool
     (kj_inline_or_ask
       ''unknown exception in capnp_lean_kj_async_runtime_task_set_is_empty''
       (on_rt (kjAsyncTaskSetIsEmpty E taskSetId)) LBool
       (Queue.enqueueKjAsyncTaskSetIsEmpty taskSetId) read_rpc_bool)"

definition kj_async_runtime_task_set_on_empty_start :: "env \<Rightarrow> u64 \<Rightarrow> u32
    \<Rightarrow> ffi_call" where
  "kj_async_runtime_task_set_on_empty_start E runtimeId taskSetId =
     kj_or_rpc_call runtimeId (Kj_Queue.enqueueTaskSetOnEmptyStart taskSetId) read_promise_id
     (kj_inline_or_ask
       ''unknown exception in capnp_lean_kj_async_runtime_task_set_on_empty_start''
       (on_rt (kjAsyncTaskSetOnEmptyStart E taskSetId)) LUInt32
       (Queue.enqueueKjAsyncTaskSetOnEmptyStart taskSetId) read_kj_promise)"

definition kj_async_runtime_task_set_error_count :: "u64 \<Rightarrow> u32 \<Rightarrow> ffi_call"
    where
  "kj_async_runtime_task_set_error_count runtimeId taskSetId =
     kj_or_rpc_call runtimeId (Kj_Queue.enqueueTaskSetErrorCount taskSetId) read_uint32
     (kj_inline_or_ask
       ''unknown exception in capnp_lean_kj_async_runtime_task_set_error_count''
       (on_rt (kjAsyncTaskSetErrorCount taskSetId)) LUInt32
       (Queue.enqueueKjAsyncTaskSetErrorCount taskSetId) read_count32)"

definition kj_async_runtime_task_set_take_last_error :: "u64 \<Rightarrow> u32 \<Rightarrow>
    ffi_call" where
  "kj_async_runtime_task_set_take_last_error runtimeId taskSetId =
     kj_or_rpc_call runtimeId (Kj_Queue.enqueueTaskSetTakeLastError taskSetId) read_optional_string
     (kj_inline_or_ask
       ''unknown exception in capnp_lean_kj_async_runtime_task_set_take_last_error''
       (on_rt (kjAsyncTaskSetTakeLastError taskSetId)) lean_optional_string
       (Queue.enqueueKjAsyncTaskSetTakeLastError taskSetId) read_rpc_optional_string)"

definition kj_async_runtime_connection_when_write_disconnected_start :: "u64 \<Rightarrow> u32
    \<Rightarrow> ffi_call" where
  "kj_async_runtime_connection_when_write_disconnected_start runtimeId connectionId =
     kj_call runtimeId (Inr (Kj_Queue.enqueueConnectionWhenWriteDisconnectedStart connectionId))
         read_promise_id"

definition kj_async_runtime_connection_abort_read :: "u64 \<Rightarrow> u32 \<Rightarrow> ffi_call"
    where
  "kj_async_runtime_connection_abort_read runtimeId connectionId =
     kj_call runtimeId (Inr (Kj_Queue.enqueueConnectionAbortRead connectionId)) read_unit"

definition kj_async_runtime_connection_abort_write :: "u64 \<Rightarrow> u32 \<Rightarrow> string
    \<Rightarrow> ffi_call" where
  "kj_async_runtime_connection_abort_write runtimeId connectionId reason =
     kj_call runtimeId (Inr (Kj_Queue.enqueueConnectionAbortWrite connectionId (c_str reason)))
         read_unit"

definition kj_async_runtime_connection_dup_fd :: "u64 \<Rightarrow> u32 \<Rightarrow> ffi_call"
    where
  "kj_async_runtime_connection_dup_fd runtimeId connectionId =
     kj_or_rpc_call runtimeId (Kj_Queue.enqueueConnectionDupFd connectionId) read_optional_uint32
     (\<lambda>r _. rpc_ask r (Queue.enqueueTransportGetFd connectionId) (rpc_reply
         read_optional_fd))"

definition kj_async_runtime_wrap_socket_fd :: "u64 \<Rightarrow> u32 \<Rightarrow> ffi_call" where
  "kj_async_runtime_wrap_socket_fd runtimeId fd =
     kj_or_rpc_call runtimeId (Kj_Queue.enqueueWrapSocketFd fd) read_handle
     (\<lambda>r _. rpc_ask r (Queue.enqueueNewTransportFromFd fd) (rpc_reply read_target))"

definition kj_async_runtime_wrap_socket_fd_take :: "u64 \<Rightarrow> u32 \<Rightarrow> ffi_call"
    where
  "kj_async_runtime_wrap_socket_fd_take runtimeId fd =
     kj_or_rpc_call runtimeId (Kj_Queue.enqueueWrapSocketFdTake fd) read_handle
     (\<lambda>r _. rpc_ask r (Queue.enqueueNewTransportFromFdTake fd) (rpc_reply read_target))"

definition kj_async_runtime_wrap_listen_socket_fd :: "u64 \<Rightarrow> u32 \<Rightarrow> ffi_call"
    where
  "kj_async_runtime_wrap_listen_socket_fd runtimeId fd =
     kj_or_rpc_call runtimeId (Kj_Queue.enqueueWrapListenSocketFd fd) read_handle
     (\<lambda>_ _. fails invalid_kj_handle)"

definition kj_async_runtime_wrap_listen_socket_fd_take :: "u64 \<Rightarrow> u32 \<Rightarrow>
    ffi_call" where
  "kj_async_runtime_wrap_listen_socket_fd_take runtimeId fd =
     kj_or_rpc_call runtimeId (Kj_Queue.enqueueWrapListenSocketFdTake fd) read_handle
     (\<lambda>_ _. fails invalid_kj_handle)"

definition kj_async_runtime_wrap_datagram_socket_fd :: "u64 \<Rightarrow> u32 \<Rightarrow>
    ffi_call" where
  "kj_async_runtime_wrap_datagram_socket_fd runtimeId fd =
     kj_or_rpc_call runtimeId (Kj_Queue.enqueueWrapDatagramSocketFd fd) read_handle
     (\<lambda>_ _. fails invalid_kj_handle)"

definition kj_async_runtime_wrap_datagram_socket_fd_take :: "u64 \<Rightarrow> u32 \<Rightarrow>
    ffi_call" where
  "kj_async_runtime_wrap_datagram_socket_fd_take runtimeId fd =
     kj_or_rpc_call runtimeId (Kj_Queue.enqueueWrapDatagramSocketFdTake fd) read_handle
     (\<lambda>_ _. fails invalid_kj_handle)"

definition kj_async_runtime_new_two_way_pipe :: "u64 \<Rightarrow> ffi_call" where
  "kj_async_runtime_new_two_way_pipe runtimeId =
     kj_or_rpc_call runtimeId Kj_Queue.enqueueNewTwoWayPipe read_pair
     (\<lambda>r _. rpc_ask r Queue.enqueueNewTransportPipe (rpc_reply read_rpc_pair))"

definition kj_async_runtime_new_capability_pipe :: "u64 \<Rightarrow> ffi_call" where
  "kj_async_runtime_new_capability_pipe runtimeId =
     kj_or_rpc_call runtimeId Kj_Queue.enqueueNewCapabilityPipe read_pair
     (\<lambda>r _. rpc_ask r Queue.enqueueNewTransportPipe (rpc_reply read_rpc_pair))"

definition kj_async_runtime_datagram_bind :: "u64 \<Rightarrow> string \<Rightarrow> u32
    \<Rightarrow> ffi_call" where
  "kj_async_runtime_datagram_bind runtimeId address portHint =
     kj_call runtimeId (Inr (Kj_Queue.enqueueDatagramBind (c_str address) portHint)) read_handle"

definition kj_async_runtime_datagram_release_port :: "u64 \<Rightarrow> u32 \<Rightarrow> ffi_call"
    where
  "kj_async_runtime_datagram_release_port runtimeId portId =
     kj_call runtimeId (Inr (Kj_Queue.enqueueDatagramReleasePort portId)) read_unit"

definition kj_async_runtime_datagram_get_port :: "u64 \<Rightarrow> u32 \<Rightarrow> ffi_call"
    where
  "kj_async_runtime_datagram_get_port runtimeId portId =
     kj_call runtimeId (Inr (Kj_Queue.enqueueDatagramGetPort portId)) read_handle"

definition kj_async_runtime_datagram_send_ref :: "u64 \<Rightarrow> u32 \<Rightarrow> string
    \<Rightarrow> u32 \<Rightarrow> lean_object \<Rightarrow> ffi_call" where
  "kj_async_runtime_datagram_send_ref runtimeId portId address portHint bytesRef =
     kj_call runtimeId (sum_bind (getBytesRefDataOrThrow bytesRef) (\<lambda>b. Inr
         (Kj_Queue.enqueueDatagramSend portId (c_str address) portHint b))) read_uint32"

definition kj_async_runtime_datagram_send_start_ref :: "u64 \<Rightarrow> u32 \<Rightarrow> string
    \<Rightarrow> u32 \<Rightarrow> lean_object \<Rightarrow> ffi_call" where
  "kj_async_runtime_datagram_send_start_ref runtimeId portId address portHint bytesRef =
     kj_call runtimeId (sum_bind (getBytesRefDataOrThrow bytesRef) (\<lambda>b. Inr
         (Kj_Queue.enqueueDatagramSendStart portId (c_str address) portHint b))) read_promise_id"

definition kj_async_runtime_uint32_promise_await :: "u64 \<Rightarrow> u32 \<Rightarrow> ffi_call"
    where
  "kj_async_runtime_uint32_promise_await runtimeId promiseId =
     kj_call runtimeId (Inr (Kj_Queue.enqueueUInt32PromiseAwait promiseId)) read_uint32"

definition kj_async_runtime_uint32_promise_cancel :: "u64 \<Rightarrow> u32 \<Rightarrow> ffi_call"
    where
  "kj_async_runtime_uint32_promise_cancel runtimeId promiseId =
     kj_call runtimeId (Inr (Kj_Queue.enqueueUInt32PromiseCancel promiseId)) read_unit"

definition kj_async_runtime_uint32_promise_release :: "u64 \<Rightarrow> u32 \<Rightarrow> ffi_call"
    where
  "kj_async_runtime_uint32_promise_release runtimeId promiseId =
     kj_call runtimeId (Inr (Kj_Queue.enqueueUInt32PromiseRelease promiseId)) read_unit"

definition kj_async_runtime_datagram_receive_ref :: "u64 \<Rightarrow> u32 \<Rightarrow> u32
    \<Rightarrow> ffi_call" where
  "kj_async_runtime_datagram_receive_ref runtimeId portId maxBytes =
     kj_call runtimeId (Inr (Kj_Queue.enqueueDatagramReceive portId maxBytes)) read_datagram"

definition kj_async_runtime_datagram_receive_start :: "u64 \<Rightarrow> u32 \<Rightarrow> u32
    \<Rightarrow> ffi_call" where
  "kj_async_runtime_datagram_receive_start runtimeId portId maxBytes =
     kj_call runtimeId (Inr (Kj_Queue.enqueueDatagramReceiveStart portId maxBytes)) read_promise_id"

definition kj_async_runtime_datagram_receive_promise_await_ref :: "u64 \<Rightarrow> u32
    \<Rightarrow> ffi_call" where
  "kj_async_runtime_datagram_receive_promise_await_ref runtimeId promiseId =
     kj_call runtimeId (Inr (Kj_Queue.enqueueDatagramReceivePromiseAwait promiseId)) read_datagram"

definition kj_async_runtime_datagram_receive_promise_cancel :: "u64 \<Rightarrow> u32 \<Rightarrow>
    ffi_call" where
  "kj_async_runtime_datagram_receive_promise_cancel runtimeId promiseId =
     kj_call runtimeId (Inr (Kj_Queue.enqueueDatagramReceivePromiseCancel promiseId)) read_unit"

definition kj_async_runtime_datagram_receive_promise_release :: "u64 \<Rightarrow> u32 \<Rightarrow>
    ffi_call" where
  "kj_async_runtime_datagram_receive_promise_release runtimeId promiseId =
     kj_call runtimeId (Inr (Kj_Queue.enqueueDatagramReceivePromiseRelease promiseId)) read_unit"

section \<open>HTTP requests\<close>

definition kj_async_runtime_http_request :: "u64 \<Rightarrow> u32 \<Rightarrow> string
    \<Rightarrow> u32 \<Rightarrow> string \<Rightarrow> bytes \<Rightarrow> ffi_call" where
  "kj_async_runtime_http_request runtimeId method address portHint urlPath body =
     kj_call runtimeId (Inr (Kj_Queue.enqueueHttpRequest method (c_str address) portHint (c_str
         urlPath) encodedEmptyHeaderPairs body False (- 1))) read_response"

definition kj_async_runtime_http_request_ref :: "u64 \<Rightarrow> u32 \<Rightarrow> string
    \<Rightarrow> u32 \<Rightarrow> string \<Rightarrow> lean_object \<Rightarrow> ffi_call" where
  "kj_async_runtime_http_request_ref runtimeId method address portHint urlPath bodyRef =
     kj_call runtimeId (sum_bind (getBytesRefDataOrThrow bodyRef) (\<lambda>b. Inr
         (Kj_Queue.enqueueHttpRequest method (c_str address) portHint (c_str urlPath)
         encodedEmptyHeaderPairs b False (- 1)))) read_response_ref"

definition kj_async_runtime_http_request_with_response_limit :: "u64 \<Rightarrow> u32 \<Rightarrow>
    string \<Rightarrow> u32 \<Rightarrow> string \<Rightarrow> bytes \<Rightarrow> u64
    \<Rightarrow> ffi_call" where
  "kj_async_runtime_http_request_with_response_limit runtimeId method address portHint urlPath body
      responseBodyLimit =
     kj_call runtimeId (Inr (Kj_Queue.enqueueHttpRequest method (c_str address) portHint (c_str
         urlPath) encodedEmptyHeaderPairs body False responseBodyLimit)) read_response"

definition kj_async_runtime_http_request_with_response_limit_ref :: "u64 \<Rightarrow> u32
    \<Rightarrow> string \<Rightarrow> u32 \<Rightarrow> string \<Rightarrow> lean_object
    \<Rightarrow> u64 \<Rightarrow> ffi_call" where
  "kj_async_runtime_http_request_with_response_limit_ref runtimeId method address portHint urlPath
      bodyRef responseBodyLimit =
     kj_call runtimeId (sum_bind (getBytesRefDataOrThrow bodyRef) (\<lambda>b. Inr
         (Kj_Queue.enqueueHttpRequest method (c_str address) portHint (c_str urlPath)
         encodedEmptyHeaderPairs b False responseBodyLimit))) read_response_ref"

definition kj_async_runtime_http_request_start :: "u64 \<Rightarrow> u32 \<Rightarrow> string
    \<Rightarrow> u32 \<Rightarrow> string \<Rightarrow> bytes \<Rightarrow> ffi_call" where
  "kj_async_runtime_http_request_start runtimeId method address portHint urlPath body =
     kj_call runtimeId (Inr (Kj_Queue.enqueueHttpRequestStart method (c_str address) portHint (c_str
         urlPath) encodedEmptyHeaderPairs body False (- 1))) read_promise_id"

definition kj_async_runtime_http_request_start_ref :: "u64 \<Rightarrow> u32 \<Rightarrow> string
    \<Rightarrow> u32 \<Rightarrow> string \<Rightarrow> lean_object \<Rightarrow> ffi_call" where
  "kj_async_runtime_http_request_start_ref runtimeId method address portHint urlPath bodyRef =
     kj_call runtimeId (sum_bind (getBytesRefDataOrThrow bodyRef) (\<lambda>b. Inr
         (Kj_Queue.enqueueHttpRequestStart method (c_str address) portHint (c_str urlPath)
         encodedEmptyHeaderPairs b False (- 1)))) read_promise_id"

definition kj_async_runtime_http_request_start_with_response_limit :: "u64 \<Rightarrow> u32
    \<Rightarrow> string \<Rightarrow> u32 \<Rightarrow> string \<Rightarrow> bytes \<Rightarrow>
    u64 \<Rightarrow> ffi_call" where
  "kj_async_runtime_http_request_start_with_response_limit runtimeId method address portHint urlPath
      body responseBodyLimit =
     kj_call runtimeId (Inr (Kj_Queue.enqueueHttpRequestStart method (c_str address) portHint (c_str
         urlPath) encodedEmptyHeaderPairs body False responseBodyLimit)) read_promise_id"

definition kj_async_runtime_http_request_start_with_response_limit_ref :: "u64 \<Rightarrow> u32
    \<Rightarrow> string \<Rightarrow> u32 \<Rightarrow> string \<Rightarrow> lean_object
    \<Rightarrow> u64 \<Rightarrow> ffi_call" where
  "kj_async_runtime_http_request_start_with_response_limit_ref runtimeId method address portHint
      urlPath bodyRef responseBodyLimit =
     kj_call runtimeId (sum_bind (getBytesRefDataOrThrow bodyRef) (\<lambda>b. Inr
         (Kj_Queue.enqueueHttpRequestStart method (c_str address) portHint (c_str urlPath)
         encodedEmptyHeaderPairs b False responseBodyLimit))) read_promise_id"

definition kj_async_runtime_http_response_promise_await :: "u64 \<Rightarrow> u32 \<Rightarrow>
    ffi_call" where
  "kj_async_runtime_http_response_promise_await runtimeId promiseId =
     kj_call runtimeId (Inr (Kj_Queue.enqueueHttpResponsePromiseAwait promiseId)) read_response"

definition kj_async_runtime_http_response_promise_await_ref :: "u64 \<Rightarrow> u32 \<Rightarrow>
    ffi_call" where
  "kj_async_runtime_http_response_promise_await_ref runtimeId promiseId =
     kj_call runtimeId (Inr (Kj_Queue.enqueueHttpResponsePromiseAwait promiseId)) read_response_ref"

definition kj_async_runtime_http_response_promise_cancel :: "u64 \<Rightarrow> u32 \<Rightarrow>
    ffi_call" where
  "kj_async_runtime_http_response_promise_cancel runtimeId promiseId =
     kj_call runtimeId (Inr (Kj_Queue.enqueueHttpResponsePromiseCancel promiseId)) read_unit"

definition kj_async_runtime_http_response_promise_release :: "u64 \<Rightarrow> u32 \<Rightarrow>
    ffi_call" where
  "kj_async_runtime_http_response_promise_release runtimeId promiseId =
     kj_call runtimeId (Inr (Kj_Queue.enqueueHttpResponsePromiseRelease promiseId)) read_unit"

definition kj_async_runtime_http_request_with_headers :: "u64 \<Rightarrow> u32 \<Rightarrow> string
    \<Rightarrow> u32 \<Rightarrow> string \<Rightarrow> bytes \<Rightarrow> bytes \<Rightarrow>
    ffi_call" where
  "kj_async_runtime_http_request_with_headers runtimeId method address portHint urlPath
      requestHeaders body =
     kj_call runtimeId (Inr (Kj_Queue.enqueueHttpRequest method (c_str address) portHint (c_str
         urlPath) requestHeaders body False (- 1))) read_full_response"

definition kj_async_runtime_http_request_with_headers_ref :: "u64 \<Rightarrow> u32 \<Rightarrow>
    string \<Rightarrow> u32 \<Rightarrow> string \<Rightarrow> bytes \<Rightarrow> lean_object
    \<Rightarrow> ffi_call" where
  "kj_async_runtime_http_request_with_headers_ref runtimeId method address portHint urlPath
      requestHeaders bodyRef =
     kj_call runtimeId (sum_bind (getBytesRefDataOrThrow bodyRef) (\<lambda>b. Inr
         (Kj_Queue.enqueueHttpRequest method (c_str address) portHint (c_str urlPath) requestHeaders
         b False (- 1)))) read_full_response_ref"

definition kj_async_runtime_http_request_with_headers_secure :: "u64 \<Rightarrow> u32 \<Rightarrow>
    string \<Rightarrow> u32 \<Rightarrow> string \<Rightarrow> bytes \<Rightarrow> bytes
    \<Rightarrow> ffi_call" where
  "kj_async_runtime_http_request_with_headers_secure runtimeId method address portHint urlPath
      requestHeaders body =
     kj_call runtimeId (Inr (Kj_Queue.enqueueHttpRequest method (c_str address) portHint (c_str
         urlPath) requestHeaders body True (- 1))) read_full_response"

definition kj_async_runtime_http_request_with_headers_secure_ref :: "u64 \<Rightarrow> u32
    \<Rightarrow> string \<Rightarrow> u32 \<Rightarrow> string \<Rightarrow> bytes \<Rightarrow>
    lean_object \<Rightarrow> ffi_call" where
  "kj_async_runtime_http_request_with_headers_secure_ref runtimeId method address portHint urlPath
      requestHeaders bodyRef =
     kj_call runtimeId (sum_bind (getBytesRefDataOrThrow bodyRef) (\<lambda>b. Inr
         (Kj_Queue.enqueueHttpRequest method (c_str address) portHint (c_str urlPath) requestHeaders
         b True (- 1)))) read_full_response_ref"

definition kj_async_runtime_http_request_with_headers_with_response_limit :: "u64 \<Rightarrow> u32
    \<Rightarrow> string \<Rightarrow> u32 \<Rightarrow> string \<Rightarrow> bytes \<Rightarrow>
    bytes \<Rightarrow> u64 \<Rightarrow> ffi_call" where
  "kj_async_runtime_http_request_with_headers_with_response_limit runtimeId method address portHint
      urlPath requestHeaders body responseBodyLimit =
     kj_call runtimeId (Inr (Kj_Queue.enqueueHttpRequest method (c_str address) portHint (c_str
         urlPath) requestHeaders body False responseBodyLimit)) read_full_response"

definition kj_async_runtime_http_request_with_headers_with_response_limit_ref :: "u64 \<Rightarrow>
    u32 \<Rightarrow> string \<Rightarrow> u32 \<Rightarrow> string \<Rightarrow> bytes
    \<Rightarrow> lean_object \<Rightarrow> u64 \<Rightarrow> ffi_call" where
  "kj_async_runtime_http_request_with_headers_with_response_limit_ref runtimeId method address
      portHint urlPath requestHeaders bodyRef responseBodyLimit =
     kj_call runtimeId (sum_bind (getBytesRefDataOrThrow bodyRef) (\<lambda>b. Inr
         (Kj_Queue.enqueueHttpRequest method (c_str address) portHint (c_str urlPath) requestHeaders
         b False responseBodyLimit))) read_full_response_ref"

definition kj_async_runtime_http_request_with_headers_with_response_limit_secure :: "u64
    \<Rightarrow> u32 \<Rightarrow> string \<Rightarrow> u32 \<Rightarrow> string \<Rightarrow>
    bytes \<Rightarrow> bytes \<Rightarrow> u64 \<Rightarrow> ffi_call" where
  "kj_async_runtime_http_request_with_headers_with_response_limit_secure runtimeId method address
      portHint urlPath requestHeaders body responseBodyLimit =
     kj_call runtimeId (Inr (Kj_Queue.enqueueHttpRequest method (c_str address) portHint (c_str
         urlPath) requestHeaders body True responseBodyLimit)) read_full_response"

definition kj_async_runtime_http_request_with_headers_with_response_limit_secure_ref :: "u64
    \<Rightarrow> u32 \<Rightarrow> string \<Rightarrow> u32 \<Rightarrow> string \<Rightarrow>
    bytes \<Rightarrow> lean_object \<Rightarrow> u64 \<Rightarrow> ffi_call" where
  "kj_async_runtime_http_request_with_headers_with_response_limit_secure_ref runtimeId method
      address portHint urlPath requestHeaders bodyRef responseBodyLimit =
     kj_call runtimeId (sum_bind (getBytesRefDataOrThrow bodyRef) (\<lambda>b. Inr
         (Kj_Queue.enqueueHttpRequest method (c_str address) portHint (c_str urlPath) requestHeaders
         b True responseBodyLimit))) read_full_response_ref"

definition kj_async_runtime_http_request_start_with_headers :: "u64 \<Rightarrow> u32 \<Rightarrow>
    string \<Rightarrow> u32 \<Rightarrow> string \<Rightarrow> bytes \<Rightarrow> bytes
    \<Rightarrow> ffi_call" where
  "kj_async_runtime_http_request_start_with_headers runtimeId method address portHint urlPath
      requestHeaders body =
     kj_call runtimeId (Inr (Kj_Queue.enqueueHttpRequestStart method (c_str address) portHint (c_str
         urlPath) requestHeaders body False (- 1))) read_promise_id"

definition kj_async_runtime_http_request_start_with_headers_ref :: "u64 \<Rightarrow> u32
    \<Rightarrow> string \<Rightarrow> u32 \<Rightarrow> string \<Rightarrow> bytes \<Rightarrow>
    lean_object \<Rightarrow> ffi_call" where
  "kj_async_runtime_http_request_start_with_headers_ref runtimeId method address portHint urlPath
      requestHeaders bodyRef =
     kj_call runtimeId (sum_bind (getBytesRefDataOrThrow bodyRef) (\<lambda>b. Inr
         (Kj_Queue.enqueueHttpRequestStart method (c_str address) portHint (c_str urlPath)
         requestHeaders b False (- 1)))) read_promise_id"

definition kj_async_runtime_http_request_start_with_headers_secure :: "u64 \<Rightarrow> u32
    \<Rightarrow> string \<Rightarrow> u32 \<Rightarrow> string \<Rightarrow> bytes \<Rightarrow>
    bytes \<Rightarrow> ffi_call" where
  "kj_async_runtime_http_request_start_with_headers_secure runtimeId method address portHint urlPath
      requestHeaders body =
     kj_call runtimeId (Inr (Kj_Queue.enqueueHttpRequestStart method (c_str address) portHint (c_str
         urlPath) requestHeaders body True (- 1))) read_promise_id"

definition kj_async_runtime_http_request_start_with_headers_secure_ref :: "u64 \<Rightarrow> u32
    \<Rightarrow> string \<Rightarrow> u32 \<Rightarrow> string \<Rightarrow> bytes \<Rightarrow>
    lean_object \<Rightarrow> ffi_call" where
  "kj_async_runtime_http_request_start_with_headers_secure_ref runtimeId method address portHint
      urlPath requestHeaders bodyRef =
     kj_call runtimeId (sum_bind (getBytesRefDataOrThrow bodyRef) (\<lambda>b. Inr
         (Kj_Queue.enqueueHttpRequestStart method (c_str address) portHint (c_str urlPath)
         requestHeaders b True (- 1)))) read_promise_id"

definition kj_async_runtime_http_request_start_streaming_with_headers :: "u64 \<Rightarrow> u32
    \<Rightarrow> string \<Rightarrow> u32 \<Rightarrow> string \<Rightarrow> bytes \<Rightarrow>
    ffi_call" where
  "kj_async_runtime_http_request_start_streaming_with_headers runtimeId method address portHint
      urlPath requestHeaders =
     kj_call runtimeId (Inr (Kj_Queue.enqueueHttpRequestStartStreaming method (c_str address)
         portHint (c_str urlPath) requestHeaders False)) read_pair"

definition kj_async_runtime_http_request_start_streaming_with_headers_secure :: "u64 \<Rightarrow>
    u32 \<Rightarrow> string \<Rightarrow> u32 \<Rightarrow> string \<Rightarrow> bytes
    \<Rightarrow> ffi_call" where
  "kj_async_runtime_http_request_start_streaming_with_headers_secure runtimeId method address
      portHint urlPath requestHeaders =
     kj_call runtimeId (Inr (Kj_Queue.enqueueHttpRequestStartStreaming method (c_str address)
         portHint (c_str urlPath) requestHeaders True)) read_pair"

definition kj_async_runtime_http_request_start_with_headers_with_response_limit :: "u64
    \<Rightarrow> u32 \<Rightarrow> string \<Rightarrow> u32 \<Rightarrow> string \<Rightarrow>
    bytes \<Rightarrow> bytes \<Rightarrow> u64 \<Rightarrow> ffi_call" where
  "kj_async_runtime_http_request_start_with_headers_with_response_limit runtimeId method address
      portHint urlPath requestHeaders body responseBodyLimit =
     kj_call runtimeId (Inr (Kj_Queue.enqueueHttpRequestStart method (c_str address) portHint (c_str
         urlPath) requestHeaders body False responseBodyLimit)) read_promise_id"

definition kj_async_runtime_http_request_start_with_headers_with_response_limit_ref :: "u64
    \<Rightarrow> u32 \<Rightarrow> string \<Rightarrow> u32 \<Rightarrow> string \<Rightarrow>
    bytes \<Rightarrow> lean_object \<Rightarrow> u64 \<Rightarrow> ffi_call" where
  "kj_async_runtime_http_request_start_with_headers_with_response_limit_ref runtimeId method address
      portHint urlPath requestHeaders bodyRef responseBodyLimit =
     kj_call runtimeId (sum_bind (getBytesRefDataOrThrow bodyRef) (\<lambda>b. Inr
         (Kj_Queue.enqueueHttpRequestStart method (c_str address) portHint (c_str urlPath)
         requestHeaders b False responseBodyLimit))) read_promise_id"

definition kj_async_runtime_http_request_start_with_headers_with_response_limit_secure :: "u64
    \<Rightarrow> u32 \<Rightarrow> string \<Rightarrow> u32 \<Rightarrow> string \<Rightarrow>
    bytes \<Rightarrow> bytes \<Rightarrow> u64 \<Rightarrow> ffi_call" where
  "kj_async_runtime_http_request_start_with_headers_with_response_limit_secure runtimeId method
      address portHint urlPath requestHeaders body responseBodyLimit =
     kj_call runtimeId (Inr (Kj_Queue.enqueueHttpRequestStart method (c_str address) portHint (c_str
         urlPath) requestHeaders body True responseBodyLimit)) read_promise_id"

definition kj_async_runtime_http_request_start_with_headers_with_response_limit_secure_ref :: "u64
    \<Rightarrow> u32 \<Rightarrow> string \<Rightarrow> u32 \<Rightarrow> string \<Rightarrow>
    bytes \<Rightarrow> lean_object \<Rightarrow> u64 \<Rightarrow> ffi_call" where
  "kj_async_runtime_http_request_start_with_headers_with_response_limit_secure_ref runtimeId method
      address portHint urlPath requestHeaders bodyRef responseBodyLimit =
     kj_call runtimeId (sum_bind (getBytesRefDataOrThrow bodyRef) (\<lambda>b. Inr
         (Kj_Queue.enqueueHttpRequestStart method (c_str address) portHint (c_str urlPath)
         requestHeaders b True responseBodyLimit))) read_promise_id"

definition kj_async_runtime_http_response_promise_await_with_headers :: "u64 \<Rightarrow> u32
    \<Rightarrow> ffi_call" where
  "kj_async_runtime_http_response_promise_await_with_headers runtimeId promiseId =
     kj_call runtimeId (Inr (Kj_Queue.enqueueHttpResponsePromiseAwait promiseId))
         read_full_response"

definition kj_async_runtime_http_response_promise_await_with_headers_ref :: "u64 \<Rightarrow> u32
    \<Rightarrow> ffi_call" where
  "kj_async_runtime_http_response_promise_await_with_headers_ref runtimeId promiseId =
     kj_call runtimeId (Inr (Kj_Queue.enqueueHttpResponsePromiseAwait promiseId))
         read_full_response_ref"

definition kj_async_runtime_http_response_promise_await_streaming_with_headers :: "u64 \<Rightarrow>
    u32 \<Rightarrow> ffi_call" where
  "kj_async_runtime_http_response_promise_await_streaming_with_headers runtimeId promiseId =
     kj_call runtimeId (Inr (Kj_Queue.enqueueHttpResponsePromiseAwaitStreaming promiseId))
         read_streaming_response"

definition kj_async_runtime_http_request_body_write_start_ref :: "u64 \<Rightarrow> u32
    \<Rightarrow> lean_object \<Rightarrow> ffi_call" where
  "kj_async_runtime_http_request_body_write_start_ref runtimeId requestBodyId bytesRef =
     kj_call runtimeId (sum_bind (getBytesRefDataOrThrow bytesRef) (\<lambda>b. Inr
         (Kj_Queue.enqueueHttpRequestBodyWriteStart requestBodyId b))) read_promise_id"

definition kj_async_runtime_http_request_body_write_ref :: "u64 \<Rightarrow> u32 \<Rightarrow>
    lean_object \<Rightarrow> ffi_call" where
  "kj_async_runtime_http_request_body_write_ref runtimeId requestBodyId bytesRef =
     kj_call runtimeId (sum_bind (getBytesRefDataOrThrow bytesRef) (\<lambda>b. Inr
         (Kj_Queue.enqueueHttpRequestBodyWrite requestBodyId b))) read_unit"

definition kj_async_runtime_http_request_body_finish_start :: "u64 \<Rightarrow> u32 \<Rightarrow>
    ffi_call" where
  "kj_async_runtime_http_request_body_finish_start runtimeId requestBodyId =
     kj_call runtimeId (Inr (Kj_Queue.enqueueHttpRequestBodyFinishStart requestBodyId))
         read_promise_id"

definition kj_async_runtime_http_request_body_finish :: "u64 \<Rightarrow> u32 \<Rightarrow>
    ffi_call" where
  "kj_async_runtime_http_request_body_finish runtimeId requestBodyId =
     kj_call runtimeId (Inr (Kj_Queue.enqueueHttpRequestBodyFinish requestBodyId)) read_unit"

definition kj_async_runtime_http_request_body_release :: "u64 \<Rightarrow> u32 \<Rightarrow>
    ffi_call" where
  "kj_async_runtime_http_request_body_release runtimeId requestBodyId =
     kj_call runtimeId (Inr (Kj_Queue.enqueueHttpRequestBodyRelease requestBodyId)) read_unit"

definition kj_async_runtime_http_response_body_read_start :: "u64 \<Rightarrow> u32 \<Rightarrow>
    u32 \<Rightarrow> u32 \<Rightarrow> ffi_call" where
  "kj_async_runtime_http_response_body_read_start runtimeId responseBodyId minBytes maxBytes =
     kj_call runtimeId (Inr (Kj_Queue.enqueueHttpResponseBodyReadStart responseBodyId minBytes
         maxBytes)) read_promise_id"

definition kj_async_runtime_http_response_body_read_ref :: "u64 \<Rightarrow> u32 \<Rightarrow> u32
    \<Rightarrow> u32 \<Rightarrow> ffi_call" where
  "kj_async_runtime_http_response_body_read_ref runtimeId responseBodyId minBytes maxBytes =
     kj_call runtimeId (Inr (Kj_Queue.enqueueHttpResponseBodyRead responseBodyId minBytes maxBytes))
         read_bytes_ref"

definition kj_async_runtime_http_response_body_release :: "u64 \<Rightarrow> u32 \<Rightarrow>
    ffi_call" where
  "kj_async_runtime_http_response_body_release runtimeId responseBodyId =
     kj_call runtimeId (Inr (Kj_Queue.enqueueHttpResponseBodyRelease responseBodyId)) read_unit"

definition kj_async_runtime_http_server_request_body_read_start :: "u64 \<Rightarrow> u32
    \<Rightarrow> u32 \<Rightarrow> u32 \<Rightarrow> ffi_call" where
  "kj_async_runtime_http_server_request_body_read_start runtimeId requestBodyId minBytes maxBytes =
     kj_call runtimeId (Inr (Kj_Queue.enqueueHttpServerRequestBodyReadStart requestBodyId minBytes
         maxBytes)) read_promise_id"

definition kj_async_runtime_http_server_request_body_read_ref :: "u64 \<Rightarrow> u32
    \<Rightarrow> u32 \<Rightarrow> u32 \<Rightarrow> ffi_call" where
  "kj_async_runtime_http_server_request_body_read_ref runtimeId requestBodyId minBytes maxBytes =
     kj_call runtimeId (Inr (Kj_Queue.enqueueHttpServerRequestBodyRead requestBodyId minBytes
         maxBytes)) read_bytes_ref"

definition kj_async_runtime_http_server_request_body_release :: "u64 \<Rightarrow> u32 \<Rightarrow>
    ffi_call" where
  "kj_async_runtime_http_server_request_body_release runtimeId requestBodyId =
     kj_call runtimeId (Inr (Kj_Queue.enqueueHttpServerRequestBodyRelease requestBodyId)) read_unit"

definition kj_async_runtime_http_server_listen :: "u64 \<Rightarrow> string \<Rightarrow> u32
    \<Rightarrow> ffi_call" where
  "kj_async_runtime_http_server_listen runtimeId address portHint =
     kj_call runtimeId (Inr (Kj_Queue.enqueueHttpServerListen (c_str address) portHint False
         default_config)) read_pair"

definition kj_async_runtime_http_server_listen_with_config :: "u64 \<Rightarrow> string
    \<Rightarrow> u32 \<Rightarrow> u64 \<Rightarrow> u64 \<Rightarrow> u64 \<Rightarrow> u64
    \<Rightarrow> u32 \<Rightarrow> ffi_call" where
  "kj_async_runtime_http_server_listen_with_config runtimeId address portHint headerTimeoutNanos
      pipelineTimeoutNanos canceledUploadGracePeriodNanos canceledUploadGraceBytes
      webSocketCompressionMode =
     kj_call runtimeId (Inr (Kj_Queue.enqueueHttpServerListen (c_str address) portHint False
         \<lparr>cfg_headerTimeoutNanos = headerTimeoutNanos, cfg_pipelineTimeoutNanos =
             pipelineTimeoutNanos, cfg_canceledUploadGracePeriodNanos =
             canceledUploadGracePeriodNanos, cfg_canceledUploadGraceBytes =
             canceledUploadGraceBytes, cfg_webSocketCompressionMode =
             webSocketCompressionMode\<rparr>)) read_pair"

definition kj_async_runtime_http_server_listen_secure :: "u64 \<Rightarrow> string \<Rightarrow> u32
    \<Rightarrow> ffi_call" where
  "kj_async_runtime_http_server_listen_secure runtimeId address portHint =
     kj_call runtimeId (Inr (Kj_Queue.enqueueHttpServerListen (c_str address) portHint True
         default_config)) read_pair"

definition kj_async_runtime_http_server_listen_secure_with_config :: "u64 \<Rightarrow> string
    \<Rightarrow> u32 \<Rightarrow> u64 \<Rightarrow> u64 \<Rightarrow> u64 \<Rightarrow> u64
    \<Rightarrow> u32 \<Rightarrow> ffi_call" where
  "kj_async_runtime_http_server_listen_secure_with_config runtimeId address portHint
      headerTimeoutNanos pipelineTimeoutNanos canceledUploadGracePeriodNanos
      canceledUploadGraceBytes webSocketCompressionMode =
     kj_call runtimeId (Inr (Kj_Queue.enqueueHttpServerListen (c_str address) portHint True
         \<lparr>cfg_headerTimeoutNanos = headerTimeoutNanos, cfg_pipelineTimeoutNanos =
             pipelineTimeoutNanos, cfg_canceledUploadGracePeriodNanos =
             canceledUploadGracePeriodNanos, cfg_canceledUploadGraceBytes =
             canceledUploadGraceBytes, cfg_webSocketCompressionMode =
             webSocketCompressionMode\<rparr>)) read_pair"

definition kj_async_runtime_http_server_release :: "u64 \<Rightarrow> u32 \<Rightarrow> ffi_call"
    where
  "kj_async_runtime_http_server_release runtimeId serverId =
     kj_call runtimeId (Inr (Kj_Queue.enqueueHttpServerRelease serverId)) read_unit"

definition kj_async_runtime_http_server_drain_start :: "u64 \<Rightarrow> u32 \<Rightarrow>
    ffi_call" where
  "kj_async_runtime_http_server_drain_start runtimeId serverId =
     kj_call runtimeId (Inr (Kj_Queue.enqueueHttpServerDrainStart serverId)) read_promise_id"

definition kj_async_runtime_http_server_drain :: "u64 \<Rightarrow> u32 \<Rightarrow> ffi_call"
    where
  "kj_async_runtime_http_server_drain runtimeId serverId =
     kj_call runtimeId (Inr (Kj_Queue.enqueueHttpServerDrain serverId)) read_unit"

definition kj_async_runtime_http_server_poll_request :: "u64 \<Rightarrow> u32 \<Rightarrow>
    ffi_call" where
  "kj_async_runtime_http_server_poll_request runtimeId serverId =
     kj_call runtimeId (Inr (Kj_Queue.enqueueHttpServerPollRequest serverId)) read_server_request"

definition kj_async_runtime_http_server_respond :: "u64 \<Rightarrow> u32 \<Rightarrow> u32
    \<Rightarrow> u32 \<Rightarrow> string \<Rightarrow> bytes \<Rightarrow> bytes \<Rightarrow>
    ffi_call" where
  "kj_async_runtime_http_server_respond runtimeId serverId requestId statusCode statusText
      responseHeaders body =
     kj_call runtimeId (Inr (Kj_Queue.enqueueHttpServerRespond serverId requestId statusCode (c_str
         statusText) responseHeaders body)) read_unit"

definition kj_async_runtime_http_server_respond_ref :: "u64 \<Rightarrow> u32 \<Rightarrow> u32
    \<Rightarrow> u32 \<Rightarrow> string \<Rightarrow> bytes \<Rightarrow> lean_object
    \<Rightarrow> ffi_call" where
  "kj_async_runtime_http_server_respond_ref runtimeId serverId requestId statusCode statusText
      responseHeaders bodyRef =
     kj_call runtimeId (sum_bind (getBytesRefDataOrThrow bodyRef) (\<lambda>b. Inr
         (Kj_Queue.enqueueHttpServerRespond serverId requestId statusCode (c_str statusText)
         responseHeaders b))) read_unit"

definition kj_async_runtime_http_server_respond_websocket :: "u64 \<Rightarrow> u32 \<Rightarrow>
    u32 \<Rightarrow> bytes \<Rightarrow> ffi_call" where
  "kj_async_runtime_http_server_respond_websocket runtimeId serverId requestId responseHeaders =
     kj_call runtimeId (Inr (Kj_Queue.enqueueHttpServerRespondWebSocket serverId requestId
         responseHeaders)) read_handle"

definition kj_async_runtime_http_server_respond_start_streaming :: "u64 \<Rightarrow> u32
    \<Rightarrow> u32 \<Rightarrow> u32 \<Rightarrow> string \<Rightarrow> bytes \<Rightarrow>
    ffi_call" where
  "kj_async_runtime_http_server_respond_start_streaming runtimeId serverId requestId statusCode
      statusText responseHeaders =
     kj_call runtimeId (Inr (Kj_Queue.enqueueHttpServerRespondStartStreaming serverId requestId
         statusCode (c_str statusText) responseHeaders)) read_handle"

definition kj_async_runtime_http_server_response_body_write_start_ref :: "u64 \<Rightarrow> u32
    \<Rightarrow> lean_object \<Rightarrow> ffi_call" where
  "kj_async_runtime_http_server_response_body_write_start_ref runtimeId responseBodyId bytesRef =
     kj_call runtimeId (sum_bind (getBytesRefDataOrThrow bytesRef) (\<lambda>b. Inr
         (Kj_Queue.enqueueHttpServerResponseBodyWriteStart responseBodyId b))) read_promise_id"

definition kj_async_runtime_http_server_response_body_write_ref :: "u64 \<Rightarrow> u32
    \<Rightarrow> lean_object \<Rightarrow> ffi_call" where
  "kj_async_runtime_http_server_response_body_write_ref runtimeId responseBodyId bytesRef =
     kj_call runtimeId (sum_bind (getBytesRefDataOrThrow bytesRef) (\<lambda>b. Inr
         (Kj_Queue.enqueueHttpServerResponseBodyWrite responseBodyId b))) read_unit"

definition kj_async_runtime_http_server_response_body_finish_start :: "u64 \<Rightarrow> u32
    \<Rightarrow> ffi_call" where
  "kj_async_runtime_http_server_response_body_finish_start runtimeId responseBodyId =
     kj_call runtimeId (Inr (Kj_Queue.enqueueHttpServerResponseBodyFinishStart responseBodyId))
         read_promise_id"

definition kj_async_runtime_http_server_response_body_finish :: "u64 \<Rightarrow> u32 \<Rightarrow>
    ffi_call" where
  "kj_async_runtime_http_server_response_body_finish runtimeId responseBodyId =
     kj_call runtimeId (Inr (Kj_Queue.enqueueHttpServerResponseBodyFinish responseBodyId))
         read_unit"

definition kj_async_runtime_http_server_response_body_release :: "u64 \<Rightarrow> u32
    \<Rightarrow> ffi_call" where
  "kj_async_runtime_http_server_response_body_release runtimeId responseBodyId =
     kj_call runtimeId (Inr (Kj_Queue.enqueueHttpServerResponseBodyRelease responseBodyId))
         read_unit"

definition kj_async_runtime_websocket_connect :: "u64 \<Rightarrow> string \<Rightarrow> u32
    \<Rightarrow> string \<Rightarrow> ffi_call" where
  "kj_async_runtime_websocket_connect runtimeId address portHint urlPath =
     kj_call runtimeId (Inr (Kj_Queue.enqueueWebSocketConnect (c_str address) portHint (c_str
         urlPath) encodedEmptyHeaderPairs False)) read_handle"

definition kj_async_runtime_websocket_connect_start :: "u64 \<Rightarrow> string \<Rightarrow> u32
    \<Rightarrow> string \<Rightarrow> ffi_call" where
  "kj_async_runtime_websocket_connect_start runtimeId address portHint urlPath =
     kj_call runtimeId (Inr (Kj_Queue.enqueueWebSocketConnectStart (c_str address) portHint (c_str
         urlPath) encodedEmptyHeaderPairs False)) read_promise_id"

definition kj_async_runtime_websocket_connect_with_headers :: "u64 \<Rightarrow> string
    \<Rightarrow> u32 \<Rightarrow> string \<Rightarrow> bytes \<Rightarrow> ffi_call" where
  "kj_async_runtime_websocket_connect_with_headers runtimeId address portHint urlPath requestHeaders
      =
     kj_call runtimeId (Inr (Kj_Queue.enqueueWebSocketConnect (c_str address) portHint (c_str
         urlPath) requestHeaders False)) read_handle"

definition kj_async_runtime_websocket_connect_with_headers_secure :: "u64 \<Rightarrow> string
    \<Rightarrow> u32 \<Rightarrow> string \<Rightarrow> bytes \<Rightarrow> ffi_call" where
  "kj_async_runtime_websocket_connect_with_headers_secure runtimeId address portHint urlPath
      requestHeaders =
     kj_call runtimeId (Inr (Kj_Queue.enqueueWebSocketConnect (c_str address) portHint (c_str
         urlPath) requestHeaders True)) read_handle"

definition kj_async_runtime_websocket_connect_start_with_headers :: "u64 \<Rightarrow> string
    \<Rightarrow> u32 \<Rightarrow> string \<Rightarrow> bytes \<Rightarrow> ffi_call" where
  "kj_async_runtime_websocket_connect_start_with_headers runtimeId address portHint urlPath
      requestHeaders =
     kj_call runtimeId (Inr (Kj_Queue.enqueueWebSocketConnectStart (c_str address) portHint (c_str
         urlPath) requestHeaders False)) read_promise_id"

definition kj_async_runtime_websocket_connect_start_with_headers_secure :: "u64 \<Rightarrow> string
    \<Rightarrow> u32 \<Rightarrow> string \<Rightarrow> bytes \<Rightarrow> ffi_call" where
  "kj_async_runtime_websocket_connect_start_with_headers_secure runtimeId address portHint urlPath
      requestHeaders =
     kj_call runtimeId (Inr (Kj_Queue.enqueueWebSocketConnectStart (c_str address) portHint (c_str
         urlPath) requestHeaders True)) read_promise_id"

definition kj_async_runtime_websocket_promise_await :: "u64 \<Rightarrow> u32 \<Rightarrow>
    ffi_call" where
  "kj_async_runtime_websocket_promise_await runtimeId promiseId =
     kj_call runtimeId (Inr (Kj_Queue.enqueueWebSocketPromiseAwait promiseId)) read_handle"

definition kj_async_runtime_websocket_promise_cancel :: "u64 \<Rightarrow> u32 \<Rightarrow>
    ffi_call" where
  "kj_async_runtime_websocket_promise_cancel runtimeId promiseId =
     kj_call runtimeId (Inr (Kj_Queue.enqueueWebSocketPromiseCancel promiseId)) read_unit"

definition kj_async_runtime_websocket_promise_release :: "u64 \<Rightarrow> u32 \<Rightarrow>
    ffi_call" where
  "kj_async_runtime_websocket_promise_release runtimeId promiseId =
     kj_call runtimeId (Inr (Kj_Queue.enqueueWebSocketPromiseRelease promiseId)) read_unit"

definition kj_async_runtime_websocket_release :: "u64 \<Rightarrow> u32 \<Rightarrow> ffi_call"
    where
  "kj_async_runtime_websocket_release runtimeId webSocketId =
     kj_call runtimeId (Inr (Kj_Queue.enqueueWebSocketRelease webSocketId)) read_unit"

definition kj_async_runtime_websocket_send_text_start :: "u64 \<Rightarrow> u32 \<Rightarrow> string
    \<Rightarrow> ffi_call" where
  "kj_async_runtime_websocket_send_text_start runtimeId webSocketId text =
     kj_call runtimeId (Inr (Kj_Queue.enqueueWebSocketSendTextStart webSocketId (c_str text)))
         read_promise_id"

definition kj_async_runtime_websocket_send_text :: "u64 \<Rightarrow> u32 \<Rightarrow> string
    \<Rightarrow> ffi_call" where
  "kj_async_runtime_websocket_send_text runtimeId webSocketId text =
     kj_call runtimeId (Inr (Kj_Queue.enqueueWebSocketSendText webSocketId (c_str text))) read_unit"

definition kj_async_runtime_websocket_send_binary_start_ref :: "u64 \<Rightarrow> u32 \<Rightarrow>
    lean_object \<Rightarrow> ffi_call" where
  "kj_async_runtime_websocket_send_binary_start_ref runtimeId webSocketId bytesRef =
     kj_call runtimeId (sum_bind (getBytesRefDataOrThrow bytesRef) (\<lambda>b. Inr
         (Kj_Queue.enqueueWebSocketSendBinaryStart webSocketId b))) read_promise_id"

definition kj_async_runtime_websocket_send_binary_ref :: "u64 \<Rightarrow> u32 \<Rightarrow>
    lean_object \<Rightarrow> ffi_call" where
  "kj_async_runtime_websocket_send_binary_ref runtimeId webSocketId bytesRef =
     kj_call runtimeId (sum_bind (getBytesRefDataOrThrow bytesRef) (\<lambda>b. Inr
         (Kj_Queue.enqueueWebSocketSendBinary webSocketId b))) read_unit"

definition kj_async_runtime_websocket_receive_start :: "nat \<Rightarrow> u64 \<Rightarrow> u32
    \<Rightarrow> ffi_call" where
  "kj_async_runtime_websocket_receive_start suggestedMax runtimeId webSocketId =
     kj_call runtimeId (Inr (Kj_Queue.enqueueWebSocketReceiveStart webSocketId
         (defaultWebSocketReceiveMaxBytes suggestedMax))) read_promise_id"

definition kj_async_runtime_websocket_receive_start_with_max :: "u64 \<Rightarrow> u32 \<Rightarrow>
    u32 \<Rightarrow> ffi_call" where
  "kj_async_runtime_websocket_receive_start_with_max runtimeId webSocketId maxBytes =
     kj_call runtimeId (Inr (Kj_Queue.enqueueWebSocketReceiveStart webSocketId maxBytes))
         read_promise_id"

definition kj_async_runtime_websocket_message_promise_await_ref :: "u64 \<Rightarrow> u32
    \<Rightarrow> ffi_call" where
  "kj_async_runtime_websocket_message_promise_await_ref runtimeId promiseId =
     kj_call runtimeId (Inr (Kj_Queue.enqueueWebSocketMessagePromiseAwait promiseId)) read_message"

definition kj_async_runtime_websocket_message_promise_cancel :: "u64 \<Rightarrow> u32 \<Rightarrow>
    ffi_call" where
  "kj_async_runtime_websocket_message_promise_cancel runtimeId promiseId =
     kj_call runtimeId (Inr (Kj_Queue.enqueueWebSocketMessagePromiseCancel promiseId)) read_unit"

definition kj_async_runtime_websocket_message_promise_release :: "u64 \<Rightarrow> u32
    \<Rightarrow> ffi_call" where
  "kj_async_runtime_websocket_message_promise_release runtimeId promiseId =
     kj_call runtimeId (Inr (Kj_Queue.enqueueWebSocketMessagePromiseRelease promiseId)) read_unit"

definition kj_async_runtime_websocket_receive_ref :: "nat \<Rightarrow> u64 \<Rightarrow> u32
    \<Rightarrow> ffi_call" where
  "kj_async_runtime_websocket_receive_ref suggestedMax runtimeId webSocketId =
     kj_call runtimeId (Inr (Kj_Queue.enqueueWebSocketReceive webSocketId
         (defaultWebSocketReceiveMaxBytes suggestedMax))) read_message"

definition kj_async_runtime_websocket_receive_with_max_ref :: "u64 \<Rightarrow> u32 \<Rightarrow>
    u32 \<Rightarrow> ffi_call" where
  "kj_async_runtime_websocket_receive_with_max_ref runtimeId webSocketId maxBytes =
     kj_call runtimeId (Inr (Kj_Queue.enqueueWebSocketReceive webSocketId maxBytes)) read_message"

definition kj_async_runtime_websocket_close_start :: "u64 \<Rightarrow> u32 \<Rightarrow> u32
    \<Rightarrow> string \<Rightarrow> ffi_call" where
  "kj_async_runtime_websocket_close_start runtimeId webSocketId closeCode reason =
     (if 65535 < closeCode
     then kj_call runtimeId (Inl ''websocket close code exceeds UInt16 range'') read_promise_id
     else kj_call runtimeId (Inr (Kj_Queue.enqueueWebSocketCloseStart webSocketId (ucast closeCode)
         (c_str reason))) read_promise_id)"

definition kj_async_runtime_websocket_close :: "u64 \<Rightarrow> u32 \<Rightarrow> u32
    \<Rightarrow> string \<Rightarrow> ffi_call" where
  "kj_async_runtime_websocket_close runtimeId webSocketId closeCode reason =
     (if 65535 < closeCode
     then kj_call runtimeId (Inl ''websocket close code exceeds UInt16 range'') read_unit
     else kj_call runtimeId (Inr (Kj_Queue.enqueueWebSocketClose webSocketId (ucast closeCode)
         (c_str reason))) read_unit)"

definition kj_async_runtime_websocket_disconnect :: "u64 \<Rightarrow> u32 \<Rightarrow> ffi_call"
    where
  "kj_async_runtime_websocket_disconnect runtimeId webSocketId =
     kj_call runtimeId (Inr (Kj_Queue.enqueueWebSocketDisconnect webSocketId)) read_unit"

definition kj_async_runtime_websocket_abort :: "u64 \<Rightarrow> u32 \<Rightarrow> ffi_call" where
  "kj_async_runtime_websocket_abort runtimeId webSocketId =
     kj_call runtimeId (Inr (Kj_Queue.enqueueWebSocketAbort webSocketId)) read_unit"

definition kj_async_runtime_new_websocket_pipe :: "u64 \<Rightarrow> ffi_call" where
  "kj_async_runtime_new_websocket_pipe runtimeId =
     kj_call runtimeId (Inr Kj_Queue.enqueueNewWebSocketPipe) read_pair"

end
