(* ===== verification/Rpc_Exports.thy ===== *)
theory Rpc_Exports
  imports Ffi Run_Loop_Facts
begin

text \<open>
  The functions \<^verbatim>\<open>ffi/rpc_bridge.cpp\<close> exports to Lean, one definition each, with the
  arguments of the C++ function. Most queue one operation and read its completion; those that a
  Lean server may need act at once on the runtime's own thread.
\<close>

section \<open>Objects of Lean's types\<close>

definition mkIoOkRawCallResult :: "completion_value \<Rightarrow> lean_value" where
  "mkIoOkRawCallResult v = (case v of RawCallValue w caps \<Rightarrow> LPair (LBytes w) (LBytes caps) | _ \<Rightarrow> LUnit)"

definition read_response_data :: "completion_value \<Rightarrow> lean_value" where
  "read_response_data v = (case v of RawCallValue w caps \<Rightarrow> LBytes w | _ \<Rightarrow> LUnit)"

definition read_byte_array :: "completion_value \<Rightarrow> lean_value" where
  "read_byte_array v = (case v of ByteArrayValue bs \<Rightarrow> LBytes bs | _ \<Rightarrow> LUnit)"

definition mkRpcDiagnosticsObj :: "completion_value \<Rightarrow> lean_value" where
  "mkRpcDiagnosticsObj v = (case v of DiagnosticsValue d \<Rightarrow> LDiagnostics d | _ \<Rightarrow> LUnit)"

definition mkProtocolMessageCountsObj :: "completion_value \<Rightarrow> lean_value" where
  "mkProtocolMessageCountsObj v = (case v of
      CountsValue n \<Rightarrow> LCounts (resolveCount n) (disembargoCount n) | _ \<Rightarrow> LUnit)"

definition mkRemoteExceptionObj :: "completion \<Rightarrow> lean_value" where
  "mkRemoteExceptionObj c = LRemoteException (c_str (exceptionDescription c)) (c_str (remoteTrace c))
     (detailBytes c) (c_str (fileName c)) (lineNumber c) (exceptionTypeTag c)"

definition mkRawCallOutcomeOkObj :: "completion_value \<Rightarrow> lean_value" where
  "mkRawCallOutcomeOkObj v = (case v of RawCallValue w caps \<Rightarrow> LPair (LBytes w) (LBytes caps) | _ \<Rightarrow> LUnit)"

definition mkRawCallOutcomeErrorObj :: "completion \<Rightarrow> lean_value" where
  "mkRawCallOutcomeErrorObj c = LCtor1 (mkRemoteExceptionObj c)"

text \<open>A failed call is an outcome too.\<close>

definition outcome_reply :: "completion \<Rightarrow> ffi_state \<Rightarrow> io_result option \<times> ffi_state" where
  "outcome_reply c P =
     (Some (Inr (if is_ok c then mkRawCallOutcomeOkObj (payload c) else mkRawCallOutcomeErrorObj c)), P)"

section \<open>Runtimes\<close>

text \<open>
  \<open>setup\<close> is what starting the thread throws, if it does, and \<open>r\<close> the new runtime. The
  constructor throws what went wrong with the thread not joined, which ends the process, unless
  the text of it is empty.
\<close>

definition RuntimeLoop :: "exn option \<Rightarrow> u32 \<Rightarrow> loop_state option" where
  "RuntimeLoop setup fdLimit =
     (let l = loop_init (rt_init fdLimit) in case setup of
        None \<Rightarrow> Some l
      | Some e \<Rightarrow> if abort_text e = [] then Some (abort e l) else None)"

definition rpc_runtime_new_with_fd_limit :: "exn option \<Rightarrow> obj \<Rightarrow> u32 \<Rightarrow> ffi_call" where
  "rpc_runtime_new_with_fd_limit setup r fdLimit c P =
     (case RuntimeLoop setup fdLimit of
        None \<Rightarrow> (EndsProcess, P)
      | Some l \<Rightarrow> (case createRuntime r P of
          (Ret i, Q) \<Rightarrow> answers (LUInt64 i) (Q\<lparr>rpcLoops := (rpcLoops Q)(r := l)\<rparr>)
        | (_, Q) \<Rightarrow> (NeverReturns, Q)))"

definition kRuntimeDefaultMaxFdsPerMessage :: u32 where
  "kRuntimeDefaultMaxFdsPerMessage = 16"

definition rpc_runtime_new :: "exn option \<Rightarrow> obj \<Rightarrow> ffi_call" where
  "rpc_runtime_new setup r = rpc_runtime_new_with_fd_limit setup r kRuntimeDefaultMaxFdsPerMessage"

text \<open>\<open>order\<close> is the order in which the table of payload references is walked.\<close>

definition rpc_runtime_release :: "(u32 set \<Rightarrow> u32 list) \<Rightarrow> u64 \<Rightarrow> ffi_call" where
  "rpc_runtime_release order runtimeId c P =
     (let drop = (\<lambda>Q. snd (releaseRuntimePayloadRefsForRuntime order runtimeId Q)) in
      case getRuntime runtimeId P of
        None \<Rightarrow> answers LUnit (drop P)
      | Some r \<Rightarrow>
          if isWorkerThread c r
          then fails ''Capnp.Rpc runtime shutdown is not allowed from the Capnp.Rpc worker thread'' P
          else rpc_shutdown r drop (snd (unregisterRuntime runtimeId P)))"

definition rpc_runtime_is_alive :: "u64 \<Rightarrow> ffi_call" where
  "rpc_runtime_is_alive runtimeId c P = answers (LBool (isRuntimeAlive runtimeId P)) P"

section \<open>Payload references\<close>

text \<open>\<open>heap\<close> has the bytes of Lean's byte arrays.\<close>

definition hasRawBytes :: "payload_entry \<Rightarrow> bool" where
  "hasRawBytes e \<longleftrightarrow> pe_rawBytes e \<noteq> None"

definition messageData :: "(obj \<Rightarrow> bytes) \<Rightarrow> payload_entry \<Rightarrow> bytes" where
  "messageData heap e = (case pe_messageBytes e of Some b \<Rightarrow> heap b
     | None \<Rightarrow> (case pe_rawBytes e of Some (w, _) \<Rightarrow> w | None \<Rightarrow> []))"

definition capData :: "(obj \<Rightarrow> bytes) \<Rightarrow> payload_entry \<Rightarrow> bytes" where
  "capData heap e = (case pe_capBytes e of Some b \<Rightarrow> heap b
     | None \<Rightarrow> (case pe_rawBytes e of Some (_, caps) \<Rightarrow> caps | None \<Rightarrow> []))"

definition drop_retained :: "payload_entry \<Rightarrow> ffi_state \<Rightarrow> ffi_state" where
  "drop_retained e P = snd (resetRetained e P)"

definition unknown_payload_ref :: string where
  "unknown_payload_ref = ''unknown runtime payload ref id''"

definition foreign_payload_ref :: string where
  "foreign_payload_ref = ''runtime payload ref belongs to a different Capnp.Rpc runtime''"

definition rpc_runtime_payload_ref_from_bytes :: "u64 \<Rightarrow> obj \<Rightarrow> obj \<Rightarrow> ffi_call" where
  "rpc_runtime_payload_ref_from_bytes runtimeId requestBytes requestCaps c P = (case getRuntime runtimeId P of
      None \<Rightarrow> fails invalid_rpc_handle P
    | Some _ \<Rightarrow> (case registerRuntimePayloadRef runtimeId (Some requestBytes) (Some requestCaps) True P of
        (Ret i, Q) \<Rightarrow> answers (LUInt32 i) Q
      | (Throw e, Q) \<Rightarrow> fails (caught_text describeKjException
          ''unknown exception in capnp_lean_rpc_runtime_payload_ref_from_bytes'' e) Q
      | (Hang, Q) \<Rightarrow> (NeverReturns, Q)))"

text \<open>The caller gets the references of Lean's arrays.\<close>

definition rpc_runtime_payload_ref_to_bytes :: "(obj \<Rightarrow> bytes) \<Rightarrow> u64 \<Rightarrow> u32 \<Rightarrow> ffi_call" where
  "rpc_runtime_payload_ref_to_bytes heap runtimeId payloadRefId c P = (case getRuntime runtimeId P of
      None \<Rightarrow> fails invalid_rpc_handle P
    | Some _ \<Rightarrow> (case retainRuntimePayloadRef payloadRefId P of
        (None, Q) \<Rightarrow> fails unknown_payload_ref Q
      | (Some e, Q) \<Rightarrow>
          if pe_runtimeId e \<noteq> runtimeId then fails foreign_payload_ref (drop_retained e Q)
          else (case (pe_messageBytes e, pe_capBytes e) of
              (Some mb, Some cb) \<Rightarrow> answers (LPair (LObject mb) (LObject cb)) Q
            | _ \<Rightarrow> answers (LPair (LBytes (messageData heap e)) (LBytes (capData heap e))) (drop_retained e Q))))"

definition rpc_runtime_payload_ref_release :: "u64 \<Rightarrow> u32 \<Rightarrow> ffi_call" where
  "rpc_runtime_payload_ref_release runtimeId payloadRefId c P =
     (case releaseRuntimePayloadRef runtimeId payloadRefId P of
        (Inl error, Q) \<Rightarrow> fails error Q
      | (Inr _, Q) \<Rightarrow> answers LUnit Q)"

text \<open>
  A call whose request is a payload reference. The retained reference is dropped once the
  completion was read, or when the function returns without asking.
\<close>

definition payload_ref_call :: "(obj \<Rightarrow> bytes) \<Rightarrow> u64 \<Rightarrow> u32
    \<Rightarrow> (bytes \<Rightarrow> u32 list \<Rightarrow> loop_state \<Rightarrow> nat \<times> loop_state) \<Rightarrow> (bytes \<Rightarrow> u32 list \<Rightarrow> loop_state \<Rightarrow> nat \<times> loop_state)
    \<Rightarrow> (completion \<Rightarrow> ffi_state \<Rightarrow> io_result option \<times> ffi_state) \<Rightarrow> ffi_call" where
  "payload_ref_call heap runtimeId payloadRefId enq enqData k c P = (case getRuntime runtimeId P of
      None \<Rightarrow> fails invalid_rpc_handle P
    | Some r \<Rightarrow> (case retainRuntimePayloadRef payloadRefId P of
        (None, Q) \<Rightarrow> fails unknown_payload_ref Q
      | (Some e, Q) \<Rightarrow>
          let k' = (\<lambda>c P. let (x, P') = k c P in (x, drop_retained e P'))
          in if pe_runtimeId e \<noteq> runtimeId then fails foreign_payload_ref (drop_retained e Q)
          else (case decodeCapTable (capData heap e) of
              Inl what \<Rightarrow> fails what (drop_retained e Q)
            | Inr requestCaps \<Rightarrow>
                if hasLeanBytes e then rpc_ask r (enq (messageData heap e) requestCaps) k' Q
                else if hasRawBytes e then rpc_ask r (enqData (messageData heap e) requestCaps) k' Q
                else fails ''runtime payload ref has no payload bytes'' (drop_retained e Q))))"

text \<open>The response becomes a payload reference of its own.\<close>

definition payload_ref_reply :: "u64 \<Rightarrow> completion \<Rightarrow> ffi_state \<Rightarrow> io_result option \<times> ffi_state" where
  "payload_ref_reply runtimeId c P =
     (if \<not> is_ok c then (Some (mkIoUserError (error_text c)), P)
      else case payload c of
          RawCallValue w caps \<Rightarrow> (case registerRuntimePayloadRefFromRawCallResult runtimeId w caps P of
              (Ret i, Q) \<Rightarrow> (Some (Inr (LUInt32 i)), Q)
            | (Throw e, Q) \<Rightarrow> (Some (mkIoUserError (caught_text describeKjException
                ''unknown exception in capnp_lean_rpc_runtime_call_with_payload_ref'' e)), Q)
            | (Hang, Q) \<Rightarrow> (None, Q))
        | _ \<Rightarrow> (Some (Inr LUnit), P))"

definition rpc_runtime_call_with_payload_ref :: "(obj \<Rightarrow> bytes) \<Rightarrow> u64 \<Rightarrow> u32 \<Rightarrow> u64 \<Rightarrow> u16 \<Rightarrow> u32 \<Rightarrow> ffi_call" where
  "rpc_runtime_call_with_payload_ref heap runtimeId target interfaceId methodId payloadRefId =
     payload_ref_call heap runtimeId payloadRefId (Queue.enqueueRawCall target interfaceId methodId)
       (Queue.enqueueRawCallData target interfaceId methodId) (payload_ref_reply runtimeId)"

definition rpc_runtime_start_call_with_payload_ref ::
    "(obj \<Rightarrow> bytes) \<Rightarrow> u64 \<Rightarrow> u32 \<Rightarrow> u64 \<Rightarrow> u16 \<Rightarrow> u32 \<Rightarrow> ffi_call" where
  "rpc_runtime_start_call_with_payload_ref heap runtimeId target interfaceId methodId payloadRefId =
     payload_ref_call heap runtimeId payloadRefId (Queue.enqueueStartPendingCall target interfaceId methodId)
       (Queue.enqueueStartPendingCallData target interfaceId methodId) (rpc_reply read_target)"

definition rpc_runtime_start_streaming_call_with_payload_ref ::
    "(obj \<Rightarrow> bytes) \<Rightarrow> u64 \<Rightarrow> u32 \<Rightarrow> u64 \<Rightarrow> u16 \<Rightarrow> u32 \<Rightarrow> ffi_call" where
  "rpc_runtime_start_streaming_call_with_payload_ref heap runtimeId target interfaceId methodId payloadRefId =
     payload_ref_call heap runtimeId payloadRefId
       (Queue.enqueueStartStreamingPendingCall target interfaceId methodId)
       (Queue.enqueueStartStreamingPendingCallData target interfaceId methodId) (rpc_reply read_target)"

section \<open>Calls with another reading of the completion\<close>

definition rpc_raw_call_with_caps_on_runtime_outcome ::
    "u64 \<Rightarrow> u32 \<Rightarrow> u64 \<Rightarrow> u16 \<Rightarrow> bytes \<Rightarrow> bytes \<Rightarrow> ffi_call" where
  "rpc_raw_call_with_caps_on_runtime_outcome runtimeId target interfaceId methodId requestBytes requestCaps c P =
     (case getRuntime runtimeId P of
        None \<Rightarrow> fails invalid_rpc_handle P
      | Some r \<Rightarrow> (case decodeCapTable requestCaps of
          Inl what \<Rightarrow> fails what P
        | Inr requestCapIds \<Rightarrow>
            rpc_ask r (Queue.enqueueRawCall target interfaceId methodId requestBytes requestCapIds) outcome_reply P))"

definition rpc_runtime_pending_call_await_payload_ref :: "u64 \<Rightarrow> u32 \<Rightarrow> ffi_call" where
  "rpc_runtime_pending_call_await_payload_ref runtimeId pendingCallId c P = (case getRuntime runtimeId P of
      None \<Rightarrow> fails invalid_rpc_handle P
    | Some r \<Rightarrow> rpc_ask r (Queue.enqueueAwaitPendingCall pendingCallId) (payload_ref_reply runtimeId) P)"

definition rpc_runtime_pending_call_await_outcome :: "u64 \<Rightarrow> u32 \<Rightarrow> ffi_call" where
  "rpc_runtime_pending_call_await_outcome runtimeId pendingCallId c P = (case getRuntime runtimeId P of
      None \<Rightarrow> fails invalid_rpc_handle P
    | Some r \<Rightarrow> rpc_ask r (Queue.enqueueAwaitPendingCall pendingCallId) outcome_reply P)"

text \<open>Nobody waits; the Lean promise is resolved instead.\<close>

definition rpc_runtime_pump_async :: "u64 \<Rightarrow> obj \<Rightarrow> ffi_call" where
  "rpc_runtime_pump_async runtimeId promise c P = (case getRuntime runtimeId P of
      None \<Rightarrow> fails invalid_rpc_handle P
    | Some r \<Rightarrow> answers LUnit (P\<lparr>log := log P @ [LeanMarkMt promise, LeanInc promise],
        rpcLoops := (rpcLoops P)(r := snd (Queue.enqueuePumpAsync promise (rpcLoops P r)))\<rparr>))"

definition rpc_runtime_release_targets :: "u64 \<Rightarrow> bytes \<Rightarrow> ffi_call" where
  "rpc_runtime_release_targets runtimeId targetBytes c P = (case getRuntime runtimeId P of
      None \<Rightarrow> fails invalid_rpc_handle P
    | Some r \<Rightarrow>
        if targetBytes = [] then answers LUnit P
        else (case decodeCapTable targetBytes of
            Inl what \<Rightarrow> fails what P
          | Inr targetIds \<Rightarrow> rpc_inline_or_ask describeKjException
              ''unknown exception in capnp_lean_rpc_runtime_release_targets'' (on_rt (releaseTargets targetIds))
              (\<lambda>_. LUnit) (Queue.enqueueReleaseTargets targetIds) read_rpc_unit r c P))"

text \<open>Nobody waits for these either.\<close>

definition rpc_deferred_call :: "u64 \<Rightarrow> (loop_state \<Rightarrow> nat \<times> loop_state) \<Rightarrow> ffi_call" where
  "rpc_deferred_call runtimeId enq c P = (case getRuntime runtimeId P of
      None \<Rightarrow> fails invalid_rpc_handle P
    | Some r \<Rightarrow> answers LUnit (P\<lparr>rpcLoops := (rpcLoops P)(r := snd (enq (rpcLoops P r)))\<rparr>))"

definition rpc_runtime_pending_call_release_deferred :: "u64 \<Rightarrow> u32 \<Rightarrow> ffi_call" where
  "rpc_runtime_pending_call_release_deferred runtimeId pendingCallId =
     rpc_deferred_call runtimeId (Queue.enqueueReleasePendingCall pendingCallId)"

definition rpc_runtime_release_target_deferred :: "u64 \<Rightarrow> u32 \<Rightarrow> ffi_call" where
  "rpc_runtime_release_target_deferred runtimeId target =
     rpc_deferred_call runtimeId (Queue.enqueueReleaseTarget target)"

section \<open>Calls the runtime's own file exports\<close>

definition rpc_runtime_target_when_resolved_poll :: "u64 \<Rightarrow> u32 \<Rightarrow> ffi_call" where
  "rpc_runtime_target_when_resolved_poll runtimeId target =
     rpc_call runtimeId (Inr (Queue.enqueueTargetWhenResolvedPoll target)) read_rpc_bool"

definition rpc_runtime_ordering_set_resolve_hold :: "u64 \<Rightarrow> u8 \<Rightarrow> ffi_call" where
  "rpc_runtime_ordering_set_resolve_hold runtimeId enabled =
     rpc_call runtimeId (Inr (Queue.enqueueOrderingSetResolveHold (enabled \<noteq> 0))) read_rpc_unit"

definition rpc_runtime_ordering_flush_resolves :: "u64 \<Rightarrow> ffi_call" where
  "rpc_runtime_ordering_flush_resolves runtimeId =
     rpc_call runtimeId (Inr Queue.enqueueOrderingFlushHeldResolves) read_uint64"

definition rpc_runtime_ordering_held_resolve_count :: "u64 \<Rightarrow> ffi_call" where
  "rpc_runtime_ordering_held_resolve_count runtimeId =
     rpc_call runtimeId (Inr Queue.enqueueOrderingHeldResolveCount) read_uint64"

text \<open>One function catches everything alike and has its own text for a bad handle.\<close>

definition rpc_inline_bare_call :: "string \<Rightarrow> u64 \<Rightarrow> (loop_state \<Rightarrow> (exn, 'a) outcome \<times> rt_state)
    \<Rightarrow> ('a \<Rightarrow> lean_value) \<Rightarrow> (loop_state \<Rightarrow> nat \<times> loop_state) \<Rightarrow> (completion_value \<Rightarrow> lean_value) \<Rightarrow> ffi_call" where
  "rpc_inline_bare_call unknown runtimeId act read enq read' c P = (case getRuntime runtimeId P of
      None \<Rightarrow> fails ''Capnp.Rpc runtime handle is invalid'' P
    | Some r \<Rightarrow>
        if isWorkerThread c r
        then let l = rpcLoops P r; (a, s) = act l; Q = P\<lparr>rpcLoops := (rpcLoops P)(r := l\<lparr>rt := s\<rparr>)\<rparr>
          in (case a of Ret v \<Rightarrow> answers (read v) Q | Throw e \<Rightarrow> fails unknown Q | Hang \<Rightarrow> (NeverReturns, Q))
        else rpc_ask r enq (rpc_reply read') P)"

section \<open>One queued operation each\<close>

definition rpc_raw_call_on_runtime :: "u64 \<Rightarrow> u32 \<Rightarrow> u64 \<Rightarrow> u16
    \<Rightarrow> bytes \<Rightarrow> ffi_call" where
  "rpc_raw_call_on_runtime runtimeId target interfaceId methodId requestBytes =
     rpc_call runtimeId (Inr (Queue.enqueueRawCall target interfaceId methodId requestBytes []))
         read_response_data"

definition rpc_raw_call_with_caps_on_runtime :: "u64 \<Rightarrow> u32 \<Rightarrow> u64
    \<Rightarrow> u16 \<Rightarrow> bytes \<Rightarrow> bytes \<Rightarrow> ffi_call" where
  "rpc_raw_call_with_caps_on_runtime runtimeId target interfaceId methodId requestBytes requestCaps
      =
     rpc_call runtimeId (sum_bind (decodeCapTable requestCaps) (\<lambda>requestCapIds. Inr
         (Queue.enqueueRawCall target interfaceId methodId requestBytes requestCapIds)))
         mkIoOkRawCallResult"

definition rpc_runtime_start_call_with_caps :: "u64 \<Rightarrow> u32 \<Rightarrow> u64
    \<Rightarrow> u16 \<Rightarrow> bytes \<Rightarrow> bytes \<Rightarrow> ffi_call" where
  "rpc_runtime_start_call_with_caps runtimeId target interfaceId methodId requestBytes requestCaps =
     rpc_call runtimeId (sum_bind (decodeCapTable requestCaps) (\<lambda>requestCapIds. Inr
         (Queue.enqueueStartPendingCall target interfaceId methodId requestBytes requestCapIds)))
         read_target"

definition rpc_runtime_start_streaming_call_with_caps :: "u64 \<Rightarrow> u32 \<Rightarrow> u64
    \<Rightarrow> u16 \<Rightarrow> bytes \<Rightarrow> bytes \<Rightarrow> ffi_call" where
  "rpc_runtime_start_streaming_call_with_caps runtimeId target interfaceId methodId requestBytes
      requestCaps =
     rpc_call runtimeId (sum_bind (decodeCapTable requestCaps) (\<lambda>requestCapIds. Inr
         (Queue.enqueueStartStreamingPendingCall target interfaceId methodId requestBytes
         requestCapIds))) read_target"

definition rpc_runtime_pending_call_await :: "u64 \<Rightarrow> u32 \<Rightarrow> ffi_call" where
  "rpc_runtime_pending_call_await runtimeId pendingCallId =
     rpc_call runtimeId (Inr (Queue.enqueueAwaitPendingCall pendingCallId)) mkIoOkRawCallResult"

definition rpc_runtime_pending_call_release :: "u64 \<Rightarrow> u32 \<Rightarrow> ffi_call" where
  "rpc_runtime_pending_call_release runtimeId pendingCallId =
     rpc_call runtimeId (Inr (Queue.enqueueReleasePendingCall pendingCallId)) read_rpc_unit"

definition rpc_runtime_pending_call_get_pipelined_cap :: "u64 \<Rightarrow> u32 \<Rightarrow> bytes
    \<Rightarrow> ffi_call" where
  "rpc_runtime_pending_call_get_pipelined_cap runtimeId pendingCallId pipelineOps =
     rpc_call runtimeId (sum_bind (decodePipelineOps pipelineOps) (\<lambda>pointerPath. Inr
         (Queue.enqueueGetPipelinedCap pendingCallId pointerPath))) read_target"

definition rpc_runtime_register_promise_await :: "u64 \<Rightarrow> u32 \<Rightarrow> ffi_call"
    where
  "rpc_runtime_register_promise_await runtimeId promiseId =
     rpc_call runtimeId (Inr (Queue.enqueueAwaitRegisterPromise promiseId)) read_target"

definition rpc_runtime_register_promise_cancel :: "u64 \<Rightarrow> u32 \<Rightarrow> ffi_call"
    where
  "rpc_runtime_register_promise_cancel runtimeId promiseId =
     rpc_call runtimeId (Inr (Queue.enqueueCancelRegisterPromise promiseId)) read_rpc_unit"

definition rpc_runtime_register_promise_release :: "u64 \<Rightarrow> u32 \<Rightarrow> ffi_call"
    where
  "rpc_runtime_register_promise_release runtimeId promiseId =
     rpc_call runtimeId (Inr (Queue.enqueueReleaseRegisterPromise promiseId)) read_rpc_unit"

definition rpc_runtime_unit_promise_await :: "u64 \<Rightarrow> u32 \<Rightarrow> ffi_call" where
  "rpc_runtime_unit_promise_await runtimeId promiseId =
     rpc_call runtimeId (Inr (Queue.enqueueAwaitUnitPromise promiseId)) read_rpc_unit"

definition rpc_runtime_unit_promise_cancel :: "u64 \<Rightarrow> u32 \<Rightarrow> ffi_call" where
  "rpc_runtime_unit_promise_cancel runtimeId promiseId =
     rpc_call runtimeId (Inr (Queue.enqueueCancelUnitPromise promiseId)) read_rpc_unit"

definition rpc_runtime_unit_promise_release :: "u64 \<Rightarrow> u32 \<Rightarrow> ffi_call" where
  "rpc_runtime_unit_promise_release runtimeId promiseId =
     rpc_call runtimeId (Inr (Queue.enqueueReleaseUnitPromise promiseId)) read_rpc_unit"

definition rpc_runtime_pump :: "u64 \<Rightarrow> ffi_call" where
  "rpc_runtime_pump runtimeId =
     rpc_call runtimeId (Inr Queue.enqueuePump) read_rpc_unit"

definition rpc_runtime_streaming_call_with_caps :: "u64 \<Rightarrow> u32 \<Rightarrow> u64
    \<Rightarrow> u16 \<Rightarrow> bytes \<Rightarrow> bytes \<Rightarrow> ffi_call" where
  "rpc_runtime_streaming_call_with_caps runtimeId target interfaceId methodId requestBytes
      requestCaps =
     rpc_call runtimeId (sum_bind (decodeCapTable requestCaps) (\<lambda>requestCapIds. Inr
         (Queue.enqueueStreamingCall target interfaceId methodId requestBytes requestCapIds)))
         read_rpc_unit"

definition rpc_runtime_target_get_fd :: "u64 \<Rightarrow> u32 \<Rightarrow> ffi_call" where
  "rpc_runtime_target_get_fd runtimeId target =
     rpc_call runtimeId (Inr (Queue.enqueueTargetGetFd target)) read_fd"

definition rpc_runtime_target_when_resolved :: "u64 \<Rightarrow> u32 \<Rightarrow> ffi_call" where
  "rpc_runtime_target_when_resolved runtimeId target =
     rpc_call runtimeId (Inr (Queue.enqueueTargetWhenResolved target)) read_rpc_unit"

definition rpc_runtime_target_when_resolved_start :: "u64 \<Rightarrow> u32 \<Rightarrow> ffi_call"
    where
  "rpc_runtime_target_when_resolved_start runtimeId target =
     rpc_call runtimeId (Inr (Queue.enqueueTargetWhenResolvedStart target)) read_target"

definition rpc_runtime_enable_trace_encoder :: "u64 \<Rightarrow> ffi_call" where
  "rpc_runtime_enable_trace_encoder runtimeId =
     rpc_call runtimeId (Inr Queue.enqueueEnableTraceEncoder) read_rpc_unit"

definition rpc_runtime_disable_trace_encoder :: "u64 \<Rightarrow> ffi_call" where
  "rpc_runtime_disable_trace_encoder runtimeId =
     rpc_call runtimeId (Inr Queue.enqueueDisableTraceEncoder) read_rpc_unit"

definition rpc_runtime_set_trace_encoder :: "u64 \<Rightarrow> obj \<Rightarrow> ffi_call" where
  "rpc_runtime_set_trace_encoder runtimeId encoder =
     rpc_call runtimeId (Inr (Queue.enqueueSetTraceEncoder encoder)) read_rpc_unit"

definition rpc_runtime_release_target :: "u64 \<Rightarrow> u32 \<Rightarrow> ffi_call" where
  "rpc_runtime_release_target runtimeId target =
     rpc_inline_call ''unknown exception in capnp_lean_rpc_runtime_release_target'' runtimeId
       (on_rt (releaseTarget target)) (\<lambda>_. LUnit)
       (Queue.enqueueReleaseTarget target) read_rpc_unit"

definition rpc_runtime_retain_target :: "u64 \<Rightarrow> u32 \<Rightarrow> ffi_call" where
  "rpc_runtime_retain_target runtimeId target =
     rpc_inline_call ''unknown exception in capnp_lean_rpc_runtime_retain_target'' runtimeId
       (on_rt (retainTarget target)) LUInt32
       (Queue.enqueueRetainTarget target) read_target"

definition rpc_runtime_new_promise_capability :: "env \<Rightarrow> u64 \<Rightarrow> ffi_call"
    where
  "rpc_runtime_new_promise_capability E runtimeId =
     rpc_inline_call ''unknown exception in capnp_lean_rpc_runtime_new_promise_capability''
         runtimeId
       (on_rt (newPromiseCapability E)) lean_pair
       Queue.enqueueNewPromiseCapability read_rpc_pair"

definition rpc_runtime_promise_capability_fulfill :: "u64 \<Rightarrow> u32 \<Rightarrow> u32
    \<Rightarrow> ffi_call" where
  "rpc_runtime_promise_capability_fulfill runtimeId fulfillerId target =
     rpc_inline_call ''unknown exception in capnp_lean_rpc_runtime_promise_capability_fulfill''
         runtimeId
       (on_rt (promiseCapabilityFulfill fulfillerId target)) (\<lambda>_. LUnit)
       (Queue.enqueuePromiseCapabilityFulfill fulfillerId target) read_rpc_unit"

definition rpc_runtime_promise_capability_reject :: "u64 \<Rightarrow> u32 \<Rightarrow> u8
    \<Rightarrow> string \<Rightarrow> bytes \<Rightarrow> ffi_call" where
  "rpc_runtime_promise_capability_reject runtimeId fulfillerId typeTag message detail =
     rpc_inline_call ''unknown exception in capnp_lean_rpc_runtime_promise_capability_reject''
         runtimeId
       (on_rt (promiseCapabilityReject fulfillerId typeTag (c_str message) detail)) (\<lambda>_.
           LUnit)
       (Queue.enqueuePromiseCapabilityReject fulfillerId typeTag (c_str message) detail)
           read_rpc_unit"

definition rpc_runtime_promise_capability_release :: "u64 \<Rightarrow> u32 \<Rightarrow> ffi_call"
    where
  "rpc_runtime_promise_capability_release runtimeId fulfillerId =
     rpc_inline_call ''unknown exception in capnp_lean_rpc_runtime_promise_capability_release''
         runtimeId
       (on_rt (promiseCapabilityRelease fulfillerId)) (\<lambda>_. LUnit)
       (Queue.enqueuePromiseCapabilityRelease fulfillerId) read_rpc_unit"

definition rpc_runtime_connect :: "u64 \<Rightarrow> string \<Rightarrow> u32 \<Rightarrow>
    ffi_call" where
  "rpc_runtime_connect runtimeId address portHint =
     rpc_call runtimeId (Inr (Queue.enqueueConnectTarget (c_str address) portHint)) read_target"

definition rpc_runtime_connect_start :: "u64 \<Rightarrow> string \<Rightarrow> u32 \<Rightarrow>
    ffi_call" where
  "rpc_runtime_connect_start runtimeId address portHint =
     rpc_call runtimeId (Inr (Queue.enqueueConnectTargetStart (c_str address) portHint))
         read_target"

definition rpc_runtime_connect_fd :: "u64 \<Rightarrow> u32 \<Rightarrow> ffi_call" where
  "rpc_runtime_connect_fd runtimeId fd =
     rpc_call runtimeId (Inr (Queue.enqueueConnectTargetFd fd)) read_target"

definition rpc_runtime_new_transport_pipe :: "u64 \<Rightarrow> ffi_call" where
  "rpc_runtime_new_transport_pipe runtimeId =
     rpc_call runtimeId (Inr Queue.enqueueNewTransportPipe) read_rpc_pair"

definition rpc_runtime_new_transport_from_fd :: "u64 \<Rightarrow> u32 \<Rightarrow> ffi_call" where
  "rpc_runtime_new_transport_from_fd runtimeId fd =
     rpc_call runtimeId (Inr (Queue.enqueueNewTransportFromFd fd)) read_target"

definition rpc_runtime_new_transport_from_fd_take :: "u64 \<Rightarrow> u32 \<Rightarrow> ffi_call"
    where
  "rpc_runtime_new_transport_from_fd_take runtimeId fd =
     rpc_call runtimeId (Inr (Queue.enqueueNewTransportFromFdTake fd)) read_target"

definition rpc_runtime_release_transport :: "u64 \<Rightarrow> u32 \<Rightarrow> ffi_call" where
  "rpc_runtime_release_transport runtimeId transportId =
     rpc_call runtimeId (Inr (Queue.enqueueReleaseTransport transportId)) read_rpc_unit"

definition rpc_runtime_transport_get_fd :: "u64 \<Rightarrow> u32 \<Rightarrow> ffi_call" where
  "rpc_runtime_transport_get_fd runtimeId transportId =
     rpc_call runtimeId (Inr (Queue.enqueueTransportGetFd transportId)) read_fd"

definition rpc_runtime_connect_transport :: "u64 \<Rightarrow> u32 \<Rightarrow> ffi_call" where
  "rpc_runtime_connect_transport runtimeId transportId =
     rpc_call runtimeId (Inr (Queue.enqueueConnectTargetTransport transportId)) read_target"

definition rpc_runtime_listen_echo :: "u64 \<Rightarrow> string \<Rightarrow> u32 \<Rightarrow>
    ffi_call" where
  "rpc_runtime_listen_echo runtimeId address portHint =
     rpc_call runtimeId (Inr (Queue.enqueueListenLoopback (c_str address) portHint)) read_target"

definition rpc_runtime_accept_echo :: "u64 \<Rightarrow> u32 \<Rightarrow> ffi_call" where
  "rpc_runtime_accept_echo runtimeId listenerId =
     rpc_call runtimeId (Inr (Queue.enqueueAcceptLoopback listenerId)) read_rpc_unit"

definition rpc_runtime_release_listener :: "u64 \<Rightarrow> u32 \<Rightarrow> ffi_call" where
  "rpc_runtime_release_listener runtimeId listenerId =
     rpc_call runtimeId (Inr (Queue.enqueueReleaseListener listenerId)) read_rpc_unit"

definition rpc_runtime_new_client :: "u64 \<Rightarrow> string \<Rightarrow> u32 \<Rightarrow>
    ffi_call" where
  "rpc_runtime_new_client runtimeId address portHint =
     rpc_call runtimeId (Inr (Queue.enqueueNewClient (c_str address) portHint)) read_target"

definition rpc_runtime_new_client_start :: "u64 \<Rightarrow> string \<Rightarrow> u32 \<Rightarrow>
    ffi_call" where
  "rpc_runtime_new_client_start runtimeId address portHint =
     rpc_call runtimeId (Inr (Queue.enqueueNewClientStart (c_str address) portHint)) read_target"

definition rpc_runtime_release_client :: "u64 \<Rightarrow> u32 \<Rightarrow> ffi_call" where
  "rpc_runtime_release_client runtimeId clientId =
     rpc_call runtimeId (Inr (Queue.enqueueReleaseClient clientId)) read_rpc_unit"

definition rpc_runtime_client_bootstrap :: "u64 \<Rightarrow> u32 \<Rightarrow> ffi_call" where
  "rpc_runtime_client_bootstrap runtimeId clientId =
     rpc_call runtimeId (Inr (Queue.enqueueClientBootstrap clientId)) read_target"

definition rpc_runtime_client_on_disconnect :: "u64 \<Rightarrow> u32 \<Rightarrow> ffi_call" where
  "rpc_runtime_client_on_disconnect runtimeId clientId =
     rpc_call runtimeId (Inr (Queue.enqueueClientOnDisconnect clientId)) read_rpc_unit"

definition rpc_runtime_client_on_disconnect_start :: "u64 \<Rightarrow> u32 \<Rightarrow> ffi_call"
    where
  "rpc_runtime_client_on_disconnect_start runtimeId clientId =
     rpc_call runtimeId (Inr (Queue.enqueueClientOnDisconnectStart clientId)) read_target"

definition rpc_runtime_client_set_flow_limit :: "u64 \<Rightarrow> u32 \<Rightarrow> u64
    \<Rightarrow> ffi_call" where
  "rpc_runtime_client_set_flow_limit runtimeId clientId words =
     rpc_call runtimeId (Inr (Queue.enqueueClientSetFlowLimit clientId words)) read_rpc_unit"

definition rpc_runtime_client_queue_size :: "u64 \<Rightarrow> u32 \<Rightarrow> ffi_call" where
  "rpc_runtime_client_queue_size runtimeId clientId =
     rpc_call runtimeId (Inr (Queue.enqueueClientQueueSize clientId)) read_uint64"

definition rpc_runtime_client_queue_count :: "u64 \<Rightarrow> u32 \<Rightarrow> ffi_call" where
  "rpc_runtime_client_queue_count runtimeId clientId =
     rpc_call runtimeId (Inr (Queue.enqueueClientQueueCount clientId)) read_uint64"

definition rpc_runtime_client_outgoing_wait_nanos :: "u64 \<Rightarrow> u32 \<Rightarrow> ffi_call"
    where
  "rpc_runtime_client_outgoing_wait_nanos runtimeId clientId =
     rpc_call runtimeId (Inr (Queue.enqueueClientOutgoingWaitNanos clientId)) read_uint64"

definition rpc_runtime_target_count :: "u64 \<Rightarrow> ffi_call" where
  "rpc_runtime_target_count runtimeId =
     rpc_call runtimeId (Inr Queue.enqueueTargetCount) read_uint64"

definition rpc_runtime_listener_count :: "u64 \<Rightarrow> ffi_call" where
  "rpc_runtime_listener_count runtimeId =
     rpc_call runtimeId (Inr Queue.enqueueListenerCount) read_uint64"

definition rpc_runtime_client_count :: "u64 \<Rightarrow> ffi_call" where
  "rpc_runtime_client_count runtimeId =
     rpc_call runtimeId (Inr Queue.enqueueClientCount) read_uint64"

definition rpc_runtime_server_count :: "u64 \<Rightarrow> ffi_call" where
  "rpc_runtime_server_count runtimeId =
     rpc_call runtimeId (Inr Queue.enqueueServerCount) read_uint64"

definition rpc_runtime_pending_call_count :: "u64 \<Rightarrow> ffi_call" where
  "rpc_runtime_pending_call_count runtimeId =
     rpc_call runtimeId (Inr Queue.enqueuePendingCallCount) read_uint64"

definition rpc_runtime_new_server :: "u64 \<Rightarrow> u32 \<Rightarrow> ffi_call" where
  "rpc_runtime_new_server runtimeId bootstrapTarget =
     rpc_call runtimeId (Inr (Queue.enqueueNewServer bootstrapTarget)) read_target"

definition rpc_runtime_new_server_with_bootstrap_factory :: "u64 \<Rightarrow> obj \<Rightarrow>
    ffi_call" where
  "rpc_runtime_new_server_with_bootstrap_factory runtimeId bootstrapFactory =
     rpc_call runtimeId (Inr (Queue.enqueueNewServerWithBootstrapFactory bootstrapFactory))
         read_target"

definition rpc_runtime_release_server :: "u64 \<Rightarrow> u32 \<Rightarrow> ffi_call" where
  "rpc_runtime_release_server runtimeId serverId =
     rpc_call runtimeId (Inr (Queue.enqueueReleaseServer serverId)) read_rpc_unit"

definition rpc_runtime_server_listen :: "u64 \<Rightarrow> u32 \<Rightarrow> string \<Rightarrow>
    u32 \<Rightarrow> ffi_call" where
  "rpc_runtime_server_listen runtimeId serverId address portHint =
     rpc_call runtimeId (Inr (Queue.enqueueServerListen serverId (c_str address) portHint))
         read_target"

definition rpc_runtime_server_accept :: "u64 \<Rightarrow> u32 \<Rightarrow> u32 \<Rightarrow>
    ffi_call" where
  "rpc_runtime_server_accept runtimeId serverId listenerId =
     rpc_call runtimeId (Inr (Queue.enqueueServerAccept serverId listenerId)) read_rpc_unit"

definition rpc_runtime_server_accept_start :: "u64 \<Rightarrow> u32 \<Rightarrow> u32 \<Rightarrow>
    ffi_call" where
  "rpc_runtime_server_accept_start runtimeId serverId listenerId =
     rpc_call runtimeId (Inr (Queue.enqueueServerAcceptStart serverId listenerId)) read_target"

definition rpc_runtime_server_accept_fd :: "u64 \<Rightarrow> u32 \<Rightarrow> u32 \<Rightarrow>
    ffi_call" where
  "rpc_runtime_server_accept_fd runtimeId serverId fd =
     rpc_call runtimeId (Inr (Queue.enqueueServerAcceptFd serverId fd)) read_rpc_unit"

definition rpc_runtime_server_accept_transport :: "u64 \<Rightarrow> u32 \<Rightarrow> u32
    \<Rightarrow> ffi_call" where
  "rpc_runtime_server_accept_transport runtimeId serverId transportId =
     rpc_call runtimeId (Inr (Queue.enqueueServerAcceptTransport serverId transportId))
         read_rpc_unit"

definition rpc_runtime_server_drain :: "u64 \<Rightarrow> u32 \<Rightarrow> ffi_call" where
  "rpc_runtime_server_drain runtimeId serverId =
     rpc_call runtimeId (Inr (Queue.enqueueServerDrain serverId)) read_rpc_unit"

definition rpc_runtime_server_drain_start :: "u64 \<Rightarrow> u32 \<Rightarrow> ffi_call" where
  "rpc_runtime_server_drain_start runtimeId serverId =
     rpc_call runtimeId (Inr (Queue.enqueueServerDrainStart serverId)) read_target"

definition rpc_runtime_register_echo_target :: "env \<Rightarrow> u64 \<Rightarrow> ffi_call" where
  "rpc_runtime_register_echo_target E runtimeId =
     rpc_inline_call ''unknown exception in capnp_lean_rpc_runtime_register_echo_target'' runtimeId
       (with_io_provider ''RPC runtime is not ready for loopback target registration''
       (registerLoopbackTarget E)) LUInt32
       Queue.enqueueRegisterLoopbackTarget read_target"

definition rpc_runtime_register_loopback_target :: "env \<Rightarrow> u64 \<Rightarrow> u32
    \<Rightarrow> ffi_call" where
  "rpc_runtime_register_loopback_target E runtimeId bootstrapTarget =
     rpc_inline_call ''unknown exception in capnp_lean_rpc_runtime_register_loopback_target''
         runtimeId
       (with_io_provider ''RPC runtime is not ready for loopback target registration''
       (registerLoopbackBootstrapTarget E bootstrapTarget)) LUInt32
       (Queue.enqueueRegisterLoopbackBootstrapTarget bootstrapTarget) read_target"

definition rpc_runtime_register_handler_target :: "u64 \<Rightarrow> obj \<Rightarrow> ffi_call"
    where
  "rpc_runtime_register_handler_target runtimeId leanHandler =
     rpc_inline_call ''unknown exception in capnp_lean_rpc_runtime_register_handler_target''
         runtimeId
       (on_rt (registerHandlerTarget leanHandler)) LUInt32
       (Queue.enqueueRegisterHandlerTarget leanHandler) read_target"

definition rpc_runtime_register_advanced_handler_target :: "u64 \<Rightarrow> obj \<Rightarrow>
    ffi_call" where
  "rpc_runtime_register_advanced_handler_target runtimeId leanHandler =
     rpc_inline_call ''unknown exception in capnp_lean_rpc_runtime_register_advanced_handler_target'' runtimeId
       (on_rt (registerAdvancedHandlerTarget leanHandler)) LUInt32
       (Queue.enqueueRegisterAdvancedHandlerTarget leanHandler) read_target"

definition rpc_runtime_register_tailcall_handler_target :: "u64 \<Rightarrow> obj \<Rightarrow>
    ffi_call" where
  "rpc_runtime_register_tailcall_handler_target runtimeId leanHandler =
     rpc_inline_call ''unknown exception in capnp_lean_rpc_runtime_register_tailcall_handler_target'' runtimeId
       (on_rt (registerTailCallHandlerTarget leanHandler)) LUInt32
       (Queue.enqueueRegisterTailCallHandlerTarget leanHandler) read_target"

definition rpc_runtime_register_tailcall_target :: "u64 \<Rightarrow> u32 \<Rightarrow> ffi_call"
    where
  "rpc_runtime_register_tailcall_target runtimeId target =
     rpc_inline_call ''unknown exception in capnp_lean_rpc_runtime_register_tailcall_target''
         runtimeId
       (on_rt (registerTailCallTarget target)) LUInt32
       (Queue.enqueueRegisterTailCallTarget target) read_target"

definition rpc_runtime_register_fd_target :: "env \<Rightarrow> u64 \<Rightarrow> u32 \<Rightarrow>
    ffi_call" where
  "rpc_runtime_register_fd_target E runtimeId fd =
     rpc_inline_call ''unknown exception in capnp_lean_rpc_runtime_register_fd_target'' runtimeId
       (on_rt (registerFdTarget E fd)) LUInt32
       (Queue.enqueueRegisterFdTarget fd) read_target"

definition rpc_runtime_multivat_new_client :: "u64 \<Rightarrow> string \<Rightarrow> ffi_call"
    where
  "rpc_runtime_multivat_new_client runtimeId name =
     rpc_call runtimeId (Inr (Queue.enqueueMultiVatNewClient (c_str name))) read_target"

definition rpc_runtime_multivat_new_server :: "u64 \<Rightarrow> string \<Rightarrow> u32
    \<Rightarrow> ffi_call" where
  "rpc_runtime_multivat_new_server runtimeId name bootstrapTarget =
     rpc_call runtimeId (Inr (Queue.enqueueMultiVatNewServer (c_str name) bootstrapTarget))
         read_target"

definition rpc_runtime_multivat_new_server_with_bootstrap_factory :: "u64 \<Rightarrow> string
    \<Rightarrow> obj \<Rightarrow> ffi_call" where
  "rpc_runtime_multivat_new_server_with_bootstrap_factory runtimeId name bootstrapFactory =
     rpc_call runtimeId (Inr (Queue.enqueueMultiVatNewServerWithBootstrapFactory (c_str name)
         bootstrapFactory)) read_target"

definition rpc_runtime_multivat_release_peer :: "u64 \<Rightarrow> u32 \<Rightarrow> ffi_call" where
  "rpc_runtime_multivat_release_peer runtimeId peerId =
     rpc_call runtimeId (Inr (Queue.enqueueMultiVatReleasePeer peerId)) read_rpc_unit"

definition rpc_runtime_multivat_bootstrap :: "u64 \<Rightarrow> u32 \<Rightarrow> string
    \<Rightarrow> u8 \<Rightarrow> ffi_call" where
  "rpc_runtime_multivat_bootstrap runtimeId sourcePeerId hostName uniqueFlag =
     rpc_call runtimeId (Inr (Queue.enqueueMultiVatBootstrap sourcePeerId (c_str hostName)
         (uniqueFlag \<noteq> 0))) read_target"

definition rpc_runtime_multivat_bootstrap_peer :: "u64 \<Rightarrow> u32 \<Rightarrow> u32
    \<Rightarrow> u8 \<Rightarrow> ffi_call" where
  "rpc_runtime_multivat_bootstrap_peer runtimeId sourcePeerId targetPeerId uniqueFlag =
     rpc_call runtimeId (Inr (Queue.enqueueMultiVatBootstrapPeer sourcePeerId targetPeerId
         (uniqueFlag \<noteq> 0))) read_target"

definition rpc_runtime_multivat_set_forwarding_enabled :: "u64 \<Rightarrow> u8 \<Rightarrow>
    ffi_call" where
  "rpc_runtime_multivat_set_forwarding_enabled runtimeId enabled =
     rpc_call runtimeId (Inr (Queue.enqueueMultiVatSetForwardingEnabled (enabled \<noteq> 0)))
         read_rpc_unit"

definition rpc_runtime_multivat_reset_forwarding_stats :: "u64 \<Rightarrow> ffi_call" where
  "rpc_runtime_multivat_reset_forwarding_stats runtimeId =
     rpc_call runtimeId (Inr Queue.enqueueMultiVatResetForwardingStats) read_rpc_unit"

definition rpc_runtime_multivat_forward_count :: "u64 \<Rightarrow> ffi_call" where
  "rpc_runtime_multivat_forward_count runtimeId =
     rpc_call runtimeId (Inr Queue.enqueueMultiVatForwardCount) read_uint64"

definition rpc_runtime_multivat_third_party_token_count :: "u64 \<Rightarrow> ffi_call" where
  "rpc_runtime_multivat_third_party_token_count runtimeId =
     rpc_call runtimeId (Inr Queue.enqueueMultiVatThirdPartyTokenCount) read_uint64"

definition rpc_runtime_multivat_denied_forward_count :: "u64 \<Rightarrow> ffi_call" where
  "rpc_runtime_multivat_denied_forward_count runtimeId =
     rpc_call runtimeId (Inr Queue.enqueueMultiVatDeniedForwardCount) read_uint64"

definition rpc_runtime_multivat_has_connection :: "u64 \<Rightarrow> u32 \<Rightarrow> u32
    \<Rightarrow> ffi_call" where
  "rpc_runtime_multivat_has_connection runtimeId fromPeerId toPeerId =
     rpc_call runtimeId (Inr (Queue.enqueueMultiVatHasConnection fromPeerId toPeerId)) read_flag"

definition rpc_runtime_multivat_set_restorer :: "u64 \<Rightarrow> u32 \<Rightarrow> obj
    \<Rightarrow> ffi_call" where
  "rpc_runtime_multivat_set_restorer runtimeId peerId restorer =
     rpc_call runtimeId (Inr (Queue.enqueueMultiVatSetRestorer peerId restorer)) read_rpc_unit"

definition rpc_runtime_multivat_clear_restorer :: "u64 \<Rightarrow> u32 \<Rightarrow> ffi_call"
    where
  "rpc_runtime_multivat_clear_restorer runtimeId peerId =
     rpc_call runtimeId (Inr (Queue.enqueueMultiVatClearRestorer peerId)) read_rpc_unit"

definition rpc_runtime_multivat_publish_sturdy_ref :: "u64 \<Rightarrow> u32 \<Rightarrow> bytes
    \<Rightarrow> u32 \<Rightarrow> ffi_call" where
  "rpc_runtime_multivat_publish_sturdy_ref runtimeId hostPeerId objectId targetId =
     rpc_call runtimeId (Inr (Queue.enqueueMultiVatPublishSturdyRef hostPeerId objectId targetId))
         read_rpc_unit"

definition rpc_runtime_multivat_publish_sturdy_ref_start :: "u64 \<Rightarrow> u32 \<Rightarrow>
    bytes \<Rightarrow> u32 \<Rightarrow> ffi_call" where
  "rpc_runtime_multivat_publish_sturdy_ref_start runtimeId hostPeerId objectId targetId =
     rpc_call runtimeId (Inr (Queue.enqueueMultiVatPublishSturdyRefStart hostPeerId objectId
         targetId)) read_target"

definition rpc_runtime_multivat_unpublish_sturdy_ref :: "u64 \<Rightarrow> u32 \<Rightarrow> bytes
    \<Rightarrow> ffi_call" where
  "rpc_runtime_multivat_unpublish_sturdy_ref runtimeId hostPeerId objectId =
     rpc_call runtimeId (Inr (Queue.enqueueMultiVatUnpublishSturdyRef hostPeerId objectId))
         read_rpc_unit"

definition rpc_runtime_multivat_unpublish_sturdy_ref_start :: "u64 \<Rightarrow> u32 \<Rightarrow>
    bytes \<Rightarrow> ffi_call" where
  "rpc_runtime_multivat_unpublish_sturdy_ref_start runtimeId hostPeerId objectId =
     rpc_call runtimeId (Inr (Queue.enqueueMultiVatUnpublishSturdyRefStart hostPeerId objectId))
         read_target"

definition rpc_runtime_multivat_clear_published_sturdy_refs :: "u64 \<Rightarrow> u32 \<Rightarrow>
    ffi_call" where
  "rpc_runtime_multivat_clear_published_sturdy_refs runtimeId hostPeerId =
     rpc_call runtimeId (Inr (Queue.enqueueMultiVatClearPublishedSturdyRefs hostPeerId))
         read_rpc_unit"

definition rpc_runtime_multivat_clear_published_sturdy_refs_start :: "u64 \<Rightarrow> u32
    \<Rightarrow> ffi_call" where
  "rpc_runtime_multivat_clear_published_sturdy_refs_start runtimeId hostPeerId =
     rpc_call runtimeId (Inr (Queue.enqueueMultiVatClearPublishedSturdyRefsStart hostPeerId))
         read_target"

definition rpc_runtime_multivat_published_sturdy_ref_count :: "u64 \<Rightarrow> u32 \<Rightarrow>
    ffi_call" where
  "rpc_runtime_multivat_published_sturdy_ref_count runtimeId hostPeerId =
     rpc_call runtimeId (Inr (Queue.enqueueMultiVatPublishedSturdyRefCount hostPeerId)) read_uint64"

definition rpc_runtime_multivat_restore_sturdy_ref :: "u64 \<Rightarrow> u32 \<Rightarrow> string
    \<Rightarrow> u8 \<Rightarrow> bytes \<Rightarrow> ffi_call" where
  "rpc_runtime_multivat_restore_sturdy_ref runtimeId sourcePeerId hostName uniqueFlag objectId =
     rpc_call runtimeId (Inr (Queue.enqueueMultiVatRestoreSturdyRef sourcePeerId (c_str hostName)
         (uniqueFlag \<noteq> 0) objectId)) read_target"

definition rpc_runtime_multivat_restore_sturdy_ref_start :: "u64 \<Rightarrow> u32 \<Rightarrow>
    string \<Rightarrow> u8 \<Rightarrow> bytes \<Rightarrow> ffi_call" where
  "rpc_runtime_multivat_restore_sturdy_ref_start runtimeId sourcePeerId hostName uniqueFlag objectId
      =
     rpc_call runtimeId (Inr (Queue.enqueueMultiVatRestoreSturdyRefStart sourcePeerId (c_str
         hostName) (uniqueFlag \<noteq> 0) objectId)) read_target"

definition rpc_runtime_cpp_call_with_accept :: "u64 \<Rightarrow> u32 \<Rightarrow> u32
    \<Rightarrow> string \<Rightarrow> u32 \<Rightarrow> u64 \<Rightarrow> u16 \<Rightarrow> bytes
    \<Rightarrow> bytes \<Rightarrow> ffi_call" where
  "rpc_runtime_cpp_call_with_accept runtimeId serverId listenerId address portHint interfaceId
      methodId requestBytes requestCaps =
     rpc_call runtimeId (sum_bind (decodeCapTable requestCaps) (\<lambda>requestCapIds. Inr
         (Queue.enqueueCppCallWithAccept serverId listenerId (c_str address) portHint interfaceId
         methodId requestBytes requestCapIds))) mkIoOkRawCallResult"

definition rpc_runtime_cpp_call_pipelined_with_accept :: "u64 \<Rightarrow> u32 \<Rightarrow> u32
    \<Rightarrow> string \<Rightarrow> u32 \<Rightarrow> u64 \<Rightarrow> u16 \<Rightarrow> bytes
    \<Rightarrow> bytes \<Rightarrow> bytes \<Rightarrow> bytes \<Rightarrow> ffi_call" where
  "rpc_runtime_cpp_call_pipelined_with_accept runtimeId serverId listenerId address portHint
      interfaceId methodId requestBytes requestCaps pipelinedRequest pipelinedRequestCaps =
     rpc_call runtimeId (sum_bind (decodeCapTable requestCaps) (\<lambda>requestCapIds. sum_bind
         (decodeCapTable pipelinedRequestCaps) (\<lambda>pipelinedRequestCapIds. Inr
         (Queue.enqueueCppCallPipelinedWithAccept serverId listenerId (c_str address) portHint
         interfaceId methodId requestBytes requestCapIds pipelinedRequest pipelinedRequestCapIds))))
         mkIoOkRawCallResult"

definition rpc_runtime_multivat_connection_block :: "u64 \<Rightarrow> u32 \<Rightarrow> u32
    \<Rightarrow> ffi_call" where
  "rpc_runtime_multivat_connection_block runtimeId fromPeerId toPeerId =
     rpc_call_or ''Capnp.Rpc runtime handle is invalid'' runtimeId (Inr
         (Queue.enqueueMultiVatConnectionBlock fromPeerId toPeerId)) read_rpc_unit"

definition rpc_runtime_multivat_connection_unblock :: "u64 \<Rightarrow> u32 \<Rightarrow> u32
    \<Rightarrow> ffi_call" where
  "rpc_runtime_multivat_connection_unblock runtimeId fromPeerId toPeerId =
     rpc_call_or ''Capnp.Rpc runtime handle is invalid'' runtimeId (Inr
         (Queue.enqueueMultiVatConnectionUnblock fromPeerId toPeerId)) read_rpc_unit"

definition rpc_runtime_multivat_connection_disconnect :: "u64 \<Rightarrow> u32 \<Rightarrow> u32
    \<Rightarrow> u8 \<Rightarrow> string \<Rightarrow> bytes \<Rightarrow> ffi_call" where
  "rpc_runtime_multivat_connection_disconnect runtimeId fromPeerId toPeerId typeTag message detail =
     rpc_call_or ''Capnp.Rpc runtime handle is invalid'' runtimeId (Inr
         (Queue.enqueueMultiVatConnectionDisconnect fromPeerId toPeerId typeTag (c_str message)
         detail)) read_rpc_unit"

definition rpc_runtime_multivat_connection_resolve_disembargo_counts :: "u64 \<Rightarrow> u32
    \<Rightarrow> u32 \<Rightarrow> ffi_call" where
  "rpc_runtime_multivat_connection_resolve_disembargo_counts runtimeId fromPeerId toPeerId =
     rpc_call_or ''Capnp.Rpc runtime handle is invalid'' runtimeId (Inr
         (Queue.enqueueMultiVatConnectionResolveDisembargoCounts fromPeerId toPeerId))
         mkProtocolMessageCountsObj"

definition rpc_runtime_multivat_connection_resolve_disembargo_trace :: "u64 \<Rightarrow> u32
    \<Rightarrow> u32 \<Rightarrow> ffi_call" where
  "rpc_runtime_multivat_connection_resolve_disembargo_trace runtimeId fromPeerId toPeerId =
     rpc_call_or ''Capnp.Rpc runtime handle is invalid'' runtimeId (Inr
         (Queue.enqueueMultiVatConnectionResolveDisembargoTrace fromPeerId toPeerId))
         read_byte_array"

definition rpc_runtime_multivat_connection_reset_resolve_disembargo_trace :: "u64 \<Rightarrow> u32
    \<Rightarrow> u32 \<Rightarrow> ffi_call" where
  "rpc_runtime_multivat_connection_reset_resolve_disembargo_trace runtimeId fromPeerId toPeerId =
     rpc_call_or ''Capnp.Rpc runtime handle is invalid'' runtimeId (Inr
         (Queue.enqueueMultiVatConnectionResetResolveDisembargoTrace fromPeerId toPeerId))
         read_rpc_unit"

definition rpc_runtime_multivat_get_diagnostics :: "u64 \<Rightarrow> u32 \<Rightarrow> obj
    \<Rightarrow> ffi_call" where
  "rpc_runtime_multivat_get_diagnostics runtimeId peerId targetVatId =
     rpc_call_or ''Capnp.Rpc runtime handle is invalid'' runtimeId (Inr
         (Queue.enqueueMultiVatGetDiagnostics peerId targetVatId)) mkRpcDiagnosticsObj"

definition rpc_runtime_register_fd_probe_target :: "u64 \<Rightarrow> ffi_call" where
  "rpc_runtime_register_fd_probe_target runtimeId =
     rpc_inline_bare_call ''unknown exception in registerFdProbeTarget'' runtimeId
       (on_rt registerFdProbeTarget) LUInt32
       Queue.enqueueRegisterFdProbeTarget read_target"

end
