(* ===== verification/Lean_Decls.thy ===== *)
theory Lean_Decls
  imports Kj_Exports Rpc_Exports
begin

text \<open>
  The declarations on Lean's side: \<^verbatim>\<open>lean/Capnp/KjAsync.lean\<close> and
  \<^verbatim>\<open>lean/Capnp/Rpc.lean\<close> bind each exported function to a name with a type
  (\<^verbatim>\<open>@[extern ...] opaque\<close>). A rule of \<open>kj_export\<close> or \<open>rpc_export\<close> is one of
  them, with the type of the result of the \<^verbatim>\<open>IO\<close> action. The functions that make a
  runtime are not among them: they need an object for it.
\<close>

inductive kj_export :: "lean_type \<Rightarrow> ffi_call \<Rightarrow> bool" where
  "kj_export TUnit (kj_async_runtime_enable_tls runtimeId)"
| "kj_export TUnit (kj_async_runtime_configure_tls runtimeId useSystemTrustStore verifyClients
    minVersionTag trustedCertificatesPem certificateChainPem privateKeyPem cipherList curveList
    acceptTimeoutNanos)"
| "kj_export TUInt32 (kj_async_runtime_sleep_nanos_start runtimeId delayNanos)"
| "kj_export TUnit (kj_async_runtime_promise_await runtimeId promiseId)"
| "kj_export TUnit (kj_async_runtime_promise_cancel runtimeId promiseId)"
| "kj_export TUnit (kj_async_runtime_promise_release runtimeId promiseId)"
| "kj_export TUInt32 (kj_async_runtime_listen runtimeId address portHint)"
| "kj_export TUnit (kj_async_runtime_release_listener runtimeId listenerId)"
| "kj_export TUInt32 (kj_async_runtime_listener_accept runtimeId listenerId)"
| "kj_export TUInt32 (kj_async_runtime_listener_accept_start runtimeId listenerId)"
| "kj_export TUInt32 (kj_async_runtime_connect runtimeId address portHint)"
| "kj_export TUInt32 (kj_async_runtime_connect_start runtimeId address portHint)"
| "kj_export TUInt32 (kj_async_runtime_parse_address runtimeId address portHint)"
| "kj_export TUnit (kj_async_runtime_release_network_address runtimeId addressId)"
| "kj_export (TProd TBool TString) (kj_async_runtime_network_address_to_string runtimeId addressId)"
| "kj_export TUInt32 (kj_async_runtime_network_address_clone runtimeId addressId)"
| "kj_export TUInt32 (kj_async_runtime_network_address_connect runtimeId addressId)"
| "kj_export TUInt32 (kj_async_runtime_network_address_connect_start runtimeId addressId)"
| "kj_export TUInt32 (kj_async_runtime_network_address_listen runtimeId addressId)"
| "kj_export TUInt32 (kj_async_runtime_network_address_bind_datagram_port runtimeId addressId)"
| "kj_export TUInt32 (kj_async_runtime_connection_promise_await runtimeId promiseId)"
| "kj_export (TProd TBool TUInt32) (kj_async_runtime_connection_promise_await_with_timeout runtimeId
    promiseId timeoutNanos)"
| "kj_export TUnit (kj_async_runtime_connection_promise_cancel runtimeId promiseId)"
| "kj_export TUnit (kj_async_runtime_connection_promise_release runtimeId promiseId)"
| "kj_export TUnit (kj_async_runtime_release_connection runtimeId connectionId)"
| "kj_export TUnit (kj_async_runtime_connection_write_ref runtimeId connectionId bytesRef)"
| "kj_export TUInt32 (kj_async_runtime_connection_write_start_ref runtimeId connectionId bytesRef)"
| "kj_export TBytesRef (kj_async_runtime_connection_read_ref runtimeId connectionId minBytes
    maxBytes)"
| "kj_export TUInt32 (kj_async_runtime_connection_read_start runtimeId connectionId minBytes
    maxBytes)"
| "kj_export TBytesRef (kj_async_runtime_bytes_promise_await_ref runtimeId promiseId)"
| "kj_export TUnit (kj_async_runtime_bytes_promise_cancel runtimeId promiseId)"
| "kj_export TUnit (kj_async_runtime_bytes_promise_release runtimeId promiseId)"
| "kj_export TUnit (kj_async_runtime_connection_shutdown_write runtimeId connectionId)"
| "kj_export TUInt32 (kj_async_runtime_connection_shutdown_write_start runtimeId connectionId)"
| "kj_export TUInt32 (kj_async_runtime_promise_then_start runtimeId firstPromiseId secondPromiseId)"
| "kj_export TUInt32 (kj_async_runtime_promise_catch_start runtimeId promiseId fallbackPromiseId)"
| "kj_export TUInt32 (kj_async_runtime_promise_all_start runtimeId promiseIds)"
| "kj_export TUInt32 (kj_async_runtime_promise_race_start runtimeId promiseIds)"
| "kj_export TUInt32 (kj_async_runtime_task_set_new runtimeId)"
| "kj_export TUnit (kj_async_runtime_task_set_release runtimeId taskSetId)"
| "kj_export TUnit (kj_async_runtime_task_set_add_promise runtimeId taskSetId promiseId)"
| "kj_export TUnit (kj_async_runtime_task_set_clear runtimeId taskSetId)"
| "kj_export TBool (kj_async_runtime_task_set_is_empty E runtimeId taskSetId)"
| "kj_export TUInt32 (kj_async_runtime_task_set_on_empty_start E runtimeId taskSetId)"
| "kj_export TUInt32 (kj_async_runtime_task_set_error_count runtimeId taskSetId)"
| "kj_export (TProd TBool TString) (kj_async_runtime_task_set_take_last_error runtimeId taskSetId)"
| "kj_export TUInt32 (kj_async_runtime_connection_when_write_disconnected_start runtimeId
    connectionId)"
| "kj_export TUnit (kj_async_runtime_connection_abort_read runtimeId connectionId)"
| "kj_export TUnit (kj_async_runtime_connection_abort_write runtimeId connectionId reason)"
| "kj_export (TProd TBool TUInt32) (kj_async_runtime_connection_dup_fd runtimeId connectionId)"
| "kj_export TUInt32 (kj_async_runtime_wrap_socket_fd runtimeId fd)"
| "kj_export TUInt32 (kj_async_runtime_wrap_socket_fd_take runtimeId fd)"
| "kj_export TUInt32 (kj_async_runtime_wrap_listen_socket_fd runtimeId fd)"
| "kj_export TUInt32 (kj_async_runtime_wrap_listen_socket_fd_take runtimeId fd)"
| "kj_export TUInt32 (kj_async_runtime_wrap_datagram_socket_fd runtimeId fd)"
| "kj_export TUInt32 (kj_async_runtime_wrap_datagram_socket_fd_take runtimeId fd)"
| "kj_export (TProd TUInt32 TUInt32) (kj_async_runtime_new_two_way_pipe runtimeId)"
| "kj_export (TProd TUInt32 TUInt32) (kj_async_runtime_new_capability_pipe runtimeId)"
| "kj_export TUInt32 (kj_async_runtime_datagram_bind runtimeId address portHint)"
| "kj_export TUnit (kj_async_runtime_datagram_release_port runtimeId portId)"
| "kj_export TUInt32 (kj_async_runtime_datagram_get_port runtimeId portId)"
| "kj_export TUInt32 (kj_async_runtime_datagram_send_ref runtimeId portId address portHint
    bytesRef)"
| "kj_export TUInt32 (kj_async_runtime_datagram_send_start_ref runtimeId portId address portHint
    bytesRef)"
| "kj_export TUInt32 (kj_async_runtime_uint32_promise_await runtimeId promiseId)"
| "kj_export TUnit (kj_async_runtime_uint32_promise_cancel runtimeId promiseId)"
| "kj_export TUnit (kj_async_runtime_uint32_promise_release runtimeId promiseId)"
| "kj_export (TProd TString TBytesRef) (kj_async_runtime_datagram_receive_ref runtimeId portId
    maxBytes)"
| "kj_export TUInt32 (kj_async_runtime_datagram_receive_start runtimeId portId maxBytes)"
| "kj_export (TProd TString TBytesRef) (kj_async_runtime_datagram_receive_promise_await_ref
    runtimeId promiseId)"
| "kj_export TUnit (kj_async_runtime_datagram_receive_promise_cancel runtimeId promiseId)"
| "kj_export TUnit (kj_async_runtime_datagram_receive_promise_release runtimeId promiseId)"
| "kj_export (TProd TUInt32 TByteArray) (kj_async_runtime_http_request runtimeId method address
    portHint urlPath body)"
| "kj_export (TProd TUInt32 TBytesRef) (kj_async_runtime_http_request_ref runtimeId method address
    portHint urlPath bodyRef)"
| "kj_export (TProd TUInt32 TByteArray) (kj_async_runtime_http_request_with_response_limit runtimeId
    method address portHint urlPath body responseBodyLimit)"
| "kj_export (TProd TUInt32 TBytesRef) (kj_async_runtime_http_request_with_response_limit_ref
    runtimeId method address portHint urlPath bodyRef responseBodyLimit)"
| "kj_export TUInt32 (kj_async_runtime_http_request_start runtimeId method address portHint urlPath
    body)"
| "kj_export TUInt32 (kj_async_runtime_http_request_start_ref runtimeId method address portHint
    urlPath bodyRef)"
| "kj_export TUInt32 (kj_async_runtime_http_request_start_with_response_limit runtimeId method
    address portHint urlPath body responseBodyLimit)"
| "kj_export TUInt32 (kj_async_runtime_http_request_start_with_response_limit_ref runtimeId method
    address portHint urlPath bodyRef responseBodyLimit)"
| "kj_export (TProd TUInt32 TByteArray) (kj_async_runtime_http_response_promise_await runtimeId
    promiseId)"
| "kj_export (TProd TUInt32 TBytesRef) (kj_async_runtime_http_response_promise_await_ref runtimeId
    promiseId)"
| "kj_export TUnit (kj_async_runtime_http_response_promise_cancel runtimeId promiseId)"
| "kj_export TUnit (kj_async_runtime_http_response_promise_release runtimeId promiseId)"
| "kj_export (TProd TUInt32 (TProd TString (TProd TByteArray TByteArray)))
    (kj_async_runtime_http_request_with_headers runtimeId method address portHint urlPath
    requestHeaders body)"
| "kj_export (TProd TUInt32 (TProd TString (TProd TByteArray TBytesRef)))
    (kj_async_runtime_http_request_with_headers_ref runtimeId method address portHint urlPath
    requestHeaders bodyRef)"
| "kj_export (TProd TUInt32 (TProd TString (TProd TByteArray TByteArray)))
    (kj_async_runtime_http_request_with_headers_secure runtimeId method address portHint urlPath
    requestHeaders body)"
| "kj_export (TProd TUInt32 (TProd TString (TProd TByteArray TBytesRef)))
    (kj_async_runtime_http_request_with_headers_secure_ref runtimeId method address portHint urlPath
    requestHeaders bodyRef)"
| "kj_export (TProd TUInt32 (TProd TString (TProd TByteArray TByteArray)))
    (kj_async_runtime_http_request_with_headers_with_response_limit runtimeId method address
    portHint urlPath requestHeaders body responseBodyLimit)"
| "kj_export (TProd TUInt32 (TProd TString (TProd TByteArray TBytesRef)))
    (kj_async_runtime_http_request_with_headers_with_response_limit_ref runtimeId method address
    portHint urlPath requestHeaders bodyRef responseBodyLimit)"
| "kj_export (TProd TUInt32 (TProd TString (TProd TByteArray TByteArray)))
    (kj_async_runtime_http_request_with_headers_with_response_limit_secure runtimeId method address
    portHint urlPath requestHeaders body responseBodyLimit)"
| "kj_export (TProd TUInt32 (TProd TString (TProd TByteArray TBytesRef)))
    (kj_async_runtime_http_request_with_headers_with_response_limit_secure_ref runtimeId method
    address portHint urlPath requestHeaders bodyRef responseBodyLimit)"
| "kj_export TUInt32 (kj_async_runtime_http_request_start_with_headers runtimeId method address
    portHint urlPath requestHeaders body)"
| "kj_export TUInt32 (kj_async_runtime_http_request_start_with_headers_ref runtimeId method address
    portHint urlPath requestHeaders bodyRef)"
| "kj_export TUInt32 (kj_async_runtime_http_request_start_with_headers_secure runtimeId method
    address portHint urlPath requestHeaders body)"
| "kj_export TUInt32 (kj_async_runtime_http_request_start_with_headers_secure_ref runtimeId method
    address portHint urlPath requestHeaders bodyRef)"
| "kj_export (TProd TUInt32 TUInt32) (kj_async_runtime_http_request_start_streaming_with_headers
    runtimeId method address portHint urlPath requestHeaders)"
| "kj_export (TProd TUInt32 TUInt32)
    (kj_async_runtime_http_request_start_streaming_with_headers_secure runtimeId method address
    portHint urlPath requestHeaders)"
| "kj_export TUInt32 (kj_async_runtime_http_request_start_with_headers_with_response_limit runtimeId
    method address portHint urlPath requestHeaders body responseBodyLimit)"
| "kj_export TUInt32 (kj_async_runtime_http_request_start_with_headers_with_response_limit_ref
    runtimeId method address portHint urlPath requestHeaders bodyRef responseBodyLimit)"
| "kj_export TUInt32 (kj_async_runtime_http_request_start_with_headers_with_response_limit_secure
    runtimeId method address portHint urlPath requestHeaders body responseBodyLimit)"
| "kj_export TUInt32 (kj_async_runtime_http_request_start_with_headers_with_response_limit_secure_ref runtimeId method address portHint urlPath requestHeaders bodyRef responseBodyLimit)"
| "kj_export (TProd TUInt32 (TProd TString (TProd TByteArray TByteArray)))
    (kj_async_runtime_http_response_promise_await_with_headers runtimeId promiseId)"
| "kj_export (TProd TUInt32 (TProd TString (TProd TByteArray TBytesRef)))
    (kj_async_runtime_http_response_promise_await_with_headers_ref runtimeId promiseId)"
| "kj_export (TProd TUInt32 (TProd TString (TProd TByteArray TUInt32)))
    (kj_async_runtime_http_response_promise_await_streaming_with_headers runtimeId promiseId)"
| "kj_export TUInt32 (kj_async_runtime_http_request_body_write_start_ref runtimeId requestBodyId
    bytesRef)"
| "kj_export TUnit (kj_async_runtime_http_request_body_write_ref runtimeId requestBodyId bytesRef)"
| "kj_export TUInt32 (kj_async_runtime_http_request_body_finish_start runtimeId requestBodyId)"
| "kj_export TUnit (kj_async_runtime_http_request_body_finish runtimeId requestBodyId)"
| "kj_export TUnit (kj_async_runtime_http_request_body_release runtimeId requestBodyId)"
| "kj_export TUInt32 (kj_async_runtime_http_response_body_read_start runtimeId responseBodyId
    minBytes maxBytes)"
| "kj_export TBytesRef (kj_async_runtime_http_response_body_read_ref runtimeId responseBodyId
    minBytes maxBytes)"
| "kj_export TUnit (kj_async_runtime_http_response_body_release runtimeId responseBodyId)"
| "kj_export TUInt32 (kj_async_runtime_http_server_request_body_read_start runtimeId requestBodyId
    minBytes maxBytes)"
| "kj_export TBytesRef (kj_async_runtime_http_server_request_body_read_ref runtimeId requestBodyId
    minBytes maxBytes)"
| "kj_export TUnit (kj_async_runtime_http_server_request_body_release runtimeId requestBodyId)"
| "kj_export (TProd TUInt32 TUInt32) (kj_async_runtime_http_server_listen runtimeId address
    portHint)"
| "kj_export (TProd TUInt32 TUInt32) (kj_async_runtime_http_server_listen_with_config runtimeId
    address portHint headerTimeoutNanos pipelineTimeoutNanos canceledUploadGracePeriodNanos
    canceledUploadGraceBytes webSocketCompressionMode)"
| "kj_export (TProd TUInt32 TUInt32) (kj_async_runtime_http_server_listen_secure runtimeId address
    portHint)"
| "kj_export (TProd TUInt32 TUInt32) (kj_async_runtime_http_server_listen_secure_with_config
    runtimeId address portHint headerTimeoutNanos pipelineTimeoutNanos
    canceledUploadGracePeriodNanos canceledUploadGraceBytes webSocketCompressionMode)"
| "kj_export TUnit (kj_async_runtime_http_server_release runtimeId serverId)"
| "kj_export TUInt32 (kj_async_runtime_http_server_drain_start runtimeId serverId)"
| "kj_export TUnit (kj_async_runtime_http_server_drain runtimeId serverId)"
| "kj_export (TProd TBool TByteArray) (kj_async_runtime_http_server_poll_request runtimeId
    serverId)"
| "kj_export TUnit (kj_async_runtime_http_server_respond runtimeId serverId requestId statusCode
    statusText responseHeaders body)"
| "kj_export TUnit (kj_async_runtime_http_server_respond_ref runtimeId serverId requestId statusCode
    statusText responseHeaders bodyRef)"
| "kj_export TUInt32 (kj_async_runtime_http_server_respond_websocket runtimeId serverId requestId
    responseHeaders)"
| "kj_export TUInt32 (kj_async_runtime_http_server_respond_start_streaming runtimeId serverId
    requestId statusCode statusText responseHeaders)"
| "kj_export TUInt32 (kj_async_runtime_http_server_response_body_write_start_ref runtimeId
    responseBodyId bytesRef)"
| "kj_export TUnit (kj_async_runtime_http_server_response_body_write_ref runtimeId responseBodyId
    bytesRef)"
| "kj_export TUInt32 (kj_async_runtime_http_server_response_body_finish_start runtimeId
    responseBodyId)"
| "kj_export TUnit (kj_async_runtime_http_server_response_body_finish runtimeId responseBodyId)"
| "kj_export TUnit (kj_async_runtime_http_server_response_body_release runtimeId responseBodyId)"
| "kj_export TUInt32 (kj_async_runtime_websocket_connect runtimeId address portHint urlPath)"
| "kj_export TUInt32 (kj_async_runtime_websocket_connect_start runtimeId address portHint urlPath)"
| "kj_export TUInt32 (kj_async_runtime_websocket_connect_with_headers runtimeId address portHint
    urlPath requestHeaders)"
| "kj_export TUInt32 (kj_async_runtime_websocket_connect_with_headers_secure runtimeId address
    portHint urlPath requestHeaders)"
| "kj_export TUInt32 (kj_async_runtime_websocket_connect_start_with_headers runtimeId address
    portHint urlPath requestHeaders)"
| "kj_export TUInt32 (kj_async_runtime_websocket_connect_start_with_headers_secure runtimeId address
    portHint urlPath requestHeaders)"
| "kj_export TUInt32 (kj_async_runtime_websocket_promise_await runtimeId promiseId)"
| "kj_export TUnit (kj_async_runtime_websocket_promise_cancel runtimeId promiseId)"
| "kj_export TUnit (kj_async_runtime_websocket_promise_release runtimeId promiseId)"
| "kj_export TUnit (kj_async_runtime_websocket_release runtimeId webSocketId)"
| "kj_export TUInt32 (kj_async_runtime_websocket_send_text_start runtimeId webSocketId text)"
| "kj_export TUnit (kj_async_runtime_websocket_send_text runtimeId webSocketId text)"
| "kj_export TUInt32 (kj_async_runtime_websocket_send_binary_start_ref runtimeId webSocketId
    bytesRef)"
| "kj_export TUnit (kj_async_runtime_websocket_send_binary_ref runtimeId webSocketId bytesRef)"
| "kj_export TUInt32 (kj_async_runtime_websocket_receive_start suggestedMax runtimeId webSocketId)"
| "kj_export TUInt32 (kj_async_runtime_websocket_receive_start_with_max runtimeId webSocketId
    maxBytes)"
| "kj_export (TProd TUInt32 (TProd TUInt32 (TProd TString TBytesRef)))
    (kj_async_runtime_websocket_message_promise_await_ref runtimeId promiseId)"
| "kj_export TUnit (kj_async_runtime_websocket_message_promise_cancel runtimeId promiseId)"
| "kj_export TUnit (kj_async_runtime_websocket_message_promise_release runtimeId promiseId)"
| "kj_export (TProd TUInt32 (TProd TUInt32 (TProd TString TBytesRef)))
    (kj_async_runtime_websocket_receive_ref suggestedMax runtimeId webSocketId)"
| "kj_export (TProd TUInt32 (TProd TUInt32 (TProd TString TBytesRef)))
    (kj_async_runtime_websocket_receive_with_max_ref runtimeId webSocketId maxBytes)"
| "kj_export TUInt32 (kj_async_runtime_websocket_close_start runtimeId webSocketId closeCode
    reason)"
| "kj_export TUnit (kj_async_runtime_websocket_close runtimeId webSocketId closeCode reason)"
| "kj_export TUnit (kj_async_runtime_websocket_disconnect runtimeId webSocketId)"
| "kj_export TUnit (kj_async_runtime_websocket_abort runtimeId webSocketId)"
| "kj_export (TProd TUInt32 TUInt32) (kj_async_runtime_new_websocket_pipe runtimeId)"
| "kj_export TUnit (kj_async_runtime_release runtimeId)"
| "kj_export TBool (kj_async_runtime_is_alive runtimeId)"
| "kj_export TBytesRef (kj_async_bytes_ref_of_byte_array bs)"
| "kj_export TByteArray (kj_async_bytes_ref_to_byte_array bytesRef)"
| "kj_export TUInt64 (kj_async_bytes_ref_size bytesRef)"

inductive rpc_export :: "lean_type \<Rightarrow> ffi_call \<Rightarrow> bool" where
  "rpc_export TByteArray (rpc_raw_call_on_runtime runtimeId target interfaceId methodId
      requestBytes)"
| "rpc_export (TProd TByteArray TByteArray) (rpc_raw_call_with_caps_on_runtime runtimeId target
    interfaceId methodId requestBytes requestCaps)"
| "rpc_export TUInt32 (rpc_runtime_start_call_with_caps runtimeId target interfaceId methodId
    requestBytes requestCaps)"
| "rpc_export TUInt32 (rpc_runtime_start_streaming_call_with_caps runtimeId target interfaceId
    methodId requestBytes requestCaps)"
| "rpc_export (TProd TByteArray TByteArray) (rpc_runtime_pending_call_await runtimeId
    pendingCallId)"
| "rpc_export TUnit (rpc_runtime_pending_call_release runtimeId pendingCallId)"
| "rpc_export TUInt32 (rpc_runtime_pending_call_get_pipelined_cap runtimeId pendingCallId
    pipelineOps)"
| "rpc_export TUInt32 (rpc_runtime_register_promise_await runtimeId promiseId)"
| "rpc_export TUnit (rpc_runtime_register_promise_cancel runtimeId promiseId)"
| "rpc_export TUnit (rpc_runtime_register_promise_release runtimeId promiseId)"
| "rpc_export TUnit (rpc_runtime_unit_promise_await runtimeId promiseId)"
| "rpc_export TUnit (rpc_runtime_unit_promise_cancel runtimeId promiseId)"
| "rpc_export TUnit (rpc_runtime_unit_promise_release runtimeId promiseId)"
| "rpc_export TUnit (rpc_runtime_pump runtimeId)"
| "rpc_export TUnit (rpc_runtime_streaming_call_with_caps runtimeId target interfaceId methodId
    requestBytes requestCaps)"
| "rpc_export TUInt32 (rpc_runtime_target_get_fd runtimeId target)"
| "rpc_export TUnit (rpc_runtime_target_when_resolved runtimeId target)"
| "rpc_export TUInt32 (rpc_runtime_target_when_resolved_start runtimeId target)"
| "rpc_export TUnit (rpc_runtime_enable_trace_encoder runtimeId)"
| "rpc_export TUnit (rpc_runtime_disable_trace_encoder runtimeId)"
| "rpc_export TUnit (rpc_runtime_set_trace_encoder runtimeId encoder)"
| "rpc_export TUnit (rpc_runtime_release_target runtimeId target)"
| "rpc_export TUInt32 (rpc_runtime_retain_target runtimeId target)"
| "rpc_export (TProd TUInt32 TUInt32) (rpc_runtime_new_promise_capability E runtimeId)"
| "rpc_export TUnit (rpc_runtime_promise_capability_fulfill runtimeId fulfillerId target)"
| "rpc_export TUnit (rpc_runtime_promise_capability_reject runtimeId fulfillerId typeTag message
    detail)"
| "rpc_export TUnit (rpc_runtime_promise_capability_release runtimeId fulfillerId)"
| "rpc_export TUInt32 (rpc_runtime_connect runtimeId address portHint)"
| "rpc_export TUInt32 (rpc_runtime_connect_start runtimeId address portHint)"
| "rpc_export TUInt32 (rpc_runtime_connect_fd runtimeId fd)"
| "rpc_export (TProd TUInt32 TUInt32) (rpc_runtime_new_transport_pipe runtimeId)"
| "rpc_export TUInt32 (rpc_runtime_new_transport_from_fd runtimeId fd)"
| "rpc_export TUInt32 (rpc_runtime_new_transport_from_fd_take runtimeId fd)"
| "rpc_export TUnit (rpc_runtime_release_transport runtimeId transportId)"
| "rpc_export TUInt32 (rpc_runtime_transport_get_fd runtimeId transportId)"
| "rpc_export TUInt32 (rpc_runtime_connect_transport runtimeId transportId)"
| "rpc_export TUInt32 (rpc_runtime_listen_echo runtimeId address portHint)"
| "rpc_export TUnit (rpc_runtime_accept_echo runtimeId listenerId)"
| "rpc_export TUnit (rpc_runtime_release_listener runtimeId listenerId)"
| "rpc_export TUInt32 (rpc_runtime_new_client runtimeId address portHint)"
| "rpc_export TUInt32 (rpc_runtime_new_client_start runtimeId address portHint)"
| "rpc_export TUnit (rpc_runtime_release_client runtimeId clientId)"
| "rpc_export TUInt32 (rpc_runtime_client_bootstrap runtimeId clientId)"
| "rpc_export TUnit (rpc_runtime_client_on_disconnect runtimeId clientId)"
| "rpc_export TUInt32 (rpc_runtime_client_on_disconnect_start runtimeId clientId)"
| "rpc_export TUnit (rpc_runtime_client_set_flow_limit runtimeId clientId words)"
| "rpc_export TUInt64 (rpc_runtime_client_queue_size runtimeId clientId)"
| "rpc_export TUInt64 (rpc_runtime_client_queue_count runtimeId clientId)"
| "rpc_export TUInt64 (rpc_runtime_client_outgoing_wait_nanos runtimeId clientId)"
| "rpc_export TUInt64 (rpc_runtime_target_count runtimeId)"
| "rpc_export TUInt64 (rpc_runtime_listener_count runtimeId)"
| "rpc_export TUInt64 (rpc_runtime_client_count runtimeId)"
| "rpc_export TUInt64 (rpc_runtime_server_count runtimeId)"
| "rpc_export TUInt64 (rpc_runtime_pending_call_count runtimeId)"
| "rpc_export TUInt32 (rpc_runtime_new_server runtimeId bootstrapTarget)"
| "rpc_export TUInt32 (rpc_runtime_new_server_with_bootstrap_factory runtimeId bootstrapFactory)"
| "rpc_export TUnit (rpc_runtime_release_server runtimeId serverId)"
| "rpc_export TUInt32 (rpc_runtime_server_listen runtimeId serverId address portHint)"
| "rpc_export TUnit (rpc_runtime_server_accept runtimeId serverId listenerId)"
| "rpc_export TUInt32 (rpc_runtime_server_accept_start runtimeId serverId listenerId)"
| "rpc_export TUnit (rpc_runtime_server_accept_fd runtimeId serverId fd)"
| "rpc_export TUnit (rpc_runtime_server_accept_transport runtimeId serverId transportId)"
| "rpc_export TUnit (rpc_runtime_server_drain runtimeId serverId)"
| "rpc_export TUInt32 (rpc_runtime_server_drain_start runtimeId serverId)"
| "rpc_export TUInt32 (rpc_runtime_register_echo_target E runtimeId)"
| "rpc_export TUInt32 (rpc_runtime_register_loopback_target E runtimeId bootstrapTarget)"
| "rpc_export TUInt32 (rpc_runtime_register_handler_target runtimeId leanHandler)"
| "rpc_export TUInt32 (rpc_runtime_register_advanced_handler_target runtimeId leanHandler)"
| "rpc_export TUInt32 (rpc_runtime_register_tailcall_handler_target runtimeId leanHandler)"
| "rpc_export TUInt32 (rpc_runtime_register_tailcall_target runtimeId target)"
| "rpc_export TUInt32 (rpc_runtime_register_fd_target E runtimeId fd)"
| "rpc_export TUInt32 (rpc_runtime_multivat_new_client runtimeId name)"
| "rpc_export TUInt32 (rpc_runtime_multivat_new_server runtimeId name bootstrapTarget)"
| "rpc_export TUInt32 (rpc_runtime_multivat_new_server_with_bootstrap_factory runtimeId name
    bootstrapFactory)"
| "rpc_export TUnit (rpc_runtime_multivat_release_peer runtimeId peerId)"
| "rpc_export TUInt32 (rpc_runtime_multivat_bootstrap runtimeId sourcePeerId hostName uniqueFlag)"
| "rpc_export TUInt32 (rpc_runtime_multivat_bootstrap_peer runtimeId sourcePeerId targetPeerId
    uniqueFlag)"
| "rpc_export TUnit (rpc_runtime_multivat_set_forwarding_enabled runtimeId enabled)"
| "rpc_export TUnit (rpc_runtime_multivat_reset_forwarding_stats runtimeId)"
| "rpc_export TUInt64 (rpc_runtime_multivat_forward_count runtimeId)"
| "rpc_export TUInt64 (rpc_runtime_multivat_third_party_token_count runtimeId)"
| "rpc_export TUInt64 (rpc_runtime_multivat_denied_forward_count runtimeId)"
| "rpc_export TBool (rpc_runtime_multivat_has_connection runtimeId fromPeerId toPeerId)"
| "rpc_export TUnit (rpc_runtime_multivat_set_restorer runtimeId peerId restorer)"
| "rpc_export TUnit (rpc_runtime_multivat_clear_restorer runtimeId peerId)"
| "rpc_export TUnit (rpc_runtime_multivat_publish_sturdy_ref runtimeId hostPeerId objectId
    targetId)"
| "rpc_export TUInt32 (rpc_runtime_multivat_publish_sturdy_ref_start runtimeId hostPeerId objectId
    targetId)"
| "rpc_export TUnit (rpc_runtime_multivat_unpublish_sturdy_ref runtimeId hostPeerId objectId)"
| "rpc_export TUInt32 (rpc_runtime_multivat_unpublish_sturdy_ref_start runtimeId hostPeerId
    objectId)"
| "rpc_export TUnit (rpc_runtime_multivat_clear_published_sturdy_refs runtimeId hostPeerId)"
| "rpc_export TUInt32 (rpc_runtime_multivat_clear_published_sturdy_refs_start runtimeId hostPeerId)"
| "rpc_export TUInt64 (rpc_runtime_multivat_published_sturdy_ref_count runtimeId hostPeerId)"
| "rpc_export TUInt32 (rpc_runtime_multivat_restore_sturdy_ref runtimeId sourcePeerId hostName
    uniqueFlag objectId)"
| "rpc_export TUInt32 (rpc_runtime_multivat_restore_sturdy_ref_start runtimeId sourcePeerId hostName
    uniqueFlag objectId)"
| "rpc_export (TProd TByteArray TByteArray) (rpc_runtime_cpp_call_with_accept runtimeId serverId
    listenerId address portHint interfaceId methodId requestBytes requestCaps)"
| "rpc_export (TProd TByteArray TByteArray) (rpc_runtime_cpp_call_pipelined_with_accept runtimeId
    serverId listenerId address portHint interfaceId methodId requestBytes requestCaps
    pipelinedRequest pipelinedRequestCaps)"
| "rpc_export TUnit (rpc_runtime_multivat_connection_block runtimeId fromPeerId toPeerId)"
| "rpc_export TUnit (rpc_runtime_multivat_connection_unblock runtimeId fromPeerId toPeerId)"
| "rpc_export TUnit (rpc_runtime_multivat_connection_disconnect runtimeId fromPeerId toPeerId
    typeTag message detail)"
| "rpc_export TCounts (rpc_runtime_multivat_connection_resolve_disembargo_counts runtimeId
    fromPeerId toPeerId)"
| "rpc_export TByteArray (rpc_runtime_multivat_connection_resolve_disembargo_trace runtimeId
    fromPeerId toPeerId)"
| "rpc_export TUnit (rpc_runtime_multivat_connection_reset_resolve_disembargo_trace runtimeId
    fromPeerId toPeerId)"
| "rpc_export TDiagnostics (rpc_runtime_multivat_get_diagnostics runtimeId peerId targetVatId)"
| "rpc_export TUnit (rpc_runtime_release order runtimeId)"
| "rpc_export TBool (rpc_runtime_is_alive runtimeId)"
| "rpc_export TUInt32 (rpc_runtime_payload_ref_from_bytes runtimeId requestBytes requestCaps)"
| "rpc_export (TProd TByteArray TByteArray) (rpc_runtime_payload_ref_to_bytes heap runtimeId
    payloadRefId)"
| "rpc_export TUnit (rpc_runtime_payload_ref_release runtimeId payloadRefId)"
| "rpc_export TUInt32 (rpc_runtime_call_with_payload_ref heap runtimeId target interfaceId methodId
    payloadRefId)"
| "rpc_export TUInt32 (rpc_runtime_start_call_with_payload_ref heap runtimeId target interfaceId
    methodId payloadRefId)"
| "rpc_export TUInt32 (rpc_runtime_start_streaming_call_with_payload_ref heap runtimeId target
    interfaceId methodId payloadRefId)"
| "rpc_export TRawCallOutcome (rpc_raw_call_with_caps_on_runtime_outcome runtimeId target
    interfaceId methodId requestBytes requestCaps)"
| "rpc_export TUInt32 (rpc_runtime_pending_call_await_payload_ref runtimeId pendingCallId)"
| "rpc_export TRawCallOutcome (rpc_runtime_pending_call_await_outcome runtimeId pendingCallId)"
| "rpc_export TUnit (rpc_runtime_pump_async runtimeId promise)"
| "rpc_export TUnit (rpc_runtime_release_targets runtimeId targetBytes)"
| "rpc_export TUnit (rpc_runtime_pending_call_release_deferred runtimeId pendingCallId)"
| "rpc_export TUnit (rpc_runtime_release_target_deferred runtimeId target)"
| "rpc_export TBool (rpc_runtime_target_when_resolved_poll runtimeId target)"
| "rpc_export TUnit (rpc_runtime_ordering_set_resolve_hold runtimeId enabled)"
| "rpc_export TUInt64 (rpc_runtime_ordering_flush_resolves runtimeId)"
| "rpc_export TUInt64 (rpc_runtime_ordering_held_resolve_count runtimeId)"

text \<open>The functions that make a runtime. \<open>setup\<close> and \<open>r\<close> are as in their definitions.\<close>

inductive new_export :: "lean_type \<Rightarrow> ffi_call \<Rightarrow> bool" where
  "new_export TUInt64 (kj_async_runtime_new setup r)"
| "new_export TUInt64 (rpc_runtime_new setup r)"
| "new_export TUInt64 (rpc_runtime_new_with_fd_limit setup r fds)"

text \<open>
  What the functions do when they are called on the thread of the RPC runtime they name, from a
  server written in Lean: those of \<open>inline_export\<close> ask \<^verbatim>\<open>isWorkerThread\<close> and act at once
  or refuse; those of \<open>at_once_export\<close> ask nothing of the thread, or queue an operation without
  waiting for it; those of \<open>queued_export\<close> queue an operation and wait for it all the same, and
  so do those of \<open>decoding_export\<close> unless they refuse their arguments.
\<close>

inductive inline_export :: "u64 \<Rightarrow> ffi_call \<Rightarrow> bool" where
  "inline_export runtimeId (kj_async_runtime_sleep_nanos_start runtimeId delayNanos)"
| "inline_export runtimeId (kj_async_runtime_promise_await runtimeId promiseId)"
| "inline_export runtimeId (kj_async_runtime_promise_cancel runtimeId promiseId)"
| "inline_export runtimeId (kj_async_runtime_promise_release runtimeId promiseId)"
| "inline_export runtimeId (kj_async_runtime_promise_then_start runtimeId firstPromiseId
    secondPromiseId)"
| "inline_export runtimeId (kj_async_runtime_promise_catch_start runtimeId promiseId
    fallbackPromiseId)"
| "inline_export runtimeId (kj_async_runtime_promise_all_start runtimeId promiseIds)"
| "inline_export runtimeId (kj_async_runtime_promise_race_start runtimeId promiseIds)"
| "inline_export runtimeId (kj_async_runtime_task_set_new runtimeId)"
| "inline_export runtimeId (kj_async_runtime_task_set_release runtimeId taskSetId)"
| "inline_export runtimeId (kj_async_runtime_task_set_add_promise runtimeId taskSetId promiseId)"
| "inline_export runtimeId (kj_async_runtime_task_set_clear runtimeId taskSetId)"
| "inline_export runtimeId (kj_async_runtime_task_set_is_empty E runtimeId taskSetId)"
| "inline_export runtimeId (kj_async_runtime_task_set_on_empty_start E runtimeId taskSetId)"
| "inline_export runtimeId (kj_async_runtime_task_set_error_count runtimeId taskSetId)"
| "inline_export runtimeId (kj_async_runtime_task_set_take_last_error runtimeId taskSetId)"
| "inline_export runtimeId (rpc_runtime_release_target runtimeId target)"
| "inline_export runtimeId (rpc_runtime_retain_target runtimeId target)"
| "inline_export runtimeId (rpc_runtime_new_promise_capability E runtimeId)"
| "inline_export runtimeId (rpc_runtime_promise_capability_fulfill runtimeId fulfillerId target)"
| "inline_export runtimeId (rpc_runtime_promise_capability_reject runtimeId fulfillerId typeTag
    message detail)"
| "inline_export runtimeId (rpc_runtime_promise_capability_release runtimeId fulfillerId)"
| "inline_export runtimeId (rpc_runtime_register_echo_target E runtimeId)"
| "inline_export runtimeId (rpc_runtime_register_loopback_target E runtimeId bootstrapTarget)"
| "inline_export runtimeId (rpc_runtime_register_handler_target runtimeId leanHandler)"
| "inline_export runtimeId (rpc_runtime_register_advanced_handler_target runtimeId leanHandler)"
| "inline_export runtimeId (rpc_runtime_register_tailcall_handler_target runtimeId leanHandler)"
| "inline_export runtimeId (rpc_runtime_register_tailcall_target runtimeId target)"
| "inline_export runtimeId (rpc_runtime_register_fd_target E runtimeId fd)"
| "inline_export runtimeId (rpc_runtime_release_targets runtimeId targetBytes)"
| "inline_export runtimeId (rpc_runtime_register_fd_probe_target runtimeId)"
| "inline_export runtimeId (rpc_runtime_release order runtimeId)"
| "inline_export runtimeId (kj_async_runtime_release runtimeId)"

inductive at_once_export :: "u64 \<Rightarrow> ffi_call \<Rightarrow> bool" where
  "at_once_export runtimeId (rpc_runtime_is_alive runtimeId)"
| "at_once_export runtimeId (kj_async_runtime_is_alive runtimeId)"
| "at_once_export runtimeId (rpc_runtime_payload_ref_from_bytes runtimeId requestBytes requestCaps)"
| "at_once_export runtimeId (rpc_runtime_payload_ref_to_bytes heap runtimeId payloadRefId)"
| "at_once_export runtimeId (rpc_runtime_payload_ref_release runtimeId payloadRefId)"
| "at_once_export runtimeId (rpc_runtime_pump_async runtimeId promise)"
| "at_once_export runtimeId (rpc_runtime_pending_call_release_deferred runtimeId pendingCallId)"
| "at_once_export runtimeId (rpc_runtime_release_target_deferred runtimeId target)"

inductive queued_export :: "u64 \<Rightarrow> ffi_call \<Rightarrow> bool" where
  "queued_export runtimeId (kj_async_runtime_release_connection runtimeId connectionId)"
| "queued_export runtimeId (kj_async_runtime_connection_dup_fd runtimeId connectionId)"
| "queued_export runtimeId (kj_async_runtime_wrap_socket_fd runtimeId fd)"
| "queued_export runtimeId (kj_async_runtime_wrap_socket_fd_take runtimeId fd)"
| "queued_export runtimeId (kj_async_runtime_new_two_way_pipe runtimeId)"
| "queued_export runtimeId (kj_async_runtime_new_capability_pipe runtimeId)"
| "queued_export runtimeId (rpc_raw_call_on_runtime runtimeId target interfaceId methodId
    requestBytes)"
| "queued_export runtimeId (rpc_runtime_pending_call_await runtimeId pendingCallId)"
| "queued_export runtimeId (rpc_runtime_pending_call_release runtimeId pendingCallId)"
| "queued_export runtimeId (rpc_runtime_register_promise_await runtimeId promiseId)"
| "queued_export runtimeId (rpc_runtime_register_promise_cancel runtimeId promiseId)"
| "queued_export runtimeId (rpc_runtime_register_promise_release runtimeId promiseId)"
| "queued_export runtimeId (rpc_runtime_unit_promise_await runtimeId promiseId)"
| "queued_export runtimeId (rpc_runtime_unit_promise_cancel runtimeId promiseId)"
| "queued_export runtimeId (rpc_runtime_unit_promise_release runtimeId promiseId)"
| "queued_export runtimeId (rpc_runtime_pump runtimeId)"
| "queued_export runtimeId (rpc_runtime_target_get_fd runtimeId target)"
| "queued_export runtimeId (rpc_runtime_target_when_resolved runtimeId target)"
| "queued_export runtimeId (rpc_runtime_target_when_resolved_start runtimeId target)"
| "queued_export runtimeId (rpc_runtime_enable_trace_encoder runtimeId)"
| "queued_export runtimeId (rpc_runtime_disable_trace_encoder runtimeId)"
| "queued_export runtimeId (rpc_runtime_set_trace_encoder runtimeId encoder)"
| "queued_export runtimeId (rpc_runtime_connect runtimeId address portHint)"
| "queued_export runtimeId (rpc_runtime_connect_start runtimeId address portHint)"
| "queued_export runtimeId (rpc_runtime_connect_fd runtimeId fd)"
| "queued_export runtimeId (rpc_runtime_new_transport_pipe runtimeId)"
| "queued_export runtimeId (rpc_runtime_new_transport_from_fd runtimeId fd)"
| "queued_export runtimeId (rpc_runtime_new_transport_from_fd_take runtimeId fd)"
| "queued_export runtimeId (rpc_runtime_release_transport runtimeId transportId)"
| "queued_export runtimeId (rpc_runtime_transport_get_fd runtimeId transportId)"
| "queued_export runtimeId (rpc_runtime_connect_transport runtimeId transportId)"
| "queued_export runtimeId (rpc_runtime_listen_echo runtimeId address portHint)"
| "queued_export runtimeId (rpc_runtime_accept_echo runtimeId listenerId)"
| "queued_export runtimeId (rpc_runtime_release_listener runtimeId listenerId)"
| "queued_export runtimeId (rpc_runtime_new_client runtimeId address portHint)"
| "queued_export runtimeId (rpc_runtime_new_client_start runtimeId address portHint)"
| "queued_export runtimeId (rpc_runtime_release_client runtimeId clientId)"
| "queued_export runtimeId (rpc_runtime_client_bootstrap runtimeId clientId)"
| "queued_export runtimeId (rpc_runtime_client_on_disconnect runtimeId clientId)"
| "queued_export runtimeId (rpc_runtime_client_on_disconnect_start runtimeId clientId)"
| "queued_export runtimeId (rpc_runtime_client_set_flow_limit runtimeId clientId words)"
| "queued_export runtimeId (rpc_runtime_client_queue_size runtimeId clientId)"
| "queued_export runtimeId (rpc_runtime_client_queue_count runtimeId clientId)"
| "queued_export runtimeId (rpc_runtime_client_outgoing_wait_nanos runtimeId clientId)"
| "queued_export runtimeId (rpc_runtime_target_count runtimeId)"
| "queued_export runtimeId (rpc_runtime_listener_count runtimeId)"
| "queued_export runtimeId (rpc_runtime_client_count runtimeId)"
| "queued_export runtimeId (rpc_runtime_server_count runtimeId)"
| "queued_export runtimeId (rpc_runtime_pending_call_count runtimeId)"
| "queued_export runtimeId (rpc_runtime_new_server runtimeId bootstrapTarget)"
| "queued_export runtimeId (rpc_runtime_new_server_with_bootstrap_factory runtimeId
    bootstrapFactory)"
| "queued_export runtimeId (rpc_runtime_release_server runtimeId serverId)"
| "queued_export runtimeId (rpc_runtime_server_listen runtimeId serverId address portHint)"
| "queued_export runtimeId (rpc_runtime_server_accept runtimeId serverId listenerId)"
| "queued_export runtimeId (rpc_runtime_server_accept_start runtimeId serverId listenerId)"
| "queued_export runtimeId (rpc_runtime_server_accept_fd runtimeId serverId fd)"
| "queued_export runtimeId (rpc_runtime_server_accept_transport runtimeId serverId transportId)"
| "queued_export runtimeId (rpc_runtime_server_drain runtimeId serverId)"
| "queued_export runtimeId (rpc_runtime_server_drain_start runtimeId serverId)"
| "queued_export runtimeId (rpc_runtime_multivat_new_client runtimeId name)"
| "queued_export runtimeId (rpc_runtime_multivat_new_server runtimeId name bootstrapTarget)"
| "queued_export runtimeId (rpc_runtime_multivat_new_server_with_bootstrap_factory runtimeId name
    bootstrapFactory)"
| "queued_export runtimeId (rpc_runtime_multivat_release_peer runtimeId peerId)"
| "queued_export runtimeId (rpc_runtime_multivat_bootstrap runtimeId sourcePeerId hostName
    uniqueFlag)"
| "queued_export runtimeId (rpc_runtime_multivat_bootstrap_peer runtimeId sourcePeerId targetPeerId
    uniqueFlag)"
| "queued_export runtimeId (rpc_runtime_multivat_set_forwarding_enabled runtimeId enabled)"
| "queued_export runtimeId (rpc_runtime_multivat_reset_forwarding_stats runtimeId)"
| "queued_export runtimeId (rpc_runtime_multivat_forward_count runtimeId)"
| "queued_export runtimeId (rpc_runtime_multivat_third_party_token_count runtimeId)"
| "queued_export runtimeId (rpc_runtime_multivat_denied_forward_count runtimeId)"
| "queued_export runtimeId (rpc_runtime_multivat_has_connection runtimeId fromPeerId toPeerId)"
| "queued_export runtimeId (rpc_runtime_multivat_set_restorer runtimeId peerId restorer)"
| "queued_export runtimeId (rpc_runtime_multivat_clear_restorer runtimeId peerId)"
| "queued_export runtimeId (rpc_runtime_multivat_publish_sturdy_ref runtimeId hostPeerId objectId
    targetId)"
| "queued_export runtimeId (rpc_runtime_multivat_publish_sturdy_ref_start runtimeId hostPeerId
    objectId targetId)"
| "queued_export runtimeId (rpc_runtime_multivat_unpublish_sturdy_ref runtimeId hostPeerId
    objectId)"
| "queued_export runtimeId (rpc_runtime_multivat_unpublish_sturdy_ref_start runtimeId hostPeerId
    objectId)"
| "queued_export runtimeId (rpc_runtime_multivat_clear_published_sturdy_refs runtimeId hostPeerId)"
| "queued_export runtimeId (rpc_runtime_multivat_clear_published_sturdy_refs_start runtimeId
    hostPeerId)"
| "queued_export runtimeId (rpc_runtime_multivat_published_sturdy_ref_count runtimeId hostPeerId)"
| "queued_export runtimeId (rpc_runtime_multivat_restore_sturdy_ref runtimeId sourcePeerId hostName
    uniqueFlag objectId)"
| "queued_export runtimeId (rpc_runtime_multivat_restore_sturdy_ref_start runtimeId sourcePeerId
    hostName uniqueFlag objectId)"
| "queued_export runtimeId (rpc_runtime_multivat_connection_block runtimeId fromPeerId toPeerId)"
| "queued_export runtimeId (rpc_runtime_multivat_connection_unblock runtimeId fromPeerId toPeerId)"
| "queued_export runtimeId (rpc_runtime_multivat_connection_disconnect runtimeId fromPeerId toPeerId
    typeTag message detail)"
| "queued_export runtimeId (rpc_runtime_multivat_connection_resolve_disembargo_counts runtimeId
    fromPeerId toPeerId)"
| "queued_export runtimeId (rpc_runtime_multivat_connection_resolve_disembargo_trace runtimeId
    fromPeerId toPeerId)"
| "queued_export runtimeId (rpc_runtime_multivat_connection_reset_resolve_disembargo_trace runtimeId
    fromPeerId toPeerId)"
| "queued_export runtimeId (rpc_runtime_multivat_get_diagnostics runtimeId peerId targetVatId)"
| "queued_export runtimeId (rpc_runtime_target_when_resolved_poll runtimeId target)"
| "queued_export runtimeId (rpc_runtime_ordering_set_resolve_hold runtimeId enabled)"
| "queued_export runtimeId (rpc_runtime_ordering_flush_resolves runtimeId)"
| "queued_export runtimeId (rpc_runtime_ordering_held_resolve_count runtimeId)"
| "queued_export runtimeId (rpc_runtime_pending_call_await_payload_ref runtimeId pendingCallId)"
| "queued_export runtimeId (rpc_runtime_pending_call_await_outcome runtimeId pendingCallId)"

inductive decoding_export :: "u64 \<Rightarrow> ffi_call \<Rightarrow> bool" where
  "decoding_export runtimeId (rpc_raw_call_with_caps_on_runtime runtimeId target interfaceId
    methodId requestBytes requestCaps)"
| "decoding_export runtimeId (rpc_raw_call_with_caps_on_runtime_outcome runtimeId target
    interfaceId methodId requestBytes requestCaps)"
| "decoding_export runtimeId (rpc_runtime_start_call_with_caps runtimeId target interfaceId
    methodId requestBytes requestCaps)"
| "decoding_export runtimeId (rpc_runtime_start_streaming_call_with_caps runtimeId target
    interfaceId methodId requestBytes requestCaps)"
| "decoding_export runtimeId (rpc_runtime_streaming_call_with_caps runtimeId target interfaceId
    methodId requestBytes requestCaps)"
| "decoding_export runtimeId (rpc_runtime_pending_call_get_pipelined_cap runtimeId pendingCallId
    pipelineOps)"
| "decoding_export runtimeId (rpc_runtime_cpp_call_with_accept runtimeId serverId listenerId
    address portHint interfaceId methodId requestBytes requestCaps)"
| "decoding_export runtimeId (rpc_runtime_cpp_call_pipelined_with_accept runtimeId serverId
    listenerId address portHint interfaceId methodId requestBytes requestCaps pipelinedRequest
    pipelinedRequestCaps)"
| "decoding_export runtimeId (rpc_runtime_call_with_payload_ref heap runtimeId target interfaceId
    methodId payloadRefId)"
| "decoding_export runtimeId (rpc_runtime_start_call_with_payload_ref heap runtimeId target
    interfaceId methodId payloadRefId)"
| "decoding_export runtimeId (rpc_runtime_start_streaming_call_with_payload_ref heap runtimeId
    target interfaceId methodId payloadRefId)"

end
