(* ===== verification/Exports_Facts.thy ===== *)
theory Exports_Facts
  imports Lean_Decls Kj_Loop_Facts
begin

text \<open>
  The two runtimes and the exported functions together: every answer has the type that Lean
  declares, a thread that ends leaves no caller waiting, identifiers name one runtime of either
  kind, and which functions may be called from the thread of a runtime.
\<close>

section \<open>What a call does to the process\<close>

text \<open>A loop after a call: as it was, asked for an operation, told to stop, or, for an RPC
  runtime, with its tables changed.\<close>

definition kj_asks :: "kj_kind \<Rightarrow> (kj_loop \<Rightarrow> nat \<times> kj_loop) \<Rightarrow> bool" where
  "kj_asks k enq \<longleftrightarrow> (\<exists>op. kj_op_kind op = k \<and> enq = kj_issue op)"

definition rpc_asks :: "completion_kind \<Rightarrow> (loop_state \<Rightarrow> nat \<times> loop_state) \<Rightarrow> bool" where
  "rpc_asks k enq \<longleftrightarrow> (\<exists>op p pre undo post. op_kind op = k \<and> enq = enqueue_with k p pre undo post op)"

definition kj_moves :: "kj_loop \<Rightarrow> kj_loop \<Rightarrow> bool" where
  "kj_moves l l' \<longleftrightarrow> l' = l \<or> (\<exists>op. l' = snd (kj_issue op l)) \<or> l' = kj_shutdown l"

definition rpc_moves :: "loop_state \<Rightarrow> loop_state \<Rightarrow> bool" where
  "rpc_moves l l' \<longleftrightarrow> (\<exists>s. l' = l\<lparr>rt := s\<rparr>) \<or> (\<exists>k enq. rpc_asks k enq \<and> l' = snd (enq l)) \<or> l' = Queue.shutdown l"

definition same_runtimes :: "ffi_state \<Rightarrow> ffi_state \<Rightarrow> bool" where
  "same_runtimes P Q \<longleftrightarrow> rpcLoops Q = rpcLoops P \<and> kjLoops Q = kjLoops P \<and>
     runtimes Q = runtimes P \<and> kjRuntimes Q = kjRuntimes P \<and> nextRuntimeId Q = nextRuntimeId P"

definition call_moves :: "ffi_state \<Rightarrow> ffi_state \<Rightarrow> bool" where
  "call_moves P Q \<longleftrightarrow> (\<forall>r. rpc_moves (rpcLoops P r) (rpcLoops Q r)) \<and> (\<forall>r. kj_moves (kjLoops P r) (kjLoops Q r)) \<and>
     runtimes Q \<subseteq>\<^sub>m runtimes P \<and> kjRuntimes Q \<subseteq>\<^sub>m kjRuntimes P \<and> nextRuntimeId Q = nextRuntimeId P"

text \<open>Where it stands: what is read later has the type, as long as completions keep their kind.\<close>

definition reads_as :: "lean_type \<Rightarrow> kj_kind \<Rightarrow> (kj_value \<Rightarrow> lean_value) \<Rightarrow> bool" where
  "reads_as T k read \<longleftrightarrow> (\<forall>v. kj_kind_of v = k \<longrightarrow> has_type T (read v))"

fun answer_fits :: "lean_type \<Rightarrow> io_result option \<Rightarrow> bool" where
  "answer_fits T (Some (Inr v)) = has_type T v"
| "answer_fits T _ = True"

definition replies_as :: "lean_type \<Rightarrow> completion_kind \<Rightarrow> (completion \<Rightarrow> ffi_state \<Rightarrow> io_result option \<times> ffi_state)
    \<Rightarrow> bool" where
  "replies_as T k reply \<longleftrightarrow> (\<forall>c P. kind_of (payload c) = k \<longrightarrow>
     answer_fits T (fst (reply c P))) \<and> (\<forall>c P. same_runtimes P (snd (reply c P)))"

fun stands :: "lean_type \<Rightarrow> ffi_outcome \<Rightarrow> ffi_state \<Rightarrow> bool" where
  "stands T (Answered x) P = answer_fits T (Some x)"
| "stands T (AwaitsKj r h read) P =
     (h < length (kj_completions (kjLoops P r)) \<and> reads_as T (kj_kind_at (kjLoops P r) h) read)"
| "stands T (AwaitsRpc r h reply) P =
     (h < length (completions (rpcLoops P r)) \<and> replies_as T (kind_at (rpcLoops P r) h) reply)"
| "stands T (JoinsKj r) P = (T = TUnit)"
| "stands T (JoinsRpc r k) P = (T = TUnit \<and> (\<forall>Q. same_runtimes Q (k Q)))"
| "stands T NeverReturns P = True"
| "stands T EndsProcess P = True"

definition good :: "lean_type \<Rightarrow> ffi_state \<Rightarrow> ffi_outcome \<times> ffi_state \<Rightarrow> bool" where
  "good T P res \<longleftrightarrow> call_moves P (snd res) \<and> stands T (fst res) (snd res)"

definition good_call :: "lean_type \<Rightarrow> ffi_call \<Rightarrow> bool" where
  "good_call T f \<longleftrightarrow> (\<forall>c P. good T P (f c P))"

subsection \<open>Rules\<close>

lemma moves_refl [simp]: "rpc_moves l l" "kj_moves m m"
  by (auto simp: rpc_moves_def kj_moves_def intro: exI[of _ "rt l"])

lemma call_moves_refl [simp]: "call_moves P P"
  by (simp add: call_moves_def)

lemma same_runtimes_refl [simp]: "same_runtimes P P"
  by (simp add: same_runtimes_def)

lemma same_runtimes_moves: "same_runtimes P Q \<Longrightarrow> call_moves P Q"
  by (simp add: same_runtimes_def call_moves_def)

lemma good_fails [simp]: "good T P (fails what P)"
  by (simp add: good_def fails_def mkIoUserError_def)

lemma good_answers [simp]: "good T P (answers v P) \<longleftrightarrow> has_type T v"
  by (simp add: good_def answers_def)

lemma good_same: "same_runtimes P Q \<Longrightarrow> good T Q res \<Longrightarrow> good T P res"
  by (auto simp: good_def same_runtimes_def call_moves_def)

lemma rpc_moves_rt [simp]: "rpc_moves l (l\<lparr>rt := s\<rparr>)"
  by (auto simp: rpc_moves_def)

lemma call_moves_kj: "kj_moves (kjLoops P r) l \<Longrightarrow> call_moves P (P\<lparr>kjLoops := (kjLoops P)(r := l)\<rparr>)"
  by (simp add: call_moves_def)

lemma call_moves_rpc: "rpc_moves (rpcLoops P r) l \<Longrightarrow> call_moves P (P\<lparr>rpcLoops := (rpcLoops P)(r := l)\<rparr>)"
  by (simp add: call_moves_def)

lemma kj_ask_good:
  assumes "kj_asks k enq" and "reads_as T k read"
  shows "good T P (kj_ask r enq read P)"
proof -
  obtain op where op: "kj_op_kind op = k" "enq = kj_issue op"
    using assms(1) by (auto simp: kj_asks_def)
  obtain h l where run: "kj_issue op (kjLoops P r) = (h, l)"
    by fastforce
  have new: "kj_kind_of (kc_payload (new_kj_completion j)) = j" for j
    by (cases j) (simp_all add: new_kj_completion_def)
  have "h < length (kj_completions l)" "kj_kind_at l h = k"
    using run op(1) by (auto simp: kj_issue_def kj_enqueue_def Let_def kj_kind_at_def new
        completeFailureWithError_def split: if_splits)
  moreover have "kj_moves (kjLoops P r) l"
    using run by (auto simp: kj_moves_def intro: exI[of _ op])
  ultimately show ?thesis
    using assms(2) unfolding op(2) by (simp add: good_def kj_ask_def run call_moves_kj)
qed

lemma good_kj_call:
  assumes "\<And>enq. req = Inr enq \<Longrightarrow> kj_asks k enq" and "reads_as T k read"
  shows "good_call T (kj_call i req read)"
  using kj_ask_good[OF assms(1) assms(2)] unfolding good_call_def kj_call_def
  by (auto split: option.split sum.split)

lemma good_kj_or_rpc_call:
  assumes "kj_asks k enq" and "reads_as T k read" and "\<And>r. good_call T (rpc r)"
  shows "good_call T (kj_or_rpc_call i enq read rpc)"
  using kj_ask_good[OF assms(1,2)] assms(3) unfolding good_call_def kj_or_rpc_call_def
  by (auto split: option.split)

lemma rpc_ask_good:
  assumes "rpc_asks k enq" and "replies_as T k reply"
  shows "good T P (rpc_ask r enq reply P)"
proof -
  obtain op p pre undo post where op: "op_kind op = k" "enq = enqueue_with k p pre undo post op"
    using assms(1) by (auto simp: rpc_asks_def)
  obtain h l where run: "enq (rpcLoops P r) = (h, l)"
    by fastforce
  have "h < length (completions l)" "kind_at l h = k"
    using run unfolding op(2) by (auto simp: enqueue_with_def Let_def kind_at_def split: if_splits)
  moreover have "rpc_moves (rpcLoops P r) l"
    using assms(1) run unfolding rpc_moves_def by (metis snd_conv)
  ultimately show ?thesis
    using assms(2) by (simp add: good_def rpc_ask_def run call_moves_rpc)
qed

lemma replies_as_reply:
  "(\<And>v. kind_of v = k \<Longrightarrow> has_type T (read v)) \<Longrightarrow> replies_as T k (rpc_reply read)"
  by (simp add: replies_as_def rpc_reply_def mkIoUserError_def)

lemma good_rpc_call_or:
  assumes "\<And>enq. req = Inr enq \<Longrightarrow> rpc_asks k enq" and "\<And>v. kind_of v = k \<Longrightarrow> has_type T (read v)"
  shows "good_call T (rpc_call_or what i req read)"
  using rpc_ask_good[OF assms(1) replies_as_reply[OF assms(2)]] unfolding good_call_def rpc_call_or_def
  by (auto split: option.split sum.split)

lemma good_inline:
  assumes "\<And>v. has_type T (read v)"
  shows "good T P (rpc_inline d u r act read P)"
proof -
  obtain a s where "act (rpcLoops P r) = (a, s)"
    by fastforce
  then show ?thesis
    using assms by (cases a) (simp_all add: rpc_inline_def Let_def good_def answers_def fails_def mkIoUserError_def
        call_moves_rpc)
qed

lemma good_inline_or_ask:
  assumes "\<And>v. has_type T (read v)" and "rpc_asks k enq" and "\<And>v. kind_of v = k \<Longrightarrow> has_type T (read' v)"
  shows "good_call T (rpc_inline_or_ask d u act read enq read' r)"
proof -
  have "good T P (rpc_inline d u r act read P)" for P
    using assms(1) by (rule good_inline)
  moreover have "good T P (rpc_ask r enq (rpc_reply read') P)" for P
    using assms(2,3) by (intro rpc_ask_good replies_as_reply)
  ultimately show ?thesis
    unfolding good_call_def rpc_inline_or_ask_def by simp
qed

lemma good_inline_call:
  assumes "\<And>v. has_type T (read v)" and "rpc_asks k enq" and "\<And>v. kind_of v = k \<Longrightarrow> has_type T (read' v)"
  shows "good_call T (rpc_inline_call u i act read enq read')"
proof -
  have "good_call T (rpc_inline_or_ask d u act read enq read' r)" for d r
    using assms by (rule good_inline_or_ask)
  then show ?thesis
    unfolding good_call_def rpc_inline_call_def by (simp split: option.split)
qed

subsection \<open>Every exported function\<close>

lemma kj_asks_issue: "kj_op_kind op = k \<Longrightarrow> kj_asks k (kj_issue op)"
  by (auto simp: kj_asks_def)

lemma sum_bind_Inr: "sum_bind x f = Inr y \<Longrightarrow> \<exists>a. x = Inr a \<and> f a = Inr y"
  by (cases x) simp_all

lemma rpc_asks_intros:
  "op_kind op = k \<Longrightarrow> rpc_asks k (enqueueWithCompletion k op)"
  "op_kind op = RegisterTargetCompletion \<Longrightarrow> rpc_asks RegisterTargetCompletion (enqueueRegisterCompletion op)"
  "op_kind op = UnitCompletion \<Longrightarrow> rpc_asks UnitCompletion (enqueueUnitCompletion op)"
  "op_kind op = k \<Longrightarrow> rpc_asks k (enqueueRetaining k x op)"
  "op_kind op = k \<Longrightarrow> rpc_asks k (enqueue_with k p pre undo post op)"
  unfolding rpc_asks_def enqueueWithCompletion_def enqueueRegisterCompletion_def enqueueUnitCompletion_def
    enqueueRetaining_def by blast+

text \<open>Each reader and the kind of completion it is for.\<close>

lemma reads_intros:
  "reads_as TUnit k read_unit"
  "reads_as TUInt32 KjPromiseId read_promise_id"
  "reads_as TUInt32 KjHandle read_handle"
  "reads_as TUInt32 KjUInt32 read_uint32"
  "reads_as TBool KjBool read_bool"
  "reads_as TBytesRef KjBytes read_bytes_ref"
  "reads_as (TProd TUInt32 TUInt32) KjHandlePair read_pair"
  "reads_as (TProd TBool TUInt32) KjOptionalUInt32 read_optional_uint32"
  "reads_as (TProd TBool TString) KjOptionalString read_optional_string"
  "reads_as (TProd TString TBytesRef) KjDatagramReceive read_datagram"
  "reads_as (TProd TUInt32 TByteArray) KjHttpResponse read_response"
  "reads_as (TProd TUInt32 TBytesRef) KjHttpResponse read_response_ref"
  "reads_as (TProd TUInt32 (TProd TString (TProd TByteArray TByteArray))) KjHttpResponse read_full_response"
  "reads_as (TProd TUInt32 (TProd TString (TProd TByteArray TBytesRef))) KjHttpResponse read_full_response_ref"
  "reads_as (TProd TUInt32 (TProd TString (TProd TByteArray TUInt32))) KjHttpResponse read_streaming_response"
  "reads_as (TProd TBool TByteArray) KjHttpServerRequest read_server_request"
  "reads_as (TProd TUInt32 (TProd TUInt32 (TProd TString TBytesRef))) KjWebSocketMessage read_message"
  by (auto simp: reads_as_def read_unit_def read_promise_id_def read_handle_def read_uint32_def read_bool_def
      read_bytes_ref_def read_pair_def read_optional_uint32_def read_optional_string_def read_datagram_def
      read_response_def read_response_ref_def lean_full_response_def read_full_response_def
      read_full_response_ref_def read_streaming_response_def read_server_request_def read_message_def
      lean_mk_string_def mkBytesRef_def split: kj_value.split)

lemma replies_intros:
  "kind_of v = UnitCompletion \<Longrightarrow> has_type TUnit (read_rpc_unit v)"
  "kind_of v = RegisterTargetCompletion \<Longrightarrow> has_type TUInt32 (read_target v)"
  "kind_of v = KjPromiseIdCompletion \<Longrightarrow> has_type TUInt32 (read_kj_promise v)"
  "kind_of v = UInt64Completion \<Longrightarrow> has_type TUInt64 (read_uint64 v)"
  "kind_of v = UInt64Completion \<Longrightarrow> has_type TUInt32 (read_count32 v)"
  "kind_of v = UInt64Completion \<Longrightarrow> has_type TBool (read_flag v)"
  "kind_of v = BoolCompletion \<Longrightarrow> has_type TBool (read_rpc_bool v)"
  "kind_of v = OptionalStringCompletion \<Longrightarrow> has_type (TProd TBool TString) (read_rpc_optional_string v)"
  "kind_of v = RegisterPairCompletion \<Longrightarrow> has_type (TProd TUInt32 TUInt32) (read_rpc_pair v)"
  "kind_of v = Int64Completion \<Longrightarrow> has_type TUInt32 (read_fd v)"
  "kind_of v = Int64Completion \<Longrightarrow> has_type (TProd TBool TUInt32) (read_optional_fd v)"
  "kind_of v = RawCallCompletion \<Longrightarrow> has_type (TProd TByteArray TByteArray) (mkIoOkRawCallResult v)"
  "kind_of v = RawCallCompletion \<Longrightarrow> has_type TByteArray (read_response_data v)"
  "kind_of v = RawCallCompletion \<Longrightarrow> has_type TUnit (read_rpc_unit v)"
  "kind_of v = ByteArrayCompletion \<Longrightarrow> has_type TByteArray (read_byte_array v)"
  "kind_of v = DiagnosticsCompletion \<Longrightarrow> has_type TDiagnostics (mkRpcDiagnosticsObj v)"
  "kind_of v = ProtocolMessageCountsCompletion \<Longrightarrow> has_type TCounts (mkProtocolMessageCountsObj v)"
  by (cases v; simp add: read_rpc_unit_def read_target_def read_kj_promise_def read_uint64_def read_count32_def
      read_flag_def read_rpc_bool_def read_rpc_optional_string_def read_rpc_pair_def read_fd_def
      read_optional_fd_def mkIoOkRawCallResult_def read_response_data_def read_byte_array_def
      mkRpcDiagnosticsObj_def mkProtocolMessageCountsObj_def lean_mk_string_def)+

lemmas kj_asking_defs = kj_async_runtime_enable_tls_def kj_async_runtime_configure_tls_def 
kj_async_runtime_listen_def kj_async_runtime_release_listener_def 
kj_async_runtime_listener_accept_def kj_async_runtime_listener_accept_start_def 
kj_async_runtime_connect_def kj_async_runtime_connect_start_def kj_async_runtime_parse_address_def 
kj_async_runtime_release_network_address_def kj_async_runtime_network_address_to_string_def 
kj_async_runtime_network_address_clone_def kj_async_runtime_network_address_connect_def 
kj_async_runtime_network_address_connect_start_def kj_async_runtime_network_address_listen_def 
kj_async_runtime_network_address_bind_datagram_port_def 
kj_async_runtime_connection_promise_await_def 
kj_async_runtime_connection_promise_await_with_timeout_def 
kj_async_runtime_connection_promise_cancel_def kj_async_runtime_connection_promise_release_def 
kj_async_runtime_connection_write_ref_def kj_async_runtime_connection_write_start_ref_def 
kj_async_runtime_connection_read_ref_def kj_async_runtime_connection_read_start_def 
kj_async_runtime_bytes_promise_await_ref_def kj_async_runtime_bytes_promise_cancel_def 
kj_async_runtime_bytes_promise_release_def kj_async_runtime_connection_shutdown_write_def 
kj_async_runtime_connection_shutdown_write_start_def 
kj_async_runtime_connection_when_write_disconnected_start_def 
kj_async_runtime_connection_abort_read_def kj_async_runtime_connection_abort_write_def 
kj_async_runtime_datagram_bind_def kj_async_runtime_datagram_release_port_def 
kj_async_runtime_datagram_get_port_def kj_async_runtime_datagram_send_ref_def 
kj_async_runtime_datagram_send_start_ref_def kj_async_runtime_uint32_promise_await_def 
kj_async_runtime_uint32_promise_cancel_def kj_async_runtime_uint32_promise_release_def 
kj_async_runtime_datagram_receive_ref_def kj_async_runtime_datagram_receive_start_def 
kj_async_runtime_datagram_receive_promise_await_ref_def 
kj_async_runtime_datagram_receive_promise_cancel_def 
kj_async_runtime_datagram_receive_promise_release_def kj_async_runtime_http_request_def 
kj_async_runtime_http_request_ref_def kj_async_runtime_http_request_with_response_limit_def 
kj_async_runtime_http_request_with_response_limit_ref_def kj_async_runtime_http_request_start_def 
kj_async_runtime_http_request_start_ref_def 
kj_async_runtime_http_request_start_with_response_limit_def 
kj_async_runtime_http_request_start_with_response_limit_ref_def 
kj_async_runtime_http_response_promise_await_def 
kj_async_runtime_http_response_promise_await_ref_def 
kj_async_runtime_http_response_promise_cancel_def 
kj_async_runtime_http_response_promise_release_def kj_async_runtime_http_request_with_headers_def 
kj_async_runtime_http_request_with_headers_ref_def 
kj_async_runtime_http_request_with_headers_secure_def 
kj_async_runtime_http_request_with_headers_secure_ref_def 
kj_async_runtime_http_request_with_headers_with_response_limit_def 
kj_async_runtime_http_request_with_headers_with_response_limit_ref_def 
kj_async_runtime_http_request_with_headers_with_response_limit_secure_def 
kj_async_runtime_http_request_with_headers_with_response_limit_secure_ref_def 
kj_async_runtime_http_request_start_with_headers_def 
kj_async_runtime_http_request_start_with_headers_ref_def 
kj_async_runtime_http_request_start_with_headers_secure_def 
kj_async_runtime_http_request_start_with_headers_secure_ref_def 
kj_async_runtime_http_request_start_streaming_with_headers_def 
kj_async_runtime_http_request_start_streaming_with_headers_secure_def 
kj_async_runtime_http_request_start_with_headers_with_response_limit_def 
kj_async_runtime_http_request_start_with_headers_with_response_limit_ref_def 
kj_async_runtime_http_request_start_with_headers_with_response_limit_secure_def 
kj_async_runtime_http_request_start_with_headers_with_response_limit_secure_ref_def 
kj_async_runtime_http_response_promise_await_with_headers_def 
kj_async_runtime_http_response_promise_await_with_headers_ref_def 
kj_async_runtime_http_response_promise_await_streaming_with_headers_def 
kj_async_runtime_http_request_body_write_start_ref_def 
kj_async_runtime_http_request_body_write_ref_def 
kj_async_runtime_http_request_body_finish_start_def kj_async_runtime_http_request_body_finish_def 
kj_async_runtime_http_request_body_release_def kj_async_runtime_http_response_body_read_start_def 
kj_async_runtime_http_response_body_read_ref_def kj_async_runtime_http_response_body_release_def 
kj_async_runtime_http_server_request_body_read_start_def 
kj_async_runtime_http_server_request_body_read_ref_def 
kj_async_runtime_http_server_request_body_release_def kj_async_runtime_http_server_listen_def 
kj_async_runtime_http_server_listen_with_config_def kj_async_runtime_http_server_listen_secure_def 
kj_async_runtime_http_server_listen_secure_with_config_def kj_async_runtime_http_server_release_def 
kj_async_runtime_http_server_drain_start_def kj_async_runtime_http_server_drain_def 
kj_async_runtime_http_server_poll_request_def kj_async_runtime_http_server_respond_def 
kj_async_runtime_http_server_respond_ref_def kj_async_runtime_http_server_respond_websocket_def 
kj_async_runtime_http_server_respond_start_streaming_def 
kj_async_runtime_http_server_response_body_write_start_ref_def 
kj_async_runtime_http_server_response_body_write_ref_def 
kj_async_runtime_http_server_response_body_finish_start_def 
kj_async_runtime_http_server_response_body_finish_def 
kj_async_runtime_http_server_response_body_release_def kj_async_runtime_websocket_connect_def 
kj_async_runtime_websocket_connect_start_def kj_async_runtime_websocket_connect_with_headers_def 
kj_async_runtime_websocket_connect_with_headers_secure_def 
kj_async_runtime_websocket_connect_start_with_headers_def 
kj_async_runtime_websocket_connect_start_with_headers_secure_def 
kj_async_runtime_websocket_promise_await_def kj_async_runtime_websocket_promise_cancel_def 
kj_async_runtime_websocket_promise_release_def kj_async_runtime_websocket_release_def 
kj_async_runtime_websocket_send_text_start_def kj_async_runtime_websocket_send_text_def 
kj_async_runtime_websocket_send_binary_start_ref_def kj_async_runtime_websocket_send_binary_ref_def 
kj_async_runtime_websocket_receive_start_def kj_async_runtime_websocket_receive_start_with_max_def 
kj_async_runtime_websocket_message_promise_await_ref_def 
kj_async_runtime_websocket_message_promise_cancel_def 
kj_async_runtime_websocket_message_promise_release_def kj_async_runtime_websocket_receive_ref_def 
kj_async_runtime_websocket_receive_with_max_ref_def kj_async_runtime_websocket_close_start_def 
kj_async_runtime_websocket_close_def kj_async_runtime_websocket_disconnect_def 
kj_async_runtime_websocket_abort_def kj_async_runtime_new_websocket_pipe_def

lemmas kj_serving_both_defs = kj_async_runtime_sleep_nanos_start_def 
kj_async_runtime_promise_await_def kj_async_runtime_promise_cancel_def 
kj_async_runtime_promise_release_def kj_async_runtime_release_connection_def 
kj_async_runtime_promise_then_start_def kj_async_runtime_promise_catch_start_def 
kj_async_runtime_promise_all_start_def kj_async_runtime_promise_race_start_def 
kj_async_runtime_task_set_new_def kj_async_runtime_task_set_release_def 
kj_async_runtime_task_set_add_promise_def kj_async_runtime_task_set_clear_def 
kj_async_runtime_task_set_is_empty_def kj_async_runtime_task_set_on_empty_start_def 
kj_async_runtime_task_set_error_count_def kj_async_runtime_task_set_take_last_error_def 
kj_async_runtime_connection_dup_fd_def kj_async_runtime_wrap_socket_fd_def 
kj_async_runtime_wrap_socket_fd_take_def kj_async_runtime_wrap_listen_socket_fd_def 
kj_async_runtime_wrap_listen_socket_fd_take_def kj_async_runtime_wrap_datagram_socket_fd_def 
kj_async_runtime_wrap_datagram_socket_fd_take_def kj_async_runtime_new_two_way_pipe_def 
kj_async_runtime_new_capability_pipe_def

lemmas rpc_asking_defs = rpc_raw_call_on_runtime_def rpc_raw_call_with_caps_on_runtime_def 
rpc_runtime_start_call_with_caps_def rpc_runtime_start_streaming_call_with_caps_def 
rpc_runtime_pending_call_await_def rpc_runtime_pending_call_release_def 
rpc_runtime_pending_call_get_pipelined_cap_def rpc_runtime_register_promise_await_def 
rpc_runtime_register_promise_cancel_def rpc_runtime_register_promise_release_def 
rpc_runtime_unit_promise_await_def rpc_runtime_unit_promise_cancel_def 
rpc_runtime_unit_promise_release_def rpc_runtime_pump_def rpc_runtime_streaming_call_with_caps_def 
rpc_runtime_target_get_fd_def rpc_runtime_target_when_resolved_def 
rpc_runtime_target_when_resolved_start_def rpc_runtime_enable_trace_encoder_def 
rpc_runtime_disable_trace_encoder_def rpc_runtime_set_trace_encoder_def rpc_runtime_connect_def 
rpc_runtime_connect_start_def rpc_runtime_connect_fd_def rpc_runtime_new_transport_pipe_def 
rpc_runtime_new_transport_from_fd_def rpc_runtime_new_transport_from_fd_take_def 
rpc_runtime_release_transport_def rpc_runtime_transport_get_fd_def 
rpc_runtime_connect_transport_def rpc_runtime_listen_echo_def rpc_runtime_accept_echo_def 
rpc_runtime_release_listener_def rpc_runtime_new_client_def rpc_runtime_new_client_start_def 
rpc_runtime_release_client_def rpc_runtime_client_bootstrap_def 
rpc_runtime_client_on_disconnect_def rpc_runtime_client_on_disconnect_start_def 
rpc_runtime_client_set_flow_limit_def rpc_runtime_client_queue_size_def 
rpc_runtime_client_queue_count_def rpc_runtime_client_outgoing_wait_nanos_def 
rpc_runtime_target_count_def rpc_runtime_listener_count_def rpc_runtime_client_count_def 
rpc_runtime_server_count_def rpc_runtime_pending_call_count_def rpc_runtime_new_server_def 
rpc_runtime_new_server_with_bootstrap_factory_def rpc_runtime_release_server_def 
rpc_runtime_server_listen_def rpc_runtime_server_accept_def rpc_runtime_server_accept_start_def 
rpc_runtime_server_accept_fd_def rpc_runtime_server_accept_transport_def 
rpc_runtime_server_drain_def rpc_runtime_server_drain_start_def rpc_runtime_multivat_new_client_def 
rpc_runtime_multivat_new_server_def rpc_runtime_multivat_new_server_with_bootstrap_factory_def 
rpc_runtime_multivat_release_peer_def rpc_runtime_multivat_bootstrap_def 
rpc_runtime_multivat_bootstrap_peer_def rpc_runtime_multivat_set_forwarding_enabled_def 
rpc_runtime_multivat_reset_forwarding_stats_def rpc_runtime_multivat_forward_count_def 
rpc_runtime_multivat_third_party_token_count_def rpc_runtime_multivat_denied_forward_count_def 
rpc_runtime_multivat_has_connection_def rpc_runtime_multivat_set_restorer_def 
rpc_runtime_multivat_clear_restorer_def rpc_runtime_multivat_publish_sturdy_ref_def 
rpc_runtime_multivat_publish_sturdy_ref_start_def rpc_runtime_multivat_unpublish_sturdy_ref_def 
rpc_runtime_multivat_unpublish_sturdy_ref_start_def 
rpc_runtime_multivat_clear_published_sturdy_refs_def 
rpc_runtime_multivat_clear_published_sturdy_refs_start_def 
rpc_runtime_multivat_published_sturdy_ref_count_def rpc_runtime_multivat_restore_sturdy_ref_def 
rpc_runtime_multivat_restore_sturdy_ref_start_def rpc_runtime_cpp_call_with_accept_def 
rpc_runtime_cpp_call_pipelined_with_accept_def rpc_runtime_multivat_connection_block_def 
rpc_runtime_multivat_connection_unblock_def rpc_runtime_multivat_connection_disconnect_def 
rpc_runtime_multivat_connection_resolve_disembargo_counts_def 
rpc_runtime_multivat_connection_resolve_disembargo_trace_def 
rpc_runtime_multivat_connection_reset_resolve_disembargo_trace_def 
rpc_runtime_multivat_get_diagnostics_def rpc_runtime_target_when_resolved_poll_def 
rpc_runtime_ordering_set_resolve_hold_def rpc_runtime_ordering_flush_resolves_def 
rpc_runtime_ordering_held_resolve_count_def

lemmas rpc_inline_defs = rpc_runtime_release_target_def rpc_runtime_retain_target_def 
rpc_runtime_new_promise_capability_def rpc_runtime_promise_capability_fulfill_def 
rpc_runtime_promise_capability_reject_def rpc_runtime_promise_capability_release_def 
rpc_runtime_register_echo_target_def rpc_runtime_register_loopback_target_def 
rpc_runtime_register_handler_target_def rpc_runtime_register_advanced_handler_target_def 
rpc_runtime_register_tailcall_handler_target_def rpc_runtime_register_tailcall_target_def 
rpc_runtime_register_fd_target_def rpc_runtime_register_fd_probe_target_def

lemma kj_asking_good:
  assumes "\<And>a. kj_asks k (enq a)" and "reads_as T k read"
  shows "good_call T (kj_call i (sum_bind x (\<lambda>a. Inr (enq a))) read)"
  using assms by (auto intro!: good_kj_call dest!: sum_bind_Inr)

lemma kj_refused_good: "good_call T (kj_call i (Inl what) read)"
  by (auto simp: good_call_def kj_call_def split: option.split)

lemma good_if: "good_call T f \<Longrightarrow> good_call T g \<Longrightarrow> good_call T (if b then f else g)"
  by simp

lemma kj_call_good: "kj_asks k enq \<Longrightarrow> reads_as T k read \<Longrightarrow> good_call T (kj_call i (Inr enq) read)"
  by (auto intro!: good_kj_call)

lemma good_refusal: "good_call T (\<lambda>_. fails what)"
  by (simp add: good_call_def)

lemma good_asking:
  "rpc_asks k enq \<Longrightarrow> (\<And>v. kind_of v = k \<Longrightarrow> has_type T (read v)) \<Longrightarrow> good_call T (\<lambda>_. rpc_ask r enq (rpc_reply read))"
  unfolding good_call_def by (auto intro: rpc_ask_good replies_as_reply)

lemma good_not_on_thread:
  "rpc_asks k enq \<Longrightarrow> (\<And>v. kind_of v = k \<Longrightarrow> has_type T (read v)) \<Longrightarrow>
   good_call T (\<lambda>c P. if isWorkerThread c r then fails what P else rpc_ask r enq (rpc_reply read) P)"
  unfolding good_call_def by (auto intro: rpc_ask_good replies_as_reply)

lemma good_decoded:
  "(\<And>ids. good_call T (f ids)) \<Longrightarrow> good_call T (case x of Inl what \<Rightarrow> (\<lambda>_. fails what) | Inr ids \<Rightarrow> f ids)"
  by (cases x) (simp_all add: good_refusal)

lemma good_rpc_call:
  "rpc_asks k enq \<Longrightarrow> (\<And>v. kind_of v = k \<Longrightarrow> has_type T (read v)) \<Longrightarrow> good_call T (rpc_call_or what i (Inr enq) read)"
  by (auto intro!: good_rpc_call_or)

lemma good_rpc_decoding_call:
  "(\<And>a. rpc_asks k (enq a)) \<Longrightarrow> (\<And>v. kind_of v = k \<Longrightarrow> has_type T (read v)) \<Longrightarrow>
   good_call T (rpc_call_or what i (sum_bind x (\<lambda>a. Inr (enq a))) read)"
  "(\<And>a b. rpc_asks k (enq' a b)) \<Longrightarrow> (\<And>v. kind_of v = k \<Longrightarrow> has_type T (read v)) \<Longrightarrow>
   good_call T (rpc_call_or what i (sum_bind x (\<lambda>a. sum_bind y (\<lambda>b. Inr (enq' a b)))) read)"
  by (auto intro!: good_rpc_call_or dest!: sum_bind_Inr)

lemma drop_key_le: "m(i := None) \<subseteq>\<^sub>m m"
  by (auto simp: map_le_def dom_def)

lemma call_moves_frame:
  "call_moves P Q \<Longrightarrow> call_moves P (Q\<lparr>log := l\<rparr>)"
  by (simp add: call_moves_def)

lemma good_rpc_shutdown:
  assumes "rpcLoops Q = rpcLoops P" and "kjLoops Q = kjLoops P" and "runtimes Q \<subseteq>\<^sub>m runtimes P"
    and "kjRuntimes Q \<subseteq>\<^sub>m kjRuntimes P" and "nextRuntimeId Q = nextRuntimeId P"
    and "\<And>S. same_runtimes S (k S)"
  shows "good TUnit P (rpc_shutdown r k Q)"
proof -
  have "call_moves Q (snd (rpc_shutdown r k Q))"
    using same_runtimes_moves[OF assms(6)] by (simp add: rpc_shutdown_def answers_def call_moves_rpc rpc_moves_def)
  then show ?thesis
    using assms by (auto simp: good_def rpc_shutdown_def answers_def call_moves_def intro: map_le_trans)
qed

lemma good_runtime_exports:
  "good_call TUnit (kj_async_runtime_release i)"
  "good_call TBool (kj_async_runtime_is_alive i)"
  "good_call TBytesRef (kj_async_bytes_ref_of_byte_array bs)"
  "good_call TByteArray (kj_async_bytes_ref_to_byte_array b)"
  "good_call TUInt64 (kj_async_bytes_ref_size b)"
proof -
  have "call_moves P (P\<lparr>kjRuntimes := (kjRuntimes P)(i := None), kjLoops := (kjLoops P)(r := kj_shutdown (kjLoops P r))\<rparr>)" for P r
    by (simp add: call_moves_def drop_key_le kj_moves_def)
  then show "good_call TUnit (kj_async_runtime_release i)"
    unfolding good_call_def kj_async_runtime_release_def unregisterKjAsyncRuntime_def unregisterRuntime_def getRuntime_def
    by (auto simp: good_def[of _ _ "(_, _)"] id_def intro!: good_rpc_shutdown drop_key_le split: option.split)
qed (auto simp: good_call_def kj_async_runtime_is_alive_def kj_async_bytes_ref_of_byte_array_def
    kj_async_bytes_ref_to_byte_array_def kj_async_bytes_ref_size_def mkBytesRef_def split: sum.split)

lemma kj_export_good: "kj_export T f \<Longrightarrow> good_call T f"
proof (induct rule: kj_export.induct)
qed (rule good_runtime_exports
    | ((simp only: kj_asking_defs Kj_Queue.kj_issues)?, (intro good_if kj_refused_good)?,
       (rule kj_call_good kj_asking_good), (rule kj_asks_issue, simp), (rule reads_intros))
    | ((simp only: kj_serving_both_defs Kj_Queue.kj_issues enqueue_defs kj_inline_or_ask_def)?,
       (rule good_decoded)?, rule good_kj_or_rpc_call, (rule kj_asks_issue, simp), rule reads_intros,
       (rule good_refusal
        | (rule good_asking good_not_on_thread, (rule rpc_asks_intros, simp), (erule replies_intros))
        | (rule good_inline_or_ask, simp add: lean_optional_string_def lean_mk_string_def,
            (rule rpc_asks_intros, simp), (erule replies_intros)))))+

subsection \<open>Payload references leave the runtimes alone\<close>

lemma same_add_payload: "same_runtimes P (snd (add_payload e P))"
  by (auto simp: add_payload_def same_runtimes_def split: option.split)

lemma same_register:
  "same_runtimes P (snd (registerRuntimePayloadRef i m n retain P))"
  "same_runtimes P (snd (registerRuntimePayloadRefFromRawCallResult i w caps P))"
  using same_add_payload
  by (auto simp: registerRuntimePayloadRef_def registerRuntimePayloadRefFromRawCallResult_def same_runtimes_def
      split: option.split)

lemma same_retain: "same_runtimes P (snd (retainRuntimePayloadRef i P))"
  by (auto simp: retainRuntimePayloadRef_def same_runtimes_def split: option.split)

lemma same_drop: "same_runtimes P (drop_retained e P)" "same_runtimes P (erase_payload i e P)"
  by (simp_all add: drop_retained_def resetRetained_def erase_payload_def same_runtimes_def)

lemma same_release: "same_runtimes P (snd (releaseRuntimePayloadRef i j P))"
  using same_drop(2) by (auto simp: releaseRuntimePayloadRef_def split: option.split)

lemma same_runtimes_trans: "same_runtimes P Q \<Longrightarrow> same_runtimes Q R \<Longrightarrow> same_runtimes P R"
  by (simp add: same_runtimes_def)

lemma same_release_walk: "same_runtimes P (snd (release_walk i is P))"
  by (induction i "is" P rule: release_walk.induct)
    (auto split: option.split prod.split elim: same_runtimes_trans[OF same_drop(2)] simp: Let_def)

lemma same_release_all: "same_runtimes P (snd (releaseRuntimePayloadRefsForRuntime order i P))"
  by (simp add: releaseRuntimePayloadRefsForRuntime_def same_release_walk)

lemma good_from:
  assumes "same_runtimes P Q" and "stands T out Q"
  shows "good T P (out, Q)"
  using assms by (simp add: good_def same_runtimes_moves)

lemma good_answers_from: "same_runtimes P Q \<Longrightarrow> has_type T v \<Longrightarrow> good T P (answers v Q)"
  by (simp add: answers_def good_from)

lemma good_fails_from: "same_runtimes P Q \<Longrightarrow> good T P (fails what Q)"
  by (simp add: fails_def mkIoUserError_def good_from)

lemma replies_payload_ref: "replies_as TUInt32 RawCallCompletion (payload_ref_reply i)"
proof -
  have "answer_fits TUInt32 (fst (payload_ref_reply i c P))" if "kind_of (payload c) = RawCallCompletion" for c P
    using that by (cases "payload c")
      (auto simp: payload_ref_reply_def mkIoUserError_def split: outcome.split prod.split)
  moreover have "same_runtimes P (snd (payload_ref_reply i c P))" for c P
  proof (cases "payload c")
    case (RawCallValue w caps)
    then show ?thesis
      using same_register(2)[of P i w caps]
      by (cases "registerRuntimePayloadRefFromRawCallResult i w caps P")
        (auto simp: payload_ref_reply_def split: outcome.split)
  qed (simp_all add: payload_ref_reply_def)
  ultimately show ?thesis
    by (simp add: replies_as_def)
qed

lemma replies_outcome: "replies_as TRawCallOutcome RawCallCompletion outcome_reply"
  by (auto simp: replies_as_def outcome_reply_def mkRawCallOutcomeOkObj_def mkRawCallOutcomeErrorObj_def
      mkRemoteExceptionObj_def split: completion_value.split)

lemma replies_then_drop:
  "replies_as T k reply \<Longrightarrow> replies_as T k (\<lambda>c P. let (x, P') = reply c P in (x, drop_retained e P'))"
  unfolding replies_as_def
  by (auto simp: case_prod_beta Let_def intro: same_runtimes_trans[OF _ same_drop(1)])

lemma good_payload_ref_call:
  assumes "\<And>a b. rpc_asks k (enq a b)" and "\<And>a b. rpc_asks k (enqData a b)" and "replies_as T k reply"
  shows "good_call T (payload_ref_call heap i j enq enqData reply)"
proof -
  have ask: "good T P (rpc_ask r (f a b) (\<lambda>c P. let (x, P') = reply c P in (x, drop_retained e P')) Q)"
    if "same_runtimes P Q" "\<And>a b. rpc_asks k (f a b)" for P Q r f a b e
    using good_same[OF that(1) rpc_ask_good[OF that(2) replies_then_drop[OF assms(3)]]] .
  have "good T P (payload_ref_call heap i j enq enqData reply c P)" for c P
    using ask[OF _ assms(1)] ask[OF _ assms(2)] same_retain[of P j] same_runtimes_trans[OF _ same_drop(1)]
    by (cases "retainRuntimePayloadRef j P")
      (auto simp: payload_ref_call_def Let_def split: option.split sum.split intro!: good_fails_from)
  then show ?thesis
    by (simp add: good_call_def)
qed

lemma good_deferred:
  assumes "rpc_asks k enq"
  shows "good_call TUnit (rpc_deferred_call i enq)"
proof -
  have "rpc_moves l (snd (enq l))" for l
    using assms by (auto simp: rpc_moves_def)
  then have "good TUnit P (answers LUnit (P\<lparr>rpcLoops := (rpcLoops P)(r := snd (enq (rpcLoops P r)))\<rparr>))" for P r
    by (simp add: good_def answers_def call_moves_rpc)
  then show ?thesis
    by (simp add: good_call_def rpc_deferred_call_def split: option.split)
qed

lemma good_payload_exports:
  "good_call TUInt32 (rpc_runtime_payload_ref_from_bytes i m n)"
  "good_call (TProd TByteArray TByteArray) (rpc_runtime_payload_ref_to_bytes heap i j)"
  "good_call TUnit (rpc_runtime_payload_ref_release i j)"
  "good_call TUInt32 (rpc_runtime_call_with_payload_ref heap i t ifc md j)"
  "good_call TUInt32 (rpc_runtime_start_call_with_payload_ref heap i t ifc md j)"
  "good_call TUInt32 (rpc_runtime_start_streaming_call_with_payload_ref heap i t ifc md j)"
proof -
  show "good_call TUInt32 (rpc_runtime_payload_ref_from_bytes i m n)"
    unfolding good_call_def rpc_runtime_payload_ref_from_bytes_def
    using same_register(1)[where i = i and m = "Some m" and n = "Some n" and retain = True]
    by (auto split: option.split prod.split outcome.split intro!: good_answers_from good_fails_from good_from)
      (metis snd_conv)+
  show "good_call (TProd TByteArray TByteArray) (rpc_runtime_payload_ref_to_bytes heap i j)"
    unfolding good_call_def rpc_runtime_payload_ref_to_bytes_def
    using same_retain[where i = j] same_runtimes_trans[OF _ same_drop(1)]
    by (auto split: option.split prod.split intro!: good_answers_from good_fails_from)
      (metis snd_conv)+
  show "good_call TUnit (rpc_runtime_payload_ref_release i j)"
    unfolding good_call_def rpc_runtime_payload_ref_release_def
    using same_release[where i = i and j = j]
    by (auto split: prod.split sum.split intro!: good_answers_from good_fails_from) (metis snd_conv)+
  show "good_call TUInt32 (rpc_runtime_call_with_payload_ref heap i t ifc md j)"
    unfolding rpc_runtime_call_with_payload_ref_def
    by (rule good_payload_ref_call[OF _ _ replies_payload_ref]; simp only: enqueue_defs; rule rpc_asks_intros; simp)
qed (unfold rpc_runtime_start_call_with_payload_ref_def rpc_runtime_start_streaming_call_with_payload_ref_def,
    (rule good_payload_ref_call[where k = RegisterTargetCompletion],
      (simp only: enqueue_defs, rule rpc_asks_intros, simp), (simp only: enqueue_defs, rule rpc_asks_intros, simp),
      (rule replies_as_reply, erule replies_intros))+)

lemma good_rpc_hand_exports:
  "good_call TRawCallOutcome (rpc_raw_call_with_caps_on_runtime_outcome i t ifc md m bs)"
  "good_call TUInt32 (rpc_runtime_pending_call_await_payload_ref i j)"
  "good_call TRawCallOutcome (rpc_runtime_pending_call_await_outcome i j)"
  "good_call TUnit (rpc_runtime_release order i)"
  "good_call TBool (rpc_runtime_is_alive i)"
proof -
  have raw: "rpc_asks RawCallCompletion (Queue.enqueueRawCall t ifc md m ids)"
      "rpc_asks RawCallCompletion (Queue.enqueueAwaitPendingCall j)" for ids
    by (simp only: enqueue_defs, rule rpc_asks_intros, simp)+
  show "good_call TRawCallOutcome (rpc_raw_call_with_caps_on_runtime_outcome i t ifc md m bs)"
    "good_call TUInt32 (rpc_runtime_pending_call_await_payload_ref i j)"
    "good_call TRawCallOutcome (rpc_runtime_pending_call_await_outcome i j)"
    unfolding good_call_def rpc_raw_call_with_caps_on_runtime_outcome_def
      rpc_runtime_pending_call_await_payload_ref_def rpc_runtime_pending_call_await_outcome_def
    using rpc_ask_good[OF raw(1) replies_outcome] rpc_ask_good[OF raw(2) replies_payload_ref]
      rpc_ask_good[OF raw(2) replies_outcome] by (simp_all split: option.split sum.split)
  show "good_call TUnit (rpc_runtime_release order i)"
    unfolding good_call_def rpc_runtime_release_def unregisterRuntime_def getRuntime_def Let_def
    using same_release_all
    by (auto intro!: good_rpc_shutdown drop_key_le good_answers_from split: option.split)
qed (simp add: good_call_def rpc_runtime_is_alive_def)

lemma good_rpc_more_exports:
  "good_call TUnit (rpc_runtime_pump_async i p)"
  "good_call TUnit (rpc_runtime_release_targets i bs)"
  "good_call TUnit (rpc_runtime_pending_call_release_deferred i j)"
  "good_call TUnit (rpc_runtime_release_target_deferred i j)"
proof -
  have "rpc_asks AsyncUnitCompletion (Queue.enqueuePumpAsync p)"
    by (simp only: enqueue_defs, rule rpc_asks_intros, simp)
  then have "rpc_moves l (snd (Queue.enqueuePumpAsync p l))" for l
    by (auto simp: rpc_moves_def)
  then have "good TUnit P (answers LUnit (P\<lparr>log := l,
      rpcLoops := (rpcLoops P)(r := snd (Queue.enqueuePumpAsync p (rpcLoops P r)))\<rparr>))" for P r l
    by (simp add: good_def answers_def call_moves_def)
  then show "good_call TUnit (rpc_runtime_pump_async i p)"
    by (simp add: good_call_def rpc_runtime_pump_async_def split: option.split)
  have "rpc_asks UnitCompletion (Queue.enqueueReleaseTargets ids)" for ids
    by (simp only: enqueue_defs, rule rpc_asks_intros, simp)
  then have "good_call TUnit (rpc_inline_or_ask d u act (\<lambda>_. LUnit) (Queue.enqueueReleaseTargets ids) read_rpc_unit r)"
    for d u r ids and act :: "loop_state \<Rightarrow> (exn, unit) outcome \<times> rt_state"
    by (rule good_inline_or_ask[rotated]) (simp_all add: read_rpc_unit_def)
  then show "good_call TUnit (rpc_runtime_release_targets i bs)"
    unfolding good_call_def rpc_runtime_release_targets_def by (simp split: option.split sum.split)
qed (simp only: rpc_runtime_pending_call_release_deferred_def rpc_runtime_release_target_deferred_def enqueue_defs,
    rule good_deferred, rule rpc_asks_intros, simp)+

lemma rpc_export_good: "rpc_export T f \<Longrightarrow> good_call T f"
proof (induct rule: rpc_export.induct)
qed (rule good_payload_exports good_rpc_hand_exports good_rpc_more_exports
    | ((simp only: rpc_asking_defs rpc_call_def enqueue_defs)?,
        (rule good_rpc_call good_rpc_decoding_call), (rule rpc_asks_intros, simp), (erule replies_intros))
    | ((simp only: rpc_inline_defs enqueue_defs)?, rule good_inline_call, simp add: lean_pair_def,
        (rule rpc_asks_intros, simp), (erule replies_intros)))+

text \<open>The functions that Lean declares.\<close>

definition lean_export :: "lean_type \<Rightarrow> ffi_call \<Rightarrow> bool" where
  "lean_export T f \<longleftrightarrow> kj_export T f \<or> rpc_export T f"

lemma lean_export_good: "lean_export T f \<Longrightarrow> good_call T f"
  using kj_export_good rpc_export_good by (auto simp: lean_export_def)

end
