(* ===== verification/Process_Facts.thy ===== *)
theory Process_Facts
  imports Exports_Facts
begin

text \<open>
  The process as a whole: threads call exported functions, calls go on when what they wait for
  has come, and the threads of the runtimes take turns, in any order.
\<close>

section \<open>The steps of the process\<close>

text \<open>A new runtime is an object nobody has used yet. The threads in \<open>busy\<close> take no turn,
  since they are in the middle of a call. Each runtime has its own environment.\<close>

definition unused :: "obj \<Rightarrow> ffi_state \<Rightarrow> bool" where
  "unused r P \<longleftrightarrow> kj_completions (kjLoops P r) = [] \<and> completions (rpcLoops P r) = [] \<and>
     r \<notin> ran (kjRuntimes P) \<and> r \<notin> ran (runtimes P)"

text \<open>What starting a KJ runtime throws has a text.\<close>

definition starts :: "kexn option \<Rightarrow> bool" where
  "starts setup \<longleftrightarrow> (\<forall>e. setup = Some e \<longrightarrow> kexn_text ''unknown exception in Capnp.KjAsync runtime thread'' e \<noteq> [])"

inductive ffi_step :: "(obj \<Rightarrow> rt_state kj) \<Rightarrow> (obj \<Rightarrow> kenv) \<Rightarrow> obj set \<Rightarrow> ffi_state \<Rightarrow> ffi_state \<Rightarrow> bool"
  for K J busy where
  call_step: "lean_export T f \<Longrightarrow> ffi_step K J busy P (snd (f c P))"
| resume_step: "lean_export T f \<Longrightarrow> ffi_step K J busy P (snd (continue_call (fst (f c P')) P))"
| new_kj_step: "unused r P \<Longrightarrow> starts setup \<Longrightarrow> ffi_step K J busy P (snd (kj_async_runtime_new setup r c P))"
| new_rpc_step: "unused r P \<Longrightarrow> ffi_step K J busy P (snd (rpc_runtime_new_with_fd_limit setup r fds c P))"
| kj_turn: "ffi_step K J busy P (P\<lparr>kjLoops := (kjLoops P)(r := kj_worker (J r) (kjLoops P r))\<rparr>)"
| rpc_turn: "r \<notin> busy \<Longrightarrow> ffi_step K J busy P (P\<lparr>rpcLoops := (rpcLoops P)(r := worker (K r) (rpcLoops P r))\<rparr>)"

abbreviation ffi_steps :: "(obj \<Rightarrow> rt_state kj) \<Rightarrow> (obj \<Rightarrow> kenv) \<Rightarrow> obj set \<Rightarrow> ffi_state \<Rightarrow> ffi_state \<Rightarrow> bool" where
  "ffi_steps K J busy \<equiv> (ffi_step K J busy)\<^sup>*\<^sup>*"

definition ffi_init :: ffi_state where
  "ffi_init = \<lparr>log = [], heapNext = 0, payloadRefs = Map.empty, nextPayloadRefId = 1,
     runtimes = Map.empty, nextRuntimeId = 1, rpcLoops = \<lambda>_. loop_init (rt_init 0),
     kjRuntimes = Map.empty, kjLoops = \<lambda>_. kj_started\<rparr>"

section \<open>The loops in a step\<close>

definition loops_ok :: "ffi_state \<Rightarrow> bool" where
  "loops_ok P \<longleftrightarrow> (\<forall>r. run_inv (rpcLoops P r)) \<and> (\<forall>r. kj_run_inv (kjLoops P r))"

definition kj_grows :: "kj_loop \<Rightarrow> kj_loop \<Rightarrow> bool" where
  "kj_grows l l' \<longleftrightarrow> length (kj_completions l) \<le> length (kj_completions l') \<and>
     (\<forall>h < length (kj_completions l). kj_kind_at l' h = kj_kind_at l h)"

definition loops_grow :: "ffi_state \<Rightarrow> ffi_state \<Rightarrow> bool" where
  "loops_grow P Q \<longleftrightarrow> (\<forall>r. keeps_answers (rpcLoops P r) (rpcLoops Q r)) \<and> (\<forall>r. kj_grows (kjLoops P r) (kjLoops Q r))"

lemma keeps_answers_refl [simp]: "keeps_answers l l"
  by (simp add: keeps_answers_def)

lemma kj_grows_refl [simp]: "kj_grows l l"
  by (simp add: kj_grows_def)

lemma kj_grows_trans: "kj_grows l m \<Longrightarrow> kj_grows m n \<Longrightarrow> kj_grows l n"
  by (auto simp: kj_grows_def)

lemma loops_grow_refl [simp]: "loops_grow P P"
  by (simp add: loops_grow_def)

lemma loops_grow_trans: "loops_grow P Q \<Longrightarrow> loops_grow Q R \<Longrightarrow> loops_grow P R"
  unfolding loops_grow_def by (blast intro: keeps_answers_trans kj_grows_trans)

lemma run_inv_rt [simp]: "run_inv (l\<lparr>rt := s\<rparr>) = run_inv l"
  by (simp add: run_inv_def)

lemma rpc_moves_ok:
  assumes "rpc_moves l l'" and "run_inv l"
  shows "run_inv l' \<and> keeps_answers l l'"
  using assms(1) unfolding rpc_moves_def
proof (elim disjE exE conjE)
  fix s assume "l' = l\<lparr>rt := s\<rparr>"
  then show ?thesis
    using assms(2) by (simp add: keeps_answers_def)
next
  fix k enq assume "rpc_asks k enq" "l' = snd (enq l)"
  then obtain op p pre undo post h where run: "enqueue_with (op_kind op) p pre undo post op l = (h, l')"
    unfolding rpc_asks_def by (metis prod.collapse)
  have "loop_inv l"
    using assms(2) by (simp add: run_inv_def)
  note e = enqueue_with_ok[OF this run]
  have "run_inv l'"
    using assms(2) e unfolding run_inv_def by metis
  then show ?thesis
    using e(2) by (simp add: evolves_def)
next
  assume "l' = Queue.shutdown l"
  then show ?thesis
    using step_ok[OF assms(2), of undefined Shutdown] by (simp add: evolves_def)
qed

lemma kj_moves_ok:
  assumes "kj_moves l l'" and "kj_run_inv l"
  shows "kj_run_inv l' \<and> kj_grows l l'"
  using assms(1) unfolding kj_moves_def
proof (elim disjE exE)
  fix op assume "l' = snd (kj_issue op l)"
  then show ?thesis
    using kj_issue_ok[OF assms(2)] by (simp add: kj_grows_def)
next
  assume l': "l' = kj_shutdown l"
  then show ?thesis
    using kj_shutdown_ok[OF assms(2) l'] by (simp add: kj_grows_def kj_kind_at_def)
qed (simp add: assms(2))

lemma kj_turn_ok:
  "kj_run_inv l \<Longrightarrow> kj_run_inv (kj_worker J l) \<and> kj_grows l (kj_worker J l)"
  using kj_worker_ok[OF _ refl] by (simp add: kj_grows_def)

lemma call_moves_ok:
  "call_moves P Q \<Longrightarrow> loops_ok P \<Longrightarrow> loops_ok Q \<and> loops_grow P Q"
  unfolding call_moves_def loops_ok_def loops_grow_def by (meson rpc_moves_ok kj_moves_ok)

text \<open>Going on with a call changes no loop.\<close>

lemma continue_same:
  assumes "lean_export T f"
  shows "same_runtimes P (snd (continue_call (fst (f c P')) P))"
proof -
  have "stands T (fst (f c P')) (snd (f c P'))"
    using lean_export_good[OF assms] by (simp add: good_call_def good_def)
  then show ?thesis
  proof (cases "fst (f c P')")
    case (AwaitsRpc r h reply)
    then have "same_runtimes P (snd (reply (completions (rpcLoops P r) ! h) P))"
      using \<open>stands T _ _\<close> by (simp add: replies_as_def)
    then show ?thesis
      by (auto simp: AwaitsRpc Let_def split: prod.split option.split)
  qed (auto simp: Let_def answers_def fails_def)
qed

lemma fresh_loops: "run_inv (loop_init r)" "kj_run_inv kj_started"
  by (rule loop_init_inv, rule kj_started_inv)

lemma aborted_loop_inv: "run_inv (abort e (loop_init r))"
  by (simp add: abort_def failPendingCalls_def loop_init_def run_inv_def loop_inv_def held_by_def undone_def)

lemma RuntimeLoop_inv: "RuntimeLoop setup fds = Some l \<Longrightarrow> run_inv l"
  by (auto simp: RuntimeLoop_def Let_def fresh_loops aborted_loop_inv split: option.splits if_splits)

lemma constructed: "starts setup \<Longrightarrow> KjAsyncRuntimeLoop setup = Constructed l \<Longrightarrow> kj_run_inv l"
  using kj_started_inv
  by (auto simp: KjAsyncRuntimeLoop_def kj_start_def kj_started_def starts_def Let_def failOutstanding_def
      kj_loop_init_def split: option.splits if_splits)

lemma allocated_loops:
  "createRuntime r P = (x, Q) \<Longrightarrow> rpcLoops Q = rpcLoops P \<and> kjLoops Q = kjLoops P"
  by (auto simp: createRuntime_def split: option.splits)

lemma loops_ok_new:
  assumes "unused r P" and "loops_ok P" and "run_inv l"
  shows "loops_ok (P\<lparr>rpcLoops := (rpcLoops P)(r := l)\<rparr>) \<and> loops_grow P (P\<lparr>rpcLoops := (rpcLoops P)(r := l)\<rparr>)"
  using assms by (simp add: loops_ok_def loops_grow_def keeps_answers_def unused_def)

lemma loops_ok_new_kj:
  assumes "unused r P" and "loops_ok P" and "kj_run_inv l"
  shows "loops_ok (P\<lparr>kjLoops := (kjLoops P)(r := l)\<rparr>) \<and> loops_grow P (P\<lparr>kjLoops := (kjLoops P)(r := l)\<rparr>)"
  using assms by (simp add: loops_ok_def loops_grow_def kj_grows_def unused_def)

lemma loops_ok_frame:
  "rpcLoops Q = rpcLoops P \<Longrightarrow> kjLoops Q = kjLoops P \<Longrightarrow> loops_ok Q = loops_ok P"
  "rpcLoops Q = rpcLoops P \<Longrightarrow> kjLoops Q = kjLoops P \<Longrightarrow> loops_grow R Q = loops_grow R P"
  by (simp_all add: loops_ok_def loops_grow_def)

lemma new_kj_ok:
  assumes "unused r P" and "starts setup" and "loops_ok P"
  shows "loops_ok (snd (kj_async_runtime_new setup r c P)) \<and> loops_grow P (snd (kj_async_runtime_new setup r c P))"
proof (cases "KjAsyncRuntimeLoop setup")
  case (Constructed l)
  show ?thesis
    using loops_ok_new_kj[OF assms(1,3) constructed[OF assms(2) Constructed]] assms(3)
    by (auto simp: kj_async_runtime_new_def Constructed answers_def loops_ok_def loops_grow_def split: option.split)
qed (simp add: kj_async_runtime_new_def assms(3))

lemma new_rpc_ok:
  assumes "unused r P" and "loops_ok P"
  shows "loops_ok (snd (rpc_runtime_new_with_fd_limit setup r fds c P)) \<and>
    loops_grow P (snd (rpc_runtime_new_with_fd_limit setup r fds c P))"
proof (cases "RuntimeLoop setup fds")
  case (Some l)
  obtain x Q where run: "createRuntime r P = (x, Q)"
    by fastforce
  show ?thesis
    using loops_ok_new[OF assms RuntimeLoop_inv[OF Some]] assms(2) allocated_loops[OF run]
    by (cases x) (auto simp: run rpc_runtime_new_with_fd_limit_def Some answers_def loops_ok_def loops_grow_def)
qed (simp add: rpc_runtime_new_with_fd_limit_def assms(2))

lemma rpc_turn_ok:
  "run_inv l \<Longrightarrow> run_inv (worker K l) \<and> keeps_answers l (worker K l)"
  using worker_ok by (simp add: evolves_def)

lemma ffi_step_ok: "ffi_step K J busy P Q \<Longrightarrow> loops_ok P \<Longrightarrow> loops_ok Q \<and> loops_grow P Q"
proof (induction rule: ffi_step.induct)
  case (call_step T f P c)
  then show ?case
    using lean_export_good[OF call_step(1)] call_moves_ok unfolding good_call_def good_def by blast
next
  case (resume_step T f P c P')
  then show ?case
    using continue_same[OF resume_step(1)] call_moves_ok same_runtimes_moves by blast
next
  case (new_kj_step r P se c)
  then show ?case
    by (rule new_kj_ok)
next
  case (new_rpc_step r P se fds c)
  then show ?case
    by (rule new_rpc_ok)
next
  case (kj_turn P r)
  then show ?case
    using kj_turn_ok by (simp add: loops_ok_def loops_grow_def)
next
  case (rpc_turn r P)
  then show ?case
    using rpc_turn_ok by (simp add: loops_ok_def loops_grow_def)
qed

lemma ffi_steps_ok: "ffi_steps K J busy P Q \<Longrightarrow> loops_ok P \<Longrightarrow> loops_ok Q \<and> loops_grow P Q"
  by (induction rule: rtranclp_induct) (auto dest: ffi_step_ok intro: loops_grow_trans)

lemma ffi_init_ok: "loops_ok ffi_init"
  by (simp add: loops_ok_def ffi_init_def fresh_loops)

lemma reachable_ok: "ffi_steps K J busy ffi_init P \<Longrightarrow> loops_ok P"
  using ffi_steps_ok ffi_init_ok by blast

section \<open>Answers have the type Lean declares\<close>

lemma stands_later:
  assumes "stands T out P" and "loops_grow P Q"
  shows "stands T out Q"
proof (cases out)
  case (AwaitsKj r h read)
  then show ?thesis
    using assms less_le_trans by (fastforce simp: loops_grow_def kj_grows_def dest: spec[of _ r])
next
  case (AwaitsRpc r h reply)
  then show ?thesis
    using assms less_le_trans by (fastforce simp: loops_grow_def keeps_answers_def dest: spec[of _ r])
qed (use assms(1) in auto)

lemma stands_continue:
  assumes "stands T out P"
  shows "stands T (fst (continue_call out P)) (snd (continue_call out P))"
proof (cases out)
  case (AwaitsKj r h read)
  then show ?thesis
    using assms by (auto simp: Let_def reads_as_def kj_kind_at_def answers_def fails_def mkIoUserError_def)
next
  case (AwaitsRpc r h reply)
  let ?c = "completions (rpcLoops P r) ! h"
  obtain x Q where run: "reply ?c P = (x, Q)"
    by fastforce
  have "answer_fits T x"
    using assms run by (auto simp: AwaitsRpc replies_as_def kind_at_def dest: spec[of _ ?c] spec[of _ P])
      (metis fst_conv)
  then show ?thesis
    using assms run by (cases x) (auto simp: AwaitsRpc Let_def)
qed (use assms in \<open>auto simp: answers_def\<close>)

lemma call_stands:
  assumes "lean_export T f" and "loops_ok P" and "ffi_steps K J busy (snd (f c P)) Q"
  shows "stands T (fst (f c P)) Q"
proof -
  have good: "call_moves P (snd (f c P))" "stands T (fst (f c P)) (snd (f c P))"
    using lean_export_good[OF assms(1)] by (auto simp: good_call_def good_def)
  then have "loops_ok (snd (f c P))"
    using call_moves_ok assms(2) by blast
  then show ?thesis
    using stands_later[OF good(2)] ffi_steps_ok[OF assms(3)] by blast
qed

text \<open>A new runtime's identifier is known at once, or the call does not come back.\<close>

lemma new_export_answer:
  "new_export T f \<Longrightarrow> fst (f c P) = Answered (Inr v) \<Longrightarrow> has_type T v"
  "new_export T f \<Longrightarrow> fst (continue_call (fst (f c P)) Q) = fst (f c P)"
proof -
  have kj: "fst (kj_async_runtime_new start r c P) \<in> {EndsProcess, NeverReturns} \<union> (\<lambda>i. Answered (Inr (LUInt64 i))) ` UNIV"
    for start r by (auto simp: kj_async_runtime_new_def answers_def split: construction.split option.split)
  have rpc: "fst (rpc_runtime_new_with_fd_limit start r fds c P) \<in>
      {EndsProcess, NeverReturns} \<union> (\<lambda>i. Answered (Inr (LUInt64 i))) ` UNIV" for start r fds
    by (auto simp: rpc_runtime_new_with_fd_limit_def answers_def split: option.split prod.split outcome.split)
  assume "new_export T f"
  then have "fst (f c P) \<in> {EndsProcess, NeverReturns} \<union> (\<lambda>i. Answered (Inr (LUInt64 i))) ` UNIV" "T = TUInt64"
    by (cases; simp only: rpc_runtime_new_def kj rpc)+
  then show "fst (f c P) = Answered (Inr v) \<Longrightarrow> has_type T v" "fst (continue_call (fst (f c P)) Q) = fst (f c P)"
    by auto
qed

text \<open>C35. The functions that Lean declares answer with a value of the declared type, or with an
  error: whatever the process did before the call and does while the call waits, what the call
  makes of the completion it waited for has the type. These are the 288 functions of
  \<^verbatim>\<open>lean/Capnp/KjAsync.lean\<close> and \<^verbatim>\<open>lean/Capnp/Rpc.lean\<close> that make,
  use or release a runtime or convert bytes; the five that run a call or a server of their own
  without a runtime (\<^verbatim>\<open>rpc_cpp_call_one_shot\<close>,
  \<^verbatim>\<open>rpc_cpp_call_pipelined_cap_one_shot\<close>, \<^verbatim>\<open>rpc_cpp_serve_echo_once\<close>,
  \<^verbatim>\<open>rpc_cpp_serve_throw_once\<close> and \<^verbatim>\<open>rpc_cpp_serve_delayed_echo_once\<close>)
  are not among them.\<close>

theorem answers_have_declared_type:
  assumes "ffi_steps K J busy ffi_init P" and "lean_export T f \<or> new_export T f"
    and "ffi_steps K J busy (snd (f c P)) Q"
    and "fst (continue_call (fst (f c P)) Q) = Answered (Inr v)"
  shows "has_type T v"
  using assms(2)
proof
  assume "lean_export T f"
  then have "stands T (fst (f c P)) Q"
    using call_stands reachable_ok[OF assms(1)] assms(3) by blast
  then show ?thesis
    using stands_continue[of T "fst (f c P)" Q] assms(4) by simp
next
  assume "new_export T f"
  then show ?thesis
    using new_export_answer assms(4) by metis
qed

section \<open>Threads that end leave nobody waiting\<close>

lemma kj_turns_grow:
  assumes "kj_run_inv l"
  shows "kj_run_inv ((kj_worker J ^^ n) l) \<and> kj_grows l ((kj_worker J ^^ n) l)"
proof (induction n)
  case (Suc n)
  then show ?case
    using kj_turn_ok[of "(kj_worker J ^^ n) l"] kj_grows_trans by simp blast
qed (simp add: assms)

lemma kj_stop_ends:
  assumes "kj_run_inv l" and "t = (kj_worker J ^^ Suc (length (kj_queue (kj_shutdown l)))) (kj_shutdown l)"
  shows "kj_phase t = KjBlocked \<or> (kj_phase t = KjExited \<and> (\<forall>h < length (kj_completions l). kc_done (kj_completions t ! h)))"
proof -
  have inv: "kj_run_inv (kj_shutdown l)" "kj_completions (kj_shutdown l) = kj_completions l"
    using kj_shutdown_ok[OF assms(1) refl] by blast+
  have "kj_phase t \<in> {KjBlocked, KjExited}"
    unfolding assms(2) by (rule kj_turns_to_end[OF inv(1) _ refl]) (simp add: kj_shutdown_def)
  moreover have "kj_run_inv t" "kj_grows (kj_shutdown l) t"
    unfolding assms(2) using kj_turns_grow[OF inv(1)] by blast+
  ultimately show ?thesis
    using kj_exited_done[of t] inv(2) by (auto simp: kj_grows_def list_all_length)
qed

lemma loops_after_call:
  assumes "lean_export T f" and "loops_ok P" and "ffi_steps K J busy (snd (f c P)) Q"
  shows "loops_ok Q"
proof -
  have "call_moves P (snd (f c P))"
    using lean_export_good[OF assms(1)] by (auto simp: good_call_def good_def)
  then show ?thesis
    using call_moves_ok assms(2) ffi_steps_ok[OF assms(3)] by blast
qed

text \<open>C36. Releasing a KJ runtime ends its thread and everybody's wait for it: in any state of the
  process, once the identifier was released, after as many turns of the thread as operations
  are queued and one more, unless an operation never returns, the call of release answers, and
  so does every call that was waiting for that runtime.\<close>

theorem release_answers_every_caller:
  assumes "ffi_steps K J busy ffi_init P" and "lean_export T f"
    and "ffi_steps K J busy (snd (f c P)) Q" and "fst (f c P) = AwaitsKj r h read"
    and "getKjAsyncRuntime i Q = Some r"
    and "S = snd (kj_async_runtime_release i c' Q)"
    and "S' = S\<lparr>kjLoops := (kjLoops S)(r := (kj_worker (J r) ^^ Suc (length (kj_queue (kjLoops S r)))) (kjLoops S r))\<rparr>"
  shows "kj_phase (kjLoops S' r) = KjBlocked \<or>
    (\<exists>x. fst (continue_call (fst (f c P)) S') = Answered x) \<and>
    fst (continue_call (fst (kj_async_runtime_release i c' Q)) S') = Answered (Inr LUnit)"
proof -
  have "stands T (AwaitsKj r h read) Q"
    using call_stands[OF assms(2) reachable_ok[OF assms(1)] assms(3)] assms(4) by simp
  then have h: "h < length (kj_completions (kjLoops Q r))"
    by simp
  have rel: "fst (kj_async_runtime_release i c' Q) = JoinsKj r" "kjLoops S r = kj_shutdown (kjLoops Q r)"
    using assms(5,6) by (auto simp: kj_async_runtime_release_def unregisterKjAsyncRuntime_def getKjAsyncRuntime_def)
  define t where "t = (kj_worker (J r) ^^ Suc (length (kj_queue (kjLoops S r)))) (kjLoops S r)"
  have "kj_run_inv (kjLoops Q r)"
    using loops_after_call[OF assms(2) reachable_ok[OF assms(1)] assms(3)] by (simp add: loops_ok_def)
  from kj_stop_ends[OF this t_def[unfolded rel(2)]]
  have "kj_phase t = KjBlocked \<or> (kj_phase t = KjExited \<and> kc_done (kj_completions t ! h))"
    using h by blast
  moreover have "kjLoops S' r = t"
    unfolding assms(7) t_def by simp
  ultimately show ?thesis
    unfolding assms(4) rel(1) by (auto simp: Let_def answers_def fails_def)
qed

section \<open>Identifiers of runtimes\<close>

definition ids_ok :: "ffi_state \<Rightarrow> bool" where
  "ids_ok P \<longleftrightarrow> nextRuntimeId P \<noteq> 0 \<and>
     (\<forall>i. getRuntime i P \<noteq> None \<or> getKjAsyncRuntime i P \<noteq> None \<longrightarrow> i \<noteq> 0 \<and> i < nextRuntimeId P) \<and>
     (\<forall>i. getRuntime i P = None \<or> getKjAsyncRuntime i P = None)"

definition ids_kept :: "ffi_state \<Rightarrow> ffi_state \<Rightarrow> bool" where
  "ids_kept P Q \<longleftrightarrow> nextRuntimeId P \<le> nextRuntimeId Q \<and> (\<forall>i < nextRuntimeId P.
     (getRuntime i Q = None \<or> getRuntime i Q = getRuntime i P) \<and>
     (getKjAsyncRuntime i Q = None \<or> getKjAsyncRuntime i Q = getKjAsyncRuntime i P))"

lemma ids_kept_refl [simp]: "ids_kept P P"
  by (simp add: ids_kept_def)

lemma ids_kept_trans: "ids_kept P Q \<Longrightarrow> ids_kept Q R \<Longrightarrow> ids_kept P R"
  unfolding ids_kept_def by (metis order.strict_trans2 order_trans)

lemma map_le_key: "m \<subseteq>\<^sub>m m' \<Longrightarrow> m i = None \<or> m i = m' i"
  by (auto simp: map_le_def dom_def)

lemma ids_subset:
  assumes "runtimes Q \<subseteq>\<^sub>m runtimes P" and "kjRuntimes Q \<subseteq>\<^sub>m kjRuntimes P" and "nextRuntimeId Q = nextRuntimeId P"
    and "ids_ok P"
  shows "ids_ok Q \<and> ids_kept P Q"
  using map_le_key[OF assms(1)] map_le_key[OF assms(2)] assms(3,4)
  unfolding ids_ok_def ids_kept_def getRuntime_def getKjAsyncRuntime_def by (metis order_refl)

lemma ids_moves: "call_moves P Q \<Longrightarrow> ids_ok P \<Longrightarrow> ids_ok Q \<and> ids_kept P Q"
  unfolding call_moves_def using ids_subset by blast

text \<open>Both allocators take the next number while the counter has not come round.\<close>

lemma ids_alloc:
  assumes "ids_ok P"
  shows "alloc_nonzero (runtimes P) (nextRuntimeId P) = Some (nextRuntimeId P, nextRuntimeId P + 1)"
    and "alloc_nonzero (kjRuntimes P) (nextRuntimeId P) = Some (nextRuntimeId P, nextRuntimeId P + 1)"
proof -
  have "nextRuntimeId P \<noteq> 0" "runtimes P (nextRuntimeId P) = None" "kjRuntimes P (nextRuntimeId P) = None"
    using assms unfolding ids_ok_def getRuntime_def getKjAsyncRuntime_def by (metis less_irrefl)+
  then show "alloc_nonzero (runtimes P) (nextRuntimeId P) = Some (nextRuntimeId P, nextRuntimeId P + 1)"
    "alloc_nonzero (kjRuntimes P) (nextRuntimeId P) = Some (nextRuntimeId P, nextRuntimeId P + 1)"
    by (simp_all add: alloc_nonzero_def)
qed

lemma ids_new:
  assumes "ids_ok P" and "nextRuntimeId P + 1 \<noteq> 0" and "nextRuntimeId Q = nextRuntimeId P + 1"
    and "(runtimes Q = (runtimes P)(nextRuntimeId P \<mapsto> r) \<and> kjRuntimes Q = kjRuntimes P) \<or>
      (runtimes Q = runtimes P \<and> kjRuntimes Q = (kjRuntimes P)(nextRuntimeId P \<mapsto> r))"
  shows "ids_ok Q \<and> ids_kept P Q"
proof -
  have lt: "nextRuntimeId P < nextRuntimeId P + 1"
    using assms(2) unsigned_less[where 'a = nat and w = "nextRuntimeId P"]
    by (simp add: word_less_nat_alt unat_word_ariths(1) word_unat_eq_iff mod_Suc split: if_splits)
  then have lt': "i < nextRuntimeId P \<Longrightarrow> i < nextRuntimeId P + 1" for i
    by (rule less_trans[rotated])
  have free: "getRuntime (nextRuntimeId P) P = None" "getKjAsyncRuntime (nextRuntimeId P) P = None"
    using assms(1) unfolding ids_ok_def by (metis less_irrefl)+
  have other: "getRuntime j Q = getRuntime j P \<and> getKjAsyncRuntime j Q = getKjAsyncRuntime j P"
    if "j \<noteq> nextRuntimeId P" for j
    using assms(4) that by (auto simp: getRuntime_def getKjAsyncRuntime_def)
  have new: "getRuntime (nextRuntimeId P) Q = None \<or> getKjAsyncRuntime (nextRuntimeId P) Q = None"
    using assms(4) free by (auto simp: getRuntime_def getKjAsyncRuntime_def)
  have "nextRuntimeId P \<noteq> 0"
    using assms(1) by (simp add: ids_ok_def)
  then have "j \<noteq> 0 \<and> j < nextRuntimeId Q" if "getRuntime j Q \<noteq> None \<or> getKjAsyncRuntime j Q \<noteq> None" for j
    using that other[of j] lt lt'[of j] assms(1) unfolding assms(3) ids_ok_def by (cases "j = nextRuntimeId P") auto
  moreover have "getRuntime j Q = None \<or> getKjAsyncRuntime j Q = None" for j
    using other[of j] new assms(1) unfolding ids_ok_def by (cases "j = nextRuntimeId P") auto
  ultimately have "ids_ok Q"
    using assms(2,3) by (simp add: ids_ok_def)
  moreover have "ids_kept P Q"
    using other lt unfolding ids_kept_def assms(3) by (auto simp: less_imp_le)
  ultimately show ?thesis ..
qed

lemma new_runtime_ids:
  assumes "ids_ok P" and "nextRuntimeId Q \<noteq> 0"
    and "Q = snd (kj_async_runtime_new setup r c P) \<or> Q = snd (rpc_runtime_new_with_fd_limit setup' r fds c P)"
  shows "ids_ok Q \<and> ids_kept P Q"
  using assms(3)
proof
  assume Q: "Q = snd (kj_async_runtime_new setup r c P)"
  show ?thesis
  proof (cases "KjAsyncRuntimeLoop setup")
    case (Constructed l)
    then show ?thesis
      using assms(2) Q by (intro ids_new[OF assms(1), of Q r])
        (simp_all add: kj_async_runtime_new_def allocateKjAsyncRuntimeIdLocked_def ids_alloc[OF assms(1)] answers_def)
  qed (use Q assms(1) in \<open>simp add: kj_async_runtime_new_def\<close>)
next
  assume Q: "Q = snd (rpc_runtime_new_with_fd_limit setup' r fds c P)"
  show ?thesis
  proof (cases "RuntimeLoop setup' fds")
    case (Some l)
    then show ?thesis
      using assms(2) Q by (intro ids_new[OF assms(1), of Q r])
        (simp_all add: rpc_runtime_new_with_fd_limit_def createRuntime_def ids_alloc[OF assms(1)] answers_def)
  qed (use Q assms(1) in \<open>simp add: rpc_runtime_new_with_fd_limit_def\<close>)
qed

lemma ids_step:
  "ffi_step K J busy P Q \<Longrightarrow> nextRuntimeId Q \<noteq> 0 \<Longrightarrow> ids_ok P \<Longrightarrow> ids_ok Q \<and> ids_kept P Q"
proof (induction rule: ffi_step.induct)
  case (call_step T f P c)
  then show ?case
    using lean_export_good[OF call_step(1)] ids_moves unfolding good_call_def good_def by blast
next
  case (resume_step T f P c P')
  then show ?case
    using continue_same[OF resume_step(1)] ids_moves same_runtimes_moves by blast
next
  case (new_kj_step r P se c)
  then show ?case
    using new_runtime_ids by blast
next
  case (new_rpc_step r P se fds c)
  then show ?case
    using new_runtime_ids by blast
next
  case (kj_turn P r)
  then show ?case
    by (intro ids_subset) simp_all
next
  case (rpc_turn r P)
  then show ?case
    by (intro ids_subset) simp_all
qed

text \<open>Steps after which the 64-bit counter has not come round to 0.\<close>

definition counting :: "(obj \<Rightarrow> rt_state kj) \<Rightarrow> (obj \<Rightarrow> kenv) \<Rightarrow> obj set \<Rightarrow> ffi_state \<Rightarrow> ffi_state \<Rightarrow> bool" where
  "counting K J busy P Q \<longleftrightarrow> ffi_step K J busy P Q \<and> nextRuntimeId Q \<noteq> 0"

lemma counting_ok: "(counting K J busy)\<^sup>*\<^sup>* P Q \<Longrightarrow> ids_ok P \<Longrightarrow> ids_ok Q \<and> ids_kept P Q"
  by (induction rule: rtranclp_induct) (auto simp: counting_def dest: ids_step intro: ids_kept_trans)

text \<open>C37. An identifier names one runtime: as long as the counter the two bridges share has not come
  round, no number is in both registries, and one that was handed out never names another
  runtime, of either kind, also after its runtime was released.\<close>

theorem runtime_ids_name_one_runtime:
  assumes "(counting K J busy)\<^sup>*\<^sup>* ffi_init P" and "(counting K J busy)\<^sup>*\<^sup>* P Q" and "i < nextRuntimeId P"
  shows "(getRuntime i Q = None \<or> getKjAsyncRuntime i Q = None) \<and>
    (getRuntime i Q = None \<or> getRuntime i Q = getRuntime i P) \<and>
    (getKjAsyncRuntime i Q = None \<or> getKjAsyncRuntime i Q = getKjAsyncRuntime i P)"
proof -
  have "ids_ok ffi_init"
    by (simp add: ids_ok_def ffi_init_def getRuntime_def getKjAsyncRuntime_def)
  then have Q: "ids_ok Q" "ids_kept P Q"
    using counting_ok[OF assms(1)] counting_ok[OF assms(2)] by blast+
  have "getRuntime i Q = None \<or> getKjAsyncRuntime i Q = None"
    using Q(1) by (simp add: ids_ok_def)
  then show ?thesis
    using Q(2) assms(3) by (simp add: ids_kept_def)
qed

section \<open>Calls on the thread of the runtime\<close>

definition settled :: "ffi_outcome \<Rightarrow> bool" where
  "settled out \<longleftrightarrow> (case out of Answered _ \<Rightarrow> True | NeverReturns \<Rightarrow> True | _ \<Rightarrow> False)"

lemma settled_simps [simp]: "settled (fst (answers v P))" "settled (fst (fails what P))" "settled NeverReturns"
  by (simp_all add: settled_def answers_def fails_def)

lemma same_queue_answers [simp]: "snd (answers v P) = P" "snd (fails what P) = P"
  by (simp_all add: answers_def fails_def)






text \<open>The functions that ask nothing of the thread, or do not wait for what they ask, have an
  answer at once on any thread.\<close>

lemma at_once_exports_do_not_wait: "at_once_export i f \<Longrightarrow> settled (fst (f c P))"
proof (induct rule: at_once_export.induct)
qed (auto simp: rpc_runtime_is_alive_def kj_async_runtime_is_alive_def rpc_runtime_payload_ref_from_bytes_def
    rpc_runtime_payload_ref_to_bytes_def rpc_runtime_payload_ref_release_def rpc_runtime_pump_async_def
    rpc_runtime_pending_call_release_deferred_def rpc_runtime_release_target_deferred_def rpc_deferred_call_def
    split: option.split prod.split outcome.split sum.split)

subsection \<open>The functions that wait all the same\<close>














text \<open>Which functions for RPC runtimes are of which kind.\<close>

lemma rpc_export_kinds:
  "rpc_export T f \<Longrightarrow> \<exists>i. inline_export i f \<or> at_once_export i f \<or> queued_export i f \<or> decoding_export i f"
proof (induct rule: rpc_export.induct)
qed (blast intro: inline_export.intros at_once_export.intros queued_export.intros decoding_export.intros)+


section \<open>The theorems on a process with one runtime of each kind\<close>

text \<open>Runtime 1 is a KJ runtime, runtime 2 an RPC runtime.\<close>

definition one_runtime :: ffi_state where
  "one_runtime = snd (kj_async_runtime_new None 0 LeanThread ffi_init)"


lemma one_runtime_state:
  "kjRuntimes one_runtime = [1 \<mapsto> 0]" "runtimes one_runtime = Map.empty" "nextRuntimeId one_runtime = 2"
  "kjLoops one_runtime = (\<lambda>_. kj_started)" "rpcLoops one_runtime = (\<lambda>_. loop_init (rt_init 0))"
  by (auto simp: one_runtime_def kj_async_runtime_new_def KjAsyncRuntimeLoop_def kj_start_def kj_started_def
      allocateKjAsyncRuntimeIdLocked_def alloc_nonzero_def ffi_init_def answers_def Let_def kj_loop_init_def)



lemma one_runtime_step: "counting K J busy ffi_init one_runtime"
proof -
  have "ffi_step K J busy ffi_init one_runtime"
    unfolding one_runtime_def
    by (rule new_kj_step) (simp_all add: unused_def starts_def ffi_init_def loop_init_def kj_started_def kj_start_def kj_loop_init_def)
  then show ?thesis
    by (simp add: counting_def one_runtime_state)
qed

lemma one_runtime_reached: "ffi_steps K J busy ffi_init one_runtime"
  using one_runtime_step by (auto simp: counting_def)

definition asked :: ffi_state where
  "asked = snd (kj_async_runtime_task_set_new 1 LeanThread one_runtime)"

definition turned :: ffi_state where
  "turned = asked\<lparr>kjLoops := (kjLoops asked)(0 := kj_worker kj_demo (kjLoops asked 0))\<rparr>"

lemma task_set_export: "lean_export TUInt32 (kj_async_runtime_task_set_new i)"
  by (simp add: lean_export_def kj_export.intros)

lemma asking:
  "kj_async_runtime_task_set_new 1 LeanThread one_runtime =
    (AwaitsKj 0 0 read_handle, one_runtime\<lparr>kjLoops := (\<lambda>_. kj_started)(0 := kj_started
      \<lparr>kj_completions := [new_kj_completion KjHandle], kj_queue := [(ComposeOp QueuedTaskSetNew, 0)]\<rparr>)\<rparr>)"
  by (simp add: kj_async_runtime_task_set_new_def kj_or_rpc_call_def getKjAsyncRuntime_def one_runtime_state
      kj_ask_def Kj_Queue.enqueueTaskSetNew_def kj_enqueue_def kj_started_def kj_start_def kj_loop_init_def)

lemma asked_step: "ffi_steps K (\<lambda>_. kj_demo) busy ffi_init asked"
  using one_runtime_reached call_step[OF task_set_export] unfolding asked_def
  by (rule rtranclp.rtrancl_into_rtrancl)

lemma turned_step: "ffi_steps K (\<lambda>_. kj_demo) busy asked turned"
  unfolding turned_def using kj_turn[of K "\<lambda>_. kj_demo" busy asked 0] by blast

lemma turned_answer:
  "fst (continue_call (fst (kj_async_runtime_task_set_new 1 LeanThread one_runtime)) turned) = Answered (Inr (LUInt32 1))"
  by (simp add: asking turned_def asked_def kj_worker_def kj_process_def on_kj_thread_def take_answers_def taskSetNew_def
      kj_handle_branch_def kj_answering_def kj_answer_def kj_started_def kj_start_def kj_loop_init_def kj_init_def Let_def
      fresh_def bnd_def ret_def Kj_State.addTaskSet_def kjCompleteHandleSuccess_def new_kj_completion_def answers_def
      read_handle_def)

theorem answers_have_declared_type_witness:
  "fst (continue_call (fst (kj_async_runtime_task_set_new 1 LeanThread one_runtime)) turned) = Answered (Inr (LUInt32 1)) \<and>
   has_type TUInt32 (LUInt32 1)"
  using turned_answer
    answers_have_declared_type[OF one_runtime_reached disjI1[OF task_set_export] turned_step[unfolded asked_def] turned_answer]
  by simp

definition released :: ffi_state where
  "released = snd (kj_async_runtime_release 1 LeanThread asked)"

definition ended :: ffi_state where
  "ended = released\<lparr>kjLoops := (kjLoops released)
     (0 := (kj_worker kj_demo ^^ Suc (length (kj_queue (kjLoops released 0)))) (kjLoops released 0))\<rparr>"

lemma released_loop:
  "kjLoops released 0 = kj_started\<lparr>kj_completions := [new_kj_completion KjHandle],
     kj_queue := [(ComposeOp QueuedTaskSetNew, 0)], kj_stopping := True\<rparr>"
  by (simp add: released_def asked_def asking kj_async_runtime_release_def unregisterKjAsyncRuntime_def one_runtime_state
      kj_shutdown_def kj_started_def kj_start_def kj_loop_init_def)

lemma ended_exited: "kj_phase (kjLoops ended 0) = KjExited"
  by (simp add: ended_def released_loop kj_worker_def kj_process_def on_kj_thread_def take_answers_def taskSetNew_def
      kj_handle_branch_def kj_answering_def kj_answer_def kj_started_def kj_start_def kj_loop_init_def kj_init_def Let_def
      fresh_def bnd_def ret_def Kj_State.addTaskSet_def kj_finish_def)

theorem release_answers_every_caller_witness:
  "(\<exists>x. fst (continue_call (fst (kj_async_runtime_task_set_new 1 LeanThread one_runtime)) ended) = Answered x) \<and>
   fst (continue_call (fst (kj_async_runtime_release 1 LeanThread asked)) ended) = Answered (Inr LUnit)"
proof -
  have waits: "fst (kj_async_runtime_task_set_new 1 LeanThread one_runtime) = AwaitsKj 0 0 read_handle"
    by (simp add: asking)
  have live: "getKjAsyncRuntime 1 asked = Some 0"
    by (simp add: asked_def asking getKjAsyncRuntime_def one_runtime_state)
  show ?thesis
    using release_answers_every_caller[OF one_runtime_reached task_set_export rtranclp.rtrancl_refl[of _ asked, unfolded asked_def]
        waits live[unfolded asked_def] released_def[unfolded asked_def] ended_def, folded asked_def] ended_exited
    by simp
qed

theorem runtime_ids_name_one_runtime_witness:
  "getKjAsyncRuntime 1 one_runtime = Some 0 \<and> getRuntime 1 one_runtime = None"
proof -
  have "getKjAsyncRuntime 1 one_runtime = Some 0"
    by (simp add: getKjAsyncRuntime_def one_runtime_state)
  moreover have "(counting K J UNIV)\<^sup>*\<^sup>* ffi_init one_runtime" for K J
    using one_runtime_step by blast
  ultimately show ?thesis
    using runtime_ids_name_one_runtime[of undefined undefined UNIV one_runtime one_runtime 1] by (simp add: one_runtime_state)
qed



end
