(* ===== verification/Spec2Isabelle.thy ===== *)
theory Spec2Isabelle
  imports Peer_Lifetime Call_Facts Connection_Facts Vat_Facts Multi_Vat_Facts Run_Loop_Facts Registry
    Kj_Wire_Facts Kj_Loop_Facts Process_Facts
begin

text \<open>
  The two runtimes of the Lean 4 binding of Cap'n Proto.

  \<^bold>\<open>The program.\<close> Lean code drives the C++ RPC library through a runtime
  (\<^verbatim>\<open>RuntimeLoop\<close> in \<^verbatim>\<open>src/ffi/rpc_bridge_runtime.cpp\<close>). A runtime owns one
  thread with a KJ event loop. Threads that run Lean code put an operation into the
  runtime's queue and wait for its completion; the runtime's thread takes the operations
  one after the other, each reading and changing the runtime's tables: capabilities by
  identifier, connections, promises, pending calls, servers written in Lean, named peers
  of an in-process network (\<^verbatim>\<open>rpc_bridge_generic_vat.cpp\<close>). Some operations leave a
  task behind that completes the request when a promise ends. Process-wide tables name the
  runtimes and the payloads Lean holds on to (\<^verbatim>\<open>rpc_bridge_payload_ref.cpp\<close>).
  \<^verbatim>\<open>rpc_bridge_common.cpp\<close> has the wire formats between the two languages, the
  description of exceptions and the functions that answer completions.

  A second runtime on the same plan (\<^verbatim>\<open>KjAsyncRuntimeLoop\<close> in
  \<^verbatim>\<open>src/ffi/kj_async_bridge.cpp\<close>) serves the clocks, network streams,
  datagrams, HTTP and WebSockets of KJ. Its operations never wait: what ends later becomes
  a promise in a table, that another operation awaits. Its HTTP server hands requests to
  Lean, which answers them by identifier.

  Lean reaches both through exported C functions (the second half of
  \<^verbatim>\<open>kj_async_bridge.cpp\<close>, \<^verbatim>\<open>rpc_bridge.cpp\<close>, the end of
  \<^verbatim>\<open>rpc_bridge_runtime.cpp\<close>). Each looks a runtime up by its identifier, converts the
  arguments, queues an operation, waits for the completion and makes a Lean value or an
  error of it. A server written in Lean runs on the thread of its runtime; some functions
  see that and run the operation there and then. Both kinds of runtime draw their
  identifiers from one counter, and 28 functions of the KJ bridge serve either kind.

  \<^bold>\<open>How it is modelled.\<close> An operation is a function from its arguments and the state to
  an outcome and the state it leaves. \<open>outcome\<close> (\<^verbatim>\<open>Rt_Prelude\<close>) says that it
  returned, threw, or does not return; what was done before a throw stays done. States are
  records that extend each other in the order of the theories, one field for each table or
  counter of the class under its name, maps for the hash tables, machine words at their
  width. An operation is polymorphic in what later theories add. \<open>bnd\<close>, \<open>sq\<close>,
  \<open>find_or\<close> and \<open>for_each\<close> are the sequencing, lookup and loop idioms of the source.

  Code outside the repository (KJ, the RPC library, Lean's runtime, the operating system)
  is opaque: objects are numbers, each call is appended to \<open>log\<close> in the order the code
  makes it, and what a call answers, throws included, is a field of the parameter
  \<open>env\<close> (\<^verbatim>\<open>World\<close>), which may depend on the whole log. Waiting for a promise is a
  parameter too, which may change the state in any way before it ends, since the event
  loop runs meanwhile. Continuations attached to promises are definitions of their own
  (\<^verbatim>\<open>_done\<close>, \<^verbatim>\<open>resume\<close>), run when the event loop gets to them. Where a
  theorem needs something of these parameters, it is a named hypothesis on them
  (\<open>fair_wait\<close>: what happens during a wait are turns of the event loop, that is continuations of
  the runtime and operations on its capability table; \<open>steady\<close>, \<open>smooth_turns\<close>), shown to hold
  of a concrete one in the theorem's witness.

  \<^bold>\<open>Theories and what they show.\<close>

  \<^verbatim>\<open>Rt_Prelude\<close>: words, decimal text, outcomes and their rules; \<open>keeps\<close> composes the
  preservation of a property along the combinators.

  \<^verbatim>\<open>Wire\<close> (\<^verbatim>\<open>readUint32Le\<close> to \<^verbatim>\<open>decodePipelineOps\<close>): little-endian integers,
  capability tables and pipeline operations; decoding inverts encoding and accepts exactly
  the well-formed byte strings.

  \<^verbatim>\<open>World\<close>: exceptions, their descriptions and type tags, the external calls and the
  environment. \<^verbatim>\<open>Ids\<close>: the loop that allocates identifiers. It takes the first free
  identifier from the counter on, wraps, and ends exactly when some identifier is free.
  Its locales \<open>id_table\<close> and \<open>handle_table\<close> state what the users of a table rely on;
  every table of the runtime interprets them.

  \<^verbatim>\<open>Trace\<close>, \<^verbatim>\<open>Targets\<close>, \<^verbatim>\<open>Target_Facts\<close>, \<^verbatim>\<open>Peer_Lifetime\<close>: the trace
  encoder; the capability table and the reference counts that keep a connection's peer
  alive while a target obtained through it is live. The counts are right in every run, a
  release drops exactly what it should, retaining and releasing cancel out.

  \<^verbatim>\<open>Promise_Caps\<close>, \<^verbatim>\<open>Promises\<close>, \<^verbatim>\<open>Promise_Facts\<close>: promised capabilities with
  held resolutions and their flush; promise tables, combinators and task sets. Held
  resolutions are flushed in order, an identifier of a promise is live, retired or
  unknown and never comes back.

  \<^verbatim>\<open>Calls\<close>, \<^verbatim>\<open>Handlers\<close>, \<^verbatim>\<open>Call_Facts\<close>: payloads and their capability tables,
  raw, pending and streaming calls, and the server classes around Lean closures with the
  actions a closure can answer and their deferred continuation. What a request registers
  is dropped on each path, but for the leaks the theory states. Releasing a pending call cancels
  the first deferred handler that can be canceled, and those destroyed with the call.

  \<^verbatim>\<open>Connections\<close>, \<^verbatim>\<open>Connection_Facts\<close>: transports, listeners, clients, servers; in
  every run each RPC system the runtime makes has the trace encoder that the switch says. Only
  the client end of a loopback pair, whose RPC system is inside the library's own client, never
  gets it.

  \<^verbatim>\<open>Generic_Vat\<close>, \<^verbatim>\<open>Vat_Facts\<close>: the in-process network: connections by peer,
  blocked deliveries, the third-party handoff by tokens. Registered connections are live
  and mutual, a blocked message is delivered on unblocking, an introduction reaches its
  recipient in whichever order the two sides arrive.

  \<^verbatim>\<open>Multi_Vat\<close>, \<^verbatim>\<open>Multi_Vat_Facts\<close>: named peers, sturdy references and restorers.
  The tables agree with each other; what was published is what is restored.

  \<^verbatim>\<open>Completions\<close>, \<^verbatim>\<open>Queue\<close>, \<^verbatim>\<open>Dispatch\<close>, \<^verbatim>\<open>Run_Loop\<close>,
  \<^verbatim>\<open>Run_Loop_Facts\<close>: the completions; the 128 queued operations and the method that
  queues each; the branch of the run loop for each, which calls the operations of the
  theories above; the loop, its task set, shutdown, teardown, and \<^verbatim>\<open>failPendingCalls\<close>.
  Every run refines an abstract first-in first-out service. Each request has one owner
  until it is answered, once, in the type it was asked in. After a shutdown the thread
  ends within a bound, and then all are answered. An answer never changes. What an exception out of the loop leaves
  unanswered is stated exactly.

  \<^verbatim>\<open>Registry\<close>: runtimes by identifier, and payload references, whose counts of Lean
  references balance.

  \<^verbatim>\<open>Kj_Wire\<close>, \<^verbatim>\<open>Kj_Wire_Facts\<close>: the byte formats of the second runtime
  (identifiers, header pairs, HTTP server requests): what one side writes is what the
  other reads, and nothing else is accepted.

  \<^verbatim>\<open>Kj_State\<close>, \<^verbatim>\<open>Kj_Events\<close>, \<^verbatim>\<open>Kj_Promises\<close>, \<^verbatim>\<open>Kj_Net\<close>,
  \<^verbatim>\<open>Kj_Http\<close>: its state (a record of the tables and counters of the class), the
  continuations that run when a promise ends, and the operations on promises and task
  sets, on addresses, streams and datagrams, and on HTTP clients, servers,
  bodies and WebSockets. The environment \<open>kenv\<close> answers the calls of KJ.
  The order of a walk through a table is the parameter \<open>table_walk\<close>, with the hypothesis
  \<open>walks\<close> that it visits every key.

  \<^verbatim>\<open>Kj_Completions\<close>, \<^verbatim>\<open>Kj_Queue\<close>, \<^verbatim>\<open>Kj_Dispatch\<close>, \<^verbatim>\<open>Kj_Loop\<close>: the
  completions, the queued operations with the methods that queue them, the branch of the
  loop for each, the loop with its shutdown and teardown. \<^verbatim>\<open>Kj_Guards\<close> has the
  locales of state views that an operation keeps or guards; \<^verbatim>\<open>Kj_Server_Facts\<close> and
  \<^verbatim>\<open>Kj_Loop_Facts\<close> show that every run refines an abstract service, that requests
  are answered in order and in the kind of completion they were asked with, that answers are
  final but for the two operations a callback of the HTTP service answers, that a
  shutdown leaves none of them without an answer, and that every stream the runtime holds
  for a request is attended to until it is released.

  \<^verbatim>\<open>Ffi\<close>, \<^verbatim>\<open>Kj_Exports\<close>, \<^verbatim>\<open>Rpc_Exports\<close>, \<^verbatim>\<open>Lean_Decls\<close>: Lean values and
  their types, the process with its registries and the loops of its runtimes
  (\<open>ffi_state\<close>), where a call stands (\<open>ffi_outcome\<close>: answered, waiting, ...) and how it
  goes on (\<open>continue_call\<close>); the exported functions, one definition each, and the types
  under which \<^verbatim>\<open>lean/Capnp/KjAsync.lean\<close> and \<^verbatim>\<open>lean/Capnp/Rpc.lean\<close> declare them.
  \<^verbatim>\<open>Exports_Facts\<close> shows of each what it does to the process and what it reads.
  \<^verbatim>\<open>Process_Facts\<close> puts calls of any threads, the turns of the runtimes and new
  runtimes together as steps (\<open>ffi_step\<close>): answers have the declared type, a release
  answers whoever waits, and identifiers name one runtime. Called on the runtime's own thread,
  by a Lean server, the functions of \<open>inline_export\<close> and \<open>at_once_export\<close> do not wait, and
  those of \<open>queued_export\<close> and \<open>decoding_export\<close> wait for ever, unless they refuse their
  arguments.

  \<^bold>\<open>Bounds.\<close> Two loops of the model may not end: the allocation of an identifier
  (\<open>alloc_id\<close>, a partial function whose \<open>None\<close> is not ending, shown to mean that every
  identifier is in use) and the turning of the event loop while an operation waits
  (\<open>pump\<close> of \<^verbatim>\<open>Kj_Dispatch\<close>, likewise). There is no fuel. The bound on the turns after a
  shutdown counts two for each queued operation, for it may leave a task behind, one for
  each task, and one to leave the loop.

  \<^bold>\<open>What the model leaves out of the code it covers.\<close> Debug logging, the lock and the
  condition variable around a step that is atomic here, waking the thread before its
  timer. A task that ends while an operation waits is taken off when the operation is
  done with waiting, not in the middle of it. Destroying objects of KJ or the RPC library
  is only logged where the code's own destructors act. The order in which a hash table is
  walked is a parameter.

  \<^bold>\<open>Not modelled.\<close> The forwarding functions at the end of
  \<^verbatim>\<open>rpc_bridge_runtime.cpp\<close> pass their arguments on to the method of the same name. The
  one-shot client and server at its start run an event loop of their own around the RPC
  library, with an exported function around each; they and the functions for tests
  (\<^verbatim>\<open>rpc_test_...\<close>) are left out, as are the branches for Windows.
  \<^verbatim>\<open>src/plugin/capnpc-lean4.c++\<close> is a code generator over the schema reader of the
  library. \<^verbatim>\<open>src/json-test.capnp.c++\<close> is generated. The Lean sources are not C++;
  of them only the types of the declared functions are used.
\<close>

end
